(* ===== verification/Prelude.thy ===== *)
theory Prelude
  imports Main "HOL-Library.Sublist"
begin

text \<open>
  Shared vocabulary of the development: the exceptions of
  \<^verbatim>\<open>src/anva/core/exceptions.py\<close> as one datatype, results as sums (\<open>Inl\<close> the raised
  exception, \<open>Inr\<close> the returned value), and the facts on results, sorted lists and
  bounded counting that several components use.
\<close>

section \<open>Exceptions and results\<close>

text \<open>
  One constructor per exception class the modelled code raises.  \<open>ValueError\<close> carries its
  message, because several components tell their failures apart by it only, and so does
  \<open>RequiredContextBudgetError\<close>; \<open>IngestionError\<close> carries its stable code; \<open>RateLimitExceeded\<close> its retry delay.
\<close>

datatype py_error =
    ValueError string
  | TenantBoundaryError
  | ResourceNotFoundError
  | AuthenticationError
  | InvalidStateTransitionError
  | OptimisticConcurrencyError
  | LeaseConflictError
  | IdempotencyConflictError
  | RateLimitExceededError int
  | IngestionError string
  | UnsafeSourceError string
  | IndexError
  | IntegrityError
  | DoesNotExist
  | TypeError
  | ContractValidationError
  | RequiredPolicyBudgetError
  | RequiredContextBudgetError string
  | RequiredSearchAnchorUnavailableError
  | RuntimeError
  | EvidenceUploadError string
  | EvidenceStorageError "nat list"

type_synonym 'a result = "py_error + 'a"

definition bind_res :: "'a result \<Rightarrow> ('a \<Rightarrow> 'b result) \<Rightarrow> 'b result" where
  "bind_res r f = (case r of Inl e \<Rightarrow> Inl e | Inr x \<Rightarrow> f x)"

definition guard_res :: "bool \<Rightarrow> py_error \<Rightarrow> unit result" where
  "guard_res ok e = (if ok then Inr () else Inl e)"

definition returns :: "'a result \<Rightarrow> bool" where
  "returns r \<longleftrightarrow> (case r of Inl _ \<Rightarrow> False | Inr _ \<Rightarrow> True)"

named_theorems res_simps \<open>evaluation of results, and what a result that returned says\<close>

lemma bind_res_simps [simp, res_simps]:
  "bind_res (Inl e) f = Inl e"
  "bind_res (Inr x) f = f x"
  by (simp_all add: bind_res_def)

lemma guard_res_simps [simp, res_simps]:
  "guard_res True e = Inr ()"
  "guard_res False e = Inl e"
  by (simp_all add: guard_res_def)

lemma returns_simps [simp, res_simps]:
  "returns (Inr x)" "\<not> returns (Inl e)"
  by (simp_all add: returns_def)

lemma bind_res_Inr [res_simps]: "bind_res r f = Inr y \<longleftrightarrow> (\<exists>x. r = Inr x \<and> f x = Inr y)"
  by (cases r) auto

lemma bind_res_Inl: "bind_res r f = Inl e \<longleftrightarrow> r = Inl e \<or> (\<exists>x. r = Inr x \<and> f x = Inl e)"
  by (cases r) auto

lemma guard_res_Inr [res_simps]: "guard_res ok e = Inr u \<longleftrightarrow> ok"
  by (cases ok) auto

lemma guard_res_Inl [res_simps]: "guard_res ok e = Inl e' \<longleftrightarrow> \<not> ok \<and> e' = e"
  by (cases ok) auto

lemma error_if_Inr: "(if c then Inl e else r) = Inr x \<longleftrightarrow> \<not> c \<and> r = Inr x"
  by simp

lemma none_error_Inr: "(case x of None \<Rightarrow> Inl e | Some r \<Rightarrow> f r) = Inr y \<longleftrightarrow> (\<exists>r. x = Some r \<and> f r = Inr y)"
  by (cases x) simp_all

lemma bind_guard_if: "bind_res (guard_res ok e) f = (if ok then f () else Inl e)"
  by simp

text \<open>A Python loop whose body may raise: a left fold that stops at the first exception.\<close>

fun fold_res :: "('a \<Rightarrow> 's \<Rightarrow> 's result) \<Rightarrow> 'a list \<Rightarrow> 's \<Rightarrow> 's result" where
  "fold_res f [] s = Inr s"
| "fold_res f (x # xs) s = bind_res (f x s) (fold_res f xs)"

text \<open>The same loop for its checks only.\<close>

fun each_res :: "('a \<Rightarrow> unit result) \<Rightarrow> 'a list \<Rightarrow> unit result" where
  "each_res f [] = Inr ()"
| "each_res f (x # xs) = bind_res (f x) (\<lambda>_. each_res f xs)"

text \<open>A list comprehension whose elements may raise.\<close>

fun map_res :: "('a \<Rightarrow> 'b result) \<Rightarrow> 'a list \<Rightarrow> 'b list result" where
  "map_res f [] = Inr []"
| "map_res f (x # xs) = bind_res (f x) (\<lambda>y. bind_res (map_res f xs) (\<lambda>ys. Inr (y # ys)))"

lemma map_res_Inr: "map_res f xs = Inr ys \<longleftrightarrow> list_all2 (\<lambda>x y. f x = Inr y) xs ys"
  by (induction xs arbitrary: ys) (auto simp: bind_res_Inr list_all2_Cons1)

lemma map_res_returns: "(\<And>x. x \<in> set xs \<Longrightarrow> f x = Inr (g x)) \<Longrightarrow> map_res f xs = Inr (map g xs)"
  by (induction xs) auto

lemma each_res_Inr [res_simps]: "each_res f xs = Inr u \<longleftrightarrow> (\<forall>x\<in>set xs. f x = Inr ())"
  by (induction xs) (auto simp: bind_res_Inr)

lemma fold_res_invariant:
  assumes "fold_res f xs s = Inr t" and "P s"
    and "\<And>x s t. x \<in> set xs \<Longrightarrow> P s \<Longrightarrow> f x s = Inr t \<Longrightarrow> P t"
  shows "P t"
  using assms
proof (induction xs arbitrary: s)
  case Nil
  then show ?case by simp
next
  case (Cons x xs)
  from Cons.prems(1) obtain s' where s': "f x s = Inr s'" "fold_res f xs s' = Inr t"
    by (auto simp: bind_res_Inr)
  from Cons.prems(3) [of x s s'] Cons.prems(2) s'(1) have "P s'" by simp
  then show ?case using Cons.IH [OF s'(2)] Cons.prems(3) by auto
qed

lemma fold_res_append [simp]:
  "fold_res f (xs @ ys) s = bind_res (fold_res f xs s) (fold_res f ys)"
  by (induction xs arbitrary: s) (auto simp: bind_res_def split: sum.splits)

section \<open>Lists, sorting and selection\<close>

text \<open>
  \<open>first_by\<close> is Django's \<^verbatim>\<open>order_by(...).first()\<close>: the earliest row with the least key
  (\<open>sort_key\<close> is stable, so rows that tie keep the order of the table).
\<close>

definition first_by :: "('a \<Rightarrow> 'k::linorder) \<Rightarrow> 'a list \<Rightarrow> 'a option" where
  "first_by key xs = (case sort_key key xs of [] \<Rightarrow> None | x # _ \<Rightarrow> Some x)"

lemma first_by_None [simp]: "first_by key xs = None \<longleftrightarrow> xs = []"
proof -
  have "sort_key key xs = [] \<longleftrightarrow> xs = []"
    by (metis length_0_conv length_sort)
  then show ?thesis by (auto simp: first_by_def split: list.splits)
qed

lemma first_by_Some:
  assumes "first_by key xs = Some x"
  shows "x \<in> set xs" and "\<And>y. y \<in> set xs \<Longrightarrow> key x \<le> key y"
proof -
  from assms obtain zs where zs: "sort_key key xs = x # zs"
    by (auto simp: first_by_def split: list.splits)
  have set_eq: "set xs = insert x (set zs)"
    using set_sort [of key xs] zs by simp
  then show "x \<in> set xs" by simp
  have "sorted (map key (x # zs))"
    using sorted_sort_key [of key xs] zs by simp
  then show "\<And>y. y \<in> set xs \<Longrightarrow> key x \<le> key y"
    using set_eq by auto
qed

lemma sum_list_sort_key:
  fixes f :: "'a \<Rightarrow> 'b::comm_monoid_add"
  shows "sum_list (map f (sort_key k xs)) = sum_list (map f xs)"
proof -
  have "sum_list (map f (insort_key k x xs)) = f x + sum_list (map f xs)" for x xs
    by (induction xs) (simp_all add: ac_simps)
  then show ?thesis by (induction xs) simp_all
qed

text \<open>\<open>sorted(set(xs))\<close> of the source.\<close>

definition sorted_set :: "'a::linorder list \<Rightarrow> 'a list" where
  "sorted_set xs = sort (remdups xs)"

lemma set_sorted_set [simp]: "set (sorted_set xs) = set xs"
  by (simp add: sorted_set_def)

lemma sorted_sorted_set [simp]: "sorted (sorted_set xs)"
  by (simp add: sorted_set_def)

lemma distinct_sorted_set [simp]: "distinct (sorted_set xs)"
  by (simp add: sorted_set_def)

lemma sorted_set_cong: "set xs = set ys \<Longrightarrow> sorted_set xs = sorted_set ys"
  by (rule sorted_distinct_set_unique) simp_all

lemma sorted_set_Nil [simp]: "sorted_set [] = []"
  by (simp add: sorted_set_def)

text \<open>Replacing the rows of a table that satisfy a condition.\<close>

definition update_where :: "('a \<Rightarrow> bool) \<Rightarrow> ('a \<Rightarrow> 'a) \<Rightarrow> 'a list \<Rightarrow> 'a list" where
  "update_where p f xs = map (\<lambda>x. if p x then f x else x) xs"

lemma length_update_where [simp]: "length (update_where p f xs) = length xs"
  by (simp add: update_where_def)

lemma set_update_where: "set (update_where p f xs) = {if p x then f x else x | x. x \<in> set xs}"
  by (auto simp: update_where_def)

lemma map_update_where_same:
  "(\<And>x. p x \<Longrightarrow> g (f x) = g x) \<Longrightarrow> map g (update_where p f xs) = map g xs"
  by (auto simp: update_where_def)

text \<open>
  \<open>find_by\<close> is Django's \<^verbatim>\<open>filter(...).first()\<close> on a key that is unique in the table.
\<close>

definition find_by :: "('a \<Rightarrow> bool) \<Rightarrow> 'a list \<Rightarrow> 'a option" where
  "find_by p xs = List.find p xs"

lemma find_by_Some_iff: "find_by p xs = Some x \<Longrightarrow> x \<in> set xs \<and> p x"
  by (auto simp: find_by_def find_Some_iff)

lemma find_by_None [simp]: "find_by p xs = None \<longleftrightarrow> (\<forall>x\<in>set xs. \<not> p x)"
  by (auto simp: find_by_def find_None_iff)

lemma find_by_simps [simp]:
  "find_by p [] = None"
  "find_by p (x # xs) = (if p x then Some x else find_by p xs)"
  by (simp_all add: find_by_def)

lemma find_by_unique:
  assumes "distinct (map key xs)" and "x \<in> set xs" and "p x"
    and "\<And>y. y \<in> set xs \<Longrightarrow> p y \<Longrightarrow> key y = key x"
  shows "find_by p xs = Some x"
proof -
  have "find_by p xs \<noteq> None" using assms(2,3) by auto
  then obtain y where y: "find_by p xs = Some y" by blast
  then have "y \<in> set xs" "p y" by (auto dest: find_by_Some_iff)
  then have "key y = key x" by (rule assms(4))
  with assms(1,2) \<open>y \<in> set xs\<close> have "y = x" by (auto simp: distinct_map inj_on_def)
  with y show ?thesis by simp
qed

end
