(* ===== verification/PyText.thy ===== *)
theory PyText
  imports Prelude
begin

text \<open>
  Python \<^verbatim>\<open>str\<close> values and the methods of \<^verbatim>\<open>str\<close> the modelled code calls.  A string is the
  list of its Unicode code points, so \<open>length\<close> counts what Python's \<^verbatim>\<open>len\<close> counts.
\<close>

type_synonym pystr = "nat list"

text \<open>An ASCII literal of the source, as code points.\<close>

definition lit :: "string \<Rightarrow> pystr" where
  "lit s = map of_char s"

lemma lit_simps [simp]:
  "lit [] = []"
  "lit (c # cs) = of_char c # lit cs"
  by (simp_all add: lit_def)

abbreviation startswith :: "pystr \<Rightarrow> pystr \<Rightarrow> bool" where
  "startswith s p \<equiv> prefix p s"

abbreviation endswith :: "pystr \<Rightarrow> pystr \<Rightarrow> bool" where
  "endswith s p \<equiv> suffix p s"

definition removeprefix :: "pystr \<Rightarrow> pystr \<Rightarrow> pystr" where
  "removeprefix s p = (if prefix p s then drop (length p) s else s)"

definition removesuffix :: "pystr \<Rightarrow> pystr \<Rightarrow> pystr" where
  "removesuffix s p = (if p \<noteq> [] \<and> suffix p s then take (length s - length p) s else s)"

text \<open>\<^verbatim>\<open>t in s\<close> for strings.\<close>

fun contains :: "pystr \<Rightarrow> pystr \<Rightarrow> bool" where
  "contains [] t = (t = [])"
| "contains (c # cs) t = (prefix t (c # cs) \<or> contains cs t)"

lemma contains_iff: "contains s t \<longleftrightarrow> (\<exists>a b. s = a @ t @ b)"
proof (induction s)
  case Nil
  then show ?case by auto
next
  case (Cons c cs)
  show ?case
  proof
    assume "contains (c # cs) t"
    then consider "prefix t (c # cs)" | "contains cs t" by auto
    then show "\<exists>a b. c # cs = a @ t @ b"
    proof cases
      case 1
      then show ?thesis by (metis append_Nil prefixE)
    next
      case 2
      with Cons.IH obtain a b where "cs = a @ t @ b" by blast
      then show ?thesis by (metis append_Cons)
    qed
  next
    assume "\<exists>a b. c # cs = a @ t @ b"
    then obtain a b where ab: "c # cs = a @ t @ b" by blast
    show "contains (c # cs) t"
    proof (cases a)
      case Nil
      with ab have "prefix t (c # cs)" by simp
      then show ?thesis by simp
    next
      case (Cons d ds)
      with ab have "cs = ds @ t @ b" by simp
      then have "contains cs t" using Cons.IH by blast
      then show ?thesis by simp
    qed
  qed
qed

text \<open>\<^verbatim>\<open>s.split(c)\<close> for a one-character separator, and its inverse \<^verbatim>\<open>join\<close>.\<close>

fun split_on :: "nat \<Rightarrow> pystr \<Rightarrow> pystr list" where
  "split_on c [] = [[]]"
| "split_on c (x # xs) =
     (if x = c then [] # split_on c xs
      else (case split_on c xs of [] \<Rightarrow> [[x]] | y # ys \<Rightarrow> (x # y) # ys))"

fun join_on :: "nat \<Rightarrow> pystr list \<Rightarrow> pystr" where
  "join_on c [] = []"
| "join_on c [x] = x"
| "join_on c (x # y # zs) = x @ c # join_on c (y # zs)"

lemma split_on_nonempty [simp]: "split_on c s \<noteq> []"
  by (induction s) (auto split: list.splits)

lemma join_on_Cons: "ys \<noteq> [] \<Longrightarrow> join_on c (x # ys) = x @ c # join_on c ys"
  by (cases ys) auto

lemma join_split_on [simp]: "join_on c (split_on c s) = s"
proof (induction s)
  case Nil
  then show ?case by simp
next
  case (Cons x xs)
  obtain y ys where y: "split_on c xs = y # ys"
    using split_on_nonempty by (meson neq_Nil_conv)
  have "join_on c ((x # y) # ys) = x # join_on c (y # ys)"
    by (cases ys) auto
  with Cons y show ?case by (auto simp: join_on_Cons)
qed

lemma split_on_no_sep: "t \<in> set (split_on c s) \<Longrightarrow> c \<notin> set t"
  by (induction s arbitrary: t) (auto split: list.splits if_splits)

lemma split_on_chars: "t \<in> set (split_on c s) \<Longrightarrow> set t \<subseteq> set s"
  by (induction s arbitrary: t) (fastforce split: list.splits if_splits)+

lemma split_on_single: "c \<notin> set s \<Longrightarrow> split_on c s = [s]"
  by (induction s) auto

lemma split_on_append:
  "c \<notin> set x \<Longrightarrow> split_on c (x @ c # s) = x # split_on c s"
  by (induction x) auto

lemma split_join_on:
  "xs \<noteq> [] \<Longrightarrow> (\<And>x. x \<in> set xs \<Longrightarrow> c \<notin> set x) \<Longrightarrow> split_on c (join_on c xs) = xs"
  by (induction c xs rule: join_on.induct) (auto simp: split_on_single split_on_append)

text \<open>
  White space as \<^verbatim>\<open>str.isspace\<close> knows it, and \<^verbatim>\<open>str.strip\<close>.
\<close>

definition is_space :: "nat \<Rightarrow> bool" where
  "is_space c \<longleftrightarrow>
     (9 \<le> c \<and> c \<le> 13) \<or> (28 \<le> c \<and> c \<le> 32) \<or> c = 133 \<or> c = 160 \<or> c = 5760 \<or>
     (8192 \<le> c \<and> c \<le> 8202) \<or> c = 8232 \<or> c = 8233 \<or> c = 8239 \<or> c = 8287 \<or> c = 12288"

definition strip :: "pystr \<Rightarrow> pystr" where
  "strip s = rev (dropWhile is_space (rev (dropWhile is_space s)))"

lemma strip_empty_iff: "strip s = [] \<longleftrightarrow> (\<forall>c\<in>set s. is_space c)"
proof
  assume "strip s = []"
  then have "\<forall>c\<in>set (dropWhile is_space s). is_space c"
    by (simp add: strip_def dropWhile_eq_Nil_conv)
  then have "dropWhile is_space s = []"
    by (metis (full_types) dropWhile_eq_Nil_conv hd_dropWhile hd_in_set)
  then show "\<forall>c\<in>set s. is_space c" by (simp add: dropWhile_eq_Nil_conv)
next
  assume "\<forall>c\<in>set s. is_space c"
  then show "strip s = []" by (simp add: strip_def dropWhile_eq_Nil_conv[THEN iffD2])
qed

text \<open>
  \<^verbatim>\<open>str.splitlines(keepends=True)\<close>: Python breaks lines at more characters than the newline;
  a carriage return followed by a newline is one break.
\<close>

definition is_line_break :: "nat \<Rightarrow> bool" where
  "is_line_break c \<longleftrightarrow>
     (10 \<le> c \<and> c \<le> 13) \<or> (28 \<le> c \<and> c \<le> 30) \<or> c = 133 \<or> c = 8232 \<or> c = 8233"

fun splitlines_keep :: "pystr \<Rightarrow> pystr list" where
  "splitlines_keep [] = []"
| "splitlines_keep [c] = [[c]]"
| "splitlines_keep (c # d # cs) =
     (if c = 13 \<and> d = 10 then [13, 10] # splitlines_keep cs
      else if is_line_break c then [c] # splitlines_keep (d # cs)
      else (case splitlines_keep (d # cs) of [] \<Rightarrow> [[c]] | l # ls \<Rightarrow> (c # l) # ls))"

lemma splitlines_keep_Cons: "splitlines_keep (c # cs) \<noteq> []"
  by (cases "c # cs" rule: splitlines_keep.cases) (auto split: list.splits)

lemma concat_splitlines [simp]: "concat (splitlines_keep s) = s"
  by (induction s rule: splitlines_keep.induct)
    (auto split: list.splits simp: splitlines_keep_Cons)

lemma splitlines_nonempty: "l \<in> set (splitlines_keep s) \<Longrightarrow> l \<noteq> []"
  by (induction s arbitrary: l rule: splitlines_keep.induct)
    (auto split: list.splits if_splits)

text \<open>The number of bytes \<^verbatim>\<open>str.encode()\<close> produces, and the surrogates it refuses.\<close>

definition is_surrogate :: "nat \<Rightarrow> bool" where
  "is_surrogate c \<longleftrightarrow> 55296 \<le> c \<and> c \<le> 57343"

definition utf8_width :: "nat \<Rightarrow> nat" where
  "utf8_width c = (if c < 128 then 1 else if c < 2048 then 2 else if c < 65536 then 3 else 4)"

definition encoded_length :: "pystr \<Rightarrow> nat option" where
  "encoded_length s =
     (if list_ex is_surrogate s then None else Some (sum_list (map utf8_width s)))"

lemma utf8_width_pos: "1 \<le> utf8_width c"
  by (simp add: utf8_width_def)

lemma encoded_length_ge: "encoded_length s = Some n \<Longrightarrow> length s \<le> n"
proof -
  have "length s \<le> sum_list (map utf8_width s)"
  proof (induction s)
    case Nil
    then show ?case by simp
  next
    case (Cons c cs)
    then show ?case using utf8_width_pos [of c] by simp
  qed
  then show "encoded_length s = Some n \<Longrightarrow> length s \<le> n"
    by (auto simp: encoded_length_def split: if_splits)
qed

text \<open>
  The decimal value of a run of ASCII digits (\<^verbatim>\<open>int(...)\<close> on what \<^verbatim>\<open>[0-9]+\<close> matched).
\<close>

definition is_digit :: "nat \<Rightarrow> bool" where
  "is_digit c \<longleftrightarrow> 48 \<le> c \<and> c \<le> 57"

definition decimal :: "pystr \<Rightarrow> int" where
  "decimal s = foldl (\<lambda>n c. 10 * n + (int c - 48)) 0 s"

lemma decimal_snoc: "decimal (s @ [c]) = 10 * decimal s + (int c - 48)"
  by (simp add: decimal_def)

lemma decimal_nonneg: "list_all is_digit s \<Longrightarrow> 0 \<le> decimal s"
  by (induction s rule: rev_induct) (auto simp: decimal_snoc is_digit_def, simp add: decimal_def)

lemma decimal_bound: "list_all is_digit s \<Longrightarrow> decimal s < 10 ^ length s"
proof (induction s rule: rev_induct)
  case Nil
  then show ?case by (simp add: decimal_def)
next
  case (snoc c s)
  then have "decimal s + 1 \<le> 10 ^ length s" and "int c - 48 \<le> 9"
    by (auto simp: is_digit_def)
  then show ?case by (simp add: decimal_snoc)
qed

end
