(* ===== verification/Regex.thy ===== *)
theory Regex
  imports PyText
begin

text \<open>
  Python's backtracking \<^verbatim>\<open>re\<close> as list-of-successes parsers: a pattern maps the rest of the
  subject to all ways of matching a prefix of it, in the order the \<^verbatim>\<open>re\<close> engine tries them
  (greedy repetition: longest first), each with the groups it captured and what is left.
  \<open>fullmatch\<close> is the first of them that leaves nothing.
\<close>

type_synonym 'a rx = "pystr \<Rightarrow> ('a \<times> pystr) list"

definition rx_ret :: "'a \<Rightarrow> 'a rx" where
  "rx_ret a s = [(a, s)]"

definition rx_bind :: "'a rx \<Rightarrow> ('a \<Rightarrow> 'b rx) \<Rightarrow> 'b rx" where
  "rx_bind r f s = concat (map (\<lambda>(a, t). f a t) (r s))"

definition rx_then :: "'a rx \<Rightarrow> 'b rx \<Rightarrow> 'b rx" where
  "rx_then r q = rx_bind r (\<lambda>_. q)"

definition rx_alt :: "'a rx \<Rightarrow> 'a rx \<Rightarrow> 'a rx" where
  "rx_alt r q s = r s @ q s"

text \<open>A literal, and \<^verbatim>\<open>(?:r)?\<close>, which tries \<^verbatim>\<open>r\<close> first.\<close>

definition rx_lit :: "pystr \<Rightarrow> unit rx" where
  "rx_lit p s = (if prefix p s then [((), drop (length p) s)] else [])"

definition rx_opt :: "'a rx \<Rightarrow> 'a option rx" where
  "rx_opt r s = map (\<lambda>(a, t). (Some a, t)) (r s) @ [(None, s)]"

text \<open>
  \<^verbatim>\<open>[class]{lo,hi}\<close> (\<open>hi = None\<close>: no upper bound), capturing the run, longest first.
\<close>

definition run_limit :: "(nat \<Rightarrow> bool) \<Rightarrow> nat option \<Rightarrow> pystr \<Rightarrow> nat" where
  "run_limit P hi s = (case hi of None \<Rightarrow> length (takeWhile P s)
                       | Some h \<Rightarrow> min h (length (takeWhile P s)))"

definition rx_run :: "(nat \<Rightarrow> bool) \<Rightarrow> nat \<Rightarrow> nat option \<Rightarrow> pystr rx" where
  "rx_run P lo hi s = map (\<lambda>n. (take n s, drop n s)) (rev [lo..<Suc (run_limit P hi s)])"

definition rx_fullmatch :: "'a rx \<Rightarrow> pystr \<Rightarrow> 'a option" where
  "rx_fullmatch r s = (case filter (\<lambda>(_, t). t = []) (r s) of [] \<Rightarrow> None | (a, _) # _ \<Rightarrow> Some a)"

text \<open>What a successful match says about the subject: one rule per construct.\<close>

named_theorems rx_elims \<open>what the successes of each pattern construct look like\<close>

lemma rx_ret_mem [rx_elims]: "(a, t) \<in> set (rx_ret b s) \<longleftrightarrow> a = b \<and> t = s"
  by (auto simp: rx_ret_def)

lemma rx_bind_mem [rx_elims]:
  "(b, u) \<in> set (rx_bind r f s) \<longleftrightarrow> (\<exists>a t. (a, t) \<in> set (r s) \<and> (b, u) \<in> set (f a t))"
  by (force simp: rx_bind_def)

lemma rx_then_mem [rx_elims]:
  "(b, u) \<in> set (rx_then r q s) \<longleftrightarrow> (\<exists>a t. (a, t) \<in> set (r s) \<and> (b, u) \<in> set (q t))"
  by (simp add: rx_then_def rx_bind_mem)

lemma rx_alt_mem [rx_elims]:
  "(a, t) \<in> set (rx_alt r q s) \<longleftrightarrow> (a, t) \<in> set (r s) \<or> (a, t) \<in> set (q s)"
  by (simp add: rx_alt_def)

lemma rx_lit_mem [rx_elims]: "(a, t) \<in> set (rx_lit p s) \<longleftrightarrow> s = p @ t"
  by (auto simp: rx_lit_def prefix_def)

lemma rx_opt_mem [rx_elims]:
  "(a, t) \<in> set (rx_opt r s) \<longleftrightarrow>
     (a = None \<and> t = s) \<or> (\<exists>b. a = Some b \<and> (b, t) \<in> set (r s))"
  by (auto simp: rx_opt_def)

lemma takeWhile_take: "n \<le> length (takeWhile P s) \<Longrightarrow> list_all P (take n s)"
  by (induction s arbitrary: n) (auto simp: take_Cons split: nat.splits if_splits)

lemma rx_run_mem [rx_elims]:
  "(a, t) \<in> set (rx_run P lo hi s) \<longleftrightarrow>
     s = a @ t \<and> list_all P a \<and> lo \<le> length a \<and> (\<forall>h. hi = Some h \<longrightarrow> length a \<le> h)"
proof
  assume "(a, t) \<in> set (rx_run P lo hi s)"
  then obtain n where n: "lo \<le> n" "n \<le> run_limit P hi s" "a = take n s" "t = drop n s"
    by (auto simp: rx_run_def less_Suc_eq_le)
  then have "n \<le> length (takeWhile P s)" and hi: "\<forall>h. hi = Some h \<longrightarrow> n \<le> h"
    by (auto simp: run_limit_def split: option.splits)
  then have "list_all P (take n s)" and "n \<le> length s"
    using takeWhile_take length_takeWhile_le le_trans by blast+
  with n hi show "s = a @ t \<and> list_all P a \<and> lo \<le> length a \<and> (\<forall>h. hi = Some h \<longrightarrow> length a \<le> h)"
    by (auto simp: min_def)
next
  assume r: "s = a @ t \<and> list_all P a \<and> lo \<le> length a \<and> (\<forall>h. hi = Some h \<longrightarrow> length a \<le> h)"
  then have "takeWhile P s = a @ takeWhile P t"
    by (simp add: takeWhile_append list_all_iff)
  then have "length a \<le> length (takeWhile P s)" by simp
  with r have "length a \<le> run_limit P hi s"
    by (auto simp: run_limit_def split: option.splits)
  with r show "(a, t) \<in> set (rx_run P lo hi s)"
    by (auto simp: rx_run_def image_iff intro!: bexI [of _ "length a"])
qed

lemma rx_fullmatch_Some: "rx_fullmatch r s = Some a \<Longrightarrow> (a, []) \<in> set (r s)"
proof -
  assume "rx_fullmatch r s = Some a"
  then obtain t zs where "filter (\<lambda>(_, t). t = []) (r s) = (a, t) # zs"
    by (auto simp: rx_fullmatch_def split: list.splits)
  then have "(a, t) \<in> set (filter (\<lambda>(_, t). t = []) (r s))" by simp
  then show ?thesis by auto
qed

lemma rx_fullmatch_None: "rx_fullmatch r s = None \<longleftrightarrow> (\<forall>a. (a, []) \<notin> set (r s))"
proof -
  have "rx_fullmatch r s = None \<longleftrightarrow> filter (\<lambda>(_, t). t = []) (r s) = []"
    by (auto simp: rx_fullmatch_def split: list.splits)
  then show ?thesis by (auto simp: filter_empty_conv)
qed

end
