(* ===== verification/HostileInputs.thy ===== *)
theory HostileInputs
  imports PyText
begin

text \<open>
  \<^verbatim>\<open>src/anva/core/services/hostile_inputs.py\<close>: commit identifiers, repository-relative paths
  and the secret screen.  \<^verbatim>\<open>redact_text\<close> of \<^verbatim>\<open>core/logging.py\<close>, whose result depends on the
  configured secrets of the deployment, is the argument \<open>redact\<close>.
\<close>

section \<open>Full commit identifiers\<close>

definition is_lower_hex :: "nat \<Rightarrow> bool" where
  "is_lower_hex c \<longleftrightarrow> (48 \<le> c \<and> c \<le> 57) \<or> (97 \<le> c \<and> c \<le> 102)"

definition validate_full_commit :: "pystr \<Rightarrow> unit result" where
  "validate_full_commit value =
     (if length value = 40 \<and> list_all is_lower_hex value then Inr ()
      else Inl (ValueError ''commit_sha must be a full 40-character lowercase hexadecimal SHA''))"

section \<open>PurePosixPath\<close>

text \<open>
  The three fields of \<^verbatim>\<open>pathlib.PurePosixPath\<close> the code reads: the root (empty, one slash, or
  exactly two leading slashes kept apart), the components (empty ones and \<^verbatim>\<open>.\<close> dropped), and the
  string form.
\<close>

definition path_root :: "pystr \<Rightarrow> pystr" where
  "path_root s =
     (case s of
        [] \<Rightarrow> []
      | a # r \<Rightarrow>
          if a \<noteq> 47 then []
          else (case r of
                  [] \<Rightarrow> [47]
                | b # r' \<Rightarrow> if b \<noteq> 47 \<or> (case r' of [] \<Rightarrow> False | c # _ \<Rightarrow> c = 47)
                            then [47] else [47, 47]))"

definition path_tail :: "pystr \<Rightarrow> pystr list" where
  "path_tail s =
     filter (\<lambda>x. x \<noteq> [] \<and> x \<noteq> [46]) (split_on 47 (drop (length (path_root s)) s))"

definition path_parts :: "pystr \<Rightarrow> pystr list" where
  "path_parts s = (if path_root s = [] then path_tail s else path_root s # path_tail s)"

definition path_is_absolute :: "pystr \<Rightarrow> bool" where
  "path_is_absolute s \<longleftrightarrow> path_root s \<noteq> []"

definition path_str :: "pystr \<Rightarrow> pystr" where
  "path_str s =
     (if path_root s = [] \<and> path_tail s = [] then [46] else path_root s @ join_on 47 (path_tail s))"

section \<open>Relative artifact paths\<close>

definition validate_relative_artifact_path :: "pystr \<Rightarrow> unit result" where
  "validate_relative_artifact_path value =
     (if value = [] then Inr ()
      else if length value > 2000 then Inl (ValueError ''Artifact reference is too long'')
      else if 92 \<in> set value \<or> 0 \<in> set value \<or> list_ex (\<lambda>c. c < 32) value
      then Inl (ValueError ''Artifact reference contains unsafe characters'')
      else if path_is_absolute value \<or> lit ''..'' \<in> set (path_parts value)
              \<or> lit ''.'' \<in> set (path_parts value)
      then Inl (ValueError ''Artifact reference must be a normalized relative POSIX path'')
      else if path_str value \<noteq> value
      then Inl (ValueError ''Artifact reference must be normalized'')
      else Inr ())"

text \<open>
  The specification of the screen: a nonempty accepted reference, other than the single dot, is
  exactly a slash-separated list of ordinary names.
\<close>

definition safe_segment :: "pystr \<Rightarrow> bool" where
  "safe_segment x \<longleftrightarrow>
     x \<noteq> [] \<and> x \<noteq> lit ''.'' \<and> x \<noteq> lit ''..'' \<and> 47 \<notin> set x \<and> 92 \<notin> set x \<and> (\<forall>c\<in>set x. 32 \<le> c)"

definition safe_relative_path :: "pystr \<Rightarrow> bool" where
  "safe_relative_path s \<longleftrightarrow>
     length s \<le> 2000 \<and> (\<exists>xs. xs \<noteq> [] \<and> (\<forall>x\<in>set xs. safe_segment x) \<and> s = join_on 47 xs)"

lemma path_root_cases: "path_root s = [] \<longleftrightarrow> (\<forall>r. s \<noteq> 47 # r)"
  by (cases s) (auto simp: path_root_def split: list.splits)

lemma set_join_on: "set (join_on c xs) \<subseteq> insert c (\<Union>x\<in>set xs. set x)"
  by (induction c xs rule: join_on.induct) auto

lemma set_join_on_sup: "x \<in> set xs \<Longrightarrow> set x \<subseteq> set (join_on c xs)"
  by (induction c xs rule: join_on.induct) auto

lemma join_safe_root:
  assumes "xs \<noteq> []" "\<forall>x\<in>set xs. safe_segment x"
  shows "path_root (join_on 47 xs) = []"
proof -
  obtain y ys where xs: "xs = y # ys" using assms(1) by (cases xs) auto
  with assms(2) obtain c cs where y: "y = c # cs" "c \<noteq> 47"
    by (cases y) (auto simp: safe_segment_def)
  show ?thesis using y xs by (cases ys) (auto simp: path_root_cases)
qed

lemma join_safe_tail:
  assumes "xs \<noteq> []" "\<forall>x\<in>set xs. safe_segment x"
  shows "path_tail (join_on 47 xs) = xs"
proof -
  have "split_on 47 (join_on 47 xs) = xs"
    using assms by (intro split_join_on) (auto simp: safe_segment_def)
  moreover have "filter (\<lambda>x. x \<noteq> [] \<and> x \<noteq> [46]) xs = xs"
    using assms(2) by (auto simp: filter_id_conv safe_segment_def)
  ultimately show ?thesis using join_safe_root [OF assms] by (simp add: path_tail_def)
qed

lemma validate_path_sound:
  assumes "validate_relative_artifact_path s = Inr ()" and "s \<noteq> []" and "s \<noteq> lit ''.''"
  shows "safe_relative_path s"
proof -
  have len: "length s \<le> 2000" and chars: "92 \<notin> set s" "\<forall>c\<in>set s. 32 \<le> c"
    and root: "path_root s = []" and parts: "lit ''..'' \<notin> set (path_parts s)"
    and str: "path_str s = s"
    using assms(1,2)
    by (auto simp: validate_relative_artifact_path_def path_is_absolute_def list_ex_iff not_less
        split: if_splits)
  have tail: "path_tail s \<noteq> []" "join_on 47 (path_tail s) = s"
    using str root assms(3) by (auto simp: path_str_def split: if_splits)
  have "safe_segment x" if x: "x \<in> set (path_tail s)" for x
  proof -
    have "x \<in> set (split_on 47 s)" "x \<noteq> []" "x \<noteq> [46]"
      using x root by (auto simp: path_tail_def)
    moreover have "x \<noteq> lit ''..''"
      using x parts root by (auto simp: path_parts_def)
    moreover have "set x \<subseteq> set s"
      using set_join_on_sup [OF x, of 47] tail(2) by simp
    ultimately show ?thesis
      using chars split_on_no_sep by (auto simp: safe_segment_def)
  qed
  with tail len show ?thesis by (auto simp: safe_relative_path_def)
qed

lemma validate_path_complete:
  assumes "safe_relative_path s"
  shows "validate_relative_artifact_path s = Inr ()" and "s \<noteq> []" and "s \<noteq> lit ''.''"
proof -
  from assms obtain xs where len: "length s \<le> 2000" and xs: "xs \<noteq> []"
    "\<forall>x\<in>set xs. safe_segment x" and s: "s = join_on 47 xs"
    by (auto simp: safe_relative_path_def)
  have root: "path_root s = []" using join_safe_root [OF xs] s by simp
  have tail: "path_tail s = xs" using join_safe_tail [OF xs] s by simp
  obtain y ys where y: "xs = y # ys" using xs(1) by (cases xs) auto
  have "y \<noteq> []" "y \<noteq> lit ''.''" using xs(2) y by (auto simp: safe_segment_def)
  then show ne: "s \<noteq> []" using s y by (cases ys) auto
  have "set s \<subseteq> insert 47 (\<Union>x\<in>set xs. set x)" using s set_join_on by blast
  then have chars: "92 \<notin> set s" "\<forall>c\<in>set s. 32 \<le> c"
    using xs(2) by (fastforce simp: safe_segment_def)+
  have dots: "lit ''..'' \<notin> set xs" "lit ''.'' \<notin> set xs"
    using xs(2) by (auto simp: safe_segment_def)
  show "validate_relative_artifact_path s = Inr ()"
    using len chars root tail xs(1) s dots ne
    by (auto simp: validate_relative_artifact_path_def path_is_absolute_def path_parts_def
        path_str_def list_ex_iff)
  show "s \<noteq> lit ''.''"
  proof
    assume "s = lit ''.''"
    then have "path_tail s = []" by (simp add: path_tail_def path_root_def)
    with tail xs(1) show False by simp
  qed
qed

end
