(* ===== verification/DiffParser.thy ===== *)
theory DiffParser
  imports Regex HostileInputs "HOL-Library.List_Lexorder"
begin

text \<open>
  \<^verbatim>\<open>src/anva/core/services/diffs.py\<close>: the strict unified-diff parser.  The mutable locals of
  \<^verbatim>\<open>parse_unified_diff\<close> are the record \<open>diff_state\<close>; each branch of its loop is one definition
  that takes the line (and, for a hunk, the lines that follow it) and returns the new locals;
  \<open>parse_loop\<close> is the \<^verbatim>\<open>while index < len(lines)\<close> loop over the lines still to be read.
  \<open>redact\<close> is \<^verbatim>\<open>redact_text\<close> of \<^verbatim>\<open>core/logging.py\<close> for the deployment's configured secrets.
\<close>

section \<open>Limits, patterns and parsed data\<close>

definition MAX_DIFF_BYTES :: nat where "MAX_DIFF_BYTES = 1000000"
definition MAX_DIFF_LINES :: nat where "MAX_DIFF_LINES = 30000"
definition MAX_CHANGED_PATHS :: nat where "MAX_CHANGED_PATHS = 500"
definition MAX_CHUNKS :: nat where "MAX_CHUNKS = 2000"
definition MAX_CHUNK_CHARS :: nat where "MAX_CHUNK_CHARS = 100000"

definition is_dot :: "nat \<Rightarrow> bool" where
  "is_dot c \<longleftrightarrow> c \<noteq> 10"

definition is_octal :: "nat \<Rightarrow> bool" where
  "is_octal c \<longleftrightarrow> 48 \<le> c \<and> c \<le> 55"

definition FILE_HEADER :: "(pystr \<times> pystr) rx" where
  "FILE_HEADER =
     rx_then (rx_lit (lit ''diff --git a/''))
       (rx_bind (rx_run is_dot 1 None) (\<lambda>a.
          rx_then (rx_lit (lit '' b/''))
            (rx_bind (rx_run is_dot 1 None) (\<lambda>b. rx_then (rx_lit [10]) (rx_ret (a, b))))))"

definition rx_count :: "pystr option rx" where
  "rx_count = rx_opt (rx_then (rx_lit (lit '','')) (rx_run is_digit 1 (Some 10)))"

definition HUNK_HEADER :: "(pystr \<times> pystr option \<times> pystr \<times> pystr option) rx" where
  "HUNK_HEADER =
     rx_then (rx_lit (lit ''@@ -''))
       (rx_bind (rx_run is_digit 1 (Some 10)) (\<lambda>os. rx_bind rx_count (\<lambda>oc.
          rx_then (rx_lit (lit '' +''))
            (rx_bind (rx_run is_digit 1 (Some 10)) (\<lambda>ns. rx_bind rx_count (\<lambda>nc.
               rx_then (rx_lit (lit '' @@''))
                 (rx_then (rx_opt (rx_then (rx_lit (lit '' '')) (rx_run is_dot 0 None)))
                    (rx_then (rx_lit [10]) (rx_ret (os, oc, ns, nc))))))))))"

definition INDEX_METADATA :: "unit rx" where
  "INDEX_METADATA =
     rx_then (rx_lit (lit ''index ''))
       (rx_then (rx_run is_lower_hex 7 (Some 64))
         (rx_then (rx_lit (lit ''..''))
           (rx_then (rx_run is_lower_hex 7 (Some 64))
             (rx_then (rx_opt (rx_then (rx_lit (lit '' '')) (rx_run is_octal 6 (Some 6))))
               (rx_lit [10])))))"

definition FILE_MODE_METADATA :: "unit rx" where
  "FILE_MODE_METADATA =
     rx_then (rx_alt (rx_lit (lit ''new file mode'')) (rx_lit (lit ''deleted file mode'')))
       (rx_then (rx_lit (lit '' '')) (rx_then (rx_run is_octal 6 (Some 6)) (rx_lit [10])))"

definition MODE_METADATA :: "unit rx" where
  "MODE_METADATA =
     rx_then (rx_alt (rx_lit (lit ''old mode'')) (rx_lit (lit ''new mode'')))
       (rx_then (rx_lit (lit '' '')) (rx_then (rx_run is_octal 6 (Some 6)) (rx_lit [10])))"

definition SIMILARITY_METADATA :: "unit rx" where
  "SIMILARITY_METADATA =
     rx_then (rx_opt (rx_lit (lit ''dis'')))
       (rx_then (rx_lit (lit ''similarity index ''))
         (rx_then (rx_alt (rx_lit (lit ''100'')) (rx_then (rx_run is_digit 1 (Some 2)) (rx_ret ())))
           (rx_then (rx_lit (lit ''%'')) (rx_lit [10]))))"

definition EOF_MARKER :: pystr where
  "EOF_MARKER = 92 # lit '' No newline at end of file'' @ [10]"

text \<open>The classification labels, in the alphabetical order the result lists them in.\<close>

datatype path_class =
  CI | DEPENDENCY | DOCUMENTATION | MIGRATION | SECURITY_SENSITIVE | SOURCE | TEST

fun class_rank :: "path_class \<Rightarrow> nat" where
  "class_rank CI = 0"
| "class_rank DEPENDENCY = 1"
| "class_rank DOCUMENTATION = 2"
| "class_rank MIGRATION = 3"
| "class_rank SECURITY_SENSITIVE = 4"
| "class_rank SOURCE = 5"
| "class_rank TEST = 6"

lemma class_rank_inj: "class_rank a = class_rank b \<longleftrightarrow> a = b"
  by (cases a; cases b) simp_all

instantiation path_class :: linorder
begin

definition less_eq_path_class :: "path_class \<Rightarrow> path_class \<Rightarrow> bool" where
  "less_eq_path_class a b \<longleftrightarrow> class_rank a \<le> class_rank b"

definition less_path_class :: "path_class \<Rightarrow> path_class \<Rightarrow> bool" where
  "less_path_class a b \<longleftrightarrow> class_rank a < class_rank b"

instance
  by standard (auto simp: less_eq_path_class_def less_path_class_def class_rank_inj)

end

record parsed_diff_chunk =
  ch_position :: nat
  ch_path :: pystr
  ch_classification :: path_class
  ch_old_start :: int
  ch_old_count :: int
  ch_new_start :: int
  ch_new_count :: int
  ch_text :: pystr

record parsed_diff =
  pd_changed_paths :: "pystr list"
  pd_chunks :: "parsed_diff_chunk list"
  pd_classifications :: "(path_class \<times> nat) list"
  pd_limitations :: "string list"

section \<open>Path classification\<close>

text \<open>
  \<^verbatim>\<open>str.casefold\<close>.  Folding maps an ASCII capital to its small letter, and the characters listed
  here to text that contains ASCII letters.  It maps no other character to text with an ASCII
  character in it; since the rules below look for ASCII tokens only, those are left as they are.
\<close>

definition casefold_char :: "nat \<Rightarrow> pystr" where
  "casefold_char c =
     (if 65 \<le> c \<and> c \<le> 90 then [c + 32]
      else if c = 223 \<or> c = 7838 then lit ''ss''
      else if c = 304 then lit ''i'' @ [775]
      else if c = 329 then 700 # lit ''n''
      else if c = 383 then lit ''s''
      else if c = 496 then lit ''j'' @ [780]
      else if c = 7830 then lit ''h'' @ [817]
      else if c = 7831 then lit ''t'' @ [776]
      else if c = 7832 then lit ''w'' @ [778]
      else if c = 7833 then lit ''y'' @ [778]
      else if c = 7834 then lit ''a'' @ [702]
      else if c = 8490 then lit ''k''
      else if c = 64256 then lit ''ff''
      else if c = 64257 then lit ''fi''
      else if c = 64258 then lit ''fl''
      else if c = 64259 then lit ''ffi''
      else if c = 64260 then lit ''ffl''
      else if c = 64261 \<or> c = 64262 then lit ''st''
      else [c])"

definition casefold :: "pystr \<Rightarrow> pystr" where
  "casefold s = concat (map casefold_char s)"

definition security_tokens :: "pystr list" where
  "security_tokens = map lit [''auth'', ''permission'', ''security'', ''credential'', ''secret'',
     ''payment'', ''billing'', ''crypto'']"

definition dependency_names :: "pystr list" where
  "dependency_names = map lit [''pyproject.toml'', ''uv.lock'', ''requirements.txt'',
     ''poetry.lock'', ''go.mod'', ''go.sum'', ''cargo.toml'', ''cargo.lock'']"

definition classify_path :: "pystr \<Rightarrow> path_class result" where
  "classify_path p =
     (let normalized = casefold p;
          parts = path_parts normalized
      in case rev parts of
           [] \<Rightarrow> Inl IndexError
         | name # _ \<Rightarrow>
             Inr (if list_ex (contains normalized) security_tokens then SECURITY_SENSITIVE
                  else if lit ''migration'' \<in> set parts \<or> lit ''migrations'' \<in> set parts
                    \<or> endswith name (lit ''.sql'') \<or> endswith name (lit ''.ddl'') then MIGRATION
                  else if lit ''test'' \<in> set parts \<or> lit ''tests'' \<in> set parts
                    \<or> startswith name (lit ''test_'') \<or> endswith name (lit ''_test.py'')
                    \<or> endswith name (lit ''.spec.py'') \<or> endswith name (lit ''.test.py'') then TEST
                  else if name \<in> set dependency_names \<or> endswith name (lit ''.lock'')
                    then DEPENDENCY
                  else if lit ''.github'' \<in> set parts \<or> startswith name (lit ''dockerfile'')
                    \<or> startswith name (lit ''compose.'') then CI
                  else if lit ''docs'' \<in> set parts \<or> endswith name (lit ''.md'')
                    \<or> endswith name (lit ''.rst'') \<or> endswith name (lit ''.txt'')
                    then DOCUMENTATION
                  else SOURCE))"

section \<open>Path headers\<close>

definition is_ascii_letter :: "nat \<Rightarrow> bool" where
  "is_ascii_letter c \<longleftrightarrow> (65 \<le> c \<and> c \<le> 90) \<or> (97 \<le> c \<and> c \<le> 122)"

fun windows_drive_path :: "pystr \<Rightarrow> bool" where
  "windows_drive_path (c # d # _) = (is_ascii_letter c \<and> d = 58)"
| "windows_drive_path _ = False"

definition validate_path :: "pystr \<Rightarrow> unit result" where
  "validate_path p =
     (if p = [] \<or> p = lit ''.'' then Inl (ValueError ''Diff path must identify a file'')
      else if startswith p [34] \<or> startswith p [39] \<or> endswith p [34] \<or> endswith p [39]
        then Inl (ValueError ''Quoted diff paths are unsupported'')
      else if windows_drive_path p \<or> startswith p (lit ''//'') \<or> startswith p [92, 92]
        then Inl (ValueError ''Absolute and Windows drive-qualified diff paths are unsupported'')
      else bind_res (validate_relative_artifact_path p) (\<lambda>_.
        if startswith p (lit ''-'') \<or> contains p (lit ''//'')
        then Inl (ValueError ''Diff path is ambiguous'') else Inr ()))"

definition dev_null :: pystr where
  "dev_null = lit ''/dev/null''"

definition validated_header_path :: "pystr \<Rightarrow> pystr \<Rightarrow> string \<Rightarrow> pystr option result" where
  "validated_header_path header pre side =
     (if header = dev_null then Inr None
      else if \<not> startswith header pre
        then Inl (ValueError (side @ '' diff path header has an invalid prefix''))
      else bind_res (validate_path (removeprefix header pre)) (\<lambda>_.
        Inr (Some (removeprefix header pre))))"

datatype change_kind = ADD | DELETE | RENAME | MODIFY

definition validate_file_path_headers ::
  "pystr \<Rightarrow> pystr \<Rightarrow> pystr \<Rightarrow> pystr \<Rightarrow> (pystr \<times> change_kind) result" where
  "validate_file_path_headers git_old_path git_new_path old_header new_header =
     bind_res (validated_header_path old_header (lit ''a/'') ''Old'') (\<lambda>header_old_path.
     bind_res (validated_header_path new_header (lit ''b/'') ''New'') (\<lambda>header_new_path.
       if header_old_path \<noteq> None \<and> header_old_path \<noteq> Some git_old_path
         then Inl (ValueError ''Old diff path header does not match its Git file header'')
       else if header_new_path \<noteq> None \<and> header_new_path \<noteq> Some git_new_path
         then Inl (ValueError ''New diff path header does not match its Git file header'')
       else if header_old_path = None \<and> header_new_path = None
         then Inl (ValueError ''Diff path headers cannot both be /dev/null'')
       else if header_old_path = None
         then (if git_old_path \<noteq> git_new_path
               then Inl (ValueError ''New-file diff Git paths must identify the same destination'')
               else Inr (git_new_path, ADD))
       else if header_new_path = None
         then (if git_old_path \<noteq> git_new_path
               then Inl (ValueError ''Deleted-file diff Git paths must identify the same source'')
               else Inr (git_old_path, DELETE))
       else if git_old_path \<noteq> git_new_path then Inr (git_new_path, RENAME)
       else Inr (git_new_path, MODIFY)))"

definition validate_change_metadata ::
  "change_kind \<Rightarrow> pystr \<Rightarrow> pystr \<Rightarrow> change_kind option \<Rightarrow> pystr option \<Rightarrow> pystr option
     \<Rightarrow> unit result" where
  "validate_change_metadata kind git_old_path git_new_path declared_file_kind rename_from rename_to =
     (if declared_file_kind \<noteq> None \<and> declared_file_kind \<noteq> Some kind
        then Inl (ValueError ''Diff file-mode metadata conflicts with its path headers'')
      else if (rename_from = None) \<noteq> (rename_to = None)
        then Inl (ValueError ''Rename metadata must contain both source and destination'')
      else if rename_from = None \<or> rename_to = None then Inr ()
      else if kind \<noteq> RENAME \<or> rename_from \<noteq> Some git_old_path \<or> rename_to \<noteq> Some git_new_path
        then Inl (ValueError ''Rename metadata does not match the Git file header'')
      else Inr ())"

section \<open>Hunk line counts\<close>

fun count_hunk_lines :: "pystr list \<Rightarrow> int \<Rightarrow> int \<Rightarrow> bool \<Rightarrow> bool \<Rightarrow> (int \<times> int \<times> bool) result" where
  "count_hunk_lines [] actual_old actual_new has_effective_change previous_was_content =
     Inr (actual_old, actual_new, has_effective_change)"
| "count_hunk_lines (line # rest) actual_old actual_new has_effective_change previous_was_content =
     (if line = EOF_MARKER then
        (if \<not> previous_was_content
         then Inl (ValueError ''Diff EOF marker is misplaced or duplicated'')
         else count_hunk_lines rest actual_old actual_new has_effective_change False)
      else (case line of
              [] \<Rightarrow> Inl (ValueError ''Diff hunk contains an invalid line prefix'')
            | c # _ \<Rightarrow>
                if c \<notin> {32, 43, 45}
                then Inl (ValueError ''Diff hunk contains an invalid line prefix'')
                else count_hunk_lines rest
                       (if c \<in> {32, 45} then actual_old + 1 else actual_old)
                       (if c \<in> {32, 43} then actual_new + 1 else actual_new)
                       (has_effective_change \<or> c \<in> {43, 45}) True))"

definition validate_hunk_counts :: "pystr list \<Rightarrow> int \<Rightarrow> int \<Rightarrow> unit result" where
  "validate_hunk_counts lines old_count new_count =
     bind_res (count_hunk_lines (tl lines) 0 0 False False)
       (\<lambda>(actual_old, actual_new, has_effective_change).
          if actual_old \<noteq> old_count \<or> actual_new \<noteq> new_count
            then Inl (ValueError ''Diff hunk line counts do not match its header'')
          else if \<not> has_effective_change
            then Inl (ValueError ''Diff hunk must contain an effective change'')
          else Inr ())"

section \<open>The parser's locals and its branches\<close>

record diff_state =
  ds_paths :: "pystr list"
  ds_chunks :: "parsed_diff_chunk list"
  ds_path :: "pystr option"
  ds_old_path :: "pystr option"
  ds_new_path :: "pystr option"
  ds_old_header :: "pystr option"
  ds_new_header :: "pystr option"
  ds_declared_kind :: "change_kind option"
  ds_rename_from :: "pystr option"
  ds_rename_to :: "pystr option"
  ds_has_hunk :: bool
  ds_seen_headers :: "(pystr \<times> pystr) list"
  ds_seen_metadata :: "pystr list"

definition initial_diff_state :: diff_state where
  "initial_diff_state =
     \<lparr>ds_paths = [], ds_chunks = [], ds_path = None, ds_old_path = None, ds_new_path = None,
      ds_old_header = None, ds_new_header = None, ds_declared_kind = None,
      ds_rename_from = None, ds_rename_to = None, ds_has_hunk = False,
      ds_seen_headers = [], ds_seen_metadata = []\<rparr>"

definition file_incomplete :: "diff_state \<Rightarrow> bool" where
  "file_incomplete st \<longleftrightarrow>
     ds_old_path st \<noteq> None \<and>
     (ds_old_header st = None \<or> ds_new_header st = None \<or> \<not> ds_has_hunk st)"

definition incomplete_file_error :: py_error where
  "incomplete_file_error =
     ValueError ''Every changed file must contain matching path headers and a hunk''"

definition on_file_header :: "pystr \<times> pystr \<Rightarrow> diff_state \<Rightarrow> diff_state result" where
  "on_file_header file_identity st =
     (if file_incomplete st then Inl incomplete_file_error
      else bind_res (validate_path (fst file_identity)) (\<lambda>_.
           bind_res (validate_path (snd file_identity)) (\<lambda>_.
             if file_identity \<in> set (ds_seen_headers st)
             then Inl (ValueError ''Diff Git file header is duplicated'')
             else Inr (st\<lparr>ds_seen_headers := file_identity # ds_seen_headers st,
                         ds_old_path := Some (fst file_identity),
                         ds_new_path := Some (snd file_identity),
                         ds_old_header := None, ds_new_header := None,
                         ds_declared_kind := None, ds_rename_from := None, ds_rename_to := None,
                         ds_has_hunk := False, ds_path := None, ds_seen_metadata := []\<rparr>))))"

definition on_file_mode :: "pystr \<Rightarrow> diff_state \<Rightarrow> diff_state result" where
  "on_file_mode line st =
     (if ds_old_path st = None \<or> ds_old_header st \<noteq> None \<or> ds_declared_kind st \<noteq> None
        then Inl (ValueError ''Diff file-mode metadata is duplicated or misplaced'')
      else if rx_fullmatch FILE_MODE_METADATA line = None
        then Inl (ValueError ''Diff file-mode metadata is invalid'')
      else Inr (st\<lparr>ds_declared_kind :=
             Some (if startswith line (lit ''new file mode '') then ADD else DELETE)\<rparr>))"

text \<open>\<^verbatim>\<open>line.split(" ", 1)[0]\<close> and \<^verbatim>\<open>line.rsplit(" ", 1)[0]\<close>.\<close>

definition before_first_space :: "pystr \<Rightarrow> pystr" where
  "before_first_space s = takeWhile (\<lambda>c. c \<noteq> 32) s"

definition before_last_space :: "pystr \<Rightarrow> pystr" where
  "before_last_space s =
     (if 32 \<in> set s then rev (drop 1 (dropWhile (\<lambda>c. c \<noteq> 32) (rev s))) else s)"

definition metadata_kind :: "pystr \<Rightarrow> pystr" where
  "metadata_kind line =
     (if startswith line (lit ''old mode '') \<or> startswith line (lit ''new mode '')
         \<or> startswith line (lit ''similarity '') \<or> startswith line (lit ''dissimilarity '')
      then before_last_space line else before_first_space line)"

definition is_metadata :: "pystr \<Rightarrow> bool" where
  "is_metadata line \<longleftrightarrow>
     rx_fullmatch INDEX_METADATA line \<noteq> None \<or> rx_fullmatch MODE_METADATA line \<noteq> None
     \<or> rx_fullmatch SIMILARITY_METADATA line \<noteq> None"

definition on_metadata :: "pystr \<Rightarrow> diff_state \<Rightarrow> diff_state result" where
  "on_metadata line st =
     (if ds_old_path st = None \<or> ds_old_header st \<noteq> None
        then Inl (ValueError ''Diff metadata is misplaced'')
      else if metadata_kind line \<in> set (ds_seen_metadata st)
        then Inl (ValueError ''Diff metadata is duplicated'')
      else Inr (st\<lparr>ds_seen_metadata := metadata_kind line # ds_seen_metadata st\<rparr>))"

definition on_rename :: "pystr \<Rightarrow> diff_state \<Rightarrow> diff_state result" where
  "on_rename line st =
     (if ds_old_path st = None \<or> ds_old_header st \<noteq> None
        then Inl (ValueError ''Rename metadata is misplaced'')
      else if startswith line (lit ''rename from '') then
        (if ds_rename_from st \<noteq> None
           then Inl (ValueError ''Rename source metadata is duplicated'')
         else let p = removesuffix (removeprefix line (lit ''rename from '')) [10]
              in bind_res (validate_path p) (\<lambda>_. Inr (st\<lparr>ds_rename_from := Some p\<rparr>)))
      else
        (if ds_rename_to st \<noteq> None
           then Inl (ValueError ''Rename destination metadata is duplicated'')
         else let p = removesuffix (removeprefix line (lit ''rename to '')) [10]
              in bind_res (validate_path p) (\<lambda>_. Inr (st\<lparr>ds_rename_to := Some p\<rparr>))))"

definition on_old_header :: "pystr \<Rightarrow> diff_state \<Rightarrow> diff_state result" where
  "on_old_header line st =
     (if ds_old_path st = None \<or> ds_old_header st \<noteq> None
        then Inl (ValueError ''Old diff path header is missing, duplicated, or misplaced'')
      else if (lit ''old mode'' \<in> set (ds_seen_metadata st))
              \<noteq> (lit ''new mode'' \<in> set (ds_seen_metadata st))
        then Inl (ValueError ''Diff mode metadata must contain both old and new modes'')
      else Inr (st\<lparr>ds_old_header := Some (removesuffix (removeprefix line (lit ''--- '')) [10])\<rparr>))"

definition on_new_header :: "pystr \<Rightarrow> diff_state \<Rightarrow> diff_state result" where
  "on_new_header line st =
     (case (ds_old_path st, ds_new_path st, ds_old_header st, ds_new_header st) of
        (Some old_path, Some new_path, Some old_header, None) \<Rightarrow>
          (let new_header = removesuffix (removeprefix line (lit ''+++ '')) [10]
           in bind_res (validate_file_path_headers old_path new_path old_header new_header)
                (\<lambda>(current_path, kind).
              bind_res (validate_change_metadata kind old_path new_path (ds_declared_kind st)
                          (ds_rename_from st) (ds_rename_to st)) (\<lambda>_.
                if current_path \<in> set (ds_paths st)
                  then Inl (ValueError ''Diff changed path is duplicated'')
                else if Suc (length (ds_paths st)) > MAX_CHANGED_PATHS
                  then Inl (ValueError ''unified_diff exceeds the changed-path limit'')
                else Inr (st\<lparr>ds_new_header := Some new_header, ds_path := Some current_path,
                            ds_paths := ds_paths st @ [current_path]\<rparr>))))
      | _ \<Rightarrow> Inl (ValueError ''New diff path header is missing, duplicated, or misplaced''))"

definition count_value :: "pystr option \<Rightarrow> int" where
  "count_value g = (case g of None \<Rightarrow> 1 | Some s \<Rightarrow> decimal s)"

definition starts_section :: "pystr \<Rightarrow> bool" where
  "starts_section line \<longleftrightarrow> startswith line (lit ''@@ '') \<or> startswith line (lit ''diff --git '')"

definition on_hunk ::
  "pystr \<times> pystr option \<times> pystr \<times> pystr option \<Rightarrow> pystr list \<Rightarrow> diff_state \<Rightarrow> diff_state result"
where
  "on_hunk groups hunk_lines st =
     (case (groups, ds_path st, ds_old_path st, ds_new_path st, ds_old_header st, ds_new_header st) of
        ((os, oc, ns, nc), Some current_path, Some _, Some _, Some old_header, Some new_header) \<Rightarrow>
          (let old_count = count_value oc; new_count = count_value nc;
               old_start = decimal os; new_start = decimal ns; text = concat hunk_lines
           in if (old_count > 0 \<and> old_start < 1) \<or> (new_count > 0 \<and> new_start < 1)
                then Inl (ValueError ''Diff hunk range start is invalid'')
              else if old_header = dev_null \<and> (old_start \<noteq> 0 \<or> old_count \<noteq> 0)
                then Inl (ValueError ''New-file diff hunks must have an empty old range'')
              else if new_header = dev_null \<and> (new_start \<noteq> 0 \<or> new_count \<noteq> 0)
                then Inl (ValueError ''Deleted-file diff hunks must have an empty new range'')
              else bind_res (validate_hunk_counts hunk_lines old_count new_count) (\<lambda>_.
                if length text > MAX_CHUNK_CHARS
                  then Inl (ValueError ''A diff hunk exceeds the evaluator chunk limit'')
                else bind_res (classify_path current_path) (\<lambda>cls.
                  if Suc (length (ds_chunks st)) > MAX_CHUNKS
                    then Inl (ValueError ''unified_diff exceeds the hunk limit'')
                  else Inr (st\<lparr>ds_chunks := ds_chunks st @
                         [\<lparr>ch_position = Suc (length (ds_chunks st)), ch_path = current_path,
                           ch_classification = cls, ch_old_start = old_start,
                           ch_old_count = old_count, ch_new_start = new_start,
                           ch_new_count = new_count, ch_text = text\<rparr>],
                       ds_has_hunk := True\<rparr>))))
      | _ \<Rightarrow> Inl (ValueError ''Diff hunk appears before matching file path headers''))"

text \<open>One turn of the loop: the lines still unread and the new locals.\<close>

definition parse_line :: "pystr \<Rightarrow> pystr list \<Rightarrow> diff_state \<Rightarrow> (pystr list \<times> diff_state) result" where
  "parse_line line rest st =
     (case rx_fullmatch FILE_HEADER line of
        Some groups \<Rightarrow> bind_res (on_file_header groups st) (\<lambda>st'. Inr (rest, st'))
      | None \<Rightarrow>
     if startswith line (lit ''new file mode '') \<or> startswith line (lit ''deleted file mode '')
       then bind_res (on_file_mode line st) (\<lambda>st'. Inr (rest, st'))
     else if is_metadata line
       then bind_res (on_metadata line st) (\<lambda>st'. Inr (rest, st'))
     else if startswith line (lit ''rename from '') \<or> startswith line (lit ''rename to '')
       then bind_res (on_rename line st) (\<lambda>st'. Inr (rest, st'))
     else if startswith line (lit ''--- '')
       then bind_res (on_old_header line st) (\<lambda>st'. Inr (rest, st'))
     else if startswith line (lit ''+++ '')
       then bind_res (on_new_header line st) (\<lambda>st'. Inr (rest, st'))
     else (case rx_fullmatch HUNK_HEADER line of
        Some groups \<Rightarrow>
          bind_res (on_hunk groups (line # takeWhile (\<lambda>l. \<not> starts_section l) rest) st)
            (\<lambda>st'. Inr (dropWhile (\<lambda>l. \<not> starts_section l) rest, st'))
      | None \<Rightarrow>
          if startswith line (lit ''diff --'')
          then Inl (ValueError ''Only Git unified diffs are supported'')
          else Inl (ValueError ''Diff contains unsupported or misplaced metadata'')))"

lemma parse_line_rest: "parse_line line rest st = Inr (rest', st') \<Longrightarrow> length rest' \<le> length rest"
  by (auto simp: parse_line_def bind_res_Inr length_dropWhile_le split: option.splits if_splits)

function parse_loop :: "pystr list \<Rightarrow> diff_state \<Rightarrow> diff_state result" where
  "parse_loop [] st = Inr st"
| "parse_loop (line # rest) st =
     (case parse_line line rest st of
        Inl e \<Rightarrow> Inl e
      | Inr (rest', st') \<Rightarrow> parse_loop rest' st')"
  by pat_completeness auto
termination
  by (relation "measure (\<lambda>(lines, st). length lines)")
    (auto dest: parse_line_rest simp: less_Suc_eq_le)

section \<open>The whole parser\<close>

text \<open>
  The Unicode categories \<^verbatim>\<open>Cc\<close>, \<^verbatim>\<open>Cf\<close> and \<^verbatim>\<open>Cs\<close> (Unicode 15, which Python 3.12 ships).
\<close>

definition is_format_char :: "nat \<Rightarrow> bool" where
  "is_format_char c \<longleftrightarrow>
     c = 173 \<or> (1536 \<le> c \<and> c \<le> 1541) \<or> c = 1564 \<or> c = 1757 \<or> c = 1807 \<or>
     (2192 \<le> c \<and> c \<le> 2193) \<or> c = 2274 \<or> c = 6158 \<or> (8203 \<le> c \<and> c \<le> 8207) \<or>
     (8234 \<le> c \<and> c \<le> 8238) \<or> (8288 \<le> c \<and> c \<le> 8292) \<or> (8294 \<le> c \<and> c \<le> 8303) \<or>
     c = 65279 \<or> (65529 \<le> c \<and> c \<le> 65531) \<or> c = 69821 \<or> c = 69837 \<or>
     (78896 \<le> c \<and> c \<le> 78911) \<or> (113824 \<le> c \<and> c \<le> 113827) \<or>
     (119155 \<le> c \<and> c \<le> 119162) \<or> c = 917505 \<or> (917536 \<le> c \<and> c \<le> 917631)"

definition is_control_char :: "nat \<Rightarrow> bool" where
  "is_control_char c \<longleftrightarrow> c < 32 \<or> (127 \<le> c \<and> c \<le> 159)"

definition is_unsupported_char :: "nat \<Rightarrow> bool" where
  "is_unsupported_char c \<longleftrightarrow>
     c \<noteq> 10 \<and> c \<noteq> 9 \<and> (is_control_char c \<or> is_format_char c \<or> is_surrogate c)"

fun bump_class :: "path_class \<Rightarrow> (path_class \<times> nat) list \<Rightarrow> (path_class \<times> nat) list" where
  "bump_class c [] = [(c, 1)]"
| "bump_class c ((d, n) # xs) = (if c = d then (d, Suc n) # xs else (d, n) # bump_class c xs)"

definition count_classes :: "parsed_diff_chunk list \<Rightarrow> (path_class \<times> nat) list" where
  "count_classes cs = fold (\<lambda>ch. bump_class (ch_classification ch)) cs []"

definition screen_diff_text :: "(pystr \<Rightarrow> pystr) \<Rightarrow> pystr \<Rightarrow> pystr list result" where
  "screen_diff_text redact unified_diff =
     (case encoded_length unified_diff of
        None \<Rightarrow> Inl (ValueError ''unified_diff must be valid UTF-8 text'')
      | Some n \<Rightarrow>
          if n = 0 \<or> n > MAX_DIFF_BYTES
            then Inl (ValueError ''unified_diff must contain between 1 byte and 1,000,000 bytes'')
          else if list_ex is_unsupported_char unified_diff \<or> 13 \<in> set unified_diff
            then Inl (ValueError ''unified_diff contains unsupported control characters'')
          else if redact unified_diff \<noteq> unified_diff
            then Inl (ValueError ''unified_diff contains credential material'')
          else let lines = splitlines_keep unified_diff
            in if length lines > MAX_DIFF_LINES \<or> list_ex (\<lambda>l. \<not> endswith l [10]) lines
               then Inl (ValueError ''unified_diff must be newline-terminated and within the line limit'')
               else if list_ex (\<lambda>l. startswith l (lit ''GIT binary patch'')
                      \<or> startswith l (lit ''Binary files '') \<or> startswith l (lit ''diff --cc '')
                      \<or> startswith l (lit ''diff --combined '')) lines
               then Inl (ValueError ''Binary and combined diffs are unsupported'')
               else Inr lines)"

definition manual_limitations :: "string list" where
  "manual_limitations =
     [''Manual diff provenance was supplied by an authorized operator.'',
      ''The diff was parsed as data and no repository code was fetched or executed.'']"

definition finish_diff :: "diff_state \<Rightarrow> parsed_diff result" where
  "finish_diff st =
     (if file_incomplete st then Inl incomplete_file_error
      else if ds_paths st = [] \<or> ds_chunks st = []
        then Inl (ValueError ''unified_diff must contain at least one changed file and hunk'')
      else Inr \<lparr>pd_changed_paths = sort (ds_paths st), pd_chunks = ds_chunks st,
                pd_classifications = sort_key fst (count_classes (ds_chunks st)),
                pd_limitations = manual_limitations\<rparr>)"

definition parse_unified_diff :: "(pystr \<Rightarrow> pystr) \<Rightarrow> pystr \<Rightarrow> parsed_diff result" where
  "parse_unified_diff redact unified_diff =
     bind_res (screen_diff_text redact unified_diff) (\<lambda>lines.
     bind_res (parse_loop lines initial_diff_state) finish_diff)"

section \<open>Citations\<close>

datatype side = OLD | NEW

definition chunk_start :: "side \<Rightarrow> parsed_diff_chunk \<Rightarrow> int" where
  "chunk_start s ch = (case s of OLD \<Rightarrow> ch_old_start ch | NEW \<Rightarrow> ch_new_start ch)"

definition chunk_count :: "side \<Rightarrow> parsed_diff_chunk \<Rightarrow> int" where
  "chunk_count s ch = (case s of OLD \<Rightarrow> ch_old_count ch | NEW \<Rightarrow> ch_new_count ch)"

text \<open>\<^verbatim>\<open>side\<close> is a free string in the code; the two it accepts are the constructors.\<close>

definition parse_side :: "pystr \<Rightarrow> side option" where
  "parse_side s = (if s = lit ''OLD'' then Some OLD else if s = lit ''NEW'' then Some NEW else None)"

fun citation_in_chunks :: "parsed_diff_chunk list \<Rightarrow> pystr \<Rightarrow> side \<Rightarrow> int \<Rightarrow> bool" where
  "citation_in_chunks [] p s line = False"
| "citation_in_chunks (ch # cs) p s line =
     (if ch_path ch \<noteq> p then citation_in_chunks cs p s line
      else if chunk_count s ch > 0 \<and> chunk_start s ch \<le> line
              \<and> line < chunk_start s ch + chunk_count s ch
      then True
      else citation_in_chunks cs p s line)"

definition citation_in_diff :: "parsed_diff_chunk list \<Rightarrow> pystr \<Rightarrow> pystr \<Rightarrow> int \<Rightarrow> bool" where
  "citation_in_diff cs p side_text line =
     (case parse_side side_text of
        None \<Rightarrow> False
      | Some s \<Rightarrow> if line < 1 then False else citation_in_chunks cs p s line)"

end
