(* ===== verification/DiffSafety.thy ===== *)
theory DiffSafety
  imports DiffParser
begin

text \<open>
  What an accepted diff guarantees.  The invariant \<open>diff_inv\<close> relates the parser's locals to the
  lines read so far; every branch of the loop keeps it, so it holds at the end, where the last
  check turns it into the statements about \<open>parse_unified_diff\<close>.
\<close>

section \<open>Paths\<close>

definition safe_diff_path :: "pystr \<Rightarrow> bool" where
  "safe_diff_path p \<longleftrightarrow>
     safe_relative_path p \<and> \<not> windows_drive_path p \<and> \<not> startswith p (lit ''-'')
     \<and> \<not> startswith p [34] \<and> \<not> startswith p [39] \<and> \<not> endswith p [34] \<and> \<not> endswith p [39]"

lemma validate_path_safe: "validate_path p = Inr () \<Longrightarrow> safe_diff_path p"
  by (auto simp: validate_path_def safe_diff_path_def bind_res_Inr dest: validate_path_sound
      split: if_splits)

lemma validated_header_path_Inr:
  "validated_header_path h pre s = Inr (Some p) \<Longrightarrow> validate_path p = Inr ()"
  by (auto simp: validated_header_path_def bind_res_Inr split: if_splits)

lemma file_path_headers_paths:
  "validate_file_path_headers og ng oh nh = Inr (p, k) \<Longrightarrow> p = og \<or> p = ng"
  by (auto simp: validate_file_path_headers_def bind_res_Inr split: if_splits)

section \<open>Lines and hunk bodies\<close>

definition line_shape :: "pystr \<Rightarrow> bool" where
  "line_shape l \<longleftrightarrow> (\<exists>b. l = b @ [10] \<and> (\<forall>c\<in>set b. \<not> is_line_break c))"

lemma line_break_consts [simp]: "is_line_break 10" "is_line_break 13"
  by (simp_all add: is_line_break_def)

lemma splitlines_keep_line:
  "\<forall>c\<in>set b. \<not> is_line_break c \<Longrightarrow> splitlines_keep (b @ 10 # t) = (b @ [10]) # splitlines_keep t"
proof (induction b)
  case Nil
  show ?case by (cases t) simp_all
next
  case (Cons c b)
  then have c: "\<not> is_line_break c" "c \<noteq> 13" by fastforce+
  from Cons have "splitlines_keep (b @ 10 # t) = (b @ [10]) # splitlines_keep t" by simp
  with c show ?case by (cases b) auto
qed

lemma splitlines_keep_concat:
  "\<forall>l\<in>set ls. line_shape l \<Longrightarrow> splitlines_keep (concat ls) = ls"
  by (induction ls) (auto simp: line_shape_def splitlines_keep_line)

lemma splitlines_keep_shape:
  assumes "l \<in> set (splitlines_keep s)" and "13 \<notin> set s"
  shows "\<exists>b e. l = b @ e \<and> (\<forall>c\<in>set b. \<not> is_line_break c) \<and> (e = [] \<or> (\<exists>c. is_line_break c \<and> e = [c]))"
  using assms
proof (induction s arbitrary: l rule: splitlines_keep.induct)
  case 1
  then show ?case by simp
next
  case (2 c)
  then show ?case by (cases "is_line_break c") force+
next
  case (3 c d cs)
  have c: "c \<noteq> 13" using "3.prems"(2) by simp
  show ?case
  proof (cases "is_line_break c")
    case True
    with "3.prems" c consider "l = [c]" | "l \<in> set (splitlines_keep (d # cs))" by auto
    then show ?thesis
    proof cases
      case 1
      with True show ?thesis by force
    next
      case 2
      with True c "3.IH"(2) "3.prems"(2) show ?thesis by simp
    qed
  next
    case False
    obtain m ms where m: "splitlines_keep (d # cs) = m # ms"
      using splitlines_keep_Cons by (meson neq_Nil_conv)
    with "3.prems" False c consider "l = c # m" | "l \<in> set ms" by auto
    then show ?thesis
    proof cases
      case 1
      have "13 \<notin> set (d # cs)" using "3.prems"(2) by auto
      then obtain b e where be: "m = b @ e" "\<forall>x\<in>set b. \<not> is_line_break x"
        "e = [] \<or> (\<exists>x. is_line_break x \<and> e = [x])"
        using "3.IH"(3) [of m] False c m by auto
      then show ?thesis using 1 False
        by (intro exI [of _ "c # b"] exI [of _ e]) auto
    next
      case 2
      then show ?thesis using "3.IH"(3) [of l] "3.prems"(2) False c m by auto
    qed
  qed
qed

lemma screened_line_shape:
  assumes "screen_diff_text redact s = Inr lines" and "l \<in> set lines"
  shows "line_shape l"
proof -
  have lines: "lines = splitlines_keep s" and cr: "13 \<notin> set s" and nl: "\<forall>l\<in>set lines. endswith l [10]"
    using assms(1) by (auto simp: screen_diff_text_def Let_def list_ex_iff
        split: option.splits if_splits)
  obtain b e where be: "l = b @ e" "\<forall>c\<in>set b. \<not> is_line_break c" "e = [] \<or> (\<exists>c. e = [c])"
    using splitlines_keep_shape assms(2) lines cr by metis
  from nl assms(2) obtain u where u: "l = u @ [10]" by (auto simp: suffix_def)
  show ?thesis
  proof (cases "e = []")
    case True
    with be(1) u have "10 \<in> set b" by auto
    with be(2) show ?thesis using line_break_consts(1) by blast
  next
    case False
    with be u show ?thesis by (auto simp: line_shape_def)
  qed
qed

definition body_lines :: "pystr \<Rightarrow> pystr list" where
  "body_lines t = tl (splitlines_keep t)"

definition starts_with_one_of :: "nat set \<Rightarrow> pystr \<Rightarrow> bool" where
  "starts_with_one_of cs l \<longleftrightarrow> (case l of [] \<Rightarrow> False | c # _ \<Rightarrow> c \<in> cs)"

definition old_lines :: "pystr \<Rightarrow> nat" where
  "old_lines t = length (filter (starts_with_one_of {32, 45}) (body_lines t))"

definition new_lines :: "pystr \<Rightarrow> nat" where
  "new_lines t = length (filter (starts_with_one_of {32, 43}) (body_lines t))"

definition changed_lines :: "pystr \<Rightarrow> nat" where
  "changed_lines t = length (filter (starts_with_one_of {43, 45}) (body_lines t))"

lemma EOF_MARKER_prefix: "starts_with_one_of cs EOF_MARKER \<longleftrightarrow> 92 \<in> cs"
  by (simp add: EOF_MARKER_def starts_with_one_of_def)

lemma count_hunk_lines_spec:
  assumes "count_hunk_lines ls a b h p = Inr (a', b', h')"
  shows "a' = a + int (length (filter (starts_with_one_of {32, 45}) ls)) \<and>
    b' = b + int (length (filter (starts_with_one_of {32, 43}) ls)) \<and>
    (h' \<longleftrightarrow> h \<or> filter (starts_with_one_of {43, 45}) ls \<noteq> [])"
  using assms
proof (induction ls a b h p rule: count_hunk_lines.induct)
  case (1 a b h p)
  then show ?case by simp
next
  case (2 line rest a b h p)
  show ?case
  proof (cases "line = EOF_MARKER")
    case True
    with 2 show ?thesis by (auto simp: EOF_MARKER_prefix split: if_splits)
  next
    case False
    with "2.prems" obtain c l where l: "line = c # l" and c: "c \<in> {32, 43, 45}"
      by (auto split: list.splits if_splits)
    from "2.IH"(2) [OF False l] c "2.prems" False l show ?thesis
      by (auto simp: starts_with_one_of_def)
  qed
qed

lemma validate_hunk_counts_spec:
  assumes "validate_hunk_counts ls oc nc = Inr ()" and "\<forall>l\<in>set ls. line_shape l"
  shows "oc = int (old_lines (concat ls))" and "nc = int (new_lines (concat ls))"
    and "0 < changed_lines (concat ls)"
proof -
  obtain h where "count_hunk_lines (tl ls) 0 0 False False = Inr (oc, nc, h)" and "h"
    using assms(1) by (auto simp: validate_hunk_counts_def bind_res_Inr split: if_splits prod.splits)
  from count_hunk_lines_spec [OF this(1)] this(2) splitlines_keep_concat [OF assms(2)]
  show "oc = int (old_lines (concat ls))" and "nc = int (new_lines (concat ls))"
    and "0 < changed_lines (concat ls)"
    by (auto simp: old_lines_def new_lines_def changed_lines_def body_lines_def)
qed

text \<open>A well-formed chunk: its coordinates are those of its own text.\<close>

definition chunk_wf :: "parsed_diff_chunk \<Rightarrow> bool" where
  "chunk_wf ch \<longleftrightarrow>
     ch_old_count ch = int (old_lines (ch_text ch)) \<and>
     ch_new_count ch = int (new_lines (ch_text ch)) \<and>
     0 < changed_lines (ch_text ch) \<and>
     0 \<le> ch_old_start ch \<and> 0 \<le> ch_new_start ch \<and>
     (0 < ch_old_count ch \<longrightarrow> 1 \<le> ch_old_start ch) \<and>
     (0 < ch_new_count ch \<longrightarrow> 1 \<le> ch_new_start ch) \<and>
     length (ch_text ch) \<le> MAX_CHUNK_CHARS \<and>
     classify_path (ch_path ch) = Inr (ch_classification ch)"

section \<open>The loop invariant\<close>

definition diff_inv :: "pystr \<Rightarrow> diff_state \<Rightarrow> bool" where
  "diff_inv seen st \<longleftrightarrow>
     (\<forall>p\<in>set (ds_paths st). safe_diff_path p) \<and> distinct (ds_paths st) \<and>
     length (ds_paths st) \<le> MAX_CHANGED_PATHS \<and> length (ds_chunks st) \<le> MAX_CHUNKS \<and>
     (\<forall>p. ds_old_path st = Some p \<longrightarrow> safe_diff_path p) \<and>
     (\<forall>p. ds_new_path st = Some p \<longrightarrow> safe_diff_path p) \<and>
     (\<forall>p. ds_path st = Some p \<longrightarrow> p \<in> set (ds_paths st)) \<and>
     (ds_path st \<noteq> None \<longrightarrow> ds_old_path st \<noteq> None) \<and>
     (ds_new_header st \<noteq> None \<longrightarrow> ds_path st \<noteq> None) \<and>
     (ds_has_hunk st \<longrightarrow> (\<exists>p. ds_path st = Some p \<and> p \<in> ch_path ` set (ds_chunks st))) \<and>
     (\<forall>p\<in>set (ds_paths st). p \<in> ch_path ` set (ds_chunks st) \<or> ds_path st = Some p) \<and>
     map ch_position (ds_chunks st) = [1..<Suc (length (ds_chunks st))] \<and>
     (\<forall>ch\<in>set (ds_chunks st). chunk_wf ch \<and> ch_path ch \<in> set (ds_paths st) \<and>
        sublist (ch_text ch) seen)"

lemma sublist_extend: "sublist t s \<Longrightarrow> sublist t (s @ e)"
  by (auto simp: sublist_def) (metis append.assoc)

lemma diff_inv_mono: "diff_inv seen st \<Longrightarrow> diff_inv (seen @ extra) st"
  unfolding diff_inv_def using sublist_extend by blast

text \<open>The locals the invariant does not read.\<close>

lemma diff_inv_frame [simp]:
  "diff_inv seen (st\<lparr>ds_declared_kind := k\<rparr>) = diff_inv seen st"
  "diff_inv seen (st\<lparr>ds_rename_from := f\<rparr>) = diff_inv seen st"
  "diff_inv seen (st\<lparr>ds_rename_to := f\<rparr>) = diff_inv seen st"
  "diff_inv seen (st\<lparr>ds_old_header := f\<rparr>) = diff_inv seen st"
  "diff_inv seen (st\<lparr>ds_seen_metadata := m\<rparr>) = diff_inv seen st"
  by (simp_all add: diff_inv_def)

lemma diff_inv_initial: "diff_inv [] initial_diff_state"
  by (simp add: diff_inv_def initial_diff_state_def)

lemma on_file_header_inv:
  assumes "on_file_header g st = Inr st'" "diff_inv seen st"
  shows "diff_inv seen st'"
proof -
  have complete: "\<not> file_incomplete st" and v: "safe_diff_path (fst g)" "safe_diff_path (snd g)"
    and st': "st' = st\<lparr>ds_seen_headers := g # ds_seen_headers st,
                         ds_old_path := Some (fst g), ds_new_path := Some (snd g),
                         ds_old_header := None, ds_new_header := None,
                         ds_declared_kind := None, ds_rename_from := None, ds_rename_to := None,
                         ds_has_hunk := False, ds_path := None, ds_seen_metadata := []\<rparr>"
    using assms(1) by (auto simp: on_file_header_def bind_res_Inr validate_path_safe split: if_splits)
  have c: "\<forall>p\<in>set (ds_paths st). p \<in> ch_path ` set (ds_chunks st)"
    using assms(2) complete unfolding diff_inv_def file_incomplete_def by fastforce
  show ?thesis using assms(2) v c unfolding st' diff_inv_def by simp
qed

lemma on_file_mode_inv: "on_file_mode l st = Inr st' \<Longrightarrow> diff_inv seen st \<Longrightarrow> diff_inv seen st'"
  by (auto simp: on_file_mode_def split: if_splits)

lemma on_metadata_inv: "on_metadata l st = Inr st' \<Longrightarrow> diff_inv seen st \<Longrightarrow> diff_inv seen st'"
  by (auto simp: on_metadata_def split: if_splits)

lemma on_rename_inv: "on_rename l st = Inr st' \<Longrightarrow> diff_inv seen st \<Longrightarrow> diff_inv seen st'"
  by (auto simp: on_rename_def Let_def bind_res_Inr split: if_splits)

lemma on_old_header_inv: "on_old_header l st = Inr st' \<Longrightarrow> diff_inv seen st \<Longrightarrow> diff_inv seen st'"
  by (auto simp: on_old_header_def split: if_splits)

lemma on_new_header_inv:
  assumes "on_new_header l st = Inr st'" "diff_inv seen st" "ds_path st = None"
  shows "diff_inv seen st'"
proof -
  obtain og ng oh nh p k where h: "ds_old_path st = Some og" "ds_new_path st = Some ng"
    "validate_file_path_headers og ng oh nh = Inr (p, k)" "p \<notin> set (ds_paths st)"
    "Suc (length (ds_paths st)) \<le> MAX_CHANGED_PATHS"
    "st' = st\<lparr>ds_new_header := Some nh, ds_path := Some p, ds_paths := ds_paths st @ [p]\<rparr>"
    using assms(1)
    by (auto simp: on_new_header_def Let_def bind_res_Inr split: option.splits if_splits prod.splits)
  have "safe_diff_path p"
    using file_path_headers_paths [OF h(3)] assms(2) h(1,2) by (auto simp: diff_inv_def)
  then show ?thesis using assms(2,3) h(1,4,5) unfolding h(6) diff_inv_def by simp
qed

lemma on_hunk_inv:
  assumes "on_hunk g ls st = Inr st'" "diff_inv seen st" "\<forall>l\<in>set ls. line_shape l"
    and digits: "list_all is_digit (fst g)" "list_all is_digit (fst (snd (snd g)))"
  shows "diff_inv (seen @ concat ls) st'"
proof -
  obtain os oc ns nc where g: "g = (os, oc, ns, nc)" by (cases g)
  obtain p cls where h: "ds_path st = Some p" "length (concat ls) \<le> MAX_CHUNK_CHARS"
    "count_value oc > 0 \<longrightarrow> decimal os \<ge> 1" "count_value nc > 0 \<longrightarrow> decimal ns \<ge> 1"
    "validate_hunk_counts ls (count_value oc) (count_value nc) = Inr ()"
    "classify_path p = Inr cls" "Suc (length (ds_chunks st)) \<le> MAX_CHUNKS"
    "st' = st\<lparr>ds_chunks := ds_chunks st @
         [\<lparr>ch_position = Suc (length (ds_chunks st)), ch_path = p, ch_classification = cls,
           ch_old_start = decimal os, ch_old_count = count_value oc, ch_new_start = decimal ns,
           ch_new_count = count_value nc, ch_text = concat ls\<rparr>], ds_has_hunk := True\<rparr>"
    using assms(1) g
    by (auto simp: on_hunk_def Let_def bind_res_Inr not_less split: option.splits if_splits)
  have starts: "0 \<le> decimal os" "0 \<le> decimal ns" using digits g by (auto intro: decimal_nonneg)
  have inv: "diff_inv (seen @ concat ls) st" using assms(2) by (rule diff_inv_mono)
  let ?ch = "\<lparr>ch_position = Suc (length (ds_chunks st)), ch_path = p, ch_classification = cls,
           ch_old_start = decimal os, ch_old_count = count_value oc, ch_new_start = decimal ns,
           ch_new_count = count_value nc, ch_text = concat ls\<rparr>"
  have "chunk_wf ?ch"
    using h(2-4,6) starts validate_hunk_counts_spec [OF h(5) assms(3)] by (simp add: chunk_wf_def)
  moreover have "sublist (ch_text ?ch) (seen @ concat ls)" by simp
  moreover have "ch_path ?ch \<in> set (ds_paths st)" using inv h(1) by (simp add: diff_inv_def)
  ultimately show ?thesis
    using inv h(1,7) unfolding h(8) diff_inv_def by simp
qed

lemma HUNK_HEADER_digits:
  assumes "rx_fullmatch HUNK_HEADER l = Some g"
  shows "list_all is_digit (fst g)" "list_all is_digit (fst (snd (snd g)))"
  using rx_fullmatch_Some [OF assms]
  by (auto simp: HUNK_HEADER_def rx_elims split: prod.splits)

lemma on_new_header_fresh: "on_new_header l st = Inr st' \<Longrightarrow> ds_new_header st = None"
  by (auto simp: on_new_header_def split: option.splits)

text \<open>The current path is known exactly when both path headers of the file have been read.\<close>

definition header_sync :: "diff_state \<Rightarrow> bool" where
  "header_sync st \<longleftrightarrow> (ds_new_header st = None \<longrightarrow> ds_path st = None)"

lemma header_sync_steps:
  "on_file_header g st = Inr st' \<Longrightarrow> header_sync st'"
  "on_file_mode l st = Inr st' \<Longrightarrow> header_sync st \<Longrightarrow> header_sync st'"
  "on_metadata l st = Inr st' \<Longrightarrow> header_sync st \<Longrightarrow> header_sync st'"
  "on_rename l st = Inr st' \<Longrightarrow> header_sync st \<Longrightarrow> header_sync st'"
  "on_old_header l st = Inr st' \<Longrightarrow> header_sync st \<Longrightarrow> header_sync st'"
  "on_new_header l st = Inr st' \<Longrightarrow> header_sync st'"
  "on_hunk h ls st = Inr st' \<Longrightarrow> header_sync st \<Longrightarrow> header_sync st'"
  by (auto simp: header_sync_def on_file_header_def on_file_mode_def on_metadata_def on_rename_def
      on_old_header_def on_new_header_def on_hunk_def bind_res_Inr Let_def
      split: if_splits option.splits prod.splits)

lemma parse_line_inv:
  assumes "parse_line l rest st = Inr (rest', st')" "diff_inv seen st" "header_sync st"
    and "\<forall>x\<in>set (l # rest). line_shape x"
  shows "\<exists>took. l # rest = took @ rest' \<and> diff_inv (seen @ concat took) st' \<and> header_sync st'"
proof (cases "rx_fullmatch FILE_HEADER l")
  case (Some g)
  with assms show ?thesis
    by (intro exI [of _ "[l]"])
      (auto simp: parse_line_def bind_res_Inr intro: on_file_header_inv diff_inv_mono header_sync_steps)
next
  case None
  show ?thesis
  proof (cases "rest' = rest \<and> diff_inv seen st' \<and> header_sync st'")
    case True
    then show ?thesis by (intro exI [of _ "[l]"]) (auto intro: diff_inv_mono)
  next
    case False
    have "\<exists>g. rx_fullmatch HUNK_HEADER l = Some g \<and>
        on_hunk g (l # takeWhile (\<lambda>x. \<not> starts_section x) rest) st = Inr st' \<and>
        rest' = dropWhile (\<lambda>x. \<not> starts_section x) rest"
      using assms(1-3) None False
      by (auto simp: parse_line_def bind_res_Inr split: if_splits option.splits
          intro: on_file_mode_inv on_metadata_inv on_rename_inv on_old_header_inv header_sync_steps)
        (metis header_sync_def header_sync_steps(6) on_new_header_fresh on_new_header_inv)+
    then obtain g where g: "rx_fullmatch HUNK_HEADER l = Some g"
      "on_hunk g (l # takeWhile (\<lambda>x. \<not> starts_section x) rest) st = Inr st'"
      "rest' = dropWhile (\<lambda>x. \<not> starts_section x) rest" by blast
    let ?took = "l # takeWhile (\<lambda>x. \<not> starts_section x) rest"
    have "\<forall>x\<in>set ?took. line_shape x" using assms(4) by (auto dest: set_takeWhileD)
    then have "diff_inv (seen @ concat ?took) st'"
      using on_hunk_inv [OF g(2) assms(2)] HUNK_HEADER_digits [OF g(1)] by blast
    then show ?thesis using g header_sync_steps(7) [OF g(2) assms(3)]
      by (intro exI [of _ ?took]) auto
  qed
qed

lemma parse_loop_inv:
  assumes "parse_loop lines st = Inr st'" "diff_inv seen st" "header_sync st"
    and "\<forall>x\<in>set lines. line_shape x"
  shows "diff_inv (seen @ concat lines) st'"
  using assms
proof (induction lines st arbitrary: seen rule: parse_loop.induct)
  case (1 st)
  then show ?case by simp
next
  case (2 line rest st)
  from "2.prems"(1) obtain rest' st1 where s: "parse_line line rest st = Inr (rest', st1)"
    "parse_loop rest' st1 = Inr st'"
    by (auto split: sum.splits)
  from parse_line_inv [OF s(1) "2.prems"(2-4)] obtain took where
    t: "line # rest = took @ rest'" "diff_inv (seen @ concat took) st1" "header_sync st1" by blast
  have "\<forall>x\<in>set rest'. line_shape x" using "2.prems"(4) t(1) by (metis Un_iff set_append)
  from "2.IH" [OF s(1) refl s(2) t(2,3) this] t(1)
  show ?case by (metis append.assoc concat_append)
qed

lemma parse_unified_diff_inv:
  assumes "parse_unified_diff redact s = Inr d"
  obtains st where "diff_inv s st" "finish_diff st = Inr d"
proof -
  obtain lines st where l: "screen_diff_text redact s = Inr lines"
    "parse_loop lines initial_diff_state = Inr st" "finish_diff st = Inr d"
    using assms by (auto simp: parse_unified_diff_def bind_res_Inr)
  have "lines = splitlines_keep s"
    using l(1) by (auto simp: screen_diff_text_def Let_def split: option.splits if_splits)
  then have "concat lines = s" by simp
  with parse_loop_inv [OF l(2) diff_inv_initial] screened_line_shape [OF l(1)]
  have "diff_inv s st" by (auto simp: header_sync_def initial_diff_state_def)
  then show thesis using l(3) that by blast
qed

section \<open>Classification never runs off an empty path\<close>

lemma casefold_char_facts:
  "casefold_char c \<noteq> []" "47 \<in> set (casefold_char c) \<longleftrightarrow> c = 47"
  "casefold_char c = [46] \<longleftrightarrow> c = 46" "casefold_char 47 = [47]"
  by (auto simp: casefold_char_def)

lemma casefold_Cons [simp]: "casefold (c # s) = casefold_char c @ casefold s"
  by (simp add: casefold_def)

lemma casefold_empty [simp]: "casefold [] = []"
  by (simp add: casefold_def)

lemma casefold_Nil [simp]: "casefold s = [] \<longleftrightarrow> s = []"
  by (cases s) (simp_all add: casefold_def casefold_char_facts)

lemma split_on_prepend:
  "c \<notin> set x \<Longrightarrow> split_on c s = y # ys \<Longrightarrow> split_on c (x @ s) = (x @ y) # ys"
  by (induction x) auto

lemma split_casefold: "split_on 47 (casefold s) = map casefold (split_on 47 s)"
proof (induction s)
  case Nil
  then show ?case by (simp add: casefold_def)
next
  case (Cons c s)
  obtain y ys where y: "split_on 47 s = y # ys"
    using split_on_nonempty by (meson neq_Nil_conv)
  show ?case
  proof (cases "c = 47")
    case True
    with Cons show ?thesis by (simp add: casefold_char_facts casefold_def)
  next
    case False
    then show ?thesis
      using Cons y split_on_prepend [of 47 "casefold_char c" "casefold s" "casefold y" "map casefold ys"]
      by (simp add: casefold_char_facts)
  qed
qed

lemma casefold_dot: "casefold x = [46] \<Longrightarrow> x = [46]"
  by (cases x) (auto simp: append_eq_Cons_conv casefold_char_facts)

lemma classify_path_safe:
  assumes "safe_relative_path p"
  shows "\<exists>cls. classify_path p = Inr cls"
proof -
  from assms obtain xs where xs: "xs \<noteq> []" "\<forall>x\<in>set xs. safe_segment x" "p = join_on 47 xs"
    by (auto simp: safe_relative_path_def)
  have split: "split_on 47 (casefold p) = map casefold xs"
    using split_join_on [of xs 47] xs by (auto simp: split_casefold safe_segment_def)
  have "x \<noteq> []" "casefold x \<noteq> [46]" if "x \<in> set xs" for x
    using that xs(2) casefold_dot [of x] by (auto simp: safe_segment_def)
  then have keep: "filter (\<lambda>x. x \<noteq> [] \<and> x \<noteq> [46]) (map casefold xs) = map casefold xs"
    by (auto simp: filter_id_conv)
  have "path_root p = []" using join_safe_root [OF xs(1,2)] xs(3) by simp
  moreover obtain c s where "p = c # s"
    using assms validate_path_complete(2) by (meson neq_Nil_conv)
  ultimately have "path_root (casefold p) = []"
    using casefold_char_facts(1,2) [of c]
    by (cases "casefold_char c") (auto simp: path_root_cases)
  then have "path_parts (casefold p) = map casefold xs"
    using split keep by (simp add: path_parts_def path_tail_def)
  moreover obtain y ys where "rev (map casefold xs) = y # ys"
    using xs(1) by (metis Nil_is_map_conv neq_Nil_conv rev_is_Nil_conv)
  ultimately show ?thesis by (simp add: classify_path_def Let_def)
qed

section \<open>Every rejection is a ValueError\<close>

definition value_error :: "py_error \<Rightarrow> bool" where
  "value_error e \<longleftrightarrow> (\<exists>m. e = ValueError m)"

lemma value_error_simp [simp]: "value_error (ValueError m)"
  by (simp add: value_error_def)

lemma relative_path_errors: "validate_relative_artifact_path p = Inl e \<Longrightarrow> value_error e"
  by (auto simp: validate_relative_artifact_path_def split: if_splits)

lemma validate_path_errors: "validate_path p = Inl e \<Longrightarrow> value_error e"
  by (auto simp: validate_path_def bind_res_Inl relative_path_errors split: if_splits)

lemma header_path_errors: "validated_header_path h pre s = Inl e \<Longrightarrow> value_error e"
  by (auto simp: validated_header_path_def bind_res_Inl validate_path_errors split: if_splits)

lemma hunk_count_errors: "validate_hunk_counts ls oc nc = Inl e \<Longrightarrow> value_error e"
proof -
  have "count_hunk_lines ls a b h p = Inl e \<Longrightarrow> value_error e" for ls a b h p
    by (induction ls a b h p rule: count_hunk_lines.induct)
      (auto split: if_splits list.splits)
  then show "validate_hunk_counts ls oc nc = Inl e \<Longrightarrow> value_error e"
    by (auto simp: validate_hunk_counts_def bind_res_Inl split: if_splits prod.splits)
qed

lemma file_path_headers_errors: "validate_file_path_headers a b c d = Inl e \<Longrightarrow> value_error e"
  unfolding validate_file_path_headers_def
  by (auto simp: bind_res_Inl header_path_errors split: if_splits)

lemma change_metadata_errors: "validate_change_metadata k a b c d f = Inl e \<Longrightarrow> value_error e"
  by (auto simp: validate_change_metadata_def split: if_splits)

lemma on_file_header_errors: "on_file_header g st = Inl e \<Longrightarrow> value_error e"
  by (auto simp: on_file_header_def incomplete_file_error_def bind_res_Inl validate_path_errors
      split: if_splits)

lemma on_file_mode_errors: "on_file_mode l st = Inl e \<Longrightarrow> value_error e"
  by (auto simp: on_file_mode_def split: if_splits)

lemma on_metadata_errors: "on_metadata l st = Inl e \<Longrightarrow> value_error e"
  by (auto simp: on_metadata_def split: if_splits)

lemma on_rename_errors: "on_rename l st = Inl e \<Longrightarrow> value_error e"
  by (auto simp: on_rename_def Let_def bind_res_Inl validate_path_errors split: if_splits)

lemma on_old_header_errors: "on_old_header l st = Inl e \<Longrightarrow> value_error e"
  by (auto simp: on_old_header_def split: if_splits)

lemma on_new_header_errors: "on_new_header l st = Inl e \<Longrightarrow> value_error e"
  by (auto simp: on_new_header_def Let_def bind_res_Inl file_path_headers_errors
      change_metadata_errors split: if_splits option.splits prod.splits)

lemmas branch_errors = on_file_header_errors on_file_mode_errors on_metadata_errors
  on_rename_errors on_old_header_errors on_new_header_errors

lemma on_hunk_errors:
  assumes "on_hunk g ls st = Inl e" "diff_inv seen st"
  shows "value_error e"
proof -
  have "\<exists>cls. classify_path p = Inr cls" if "ds_path st = Some p" for p
    using assms(2) that classify_path_safe by (auto simp: diff_inv_def safe_diff_path_def)
  then show ?thesis using assms(1)
    by (auto simp: on_hunk_def Let_def bind_res_Inl hunk_count_errors
        split: if_splits option.splits prod.splits)
qed

lemma parse_loop_errors:
  assumes "parse_loop lines st = Inl e" "diff_inv seen st" "header_sync st"
    and "\<forall>x\<in>set lines. line_shape x"
  shows "value_error e"
  using assms
proof (induction lines st arbitrary: seen rule: parse_loop.induct)
  case (1 st)
  then show ?case by simp
next
  case (2 line rest st)
  show ?case
  proof (cases "parse_line line rest st")
    case (Inl e')
    with "2.prems"(1) have "parse_line line rest st = Inl e" by simp
    then show ?thesis using on_hunk_errors [OF _ "2.prems"(2)]
      by (auto simp: parse_line_def bind_res_Inl branch_errors split: option.splits if_splits)
  next
    case (Inr r)
    then obtain rest' st1 where s: "parse_line line rest st = Inr (rest', st1)" by (cases r) auto
    from parse_line_inv [OF s "2.prems"(2-4)] obtain took where
      t: "line # rest = took @ rest'" "diff_inv (seen @ concat took) st1" "header_sync st1" by blast
    have "\<forall>x\<in>set rest'. line_shape x" using "2.prems"(4) t(1) by (metis Un_iff set_append)
    then show ?thesis using "2.IH" [OF s refl _ t(2,3)] "2.prems"(1) s by simp
  qed
qed

section \<open>Counting classes\<close>

lemma bump_class_keys: "set (map fst (bump_class c xs)) = insert c (set (map fst xs))"
  by (induction xs rule: bump_class.induct) auto

lemma bump_class_distinct: "distinct (map fst xs) \<Longrightarrow> distinct (map fst (bump_class c xs))"
proof (induction c xs rule: bump_class.induct)
  case (1 c)
  then show ?case by simp
next
  case (2 c d n xs)
  then show ?case using bump_class_keys [of c xs] by auto
qed

lemma bump_class_lookup:
  "map_of (bump_class c xs) =
     (map_of xs)(c \<mapsto> Suc (case map_of xs c of None \<Rightarrow> 0 | Some n \<Rightarrow> n))"
  by (induction c xs rule: bump_class.induct) (auto split: option.splits)

definition class_occurrences :: "path_class \<Rightarrow> parsed_diff_chunk list \<Rightarrow> nat" where
  "class_occurrences c cs = length (filter (\<lambda>ch. ch_classification ch = c) cs)"

lemma count_classes_snoc: "count_classes (cs @ [ch]) = bump_class (ch_classification ch) (count_classes cs)"
  by (simp add: count_classes_def)

lemma count_classes_distinct: "distinct (map fst (count_classes cs))"
  by (induction cs rule: rev_induct)
    (auto simp: count_classes_snoc bump_class_distinct, simp add: count_classes_def)

lemma count_classes_lookup:
  "map_of (count_classes cs) c =
     (if class_occurrences c cs = 0 then None else Some (class_occurrences c cs))"
  by (induction cs rule: rev_induct)
    (auto simp: count_classes_snoc bump_class_lookup class_occurrences_def split: option.splits if_splits,
     simp_all add: count_classes_def)

lemma map_of_sort_key:
  assumes "distinct (map fst xs)"
  shows "map_of (sort_key fst xs) = map_of xs"
proof -
  have "distinct (map fst (sort_key fst xs))"
    using assms by (metis distinct_map distinct_sort set_sort)
  then show ?thesis using assms map_of_inject_set [of "sort_key fst xs" xs] by simp
qed

section \<open>A small diff to run the parser on\<close>

definition sample_lines :: "pystr list" where
  "sample_lines =
     [lit ''diff --git a/x b/x'' @ [10], lit ''--- a/x'' @ [10], lit ''+++ b/x'' @ [10],
      lit ''@@ -1 +1 @@'' @ [10], lit ''-a'' @ [10], lit ''+b'' @ [10]]"

definition sample_diff :: pystr where
  "sample_diff = concat sample_lines"

definition sample_chunk :: parsed_diff_chunk where
  "sample_chunk =
     \<lparr>ch_position = 1, ch_path = lit ''x'', ch_classification = SOURCE, ch_old_start = 1,
      ch_old_count = 1, ch_new_start = 1, ch_new_count = 1,
      ch_text = concat (drop 3 sample_lines)\<rparr>"

definition sample_parsed :: parsed_diff where
  "sample_parsed =
     \<lparr>pd_changed_paths = [lit ''x''], pd_chunks = [sample_chunk],
      pd_classifications = [(SOURCE, 1)], pd_limitations = manual_limitations\<rparr>"

lemmas rx_eval = rx_fullmatch_def rx_then_def rx_bind_def rx_lit_def rx_run_def run_limit_def
  rx_alt_def rx_opt_def rx_ret_def upt_rec is_dot_def is_digit_def

lemma sample_screened: "screen_diff_text (\<lambda>x. x) sample_diff = Inr sample_lines"
  by (simp add: sample_diff_def sample_lines_def screen_diff_text_def encoded_length_def
      is_surrogate_def utf8_width_def is_unsupported_char_def is_control_char_def
      is_format_char_def MAX_DIFF_BYTES_def MAX_DIFF_LINES_def is_line_break_def suffix_def)

lemma sample_file_header:
  "rx_fullmatch FILE_HEADER (lit ''diff --git a/x b/x'' @ [10]) = Some (lit ''x'', lit ''x'')"
  by (simp add: FILE_HEADER_def rx_eval)

lemma sample_hunk_header:
  "rx_fullmatch HUNK_HEADER (lit ''@@ -1 +1 @@'' @ [10]) = Some (lit ''1'', None, lit ''1'', None)"
  by (simp add: HUNK_HEADER_def rx_count_def rx_eval)

lemma sample_not_header:
  "rx_fullmatch FILE_HEADER (lit ''--- a/x'' @ [10]) = None"
  "rx_fullmatch FILE_HEADER (lit ''+++ b/x'' @ [10]) = None"
  "rx_fullmatch FILE_HEADER (lit ''@@ -1 +1 @@'' @ [10]) = None"
  "\<not> is_metadata (lit ''--- a/x'' @ [10])"
  "\<not> is_metadata (lit ''+++ b/x'' @ [10])"
  "\<not> is_metadata (lit ''@@ -1 +1 @@'' @ [10])"
  by (simp_all add: FILE_HEADER_def is_metadata_def INDEX_METADATA_def MODE_METADATA_def
      SIMILARITY_METADATA_def rx_eval)

lemma sample_path: "validate_path (lit ''x'') = Inr ()" "classify_path (lit ''x'') = Inr SOURCE"
  by (simp_all add: validate_path_def suffix_def validate_relative_artifact_path_def
      path_is_absolute_def path_root_def path_parts_def path_tail_def path_str_def
      classify_path_def casefold_char_def security_tokens_def dependency_names_def)

lemma sample_headers:
  "validate_file_path_headers (lit ''x'') (lit ''x'') (lit ''a/x'') (lit ''b/x'')
     = Inr (lit ''x'', MODIFY)"
  using sample_path(1)
  by (simp add: validate_file_path_headers_def validated_header_path_def dev_null_def removeprefix_def)

lemma sample_counts: "validate_hunk_counts (drop 3 sample_lines) 1 1 = Inr ()"
  by (simp add: sample_lines_def validate_hunk_counts_def EOF_MARKER_def)

lemma sample_accepted: "parse_unified_diff (\<lambda>x. x) sample_diff = Inr sample_parsed"
proof -
  let ?l1 = "lit ''diff --git a/x b/x'' @ [10]" and ?l2 = "lit ''--- a/x'' @ [10]"
    and ?l3 = "lit ''+++ b/x'' @ [10]" and ?l4 = "lit ''@@ -1 +1 @@'' @ [10]"
    and ?l5 = "lit ''-a'' @ [10]" and ?l6 = "lit ''+b'' @ [10]"
  define s1 where "s1 = initial_diff_state\<lparr>ds_old_path := Some (lit ''x''),
    ds_new_path := Some (lit ''x''), ds_seen_headers := [(lit ''x'', lit ''x'')]\<rparr>"
  define s2 where "s2 = s1\<lparr>ds_old_header := Some (lit ''a/x'')\<rparr>"
  define s3 where "s3 = s2\<lparr>ds_new_header := Some (lit ''b/x''), ds_path := Some (lit ''x''),
    ds_paths := [lit ''x'']\<rparr>"
  define s4 where "s4 = s3\<lparr>ds_chunks := [sample_chunk], ds_has_hunk := True\<rparr>"
  have "parse_line ?l1 rest initial_diff_state = Inr (rest, s1)" for rest
    using sample_path(1)
    by (simp only: parse_line_def sample_file_header)
      (simp add: on_file_header_def s1_def initial_diff_state_def file_incomplete_def)
  moreover have "parse_line ?l2 rest s1 = Inr (rest, s2)" for rest
    using sample_not_header
    by (simp add: parse_line_def on_old_header_def s2_def s1_def initial_diff_state_def
        removeprefix_def removesuffix_def suffix_def)
  moreover have "parse_line ?l3 rest s2 = Inr (rest, s3)" for rest
    using sample_not_header sample_headers
    by (simp add: parse_line_def on_new_header_def s3_def s2_def s1_def initial_diff_state_def
        removeprefix_def removesuffix_def suffix_def validate_change_metadata_def
        MAX_CHANGED_PATHS_def)
  moreover have "on_hunk (lit ''1'', None, lit ''1'', None) [?l4, ?l5, ?l6] s3 = Inr s4"
    using sample_counts sample_path(2)
    by (simp add: on_hunk_def s4_def s3_def s2_def s1_def initial_diff_state_def count_value_def
        decimal_def dev_null_def sample_lines_def MAX_CHUNK_CHARS_def MAX_CHUNKS_def
        sample_chunk_def)
  then have "parse_line ?l4 [?l5, ?l6] s3 = Inr ([], s4)"
    using sample_not_header sample_hunk_header
    by (simp add: parse_line_def starts_section_def)
  ultimately have "parse_loop sample_lines initial_diff_state = Inr s4"
    by (simp only: sample_lines_def parse_loop.simps sum.case prod.case)
  moreover have "finish_diff s4 = Inr sample_parsed"
    by (simp add: finish_diff_def s4_def s3_def s2_def s1_def initial_diff_state_def
        file_incomplete_def sample_parsed_def count_classes_def sample_chunk_def)
  ultimately show ?thesis using sample_screened by (simp add: parse_unified_diff_def)
qed

section \<open>Properties\<close>

text \<open>C36: an accepted diff names between one and 500 distinct changed paths, in order; each is a
  normalized relative path (no root, drive, traversal, backslash, control character, leading dash
  or quote) and each has at least one hunk.\<close>

theorem accepted_diff_paths_safe:
  assumes "parse_unified_diff redact text = Inr d"
  shows "pd_changed_paths d \<noteq> [] \<and> sorted (pd_changed_paths d) \<and> distinct (pd_changed_paths d) \<and>
    length (pd_changed_paths d) \<le> 500 \<and>
    (\<forall>p\<in>set (pd_changed_paths d). safe_diff_path p \<and> (\<exists>ch\<in>set (pd_chunks d). ch_path ch = p))"
proof -
  from assms obtain st where st: "diff_inv text st" "finish_diff st = Inr d"
    by (rule parse_unified_diff_inv)
  have d: "\<not> file_incomplete st" "ds_paths st \<noteq> []" "pd_changed_paths d = sort (ds_paths st)"
    "pd_chunks d = ds_chunks st"
    using st(2) by (auto simp: finish_diff_def split: if_splits)
  have "\<forall>p\<in>set (ds_paths st). p \<in> ch_path ` set (ds_chunks st)"
    using st(1) d(1) unfolding diff_inv_def file_incomplete_def by fastforce
  then have "\<forall>p\<in>set (ds_paths st). \<exists>ch\<in>set (ds_chunks st). ch_path ch = p" by fastforce
  moreover have "sort (ds_paths st) \<noteq> []" using d(2) by (metis length_0_conv length_sort)
  moreover have "length (ds_paths st) \<le> 500" "distinct (ds_paths st)"
    "\<forall>p\<in>set (ds_paths st). safe_diff_path p"
    using st(1) unfolding diff_inv_def MAX_CHANGED_PATHS_def by blast+
  ultimately show ?thesis unfolding d(3,4) by simp
qed

theorem accepted_diff_paths_safe_witness:
  "pd_changed_paths sample_parsed = [lit ''x''] \<and> safe_diff_path (lit ''x'')"
  using accepted_diff_paths_safe [OF sample_accepted] by (simp add: sample_parsed_def)

text \<open>the chunks of an accepted diff are numbered 1, 2, ... without gaps, at most 2000; each
  belongs to a changed path, carries text that occurs verbatim in the input and is at most 100000
  characters long, changes something, and its coordinates count exactly the context/deleted and
  context/added lines of that text, starting at line 1 or later whenever the range is not empty.\<close>

theorem accepted_chunks_match_their_text:
  assumes "parse_unified_diff redact text = Inr d"
  shows "map ch_position (pd_chunks d) = [1..<Suc (length (pd_chunks d))] \<and>
    length (pd_chunks d) \<le> 2000 \<and>
    (\<forall>ch\<in>set (pd_chunks d). ch_path ch \<in> set (pd_changed_paths d) \<and>
       sublist (ch_text ch) text \<and> length (ch_text ch) \<le> 100000 \<and>
       ch_old_count ch = int (old_lines (ch_text ch)) \<and>
       ch_new_count ch = int (new_lines (ch_text ch)) \<and> 0 < changed_lines (ch_text ch) \<and>
       (0 < ch_old_count ch \<longrightarrow> 1 \<le> ch_old_start ch) \<and>
       (0 < ch_new_count ch \<longrightarrow> 1 \<le> ch_new_start ch))"
proof -
  from assms obtain st where st: "diff_inv text st" "finish_diff st = Inr d"
    by (rule parse_unified_diff_inv)
  have d: "pd_changed_paths d = sort (ds_paths st)" "pd_chunks d = ds_chunks st"
    using st(2) by (auto simp: finish_diff_def split: if_splits)
  show ?thesis
    using st(1) unfolding d diff_inv_def chunk_wf_def MAX_CHUNKS_def MAX_CHUNK_CHARS_def by simp
qed

theorem accepted_chunks_match_their_text_witness:
  "sublist (ch_text sample_chunk) sample_diff \<and> ch_old_count sample_chunk = 1
     \<and> old_lines (ch_text sample_chunk) = 1"
  using accepted_chunks_match_their_text [OF sample_accepted]
  by (simp add: sample_parsed_def sample_chunk_def)

text \<open>the summary of an accepted diff lists each class once, in alphabetical order, exactly
  the classes that occur, each with the number of chunks the path rules put in it; the numbers add
  up to the number of chunks.\<close>

theorem classification_summary_counts:
  assumes "parse_unified_diff redact text = Inr d"
  shows "sorted (map fst (pd_classifications d)) \<and> distinct (map fst (pd_classifications d)) \<and>
    (\<forall>c n. map_of (pd_classifications d) c = Some n \<longleftrightarrow>
       0 < n \<and> n = length (filter (\<lambda>ch. classify_path (ch_path ch) = Inr c) (pd_chunks d))) \<and>
    sum_list (map snd (pd_classifications d)) = length (pd_chunks d)"
proof -
  from assms obtain st where st: "diff_inv text st" "finish_diff st = Inr d"
    by (rule parse_unified_diff_inv)
  have d: "pd_classifications d = sort_key fst (count_classes (pd_chunks d))"
    "pd_chunks d = ds_chunks st"
    using st(2) by (auto simp: finish_diff_def split: if_splits)
  have wf: "classify_path (ch_path ch) = Inr (ch_classification ch)" if "ch \<in> set (pd_chunks d)" for ch
    using st(1) that unfolding d(2) diff_inv_def chunk_wf_def by blast
  have occ: "class_occurrences c (pd_chunks d)
      = length (filter (\<lambda>ch. classify_path (ch_path ch) = Inr c) (pd_chunks d))" for c
    unfolding class_occurrences_def
    by (rule arg_cong [where f = length], rule filter_cong) (auto simp: wf)
  have "map_of (pd_classifications d) c = map_of (count_classes (pd_chunks d)) c" for c
    using map_of_sort_key [OF count_classes_distinct] d(1) by simp
  moreover have "sum_list (map snd (bump_class c xs)) = Suc (sum_list (map snd xs))" for c xs
    by (induction c xs rule: bump_class.induct) auto
  then have "sum_list (map snd (count_classes cs)) = length cs" for cs
    by (induction cs rule: rev_induct) (simp_all add: count_classes_snoc, simp add: count_classes_def)
  moreover have "sum_list (map snd (sort_key fst xs)) = sum_list (map snd xs)"
    for xs :: "(path_class \<times> nat) list"
    by (rule sum_list_sort_key)
  moreover have "distinct (map fst (pd_classifications d))"
    using count_classes_distinct [of "pd_chunks d"] unfolding d(1)
    by (metis distinct_map distinct_sort set_sort)
  ultimately show ?thesis
    using occ by (auto simp: d(1) count_classes_lookup)
qed

theorem classification_summary_counts_witness:
  "map_of (pd_classifications sample_parsed) SOURCE = Some 1"
proof -
  have "length (filter (\<lambda>ch. classify_path (ch_path ch) = Inr SOURCE) (pd_chunks sample_parsed)) = 1"
    using sample_path(2) by (simp add: sample_parsed_def sample_chunk_def)
  then show ?thesis using classification_summary_counts [OF sample_accepted] by simp
qed

text \<open>a citation is accepted exactly when its side is OLD or NEW, its line is positive, and
  some chunk of the cited path covers that line on that side.\<close>

theorem citation_in_diff_iff:
  "citation_in_diff cs p side_text line \<longleftrightarrow>
     (\<exists>s. parse_side side_text = Some s \<and> 1 \<le> line \<and>
        (\<exists>ch\<in>set cs. ch_path ch = p \<and> chunk_start s ch \<le> line
           \<and> line < chunk_start s ch + chunk_count s ch))"
proof -
  have "citation_in_chunks cs p s line \<longleftrightarrow>
      (\<exists>ch\<in>set cs. ch_path ch = p \<and> chunk_start s ch \<le> line
         \<and> line < chunk_start s ch + chunk_count s ch)" for s
    by (induction cs p s line rule: citation_in_chunks.induct) auto
  then show ?thesis by (auto simp: citation_in_diff_def split: option.splits)
qed

text \<open>text the parser accepts is at most a million UTF-8 bytes in at most 30000 lines, every
  line ends in a newline and holds no other line break, carriage return, control, format or
  surrogate character, and redaction leaves it unchanged (it holds no credential).\<close>

theorem accepted_text_is_clean:
  assumes "parse_unified_diff redact text = Inr d"
  shows "redact text = text \<and>
    (\<exists>n. encoded_length text = Some n \<and> 0 < n \<and> n \<le> 1000000) \<and>
    length (splitlines_keep text) \<le> 30000 \<and>
    (\<forall>l\<in>set (splitlines_keep text). line_shape l) \<and>
    (\<forall>c\<in>set text. \<not> is_unsupported_char c \<and> c \<noteq> 13)"
proof -
  obtain lines where l: "screen_diff_text redact text = Inr lines"
    using assms by (auto simp: parse_unified_diff_def bind_res_Inr)
  then have "lines = splitlines_keep text"
    by (auto simp: screen_diff_text_def Let_def split: option.splits if_splits)
  then show ?thesis using l screened_line_shape [OF l]
    by (auto simp: screen_diff_text_def Let_def list_ex_iff MAX_DIFF_BYTES_def MAX_DIFF_LINES_def
        split: option.splits if_splits)
qed

theorem accepted_text_is_clean_witness:
  "encoded_length sample_diff \<noteq> None \<and> length (splitlines_keep sample_diff) \<le> 30000
     \<and> 13 \<notin> set sample_diff"
  using accepted_text_is_clean [OF sample_accepted] by blast

text \<open>C37: whatever the input, a diff that is not accepted is refused with a ValueError; in
  particular no input makes the path classifier index an empty path.\<close>

theorem rejected_diff_is_value_error:
  assumes "parse_unified_diff redact text = Inl e"
  shows "\<exists>message. e = ValueError message"
proof (cases "screen_diff_text redact text")
  case (Inl e')
  with assms have "screen_diff_text redact text = Inl e" by (simp add: parse_unified_diff_def)
  then show ?thesis
    by (auto simp: screen_diff_text_def Let_def split: option.splits if_splits)
next
  case (Inr lines)
  have "parse_loop lines initial_diff_state = Inl e \<Longrightarrow> value_error e"
    using parse_loop_errors [OF _ diff_inv_initial] screened_line_shape [OF Inr]
    by (auto simp: header_sync_def initial_diff_state_def)
  moreover have "finish_diff st = Inl e \<Longrightarrow> value_error e" for st
    by (auto simp: finish_diff_def incomplete_file_error_def split: if_splits)
  ultimately have "value_error e"
    using assms Inr by (auto simp: parse_unified_diff_def bind_res_Inl)
  then show ?thesis by (simp add: value_error_def)
qed

text \<open>A diff that stops after its first file header passes the screen and is refused by the line machine.\<close>

lemma sample_refused:
  "parse_unified_diff (\<lambda>x. x) (hd sample_lines)
     = Inl (ValueError ''Every changed file must contain matching path headers and a hunk'')"
proof -
  let ?l = "lit ''diff --git a/x b/x'' @ [10]"
  let ?s = "initial_diff_state\<lparr>ds_old_path := Some (lit ''x''), ds_new_path := Some (lit ''x''),
    ds_seen_headers := [(lit ''x'', lit ''x'')]\<rparr>"
  have "parse_line ?l [] initial_diff_state = Inr ([], ?s)"
    using sample_path(1)
    by (simp only: parse_line_def sample_file_header)
      (simp add: on_file_header_def initial_diff_state_def file_incomplete_def)
  then have "parse_loop [?l] initial_diff_state = Inr ?s" by (simp only: parse_loop.simps sum.case prod.case)
  moreover have "screen_diff_text (\<lambda>x. x) ?l = Inr [?l]"
    by (simp add: screen_diff_text_def encoded_length_def is_surrogate_def utf8_width_def is_unsupported_char_def
        is_control_char_def is_format_char_def MAX_DIFF_BYTES_def MAX_DIFF_LINES_def is_line_break_def suffix_def)
  moreover have "finish_diff ?s = Inl incomplete_file_error"
    by (simp add: finish_diff_def initial_diff_state_def file_incomplete_def)
  ultimately have "parse_unified_diff (\<lambda>x. x) ?l = Inl incomplete_file_error" by (simp add: parse_unified_diff_def)
  then show ?thesis by (simp only: sample_lines_def list.sel incomplete_file_error_def)
qed

theorem rejected_diff_is_value_error_witness:
  "\<exists>e. parse_unified_diff (\<lambda>x. x) (hd sample_lines) = Inl e \<and> (\<exists>message. e = ValueError message)
     \<and> parse_unified_diff (\<lambda>x. x) sample_diff = Inr sample_parsed"
  using rejected_diff_is_value_error [OF sample_refused] sample_refused sample_accepted by blast

text \<open>the artifact-path screen accepts exactly the empty reference, the single dot, and the
  slash-separated lists of ordinary names of at most 2000 characters.\<close>

theorem artifact_path_screen_exact:
  "validate_relative_artifact_path s = Inr () \<longleftrightarrow> s = [] \<or> s = lit ''.'' \<or> safe_relative_path s"
proof -
  have "validate_relative_artifact_path [] = Inr ()" "validate_relative_artifact_path (lit ''.'') = Inr ()"
    by (simp_all add: validate_relative_artifact_path_def path_is_absolute_def path_root_def
        path_parts_def path_tail_def path_str_def)
  then show ?thesis using validate_path_sound validate_path_complete by blast
qed

end
