(* ===== verification/Json.thy ===== *)
theory Json
  imports PyText
begin

text \<open>
  JSON values as the code passes them around (\<^verbatim>\<open>dict[str, object]\<close> payloads): dictionaries keep
  their insertion order.  A float is kept as its IEEE 754 bit pattern; no modelled operation
  computes with one.
\<close>

datatype json =
    JNull
  | JBool bool
  | JInt int
  | JFloat int
  | JStr pystr
  | JList "json list"
  | JDict "(pystr \<times> json) list"

definition json_get :: "(pystr \<times> json) list \<Rightarrow> pystr \<Rightarrow> json option" where
  "json_get items k = map_of items k"

text \<open>Nesting depth and number of nodes, as the structured-source limits count them.\<close>

fun json_depth :: "json \<Rightarrow> nat" where
  "json_depth (JList xs) = fold max (map (\<lambda>x. Suc (json_depth x)) xs) 0"
| "json_depth (JDict xs) = fold max (map (\<lambda>p. Suc (json_depth (snd p))) xs) 0"
| "json_depth _ = 0"

fun json_nodes :: "json \<Rightarrow> nat" where
  "json_nodes (JList xs) = Suc (sum_list (map json_nodes xs))"
| "json_nodes (JDict xs) = Suc (sum_list (map (\<lambda>p. json_nodes (snd p)) xs))"
| "json_nodes _ = 1"

text \<open>The children the code pushes on its work stacks, in order.\<close>

definition json_children :: "json \<Rightarrow> json list" where
  "json_children v = (case v of JList xs \<Rightarrow> xs | JDict xs \<Rightarrow> map snd xs | _ \<Rightarrow> [])"

lemma json_nodes_children: "json_nodes v = Suc (sum_list (map json_nodes (json_children v)))"
  by (cases v) (simp_all add: json_children_def o_def)

lemma json_child_smaller:
  assumes "x \<in> set (json_children v)"
  shows "json_nodes x < json_nodes v"
proof -
  have "json_nodes x \<le> sum_list (map json_nodes (json_children v))"
    using assms by (intro member_le_sum_list) simp_all
  then show ?thesis using json_nodes_children [of v] by simp
qed

text \<open>
  Python's \<^verbatim>\<open>==\<close> on such values: dictionaries are compared as maps, \<^verbatim>\<open>True\<close> equals \<^verbatim>\<open>1\<close>.  Two
  floats are compared by their bits, so that \<^verbatim>\<open>0.0 == -0.0\<close> and \<^verbatim>\<open>1 == 1.0\<close> are not seen.
\<close>

function (sequential) json_same :: "json \<Rightarrow> json \<Rightarrow> bool" where
  "json_same (JDict xs) (JDict ys) \<longleftrightarrow>
     length xs = length ys
     \<and> list_all (\<lambda>p. case map_of ys (fst p) of None \<Rightarrow> False | Some v \<Rightarrow> json_same (snd p) v) xs"
| "json_same (JList xs) (JList ys) \<longleftrightarrow>
     length xs = length ys \<and> list_all (\<lambda>p. json_same (fst p) (snd p)) (zip xs ys)"
| "json_same (JBool a) (JInt n) \<longleftrightarrow> n = (if a then 1 else 0)"
| "json_same (JInt n) (JBool a) \<longleftrightarrow> n = (if a then 1 else 0)"
| "json_same (JBool a) (JBool b) \<longleftrightarrow> a = b"
| "json_same (JInt m) (JInt n) \<longleftrightarrow> m = n"
| "json_same (JFloat m) (JFloat n) \<longleftrightarrow> m = n"
| "json_same (JStr a) (JStr b) \<longleftrightarrow> a = b"
| "json_same JNull JNull \<longleftrightarrow> True"
| "json_same _ _ \<longleftrightarrow> False"
  by pat_completeness auto
termination
proof (relation "measure (\<lambda>(v, w). size v)", goal_cases)
  case 1
  show ?case by simp
next
  case (2 xs ys p v)
  have "size (snd p) \<le> size_prod (\<lambda>_. 0) size p" by (simp add: size_prod_simp)
  then show ?case using 2 size_list_estimation' [of p xs "size (snd p)" "size_prod (\<lambda>_. 0) size"]
    by (simp add: less_Suc_eq_le)
next
  case (3 xs ys p)
  then have "fst p \<in> set xs" by (metis in_set_zipE prod.collapse)
  then show ?case using size_list_estimation' [of "fst p" xs "size (fst p)" size]
    by (simp add: less_Suc_eq_le split_beta)
qed

fun json_distinct_keys :: "json \<Rightarrow> bool" where
  "json_distinct_keys (JDict xs) \<longleftrightarrow>
     distinct (map fst xs) \<and> list_all (\<lambda>p. json_distinct_keys (snd p)) xs"
| "json_distinct_keys (JList xs) \<longleftrightarrow> list_all json_distinct_keys xs"
| "json_distinct_keys _ \<longleftrightarrow> True"

lemma json_same_refl: "json_distinct_keys v \<Longrightarrow> json_same v v"
proof (induction v)
  case (JList xs)
  then show ?case by (simp add: list_all_iff zip_same_conv_map)
next
  case (JDict xs)
  have "json_same (snd p) (snd p)" if "p \<in> set xs" for p
    using JDict that by (cases p) (auto simp: list_all_iff)
  moreover have "map_of xs (fst p) = Some (snd p)" if "p \<in> set xs" for p
    using JDict.prems that by simp
  ultimately show ?case by (simp add: list_all_iff)
qed simp_all

end
