(* ===== verification/Uuid.thy ===== *)
theory Uuid
  imports PyText
begin

text \<open>
  UUID identifiers.  A \<^verbatim>\<open>uuid.UUID\<close> value is the 128-bit number it stands for; \<open>uuid_str\<close> is
  \<^verbatim>\<open>str(u)\<close> (lower-case hexadecimal in groups of 8-4-4-4-12) and \<open>parse_uuid\<close> is the constructor
  \<^verbatim>\<open>uuid.UUID(text)\<close>, \<open>None\<close> being its \<^verbatim>\<open>ValueError\<close>.  The constructor reads any spelling that
  \<^verbatim>\<open>int(_, 16)\<close> reads once the \<^verbatim>\<open>urn:\<close>, \<^verbatim>\<open>uuid:\<close>, brace and dash decoration is gone; of those
  the model reads the ASCII ones.
\<close>

type_synonym uuid = nat

definition hex_char :: "nat \<Rightarrow> nat" where
  "hex_char d = (if d < 10 then 48 + d else 87 + d)"

definition hex_value :: "nat \<Rightarrow> nat option" where
  "hex_value c =
     (if 48 \<le> c \<and> c \<le> 57 then Some (c - 48)
      else if 97 \<le> c \<and> c \<le> 102 then Some (c - 87)
      else if 65 \<le> c \<and> c \<le> 70 then Some (c - 55)
      else None)"

fun hex_digits :: "nat \<Rightarrow> nat \<Rightarrow> pystr" where
  "hex_digits 0 n = []"
| "hex_digits (Suc k) n = hex_digits k (n div 16) @ [hex_char (n mod 16)]"

definition uuid_str :: "uuid \<Rightarrow> pystr" where
  "uuid_str u =
     (let h = hex_digits 32 u
      in take 8 h @ 45 # take 4 (drop 8 h) @ 45 # take 4 (drop 12 h) @ 45 # take 4 (drop 16 h)
         @ 45 # drop 20 h)"

text \<open>\<^verbatim>\<open>s.replace(t, "")\<close> for nonempty \<^verbatim>\<open>t\<close>: leftmost, non-overlapping.\<close>

fun remove_all :: "nat \<Rightarrow> pystr \<Rightarrow> pystr \<Rightarrow> pystr" where
  "remove_all skip t [] = []"
| "remove_all (Suc skip) t (c # cs) = remove_all skip t cs"
| "remove_all 0 t (c # cs) =
     (if prefix t (c # cs) then remove_all (length t - 1) t cs else c # remove_all 0 t cs)"

fun hex_number :: "nat \<Rightarrow> bool \<Rightarrow> pystr \<Rightarrow> nat option" where
  "hex_number acc after_digit [] = (if after_digit then Some acc else None)"
| "hex_number acc after_digit (c # cs) =
     (if c = 95 then (if after_digit then hex_number acc False cs else None)
      else (case hex_value c of None \<Rightarrow> None | Some v \<Rightarrow> hex_number (16 * acc + v) True cs))"

text \<open>\<^verbatim>\<open>int(s, 16)\<close> restricted to the results \<^verbatim>\<open>UUID\<close> keeps (non-negative ones).\<close>

definition int16 :: "pystr \<Rightarrow> nat option" where
  "int16 s =
     (let t = strip s;
          neg = startswith t [45];
          u = (if startswith t [43] \<or> neg then tl t else t);
          v = (if startswith u (lit ''0x'') \<or> startswith u (lit ''0X'')
               then (if startswith (drop 2 u) [95] then drop 3 u else drop 2 u) else u)
      in case hex_number 0 False v of
           None \<Rightarrow> None
         | Some n \<Rightarrow> if neg \<and> n \<noteq> 0 then None else Some n)"

definition strip_braces :: "pystr \<Rightarrow> pystr" where
  "strip_braces s =
     (let brace = (\<lambda>c. c = 123 \<or> c = 125)
      in rev (dropWhile brace (rev (dropWhile brace s))))"

definition parse_uuid :: "pystr \<Rightarrow> uuid option" where
  "parse_uuid text =
     (let h = remove_all 0 (lit ''uuid:'') (remove_all 0 (lit ''urn:'') text);
          g = remove_all 0 [45] (strip_braces h)
      in if length g \<noteq> 32 then None else int16 g)"

section \<open>Round trip\<close>

lemma hex_value_hex_char: "d < 16 \<Longrightarrow> hex_value (hex_char d) = Some d"
  by (auto simp: hex_value_def hex_char_def)

lemma hex_char_range: "d < 16 \<Longrightarrow> is_digit (hex_char d) \<or> (97 \<le> hex_char d \<and> hex_char d \<le> 102)"
  by (auto simp: hex_char_def is_digit_def)

definition is_hex_lower :: "nat \<Rightarrow> bool" where
  "is_hex_lower c \<longleftrightarrow> (48 \<le> c \<and> c \<le> 57) \<or> (97 \<le> c \<and> c \<le> 102)"

lemma length_hex_digits [simp]: "length (hex_digits k n) = k"
  by (induction k arbitrary: n) simp_all

lemma hex_digits_lower: "c \<in> set (hex_digits k n) \<Longrightarrow> is_hex_lower c"
  by (induction k arbitrary: n) (auto simp: is_hex_lower_def hex_char_def split: if_splits)

lemma hex_number_append:
  "(\<forall>c\<in>set xs. is_hex_lower c) \<Longrightarrow> xs \<noteq> [] \<Longrightarrow>
     hex_number acc b (xs @ ys) = hex_number (the (hex_number acc True xs)) True ys"
proof (induction xs arbitrary: acc b)
  case Nil
  then show ?case by simp
next
  case (Cons c xs)
  then have c: "is_hex_lower c" by simp
  then obtain v where v: "hex_value c = Some v" "c \<noteq> 95"
    by (auto simp: is_hex_lower_def hex_value_def)
  show ?case
  proof (cases "xs = []")
    case True
    with v show ?thesis by simp
  next
    case False
    with v Cons show ?thesis by simp
  qed
qed

lemma hex_number_digits:
  "n < 16 ^ k \<Longrightarrow> hex_number acc True (hex_digits k n) = Some (acc * 16 ^ k + n)"
proof (induction k arbitrary: n)
  case 0
  then show ?case by simp
next
  case (Suc k)
  have n: "n div 16 < 16 ^ k" using Suc.prems by (simp add: less_mult_imp_div_less mult.commute)
  have IH: "hex_number acc True (hex_digits k (n div 16)) = Some (acc * 16 ^ k + n div 16)"
    using Suc.IH [OF n] .
  have c: "hex_value (hex_char (n mod 16)) = Some (n mod 16)" "hex_char (n mod 16) \<noteq> 95"
    by (simp add: hex_value_hex_char) (simp add: hex_char_def)
  show ?case
  proof (cases k)
    case 0
    with Suc.prems c show ?thesis by simp
  next
    case (Suc j)
    then have "hex_digits k (n div 16) \<noteq> []" by (metis length_hex_digits list.size(3) nat.distinct(1))
    then have "hex_number acc True (hex_digits (Suc k) n)
        = hex_number (acc * 16 ^ k + n div 16) True [hex_char (n mod 16)]"
      using hex_number_append [of "hex_digits k (n div 16)" acc True] hex_digits_lower IH by simp
    with c show ?thesis by (simp add: algebra_simps)
  qed
qed

lemma hex_number_start: "xs \<noteq> [] \<Longrightarrow> \<forall>c\<in>set xs. is_hex_lower c \<Longrightarrow>
    hex_number acc b xs = hex_number acc True xs"
  by (cases xs) (auto simp: is_hex_lower_def)

lemma remove_all_absent: "hd t \<notin> set s \<Longrightarrow> t \<noteq> [] \<Longrightarrow> remove_all 0 t s = s"
  by (induction s) (auto simp: prefix_Cons neq_Nil_conv)

lemma remove_dashes: "remove_all 0 [45] s = filter (\<lambda>c. c \<noteq> 45) s"
  by (induction s) (auto simp: prefix_Cons)

lemma dropWhile_head: "s = c # r \<Longrightarrow> \<not> p c \<Longrightarrow> dropWhile p s = s"
  by simp

lemma strip_gen_id:
  assumes "\<forall>c\<in>set s. \<not> p c"
  shows "rev (dropWhile p (rev (dropWhile p s))) = s"
proof -
  have d: "dropWhile p t = t" if "\<forall>c\<in>set t. \<not> p c" for t
    using that by (cases t) auto
  from d [of s] d [of "rev s"] assms show ?thesis by simp
qed

lemma filter_hex_digits: "filter (\<lambda>c. c \<noteq> 45) (hex_digits k n) = hex_digits k n"
proof -
  have "45 \<notin> set (hex_digits k n)"
    using hex_digits_lower [of 45 k n] by (auto simp: is_hex_lower_def)
  then show ?thesis by (auto simp: filter_id_conv)
qed

lemma regroup:
  "take 8 h @ take 4 (drop 8 h) @ take 4 (drop 12 h) @ take 4 (drop 16 h) @ drop 20 h = h"
  using append_take_drop_id [of 8 h] append_take_drop_id [of 4 "drop 8 h"]
    append_take_drop_id [of 4 "drop 12 h"] append_take_drop_id [of 4 "drop 16 h"]
  by (simp add: add.commute)

lemma filter_absent: "a \<notin> set h \<Longrightarrow> filter (\<lambda>c. c \<noteq> a) h = h"
  by (auto simp: filter_id_conv)

lemma uuid_str_undash: "filter (\<lambda>c. c \<noteq> 45) (uuid_str u) = hex_digits 32 u"
proof -
  define h where "h = hex_digits 32 u"
  have no: "45 \<notin> set h"
    using hex_digits_lower [of 45 32 u] unfolding h_def by (auto simp: is_hex_lower_def)
  have sub: "filter (\<lambda>c. c \<noteq> 45) (take i (drop j h)) = take i (drop j h)" for i j
    using no by (intro filter_absent) (auto dest!: in_set_takeD in_set_dropD)
  have dr: "filter (\<lambda>c. c \<noteq> 45) (drop 20 h) = drop 20 h"
    using no by (intro filter_absent) (auto dest!: in_set_dropD)
  have "filter (\<lambda>c. c \<noteq> 45) (uuid_str u) = h"
    using sub [of 8 0] sub [of 4 8] sub [of 4 12] sub [of 4 16] dr regroup [of h]
    unfolding uuid_str_def Let_def h_def [symmetric] by simp
  then show ?thesis unfolding h_def .
qed

lemma uuid_str_chars: "c \<in> set (uuid_str u) \<Longrightarrow> is_hex_lower c \<or> c = 45"
proof -
  define h where "h = hex_digits 32 u"
  have low: "is_hex_lower c" if "c \<in> set h" for c using hex_digits_lower that h_def by blast
  show "c \<in> set (uuid_str u) \<Longrightarrow> is_hex_lower c \<or> c = 45"
    unfolding uuid_str_def Let_def h_def [symmetric]
    by (auto dest!: in_set_takeD in_set_dropD intro: low)
qed

lemma int16_plain:
  assumes "\<forall>c\<in>set h. is_hex_lower c" and "h \<noteq> []"
  shows "int16 h = hex_number 0 True h"
proof -
  have plain: "\<forall>c\<in>set h. \<not> is_space c" "43 \<notin> set h" "45 \<notin> set h" "120 \<notin> set h" "88 \<notin> set h"
    using assms(1) by (fastforce simp: is_hex_lower_def is_space_def)+
  have "strip h = h" unfolding strip_def by (rule strip_gen_id) (rule plain(1))
  moreover have "\<not> prefix [45] h" "\<not> prefix [43] h" "\<not> prefix (lit ''0x'') h" "\<not> prefix (lit ''0X'') h"
    using plain by (auto simp: prefix_def)
  ultimately show ?thesis
    using hex_number_start [OF assms(2,1), of 0 False]
    by (simp add: int16_def Let_def split: option.splits)
qed

lemma parse_uuid_str: "u < 2 ^ 128 \<Longrightarrow> parse_uuid (uuid_str u) = Some u"
proof -
  assume "u < 2 ^ 128"
  then have u: "u < 16 ^ 32" by simp
  define h where "h = hex_digits 32 u"
  have chars: "\<forall>c\<in>set (uuid_str u). c \<noteq> 117 \<and> c \<noteq> 123 \<and> c \<noteq> 125"
    using uuid_str_chars [of 117 u] uuid_str_chars [of 123 u] uuid_str_chars [of 125 u]
    by (auto simp: is_hex_lower_def)
  have dec: "remove_all 0 (lit ''uuid:'') (remove_all 0 (lit ''urn:'') (uuid_str u)) = uuid_str u"
    using chars by (auto simp: remove_all_absent)
  have brace: "strip_braces (uuid_str u) = uuid_str u"
    unfolding strip_braces_def Let_def using chars by (intro strip_gen_id) blast
  have low: "\<forall>c\<in>set h. is_hex_lower c" using hex_digits_lower h_def by blast
  have len: "length h = 32" by (simp only: h_def length_hex_digits)
  then have ne: "h \<noteq> []" by auto
  have "int16 h = Some u"
    using int16_plain [OF low ne] hex_number_digits [OF u, of 0, folded h_def] by simp
  then show ?thesis
    unfolding parse_uuid_def Let_def dec brace remove_dashes uuid_str_undash h_def [symmetric]
    using len by simp
qed

lemma uuid_str_inj: "u < 2 ^ 128 \<Longrightarrow> v < 2 ^ 128 \<Longrightarrow> uuid_str u = uuid_str v \<Longrightarrow> u = v"
  by (metis option.inject parse_uuid_str)

end
