(* ===== verification/CanonicalJson.thy ===== *)
theory CanonicalJson
  imports Json Uuid "HOL-Library.List_Lexorder"
begin

text \<open>
  \<^verbatim>\<open>canonical_payload_bytes\<close> of \<^verbatim>\<open>src/anva/core/models.py\<close>:
  \<^verbatim>\<open>json.dumps(payload, ensure_ascii=False, separators=(",", ":"), sort_keys=True, allow_nan=False)\<close>,
  the text every content hash of the program is taken of.  A \<^verbatim>\<open>str\<close> is what \<^verbatim>\<open>.encode()\<close> makes
  UTF-8 of, one to one, so the model hashes the text.  \<^verbatim>\<open>float.__repr__\<close> is a parameter.
\<close>

section \<open>The encoder\<close>

function nat_text :: "nat \<Rightarrow> pystr" where
  "nat_text n = (if n < 10 then [48 + n] else nat_text (n div 10) @ [48 + n mod 10])"
  by pat_completeness auto
termination by (relation "measure id") simp_all

declare nat_text.simps [simp del]

definition int_text :: "int \<Rightarrow> pystr" where
  "int_text i = (if i < 0 then 45 # nat_text (nat (- i)) else nat_text (nat i))"

definition escaped :: "nat \<Rightarrow> pystr" where
  "escaped c =
     (if c = 34 then [92, 34] else if c = 92 then [92, 92]
      else if c = 10 then 92 # lit ''n'' else if c = 13 then 92 # lit ''r''
      else if c = 9 then 92 # lit ''t'' else if c = 12 then 92 # lit ''f''
      else if c = 8 then 92 # lit ''b''
      else if c < 32 then (92 # lit ''u00'') @ [hex_char (c div 16), hex_char (c mod 16)]
      else [c])"

definition string_text :: "pystr \<Rightarrow> pystr" where
  "string_text s = 34 # concat (map escaped s) @ [34]"

fun json_text :: "(int \<Rightarrow> pystr) \<Rightarrow> json \<Rightarrow> pystr" where
  "json_text fr JNull = lit ''null''"
| "json_text fr (JBool b) = lit (if b then ''true'' else ''false'')"
| "json_text fr (JInt i) = int_text i"
| "json_text fr (JFloat x) = fr x"
| "json_text fr (JStr s) = string_text s"
| "json_text fr (JList vs) = 91 # join_on 44 (map (json_text fr) vs) @ [93]"
| "json_text fr (JDict items) =
     123 # join_on 44 (map (\<lambda>p. string_text (fst p) @ 58 # json_text fr (snd p)) items) @ [125]"

text \<open>\<^verbatim>\<open>sort_keys\<close>: the items of every dictionary in the order of their keys.\<close>

fun sorted_keys :: "json \<Rightarrow> json" where
  "sorted_keys (JList vs) = JList (map sorted_keys vs)"
| "sorted_keys (JDict items) = JDict (sort_key fst (map (\<lambda>p. (fst p, sorted_keys (snd p))) items))"
| "sorted_keys v = v"

text \<open>NaN and the infinities have every exponent bit set.\<close>

definition finite_float :: "int \<Rightarrow> bool" where
  "finite_float x \<longleftrightarrow> (x div 2 ^ 52) mod 2 ^ 11 \<noteq> 2047"

fun json_finite :: "json \<Rightarrow> bool" where
  "json_finite (JFloat x) \<longleftrightarrow> finite_float x"
| "json_finite (JList vs) \<longleftrightarrow> list_all json_finite vs"
| "json_finite (JDict items) \<longleftrightarrow> list_all (\<lambda>p. json_finite (snd p)) items"
| "json_finite _ \<longleftrightarrow> True"

definition canonical_text :: "(int \<Rightarrow> pystr) \<Rightarrow> json \<Rightarrow> pystr result" where
  "canonical_text fr v =
     (if \<not> json_finite v then Inl (ValueError ''Out of range float values are not JSON compliant'')
      else let text = json_text fr (sorted_keys v)
           in if list_ex is_surrogate text then Inl (ValueError ''surrogates not allowed'') else Inr text)"

section \<open>One text, one value\<close>

lemma nat_text_digits: "nat_text n \<noteq> []" "list_all (\<lambda>c. 48 \<le> c \<and> c \<le> 57) (nat_text n)"
proof (induction n rule: nat_text.induct)
  case (1 n)
  { case 1 show ?case by (subst nat_text.simps) simp }
  { case 2
    show ?case
    proof (cases "n < 10")
      case True
      then show ?thesis by (subst nat_text.simps) simp
    next
      case False
      have "n mod 10 < 10" by simp
      then have "n mod 10 \<le> 9" by linarith
      then show ?thesis using False "1.IH"(2) by (subst nat_text.simps) simp
    qed }
qed

fun text_nat :: "nat \<Rightarrow> pystr \<Rightarrow> nat" where
  "text_nat acc [] = acc"
| "text_nat acc (c # cs) = text_nat (10 * acc + (c - 48)) cs"

lemma text_nat_append: "text_nat acc (s @ [c]) = 10 * text_nat acc s + (c - 48)"
  by (induction s arbitrary: acc) simp_all

lemma text_nat_text [simp]: "text_nat 0 (nat_text n) = n"
proof (induction n rule: nat_text.induct)
  case (1 n)
  then show ?case
    by (subst nat_text.simps) (simp add: text_nat_append)
qed

lemma nat_text_head: "nat_text n \<noteq> 45 # xs"
  using nat_text_digits(2) [of n] by auto

lemma int_text_inj: "int_text i = int_text j \<Longrightarrow> i = j"
proof -
  assume eq: "int_text i = int_text j"
  have inj: "nat_text m = nat_text n \<Longrightarrow> m = n" for m n
    by (metis text_nat_text)
  show "i = j"
    using eq nat_text_head nat_text_head [THEN not_sym] by (auto simp: int_text_def split: if_splits dest!: inj)
qed

section \<open>Numbers and strings are self-delimiting\<close>

text \<open>What a number's text is made of, and what may follow a value.\<close>

definition number_char :: "nat \<Rightarrow> bool" where
  "number_char c \<longleftrightarrow> 48 \<le> c \<and> c \<le> 57 \<or> c \<in> {43, 45, 46, 101}"

definition value_ends :: "pystr \<Rightarrow> bool" where
  "value_ends s \<longleftrightarrow> s = [] \<or> hd s \<in> {44, 93, 125}"

text \<open>
  What the model relies on of \<^verbatim>\<open>float.__repr__\<close>: digits with a point or an exponent, and floats
  with the same text are the same float.
\<close>

definition float_texts :: "(int \<Rightarrow> pystr) \<Rightarrow> bool" where
  "float_texts fr \<longleftrightarrow>
     inj fr \<and> (\<forall>x. list_all number_char (fr x) \<and> (46 \<in> set (fr x) \<or> 101 \<in> set (fr x)))"

lemma int_text_number: "list_all number_char (int_text i)" "int_text i \<noteq> []" "46 \<notin> set (int_text i)"
    "101 \<notin> set (int_text i)"
  using nat_text_digits [of "nat (- i)"] nat_text_digits [of "nat i"]
  by (auto simp: int_text_def number_char_def list_all_iff)

lemma value_ends_number: "value_ends s \<Longrightarrow> takeWhile number_char s = []"
  by (cases s) (auto simp: value_ends_def number_char_def)

lemma number_unique:
  assumes "list_all number_char a" "list_all number_char b" "value_ends s" "value_ends t" "a @ s = b @ t"
  shows "a = b \<and> s = t"
proof -
  have whole: "takeWhile number_char (x @ u) = x" if "list_all number_char x" "value_ends u" for x u
    using that value_ends_number [of u] by (simp add: takeWhile_append list_all_iff)
  have "a = b" using assms whole [of a s] whole [of b t] by metis
  then show ?thesis using assms(5) by simp
qed

definition unescape :: "pystr \<Rightarrow> nat \<times> pystr" where
  "unescape s =
     (case s of
        a # b # r \<Rightarrow>
          if a \<noteq> 92 then (a, b # r)
          else if b = 117 then (16 * the (hex_value (r ! 2)) + the (hex_value (r ! 3)), drop 4 r)
          else (if b = 110 then 10 else if b = 114 then 13 else if b = 116 then 9 else if b = 102 then 12
                else if b = 98 then 8 else b, r)
      | _ \<Rightarrow> (hd s, []))"

lemma unescape_escaped: "unescape (escaped c @ x) = (c, x)"
proof -
  have "c div 16 < 16" "c mod 16 < 16" if "c < 32" using that by simp_all
  then show ?thesis
    by (auto simp: escaped_def unescape_def hex_value_hex_char split: list.split)
qed

lemma escaped_unique: "escaped c @ x = escaped d @ y \<Longrightarrow> c = d \<and> x = y"
  by (metis unescape_escaped prod.inject)

lemma escaped_head: "escaped c = a # r \<Longrightarrow> a \<noteq> 34" "escaped c \<noteq> []"
  by (auto simp: escaped_def split: if_splits)

lemma string_text_unique: "string_text s @ x = string_text t @ y \<Longrightarrow> s = t \<and> x = y"
proof -
  have "concat (map escaped s) @ 34 # x = concat (map escaped t) @ 34 # y \<Longrightarrow> s = t \<and> x = y"
  proof (induction s arbitrary: t)
    case Nil
    then show ?case
      using escaped_head(1) [OF sym] escaped_head(2) by (cases t) (auto simp: Cons_eq_append_conv)
  next
    case (Cons c s)
    show ?case
    proof (cases t)
      case Nil
      then show ?thesis using Cons.prems escaped_head [of c] by (auto simp: append_eq_Cons_conv)
    next
      case t: (Cons d t')
      then have "escaped c @ (concat (map escaped s) @ 34 # x) = escaped d @ (concat (map escaped t') @ 34 # y)"
        using Cons.prems by simp
      from escaped_unique [OF this] Cons.IH [of t'] t show ?thesis by simp
    qed
  qed
  then show "string_text s @ x = string_text t @ y \<Longrightarrow> s = t \<and> x = y"
    by (simp add: string_text_def)
qed

text \<open>A bracketed list of values that are each unique up to what may follow them.\<close>

lemma join_on_rest: "join_on c (map f (x # xs)) = f x @ concat (map (\<lambda>y. c # f y) xs)"
  by (induction xs arbitrary: x) (simp_all add: join_on_Cons)

lemma join_unique:
  assumes each: "\<And>x y s t. x \<in> set xs \<Longrightarrow> value_ends s \<Longrightarrow> value_ends t \<Longrightarrow> f x @ s = f y @ t \<Longrightarrow> x = y \<and> s = t"
    and open': "\<And>y. f y \<noteq> [] \<and> hd (f y) \<noteq> close" and "close \<in> {93, 125}"
    and eq: "join_on 44 (map f xs) @ close # s = join_on 44 (map f ys) @ close # t"
  shows "xs = ys \<and> s = t"
proof -
  have stop: "value_ends (concat (map (\<lambda>y. 44 # f y) zs) @ close # u)" for zs u
    using assms(3) by (cases zs) (auto simp: value_ends_def)
  have rest: "as = bs \<and> s = t"
    if "set as \<subseteq> set xs"
      "concat (map (\<lambda>y. 44 # f y) as) @ close # s = concat (map (\<lambda>y. 44 # f y) bs) @ close # t" for as bs
    using that
  proof (induction as arbitrary: bs)
    case Nil
    then show ?case using assms(3) by (cases bs) auto
  next
    case (Cons a as)
    show ?case
    proof (cases bs)
      case Nil
      then show ?thesis using Cons.prems assms(3) by auto
    next
      case (Cons b bs')
      then have "f a @ (concat (map (\<lambda>y. 44 # f y) as) @ close # s) = f b @ (concat (map (\<lambda>y. 44 # f y) bs') @ close # t)"
        using Cons.prems by simp
      from each [OF _ stop stop this] Cons.prems Cons.IH [of bs'] Cons show ?thesis by simp
    qed
  qed
  have clash: "f y @ u \<noteq> close # v" for y u v using open' [of y] by (cases "f y") auto
  show ?thesis
  proof (cases xs)
    case Nil
    then show ?thesis using eq not_sym [OF clash] by (cases ys) (simp_all del: list.map add: join_on_rest list.map(1))
  next
    case x: (Cons x xs')
    show ?thesis
    proof (cases ys)
      case Nil
      then show ?thesis using eq clash x by (simp del: list.map add: join_on_rest list.map(1))
    next
      case (Cons y ys')
      then have "f x @ (concat (map (\<lambda>y. 44 # f y) xs') @ close # s) = f y @ (concat (map (\<lambda>y. 44 # f y) ys') @ close # t)"
        using eq x by (simp add: join_on_rest del: list.map)
      from each [OF _ stop stop this] x have "x = y"
        "concat (map (\<lambda>y. 44 # f y) xs') @ close # s = concat (map (\<lambda>y. 44 # f y) ys') @ close # t" by simp_all
      then show ?thesis using rest [of xs' ys'] x Cons by auto
    qed
  qed
qed

text \<open>The first character of a value's text says what kind of value it is.\<close>

fun json_kind :: "json \<Rightarrow> nat" where
  "json_kind JNull = 0"
| "json_kind (JBool b) = (if b then 1 else 2)"
| "json_kind (JInt i) = 3"
| "json_kind (JFloat x) = 3"
| "json_kind (JStr s) = 4"
| "json_kind (JList vs) = 5"
| "json_kind (JDict items) = 6"

definition kind_of_head :: "nat \<Rightarrow> nat" where
  "kind_of_head c = (if c = 110 then 0 else if c = 116 then 1 else if c = 102 then 2 else if c = 34 then 4
     else if c = 91 then 5 else if c = 123 then 6 else if number_char c then 3 else 7)"

lemma float_text_number:
  assumes "float_texts fr"
  shows "list_all number_char (fr x)" "fr x \<noteq> []" "fr x \<noteq> int_text i"
proof -
  from assms have x: "list_all number_char (fr x)" "46 \<in> set (fr x) \<or> 101 \<in> set (fr x)"
    by (simp_all add: float_texts_def)
  show "list_all number_char (fr x)" by (rule x)
  show "fr x \<noteq> []" using x(2) by auto
  show "fr x \<noteq> int_text i" using x(2) int_text_number(3,4) [of i] by metis
qed

lemma render_kind:
  assumes "float_texts fr"
  shows "json_text fr v \<noteq> [] \<and> kind_of_head (hd (json_text fr v)) = json_kind v"
proof -
  have number: "a \<noteq> [] \<and> kind_of_head (hd a) = 3" if "list_all number_char a" "a \<noteq> []" for a
    using that by (cases a) (auto simp: number_char_def kind_of_head_def)
  show ?thesis
    using number [OF int_text_number(1,2)] number [OF float_text_number(1,2) [OF assms]]
    by (cases v) (simp_all add: string_text_def kind_of_head_def)
qed

lemma render_unique:
  assumes fr: "float_texts fr"
  shows "value_ends s \<Longrightarrow> value_ends t \<Longrightarrow> json_text fr v @ s = json_text fr w @ t \<Longrightarrow> v = w \<and> s = t"
proof (induction v arbitrary: w s t)
  case (JNull w)
  then have "json_kind w = json_kind JNull" using render_kind [OF fr] by (metis hd_append2)
  then show ?case using JNull by (cases w) (auto split: if_splits)
next
  case (JBool b w)
  then have "json_kind w = json_kind (JBool b)" using render_kind [OF fr] by (metis hd_append2)
  then show ?case using JBool by (cases w) (auto split: if_splits)
next
  case (JInt i w)
  then have "json_kind w = json_kind (JInt i)" using render_kind [OF fr] by (metis hd_append2)
  then consider j where "w = JInt j" | x where "w = JFloat x" by (cases w) (auto split: if_splits)
  then show ?case
  proof cases
    case 1
    then show ?thesis
      using JInt number_unique [OF int_text_number(1) [of i] int_text_number(1) [of j]] int_text_inj by simp
  next
    case 2
    then show ?thesis
      using JInt number_unique [OF int_text_number(1) [of i] float_text_number(1) [OF fr, of x]]
        float_text_number(3) [OF fr, of x i] by simp
  qed
next
  case (JFloat x w)
  then have "json_kind w = json_kind (JFloat x)" using render_kind [OF fr] by (metis hd_append2)
  then consider i where "w = JInt i" | y where "w = JFloat y" by (cases w) (auto split: if_splits)
  then show ?case
  proof cases
    case 1
    then show ?thesis
      using JFloat number_unique [OF float_text_number(1) [OF fr, of x] int_text_number(1) [of i]]
        float_text_number(3) [OF fr, of x i] by simp
  next
    case 2
    have "x = y" if "fr x = fr y" using that fr by (simp add: float_texts_def inj_eq)
    moreover have "fr x @ s = fr y @ t" using JFloat.prems(3) 2 by simp
    from number_unique [OF float_text_number(1) [OF fr] float_text_number(1) [OF fr] JFloat.prems(1,2) this]
    have "fr x = fr y \<and> s = t" .
    ultimately show ?thesis using 2 by simp
  qed
next
  case (JStr x w)
  then have "json_kind w = json_kind (JStr x)" using render_kind [OF fr] by (metis hd_append2)
  then obtain y where w: "w = JStr y" by (cases w) (simp_all split: if_splits)
  then have "string_text x @ s = string_text y @ t" using JStr.prems(3) by simp
  from string_text_unique [OF this] w show ?case by simp
next
  case (JList vs w)
  then have "json_kind w = json_kind (JList vs)" using render_kind [OF fr] by (metis hd_append2)
  then obtain ws where w: "w = JList ws" by (cases w) (simp_all split: if_splits)
  have "vs = ws \<and> s = t"
  proof (rule join_unique [where f = "json_text fr" and close = 93])
    show "json_text fr y \<noteq> [] \<and> hd (json_text fr y) \<noteq> 93" for y
    proof -
      have "json_kind y \<noteq> kind_of_head 93" by (cases y) (simp_all add: kind_of_head_def number_char_def)
      then show ?thesis using render_kind [OF fr, of y] by metis
    qed
    show "join_on 44 (map (json_text fr) vs) @ 93 # s = join_on 44 (map (json_text fr) ws) @ 93 # t"
      using JList.prems(3) w by simp
  qed (use JList.IH in simp_all)
  then show ?case using w by simp
next
  case (JDict items w)
  then have "json_kind w = json_kind (JDict items)" using render_kind [OF fr] by (metis hd_append2)
  then obtain ws where w: "w = JDict ws" by (cases w) (simp_all split: if_splits)
  let ?f = "\<lambda>p. string_text (fst p) @ 58 # json_text fr (snd p)"
  have "items = ws \<and> s = t"
  proof (rule join_unique [where f = ?f and close = 125])
    show "?f y \<noteq> [] \<and> hd (?f y) \<noteq> 125" for y by (simp add: string_text_def)
    show "join_on 44 (map ?f items) @ 125 # s = join_on 44 (map ?f ws) @ 125 # t"
      using JDict.prems(3) w by simp
    show "x = y \<and> s = t" if "x \<in> set items" "value_ends s" "value_ends t" "?f x @ s = ?f y @ t" for x y s t
    proof -
      from that(4) have "string_text (fst x) @ (58 # json_text fr (snd x) @ s) = string_text (fst y) @ (58 # json_text fr (snd y) @ t)"
        by simp
      from string_text_unique [OF this] have "fst x = fst y" "json_text fr (snd x) @ s = json_text fr (snd y) @ t" by auto
      moreover have "snd x = snd y \<and> s = t"
        using JDict.IH [of x "snd x"] that calculation(2) by (cases x) auto
      ultimately show ?thesis by (simp add: prod_eq_iff)
    qed
  qed simp
  then show ?case using w by simp
qed

section \<open>Property\<close>

text \<open>C32: A content hash identifies its content.  Two payloads have the same canonical text exactly
  when they are the same JSON value up to the order of dictionary keys, whatever strings, nesting
  and numbers they hold; so equal SHA-256 digests of two accepted payloads mean equal payloads,
  or a collision of SHA-256 itself.\<close>

theorem canonical_text_identifies_content:
  assumes "float_texts fr" "canonical_text fr v = Inr a" "canonical_text fr w = Inr b"
  shows "a = b \<longleftrightarrow> sorted_keys v = sorted_keys w"
proof -
  have a: "a = json_text fr (sorted_keys v)" and b: "b = json_text fr (sorted_keys w)"
    using assms(2,3) by (simp_all add: canonical_text_def Let_def split: if_splits)
  have "sorted_keys v = sorted_keys w" if "json_text fr (sorted_keys v) = json_text fr (sorted_keys w)"
    using render_unique [OF assms(1), of "[]" "[]" "sorted_keys v" "sorted_keys w"] that by (simp add: value_ends_def)
  then show ?thesis using a b by auto
qed

definition sample_float_text :: "int \<Rightarrow> pystr" where
  "sample_float_text x = int_text x @ lit ''.0''"

lemma sample_float_texts: "float_texts sample_float_text"
proof -
  have "inj sample_float_text" by (rule injI) (simp add: sample_float_text_def int_text_inj)
  then show ?thesis
    using int_text_number(1) by (simp add: float_texts_def sample_float_text_def number_char_def)
qed

theorem canonical_text_identifies_content_witness:
  "\<exists>a b. canonical_text sample_float_text (JDict [(lit ''b'', JInt (-12)), (lit ''a'', JStr [10, 34])]) = Inr a
     \<and> canonical_text sample_float_text (JDict [(lit ''a'', JStr [10, 34]), (lit ''b'', JInt (-12))]) = Inr b \<and> a = b"
proof -
  let ?v = "JDict [(lit ''b'', JInt (-12)), (lit ''a'', JStr [10, 34])]"
  let ?w = "JDict [(lit ''a'', JStr [10, 34]), (lit ''b'', JInt (-12))]"
  have same: "sorted_keys ?v = sorted_keys ?w" by simp
  have "nat_text 12 = [49, 50]" by (subst nat_text.simps, simp, subst nat_text.simps, simp)
  then obtain a where a: "canonical_text sample_float_text ?v = Inr a"
    by (simp add: canonical_text_def int_text_def string_text_def escaped_def is_surrogate_def)
  moreover obtain b where b: "canonical_text sample_float_text ?w = Inr b"
    using a same by (simp add: canonical_text_def Let_def split: if_splits)
  ultimately show ?thesis
    using canonical_text_identifies_content [OF sample_float_texts a b] same by blast
qed

end
