(* ===== verification/GovernanceRows.thy ===== *)
theory GovernanceRows
  imports Json Uuid
begin

text \<open>
  The rows of \<^verbatim>\<open>src/anva/core/models.py\<close> that hold delivery intent, evidence and policy: work items and
  their immutable revisions with everything a revision states, approvals, evidence manifests and the
  mapping of evidence to acceptance criteria, policies and their immutable
  versions, evaluations and overrides.  They are one group of tables, \<open>governance\<close>, of the
  database of \<open>Store\<close>.  An instant is a number of microseconds since the epoch.
\<close>

type_synonym instant = int

section \<open>Delivery intent\<close>

record work_item =
  wi_id :: uuid
  wi_org :: uuid
  wi_repository :: uuid
  wi_access_scope :: uuid
  wi_external_key :: json
  wi_title :: pystr
  wi_work_type :: pystr
  wi_status :: pystr
  wi_content_hash :: pystr
  wi_revision :: int

record work_revision =
  wr_id :: uuid
  wr_org :: uuid
  wr_item :: uuid
  wr_revision :: int
  wr_title :: pystr
  wr_work_type :: pystr
  wr_status :: pystr
  wr_summary :: pystr
  wr_origin :: pystr
  wr_source_references :: json
  wr_payload :: json
  wr_content_hash :: pystr
  wr_created_by_type :: pystr
  wr_created_by_id :: pystr

record requirement_row =
  re_id :: uuid
  re_org :: uuid
  re_revision :: uuid
  re_position :: nat
  re_code :: pystr
  re_normalized_text :: pystr
  re_origin :: pystr
  re_owner :: pystr
  re_status :: pystr
  re_source_references :: json
  re_related_entity_ids :: "pystr list"
  re_requires_approval :: bool

record non_requirement =
  nr_id :: uuid
  nr_org :: uuid
  nr_revision :: uuid
  nr_position :: nat
  nr_code :: pystr
  nr_normalized_text :: pystr
  nr_rationale :: pystr

record assumption =
  am_id :: uuid
  am_org :: uuid
  am_revision :: uuid
  am_position :: nat
  am_code :: pystr
  am_normalized_text :: pystr
  am_status :: pystr
  am_validation_reference :: pystr

record acceptance_criterion =
  cr_id :: uuid
  cr_org :: uuid
  cr_revision :: uuid
  cr_position :: nat
  cr_requirement :: "uuid option"
  cr_code :: pystr
  cr_normalized_text :: pystr
  cr_evidence_types :: "pystr list"
  cr_manual_approval :: bool

record decision_row =
  dr_id :: uuid
  dr_org :: uuid
  dr_revision :: uuid
  dr_position :: nat
  dr_code :: pystr
  dr_title :: pystr
  dr_outcome :: pystr
  dr_rationale :: pystr
  dr_status :: pystr

record work_summary =
  ws_id :: uuid
  ws_org :: uuid
  ws_revision :: uuid
  ws_type :: pystr
  ws_structured_data :: json
  ws_content_hash :: pystr
  ws_producer :: pystr

record approval =
  ap_id :: uuid
  ap_org :: uuid
  ap_revision :: uuid
  ap_repository :: uuid
  ap_target_kind :: pystr
  ap_target_key :: pystr
  ap_status :: pystr
  ap_actor_type :: pystr
  ap_actor_id :: pystr
  ap_authority_action :: pystr
  ap_reason :: pystr
  ap_idempotency_key :: pystr
  ap_decided_at :: instant
  ap_expires_at :: "instant option"

record approval_revocation =
  ar_id :: uuid
  ar_org :: uuid
  ar_approval :: uuid
  ar_actor_type :: pystr
  ar_actor_id :: pystr
  ar_authority_path :: pystr
  ar_reason :: pystr
  ar_revoked_at :: instant

section \<open>Evidence\<close>

text \<open>Of the authorization of an upload and of its blob only the columns the manifests and the retention read.\<close>

record upload_authorization =
  ua_id :: uuid
  ua_org :: uuid
  ua_repository :: uuid
  ua_access_scope :: uuid
  ua_pull_request :: int
  ua_commit :: pystr
  ua_state :: pystr
  ua_ownership_nonce_hash :: pystr

record evidence_blob =
  eb_id :: uuid
  eb_org :: uuid
  eb_repository :: uuid
  eb_access_scope :: uuid
  eb_upload :: uuid
  eb_object_key :: pystr
  eb_content_hash :: pystr
  eb_storage_state :: pystr
  eb_deletion_reason :: pystr
  eb_storage_error_code :: pystr
  eb_created_at :: instant
  eb_deleted_at :: "instant option"

record evidence_manifest =
  em_id :: uuid
  em_org :: uuid
  em_repository :: uuid
  em_access_scope :: uuid
  em_artifact :: uuid
  em_work_revision :: "uuid option"
  em_pull_request :: int
  em_commit :: pystr
  em_schema_version :: pystr
  em_producer :: pystr
  em_producer_version :: pystr
  em_producer_mode :: pystr
  em_payload_hash :: pystr
  em_payload_size :: nat

record evidence =
  ei_id :: uuid
  ei_org :: uuid
  ei_manifest :: uuid
  ei_blob :: "uuid option"
  ei_approval :: "uuid option"
  ei_commit :: pystr
  ei_kind :: pystr
  ei_name :: pystr
  ei_producer :: pystr
  ei_producer_version :: pystr
  ei_command :: pystr
  ei_status :: pystr
  ei_started_at :: "instant option"
  ei_completed_at :: instant
  ei_artifact_reference :: pystr
  ei_source_url :: pystr
  ei_content_hash :: pystr
  ei_limitations :: json
  ei_criterion_codes :: "pystr list"
  ei_retention_class :: pystr
  ei_retention_expires_at :: "instant option"
  ei_environment :: pystr
  ei_scenario :: pystr

record retention_event =
  rn_id :: uuid
  rn_org :: uuid
  rn_evidence :: uuid
  rn_state :: pystr
  rn_reason :: pystr
  rn_actor_type :: pystr
  rn_actor_id :: pystr
  rn_occurred_at :: instant

text \<open>The confidence of a mapping is the float \<^verbatim>\<open>1.0\<close> or \<^verbatim>\<open>0.0\<close>, kept as the number 1 or 0.\<close>

record criterion_evidence =
  ce_id :: uuid
  ce_org :: uuid
  ce_access_scope :: uuid
  ce_criterion :: uuid
  ce_evidence :: "uuid option"
  ce_target_commit :: pystr
  ce_pull_request :: int
  ce_reference_time :: instant
  ce_required_type :: pystr
  ce_engine_version :: pystr
  ce_mapping_key :: pystr
  ce_input_hash :: pystr
  ce_classification :: pystr
  ce_assessment :: pystr
  ce_verifier_type :: pystr
  ce_verifier_id :: pystr
  ce_limitations :: json
  ce_confidence :: int
  ce_gap_code :: pystr
  ce_gap_description :: pystr

section \<open>Policies\<close>

record policy =
  po_id :: uuid
  po_org :: uuid
  po_access_scope :: uuid
  po_name :: pystr
  po_owner :: pystr
  po_status :: pystr
  po_content_hash :: pystr
  po_revision :: int

record policy_version =
  pv_id :: uuid
  pv_org :: uuid
  pv_policy :: uuid
  pv_version :: int
  pv_schema_version :: pystr
  pv_definition :: "(pystr \<times> json) list"
  pv_content_hash :: pystr
  pv_effective_at :: instant
  pv_expires_at :: "instant option"
  pv_created_by_type :: pystr
  pv_created_by_id :: pystr

datatype scope_level = LEVEL_ORGANIZATION | LEVEL_PRODUCT | LEVEL_SYSTEM | LEVEL_REPOSITORY | LEVEL_PATH

fun scope_level_value :: "scope_level \<Rightarrow> pystr" where
  "scope_level_value LEVEL_ORGANIZATION = lit ''ORGANIZATION''"
| "scope_level_value LEVEL_PRODUCT = lit ''PRODUCT''"
| "scope_level_value LEVEL_SYSTEM = lit ''SYSTEM''"
| "scope_level_value LEVEL_REPOSITORY = lit ''REPOSITORY''"
| "scope_level_value LEVEL_PATH = lit ''PATH''"

record policy_binding =
  bi_id :: uuid
  bi_version :: uuid
  bi_scope_level :: scope_level
  bi_mandatory :: bool
  bi_repository_ids :: "pystr list"
  bi_entity_ids :: "pystr list"
  bi_entity_types :: "pystr list"
  bi_path_patterns :: "pystr list"
  bi_work_item_types :: "pystr list"
  bi_target_branches :: "pystr list"

datatype enforcement = BLOCKING | ADVISORY

fun enforcement_value :: "enforcement \<Rightarrow> pystr" where
  "enforcement_value BLOCKING = lit ''BLOCKING''"
| "enforcement_value ADVISORY = lit ''ADVISORY''"

record policy_requirement =
  rq_id :: uuid
  rq_version :: uuid
  rq_code :: pystr
  rq_description :: pystr
  rq_enforcement :: enforcement
  rq_check_type :: pystr
  rq_required_evidence :: "pystr list"
  rq_required_reviewers :: "pystr list"
  rq_required_approval :: bool
  rq_report_sections :: "pystr list"

record policy_evaluation =
  ev_id :: uuid
  ev_org :: uuid
  ev_repository :: uuid
  ev_access_scope :: uuid
  ev_work_revision :: "uuid option"
  ev_pull_request :: int
  ev_commit :: pystr
  ev_reference_time :: instant
  ev_is_simulation :: bool
  ev_input :: "(pystr \<times> json) list"
  ev_input_hash :: pystr
  ev_output :: json
  ev_output_hash :: pystr

record policy_override =
  ov_id :: uuid
  ov_org :: uuid
  ov_evaluation :: uuid
  ov_version :: uuid
  ov_repository :: uuid
  ov_pull_request :: int
  ov_code :: pystr
  ov_commit :: pystr
  ov_actor_type :: pystr
  ov_actor_id :: pystr
  ov_authority_path :: pystr
  ov_reason :: pystr
  ov_idempotency_key :: pystr
  ov_expires_at :: "instant option"
  ov_created_at :: instant

record override_revocation =
  or_id :: uuid
  or_org :: uuid
  or_override :: uuid
  or_actor_type :: pystr
  or_actor_id :: pystr
  or_authority_path :: pystr
  or_reason :: pystr
  or_revoked_at :: instant

section \<open>Retention\<close>

record retention_run =
  rr_id :: uuid
  rr_org :: uuid
  rr_kind :: pystr
  rr_state :: pystr
  rr_cutoff_at :: instant
  rr_dry_run :: bool
  rr_request_hash :: pystr
  rr_actor_type :: pystr
  rr_actor_id :: pystr
  rr_summary :: json
  rr_completed_at :: "instant option"

section \<open>The group of tables\<close>

record governance =
  work_items :: "work_item list"
  work_revisions :: "work_revision list"
  requirement_rows :: "requirement_row list"
  non_requirements :: "non_requirement list"
  assumptions :: "assumption list"
  acceptance_criteria :: "acceptance_criterion list"
  decision_rows :: "decision_row list"
  work_summaries :: "work_summary list"
  approvals :: "approval list"
  approval_revocations :: "approval_revocation list"
  upload_authorizations :: "upload_authorization list"
  evidence_blobs :: "evidence_blob list"
  evidence_manifests :: "evidence_manifest list"
  evidence_items :: "evidence list"
  retention_events :: "retention_event list"
  criterion_mappings :: "criterion_evidence list"
  policies :: "policy list"
  policy_versions :: "policy_version list"
  policy_bindings :: "policy_binding list"
  policy_requirements :: "policy_requirement list"
  policy_evaluations :: "policy_evaluation list"
  policy_overrides :: "policy_override list"
  override_revocations :: "override_revocation list"
  retention_runs :: "retention_run list"

definition empty_governance :: governance where
  "empty_governance =
     \<lparr>work_items = [], work_revisions = [], requirement_rows = [], non_requirements = [],
      assumptions = [], acceptance_criteria = [], decision_rows = [], work_summaries = [],
      approvals = [], approval_revocations = [], upload_authorizations = [], evidence_blobs = [],
      evidence_manifests = [], evidence_items = [], retention_events = [], criterion_mappings = [],
      policies = [], policy_versions = [], policy_bindings = [], policy_requirements = [],
      policy_evaluations = [], policy_overrides = [], override_revocations = [],
      retention_runs = []\<rparr>"

end
