(* ===== verification/ReviewRows.thy ===== *)
theory ReviewRows
  imports Json Uuid
begin

text \<open>
  The rows of \<^verbatim>\<open>src/anva/core/models.py\<close> that a review of a pull request reads and writes besides the
  assurance run and the evaluator task of \<open>Store\<close>: the pull request and its revisions, the checks of a
  run, the attempts at a task, the findings with their occurrences and decisions, the readiness and the
  report of a run.  They are one group of tables, \<open>review\<close>, of the database.  The creation times the
  modelled services never read are left out.
\<close>

section \<open>Pull requests\<close>

record pull_request =
  pq_id :: uuid
  pq_org :: uuid
  pq_repository :: uuid
  pq_number :: int
  pq_state :: pystr
  pq_current_head :: pystr
  pq_current_revision :: nat
  pq_revision :: nat

record pull_request_revision =
  px_id :: uuid
  px_org :: uuid
  px_pull_request :: uuid
  px_revision :: nat
  px_base_commit :: pystr
  px_head_commit :: pystr
  px_title :: pystr
  px_description :: pystr
  px_target_branch :: pystr
  px_is_draft :: bool
  px_state :: pystr
  px_diff_artifact :: uuid
  px_diff_hash :: pystr
  px_input_hash :: pystr
  px_changed_paths :: "pystr list"
  px_classifications :: "(pystr \<times> json) list"
  px_limitations :: "pystr list"
  px_ingested_by_type :: pystr
  px_ingested_by_id :: pystr

record diff_chunk =
  dk_id :: uuid
  dk_org :: uuid
  dk_revision :: uuid
  dk_position :: int
  dk_path :: pystr
  dk_classification :: pystr
  dk_old_start :: int
  dk_old_count :: int
  dk_new_start :: int
  dk_new_count :: int
  dk_text :: pystr
  dk_content_hash :: pystr
  dk_char_count :: nat

section \<open>Checks and evaluator attempts\<close>

record assurance_check =
  ck_id :: uuid
  ck_org :: uuid
  ck_run :: uuid
  ck_position :: nat
  ck_code :: pystr
  ck_status :: pystr
  ck_blocking :: bool
  ck_summary :: pystr
  ck_evidence_ids :: "pystr list"
  ck_input_hash :: pystr

record evaluator_attempt =
  et_id :: uuid
  et_org :: uuid
  et_task :: uuid
  et_attempt :: nat
  et_claimant :: pystr
  et_claimed_by_type :: pystr
  et_claimed_by_id :: pystr
  et_claimed_by_credential :: "uuid option"
  et_event :: pystr
  et_request_hash :: pystr
  et_result_hash :: pystr
  et_usage :: json
  et_safe_error_code :: pystr

text \<open>Of a citation of a context packet only the columns the references of a result are checked with.\<close>

record packet_citation =
  pc_id :: uuid
  pc_org :: uuid
  pc_packet :: uuid

section \<open>Findings\<close>

datatype finding_state = FINDING_OPEN | FINDING_DISMISSED | FINDING_RISK_ACCEPTED | FINDING_RESOLVED | FINDING_OBSOLETE

fun finding_state_value :: "finding_state \<Rightarrow> pystr" where
  "finding_state_value FINDING_OPEN = lit ''OPEN''"
| "finding_state_value FINDING_DISMISSED = lit ''DISMISSED''"
| "finding_state_value FINDING_RISK_ACCEPTED = lit ''RISK_ACCEPTED''"
| "finding_state_value FINDING_RESOLVED = lit ''RESOLVED''"
| "finding_state_value FINDING_OBSOLETE = lit ''OBSOLETE''"

record finding =
  fi_id :: uuid
  fi_org :: uuid
  fi_pull_request :: uuid
  fi_first_run :: uuid
  fi_latest_run :: uuid
  fi_fingerprint :: pystr
  fi_code :: pystr
  fi_kind :: pystr
  fi_severity :: pystr
  fi_confidence :: pystr
  fi_title :: pystr
  fi_explanation :: pystr
  fi_path :: pystr
  fi_line :: "int option"
  fi_citations :: json
  fi_evidence_ids :: "pystr list"
  fi_criterion_codes :: "pystr list"
  fi_uncertainty :: pystr
  fi_suggested_resolution :: pystr
  fi_state :: finding_state
  fi_revision :: nat

record finding_occurrence =
  fo_id :: uuid
  fo_org :: uuid
  fo_finding :: uuid
  fo_run :: uuid
  fo_payload :: json
  fo_payload_hash :: pystr

record finding_decision =
  fd_id :: uuid
  fd_org :: uuid
  fd_finding :: uuid
  fd_from_state :: finding_state
  fd_to_state :: finding_state
  fd_actor_type :: pystr
  fd_actor_id :: pystr
  fd_authority_path :: pystr
  fd_reason :: pystr

section \<open>Readiness and report\<close>

record readiness_decision =
  rd_id :: uuid
  rd_org :: uuid
  rd_run :: uuid
  rd_status :: pystr
  rd_reason_codes :: "pystr list"
  rd_input_hash :: pystr

record assurance_report =
  rp_id :: uuid
  rp_org :: uuid
  rp_run :: uuid
  rp_artifact :: uuid
  rp_markdown :: pystr
  rp_html :: pystr
  rp_content_hash :: pystr
  rp_renderer_version :: pystr

section \<open>The group of tables\<close>

record review =
  pull_requests :: "pull_request list"
  pull_request_revisions :: "pull_request_revision list"
  diff_chunks :: "diff_chunk list"
  assurance_checks :: "assurance_check list"
  evaluator_attempts :: "evaluator_attempt list"
  packet_citations :: "packet_citation list"
  findings :: "finding list"
  finding_occurrences :: "finding_occurrence list"
  finding_decisions :: "finding_decision list"
  readiness_decisions :: "readiness_decision list"
  assurance_reports :: "assurance_report list"

definition empty_review :: review where
  "empty_review =
     \<lparr>pull_requests = [], pull_request_revisions = [], diff_chunks = [], assurance_checks = [],
      evaluator_attempts = [], packet_citations = [], findings = [], finding_occurrences = [],
      finding_decisions = [], readiness_decisions = [], assurance_reports = []\<rparr>"

end
