(* ===== verification/Store.thy ===== *)
theory Store
  imports CanonicalJson GovernanceRows ReviewRows
begin

text \<open>
  The rows of \<^verbatim>\<open>src/anva/core/models.py\<close> that the modelled services read or write, and the
  database as the record of its tables.  A table is the list of its rows in the order they were
  created; a query is a filter over the list.  Instants are microseconds since the epoch; where
  the code tests whether a datetime carries a timezone, the operation takes that as a flag.

  An operation returns \<^verbatim>\<open>error + result \<times> db\<close>: an exception leaves the \<^verbatim>\<open>transaction.atomic\<close>
  block and rolls it back, so there is no database to return with it.  Column widths are not
  modelled; the uniqueness and check constraints the theorems mention are.
\<close>

definition seconds :: "int \<Rightarrow> int" where
  "seconds n = n * 1000000"

definition days :: "int \<Rightarrow> int" where
  "days n = seconds (n * 86400)"

section \<open>Settings and the runtime environment\<close>

text \<open>What the code reads of \<^verbatim>\<open>urllib.parse.urlsplit\<close> and \<^verbatim>\<open>parse_qsl\<close> of its query.\<close>

record url_parts =
  url_scheme :: pystr
  url_hostname :: "pystr option"
  url_username :: "pystr option"
  url_password :: "pystr option"
  url_query_keys :: "pystr list"

text \<open>
  What the code takes from the deployment: the settings it reads, \<^verbatim>\<open>redact_text\<close> for the
  configured secrets, the keyed hashes of \<^verbatim>\<open>hmac\<close>/\<^verbatim>\<open>hashlib\<close>, \<^verbatim>\<open>float.__repr__\<close>, the
  ISO 8601 texts of \<^verbatim>\<open>datetime\<close> and Django's \<^verbatim>\<open>parse_datetime\<close> (of an aware timestamp), the parts of a
  URL, the Unicode alphanumeric property, lower and upper case and case folding, \<^verbatim>\<open>uuid.uuid5\<close>, PostgreSQL's
  \<^verbatim>\<open>icontains\<close>, the schema catalogue with the \<^verbatim>\<open>jsonschema\<close> validator, and the rate limits.
\<close>

record environment =
  env_redact :: "pystr \<Rightarrow> pystr"
  env_isalnum :: "nat \<Rightarrow> bool"
  env_token_issuer :: pystr
  env_token_audience :: pystr
  env_token_hash :: "pystr \<Rightarrow> pystr"
  env_sha256 :: "pystr \<Rightarrow> pystr"
  env_identity_hash :: "pystr \<Rightarrow> pystr"
  env_float_repr :: "int \<Rightarrow> pystr"
  env_isoformat :: "instant \<Rightarrow> pystr"
  env_fromisoformat :: "pystr \<Rightarrow> instant option"
  env_parse_datetime :: "pystr \<Rightarrow> instant option"
  env_urlsplit :: "pystr \<Rightarrow> url_parts option"
  env_casefold :: "pystr \<Rightarrow> pystr"
  env_icontains :: "pystr \<Rightarrow> pystr \<Rightarrow> bool"
  env_lower :: "pystr \<Rightarrow> pystr"
  env_upper :: "pystr \<Rightarrow> pystr"
  env_uuid5 :: "uuid \<Rightarrow> pystr \<Rightarrow> uuid"
  env_schemas :: "pystr \<Rightarrow> json option"
  env_schema_accepts :: "json \<Rightarrow> json \<Rightarrow> bool"
  env_rate_enabled :: bool
  env_rate_window :: int
  env_rate_api :: int
  env_rate_mcp :: int
  env_rate_web :: int
  env_rate_preauth :: int

text \<open>\<^verbatim>\<open>content_hash\<close>: the digest of the canonical text of a payload.\<close>

definition content_hash :: "environment \<Rightarrow> json \<Rightarrow> pystr result" where
  "content_hash env payload =
     bind_res (canonical_text (env_float_repr env) payload) (\<lambda>text. Inr (env_sha256 env text))"

section \<open>Tenants, principals and access control rows\<close>

datatype org_state = ORG_ACTIVE | ORG_DELETION_REQUESTED | ORG_DECOMMISSIONED

record organization =
  org_id :: uuid
  org_state :: org_state

record user =
  user_id :: uuid
  user_email :: pystr
  user_display_name :: pystr
  user_active :: bool

datatype role_code =
    ORG_ADMIN | KNOWLEDGE_ADMIN | TECHNICAL_OWNER | PRODUCT_OWNER
  | DEVELOPER | REVIEWER | SECURITY_REVIEWER | VIEWER

fun role_value :: "role_code \<Rightarrow> pystr" where
  "role_value ORG_ADMIN = lit ''ORG_ADMIN''"
| "role_value KNOWLEDGE_ADMIN = lit ''KNOWLEDGE_ADMIN''"
| "role_value TECHNICAL_OWNER = lit ''TECHNICAL_OWNER''"
| "role_value PRODUCT_OWNER = lit ''PRODUCT_OWNER''"
| "role_value DEVELOPER = lit ''DEVELOPER''"
| "role_value REVIEWER = lit ''REVIEWER''"
| "role_value SECURITY_REVIEWER = lit ''SECURITY_REVIEWER''"
| "role_value VIEWER = lit ''VIEWER''"

record role =
  role_id :: uuid
  role_org :: uuid
  role_code :: role_code

record membership =
  mem_id :: uuid
  mem_org :: uuid
  mem_user :: uuid
  mem_role :: uuid
  mem_active :: bool
  mem_revision :: nat
  mem_created_at :: instant

record service_identity =
  sid_id :: uuid
  sid_org :: uuid
  sid_active :: bool

record repository =
  repo_id :: uuid
  repo_org :: uuid
  repo_external_id :: pystr
  repo_active :: bool

datatype source_state =
    SOURCE_DRAFT | SOURCE_AUTHORIZING | SOURCE_ACTIVE | SOURCE_DEGRADED
  | SOURCE_REVOKED | SOURCE_DISABLED | SOURCE_FAILED

fun source_state_value :: "source_state \<Rightarrow> pystr" where
  "source_state_value SOURCE_DRAFT = lit ''DRAFT''"
| "source_state_value SOURCE_AUTHORIZING = lit ''AUTHORIZING''"
| "source_state_value SOURCE_ACTIVE = lit ''ACTIVE''"
| "source_state_value SOURCE_DEGRADED = lit ''DEGRADED''"
| "source_state_value SOURCE_REVOKED = lit ''REVOKED''"
| "source_state_value SOURCE_DISABLED = lit ''DISABLED''"
| "source_state_value SOURCE_FAILED = lit ''FAILED''"

record source_connection =
  src_id :: uuid
  src_org :: uuid
  src_repository :: "uuid option"
  src_state :: source_state
  src_revision :: nat

record access_scope =
  sc_id :: uuid
  sc_org :: uuid
  sc_name :: pystr
  sc_all_memberships :: bool
  sc_all_service_identities :: bool
  sc_all_repositories :: bool
  sc_active :: bool
  sc_is_derived :: bool
  sc_boundary_sealed_at :: "instant option"
  sc_derived_from :: "uuid list"
  sc_revision :: nat

text \<open>One row of the four access-scope join tables.\<close>

record scope_link =
  ln_org :: uuid
  ln_scope :: uuid
  ln_target :: uuid

record access_grant =
  gr_org :: uuid
  gr_membership :: "uuid option"
  gr_service_identity :: "uuid option"
  gr_repository :: "uuid option"
  gr_source :: "uuid option"
  gr_action :: pystr
  gr_expires_at :: "instant option"
  gr_revoked_at :: "instant option"

record access_token =
  tok_id :: uuid
  tok_org :: uuid
  tok_repository :: uuid
  tok_service_identity :: uuid
  tok_hash :: pystr
  tok_allowed_actions :: json
  tok_issuer :: pystr
  tok_audience :: pystr
  tok_issued_at :: instant
  tok_expires_at :: instant
  tok_revoked_at :: "instant option"
  tok_last_used_at :: "instant option"
  tok_rotated_from :: "uuid option"

section \<open>Jobs and state machines\<close>

datatype job_state = JOB_PENDING | JOB_RUNNING | JOB_SUCCEEDED | JOB_FAILED | JOB_CANCELLED

fun job_state_value :: "job_state \<Rightarrow> pystr" where
  "job_state_value JOB_PENDING = lit ''PENDING''"
| "job_state_value JOB_RUNNING = lit ''RUNNING''"
| "job_state_value JOB_SUCCEEDED = lit ''SUCCEEDED''"
| "job_state_value JOB_FAILED = lit ''FAILED''"
| "job_state_value JOB_CANCELLED = lit ''CANCELLED''"

record background_job =
  job_id :: uuid
  job_org :: uuid
  job_kind :: pystr
  job_payload :: json
  job_state :: job_state
  job_priority :: int
  job_available_at :: instant
  job_created_at :: instant
  job_attempt_count :: nat
  job_max_attempts :: nat
  job_lease_owner :: "pystr option"
  job_lease_expires_at :: "instant option"
  job_last_error :: pystr
  job_idempotency_key :: pystr
  job_completed_at :: "instant option"

datatype sync_state =
    SYNC_REQUESTED | SYNC_DISCOVERING | SYNC_FETCHING | SYNC_PARSING | SYNC_INDEXING
  | SYNC_EXTRACTING | SYNC_RESOLVING | SYNC_PUBLISHING | SYNC_COMPLETED
  | SYNC_PARTIALLY_COMPLETED | SYNC_FAILED | SYNC_CANCELLED

fun sync_state_value :: "sync_state \<Rightarrow> pystr" where
  "sync_state_value SYNC_REQUESTED = lit ''REQUESTED''"
| "sync_state_value SYNC_DISCOVERING = lit ''DISCOVERING''"
| "sync_state_value SYNC_FETCHING = lit ''FETCHING''"
| "sync_state_value SYNC_PARSING = lit ''PARSING''"
| "sync_state_value SYNC_INDEXING = lit ''INDEXING''"
| "sync_state_value SYNC_EXTRACTING = lit ''EXTRACTING''"
| "sync_state_value SYNC_RESOLVING = lit ''RESOLVING''"
| "sync_state_value SYNC_PUBLISHING = lit ''PUBLISHING''"
| "sync_state_value SYNC_COMPLETED = lit ''COMPLETED''"
| "sync_state_value SYNC_PARTIALLY_COMPLETED = lit ''PARTIALLY_COMPLETED''"
| "sync_state_value SYNC_FAILED = lit ''FAILED''"
| "sync_state_value SYNC_CANCELLED = lit ''CANCELLED''"

record sync_run =
  sync_id :: uuid
  sync_org :: uuid
  sync_source :: uuid
  sync_state :: sync_state
  sync_failure_code :: pystr
  sync_completed_at :: "instant option"
  sync_revision :: nat

datatype review_state =
    UNREVIEWED | AUTO_ACCEPTED | HUMAN_CONFIRMED | DISPUTED | REJECTED | SUPERSEDED | STALE

fun review_state_value :: "review_state \<Rightarrow> pystr" where
  "review_state_value UNREVIEWED = lit ''UNREVIEWED''"
| "review_state_value AUTO_ACCEPTED = lit ''AUTO_ACCEPTED''"
| "review_state_value HUMAN_CONFIRMED = lit ''HUMAN_CONFIRMED''"
| "review_state_value DISPUTED = lit ''DISPUTED''"
| "review_state_value REJECTED = lit ''REJECTED''"
| "review_state_value SUPERSEDED = lit ''SUPERSEDED''"
| "review_state_value STALE = lit ''STALE''"

record knowledge_assertion =
  as_id :: uuid
  as_org :: uuid
  as_review_state :: review_state
  as_access_scope :: "uuid option"
  as_valid_until :: "instant option"
  as_revision :: nat
  as_subject_key :: pystr
  as_predicate :: pystr
  as_created_at :: instant
  as_value :: json
  as_provenance :: "json list"
  as_is_inferred :: bool

datatype assurance_state =
    RUN_REQUESTED | RUN_DEBOUNCING | RUN_FETCHING_PULL_REQUEST | RUN_COLLECTING_EVIDENCE
  | RUN_EVALUATING_POLICY | RUN_BUILDING_CONTEXT | RUN_MODEL_REVIEW | RUN_MAPPING_EVIDENCE
  | RUN_RENDERING_REPORT | RUN_PUBLISHING | RUN_COMPLETED | RUN_STALE | RUN_FAILED
  | RUN_CANCELLED

fun assurance_state_value :: "assurance_state \<Rightarrow> pystr" where
  "assurance_state_value RUN_REQUESTED = lit ''REQUESTED''"
| "assurance_state_value RUN_DEBOUNCING = lit ''DEBOUNCING''"
| "assurance_state_value RUN_FETCHING_PULL_REQUEST = lit ''FETCHING_PULL_REQUEST''"
| "assurance_state_value RUN_COLLECTING_EVIDENCE = lit ''COLLECTING_EVIDENCE''"
| "assurance_state_value RUN_EVALUATING_POLICY = lit ''EVALUATING_POLICY''"
| "assurance_state_value RUN_BUILDING_CONTEXT = lit ''BUILDING_CONTEXT''"
| "assurance_state_value RUN_MODEL_REVIEW = lit ''MODEL_REVIEW''"
| "assurance_state_value RUN_MAPPING_EVIDENCE = lit ''MAPPING_EVIDENCE''"
| "assurance_state_value RUN_RENDERING_REPORT = lit ''RENDERING_REPORT''"
| "assurance_state_value RUN_PUBLISHING = lit ''PUBLISHING''"
| "assurance_state_value RUN_COMPLETED = lit ''COMPLETED''"
| "assurance_state_value RUN_STALE = lit ''STALE''"
| "assurance_state_value RUN_FAILED = lit ''FAILED''"
| "assurance_state_value RUN_CANCELLED = lit ''CANCELLED''"

record assurance_run =
  run_id :: uuid
  run_org :: uuid
  run_created_at :: instant
  run_repository_external_id :: pystr
  run_repository :: "uuid option"
  run_context_packet :: "uuid option"
  run_readiness :: pystr
  run_head_commit :: pystr
  run_evaluated_commit :: pystr
  run_report_commit :: pystr
  run_context_artifact :: "uuid option"
  run_state :: assurance_state
  run_completed_at :: "instant option"
  run_revision :: nat
  run_initiated_by_type :: pystr
  run_initiated_by_id :: pystr
  run_initiated_by_credential :: "uuid option"
  run_policy_version :: int
  run_pull_request_number :: int
  run_pull_request_revision :: "uuid option"
  run_work_revision :: "uuid option"
  run_diff_artifact :: "uuid option"
  run_policy_evaluation :: "uuid option"
  run_input_hash :: pystr
  run_requirements_hash :: pystr
  run_policy_bundle_hash :: pystr
  run_evidence_bundle_hash :: pystr
  run_evaluator_version :: pystr
  run_prompt_version :: pystr
  run_limitations :: "pystr list"
  run_failure_code :: pystr

datatype proposal_state =
    PROPOSAL_PROPOSED | PROPOSAL_VALIDATING | PROPOSAL_AWAITING_REVIEW | PROPOSAL_ACCEPTED
  | PROPOSAL_REJECTED | PROPOSAL_SUPERSEDED | PROPOSAL_FAILED

fun proposal_state_value :: "proposal_state \<Rightarrow> pystr" where
  "proposal_state_value PROPOSAL_PROPOSED = lit ''PROPOSED''"
| "proposal_state_value PROPOSAL_VALIDATING = lit ''VALIDATING''"
| "proposal_state_value PROPOSAL_AWAITING_REVIEW = lit ''AWAITING_REVIEW''"
| "proposal_state_value PROPOSAL_ACCEPTED = lit ''ACCEPTED''"
| "proposal_state_value PROPOSAL_REJECTED = lit ''REJECTED''"
| "proposal_state_value PROPOSAL_SUPERSEDED = lit ''SUPERSEDED''"
| "proposal_state_value PROPOSAL_FAILED = lit ''FAILED''"

record knowledge_proposal =
  prop_id :: uuid
  prop_org :: uuid
  prop_state :: proposal_state
  prop_decided_at :: "instant option"
  prop_revision :: nat
  prop_summary :: pystr
  prop_changes :: "json list"
  prop_sources :: "json list"

record immutable_artifact =
  art_id :: uuid
  art_org :: uuid
  art_kind :: pystr
  art_schema_name :: pystr
  art_schema_version :: pystr
  art_revision :: nat
  art_payload :: json
  art_content_hash :: pystr
  art_access_scope :: "uuid option"

section \<open>Access snapshots, visibility and rate counters\<close>

record access_snapshot =
  snap_id :: uuid
  snap_org :: uuid
  snap_source :: uuid
  snap_scope :: uuid
  snap_scope_revision :: nat
  snap_payload :: json
  snap_content_hash :: pystr
  snap_revoked_at :: "instant option"

datatype visibility_state = VIS_AVAILABLE | VIS_SOURCE_UNAVAILABLE | VIS_REVOKED | VIS_EXCLUDED

record chunk_visibility =
  vis_id :: uuid
  vis_org :: uuid
  vis_chunk :: uuid
  vis_location :: uuid
  vis_observation :: uuid
  vis_snapshot :: uuid
  vis_scope :: uuid
  vis_state :: visibility_state
  vis_observed_at :: instant
  vis_revoked_at :: "instant option"

record rate_bucket =
  rb_id :: uuid
  rb_org :: "uuid option"
  rb_identity_hash :: pystr
  rb_channel :: pystr
  rb_window_started_at :: instant
  rb_request_count :: nat
  rb_denied_count :: nat
  rb_expires_at :: instant

section \<open>Ingested sources and knowledge\<close>

datatype document_state = DOC_PRESENT | DOC_TOMBSTONED

record source_document =
  doc_id :: uuid
  doc_org :: uuid
  doc_state :: document_state
  doc_canonical_url :: pystr
  doc_current_revision :: "uuid option"
  doc_last_seen_run :: "uuid option"

record source_observation =
  obs_id :: uuid
  obs_org :: uuid
  obs_sync_run :: uuid
  obs_document :: uuid
  obs_revision :: "uuid option"

record source_chunk =
  chk_id :: uuid
  chk_org :: uuid
  chk_text :: pystr
  chk_content_hash :: pystr

record source_location =
  loc_id :: uuid
  loc_pointer :: pystr

record assertion_provenance =
  ap_assertion :: uuid
  ap_observation :: uuid
  ap_snapshot :: uuid

record validity_interval =
  vi_assertion :: uuid
  vi_document :: uuid
  vi_observation :: uuid
  vi_valid_until :: "instant option"

record knowledge_entity =
  ent_id :: uuid
  ent_org :: uuid
  ent_access_scope :: uuid
  ent_active :: bool
  ent_type :: pystr

record knowledge_relationship =
  rel_id :: uuid
  rel_org :: uuid
  rel_access_scope :: uuid
  rel_snapshot :: uuid
  rel_assertion :: uuid
  rel_observation :: uuid

section \<open>Context packets and evaluator tasks\<close>

record retrieval_watermark =
  wm_org :: uuid
  wm_repository :: uuid
  wm_value :: nat
  wm_reason :: pystr
  wm_revision :: nat

record context_packet =
  pk_id :: uuid
  pk_org :: uuid
  pk_repository :: uuid

record packet_invalidation =
  iv_org :: uuid
  iv_packet :: uuid
  iv_repository :: uuid
  iv_reason :: pystr
  iv_watermark :: nat
  iv_details :: json

datatype task_state = TASK_PENDING | TASK_CLAIMED | TASK_SUBMITTED | TASK_FAILED | TASK_CANCELLED

record evaluator_task =
  tk_id :: uuid
  tk_org :: uuid
  tk_run :: uuid
  tk_repository :: uuid
  tk_request_artifact :: uuid
  tk_result_artifact :: "uuid option"
  tk_reviewer_service :: "uuid option"
  tk_reviewer_token :: "uuid option"
  tk_state :: task_state
  tk_claimant :: pystr
  tk_claimed_by_type :: pystr
  tk_claimed_by_id :: pystr
  tk_claimed_by_credential :: "uuid option"
  tk_claim_idempotency :: pystr
  tk_claim_selector :: pystr
  tk_claim_token_hash :: pystr
  tk_lease_expires_at :: "instant option"
  tk_attempt_count :: nat
  tk_max_attempts :: nat
  tk_submitted_at :: "instant option"
  tk_failure_code :: pystr
  tk_created_at :: instant
  tk_revision :: nat

section \<open>Audit and outbox\<close>

record audit_event =
  au_org :: uuid
  au_actor_type :: pystr
  au_actor_id :: pystr
  au_credential :: "uuid option"
  au_action :: pystr
  au_target_type :: pystr
  au_target :: uuid
  au_from_state :: pystr
  au_to_state :: pystr
  au_authorization_path :: pystr
  au_request_id :: uuid
  au_source_ip_hash :: pystr
  au_metadata :: "(pystr \<times> json) list"

text \<open>The idempotency key of an outbox event, as the five fields its text joins.\<close>

datatype transition_key = TransitionKey pystr uuid nat pystr pystr

record outbox_event =
  ob_org :: uuid
  ob_aggregate_type :: pystr
  ob_aggregate_id :: uuid
  ob_event_type :: pystr
  ob_payload :: "(pystr \<times> json) list"
  ob_key :: transition_key

section \<open>The database\<close>

record db =
  organizations :: "organization list"
  users :: "user list"
  roles :: "role list"
  memberships :: "membership list"
  service_identities :: "service_identity list"
  repositories :: "repository list"
  sources :: "source_connection list"
  scopes :: "access_scope list"
  scope_memberships :: "scope_link list"
  scope_services :: "scope_link list"
  scope_repositories :: "scope_link list"
  scope_sources :: "scope_link list"
  grants :: "access_grant list"
  tokens :: "access_token list"
  jobs :: "background_job list"
  sync_runs :: "sync_run list"
  assertions :: "knowledge_assertion list"
  assurance_runs :: "assurance_run list"
  proposals :: "knowledge_proposal list"
  artifacts :: "immutable_artifact list"
  snapshots :: "access_snapshot list"
  visibilities :: "chunk_visibility list"
  rate_buckets :: "rate_bucket list"
  documents :: "source_document list"
  observations :: "source_observation list"
  chunks :: "source_chunk list"
  locations :: "source_location list"
  provenances :: "assertion_provenance list"
  intervals :: "validity_interval list"
  entities :: "knowledge_entity list"
  relationships :: "knowledge_relationship list"
  watermarks :: "retrieval_watermark list"
  packets :: "context_packet list"
  invalidations :: "packet_invalidation list"
  evaluator_tasks :: "evaluator_task list"
  governance :: governance
  review :: review
  audit_events :: "audit_event list"
  outbox_events :: "outbox_event list"

definition empty_db :: db where
  "empty_db =
     \<lparr>organizations = [], users = [], roles = [], memberships = [], service_identities = [],
      repositories = [], sources = [], scopes = [], scope_memberships = [], scope_services = [],
      scope_repositories = [], scope_sources = [], grants = [], tokens = [], jobs = [],
      sync_runs = [], assertions = [], assurance_runs = [], proposals = [], artifacts = [],
      snapshots = [], visibilities = [], rate_buckets = [], documents = [], observations = [],
      chunks = [], locations = [], provenances = [], intervals = [], entities = [],
      relationships = [], watermarks = [], packets = [], invalidations = [], evaluator_tasks = [],
      governance = empty_governance, review = empty_review, audit_events = [], outbox_events = []\<rparr>"

section \<open>The actor\<close>

record actor_context =
  actor_org :: uuid
  actor_type :: pystr
  actor_id :: pystr
  actor_path :: pystr
  actor_request_id :: uuid
  actor_source_ip_hash :: pystr
  actor_repository :: "uuid option"
  actor_credential :: "uuid option"
  actor_credential_actions :: "pystr list"

text \<open>\<^verbatim>\<open>ActorContext.__post_init__\<close>.\<close>

definition check_actor :: "actor_context \<Rightarrow> actor_context result" where
  "check_actor a =
     (if strip (actor_type a) = [] then Inl (ValueError ''actor_type is required'')
      else if strip (actor_id a) = [] then Inl (ValueError ''actor_id is required'')
      else if strip (actor_path a) = [] then Inl (ValueError ''authorization_path is required'')
      else Inr a)"

lemma check_actor_Inr: "check_actor a = Inr b \<Longrightarrow> b = a"
  by (auto simp: check_actor_def split: if_splits)

end
