(* ===== verification/Events.thy ===== *)
theory Events
  imports Store
begin

text \<open>
  \<^verbatim>\<open>src/anva/core/services/events.py\<close>: the audit row and the outbox row every authoritative
  mutation appends in the caller's transaction, behind the metadata allowlist, and the
  uniqueness constraints of the two tables.
\<close>

section \<open>Metadata screening\<close>

definition ALLOWED_AUDIT_METADATA_KEYS :: "pystr list" where
  "ALLOWED_AUDIT_METADATA_KEYS = map lit
     [''allowed_actions'', ''content_hash'', ''error_code'', ''expires_at'', ''failure_code'',
      ''head_commit'', ''binding_id'', ''canvas_view_id'', ''canvas_view_revision_id'',
      ''delivery_id'', ''event_type'', ''external_repository_id'', ''installation_id'',
      ''invalidated_scope_count'', ''kind'', ''layout_version'', ''claimant_label'',
      ''lease_owner'', ''membership_id'', ''replacement_token_id'', ''repository_id'',
      ''reviewer_service_identity_id'', ''reviewer_token_id'', ''publication_id'',
      ''presentation_only'', ''role_code'', ''service_identity_id'', ''source_scope_ids'',
      ''superseded_by_head_commit'', ''token_id'', ''view_type'']"

definition SENSITIVE_AUDIT_KEY_PARTS :: "pystr list" where
  "SENSITIVE_AUDIT_KEY_PARTS = map lit
     [''apikey'', ''authorization'', ''clientsecret'', ''cookie'', ''credential'', ''password'',
      ''passwd'', ''privatekey'', ''pwd'', ''rawsource'', ''refreshtoken'', ''secret'',
      ''session'', ''token'']"

text \<open>
  \<^verbatim>\<open>str.lower\<close>, exact on the characters whose lower case has an ASCII letter in it; the search
  for the ASCII parts above sees no other difference.
\<close>

definition lower_char :: "nat \<Rightarrow> pystr" where
  "lower_char c =
     (if 65 \<le> c \<and> c \<le> 90 then [c + 32]
      else if c = 304 then [105, 775]
      else if c = 8490 then [107]
      else [c])"

definition normalized_audit_key :: "environment \<Rightarrow> pystr \<Rightarrow> pystr" where
  "normalized_audit_key env key = filter (env_isalnum env) (concat (map lower_char key))"

definition screen_audit_key :: "environment \<Rightarrow> pystr \<Rightarrow> unit result" where
  "screen_audit_key env key =
     (if key \<in> set ALLOWED_AUDIT_METADATA_KEYS then Inr ()
      else if list_ex (contains (normalized_audit_key env key)) SENSITIVE_AUDIT_KEY_PARTS
        then Inl (ValueError ''Audit metadata contains a forbidden secret field'')
      else Inl (ValueError ''Audit metadata contains a non-allowlisted field''))"

fun validate_audit_value :: "environment \<Rightarrow> json \<Rightarrow> unit result"
  and validate_audit_items :: "environment \<Rightarrow> (pystr \<times> json) list \<Rightarrow> unit result"
  and validate_audit_list :: "environment \<Rightarrow> json list \<Rightarrow> unit result"
where
  "validate_audit_value env (JDict items) = validate_audit_items env items"
| "validate_audit_value env (JList xs) = validate_audit_list env xs"
| "validate_audit_value env (JStr s) =
     (if env_redact env s \<noteq> s then Inl (ValueError ''Audit metadata contains credential material'')
      else Inr ())"
| "validate_audit_value env (JInt n) = Inr ()"
| "validate_audit_value env (JFloat n) = Inr ()"
| "validate_audit_value env (JBool b) = Inr ()"
| "validate_audit_value env JNull = Inr ()"
| "validate_audit_items env [] = Inr ()"
| "validate_audit_items env ((k, v) # rest) =
     bind_res (screen_audit_key env k) (\<lambda>_.
     bind_res (validate_audit_value env v) (\<lambda>_. validate_audit_items env rest))"
| "validate_audit_list env [] = Inr ()"
| "validate_audit_list env (v # rest) =
     bind_res (validate_audit_value env v) (\<lambda>_. validate_audit_list env rest)"

section \<open>Recording\<close>

text \<open>\<^verbatim>\<open>{**base, **updates}\<close>.\<close>

fun dict_set :: "pystr \<Rightarrow> json \<Rightarrow> (pystr \<times> json) list \<Rightarrow> (pystr \<times> json) list" where
  "dict_set k v [] = [(k, v)]"
| "dict_set k v ((k', v') # rest) =
     (if k = k' then (k, v) # rest else (k', v') # dict_set k v rest)"

definition dict_merge :: "(pystr \<times> json) list \<Rightarrow> (pystr \<times> json) list \<Rightarrow> (pystr \<times> json) list" where
  "dict_merge base updates = fold (\<lambda>(k, v). dict_set k v) updates base"

definition event_type_of :: "pystr \<Rightarrow> pystr" where
  "event_type_of target_type = target_type @ lit ''.transitioned''"

definition audit_row ::
  "uuid \<Rightarrow> actor_context \<Rightarrow> pystr \<Rightarrow> uuid \<Rightarrow> pystr \<Rightarrow> pystr \<Rightarrow> (pystr \<times> json) list \<Rightarrow> audit_event"
where
  "audit_row org actor target_type target_id from_state to_state metadata =
     \<lparr>au_org = org, au_actor_type = actor_type actor, au_actor_id = actor_id actor,
      au_credential = actor_credential actor, au_action = event_type_of target_type,
      au_target_type = target_type, au_target = target_id, au_from_state = from_state,
      au_to_state = to_state, au_authorization_path = actor_path actor,
      au_request_id = actor_request_id actor, au_source_ip_hash = actor_source_ip_hash actor,
      au_metadata = metadata\<rparr>"

definition outbox_row ::
  "uuid \<Rightarrow> pystr \<Rightarrow> uuid \<Rightarrow> pystr \<Rightarrow> pystr \<Rightarrow> nat \<Rightarrow> (pystr \<times> json) list \<Rightarrow> outbox_event"
where
  "outbox_row org target_type target_id from_state to_state revision metadata =
     \<lparr>ob_org = org, ob_aggregate_type = target_type, ob_aggregate_id = target_id,
      ob_event_type = event_type_of target_type,
      ob_payload = dict_merge [(lit ''from_state'', JStr from_state), (lit ''to_state'', JStr to_state),
                               (lit ''revision'', JInt (int revision))] metadata,
      ob_key = TransitionKey target_type target_id revision from_state to_state\<rparr>"

text \<open>
  The unique constraints \<^verbatim>\<open>core_audit_request_transition_unique\<close> and
  \<^verbatim>\<open>core_outbox_org_idempotency_unique\<close>: an insert that meets a row with the same columns is an
  \<^verbatim>\<open>IntegrityError\<close>.
\<close>

definition audit_identity :: "audit_event \<Rightarrow> uuid \<times> uuid \<times> pystr \<times> uuid \<times> pystr \<times> pystr" where
  "audit_identity e =
     (au_org e, au_request_id e, au_target_type e, au_target e, au_from_state e, au_to_state e)"

definition outbox_identity :: "outbox_event \<Rightarrow> uuid \<times> transition_key" where
  "outbox_identity e = (ob_org e, ob_key e)"

definition insert_unique :: "('a \<Rightarrow> 'k) \<Rightarrow> 'a \<Rightarrow> 'a list \<Rightarrow> 'a list result" where
  "insert_unique identity row table =
     (if identity row \<in> identity ` set table then Inl IntegrityError else Inr (table @ [row]))"

definition record_transition ::
  "environment \<Rightarrow> uuid \<Rightarrow> actor_context \<Rightarrow> pystr \<Rightarrow> uuid \<Rightarrow> pystr \<Rightarrow> pystr \<Rightarrow> nat
     \<Rightarrow> (pystr \<times> json) list \<Rightarrow> db \<Rightarrow> db result"
where
  "record_transition env org actor target_type target_id from_state to_state revision metadata d =
     bind_res (validate_audit_value env (JDict metadata)) (\<lambda>_.
     bind_res (validate_audit_value env (JStr (actor_id actor))) (\<lambda>_.
     bind_res (validate_audit_value env (JStr (actor_path actor))) (\<lambda>_.
     bind_res (insert_unique audit_identity
                 (audit_row org actor target_type target_id from_state to_state metadata)
                 (audit_events d)) (\<lambda>audits.
     bind_res (insert_unique outbox_identity
                 (outbox_row org target_type target_id from_state to_state revision metadata)
                 (outbox_events d)) (\<lambda>outbox.
       Inr (d\<lparr>audit_events := audits, outbox_events := outbox\<rparr>))))))"

section \<open>What a recorded transition changes\<close>

lemma insert_unique_Inr:
  "insert_unique k row t = Inr t' \<longleftrightarrow> k row \<notin> k ` set t \<and> t' = t @ [row]"
  by (auto simp: insert_unique_def)

lemma record_transition_Inr:
  assumes "record_transition env org actor tt tid fs ts rv md d = Inr d'"
  shows "d' = d\<lparr>audit_events := audit_events d @ [audit_row org actor tt tid fs ts md],
                outbox_events := outbox_events d @ [outbox_row org tt tid fs ts rv md]\<rparr>"
    and "(org, TransitionKey tt tid rv fs ts) \<notin> outbox_identity ` set (outbox_events d)"
  using assms
  by (auto simp: record_transition_def bind_res_Inr insert_unique_Inr outbox_identity_def outbox_row_def)

text \<open>Tables no recorded transition writes: one equation per table.\<close>

lemma record_transition_frame:
  assumes "record_transition env org actor tt tid fs ts rv md d = Inr d'"
  shows "organizations d' = organizations d" "users d' = users d" "roles d' = roles d"
    "memberships d' = memberships d" "service_identities d' = service_identities d"
    "repositories d' = repositories d" "sources d' = sources d" "scopes d' = scopes d"
    "scope_memberships d' = scope_memberships d" "scope_services d' = scope_services d"
    "scope_repositories d' = scope_repositories d" "scope_sources d' = scope_sources d"
    "grants d' = grants d" "tokens d' = tokens d" "jobs d' = jobs d"
    "sync_runs d' = sync_runs d" "assertions d' = assertions d"
    "assurance_runs d' = assurance_runs d" "proposals d' = proposals d"
    "artifacts d' = artifacts d" "snapshots d' = snapshots d"
    "visibilities d' = visibilities d" "rate_buckets d' = rate_buckets d"
    "documents d' = documents d" "observations d' = observations d" "chunks d' = chunks d"
    "locations d' = locations d" "provenances d' = provenances d" "intervals d' = intervals d"
    "entities d' = entities d" "relationships d' = relationships d"
    "watermarks d' = watermarks d" "packets d' = packets d"
    "invalidations d' = invalidations d" "evaluator_tasks d' = evaluator_tasks d"
    "governance d' = governance d" "review d' = review d"
  by (simp_all add: record_transition_Inr(1) [OF assms])

text \<open>
  The uniqueness of the outbox: a mutation that returned has appended exactly one event, whose
  key no earlier event of the tenant carries.
\<close>

definition outbox_unique :: "db \<Rightarrow> bool" where
  "outbox_unique d \<longleftrightarrow> distinct (map outbox_identity (outbox_events d))"

lemma record_transition_outbox_unique:
  "record_transition env org actor tt tid fs ts rv md d = Inr d' \<Longrightarrow> outbox_unique d \<Longrightarrow> outbox_unique d'"
  using record_transition_Inr [of env org actor tt tid fs ts rv md d d']
  by (auto simp: outbox_unique_def outbox_identity_def outbox_row_def)

text \<open>Every string a recorded row carries is one redaction leaves alone.\<close>

fun json_clean :: "environment \<Rightarrow> json \<Rightarrow> bool" where
  "json_clean env (JStr s) \<longleftrightarrow> env_redact env s = s"
| "json_clean env (JList xs) \<longleftrightarrow> (\<forall>x\<in>set xs. json_clean env x)"
| "json_clean env (JDict xs) \<longleftrightarrow>
     (\<forall>p\<in>set xs. fst p \<in> set ALLOWED_AUDIT_METADATA_KEYS \<and> json_clean env (snd p))"
| "json_clean env _ \<longleftrightarrow> True"

lemma screen_audit_key_Inr: "screen_audit_key env k = Inr u \<longleftrightarrow> k \<in> set ALLOWED_AUDIT_METADATA_KEYS"
  by (simp add: screen_audit_key_def)

lemma validate_audit_value_Inr:
  "validate_audit_value env v = Inr u \<longleftrightarrow> json_clean env v"
  "validate_audit_items env items = Inr u \<longleftrightarrow> json_clean env (JDict items)"
  "validate_audit_list env xs = Inr u \<longleftrightarrow> json_clean env (JList xs)"
  by (induction env v and env items and env xs
      rule: validate_audit_value_validate_audit_items_validate_audit_list.induct)
    (auto simp: bind_res_Inr screen_audit_key_Inr)

text \<open>An actor whose identifiers carry no credential material, as every recorded actor must be.\<close>

definition actor_clean :: "environment \<Rightarrow> actor_context \<Rightarrow> bool" where
  "actor_clean env actor \<longleftrightarrow>
     env_redact env (actor_id actor) = actor_id actor \<and> env_redact env (actor_path actor) = actor_path actor"

lemma record_transition_ok:
  assumes "json_clean env (JDict md)" "actor_clean env actor"
    and "actor_request_id actor \<notin> au_request_id ` set (audit_events d)"
    and "(org, TransitionKey tt tid rv fs ts) \<notin> outbox_identity ` set (outbox_events d)"
  shows "record_transition env org actor tt tid fs ts rv md d =
     Inr (d\<lparr>audit_events := audit_events d @ [audit_row org actor tt tid fs ts md],
            outbox_events := outbox_events d @ [outbox_row org tt tid fs ts rv md]\<rparr>)"
proof -
  have "validate_audit_value env (JDict md) = Inr ()"
    using assms(1) validate_audit_value_Inr(1) [of env "JDict md" "()"] by blast
  moreover have "audit_identity (audit_row org actor tt tid fs ts md) \<notin> audit_identity ` set (audit_events d)"
    using assms(3) by (auto simp: audit_identity_def audit_row_def)
  moreover have "outbox_identity (outbox_row org tt tid fs ts rv md) \<notin> outbox_identity ` set (outbox_events d)"
  proof -
    have "outbox_identity (outbox_row org tt tid fs ts rv md) = (org, TransitionKey tt tid rv fs ts)"
      by (simp add: outbox_identity_def outbox_row_def)
    then show ?thesis using assms(4) by simp
  qed
  ultimately show ?thesis
    using assms(2) by (simp add: record_transition_def insert_unique_def actor_clean_def)
qed

end
