(* ===== verification/Tables.thy ===== *)
theory Tables
  imports Events
begin

text \<open>
  Tenant-owned tables and the row lookups of \<^verbatim>\<open>src/anva/core/services/authorization.py\<close>
  (\<^verbatim>\<open>get_tenant_record\<close>, \<^verbatim>\<open>get_tenant_record_for_update\<close>).  \<open>'r table\<close> is what Django's model
  class gives a service: where the rows live and which columns are the primary key and the
  tenant.  The locale \<open>tenant_table\<close> is the contract the services rely on, and it is interpreted
  on every table of the model that a service looks up by tenant.
\<close>

record 'r table =
  tb_rows :: "db \<Rightarrow> 'r list"
  tb_put :: "'r list \<Rightarrow> db \<Rightarrow> db"
  tb_id :: "'r \<Rightarrow> uuid"
  tb_org :: "'r \<Rightarrow> uuid"

definition get_tenant_record :: "'r table \<Rightarrow> uuid \<Rightarrow> uuid \<Rightarrow> db \<Rightarrow> 'r result" where
  "get_tenant_record t record_id organization_id d =
     (case find_by (\<lambda>r. tb_id t r = record_id \<and> tb_org t r = organization_id) (tb_rows t d) of
        None \<Rightarrow> Inl ResourceNotFoundError
      | Some r \<Rightarrow> Inr r)"

text \<open>The row lock is a no-op of the model: an operation is one atomic step.\<close>

definition get_tenant_record_for_update :: "'r table \<Rightarrow> uuid \<Rightarrow> uuid \<Rightarrow> db \<Rightarrow> 'r result" where
  "get_tenant_record_for_update t record_id organization_id d =
     get_tenant_record t record_id organization_id d"

text \<open>\<^verbatim>\<open>row.save()\<close> and \<^verbatim>\<open>objects.create\<close>.\<close>

definition save_row :: "'r table \<Rightarrow> 'r \<Rightarrow> db \<Rightarrow> db" where
  "save_row t r d = tb_put t (update_where (\<lambda>x. tb_id t x = tb_id t r) (\<lambda>_. r) (tb_rows t d)) d"

definition create_row :: "'r table \<Rightarrow> 'r \<Rightarrow> db \<Rightarrow> db" where
  "create_row t r d = tb_put t (tb_rows t d @ [r]) d"

definition primary_keys :: "'r table \<Rightarrow> db \<Rightarrow> bool" where
  "primary_keys t d \<longleftrightarrow> distinct (map (tb_id t) (tb_rows t d))"

text \<open>The table as another tenant sees it: the rows of every other tenant are not there.\<close>

definition only_tenant :: "'r table \<Rightarrow> uuid \<Rightarrow> db \<Rightarrow> db" where
  "only_tenant t organization_id d =
     tb_put t (filter (\<lambda>r. tb_org t r = organization_id) (tb_rows t d)) d"

lemma get_tenant_record_Inr:
  "get_tenant_record t rid org d = Inr r \<Longrightarrow> r \<in> set (tb_rows t d) \<and> tb_id t r = rid \<and> tb_org t r = org"
  by (auto simp: get_tenant_record_def split: option.splits dest: find_by_Some_iff)

lemma get_tenant_record_Inl:
  "get_tenant_record t rid org d = Inl e \<longleftrightarrow>
     e = ResourceNotFoundError \<and> (\<forall>r\<in>set (tb_rows t d). \<not> (tb_id t r = rid \<and> tb_org t r = org))"
proof (cases "find_by (\<lambda>r. tb_id t r = rid \<and> tb_org t r = org) (tb_rows t d)")
  case None
  then have "\<forall>r\<in>set (tb_rows t d). \<not> (tb_id t r = rid \<and> tb_org t r = org)"
    by (simp only: find_by_None)
  then show ?thesis unfolding get_tenant_record_def None by auto
next
  case (Some r)
  then have "r \<in> set (tb_rows t d) \<and> tb_id t r = rid \<and> tb_org t r = org"
    by (rule find_by_Some_iff)
  with Some show ?thesis by (auto simp: get_tenant_record_def)
qed

locale tenant_table =
  fixes t :: "'r table"
  assumes rows_put [simp]: "tb_rows t (tb_put t rs d) = rs"
    and put_put [simp]: "tb_put t rs (tb_put t rs' d) = tb_put t rs d"
    and put_audit [simp]: "audit_events (tb_put t rs d) = audit_events d"
    and put_outbox [simp]: "outbox_events (tb_put t rs d) = outbox_events d"
    and rows_events [simp]: "tb_rows t (d\<lparr>audit_events := a, outbox_events := b\<rparr>) = tb_rows t d"
begin

lemma get_existing:
  assumes "primary_keys t d" "r \<in> set (tb_rows t d)"
  shows "get_tenant_record t (tb_id t r) (tb_org t r) d = Inr r"
proof -
  have "find_by (\<lambda>x. tb_id t x = tb_id t r \<and> tb_org t x = tb_org t r) (tb_rows t d) = Some r"
    using assms by (intro find_by_unique [where key = "tb_id t"]) (auto simp: primary_keys_def)
  then show ?thesis by (simp add: get_tenant_record_def)
qed

lemma foreign_row_is_not_found:
  assumes "primary_keys t d" "r \<in> set (tb_rows t d)" "tb_org t r \<noteq> org"
  shows "get_tenant_record t (tb_id t r) org d = Inl ResourceNotFoundError"
  using assms unfolding get_tenant_record_Inl primary_keys_def
  by (metis distinct_map inj_on_eq_iff)

lemma find_by_filter: "find_by (\<lambda>r. p r \<and> q r) (filter q xs) = find_by (\<lambda>r. p r \<and> q r) xs"
  by (induction xs) auto

lemma no_existence_oracle:
  "get_tenant_record t rid org (only_tenant t org d) = get_tenant_record t rid org d"
  by (simp add: get_tenant_record_def only_tenant_def
      find_by_filter [where p = "\<lambda>r. tb_id t r = rid" and q = "\<lambda>r. tb_org t r = org"])

lemma rows_save [simp]:
  "tb_rows t (save_row t r d) = update_where (\<lambda>x. tb_id t x = tb_id t r) (\<lambda>_. r) (tb_rows t d)"
  by (simp add: save_row_def)

lemma save_events [simp]:
  "audit_events (save_row t r d) = audit_events d" "outbox_events (save_row t r d) = outbox_events d"
  by (simp_all add: save_row_def)

lemma create_events [simp]:
  "audit_events (create_row t r d) = audit_events d"
  "outbox_events (create_row t r d) = outbox_events d"
  "tb_rows t (create_row t r d) = tb_rows t d @ [r]"
  by (simp_all add: create_row_def)

lemma primary_keys_save [simp]: "primary_keys t (save_row t r d) \<longleftrightarrow> primary_keys t d"
proof -
  have "map (tb_id t) (update_where (\<lambda>x. tb_id t x = tb_id t r) (\<lambda>_. r) (tb_rows t d))
        = map (tb_id t) (tb_rows t d)"
    by (auto simp: update_where_def)
  then show ?thesis by (simp add: primary_keys_def)
qed

lemma set_rows_save:
  assumes "primary_keys t d" "r \<in> set (tb_rows t d)" "tb_id t r' = tb_id t r"
  shows "set (tb_rows t (save_row t r' d)) = insert r' (set (tb_rows t d) - {r})"
  using assms by (auto simp: primary_keys_def set_update_where distinct_map inj_on_def)

lemma rows_record_transition:
  "record_transition env org actor tt tid fs ts rv md d = Inr d' \<Longrightarrow> tb_rows t d' = tb_rows t d"
  by (drule record_transition_Inr(1)) simp

lemma primary_keys_record_transition:
  "record_transition env org actor tt tid fs ts rv md d = Inr d'
     \<Longrightarrow> primary_keys t d' \<longleftrightarrow> primary_keys t d"
  by (simp add: primary_keys_def rows_record_transition)

end

section \<open>The tables of the model\<close>

definition job_table :: "background_job table" where
  "job_table = \<lparr>tb_rows = jobs, tb_put = (\<lambda>rs d. d\<lparr>jobs := rs\<rparr>), tb_id = job_id, tb_org = job_org\<rparr>"

definition sync_table :: "sync_run table" where
  "sync_table = \<lparr>tb_rows = sync_runs, tb_put = (\<lambda>rs d. d\<lparr>sync_runs := rs\<rparr>), tb_id = sync_id,
                 tb_org = sync_org\<rparr>"

definition assertion_table :: "knowledge_assertion table" where
  "assertion_table = \<lparr>tb_rows = assertions, tb_put = (\<lambda>rs d. d\<lparr>assertions := rs\<rparr>), tb_id = as_id,
                      tb_org = as_org\<rparr>"

definition assurance_table :: "assurance_run table" where
  "assurance_table = \<lparr>tb_rows = assurance_runs, tb_put = (\<lambda>rs d. d\<lparr>assurance_runs := rs\<rparr>),
                      tb_id = run_id, tb_org = run_org\<rparr>"

definition proposal_table :: "knowledge_proposal table" where
  "proposal_table = \<lparr>tb_rows = proposals, tb_put = (\<lambda>rs d. d\<lparr>proposals := rs\<rparr>), tb_id = prop_id,
                     tb_org = prop_org\<rparr>"

definition artifact_table :: "immutable_artifact table" where
  "artifact_table = \<lparr>tb_rows = artifacts, tb_put = (\<lambda>rs d. d\<lparr>artifacts := rs\<rparr>),
                     tb_id = art_id, tb_org = art_org\<rparr>"

interpretation artifact_rows: tenant_table artifact_table
  by unfold_locales (simp_all add: artifact_table_def)

interpretation job_rows: tenant_table job_table
  by unfold_locales (simp_all add: job_table_def)

interpretation sync_rows: tenant_table sync_table
  by unfold_locales (simp_all add: sync_table_def)

interpretation assertion_rows: tenant_table assertion_table
  by unfold_locales (simp_all add: assertion_table_def)

interpretation assurance_rows: tenant_table assurance_table
  by unfold_locales (simp_all add: assurance_table_def)

interpretation proposal_rows: tenant_table proposal_table
  by unfold_locales (simp_all add: proposal_table_def)

lemma rows_of_job_table [simp]: "tb_rows job_table d = jobs d"
  by (simp add: job_table_def)

lemma job_save_create [simp]:
  "jobs (save_row job_table r d) = update_where (\<lambda>x. job_id x = job_id r) (\<lambda>_. r) (jobs d)"
  "jobs (create_row job_table r d) = jobs d @ [r]"
  by (simp_all add: save_row_def create_row_def job_table_def)

lemma job_table_simps [simp]:
 "tb_id job_table = job_id" "tb_org job_table = job_org"
  by (simp_all add: job_table_def)

lemma rows_of_sync_table [simp]: "tb_rows sync_table d = sync_runs d"
  by (simp add: sync_table_def)

lemma sync_save_create [simp]:
  "sync_runs (save_row sync_table r d) = update_where (\<lambda>x. sync_id x = sync_id r) (\<lambda>_. r) (sync_runs d)"
  "sync_runs (create_row sync_table r d) = sync_runs d @ [r]"
  by (simp_all add: save_row_def create_row_def sync_table_def)

lemma sync_table_simps [simp]:
 "tb_id sync_table = sync_id"
  "tb_org sync_table = sync_org"
  by (simp_all add: sync_table_def)

lemma rows_of_assertion_table [simp]: "tb_rows assertion_table d = assertions d"
  by (simp add: assertion_table_def)

lemma assertion_save_create [simp]:
  "assertions (save_row assertion_table r d) = update_where (\<lambda>x. as_id x = as_id r) (\<lambda>_. r) (assertions d)"
  "assertions (create_row assertion_table r d) = assertions d @ [r]"
  by (simp_all add: save_row_def create_row_def assertion_table_def)

lemma assertion_table_simps [simp]:
 "tb_id assertion_table = as_id"
  "tb_org assertion_table = as_org"
  by (simp_all add: assertion_table_def)

lemma rows_of_assurance_table [simp]: "tb_rows assurance_table d = assurance_runs d"
  by (simp add: assurance_table_def)

lemma assurance_save_create [simp]:
  "assurance_runs (save_row assurance_table r d) = update_where (\<lambda>x. run_id x = run_id r) (\<lambda>_. r) (assurance_runs d)"
  "assurance_runs (create_row assurance_table r d) = assurance_runs d @ [r]"
  by (simp_all add: save_row_def create_row_def assurance_table_def)

lemma assurance_table_simps [simp]:
 "tb_id assurance_table = run_id"
  "tb_org assurance_table = run_org"
  by (simp_all add: assurance_table_def)

lemma rows_of_proposal_table [simp]: "tb_rows proposal_table d = proposals d"
  by (simp add: proposal_table_def)

lemma proposal_save_create [simp]:
  "proposals (save_row proposal_table r d) = update_where (\<lambda>x. prop_id x = prop_id r) (\<lambda>_. r) (proposals d)"
  "proposals (create_row proposal_table r d) = proposals d @ [r]"
  by (simp_all add: save_row_def create_row_def proposal_table_def)

lemma proposal_table_simps [simp]:
 "tb_id proposal_table = prop_id"
  "tb_org proposal_table = prop_org"
  by (simp_all add: proposal_table_def)

lemma rows_of_artifact_table [simp]: "tb_rows artifact_table d = artifacts d"
  by (simp add: artifact_table_def)

lemma artifact_table_simps [simp]: "tb_id artifact_table = art_id" "tb_org artifact_table = art_org"
  by (simp_all add: artifact_table_def)

definition token_table :: "access_token table" where
  "token_table = \<lparr>tb_rows = tokens, tb_put = (\<lambda>rs d. d\<lparr>tokens := rs\<rparr>), tb_id = tok_id,
     tb_org = tok_org\<rparr>"

definition repository_table :: "repository table" where
  "repository_table = \<lparr>tb_rows = repositories, tb_put = (\<lambda>rs d. d\<lparr>repositories := rs\<rparr>), tb_id = repo_id,
     tb_org = repo_org\<rparr>"

definition service_table :: "service_identity table" where
  "service_table = \<lparr>tb_rows = service_identities, tb_put = (\<lambda>rs d. d\<lparr>service_identities := rs\<rparr>), tb_id = sid_id,
     tb_org = sid_org\<rparr>"

definition source_table :: "source_connection table" where
  "source_table = \<lparr>tb_rows = sources, tb_put = (\<lambda>rs d. d\<lparr>sources := rs\<rparr>), tb_id = src_id,
     tb_org = src_org\<rparr>"

definition scope_table :: "access_scope table" where
  "scope_table = \<lparr>tb_rows = scopes, tb_put = (\<lambda>rs d. d\<lparr>scopes := rs\<rparr>), tb_id = sc_id,
     tb_org = sc_org\<rparr>"

definition member_table :: "membership table" where
  "member_table = \<lparr>tb_rows = memberships, tb_put = (\<lambda>rs d. d\<lparr>memberships := rs\<rparr>), tb_id = mem_id,
     tb_org = mem_org\<rparr>"

interpretation token_rows: tenant_table token_table
  by unfold_locales (simp_all add: token_table_def)

interpretation repository_rows: tenant_table repository_table
  by unfold_locales (simp_all add: repository_table_def)

interpretation service_rows: tenant_table service_table
  by unfold_locales (simp_all add: service_table_def)

interpretation source_rows: tenant_table source_table
  by unfold_locales (simp_all add: source_table_def)

interpretation scope_rows: tenant_table scope_table
  by unfold_locales (simp_all add: scope_table_def)

interpretation member_rows: tenant_table member_table
  by unfold_locales (simp_all add: member_table_def)

lemma token_table_simps [simp]:
  "tb_rows token_table d = tokens d" "tb_id token_table = tok_id" "tb_org token_table = tok_org"
  "tokens (save_row token_table r d) = update_where (\<lambda>x. tok_id x = tok_id r) (\<lambda>_. r) (tokens d)"
  "tokens (create_row token_table r d) = tokens d @ [r]"
  by (simp_all add: save_row_def create_row_def token_table_def)

lemma repository_table_simps [simp]:
  "tb_rows repository_table d = repositories d" "tb_id repository_table = repo_id" "tb_org repository_table = repo_org"
  "repositories (save_row repository_table r d) = update_where (\<lambda>x. repo_id x = repo_id r) (\<lambda>_. r) (repositories d)"
  "repositories (create_row repository_table r d) = repositories d @ [r]"
  by (simp_all add: save_row_def create_row_def repository_table_def)

lemma service_table_simps [simp]:
  "tb_rows service_table d = service_identities d" "tb_id service_table = sid_id" "tb_org service_table = sid_org"
  "service_identities (save_row service_table r d) = update_where (\<lambda>x. sid_id x = sid_id r) (\<lambda>_. r) (service_identities d)"
  "service_identities (create_row service_table r d) = service_identities d @ [r]"
  by (simp_all add: save_row_def create_row_def service_table_def)

lemma source_table_simps [simp]:
  "tb_rows source_table d = sources d" "tb_id source_table = src_id" "tb_org source_table = src_org"
  "sources (save_row source_table r d) = update_where (\<lambda>x. src_id x = src_id r) (\<lambda>_. r) (sources d)"
  "sources (create_row source_table r d) = sources d @ [r]"
  by (simp_all add: save_row_def create_row_def source_table_def)

lemma scope_table_simps [simp]:
  "tb_rows scope_table d = scopes d" "tb_id scope_table = sc_id" "tb_org scope_table = sc_org"
  "scopes (save_row scope_table r d) = update_where (\<lambda>x. sc_id x = sc_id r) (\<lambda>_. r) (scopes d)"
  "scopes (create_row scope_table r d) = scopes d @ [r]"
  by (simp_all add: save_row_def create_row_def scope_table_def)

lemma member_table_simps [simp]:
  "tb_rows member_table d = memberships d" "tb_id member_table = mem_id" "tb_org member_table = mem_org"
  "memberships (save_row member_table r d) = update_where (\<lambda>x. mem_id x = mem_id r) (\<lambda>_. r) (memberships d)"
  "memberships (create_row member_table r d) = memberships d @ [r]"
  by (simp_all add: save_row_def create_row_def member_table_def)

end
