(* ===== verification/Jobs.thy ===== *)
theory Jobs
  imports Tables "HOL-Library.Product_Lexorder"
begin

text \<open>
  \<^verbatim>\<open>src/anva/core/services/jobs.py\<close>: the PostgreSQL job queue.  \<^verbatim>\<open>timezone.now()\<close>, the fresh
  UUIDs and the set of rows other transactions hold locked (which \<^verbatim>\<open>SKIP LOCKED\<close> passes over)
  are parameters of the operations.
\<close>

definition backgroundjob :: pystr where
  "backgroundjob = lit ''backgroundjob''"

section \<open>Enqueueing\<close>

definition new_job ::
  "uuid \<Rightarrow> uuid \<Rightarrow> pystr \<Rightarrow> json \<Rightarrow> pystr \<Rightarrow> nat \<Rightarrow> int \<Rightarrow> instant \<Rightarrow> background_job"
where
  "new_job jid org kind payload key max_attempts priority now =
     \<lparr>job_id = jid, job_org = org, job_kind = kind, job_payload = payload,
      job_state = JOB_PENDING, job_priority = priority, job_available_at = now,
      job_created_at = now, job_attempt_count = 0, job_max_attempts = max_attempts,
      job_lease_owner = None, job_lease_expires_at = None, job_last_error = [],
      job_idempotency_key = key, job_completed_at = None\<rparr>"

definition enqueue_job ::
  "environment \<Rightarrow> actor_context \<Rightarrow> pystr \<Rightarrow> json \<Rightarrow> pystr \<Rightarrow> int \<Rightarrow> int \<Rightarrow> instant \<Rightarrow> uuid \<Rightarrow> db
     \<Rightarrow> (background_job \<times> bool \<times> db) result"
where
  "enqueue_job env actor kind payload key max_attempts priority now fresh_id d =
     (if strip kind = [] \<or> strip key = []
        then Inl (ValueError ''kind and idempotency_key are required'')
      else if max_attempts < 1 then Inl (ValueError ''max_attempts must be positive'')
      else case find_by (\<lambda>o'. org_id o' = actor_org actor) (organizations d) of
        None \<Rightarrow> Inl DoesNotExist
      | Some organization \<Rightarrow>
          (case find_by (\<lambda>j. job_org j = org_id organization \<and> job_idempotency_key j = key) (jobs d) of
             Some existing \<Rightarrow>
               if job_kind existing \<noteq> kind \<or> \<not> json_same (job_payload existing) payload
               then Inl IdempotencyConflictError
               else Inr (existing, False, d)
           | None \<Rightarrow>
               let job = new_job fresh_id (org_id organization) kind payload key (nat max_attempts)
                           priority now
               in bind_res
                    (record_transition env (org_id organization) actor backgroundjob (job_id job) []
                       (job_state_value JOB_PENDING) 0 [(lit ''kind'', JStr kind)]
                       (create_row job_table job d))
                    (\<lambda>d'. Inr (job, True, d'))))"

section \<open>Claiming\<close>

text \<open>\<^verbatim>\<open>lease_expires_at__lte=now\<close>; a null lease never matches.\<close>

definition lease_expired :: "instant \<Rightarrow> background_job \<Rightarrow> bool" where
  "lease_expired now j = (case job_lease_expires_at j of None \<Rightarrow> False | Some e \<Rightarrow> e \<le> now)"

definition exhausted :: "instant \<Rightarrow> background_job \<Rightarrow> bool" where
  "exhausted now j \<longleftrightarrow>
     job_state j = JOB_RUNNING \<and> lease_expired now j \<and> job_attempt_count j \<ge> job_max_attempts j"

definition exhausted_jobs :: "uuid list \<Rightarrow> instant \<Rightarrow> db \<Rightarrow> background_job list" where
  "exhausted_jobs locked now d =
     take 100 (sort_key (\<lambda>j. case job_lease_expires_at j of None \<Rightarrow> 0 | Some e \<Rightarrow> e)
                 (filter (\<lambda>j. job_id j \<notin> set locked \<and> exhausted now j) (jobs d)))"

definition claim_actor :: "uuid \<Rightarrow> pystr \<Rightarrow> uuid \<Rightarrow> actor_context" where
  "claim_actor org worker_id request_id =
     \<lparr>actor_org = org, actor_type = lit ''SERVICE'', actor_id = worker_id,
      actor_path = lit ''internal:job-claim'', actor_request_id = request_id,
      actor_source_ip_hash = [], actor_repository = None, actor_credential = None,
      actor_credential_actions = []\<rparr>"

definition expired_row :: "instant \<Rightarrow> background_job \<Rightarrow> background_job" where
  "expired_row now j =
     j\<lparr>job_state := JOB_FAILED, job_lease_owner := None, job_lease_expires_at := None,
       job_completed_at := Some now, job_last_error := lit ''LEASE_EXPIRED_AFTER_FINAL_ATTEMPT''\<rparr>"

definition expire_job ::
  "environment \<Rightarrow> pystr \<Rightarrow> instant \<Rightarrow> uuid \<times> background_job \<Rightarrow> db \<Rightarrow> db result"
where
  "expire_job env worker_id now p d =
     (let job = expired_row now (snd p)
      in record_transition env (job_org job) (claim_actor (job_org job) worker_id (fst p))
           backgroundjob (job_id job) (job_state_value JOB_RUNNING) (job_state_value JOB_FAILED)
           (job_attempt_count job) [(lit ''error_code'', JStr (job_last_error job))]
           (save_row job_table job d))"

definition eligible :: "pystr list option \<Rightarrow> instant \<Rightarrow> background_job \<Rightarrow> bool" where
  "eligible allowed_kinds now j \<longleftrightarrow>
     ((job_state j = JOB_PENDING \<and> job_available_at j \<le> now \<and> job_attempt_count j < job_max_attempts j)
      \<or> (job_state j = JOB_RUNNING \<and> lease_expired now j \<and> job_attempt_count j < job_max_attempts j))
     \<and> (case allowed_kinds of None \<Rightarrow> True | Some kinds \<Rightarrow> job_kind j \<in> set kinds)"

definition claim_order :: "background_job \<Rightarrow> int \<times> int \<times> int" where
  "claim_order j = (- job_priority j, job_available_at j, job_created_at j)"

definition candidates :: "uuid list \<Rightarrow> pystr list option \<Rightarrow> instant \<Rightarrow> db \<Rightarrow> background_job list" where
  "candidates locked allowed_kinds now d =
     filter (\<lambda>j. job_id j \<notin> set locked \<and> eligible allowed_kinds now j) (jobs d)"

definition claimed_row :: "pystr \<Rightarrow> int \<Rightarrow> instant \<Rightarrow> background_job \<Rightarrow> background_job" where
  "claimed_row worker_id lease_seconds now j =
     j\<lparr>job_state := JOB_RUNNING, job_attempt_count := job_attempt_count j + 1,
       job_lease_owner := Some worker_id, job_lease_expires_at := Some (now + seconds lease_seconds)\<rparr>"

definition claim_job ::
  "environment \<Rightarrow> pystr \<Rightarrow> int \<Rightarrow> instant \<Rightarrow> uuid \<Rightarrow> background_job \<Rightarrow> db
     \<Rightarrow> (background_job option \<times> db) result"
where
  "claim_job env worker_id lease_seconds now request_id j d =
     (let job = claimed_row worker_id lease_seconds now j
      in bind_res
           (record_transition env (job_org job) (claim_actor (job_org job) worker_id request_id)
              backgroundjob (job_id job) (job_state_value (job_state j)) (job_state_value JOB_RUNNING)
              (job_attempt_count job) [(lit ''lease_owner'', JStr worker_id)]
              (save_row job_table job d))
           (\<lambda>d'. Inr (Some job, d')))"

text \<open>
  \<open>request_ids\<close> gives the UUIDs of the sweep; the claim itself is recorded under
  \<open>request_id\<close>.
\<close>

definition claim_next_job ::
  "environment \<Rightarrow> pystr \<Rightarrow> int \<Rightarrow> pystr list option \<Rightarrow> instant \<Rightarrow> uuid list \<Rightarrow> (nat \<Rightarrow> uuid) \<Rightarrow> uuid
     \<Rightarrow> db \<Rightarrow> (background_job option \<times> db) result"
where
  "claim_next_job env worker_id lease_seconds allowed_kinds now locked request_ids request_id d =
     (if strip worker_id = [] then Inl (ValueError ''worker_id is required'')
      else if lease_seconds < 1 then Inl (ValueError ''lease_seconds must be positive'')
      else
        let swept = exhausted_jobs locked now d
        in bind_res
             (fold_res (expire_job env worker_id now)
                (zip (map request_ids [0..<length swept]) swept) d)
             (\<lambda>d1. case first_by claim_order (candidates locked allowed_kinds now d1) of
                None \<Rightarrow> Inr (None, d1)
              | Some j \<Rightarrow> claim_job env worker_id lease_seconds now request_id j d1))"

section \<open>Settling a leased job\<close>

definition holds_lease :: "pystr \<Rightarrow> instant \<Rightarrow> background_job \<Rightarrow> bool" where
  "holds_lease worker_id now j \<longleftrightarrow>
     job_state j = JOB_RUNNING \<and> job_lease_owner j = Some worker_id
     \<and> (case job_lease_expires_at j of None \<Rightarrow> False | Some e \<Rightarrow> now < e)"

definition require_current_lease :: "background_job \<Rightarrow> pystr \<Rightarrow> instant \<Rightarrow> unit result" where
  "require_current_lease j worker_id now = guard_res (holds_lease worker_id now j) LeaseConflictError"

definition complete_job ::
  "environment \<Rightarrow> actor_context \<Rightarrow> uuid \<Rightarrow> pystr \<Rightarrow> instant \<Rightarrow> db \<Rightarrow> (background_job \<times> db) result"
where
  "complete_job env actor jid worker_id now d =
     bind_res (get_tenant_record_for_update job_table jid (actor_org actor) d) (\<lambda>j.
     if job_state j = JOB_SUCCEEDED then Inr (j, d)
     else bind_res (require_current_lease j worker_id now) (\<lambda>_.
       let job = j\<lparr>job_state := JOB_SUCCEEDED, job_lease_owner := None,
                   job_lease_expires_at := None, job_completed_at := Some now\<rparr>
       in bind_res
            (record_transition env (job_org job) actor backgroundjob (job_id job)
               (job_state_value JOB_RUNNING) (job_state_value JOB_SUCCEEDED)
               (job_attempt_count job) [] (save_row job_table job d))
            (\<lambda>d'. Inr (job, d'))))"

definition failed_row :: "pystr \<Rightarrow> int \<Rightarrow> instant \<Rightarrow> background_job \<Rightarrow> background_job" where
  "failed_row error_code retry_delay_seconds now j =
     (let next_state = (if job_attempt_count j \<ge> job_max_attempts j then JOB_FAILED else JOB_PENDING)
      in j\<lparr>job_state := next_state, job_lease_owner := None, job_lease_expires_at := None,
           job_last_error := error_code, job_available_at := now + seconds retry_delay_seconds,
           job_completed_at := (if next_state = JOB_FAILED then Some now else None)\<rparr>)"

definition fail_job ::
  "environment \<Rightarrow> actor_context \<Rightarrow> uuid \<Rightarrow> pystr \<Rightarrow> pystr \<Rightarrow> int \<Rightarrow> instant \<Rightarrow> db
     \<Rightarrow> (background_job \<times> db) result"
where
  "fail_job env actor jid worker_id error_code retry_delay_seconds now d =
     (if retry_delay_seconds < 0 then Inl (ValueError ''retry_delay_seconds cannot be negative'')
      else bind_res (get_tenant_record_for_update job_table jid (actor_org actor) d) (\<lambda>j.
        bind_res (require_current_lease j worker_id now) (\<lambda>_.
          let job = failed_row error_code retry_delay_seconds now j
          in bind_res
               (record_transition env (job_org job) actor backgroundjob (job_id job)
                  (job_state_value JOB_RUNNING) (job_state_value (job_state job))
                  (job_attempt_count job) [(lit ''error_code'', JStr error_code)]
                  (save_row job_table job d))
               (\<lambda>d'. Inr (job, d')))))"

definition cancel_job ::
  "environment \<Rightarrow> actor_context \<Rightarrow> uuid \<Rightarrow> pystr \<Rightarrow> pystr \<Rightarrow> instant \<Rightarrow> db
     \<Rightarrow> (background_job \<times> db) result"
where
  "cancel_job env actor jid worker_id error_code now d =
     bind_res (get_tenant_record_for_update job_table jid (actor_org actor) d) (\<lambda>j.
     if job_state j = JOB_CANCELLED then Inr (j, d)
     else bind_res (require_current_lease j worker_id now) (\<lambda>_.
       let job = j\<lparr>job_state := JOB_CANCELLED, job_lease_owner := None,
                   job_lease_expires_at := None, job_last_error := error_code,
                   job_completed_at := Some now\<rparr>
       in bind_res
            (record_transition env (job_org job) actor backgroundjob (job_id job)
               (job_state_value JOB_RUNNING) (job_state_value JOB_CANCELLED)
               (job_attempt_count job) [(lit ''error_code'', JStr error_code)]
               (save_row job_table job d))
            (\<lambda>d'. Inr (job, d'))))"

text \<open>The \<^verbatim>\<open>ActorContext\<close> of a claim passes its own constructor checks.\<close>

lemma claim_actor_checks: "strip w \<noteq> [] \<Longrightarrow> check_actor (claim_actor org w r) = Inr (claim_actor org w r)"
  by (simp add: check_actor_def claim_actor_def strip_empty_iff is_space_def)

end
