(* ===== verification/JobSafety.thy ===== *)
theory JobSafety
  imports Jobs
begin

text \<open>
  Correctness of the job queue.  Every operation is shown to be a run of the step relation
  \<open>job_move\<close>, whose edges are the two things that ever happen to a job (an attempt starts, an
  attempt ends); the invariant is proved once for that relation, and the properties of the
  operations follow from it.
\<close>

section \<open>The life of one job\<close>

definition terminal_job :: "background_job \<Rightarrow> bool" where
  "terminal_job j \<longleftrightarrow> job_state j \<in> {JOB_SUCCEEDED, JOB_FAILED, JOB_CANCELLED}"

definition job_wf :: "background_job \<Rightarrow> bool" where
  "job_wf j \<longleftrightarrow>
     1 \<le> job_max_attempts j \<and> job_attempt_count j \<le> job_max_attempts j
     \<and> (job_lease_owner j \<noteq> None \<longleftrightarrow> job_state j = JOB_RUNNING)
     \<and> (job_lease_expires_at j \<noteq> None \<longleftrightarrow> job_state j = JOB_RUNNING)
     \<and> (job_completed_at j \<noteq> None \<longleftrightarrow> terminal_job j)
     \<and> (job_state j = JOB_PENDING \<longrightarrow> job_attempt_count j < job_max_attempts j)
     \<and> (job_state j = JOB_RUNNING \<longrightarrow> 1 \<le> job_attempt_count j)"

inductive job_edge :: "background_job \<Rightarrow> background_job \<Rightarrow> bool" where
  start: "job_state j \<in> {JOB_PENDING, JOB_RUNNING} \<Longrightarrow> job_attempt_count j < job_max_attempts j
     \<Longrightarrow> job_edge j (claimed_row w ls now j)"
| finish: "job_state j = JOB_RUNNING \<Longrightarrow> s \<in> {JOB_SUCCEEDED, JOB_FAILED, JOB_CANCELLED}
     \<Longrightarrow> job_edge j (j\<lparr>job_state := s, job_lease_owner := None, job_lease_expires_at := None,
                      job_last_error := e, job_available_at := a, job_completed_at := Some now\<rparr>)"
| retry: "job_state j = JOB_RUNNING \<Longrightarrow> job_attempt_count j < job_max_attempts j
     \<Longrightarrow> job_edge j (j\<lparr>job_state := JOB_PENDING, job_lease_owner := None,
                      job_lease_expires_at := None, job_last_error := e, job_available_at := a,
                      job_completed_at := None\<rparr>)"

inductive_cases job_edgeE: "job_edge j j'"

lemma job_edge_identity:
  "job_edge j j' \<Longrightarrow>
     job_id j' = job_id j \<and> job_org j' = job_org j \<and> job_kind j' = job_kind j
     \<and> job_payload j' = job_payload j \<and> job_idempotency_key j' = job_idempotency_key j
     \<and> job_max_attempts j' = job_max_attempts j"
  by (erule job_edgeE) (simp_all add: claimed_row_def)

lemma job_edge_wf: "job_edge j j' \<Longrightarrow> job_wf j \<Longrightarrow> job_wf j'"
  by (erule job_edgeE) (auto simp: claimed_row_def job_wf_def terminal_job_def)

lemma job_edge_not_terminal: "job_edge j j' \<Longrightarrow> \<not> terminal_job j"
  by (erule job_edgeE) (auto simp: terminal_job_def)

lemma job_state_value_eq [simp]: "job_state_value a = job_state_value b \<longleftrightarrow> a = b"
  by (cases a; cases b) simp_all

declare job_state_value.simps [simp del]

section \<open>What the outbox says of a job\<close>

fun key_to :: "transition_key \<Rightarrow> pystr" where
  "key_to (TransitionKey _ _ _ _ t) = t"

fun key_revision :: "transition_key \<Rightarrow> nat" where
  "key_revision (TransitionKey _ _ n _ _) = n"

definition job_events :: "uuid \<Rightarrow> outbox_event list \<Rightarrow> outbox_event list" where
  "job_events jid es = filter (\<lambda>e. ob_aggregate_type e = backgroundjob \<and> ob_aggregate_id e = jid) es"

text \<open>How many times the outbox says a job was started, and how many times it says it ended.\<close>

definition starts :: "uuid \<Rightarrow> outbox_event list \<Rightarrow> nat" where
  "starts jid es =
     length (filter (\<lambda>e. key_to (ob_key e) = job_state_value JOB_RUNNING) (job_events jid es))"

definition endings :: "uuid \<Rightarrow> outbox_event list \<Rightarrow> nat" where
  "endings jid es =
     length (filter (\<lambda>e. key_to (ob_key e) \<in> {job_state_value JOB_SUCCEEDED,
                          job_state_value JOB_FAILED, job_state_value JOB_CANCELLED})
               (job_events jid es))"

definition job_log :: "background_job \<Rightarrow> outbox_event list \<Rightarrow> bool" where
  "job_log j es \<longleftrightarrow>
     (\<forall>e\<in>set (job_events (job_id j) es).
        key_revision (ob_key e) \<le> job_attempt_count j
        \<and> (job_state j = JOB_RUNNING \<and> key_revision (ob_key e) = job_attempt_count j
           \<longrightarrow> key_to (ob_key e) = job_state_value JOB_RUNNING))
     \<and> starts (job_id j) es = job_attempt_count j
     \<and> endings (job_id j) es = (if terminal_job j then 1 else 0)"

lemma job_events_append [simp]: "job_events i (es @ fs) = job_events i es @ job_events i fs"
  by (simp add: job_events_def)

lemma job_events_row:
  "job_events i [outbox_row org tt tid fs ts rv md] =
     (if tt = backgroundjob \<and> tid = i then [outbox_row org tt tid fs ts rv md] else [])"
  by (simp add: job_events_def outbox_row_def)

lemma ob_key_outbox_row [simp]: "ob_key (outbox_row org tt tid fs ts rv md) = TransitionKey tt tid rv fs ts"
  by (simp add: outbox_row_def)

lemma starts_row [simp]:
  "starts i (es @ [outbox_row org backgroundjob i fs (job_state_value s) n md]) =
     starts i es + (if s = JOB_RUNNING then 1 else 0)"
  by (simp add: starts_def job_events_row)

lemma endings_row [simp]:
  "endings i (es @ [outbox_row org backgroundjob i fs (job_state_value s) n md]) =
     endings i es + (if s \<in> {JOB_SUCCEEDED, JOB_FAILED, JOB_CANCELLED} then 1 else 0)"
  by (simp add: endings_def job_events_row)

lemma job_log_other:
  "job_id j \<noteq> tid \<Longrightarrow> job_log j (es @ [outbox_row org backgroundjob tid fs ts rv md]) = job_log j es"
  by (simp add: job_log_def starts_def endings_def job_events_row)

definition job_log_bound :: "background_job \<Rightarrow> outbox_event list \<Rightarrow> bool" where
  "job_log_bound j es \<longleftrightarrow>
     (\<forall>e\<in>set es. key_revision (ob_key e) \<le> job_attempt_count j
        \<and> (job_state j = JOB_RUNNING \<and> key_revision (ob_key e) = job_attempt_count j
           \<longrightarrow> key_to (ob_key e) = job_state_value JOB_RUNNING))"

lemma job_log_alt:
  "job_log j es \<longleftrightarrow>
     job_log_bound j (job_events (job_id j) es) \<and> starts (job_id j) es = job_attempt_count j
     \<and> endings (job_id j) es = (if terminal_job j then 1 else 0)"
  by (simp add: job_log_def job_log_bound_def)

lemma job_log_bound_edge:
  assumes "job_edge j j'" "job_log_bound j es"
  shows "job_log_bound j' es"
  using assms by (cases rule: job_edgeE) (auto simp: job_log_bound_def claimed_row_def)

lemma job_edge_counts:
  assumes "job_edge j j'"
  shows "job_attempt_count j' = job_attempt_count j + (if job_state j' = JOB_RUNNING then 1 else 0)"
    and "terminal_job j' \<longleftrightarrow> job_state j' \<in> {JOB_SUCCEEDED, JOB_FAILED, JOB_CANCELLED}"
proof -
  show "job_attempt_count j' = job_attempt_count j + (if job_state j' = JOB_RUNNING then 1 else 0)"
    using assms by (cases rule: job_edgeE) (auto simp: claimed_row_def)
  show "terminal_job j' \<longleftrightarrow> job_state j' \<in> {JOB_SUCCEEDED, JOB_FAILED, JOB_CANCELLED}"
    by (simp add: terminal_job_def)
qed

lemma job_log_edge:
  assumes "job_edge j j'" "job_log j es"
  shows "job_log j' (es @ [outbox_row org backgroundjob (job_id j') fs (job_state_value (job_state j'))
                             (job_attempt_count j') md])"
proof -
  have i: "job_id j' = job_id j" using assms(1) job_edge_identity by blast
  have b: "job_log_bound j' (job_events (job_id j) es)"
    using assms job_log_bound_edge by (simp add: job_log_alt)
  have n: "job_log_bound j' [outbox_row org backgroundjob (job_id j') fs
             (job_state_value (job_state j')) (job_attempt_count j') md]"
    by (auto simp: job_log_bound_def)
  have "job_log_bound j' (job_events (job_id j) es @ [outbox_row org backgroundjob (job_id j') fs
             (job_state_value (job_state j')) (job_attempt_count j') md])"
    using b n by (auto simp: job_log_bound_def)
  then show ?thesis
    using assms(2) job_edge_counts [OF assms(1)] job_edge_not_terminal [OF assms(1)]
    by (simp add: job_log_alt i job_events_row)
qed

lemma job_log_new:
  assumes "job_events (job_id j) es = []" "job_state j = JOB_PENDING" "job_attempt_count j = 0"
  shows "job_log j (es @ [outbox_row org backgroundjob (job_id j) fs (job_state_value JOB_PENDING) 0 md])"
  using assms
  by (simp add: job_log_alt job_log_bound_def job_events_row terminal_job_def)
    (simp add: starts_def endings_def)

text \<open>The key of the next event of a job is a new one.\<close>

lemma job_log_fresh_key:
  assumes "job_edge j j'" "job_log j es" "e \<in> set (job_events (job_id j) es)"
  shows "ob_key e \<noteq> TransitionKey backgroundjob (job_id j') (job_attempt_count j') fs
                      (job_state_value (job_state j'))"
  using assms
  by (cases rule: job_edgeE) (auto simp: job_log_def claimed_row_def)

section \<open>The step relation and its invariant\<close>

text \<open>An event whose key names the aggregate the event is about.\<close>

definition key_matches :: "outbox_event \<Rightarrow> bool" where
  "key_matches e \<longleftrightarrow>
     (case ob_key e of TransitionKey tt tid _ _ _ \<Rightarrow> ob_aggregate_type e = tt \<and> ob_aggregate_id e = tid)"

definition job_key :: "background_job \<Rightarrow> uuid \<times> pystr" where
  "job_key j = (job_org j, job_idempotency_key j)"

text \<open>
  \<open>others\<close> is a step of any other service: it leaves the job table alone and appends events of
  other aggregates.
\<close>

inductive job_move :: "environment \<Rightarrow> db \<Rightarrow> db \<Rightarrow> bool" for env where
  created: "job_id j \<notin> job_id ` set (jobs d) \<Longrightarrow> job_key j \<notin> job_key ` set (jobs d)
     \<Longrightarrow> job_wf j \<Longrightarrow> job_state j = JOB_PENDING \<Longrightarrow> job_attempt_count j = 0
     \<Longrightarrow> record_transition env (job_org j) actor backgroundjob (job_id j) []
           (job_state_value JOB_PENDING) 0 md (create_row job_table j d) = Inr d'
     \<Longrightarrow> job_move env d d'"
| moved: "j \<in> set (jobs d) \<Longrightarrow> job_edge j j'
     \<Longrightarrow> record_transition env (job_org j') actor backgroundjob (job_id j')
           (job_state_value (job_state j)) (job_state_value (job_state j')) (job_attempt_count j') md
           (save_row job_table j' d) = Inr d'
     \<Longrightarrow> job_move env d d'"
| others: "jobs d' = jobs d \<Longrightarrow> outbox_events d' = outbox_events d @ es
     \<Longrightarrow> \<forall>e\<in>set es. ob_aggregate_type e \<noteq> backgroundjob \<and> key_matches e
     \<Longrightarrow> job_move env d d'"

inductive_cases job_moveE: "job_move env d d'"

definition jobs_inv :: "db \<Rightarrow> bool" where
  "jobs_inv d \<longleftrightarrow>
     primary_keys job_table d \<and> distinct (map job_key (jobs d))
     \<and> (\<forall>j\<in>set (jobs d). job_wf j \<and> job_log j (outbox_events d))
     \<and> (\<forall>e\<in>set (outbox_events d). key_matches e
          \<and> (ob_aggregate_type e = backgroundjob \<longrightarrow> ob_aggregate_id e \<in> job_id ` set (jobs d)))"

lemma jobs_inv_empty: "jobs_inv empty_db"
  by (simp add: jobs_inv_def empty_db_def primary_keys_def)

lemma record_transition_jobs:
  assumes "record_transition env org actor tt tid fs ts rv md d = Inr d'"
  shows "jobs d' = jobs d" "outbox_events d' = outbox_events d @ [outbox_row org tt tid fs ts rv md]"
  using record_transition_Inr(1) [OF assms] by simp_all

lemma key_matches_row [simp]: "key_matches (outbox_row org tt tid fs ts rv md)"
  by (simp add: key_matches_def outbox_row_def)

lemma outbox_row_aggregate [simp]:
  "ob_aggregate_type (outbox_row org tt tid fs ts rv md) = tt"
  "ob_aggregate_id (outbox_row org tt tid fs ts rv md) = tid"
  by (simp_all add: outbox_row_def)

lemma jobs_inv_created:
  assumes inv: "jobs_inv d" and fresh: "job_id j \<notin> job_id ` set (jobs d)" "job_key j \<notin> job_key ` set (jobs d)"
    and j: "job_wf j" "job_state j = JOB_PENDING" "job_attempt_count j = 0"
    and d': "jobs d' = jobs d @ [j]"
      "outbox_events d' = outbox_events d @ [outbox_row org backgroundjob (job_id j) []
         (job_state_value JOB_PENDING) 0 md]"
  shows "jobs_inv d'"
proof -
  have "ob_aggregate_id e \<noteq> job_id j"
    if "e \<in> set (outbox_events d)" "ob_aggregate_type e = backgroundjob" for e
    using inv fresh(1) that unfolding jobs_inv_def by metis
  then have none: "job_events (job_id j) (outbox_events d) = []"
    by (auto simp: job_events_def filter_empty_conv)
  have "job_wf k \<and> job_log k (outbox_events d')" if "k \<in> set (jobs d')" for k
  proof (cases "k = j")
    case True
    then show ?thesis using job_log_new [OF none j(2,3)] j(1) d' by simp
  next
    case False
    then have k: "k \<in> set (jobs d)" using that d' by auto
    then have "job_id k \<noteq> job_id j" using fresh(1) by (metis imageI)
    with k show ?thesis using inv d' by (simp add: jobs_inv_def job_log_other)
  qed
  then show ?thesis
    using inv fresh d' by (auto simp: jobs_inv_def primary_keys_def)
qed

lemma jobs_inv_moved:
  assumes inv: "jobs_inv d" and j: "j \<in> set (jobs d)" and edge: "job_edge j j'"
    and d': "jobs d' = update_where (\<lambda>x. job_id x = job_id j') (\<lambda>_. j') (jobs d)"
      "outbox_events d' = outbox_events d @ [outbox_row org backgroundjob (job_id j') fs
         (job_state_value (job_state j')) (job_attempt_count j') md]"
  shows "jobs_inv d'"
proof -
  have same: "job_id j' = job_id j" "job_key j' = job_key j"
    using job_edge_identity [OF edge] by (simp_all add: job_key_def)
  have pk: "distinct (map job_id (jobs d))" using inv by (simp add: jobs_inv_def primary_keys_def)
  have only: "x = j" if "x \<in> set (jobs d)" "job_id x = job_id j" for x
    using that j pk by (simp add: distinct_map inj_on_def)
  have rows: "set (jobs d') = insert j' (set (jobs d) - {j})"
    using only j by (auto simp: d' same set_update_where)
  have keys: "map job_key (jobs d') = map job_key (jobs d)" "map job_id (jobs d') = map job_id (jobs d)"
    using only by (auto simp: d' update_where_def same)
  have wf: "job_wf j" and lg: "job_log j (outbox_events d)" using inv j by (simp_all add: jobs_inv_def)
  have old: "job_wf k \<and> job_log k (outbox_events d')" if "k \<in> set (jobs d')" for k
  proof (cases "k = j'")
    case True
    then show ?thesis using job_edge_wf [OF edge wf] job_log_edge [OF edge lg] d' by simp
  next
    case False
    then have "k \<in> set (jobs d)" "job_id k \<noteq> job_id j'" using that rows only same by auto
    then show ?thesis using inv d' by (simp add: jobs_inv_def job_log_other)
  qed
  have ids: "job_id ` set (jobs d') = job_id ` set (jobs d)"
    using keys(2) by (metis list.set_map)
  have jin: "job_id j \<in> job_id ` set (jobs d)" using j by simp
  have evs: "key_matches e \<and> (ob_aggregate_type e = backgroundjob \<longrightarrow> ob_aggregate_id e \<in> job_id ` set (jobs d))"
    if "e \<in> set (outbox_events d')" for e
  proof (cases "e \<in> set (outbox_events d)")
    case True
    then show ?thesis using inv unfolding jobs_inv_def by blast
  next
    case False
    then have "e = outbox_row org backgroundjob (job_id j') fs (job_state_value (job_state j'))
                 (job_attempt_count j') md" using that d'(2) by simp
    then show ?thesis using jin same(1) by simp
  qed
  have dk: "distinct (map job_key (jobs d))" using inv unfolding jobs_inv_def by blast
  show ?thesis
    unfolding jobs_inv_def primary_keys_def rows_of_job_table job_table_simps keys ids
    using old evs pk dk by blast
qed

lemma job_move_inv: "job_move env d d' \<Longrightarrow> jobs_inv d \<Longrightarrow> jobs_inv d'"
proof (induction rule: job_move.induct)
  case (created j d actor md d')
  note rows = record_transition_jobs [OF created.hyps(6)]
  show ?case
    by (rule jobs_inv_created [where md = md and org = "job_org j",
          OF created.prems created.hyps(1-5)]) (simp_all add: rows)
next
  case (moved j d j' actor md d')
  note rows = record_transition_jobs [OF moved.hyps(3)]
  show ?case
    by (rule jobs_inv_moved [where md = md and org = "job_org j'" and
          fs = "job_state_value (job_state j)", OF moved.prems moved.hyps(1,2)]) (simp_all add: rows)
next
  case (others d' d es)
  have "job_events i (outbox_events d') = job_events i (outbox_events d)" for i
    using others by (auto simp: job_events_def filter_empty_conv)
  then have "job_log j (outbox_events d') = job_log j (outbox_events d)" for j
    by (simp add: job_log_def starts_def endings_def)
  then show ?case using others by (auto simp: jobs_inv_def primary_keys_def)
qed

section \<open>The operations are runs of the step relation\<close>

lemma job_moved_by:
  assumes "jobs_inv d" "j \<in> set (jobs d)" "job_edge j j'"
    and "record_transition env (job_org j') actor backgroundjob (job_id j')
           (job_state_value (job_state j)) (job_state_value (job_state j')) (job_attempt_count j') md
           (save_row job_table j' d) = Inr d'"
  shows "job_move env d d'" and "jobs_inv d'"
    and "jobs d' = update_where (\<lambda>x. job_id x = job_id j) (\<lambda>_. j') (jobs d)"
proof -
  show m: "job_move env d d'" by (rule job_move.moved [OF assms(2-4)])
  then show "jobs_inv d'" by (rule job_move_inv) (rule assms(1))
  show "jobs d' = update_where (\<lambda>x. job_id x = job_id j) (\<lambda>_. j') (jobs d)"
    using record_transition_jobs(1) [OF assms(4)] job_edge_identity [OF assms(3)] by simp
qed

lemma same_job:
  assumes "jobs_inv d" "x \<in> set (jobs d)" "y \<in> set (jobs d)" "job_id x = job_id y"
  shows "x = y"
  using assms by (auto simp: jobs_inv_def primary_keys_def distinct_map inj_on_def)

lemma enqueue_moves:
  assumes "enqueue_job env actor kind payload key max_attempts priority now i d = Inr (j, new, d')"
    and "i \<notin> job_id ` set (jobs d)"
  shows "if new then job_move env d d' \<and> jobs d' = jobs d @ [j] else d' = d \<and> j \<in> set (jobs d)"
proof (cases "\<exists>x\<in>set (jobs d). job_org x = actor_org actor \<and> job_idempotency_key x = key")
  case True
  then show ?thesis
    using assms(1)
    by (auto simp: enqueue_job_def Let_def bind_res_Inr split: if_splits option.splits
        dest!: find_by_Some_iff)
next
  case False
  define job where "job = new_job i (actor_org actor) kind payload key (nat max_attempts) priority now"
  from assms(1) False have m: "1 \<le> max_attempts" and new: "new" and j: "j = job"
    and rec: "record_transition env (actor_org actor) actor backgroundjob (job_id job) []
       (job_state_value JOB_PENDING) 0 [(lit ''kind'', JStr kind)] (create_row job_table job d) = Inr d'"
    by (auto simp: enqueue_job_def Let_def bind_res_Inr job_def split: if_splits option.splits
        dest!: find_by_Some_iff)
  have "job_move env d d'"
  proof (rule job_move.created [where j = job])
    show "job_id job \<notin> job_id ` set (jobs d)" using assms(2) by (simp add: job_def new_job_def)
    show "job_key job \<notin> job_key ` set (jobs d)"
      using False by (auto simp: job_key_def job_def new_job_def)
    show "job_wf job" using m by (simp add: job_wf_def job_def new_job_def terminal_job_def)
    show "job_state job = JOB_PENDING" "job_attempt_count job = 0" by (simp_all add: job_def new_job_def)
    show "record_transition env (job_org job) actor backgroundjob (job_id job) []
       (job_state_value JOB_PENDING) 0 [(lit ''kind'', JStr kind)] (create_row job_table job d) = Inr d'"
      using rec by (simp add: job_def new_job_def)
  qed
  then show ?thesis using new j record_transition_jobs(1) [OF rec] by simp
qed

lemma job_edge_finishI:
  assumes "job_state j = JOB_RUNNING" "s \<in> {JOB_SUCCEEDED, JOB_FAILED, JOB_CANCELLED}"
    and "j' = j\<lparr>job_state := s, job_lease_owner := None, job_lease_expires_at := None,
               job_last_error := e, job_available_at := a, job_completed_at := Some now\<rparr>"
  shows "job_edge j j'"
  unfolding assms(3) by (rule job_edge.finish [OF assms(1,2)])

lemma expired_edge:
  assumes "exhausted now j"
  shows "job_edge j (expired_row now j)"
proof (rule job_edge_finishI)
  show "job_state j = JOB_RUNNING" using assms by (simp add: exhausted_def)
  show "JOB_FAILED \<in> {JOB_SUCCEEDED, JOB_FAILED, JOB_CANCELLED}" by simp
  show "expired_row now j = j\<lparr>job_state := JOB_FAILED, job_lease_owner := None,
      job_lease_expires_at := None, job_last_error := lit ''LEASE_EXPIRED_AFTER_FINAL_ATTEMPT'',
      job_available_at := job_available_at j, job_completed_at := Some now\<rparr>"
    by (cases j) (simp add: expired_row_def)
qed

lemma expire_moves:
  assumes "expire_job env w now (r, j) d = Inr d'" "jobs_inv d" "j \<in> set (jobs d)" "exhausted now j"
  shows "job_move env d d'" and "jobs_inv d'"
    and "jobs d' = update_where (\<lambda>x. job_id x = job_id j) (\<lambda>_. expired_row now j) (jobs d)"
proof -
  have s: "job_state j = JOB_RUNNING" using assms(4) by (simp add: exhausted_def)
  have "record_transition env (job_org (expired_row now j)) (claim_actor (job_org j) w r) backgroundjob
      (job_id (expired_row now j)) (job_state_value (job_state j))
      (job_state_value (job_state (expired_row now j))) (job_attempt_count (expired_row now j))
      [(lit ''error_code'', JStr (job_last_error (expired_row now j)))]
      (save_row job_table (expired_row now j) d) = Inr d'"
    using assms(1) s by (simp add: expire_job_def Let_def expired_row_def)
  from job_moved_by [OF assms(2,3) expired_edge [OF assms(4)] this]
  show "job_move env d d'" "jobs_inv d'"
    "jobs d' = update_where (\<lambda>x. job_id x = job_id j) (\<lambda>_. expired_row now j) (jobs d)" .
qed

definition swept_row :: "instant \<Rightarrow> background_job list \<Rightarrow> background_job \<Rightarrow> background_job" where
  "swept_row now js j = (if j \<in> set js then expired_row now j else j)"

lemma sweep_moves:
  assumes "fold_res (expire_job env w now) ps d = Inr d1"
    and "jobs_inv d" "distinct (map (job_id \<circ> snd) ps)"
    and "\<forall>p\<in>set ps. snd p \<in> set (jobs d) \<and> exhausted now (snd p)"
  shows "(job_move env)\<^sup>*\<^sup>* d d1 \<and> jobs_inv d1 \<and> jobs d1 = map (swept_row now (map snd ps)) (jobs d)"
  using assms
proof (induction ps arbitrary: d)
  case Nil
  then show ?case by (simp add: swept_row_def)
next
  case (Cons p ps)
  obtain r j where p: "p = (r, j)" by (cases p)
  from Cons.prems(1) obtain d' where d': "expire_job env w now (r, j) d = Inr d'"
    and rest: "fold_res (expire_job env w now) ps d' = Inr d1"
    by (auto simp: p bind_res_Inr)
  from Cons.prems(4) p have j: "j \<in> set (jobs d)" "exhausted now j" by simp_all
  note m = expire_moves [OF d' Cons.prems(2) j]
  have rows: "jobs d' = map (\<lambda>x. if x = j then expired_row now j else x) (jobs d)"
    using same_job [OF Cons.prems(2) _ j(1)] by (auto simp: m(3) update_where_def)
  have later: "snd q \<in> set (jobs d') \<and> exhausted now (snd q)" if "q \<in> set ps" for q
  proof -
    have "snd q \<in> set (jobs d)" "exhausted now (snd q)" using Cons.prems(4) that by simp_all
    moreover have "job_id (snd q) \<noteq> job_id j" using Cons.prems(3) that by (force simp: p)
    ultimately show ?thesis unfolding rows by force
  qed
  have ih: "(job_move env)\<^sup>*\<^sup>* d' d1 \<and> jobs_inv d1 \<and> jobs d1 = map (swept_row now (map snd ps)) (jobs d')"
    using Cons.prems(3) later by (intro Cons.IH [OF rest m(2)]) (simp_all add: p)
  have notin: "expired_row now j \<notin> snd ` set ps"
  proof
    assume "expired_row now j \<in> snd ` set ps"
    then have "job_id j \<in> (job_id \<circ> snd) ` set ps"
      by (auto simp: expired_row_def intro!: rev_image_eqI)
    then show False using Cons.prems(3) by (auto simp: p)
  qed
  have "jobs d1 = map (swept_row now (map snd (p # ps))) (jobs d)"
    using ih notin by (auto simp: rows swept_row_def p)
  then show ?case using ih m(1) by (simp add: converse_rtranclp_into_rtranclp)
qed

lemma exhausted_jobs_swept:
  assumes "jobs_inv d" "ps = zip (map request_ids [0..<length (exhausted_jobs locked now d)])
                                 (exhausted_jobs locked now d)"
  shows "map snd ps = exhausted_jobs locked now d"
    and "distinct (map (job_id \<circ> snd) ps)"
    and "\<forall>p\<in>set ps. snd p \<in> set (jobs d) \<and> exhausted now (snd p)"
proof -
  let ?key = "\<lambda>j. case job_lease_expires_at j of None \<Rightarrow> 0 | Some e \<Rightarrow> e"
  let ?P = "\<lambda>j. job_id j \<notin> set locked \<and> exhausted now j"
  show s: "map snd ps = exhausted_jobs locked now d" by (simp add: assms(2))
  have sub: "set (exhausted_jobs locked now d) \<subseteq> {j \<in> set (jobs d). exhausted now j}"
    using set_take_subset [of 100 "sort_key ?key (filter ?P (jobs d))"]
    by (auto simp: exhausted_jobs_def)
  then show "\<forall>p\<in>set ps. snd p \<in> set (jobs d) \<and> exhausted now (snd p)"
    using s by (metis (no_types, lifting) image_eqI list.set_map mem_Collect_eq subsetD)
  have "distinct (map job_id (jobs d))" using assms(1) by (simp add: jobs_inv_def primary_keys_def)
  then have "distinct (map job_id (sort_key ?key (filter ?P (jobs d))))"
    by (auto simp: distinct_map intro: inj_on_subset)
  then have "distinct (map job_id (exhausted_jobs locked now d))"
    by (simp add: exhausted_jobs_def take_map [symmetric])
  then show "distinct (map (job_id \<circ> snd) ps)" using s by (metis list.map_comp)
qed

lemma candidates_swept:
  assumes "jobs d1 = map (swept_row now (exhausted_jobs locked now d)) (jobs d)"
  shows "candidates locked kinds now d1 = candidates locked kinds now d"
proof -
  let ?s = "swept_row now (exhausted_jobs locked now d)"
  let ?p = "\<lambda>j. job_id j \<notin> set locked \<and> eligible kinds now j"
  have ex: "exhausted now j" if "j \<in> set (exhausted_jobs locked now d)" for j
    using that by (auto simp: exhausted_jobs_def dest: in_set_takeD)
  have "?p (?s j) = ?p j \<and> (?p j \<longrightarrow> ?s j = j)" for j
    using ex [of j] by (auto simp: swept_row_def eligible_def expired_row_def exhausted_def)
  then have "filter ?p (map ?s xs) = filter ?p xs" for xs
    by (induction xs) auto
  then show ?thesis by (simp add: candidates_def assms)
qed

lemma claimed_edge: "eligible kinds now j \<Longrightarrow> job_edge j (claimed_row w ls now' j)"
  by (rule job_edge.start) (auto simp: eligible_def)

text \<open>
  What a claim that returned has done: the sweep has failed the exhausted jobs, and the claimed
  job, if any, is the first of the candidates there were before the sweep.
\<close>

lemma claim_moves:
  assumes "claim_next_job env w ls kinds now locked rids rid d = Inr (res, d')" "jobs_inv d"
  obtains d1 where "(job_move env)\<^sup>*\<^sup>* d d1" "jobs_inv d1"
    "jobs d1 = map (swept_row now (exhausted_jobs locked now d)) (jobs d)"
    "res = None \<and> d' = d1 \<and> candidates locked kinds now d = [] \<or>
     (\<exists>j. first_by claim_order (candidates locked kinds now d) = Some j
        \<and> j \<in> set (jobs d1) \<and> eligible kinds now j
        \<and> res = Some (claimed_row w ls now j) \<and> job_move env d1 d' \<and> jobs_inv d'
        \<and> jobs d' = update_where (\<lambda>x. job_id x = job_id j) (\<lambda>_. claimed_row w ls now j) (jobs d1))"
proof -
  let ?js = "exhausted_jobs locked now d"
  let ?ps = "zip (map rids [0..<length ?js]) ?js"
  from assms(1) obtain d1 where f: "fold_res (expire_job env w now) ?ps d = Inr d1"
    and c: "(case first_by claim_order (candidates locked kinds now d1) of
               None \<Rightarrow> Inr (None, d1)
             | Some j \<Rightarrow> claim_job env w ls now rid j d1) = Inr (res, d')"
    by (auto simp: claim_next_job_def Let_def bind_res_Inr split: if_splits)
  note sw = exhausted_jobs_swept [OF assms(2) refl, of rids locked now]
  from sweep_moves [OF f assms(2) sw(2,3)]
  have m: "(job_move env)\<^sup>*\<^sup>* d d1" "jobs_inv d1" "jobs d1 = map (swept_row now ?js) (jobs d)"
    by (simp_all only: sw(1))
  note cand = candidates_swept [OF m(3)]
  show thesis
  proof (cases "first_by claim_order (candidates locked kinds now d1)")
    case None
    from c have "res = None \<and> d' = d1" unfolding None by simp
    moreover have "candidates locked kinds now d = []" using None cand by simp
    ultimately show thesis using that [OF m] by blast
  next
    case (Some j)
    then have j: "j \<in> set (jobs d1)" "eligible kinds now j"
      by (auto dest!: first_by_Some(1) simp: candidates_def)
    let ?j' = "claimed_row w ls now j"
    from c Some have res: "res = Some ?j'"
      and rec: "record_transition env (job_org ?j') (claim_actor (job_org ?j') w rid) backgroundjob
        (job_id ?j') (job_state_value (job_state j)) (job_state_value (job_state ?j'))
        (job_attempt_count ?j') [(lit ''lease_owner'', JStr w)] (save_row job_table ?j' d1) = Inr d'"
      by (auto simp: claim_job_def Let_def bind_res_Inr claimed_row_def)
    note mv = job_moved_by [OF m(2) j(1) claimed_edge [OF j(2)] rec]
    show thesis using that [OF m] Some [unfolded cand] j res mv by blast
  qed
qed

lemma claim_moves_star:
  assumes "claim_next_job env w ls kinds now locked rids rid d = Inr (res, d')" "jobs_inv d"
  shows "(job_move env)\<^sup>*\<^sup>* d d'"
  using claim_moves [OF assms] by (metis rtranclp.rtrancl_into_rtrancl)

text \<open>The three operations of a worker that holds a lease.\<close>

definition settled :: "environment \<Rightarrow> pystr \<Rightarrow> instant \<Rightarrow> uuid \<Rightarrow> uuid \<Rightarrow> background_job \<Rightarrow> db \<Rightarrow> db \<Rightarrow> bool" where
  "settled env w now org jid j d d' \<longleftrightarrow>
     (\<exists>j0\<in>set (jobs d). job_id j0 = jid \<and> job_org j0 = org \<and> holds_lease w now j0 \<and> job_edge j0 j
        \<and> job_move env d d' \<and> jobs d' = update_where (\<lambda>x. job_id x = jid) (\<lambda>_. j) (jobs d))"

lemma holds_lease_running: "holds_lease w now j \<Longrightarrow> job_state j = JOB_RUNNING"
  by (simp add: holds_lease_def)

lemma settledI:
  assumes "jobs_inv d" "get_tenant_record_for_update job_table jid org d = Inr j0"
    and "holds_lease w now j0" "job_edge j0 j"
    and "record_transition env (job_org j) actor backgroundjob (job_id j)
           (job_state_value JOB_RUNNING) (job_state_value (job_state j)) (job_attempt_count j) md
           (save_row job_table j d) = Inr d'"
  shows "settled env w now org jid j d d'"
proof -
  have j0: "j0 \<in> set (jobs d)" "job_id j0 = jid" "job_org j0 = org"
    using get_tenant_record_Inr [OF assms(2) [unfolded get_tenant_record_for_update_def]] by simp_all
  have "record_transition env (job_org j) actor backgroundjob (job_id j)
      (job_state_value (job_state j0)) (job_state_value (job_state j)) (job_attempt_count j) md
      (save_row job_table j d) = Inr d'"
    using assms(5) holds_lease_running [OF assms(3)] by simp
  from job_moved_by [OF assms(1) j0(1) assms(4) this] j0 assms(3,4)
  show ?thesis by (auto simp: settled_def)
qed

lemma complete_settles:
  assumes "complete_job env actor jid w now d = Inr (j, d')" "jobs_inv d"
  shows "d' = d \<and> j \<in> set (jobs d) \<and> job_id j = jid \<and> job_state j = JOB_SUCCEEDED
         \<or> settled env w now (actor_org actor) jid j d d' \<and> job_state j = JOB_SUCCEEDED"
proof -
  from assms(1) obtain j0 where
    g: "get_tenant_record_for_update job_table jid (actor_org actor) d = Inr j0"
    and c: "(if job_state j0 = JOB_SUCCEEDED then Inr (j0, d)
      else bind_res (require_current_lease j0 w now) (\<lambda>_.
       let job = j0\<lparr>job_state := JOB_SUCCEEDED, job_lease_owner := None,
                   job_lease_expires_at := None, job_completed_at := Some now\<rparr>
       in bind_res
            (record_transition env (job_org job) actor backgroundjob (job_id job)
               (job_state_value JOB_RUNNING) (job_state_value JOB_SUCCEEDED)
               (job_attempt_count job) [] (save_row job_table job d))
            (\<lambda>d'. Inr (job, d')))) = Inr (j, d')"
    by (auto simp: complete_job_def bind_res_Inr)
  show ?thesis
  proof (cases "job_state j0 = JOB_SUCCEEDED")
    case True
    then show ?thesis
      using c get_tenant_record_Inr [OF g [unfolded get_tenant_record_for_update_def]] by auto
  next
    case False
    let ?job = "j0\<lparr>job_state := JOB_SUCCEEDED, job_lease_owner := None,
                   job_lease_expires_at := None, job_completed_at := Some now\<rparr>"
    from c False have h: "holds_lease w now j0" and j: "j = ?job"
      and r: "record_transition env (job_org ?job) actor backgroundjob (job_id ?job)
               (job_state_value JOB_RUNNING) (job_state_value (job_state ?job))
               (job_attempt_count ?job) [] (save_row job_table ?job d) = Inr d'"
      by (auto simp: require_current_lease_def bind_res_Inr guard_res_Inr Let_def)
    have "job_edge j0 ?job"
      by (rule job_edge_finishI [where s = JOB_SUCCEEDED and e = "job_last_error j0"
            and a = "job_available_at j0" and now = now, OF holds_lease_running [OF h]])
        (simp, cases j0, simp)
    from settledI [OF assms(2) g h this r] j show ?thesis by simp
  qed
qed

lemma failed_edge:
  assumes "job_state j = JOB_RUNNING" "job_wf j"
  shows "job_edge j (failed_row error_code delay now j)"
proof (cases "job_attempt_count j \<ge> job_max_attempts j")
  case True
  then show ?thesis
    by (intro job_edge_finishI [where s = JOB_FAILED and e = error_code and now = now
          and a = "now + seconds delay", OF assms(1)]) (simp_all add: failed_row_def)
next
  case False
  then have "failed_row error_code delay now j =
      j\<lparr>job_state := JOB_PENDING, job_lease_owner := None, job_lease_expires_at := None,
        job_last_error := error_code, job_available_at := now + seconds delay,
        job_completed_at := None\<rparr>"
    by (simp add: failed_row_def)
  then show ?thesis using job_edge.retry [OF assms(1)] False by simp
qed

lemma fail_settles:
  assumes "fail_job env actor jid w code delay now d = Inr (j, d')" "jobs_inv d"
  shows "settled env w now (actor_org actor) jid j d d'
         \<and> (\<exists>j0\<in>set (jobs d). job_id j0 = jid \<and> j = failed_row code delay now j0)"
proof -
  from assms(1) obtain j0 where
    g: "get_tenant_record_for_update job_table jid (actor_org actor) d = Inr j0"
    and h: "holds_lease w now j0" and j: "j = failed_row code delay now j0"
    and r: "record_transition env (job_org j) actor backgroundjob (job_id j)
               (job_state_value JOB_RUNNING) (job_state_value (job_state j))
               (job_attempt_count j) [(lit ''error_code'', JStr code)] (save_row job_table j d) = Inr d'"
    by (auto simp: fail_job_def bind_res_Inr Let_def require_current_lease_def guard_res_Inr
        split: if_splits)
  have j0: "j0 \<in> set (jobs d)" "job_id j0 = jid"
    using get_tenant_record_Inr [OF g [unfolded get_tenant_record_for_update_def]] by simp_all
  then have "job_wf j0" using assms(2) by (simp add: jobs_inv_def)
  then have "job_edge j0 j" unfolding j by (rule failed_edge [OF holds_lease_running [OF h]])
  from settledI [OF assms(2) g h this r] j0 j show ?thesis by auto
qed

lemma cancel_settles:
  assumes "cancel_job env actor jid w code now d = Inr (j, d')" "jobs_inv d"
  shows "d' = d \<and> j \<in> set (jobs d) \<and> job_id j = jid \<and> job_state j = JOB_CANCELLED
         \<or> settled env w now (actor_org actor) jid j d d' \<and> job_state j = JOB_CANCELLED"
proof -
  define row where "row j0 = j0\<lparr>job_state := JOB_CANCELLED, job_lease_owner := None,
      job_lease_expires_at := None, job_last_error := code, job_completed_at := Some now\<rparr>" for j0 :: background_job
  from assms(1) obtain j0 where
    g: "get_tenant_record_for_update job_table jid (actor_org actor) d = Inr j0"
    and c: "job_state j0 = JOB_CANCELLED \<and> j = j0 \<and> d' = d \<or>
      holds_lease w now j0 \<and> j = row j0 \<and>
      record_transition env (job_org j) actor backgroundjob (job_id j)
               (job_state_value JOB_RUNNING) (job_state_value JOB_CANCELLED)
               (job_attempt_count j) [(lit ''error_code'', JStr code)] (save_row job_table j d) = Inr d'"
    by (auto simp: cancel_job_def bind_res_Inr Let_def require_current_lease_def guard_res_Inr row_def
        split: if_splits)
  from c show ?thesis
  proof (elim disjE conjE)
    assume "job_state j0 = JOB_CANCELLED" "j = j0" "d' = d"
    then show ?thesis
      using get_tenant_record_Inr [OF g [unfolded get_tenant_record_for_update_def]] by auto
  next
    assume h: "holds_lease w now j0" and j: "j = row j0"
      and r: "record_transition env (job_org j) actor backgroundjob (job_id j)
               (job_state_value JOB_RUNNING) (job_state_value JOB_CANCELLED)
               (job_attempt_count j) [(lit ''error_code'', JStr code)] (save_row job_table j d) = Inr d'"
    have s: "job_state j = JOB_CANCELLED" by (simp add: j row_def)
    have "job_edge j0 j"
      by (rule job_edge_finishI [where s = JOB_CANCELLED and e = code
            and a = "job_available_at j0" and now = now, OF holds_lease_running [OF h]])
        (simp, cases j0, simp add: j row_def)
    from settledI [OF assms(2) g h this r [folded s]] s show ?thesis by simp
  qed
qed

section \<open>Reachable queues\<close>

text \<open>
  One step of the system: an operation of the queue that returned (one that raised has rolled
  back), or a step of another service.  \<open>enqueue\<close> draws a UUID that is not in use.
\<close>

inductive queue_step :: "environment \<Rightarrow> db \<Rightarrow> db \<Rightarrow> bool" for env where
  enqueue: "enqueue_job env actor kind payload key m priority now i d = Inr (j, new, d')
     \<Longrightarrow> i \<notin> job_id ` set (jobs d) \<Longrightarrow> queue_step env d d'"
| claim: "claim_next_job env w ls kinds now locked rids rid d = Inr (res, d') \<Longrightarrow> queue_step env d d'"
| complete: "complete_job env actor jid w now d = Inr (j, d') \<Longrightarrow> queue_step env d d'"
| fail: "fail_job env actor jid w code delay now d = Inr (j, d') \<Longrightarrow> queue_step env d d'"
| cancel: "cancel_job env actor jid w code now d = Inr (j, d') \<Longrightarrow> queue_step env d d'"
| other: "jobs d' = jobs d \<Longrightarrow> outbox_events d' = outbox_events d @ es
     \<Longrightarrow> \<forall>e\<in>set es. ob_aggregate_type e \<noteq> backgroundjob \<and> key_matches e \<Longrightarrow> queue_step env d d'"

lemma settled_moves: "settled env w now org jid j d d' \<Longrightarrow> (job_move env)\<^sup>*\<^sup>* d d'"
  by (auto simp: settled_def)

lemma queue_step_refines: "queue_step env d d' \<Longrightarrow> jobs_inv d \<Longrightarrow> (job_move env)\<^sup>*\<^sup>* d d'"
proof (induction rule: queue_step.induct)
  case (enqueue actor kind payload key m priority now i d j new d')
  then show ?case using enqueue_moves [OF enqueue.hyps(1,2)] by (cases new) auto
next
  case (claim w ls kinds now locked rids rid d res d')
  then show ?case by (intro claim_moves_star)
next
  case (complete actor jid w now d j d')
  then show ?case using complete_settles by (metis rtranclp.rtrancl_refl settled_moves)
next
  case (fail actor jid w code delay now d j d')
  then show ?case using fail_settles by (metis settled_moves)
next
  case (cancel actor jid w code now d j d')
  then show ?case using cancel_settles by (metis rtranclp.rtrancl_refl settled_moves)
next
  case (other d' d es)
  then show ?case by (intro r_into_rtranclp job_move.others)
qed

lemma job_moves_inv: "(job_move env)\<^sup>*\<^sup>* d d' \<Longrightarrow> jobs_inv d \<Longrightarrow> jobs_inv d'"
  by (induction rule: rtranclp_induct) (auto intro: job_move_inv)

lemma queue_step_inv: "queue_step env d d' \<Longrightarrow> jobs_inv d \<Longrightarrow> jobs_inv d'"
  using queue_step_refines job_moves_inv by blast

definition queue_reachable :: "environment \<Rightarrow> db \<Rightarrow> bool" where
  "queue_reachable env d \<longleftrightarrow> (queue_step env)\<^sup>*\<^sup>* empty_db d"

lemma queue_steps_inv: "(queue_step env)\<^sup>*\<^sup>* d d' \<Longrightarrow> jobs_inv d \<Longrightarrow> jobs_inv d'"
  by (induction rule: rtranclp_induct) (auto intro: queue_step_inv)

lemma queue_reachable_inv: "queue_reachable env d \<Longrightarrow> jobs_inv d"
  unfolding queue_reachable_def using queue_steps_inv jobs_inv_empty by blast

text \<open>A settled job stays as it is.\<close>

lemma job_move_terminal:
  assumes "job_move env d d'" "jobs_inv d" "j \<in> set (jobs d)" "terminal_job j"
  shows "j \<in> set (jobs d')"
  using assms(1)
proof cases
  case (created k actor md)
  then show ?thesis using record_transition_jobs(1) [OF created(6)] assms(3) by simp
next
  case (moved k k' actor md)
  have "k \<noteq> j" using job_edge_not_terminal [OF moved(2)] assms(4) by auto
  then have "job_id j \<noteq> job_id k" using same_job [OF assms(2,3) moved(1)] by auto
  then show ?thesis
    using record_transition_jobs(1) [OF moved(3)] assms(3) job_edge_identity [OF moved(2)]
    by (force simp: set_update_where)
next
  case (others es)
  then show ?thesis using assms(3) by simp
qed

lemma job_moves_terminal:
  "(job_move env)\<^sup>*\<^sup>* d d' \<Longrightarrow> jobs_inv d \<Longrightarrow> j \<in> set (jobs d) \<Longrightarrow> terminal_job j \<Longrightarrow> j \<in> set (jobs d')"
proof (induction rule: rtranclp_induct)
  case (step e e')
  then show ?case using job_move_terminal job_moves_inv by metis
qed

section \<open>Recording never fails\<close>

lemma edge_key_fresh:
  assumes "jobs_inv d" "j \<in> set (jobs d)" "job_edge j j'"
  shows "(org, TransitionKey backgroundjob (job_id j') (job_attempt_count j') fs
           (job_state_value (job_state j'))) \<notin> outbox_identity ` set (outbox_events d)"
proof
  assume "(org, TransitionKey backgroundjob (job_id j') (job_attempt_count j') fs
           (job_state_value (job_state j'))) \<in> outbox_identity ` set (outbox_events d)"
  then obtain e where e: "e \<in> set (outbox_events d)"
    and k: "ob_key e = TransitionKey backgroundjob (job_id j') (job_attempt_count j') fs
           (job_state_value (job_state j'))"
    by (auto simp: outbox_identity_def)
  have "key_matches e" using assms(1) e by (simp add: jobs_inv_def)
  then have "e \<in> set (job_events (job_id j) (outbox_events d))"
    using e k job_edge_identity [OF assms(3)] by (simp add: key_matches_def job_events_def)
  moreover have "job_log j (outbox_events d)" using assms(1,2) by (simp add: jobs_inv_def)
  ultimately show False using job_log_fresh_key [OF assms(3)] k by blast
qed

lemma edge_records:
  assumes "jobs_inv d" "j \<in> set (jobs d)" "job_edge j j'"
    and "json_clean env (JDict md)" "actor_clean env actor"
    and "actor_request_id actor \<notin> au_request_id ` set (audit_events d)"
  shows "\<exists>d'. record_transition env org actor backgroundjob (job_id j') fs
           (job_state_value (job_state j')) (job_attempt_count j') md (save_row job_table j' d) = Inr d'
         \<and> au_request_id ` set (audit_events d') =
             insert (actor_request_id actor) (au_request_id ` set (audit_events d))"
proof -
  have "record_transition env org actor backgroundjob (job_id j') fs
          (job_state_value (job_state j')) (job_attempt_count j') md (save_row job_table j' d) =
        Inr ((save_row job_table j' d)
          \<lparr>audit_events := audit_events d @ [audit_row org actor backgroundjob (job_id j') fs
                             (job_state_value (job_state j')) md],
           outbox_events := outbox_events d @ [outbox_row org backgroundjob (job_id j') fs
                             (job_state_value (job_state j')) (job_attempt_count j') md]\<rparr>)"
    using record_transition_ok [of env md actor "save_row job_table j' d"] assms(4-6)
      edge_key_fresh [OF assms(1-3)] by simp
  then show ?thesis by (auto simp: audit_row_def)
qed

text \<open>What the queue itself writes into an event passes the screen.\<close>

lemma error_code_clean: "json_clean env (JDict [(lit ''error_code'', JStr s)]) \<longleftrightarrow> env_redact env s = s"
  by (simp add: ALLOWED_AUDIT_METADATA_KEYS_def)

lemma lease_owner_clean: "json_clean env (JDict [(lit ''lease_owner'', JStr s)]) \<longleftrightarrow> env_redact env s = s"
  by (simp add: ALLOWED_AUDIT_METADATA_KEYS_def)

text \<open>
  A worker's name, the sweep's error code and the internal path are texts redaction leaves alone.
\<close>

definition worker_clean :: "environment \<Rightarrow> pystr \<Rightarrow> bool" where
  "worker_clean env w \<longleftrightarrow>
     env_redact env w = w
     \<and> env_redact env (lit ''LEASE_EXPIRED_AFTER_FINAL_ATTEMPT'') = lit ''LEASE_EXPIRED_AFTER_FINAL_ATTEMPT''
     \<and> env_redact env (lit ''internal:job-claim'') = lit ''internal:job-claim''"

lemma claim_actor_clean: "worker_clean env w \<Longrightarrow> actor_clean env (claim_actor org w r)"
  by (simp only: worker_clean_def actor_clean_def claim_actor_def actor_context.simps)

lemma expire_ok:
  assumes "jobs_inv d" "j \<in> set (jobs d)" "exhausted now j" "worker_clean env w"
    and "r \<notin> au_request_id ` set (audit_events d)"
  shows "\<exists>d'. expire_job env w now (r, j) d = Inr d'
         \<and> au_request_id ` set (audit_events d') = insert r (au_request_id ` set (audit_events d))"
proof -
  have md: "json_clean env (JDict [(lit ''error_code'', JStr (job_last_error (expired_row now j)))])"
    using assms(4) unfolding error_code_clean by (simp add: worker_clean_def expired_row_def)
  have r: "actor_request_id (claim_actor (job_org j) w r) = r" by (simp add: claim_actor_def)
  show ?thesis
    using edge_records [OF assms(1,2) expired_edge [OF assms(3)] md claim_actor_clean [OF assms(4)],
        of "job_org j" r "job_org j" "job_state_value JOB_RUNNING"] assms(5)
    unfolding r by (simp add: expire_job_def Let_def expired_row_def)
qed

lemma sweep_ok:
  assumes "jobs_inv d" "distinct (map (job_id \<circ> snd) ps)" "distinct (map fst ps)"
    and "\<forall>p\<in>set ps. snd p \<in> set (jobs d) \<and> exhausted now (snd p)
                    \<and> fst p \<notin> au_request_id ` set (audit_events d)"
    and "worker_clean env w"
  shows "\<exists>d1. fold_res (expire_job env w now) ps d = Inr d1
         \<and> au_request_id ` set (audit_events d1) \<subseteq> fst ` set ps \<union> au_request_id ` set (audit_events d)"
  using assms
proof (induction ps arbitrary: d)
  case Nil
  then show ?case by simp
next
  case (Cons p ps)
  obtain r j where p: "p = (r, j)" by (cases p)
  from Cons.prems(4) p have j: "j \<in> set (jobs d)" "exhausted now j"
    and r: "r \<notin> au_request_id ` set (audit_events d)" by simp_all
  from expire_ok [OF Cons.prems(1) j Cons.prems(5) r] obtain d' where
    d': "expire_job env w now (r, j) d = Inr d'"
    and au: "au_request_id ` set (audit_events d') = insert r (au_request_id ` set (audit_events d))"
    by blast
  note m = expire_moves [OF d' Cons.prems(1) j]
  have later: "snd q \<in> set (jobs d') \<and> exhausted now (snd q)
               \<and> fst q \<notin> au_request_id ` set (audit_events d')" if "q \<in> set ps" for q
  proof -
    have "snd q \<in> set (jobs d)" "exhausted now (snd q)" "fst q \<notin> au_request_id ` set (audit_events d)"
      using Cons.prems(4) that by simp_all
    moreover have "job_id (snd q) \<noteq> job_id j" using Cons.prems(2) that by (force simp: p)
    moreover have "fst q \<noteq> r" using Cons.prems(3) that by (force simp: p)
    ultimately show ?thesis unfolding m(3) au by (force simp: set_update_where)
  qed
  have "\<exists>d1. fold_res (expire_job env w now) ps d' = Inr d1
      \<and> au_request_id ` set (audit_events d1) \<subseteq> fst ` set ps \<union> au_request_id ` set (audit_events d')"
    using Cons.prems(2,3,5) later by (intro Cons.IH [OF m(2)]) simp_all
  then show ?case using d' au by (auto simp: p)
qed

lemma claim_ok:
  assumes "jobs_inv d" "candidates locked kinds now d \<noteq> []" "strip w \<noteq> []" "1 \<le> ls"
    and "worker_clean env w" "inj rids" "rid \<notin> range rids"
    and "(range rids \<union> {rid}) \<inter> au_request_id ` set (audit_events d) = {}"
  shows "\<exists>j d'. claim_next_job env w ls kinds now locked rids rid d = Inr (Some j, d')"
proof -
  let ?js = "exhausted_jobs locked now d"
  let ?ps = "zip (map rids [0..<length ?js]) ?js"
  note sw = exhausted_jobs_swept [OF assms(1) refl, of rids locked now]
  have fst_ps: "map fst ?ps = map rids [0..<length ?js]" by simp
  have fsts: "fst ` set ?ps \<subseteq> range rids"
    by (metis (no_types, lifting) fst_ps image_mono list.set_map subset_UNIV)
  have "distinct (map fst ?ps)"
    unfolding fst_ps using assms(6) by (auto simp: distinct_map intro: inj_on_subset)
  moreover have "\<forall>p\<in>set ?ps. snd p \<in> set (jobs d) \<and> exhausted now (snd p)
                    \<and> fst p \<notin> au_request_id ` set (audit_events d)"
    using sw(3) fsts assms(8) by blast
  ultimately obtain d1 where f: "fold_res (expire_job env w now) ?ps d = Inr d1"
    and au: "au_request_id ` set (audit_events d1) \<subseteq> fst ` set ?ps \<union> au_request_id ` set (audit_events d)"
    using sweep_ok [OF assms(1) sw(2) _ _ assms(5)] by blast
  from sweep_moves [OF f assms(1) sw(2,3)]
  have m: "jobs_inv d1" "jobs d1 = map (swept_row now ?js) (jobs d)" by (simp_all only: sw(1))
  note cand = candidates_swept [OF m(2), of kinds]
  obtain j where j: "first_by claim_order (candidates locked kinds now d1) = Some j"
    using assms(2) cand by (metis first_by_None not_None_eq)
  then have jin: "j \<in> set (jobs d1)" "eligible kinds now j"
    by (auto dest!: first_by_Some(1) simp: candidates_def)
  let ?actor = "claim_actor (job_org j) w rid"
  have md: "json_clean env (JDict [(lit ''lease_owner'', JStr w)])"
    using assms(5) by (simp only: lease_owner_clean worker_clean_def)
  have "actor_request_id ?actor \<notin> au_request_id ` set (audit_events d1)"
    using au fsts assms(7,8) by (auto simp: claim_actor_def)
  from edge_records [OF m(1) jin(1) claimed_edge [OF jin(2), of w ls now] md claim_actor_clean [OF assms(5)] this,
      of "job_org j" "job_state_value (job_state j)"]
  obtain d' where "record_transition env (job_org j) ?actor backgroundjob
      (job_id (claimed_row w ls now j)) (job_state_value (job_state j)) (job_state_value (job_state (claimed_row w ls now j)))
      (job_attempt_count (claimed_row w ls now j)) [(lit ''lease_owner'', JStr w)]
      (save_row job_table (claimed_row w ls now j) d1) = Inr d'" by blast
  then have "claim_job env w ls now rid j d1 = Inr (Some (claimed_row w ls now j), d')"
    by (simp add: claim_job_def claimed_row_def)
  then have "claim_next_job env w ls kinds now locked rids rid d = Inr (Some (claimed_row w ls now j), d')"
    using f j assms(3,4) by (simp add: claim_next_job_def Let_def)
  then show ?thesis by blast
qed

section \<open>A job keeps its identity\<close>

definition same_work :: "background_job \<Rightarrow> background_job \<Rightarrow> bool" where
  "same_work j j' \<longleftrightarrow>
     job_id j' = job_id j \<and> job_org j' = job_org j \<and> job_kind j' = job_kind j
     \<and> job_payload j' = job_payload j \<and> job_idempotency_key j' = job_idempotency_key j"

lemma job_move_keeps:
  assumes "job_move env d d'" "jobs_inv d" "j \<in> set (jobs d)"
  shows "\<exists>j'\<in>set (jobs d'). same_work j j'"
  using assms(1)
proof cases
  case (created k actor md)
  then show ?thesis using record_transition_jobs(1) [OF created(6)] assms(3) by (force simp: same_work_def)
next
  case (moved k k' actor md)
  have rows: "set (jobs d') = {if job_id x = job_id k' then k' else x | x. x \<in> set (jobs d)}"
    using record_transition_jobs(1) [OF moved(3)] by (simp add: set_update_where)
  have "same_work k k'" using job_edge_identity [OF moved(2)] by (simp add: same_work_def)
  show ?thesis
  proof (cases "job_id j = job_id k")
    case True
    then have "j = k" using same_job [OF assms(2,3) moved(1)] by simp
    then show ?thesis using \<open>same_work k k'\<close> moved(1) rows job_edge_identity [OF moved(2)] by force
  next
    case False
    then have "j \<in> set (jobs d')" using assms(3) job_edge_identity [OF moved(2)] unfolding rows by force
    then show ?thesis by (auto simp: same_work_def)
  qed
next
  case (others es)
  then show ?thesis using assms(3) by (force simp: same_work_def)
qed

lemma same_work_trans: "same_work a b \<Longrightarrow> same_work b c \<Longrightarrow> same_work a c"
  by (simp add: same_work_def)

lemma job_moves_keep:
  "(job_move env)\<^sup>*\<^sup>* d d' \<Longrightarrow> jobs_inv d \<Longrightarrow> j \<in> set (jobs d) \<Longrightarrow> \<exists>j'\<in>set (jobs d'). same_work j j'"
proof (induction rule: rtranclp_induct)
  case base
  then show ?case by (auto simp: same_work_def)
next
  case (step e e')
  then show ?case using job_move_keeps job_moves_inv same_work_trans by metis
qed

lemma queue_steps_refine:
  "(queue_step env)\<^sup>*\<^sup>* d d' \<Longrightarrow> jobs_inv d \<Longrightarrow> (job_move env)\<^sup>*\<^sup>* d d'"
proof (induction rule: rtranclp_induct)
  case (step e e')
  then show ?case using queue_step_refines queue_steps_inv rtranclp_trans by metis
qed simp

end
