(* ===== verification/Samples.thy ===== *)
theory Samples
  imports Tables
begin

text \<open>
  The small deployment the witnesses of the service properties run on: redaction that changes
  nothing, ASCII letters and digits as the alphanumerics, hashes that tag their input, and a schema that
  accepts every payload of its version.
\<close>

definition sample_schema :: json where
  "sample_schema = JDict [(lit ''properties'', JDict [(lit ''schema_version'', JDict [(lit ''const'', JStr (lit ''1.0''))])])]"

definition sample_env :: environment where
  "sample_env =
     \<lparr>env_redact = (\<lambda>s. s),
      env_isalnum = (\<lambda>c. 48 \<le> c \<and> c \<le> 57 \<or> 65 \<le> c \<and> c \<le> 90 \<or> 97 \<le> c \<and> c \<le> 122),
      env_token_issuer = lit ''anva'', env_token_audience = lit ''anva-api'',
      env_token_hash = (\<lambda>s. 1 # s), env_sha256 = (\<lambda>s. 2 # s), env_identity_hash = (\<lambda>s. 3 # s),
      env_float_repr = sample_float_text,
      env_isoformat = int_text, env_fromisoformat = (\<lambda>s. Some (decimal s)),
      env_parse_datetime = (\<lambda>s. Some (decimal s)), env_urlsplit = (\<lambda>s. None),
      env_casefold = (\<lambda>s. concat (map lower_char s)),
      env_icontains = (\<lambda>s t. contains s t), env_lower = (\<lambda>s. concat (map lower_char s)),
      env_upper = map (\<lambda>c. if 97 \<le> c \<and> c \<le> 122 then c - 32 else c), env_uuid5 = (\<lambda>u s. u + 1),
      env_schemas = (\<lambda>n. Some sample_schema), env_schema_accepts = (\<lambda>schema v. True),
      env_rate_enabled = True, env_rate_window = 60, env_rate_api = 2, env_rate_mcp = 2,
      env_rate_web = 2, env_rate_preauth = 2\<rparr>"

definition sample_actor :: "uuid \<Rightarrow> actor_context" where
  "sample_actor request_id =
     \<lparr>actor_org = 1, actor_type = lit ''SERVICE'', actor_id = lit ''svc'',
      actor_path = lit ''internal'', actor_request_id = request_id, actor_source_ip_hash = [],
      actor_repository = None, actor_credential = None, actor_credential_actions = []\<rparr>"

definition sample_db :: db where
  "sample_db = empty_db\<lparr>organizations := [\<lparr>org_id = 1, org_state = ORG_ACTIVE\<rparr>]\<rparr>"

lemma sample_env_simps [simp]: "env_redact sample_env s = s"
  by (simp add: sample_env_def)

lemma sample_actor_simps [simp]:
  "actor_org (sample_actor r) = 1" "actor_request_id (sample_actor r) = r"
  "actor_repository (sample_actor r) = None" "actor_credential (sample_actor r) = None"
  "actor_credential_actions (sample_actor r) = []"
  by (simp_all add: sample_actor_def)

lemma sample_env_screens [simp]:
  "validate_audit_value sample_env (JStr s) = Inr ()"
  by simp

end
