(* ===== verification/JobClaims.thy ===== *)
theory JobClaims
  imports JobSafety Samples
begin

text \<open>The properties of the job queue, each with a run of it that meets its hypotheses.\<close>

section \<open>A sample run\<close>

text \<open>
  One job with two attempts: it is enqueued, claimed at second 10, its lease runs out, it is
  claimed again at second 100, and completed.
\<close>

definition sample_job :: background_job where
  "sample_job = new_job 7 1 (lit ''sync'') (JDict [(lit ''n'', JInt 1)]) (lit ''k1'') 2 0 0"

definition sample_enqueue :: "db \<Rightarrow> (background_job \<times> bool \<times> db) result" where
  "sample_enqueue d = enqueue_job sample_env (sample_actor 50) (lit ''sync'')
     (JDict [(lit ''n'', JInt 1)]) (lit ''k1'') 2 0 0 7 d"

definition sample_enqueued :: db where
  "sample_enqueued = sample_db\<lparr>jobs := [sample_job],
     audit_events := [audit_row 1 (sample_actor 50) backgroundjob 7 [] (job_state_value JOB_PENDING)
                        [(lit ''kind'', JStr (lit ''sync''))]],
     outbox_events := [outbox_row 1 backgroundjob 7 [] (job_state_value JOB_PENDING) 0
                        [(lit ''kind'', JStr (lit ''sync''))]]\<rparr>"

lemma sample_enqueue: "sample_enqueue sample_db = Inr (sample_job, True, sample_enqueued)"
  by (simp add: sample_enqueue_def enqueue_job_def strip_empty_iff is_space_def sample_db_def empty_db_def
      sample_job_def sample_enqueued_def record_transition_def bind_res_Inr insert_unique_def new_job_def
      create_row_def job_table_def screen_audit_key_def ALLOWED_AUDIT_METADATA_KEYS_def Let_def)

definition sample_claimed :: "db \<Rightarrow> instant \<Rightarrow> pystr \<Rightarrow> uuid \<Rightarrow> (background_job option \<times> db) result" where
  "sample_claimed d now w rid = claim_next_job sample_env w 30 None now [] (\<lambda>n. 1000 + n) rid d"

definition sample_running :: background_job where
  "sample_running = claimed_row (lit ''w1'') 30 (seconds 10) sample_job"

definition sample_leased :: db where
  "sample_leased = sample_enqueued\<lparr>jobs := [sample_running],
     audit_events := audit_events sample_enqueued @
       [audit_row 1 (claim_actor 1 (lit ''w1'') 51) backgroundjob 7 (job_state_value JOB_PENDING)
          (job_state_value JOB_RUNNING) [(lit ''lease_owner'', JStr (lit ''w1''))]],
     outbox_events := outbox_events sample_enqueued @
       [outbox_row 1 backgroundjob 7 (job_state_value JOB_PENDING) (job_state_value JOB_RUNNING) 1
          [(lit ''lease_owner'', JStr (lit ''w1''))]]\<rparr>"

lemma sample_candidates:
  "exhausted_jobs [] (seconds 10) sample_enqueued = []"
  "candidates [] None (seconds 10) sample_enqueued = [sample_job]"
  by (simp_all add: exhausted_jobs_def candidates_def sample_enqueued_def sample_job_def new_job_def
      exhausted_def eligible_def seconds_def)

lemma sample_claim:
  "sample_claimed sample_enqueued (seconds 10) (lit ''w1'') 51 = Inr (Some sample_running, sample_leased)"
proof -
  have "record_transition sample_env 1 (claim_actor 1 (lit ''w1'') 51) backgroundjob 7
      (job_state_value JOB_PENDING) (job_state_value JOB_RUNNING) 1 [(lit ''lease_owner'', JStr (lit ''w1''))]
      (save_row job_table sample_running sample_enqueued) = Inr sample_leased"
    by (subst record_transition_ok)
      (simp_all add: ALLOWED_AUDIT_METADATA_KEYS_def actor_clean_def sample_enqueued_def audit_row_def
        claim_actor_def outbox_identity_def outbox_row_def sample_leased_def sample_running_def
        save_row_def job_table_def update_where_def claimed_row_def sample_job_def new_job_def)
  then show ?thesis
    by (simp add: sample_claimed_def claim_next_job_def sample_candidates Let_def strip_empty_iff
        is_space_def first_by_def claim_job_def sample_running_def claimed_row_def sample_job_def new_job_def)
qed

lemma sample_reachable:
  "queue_reachable sample_env sample_enqueued" "(queue_step sample_env)\<^sup>*\<^sup>* sample_enqueued sample_leased"
proof -
  have o: "queue_step sample_env empty_db sample_db"
    by (rule queue_step.other [where es = "[]"]) (simp_all add: sample_db_def empty_db_def)
  have e: "queue_step sample_env sample_db sample_enqueued"
    by (rule queue_step.enqueue [OF sample_enqueue [unfolded sample_enqueue_def]])
      (simp add: sample_db_def empty_db_def)
  have "queue_step sample_env sample_enqueued sample_leased"
    by (rule queue_step.claim [OF sample_claim [unfolded sample_claimed_def]])
  then show "(queue_step sample_env)\<^sup>*\<^sup>* sample_enqueued sample_leased" by blast
  from o e show "queue_reachable sample_env sample_enqueued"
    unfolding queue_reachable_def by (metis rtranclp.simps)
qed

lemma sample_leased_reachable: "queue_reachable sample_env sample_leased"
  using sample_reachable unfolding queue_reachable_def by (rule rtranclp_trans)

lemma sample_running_in: "sample_running \<in> set (jobs sample_leased)"
  by (simp add: sample_leased_def)

definition sample_done :: background_job where
  "sample_done = sample_running\<lparr>job_state := JOB_SUCCEEDED, job_lease_owner := None,
                   job_lease_expires_at := None, job_completed_at := Some (seconds 20)\<rparr>"

definition sample_completed :: db where
  "sample_completed = sample_leased\<lparr>jobs := [sample_done],
     audit_events := audit_events sample_leased @
       [audit_row 1 (sample_actor 52) backgroundjob 7 (job_state_value JOB_RUNNING)
          (job_state_value JOB_SUCCEEDED) []],
     outbox_events := outbox_events sample_leased @
       [outbox_row 1 backgroundjob 7 (job_state_value JOB_RUNNING) (job_state_value JOB_SUCCEEDED) 1 []]\<rparr>"

lemma sample_complete:
  "complete_job sample_env (sample_actor 52) 7 (lit ''w1'') (seconds 20) sample_leased =
     Inr (sample_done, sample_completed)"
proof -
  have "record_transition sample_env 1 (sample_actor 52) backgroundjob 7
      (job_state_value JOB_RUNNING) (job_state_value JOB_SUCCEEDED) 1 []
      (save_row job_table sample_done sample_leased) = Inr sample_completed"
    by (subst record_transition_ok)
      (simp_all add: actor_clean_def sample_enqueued_def audit_row_def claim_actor_def
        outbox_identity_def outbox_row_def sample_leased_def sample_running_def sample_completed_def
        sample_done_def save_row_def job_table_def update_where_def claimed_row_def sample_job_def
        new_job_def)
  then show ?thesis
    by (simp add: complete_job_def get_tenant_record_for_update_def get_tenant_record_def
        require_current_lease_def holds_lease_def sample_leased_def sample_done_def Let_def
        sample_running_def claimed_row_def sample_job_def new_job_def seconds_def)
qed

section \<open>Properties\<close>



text \<open>The check and unique constraints of the job table hold in every reachable queue: a lease
  is there exactly while the job is RUNNING, \<^verbatim>\<open>completed_at\<close> exactly when it has ended, a PENDING
  job has an attempt left, and no two jobs share an id or a tenant's idempotency key.\<close>

theorem job_table_constraints:
  assumes "queue_reachable env d"
  shows "distinct (map job_id (jobs d))
         \<and> distinct (map (\<lambda>j. (job_org j, job_idempotency_key j)) (jobs d))
         \<and> list_all (\<lambda>j. (job_lease_owner j \<noteq> None) = (job_state j = JOB_RUNNING)
              \<and> (job_lease_expires_at j \<noteq> None) = (job_state j = JOB_RUNNING)
              \<and> (job_completed_at j \<noteq> None) = terminal_job j
              \<and> (job_state j \<noteq> JOB_PENDING \<or> job_attempt_count j < job_max_attempts j)) (jobs d)"
proof -
  have key: "job_key = (\<lambda>j. (job_org j, job_idempotency_key j))"
    by (simp add: job_key_def fun_eq_iff)
  show ?thesis
    using queue_reachable_inv [OF assms]
    by (auto simp: jobs_inv_def job_wf_def primary_keys_def key list_all_iff)
qed

theorem job_table_constraints_witness:
  "list_all (\<lambda>j. (job_lease_owner j \<noteq> None) = (job_state j = JOB_RUNNING)) (jobs sample_leased)"
  using job_table_constraints [OF sample_leased_reachable] by (auto simp: list_all_iff)

text \<open>A job that ended stays exactly as it is: whatever operations follow, by whatever worker
  or tenant, its row is still in the table, unchanged.\<close>

theorem ended_job_is_final:
  assumes "queue_reachable env d" and "(queue_step env)\<^sup>*\<^sup>* d d'"
    and "j \<in> set (jobs d)" and "terminal_job j"
  shows "j \<in> set (jobs d')"
  using job_moves_terminal [OF queue_steps_refine [OF assms(2)]] queue_reachable_inv [OF assms(1)]
    assms by blast

lemma sample_completed_reachable:
  "queue_reachable sample_env sample_completed" "(queue_step sample_env)\<^sup>*\<^sup>* sample_completed sample_completed"
  using sample_leased_reachable queue_step.complete [OF sample_complete]
  by (auto simp: queue_reachable_def intro: rtranclp.rtrancl_into_rtrancl)

theorem ended_job_is_final_witness: "sample_done \<in> set (jobs sample_completed)"
  by (rule ended_job_is_final [OF sample_completed_reachable])
    (simp_all add: sample_completed_def sample_done_def terminal_job_def)

text \<open>A claim takes the first claimable job.  The returned job was PENDING and available, or
  RUNNING with a lease that had run out, with an attempt left, of an allowed kind and not locked;
  no such job comes before it by priority (highest first), availability and age; and it is now the
  row of the table, with the attempt counted and the lease of the worker on it.\<close>

theorem claim_takes_the_first_claimable_job:
  assumes "queue_reachable env d"
    and "claim_next_job env w ls kinds now locked rids rid d = Inr (Some k, d')"
  shows "\<exists>j\<in>set (jobs d). k = claimed_row w ls now j \<and> k \<in> set (jobs d')
           \<and> eligible kinds now j \<and> job_id j \<notin> set locked
           \<and> (\<forall>i\<in>set (jobs d). job_id i \<in> set locked \<or> \<not> eligible kinds now i
                \<or> claim_order j \<le> claim_order i)"
proof -
  note inv = queue_reachable_inv [OF assms(1)]
  note moves = claim_moves [OF assms(2) inv]
  obtain d1 where "Some k = None \<and> d' = d1 \<and> candidates locked kinds now d = [] \<or>
     (\<exists>j. first_by claim_order (candidates locked kinds now d) = Some j
        \<and> j \<in> set (jobs d1) \<and> eligible kinds now j
        \<and> Some k = Some (claimed_row w ls now j) \<and> job_move env d1 d' \<and> jobs_inv d'
        \<and> jobs d' = update_where (\<lambda>x. job_id x = job_id j) (\<lambda>_. claimed_row w ls now j) (jobs d1))"
    by (rule moves)
  then obtain j where first: "first_by claim_order (candidates locked kinds now d) = Some j"
    and j: "j \<in> set (jobs d1)" "k = claimed_row w ls now j"
      "jobs d' = update_where (\<lambda>x. job_id x = job_id j) (\<lambda>_. claimed_row w ls now j) (jobs d1)"
    by auto
  have "k \<in> set (jobs d')" using j by (auto simp: set_update_where)
  moreover have "j \<in> set (jobs d)" "eligible kinds now j" "job_id j \<notin> set locked"
    using first_by_Some(1) [OF first] by (auto simp: candidates_def)
  moreover have "claim_order j \<le> claim_order i"
    if "i \<in> set (jobs d)" "job_id i \<notin> set locked" "eligible kinds now i" for i
    using first_by_Some(2) [OF first] that by (simp add: candidates_def)
  ultimately show ?thesis using j(2) by blast
qed

theorem claim_takes_the_first_claimable_job_witness:
  "\<exists>j\<in>set (jobs sample_enqueued). sample_running = claimed_row (lit ''w1'') 30 (seconds 10) j
     \<and> sample_running \<in> set (jobs sample_leased)"
  using claim_takes_the_first_claimable_job [OF sample_reachable(1) sample_claim [unfolded sample_claimed_def]]
  by blast

text \<open>C24: A live lease is exclusive.  While a worker holds the current lease of a job, no claim
  takes or changes that job, and no other worker can complete, fail or cancel it: each gets a
  LeaseConflictError.\<close>

theorem live_lease_is_exclusive:
  assumes "queue_reachable env d" and "j \<in> set (jobs d)" and "holds_lease w now j"
    and "claim_next_job env v ls kinds now locked rids rid d = Inr (res, d')"
    and "u \<noteq> w" and "actor_org actor = job_org j" and "0 \<le> delay"
  shows "j \<in> set (jobs d') \<and> map_option job_id res \<noteq> Some (job_id j)
         \<and> complete_job env actor (job_id j) u t d = Inl LeaseConflictError
         \<and> fail_job env actor (job_id j) u code delay t d = Inl LeaseConflictError
         \<and> cancel_job env actor (job_id j) u code t d = Inl LeaseConflictError"
proof -
  note inv = queue_reachable_inv [OF assms(1)]
  have live: "\<not> lease_expired now j" "job_state j = JOB_RUNNING"
    using assms(3) by (auto simp: holds_lease_def lease_expired_def split: option.splits)
  then have dead: "\<not> exhausted now j" "\<not> eligible kinds now j"
    by (auto simp: exhausted_def eligible_def)
  then have unswept: "j \<notin> set (exhausted_jobs locked now d)"
    by (auto simp: exhausted_jobs_def dest: in_set_takeD)
  have taken: "j \<in> set (jobs d') \<and> map_option job_id res \<noteq> Some (job_id j)"
  proof (rule claim_moves [OF assms(4) inv])
    fix d1
    assume m: "jobs_inv d1" "jobs d1 = map (swept_row now (exhausted_jobs locked now d)) (jobs d)"
      "res = None \<and> d' = d1 \<and> candidates locked kinds now d = [] \<or>
       (\<exists>k. first_by claim_order (candidates locked kinds now d) = Some k
          \<and> k \<in> set (jobs d1) \<and> eligible kinds now k
          \<and> res = Some (claimed_row v ls now k) \<and> job_move env d1 d' \<and> jobs_inv d'
          \<and> jobs d' = update_where (\<lambda>x. job_id x = job_id k) (\<lambda>_. claimed_row v ls now k) (jobs d1))"
    have j1: "j \<in> set (jobs d1)" using assms(2) unswept by (force simp: m(2) swept_row_def)
    have other: "job_id k \<noteq> job_id j" if "k \<in> set (jobs d1)" "eligible kinds now k" for k
      using same_job [OF m(1) that(1) j1] dead(2) that(2) by blast
    from m(3) show ?thesis
    proof (elim disjE exE conjE)
      assume "res = None" "d' = d1"
      then show ?thesis using j1 by simp
    next
      fix k
      assume k: "k \<in> set (jobs d1)" "eligible kinds now k" "res = Some (claimed_row v ls now k)"
        "jobs d' = update_where (\<lambda>x. job_id x = job_id k) (\<lambda>_. claimed_row v ls now k) (jobs d1)"
      show ?thesis using other [OF k(1,2)] j1 k(3,4) by (force simp: set_update_where claimed_row_def)
    qed
  qed
  have g: "get_tenant_record_for_update job_table (job_id j) (actor_org actor) d = Inr j"
    using job_rows.get_existing [of d j] inv assms(2,6)
    by (simp add: get_tenant_record_for_update_def jobs_inv_def)
  have "require_current_lease j u t = Inl LeaseConflictError"
    using assms(3,5) by (auto simp: require_current_lease_def holds_lease_def)
  then show ?thesis
    using taken g live(2) assms(7) by (simp add: complete_job_def fail_job_def cancel_job_def)
qed

lemma sample_no_claim: "sample_claimed sample_leased (seconds 20) (lit ''w2'') 60 = Inr (None, sample_leased)"
proof -
  have "exhausted_jobs [] (seconds 20) sample_leased = []"
    "candidates [] None (seconds 20) sample_leased = []"
    by (simp_all add: exhausted_jobs_def candidates_def sample_leased_def sample_running_def
        claimed_row_def sample_job_def new_job_def exhausted_def eligible_def lease_expired_def seconds_def)
  then show ?thesis
    by (simp add: sample_claimed_def claim_next_job_def Let_def strip_empty_iff is_space_def
        first_by_def)
qed

theorem live_lease_is_exclusive_witness:
  "complete_job sample_env (sample_actor 61) 7 (lit ''w2'') (seconds 20) sample_leased
     = Inl LeaseConflictError"
proof -
  have h: "holds_lease (lit ''w1'') (seconds 20) sample_running"
    by (simp add: holds_lease_def sample_running_def claimed_row_def seconds_def)
  have i: "job_id sample_running = 7"
    by (simp add: sample_running_def claimed_row_def sample_job_def new_job_def)
  show ?thesis
    using live_lease_is_exclusive [OF sample_leased_reachable sample_running_in h
        sample_no_claim [unfolded sample_claimed_def], of "lit ''w2''" "sample_actor 61" 0 "seconds 20"]
    by (simp add: i sample_running_def claimed_row_def sample_job_def new_job_def)
qed

text \<open>A worker that holds the lease settles its job.  Under a fresh request id and an actor
  without credential material, \<^verbatim>\<open>complete_job\<close> succeeds: no constraint of the audit or outbox
  tables can stand in its way, and the row is SUCCEEDED with the lease released.\<close>

theorem lease_holder_completes:
  assumes "queue_reachable env d" and "j \<in> set (jobs d)" and "holds_lease w now j"
    and "actor_org actor = job_org j" and "actor_clean env actor"
    and "actor_request_id actor \<notin> au_request_id ` set (audit_events d)"
  shows "\<exists>k d'. complete_job env actor (job_id j) w now d = Inr (k, d') \<and> k \<in> set (jobs d')
           \<and> job_state k = JOB_SUCCEEDED \<and> job_lease_owner k = None \<and> job_completed_at k = Some now"
proof -
  note inv = queue_reachable_inv [OF assms(1)]
  let ?k = "j\<lparr>job_state := JOB_SUCCEEDED, job_lease_owner := None, job_lease_expires_at := None,
              job_completed_at := Some now\<rparr>"
  have run: "job_state j = JOB_RUNNING" by (rule holds_lease_running [OF assms(3)])
  have edge: "job_edge j ?k"
    by (rule job_edge_finishI [where s = JOB_SUCCEEDED and e = "job_last_error j"
          and a = "job_available_at j" and now = now, OF run]) (simp, cases j, simp)
  have g: "get_tenant_record_for_update job_table (job_id j) (actor_org actor) d = Inr j"
    using job_rows.get_existing [of d j] inv assms(2,4)
    by (simp add: get_tenant_record_for_update_def jobs_inv_def)
  have "json_clean env (JDict [])" by simp
  from edge_records [OF inv assms(2) edge this assms(5,6), of "job_org j" "job_state_value JOB_RUNNING"]
  obtain d' where r: "record_transition env (job_org j) actor backgroundjob (job_id j)
      (job_state_value JOB_RUNNING) (job_state_value JOB_SUCCEEDED) (job_attempt_count j) []
      (save_row job_table ?k d) = Inr d'" by auto
  have "complete_job env actor (job_id j) w now d = Inr (?k, d')"
    using g run r assms(3) by (simp add: complete_job_def require_current_lease_def Let_def)
  moreover have "?k \<in> set (jobs d')"
    using record_transition_jobs(1) [OF r] assms(2) by (force simp: set_update_where)
  ultimately show ?thesis by fastforce
qed

theorem lease_holder_completes_witness:
  "\<exists>k d'. complete_job sample_env (sample_actor 52) 7 (lit ''w1'') (seconds 20) sample_leased = Inr (k, d')
     \<and> job_state k = JOB_SUCCEEDED"
proof -
  have h: "holds_lease (lit ''w1'') (seconds 20) sample_running"
    by (simp add: holds_lease_def sample_running_def claimed_row_def seconds_def)
  have i: "job_id sample_running = 7" "job_org sample_running = 1"
    by (simp_all add: sample_running_def claimed_row_def sample_job_def new_job_def)
  have f: "actor_request_id (sample_actor 52) \<notin> au_request_id ` set (audit_events sample_leased)"
    by (simp add: sample_leased_def sample_enqueued_def audit_row_def claim_actor_def)
  show ?thesis
    using lease_holder_completes [OF sample_leased_reachable sample_running_in h _ _ f] i
    by (auto simp: actor_clean_def)
qed

text \<open>C25: A waiting job is claimed.  In every reachable queue that holds a job that is PENDING,
  available, of an allowed kind and not locked, a claim by a worker whose name carries no
  credential material returns a job: neither the attempt budget nor any constraint of the audit
  or outbox tables can stand in the way.\<close>

theorem waiting_job_is_claimed:
  assumes "queue_reachable env d" and "j \<in> set (jobs d)" and "job_state j = JOB_PENDING"
    and "job_available_at j \<le> now" and "job_id j \<notin> set locked"
    and "case kinds of None \<Rightarrow> True | Some ks \<Rightarrow> job_kind j \<in> set ks"
    and "strip w \<noteq> []" and "1 \<le> ls" and "worker_clean env w" and "inj rids" and "rid \<notin> range rids"
    and "(range rids \<union> {rid}) \<inter> au_request_id ` set (audit_events d) = {}"
  shows "\<exists>k d'. claim_next_job env w ls kinds now locked rids rid d = Inr (Some k, d')"
proof -
  note inv = queue_reachable_inv [OF assms(1)]
  have "job_attempt_count j < job_max_attempts j"
    using inv assms(2,3) by (auto simp: jobs_inv_def job_wf_def)
  then have "j \<in> set (candidates locked kinds now d)"
    using assms(2-6) by (simp add: candidates_def eligible_def)
  then have "candidates locked kinds now d \<noteq> []" by auto
  from claim_ok [OF inv this assms(7-12)] show ?thesis .
qed

theorem waiting_job_is_claimed_witness:
  "\<exists>k d'. claim_next_job sample_env (lit ''w9'') 5 None (seconds 10) [] (\<lambda>n. 1000 + n) 99 sample_enqueued
     = Inr (Some k, d')"
proof (rule waiting_job_is_claimed [OF sample_reachable(1)])
  show "sample_job \<in> set (jobs sample_enqueued)" by (simp add: sample_enqueued_def)
  show "job_state sample_job = JOB_PENDING" "job_available_at sample_job \<le> seconds 10"
    by (simp_all add: sample_job_def new_job_def seconds_def)
  show "(range (\<lambda>n. 1000 + n) \<union> {99}) \<inter> au_request_id ` set (audit_events sample_enqueued) = {}"
    by (auto simp: sample_enqueued_def audit_row_def)
qed (auto simp: strip_empty_iff is_space_def worker_clean_def inj_def)

text \<open>Enqueueing is idempotent, for good.  Once \<^verbatim>\<open>enqueue_job\<close> has returned a job, the same
  request made again, after any further operations and under any actor of the tenant, budget,
  priority or instant, returns that same job, creates nothing and changes nothing; a request with
  the same key for another kind of work is refused.\<close>

theorem enqueue_is_idempotent:
  assumes "queue_reachable env d"
    and "enqueue_job env actor kind payload key m priority now i d = Inr (j, new, d1)"
    and "i \<notin> job_id ` set (jobs d)" and "(queue_step env)\<^sup>*\<^sup>* d1 d2"
    and "actor_org again = actor_org actor" and "\<exists>o'\<in>set (organizations d2). org_id o' = actor_org actor"
    and "json_distinct_keys payload" and "1 \<le> m2" and "kind2 \<noteq> kind" and "strip kind2 \<noteq> []"
    and "new"
  shows "(\<exists>k\<in>set (jobs d2). job_id k = job_id j
            \<and> enqueue_job env again kind payload key m2 priority2 now2 i2 d2 = Inr (k, False, d2))
         \<and> enqueue_job env again kind2 payload key m2 priority2 now2 i2 d2 = Inl IdempotencyConflictError"
proof -
  note inv = queue_reachable_inv [OF assms(1)]
  have args: "strip kind \<noteq> []" "strip key \<noteq> []"
    using assms(2) by (auto simp: enqueue_job_def split: if_splits)
  have j: "job_move env d d1" "jobs d1 = jobs d @ [j]"
    using enqueue_moves [OF assms(2,3)] assms(11) by simp_all
  have row: "job_org j = actor_org actor" "job_idempotency_key j = key" "job_kind j = kind"
    "job_payload j = payload"
    using assms(2,11)
    by (auto simp: enqueue_job_def Let_def bind_res_Inr new_job_def split: if_splits option.splits
        dest!: find_by_Some_iff)
  note inv1 = job_move_inv [OF j(1) inv]
  have "j \<in> set (jobs d1)" using j(2) by simp
  from job_moves_keep [OF queue_steps_refine [OF assms(4) inv1] inv1 this]
  obtain k where k: "k \<in> set (jobs d2)" "same_work j k" by blast
  note inv2 = queue_steps_inv [OF assms(4) inv1]
  have keys: "distinct (map job_key (jobs d2))" using inv2 by (simp add: jobs_inv_def)
  have found: "find_by (\<lambda>x. job_org x = actor_org actor \<and> job_idempotency_key x = key) (jobs d2) = Some k"
    using k(2) row by (intro find_by_unique [OF keys k(1)]) (auto simp: same_work_def job_key_def)
  have "find_by (\<lambda>o'. org_id o' = actor_org actor) (organizations d2) \<noteq> None"
    using assms(6) by simp
  then obtain o1 where o1: "find_by (\<lambda>o'. org_id o' = actor_org actor) (organizations d2) = Some o1"
    by (auto simp del: find_by_None)
  have o2: "org_id o1 = actor_org actor" using find_by_Some_iff [OF o1] by simp
  have kk: "job_kind k = kind" "job_payload k = payload" "job_id k = job_id j"
    using k(2) row by (simp_all add: same_work_def)
  have m: "\<not> m2 < 1" using assms(8) by simp
  have "enqueue_job env again kind payload key m2 priority2 now2 i2 d2 = Inr (k, False, d2)"
    unfolding enqueue_job_def
    by (simp add: args m assms(5) o1 o2 found kk json_same_refl [OF assms(7)])
  moreover have "enqueue_job env again kind2 payload key m2 priority2 now2 i2 d2 = Inl IdempotencyConflictError"
    unfolding enqueue_job_def
    by (simp add: args m assms(5,10) o1 o2 found kk assms(9) [symmetric])
  ultimately show ?thesis using k(1) kk(3) by blast
qed

theorem enqueue_is_idempotent_witness:
  "\<exists>k\<in>set (jobs sample_leased). job_id k = 7
     \<and> enqueue_job sample_env (sample_actor 70) (lit ''sync'') (JDict [(lit ''n'', JInt 1)]) (lit ''k1'')
         5 1 (seconds 30) 8 sample_leased = Inr (k, False, sample_leased)"
proof -
  have start: "queue_reachable sample_env sample_db"
    unfolding queue_reachable_def
    by (rule r_into_rtranclp, rule queue_step.other [where es = "[]"])
      (simp_all add: sample_db_def empty_db_def)
  have i: "7 \<notin> job_id ` set (jobs sample_db)" by (simp add: sample_db_def empty_db_def)
  have o1: "\<exists>o'\<in>set (organizations sample_leased). org_id o' = actor_org (sample_actor 50)"
    by (simp add: sample_leased_def sample_enqueued_def sample_db_def)
  have id: "job_id sample_job = 7" by (simp add: sample_job_def new_job_def)
  show ?thesis
    using enqueue_is_idempotent [OF start sample_enqueue [unfolded sample_enqueue_def] i
        sample_reachable(2) _ o1, of "sample_actor 70" 5 "lit ''push''" 1 "seconds 30" 8]
    by (simp add: id strip_empty_iff is_space_def)
qed

end
