(* ===== verification/Transitions.thy ===== *)
theory Transitions
  imports Tables
begin

text \<open>
  \<^verbatim>\<open>src/anva/core/services/transitions.py\<close>: the four authoritative state machines (sync runs,
  assertion reviews, assurance runs, knowledge proposals), the optimistic update they share, and
  the operation of each.  A transition graph is a function from a state to the list of its
  successors; a target state is the text the caller sends, which need not name a state.
\<close>

section \<open>The transition graphs\<close>

fun SYNC_TRANSITIONS :: "sync_state \<Rightarrow> sync_state list" where
  "SYNC_TRANSITIONS SYNC_REQUESTED = [SYNC_DISCOVERING, SYNC_FAILED, SYNC_CANCELLED]"
| "SYNC_TRANSITIONS SYNC_DISCOVERING = [SYNC_FETCHING, SYNC_FAILED, SYNC_CANCELLED]"
| "SYNC_TRANSITIONS SYNC_FETCHING = [SYNC_PARSING, SYNC_FAILED, SYNC_CANCELLED]"
| "SYNC_TRANSITIONS SYNC_PARSING = [SYNC_INDEXING, SYNC_FAILED, SYNC_CANCELLED]"
| "SYNC_TRANSITIONS SYNC_INDEXING = [SYNC_EXTRACTING, SYNC_FAILED, SYNC_CANCELLED]"
| "SYNC_TRANSITIONS SYNC_EXTRACTING = [SYNC_RESOLVING, SYNC_FAILED, SYNC_CANCELLED]"
| "SYNC_TRANSITIONS SYNC_RESOLVING = [SYNC_PUBLISHING, SYNC_FAILED, SYNC_CANCELLED]"
| "SYNC_TRANSITIONS SYNC_PUBLISHING =
     [SYNC_COMPLETED, SYNC_PARTIALLY_COMPLETED, SYNC_FAILED, SYNC_CANCELLED]"
| "SYNC_TRANSITIONS _ = []"

fun ASSERTION_TRANSITIONS :: "review_state \<Rightarrow> review_state list" where
  "ASSERTION_TRANSITIONS UNREVIEWED = [AUTO_ACCEPTED, HUMAN_CONFIRMED, DISPUTED, REJECTED, STALE]"
| "ASSERTION_TRANSITIONS AUTO_ACCEPTED = [HUMAN_CONFIRMED, DISPUTED, SUPERSEDED, STALE]"
| "ASSERTION_TRANSITIONS HUMAN_CONFIRMED = [DISPUTED, SUPERSEDED, STALE]"
| "ASSERTION_TRANSITIONS DISPUTED = [HUMAN_CONFIRMED, REJECTED, SUPERSEDED]"
| "ASSERTION_TRANSITIONS REJECTED = [SUPERSEDED]"
| "ASSERTION_TRANSITIONS STALE = [HUMAN_CONFIRMED, SUPERSEDED]"
| "ASSERTION_TRANSITIONS SUPERSEDED = []"

fun ASSURANCE_TRANSITIONS :: "assurance_state \<Rightarrow> assurance_state list" where
  "ASSURANCE_TRANSITIONS RUN_REQUESTED = [RUN_DEBOUNCING, RUN_FAILED, RUN_CANCELLED, RUN_STALE]"
| "ASSURANCE_TRANSITIONS RUN_DEBOUNCING =
     [RUN_FETCHING_PULL_REQUEST, RUN_FAILED, RUN_CANCELLED, RUN_STALE]"
| "ASSURANCE_TRANSITIONS RUN_FETCHING_PULL_REQUEST =
     [RUN_COLLECTING_EVIDENCE, RUN_FAILED, RUN_CANCELLED, RUN_STALE]"
| "ASSURANCE_TRANSITIONS RUN_COLLECTING_EVIDENCE =
     [RUN_EVALUATING_POLICY, RUN_FAILED, RUN_CANCELLED, RUN_STALE]"
| "ASSURANCE_TRANSITIONS RUN_EVALUATING_POLICY =
     [RUN_BUILDING_CONTEXT, RUN_FAILED, RUN_CANCELLED, RUN_STALE]"
| "ASSURANCE_TRANSITIONS RUN_BUILDING_CONTEXT =
     [RUN_MODEL_REVIEW, RUN_FAILED, RUN_CANCELLED, RUN_STALE]"
| "ASSURANCE_TRANSITIONS RUN_MODEL_REVIEW =
     [RUN_MAPPING_EVIDENCE, RUN_FAILED, RUN_CANCELLED, RUN_STALE]"
| "ASSURANCE_TRANSITIONS RUN_MAPPING_EVIDENCE =
     [RUN_RENDERING_REPORT, RUN_FAILED, RUN_CANCELLED, RUN_STALE]"
| "ASSURANCE_TRANSITIONS RUN_RENDERING_REPORT =
     [RUN_PUBLISHING, RUN_FAILED, RUN_CANCELLED, RUN_STALE]"
| "ASSURANCE_TRANSITIONS RUN_PUBLISHING = [RUN_COMPLETED, RUN_FAILED, RUN_CANCELLED, RUN_STALE]"
| "ASSURANCE_TRANSITIONS RUN_COMPLETED = [RUN_STALE]"
| "ASSURANCE_TRANSITIONS _ = []"

fun PROPOSAL_TRANSITIONS :: "proposal_state \<Rightarrow> proposal_state list" where
  "PROPOSAL_TRANSITIONS PROPOSAL_PROPOSED = [PROPOSAL_VALIDATING, PROPOSAL_FAILED]"
| "PROPOSAL_TRANSITIONS PROPOSAL_VALIDATING =
     [PROPOSAL_AWAITING_REVIEW, PROPOSAL_REJECTED, PROPOSAL_FAILED]"
| "PROPOSAL_TRANSITIONS PROPOSAL_AWAITING_REVIEW =
     [PROPOSAL_ACCEPTED, PROPOSAL_REJECTED, PROPOSAL_FAILED]"
| "PROPOSAL_TRANSITIONS PROPOSAL_ACCEPTED = [PROPOSAL_SUPERSEDED]"
| "PROPOSAL_TRANSITIONS PROPOSAL_REJECTED = [PROPOSAL_SUPERSEDED]"
| "PROPOSAL_TRANSITIONS _ = []"

section \<open>The optimistic update\<close>

text \<open>
  What \<^verbatim>\<open>apply_transition\<close> takes of a model class and of its \<^verbatim>\<open>state_field\<close>: \<open>mc_advance\<close> sets the
  state and adds one to the revision.
\<close>

record ('r, 's) machine =
  mc_table :: "'r table"
  mc_state :: "'r \<Rightarrow> 's"
  mc_revision :: "'r \<Rightarrow> nat"
  mc_advance :: "'s \<Rightarrow> 'r \<Rightarrow> 'r"
  mc_value :: "'s \<Rightarrow> pystr"
  mc_model_name :: pystr

definition apply_transition ::
  "environment \<Rightarrow> ('r, 's) machine \<Rightarrow> 'r \<Rightarrow> actor_context \<Rightarrow> pystr \<Rightarrow> ('s \<Rightarrow> 's list) \<Rightarrow> int
     \<Rightarrow> (pystr \<times> json) list \<Rightarrow> db \<Rightarrow> ('r \<times> db) result"
where
  "apply_transition env m r actor target_state transitions expected_revision metadata d =
     (if tb_org (mc_table m) r \<noteq> actor_org actor then Inl TenantBoundaryError
      else if mc_value m (mc_state m r) = target_state then Inr (r, d)
      else if int (mc_revision m r) \<noteq> expected_revision then Inl OptimisticConcurrencyError
      else case find_by (\<lambda>s. mc_value m s = target_state) (transitions (mc_state m r)) of
        None \<Rightarrow> Inl InvalidStateTransitionError
      | Some s \<Rightarrow>
          let r' = mc_advance m s r
          in bind_res
               (record_transition env (tb_org (mc_table m) r') actor (mc_model_name m)
                  (tb_id (mc_table m) r') (mc_value m (mc_state m r)) target_state (mc_revision m r')
                  metadata (save_row (mc_table m) r' d))
               (\<lambda>d'. Inr (r', d')))"

definition sync_machine :: "(sync_run, sync_state) machine" where
  "sync_machine =
     \<lparr>mc_table = sync_table, mc_state = sync_state, mc_revision = sync_revision,
      mc_advance = (\<lambda>s r. r\<lparr>sync_state := s, sync_revision := sync_revision r + 1\<rparr>),
      mc_value = sync_state_value, mc_model_name = lit ''syncrun''\<rparr>"

definition assertion_machine :: "(knowledge_assertion, review_state) machine" where
  "assertion_machine =
     \<lparr>mc_table = assertion_table, mc_state = as_review_state, mc_revision = as_revision,
      mc_advance = (\<lambda>s r. r\<lparr>as_review_state := s, as_revision := as_revision r + 1\<rparr>),
      mc_value = review_state_value, mc_model_name = lit ''knowledgeassertion''\<rparr>"

definition assurance_machine :: "(assurance_run, assurance_state) machine" where
  "assurance_machine =
     \<lparr>mc_table = assurance_table, mc_state = run_state, mc_revision = run_revision,
      mc_advance = (\<lambda>s r. r\<lparr>run_state := s, run_revision := run_revision r + 1\<rparr>),
      mc_value = assurance_state_value, mc_model_name = lit ''assurancerun''\<rparr>"

definition proposal_machine :: "(knowledge_proposal, proposal_state) machine" where
  "proposal_machine =
     \<lparr>mc_table = proposal_table, mc_state = prop_state, mc_revision = prop_revision,
      mc_advance = (\<lambda>s r. r\<lparr>prop_state := s, prop_revision := prop_revision r + 1\<rparr>),
      mc_value = proposal_state_value, mc_model_name = lit ''knowledgeproposal''\<rparr>"

section \<open>The operations\<close>

definition sync_terminal :: "pystr \<Rightarrow> bool" where
  "sync_terminal target_state \<longleftrightarrow>
     target_state \<in> sync_state_value ` {SYNC_COMPLETED, SYNC_PARTIALLY_COMPLETED, SYNC_FAILED,
                                         SYNC_CANCELLED}"

definition transition_sync_run ::
  "environment \<Rightarrow> actor_context \<Rightarrow> uuid \<Rightarrow> pystr \<Rightarrow> int \<Rightarrow> pystr \<Rightarrow> instant \<Rightarrow> db
     \<Rightarrow> (sync_run \<times> db) result"
where
  "transition_sync_run env actor rid target_state expected_revision failure_code now d =
     bind_res (get_tenant_record_for_update sync_table rid (actor_org actor) d) (\<lambda>run.
     if sync_state_value (sync_state run) = target_state then Inr (run, d)
     else
       let prepared = run\<lparr>sync_failure_code := failure_code,
             sync_completed_at := (if sync_terminal target_state then Some now else None)\<rparr>
       in apply_transition env sync_machine prepared actor target_state SYNC_TRANSITIONS
            expected_revision
            (if failure_code \<noteq> [] then [(lit ''failure_code'', JStr failure_code)] else []) d)"

definition transition_assertion_review ::
  "environment \<Rightarrow> actor_context \<Rightarrow> uuid \<Rightarrow> pystr \<Rightarrow> int \<Rightarrow> db \<Rightarrow> (knowledge_assertion \<times> db) result"
where
  "transition_assertion_review env actor aid target_state expected_revision d =
     bind_res (get_tenant_record_for_update assertion_table aid (actor_org actor) d) (\<lambda>assertion.
       apply_transition env assertion_machine assertion actor target_state ASSERTION_TRANSITIONS
         expected_revision [] d)"

definition require_artifact_organization :: "uuid \<Rightarrow> uuid \<Rightarrow> db \<Rightarrow> immutable_artifact result" where
  "require_artifact_organization artifact_id organization_id d =
     get_tenant_record artifact_table artifact_id organization_id d"

definition assurance_terminal :: "pystr \<Rightarrow> bool" where
  "assurance_terminal target_state \<longleftrightarrow>
     target_state \<in> assurance_state_value ` {RUN_COMPLETED, RUN_STALE, RUN_FAILED, RUN_CANCELLED}"

definition transition_assurance_run ::
  "environment \<Rightarrow> actor_context \<Rightarrow> uuid \<Rightarrow> pystr \<Rightarrow> int \<Rightarrow> pystr option \<Rightarrow> pystr option
     \<Rightarrow> uuid option \<Rightarrow> instant \<Rightarrow> db \<Rightarrow> (assurance_run \<times> db) result"
where
  "transition_assurance_run env actor rid target_state expected_revision evaluated_commit
       report_commit context_artifact_id now d =
     bind_res (get_tenant_record_for_update assurance_table rid (actor_org actor) d) (\<lambda>run.
     if assurance_state_value (run_state run) = target_state then Inr (run, d)
     else
       let run1 = (case evaluated_commit of None \<Rightarrow> run | Some c \<Rightarrow> run\<lparr>run_evaluated_commit := c\<rparr>);
           run2 = (case report_commit of None \<Rightarrow> run1 | Some c \<Rightarrow> run1\<lparr>run_report_commit := c\<rparr>)
       in bind_res
            (case context_artifact_id of
               None \<Rightarrow> Inr run2
             | Some a \<Rightarrow> bind_res (require_artifact_organization a (actor_org actor) d)
                          (\<lambda>artifact. Inr (run2\<lparr>run_context_artifact := Some (art_id artifact)\<rparr>)))
            (\<lambda>run3.
              let run4 = run3\<lparr>run_completed_at :=
                                (if assurance_terminal target_state then Some now else None)\<rparr>
              in if target_state = assurance_state_value RUN_COMPLETED
                    \<and> (run_evaluated_commit run4 \<noteq> run_head_commit run4
                       \<or> run_report_commit run4 \<noteq> run_head_commit run4)
                 then Inl InvalidStateTransitionError
                 else apply_transition env assurance_machine run4 actor target_state
                        ASSURANCE_TRANSITIONS expected_revision
                        [(lit ''head_commit'', JStr (run_head_commit run4))] d))"

definition proposal_decided :: "pystr \<Rightarrow> bool" where
  "proposal_decided target_state \<longleftrightarrow>
     target_state \<in> proposal_state_value ` {PROPOSAL_ACCEPTED, PROPOSAL_REJECTED,
                                             PROPOSAL_SUPERSEDED, PROPOSAL_FAILED}"

text \<open>The session setting \<^verbatim>\<open>anva.knowledge_proposal_lifecycle_id\<close> is not modelled.\<close>

definition transition_knowledge_proposal ::
  "environment \<Rightarrow> actor_context \<Rightarrow> uuid \<Rightarrow> pystr \<Rightarrow> int \<Rightarrow> instant \<Rightarrow> db
     \<Rightarrow> (knowledge_proposal \<times> db) result"
where
  "transition_knowledge_proposal env actor pid target_state expected_revision now d =
     bind_res (get_tenant_record_for_update proposal_table pid (actor_org actor) d) (\<lambda>proposal.
     if proposal_state_value (prop_state proposal) = target_state then Inr (proposal, d)
     else
       let prepared = proposal\<lparr>prop_decided_at :=
                        (if proposal_decided target_state then Some now else None)\<rparr>
       in apply_transition env proposal_machine prepared actor target_state PROPOSAL_TRANSITIONS
            expected_revision [] d)"

end
