(* ===== verification/TransitionSafety.thy ===== *)
theory TransitionSafety
  imports Transitions Samples
begin

text \<open>
  Correctness of the state machines.  The locale \<open>lifecycle\<close> is what \<^verbatim>\<open>apply_transition\<close> relies on
  in a model class (advancing a row keeps its identity, sets its state and counts its revision);
  \<open>ranked_lifecycle\<close> adds a rank that every edge raises.  All four machines of the code are
  interpretations of the first, three of them of the second (a disputed assertion can be confirmed
  and disputed again, so its machine has no rank).
\<close>

section \<open>The contract of a machine\<close>

text \<open>A path through a transition graph: each state is a successor of the one before it.\<close>

fun path_in :: "('s \<Rightarrow> 's list) \<Rightarrow> 's \<Rightarrow> 's list \<Rightarrow> bool" where
  "path_in transitions s [] \<longleftrightarrow> True"
| "path_in transitions s (t # ts) \<longleftrightarrow> t \<in> set (transitions s) \<and> path_in transitions t ts"

locale lifecycle = tenant_table "mc_table m" for m :: "('r, 's) machine" +
  fixes transitions :: "'s \<Rightarrow> 's list"
  assumes advance_id [simp]: "tb_id (mc_table m) (mc_advance m s r) = tb_id (mc_table m) r"
    and advance_org [simp]: "tb_org (mc_table m) (mc_advance m s r) = tb_org (mc_table m) r"
    and advance_state [simp]: "mc_state m (mc_advance m s r) = s"
    and advance_revision [simp]: "mc_revision m (mc_advance m s r) = Suc (mc_revision m r)"
    and value_inj: "mc_value m s = mc_value m s' \<Longrightarrow> s = s'"
begin

text \<open>What an update that returned has done.\<close>

lemma apply_returned:
  assumes "apply_transition env m r actor target transitions expected md d = Inr (r', d')"
  shows "r' = r \<and> d' = d \<and> mc_value m (mc_state m r) = target \<or>
    mc_state m r' \<in> set (transitions (mc_state m r)) \<and> r' = mc_advance m (mc_state m r') r
    \<and> mc_value m (mc_state m r') = target
    \<and> int (mc_revision m r) = expected
    \<and> tb_org (mc_table m) r = actor_org actor
    \<and> record_transition env (tb_org (mc_table m) r) actor (mc_model_name m) (tb_id (mc_table m) r)
        (mc_value m (mc_state m r)) target (Suc (mc_revision m r)) md
        (save_row (mc_table m) r' d) = Inr d'"
proof (cases "mc_value m (mc_state m r) = target")
  case True
  then show ?thesis using assms by (auto simp: apply_transition_def split: if_splits)
next
  case False
  have org: "tb_org (mc_table m) r = actor_org actor" and rv: "int (mc_revision m r) = expected"
    using assms False by (auto simp: apply_transition_def split: if_splits)
  show ?thesis
  proof (cases "find_by (\<lambda>s. mc_value m s = target) (transitions (mc_state m r))")
    case None
    have "apply_transition env m r actor target transitions expected md d = Inl InvalidStateTransitionError"
      unfolding apply_transition_def None using org rv False by simp
    then show ?thesis using assms by simp
  next
    case (Some s)
    from find_by_Some_iff [OF Some]
    have s: "s \<in> set (transitions (mc_state m r))" "mc_value m s = target" by simp_all
    have "bind_res (record_transition env (tb_org (mc_table m) r) actor (mc_model_name m)
        (tb_id (mc_table m) r) (mc_value m (mc_state m r)) target (Suc (mc_revision m r)) md
        (save_row (mc_table m) (mc_advance m s r) d)) (\<lambda>d'. Inr (mc_advance m s r, d')) = Inr (r', d')"
      using assms org rv False unfolding apply_transition_def Some by (simp add: Let_def)
    then have "r' = mc_advance m s r" and "record_transition env (tb_org (mc_table m) r) actor
        (mc_model_name m) (tb_id (mc_table m) r) (mc_value m (mc_state m r)) target
        (Suc (mc_revision m r)) md (save_row (mc_table m) (mc_advance m s r) d) = Inr d'"
      by (auto simp: bind_res_Inr)
    then show ?thesis using s org rv by simp
  qed
qed

text \<open>Whatever else the database holds stays as it is.\<close>

lemma apply_frame:
  assumes "apply_transition env m r actor target transitions expected md d = Inr (r', d')"
    and "\<And>rs d. f (tb_put (mc_table m) rs d) = f d"
    and "\<And>a b d. f (d\<lparr>audit_events := a, outbox_events := b\<rparr>) = f d"
  shows "f d' = f d"
  using apply_returned [OF assms(1)]
proof (elim disjE conjE)
  assume rec: "record_transition env (tb_org (mc_table m) r) actor (mc_model_name m) (tb_id (mc_table m) r)
        (mc_value m (mc_state m r)) target (Suc (mc_revision m r)) md
        (save_row (mc_table m) r' d) = Inr d'"
  show ?thesis
    unfolding record_transition_Inr(1) [OF rec] assms(3) by (simp add: save_row_def assms(2))
qed simp

lemma stale_update_refused:
  assumes "tb_org (mc_table m) r = actor_org actor" "mc_value m (mc_state m r) \<noteq> target"
    and "int (mc_revision m r) \<noteq> expected"
  shows "apply_transition env m r actor target transitions expected md d = Inl OptimisticConcurrencyError"
  using assms by (simp add: apply_transition_def)

lemma missing_edge_refused:
  assumes "tb_org (mc_table m) r = actor_org actor" "mc_value m (mc_state m r) \<noteq> target"
    and "int (mc_revision m r) = expected"
    and "target \<notin> mc_value m ` set (transitions (mc_state m r))"
  shows "apply_transition env m r actor target transitions expected md d = Inl InvalidStateTransitionError"
proof -
  have "find_by (\<lambda>s. mc_value m s = target) (transitions (mc_state m r)) = None"
    using assms(4) by auto
  note none = this
  show ?thesis unfolding apply_transition_def none using assms(1-3) by simp
qed

lemma foreign_update_refused:
  "tb_org (mc_table m) r \<noteq> actor_org actor \<Longrightarrow>
     apply_transition env m r actor target transitions expected md d = Inl TenantBoundaryError"
  by (simp add: apply_transition_def)

text \<open>An edge of the graph is taken, once the record of it is accepted.\<close>

lemma edge_taken:
  assumes "tb_org (mc_table m) r = actor_org actor" "s \<in> set (transitions (mc_state m r))"
    and "s \<noteq> mc_state m r"
    and "record_transition env (tb_org (mc_table m) r) actor (mc_model_name m) (tb_id (mc_table m) r)
        (mc_value m (mc_state m r)) (mc_value m s) (Suc (mc_revision m r)) md
        (save_row (mc_table m) (mc_advance m s r) d) = Inr d'"
  shows "apply_transition env m r actor (mc_value m s) transitions (int (mc_revision m r)) md d
         = Inr (mc_advance m s r, d')"
proof -
  have "find_by (\<lambda>x. mc_value m x = mc_value m s) (transitions (mc_state m r)) \<noteq> None"
    using assms(2) by auto
  then obtain x where x: "find_by (\<lambda>x. mc_value m x = mc_value m s) (transitions (mc_state m r)) = Some x"
    by (auto simp del: find_by_None)
  then have "x = s" using find_by_Some_iff [OF x] value_inj by blast
  moreover have "mc_value m (mc_state m r) \<noteq> mc_value m s" using assms(3) value_inj by blast
  ultimately show ?thesis using assms x by (simp add: apply_transition_def)
qed

text \<open>
  No lost update: after one caller's update at a revision has been saved, another update made
  at that same revision is refused.
\<close>

lemma second_update_refused:
  assumes "apply_transition env m r actor target transitions expected md d = Inr (r', d')"
    and "mc_value m (mc_state m r) \<noteq> target" and "target' \<noteq> target"
    and "tb_org (mc_table m) q = actor_org actor'" "tb_org (mc_table m) q = tb_org (mc_table m) r'"
    and "mc_state m q = mc_state m r'" "mc_revision m q = mc_revision m r'"
  shows "apply_transition env' m q actor' target' transitions expected md' d''
         = Inl OptimisticConcurrencyError"
proof -
  from apply_returned [OF assms(1)] assms(2)
  have r': "mc_value m (mc_state m r') = target" "int (mc_revision m r) = expected"
    "r' = mc_advance m (mc_state m r') r" by auto
  have "mc_revision m r' = Suc (mc_revision m r)" by (subst r'(3)) simp
  then have "int (mc_revision m q) \<noteq> expected" using r'(2) assms(7) by simp
  then show ?thesis using assms(3,4,6) r'(1) by (intro stale_update_refused) auto
qed

end

locale ranked_lifecycle = lifecycle m transitions
  for m :: "('r, 's) machine" and transitions :: "'s \<Rightarrow> 's list" +
  fixes rank :: "'s \<Rightarrow> nat" and top :: nat
  assumes edge_raises: "s' \<in> set (transitions s) \<Longrightarrow> rank s < rank s'"
    and rank_top: "rank s \<le> top"
begin

lemma path_bounded: "path_in transitions s ts \<Longrightarrow> rank s + length ts \<le> top"
proof (induction ts arbitrary: s)
  case Nil
  then show ?case using rank_top by simp
next
  case (Cons t ts)
  then have "rank s < rank t" "rank t + length ts \<le> top" using edge_raises [of t s] by simp_all
  then show ?case by simp
qed

lemma no_return: "path_in transitions s ts \<Longrightarrow> t \<in> set ts \<Longrightarrow> rank s < rank t"
proof (induction ts arbitrary: s)
  case (Cons u us)
  then show ?case using edge_raises [of u s] Cons.IH [of u] by (auto intro: less_trans)
qed simp

text \<open>The revision of a row counts its edges, so it stays below the rank it has reached.\<close>

definition paced :: "nat \<Rightarrow> 'r \<Rightarrow> bool" where
  "paced start r \<longleftrightarrow> mc_revision m r \<le> start + rank (mc_state m r)"

lemma apply_paced:
  assumes "apply_transition env m r actor target transitions expected md d = Inr (r', d')" "paced start r"
  shows "paced start r'"
proof -
  from apply_returned [OF assms(1)] show ?thesis
  proof (elim disjE conjE)
    assume "r' = r"
    then show ?thesis using assms(2) by simp
  next
    assume e: "mc_state m r' \<in> set (transitions (mc_state m r))" "r' = mc_advance m (mc_state m r') r"
    have "mc_revision m r' = Suc (mc_revision m r)" by (subst e(2)) simp
    then show ?thesis using edge_raises [OF e(1)] assms(2) by (simp add: paced_def)
  qed
qed

lemma paced_bounded: "paced start r \<Longrightarrow> mc_revision m r \<le> start + top"
  using rank_top [of "mc_state m r"] by (simp add: paced_def)

end

section \<open>The four machines\<close>

fun sync_rank :: "sync_state \<Rightarrow> nat" where
  "sync_rank SYNC_REQUESTED = 0" | "sync_rank SYNC_DISCOVERING = 1" | "sync_rank SYNC_FETCHING = 2"
| "sync_rank SYNC_PARSING = 3" | "sync_rank SYNC_INDEXING = 4" | "sync_rank SYNC_EXTRACTING = 5"
| "sync_rank SYNC_RESOLVING = 6" | "sync_rank SYNC_PUBLISHING = 7" | "sync_rank _ = 8"

fun assurance_rank :: "assurance_state \<Rightarrow> nat" where
  "assurance_rank RUN_REQUESTED = 0" | "assurance_rank RUN_DEBOUNCING = 1"
| "assurance_rank RUN_FETCHING_PULL_REQUEST = 2" | "assurance_rank RUN_COLLECTING_EVIDENCE = 3"
| "assurance_rank RUN_EVALUATING_POLICY = 4" | "assurance_rank RUN_BUILDING_CONTEXT = 5"
| "assurance_rank RUN_MODEL_REVIEW = 6" | "assurance_rank RUN_MAPPING_EVIDENCE = 7"
| "assurance_rank RUN_RENDERING_REPORT = 8" | "assurance_rank RUN_PUBLISHING = 9"
| "assurance_rank RUN_COMPLETED = 10" | "assurance_rank _ = 11"

fun proposal_rank :: "proposal_state \<Rightarrow> nat" where
  "proposal_rank PROPOSAL_PROPOSED = 0" | "proposal_rank PROPOSAL_VALIDATING = 1"
| "proposal_rank PROPOSAL_AWAITING_REVIEW = 2" | "proposal_rank PROPOSAL_ACCEPTED = 3"
| "proposal_rank PROPOSAL_REJECTED = 3" | "proposal_rank _ = 4"

lemma sync_state_value_inj: "sync_state_value a = sync_state_value b \<Longrightarrow> a = b"
  by (cases a; cases b) simp_all

lemma review_state_value_inj: "review_state_value a = review_state_value b \<Longrightarrow> a = b"
  by (cases a; cases b) simp_all

lemma assurance_state_value_inj: "assurance_state_value a = assurance_state_value b \<Longrightarrow> a = b"
  by (cases a; cases b) simp_all

lemma proposal_state_value_inj: "proposal_state_value a = proposal_state_value b \<Longrightarrow> a = b"
  by (cases a; cases b) simp_all

lemma machine_simps [simp]:
  "mc_table sync_machine = sync_table" "mc_state sync_machine = sync_state"
  "mc_revision sync_machine = sync_revision" "mc_value sync_machine = sync_state_value"
  "mc_advance sync_machine s r = r\<lparr>sync_state := s, sync_revision := sync_revision r + 1\<rparr>"
  "mc_table assertion_machine = assertion_table" "mc_state assertion_machine = as_review_state"
  "mc_revision assertion_machine = as_revision" "mc_value assertion_machine = review_state_value"
  "mc_advance assertion_machine s2 r2 = r2\<lparr>as_review_state := s2, as_revision := as_revision r2 + 1\<rparr>"
  "mc_table assurance_machine = assurance_table" "mc_state assurance_machine = run_state"
  "mc_revision assurance_machine = run_revision" "mc_value assurance_machine = assurance_state_value"
  "mc_advance assurance_machine s3 r3 = r3\<lparr>run_state := s3, run_revision := run_revision r3 + 1\<rparr>"
  "mc_table proposal_machine = proposal_table" "mc_state proposal_machine = prop_state"
  "mc_revision proposal_machine = prop_revision" "mc_value proposal_machine = proposal_state_value"
  "mc_advance proposal_machine s4 r4 = r4\<lparr>prop_state := s4, prop_revision := prop_revision r4 + 1\<rparr>"
  by (simp_all add: sync_machine_def assertion_machine_def assurance_machine_def proposal_machine_def)

interpretation sync_life: ranked_lifecycle sync_machine SYNC_TRANSITIONS sync_rank 8
proof unfold_locales
  fix s s' :: sync_state
  show "sync_rank s \<le> 8" by (cases s) simp_all
  assume "s' \<in> set (SYNC_TRANSITIONS s)"
  then show "sync_rank s < sync_rank s'" by (cases s) auto
qed (simp_all add: sync_state_value_inj sync_table_def)

interpretation assertion_life: lifecycle assertion_machine ASSERTION_TRANSITIONS
  by unfold_locales (simp_all add: review_state_value_inj assertion_table_def)

interpretation assurance_life: ranked_lifecycle assurance_machine ASSURANCE_TRANSITIONS assurance_rank 11
proof unfold_locales
  fix s s' :: assurance_state
  show "assurance_rank s \<le> 11" by (cases s) simp_all
  assume "s' \<in> set (ASSURANCE_TRANSITIONS s)"
  then show "assurance_rank s < assurance_rank s'" by (cases s) auto
qed (simp_all add: assurance_state_value_inj assurance_table_def)

interpretation proposal_life: ranked_lifecycle proposal_machine PROPOSAL_TRANSITIONS proposal_rank 4
proof unfold_locales
  fix s s' :: proposal_state
  show "proposal_rank s \<le> 4" by (cases s) simp_all
  assume "s' \<in> set (PROPOSAL_TRANSITIONS s)"
  then show "proposal_rank s < proposal_rank s'" by (cases s) auto
qed (simp_all add: proposal_state_value_inj proposal_table_def)

section \<open>The operations\<close>

text \<open>
  What each operation did when it returned: nothing, because the row already was in the target
  state, or one edge of the graph at the expected revision, saved to the row it looked up.
\<close>

lemma terminal_tests:
  "sync_terminal (sync_state_value s) \<longleftrightarrow>
     s \<in> {SYNC_COMPLETED, SYNC_PARTIALLY_COMPLETED, SYNC_FAILED, SYNC_CANCELLED}"
  "assurance_terminal (assurance_state_value a) \<longleftrightarrow> a \<in> {RUN_COMPLETED, RUN_STALE, RUN_FAILED, RUN_CANCELLED}"
  "proposal_decided (proposal_state_value p) \<longleftrightarrow>
     p \<in> {PROPOSAL_ACCEPTED, PROPOSAL_REJECTED, PROPOSAL_SUPERSEDED, PROPOSAL_FAILED}"
  unfolding sync_terminal_def assurance_terminal_def proposal_decided_def
  using sync_state_value_inj assurance_state_value_inj proposal_state_value_inj by blast+

lemma recorded:
  assumes "record_transition env org actor tt tid fs ts rv md d = Inr d'"
  shows "sync_runs d' = sync_runs d" "assertions d' = assertions d"
    "assurance_runs d' = assurance_runs d" "proposals d' = proposals d"
    "outbox_events d' = outbox_events d @ [outbox_row org tt tid fs ts rv md]"
    "audit_events d' = audit_events d @ [audit_row org actor tt tid fs ts md]"
  by (simp_all add: record_transition_Inr(1) [OF assms])

lemma sync_returned:
  assumes "transition_sync_run env actor rid target expected code now d = Inr (r', d')"
  shows "\<exists>r\<in>set (sync_runs d). sync_id r = rid \<and> sync_org r = actor_org actor \<and>
    (r' = r \<and> d' = d \<and> sync_state_value (sync_state r) = target \<or>
     sync_state r' \<in> set (SYNC_TRANSITIONS (sync_state r)) \<and> sync_state_value (sync_state r') = target
     \<and> int (sync_revision r) = expected
     \<and> r' = r\<lparr>sync_failure_code := code,
              sync_completed_at := (if sync_terminal target then Some now else None),
              sync_state := sync_state r', sync_revision := sync_revision r + 1\<rparr>
     \<and> sync_runs d' = update_where (\<lambda>x. sync_id x = rid) (\<lambda>_. r') (sync_runs d)
     \<and> outbox_events d' = outbox_events d @
         [outbox_row (sync_org r) (lit ''syncrun'') rid (sync_state_value (sync_state r)) target
            (sync_revision r + 1) (if code \<noteq> [] then [(lit ''failure_code'', JStr code)] else [])])"
proof -
  from assms obtain r where g: "get_tenant_record_for_update sync_table rid (actor_org actor) d = Inr r"
    by (auto simp: transition_sync_run_def bind_res_Inr)
  have r: "r \<in> set (sync_runs d)" "sync_id r = rid" "sync_org r = actor_org actor"
    using get_tenant_record_Inr [OF g [unfolded get_tenant_record_for_update_def]] by simp_all
  show ?thesis
  proof (cases "sync_state_value (sync_state r) = target")
    case True
    then show ?thesis using assms g r by (auto simp: transition_sync_run_def)
  next
    case False
    define q where "q = r\<lparr>sync_failure_code := code,
        sync_completed_at := (if sync_terminal target then Some now else None)\<rparr>"
    have "apply_transition env sync_machine q actor target SYNC_TRANSITIONS expected
            (if code \<noteq> [] then [(lit ''failure_code'', JStr code)] else []) d = Inr (r', d')"
      using assms g False by (simp add: transition_sync_run_def q_def)
    from sync_life.apply_returned [OF this] False
    have e: "sync_state r' \<in> set (SYNC_TRANSITIONS (sync_state r))"
      "r' = q\<lparr>sync_state := sync_state r', sync_revision := sync_revision r + 1\<rparr>"
      "sync_state_value (sync_state r') = target" "int (sync_revision r) = expected"
      and rec: "record_transition env (sync_org r) actor (mc_model_name sync_machine) (sync_id r)
        (sync_state_value (sync_state r)) target (Suc (sync_revision r))
        (if code \<noteq> [] then [(lit ''failure_code'', JStr code)] else []) (save_row sync_table r' d) = Inr d'"
      by (auto simp: q_def)
    have "sync_id r' = rid" by (subst e(2)) (simp add: q_def r(2))
    then show ?thesis
      using e r recorded(1,5) [OF rec] unfolding q_def
      by (intro bexI [OF _ r(1)]) (simp add: sync_machine_def)
  qed
qed

lemma assurance_returned:
  assumes "transition_assurance_run env actor rid target expected ec rc ca now d = Inr (r', d')"
  shows "\<exists>r\<in>set (assurance_runs d). run_id r = rid \<and> run_org r = actor_org actor \<and>
    (r' = r \<and> d' = d \<and> assurance_state_value (run_state r) = target \<or>
     run_state r' \<in> set (ASSURANCE_TRANSITIONS (run_state r)) \<and> assurance_state_value (run_state r') = target
     \<and> int (run_revision r) = expected \<and> run_revision r' = run_revision r + 1
     \<and> run_id r' = run_id r \<and> run_org r' = run_org r \<and> run_head_commit r' = run_head_commit r
     \<and> run_repository r' = run_repository r \<and> run_context_packet r' = run_context_packet r
     \<and> run_completed_at r' = (if assurance_terminal target then Some now else None)
     \<and> (run_state r' = RUN_COMPLETED \<longrightarrow>
          run_evaluated_commit r' = run_head_commit r' \<and> run_report_commit r' = run_head_commit r')
     \<and> assurance_runs d' = update_where (\<lambda>x. run_id x = rid) (\<lambda>_. r') (assurance_runs d))"
proof -
  from assms obtain r where g: "get_tenant_record_for_update assurance_table rid (actor_org actor) d = Inr r"
    by (auto simp: transition_assurance_run_def bind_res_Inr)
  have r: "r \<in> set (assurance_runs d)" "run_id r = rid" "run_org r = actor_org actor"
    using get_tenant_record_Inr [OF g [unfolded get_tenant_record_for_update_def]] by simp_all
  show ?thesis
  proof (cases "assurance_state_value (run_state r) = target")
    case True
    then show ?thesis using assms g r by (auto simp: transition_assurance_run_def)
  next
    case False
    define r2 where "r2 = (case rc of None \<Rightarrow> (case ec of None \<Rightarrow> r | Some c \<Rightarrow> r\<lparr>run_evaluated_commit := c\<rparr>)
        | Some c \<Rightarrow> (case ec of None \<Rightarrow> r | Some c \<Rightarrow> r\<lparr>run_evaluated_commit := c\<rparr>)\<lparr>run_report_commit := c\<rparr>)"
    have r2: "run_id r2 = run_id r" "run_org r2 = run_org r" "run_head_commit r2 = run_head_commit r"
      "run_state r2 = run_state r" "run_revision r2 = run_revision r"
      "run_repository r2 = run_repository r" "run_context_packet r2 = run_context_packet r"
      by (auto simp: r2_def split: option.splits)
    define attach where "attach = (case ca of None \<Rightarrow> Inr r2
            | Some a \<Rightarrow> bind_res (require_artifact_organization a (actor_org actor) d)
                (\<lambda>artifact. Inr (r2\<lparr>run_context_artifact := Some (art_id artifact)\<rparr>)))"
    define finish where "finish r3 = (let q = r3\<lparr>run_completed_at :=
                (if assurance_terminal target then Some now else None)\<rparr>
              in if target = assurance_state_value RUN_COMPLETED
                    \<and> (run_evaluated_commit q \<noteq> run_head_commit q \<or> run_report_commit q \<noteq> run_head_commit q)
                 then Inl InvalidStateTransitionError
                 else apply_transition env assurance_machine q actor target ASSURANCE_TRANSITIONS expected
                        [(lit ''head_commit'', JStr (run_head_commit q))] d)" for r3
    have "transition_assurance_run env actor rid target expected ec rc ca now d = bind_res attach finish"
      unfolding transition_assurance_run_def g bind_res_simps attach_def r2_def finish_def [abs_def] Let_def
      using False by (cases ec; cases rc) (simp_all only: if_False option.case)
    with assms have "bind_res attach finish = Inr (r', d')" by (simp only:)
    then obtain r3 where r3: "attach = Inr r3" and rest: "finish r3 = Inr (r', d')"
      unfolding bind_res_Inr by blast
    have r3f: "run_id r3 = run_id r" "run_org r3 = run_org r" "run_head_commit r3 = run_head_commit r"
      "run_state r3 = run_state r" "run_revision r3 = run_revision r"
      "run_repository r3 = run_repository r" "run_context_packet r3 = run_context_packet r"
      using r3 r2 by (auto simp: attach_def bind_res_Inr split: option.splits)
    define q where "q = r3\<lparr>run_completed_at := (if assurance_terminal target then Some now else None)\<rparr>"
    have q: "run_id q = run_id r" "run_org q = run_org r" "run_head_commit q = run_head_commit r"
      "run_state q = run_state r" "run_revision q = run_revision r"
      "run_repository q = run_repository r" "run_context_packet q = run_context_packet r"
      "run_completed_at q = (if assurance_terminal target then Some now else None)"
      using r3f by (simp_all add: q_def)
    have guard: "target = assurance_state_value RUN_COMPLETED \<longrightarrow>
        run_evaluated_commit q = run_head_commit q \<and> run_report_commit q = run_head_commit q"
      and ap: "apply_transition env assurance_machine q actor target ASSURANCE_TRANSITIONS expected
                 [(lit ''head_commit'', JStr (run_head_commit q))] d = Inr (r', d')"
      using rest unfolding finish_def Let_def q_def [symmetric] by (auto split: if_splits)
    from assurance_life.apply_returned [OF ap] False q
    have e: "run_state r' \<in> set (ASSURANCE_TRANSITIONS (run_state r))"
      "r' = q\<lparr>run_state := run_state r', run_revision := run_revision r + 1\<rparr>"
      "assurance_state_value (run_state r') = target" "int (run_revision r) = expected"
      and rec: "record_transition env (run_org r) actor (mc_model_name assurance_machine) (run_id r)
        (assurance_state_value (run_state r)) target (Suc (run_revision r))
        [(lit ''head_commit'', JStr (run_head_commit q))] (save_row assurance_table r' d) = Inr d'"
      by auto
    have f: "run_id r' = run_id q" "run_org r' = run_org q" "run_head_commit r' = run_head_commit q"
      "run_revision r' = run_revision r + 1" "run_completed_at r' = run_completed_at q"
      "run_repository r' = run_repository q" "run_context_packet r' = run_context_packet q"
      "run_evaluated_commit r' = run_evaluated_commit q" "run_report_commit r' = run_report_commit q"
      by (subst e(2), simp)+
    show ?thesis
      using e(1,3,4) f q r guard recorded(3) [OF rec] by (intro bexI [OF _ r(1)]) auto
  qed
qed

lemma if_eq_iff: "(if c then a else b) = z \<longleftrightarrow> c \<and> a = z \<or> \<not> c \<and> b = z"
  by simp

text \<open>An assurance transition touches its own table and the logs, nothing else.\<close>

lemma assurance_frame:
  assumes "transition_assurance_run env actor rid target expected ec rc ca now d = Inr (r', d')"
    and "\<And>rs d. f (d\<lparr>assurance_runs := rs\<rparr>) = f d"
    and "\<And>a b d. f (d\<lparr>audit_events := a, outbox_events := b\<rparr>) = f d"
  shows "f d' = f d"
proof -
  have "d' = d \<or> (\<exists>q md. apply_transition env assurance_machine q actor target ASSURANCE_TRANSITIONS expected
      md d = Inr (r', d'))"
    using assms(1)
    by (simp only: transition_assurance_run_def bind_res_Inr Let_def if_eq_iff sum.inject sum.distinct
        prod.inject simp_thms) blast
  then show ?thesis
  proof
    assume "\<exists>q md. apply_transition env assurance_machine q actor target ASSURANCE_TRANSITIONS expected
      md d = Inr (r', d')"
    then obtain q md where "apply_transition env assurance_machine q actor target ASSURANCE_TRANSITIONS
      expected md d = Inr (r', d')" by blast
    then show ?thesis
      by (rule assurance_life.apply_frame) (simp_all add: assms(2,3) assurance_machine_def assurance_table_def)
  qed simp
qed

end
