(* ===== verification/TransitionClaims.thy ===== *)
theory TransitionClaims
  imports TransitionSafety
begin

text \<open>The properties of the state machines, with the runs that meet their hypotheses.\<close>

section \<open>Reachable rows\<close>

text \<open>One step: an operation of \<^verbatim>\<open>transitions.py\<close> that returned.\<close>

inductive transition_step :: "environment \<Rightarrow> db \<Rightarrow> db \<Rightarrow> bool" for env where
  sync: "transition_sync_run env actor rid target expected code now d = Inr (r, d')
     \<Longrightarrow> transition_step env d d'"
| assertion: "transition_assertion_review env actor aid target expected d = Inr (a, d')
     \<Longrightarrow> transition_step env d d'"
| assurance: "transition_assurance_run env actor rid target expected ec rc ca now d = Inr (q, d')
     \<Longrightarrow> transition_step env d d'"
| proposal: "transition_knowledge_proposal env actor pid target expected now d = Inr (p, d')
     \<Longrightarrow> transition_step env d d'"

inductive_cases transition_stepE: "transition_step env d d'"

lemma step_assurance_runs:
  assumes "transition_step env d d'"
  shows "assurance_runs d' = assurance_runs d \<or>
    (\<exists>actor rid target expected ec rc ca now q.
       transition_assurance_run env actor rid target expected ec rc ca now d = Inr (q, d'))"
  using assms
proof cases
  case (sync actor rid target expected code now r)
  then have "assurance_runs d' = assurance_runs d"
    by (auto simp: transition_sync_run_def bind_res_Inr sync_table_def split: if_splits
        elim!: sync_life.apply_frame)
  then show ?thesis ..
next
  case (assertion actor aid target expected a)
  then have "assurance_runs d' = assurance_runs d"
    by (auto simp: transition_assertion_review_def bind_res_Inr assertion_table_def
        elim!: assertion_life.apply_frame)
  then show ?thesis ..
next
  case (proposal actor pid target expected now p)
  then have "assurance_runs d' = assurance_runs d"
    by (auto simp: transition_knowledge_proposal_def bind_res_Inr proposal_table_def split: if_splits
        elim!: proposal_life.apply_frame)
  then show ?thesis ..
qed blast

lemma step_sync_runs:
  assumes "transition_step env d d'"
  shows "sync_runs d' = sync_runs d \<or>
    (\<exists>actor rid target expected code now r.
       transition_sync_run env actor rid target expected code now d = Inr (r, d'))"
  using assms
proof cases
  case (assurance actor rid target expected ec rc ca now q)
  then have "sync_runs d' = sync_runs d"
    by (auto simp: transition_assurance_run_def bind_res_Inr Let_def assurance_table_def
        split: if_splits elim!: assurance_life.apply_frame)
  then show ?thesis ..
next
  case (assertion actor aid target expected a)
  then have "sync_runs d' = sync_runs d"
    by (auto simp: transition_assertion_review_def bind_res_Inr assertion_table_def
        elim!: assertion_life.apply_frame)
  then show ?thesis ..
next
  case (proposal actor pid target expected now p)
  then have "sync_runs d' = sync_runs d"
    by (auto simp: transition_knowledge_proposal_def bind_res_Inr proposal_table_def split: if_splits
        elim!: proposal_life.apply_frame)
  then show ?thesis ..
qed blast

text \<open>The two check constraints of an assurance run, and its link to the commit under review.\<close>

definition run_coherent :: "assurance_run \<Rightarrow> bool" where
  "run_coherent r \<longleftrightarrow>
     (run_completed_at r \<noteq> None) = (run_state r \<in> {RUN_COMPLETED, RUN_STALE, RUN_FAILED, RUN_CANCELLED})
     \<and> (run_state r = RUN_COMPLETED \<longrightarrow>
          run_evaluated_commit r = run_head_commit r \<and> run_report_commit r = run_head_commit r)
     \<and> assurance_life.paced 1 r"

lemma step_runs_coherent:
  assumes "transition_step env d d'" "\<forall>r\<in>set (assurance_runs d). run_coherent r"
  shows "\<forall>r\<in>set (assurance_runs d'). run_coherent r"
  using step_assurance_runs [OF assms(1)]
proof (elim disjE exE)
  fix actor rid target expected ec rc ca now q
  assume op: "transition_assurance_run env actor rid target expected ec rc ca now d = Inr (q, d')"
  from assurance_returned [OF op] obtain r where r: "r \<in> set (assurance_runs d)"
    and c: "q = r \<and> d' = d \<or> run_state q \<in> set (ASSURANCE_TRANSITIONS (run_state r))
     \<and> run_revision q = run_revision r + 1 \<and> assurance_state_value (run_state q) = target
     \<and> run_completed_at q = (if assurance_terminal target then Some now else None)
     \<and> (run_state q = RUN_COMPLETED \<longrightarrow>
          run_evaluated_commit q = run_head_commit q \<and> run_report_commit q = run_head_commit q)
     \<and> assurance_runs d' = update_where (\<lambda>x. run_id x = rid) (\<lambda>_. q) (assurance_runs d)" by blast
  from c show ?thesis
  proof (elim disjE conjE)
    assume "d' = d"
    then show ?thesis using assms(2) by simp
  next
    assume e: "run_state q \<in> set (ASSURANCE_TRANSITIONS (run_state r))" "run_revision q = run_revision r + 1"
      and t: "assurance_state_value (run_state q) = target"
      and ct: "run_completed_at q = (if assurance_terminal target then Some now else None)"
      and pin: "run_state q = RUN_COMPLETED \<longrightarrow>
          run_evaluated_commit q = run_head_commit q \<and> run_report_commit q = run_head_commit q"
      and rows: "assurance_runs d' = update_where (\<lambda>x. run_id x = rid) (\<lambda>_. q) (assurance_runs d)"
    have "assurance_life.paced 1 r" using assms(2) r by (simp add: run_coherent_def)
    then have "assurance_life.paced 1 q"
      using assurance_life.edge_raises [OF e(1)] e(2) by (simp add: assurance_life.paced_def)
    then have "run_coherent q"
      using pin ct terminal_tests(2) [of "run_state q"] t by (simp add: run_coherent_def)
    then show ?thesis using assms(2) by (auto simp: rows set_update_where)
  qed
qed (use assms(2) in simp)

definition sync_coherent :: "sync_run \<Rightarrow> bool" where
  "sync_coherent r \<longleftrightarrow>
     (sync_completed_at r \<noteq> None) =
       (sync_state r \<in> {SYNC_COMPLETED, SYNC_PARTIALLY_COMPLETED, SYNC_FAILED, SYNC_CANCELLED})
     \<and> sync_life.paced 1 r"

lemma step_syncs_coherent:
  assumes "transition_step env d d'" "\<forall>r\<in>set (sync_runs d). sync_coherent r"
  shows "\<forall>r\<in>set (sync_runs d'). sync_coherent r"
  using step_sync_runs [OF assms(1)]
proof (elim disjE exE)
  fix actor rid target expected code now q
  assume op: "transition_sync_run env actor rid target expected code now d = Inr (q, d')"
  from sync_returned [OF op] obtain r where r: "r \<in> set (sync_runs d)"
    and c: "q = r \<and> d' = d \<or> sync_state q \<in> set (SYNC_TRANSITIONS (sync_state r))
     \<and> sync_state_value (sync_state q) = target
     \<and> q = r\<lparr>sync_failure_code := code,
              sync_completed_at := (if sync_terminal target then Some now else None),
              sync_state := sync_state q, sync_revision := sync_revision r + 1\<rparr>
     \<and> sync_runs d' = update_where (\<lambda>x. sync_id x = rid) (\<lambda>_. q) (sync_runs d)" by blast
  from c show ?thesis
  proof (elim disjE conjE)
    assume "d' = d"
    then show ?thesis using assms(2) by simp
  next
    assume e: "sync_state q \<in> set (SYNC_TRANSITIONS (sync_state r))"
      "sync_state_value (sync_state q) = target"
      "q = r\<lparr>sync_failure_code := code,
              sync_completed_at := (if sync_terminal target then Some now else None),
              sync_state := sync_state q, sync_revision := sync_revision r + 1\<rparr>"
      and rows: "sync_runs d' = update_where (\<lambda>x. sync_id x = rid) (\<lambda>_. q) (sync_runs d)"
    have f: "sync_completed_at q = (if sync_terminal target then Some now else None)"
      "sync_revision q = sync_revision r + 1" by (subst e(3), simp)+
    have "sync_life.paced 1 r" using assms(2) r by (simp add: sync_coherent_def)
    then have "sync_life.paced 1 q"
      using sync_life.edge_raises [OF e(1)] f(2) by (simp add: sync_life.paced_def)
    then have "sync_coherent q"
      using f(1) terminal_tests(1) [of "sync_state q"] e(2) by (simp add: sync_coherent_def)
    then show ?thesis using assms(2) by (auto simp: rows set_update_where)
  qed
qed (use assms(2) in simp)

lemma steps_coherent:
  assumes "(transition_step env)\<^sup>*\<^sup>* d d'"
  shows "(\<forall>r\<in>set (assurance_runs d). run_coherent r) \<Longrightarrow> (\<forall>r\<in>set (assurance_runs d'). run_coherent r)"
    and "(\<forall>r\<in>set (sync_runs d). sync_coherent r) \<Longrightarrow> (\<forall>r\<in>set (sync_runs d'). sync_coherent r)"
  using assms by (induction rule: rtranclp_induct) (auto dest: step_runs_coherent step_syncs_coherent)

section \<open>Sample rows\<close>

definition sample_run :: assurance_run where
  "sample_run = \<lparr>run_id = 30, run_org = 1, run_created_at = 0,
     run_repository_external_id = lit ''r'', run_repository = None, run_context_packet = None,
     run_readiness = [],
     run_head_commit = lit ''abc1234'', run_evaluated_commit = lit ''abc1234'',
     run_report_commit = [], run_context_artifact = None, run_state = RUN_PUBLISHING,
     run_completed_at = None, run_revision = 10, run_initiated_by_type = [], run_initiated_by_id = [], run_initiated_by_credential = None, run_policy_version = 1, run_pull_request_number = 1,
     run_pull_request_revision = None, run_work_revision = None, run_diff_artifact = None,
     run_policy_evaluation = None, run_input_hash = [], run_requirements_hash = [],
     run_policy_bundle_hash = [], run_evidence_bundle_hash = [], run_evaluator_version = [],
     run_prompt_version = [], run_limitations = [], run_failure_code = []\<rparr>"

definition sample_run_db :: db where
  "sample_run_db = sample_db\<lparr>assurance_runs := [sample_run],
     sync_runs := [\<lparr>sync_id = 31, sync_org = 1, sync_source = 5, sync_state = SYNC_PUBLISHING,
                    sync_failure_code = [], sync_completed_at = None, sync_revision = 8\<rparr>],
     assertions := [\<lparr>as_id = 32, as_org = 1, as_review_state = UNREVIEWED, as_access_scope = None,
                     as_valid_until = None, as_revision = 1, as_subject_key = [],
                     as_predicate = [], as_created_at = 0,
                     as_value = JNull, as_provenance = [], as_is_inferred = False\<rparr>]\<rparr>"

lemmas sample_tables = sample_run_db_def sample_run_def sample_db_def empty_db_def

lemma sample_run_db_empty_logs [simp]:
  "audit_events sample_run_db = []" "outbox_events sample_run_db = []"
  by (simp_all add: sample_tables)

lemma sample_assurance_completes:
  "\<exists>q d'. transition_assurance_run sample_env (sample_actor 80) 30 (assurance_state_value RUN_COMPLETED) 10
     None (Some (lit ''abc1234'')) None 5 sample_run_db = Inr (q, d')
     \<and> set (assurance_runs d') = {q} \<and> run_state q = RUN_COMPLETED"
  by (simp add: transition_assurance_run_def get_tenant_record_for_update_def get_tenant_record_def
      sample_tables assurance_terminal_def apply_transition_def record_transition_def
      screen_audit_key_def ALLOWED_AUDIT_METADATA_KEYS_def insert_unique_def update_where_def Let_def
      save_row_def assurance_table_def sync_table_def)

lemma sample_sync_completes:
  "\<exists>q d'. transition_sync_run sample_env (sample_actor 81) 31 (sync_state_value SYNC_COMPLETED) 8
     [] 5 sample_run_db = Inr (q, d') \<and> set (sync_runs d') = {q} \<and> sync_revision q = 9"
  by (simp add: transition_sync_run_def get_tenant_record_for_update_def get_tenant_record_def
      sample_tables sync_terminal_def apply_transition_def record_transition_def
      screen_audit_key_def insert_unique_def update_where_def Let_def
      save_row_def assurance_table_def sync_table_def)

lemma sample_rows_coherent:
  "\<forall>r\<in>set (assurance_runs sample_run_db). run_coherent r"
  "\<forall>r\<in>set (sync_runs sample_run_db). sync_coherent r"
  by (simp_all add: sample_tables run_coherent_def sync_coherent_def assurance_life.paced_def
      sync_life.paced_def)

section \<open>Properties\<close>

text \<open>C35: A completed assurance run is pinned to the commit under review.  Whatever sequence of
  transitions follows, by any actors, from a database whose runs are coherent, every COMPLETED run
  was evaluated and reported on its own head commit, a run has a completion time exactly when it
  is COMPLETED, STALE, FAILED or CANCELLED, and it has made at most eleven transitions since
  revision 1.\<close>

theorem completed_assurance_is_commit_pinned:
  assumes "(transition_step env)\<^sup>*\<^sup>* d d'" and "\<forall>r\<in>set (assurance_runs d). run_coherent r"
    and "r \<in> set (assurance_runs d')"
  shows "(run_state r \<noteq> RUN_COMPLETED \<or>
            run_evaluated_commit r = run_head_commit r \<and> run_report_commit r = run_head_commit r)
         \<and> (run_completed_at r \<noteq> None) =
             (run_state r \<in> {RUN_COMPLETED, RUN_STALE, RUN_FAILED, RUN_CANCELLED})
         \<and> run_revision r \<le> 12"
proof -
  have "run_coherent r" using steps_coherent(1) [OF assms(1,2)] assms(3) by simp
  then show ?thesis using assurance_life.paced_bounded [of 1 r] by (simp add: run_coherent_def)
qed

theorem completed_assurance_is_commit_pinned_witness:
  "\<exists>q d'. transition_assurance_run sample_env (sample_actor 80) 30 (assurance_state_value RUN_COMPLETED) 10
     None (Some (lit ''abc1234'')) None 5 sample_run_db = Inr (q, d')
     \<and> run_evaluated_commit q = run_head_commit q \<and> run_report_commit q = run_head_commit q"
proof -
  obtain q d' where op: "transition_assurance_run sample_env (sample_actor 80) 30
      (assurance_state_value RUN_COMPLETED) 10 None (Some (lit ''abc1234'')) None 5 sample_run_db = Inr (q, d')"
    and q: "set (assurance_runs d') = {q}" "run_state q = RUN_COMPLETED"
    using sample_assurance_completes by (elim exE conjE)
  have "(transition_step sample_env)\<^sup>*\<^sup>* sample_run_db d'"
    using transition_step.assurance [OF op] by blast
  from completed_assurance_is_commit_pinned [OF this sample_rows_coherent(1), of q] q op
  show ?thesis by auto
qed

text \<open>A sync run ends, and keeps the time it ended.  From a database whose sync runs are
  coherent (a new run is: REQUESTED at revision 1), whatever transitions follow, a sync run has a
  completion time exactly when it is COMPLETED, PARTIALLY_COMPLETED, FAILED or CANCELLED, and its
  revision never passes 9: at most eight transitions are made in its life.\<close>

theorem sync_run_is_bounded:
  assumes "(transition_step env)\<^sup>*\<^sup>* d d'" and "\<forall>r\<in>set (sync_runs d). sync_coherent r"
    and "r \<in> set (sync_runs d')"
  shows "(sync_completed_at r \<noteq> None) =
            (sync_state r \<in> {SYNC_COMPLETED, SYNC_PARTIALLY_COMPLETED, SYNC_FAILED, SYNC_CANCELLED})
         \<and> sync_revision r \<le> 9"
proof -
  have "sync_coherent r" using steps_coherent(2) [OF assms(1,2)] assms(3) by simp
  then show ?thesis using sync_life.paced_bounded [of 1 r] by (simp add: sync_coherent_def)
qed

theorem sync_run_is_bounded_witness:
  "\<exists>q d'. transition_sync_run sample_env (sample_actor 81) 31 (sync_state_value SYNC_COMPLETED) 8
     [] 5 sample_run_db = Inr (q, d') \<and> sync_revision q \<le> 9"
proof -
  obtain q d' where op: "transition_sync_run sample_env (sample_actor 81) 31
      (sync_state_value SYNC_COMPLETED) 8 [] 5 sample_run_db = Inr (q, d')"
    and q: "set (sync_runs d') = {q}"
    using sample_sync_completes by (elim exE conjE)
  have "(transition_step sample_env)\<^sup>*\<^sup>* sample_run_db d'"
    using transition_step.sync [OF op] by blast
  from sync_run_is_bounded [OF this sample_rows_coherent(2), of q] q op
  show ?thesis by auto
qed

text \<open>What a review that changed the assertion has left behind.\<close>

lemma review_saved:
  assumes "transition_assertion_review env actor aid target expected d = Inr (a, d')"
    and "primary_keys assertion_table d"
  obtains a0 where "a0 \<in> set (assertions d)" "as_id a0 = aid" "as_org a0 = actor_org actor"
    "apply_transition env assertion_machine a0 actor target ASSERTION_TRANSITIONS expected [] d = Inr (a, d')"
    "review_state_value (as_review_state a0) \<noteq> target \<Longrightarrow>
       get_tenant_record_for_update assertion_table aid (actor_org actor) d' = Inr a
       \<and> as_org a = actor_org actor"
proof -
  from assms(1) obtain a0 where
    g: "get_tenant_record_for_update assertion_table aid (actor_org actor) d = Inr a0"
    and ap: "apply_transition env assertion_machine a0 actor target ASSERTION_TRANSITIONS expected [] d = Inr (a, d')"
    by (auto simp: transition_assertion_review_def bind_res_Inr)
  have a0: "a0 \<in> set (assertions d)" "as_id a0 = aid" "as_org a0 = actor_org actor"
    using get_tenant_record_Inr [OF g [unfolded get_tenant_record_for_update_def]] by simp_all
  have after: "get_tenant_record_for_update assertion_table aid (actor_org actor) d' = Inr a
       \<and> as_org a = actor_org actor" if "review_state_value (as_review_state a0) \<noteq> target"
  proof -
    from assertion_life.apply_returned [OF ap] that
    have a: "a = a0\<lparr>as_review_state := as_review_state a, as_revision := as_revision a0 + 1\<rparr>"
      and rec: "record_transition env (as_org a0) actor (mc_model_name assertion_machine) (as_id a0)
        (review_state_value (as_review_state a0)) target (Suc (as_revision a0)) []
        (save_row assertion_table a d) = Inr d'" by auto
    have ids: "as_id a = aid" "as_org a = actor_org actor" by (subst a, simp add: a0)+
    have "primary_keys assertion_table d'"
      using assertion_rows.primary_keys_record_transition [OF rec] assms(2) by simp
    moreover have "a \<in> set (assertions d')"
      using recorded(2) [OF rec] a0 ids by (force simp: set_update_where)
    ultimately show ?thesis
      using assertion_rows.get_existing [of d' a] ids by (simp add: get_tenant_record_for_update_def)
  qed
  show thesis by (rule that [OF a0 ap after])
qed

text \<open>No review is lost.  Two reviewers read an assertion at the same revision; once the first
  has moved it to another state, the second, asking for any other state at that revision, gets an
  OptimisticConcurrencyError and changes nothing.\<close>

theorem no_review_is_lost:
  assumes "transition_assertion_review env actor aid target expected d = Inr (a, d1)"
    and "primary_keys assertion_table d"
    and "\<forall>a0\<in>set (assertions d). as_id a0 = aid \<longrightarrow> review_state_value (as_review_state a0) \<noteq> target"
    and "actor_org other = actor_org actor" and "target2 \<noteq> target"
  shows "transition_assertion_review env other aid target2 expected d1 = Inl OptimisticConcurrencyError"
proof (rule review_saved [OF assms(1,2)])
  fix a0
  assume a0: "a0 \<in> set (assertions d)" "as_id a0 = aid" "as_org a0 = actor_org actor"
    and ap: "apply_transition env assertion_machine a0 actor target ASSERTION_TRANSITIONS expected [] d = Inr (a, d1)"
    and after: "review_state_value (as_review_state a0) \<noteq> target \<Longrightarrow>
       get_tenant_record_for_update assertion_table aid (actor_org actor) d1 = Inr a
       \<and> as_org a = actor_org actor"
  have ne: "review_state_value (as_review_state a0) \<noteq> target" using assms(3) a0 by blast
  have "apply_transition env assertion_machine a other target2 ASSERTION_TRANSITIONS expected [] d1
        = Inl OptimisticConcurrencyError"
    using after [OF ne] ne assms(4,5) by (intro assertion_life.second_update_refused [OF ap]) simp_all
  then show ?thesis using after [OF ne] assms(4) by (simp add: transition_assertion_review_def)
qed

theorem no_review_is_lost_witness:
  "\<exists>a d1. transition_assertion_review sample_env (sample_actor 82) 32 (review_state_value DISPUTED) 1
       sample_run_db = Inr (a, d1)
     \<and> transition_assertion_review sample_env (sample_actor 83) 32 (review_state_value REJECTED) 1 d1
       = Inl OptimisticConcurrencyError"
proof -
  have "\<exists>a d1. transition_assertion_review sample_env (sample_actor 82) 32
      (review_state_value DISPUTED) 1 sample_run_db = Inr (a, d1)"
    by (simp add: transition_assertion_review_def get_tenant_record_for_update_def
        get_tenant_record_def sample_tables apply_transition_def record_transition_def
        screen_audit_key_def insert_unique_def update_where_def Let_def save_row_def
        assertion_table_def)
  then obtain a d1 where op: "transition_assertion_review sample_env (sample_actor 82) 32
      (review_state_value DISPUTED) 1 sample_run_db = Inr (a, d1)" by blast
  have "transition_assertion_review sample_env (sample_actor 83) 32 (review_state_value REJECTED) 1 d1
       = Inl OptimisticConcurrencyError"
    by (rule no_review_is_lost [OF op]) (simp_all add: sample_tables primary_keys_def)
  with op show ?thesis by blast
qed

text \<open>The review of an assertion takes exactly the edges of the graph.  For an assertion of the
  actor's tenant, under a fresh request id and actor without credential material, a review at the
  current revision towards another state succeeds if and only if the graph has that edge; it then
  returns the row in the new state at the next revision, and otherwise raises
  InvalidStateTransitionError.\<close>

theorem review_takes_exactly_the_edges:
  assumes "primary_keys assertion_table d" and "a \<in> set (assertions d)"
    and "as_org a = actor_org actor" and "actor_clean env actor"
    and "actor_request_id actor \<notin> au_request_id ` set (audit_events d)"
    and "(as_org a, TransitionKey (lit ''knowledgeassertion'') (as_id a) (as_revision a + 1)
            (review_state_value (as_review_state a)) (review_state_value s))
         \<notin> outbox_identity ` set (outbox_events d)"
    and "s \<noteq> as_review_state a"
  shows "map_sum id fst (transition_assertion_review env actor (as_id a) (review_state_value s)
             (int (as_revision a)) d)
         = (if s \<in> set (ASSERTION_TRANSITIONS (as_review_state a))
            then Inr (a\<lparr>as_review_state := s, as_revision := as_revision a + 1\<rparr>)
            else Inl InvalidStateTransitionError)"
proof -
  have g: "get_tenant_record_for_update assertion_table (as_id a) (actor_org actor) d = Inr a"
    using assertion_rows.get_existing [of d a] assms(1-3)
    by (simp add: get_tenant_record_for_update_def)
  let ?row = "a\<lparr>as_review_state := s, as_revision := as_revision a + 1\<rparr>"
  show ?thesis
  proof (cases "s \<in> set (ASSERTION_TRANSITIONS (as_review_state a))")
    case True
    have name: "mc_model_name assertion_machine = lit ''knowledgeassertion''"
      by (simp add: assertion_machine_def)
    have "json_clean env (JDict [])" by simp
    from record_transition_ok [OF this assms(4), of "save_row assertion_table ?row d" "as_org a"
        "lit ''knowledgeassertion''" "as_id a" "as_revision a + 1" "review_state_value (as_review_state a)"
        "review_state_value s"] assms(5,6)
    obtain d' where rec: "record_transition env (as_org a) actor (mc_model_name assertion_machine)
        (as_id a) (review_state_value (as_review_state a)) (review_state_value s) (Suc (as_revision a))
        [] (save_row assertion_table ?row d) = Inr d'" unfolding name by auto
    have "apply_transition env assertion_machine a actor (review_state_value s) ASSERTION_TRANSITIONS
        (int (as_revision a)) [] d = Inr (?row, d')"
      using assertion_life.edge_taken [of a actor s env "[]" d d'] assms(3,7) True rec by simp
    then show ?thesis using g True by (simp add: transition_assertion_review_def)
  next
    case False
    have "review_state_value s \<notin> review_state_value ` set (ASSERTION_TRANSITIONS (as_review_state a))"
      using False review_state_value_inj by blast
    then have "apply_transition env assertion_machine a actor (review_state_value s)
        ASSERTION_TRANSITIONS (int (as_revision a)) [] d = Inl InvalidStateTransitionError"
      using assms(3,7) review_state_value_inj
      by (intro assertion_life.missing_edge_refused) auto
    then show ?thesis using g False by (simp add: transition_assertion_review_def)
  qed
qed

theorem review_takes_exactly_the_edges_witness:
  "map_sum id fst (transition_assertion_review sample_env (sample_actor 84) 32
      (review_state_value SUPERSEDED) 1 sample_run_db) = Inl InvalidStateTransitionError"
proof -
  let ?a = "\<lparr>as_id = 32, as_org = 1, as_review_state = UNREVIEWED, as_access_scope = None, as_valid_until = None, as_revision = 1, as_subject_key = [],
                     as_predicate = [], as_created_at = 0,
                     as_value = JNull, as_provenance = [], as_is_inferred = False\<rparr>"
  have "?a \<in> set (assertions sample_run_db)" by (simp add: sample_tables)
  from review_takes_exactly_the_edges [OF _ this, of "sample_actor 84" sample_env SUPERSEDED]
  show ?thesis by (simp add: actor_clean_def primary_keys_def) (simp add: sample_tables)
qed

end
