(* ===== verification/Authorization.thy ===== *)
theory Authorization
  imports Tables "HOL-Library.List_Lexorder"
begin

text \<open>
  \<^verbatim>\<open>src/anva/core/services/authorization.py\<close>: the actions and the roles that carry them, the
  resolution of a principal, the single decision (\<^verbatim>\<open>authorize_action\<close>) and the scopes it opens.
  The batched resolution is in \<open>RepositoryScopes\<close>.  The current instant is a parameter; the code
  reads the clock again for each query of one decision, the model once.
\<close>

section \<open>Actions and roles\<close>

datatype action =
    ORG_VIEW | MEMBERSHIP_MANAGE | REPOSITORY_VIEW | TOKEN_MANAGE | SOURCE_VIEW | SOURCE_SYNC
  | SOURCE_REVOKE | KNOWLEDGE_VIEW | KNOWLEDGE_PROPOSE | KNOWLEDGE_REVIEW | ASSURANCE_VIEW
  | ASSURANCE_EXECUTE | ASSURANCE_REVIEW | AUDIT_VIEW | FINDING_DISMISS | POLICY_OVERRIDE
  | WORK_VIEW | WORK_MANAGE | WORK_APPROVE | POLICY_VIEW | POLICY_MANAGE | EVIDENCE_VIEW
  | EVIDENCE_SUBMIT | SEARCH | CANVAS_VIEW | CANVAS_MANAGE | MCP_CONTEXT | ARTIFACT_VIEW
  | ARTIFACT_CREATE | SCOPE_MANAGE | GITHUB_MANAGE | RETENTION_MANAGE

definition all_actions :: "action list" where
  "all_actions =
     [ORG_VIEW, MEMBERSHIP_MANAGE, REPOSITORY_VIEW, TOKEN_MANAGE, SOURCE_VIEW, SOURCE_SYNC,
      SOURCE_REVOKE, KNOWLEDGE_VIEW, KNOWLEDGE_PROPOSE, KNOWLEDGE_REVIEW, ASSURANCE_VIEW,
      ASSURANCE_EXECUTE, ASSURANCE_REVIEW, AUDIT_VIEW, FINDING_DISMISS, POLICY_OVERRIDE,
      WORK_VIEW, WORK_MANAGE, WORK_APPROVE, POLICY_VIEW, POLICY_MANAGE, EVIDENCE_VIEW,
      EVIDENCE_SUBMIT, SEARCH, CANVAS_VIEW, CANVAS_MANAGE, MCP_CONTEXT, ARTIFACT_VIEW,
      ARTIFACT_CREATE, SCOPE_MANAGE, GITHUB_MANAGE, RETENTION_MANAGE]"

fun action_value :: "action \<Rightarrow> pystr" where
  "action_value ORG_VIEW = lit ''organization.view''"
| "action_value MEMBERSHIP_MANAGE = lit ''membership.manage''"
| "action_value REPOSITORY_VIEW = lit ''repository.view''"
| "action_value TOKEN_MANAGE = lit ''token.manage''"
| "action_value SOURCE_VIEW = lit ''source.view''"
| "action_value SOURCE_SYNC = lit ''source.sync''"
| "action_value SOURCE_REVOKE = lit ''source.revoke''"
| "action_value KNOWLEDGE_VIEW = lit ''knowledge.view''"
| "action_value KNOWLEDGE_PROPOSE = lit ''knowledge.propose''"
| "action_value KNOWLEDGE_REVIEW = lit ''knowledge.review''"
| "action_value ASSURANCE_VIEW = lit ''assurance.view''"
| "action_value ASSURANCE_EXECUTE = lit ''assurance.execute''"
| "action_value ASSURANCE_REVIEW = lit ''assurance.review''"
| "action_value AUDIT_VIEW = lit ''audit.view''"
| "action_value FINDING_DISMISS = lit ''finding.dismiss''"
| "action_value POLICY_OVERRIDE = lit ''policy.override''"
| "action_value WORK_VIEW = lit ''work.view''"
| "action_value WORK_MANAGE = lit ''work.manage''"
| "action_value WORK_APPROVE = lit ''work.approve''"
| "action_value POLICY_VIEW = lit ''policy.view''"
| "action_value POLICY_MANAGE = lit ''policy.manage''"
| "action_value EVIDENCE_VIEW = lit ''evidence.view''"
| "action_value EVIDENCE_SUBMIT = lit ''evidence.submit''"
| "action_value SEARCH = lit ''search.query''"
| "action_value CANVAS_VIEW = lit ''canvas.view''"
| "action_value CANVAS_MANAGE = lit ''canvas.manage''"
| "action_value MCP_CONTEXT = lit ''mcp.context''"
| "action_value ARTIFACT_VIEW = lit ''artifact.view''"
| "action_value ARTIFACT_CREATE = lit ''artifact.create''"
| "action_value SCOPE_MANAGE = lit ''scope.manage''"
| "action_value GITHUB_MANAGE = lit ''github.manage''"
| "action_value RETENTION_MANAGE = lit ''retention.manage''"

definition VIEW_ACTIONS :: "action list" where
  "VIEW_ACTIONS =
     [ORG_VIEW, REPOSITORY_VIEW, SOURCE_VIEW, KNOWLEDGE_VIEW, SEARCH, CANVAS_VIEW, MCP_CONTEXT,
      ARTIFACT_VIEW, WORK_VIEW, POLICY_VIEW, EVIDENCE_VIEW, ASSURANCE_VIEW]"

fun ROLE_ACTIONS :: "role_code \<Rightarrow> action list" where
  "ROLE_ACTIONS ORG_ADMIN = all_actions"
| "ROLE_ACTIONS KNOWLEDGE_ADMIN = VIEW_ACTIONS @
     [KNOWLEDGE_PROPOSE, KNOWLEDGE_REVIEW, CANVAS_MANAGE, ARTIFACT_CREATE, SCOPE_MANAGE,
      WORK_MANAGE, POLICY_MANAGE]"
| "ROLE_ACTIONS TECHNICAL_OWNER = VIEW_ACTIONS @
     [KNOWLEDGE_PROPOSE, KNOWLEDGE_REVIEW, CANVAS_MANAGE, SOURCE_SYNC, ASSURANCE_EXECUTE,
      ARTIFACT_CREATE, WORK_MANAGE, POLICY_MANAGE, EVIDENCE_SUBMIT]"
| "ROLE_ACTIONS PRODUCT_OWNER = VIEW_ACTIONS @
     [KNOWLEDGE_PROPOSE, KNOWLEDGE_REVIEW, WORK_MANAGE, WORK_APPROVE, CANVAS_MANAGE]"
| "ROLE_ACTIONS DEVELOPER = VIEW_ACTIONS @
     [KNOWLEDGE_PROPOSE, CANVAS_MANAGE, ASSURANCE_EXECUTE, ARTIFACT_CREATE, EVIDENCE_SUBMIT]"
| "ROLE_ACTIONS REVIEWER = VIEW_ACTIONS @
     [KNOWLEDGE_PROPOSE, KNOWLEDGE_REVIEW, WORK_APPROVE, CANVAS_MANAGE, ASSURANCE_REVIEW]"
| "ROLE_ACTIONS SECURITY_REVIEWER = VIEW_ACTIONS @
     [AUDIT_VIEW, ASSURANCE_REVIEW, KNOWLEDGE_PROPOSE, FINDING_DISMISS, POLICY_OVERRIDE,
      WORK_APPROVE, EVIDENCE_SUBMIT]"
| "ROLE_ACTIONS VIEWER = VIEW_ACTIONS"

section \<open>Principals\<close>

text \<open>\<^verbatim>\<open>Principal\<close>: a membership or a service identity, never both.\<close>

datatype principal_row = Member membership | Service service_identity

record principal =
  pr_actor_type :: pystr
  pr_id :: uuid
  pr_row :: principal_row

definition organization_active :: "uuid \<Rightarrow> db \<Rightarrow> bool" where
  "organization_active org d \<longleftrightarrow>
     list_ex (\<lambda>o'. org_id o' = org \<and> org_state o' = ORG_ACTIVE) (organizations d)"

definition user_is_active :: "uuid \<Rightarrow> db \<Rightarrow> bool" where
  "user_is_active u d \<longleftrightarrow> list_ex (\<lambda>x. user_id x = u \<and> user_active x) (users d)"

text \<open>\<^verbatim>\<open>.first()\<close> without an ordering takes the least primary key.\<close>

definition resolve_principal :: "db \<Rightarrow> actor_context \<Rightarrow> principal result" where
  "resolve_principal d actor =
     (case parse_uuid (actor_id actor) of
        None \<Rightarrow> Inl AuthenticationError
      | Some pid \<Rightarrow>
          if actor_type actor = lit ''USER'' then
            (case first_by mem_id (filter (\<lambda>m. mem_org m = actor_org actor
                     \<and> organization_active (actor_org actor) d \<and> mem_user m = pid
                     \<and> user_is_active pid d \<and> mem_active m) (memberships d)) of
               None \<Rightarrow> Inl AuthenticationError
             | Some m \<Rightarrow> Inr \<lparr>pr_actor_type = lit ''USER'', pr_id = pid, pr_row = Member m\<rparr>)
          else if actor_type actor = lit ''SERVICE'' then
            (case first_by sid_id (filter (\<lambda>s. sid_id s = pid \<and> sid_org s = actor_org actor
                     \<and> organization_active (actor_org actor) d \<and> sid_active s)
                     (service_identities d)) of
               None \<Rightarrow> Inl AuthenticationError
             | Some s \<Rightarrow> Inr \<lparr>pr_actor_type = lit ''SERVICE'', pr_id = pid, pr_row = Service s\<rparr>)
          else Inl AuthenticationError)"

text \<open>\<^verbatim>\<open>principal.membership.role.code\<close>; the foreign key always has its row.\<close>

definition membership_role :: "db \<Rightarrow> membership \<Rightarrow> role_code option" where
  "membership_role d m = map_option role_code (find_by (\<lambda>r. role_id r = mem_role m) (roles d))"

definition role_actions :: "db \<Rightarrow> principal \<Rightarrow> action list" where
  "role_actions d p =
     (case pr_row p of
        Member m \<Rightarrow> (case membership_role d m of None \<Rightarrow> [] | Some c \<Rightarrow> ROLE_ACTIONS c)
      | Service s \<Rightarrow> [])"

section \<open>Grants and scopes\<close>

definition unexpired :: "instant \<Rightarrow> instant option \<Rightarrow> bool" where
  "unexpired now e = (case e of None \<Rightarrow> True | Some t \<Rightarrow> t > now)"

definition grant_of :: "principal \<Rightarrow> access_grant \<Rightarrow> bool" where
  "grant_of p g =
     (case pr_row p of
        Member m \<Rightarrow> gr_membership g = Some (mem_id m)
      | Service s \<Rightarrow> gr_service_identity g = Some (sid_id s))"

definition active_grants :: "db \<Rightarrow> instant \<Rightarrow> principal \<Rightarrow> action \<Rightarrow> access_grant list" where
  "active_grants d now p a =
     filter (\<lambda>g. gr_action g = action_value a \<and> gr_revoked_at g = None
               \<and> unexpired now (gr_expires_at g) \<and> grant_of p g) (grants d)"

definition linked :: "access_scope \<Rightarrow> uuid \<Rightarrow> scope_link list \<Rightarrow> bool" where
  "linked sc target links \<longleftrightarrow> list_ex (\<lambda>l. ln_scope l = sc_id sc \<and> ln_target l = target) links"

text \<open>Whether some source bound to a scope is in one of the given states.\<close>

definition has_source_in :: "db \<Rightarrow> source_state list \<Rightarrow> access_scope \<Rightarrow> bool" where
  "has_source_in d states sc \<longleftrightarrow>
     list_ex (\<lambda>l. ln_scope l = sc_id sc
       \<and> list_ex (\<lambda>s. src_id s = ln_target l \<and> src_state s \<in> set states) (sources d)) (scope_sources d)"

definition scope_includes_principal :: "db \<Rightarrow> principal \<Rightarrow> access_scope \<Rightarrow> bool" where
  "scope_includes_principal d p sc =
     (case pr_row p of
        Member m \<Rightarrow> sc_all_memberships sc \<or> linked sc (mem_id m) (scope_memberships d)
      | Service s \<Rightarrow> sc_all_service_identities sc \<or> linked sc (sid_id s) (scope_services d))"

definition scope_allows ::
  "db \<Rightarrow> principal \<Rightarrow> access_scope \<Rightarrow> uuid option \<Rightarrow> bool \<Rightarrow> bool \<Rightarrow> bool"
where
  "scope_allows d p sc repository include_inactive include_revoked_sources =
     (if \<not> include_inactive \<and> \<not> sc_active sc then False
      else if \<not> include_revoked_sources \<and> has_source_in d [SOURCE_REVOKED] sc then False
      else if \<not> sc_all_repositories sc
              \<and> (case repository of
                   None \<Rightarrow> True
                 | Some r \<Rightarrow> \<not> linked sc r (scope_repositories d)) then False
      else scope_includes_principal d p sc)"

section \<open>The decision\<close>

record decision =
  dec_action :: action
  dec_path :: pystr

text \<open>\<^verbatim>\<open>isinstance(value, list) and all(isinstance(item, str) ...)\<close>.\<close>

fun string_list :: "json list \<Rightarrow> pystr list option" where
  "string_list [] = Some []"
| "string_list (JStr s # vs) = map_option (\<lambda>ss. s # ss) (string_list vs)"
| "string_list (_ # vs) = None"

definition json_strings :: "json \<Rightarrow> pystr list option" where
  "json_strings v = (case v of JList vs \<Rightarrow> string_list vs | _ \<Rightarrow> None)"

text \<open>The row of a credential that is still good for this actor and principal.\<close>

definition live_token ::
  "environment \<Rightarrow> db \<Rightarrow> instant \<Rightarrow> actor_context \<Rightarrow> uuid \<Rightarrow> uuid \<Rightarrow> uuid \<Rightarrow> access_token \<Rightarrow> bool"
where
  "live_token env d now actor pid credential repository t \<longleftrightarrow>
     tok_id t = credential \<and> tok_org t = actor_org actor \<and> tok_repository t = repository
     \<and> tok_service_identity t = pid \<and> tok_revoked_at t = None \<and> tok_expires_at t > now
     \<and> tok_issuer t = env_token_issuer env \<and> tok_audience t = env_token_audience env
     \<and> list_ex (\<lambda>r. repo_id r = tok_repository t \<and> repo_active r) (repositories d)
     \<and> list_ex (\<lambda>s. sid_id s = tok_service_identity t \<and> sid_active s) (service_identities d)"

definition check_credential ::
  "environment \<Rightarrow> db \<Rightarrow> instant \<Rightarrow> actor_context \<Rightarrow> principal \<Rightarrow> action \<Rightarrow> unit result"
where
  "check_credential env d now actor p a =
     (case actor_credential actor of
        None \<Rightarrow> Inr ()
      | Some credential \<Rightarrow>
          (case actor_repository actor of
             None \<Rightarrow> Inl AuthenticationError
           | Some repository \<Rightarrow>
               (case first_by tok_id (filter (live_token env d now actor (pr_id p) credential repository)
                                        (tokens d)) of
                  None \<Rightarrow> Inl AuthenticationError
                | Some t \<Rightarrow>
                    (case json_strings (tok_allowed_actions t) of
                       None \<Rightarrow> Inl AuthenticationError
                     | Some acts \<Rightarrow>
                         guard_res (action_value a \<in> set acts) ResourceNotFoundError))))"

definition credential_allows :: "actor_context \<Rightarrow> action \<Rightarrow> bool" where
  "credential_allows actor a \<longleftrightarrow>
     actor_credential_actions actor = [] \<or> action_value a \<in> set (actor_credential_actions actor)"

text \<open>The grants that count for the repository and source of the request.\<close>

definition relevant_grants ::
  "db \<Rightarrow> instant \<Rightarrow> principal \<Rightarrow> action \<Rightarrow> uuid option \<Rightarrow> uuid option \<Rightarrow> access_grant list"
where
  "relevant_grants d now p a repository source =
     filter (\<lambda>g.
        (case repository of
           Some r \<Rightarrow> gr_repository g = None \<or> gr_repository g = Some r
         | None \<Rightarrow> gr_repository g = None)
        \<and> (case source of
             Some s \<Rightarrow> gr_source g = None \<or> gr_source g = Some s
           | None \<Rightarrow> gr_source g = None))
       (active_grants d now p a)"

definition check_repository :: "db \<Rightarrow> actor_context \<Rightarrow> uuid option \<Rightarrow> unit result" where
  "check_repository d actor repository =
     (case repository of
        None \<Rightarrow> Inr ()
      | Some r \<Rightarrow>
          guard_res (list_ex (\<lambda>x. repo_id x = r \<and> repo_org x = actor_org actor \<and> repo_active x)
                       (repositories d)) ResourceNotFoundError)"

definition check_source :: "db \<Rightarrow> actor_context \<Rightarrow> uuid option \<Rightarrow> bool \<Rightarrow> unit result" where
  "check_source d actor source allow_revoked_source =
     (case source of
        None \<Rightarrow> Inr ()
      | Some sid \<Rightarrow>
          (case find_by (\<lambda>s. src_id s = sid \<and> src_org s = actor_org actor) (sources d) of
             None \<Rightarrow> Inl ResourceNotFoundError
           | Some s \<Rightarrow>
               guard_res (allow_revoked_source \<or> src_state s \<notin> {SOURCE_DISABLED, SOURCE_REVOKED})
                 ResourceNotFoundError))"

definition check_scope ::
  "db \<Rightarrow> actor_context \<Rightarrow> principal \<Rightarrow> uuid option \<Rightarrow> uuid option \<Rightarrow> unit result"
where
  "check_scope d actor p repository scope =
     (case scope of
        None \<Rightarrow> Inr ()
      | Some c \<Rightarrow>
          (case find_by (\<lambda>s. sc_id s = c \<and> sc_org s = actor_org actor) (scopes d) of
             None \<Rightarrow> Inl ResourceNotFoundError
           | Some s \<Rightarrow> guard_res (scope_allows d p s repository False False) ResourceNotFoundError))"

definition decision_path ::
  "db \<Rightarrow> actor_context \<Rightarrow> principal \<Rightarrow> action \<Rightarrow> bool \<Rightarrow> uuid option \<Rightarrow> uuid option \<Rightarrow> uuid option
     \<Rightarrow> pystr"
where
  "decision_path d actor p a granted repository source scope =
     join_on 62
       ((case actor_credential actor of None \<Rightarrow> [] | Some c \<Rightarrow> [lit ''credential:'' @ uuid_str c])
        @ (case pr_row p of
             Member m \<Rightarrow>
               (case membership_role d m of
                  None \<Rightarrow> []
                | Some c \<Rightarrow> if a \<in> set (ROLE_ACTIONS c) then [lit ''role:'' @ role_value c] else [])
           | Service s \<Rightarrow> [])
        @ (if granted then [lit ''grant:active''] else [])
        @ (case scope of None \<Rightarrow> [] | Some s \<Rightarrow> [lit ''scope:'' @ uuid_str s])
        @ (case repository of None \<Rightarrow> [] | Some r \<Rightarrow> [lit ''repository:'' @ uuid_str r])
        @ (case source of None \<Rightarrow> [] | Some s \<Rightarrow> [lit ''source:'' @ uuid_str s]))"

definition authorize_action ::
  "environment \<Rightarrow> instant \<Rightarrow> db \<Rightarrow> actor_context \<Rightarrow> action \<Rightarrow> uuid option \<Rightarrow> uuid option
     \<Rightarrow> uuid option \<Rightarrow> bool \<Rightarrow> decision result"
where
  "authorize_action env now d actor a repository source scope allow_revoked_source =
     bind_res (resolve_principal d actor) (\<lambda>p.
     bind_res (guard_res (actor_repository actor = None \<or> repository = actor_repository actor)
                 ResourceNotFoundError) (\<lambda>_.
     bind_res (check_credential env d now actor p a) (\<lambda>_.
     bind_res (guard_res (credential_allows actor a) ResourceNotFoundError) (\<lambda>_.
       let granted = relevant_grants d now p a repository source \<noteq> [];
           allowed = (a \<in> set (role_actions d p) \<or> granted)
       in bind_res (check_repository d actor repository) (\<lambda>_.
          bind_res (check_source d actor source allow_revoked_source) (\<lambda>_.
          bind_res (check_scope d actor p repository scope) (\<lambda>_.
          bind_res (guard_res allowed ResourceNotFoundError) (\<lambda>_.
            Inr \<lparr>dec_action = a,
                 dec_path = decision_path d actor p a granted repository source scope\<rparr>))))))))"

definition authorized_access_scope_ids ::
  "environment \<Rightarrow> instant \<Rightarrow> db \<Rightarrow> actor_context \<Rightarrow> action \<Rightarrow> uuid \<Rightarrow> bool \<Rightarrow> bool \<Rightarrow> uuid list result"
where
  "authorized_access_scope_ids env now d actor a repository include_inactive include_revoked_sources =
     (case authorize_action env now d actor a (Some repository) None None False of
        Inl ResourceNotFoundError \<Rightarrow> Inr []
      | Inl e \<Rightarrow> Inl e
      | Inr _ \<Rightarrow>
          bind_res (resolve_principal d actor) (\<lambda>p.
            Inr (map sc_id (filter (\<lambda>s. sc_org s = actor_org actor
                   \<and> (include_inactive \<or> sc_active s)
                   \<and> scope_allows d p s (Some repository) include_inactive include_revoked_sources)
                 (scopes d)))))"

end
