(* ===== verification/RepositoryScopes.thy ===== *)
theory RepositoryScopes
  imports Authorization "HOL-Library.Product_Lexorder"
begin

text \<open>
  The batched side of \<^verbatim>\<open>authorization.py\<close>: the bounded snapshot of repositories, actions and
  scopes that shared reads use (\<^verbatim>\<open>AuthorizedRepositoryScopes\<close>), its resolution, the check that it
  belongs to the actor presenting it, and the recheck compiled into every governed query
  (\<^verbatim>\<open>current_authorized_scope_filter\<close>), here the predicate that query applies to a row.
\<close>

definition MAX_BATCH_AUTHORIZATION_REPOSITORIES :: int where
  "MAX_BATCH_AUTHORIZATION_REPOSITORIES = 100"

definition MAX_BATCH_AUTHORIZATION_SCOPES :: nat where
  "MAX_BATCH_AUTHORIZATION_SCOPES = 1000"

definition MAX_BATCH_AUTHORIZATION_SCOPE_BINDINGS :: nat where
  "MAX_BATCH_AUTHORIZATION_SCOPE_BINDINGS = 100000"

section \<open>The snapshot\<close>

text \<open>
  \<open>ars_proof\<close> says that the object carries the module's private proof object, which only
  \<^verbatim>\<open>_create\<close> puts there.
\<close>

record authorized_repository_scopes =
  ars_org :: uuid
  ars_actor_type :: pystr
  ars_principal :: uuid
  ars_actor_repository :: "uuid option"
  ars_credential :: "uuid option"
  ars_credential_actions :: "pystr list"
  ars_repositories :: "uuid list"
  ars_repository_ids_by_action :: "(action \<times> uuid list) list"
  ars_scope_ids_by_repository :: "(uuid \<times> uuid list) list"
  ars_proof :: bool

definition create_scopes ::
  "actor_context \<Rightarrow> uuid \<Rightarrow> uuid list \<Rightarrow> (action \<times> uuid list) list \<Rightarrow> (uuid \<times> uuid list) list
     \<Rightarrow> authorized_repository_scopes"
where
  "create_scopes actor pid repos by_action by_repository =
     \<lparr>ars_org = actor_org actor, ars_actor_type = actor_type actor, ars_principal = pid,
      ars_actor_repository = actor_repository actor, ars_credential = actor_credential actor,
      ars_credential_actions = sorted_set (actor_credential_actions actor),
      ars_repositories = repos, ars_repository_ids_by_action = by_action,
      ars_scope_ids_by_repository = by_repository, ars_proof = True\<rparr>"

text \<open>\<^verbatim>\<open>tuple(sorted(set(ids), key=str))\<close>.\<close>

definition sorted_by_str :: "uuid list \<Rightarrow> uuid list" where
  "sorted_by_str ids = sort_key uuid_str (remdups ids)"

definition action_rows_valid :: "authorized_repository_scopes \<Rightarrow> bool" where
  "action_rows_valid s \<longleftrightarrow>
     distinct (map fst (ars_repository_ids_by_action s))
     \<and> list_all (\<lambda>p. snd p = sorted_by_str (snd p) \<and> set (snd p) \<subseteq> set (ars_repositories s))
         (ars_repository_ids_by_action s)"

definition scope_rows_valid :: "authorized_repository_scopes \<Rightarrow> bool" where
  "scope_rows_valid s \<longleftrightarrow>
     map fst (ars_scope_ids_by_repository s) = ars_repositories s
     \<and> list_all (\<lambda>p. snd p = sorted_by_str (snd p)
                   \<and> length (snd p) \<le> MAX_BATCH_AUTHORIZATION_SCOPES)
         (ars_scope_ids_by_repository s)
     \<and> sum_list (map (\<lambda>p. length (snd p)) (ars_scope_ids_by_repository s))
         \<le> MAX_BATCH_AUTHORIZATION_SCOPE_BINDINGS"

definition is_bound_to :: "authorized_repository_scopes \<Rightarrow> actor_context \<Rightarrow> bool" where
  "is_bound_to s actor \<longleftrightarrow>
     (case parse_uuid (actor_id actor) of
        None \<Rightarrow> False
      | Some pid \<Rightarrow>
          ars_proof s
          \<and> ars_org s = actor_org actor
          \<and> ars_actor_type s = actor_type actor
          \<and> ars_principal s = pid
          \<and> ars_actor_repository s = actor_repository actor
          \<and> ars_credential s = actor_credential actor
          \<and> ars_credential_actions s = sorted_set (actor_credential_actions actor)
          \<and> 0 < length (ars_repositories s)
          \<and> int (length (ars_repositories s)) \<le> MAX_BATCH_AUTHORIZATION_REPOSITORIES
          \<and> ars_repositories s = sorted_by_str (ars_repositories s)
          \<and> action_rows_valid s
          \<and> scope_rows_valid s)"

definition repository_ids_for :: "authorized_repository_scopes \<Rightarrow> action \<Rightarrow> uuid list" where
  "repository_ids_for s a =
     (case find_by (\<lambda>p. fst p = a) (ars_repository_ids_by_action s) of
        None \<Rightarrow> []
      | Some p \<Rightarrow> snd p)"

text \<open>\<^verbatim>\<open>dict(pairs).get(key, ())\<close>: the last pair of a key counts.\<close>

definition scope_pairs_for :: "authorized_repository_scopes \<Rightarrow> action \<Rightarrow> (uuid \<times> uuid list) list" where
  "scope_pairs_for s a =
     map (\<lambda>r. (r, case map_of (rev (ars_scope_ids_by_repository s)) r of None \<Rightarrow> [] | Some ids \<Rightarrow> ids))
       (repository_ids_for s a)"

definition scope_ids_for :: "authorized_repository_scopes \<Rightarrow> action \<Rightarrow> uuid list" where
  "scope_ids_for s a = sorted_by_str (concat (map snd (scope_pairs_for s a)))"

section \<open>Resolution\<close>

text \<open>\<^verbatim>\<open>tuple(dict.fromkeys(xs))\<close>.\<close>

definition dedup :: "'a list \<Rightarrow> 'a list" where
  "dedup xs = rev (remdups (rev xs))"

definition batch_grants ::
  "db \<Rightarrow> instant \<Rightarrow> actor_context \<Rightarrow> principal \<Rightarrow> action list \<Rightarrow> access_grant list"
where
  "batch_grants d now actor p ordered_actions =
     filter (\<lambda>g. gr_org g = actor_org actor \<and> gr_action g \<in> set (map action_value ordered_actions)
               \<and> gr_revoked_at g = None \<and> gr_source g = None \<and> unexpired now (gr_expires_at g)
               \<and> grant_of p g)
       (grants d)"

text \<open>The repository and the actions of the actor's token, \<open>None\<close> when it carries no token.\<close>

definition token_boundary ::
  "environment \<Rightarrow> db \<Rightarrow> instant \<Rightarrow> actor_context \<Rightarrow> principal \<Rightarrow> (uuid \<times> pystr list) option result"
where
  "token_boundary env d now actor p =
     (case actor_credential actor of
        None \<Rightarrow> Inr None
      | Some credential \<Rightarrow>
          (case actor_repository actor of
             None \<Rightarrow> Inl AuthenticationError
           | Some repository \<Rightarrow>
               (case first_by tok_id (filter (live_token env d now actor (pr_id p) credential repository)
                                        (tokens d)) of
                  None \<Rightarrow> Inl AuthenticationError
                | Some t \<Rightarrow>
                    (case json_strings (tok_allowed_actions t) of
                       None \<Rightarrow> Inl AuthenticationError
                     | Some acts \<Rightarrow> Inr (Some (tok_repository t, acts))))))"

definition candidate_repositories ::
  "db \<Rightarrow> actor_context \<Rightarrow> action list \<Rightarrow> access_grant list \<Rightarrow> action \<Rightarrow> uuid list \<Rightarrow> nat
     \<Rightarrow> repository list"
where
  "candidate_repositories d actor ractions gs required_action requested_ids repository_limit =
     take repository_limit (sort_key repo_id
       (filter (\<lambda>r. repo_org r = actor_org actor \<and> repo_active r
          \<and> (if requested_ids \<noteq> [] then repo_id r \<in> set requested_ids
             else case actor_repository actor of
               Some own \<Rightarrow> repo_id r = own
             | None \<Rightarrow>
                 required_action \<in> set ractions
                 \<or> list_ex (\<lambda>g. gr_action g = action_value required_action
                       \<and> (gr_repository g = None \<or> gr_repository g = Some (repo_id r))) gs))
         (repositories d)))"

definition action_allowed_for_repository ::
  "actor_context \<Rightarrow> action list \<Rightarrow> access_grant list \<Rightarrow> (uuid \<times> pystr list) option
     \<Rightarrow> action \<Rightarrow> uuid \<Rightarrow> bool"
where
  "action_allowed_for_repository actor ractions gs token a r \<longleftrightarrow>
     (actor_repository actor = None \<or> actor_repository actor = Some r)
     \<and> credential_allows actor a
     \<and> (case token of None \<Rightarrow> True | Some (tr, acts) \<Rightarrow> r = tr \<and> action_value a \<in> set acts)
     \<and> (a \<in> set ractions
        \<or> list_ex (\<lambda>g. gr_action g = action_value a
                     \<and> (gr_repository g = None \<or> gr_repository g = Some r)) gs)"

definition visible_scopes :: "db \<Rightarrow> actor_context \<Rightarrow> principal \<Rightarrow> uuid list \<Rightarrow> access_scope list" where
  "visible_scopes d actor p retained =
     take (MAX_BATCH_AUTHORIZATION_SCOPES + 1) (sort_key sc_id
       (filter (\<lambda>s. sc_org s = actor_org actor \<and> sc_active s
                  \<and> \<not> has_source_in d [SOURCE_REVOKED, SOURCE_DISABLED] s
                  \<and> scope_includes_principal d p s
                  \<and> (sc_all_repositories s
                     \<or> list_ex (\<lambda>r. linked s r (scope_repositories d)) retained))
         (scopes d)))"

definition scope_bindings :: "db \<Rightarrow> actor_context \<Rightarrow> uuid list \<Rightarrow> uuid list \<Rightarrow> (uuid \<times> uuid) list" where
  "scope_bindings d actor explicit retained =
     take (MAX_BATCH_AUTHORIZATION_SCOPE_BINDINGS + 1) (sorted_set
       (map (\<lambda>l. (ln_target l, ln_scope l))
         (filter (\<lambda>l. ln_org l = actor_org actor \<and> ln_scope l \<in> set explicit
                    \<and> ln_target l \<in> set retained) (scope_repositories d))))"

definition resolve_scope_ids ::
  "db \<Rightarrow> actor_context \<Rightarrow> principal \<Rightarrow> uuid list \<Rightarrow> (uuid \<times> uuid list) list result"
where
  "resolve_scope_ids d actor p retained =
     (if retained = [] then Inr []
      else
        let rows = visible_scopes d actor p retained;
            everywhere = map sc_id (filter sc_all_repositories rows);
            explicit = map sc_id (filter (\<lambda>s. \<not> sc_all_repositories s) rows);
            bindings = (if explicit = [] then [] else scope_bindings d actor explicit retained)
        in bind_res (guard_res (length rows \<le> MAX_BATCH_AUTHORIZATION_SCOPES)
                       (ValueError ''scope authorization budget exceeded'')) (\<lambda>_.
           bind_res (guard_res (length bindings \<le> MAX_BATCH_AUTHORIZATION_SCOPE_BINDINGS)
                       (ValueError ''scope binding authorization budget exceeded'')) (\<lambda>_.
             Inr (map (\<lambda>r. (r, sorted_by_str
                              (everywhere @ map snd (filter (\<lambda>b. fst b = r) bindings))))
                    (sorted_by_str retained)))))"

definition resolve_authorized_repository_scopes ::
  "environment \<Rightarrow> instant \<Rightarrow> db \<Rightarrow> actor_context \<Rightarrow> action list \<Rightarrow> action \<Rightarrow> uuid list \<Rightarrow> int
     \<Rightarrow> authorized_repository_scopes result"
where
  "resolve_authorized_repository_scopes env now d actor actions required_action repository_ids
       repository_limit =
     (let ordered_actions = dedup actions; requested_ids = sorted_by_str repository_ids in
      if length actions > length all_actions
        then Inl (ValueError ''authorization action budget exceeded'')
      else if ordered_actions = [] \<or> required_action \<notin> set ordered_actions
        then Inl (ValueError ''required_action must be included in actions'')
      else if \<not> (1 \<le> repository_limit \<and> repository_limit \<le> MAX_BATCH_AUTHORIZATION_REPOSITORIES)
        then Inl (ValueError ''repository_limit must be between 1 and 100'')
      else if int (length repository_ids) > repository_limit
        then Inl (ValueError ''repository authorization budget exceeded'')
      else
        bind_res (resolve_principal d actor) (\<lambda>p.
        bind_res (token_boundary env d now actor p) (\<lambda>token.
          let ractions = role_actions d p;
              gs = batch_grants d now actor p ordered_actions;
              repos = map repo_id (candidate_repositories d actor ractions gs required_action
                                     requested_ids (nat repository_limit));
              permitted = (\<lambda>a. filter (action_allowed_for_repository actor ractions gs token a) repos);
              required = permitted required_action
          in bind_res (guard_res (requested_ids = [] \<or> set repos = set requested_ids
                                    \<and> set required = set requested_ids) ResourceNotFoundError) (\<lambda>_.
               let retained = filter (\<lambda>r. r \<in> set required) repos
               in bind_res (resolve_scope_ids d actor p retained) (\<lambda>by_repository.
                    Inr (create_scopes actor (pr_id p) retained
                           (map (\<lambda>a. (a, filter (\<lambda>r. r \<in> set retained) (permitted a)))
                              ordered_actions)
                           by_repository))))))"

section \<open>The recheck inside a query\<close>

text \<open>The \<^verbatim>\<open>jsonb ? text\<close> operator behind \<^verbatim>\<open>allowed_actions__has_key\<close>.\<close>

definition json_has_key :: "json \<Rightarrow> pystr \<Rightarrow> bool" where
  "json_has_key v k =
     (case v of
        JList vs \<Rightarrow> JStr k \<in> set vs
      | JDict items \<Rightarrow> k \<in> fst ` set items
      | JStr s \<Rightarrow> s = k
      | _ \<Rightarrow> False)"

definition active_memberships :: "db \<Rightarrow> actor_context \<Rightarrow> uuid \<Rightarrow> membership list" where
  "active_memberships d actor pid =
     filter (\<lambda>m. mem_org m = actor_org actor \<and> organization_active (actor_org actor) d
               \<and> mem_user m = pid \<and> user_is_active pid d \<and> mem_active m) (memberships d)"

definition active_services :: "db \<Rightarrow> actor_context \<Rightarrow> uuid \<Rightarrow> service_identity list" where
  "active_services d actor pid =
     filter (\<lambda>s. sid_org s = actor_org actor \<and> organization_active (actor_org actor) d
               \<and> sid_id s = pid \<and> sid_active s) (service_identities d)"

definition current_grants ::
  "db \<Rightarrow> instant \<Rightarrow> actor_context \<Rightarrow> uuid \<Rightarrow> action \<Rightarrow> access_grant list"
where
  "current_grants d now actor pid a =
     filter (\<lambda>g. gr_org g = actor_org actor \<and> gr_action g = action_value a \<and> gr_source g = None
               \<and> gr_revoked_at g = None \<and> unexpired now (gr_expires_at g)
               \<and> (if actor_type actor = lit ''USER''
                  then list_ex (\<lambda>m. gr_membership g = Some (mem_id m) \<and> mem_org m = actor_org actor
                               \<and> mem_user m = pid \<and> user_is_active pid d \<and> mem_active m)
                         (memberships d)
                  else gr_service_identity g = Some pid
                       \<and> list_ex (\<lambda>s. sid_id s = pid \<and> sid_active s) (service_identities d)))
       (grants d)"

definition current_role_allowed :: "db \<Rightarrow> actor_context \<Rightarrow> uuid \<Rightarrow> action \<Rightarrow> bool" where
  "current_role_allowed d actor pid a \<longleftrightarrow>
     actor_type actor = lit ''USER''
     \<and> list_ex (\<lambda>m. case membership_role d m of None \<Rightarrow> False | Some c \<Rightarrow> a \<in> set (ROLE_ACTIONS c))
         (active_memberships d actor pid)"

definition current_token_allows ::
  "environment \<Rightarrow> db \<Rightarrow> instant \<Rightarrow> actor_context \<Rightarrow> uuid \<Rightarrow> action \<Rightarrow> uuid \<Rightarrow> bool"
where
  "current_token_allows env d now actor pid a r \<longleftrightarrow>
     (case actor_credential actor of
        None \<Rightarrow> True
      | Some credential \<Rightarrow>
          list_ex (\<lambda>t. live_token env d now actor pid credential r t
                       \<and> json_has_key (tok_allowed_actions t) (action_value a)) (tokens d))"

definition current_action_filter ::
  "environment \<Rightarrow> db \<Rightarrow> instant \<Rightarrow> actor_context \<Rightarrow> uuid \<Rightarrow> action \<Rightarrow> uuid \<Rightarrow> bool"
where
  "current_action_filter env d now actor pid a r \<longleftrightarrow>
     (current_role_allowed d actor pid a
      \<or> list_ex (\<lambda>g. gr_repository g = None \<or> gr_repository g = Some r)
          (current_grants d now actor pid a))
     \<and> current_token_allows env d now actor pid a r"

definition current_scope_principal :: "db \<Rightarrow> actor_context \<Rightarrow> uuid \<Rightarrow> access_scope \<Rightarrow> bool" where
  "current_scope_principal d actor pid s \<longleftrightarrow>
     (if actor_type actor = lit ''USER''
      then active_memberships d actor pid \<noteq> []
           \<and> (sc_all_memberships s
              \<or> list_ex (\<lambda>l. ln_scope l = sc_id s \<and> ln_org l = actor_org actor
                   \<and> list_ex (\<lambda>m. mem_id m = ln_target l \<and> mem_org m = actor_org actor
                                \<and> mem_user m = pid \<and> user_is_active pid d \<and> mem_active m)
                       (memberships d)) (scope_memberships d))
      else active_services d actor pid \<noteq> []
           \<and> (sc_all_service_identities s
              \<or> list_ex (\<lambda>l. ln_scope l = sc_id s \<and> ln_org l = actor_org actor \<and> ln_target l = pid
                   \<and> list_ex (\<lambda>x. sid_id x = pid \<and> sid_active x) (service_identities d))
                  (scope_services d)))"

definition current_scopes :: "db \<Rightarrow> actor_context \<Rightarrow> uuid \<Rightarrow> uuid \<Rightarrow> uuid list \<Rightarrow> access_scope list" where
  "current_scopes d actor pid row_scope scope_ids =
     filter (\<lambda>s. sc_id s = row_scope \<and> sc_org s = actor_org actor \<and> sc_active s
               \<and> \<not> has_source_in d [SOURCE_REVOKED, SOURCE_DISABLED] s
               \<and> current_scope_principal d actor pid s \<and> sc_id s \<in> set scope_ids) (scopes d)"

definition active_repository :: "db \<Rightarrow> uuid \<Rightarrow> bool" where
  "active_repository d r \<longleftrightarrow> list_ex (\<lambda>x. repo_id x = r \<and> repo_active x) (repositories d)"

text \<open>
  Whether the filter admits a row: \<open>row_scope\<close> is its scope column, \<open>row_repository\<close> its
  repository column (read only when the query names one: \<open>id_path\<close>, \<open>relation_path\<close>).
\<close>

definition scope_filter_admits ::
  "environment \<Rightarrow> instant \<Rightarrow> db \<Rightarrow> actor_context \<Rightarrow> authorized_repository_scopes \<Rightarrow> action
     \<Rightarrow> bool \<Rightarrow> bool \<Rightarrow> uuid option \<Rightarrow> uuid option \<Rightarrow> bool result"
where
  "scope_filter_admits env now d actor auth a id_path relation_path row_scope row_repository =
     bind_res (guard_res (is_bound_to auth actor) ResourceNotFoundError) (\<lambda>_.
     bind_res (guard_res (credential_allows actor a) ResourceNotFoundError) (\<lambda>_.
     bind_res (guard_res (id_path = relation_path)
                 (ValueError ''repository id and relation paths must be supplied together'')) (\<lambda>_.
       let repository_ids = repository_ids_for auth a; scope_ids = scope_ids_for auth a;
           pid = ars_principal auth
       in if repository_ids = [] \<or> scope_ids = [] then Inr False
          else if actor_type actor \<noteq> lit ''USER'' \<and> actor_type actor \<noteq> lit ''SERVICE''
            then Inl ResourceNotFoundError
          else Inr
            (case row_scope of
               None \<Rightarrow> False
             | Some sid \<Rightarrow>
                 let current = current_scopes d actor pid sid scope_ids in
                 if id_path then
                   (case row_repository of
                      None \<Rightarrow> False
                    | Some r \<Rightarrow>
                        sid \<in> set scope_ids \<and> r \<in> set repository_ids
                        \<and> list_ex (\<lambda>x. repo_id x = r \<and> repo_org x = actor_org actor \<and> repo_active x)
                            (repositories d)
                        \<and> list_ex (\<lambda>s. sc_all_repositories s
                             \<or> list_ex (\<lambda>l. ln_scope l = sc_id s \<and> ln_org l = actor_org actor
                                  \<and> ln_target l = r \<and> active_repository d (ln_target l))
                                 (scope_repositories d)) current
                        \<and> current_action_filter env d now actor pid a r)
                 else
                   let live = filter (\<lambda>r. r \<in> set repository_ids
                          \<and> list_ex (\<lambda>x. repo_id x = r \<and> repo_org x = actor_org actor \<and> repo_active x)
                              (repositories d)
                          \<and> organization_active (actor_org actor) d
                          \<and> current_action_filter env d now actor pid a r) repository_ids
                   in live \<noteq> []
                      \<and> list_ex (\<lambda>s. sc_all_repositories s
                           \<or> list_ex (\<lambda>l. ln_scope l = sc_id s \<and> ln_org l = actor_org actor
                                \<and> ln_target l \<in> set live \<and> active_repository d (ln_target l))
                               (scope_repositories d)) current))))"

end
