(* ===== verification/UuidOrder.thy ===== *)
theory UuidOrder
  imports Uuid "HOL-Library.List_Lexorder"
begin

text \<open>
  Sorting UUIDs by their text (\<^verbatim>\<open>key=str\<close>, as the services do) is sorting them by their value (as
  PostgreSQL does): \<^verbatim>\<open>str\<close> is strictly monotone on 128-bit values.
\<close>

lemma less_same_prefix:
  fixes xs ys zs ws :: "nat list"
  shows "a < b \<Longrightarrow> us @ a # xs < us @ b # ys"
  by (auto simp: list_less_def lexord_def)

lemma less_same_length:
  fixes xs ys :: "nat list"
  assumes "xs < ys" "length xs = length ys"
  obtains us a b vs ws where "xs = us @ a # vs" "ys = us @ b # ws" "a < b"
  using assms by (auto simp: list_less_def lexord_def)

lemma less_append:
  fixes xs ys :: "nat list"
  assumes "xs < ys" "length xs = length ys"
  shows "xs @ ps < ys @ qs"
  by (rule less_same_length [OF assms]) (simp add: less_same_prefix)

definition insert_at :: "nat \<Rightarrow> nat \<Rightarrow> nat list \<Rightarrow> nat list" where
  "insert_at k c xs = take k xs @ c # drop k xs"

lemma length_insert_at [simp]: "length (insert_at k c xs) = Suc (length xs)"
  by (simp add: insert_at_def)

lemma insert_at_mono:
  assumes "xs < ys" "length xs = length ys"
  shows "insert_at k c xs < insert_at k c ys"
proof (rule less_same_length [OF assms])
  fix us a b vs ws
  assume x: "xs = us @ a # vs" "ys = us @ b # ws" "(a :: nat) < b"
  show ?thesis
  proof (cases "length us < k")
    case True
    then have "insert_at k c xs = us @ a # (take (k - length us - 1) vs @ c # drop (k - length us - 1) vs)"
      "insert_at k c ys = us @ b # (take (k - length us - 1) ws @ c # drop (k - length us - 1) ws)"
      by (simp_all add: insert_at_def x take_Cons' drop_Cons')
    then show ?thesis using less_same_prefix [OF x(3)] by simp
  next
    case False
    then have "insert_at k c xs = (take k us @ c # drop k us) @ a # vs"
      "insert_at k c ys = (take k us @ c # drop k us) @ b # ws"
      by (simp_all add: insert_at_def x)
    then show ?thesis using less_same_prefix [OF x(3), of "take k us @ c # drop k us" vs ws] by simp
  qed
qed

lemma hex_char_mono: "a < b \<Longrightarrow> b < 16 \<Longrightarrow> hex_char a < hex_char b"
  by (auto simp: hex_char_def)

lemma hex_digits_mono: "u < v \<Longrightarrow> v < 16 ^ k \<Longrightarrow> hex_digits k u < hex_digits k v"
proof (induction k arbitrary: u v)
  case (Suc k)
  have v: "v div 16 < 16 ^ k" using Suc.prems(2) by (simp add: less_mult_imp_div_less mult.commute)
  show ?case
  proof (cases "u div 16 < v div 16")
    case True
    then show ?thesis using Suc.IH [OF True v] by (simp add: less_append)
  next
    case False
    then have d: "u div 16 = v div 16" using Suc.prems(1) by (meson div_le_mono le_neq_implies_less less_imp_le_nat)
    then have "u mod 16 < v mod 16"
      using Suc.prems(1) by (metis add_less_cancel_left div_mult_mod_eq)
    then have "hex_char (u mod 16) < hex_char (v mod 16)" by (intro hex_char_mono) simp_all
    then show ?thesis using d by (simp add: less_same_prefix)
  qed
qed simp

lemma insert_at_chunks:
  assumes "length a = 8" "length b = 4" "length c = 4" "length e = 4"
  shows "insert_at 8 45 (insert_at 12 45 (insert_at 16 45 (insert_at 20 45 (a @ b @ c @ e @ f))))
         = a @ 45 # b @ 45 # c @ 45 # e @ 45 # f"
proof -
  have "insert_at 20 45 (a @ b @ c @ e @ f) = a @ b @ c @ e @ 45 # f"
    using assms by (simp add: insert_at_def)
  moreover have "insert_at 16 45 (a @ b @ c @ e @ 45 # f) = a @ b @ c @ 45 # e @ 45 # f"
    using assms by (simp add: insert_at_def)
  moreover have "insert_at 12 45 (a @ b @ c @ 45 # e @ 45 # f) = a @ b @ 45 # c @ 45 # e @ 45 # f"
    using assms by (simp add: insert_at_def)
  moreover have "insert_at 8 45 (a @ b @ 45 # c @ 45 # e @ 45 # f) = a @ 45 # b @ 45 # c @ 45 # e @ 45 # f"
    using assms by (simp add: insert_at_def)
  ultimately show ?thesis by simp
qed

lemma uuid_str_insert_at:
  "uuid_str u = insert_at 8 45 (insert_at 12 45 (insert_at 16 45 (insert_at 20 45 (hex_digits 32 u))))"
proof -
  define h where "h = hex_digits 32 u"
  have len: "length h = 32" by (simp add: h_def)
  have "take 8 h @ take 4 (drop 8 h) @ take 4 (drop 12 h) @ take 4 (drop 16 h) @ drop 20 h = h"
    using append_take_drop_id [of 8 h] append_take_drop_id [of 4 "drop 8 h"]
      append_take_drop_id [of 4 "drop 12 h"] append_take_drop_id [of 4 "drop 16 h"]
    by simp
  moreover have "length (take 8 h) = 8" "length (take 4 (drop 8 h)) = 4"
    "length (take 4 (drop 12 h)) = 4" "length (take 4 (drop 16 h)) = 4" using len by simp_all
  ultimately have "insert_at 8 45 (insert_at 12 45 (insert_at 16 45 (insert_at 20 45 h)))
      = take 8 h @ 45 # take 4 (drop 8 h) @ 45 # take 4 (drop 12 h) @ 45 # take 4 (drop 16 h) @ 45 # drop 20 h"
    using insert_at_chunks by metis
  then show ?thesis by (simp only: uuid_str_def Let_def h_def)
qed

lemma uuid_str_mono:
  assumes "u < v" "v < 2 ^ 128"
  shows "uuid_str u < uuid_str v"
proof -
  have "(2 :: nat) ^ 128 = 16 ^ 32" by simp
  then have "hex_digits 32 u < hex_digits 32 v" using assms by (intro hex_digits_mono) simp_all
  then show ?thesis unfolding uuid_str_insert_at by (intro insert_at_mono) simp_all
qed

lemma uuid_str_le: "u \<le> v \<Longrightarrow> v < 2 ^ 128 \<Longrightarrow> uuid_str u \<le> uuid_str v"
  using uuid_str_mono [of u v] by (auto simp: le_less)

end
