(* ===== verification/AuthorizationSafety.thy ===== *)
theory AuthorizationSafety
  imports RepositoryScopes UuidOrder
begin

text \<open>
  Correctness of the authorization decisions: what a single decision requires, stated without the
  order of the checks; what it cannot see of other tenants; and that the batched snapshot and the
  recheck compiled into queries never admit what the single decision would refuse.
\<close>

section \<open>The declarative meaning of one decision\<close>

text \<open>Somebody active stands behind the actor: a member or a service of an active organization.\<close>

definition acts_as :: "db \<Rightarrow> actor_context \<Rightarrow> principal \<Rightarrow> bool" where
  "acts_as d actor p \<longleftrightarrow>
     parse_uuid (actor_id actor) = Some (pr_id p) \<and> pr_actor_type p = actor_type actor
     \<and> organization_active (actor_org actor) d
     \<and> (case pr_row p of
          Member m \<Rightarrow> actor_type actor = lit ''USER'' \<and> m \<in> set (memberships d)
            \<and> mem_org m = actor_org actor \<and> mem_user m = pr_id p \<and> mem_active m
            \<and> user_is_active (pr_id p) d
        | Service s \<Rightarrow> actor_type actor = lit ''SERVICE'' \<and> s \<in> set (service_identities d)
            \<and> sid_org s = actor_org actor \<and> sid_id s = pr_id p \<and> sid_active s)"

text \<open>The unique constraints of the tables a decision reads.\<close>

definition access_keys :: "db \<Rightarrow> bool" where
  "access_keys d \<longleftrightarrow>
     distinct (map (\<lambda>m. (mem_org m, mem_user m)) (memberships d))
     \<and> distinct (map mem_id (memberships d)) \<and> distinct (map sid_id (service_identities d))
     \<and> distinct (map sc_id (scopes d)) \<and> distinct (map src_id (sources d))
     \<and> distinct (map tok_id (tokens d)) \<and> distinct (map repo_id (repositories d))"

lemma unique_row:
  "distinct (map key xs) \<Longrightarrow> x \<in> set xs \<Longrightarrow> y \<in> set xs \<Longrightarrow> key x = key y \<Longrightarrow> x = y"
  by (auto simp: distinct_map inj_on_def)

lemma first_by_unique:
  assumes "x \<in> set xs" and "\<And>y. y \<in> set xs \<Longrightarrow> y = x"
  shows "first_by key xs = Some x"
proof -
  have "first_by key xs \<noteq> None" using assms(1) by auto
  then obtain y where y: "first_by key xs = Some y" by (auto simp del: first_by_None)
  then show ?thesis using assms(2) first_by_Some(1) [OF y] by simp
qed

lemma first_by_filter_unique:
  assumes "distinct (map key xs)" "x \<in> set xs" "P x" and "\<And>y. P y \<Longrightarrow> key y = key x"
  shows "first_by k (filter P xs) = Some x"
  using assms by (intro first_by_unique) (auto dest: unique_row)

lemma resolved_acts_as:
  "resolve_principal d actor = Inr p \<Longrightarrow> acts_as d actor p"
  by (auto simp: resolve_principal_def acts_as_def split: option.splits if_splits
      dest!: first_by_Some(1))

lemma acts_as_resolved:
  assumes "access_keys d" "acts_as d actor p"
  shows "resolve_principal d actor = Inr p"
proof (cases "pr_row p")
  case (Member m)
  let ?P = "\<lambda>m. mem_org m = actor_org actor \<and> organization_active (actor_org actor) d
     \<and> mem_user m = pr_id p \<and> user_is_active (pr_id p) d \<and> mem_active m"
  have "first_by mem_id (filter ?P (memberships d)) = Some m"
    using assms Member
    by (intro first_by_filter_unique [where key = "\<lambda>m. (mem_org m, mem_user m)"])
      (auto simp: access_keys_def acts_as_def)
  then show ?thesis
    using assms(2) Member by (auto simp: resolve_principal_def acts_as_def)
next
  case (Service s)
  let ?P = "\<lambda>s. sid_id s = pr_id p \<and> sid_org s = actor_org actor
     \<and> organization_active (actor_org actor) d \<and> sid_active s"
  have "first_by sid_id (filter ?P (service_identities d)) = Some s"
    using assms Service
    by (intro first_by_filter_unique [where key = sid_id]) (auto simp: access_keys_def acts_as_def)
  then show ?thesis
    using assms(2) Service by (auto simp: resolve_principal_def acts_as_def)
qed

text \<open>
  \<open>may_act\<close> says what an allowed request has, in no particular order: a principal; a role or a live
  grant for the action that covers the repository and source; for a credential, a live token of
  that principal for that repository that lists the action; and the repository, source and scope
  named in the request, each of the actor's tenant and open to it.
\<close>

definition entitled :: "db \<Rightarrow> instant \<Rightarrow> principal \<Rightarrow> action \<Rightarrow> uuid option \<Rightarrow> uuid option \<Rightarrow> bool" where
  "entitled d now p a repository source \<longleftrightarrow>
     a \<in> set (role_actions d p)
     \<or> (\<exists>g\<in>set (grants d). gr_action g = action_value a \<and> grant_of p g \<and> gr_revoked_at g = None
          \<and> unexpired now (gr_expires_at g)
          \<and> (gr_repository g = None \<or> gr_repository g = repository)
          \<and> (gr_source g = None \<or> gr_source g = source))"

definition token_backs ::
  "environment \<Rightarrow> db \<Rightarrow> instant \<Rightarrow> actor_context \<Rightarrow> principal \<Rightarrow> action \<Rightarrow> bool"
where
  "token_backs env d now actor p a \<longleftrightarrow>
     (\<forall>c. actor_credential actor = Some c \<longrightarrow>
        (\<exists>r. actor_repository actor = Some r
           \<and> (\<exists>t\<in>set (tokens d). live_token env d now actor (pr_id p) c r t
                \<and> (\<exists>acts. json_strings (tok_allowed_actions t) = Some acts \<and> action_value a \<in> set acts))))"

text \<open>A scope is open to a principal for a repository (or for requests that name none).\<close>

definition scope_open :: "db \<Rightarrow> principal \<Rightarrow> access_scope \<Rightarrow> uuid option \<Rightarrow> bool" where
  "scope_open d p x repository \<longleftrightarrow>
     sc_active x
     \<and> (\<forall>l\<in>set (scope_sources d). \<forall>s\<in>set (sources d).
          ln_scope l = sc_id x \<and> ln_target l = src_id s \<longrightarrow> src_state s \<noteq> SOURCE_REVOKED)
     \<and> (sc_all_repositories x
        \<or> (\<exists>l\<in>set (scope_repositories d). ln_scope l = sc_id x \<and> repository = Some (ln_target l)))
     \<and> (case pr_row p of
          Member m \<Rightarrow> sc_all_memberships x
            \<or> (\<exists>l\<in>set (scope_memberships d). ln_scope l = sc_id x \<and> ln_target l = mem_id m)
        | Service s \<Rightarrow> sc_all_service_identities x
            \<or> (\<exists>l\<in>set (scope_services d). ln_scope l = sc_id x \<and> ln_target l = sid_id s))"

lemma scope_allows_open: "scope_allows d p x repository False False \<longleftrightarrow> scope_open d p x repository"
  by (cases repository; cases "pr_row p")
    (auto simp: scope_allows_def scope_open_def has_source_in_def scope_includes_principal_def linked_def
      list_ex_iff)

definition may_act ::
  "environment \<Rightarrow> instant \<Rightarrow> db \<Rightarrow> actor_context \<Rightarrow> principal \<Rightarrow> action \<Rightarrow> uuid option \<Rightarrow> uuid option
     \<Rightarrow> uuid option \<Rightarrow> bool \<Rightarrow> bool"
where
  "may_act env now d actor p a repository source scope allow_revoked_source \<longleftrightarrow>
     acts_as d actor p \<and> entitled d now p a repository source
     \<and> token_backs env d now actor p a \<and> credential_allows actor a
     \<and> (actor_repository actor = None \<or> repository = actor_repository actor)
     \<and> (\<forall>r. repository = Some r \<longrightarrow>
          (\<exists>x\<in>set (repositories d). repo_id x = r \<and> repo_org x = actor_org actor \<and> repo_active x))
     \<and> (\<forall>s. source = Some s \<longrightarrow>
          (\<exists>x\<in>set (sources d). src_id x = s \<and> src_org x = actor_org actor
             \<and> (allow_revoked_source \<or> src_state x \<notin> {SOURCE_DISABLED, SOURCE_REVOKED})))
     \<and> (\<forall>c. scope = Some c \<longrightarrow>
          (\<exists>x\<in>set (scopes d). sc_id x = c \<and> sc_org x = actor_org actor
             \<and> scope_open d p x repository))"

lemma check_credential_backs:
  assumes "distinct (map tok_id (tokens d))"
  shows "check_credential env d now actor p a = Inr () \<longleftrightarrow> token_backs env d now actor p a"
proof (cases "actor_credential actor")
  case None
  then show ?thesis by (simp add: check_credential_def token_backs_def)
next
  case (Some c)
  show ?thesis
  proof (cases "actor_repository actor")
    case None
    then show ?thesis using Some by (simp add: check_credential_def token_backs_def)
  next
    case r: (Some r)
    let ?L = "live_token env d now actor (pr_id p) c r"
    show ?thesis
    proof (cases "\<exists>t\<in>set (tokens d). ?L t")
      case True
      then obtain t where t: "t \<in> set (tokens d)" "?L t" by blast
      have one: "y = t" if "y \<in> set (tokens d)" "?L y" for y
      proof -
        have "tok_id y = tok_id t" using that(2) t(2) unfolding live_token_def by (elim conjE) simp
        then show ?thesis by (rule unique_row [OF assms that(1) t(1)])
      qed
      have "first_by tok_id (filter ?L (tokens d)) = Some t"
      proof (rule first_by_unique)
        show "t \<in> set (filter ?L (tokens d))" using t by simp
        show "y = t" if "y \<in> set (filter ?L (tokens d))" for y using that by (intro one) simp_all
      qed
      then have "check_credential env d now actor p a =
          (case json_strings (tok_allowed_actions t) of None \<Rightarrow> Inl AuthenticationError
           | Some acts \<Rightarrow> guard_res (action_value a \<in> set acts) ResourceNotFoundError)"
        using Some r by (simp add: check_credential_def)
      moreover have "token_backs env d now actor p a \<longleftrightarrow>
          (\<exists>acts. json_strings (tok_allowed_actions t) = Some acts \<and> action_value a \<in> set acts)"
      proof
        assume "token_backs env d now actor p a"
        then obtain y acts where "y \<in> set (tokens d)" "?L y"
          "json_strings (tok_allowed_actions y) = Some acts" "action_value a \<in> set acts"
          using Some r unfolding token_backs_def by (metis option.inject)
        then show "\<exists>acts. json_strings (tok_allowed_actions t) = Some acts \<and> action_value a \<in> set acts"
          using one by blast
      next
        assume "\<exists>acts. json_strings (tok_allowed_actions t) = Some acts \<and> action_value a \<in> set acts"
        then show "token_backs env d now actor p a"
          using Some r t unfolding token_backs_def by (metis option.inject)
      qed
      ultimately show ?thesis
        by (cases "json_strings (tok_allowed_actions t)") (simp_all add: guard_res_Inr)
    next
      case False
      then have "filter ?L (tokens d) = []" by (simp add: filter_empty_conv)
      then have "check_credential env d now actor p a = Inl AuthenticationError"
        using Some r by (simp add: check_credential_def first_by_def)
      moreover have "\<not> token_backs env d now actor p a"
        using Some r False unfolding token_backs_def by (metis option.inject)
      ultimately show ?thesis by simp
    qed
  qed
qed

lemma relevant_grants_entitled:
  "(a \<in> set (role_actions d p) \<or> relevant_grants d now p a repository source \<noteq> []) \<longleftrightarrow>
     entitled d now p a repository source"
  unfolding entitled_def relevant_grants_def active_grants_def filter_empty_conv
  by (cases repository; cases source) auto

lemma check_repository_Inr:
  "check_repository d actor repository = Inr () \<longleftrightarrow>
     (\<forall>r. repository = Some r \<longrightarrow>
          (\<exists>x\<in>set (repositories d). repo_id x = r \<and> repo_org x = actor_org actor \<and> repo_active x))"
  by (auto simp: check_repository_def guard_res_Inr list_ex_iff split: option.splits)

lemma check_source_Inr:
  assumes "distinct (map src_id (sources d))"
  shows "check_source d actor source allow = Inr () \<longleftrightarrow>
     (\<forall>s. source = Some s \<longrightarrow>
          (\<exists>x\<in>set (sources d). src_id x = s \<and> src_org x = actor_org actor
             \<and> (allow \<or> src_state x \<notin> {SOURCE_DISABLED, SOURCE_REVOKED})))"
proof (cases source)
  case None
  then show ?thesis by (simp add: check_source_def)
next
  case (Some s)
  let ?f = "find_by (\<lambda>x. src_id x = s \<and> src_org x = actor_org actor) (sources d)"
  show ?thesis
  proof (cases ?f)
    case None
    have "check_source d actor source allow = Inl ResourceNotFoundError"
      unfolding check_source_def Some option.case None by (rule refl)
    then show ?thesis using None Some by auto
  next
    case x: (Some x)
    from find_by_Some_iff [OF x] have "x \<in> set (sources d)" "src_id x = s" "src_org x = actor_org actor"
      by simp_all
    then show ?thesis
      using unique_row [OF assms] unfolding check_source_def Some option.case x
      by (auto simp: guard_res_Inr)
  qed
qed

lemma check_scope_Inr:
  assumes "distinct (map sc_id (scopes d))"
  shows "check_scope d actor p repository scope = Inr () \<longleftrightarrow>
     (\<forall>c. scope = Some c \<longrightarrow>
          (\<exists>x\<in>set (scopes d). sc_id x = c \<and> sc_org x = actor_org actor
             \<and> scope_allows d p x repository False False))"
proof (cases scope)
  case None
  then show ?thesis by (simp add: check_scope_def)
next
  case (Some c)
  let ?f = "find_by (\<lambda>s. sc_id s = c \<and> sc_org s = actor_org actor) (scopes d)"
  show ?thesis
  proof (cases ?f)
    case None
    have "check_scope d actor p repository scope = Inl ResourceNotFoundError"
      unfolding check_scope_def Some option.case None by (rule refl)
    then show ?thesis using None Some by auto
  next
    case x: (Some x)
    from find_by_Some_iff [OF x] have "x \<in> set (scopes d)" "sc_id x = c" "sc_org x = actor_org actor"
      by simp_all
    then show ?thesis
      using unique_row [OF assms] unfolding check_scope_def Some option.case x
      by (auto simp: guard_res_Inr)
  qed
qed

lemma authorize_action_Inr:
  "authorize_action env now d actor a repository source scope allow = Inr dec \<longleftrightarrow>
     (\<exists>p. resolve_principal d actor = Inr p
        \<and> (actor_repository actor = None \<or> repository = actor_repository actor)
        \<and> check_credential env d now actor p a = Inr () \<and> credential_allows actor a
        \<and> check_repository d actor repository = Inr () \<and> check_source d actor source allow = Inr ()
        \<and> check_scope d actor p repository scope = Inr ()
        \<and> (a \<in> set (role_actions d p) \<or> relevant_grants d now p a repository source \<noteq> [])
        \<and> dec = \<lparr>dec_action = a,
                 dec_path = decision_path d actor p a
                   (relevant_grants d now p a repository source \<noteq> []) repository source scope\<rparr>)"
  unfolding authorize_action_def bind_res_Inr guard_res_Inr Let_def by auto

lemma returns_iff: "returns r \<longleftrightarrow> (\<exists>x. r = Inr x)"
  by (cases r) simp_all

lemma authorize_action_may_act:
  assumes "access_keys d"
  shows "returns (authorize_action env now d actor a repository source scope allow) \<longleftrightarrow>
     (\<exists>p. may_act env now d actor p a repository source scope allow)"
proof -
  have k: "distinct (map tok_id (tokens d))" "distinct (map src_id (sources d))"
    "distinct (map sc_id (scopes d))" using assms by (simp_all add: access_keys_def)
  have "resolve_principal d actor = Inr p \<longleftrightarrow> acts_as d actor p" for p
    using resolved_acts_as acts_as_resolved [OF assms] by blast
  then show ?thesis
    unfolding returns_iff authorize_action_Inr relevant_grants_entitled check_credential_backs [OF k(1)]
      check_repository_Inr check_source_Inr [OF k(2)] check_scope_Inr [OF k(3)] may_act_def
      scope_allows_open
    by blast
qed

text \<open>The two ways a request can be refused.\<close>

lemma check_errors:
  "resolve_principal d actor = Inl e \<Longrightarrow> e = AuthenticationError"
  "check_credential env d now actor p a = Inl e \<Longrightarrow> e = AuthenticationError \<or> e = ResourceNotFoundError"
  "check_repository d actor repository = Inl e \<Longrightarrow> e = ResourceNotFoundError"
  "check_source d actor source allow = Inl e \<Longrightarrow> e = ResourceNotFoundError"
  "check_scope d actor p repository scope = Inl e \<Longrightarrow> e = ResourceNotFoundError"
proof -
  show "resolve_principal d actor = Inl e \<Longrightarrow> e = AuthenticationError"
    by (auto simp: resolve_principal_def split: option.splits if_splits)
  show "check_credential env d now actor p a = Inl e \<Longrightarrow> e = AuthenticationError \<or> e = ResourceNotFoundError"
    by (auto simp: check_credential_def guard_res_def split: option.splits if_splits)
  show "check_repository d actor repository = Inl e \<Longrightarrow> e = ResourceNotFoundError"
    by (auto simp: check_repository_def guard_res_def split: option.splits if_splits)
  show "check_source d actor source allow = Inl e \<Longrightarrow> e = ResourceNotFoundError"
    by (auto simp: check_source_def guard_res_def split: option.splits if_splits)
  show "check_scope d actor p repository scope = Inl e \<Longrightarrow> e = ResourceNotFoundError"
    by (auto simp: check_scope_def guard_res_def split: option.splits if_splits)
qed

lemma authorize_action_errors:
  "authorize_action env now d actor a repository source scope allow = Inl e
     \<Longrightarrow> e = AuthenticationError \<or> e = ResourceNotFoundError"
  unfolding authorize_action_def bind_res_Inl guard_res_Inl Let_def
  by (auto dest: check_errors)

section \<open>The batched snapshot\<close>

lemma set_sorted_by_str [simp]: "set (sorted_by_str xs) = set xs"
  by (simp add: sorted_by_str_def)

lemma sorted_by_str_Nil [simp]: "sorted_by_str xs = [] \<longleftrightarrow> xs = []"
  by (metis set_empty set_sorted_by_str)

lemma set_dedup [simp]: "set (dedup xs) = set xs"
  by (simp add: dedup_def)

lemma distinct_dedup [simp]: "distinct (dedup xs)"
  by (simp add: dedup_def)

text \<open>The values of a resolution that returned.\<close>

definition permitted_repositories ::
  "environment \<Rightarrow> instant \<Rightarrow> db \<Rightarrow> actor_context \<Rightarrow> principal \<Rightarrow> (uuid \<times> pystr list) option
     \<Rightarrow> action list \<Rightarrow> action \<Rightarrow> uuid list \<Rightarrow> int \<Rightarrow> action \<Rightarrow> uuid list"
where
  "permitted_repositories env now d actor p token ordered required requested limit a =
     (let gs = batch_grants d now actor p ordered
      in filter (action_allowed_for_repository actor (role_actions d p) gs token a)
           (map repo_id (candidate_repositories d actor (role_actions d p) gs required requested (nat limit))))"

lemma resolve_Inr:
  assumes "resolve_authorized_repository_scopes env now d actor actions required ids limit = Inr auth"
  obtains p token by_repository where
    "resolve_principal d actor = Inr p" "token_boundary env d now actor p = Inr token"
    "1 \<le> limit \<and> limit \<le> MAX_BATCH_AUTHORIZATION_REPOSITORIES" "required \<in> set actions"
    "resolve_scope_ids d actor p (ars_repositories auth) = Inr by_repository"
    "ars_repositories auth = filter (\<lambda>r. r \<in> set (permitted_repositories env now d actor p token
        (dedup actions) required (sorted_by_str ids) limit required))
        (map repo_id (candidate_repositories d actor (role_actions d p)
           (batch_grants d now actor p (dedup actions)) required (sorted_by_str ids) (nat limit)))"
    "auth = create_scopes actor (pr_id p) (ars_repositories auth)
       (map (\<lambda>a. (a, filter (\<lambda>r. r \<in> set (ars_repositories auth))
           (permitted_repositories env now d actor p token (dedup actions) required
              (sorted_by_str ids) limit a))) (dedup actions)) by_repository"
    "ids = [] \<or> set (ars_repositories auth) = set ids"
proof -
  define ordered where "ordered = dedup actions"
  define requested where "requested = sorted_by_str ids"
  have guards: "required \<in> set ordered" "1 \<le> limit \<and> limit \<le> MAX_BATCH_AUTHORIZATION_REPOSITORIES"
    using assms unfolding resolve_authorized_repository_scopes_def Let_def ordered_def
    by (auto split: if_splits)
  define perm where "perm p token = permitted_repositories env now d actor p token ordered required requested limit"
    for p token
  define cand where "cand p = map repo_id (candidate_repositories d actor (role_actions d p)
           (batch_grants d now actor p ordered) required requested (nat limit))" for p
  from assms obtain p token where p: "resolve_principal d actor = Inr p"
    and token: "token_boundary env d now actor p = Inr token"
    and rest: "bind_res (guard_res (requested = [] \<or> set (cand p) = set requested
         \<and> set (perm p token required) = set requested) ResourceNotFoundError) (\<lambda>_.
       bind_res (resolve_scope_ids d actor p (filter (\<lambda>r. r \<in> set (perm p token required)) (cand p)))
         (\<lambda>by_repository. Inr (create_scopes actor (pr_id p)
            (filter (\<lambda>r. r \<in> set (perm p token required)) (cand p))
            (map (\<lambda>a. (a, filter (\<lambda>r. r \<in> set (filter (\<lambda>r. r \<in> set (perm p token required)) (cand p)))
               (perm p token a))) ordered) by_repository))) = Inr auth"
    unfolding resolve_authorized_repository_scopes_def ordered_def [symmetric] requested_def [symmetric]
      Let_def perm_def permitted_repositories_def cand_def
    by (simp add: bind_res_Inr split: if_splits) blast
  define retained where "retained = filter (\<lambda>r. r \<in> set (perm p token required)) (cand p)"
  from rest obtain by_repository where
    req: "requested = [] \<or> set (cand p) = set requested \<and> set (perm p token required) = set requested"
    and sc: "resolve_scope_ids d actor p retained = Inr by_repository"
    and auth: "auth = create_scopes actor (pr_id p) retained
       (map (\<lambda>a. (a, filter (\<lambda>r. r \<in> set retained) (perm p token a))) ordered) by_repository"
    unfolding retained_def [symmetric] bind_res_Inr guard_res_Inr by blast
  have ret: "ars_repositories auth = retained" by (simp add: auth create_scopes_def)
  have ids: "ids = [] \<or> set (ars_repositories auth) = set ids"
    using req unfolding ret retained_def requested_def by (auto simp: sorted_by_str_Nil)
  show thesis
  proof (rule that [OF p token guards(2)])
    show "required \<in> set actions" using guards(1) by (simp add: ordered_def)
    show "resolve_scope_ids d actor p (ars_repositories auth) = Inr by_repository"
      using sc ret by simp
    show "ids = [] \<or> set (ars_repositories auth) = set ids" by (rule ids)
  qed (use auth ret in \<open>simp_all add: retained_def perm_def cand_def ordered_def requested_def\<close>)
qed

text \<open>Every pair of a repository and an action in the snapshot is one the single decision allows.\<close>

lemma token_boundary_backs:
  assumes "token_boundary env d now actor p = Inr token"
    and "case token of None \<Rightarrow> True | Some (tr, acts) \<Rightarrow> r = tr \<and> action_value a \<in> set acts"
  shows "token_backs env d now actor p a"
proof (cases "actor_credential actor")
  case None
  then show ?thesis by (simp add: token_backs_def)
next
  case (Some c)
  then obtain own where own: "actor_repository actor = Some own"
    using assms(1) by (auto simp: token_boundary_def split: option.splits)
  obtain t acts where t: "first_by tok_id (filter (live_token env d now actor (pr_id p) c own) (tokens d)) = Some t"
    and acts: "json_strings (tok_allowed_actions t) = Some acts" "token = Some (tok_repository t, acts)"
    using assms(1) Some own by (auto simp: token_boundary_def simp del: first_by_None split: option.splits)
  from first_by_Some(1) [OF t]
  have "t \<in> set (tokens d)" "live_token env d now actor (pr_id p) c own t" by simp_all
  moreover have "action_value a \<in> set acts" using assms(2) acts by simp
  ultimately show ?thesis using Some own acts(1) unfolding token_backs_def by (metis option.inject)
qed

lemma batch_grant_entitles:
  assumes "a \<in> set (role_actions d p) \<or>
      list_ex (\<lambda>g. gr_action g = action_value a \<and> (gr_repository g = None \<or> gr_repository g = Some r))
        (batch_grants d now actor p ordered)"
  shows "entitled d now p a (Some r) None"
  using assms unfolding entitled_def list_ex_iff batch_grants_def by auto

lemma permitted_may_act:
  assumes "resolve_principal d actor = Inr p" "token_boundary env d now actor p = Inr token"
    and "r \<in> set (permitted_repositories env now d actor p token ordered required requested limit a)"
  shows "may_act env now d actor p a (Some r) None None False"
proof -
  have al: "action_allowed_for_repository actor (role_actions d p)
      (batch_grants d now actor p ordered) token a r"
    and cand: "r \<in> repo_id ` set (candidate_repositories d actor (role_actions d p)
      (batch_grants d now actor p ordered) required requested (nat limit))"
    using assms(3) by (auto simp: permitted_repositories_def Let_def)
  have "\<exists>x\<in>set (repositories d). repo_id x = r \<and> repo_org x = actor_org actor \<and> repo_active x"
    using cand by (auto simp: candidate_repositories_def dest!: in_set_takeD)
  moreover have "token_backs env d now actor p a"
    using al by (intro token_boundary_backs [OF assms(2)]) (auto simp: action_allowed_for_repository_def)
  moreover have "entitled d now p a (Some r) None"
    using al by (intro batch_grant_entitles) (auto simp: action_allowed_for_repository_def)
  ultimately show ?thesis
    using al resolved_acts_as [OF assms(1)] unfolding may_act_def action_allowed_for_repository_def
    by auto
qed

lemma repository_ids_for_Some:
  "r \<in> set (repository_ids_for s a) \<Longrightarrow> \<exists>rs. (a, rs) \<in> set (ars_repository_ids_by_action s) \<and> r \<in> set rs"
proof (cases "find_by (\<lambda>p. fst p = a) (ars_repository_ids_by_action s)")
  case None
  assume "r \<in> set (repository_ids_for s a)"
  then show ?thesis unfolding repository_ids_for_def None by simp
next
  case (Some p)
  assume "r \<in> set (repository_ids_for s a)"
  then show ?thesis
    using find_by_Some_iff [OF Some] unfolding repository_ids_for_def Some by (cases p) auto
qed

lemma resolved_pair_may_act:
  assumes "resolve_authorized_repository_scopes env now d actor actions required ids limit = Inr auth"
    and "r \<in> set (repository_ids_for auth a)"
  shows "\<exists>p. resolve_principal d actor = Inr p \<and> may_act env now d actor p a (Some r) None None False"
proof (rule resolve_Inr [OF assms(1)])
  fix p token by_repository
  assume p: "resolve_principal d actor = Inr p" "token_boundary env d now actor p = Inr token"
    and auth: "auth = create_scopes actor (pr_id p) (ars_repositories auth)
       (map (\<lambda>a. (a, filter (\<lambda>r. r \<in> set (ars_repositories auth))
           (permitted_repositories env now d actor p token (dedup actions) required
              (sorted_by_str ids) limit a))) (dedup actions)) by_repository"
  from repository_ids_for_Some [OF assms(2)] obtain rs where
    "(a, rs) \<in> set (ars_repository_ids_by_action auth)" "r \<in> set rs" by blast
  then have "r \<in> set (permitted_repositories env now d actor p token (dedup actions) required
              (sorted_by_str ids) limit a)"
    by (subst (asm) auth) (auto simp: create_scopes_def)
  from p(1) permitted_may_act [OF p this] show ?thesis by blast
qed

text \<open>Every scope listed for a repository is one the single decision opens for it.\<close>

lemma resolved_scope_allows:
  assumes "resolve_scope_ids d actor p retained = Inr by_repository"
    and "(r, sids) \<in> set by_repository" "sid \<in> set sids" and "distinct (map sc_id (scopes d))"
  shows "\<exists>x\<in>set (scopes d). sc_id x = sid \<and> sc_org x = actor_org actor
           \<and> \<not> has_source_in d [SOURCE_REVOKED, SOURCE_DISABLED] x
           \<and> scope_allows d p x (Some r) False False"
proof -
  have ne: "retained \<noteq> []" using assms(1,2) by (auto simp: resolve_scope_ids_def)
  let ?rows = "visible_scopes d actor p retained"
  let ?everywhere = "map sc_id (filter sc_all_repositories ?rows)"
  let ?explicit = "map sc_id (filter (\<lambda>s. \<not> sc_all_repositories s) ?rows)"
  let ?bindings = "if ?explicit = [] then [] else scope_bindings d actor ?explicit retained"
  have br: "by_repository = map (\<lambda>r. (r, sorted_by_str (?everywhere @ map snd (filter (\<lambda>b. fst b = r) ?bindings))))
      (sorted_by_str retained)"
    using assms(1) unfolding resolve_scope_ids_def Let_def if_not_P [OF ne] bind_res_Inr
    by (blast dest: sum.inject(2) [THEN iffD1] sym)
  then have sid: "sid \<in> set ?everywhere \<or> (r, sid) \<in> set ?bindings"
    using assms(2,3) by auto
  have vis: "x \<in> set (scopes d) \<and> sc_org x = actor_org actor \<and> sc_active x
      \<and> \<not> has_source_in d [SOURCE_REVOKED, SOURCE_DISABLED] x \<and> scope_includes_principal d p x"
    if "x \<in> set ?rows" for x
    using that by (auto simp: visible_scopes_def dest!: in_set_takeD)
  have weaker: "\<not> has_source_in d [SOURCE_REVOKED] x"
    if "\<not> has_source_in d [SOURCE_REVOKED, SOURCE_DISABLED] x" for x
    using that by (auto simp: has_source_in_def list_ex_iff)
  from sid show ?thesis
  proof
    assume "sid \<in> set ?everywhere"
    then obtain x where x: "x \<in> set ?rows" "sc_all_repositories x" "sc_id x = sid" by auto
    then show ?thesis using vis [OF x(1)] weaker by (auto simp: scope_allows_def intro!: bexI [of _ x])
  next
    assume b: "(r, sid) \<in> set ?bindings"
    then have "(r, sid) \<in> set (scope_bindings d actor ?explicit retained)" by (auto split: if_splits)
    then obtain l where l: "l \<in> set (scope_repositories d)" "ln_target l = r" "ln_scope l = sid"
      and "sid \<in> set ?explicit"
      by (auto simp: scope_bindings_def dest!: in_set_takeD)
    then obtain x where x: "x \<in> set ?rows" "sc_id x = sid" by auto
    have "linked x r (scope_repositories d)" using l x(2) by (auto simp: linked_def list_ex_iff)
    then show ?thesis using vis [OF x(1)] x(2) weaker
      by (auto simp: scope_allows_def intro!: bexI [of _ x])
  qed
qed

section \<open>A snapshot belongs to its actor\<close>

lemma sorted_by_str_id:
  assumes "distinct xs" "sorted (map uuid_str xs)"
  shows "sorted_by_str xs = xs"
  using assms by (simp add: sorted_by_str_def distinct_remdups_id sort_key_id_if_sorted)

lemma sorted_by_str_idem [simp]: "sorted_by_str (sorted_by_str xs) = sorted_by_str xs"
  by (rule sorted_by_str_id) (simp_all add: sorted_by_str_def)

lemma distinct_sorted_by_str [simp]: "distinct (sorted_by_str xs)"
  by (simp add: sorted_by_str_def)

lemma sorted_ids_by_str:
  assumes "sorted xs" "\<forall>x\<in>set xs. x < 2 ^ 128"
  shows "sorted (map uuid_str xs)"
  using assms by (induction xs) (auto intro: uuid_str_le)

lemma candidate_ids_sorted:
  "sorted (map repo_id (candidate_repositories d actor ra gs required requested n))"
  by (simp add: candidate_repositories_def take_map [symmetric] sorted_wrt_take)

lemma candidate_ids_distinct:
  assumes "distinct (map repo_id (repositories d))"
  shows "distinct (map repo_id (candidate_repositories d actor ra gs required requested n))"
proof -
  have "distinct (map repo_id (sort_key repo_id (filter P (repositories d))))" for P
    using assms by (auto simp: distinct_map intro: inj_on_subset)
  then show ?thesis by (simp add: candidate_repositories_def take_map [symmetric])
qed

lemma candidate_ids_known:
  "set (candidate_repositories d actor ra gs required requested n) \<subseteq> set (repositories d)"
  by (auto simp: candidate_repositories_def dest: in_set_takeD)

lemma scope_rows_bounded:
  assumes "resolve_scope_ids d actor p retained = Inr by_repository" "retained \<noteq> []"
    and "(r, sids) \<in> set by_repository"
  shows "length sids \<le> MAX_BATCH_AUTHORIZATION_SCOPES" "sorted_by_str sids = sids"
proof -
  let ?rows = "visible_scopes d actor p retained"
  let ?everywhere = "map sc_id (filter sc_all_repositories ?rows)"
  let ?explicit = "map sc_id (filter (\<lambda>s. \<not> sc_all_repositories s) ?rows)"
  let ?bindings = "if ?explicit = [] then [] else scope_bindings d actor ?explicit retained"
  have br: "by_repository = map (\<lambda>r. (r, sorted_by_str (?everywhere @ map snd (filter (\<lambda>b. fst b = r) ?bindings))))
      (sorted_by_str retained)"
    and few: "length ?rows \<le> MAX_BATCH_AUTHORIZATION_SCOPES"
    using assms(1) unfolding resolve_scope_ids_def Let_def if_not_P [OF assms(2)] bind_res_Inr guard_res_Inr
    by (blast dest: sum.inject(2) [THEN iffD1] sym)+
  then have sids: "sids = sorted_by_str (?everywhere @ map snd (filter (\<lambda>b. fst b = r) ?bindings))"
    using assms(3) by auto
  then show "sorted_by_str sids = sids" by simp
  have "set sids \<subseteq> sc_id ` set ?rows"
    by (auto simp: sids scope_bindings_def split: if_splits dest!: in_set_takeD)
  then have "card (set sids) \<le> length ?rows"
    by (meson card_image_le card_length card_mono finite_imageI finite_set order_trans)
  then show "length sids \<le> MAX_BATCH_AUTHORIZATION_SCOPES"
    using few distinct_card [of sids] by (simp add: sids)
qed

lemma sum_list_bounded: "(\<forall>x\<in>set xs. f x \<le> (k :: nat)) \<Longrightarrow> sum_list (map f xs) \<le> length xs * k"
  by (induction xs) auto

lemma by_repository_keys:
  assumes "resolve_scope_ids d actor p retained = Inr by_repository" "retained \<noteq> []"
  shows "map fst by_repository = sorted_by_str retained"
  using assms(1) unfolding resolve_scope_ids_def Let_def if_not_P [OF assms(2)] bind_res_Inr guard_res_Inr
  by (auto simp: o_def)

lemma resolved_is_bound:
  assumes "resolve_authorized_repository_scopes env now d actor actions required ids limit = Inr auth"
    and "ars_repositories auth \<noteq> []" "distinct (map repo_id (repositories d))"
    and "\<forall>x\<in>set (repositories d). repo_id x < 2 ^ 128"
  shows "is_bound_to auth actor"
proof (rule resolve_Inr [OF assms(1)])
  fix p token by_repository
  assume p: "resolve_principal d actor = Inr p"
    and limit: "1 \<le> limit \<and> limit \<le> MAX_BATCH_AUTHORIZATION_REPOSITORIES"
    and sc: "resolve_scope_ids d actor p (ars_repositories auth) = Inr by_repository"
    and repos: "ars_repositories auth = filter (\<lambda>r. r \<in> set (permitted_repositories env now d actor p token
        (dedup actions) required (sorted_by_str ids) limit required))
        (map repo_id (candidate_repositories d actor (role_actions d p)
           (batch_grants d now actor p (dedup actions)) required (sorted_by_str ids) (nat limit)))"
    and auth: "auth = create_scopes actor (pr_id p) (ars_repositories auth)
       (map (\<lambda>a. (a, filter (\<lambda>r. r \<in> set (ars_repositories auth))
           (permitted_repositories env now d actor p token (dedup actions) required
              (sorted_by_str ids) limit a))) (dedup actions)) by_repository"
  define cand where "cand = map repo_id (candidate_repositories d actor (role_actions d p)
           (batch_grants d now actor p (dedup actions)) required (sorted_by_str ids) (nat limit))"
  have small: "\<forall>x\<in>set cand. x < 2 ^ 128"
    using candidate_ids_known assms(4) by (fastforce simp: cand_def)
  have filt: "sorted_by_str (filter P cand) = filter P cand" for P
    using candidate_ids_distinct [OF assms(3)] candidate_ids_sorted small
    by (intro sorted_by_str_id sorted_ids_by_str) (auto simp: cand_def sorted_wrt_filter intro!: sorted_filter)
  have ret: "sorted_by_str (ars_repositories auth) = ars_repositories auth"
    unfolding repos cand_def [symmetric] by (rule filt)
  have "length (ars_repositories auth) \<le> length cand"
    unfolding repos cand_def [symmetric] by (rule length_filter_le)
  also have "length cand \<le> nat limit" by (simp add: cand_def candidate_repositories_def)
  finally have len: "length (ars_repositories auth) \<le> 100"
    using limit unfolding MAX_BATCH_AUTHORIZATION_REPOSITORIES_def by arith
  have sel: "ars_org auth = actor_org actor" "ars_actor_type auth = actor_type actor"
    "ars_principal auth = pr_id p" "ars_actor_repository auth = actor_repository actor"
    "ars_credential auth = actor_credential actor"
    "ars_credential_actions auth = sorted_set (actor_credential_actions actor)" "ars_proof auth"
    "ars_scope_ids_by_repository auth = by_repository"
    "ars_repository_ids_by_action auth =
       map (\<lambda>a. (a, filter (\<lambda>r. r \<in> set (ars_repositories auth))
           (permitted_repositories env now d actor p token (dedup actions) required
              (sorted_by_str ids) limit a))) (dedup actions)"
    by (subst auth, simp add: create_scopes_def)+
  have "action_rows_valid auth"
  proof -
    have "permitted_repositories env now d actor p token (dedup actions) required (sorted_by_str ids) limit a
        = filter (action_allowed_for_repository actor (role_actions d p)
             (batch_grants d now actor p (dedup actions)) token a) cand" for a
      by (simp add: permitted_repositories_def cand_def Let_def)
    then show ?thesis unfolding action_rows_valid_def sel(9) by (auto simp: o_def list_all_iff filt)
  qed
  moreover have "scope_rows_valid auth"
  proof -
    have rows: "\<forall>q\<in>set by_repository. length (snd q) \<le> 1000 \<and> sorted_by_str (snd q) = snd q"
      using scope_rows_bounded [OF sc assms(2)] by (auto simp: MAX_BATCH_AUTHORIZATION_SCOPES_def)
    have keys: "map fst by_repository = ars_repositories auth"
      using by_repository_keys [OF sc assms(2)] ret by simp
    then have n: "length by_repository \<le> 100" using len by (metis length_map)
    have "sum_list (map (\<lambda>q. length (snd q)) by_repository) \<le> length by_repository * 1000"
      using rows by (intro sum_list_bounded) auto
    also have "\<dots> \<le> 100000" using n by simp
    finally show ?thesis
      using rows keys unfolding scope_rows_valid_def sel(8)
      by (simp add: list_all_iff MAX_BATCH_AUTHORIZATION_SCOPES_def
          MAX_BATCH_AUTHORIZATION_SCOPE_BINDINGS_def)
  qed
  moreover have "parse_uuid (actor_id actor) = Some (pr_id p)"
    using resolved_acts_as [OF p] by (simp add: acts_as_def)
  ultimately show ?thesis
    using assms(2) len ret sel(1-7)
    by (simp add: is_bound_to_def MAX_BATCH_AUTHORIZATION_REPOSITORIES_def)
qed

section \<open>The recheck inside a query\<close>

lemma string_list_set: "string_list vs = Some acts \<Longrightarrow> JStr k \<in> set vs \<Longrightarrow> k \<in> set acts"
  by (induction vs arbitrary: acts rule: string_list.induct) auto

lemma json_strings_has_key: "json_strings v = Some acts \<Longrightarrow> json_has_key v k \<Longrightarrow> k \<in> set acts"
  by (auto simp: json_strings_def json_has_key_def split: json.splits dest: string_list_set)

definition token_actions_are_strings :: "db \<Rightarrow> bool" where
  "token_actions_are_strings d \<longleftrightarrow> (\<forall>t\<in>set (tokens d). json_strings (tok_allowed_actions t) \<noteq> None)"

text \<open>The principal the query sees, as one row: the unique constraints leave no choice.\<close>

lemma recheck_principal:
  assumes "access_keys d" "parse_uuid (actor_id actor) = Some pid"
    and "actor_type actor = lit ''USER'' \<or> actor_type actor = lit ''SERVICE''"
    and "current_scope_principal d actor pid s"
  obtains p where "acts_as d actor p" "pr_id p = pid"
    "case pr_row p of
       Member m \<Rightarrow> actor_type actor = lit ''USER'' \<and>
         (\<forall>x\<in>set (memberships d). mem_org x = actor_org actor \<and> mem_user x = pid \<longrightarrow> x = m)
     | Service z \<Rightarrow> actor_type actor \<noteq> lit ''USER'' \<and> sid_id z = pid"
proof (cases "actor_type actor = lit ''USER''")
  case True
  then obtain m where m: "m \<in> set (active_memberships d actor pid)"
    using assms(4) unfolding current_scope_principal_def by (cases "active_memberships d actor pid") auto
  have mm: "m \<in> set (memberships d)" "mem_org m = actor_org actor" "mem_user m = pid" "mem_active m"
    "organization_active (actor_org actor) d" "user_is_active pid d"
    using m by (auto simp: active_memberships_def)
  have keys: "distinct (map (\<lambda>m. (mem_org m, mem_user m)) (memberships d))"
    using assms(1) by (simp add: access_keys_def)
  have only: "\<forall>x\<in>set (memberships d). mem_org x = actor_org actor \<and> mem_user x = pid \<longrightarrow> x = m"
  proof (intro ballI impI)
    fix x assume "x \<in> set (memberships d)" "mem_org x = actor_org actor \<and> mem_user x = pid"
    then show "x = m" using unique_row [OF keys _ mm(1), of x] mm(2,3) by simp
  qed
  show thesis
  proof (rule that [of "\<lparr>pr_actor_type = actor_type actor, pr_id = pid, pr_row = Member m\<rparr>"])
    show "acts_as d actor \<lparr>pr_actor_type = actor_type actor, pr_id = pid, pr_row = Member m\<rparr>"
      using mm True assms(2) by (simp add: acts_as_def)
  qed (use True only in simp_all)
next
  case False
  then obtain z where z: "z \<in> set (active_services d actor pid)"
    using assms(4) unfolding current_scope_principal_def by (cases "active_services d actor pid") auto
  then show thesis
    using False assms(2,3)
    by (intro that [of "\<lparr>pr_actor_type = actor_type actor, pr_id = pid, pr_row = Service z\<rparr>"])
      (auto simp: acts_as_def active_services_def)
qed

lemma if_False_error_Inr:
  "(if c then Inr False else if e then Inl x else Inr q) = Inr True \<longleftrightarrow> \<not> c \<and> \<not> e \<and> q"
  by auto

text \<open>
  A row the filter admits without naming a repository is one it would admit for some repository of the
  snapshot: the one the scope is linked to, or any live one where the scope covers all.
\<close>

lemma scope_filter_names_pair:
  assumes "scope_filter_admits env now d actor auth a id_path relation_path row_scope row_repository = Inr True"
  shows "\<exists>sid r. row_scope = Some sid \<and> (id_path \<longrightarrow> row_repository = Some r)
     \<and> scope_filter_admits env now d actor auth a True True (Some sid) (Some r) = Inr True"
proof -
  have checks: "is_bound_to auth actor" "credential_allows actor a" "id_path = relation_path"
    using assms by (auto simp: scope_filter_admits_def bind_res_Inr guard_res_Inr)
  note row = assms [unfolded scope_filter_admits_def bind_res_Inr guard_res_Inr Let_def]
  obtain sid where sid: "row_scope = Some sid" using row by (cases row_scope) (auto split: if_splits)
  show ?thesis
  proof (cases id_path)
    case True
    then obtain r where "row_repository = Some r" using row sid by (cases row_repository) (auto split: if_splits)
    then show ?thesis using assms sid True checks(3) by auto
  next
    case False
    let ?sids = "scope_ids_for auth a" and ?pid = "ars_principal auth"
    define live where "live = filter (\<lambda>r. r \<in> set (repository_ids_for auth a)
        \<and> list_ex (\<lambda>x. repo_id x = r \<and> repo_org x = actor_org actor \<and> repo_active x) (repositories d)
        \<and> organization_active (actor_org actor) d
        \<and> current_action_filter env d now actor ?pid a r) (repository_ids_for auth a)"
    have kinds: "repository_ids_for auth a \<noteq> []" "?sids \<noteq> []"
      "actor_type actor = lit ''USER'' \<or> actor_type actor = lit ''SERVICE''"
      using row by (auto split: if_splits)
    have "live \<noteq> [] \<and> list_ex (\<lambda>s. sc_all_repositories s
        \<or> list_ex (\<lambda>l. ln_scope l = sc_id s \<and> ln_org l = actor_org actor \<and> ln_target l \<in> set live
             \<and> active_repository d (ln_target l)) (scope_repositories d)) (current_scopes d actor ?pid sid ?sids)"
      using row kinds False unfolding sid live_def [symmetric] by (auto split: if_splits)
    then obtain s where live: "live \<noteq> []" and s: "s \<in> set (current_scopes d actor ?pid sid ?sids)"
      and covers: "sc_all_repositories s
        \<or> (\<exists>l\<in>set (scope_repositories d). ln_scope l = sc_id s \<and> ln_org l = actor_org actor \<and> ln_target l \<in> set live
             \<and> active_repository d (ln_target l))"
      by (auto simp: list_ex_iff)
    from covers live obtain r where r: "r \<in> set live" "sc_all_repositories s
        \<or> (\<exists>l\<in>set (scope_repositories d). ln_scope l = sc_id s \<and> ln_org l = actor_org actor \<and> ln_target l = r
             \<and> active_repository d (ln_target l))"
      by (cases live) auto
    have in_scope: "sid \<in> set ?sids" using s by (auto simp: current_scopes_def)
    have open_pair: "list_ex (\<lambda>s. sc_all_repositories s
        \<or> list_ex (\<lambda>l. ln_scope l = sc_id s \<and> ln_org l = actor_org actor \<and> ln_target l = r
             \<and> active_repository d (ln_target l)) (scope_repositories d)) (current_scopes d actor ?pid sid ?sids)"
      using s r(2) by (auto simp: list_ex_iff)
    have "scope_filter_admits env now d actor auth a True True (Some sid) (Some r) = Inr True"
      unfolding scope_filter_admits_def Let_def
      using checks kinds in_scope open_pair r(1) by (simp add: live_def guard_res_def del: lit_simps)
    then show ?thesis using sid False by blast
  qed
qed

lemma scope_filter_may_act:
  assumes keys: "access_keys d" "token_actions_are_strings d"
    and own: "actor_repository actor = None \<or> actor_repository actor = Some r"
    and cred: "actor_credential actor \<noteq> None \<Longrightarrow> actor_repository actor = Some r"
    and admits: "scope_filter_admits env now d actor auth a True True (Some sid) (Some r) = Inr True"
  shows "\<exists>p. may_act env now d actor p a (Some r) None (Some sid) False"
proof -
  define pid where "pid = ars_principal auth"
  have bound: "is_bound_to auth actor" and allows: "credential_allows actor a"
    and rest: "(if repository_ids_for auth a = [] \<or> scope_ids_for auth a = [] then Inr False
       else if actor_type actor \<noteq> lit ''USER'' \<and> actor_type actor \<noteq> lit ''SERVICE''
       then Inl ResourceNotFoundError
       else Inr (sid \<in> set (scope_ids_for auth a) \<and> r \<in> set (repository_ids_for auth a)
          \<and> list_ex (\<lambda>x. repo_id x = r \<and> repo_org x = actor_org actor \<and> repo_active x) (repositories d)
          \<and> list_ex (\<lambda>s. sc_all_repositories s
               \<or> list_ex (\<lambda>l. ln_scope l = sc_id s \<and> ln_org l = actor_org actor
                    \<and> ln_target l = r \<and> active_repository d (ln_target l)) (scope_repositories d))
              (current_scopes d actor pid sid (scope_ids_for auth a))
          \<and> current_action_filter env d now actor pid a r)) = Inr True"
    using admits
    unfolding scope_filter_admits_def bind_res_Inr guard_res_Inr Let_def pid_def option.case if_True
    by blast+
  note row = rest [unfolded if_False_error_Inr]
  have ty: "actor_type actor = lit ''USER'' \<or> actor_type actor = lit ''SERVICE''" using row by blast
  have repo: "list_ex (\<lambda>x. repo_id x = r \<and> repo_org x = actor_org actor \<and> repo_active x) (repositories d)"
    and cur: "list_ex (\<lambda>s. sc_all_repositories s
         \<or> list_ex (\<lambda>l. ln_scope l = sc_id s \<and> ln_org l = actor_org actor \<and> ln_target l = r
              \<and> active_repository d (ln_target l)) (scope_repositories d))
        (current_scopes d actor pid sid (scope_ids_for auth a))"
    and act: "current_action_filter env d now actor pid a r"
    using row by blast+
  from cur obtain s where s: "s \<in> set (current_scopes d actor pid sid (scope_ids_for auth a))"
    and covers: "sc_all_repositories s \<or> linked s r (scope_repositories d)"
    by (auto simp: list_ex_iff linked_def)
  have sc: "s \<in> set (scopes d)" "sc_id s = sid" "sc_org s = actor_org actor" "sc_active s"
    "\<not> has_source_in d [SOURCE_REVOKED, SOURCE_DISABLED] s" "current_scope_principal d actor pid s"
    using s by (auto simp: current_scopes_def)
  have pid: "parse_uuid (actor_id actor) = Some pid"
    using bound by (auto simp: is_bound_to_def pid_def split: option.splits)
  show ?thesis
  proof (rule recheck_principal [OF keys(1) pid ty sc(6)])
    fix p
    assume p: "acts_as d actor p" "pr_id p = pid" "case pr_row p of
       Member m \<Rightarrow> actor_type actor = lit ''USER'' \<and>
         (\<forall>x\<in>set (memberships d). mem_org x = actor_org actor \<and> mem_user x = pid \<longrightarrow> x = m)
     | Service z \<Rightarrow> actor_type actor \<noteq> lit ''USER'' \<and> sid_id z = pid"
    have "token_backs env d now actor p a"
    proof (cases "actor_credential actor")
      case None
      then show ?thesis by (simp add: token_backs_def)
    next
      case (Some c)
      then obtain t where t: "t \<in> set (tokens d)" "live_token env d now actor pid c r t"
        "json_has_key (tok_allowed_actions t) (action_value a)"
        using act by (auto simp: current_action_filter_def current_token_allows_def list_ex_iff)
      obtain acts where "json_strings (tok_allowed_actions t) = Some acts"
        using keys(2) t(1) by (auto simp: token_actions_are_strings_def)
      then show ?thesis
        using Some t p(2) cred json_strings_has_key [OF _ t(3)] unfolding token_backs_def
        by (metis option.inject option.distinct(1))
    qed
    moreover have "entitled d now p a (Some r) None \<and> scope_includes_principal d p s"
    proof (cases "pr_row p")
      case (Member m)
      then have u: "actor_type actor = lit ''USER''"
        and only: "\<And>x. x \<in> set (memberships d) \<Longrightarrow> mem_org x = actor_org actor \<Longrightarrow> mem_user x = pid \<Longrightarrow> x = m"
        using p(3) by auto
      have "scope_includes_principal d p s"
        using sc(6) u Member only
        by (auto simp: current_scope_principal_def scope_includes_principal_def linked_def list_ex_iff)
      moreover have "entitled d now p a (Some r) None"
        using act u Member only unfolding current_action_filter_def current_role_allowed_def entitled_def
        by (auto simp: list_ex_iff active_memberships_def role_actions_def current_grants_def grant_of_def
            split: option.splits)
      ultimately show ?thesis by simp
    next
      case (Service z)
      then have u: "actor_type actor \<noteq> lit ''USER''" and z: "sid_id z = pid" using p(3) by simp_all
      have "scope_includes_principal d p s"
        using sc(6) u Service z
        by (auto simp: current_scope_principal_def scope_includes_principal_def linked_def list_ex_iff)
      moreover have "entitled d now p a (Some r) None"
        using act u Service z unfolding current_action_filter_def current_role_allowed_def entitled_def
        by (auto simp: list_ex_iff current_grants_def grant_of_def)
      ultimately show ?thesis by simp
    qed
    moreover have "scope_allows d p s (Some r) False False" if "scope_includes_principal d p s"
      using that sc(4,5) covers by (auto simp: scope_allows_def has_source_in_def list_ex_iff)
    ultimately show ?thesis
      using p(1) allows own repo sc(1-3) unfolding may_act_def by (auto simp: list_ex_iff scope_allows_open)
  qed
qed

section \<open>Other tenants\<close>

text \<open>
  The database as one tenant's requests may depend on it: the memberships, services, repositories,
  sources, scopes and tokens of every other tenant are gone.
\<close>

definition tenant_view :: "uuid \<Rightarrow> db \<Rightarrow> db" where
  "tenant_view org d =
     d\<lparr>memberships := filter (\<lambda>x. mem_org x = org) (memberships d),
       service_identities := filter (\<lambda>x. sid_org x = org) (service_identities d),
       repositories := filter (\<lambda>x. repo_org x = org) (repositories d),
       sources := filter (\<lambda>x. src_org x = org) (sources d),
       scopes := filter (\<lambda>x. sc_org x = org) (scopes d),
       tokens := filter (\<lambda>x. tok_org x = org) (tokens d)\<rparr>"

text \<open>
  The composite foreign keys of the schema (a referenced row is of the referring row's tenant),
  for the references a decision follows.
\<close>

definition tenant_references :: "db \<Rightarrow> bool" where
  "tenant_references d \<longleftrightarrow>
     (\<forall>l\<in>set (scope_sources d). \<forall>s\<in>set (scopes d). \<forall>x\<in>set (sources d).
        ln_scope l = sc_id s \<and> src_id x = ln_target l \<longrightarrow> src_org x = sc_org s)
     \<and> (\<forall>t\<in>set (tokens d). \<forall>x\<in>set (repositories d). repo_id x = tok_repository t \<longrightarrow> repo_org x = tok_org t)
     \<and> (\<forall>t\<in>set (tokens d). \<forall>x\<in>set (service_identities d).
          sid_id x = tok_service_identity t \<longrightarrow> sid_org x = tok_org t)"

lemma tenant_view_simps [simp]:
  "organizations (tenant_view org d) = organizations d" "users (tenant_view org d) = users d"
  "roles (tenant_view org d) = roles d" "grants (tenant_view org d) = grants d"
  "memberships (tenant_view org d) = filter (\<lambda>x. mem_org x = org) (memberships d)"
  "service_identities (tenant_view org d) = filter (\<lambda>x. sid_org x = org) (service_identities d)"
  "repositories (tenant_view org d) = filter (\<lambda>x. repo_org x = org) (repositories d)"
  "sources (tenant_view org d) = filter (\<lambda>x. src_org x = org) (sources d)"
  "scopes (tenant_view org d) = filter (\<lambda>x. sc_org x = org) (scopes d)"
  "tokens (tenant_view org d) = filter (\<lambda>x. tok_org x = org) (tokens d)"
  "scope_memberships (tenant_view org d) = scope_memberships d"
  "scope_services (tenant_view org d) = scope_services d"
  "scope_repositories (tenant_view org d) = scope_repositories d"
  "scope_sources (tenant_view org d) = scope_sources d"
  by (simp_all add: tenant_view_def)

lemma filter_weaken: "(\<And>x. x \<in> set xs \<Longrightarrow> P x \<Longrightarrow> Q x) \<Longrightarrow> filter P (filter Q xs) = filter P xs"
  by (induction xs) auto

lemma view_principal: "resolve_principal (tenant_view (actor_org actor) d) actor = resolve_principal d actor"
proof -
  have "filter (\<lambda>m. mem_org m = actor_org actor \<and> organization_active (actor_org actor) d
             \<and> mem_user m = pid \<and> user_is_active pid d \<and> mem_active m)
          (filter (\<lambda>x. mem_org x = actor_org actor) (memberships d))
        = filter (\<lambda>m. mem_org m = actor_org actor \<and> organization_active (actor_org actor) d
             \<and> mem_user m = pid \<and> user_is_active pid d \<and> mem_active m) (memberships d)"
    "filter (\<lambda>s. sid_id s = pid \<and> sid_org s = actor_org actor
             \<and> organization_active (actor_org actor) d \<and> sid_active s)
          (filter (\<lambda>x. sid_org x = actor_org actor) (service_identities d))
        = filter (\<lambda>s. sid_id s = pid \<and> sid_org s = actor_org actor
             \<and> organization_active (actor_org actor) d \<and> sid_active s) (service_identities d)" for pid
    by (rule filter_weaken, simp)+
  moreover have "organization_active org (tenant_view (actor_org actor) d) = organization_active org d"
    "user_is_active u (tenant_view (actor_org actor) d) = user_is_active u d" for org u
    by (simp_all add: organization_active_def user_is_active_def)
  ultimately show ?thesis unfolding resolve_principal_def tenant_view_simps by (simp only:)
qed

lemma list_ex_filter: "list_ex P (filter Q xs) = list_ex (\<lambda>x. Q x \<and> P x) xs"
  by (induction xs) auto

lemma view_credential:
  assumes "tenant_references d"
  shows "check_credential env (tenant_view (actor_org actor) d) now actor p a
         = check_credential env d now actor p a"
proof -
  let ?v = "tenant_view (actor_org actor) d"
  have live: "live_token env ?v now actor pid c r t = live_token env d now actor pid c r t"
    if "t \<in> set (tokens d)" for pid c r t
    using assms that by (auto simp: live_token_def tenant_references_def list_ex_iff)
  have "filter (live_token env ?v now actor pid c r) (tokens ?v)
        = filter (live_token env d now actor pid c r) (tokens d)" for pid c r
  proof -
    have "filter (live_token env ?v now actor pid c r) (tokens ?v)
        = filter (live_token env ?v now actor pid c r) (tokens d)"
      unfolding tenant_view_simps by (rule filter_weaken) (simp add: live_token_def)
    also have "\<dots> = filter (live_token env d now actor pid c r) (tokens d)"
      by (rule filter_cong) (simp_all add: live)
    finally show ?thesis .
  qed
  then show ?thesis unfolding check_credential_def by (simp only:)
qed

lemma view_repository:
  "check_repository (tenant_view (actor_org actor) d) actor repository = check_repository d actor repository"
proof -
  have "list_ex (\<lambda>x. repo_id x = r \<and> repo_org x = actor_org actor \<and> repo_active x)
          (filter (\<lambda>x. repo_org x = actor_org actor) (repositories d))
        = list_ex (\<lambda>x. repo_id x = r \<and> repo_org x = actor_org actor \<and> repo_active x) (repositories d)" for r
    by (auto simp: list_ex_iff)
  then show ?thesis unfolding check_repository_def tenant_view_simps by (simp only:)
qed

lemma find_by_restrict: "find_by (\<lambda>x. P x \<and> Q x) (filter Q xs) = find_by (\<lambda>x. P x \<and> Q x) xs"
  by (induction xs) auto

lemma view_source:
  "check_source (tenant_view (actor_org actor) d) actor source allow = check_source d actor source allow"
  by (cases source)
    (simp_all add: check_source_def find_by_restrict [where Q = "\<lambda>x. src_org x = actor_org actor"])

lemma view_scope:
  assumes "tenant_references d"
  shows "check_scope (tenant_view (actor_org actor) d) actor p repository scope
         = check_scope d actor p repository scope"
proof (cases scope)
  case None
  then show ?thesis by (simp add: check_scope_def)
next
  case (Some c)
  let ?v = "tenant_view (actor_org actor) d"
  let ?f = "find_by (\<lambda>s. sc_id s = c \<and> sc_org s = actor_org actor) (scopes d)"
  have f: "find_by (\<lambda>s. sc_id s = c \<and> sc_org s = actor_org actor) (scopes ?v) = ?f"
    by (simp add: find_by_restrict [where Q = "\<lambda>x. sc_org x = actor_org actor"])
  show ?thesis
  proof (cases ?f)
    case None
    show ?thesis unfolding check_scope_def Some option.case f None ..
  next
    case x: (Some x)
    have xs: "x \<in> set (scopes d)" "sc_org x = actor_org actor" using find_by_Some_iff [OF x] by simp_all
    have "has_source_in ?v [SOURCE_REVOKED] x = has_source_in d [SOURCE_REVOKED] x"
    proof -
      have "src_org s = actor_org actor"
        if "l \<in> set (scope_sources d)" "ln_scope l = sc_id x" "s \<in> set (sources d)" "src_id s = ln_target l"
        for l s using assms xs that unfolding tenant_references_def by metis
      then show ?thesis unfolding has_source_in_def list_ex_iff tenant_view_simps by auto
    qed
    then have "scope_allows ?v p x repository False False = scope_allows d p x repository False False"
      unfolding scope_allows_def scope_includes_principal_def tenant_view_simps by (simp only:)
    then show ?thesis unfolding check_scope_def Some option.case f x by (simp only:)
  qed
qed

lemma view_decision:
  assumes "tenant_references d"
  shows "authorize_action env now (tenant_view (actor_org actor) d) actor a repository source scope allow
         = authorize_action env now d actor a repository source scope allow"
proof -
  have "role_actions (tenant_view (actor_org actor) d) p = role_actions d p"
    "relevant_grants (tenant_view (actor_org actor) d) now p a repository source
       = relevant_grants d now p a repository source"
    "decision_path (tenant_view (actor_org actor) d) actor p a g repository source scope
       = decision_path d actor p a g repository source scope" for p g
    unfolding role_actions_def membership_role_def relevant_grants_def active_grants_def
      decision_path_def tenant_view_simps by (rule refl)+
  then show ?thesis
    unfolding authorize_action_def view_principal view_credential [OF assms] view_repository
      view_source view_scope [OF assms] by (simp only:)
qed

end
