(* ===== verification/AuthorizationClaims.thy ===== *)
theory AuthorizationClaims
  imports AuthorizationSafety Samples
begin

text \<open>The properties of the authorization service, on a small deployment that meets them.\<close>

section \<open>A sample deployment\<close>

text \<open>
  Tenant 1 has a developer (user 10), a service (40), a repository (50), an open scope (60), and a
  scope (61) bound to a source that an operator has disabled; tenant 2 has a repository (51).  The
  service holds a token (80) for viewing repository 50.
\<close>

definition sample_scope :: "uuid \<Rightarrow> access_scope" where
  "sample_scope i = \<lparr>sc_id = i, sc_org = 1, sc_name = [], sc_all_memberships = True,
     sc_all_service_identities = False, sc_all_repositories = True, sc_active = True,
     sc_is_derived = False, sc_boundary_sealed_at = None, sc_derived_from = [], sc_revision = 1\<rparr>"

definition sample_member :: membership where
  "sample_member = \<lparr>mem_id = 30, mem_org = 1, mem_user = 10, mem_role = 20, mem_active = True,
                    mem_revision = 1, mem_created_at = 0\<rparr>"

definition sample_service :: service_identity where
  "sample_service = \<lparr>sid_id = 40, sid_org = 1, sid_active = True\<rparr>"

definition sample_token :: access_token where
  "sample_token = \<lparr>tok_id = 80, tok_org = 1, tok_repository = 50, tok_service_identity = 40,
     tok_hash = [], tok_allowed_actions = JList [JStr (action_value REPOSITORY_VIEW)],
     tok_issuer = lit ''anva'', tok_audience = lit ''anva-api'', tok_issued_at = 0,
     tok_expires_at = 1000, tok_revoked_at = None, tok_last_used_at = None, tok_rotated_from = None\<rparr>"

definition sample_grant :: access_grant where
  "sample_grant = \<lparr>gr_org = 1, gr_membership = None, gr_service_identity = Some 40,
     gr_repository = Some 50, gr_source = None, gr_action = action_value REPOSITORY_VIEW,
     gr_expires_at = None, gr_revoked_at = None\<rparr>"

definition sample_access :: db where
  "sample_access = sample_db\<lparr>
     users := [\<lparr>user_id = 10, user_email = [], user_display_name = [], user_active = True\<rparr>],
     roles := [\<lparr>role_id = 20, role_org = 1, role_code = DEVELOPER\<rparr>],
     memberships := [sample_member], service_identities := [sample_service],
     repositories := [\<lparr>repo_id = 50, repo_org = 1, repo_external_id = [], repo_active = True\<rparr>,
                      \<lparr>repo_id = 51, repo_org = 2, repo_external_id = [], repo_active = True\<rparr>],
     sources := [\<lparr>src_id = 70, src_org = 1, src_repository = None, src_state = SOURCE_DISABLED,
                  src_revision = 1\<rparr>],
     scopes := [sample_scope 60, sample_scope 61],
     scope_sources := [\<lparr>ln_org = 1, ln_scope = 61, ln_target = 70\<rparr>],
     grants := [sample_grant], tokens := [sample_token]\<rparr>"

definition sample_user :: actor_context where
  "sample_user = (sample_actor 90)\<lparr>actor_type := lit ''USER'', actor_id := uuid_str 10\<rparr>"

definition sample_bearer :: actor_context where
  "sample_bearer = (sample_actor 91)\<lparr>actor_id := uuid_str 40, actor_repository := Some 50,
     actor_credential := Some 80, actor_credential_actions := [action_value REPOSITORY_VIEW]\<rparr>"

lemma sample_users_parse [simp]:
  "parse_uuid (actor_id sample_user) = Some 10" "parse_uuid (actor_id sample_bearer) = Some 40"
  by (simp_all add: sample_user_def sample_bearer_def parse_uuid_str)

lemma sample_user_simps [simp]:
  "actor_type sample_user = lit ''USER''" "actor_org sample_user = 1"
  "actor_repository sample_user = None" "actor_credential sample_user = None"
  "actor_credential_actions sample_user = []"
  "actor_type sample_bearer = lit ''SERVICE''" "actor_org sample_bearer = 1"
  "actor_repository sample_bearer = Some 50" "actor_credential sample_bearer = Some 80"
  "actor_credential_actions sample_bearer = [action_value REPOSITORY_VIEW]"
  by (simp_all add: sample_user_def sample_bearer_def sample_actor_def)

lemmas sample_access_rows = sample_access_def sample_db_def empty_db_def sample_scope_def
  sample_member_def sample_service_def sample_token_def sample_grant_def

lemma sample_access_keys: "access_keys sample_access"
  by (simp add: access_keys_def sample_access_rows)

lemma sample_tenant_references: "tenant_references sample_access"
  by (simp add: tenant_references_def sample_access_rows)

definition sample_principal :: principal where
  "sample_principal = \<lparr>pr_actor_type = lit ''USER'', pr_id = 10, pr_row = Member sample_member\<rparr>"

lemma sample_principal_simps [simp]:
  "pr_row sample_principal = Member sample_member" "pr_id sample_principal = 10"
  by (simp_all add: sample_principal_def)

lemma sample_user_principal: "resolve_principal sample_access sample_user = Inr sample_principal"
  by (simp add: sample_principal_def resolve_principal_def sample_access_rows organization_active_def user_is_active_def
      first_by_def)

lemma sample_bearer_principal:
  "resolve_principal sample_access sample_bearer =
     Inr \<lparr>pr_actor_type = lit ''SERVICE'', pr_id = 40, pr_row = Service sample_service\<rparr>"
  by (simp add: resolve_principal_def sample_access_rows organization_active_def first_by_def)

lemma sample_developer: "KNOWLEDGE_PROPOSE \<in> set (ROLE_ACTIONS DEVELOPER)" by simp

lemma sample_user_allowed:
  "\<exists>dec. authorize_action env 5 sample_access sample_user KNOWLEDGE_PROPOSE (Some 50) None (Some 60) False
     = Inr dec"
  unfolding authorize_action_def sample_user_principal
  by (simp add: check_credential_def credential_allows_def check_repository_def check_source_def
      check_scope_def scope_allows_def scope_includes_principal_def has_source_in_def
      role_actions_def membership_role_def sample_access_rows Let_def)

definition sample_snapshot :: authorized_repository_scopes where
  "sample_snapshot = create_scopes sample_user 10 [50] [(REPOSITORY_VIEW, [50])] [(50, [60])]"

lemma sample_resolved:
  "resolve_authorized_repository_scopes sample_env 5 sample_access sample_user [REPOSITORY_VIEW]
     REPOSITORY_VIEW [] 100 = Inr sample_snapshot"
proof -
  let ?p = sample_principal
  have roles: "role_actions sample_access ?p = ROLE_ACTIONS DEVELOPER"
    by (simp add: role_actions_def membership_role_def sample_access_rows)
  have grants: "batch_grants sample_access 5 sample_user ?p [REPOSITORY_VIEW] = []"
    by (simp add: batch_grants_def grant_of_def sample_access_rows)
  have view: "REPOSITORY_VIEW \<in> set (ROLE_ACTIONS DEVELOPER)" by (simp add: VIEW_ACTIONS_def)
  have cand: "map repo_id (candidate_repositories sample_access sample_user (ROLE_ACTIONS DEVELOPER) []
      REPOSITORY_VIEW [] 100) = [50]"
    using view by (simp add: candidate_repositories_def sample_access_rows)
  then have cand_set: "repo_id ` set (candidate_repositories sample_access sample_user
      (ROLE_ACTIONS DEVELOPER) [] REPOSITORY_VIEW [] 100) = {50}"
    by (metis empty_set list.set_map list.simps(15))
  have scopes: "resolve_scope_ids sample_access sample_user ?p [50] = Inr [(50, [60])]"
    by (simp add: resolve_scope_ids_def visible_scopes_def has_source_in_def scope_includes_principal_def
        sample_access_rows sorted_by_str_def Let_def MAX_BATCH_AUTHORIZATION_SCOPES_def
        MAX_BATCH_AUTHORIZATION_SCOPE_BINDINGS_def)
  have allowed: "action_allowed_for_repository sample_user (ROLE_ACTIONS DEVELOPER) [] None REPOSITORY_VIEW 50"
    using view by (simp add: action_allowed_for_repository_def credential_allows_def del: ROLE_ACTIONS.simps)
  show ?thesis
    unfolding resolve_authorized_repository_scopes_def sample_user_principal
    by (simp add: dedup_def sorted_by_str_def token_boundary_def roles grants cand cand_set scopes allowed
        MAX_BATCH_AUTHORIZATION_REPOSITORIES_def all_actions_def Let_def sample_snapshot_def
        del: ROLE_ACTIONS.simps)
qed

lemma sample_repository_ids: "repository_ids_for sample_snapshot REPOSITORY_VIEW = [50]"
  by (simp add: repository_ids_for_def sample_snapshot_def create_scopes_def)

section \<open>Properties\<close>

text \<open>C1: What a decision requires, exactly.  On tables that meet their unique constraints,
  \<^verbatim>\<open>authorize_action\<close> allows a request if and only if an active principal of an active
  organization stands behind the actor; its role or a live grant covers the action, the repository
  and the source; a credential, if any, is a live token of that principal and repository that lists
  the action; and the repository, source and scope named are of the actor's tenant and open to it.
  Nothing else is ever allowed, and nothing that meets this is refused.\<close>

theorem authorization_decision_is_exact:
  assumes "access_keys d"
  shows "returns (authorize_action env now d actor a repository source scope allow_revoked) \<longleftrightarrow>
     (\<exists>p. may_act env now d actor p a repository source scope allow_revoked)"
  by (rule authorize_action_may_act [OF assms])

theorem authorization_decision_is_exact_witness:
  "\<exists>p. may_act sample_env 5 sample_access sample_user p KNOWLEDGE_PROPOSE (Some 50) None (Some 60) False"
  using authorization_decision_is_exact [OF sample_access_keys, of sample_env 5 sample_user
      KNOWLEDGE_PROPOSE "Some 50" None "Some 60" False] sample_user_allowed [of sample_env]
  by (auto simp: returns_def)

text \<open>A decision reveals nothing of other tenants.  With the rows of every other tenant deleted
  (memberships, services, repositories, sources, scopes, tokens) each request gets the same answer,
  so a foreign identifier cannot be told from one that does not exist; and a refusal is one of two
  errors, whatever the reason.\<close>

theorem decision_is_tenant_local:
  assumes "tenant_references d"
  shows "authorize_action env now (tenant_view (actor_org actor) d) actor a repository source scope allow_revoked
           = authorize_action env now d actor a repository source scope allow_revoked
         \<and> (\<forall>e. authorize_action env now d actor a repository source scope allow_revoked = Inl e
              \<longrightarrow> e \<in> {AuthenticationError, ResourceNotFoundError})"
proof (intro conjI allI impI)
  show "authorize_action env now (tenant_view (actor_org actor) d) actor a repository source scope allow_revoked
      = authorize_action env now d actor a repository source scope allow_revoked"
    by (rule view_decision [OF assms])
  show "e \<in> {AuthenticationError, ResourceNotFoundError}"
    if "authorize_action env now d actor a repository source scope allow_revoked = Inl e" for e
    using authorize_action_errors [OF that] by simp
qed

theorem decision_is_tenant_local_witness:
  "authorize_action sample_env 5 sample_access sample_user REPOSITORY_VIEW (Some 51) None None False
     = authorize_action sample_env 5 (tenant_view 1 sample_access) sample_user REPOSITORY_VIEW (Some 51)
         None None False"
  using decision_is_tenant_local [OF sample_tenant_references, of sample_env 5 sample_user] by simp

text \<open>A credential only narrows.  Whatever a bearer of a token is allowed to do, the token is at
  that instant neither revoked nor expired, belongs to the acting service and to the very
  repository of the request, and lists the action, and so does the list the caller
  authenticated with.\<close>

theorem credential_only_narrows:
  assumes "access_keys d" and "actor_credential actor = Some c"
    and "authorize_action env now d actor a repository source scope allow_revoked = Inr dec"
  shows "\<exists>t\<in>set (tokens d). tok_id t = c \<and> tok_org t = actor_org actor
           \<and> repository = Some (tok_repository t)
           \<and> parse_uuid (actor_id actor) = Some (tok_service_identity t)
           \<and> tok_revoked_at t = None \<and> now < tok_expires_at t
           \<and> (\<exists>acts. json_strings (tok_allowed_actions t) = Some acts \<and> action_value a \<in> set acts)
           \<and> (actor_credential_actions actor = [] \<or> action_value a \<in> set (actor_credential_actions actor))"
proof -
  obtain p where m: "may_act env now d actor p a repository source scope allow_revoked"
    using authorize_action_may_act [OF assms(1)] assms(3) by (metis returns_simps(1))
  then have p: "parse_uuid (actor_id actor) = Some (pr_id p)" "credential_allows actor a"
    and own: "actor_repository actor = None \<or> repository = actor_repository actor"
    by (simp_all add: may_act_def acts_as_def)
  from m assms(2) obtain r t acts where r: "actor_repository actor = Some r"
    and t: "t \<in> set (tokens d)" "live_token env d now actor (pr_id p) c r t"
    and acts: "json_strings (tok_allowed_actions t) = Some acts" "action_value a \<in> set acts"
    unfolding may_act_def token_backs_def by blast
  have "tok_id t = c" "tok_org t = actor_org actor" "tok_repository t = r"
    "tok_service_identity t = pr_id p" "tok_revoked_at t = None" "now < tok_expires_at t"
    using t(2) unfolding live_token_def by blast+
  then show ?thesis using t(1) r own p acts by (intro bexI [of _ t]) (auto simp: credential_allows_def)
qed

theorem credential_only_narrows_witness:
  "\<exists>t\<in>set (tokens sample_access). tok_id t = 80 \<and> Some 50 = Some (tok_repository t) \<and> 5 < tok_expires_at t"
proof -
  have "\<exists>dec. authorize_action sample_env 5 sample_access sample_bearer REPOSITORY_VIEW (Some 50) None None False
      = Inr dec"
    unfolding authorize_action_def sample_bearer_principal
    by (simp add: check_credential_def live_token_def json_strings_def first_by_def sample_env_def
        credential_allows_def check_repository_def check_source_def check_scope_def role_actions_def
        relevant_grants_def active_grants_def unexpired_def grant_of_def sample_access_rows Let_def)
  then show ?thesis
    using credential_only_narrows [OF sample_access_keys, of sample_bearer 80] by fastforce
qed

text \<open>C3: The batch never exceeds the single decision.  Every pair of an action and a repository in a
  resolved snapshot is allowed by \<^verbatim>\<open>authorize_action\<close>, and so is every scope the snapshot lists for
  that repository: a union of scopes never becomes authority over another repository.\<close>

theorem batch_never_exceeds_the_single_decision:
  assumes "access_keys d"
    and "resolve_authorized_repository_scopes env now d actor actions required ids limit = Inr auth"
    and "r \<in> set (repository_ids_for auth a)"
    and "(r, sids) \<in> set (ars_scope_ids_by_repository auth)" and "sid \<in> set sids"
  shows "returns (authorize_action env now d actor a (Some r) None None False)
         \<and> returns (authorize_action env now d actor a (Some r) None (Some sid) False)"
proof -
  obtain p where p: "resolve_principal d actor = Inr p" "may_act env now d actor p a (Some r) None None False"
    using resolved_pair_may_act [OF assms(2,3)] by blast
  obtain by_repository where sc: "resolve_scope_ids d actor p (ars_repositories auth) = Inr by_repository"
    and rows: "ars_scope_ids_by_repository auth = by_repository"
  proof (rule resolve_Inr [OF assms(2)])
    fix p' token by_repository
    assume q: "resolve_principal d actor = Inr p'"
      "resolve_scope_ids d actor p' (ars_repositories auth) = Inr by_repository"
      and auth: "auth = create_scopes actor (pr_id p') (ars_repositories auth)
       (map (\<lambda>a. (a, filter (\<lambda>r. r \<in> set (ars_repositories auth))
           (permitted_repositories env now d actor p' token (dedup actions) required
              (sorted_by_str ids) limit a))) (dedup actions)) by_repository"
    have "ars_scope_ids_by_repository auth = by_repository"
      using arg_cong [OF auth, of ars_scope_ids_by_repository] by (simp add: create_scopes_def)
    then show thesis using that q p(1) by simp
  qed
  have "distinct (map sc_id (scopes d))" using assms(1) by (simp add: access_keys_def)
  from resolved_scope_allows [OF sc assms(4) [unfolded rows] assms(5) this]
  have "may_act env now d actor p a (Some r) None (Some sid) False"
    using p(2) unfolding may_act_def scope_allows_open by blast
  then show ?thesis using p(2) authorize_action_may_act [OF assms(1)] by blast
qed

theorem batch_never_exceeds_the_single_decision_witness:
  "returns (authorize_action sample_env 5 sample_access sample_user REPOSITORY_VIEW (Some 50) None (Some 60) False)"
  using batch_never_exceeds_the_single_decision [OF sample_access_keys sample_resolved, of 50 REPOSITORY_VIEW
      "[60]" 60] sample_repository_ids
  by (simp add: sample_snapshot_def create_scopes_def)

text \<open>C23: A stale snapshot opens nothing.  A snapshot resolved earlier, on any database, is presented
  with a query now, in either mode of the compiled filter.  A row it admits lies in a scope that
  \<^verbatim>\<open>authorize_action\<close> opens at this instant to the same actor for the same action in a repository of the
  snapshot: the row's own repository where the query names it, some repository of the snapshot where it
  names none.  So whatever was revoked in between is refused.\<close>

theorem stale_snapshot_opens_nothing:
  assumes "access_keys d" and "token_actions_are_strings d"
    and "resolve_authorized_repository_scopes env now0 d0 actor actions required ids limit = Inr auth"
    and "scope_filter_admits env now d actor auth a id_path relation_path row_scope row_repository = Inr True"
  shows "\<exists>sid r. row_scope = Some sid \<and> r \<in> set (repository_ids_for auth a) \<and> (id_path \<longrightarrow> row_repository = Some r)
     \<and> returns (authorize_action env now d actor a (Some r) None (Some sid) False)"
proof -
  from scope_filter_names_pair [OF assms(4)] obtain sid r where
    pair: "row_scope = Some sid" "id_path \<longrightarrow> row_repository = Some r"
    and admits: "scope_filter_admits env now d actor auth a True True (Some sid) (Some r) = Inr True" by blast
  have r: "r \<in> set (repository_ids_for auth a)"
    using admits unfolding scope_filter_admits_def bind_res_Inr guard_res_Inr Let_def option.case if_True
    by (simp only: if_False_error_Inr) blast
  from resolved_pair_may_act [OF assms(3) this] obtain p where
    p: "may_act env now0 d0 actor p a (Some r) None None False" by blast
  have own: "actor_repository actor = None \<or> actor_repository actor = Some r"
    using p by (auto simp: may_act_def)
  have cred: "actor_repository actor = Some r" if "actor_credential actor \<noteq> None"
    using p that own unfolding may_act_def token_backs_def by (metis not_None_eq option.discI)
  from scope_filter_may_act [OF assms(1,2) own cred admits] authorize_action_may_act [OF assms(1)]
  have "returns (authorize_action env now d actor a (Some r) None (Some sid) False)" by blast
  with pair r show ?thesis by blast
qed

lemma principal_of_sample: "ars_principal sample_snapshot = 10"
  by (simp add: sample_snapshot_def create_scopes_def)

lemma sample_scope_ids: "scope_ids_for sample_snapshot REPOSITORY_VIEW = [60]"
  unfolding scope_ids_for_def scope_pairs_for_def sample_repository_ids
  by (simp add: sample_snapshot_def create_scopes_def sorted_by_str_def)

lemma sample_snapshot_bound: "is_bound_to sample_snapshot sample_user"
  by (rule resolved_is_bound [OF sample_resolved])
    (simp_all add: sample_snapshot_def create_scopes_def sample_access_rows)

theorem stale_snapshot_opens_nothing_witness:
  "scope_filter_admits sample_env 7 sample_access sample_user sample_snapshot REPOSITORY_VIEW True True
     (Some 60) (Some 50) = Inr True
   \<and> scope_filter_admits sample_env 7 sample_access sample_user sample_snapshot REPOSITORY_VIEW False False
     (Some 60) None = Inr True
   \<and> returns (authorize_action sample_env 7 sample_access sample_user REPOSITORY_VIEW (Some 50) None (Some 60) False)"
proof -
  have members: "active_memberships sample_access sample_user 10 = [sample_member]"
    by (simp add: active_memberships_def organization_active_def user_is_active_def sample_access_rows)
  have scopes: "current_scopes sample_access sample_user 10 60 [60] = [sample_scope 60]"
    by (simp add: current_scopes_def current_scope_principal_def has_source_in_def members)
      (simp add: sample_access_rows)
  have role: "current_action_filter sample_env sample_access 7 sample_user 10 REPOSITORY_VIEW 50"
    by (simp add: current_action_filter_def current_role_allowed_def members current_token_allows_def)
      (simp add: membership_role_def sample_access_rows VIEW_ACTIONS_def)
  have org: "organization_active 1 sample_access" by (simp add: organization_active_def sample_access_rows)
  have admits: "scope_filter_admits sample_env 7 sample_access sample_user sample_snapshot REPOSITORY_VIEW
      True True (Some 60) (Some 50) = Inr True"
    unfolding scope_filter_admits_def Let_def sample_repository_ids sample_scope_ids
    by (simp add: sample_snapshot_bound credential_allows_def principal_of_sample scopes role)
      (simp add: sample_access_rows)
  have unnamed: "scope_filter_admits sample_env 7 sample_access sample_user sample_snapshot REPOSITORY_VIEW
      False False (Some 60) None = Inr True"
    unfolding scope_filter_admits_def Let_def sample_repository_ids sample_scope_ids
    using org by (simp add: sample_snapshot_bound credential_allows_def principal_of_sample scopes role)
      (simp add: sample_access_rows)
  have "token_actions_are_strings sample_access"
    by (simp add: token_actions_are_strings_def json_strings_def sample_access_rows)
  from stale_snapshot_opens_nothing [OF sample_access_keys this sample_resolved unnamed] admits unnamed
  show ?thesis by (simp add: sample_repository_ids)
qed

text \<open>A snapshot belongs to the actor it was resolved for.  A resolution that found a
  repository gives an object its own check accepts (within 100 repositories, 1000 scopes each and
  100000 bindings, in the order of the identifiers' text), and no actor of another organization,
  kind, principal, repository, credential or credential actions can present it.\<close>

theorem snapshot_is_bound_to_its_actor:
  assumes "resolve_authorized_repository_scopes env now d actor actions required ids limit = Inr auth"
    and "ars_repositories auth \<noteq> []" and "distinct (map repo_id (repositories d))"
    and "\<forall>x\<in>set (repositories d). repo_id x < 2 ^ 128"
  shows "is_bound_to auth actor
         \<and> (\<forall>other. is_bound_to auth other \<longrightarrow>
              actor_org other = actor_org actor \<and> actor_type other = actor_type actor
              \<and> parse_uuid (actor_id other) = parse_uuid (actor_id actor)
              \<and> actor_repository other = actor_repository actor
              \<and> actor_credential other = actor_credential actor
              \<and> set (actor_credential_actions other) = set (actor_credential_actions actor))"
proof -
  have mine: "is_bound_to auth actor" by (rule resolved_is_bound [OF assms])
  have "actor_org other = actor_org actor \<and> actor_type other = actor_type actor
      \<and> parse_uuid (actor_id other) = parse_uuid (actor_id actor)
      \<and> actor_repository other = actor_repository actor
      \<and> actor_credential other = actor_credential actor
      \<and> set (actor_credential_actions other) = set (actor_credential_actions actor)"
    if "is_bound_to auth other" for other
  proof -
    have "sorted_set (actor_credential_actions other) = sorted_set (actor_credential_actions actor)"
      using that mine by (auto simp: is_bound_to_def split: option.splits)
    then have "set (actor_credential_actions other) = set (actor_credential_actions actor)"
      by (metis set_sorted_set)
    then show ?thesis using that mine by (auto simp: is_bound_to_def split: option.splits)
  qed
  with mine show ?thesis by blast
qed

theorem snapshot_is_bound_to_its_actor_witness:
  "is_bound_to sample_snapshot sample_user \<and> \<not> is_bound_to sample_snapshot sample_bearer"
  using snapshot_is_bound_to_its_actor [OF sample_resolved]
  by (auto simp: sample_snapshot_def create_scopes_def sample_access_rows)

text \<open>The listing of scopes agrees with the single decision.  Every identifier
  \<^verbatim>\<open>authorized_access_scope_ids\<close> returns with its default flags is a scope that
  \<^verbatim>\<open>authorize_action\<close> opens for the same actor, action and repository, and every scope of the
  tenant it opens is returned.\<close>

theorem scope_listing_is_exact:
  assumes "access_keys d"
    and "authorized_access_scope_ids env now d actor a r False False = Inr sids"
  shows "sid \<in> set sids \<longleftrightarrow> returns (authorize_action env now d actor a (Some r) None (Some sid) False)"
proof (cases "authorize_action env now d actor a (Some r) None None False")
  case (Inl e)
  then have "e = ResourceNotFoundError" "sids = []"
    using assms(2) by (auto simp: authorized_access_scope_ids_def split: py_error.splits)
  moreover have "\<not> returns (authorize_action env now d actor a (Some r) None (Some sid) False)"
  proof
    assume "returns (authorize_action env now d actor a (Some r) None (Some sid) False)"
    then obtain p where "may_act env now d actor p a (Some r) None (Some sid) False"
      unfolding authorize_action_may_act [OF assms(1)] by blast
    then have "may_act env now d actor p a (Some r) None None False" by (simp add: may_act_def)
    then have "returns (authorize_action env now d actor a (Some r) None None False)"
      unfolding authorize_action_may_act [OF assms(1)] by blast
    then show False using Inl by simp
  qed
  ultimately show ?thesis by simp
next
  case (Inr dec)
  then have "returns (authorize_action env now d actor a (Some r) None None False)" by simp
  then obtain p where p: "may_act env now d actor p a (Some r) None None False"
    unfolding authorize_action_may_act [OF assms(1)] by blast
  then have res: "resolve_principal d actor = Inr p"
    using acts_as_resolved [OF assms(1)] by (simp add: may_act_def)
  have sids: "sids = map sc_id (filter (\<lambda>s. sc_org s = actor_org actor \<and> sc_active s
                   \<and> scope_allows d p s (Some r) False False) (scopes d))"
    using assms(2) Inr res by (simp add: authorized_access_scope_ids_def)
  have "q = p" if "may_act env now d actor q a (Some r) None (Some sid) False" for q
    using that acts_as_resolved [OF assms(1)] res by (auto simp: may_act_def)
  then have "returns (authorize_action env now d actor a (Some r) None (Some sid) False) \<longleftrightarrow>
      may_act env now d actor p a (Some r) None (Some sid) False"
    unfolding authorize_action_may_act [OF assms(1)] by blast
  also have "\<dots> \<longleftrightarrow> (\<exists>x\<in>set (scopes d). sc_id x = sid \<and> sc_org x = actor_org actor
             \<and> scope_allows d p x (Some r) False False)"
    using p by (simp add: may_act_def scope_allows_open)
  also have "\<dots> \<longleftrightarrow> sid \<in> set sids"
    by (auto simp: sids scope_allows_def split: if_splits)
  finally show ?thesis by simp
qed

theorem scope_listing_is_exact_witness:
  "\<exists>sids. authorized_access_scope_ids sample_env 5 sample_access sample_user REPOSITORY_VIEW 50 False False
       = Inr sids
     \<and> returns (authorize_action sample_env 5 sample_access sample_user REPOSITORY_VIEW (Some 50) None
          (Some 60) False)"
proof -
  have "returns (authorize_action sample_env 5 sample_access sample_user REPOSITORY_VIEW (Some 50) None None False)"
    unfolding authorize_action_def sample_user_principal
    by (simp add: check_credential_def credential_allows_def check_repository_def check_source_def
        check_scope_def role_actions_def membership_role_def sample_access_rows VIEW_ACTIONS_def)
  then obtain dec where dec: "authorize_action sample_env 5 sample_access sample_user REPOSITORY_VIEW (Some 50)
      None None False = Inr dec" by (cases "authorize_action sample_env 5 sample_access sample_user
        REPOSITORY_VIEW (Some 50) None None False") auto
  have listed: "authorized_access_scope_ids sample_env 5 sample_access sample_user REPOSITORY_VIEW 50 False False
      = Inr [60, 61]"
    by (simp add: authorized_access_scope_ids_def dec sample_user_principal scope_allows_def
        has_source_in_def scope_includes_principal_def)
      (simp add: sample_access_rows)
  show ?thesis using scope_listing_is_exact [OF sample_access_keys listed, of 60] listed by simp
qed

text \<open>C39: The two decisions part on disabled sources.  For a scope bound to a source an operator has
  DISABLED, \<^verbatim>\<open>authorize_action\<close> still opens the scope, while the batched snapshot of the same
  actor at the same instant leaves it out: \<^verbatim>\<open>_scope_allows\<close> looks for REVOKED sources only.\<close>

theorem disabled_source_splits_the_decisions:
  "returns (authorize_action sample_env 5 sample_access sample_user REPOSITORY_VIEW (Some 50) None (Some 61) False)
   \<and> resolve_authorized_repository_scopes sample_env 5 sample_access sample_user [REPOSITORY_VIEW]
       REPOSITORY_VIEW [] 100 = Inr sample_snapshot
   \<and> 61 \<notin> set (scope_ids_for sample_snapshot REPOSITORY_VIEW)"
proof -
  have "returns (authorize_action sample_env 5 sample_access sample_user REPOSITORY_VIEW (Some 50) None (Some 61) False)"
    unfolding authorize_action_def sample_user_principal
    by (simp add: check_credential_def credential_allows_def check_repository_def check_source_def
        check_scope_def scope_allows_def scope_includes_principal_def has_source_in_def
        role_actions_def membership_role_def sample_access_rows VIEW_ACTIONS_def)
  then show ?thesis using sample_resolved sample_scope_ids by simp
qed

end
