(* ===== verification/Tokens.thy ===== *)
theory Tokens
  imports Authorization
begin

text \<open>
  \<^verbatim>\<open>src/anva/core/services/tokens.py\<close>: one-time repository tokens - issued, presented as a bearer
  credential, revoked and rotated.  The keyed hash is a parameter of the environment; the random
  part of a plaintext and the identity of a new row are arguments, as is the instant.  The text an
  expiry has in the audit metadata (\<^verbatim>\<open>isoformat\<close> keeps the caller's offset) goes with the instant.
\<close>

section \<open>Plaintexts and actions\<close>

definition TOKEN_PREFIX :: pystr where
  "TOKEN_PREFIX = lit ''anva_v1''"

definition MAX_TOKEN_TTL :: int where
  "MAX_TOKEN_TTL = days 90"

record issued_token =
  it_record :: access_token
  it_plaintext :: pystr

definition build_plaintext :: "uuid \<Rightarrow> pystr \<Rightarrow> pystr" where
  "build_plaintext token_id secret = join_on 46 [TOKEN_PREFIX, uuid_str token_id, secret]"

definition validated_actions :: "action list \<Rightarrow> pystr list result" where
  "validated_actions actions =
     (if actions = [] then Inl (ValueError ''At least one token action is required'')
      else Inr (sorted_set (map action_value actions)))"

text \<open>\<^verbatim>\<open>Action(value)\<close>, and the set of the actions a stored value names.\<close>

definition action_of_value :: "pystr \<Rightarrow> action option" where
  "action_of_value v = find_by (\<lambda>a. action_value a = v) all_actions"

fun action_items :: "json list \<Rightarrow> action list result" where
  "action_items [] = Inr []"
| "action_items (JStr v # vs) =
     (case action_of_value v of
        None \<Rightarrow> Inl (ValueError ''not a valid Action'')
      | Some a \<Rightarrow> bind_res (action_items vs) (\<lambda>as. Inr (a # as)))"
| "action_items (_ # vs) = Inl (ValueError ''not a valid Action'')"

definition stored_actions :: "json \<Rightarrow> action list result" where
  "stored_actions v =
     bind_res
       (case v of
          JList vs \<Rightarrow> action_items vs
        | JDict items \<Rightarrow> action_items (map (\<lambda>p. JStr (fst p)) items)
        | JStr s \<Rightarrow> action_items (map (\<lambda>c. JStr [c]) s)
        | _ \<Rightarrow> Inl TypeError)
       (\<lambda>as. Inr (remdups as))"

section \<open>Issuing\<close>

text \<open>The audited actor: \<^verbatim>\<open>replace\<close> builds the context again, with its checks.\<close>

definition audit_actor :: "actor_context \<Rightarrow> decision \<Rightarrow> actor_context result" where
  "audit_actor actor dec = check_actor (actor\<lparr>actor_path := dec_path dec\<rparr>)"

text \<open>The insert, with the unique columns of the table.\<close>

definition insert_token :: "access_token \<Rightarrow> db \<Rightarrow> db result" where
  "insert_token t d =
     (if tok_id t \<in> tok_id ` set (tokens d) \<or> tok_hash t \<in> tok_hash ` set (tokens d)
         \<or> (tok_rotated_from t \<noteq> None \<and> tok_rotated_from t \<in> tok_rotated_from ` set (tokens d))
      then Inl IntegrityError else Inr (create_row token_table t d))"

definition create_token ::
  "environment \<Rightarrow> uuid \<Rightarrow> uuid \<Rightarrow> uuid \<Rightarrow> action list \<Rightarrow> instant \<Rightarrow> uuid option \<Rightarrow> instant
     \<Rightarrow> uuid \<Rightarrow> pystr \<Rightarrow> db \<Rightarrow> (issued_token \<times> db) result"
where
  "create_token env org repository service actions expires_at rotated_from now token_id secret d =
     (if expires_at \<le> now then Inl (ValueError ''Token expiry must be in the future'')
      else if expires_at - now > MAX_TOKEN_TTL
        then Inl (ValueError ''Token lifetime cannot exceed 90 days'')
      else
        let plaintext = build_plaintext token_id secret in
        bind_res (validated_actions actions) (\<lambda>values.
          let t = \<lparr>tok_id = token_id, tok_org = org, tok_repository = repository,
                   tok_service_identity = service, tok_hash = env_token_hash env plaintext,
                   tok_allowed_actions = JList (map JStr values),
                   tok_issuer = env_token_issuer env, tok_audience = env_token_audience env,
                   tok_issued_at = now, tok_expires_at = expires_at, tok_revoked_at = None,
                   tok_last_used_at = None, tok_rotated_from = rotated_from\<rparr>
          in bind_res (insert_token t d) (\<lambda>d'.
               Inr (\<lparr>it_record = t, it_plaintext = plaintext\<rparr>, d'))))"

definition issue_bootstrap_repository_token ::
  "environment \<Rightarrow> uuid \<Rightarrow> uuid \<Rightarrow> uuid \<Rightarrow> action list \<Rightarrow> instant \<Rightarrow> instant \<Rightarrow> uuid \<Rightarrow> pystr
     \<Rightarrow> db \<Rightarrow> (issued_token \<times> db) result"
where
  "issue_bootstrap_repository_token env org repository service actions expires_at now token_id secret d =
     create_token env org repository service actions expires_at None now token_id secret d"

text \<open>The tables as the querysets of the module filter them.\<close>

definition active_repository_table :: "repository table" where
  "active_repository_table = repository_table\<lparr>tb_rows := (\<lambda>d. filter repo_active (repositories d))\<rparr>"

definition active_service_table :: "service_identity table" where
  "active_service_table = service_table\<lparr>tb_rows := (\<lambda>d. filter sid_active (service_identities d))\<rparr>"

definition authorize_each ::
  "environment \<Rightarrow> instant \<Rightarrow> db \<Rightarrow> actor_context \<Rightarrow> uuid \<Rightarrow> action list \<Rightarrow> unit result"
where
  "authorize_each env now d actor repository actions =
     each_res (\<lambda>a. bind_res (authorize_action env now d actor a (Some repository) None None False)
                     (\<lambda>_. Inr ())) actions"

definition issued_metadata :: "uuid \<Rightarrow> uuid \<Rightarrow> access_token \<Rightarrow> pystr \<Rightarrow> (pystr \<times> json) list" where
  "issued_metadata repository service t expires_text =
     [(lit ''repository_id'', JStr (uuid_str repository)),
      (lit ''service_identity_id'', JStr (uuid_str service)),
      (lit ''allowed_actions'', tok_allowed_actions t),
      (lit ''expires_at'', JStr expires_text)]"

definition issue_repository_token ::
  "environment \<Rightarrow> actor_context \<Rightarrow> uuid \<Rightarrow> uuid \<Rightarrow> action list \<Rightarrow> instant \<Rightarrow> pystr \<Rightarrow> instant
     \<Rightarrow> uuid \<Rightarrow> pystr \<Rightarrow> db \<Rightarrow> (issued_token \<times> db) result"
where
  "issue_repository_token env actor repository_id service_identity_id actions expires_at expires_text
       now token_id secret d =
     bind_res (get_tenant_record_for_update active_repository_table repository_id (actor_org actor) d)
       (\<lambda>repository.
     bind_res (get_tenant_record_for_update active_service_table service_identity_id (actor_org actor) d)
       (\<lambda>service.
     bind_res (authorize_action env now d actor TOKEN_MANAGE (Some (repo_id repository)) None None False)
       (\<lambda>decision.
     bind_res (authorize_each env now d actor (repo_id repository) actions) (\<lambda>_.
     bind_res (create_token env (repo_org repository) (repo_id repository) (sid_id service) actions
                 expires_at None now token_id secret d) (\<lambda>(issued, d1).
     bind_res (audit_actor actor decision) (\<lambda>auditor.
     bind_res (record_transition env (repo_org repository) auditor (lit ''repositoryaccesstoken'')
                 (tok_id (it_record issued)) [] (lit ''ISSUED'') 1
                 (issued_metadata (repo_id repository) (sid_id service) (it_record issued) expires_text)
                 d1) (\<lambda>d2.
       Inr (issued, d2))))))))"

section \<open>Presenting\<close>

text \<open>\<^verbatim>\<open>header.partition(" ")\<close>.\<close>

definition partition_space :: "pystr \<Rightarrow> (pystr \<times> pystr) option" where
  "partition_space s =
     (case dropWhile (\<lambda>c. c \<noteq> 32) s of [] \<Rightarrow> None | _ # rest \<Rightarrow> Some (takeWhile (\<lambda>c. c \<noteq> 32) s, rest))"

definition lower_ascii :: "pystr \<Rightarrow> pystr" where
  "lower_ascii s = concat (map lower_char s)"

definition bearer_plaintext :: "pystr \<Rightarrow> pystr option" where
  "bearer_plaintext header =
     (case partition_space header of
        None \<Rightarrow> None
      | Some (scheme, plaintext) \<Rightarrow>
          if lower_ascii scheme \<noteq> lit ''bearer'' \<or> plaintext = [] then None else Some plaintext)"

definition plaintext_token_id :: "pystr \<Rightarrow> uuid option" where
  "plaintext_token_id plaintext =
     (case split_on 46 plaintext of
        [p, i, s] \<Rightarrow> if p = TOKEN_PREFIX then parse_uuid i else None
      | _ \<Rightarrow> None)"

definition credential_good :: "environment \<Rightarrow> db \<Rightarrow> instant \<Rightarrow> pystr \<Rightarrow> access_token \<Rightarrow> bool" where
  "credential_good env d now plaintext t \<longleftrightarrow>
     tok_hash t = env_token_hash env plaintext \<and> tok_revoked_at t = None \<and> tok_expires_at t > now
     \<and> tok_issuer t = env_token_issuer env \<and> tok_audience t = env_token_audience env
     \<and> organization_active (tok_org t) d
     \<and> list_ex (\<lambda>r. repo_id r = tok_repository t \<and> repo_active r) (repositories d)
     \<and> list_ex (\<lambda>s. sid_id s = tok_service_identity t \<and> sid_active s) (service_identities d)"

definition bearer_actor :: "access_token \<Rightarrow> action list \<Rightarrow> uuid \<Rightarrow> actor_context" where
  "bearer_actor t actions request_id =
     \<lparr>actor_org = tok_org t, actor_type = lit ''SERVICE'',
      actor_id = uuid_str (tok_service_identity t),
      actor_path = lit ''token:'' @ uuid_str (tok_id t), actor_request_id = request_id,
      actor_source_ip_hash = [], actor_repository = Some (tok_repository t),
      actor_credential = Some (tok_id t), actor_credential_actions = map action_value actions\<rparr>"

text \<open>\<^verbatim>\<open>plaintext.encode()\<close> refuses a lone surrogate, outside the \<^verbatim>\<open>try\<close> of the identifier.\<close>

definition authenticate_bearer ::
  "environment \<Rightarrow> pystr \<Rightarrow> instant \<Rightarrow> uuid \<Rightarrow> db \<Rightarrow> (actor_context \<times> db) result"
where
  "authenticate_bearer env header now request_id d =
     (case bearer_plaintext header of
        None \<Rightarrow> Inl AuthenticationError
      | Some plaintext \<Rightarrow>
          (case plaintext_token_id plaintext of
             None \<Rightarrow> Inl AuthenticationError
           | Some token_id \<Rightarrow>
               if encoded_length plaintext = None then Inl (ValueError ''surrogates not allowed'')
               else
                 (case find_by (\<lambda>t. tok_id t = token_id) (tokens d) of
                    None \<Rightarrow> Inl AuthenticationError
                  | Some t \<Rightarrow>
                      if \<not> credential_good env d now plaintext t then Inl AuthenticationError
                      else
                        (case stored_actions (tok_allowed_actions t) of
                           Inl e \<Rightarrow> Inl AuthenticationError
                         | Inr actions \<Rightarrow>
                             bind_res (check_actor (bearer_actor t actions request_id)) (\<lambda>actor.
                               Inr (actor, save_row token_table (t\<lparr>tok_last_used_at := Some now\<rparr>) d))))))"

section \<open>Revoking and rotating\<close>

definition revoke_repository_token ::
  "environment \<Rightarrow> actor_context \<Rightarrow> uuid \<Rightarrow> instant \<Rightarrow> db \<Rightarrow> (access_token \<times> db) result"
where
  "revoke_repository_token env actor token_id now d =
     bind_res (get_tenant_record_for_update token_table token_id (actor_org actor) d) (\<lambda>t.
     bind_res (authorize_action env now d actor TOKEN_MANAGE (Some (tok_repository t)) None None False)
       (\<lambda>decision.
     if tok_revoked_at t \<noteq> None then Inr (t, d)
     else
       let t' = t\<lparr>tok_revoked_at := Some now\<rparr>; d1 = save_row token_table t' d in
       bind_res (audit_actor actor decision) (\<lambda>auditor.
       bind_res (record_transition env (tok_org t) auditor (lit ''repositoryaccesstoken'') (tok_id t)
                   (lit ''ACTIVE'') (lit ''REVOKED'') 1 [] d1) (\<lambda>d2.
         Inr (t', d2)))))"

definition rotate_repository_token ::
  "environment \<Rightarrow> actor_context \<Rightarrow> uuid \<Rightarrow> instant \<Rightarrow> instant \<Rightarrow> uuid \<Rightarrow> pystr \<Rightarrow> db
     \<Rightarrow> (issued_token \<times> db) result"
where
  "rotate_repository_token env actor token_id expires_at now new_id secret d =
     bind_res (get_tenant_record_for_update token_table token_id (actor_org actor) d) (\<lambda>t.
     if \<not> list_ex (\<lambda>r. repo_id r = tok_repository t \<and> repo_active r) (repositories d)
        \<or> \<not> list_ex (\<lambda>s. sid_id s = tok_service_identity t \<and> sid_active s) (service_identities d)
     then Inl ResourceNotFoundError
     else
     bind_res (authorize_action env now d actor TOKEN_MANAGE (Some (tok_repository t)) None None False)
       (\<lambda>decision.
     if tok_revoked_at t \<noteq> None then Inl ResourceNotFoundError
     else
     bind_res (stored_actions (tok_allowed_actions t)) (\<lambda>actions.
     bind_res (authorize_each env now d actor (tok_repository t) actions) (\<lambda>_.
     bind_res (create_token env (tok_org t) (tok_repository t) (tok_service_identity t) actions
                 expires_at (Some (tok_id t)) now new_id secret d) (\<lambda>(issued, d1).
       let t' = t\<lparr>tok_revoked_at := Some now\<rparr>; d2 = save_row token_table t' d1 in
       bind_res (audit_actor actor decision) (\<lambda>auditor.
       bind_res (record_transition env (tok_org t) auditor (lit ''repositoryaccesstoken'') (tok_id t)
                   (lit ''ACTIVE'') (lit ''ROTATED'') 1
                   [(lit ''replacement_token_id'', JStr (uuid_str (tok_id (it_record issued))))] d2)
         (\<lambda>d3.
         Inr (issued, d3))))))))"

end
