(* ===== verification/TokenClaims.thy ===== *)
theory TokenClaims
  imports Tokens AuthorizationClaims
begin

text \<open>
  What the token operations guarantee: an issued plaintext authenticates as exactly what was
  issued, nobody hands on more than they hold, and a revoked or rotated token stays dead.
\<close>

section \<open>What each operation returned with\<close>

lemma create_token_Inr:
  assumes "create_token env org repository service actions expires_at rotated_from now token_id secret d
      = Inr (issued, d')"
  shows "now < expires_at" "expires_at \<le> now + MAX_TOKEN_TTL" "actions \<noteq> []"
    "it_plaintext issued = build_plaintext token_id secret"
    "it_record issued = \<lparr>tok_id = token_id, tok_org = org, tok_repository = repository,
        tok_service_identity = service, tok_hash = env_token_hash env (build_plaintext token_id secret),
        tok_allowed_actions = JList (map JStr (sorted_set (map action_value actions))),
        tok_issuer = env_token_issuer env, tok_audience = env_token_audience env,
        tok_issued_at = now, tok_expires_at = expires_at, tok_revoked_at = None,
        tok_last_used_at = None, tok_rotated_from = rotated_from\<rparr>"
    "d' = create_row token_table (it_record issued) d" "token_id \<notin> tok_id ` set (tokens d)"
  using assms
  by (auto simp: create_token_def bind_res_Inr validated_actions_def insert_token_def Let_def
      split: if_splits)

lemma authorize_each_Inr:
  "authorize_each env now d actor r actions = Inr u \<longleftrightarrow>
     (\<forall>a\<in>set actions. returns (authorize_action env now d actor a (Some r) None None False))"
  by (auto simp: authorize_each_def each_res_Inr bind_res_Inr returns_iff)

lemma audit_actor_Inr: "audit_actor actor dec = Inr a \<Longrightarrow> a = actor\<lparr>actor_path := dec_path dec\<rparr>"
  by (auto simp: audit_actor_def dest: check_actor_Inr)

lemma issue_Inr:
  assumes "issue_repository_token env actor repository_id service_id actions expires_at expires_text
      now token_id secret d = Inr (issued, d')"
  obtains d1 where
    "create_token env (actor_org actor) repository_id service_id actions expires_at None now token_id
       secret d = Inr (issued, d1)"
    "tokens d' = tokens d @ [it_record issued]"
    "repositories d' = repositories d" "service_identities d' = service_identities d"
    "organizations d' = organizations d"
    "\<exists>r\<in>set (repositories d). repo_id r = repository_id \<and> repo_org r = actor_org actor \<and> repo_active r"
    "\<exists>s\<in>set (service_identities d). sid_id s = service_id \<and> sid_org s = actor_org actor \<and> sid_active s"
    "returns (authorize_action env now d actor TOKEN_MANAGE (Some repository_id) None None False)"
    "\<forall>a\<in>set actions. returns (authorize_action env now d actor a (Some repository_id) None None False)"
proof -
  from assms obtain r s dec d1 a where
    r: "get_tenant_record active_repository_table repository_id (actor_org actor) d = Inr r"
    and s: "get_tenant_record active_service_table service_id (actor_org actor) d = Inr s"
    and dec: "authorize_action env now d actor TOKEN_MANAGE (Some (repo_id r)) None None False = Inr dec"
    and each: "authorize_each env now d actor (repo_id r) actions = Inr ()"
    and c: "create_token env (repo_org r) (repo_id r) (sid_id s) actions expires_at None now token_id
              secret d = Inr (issued, d1)"
    and rec: "record_transition env (repo_org r) a (lit ''repositoryaccesstoken'')
                (tok_id (it_record issued)) [] (lit ''ISSUED'') 1
                (issued_metadata (repo_id r) (sid_id s) (it_record issued) expires_text) d1 = Inr d'"
    unfolding issue_repository_token_def get_tenant_record_for_update_def bind_res_Inr
    by (auto split: prod.splits simp: bind_res_Inr)
  have rr: "r \<in> set (repositories d)" "repo_active r" "repo_id r = repository_id" "repo_org r = actor_org actor"
    using get_tenant_record_Inr [OF r]
    by (simp_all add: active_repository_table_def repository_table_def)
  have ss: "s \<in> set (service_identities d)" "sid_active s" "sid_id s = service_id" "sid_org s = actor_org actor"
    using get_tenant_record_Inr [OF s] by (simp_all add: active_service_table_def service_table_def)
  note created = create_token_Inr [OF c]
  show thesis
  proof (rule that)
    show "create_token env (actor_org actor) repository_id service_id actions expires_at None now token_id
       secret d = Inr (issued, d1)" using c rr(3,4) ss(3) by simp
    show "tokens d' = tokens d @ [it_record issued]"
      using record_transition_frame [OF rec] created(6) by simp
    show "repositories d' = repositories d" "service_identities d' = service_identities d"
      "organizations d' = organizations d"
      using record_transition_frame [OF rec] created(6) by (simp_all add: create_row_def token_table_def)
    show "\<exists>r\<in>set (repositories d). repo_id r = repository_id \<and> repo_org r = actor_org actor \<and> repo_active r"
      using rr by blast
    show "\<exists>s\<in>set (service_identities d). sid_id s = service_id \<and> sid_org s = actor_org actor \<and> sid_active s"
      using ss by blast
    show "returns (authorize_action env now d actor TOKEN_MANAGE (Some repository_id) None None False)"
      using dec rr(3) by simp
    show "\<forall>a\<in>set actions. returns (authorize_action env now d actor a (Some repository_id) None None False)"
      using each rr(3) by (simp add: authorize_each_Inr)
  qed
qed

lemma revoke_Inr:
  assumes "revoke_repository_token env actor token_id now d = Inr (t, d')"
  obtains "t \<in> set (tokens d)" "tok_id t = token_id" "tok_revoked_at t \<noteq> None" "d' = d"
  | old where "old \<in> set (tokens d)" "tok_id old = token_id" "t = old\<lparr>tok_revoked_at := Some now\<rparr>"
      "tokens d' = update_where (\<lambda>x. tok_id x = token_id) (\<lambda>_. t) (tokens d)"
proof -
  from assms obtain old dec where
    old: "get_tenant_record token_table token_id (actor_org actor) d = Inr old"
    and rest: "(if tok_revoked_at old \<noteq> None then Inr (old, d)
     else let t' = old\<lparr>tok_revoked_at := Some now\<rparr>; d1 = save_row token_table t' d in
       bind_res (audit_actor actor dec) (\<lambda>auditor.
       bind_res (record_transition env (tok_org old) auditor (lit ''repositoryaccesstoken'') (tok_id old)
                   (lit ''ACTIVE'') (lit ''REVOKED'') 1 [] d1) (\<lambda>d2.
         Inr (t', d2)))) = Inr (t, d')"
    unfolding revoke_repository_token_def get_tenant_record_for_update_def bind_res_Inr by auto
  have row: "old \<in> set (tokens d)" "tok_id old = token_id"
    using get_tenant_record_Inr [OF old] by simp_all
  show thesis
  proof (cases "tok_revoked_at old \<noteq> None")
    case True
    with rest row show thesis by (intro that(1)) auto
  next
    case False
    with rest obtain a where t: "t = old\<lparr>tok_revoked_at := Some now\<rparr>"
      and rec: "record_transition env (tok_org old) a (lit ''repositoryaccesstoken'') (tok_id old)
                   (lit ''ACTIVE'') (lit ''REVOKED'') 1 [] (save_row token_table t d) = Inr d'"
      by (auto simp: Let_def bind_res_Inr)
    show thesis using row t record_transition_frame [OF rec] by (intro that(2)) simp_all
  qed
qed

lemma rotate_Inr:
  assumes "rotate_repository_token env actor token_id expires_at now new_id secret d = Inr (issued, d')"
  obtains old actions d1 where "old \<in> set (tokens d)" "tok_id old = token_id" "tok_revoked_at old = None"
    "stored_actions (tok_allowed_actions old) = Inr actions"
    "create_token env (tok_org old) (tok_repository old) (tok_service_identity old) actions expires_at
       (Some token_id) now new_id secret d = Inr (issued, d1)"
    "tokens d' = update_where (\<lambda>x. tok_id x = token_id) (\<lambda>_. old\<lparr>tok_revoked_at := Some now\<rparr>)
       (tokens d @ [it_record issued])"
    "\<forall>a\<in>set actions. returns (authorize_action env now d actor a (Some (tok_repository old)) None None False)"
proof -
  from assms obtain old dec actions d1 a where
    old: "get_tenant_record token_table token_id (actor_org actor) d = Inr old"
    and live: "tok_revoked_at old = None"
    and acts: "stored_actions (tok_allowed_actions old) = Inr actions"
    and each: "authorize_each env now d actor (tok_repository old) actions = Inr ()"
    and c: "create_token env (tok_org old) (tok_repository old) (tok_service_identity old) actions
              expires_at (Some (tok_id old)) now new_id secret d = Inr (issued, d1)"
    and rec: "record_transition env (tok_org old) a (lit ''repositoryaccesstoken'') (tok_id old)
                   (lit ''ACTIVE'') (lit ''ROTATED'') 1
                   [(lit ''replacement_token_id'', JStr (uuid_str (tok_id (it_record issued))))]
                   (save_row token_table (old\<lparr>tok_revoked_at := Some now\<rparr>) d1) = Inr d'"
    unfolding rotate_repository_token_def get_tenant_record_for_update_def
    by (auto simp: bind_res_Inr Let_def split: if_splits prod.splits)
  have row: "old \<in> set (tokens d)" "tok_id old = token_id"
    using get_tenant_record_Inr [OF old] by simp_all
  show thesis
  proof (rule that [OF row live acts])
    show "create_token env (tok_org old) (tok_repository old) (tok_service_identity old) actions expires_at
       (Some token_id) now new_id secret d = Inr (issued, d1)" using c row(2) by simp
    show "tokens d' = update_where (\<lambda>x. tok_id x = token_id) (\<lambda>_. old\<lparr>tok_revoked_at := Some now\<rparr>)
       (tokens d @ [it_record issued])"
      using record_transition_frame(14) [OF rec] create_token_Inr(6) [OF c] row(2) by simp
    show "\<forall>a\<in>set actions. returns (authorize_action env now d actor a (Some (tok_repository old)) None None False)"
      using each by (simp add: authorize_each_Inr)
  qed
qed

lemma authenticate_Inr:
  assumes "authenticate_bearer env header now request_id d = Inr (actor, d')"
  obtains plaintext t actions where "bearer_plaintext header = Some plaintext"
    "plaintext_token_id plaintext = Some (tok_id t)" "t \<in> set (tokens d)"
    "credential_good env d now plaintext t" "stored_actions (tok_allowed_actions t) = Inr actions"
    "actor = bearer_actor t actions request_id"
    "d' = save_row token_table (t\<lparr>tok_last_used_at := Some now\<rparr>) d"
proof -
  from assms obtain plaintext token_id t actions where
    "bearer_plaintext header = Some plaintext" "plaintext_token_id plaintext = Some token_id"
    and f: "find_by (\<lambda>t. tok_id t = token_id) (tokens d) = Some t"
    and "credential_good env d now plaintext t" "stored_actions (tok_allowed_actions t) = Inr actions"
    and a: "check_actor (bearer_actor t actions request_id) = Inr actor"
    and "d' = save_row token_table (t\<lparr>tok_last_used_at := Some now\<rparr>) d"
    unfolding authenticate_bearer_def
    by (auto split: option.splits if_splits sum.splits simp: bind_res_Inr simp del: find_by_None)
  moreover have "t \<in> set (tokens d)" "tok_id t = token_id" using find_by_Some_iff [OF f] by simp_all
  ultimately show thesis using check_actor_Inr [OF a] by (intro that) simp_all
qed

section \<open>Plaintexts round trip\<close>

lemma every_action: "a \<in> set all_actions"
  by (cases a) (simp_all add: all_actions_def)

lemma action_values_distinct: "distinct (map action_value all_actions)"
  by code_simp

lemma action_of_value [simp]: "action_of_value (action_value a) = Some a"
  unfolding action_of_value_def
  by (rule find_by_unique [where key = action_value])
    (simp_all add: every_action action_values_distinct)

lemma action_of_value_Some: "action_of_value v = Some a \<Longrightarrow> action_value a = v"
  unfolding action_of_value_def by (drule find_by_Some_iff) simp

lemma action_items_values:
  "\<forall>v\<in>set vs. \<exists>a. v = action_value a \<Longrightarrow> \<exists>as. action_items (map JStr vs) = Inr as \<and> map action_value as = vs"
proof (induction vs)
  case Nil
  then show ?case by simp
next
  case (Cons v vs)
  then obtain a as where "v = action_value a" "action_items (map JStr vs) = Inr as" "map action_value as = vs"
    by auto
  then show ?case by simp
qed

lemma stored_actions_issued:
  "\<exists>as. stored_actions (JList (map JStr (sorted_set (map action_value actions)))) = Inr as
     \<and> set as = set actions"
proof -
  let ?vs = "sorted_set (map action_value actions)"
  obtain as where as: "action_items (map JStr ?vs) = Inr as" "map action_value as = ?vs"
    using action_items_values [of ?vs] by auto
  have "set (map action_value as) = set (map action_value actions)" by (simp only: as(2) set_sorted_set)
  then have "set as = set actions"
    by (metis action_of_value inj_image_eq_iff inj_onI list.set_map option.inject)
  then show ?thesis using as(1) by (intro exI [of _ "remdups as"]) (simp add: stored_actions_def)
qed

lemma bearer_plaintext_Bearer: "p \<noteq> [] \<Longrightarrow> bearer_plaintext (lit ''Bearer '' @ p) = Some p"
  by (simp add: bearer_plaintext_def partition_space_def lower_ascii_def lower_char_def)

text \<open>What the code relies on of \<^verbatim>\<open>secrets.token_urlsafe\<close>: letters, digits, hyphens and underscores.\<close>

definition urlsafe :: "pystr \<Rightarrow> bool" where
  "urlsafe s \<longleftrightarrow> list_all (\<lambda>c. (48 \<le> c \<and> c \<le> 57) \<or> (65 \<le> c \<and> c \<le> 90) \<or> (97 \<le> c \<and> c \<le> 122)
                          \<or> c = 45 \<or> c = 95) s"

lemma uuid_str_ascii: "c \<in> set (uuid_str u) \<Longrightarrow> c < 128 \<and> c \<noteq> 46"
  using uuid_str_chars [of c u] by (auto simp: is_hex_lower_def is_digit_def)

lemma plaintext_parses:
  assumes "urlsafe secret" "tid < 2 ^ 128"
  shows "plaintext_token_id (build_plaintext tid secret) = Some tid"
    and "encoded_length (build_plaintext tid secret) \<noteq> None"
    and "build_plaintext tid secret \<noteq> []"
proof -
  have parts: "46 \<notin> set x" if "x \<in> set [TOKEN_PREFIX, uuid_str tid, secret]" for x
    using that assms(1) uuid_str_ascii [of 46 tid] by (auto simp: TOKEN_PREFIX_def urlsafe_def list_all_iff)
  then have "split_on 46 (build_plaintext tid secret) = [TOKEN_PREFIX, uuid_str tid, secret]"
    unfolding build_plaintext_def by (intro split_join_on) auto
  then show "plaintext_token_id (build_plaintext tid secret) = Some tid"
    using parse_uuid_str [OF assms(2)] by (simp add: plaintext_token_id_def)
  have "\<not> is_surrogate c" if "c \<in> set (build_plaintext tid secret)" for c
  proof -
    have "c < 128"
      using that assms(1) uuid_str_ascii [of c tid]
      by (auto simp: build_plaintext_def TOKEN_PREFIX_def urlsafe_def list_all_iff)
    then show ?thesis by (simp add: is_surrogate_def)
  qed
  then show "encoded_length (build_plaintext tid secret) \<noteq> None"
    by (auto simp: encoded_length_def list_ex_iff)
  show "build_plaintext tid secret \<noteq> []" by (simp add: build_plaintext_def TOKEN_PREFIX_def)
qed

section \<open>Sequences of token operations\<close>

text \<open>
  Any token operation that returned, with any arguments, and any change elsewhere that leaves the
  token table alone.
\<close>

inductive token_step :: "environment \<Rightarrow> db \<Rightarrow> db \<Rightarrow> bool" for env where
  bootstrap: "issue_bootstrap_repository_token env org repository service actions expires_at now tid
      secret d = Inr (i, d') \<Longrightarrow> token_step env d d'"
| issue: "issue_repository_token env actor repository service actions expires_at expires_text now tid
      secret d = Inr (i, d') \<Longrightarrow> token_step env d d'"
| present: "authenticate_bearer env header now request_id d = Inr (a, d') \<Longrightarrow> token_step env d d'"
| revoke: "revoke_repository_token env actor tid now d = Inr (t, d') \<Longrightarrow> token_step env d d'"
| rotate: "rotate_repository_token env actor tid expires_at now new_id secret d = Inr (i, d')
      \<Longrightarrow> token_step env d d'"
| elsewhere: "tokens d' = tokens d \<Longrightarrow> token_step env d d'"

text \<open>A token that is in the table and revoked.\<close>

definition dead_token :: "uuid \<Rightarrow> db \<Rightarrow> bool" where
  "dead_token tid d \<longleftrightarrow>
     tid \<in> tok_id ` set (tokens d)
     \<and> (\<forall>t\<in>set (tokens d). tok_id t = tid \<longrightarrow> tok_revoked_at t \<noteq> None)"

lemma dead_update:
  assumes "dead_token tid d" "t \<in> set (tokens d)" "tok_id t' = tok_id t"
    and "tok_revoked_at t \<noteq> None \<Longrightarrow> tok_revoked_at t' \<noteq> None"
    and "tokens d' = update_where (\<lambda>x. tok_id x = tok_id t) (\<lambda>_. t') (tokens d)"
  shows "dead_token tid d'"
proof -
  have rows: "set (tokens d') = (\<lambda>x. if tok_id x = tok_id t then t' else x) ` set (tokens d)"
    by (auto simp: assms(5) update_where_def)
  have "tok_id ` set (tokens d') = tok_id ` set (tokens d)"
    unfolding rows image_image using assms(3) by (intro image_cong) auto
  moreover have "tok_revoked_at x \<noteq> None" if "x \<in> set (tokens d')" "tok_id x = tid" for x
    using that assms(1-4) by (auto simp: rows dead_token_def split: if_splits)
  ultimately show ?thesis using assms(1) by (auto simp: dead_token_def)
qed

lemma dead_by_update:
  assumes "t \<in> set ts" "tok_id t = tid" "tok_id t' = tid" "tok_revoked_at t' \<noteq> None"
    and "tokens d' = update_where (\<lambda>x. tok_id x = tid) (\<lambda>_. t') ts"
  shows "dead_token tid d'"
proof -
  have rows: "set (tokens d') = (\<lambda>x. if tok_id x = tid then t' else x) ` set ts"
    by (auto simp: assms(5) update_where_def)
  have "t' \<in> set (tokens d')" using assms(1,2) by (force simp: rows)
  then show ?thesis using assms(3,4) by (auto simp: dead_token_def rows split: if_splits)
qed

lemma dead_append:
  assumes "dead_token tid d" "tok_id t \<notin> tok_id ` set (tokens d)" "tokens d' = tokens d @ [t]"
  shows "dead_token tid d'"
  using assms by (auto simp: dead_token_def)

lemma dead_token_step:
  assumes "token_step env d d'" "dead_token tid d"
  shows "dead_token tid d'"
  using assms
proof (induction rule: token_step.induct)
  case (bootstrap org repository service actions expires_at now new_id secret d i d')
  note c = create_token_Inr [OF bootstrap.hyps [unfolded issue_bootstrap_repository_token_def]]
  show ?case using c(5,6,7) by (intro dead_append [OF bootstrap.prems, of "it_record i"]) simp_all
next
  case (issue actor repository service actions expires_at expires_text now new_id secret d i d')
  from issue.hyps show ?case
  proof (rule issue_Inr)
    fix d1
    assume c: "create_token env (actor_org actor) repository service actions expires_at None now new_id
       secret d = Inr (i, d1)" and t: "tokens d' = tokens d @ [it_record i]"
    show ?case using create_token_Inr(5,7) [OF c] t
      by (intro dead_append [OF issue.prems, of "it_record i"]) simp_all
  qed
next
  case (present header now request_id d a d')
  from present.hyps show ?case
  proof (rule authenticate_Inr)
    fix plaintext t actions
    assume "t \<in> set (tokens d)" and d': "d' = save_row token_table (t\<lparr>tok_last_used_at := Some now\<rparr>) d"
    then show ?case
      by (intro dead_update [OF present.prems, of t "t\<lparr>tok_last_used_at := Some now\<rparr>"]) simp_all
  qed
next
  case (revoke actor id now d t d')
  from revoke.hyps show ?case
  proof (rule revoke_Inr)
    assume "d' = d"
    then show ?case using revoke.prems by simp
  next
    fix old
    assume "old \<in> set (tokens d)" "tok_id old = id" "t = old\<lparr>tok_revoked_at := Some now\<rparr>"
      "tokens d' = update_where (\<lambda>x. tok_id x = id) (\<lambda>_. t) (tokens d)"
    then show ?case by (intro dead_update [OF revoke.prems, of old t]) simp_all
  qed
next
  case (rotate actor id expires_at now new_id secret d i d')
  from rotate.hyps show ?case
  proof (rule rotate_Inr)
    fix old actions d1
    assume old: "old \<in> set (tokens d)" "tok_id old = id"
      and c: "create_token env (tok_org old) (tok_repository old) (tok_service_identity old) actions
         expires_at (Some id) now new_id secret d = Inr (i, d1)"
      and t: "tokens d' = update_where (\<lambda>x. tok_id x = id) (\<lambda>_. old\<lparr>tok_revoked_at := Some now\<rparr>)
         (tokens d @ [it_record i])"
    note created = create_token_Inr(5-7) [OF c]
    have "dead_token tid d1" using created
      by (intro dead_append [OF rotate.prems, of "it_record i"]) simp_all
    then show ?case
      by (rule dead_update [of _ _ old "old\<lparr>tok_revoked_at := Some now\<rparr>"])
        (use old t created(2) in simp_all)
  qed
next
  case (elsewhere d' d)
  then show ?case by (simp add: dead_token_def)
qed

lemma dead_token_steps: "(token_step env)\<^sup>*\<^sup>* d d' \<Longrightarrow> dead_token tid d \<Longrightarrow> dead_token tid d'"
  by (induction rule: rtranclp_induct) (auto dest: dead_token_step)

text \<open>What a dead token still does: nothing.\<close>

lemma dead_token_not_presented:
  assumes "dead_token tid d" "authenticate_bearer env header now request_id d = Inr (a, d')"
  shows "actor_credential a \<noteq> Some tid"
  using assms(2)
proof (rule authenticate_Inr)
  fix plaintext t actions
  assume "t \<in> set (tokens d)" "credential_good env d now plaintext t" "a = bearer_actor t actions request_id"
  then show ?thesis using assms(1) by (auto simp: dead_token_def credential_good_def bearer_actor_def)
qed

lemma dead_token_not_used:
  assumes "dead_token tid d" "actor_credential actor = Some tid"
  shows "\<not> returns (authorize_action env now d actor a repository source scope allow)"
proof
  assume "returns (authorize_action env now d actor a repository source scope allow)"
  then obtain p where c: "check_credential env d now actor p a = Inr ()"
    unfolding returns_iff authorize_action_Inr by blast
  have "filter (live_token env d now actor (pr_id p) tid r) (tokens d) = []" for r
    using assms(1) by (auto simp: filter_empty_conv dead_token_def live_token_def)
  then show False using c assms(2) by (simp add: check_credential_def first_by_def split: option.splits)
qed

lemma revoked_is_dead:
  assumes "distinct (map tok_id (tokens d))"
    and "revoke_repository_token env actor tid now d = Inr (t, d')
       \<or> rotate_repository_token env actor tid expires_at now new_id secret d = Inr (i, d')"
  shows "dead_token tid d'"
  using assms(2)
proof
  assume "revoke_repository_token env actor tid now d = Inr (t, d')"
  then show ?thesis
  proof (rule revoke_Inr)
    assume "t \<in> set (tokens d)" "tok_id t = tid" "tok_revoked_at t \<noteq> None" "d' = d"
    then show ?thesis using unique_row [OF assms(1)] by (force simp: dead_token_def)
  next
    fix old
    assume "old \<in> set (tokens d)" "tok_id old = tid" "t = old\<lparr>tok_revoked_at := Some now\<rparr>"
      "tokens d' = update_where (\<lambda>x. tok_id x = tid) (\<lambda>_. t) (tokens d)"
    then show ?thesis by (intro dead_by_update [of old "tokens d" tid t]) simp_all
  qed
next
  assume "rotate_repository_token env actor tid expires_at now new_id secret d = Inr (i, d')"
  then show ?thesis
  proof (rule rotate_Inr)
    fix old actions d1
    assume "old \<in> set (tokens d)" "tok_id old = tid"
      "tokens d' = update_where (\<lambda>x. tok_id x = tid) (\<lambda>_. old\<lparr>tok_revoked_at := Some now\<rparr>)
         (tokens d @ [it_record i])"
    then show ?thesis
      by (intro dead_by_update [of old "tokens d @ [it_record i]" tid "old\<lparr>tok_revoked_at := Some now\<rparr>"])
        simp_all
  qed
qed

section \<open>Sample operations\<close>

definition sample_admin :: db where
  "sample_admin = sample_access\<lparr>roles := [\<lparr>role_id = 20, role_org = 1, role_code = ORG_ADMIN\<rparr>]\<rparr>"

definition sample_secret :: pystr where
  "sample_secret = lit ''s3cret''"

lemma sample_admin_rows [simp]:
  "tokens sample_admin = [sample_token]" "repositories sample_admin = repositories sample_access"
  "service_identities sample_admin = [sample_service]" "audit_events sample_admin = []"
  "outbox_events sample_admin = []" "memberships sample_admin = [sample_member]"
  "organizations sample_admin = [\<lparr>org_id = 1, org_state = ORG_ACTIVE\<rparr>]"
  by (simp_all add: sample_admin_def sample_access_rows)

lemma sample_admin_keys: "access_keys sample_admin"
  using sample_access_keys by (simp add: access_keys_def sample_admin_def)

lemma sample_admin_principal: "resolve_principal sample_admin sample_user = Inr sample_principal"
  by (simp add: sample_principal_def resolve_principal_def sample_admin_def sample_access_rows
      organization_active_def user_is_active_def first_by_def)

definition sample_admin_path :: pystr where
  "sample_admin_path = join_on 62 [lit ''role:ORG_ADMIN'', lit ''repository:'' @ uuid_str 50]"

lemma sample_admin_may:
  "authorize_action sample_env 5 sample_admin sample_user a (Some 50) None None False
     = Inr \<lparr>dec_action = a, dec_path = sample_admin_path\<rparr>"
proof -
  have role: "membership_role sample_admin sample_member = Some ORG_ADMIN"
    by (simp add: membership_role_def sample_admin_def sample_access_rows)
  have actions: "role_actions sample_admin sample_principal = all_actions"
    by (simp add: role_actions_def role)
  have grants: "relevant_grants sample_admin 5 sample_principal a (Some 50) None = []"
    by (simp add: relevant_grants_def active_grants_def grant_of_def sample_admin_def sample_access_rows)
  have path: "decision_path sample_admin sample_user sample_principal a False (Some 50) None None = sample_admin_path"
    by (simp add: decision_path_def role every_action sample_admin_path_def)
  have repo: "check_repository sample_admin sample_user (Some 50) = Inr ()"
    by (simp add: check_repository_def sample_access_rows)
  show ?thesis
    unfolding authorize_action_def sample_admin_principal
    by (simp add: check_credential_def credential_allows_def check_source_def check_scope_def actions
        every_action grants path repo Let_def)
qed

lemma sample_admin_audit:
  "audit_actor sample_user \<lparr>dec_action = a, dec_path = sample_admin_path\<rparr>
     = Inr (sample_user\<lparr>actor_path := sample_admin_path\<rparr>)"
proof -
  have dash: "45 \<in> set (uuid_str 10)" unfolding uuid_str_def Let_def by simp
  have id: "strip (uuid_str 10) \<noteq> []" unfolding strip_empty_iff
    using dash by (auto simp: is_space_def intro!: bexI [where x = 45])
  have path: "strip sample_admin_path \<noteq> []" unfolding strip_empty_iff
    by (simp add: sample_admin_path_def is_space_def)
  have type: "strip (lit ''USER'') \<noteq> []" unfolding strip_empty_iff by (simp add: is_space_def)
  from id path type show ?thesis by (simp only: audit_actor_def check_actor_def sample_user_def) simp
qed

definition sample_repository :: repository where
  "sample_repository = \<lparr>repo_id = 50, repo_org = 1, repo_external_id = [], repo_active = True\<rparr>"

lemma sample_rows_simps [simp]:
  "repo_id sample_repository = 50" "repo_org sample_repository = 1" "sid_id sample_service = 40"
  "tok_id sample_token = 80" "tok_hash sample_token = []" "tok_org sample_token = 1"
  "tok_repository sample_token = 50" "tok_service_identity sample_token = 40"
  "tok_revoked_at sample_token = None" "tok_rotated_from sample_token = None"
  by (simp_all add: sample_repository_def sample_service_def sample_token_def)

lemma sample_issue:
  "\<exists>i d'. issue_repository_token sample_env sample_user 50 40 [REPOSITORY_VIEW] 1000 [] 5 81 sample_secret
     sample_admin = Inr (i, d')"
proof -
  have repo: "get_tenant_record active_repository_table 50 1 sample_admin = Inr sample_repository"
    by (simp add: get_tenant_record_def active_repository_table_def repository_table_def
        sample_access_rows sample_repository_def)
  have svc: "get_tenant_record active_service_table 40 1 sample_admin = Inr sample_service"
    by (simp add: get_tenant_record_def active_service_table_def service_table_def sample_access_rows)
  have each: "authorize_each sample_env 5 sample_admin sample_user 50 [REPOSITORY_VIEW] = Inr ()"
    by (simp add: authorize_each_def sample_admin_may)
  obtain i d1 where c: "create_token sample_env 1 50 40 [REPOSITORY_VIEW] 1000 None 5 81 sample_secret
      sample_admin = Inr (i, d1)"
    by (simp add: create_token_def MAX_TOKEN_TTL_def days_def seconds_def validated_actions_def
        insert_token_def sample_env_def Let_def)
  have rec: "record_transition sample_env 1 (sample_user\<lparr>actor_path := sample_admin_path\<rparr>)
      (lit ''repositoryaccesstoken'') 81 [] (lit ''ISSUED'') 1
      (issued_metadata 50 40 (it_record i) []) d1 = Inr (d1\<lparr>
         audit_events := audit_events d1 @ [audit_row 1 (sample_user\<lparr>actor_path := sample_admin_path\<rparr>)
           (lit ''repositoryaccesstoken'') 81 [] (lit ''ISSUED'') (issued_metadata 50 40 (it_record i) [])],
         outbox_events := outbox_events d1 @ [outbox_row 1 (lit ''repositoryaccesstoken'') 81 []
           (lit ''ISSUED'') 1 (issued_metadata 50 40 (it_record i) [])]\<rparr>)"
    using create_token_Inr(5,6) [OF c]
    by (intro record_transition_ok)
      (simp_all add: actor_clean_def issued_metadata_def ALLOWED_AUDIT_METADATA_KEYS_def)
  have id: "tok_id (it_record i) = 81" using create_token_Inr(5) [OF c] by simp
  show ?thesis
    by (intro exI) (simp only: issue_repository_token_def get_tenant_record_for_update_def
        sample_user_simps repo svc bind_res_simps sample_rows_simps sample_admin_may each c prod.case
        sample_admin_audit id rec)
qed

section \<open>Properties\<close>

text \<open>C27: An issued plaintext authenticates as what was issued.  The one-time plaintext an issue
  returned, presented as \<^verbatim>\<open>Bearer <plaintext>\<close> at any instant before its expiry, yields an actor of the
  same organization that acts as the chosen service, confined to the chosen repository and to
  exactly the requested actions.\<close>

theorem issued_token_authenticates:
  assumes "issue_repository_token env actor r s actions expires_at expires_text now tid secret d
      = Inr (i, d')"
    and "distinct (map tok_id (tokens d))" "urlsafe secret" "tid < 2 ^ 128" "later < expires_at"
  shows "\<exists>a d''. authenticate_bearer env (lit ''Bearer '' @ it_plaintext i) later request_id d' = Inr (a, d'')
     \<and> actor_org a = actor_org actor \<and> actor_type a = lit ''SERVICE'' \<and> actor_id a = uuid_str s
     \<and> actor_repository a = Some r \<and> actor_credential a = Some tid
     \<and> set (actor_credential_actions a) = action_value ` set actions"
  using assms(1)
proof (rule issue_Inr)
  fix d1
  assume c: "create_token env (actor_org actor) r s actions expires_at None now tid secret d = Inr (i, d1)"
    and rows: "tokens d' = tokens d @ [it_record i]" "repositories d' = repositories d"
      "service_identities d' = service_identities d" "organizations d' = organizations d"
    and refs: "\<exists>x\<in>set (repositories d). repo_id x = r \<and> repo_org x = actor_org actor \<and> repo_active x"
      "\<exists>x\<in>set (service_identities d). sid_id x = s \<and> sid_org x = actor_org actor \<and> sid_active x"
    and auth: "returns (authorize_action env now d actor TOKEN_MANAGE (Some r) None None False)"
  note created = create_token_Inr [OF c]
  let ?t = "it_record i" and ?p = "build_plaintext tid secret"
  obtain p where "resolve_principal d actor = Inr p"
    using auth unfolding returns_iff authorize_action_Inr by blast
  then have org: "organization_active (actor_org actor) d"
    using resolved_acts_as by (auto simp: acts_as_def)
  have good: "credential_good env d' later ?p ?t"
    using created(5) assms(5) refs org
    by (auto simp: credential_good_def rows organization_active_def list_ex_iff)
  have found: "find_by (\<lambda>t. tok_id t = tid) (tokens d') = Some ?t"
    using created(5,7) assms(2) rows(1)
    by (intro find_by_unique [where key = tok_id]) simp_all
  obtain as where as: "stored_actions (tok_allowed_actions ?t) = Inr as" "set as = set actions"
    using stored_actions_issued [of actions] created(5) by auto
  let ?a = "bearer_actor ?t as request_id"
  have dash: "45 \<in> set (uuid_str s)" unfolding uuid_str_def Let_def by simp
  have "strip (uuid_str s) \<noteq> []" unfolding strip_empty_iff
    using dash by (auto simp: is_space_def intro!: bexI [where x = 45])
  moreover have "strip (lit ''SERVICE'') \<noteq> []" "strip (lit ''token:'' @ uuid_str tid) \<noteq> []"
    unfolding strip_empty_iff by (simp_all add: is_space_def)
  ultimately have ctx: "check_actor ?a = Inr ?a"
    using created(5) unfolding check_actor_def bearer_actor_def by (simp del: lit_simps)
  have "authenticate_bearer env (lit ''Bearer '' @ it_plaintext i) later request_id d'
      = Inr (?a, save_row token_table (?t\<lparr>tok_last_used_at := Some later\<rparr>) d')"
    unfolding authenticate_bearer_def created(4) bearer_plaintext_Bearer [OF plaintext_parses(3) [OF assms(3,4)]]
      option.case plaintext_parses(1) [OF assms(3,4)] found as(1) sum.case ctx bind_res_simps
    using good plaintext_parses(2) [OF assms(3,4)] by simp
  then show ?thesis using as(2) created(5) by (auto simp: bearer_actor_def)
qed

theorem issued_token_authenticates_witness:
  "\<exists>i d' a d''. issue_repository_token sample_env sample_user 50 40 [REPOSITORY_VIEW] 1000 [] 5 81
       sample_secret sample_admin = Inr (i, d')
     \<and> authenticate_bearer sample_env (lit ''Bearer '' @ it_plaintext i) 999 99 d' = Inr (a, d'')
     \<and> set (actor_credential_actions a) = {action_value REPOSITORY_VIEW}"
proof -
  obtain i d' where i: "issue_repository_token sample_env sample_user 50 40 [REPOSITORY_VIEW] 1000 [] 5 81
       sample_secret sample_admin = Inr (i, d')" using sample_issue by blast
  have "urlsafe sample_secret" "distinct (map tok_id (tokens sample_admin))"
    by (simp_all add: urlsafe_def sample_secret_def)
  from issued_token_authenticates [OF i this(2,1), of 999 99] i show ?thesis by simp blast
qed

text \<open>Nobody hands on more than they hold.  When an issue returns, the issuer was itself allowed
  every action it put into the token, for that very repository, at that instant; the token lists
  exactly those actions and lives at most ninety days; and an issuer that acts under a credential
  has that credential for the same repository, with every one of those actions in its list.\<close>

theorem issuing_never_broadens:
  assumes "access_keys d"
    and "issue_repository_token env actor r s actions expires_at expires_text now tid secret d = Inr (i, d')"
  shows "(\<forall>a\<in>set actions. returns (authorize_action env now d actor a (Some r) None None False))
     \<and> (\<exists>as. stored_actions (tok_allowed_actions (it_record i)) = Inr as \<and> set as = set actions)
     \<and> now < tok_expires_at (it_record i) \<and> tok_expires_at (it_record i) \<le> now + days 90
     \<and> (\<forall>c. actor_credential actor = Some c \<longrightarrow>
          (\<exists>t\<in>set (tokens d). tok_id t = c \<and> tok_repository t = r
             \<and> (\<exists>listed. json_strings (tok_allowed_actions t) = Some listed
                  \<and> action_value ` set actions \<subseteq> set listed)))"
  using assms(2)
proof (rule issue_Inr)
  fix d1
  assume c: "create_token env (actor_org actor) r s actions expires_at None now tid secret d = Inr (i, d1)"
    and manage: "returns (authorize_action env now d actor TOKEN_MANAGE (Some r) None None False)"
    and each: "\<forall>a\<in>set actions. returns (authorize_action env now d actor a (Some r) None None False)"
  note created = create_token_Inr [OF c]
  have unique: "distinct (map tok_id (tokens d))" using assms(1) by (simp add: access_keys_def)
  have backed: "\<exists>t\<in>set (tokens d). tok_id t = c \<and> tok_repository t = r
      \<and> (\<exists>listed. json_strings (tok_allowed_actions t) = Some listed \<and> action_value a \<in> set listed)"
    if cred: "actor_credential actor = Some c"
      and may: "returns (authorize_action env now d actor a (Some r) None None False)" for c a
  proof -
    obtain p where "may_act env now d actor p a (Some r) None None False"
      using may unfolding authorize_action_may_act [OF assms(1)] by blast
    then obtain q t listed where q: "actor_repository actor = Some q" "Some r = actor_repository actor"
      and t: "t \<in> set (tokens d)" "live_token env d now actor (pr_id p) c q t"
      and l: "json_strings (tok_allowed_actions t) = Some listed" "action_value a \<in> set listed"
      using cred unfolding may_act_def token_backs_def by (metis option.discI)
    have "tok_id t = c" "tok_repository t = q" using t(2) unfolding live_token_def by blast+
    then show ?thesis using q t(1) l by auto
  qed
  have "\<exists>t\<in>set (tokens d). tok_id t = c \<and> tok_repository t = r
      \<and> (\<exists>listed. json_strings (tok_allowed_actions t) = Some listed \<and> action_value ` set actions \<subseteq> set listed)"
    if cred: "actor_credential actor = Some c" for c
  proof -
    from backed [OF cred manage] obtain t listed where t: "t \<in> set (tokens d)" "tok_id t = c" "tok_repository t = r"
      and l: "json_strings (tok_allowed_actions t) = Some listed" by blast
    have "action_value a \<in> set listed" if "a \<in> set actions" for a
    proof -
      from backed [OF cred] each that obtain u listed' where u: "u \<in> set (tokens d)" "tok_id u = c"
        and l': "json_strings (tok_allowed_actions u) = Some listed'" "action_value a \<in> set listed'" by blast
      have "u = t" using unique_row [OF unique u(1) t(1)] u(2) t(2) by simp
      then show ?thesis using l l' by simp
    qed
    then show ?thesis using t l by blast
  qed
  then show ?thesis
    using each created(1,2,5) stored_actions_issued [of actions] by (simp add: MAX_TOKEN_TTL_def)
qed

theorem issuing_never_broadens_witness:
  "\<exists>i d'. issue_repository_token sample_env sample_user 50 40 [REPOSITORY_VIEW] 1000 [] 5 81
       sample_secret sample_admin = Inr (i, d')
     \<and> returns (authorize_action sample_env 5 sample_admin sample_user REPOSITORY_VIEW (Some 50) None None False)
     \<and> tok_expires_at (it_record i) \<le> 5 + days 90"
proof -
  obtain i d' where i: "issue_repository_token sample_env sample_user 50 40 [REPOSITORY_VIEW] 1000 [] 5 81
       sample_secret sample_admin = Inr (i, d')" using sample_issue by blast
  from issuing_never_broadens [OF sample_admin_keys i] i show ?thesis by auto
qed

text \<open>C28: Revocation is immediate and final.  Once a token was revoked, or rotated, no header
  authenticates as it and no actor that carries it as its credential is allowed anything, at any
  later instant and after any sequence of further token operations and changes elsewhere.\<close>

theorem revoked_token_stays_dead:
  assumes "distinct (map tok_id (tokens d))"
    and "revoke_repository_token env actor tid now d = Inr (t, d1)
       \<or> rotate_repository_token env actor tid expires_at now new_id secret d = Inr (i, d1)"
    and "(token_step env)\<^sup>*\<^sup>* d1 d2"
  shows "(\<forall>header a d3. authenticate_bearer env header later request_id d2 = Inr (a, d3)
            \<longrightarrow> actor_credential a \<noteq> Some tid)
     \<and> (\<forall>b act repository source scope allow. actor_credential b = Some tid
            \<longrightarrow> \<not> returns (authorize_action env later d2 b act repository source scope allow))"
  using dead_token_steps [OF assms(3) revoked_is_dead [OF assms(1,2)]]
  by (blast dest: dead_token_not_presented dead_token_not_used)

lemma sample_revoke:
  "\<exists>t d'. revoke_repository_token sample_env sample_user 80 5 sample_admin = Inr (t, d')"
proof -
  have tok: "get_tenant_record token_table 80 1 sample_admin = Inr sample_token"
    by (simp add: get_tenant_record_def)
  let ?d1 = "save_row token_table (sample_token\<lparr>tok_revoked_at := Some 5\<rparr>) sample_admin"
  have rec: "record_transition sample_env 1 (sample_user\<lparr>actor_path := sample_admin_path\<rparr>)
      (lit ''repositoryaccesstoken'') 80 (lit ''ACTIVE'') (lit ''REVOKED'') 1 [] ?d1 = Inr (?d1\<lparr>
         audit_events := audit_events ?d1 @ [audit_row 1 (sample_user\<lparr>actor_path := sample_admin_path\<rparr>)
           (lit ''repositoryaccesstoken'') 80 (lit ''ACTIVE'') (lit ''REVOKED'') []],
         outbox_events := outbox_events ?d1 @ [outbox_row 1 (lit ''repositoryaccesstoken'') 80 (lit ''ACTIVE'')
           (lit ''REVOKED'') 1 []]\<rparr>)"
    by (intro record_transition_ok) (simp_all add: actor_clean_def)
  show ?thesis
    by (intro exI) (simp only: revoke_repository_token_def get_tenant_record_for_update_def
        sample_user_simps tok bind_res_simps sample_rows_simps sample_admin_may sample_admin_audit rec
        Let_def not_True_eq_False if_False simp_thms)
qed

theorem revoked_token_stays_dead_witness:
  "\<exists>t d'. revoke_repository_token sample_env sample_user 80 5 sample_admin = Inr (t, d')
     \<and> \<not> returns (authorize_action sample_env 6 d' sample_bearer REPOSITORY_VIEW (Some 50) None None False)"
proof -
  obtain t d' where r: "revoke_repository_token sample_env sample_user 80 5 sample_admin = Inr (t, d')"
    using sample_revoke by blast
  have "distinct (map tok_id (tokens sample_admin))" by simp
  from revoked_token_stays_dead [OF this disjI1 [OF r] rtranclp.rtrancl_refl] r show ?thesis by simp
qed

text \<open>A rotation replaces a token by its equal.  When it returns, the old token was live and is
  now revoked, the new one belongs to the same organization, repository and service, names the old
  one as its origin, lists the same actions and lives at most ninety days, and no other token
  changed: of the two exactly the new one is live.\<close>

theorem rotation_replaces_the_token:
  assumes "distinct (map tok_id (tokens d))"
    and "rotate_repository_token env actor tid expires_at now new_id secret d = Inr (i, d')"
  shows "\<exists>old\<in>set (tokens d). tok_id old = tid \<and> tok_revoked_at old = None
     \<and> tok_org (it_record i) = tok_org old \<and> tok_repository (it_record i) = tok_repository old
     \<and> tok_service_identity (it_record i) = tok_service_identity old
     \<and> tok_rotated_from (it_record i) = Some tid \<and> tok_revoked_at (it_record i) = None
     \<and> tok_expires_at (it_record i) \<le> now + days 90
     \<and> (\<exists>as bs. stored_actions (tok_allowed_actions old) = Inr as
           \<and> stored_actions (tok_allowed_actions (it_record i)) = Inr bs \<and> set as = set bs)
     \<and> set (tokens d') = insert (it_record i)
          (insert (old\<lparr>tok_revoked_at := Some now\<rparr>) (set (tokens d) - {old}))"
  using assms(2)
proof (rule rotate_Inr)
  fix old as d1
  assume old: "old \<in> set (tokens d)" "tok_id old = tid" "tok_revoked_at old = None"
    and as: "stored_actions (tok_allowed_actions old) = Inr as"
    and c: "create_token env (tok_org old) (tok_repository old) (tok_service_identity old) as
       expires_at (Some tid) now new_id secret d = Inr (i, d1)"
    and rows: "tokens d' = update_where (\<lambda>x. tok_id x = tid) (\<lambda>_. old\<lparr>tok_revoked_at := Some now\<rparr>)
       (tokens d @ [it_record i])"
  note created = create_token_Inr [OF c]
  have new: "tok_id (it_record i) \<noteq> tid" using created(5,7) old(1,2) by auto
  have same: "tok_id x = tid \<longleftrightarrow> x = old" if "x \<in> set (tokens d)" for x
    using unique_row [OF assms(1) that old(1)] old(2) by metis
  have "set (tokens d') = (\<lambda>x. if tok_id x = tid then old\<lparr>tok_revoked_at := Some now\<rparr> else x) `
      insert (it_record i) (set (tokens d))"
    by (auto simp: rows update_where_def)
  also have "\<dots> = insert (it_record i)
      ((\<lambda>x. if x = old then old\<lparr>tok_revoked_at := Some now\<rparr> else x) ` set (tokens d))"
  proof -
    have "(\<lambda>x. if tok_id x = tid then old\<lparr>tok_revoked_at := Some now\<rparr> else x) ` set (tokens d)
        = (\<lambda>x. if x = old then old\<lparr>tok_revoked_at := Some now\<rparr> else x) ` set (tokens d)"
      by (intro image_cong refl) (simp only: same)
    then show ?thesis by (simp only: image_insert new if_False)
  qed
  also have "\<dots> = insert (it_record i)
      (insert (old\<lparr>tok_revoked_at := Some now\<rparr>) (set (tokens d) - {old}))"
    using old(1) by (auto simp: image_iff)
  finally have table: "set (tokens d') = insert (it_record i)
      (insert (old\<lparr>tok_revoked_at := Some now\<rparr>) (set (tokens d) - {old}))" .
  obtain bs where "stored_actions (tok_allowed_actions (it_record i)) = Inr bs" "set bs = set as"
    using stored_actions_issued [of as] created(5) by auto
  then show ?thesis using old as created(2,5) table
    by (intro bexI [of _ old]) (auto simp: MAX_TOKEN_TTL_def)
qed

lemma sample_rotate:
  "\<exists>i d'. rotate_repository_token sample_env sample_user 80 1000 5 81 sample_secret sample_admin = Inr (i, d')"
proof -
  have tok: "get_tenant_record token_table 80 1 sample_admin = Inr sample_token"
    by (simp add: get_tenant_record_def)
  have active: "list_ex (\<lambda>r. repo_id r = 50 \<and> repo_active r) (repositories sample_admin)"
    "list_ex (\<lambda>s. sid_id s = 40 \<and> sid_active s) (service_identities sample_admin)"
    by (simp_all add: sample_access_rows sample_service_def)
  have acts: "stored_actions (tok_allowed_actions sample_token) = Inr [REPOSITORY_VIEW]"
    by (simp add: stored_actions_def sample_token_def del: action_value.simps)
  have each: "authorize_each sample_env 5 sample_admin sample_user 50 [REPOSITORY_VIEW] = Inr ()"
    by (simp add: authorize_each_def sample_admin_may)
  obtain i d1 where c: "create_token sample_env 1 50 40 [REPOSITORY_VIEW] 1000 (Some 80) 5 81 sample_secret
      sample_admin = Inr (i, d1)"
    by (simp add: create_token_def MAX_TOKEN_TTL_def days_def seconds_def validated_actions_def
        insert_token_def sample_env_def Let_def)
  have id: "tok_id (it_record i) = 81" using create_token_Inr(5) [OF c] by simp
  let ?d2 = "save_row token_table (sample_token\<lparr>tok_revoked_at := Some 5\<rparr>) d1"
  let ?md = "[(lit ''replacement_token_id'', JStr (uuid_str 81))]"
  have rec: "record_transition sample_env 1 (sample_user\<lparr>actor_path := sample_admin_path\<rparr>)
      (lit ''repositoryaccesstoken'') 80 (lit ''ACTIVE'') (lit ''ROTATED'') 1 ?md ?d2 = Inr (?d2\<lparr>
         audit_events := audit_events ?d2 @ [audit_row 1 (sample_user\<lparr>actor_path := sample_admin_path\<rparr>)
           (lit ''repositoryaccesstoken'') 80 (lit ''ACTIVE'') (lit ''ROTATED'') ?md],
         outbox_events := outbox_events ?d2 @ [outbox_row 1 (lit ''repositoryaccesstoken'') 80 (lit ''ACTIVE'')
           (lit ''ROTATED'') 1 ?md]\<rparr>)"
    using create_token_Inr(6) [OF c]
    by (intro record_transition_ok) (simp_all add: actor_clean_def ALLOWED_AUDIT_METADATA_KEYS_def)
  show ?thesis
    by (intro exI) (simp only: rotate_repository_token_def get_tenant_record_for_update_def
        sample_user_simps tok bind_res_simps sample_rows_simps active acts each c id prod.case
        sample_admin_may sample_admin_audit rec Let_def not_True_eq_False if_False simp_thms)
qed

theorem rotation_replaces_the_token_witness:
  "\<exists>i d'. rotate_repository_token sample_env sample_user 80 1000 5 81 sample_secret sample_admin = Inr (i, d')
     \<and> tok_rotated_from (it_record i) = Some 80 \<and> sample_token\<lparr>tok_revoked_at := Some 5\<rparr> \<in> set (tokens d')"
proof -
  obtain i d' where r: "rotate_repository_token sample_env sample_user 80 1000 5 81 sample_secret sample_admin
      = Inr (i, d')" using sample_rotate by blast
  have "distinct (map tok_id (tokens sample_admin))" by simp
  from rotation_replaces_the_token [OF this r] r show ?thesis by auto
qed

end
