(* ===== verification/RateLimits.thy ===== *)
theory RateLimits
  imports Tables "HOL-Library.Product_Lexorder"
begin

text \<open>
  The fixed-window rate limiter of \<^verbatim>\<open>src/anva/core/services/operations.py\<close>: one durable counter per
  tenant, principal digest, channel and window, and the purges of expired counters.  A refusal is
  raised after the counter is committed, so an operation returns its outcome beside the database.
\<close>

section \<open>Operations\<close>

record rate_decision =
  rd_limit :: int
  rd_remaining :: int
  rd_retry_after_seconds :: int

definition rate_limit :: "environment \<Rightarrow> pystr \<Rightarrow> int result" where
  "rate_limit env channel =
     (if channel = lit ''api'' then Inr (env_rate_api env)
      else if channel = lit ''mcp'' then Inr (env_rate_mcp env)
      else if channel = lit ''web'' then Inr (env_rate_web env)
      else if channel = lit ''preauth'' then Inr (env_rate_preauth env)
      else Inl (ValueError ''Unknown rate-limit channel''))"

definition identity_hash :: "environment \<Rightarrow> actor_context \<Rightarrow> pystr" where
  "identity_hash env actor =
     env_identity_hash env
       (join_on 58 [uuid_str (actor_org actor), actor_type actor, actor_id actor,
          (case actor_credential actor of None \<Rightarrow> lit ''human-session'' | Some c \<Rightarrow> uuid_str c)])"

text \<open>\<^verbatim>\<open>int(current.timestamp())\<close>: the fraction of a second is cut off towards zero.\<close>

definition epoch_second :: "instant \<Rightarrow> int" where
  "epoch_second t = (if 0 \<le> t then t div 1000000 else - (- t div 1000000))"

definition window_epoch :: "environment \<Rightarrow> instant \<Rightarrow> int" where
  "window_epoch env t = epoch_second t - epoch_second t mod env_rate_window env"

definition window_start :: "environment \<Rightarrow> instant \<Rightarrow> instant" where
  "window_start env t = seconds (window_epoch env t)"

definition retry_after :: "environment \<Rightarrow> instant \<Rightarrow> int" where
  "retry_after env t = max 1 (env_rate_window env - (epoch_second t - window_epoch env t))"

type_synonym bucket_key = "uuid option \<times> pystr \<times> pystr \<times> instant"

definition bucket_key :: "rate_bucket \<Rightarrow> bucket_key" where
  "bucket_key b = (rb_org b, rb_identity_hash b, rb_channel b, rb_window_started_at b)"

definition new_bucket :: "environment \<Rightarrow> uuid \<Rightarrow> bucket_key \<Rightarrow> rate_bucket" where
  "new_bucket env fresh k =
     (case k of (org, ih, channel, start) \<Rightarrow>
       \<lparr>rb_id = fresh, rb_org = org, rb_identity_hash = ih, rb_channel = channel,
        rb_window_started_at = start, rb_request_count = 0, rb_denied_count = 0,
        rb_expires_at = start + seconds (env_rate_window env * 2)\<rparr>)"

text \<open>\<^verbatim>\<open>get_or_create\<close> on the unique columns.\<close>

definition bucket_for :: "environment \<Rightarrow> uuid \<Rightarrow> bucket_key \<Rightarrow> db \<Rightarrow> rate_bucket \<times> db" where
  "bucket_for env fresh k d =
     (case find_by (\<lambda>b. bucket_key b = k) (rate_buckets d) of
        Some b \<Rightarrow> (b, d)
      | None \<Rightarrow> (new_bucket env fresh k, d\<lparr>rate_buckets := rate_buckets d @ [new_bucket env fresh k]\<rparr>))"

definition counted :: "int \<Rightarrow> rate_bucket \<Rightarrow> rate_bucket" where
  "counted limit b =
     (let b' = b\<lparr>rb_request_count := rb_request_count b + 1\<rparr>
      in if int (rb_request_count b') > limit then b'\<lparr>rb_denied_count := rb_denied_count b' + 1\<rparr>
         else b')"

definition enforce_window ::
  "environment \<Rightarrow> uuid option \<Rightarrow> pystr \<Rightarrow> pystr \<Rightarrow> instant \<Rightarrow> uuid \<Rightarrow> db
     \<Rightarrow> rate_decision result \<times> db"
where
  "enforce_window env org ih channel now fresh d =
     (case rate_limit env channel of
        Inl e \<Rightarrow> (Inl e, d)
      | Inr limit \<Rightarrow>
          if \<not> env_rate_enabled env then
            (Inr \<lparr>rd_limit = limit, rd_remaining = limit,
                  rd_retry_after_seconds = retry_after env now\<rparr>, d)
          else
            let (bucket, d1) = bucket_for env fresh (org, ih, channel, window_start env now) d;
                b = counted limit bucket;
                d2 = d1\<lparr>rate_buckets :=
                       update_where (\<lambda>x. rb_id x = rb_id b) (\<lambda>_. b) (rate_buckets d1)\<rparr>
            in if int (rb_request_count b) > limit
               then (Inl (RateLimitExceededError (retry_after env now)), d2)
               else (Inr \<lparr>rd_limit = limit, rd_remaining = max 0 (limit - int (rb_request_count b)),
                          rd_retry_after_seconds = retry_after env now\<rparr>, d2))"

definition enforce_rate_limit ::
  "environment \<Rightarrow> actor_context \<Rightarrow> pystr \<Rightarrow> instant \<Rightarrow> uuid \<Rightarrow> db \<Rightarrow> rate_decision result \<times> db"
where
  "enforce_rate_limit env actor channel now fresh d =
     enforce_window env (Some (actor_org actor)) (identity_hash env actor) channel now fresh d"

definition enforce_pre_auth_rate_limit ::
  "environment \<Rightarrow> pystr \<Rightarrow> instant \<Rightarrow> uuid \<Rightarrow> db \<Rightarrow> rate_decision result \<times> db"
where
  "enforce_pre_auth_rate_limit env client_key now fresh d =
     enforce_window env None (env_identity_hash env (lit ''preauth:'' @ client_key)) (lit ''preauth'')
       now fresh d"

definition purge_expired_rate_buckets :: "uuid \<Rightarrow> instant \<Rightarrow> db \<Rightarrow> nat \<times> db" where
  "purge_expired_rate_buckets org now d =
     (let gone = (\<lambda>b. rb_org b = Some org \<and> rb_expires_at b \<le> now)
      in (length (filter gone (rate_buckets d)),
          d\<lparr>rate_buckets := filter (\<lambda>b. \<not> gone b) (rate_buckets d)\<rparr>))"

definition MAX_PREAUTH_RATE_BUCKET_PURGE :: int where
  "MAX_PREAUTH_RATE_BUCKET_PURGE = 1000"

text \<open>
  \<open>limit_is_bool\<close> is \<^verbatim>\<open>isinstance(limit, bool)\<close>; \<open>locked\<close> are the rows another transaction holds,
  which \<^verbatim>\<open>skip_locked\<close> leaves out.
\<close>

definition preauth_expired :: "instant \<Rightarrow> rate_bucket \<Rightarrow> bool" where
  "preauth_expired cutoff b \<longleftrightarrow>
     rb_org b = None \<and> rb_channel b = lit ''preauth'' \<and> rb_expires_at b \<le> cutoff"

definition purge_expired_pre_auth_rate_buckets ::
  "instant \<Rightarrow> int \<Rightarrow> bool \<Rightarrow> uuid list \<Rightarrow> db \<Rightarrow> (nat \<times> db) result"
where
  "purge_expired_pre_auth_rate_buckets now limit limit_is_bool locked d =
     (if limit_is_bool \<or> \<not> (1 \<le> limit \<and> limit \<le> MAX_PREAUTH_RATE_BUCKET_PURGE)
      then Inl (ValueError ''Pre-auth rate-bucket cleanup limit must be between 1 and 1000'')
      else
        let ids = map rb_id (take (nat limit)
                    (sort_key (\<lambda>b. (rb_expires_at b, rb_id b))
                      (filter (\<lambda>b. preauth_expired now b \<and> rb_id b \<notin> set locked)
                         (rate_buckets d))));
            gone = (\<lambda>b. rb_id b \<in> set ids \<and> preauth_expired now b)
        in if ids = [] then Inr (0, d)
           else Inr (length (filter gone (rate_buckets d)),
                     d\<lparr>rate_buckets := filter (\<lambda>b. \<not> gone b) (rate_buckets d)\<rparr>))"

section \<open>Windows\<close>

lemma epoch_second_mono: "s \<le> t \<Longrightarrow> epoch_second s \<le> epoch_second t"
proof -
  assume st: "s \<le> t"
  consider "0 \<le> s" | "s < 0" "0 \<le> t" | "t < 0" by linarith
  then show ?thesis
  proof cases
    case 1
    then show ?thesis using st by (simp add: epoch_second_def zdiv_mono1)
  next
    case 2
    have "0 \<le> - s div 1000000" using 2 by (simp add: pos_imp_zdiv_nonneg_iff)
    moreover have "0 \<le> t div 1000000" using 2 by (simp add: pos_imp_zdiv_nonneg_iff)
    ultimately show ?thesis using 2 by (simp add: epoch_second_def)
  next
    case 3
    then show ?thesis using st by (simp add: epoch_second_def zdiv_mono1)
  qed
qed

lemma epoch_second_add: "0 \<le> t \<Longrightarrow> 0 \<le> k \<Longrightarrow> epoch_second (t + seconds k) = epoch_second t + k"
  by (simp add: epoch_second_def seconds_def)

lemma epoch_second_le: "0 \<le> t \<Longrightarrow> seconds k \<le> t \<longleftrightarrow> k \<le> epoch_second t"
  by (simp add: epoch_second_def seconds_def) linarith

lemma window_epoch_div:
  "window_epoch env t = epoch_second t div env_rate_window env * env_rate_window env"
  by (simp add: window_epoch_def minus_mod_eq_div_mult)

lemma seconds_inj: "seconds a = seconds b \<longleftrightarrow> a = b"
  by (simp add: seconds_def)

lemma seconds_le: "seconds a \<le> seconds b \<longleftrightarrow> a \<le> b"
  by (simp add: seconds_def)

text \<open>A later instant is never in an earlier window.\<close>

lemma window_epoch_mono:
  assumes "1 \<le> env_rate_window env" "s \<le> t"
  shows "window_epoch env s \<le> window_epoch env t"
  using assms epoch_second_mono [OF assms(2)]
  by (simp add: window_epoch_div mult_right_mono zdiv_mono1)

text \<open>Nothing expires before its window has ended.\<close>

lemma expired_window_is_over:
  assumes "1 \<le> env_rate_window env" "0 \<le> s" "s \<le> t"
    and "window_start env s + seconds (env_rate_window env * 2) \<le> t"
  shows "window_start env t \<noteq> window_start env s"
proof
  assume "window_start env t = window_start env s"
  then have eq: "window_epoch env t = window_epoch env s"
    by (simp add: window_start_def seconds_inj)
  have "seconds (window_epoch env s + env_rate_window env * 2) \<le> t"
    using assms(4) by (simp add: window_start_def seconds_def algebra_simps)
  then have "window_epoch env s + env_rate_window env * 2 \<le> epoch_second t"
    using assms(2,3) epoch_second_le [of t] by simp
  moreover have "epoch_second t < window_epoch env t + env_rate_window env"
    using assms(1) pos_mod_bound [of "env_rate_window env" "epoch_second t"]
    by (simp add: window_epoch_def)
  ultimately show False using eq assms(1) by linarith
qed

end
