(* ===== verification/RateLimitClaims.thy ===== *)
theory RateLimitClaims
  imports RateLimits Samples
begin

text \<open>
  What the rate limiter guarantees over any sequence of requests and purges: a window admits
  exactly its limit, whoever else calls, and the advertised delay reaches the next window.
\<close>

section \<open>Sequences of requests and purges\<close>

datatype rate_event =
    Request "uuid option" pystr pystr instant uuid
  | Purge uuid instant
  | PurgePreAuth instant int "uuid list"

fun event_time :: "rate_event \<Rightarrow> instant" where
  "event_time (Request org ih channel now fresh) = now"
| "event_time (Purge org now) = now"
| "event_time (PurgePreAuth now n locked) = now"

definition after_event :: "environment \<Rightarrow> rate_event \<Rightarrow> db \<Rightarrow> db" where
  "after_event env e d =
     (case e of
        Request org ih channel now fresh \<Rightarrow> snd (enforce_window env org ih channel now fresh d)
      | Purge org now \<Rightarrow> snd (purge_expired_rate_buckets org now d)
      | PurgePreAuth now n locked \<Rightarrow>
          (case purge_expired_pre_auth_rate_buckets now n False locked d of
             Inl e \<Rightarrow> d
           | Inr (k, d') \<Rightarrow> d'))"

definition event_key :: "environment \<Rightarrow> rate_event \<Rightarrow> bucket_key option" where
  "event_key env e =
     (case e of
        Request org ih channel now fresh \<Rightarrow> Some (org, ih, channel, window_start env now)
      | _ \<Rightarrow> None)"

definition admits :: "environment \<Rightarrow> rate_event \<Rightarrow> db \<Rightarrow> bool" where
  "admits env e d =
     (case e of
        Request org ih channel now fresh \<Rightarrow> returns (fst (enforce_window env org ih channel now fresh d))
      | _ \<Rightarrow> False)"

text \<open>How many requests for the bucket of a key are admitted, and how many are made.\<close>

fun admitted :: "environment \<Rightarrow> bucket_key \<Rightarrow> rate_event list \<Rightarrow> db \<Rightarrow> nat" where
  "admitted env k [] d = 0"
| "admitted env k (e # es) d =
     (if event_key env e = Some k \<and> admits env e d then 1 else 0)
     + admitted env k es (after_event env e d)"

definition requested :: "environment \<Rightarrow> bucket_key \<Rightarrow> rate_event list \<Rightarrow> nat" where
  "requested env k es = length (filter (\<lambda>e. event_key env e = Some k) es)"

definition fresh_ids :: "rate_event list \<Rightarrow> uuid list" where
  "fresh_ids es = concat (map (\<lambda>e. case e of Request org ih channel now fresh \<Rightarrow> [fresh] | _ \<Rightarrow> []) es)"

section \<open>The table of counters\<close>

definition counters_ok :: "environment \<Rightarrow> db \<Rightarrow> bool" where
  "counters_ok env d \<longleftrightarrow>
     distinct (map rb_id (rate_buckets d)) \<and> distinct (map bucket_key (rate_buckets d))
     \<and> (\<forall>b\<in>set (rate_buckets d).
          rb_expires_at b = rb_window_started_at b + seconds (env_rate_window env * 2))"

definition used :: "bucket_key \<Rightarrow> db \<Rightarrow> nat" where
  "used k d = (case find_by (\<lambda>b. bucket_key b = k) (rate_buckets d) of
                 None \<Rightarrow> 0 | Some b \<Rightarrow> rb_request_count b)"

lemma counted_simps [simp]:
  "rb_id (counted l b) = rb_id b" "bucket_key (counted l b) = bucket_key b"
  "rb_request_count (counted l b) = rb_request_count b + 1"
  "rb_expires_at (counted l b) = rb_expires_at b"
  "rb_window_started_at (counted l b) = rb_window_started_at b"
  by (simp_all add: counted_def bucket_key_def Let_def)

lemma find_by_key_update:
  assumes "distinct (map rb_id bs)" "distinct (map bucket_key bs)" "b \<in> set bs"
    and "rb_id b' = rb_id b" "bucket_key b' = bucket_key b"
  shows "find_by (\<lambda>x. bucket_key x = k) (update_where (\<lambda>x. rb_id x = rb_id b') (\<lambda>_. b') bs)
         = (if k = bucket_key b then Some b' else find_by (\<lambda>x. bucket_key x = k) bs)"
  using assms
proof (induction bs)
  case Nil
  then show ?case by simp
next
  case (Cons c cs)
  have upd: "update_where p f (c # cs) = (if p c then f c else c) # update_where p f cs"
    for p f and c :: rate_bucket and cs by (simp add: update_where_def)
  show ?case
  proof (cases "b = c")
    case True
    then have "rb_id x \<noteq> rb_id b'" if "x \<in> set cs" for x
      using Cons.prems(1,4) that by (metis distinct.simps(2) image_eqI list.set_map list.simps(9))
    then have "update_where (\<lambda>x. rb_id x = rb_id b') (\<lambda>_. b') cs = cs"
      by (auto simp: update_where_def intro!: map_idI)
    then show ?thesis using True Cons.prems by (auto simp: upd)
  next
    case False
    then have "b \<in> set cs" "rb_id c \<noteq> rb_id b'" "bucket_key c \<noteq> bucket_key b"
      using Cons.prems by force+
    then show ?thesis using Cons.IH Cons.prems by (cases "k = bucket_key b") (simp_all add: upd)
  qed
qed

lemma update_where_keys:
  assumes "b \<in> set bs" "rb_id b' = rb_id b" "bucket_key b' = bucket_key b"
    and "distinct (map rb_id bs)"
  shows "map rb_id (update_where (\<lambda>x. rb_id x = rb_id b') (\<lambda>_. b') bs) = map rb_id bs"
    and "map bucket_key (update_where (\<lambda>x. rb_id x = rb_id b') (\<lambda>_. b') bs) = map bucket_key bs"
  using assms by (auto simp: update_where_def distinct_map inj_on_def)

text \<open>One enforced request: the bucket exists afterwards with one more use, the others are untouched.\<close>

lemma enforce_window_step:
  assumes "counters_ok env d" "env_rate_enabled env" "rate_limit env channel = Inr limit"
    and "fresh \<notin> rb_id ` set (rate_buckets d)"
    and "enforce_window env org ih channel now fresh d = (r, d')"
    and "k0 = (org, ih, channel, window_start env now)"
  shows "counters_ok env d'" "used k d' = used k d + (if k = k0 then 1 else 0)"
    "returns r \<longleftrightarrow> int (used k0 d) < limit"
    "rb_id ` set (rate_buckets d') \<subseteq> insert fresh (rb_id ` set (rate_buckets d))"
proof -
  obtain b d1 where b: "bucket_for env fresh k0 d = (b, d1)" by (cases "bucket_for env fresh k0 d")
  define d2 where "d2 = d1\<lparr>rate_buckets := update_where (\<lambda>x. rb_id x = rb_id (counted limit b))
                        (\<lambda>_. counted limit b) (rate_buckets d1)\<rparr>"
  have "(r, d') = (if int (rb_request_count (counted limit b)) > limit
               then (Inl (RateLimitExceededError (retry_after env now)), d2)
               else (Inr \<lparr>rd_limit = limit,
                          rd_remaining = max 0 (limit - int (rb_request_count (counted limit b))),
                          rd_retry_after_seconds = retry_after env now\<rparr>, d2))"
    using assms(5)
    unfolding enforce_window_def assms(3) Let_def b [unfolded assms(6)] prod.case sum.case d2_def
    by (simp only: assms(2) if_False not_True_eq_False)
  then have r: "returns r \<longleftrightarrow> int (rb_request_count b) < limit" and "d' = d2"
    by (simp_all split: if_splits)
  then have d': "d' = d1\<lparr>rate_buckets := update_where (\<lambda>x. rb_id x = rb_id (counted limit b))
                        (\<lambda>_. counted limit b) (rate_buckets d1)\<rparr>"
    by (simp only: d2_def)
  have ok1: "counters_ok env d1" and mem: "b \<in> set (rate_buckets d1)" and bk: "bucket_key b = k0"
    and us: "\<And>k. used k d1 = used k d" and ub: "rb_request_count b = used k0 d"
    and ids: "rb_id ` set (rate_buckets d1) \<subseteq> insert fresh (rb_id ` set (rate_buckets d))"
  proof -
    consider (old) "find_by (\<lambda>b. bucket_key b = k0) (rate_buckets d) = Some b" "d1 = d"
      | (new) "\<forall>x\<in>set (rate_buckets d). bucket_key x \<noteq> k0" "b = new_bucket env fresh k0"
              "d1 = d\<lparr>rate_buckets := rate_buckets d @ [b]\<rparr>"
    proof (cases "find_by (\<lambda>b. bucket_key b = k0) (rate_buckets d)")
      case None
      then have "\<forall>x\<in>set (rate_buckets d). bucket_key x \<noteq> k0" by (simp only: find_by_None)
      moreover have "b = new_bucket env fresh k0"
        "d1 = d\<lparr>rate_buckets := rate_buckets d @ [new_bucket env fresh k0]\<rparr>"
        using b unfolding bucket_for_def None by auto
      ultimately show ?thesis by (intro new) simp_all
    next
      case (Some c)
      then have "(b, d1) = (c, d)" using b unfolding bucket_for_def Some by simp
      then show ?thesis using Some by (intro old) auto
    qed
    then have "counters_ok env d1 \<and> b \<in> set (rate_buckets d1) \<and> bucket_key b = k0
      \<and> (\<forall>k. used k d1 = used k d) \<and> rb_request_count b = used k0 d
      \<and> rb_id ` set (rate_buckets d1) \<subseteq> insert fresh (rb_id ` set (rate_buckets d))"
    proof cases
      case old
      then show ?thesis using assms(1) find_by_Some_iff [OF old(1)] by (auto simp: used_def)
    next
      case new
      have key: "bucket_key b = k0" "rb_id b = fresh" "rb_request_count b = 0"
        "rb_expires_at b = rb_window_started_at b + seconds (env_rate_window env * 2)"
        using new(2) assms(6) by (simp_all add: new_bucket_def bucket_key_def)
      have none: "find_by (\<lambda>b. bucket_key b = k0) (rate_buckets d) = None" using new(1) by simp
      have app: "find_by p (xs @ [x]) = (case find_by p xs of None \<Rightarrow> if p x then Some x else None | Some y \<Rightarrow> Some y)"
        for p :: "rate_bucket \<Rightarrow> bool" and xs x
        by (induction xs) auto
      have "used k d1 = used k d" for k
        using key by (cases "find_by (\<lambda>b. bucket_key b = k) (rate_buckets d)")
          (simp_all add: used_def new(3) app del: find_by_None)
      moreover have "used k0 d = 0" unfolding used_def none by simp
      moreover have "counters_ok env d1"
        using assms(1,4) key new(1) by (auto simp: counters_ok_def new(3))
      ultimately show ?thesis using key new(3) by auto
    qed
    then show "counters_ok env d1" "b \<in> set (rate_buckets d1)" "bucket_key b = k0"
      "\<And>k. used k d1 = used k d" "rb_request_count b = used k0 d"
      "rb_id ` set (rate_buckets d1) \<subseteq> insert fresh (rb_id ` set (rate_buckets d))"
      by blast+
  qed
  have dist: "distinct (map rb_id (rate_buckets d1))" "distinct (map bucket_key (rate_buckets d1))"
    using ok1 by (simp_all add: counters_ok_def)
  have keys: "map rb_id (rate_buckets d') = map rb_id (rate_buckets d1)"
    "map bucket_key (rate_buckets d') = map bucket_key (rate_buckets d1)"
    using update_where_keys [OF mem _ _ dist(1), of "counted limit b"] by (simp_all add: d')
  show "counters_ok env d'"
    using ok1 keys mem by (auto simp: counters_ok_def d' set_update_where)
  show "used k d' = used k d + (if k = k0 then 1 else 0)"
  proof (cases "k = k0")
    case True
    then have "find_by (\<lambda>x. bucket_key x = k0) (rate_buckets d') = Some (counted limit b)"
      using find_by_key_update [OF dist mem, of "counted limit b" k0] bk by (simp add: d')
    then have "used k0 d' = rb_request_count b + 1" by (simp add: used_def)
    then show ?thesis using True ub by simp
  next
    case False
    then have "find_by (\<lambda>x. bucket_key x = k) (rate_buckets d')
        = find_by (\<lambda>x. bucket_key x = k) (rate_buckets d1)"
      using find_by_key_update [OF dist mem, of "counted limit b" k] bk by (simp add: d')
    then have "used k d' = used k d1" by (simp only: used_def)
    then show ?thesis using False us [of k] by simp
  qed
  show "returns r \<longleftrightarrow> int (used k0 d) < limit" using r ub by simp
  show "rb_id ` set (rate_buckets d') \<subseteq> insert fresh (rb_id ` set (rate_buckets d))"
    using ids keys(1) by (metis set_map)
qed

text \<open>A purge only deletes counters whose window is over.\<close>

definition keeps_live :: "instant \<Rightarrow> db \<Rightarrow> db \<Rightarrow> bool" where
  "keeps_live now d d' \<longleftrightarrow>
     (\<exists>gone. rate_buckets d' = filter (\<lambda>b. \<not> gone b) (rate_buckets d)
            \<and> (\<forall>b. gone b \<longrightarrow> rb_expires_at b \<le> now))"

lemma purge_keeps_live: "keeps_live now d (snd (purge_expired_rate_buckets org now d))"
  unfolding keeps_live_def
  by (rule exI [where x = "\<lambda>b. rb_org b = Some org \<and> rb_expires_at b \<le> now"])
    (simp add: purge_expired_rate_buckets_def Let_def)

lemma purge_pre_auth_keeps_live:
  assumes "purge_expired_pre_auth_rate_buckets now n flag locked d = Inr (k, d')"
  shows "keeps_live now d d'"
proof -
  define ids where "ids = map rb_id (take (nat n)
      (sort_key (\<lambda>b. (rb_expires_at b, rb_id b))
        (filter (\<lambda>b. preauth_expired now b \<and> rb_id b \<notin> set locked) (rate_buckets d))))"
  have "rate_buckets d' = filter (\<lambda>b. \<not> (rb_id b \<in> set ids \<and> preauth_expired now b)) (rate_buckets d)"
    using assms unfolding purge_expired_pre_auth_rate_buckets_def ids_def [symmetric] Let_def
    by (auto split: if_splits)
  then show ?thesis unfolding keeps_live_def
    by (intro exI [where x = "\<lambda>b. rb_id b \<in> set ids \<and> preauth_expired now b"])
      (simp add: preauth_expired_def)
qed

lemma distinct_map_filter_sub: "distinct (map f xs) \<Longrightarrow> distinct (map f (filter p xs))"
  by (induction xs) auto

lemma keeps_live_counters:
  assumes "keeps_live now d d'" "counters_ok env d"
  shows "counters_ok env d'" "rb_id ` set (rate_buckets d') \<subseteq> rb_id ` set (rate_buckets d)"
  using assms by (auto simp: keeps_live_def counters_ok_def distinct_map_filter_sub)

lemma find_by_filter_other:
  "(\<And>x. x \<in> set xs \<Longrightarrow> p x \<Longrightarrow> q x) \<Longrightarrow> find_by p (filter q xs) = find_by p xs"
  by (induction xs) auto

lemma keeps_live_used:
  assumes "keeps_live now d d'" "counters_ok env d"
    and "now < snd (snd (snd k)) + seconds (env_rate_window env * 2)"
  shows "used k d' = used k d"
proof -
  obtain gone where g: "rate_buckets d' = filter (\<lambda>b. \<not> gone b) (rate_buckets d)"
    "\<And>b. gone b \<Longrightarrow> rb_expires_at b \<le> now"
    using assms(1) by (auto simp: keeps_live_def)
  have "\<not> gone b" if "b \<in> set (rate_buckets d)" "bucket_key b = k" for b
    using that assms(2,3) g(2) [of b] by (auto simp: counters_ok_def bucket_key_def)
  then show ?thesis by (simp add: used_def g(1) find_by_filter_other)
qed

lemma after_purge_keeps_live:
  assumes "event_key env e = None"
  shows "keeps_live (event_time e) d (after_event env e d)"
proof (cases e)
  case (Request org ih channel now fresh)
  then show ?thesis using assms by (simp add: event_key_def)
next
  case (Purge org now)
  then show ?thesis by (simp add: after_event_def purge_keeps_live)
next
  case (PurgePreAuth now n locked)
  have refl: "keeps_live now d d" by (auto simp: keeps_live_def intro!: exI [where x = "\<lambda>_. False"])
  show ?thesis using PurgePreAuth refl
    by (auto simp: after_event_def purge_pre_auth_keeps_live split: sum.split)
qed

section \<open>A window admits its limit, no more and no less\<close>

text \<open>A request whose channel has no limit changes nothing and is never admitted.\<close>

lemma unknown_channel_step:
  assumes "rate_limit env channel = Inl e"
  shows "enforce_window env org ih channel now fresh d = (Inl e, d)"
  by (simp add: enforce_window_def assms)

lemma after_event_step:
  assumes "counters_ok env d" "env_rate_enabled env"
    and "set (fresh_ids [e]) \<inter> rb_id ` set (rate_buckets d) = {}"
    and "k = (org, ih, channel, start)" "rate_limit env channel = Inr limit"
    and "event_key env e = None \<Longrightarrow> event_time e < start + seconds (env_rate_window env * 2)"
  shows "counters_ok env (after_event env e d)"
    "used k (after_event env e d) = used k d + (if event_key env e = Some k then 1 else 0)"
    "event_key env e = Some k \<Longrightarrow> admits env e d \<longleftrightarrow> int (used k d) < limit"
    "rb_id ` set (rate_buckets (after_event env e d)) \<subseteq> set (fresh_ids [e]) \<union> rb_id ` set (rate_buckets d)"
proof -
  have "counters_ok env (after_event env e d)
    \<and> used k (after_event env e d) = used k d + (if event_key env e = Some k then 1 else 0)
    \<and> (event_key env e = Some k \<longrightarrow> (admits env e d \<longleftrightarrow> int (used k d) < limit))
    \<and> rb_id ` set (rate_buckets (after_event env e d)) \<subseteq> set (fresh_ids [e]) \<union> rb_id ` set (rate_buckets d)"
  proof (cases "event_key env e")
    case None
    then have live: "keeps_live (event_time e) d (after_event env e d)" by (rule after_purge_keeps_live)
    have "event_time e < snd (snd (snd k)) + seconds (env_rate_window env * 2)"
      using assms(4,6) None by simp
    then show ?thesis
      using None keeps_live_counters [OF live assms(1)] keeps_live_used [OF live assms(1)] by auto
  next
    case (Some k0)
    then obtain org' ih' channel' now fresh where
      e: "e = Request org' ih' channel' now fresh"
      and k0: "k0 = (org', ih', channel', window_start env now)"
      by (auto simp: event_key_def split: rate_event.splits)
    obtain r d' where rd: "enforce_window env org' ih' channel' now fresh d = (r, d')" by fastforce
    have post: "after_event env e d = d'" "admits env e d \<longleftrightarrow> returns r"
      using e rd by (simp_all add: after_event_def admits_def)
    have fresh: "fresh \<notin> rb_id ` set (rate_buckets d)" "set (fresh_ids [e]) = {fresh}"
      using assms(3) e by (auto simp: fresh_ids_def)
    show ?thesis
    proof (cases "rate_limit env channel'")
      case (Inl err)
      then have "d' = d" "channel' \<noteq> channel" using rd unknown_channel_step [OF Inl] assms(5) by auto
      then show ?thesis using post Some k0 assms(1,4) by auto
    next
      case (Inr limit')
      note step = enforce_window_step [OF assms(1,2) Inr fresh(1) rd k0]
      have "event_key env e = Some k \<longleftrightarrow> k = k0" using Some by auto
      moreover have "limit' = limit" if "k = k0" using that k0 assms(4,5) Inr by simp
      ultimately show ?thesis using step post fresh(2) by auto
    qed
  qed
  then show "counters_ok env (after_event env e d)"
    "used k (after_event env e d) = used k d + (if event_key env e = Some k then 1 else 0)"
    "event_key env e = Some k \<Longrightarrow> admits env e d \<longleftrightarrow> int (used k d) < limit"
    "rb_id ` set (rate_buckets (after_event env e d)) \<subseteq> set (fresh_ids [e]) \<union> rb_id ` set (rate_buckets d)"
    by blast+
qed

lemma no_requests_left:
  assumes "1 \<le> env_rate_window env" "0 \<le> s" "k = (org, ih, channel, window_start env s)"
    and "window_start env s + seconds (env_rate_window env * 2) \<le> now"
    and "\<forall>e\<in>set es. now \<le> event_time e" "s \<le> now"
  shows "requested env k es = 0" "admitted env k es d = 0"
proof -
  have no: "event_key env e \<noteq> Some k" if "e \<in> set es" for e
  proof
    assume "event_key env e = Some k"
    then obtain fresh t where "e = Request org ih channel t fresh" "window_start env t = window_start env s"
      using assms(3) by (auto simp: event_key_def split: rate_event.splits)
    moreover from this have "now \<le> t" using assms(5) that by fastforce
    ultimately show False
      using expired_window_is_over [OF assms(1,2), of t] assms(4,6) by simp
  qed
  then show "requested env k es = 0" by (auto simp: requested_def filter_empty_conv)
  show "admitted env k es d = 0" using no by (induction es arbitrary: d) auto
qed

lemma window_not_over:
  assumes "1 \<le> env_rate_window env" "0 \<le> s"
  shows "s < window_start env s + seconds (env_rate_window env)"
proof (rule ccontr)
  assume "\<not> s < window_start env s + seconds (env_rate_window env)"
  then have "seconds (window_epoch env s + env_rate_window env) \<le> s"
    by (simp add: window_start_def seconds_def algebra_simps)
  then have "window_epoch env s + env_rate_window env \<le> epoch_second s"
    using assms(2) epoch_second_le by simp
  moreover have "epoch_second s mod env_rate_window env < env_rate_window env"
    using assms(1) by simp
  ultimately show False unfolding window_epoch_def by linarith
qed

lemma fresh_ids_Cons: "fresh_ids (e # es) = fresh_ids [e] @ fresh_ids es"
  by (simp add: fresh_ids_def)

lemma admitted_count:
  assumes "env_rate_enabled env" "1 \<le> env_rate_window env" "rate_limit env channel = Inr limit"
    and "0 \<le> s" "k = (org, ih, channel, window_start env s)"
  shows "counters_ok env d \<Longrightarrow> sorted (map event_time es) \<Longrightarrow> distinct (fresh_ids es)
    \<Longrightarrow> set (fresh_ids es) \<inter> rb_id ` set (rate_buckets d) = {}
    \<Longrightarrow> int (admitted env k es d) = min (max 0 (limit - int (used k d))) (int (requested env k es))"
proof (induction es arbitrary: d)
  case Nil
  then show ?case by (simp add: requested_def)
next
  case (Cons e es)
  let ?over = "window_start env s + seconds (env_rate_window env * 2)"
  have later: "\<forall>x\<in>set (e # es). event_time e \<le> event_time x" using Cons.prems(2) by simp
  show ?case
  proof (cases "event_key env e = None \<and> ?over \<le> event_time e")
    case True
    have "seconds (env_rate_window env * 2) = seconds (env_rate_window env) + seconds (env_rate_window env)"
      by (simp add: seconds_def)
    moreover have "0 \<le> seconds (env_rate_window env)" using assms(2) by (simp add: seconds_def)
    ultimately have "s \<le> event_time e" using True window_not_over [OF assms(2,4)] by linarith
    then show ?thesis
      using no_requests_left [OF assms(2,4,5) _ later] True by simp
  next
    case False
    have fresh: "set (fresh_ids [e]) \<inter> rb_id ` set (rate_buckets d) = {}"
      using Cons.prems(4) fresh_ids_Cons [of e es] by auto
    have bound: "event_key env e = None \<Longrightarrow> event_time e < ?over" using False by auto
    note step = after_event_step [OF Cons.prems(1) assms(1) fresh assms(5,3) bound]
    have disj: "set (fresh_ids es) \<inter> rb_id ` set (rate_buckets (after_event env e d)) = {}"
      using step(4) Cons.prems(3,4) fresh_ids_Cons [of e es] by fastforce
    have "int (admitted env k es (after_event env e d))
        = min (max 0 (limit - int (used k (after_event env e d)))) (int (requested env k es))"
      using Cons.prems(2,3) fresh_ids_Cons [of e es] by (intro Cons.IH step(1) disj) auto
    then show ?thesis
      using step(2,3) by (auto simp: requested_def)
  qed
qed

section \<open>Properties\<close>

text \<open>C38: A window admits exactly its limit.  Take any sequence of requests and purges in time
  order, by any tenants and principals and with the rows other transactions hold, over a table of
  counters as the code keeps it, and a window no request has used yet.  Of the requests made for
  that tenant, principal digest, channel and window, as many are admitted as the channel's limit
  allows and no more; no request of anybody else uses the quota up, and no purge gives it back.\<close>

theorem window_admits_exactly_its_limit:
  assumes "env_rate_enabled env" "1 \<le> env_rate_window env" "rate_limit env channel = Inr limit"
    and "0 \<le> s" "k = (org, ih, channel, window_start env s)" "used k d = 0"
    and "counters_ok env d" "sorted (map event_time es)" "distinct (fresh_ids es)"
    and "set (fresh_ids es) \<inter> rb_id ` set (rate_buckets d) = {}"
  shows "int (admitted env k es d) = min (max 0 limit) (int (requested env k es))"
  using admitted_count [OF assms(1-5,7-10)] assms(6) by simp

definition sample_requests :: "rate_event list" where
  "sample_requests =
     [Request (Some 1) [7] (lit ''api'') (seconds 61) 500, Request (Some 2) [7] (lit ''api'') (seconds 62) 501,
      Request (Some 1) [7] (lit ''api'') (seconds 63) 502, Purge 1 (seconds 64),
      Request (Some 1) [7] (lit ''api'') (seconds 65) 503]"

theorem window_admits_exactly_its_limit_witness:
  "admitted sample_env (Some 1, [7], lit ''api'', seconds 60) sample_requests sample_db = 2"
proof -
  have win: "window_start sample_env (seconds 61) = seconds 60"
    by (simp add: window_start_def window_epoch_def sample_env_def epoch_second_def seconds_def)
  have req: "requested sample_env (Some 1, [7], lit ''api'', seconds 60) sample_requests = 3"
    by (simp add: requested_def sample_requests_def event_key_def window_start_def window_epoch_def
        sample_env_def epoch_second_def seconds_def)
  have "rate_limit sample_env (lit ''api'') = Inr 2" by (simp add: rate_limit_def sample_env_def)
  then have "int (admitted sample_env (Some 1, [7], lit ''api'', seconds 60) sample_requests sample_db)
      = min (max 0 2) (int (requested sample_env (Some 1, [7], lit ''api'', seconds 60) sample_requests))"
    using win by (intro window_admits_exactly_its_limit [where s = "seconds 61" and channel = "lit ''api''"])
      (simp_all add: sample_env_def sample_db_def empty_db_def used_def counters_ok_def
        sample_requests_def fresh_ids_def seconds_def)
  then show ?thesis using req by simp
qed

text \<open>The advertised retry delay is honest: it is between one second and the window, a request
  made that much later is counted in the next window, and one made any whole second sooner is still
  counted in this one.\<close>

theorem retry_after_reaches_the_next_window:
  assumes "1 \<le> env_rate_window env" "0 \<le> t" "0 \<le> early" "early < retry_after env t"
  shows "1 \<le> retry_after env t \<and> retry_after env t \<le> env_rate_window env
    \<and> window_start env (t + seconds (retry_after env t))
        = window_start env t + seconds (env_rate_window env)
    \<and> window_start env (t + seconds early) = window_start env t"
proof -
  let ?w = "env_rate_window env" and ?e = "epoch_second t"
  have w: "0 < ?w" using assms(1) by simp
  have ra: "retry_after env t = ?w - ?e mod ?w"
    using pos_mod_bound [OF w, of ?e] by (simp add: retry_after_def window_epoch_def)
  have bounds: "1 \<le> retry_after env t" "retry_after env t \<le> ?w"
    using ra pos_mod_bound [OF w, of ?e] pos_mod_sign [OF w, of ?e] by linarith+
  have "(?e + (?w - ?e mod ?w)) mod ?w = 0"
  proof -
    have "?e + (?w - ?e mod ?w) = (?e div ?w + 1) * ?w"
      using mult_div_mod_eq [of ?w ?e] by (simp add: algebra_simps)
    then show ?thesis by simp
  qed
  then have next_window: "window_epoch env (t + seconds (retry_after env t)) = window_epoch env t + ?w"
    using bounds epoch_second_add [OF assms(2), of "retry_after env t"] by (simp add: window_epoch_def ra)
  have "(?e + early) mod ?w = ?e mod ?w + early"
  proof -
    have "0 \<le> ?e mod ?w + early" "?e mod ?w + early < ?w"
      using assms(3,4) ra pos_mod_sign [OF w, of ?e] by simp_all
    then have "(?e mod ?w + early) mod ?w = ?e mod ?w + early" by simp
    then show ?thesis by (metis mod_add_left_eq)
  qed
  then have this_window: "window_epoch env (t + seconds early) = window_epoch env t"
    using epoch_second_add [OF assms(2,3)] by (simp add: window_epoch_def)
  show ?thesis using bounds next_window this_window
    by (simp add: window_start_def seconds_def algebra_simps)
qed

theorem retry_after_reaches_the_next_window_witness:
  "window_start sample_env (seconds 65 + seconds 55) = window_start sample_env (seconds 65) + seconds 60"
proof -
  have "retry_after sample_env (seconds 65) = 55" "env_rate_window sample_env = 60"
    by (simp_all add: retry_after_def window_epoch_def sample_env_def epoch_second_def seconds_def)
  then show ?thesis
    using retry_after_reaches_the_next_window [of sample_env "seconds 65" 0] by (simp add: seconds_def)
qed

end
