(* ===== verification/ContextInvalidation.thy ===== *)
theory ContextInvalidation
  imports Transitions "HOL-Library.Product_Lexorder"
begin

text \<open>
  The invalidation of sealed context packets (\<^verbatim>\<open>invalidate_context_packets\<close> of
  \<^verbatim>\<open>src/anva/core/services/context_packets.py\<close>) and of the assurance runs that rest on them
  (\<^verbatim>\<open>_stale_run\<close> and its callers in \<^verbatim>\<open>src/anva/core/services/assurance.py\<close>): the repository's
  watermark advances, every packet still valid gets an invalidation row, and every run bound to
  one of them becomes STALE.
\<close>

section \<open>Stale runs\<close>

definition cancel_task :: "pystr \<Rightarrow> evaluator_task \<Rightarrow> evaluator_task" where
  "cancel_task failure_code t =
     t\<lparr>tk_state := TASK_CANCELLED, tk_failure_code := failure_code, tk_revision := tk_revision t + 1\<rparr>"

text \<open>\<^verbatim>\<open>EvaluatorTask.objects.filter(assurance_run=run).first()\<close> and the write of the row found.\<close>

definition cancel_open_task :: "uuid \<Rightarrow> pystr \<Rightarrow> db \<Rightarrow> db" where
  "cancel_open_task rid failure_code d =
     (case first_by tk_id (filter (\<lambda>t. tk_run t = rid) (evaluator_tasks d)) of
        None \<Rightarrow> d
      | Some t \<Rightarrow>
          if tk_state t \<in> {TASK_SUBMITTED, TASK_FAILED, TASK_CANCELLED} then d
          else d\<lparr>evaluator_tasks :=
                   update_where (\<lambda>x. tk_id x = tk_id t) (\<lambda>_. cancel_task failure_code t)
                     (evaluator_tasks d)\<rparr>)"

definition set_readiness :: "uuid \<Rightarrow> pystr \<Rightarrow> db \<Rightarrow> db" where
  "set_readiness rid readiness d =
     d\<lparr>assurance_runs :=
         update_where (\<lambda>x. run_id x = rid) (\<lambda>x. x\<lparr>run_readiness := readiness\<rparr>) (assurance_runs d)\<rparr>"

definition stale_run ::
  "environment \<Rightarrow> actor_context \<Rightarrow> assurance_run \<Rightarrow> pystr \<Rightarrow> pystr \<Rightarrow> (pystr \<times> json) list \<Rightarrow> instant
     \<Rightarrow> db \<Rightarrow> db result"
where
  "stale_run env actor run new_head task_failure_code projection_metadata now d =
     (if run_state run = RUN_STALE then Inr d
      else
        bind_res (transition_assurance_run env actor (run_id run) (assurance_state_value RUN_STALE)
                    (int (run_revision run)) None None None now
                    (set_readiness (run_id run) (lit ''STALE'') d)) (\<lambda>(_, d1).
        record_transition env (run_org run) actor (lit ''assurance_current_projection'') (run_id run)
          (lit ''CURRENT'') (lit ''STALE'') (run_revision run)
          (if projection_metadata = [] then [(lit ''superseded_by_head_commit'', JStr new_head)]
           else projection_metadata)
          (cancel_open_task (run_id run) task_failure_code d1)))"

definition context_packet_invalidated :: "assurance_run \<Rightarrow> db \<Rightarrow> bool" where
  "context_packet_invalidated run d \<longleftrightarrow>
     (case run_context_packet run of
        None \<Rightarrow> False
      | Some p \<Rightarrow> list_ex (\<lambda>v. iv_org v = run_org run \<and> iv_packet v = p) (invalidations d))"

definition stale_invalidated_context ::
  "environment \<Rightarrow> actor_context \<Rightarrow> instant \<Rightarrow> assurance_run \<Rightarrow> db \<Rightarrow> db result"
where
  "stale_invalidated_context env actor now run d =
     stale_run env actor run (run_head_commit run) (lit ''STALE_CONTEXT'')
       [(lit ''failure_code'', JStr (lit ''STALE_CONTEXT'')),
        (lit ''head_commit'', JStr (run_head_commit run))] now d"

section \<open>Invalidation\<close>

definition INVALIDATION_REASONS :: "pystr list" where
  "INVALIDATION_REASONS =
     map lit [''INGESTION'', ''CORRECTION'', ''REVOCATION'', ''SCOPE_CHANGE'', ''MANUAL'']"

text \<open>The watermark of a repository: created at one, then advanced.\<close>

definition watermark_for :: "uuid \<Rightarrow> uuid \<Rightarrow> db \<Rightarrow> retrieval_watermark \<times> db" where
  "watermark_for org repository d =
     (case find_by (\<lambda>w. wm_org w = org \<and> wm_repository w = repository) (watermarks d) of
        Some w \<Rightarrow> (w, d)
      | None \<Rightarrow>
          let w = \<lparr>wm_org = org, wm_repository = repository, wm_value = 1,
                   wm_reason = lit ''INITIAL'', wm_revision = 1\<rparr>
          in (w, d\<lparr>watermarks := watermarks d @ [w]\<rparr>))"

definition advance_watermark :: "uuid \<Rightarrow> uuid \<Rightarrow> pystr \<Rightarrow> db \<Rightarrow> nat \<times> db" where
  "advance_watermark org repository reason d =
     (let (w, d1) = watermark_for org repository d;
          w' = w\<lparr>wm_value := wm_value w + 1, wm_revision := wm_revision w + 1, wm_reason := reason\<rparr>
      in (wm_value w',
          d1\<lparr>watermarks :=
               update_where (\<lambda>x. wm_org x = org \<and> wm_repository x = repository) (\<lambda>_. w')
                 (watermarks d1)\<rparr>))"

definition valid_packets :: "uuid \<Rightarrow> uuid \<Rightarrow> db \<Rightarrow> context_packet list" where
  "valid_packets org repository d =
     sort_key pk_id
       (filter (\<lambda>p. pk_org p = org \<and> pk_repository p = repository
                   \<and> \<not> list_ex (\<lambda>v. iv_packet v = pk_id p) (invalidations d)) (packets d))"

definition affected_runs :: "uuid \<Rightarrow> uuid \<Rightarrow> uuid list \<Rightarrow> db \<Rightarrow> assurance_run list" where
  "affected_runs org repository packet_ids d =
     sort_key (\<lambda>r. (run_created_at r, run_id r))
       (filter (\<lambda>r. run_org r = org \<and> run_repository r = Some repository
                   \<and> (case run_context_packet r of None \<Rightarrow> False | Some p \<Rightarrow> p \<in> set packet_ids)
                   \<and> run_state r \<notin> {RUN_STALE, RUN_CANCELLED, RUN_FAILED}) (assurance_runs d))"

definition invalidate_context_packets ::
  "environment \<Rightarrow> actor_context \<Rightarrow> uuid \<Rightarrow> uuid \<Rightarrow> pystr \<Rightarrow> (pystr \<times> json) list \<Rightarrow> instant \<Rightarrow> db
     \<Rightarrow> (nat \<times> db) result"
where
  "invalidate_context_packets env actor organization_id repository_id reason details now d =
     (if actor_org actor \<noteq> organization_id
        then Inl (ValueError ''Context invalidation actor must belong to the organization'')
      else if reason \<notin> set INVALIDATION_REASONS
        then Inl (ValueError ''invalidation reason is invalid'')
      else if \<not> list_ex (\<lambda>r. repo_id r = repository_id \<and> repo_org r = organization_id) (repositories d)
        then Inl DoesNotExist
      else
        let (value, d1) = advance_watermark organization_id repository_id reason d;
            ps = valid_packets organization_id repository_id d1;
            rows = map (\<lambda>p. \<lparr>iv_org = organization_id, iv_packet = pk_id p,
                            iv_repository = repository_id, iv_reason = reason,
                            iv_watermark = value, iv_details = JDict details\<rparr>) ps;
            d2 = d1\<lparr>invalidations := invalidations d1 @ rows\<rparr>
        in bind_res
             (fold_res (stale_invalidated_context env actor now)
                (affected_runs organization_id repository_id (map pk_id ps) d2) d2)
             (\<lambda>d3. Inr (length rows, d3)))"

end
