(* ===== verification/ContextInvalidationSafety.thy ===== *)
theory ContextInvalidationSafety
  imports ContextInvalidation TransitionSafety
begin

text \<open>
  After an invalidation no packet of the repository is valid and no run that rests on one is
  active; everything outside the packets, the runs and their tasks is untouched.
\<close>

section \<open>One stale run\<close>

lemma cancel_open_task_frame [simp]:
  "assurance_runs (cancel_open_task rid c d) = assurance_runs d"
  "invalidations (cancel_open_task rid c d) = invalidations d"
  "packets (cancel_open_task rid c d) = packets d"
  "watermarks (cancel_open_task rid c d) = watermarks d"
  "scopes (cancel_open_task rid c d) = scopes d"
  "scope_sources (cancel_open_task rid c d) = scope_sources d"
  "sources (cancel_open_task rid c d) = sources d"
  "snapshots (cancel_open_task rid c d) = snapshots d"
  "visibilities (cancel_open_task rid c d) = visibilities d"
  "jobs (cancel_open_task rid c d) = jobs d"
  "sync_runs (cancel_open_task rid c d) = sync_runs d"
  "assertions (cancel_open_task rid c d) = assertions d"
  by (simp_all add: cancel_open_task_def split: option.split)

text \<open>What no invalidation writes: the tables besides packets, runs, tasks and logs.\<close>

definition same_elsewhere :: "db \<Rightarrow> db \<Rightarrow> bool" where
  "same_elsewhere d d' \<longleftrightarrow>
     scopes d' = scopes d \<and> scope_sources d' = scope_sources d \<and> sources d' = sources d
     \<and> snapshots d' = snapshots d \<and> visibilities d' = visibilities d \<and> jobs d' = jobs d
     \<and> sync_runs d' = sync_runs d \<and> assertions d' = assertions d"

definition invalidation_rows :: "db \<Rightarrow> packet_invalidation list \<times> context_packet list \<times> retrieval_watermark list"
where
  "invalidation_rows d = (invalidations d, packets d, watermarks d)"

lemma same_elsewhere_trans: "same_elsewhere a b \<Longrightarrow> same_elsewhere b c \<Longrightarrow> same_elsewhere a c"
  by (simp add: same_elsewhere_def)

text \<open>A run keeps its identity and what it is bound to; its state may only become STALE.\<close>

definition run_binding :: "assurance_run \<Rightarrow> uuid \<times> uuid \<times> uuid option \<times> uuid option" where
  "run_binding r = (run_id r, run_org r, run_repository r, run_context_packet r)"

text \<open>The runs after one was made stale, as a function of the runs before.\<close>

definition stales :: "uuid set \<Rightarrow> db \<Rightarrow> db \<Rightarrow> bool" where
  "stales ids d d' \<longleftrightarrow>
     (\<exists>f. assurance_runs d' = map f (assurance_runs d)
        \<and> (\<forall>r\<in>set (assurance_runs d). run_binding (f r) = run_binding r
             \<and> (run_state (f r) = run_state r \<or> run_state (f r) = RUN_STALE)
             \<and> (run_id r \<in> ids \<longrightarrow> run_state (f r) = RUN_STALE)
             \<and> (run_id r \<notin> ids \<longrightarrow> f r = r)))"

lemma stales_elim:
  assumes "stales ids d d'"
  obtains f where "assurance_runs d' = map f (assurance_runs d)"
    "\<And>r. r \<in> set (assurance_runs d) \<Longrightarrow> run_binding (f r) = run_binding r
       \<and> (run_state (f r) = run_state r \<or> run_state (f r) = RUN_STALE)
       \<and> (run_id r \<in> ids \<longrightarrow> run_state (f r) = RUN_STALE) \<and> (run_id r \<notin> ids \<longrightarrow> f r = r)"
  using assms unfolding stales_def by blast

lemma stale_run_Inr:
  assumes "stale_run env actor run new_head code md now d = Inr d'" "run_state run \<noteq> RUN_STALE"
  shows "same_elsewhere d d'" "invalidation_rows d' = invalidation_rows d"
    and "distinct (map run_id (assurance_runs d)) \<Longrightarrow> stales {run_id run} d d'"
proof -
  let ?d0 = "set_readiness (run_id run) (lit ''STALE'') d"
  obtain x where tx: "transition_assurance_run env actor (run_id run) (assurance_state_value RUN_STALE)
          (int (run_revision run)) None None None now ?d0 = Inr x"
    and rx: "record_transition env (run_org run) actor (lit ''assurance_current_projection'')
          (run_id run) (lit ''CURRENT'') (lit ''STALE'') (run_revision run)
          (if md = [] then [(lit ''superseded_by_head_commit'', JStr new_head)] else md)
          (cancel_open_task (run_id run) code (snd x)) = Inr d'"
    using assms unfolding stale_run_def bind_res_Inr if_not_P [OF assms(2)]
    by (elim exE conjE) (simp only: split_beta)
  define r' d1 where "r' = fst x" and "d1 = snd x"
  have t: "transition_assurance_run env actor (run_id run) (assurance_state_value RUN_STALE)
          (int (run_revision run)) None None None now ?d0 = Inr (r', d1)"
    using tx by (simp only: r'_def d1_def prod.collapse)
  note recorded = record_transition_frame [OF rx [folded d1_def]]
  have kept: "scopes d1 = scopes ?d0" "scope_sources d1 = scope_sources ?d0" "sources d1 = sources ?d0"
    "snapshots d1 = snapshots ?d0" "visibilities d1 = visibilities ?d0" "jobs d1 = jobs ?d0"
    "sync_runs d1 = sync_runs ?d0" "assertions d1 = assertions ?d0" "invalidations d1 = invalidations ?d0"
    "packets d1 = packets ?d0" "watermarks d1 = watermarks ?d0"
    by (rule assurance_frame [OF t]; simp)+
  show "same_elsewhere d d'"
    unfolding same_elsewhere_def recorded cancel_open_task_frame kept by (simp add: set_readiness_def)
  show "invalidation_rows d' = invalidation_rows d"
    unfolding invalidation_rows_def recorded cancel_open_task_frame kept by (simp add: set_readiness_def)
  assume distinct: "distinct (map run_id (assurance_runs d))"
  define g where "g r = (if run_id r = run_id run then r\<lparr>run_readiness := lit ''STALE''\<rparr> else r)" for r :: assurance_run
  have g: "run_binding (g r) = run_binding r" "run_id (g r) = run_id r" "run_state (g r) = run_state r"
    "run_id r \<noteq> run_id run \<Longrightarrow> g r = r" for r
    by (simp_all add: g_def run_binding_def)
  have d0: "assurance_runs ?d0 = map g (assurance_runs d)"
    by (simp add: set_readiness_def update_where_def g_def)
  have runs: "assurance_runs d' = assurance_runs d1" using recorded(18) by simp
  from assurance_returned [OF t] obtain r where r: "r \<in> set (assurance_runs ?d0)" "run_id r = run_id run"
    and outcome: "d1 = ?d0 \<and> assurance_state_value (run_state r) = assurance_state_value RUN_STALE \<or>
      assurance_state_value (run_state r') = assurance_state_value RUN_STALE \<and> run_binding r' = run_binding r \<and>
      assurance_runs d1 = update_where (\<lambda>x. run_id x = run_id run) (\<lambda>_. r') (assurance_runs ?d0)"
    unfolding run_binding_def by (elim bexE conjE disjE) (simp_all only: simp_thms prod.inject)
  from r obtain r1 where r1: "r1 \<in> set (assurance_runs d)" "r = g r1" "run_id r1 = run_id run"
    using g(2) unfolding d0 by auto
  have only: "x = r1" if "x \<in> set (assurance_runs d)" "run_id x = run_id run" for x
    using distinct that r1 by (auto simp: distinct_map inj_on_def)
  from outcome show "stales {run_id run} d d'"
  proof (elim disjE conjE)
    assume same: "d1 = ?d0" "assurance_state_value (run_state r) = assurance_state_value RUN_STALE"
    have table: "assurance_runs d1 = map g (assurance_runs d)" by (simp only: same(1) d0)
    have "run_state (g r1) = RUN_STALE"
      using assurance_state_value_inj [OF same(2)] r1(2) by (simp only:)
    then have staled: "run_state (g x) = RUN_STALE" if "x \<in> set (assurance_runs d)" "run_id x = run_id run" for x
      using only [OF that] by (simp only:)
    show ?thesis unfolding stales_def runs table
      by (intro exI [where x = g] conjI ballI refl) (use g staled in simp_all)
  next
    assume "assurance_state_value (run_state r') = assurance_state_value RUN_STALE"
      and same: "run_binding r' = run_binding r" and table:
      "assurance_runs d1 = update_where (\<lambda>x. run_id x = run_id run) (\<lambda>_. r') (assurance_runs ?d0)"
    then have post: "run_state r' = RUN_STALE" by (intro assurance_state_value_inj)
    define f where "f x = (if run_id x = run_id run then r' else x)" for x
    have table': "assurance_runs d1 = map f (assurance_runs d)"
      unfolding table d0 update_where_def map_map by (rule map_cong) (auto simp: f_def g)
    have bound: "run_binding (f x) = run_binding x" if "x \<in> set (assurance_runs d)" for x
      using only [OF that] same r1(2) g(1) by (auto simp: f_def)
    have staled: "run_state (f x) = RUN_STALE" if "run_id x = run_id run" for x
      using that post by (simp add: f_def)
    have other: "f x = x" if "run_id x \<noteq> run_id run" for x using that by (simp add: f_def)
    have either: "run_state (f x) = run_state x \<or> run_state (f x) = RUN_STALE" for x
      using staled other by (cases "run_id x = run_id run") simp_all
    show ?thesis unfolding stales_def runs table'
      by (intro exI [where x = f] conjI ballI refl) (use bound staled other either in simp_all)
  qed
qed

section \<open>The loop over the affected runs\<close>

lemma stales_bindings: "stales ids d d' \<Longrightarrow> map run_binding (assurance_runs d') = map run_binding (assurance_runs d)"
  by (auto simp: stales_def)

lemma stales_ids: "stales ids d d' \<Longrightarrow> map run_id (assurance_runs d') = map run_id (assurance_runs d)"
  by (drule stales_bindings, drule arg_cong [where f = "map fst"]) (simp add: run_binding_def o_def)

lemma stales_empty: "stales {} d d"
  unfolding stales_def by (intro exI [where x = "\<lambda>r. r"]) simp

lemma stales_trans:
  assumes "stales A d d1" "stales B d1 d2"
  shows "stales (A \<union> B) d d2"
proof -
  obtain f where f: "assurance_runs d1 = map f (assurance_runs d)"
    and fr: "\<And>r. r \<in> set (assurance_runs d) \<Longrightarrow> run_binding (f r) = run_binding r
             \<and> (run_state (f r) = run_state r \<or> run_state (f r) = RUN_STALE)
             \<and> (run_id r \<in> A \<longrightarrow> run_state (f r) = RUN_STALE) \<and> (run_id r \<notin> A \<longrightarrow> f r = r)"
    using assms(1) by (auto simp: stales_def)
  obtain g where g: "assurance_runs d2 = map g (assurance_runs d1)"
    and gr: "\<And>r. r \<in> set (assurance_runs d1) \<Longrightarrow> run_binding (g r) = run_binding r
             \<and> (run_state (g r) = run_state r \<or> run_state (g r) = RUN_STALE)
             \<and> (run_id r \<in> B \<longrightarrow> run_state (g r) = RUN_STALE) \<and> (run_id r \<notin> B \<longrightarrow> g r = r)"
    using assms(2) by (auto simp: stales_def)
  have "run_binding (g (f r)) = run_binding r
       \<and> (run_state (g (f r)) = run_state r \<or> run_state (g (f r)) = RUN_STALE)
       \<and> (run_id r \<in> A \<union> B \<longrightarrow> run_state (g (f r)) = RUN_STALE)
       \<and> (run_id r \<notin> A \<union> B \<longrightarrow> g (f r) = r)" if "r \<in> set (assurance_runs d)" for r
  proof -
    have "f r \<in> set (assurance_runs d1)" using that by (simp add: f)
    moreover have "run_id (f r) = run_id r" using fr [OF that] by (simp add: run_binding_def)
    ultimately show ?thesis using fr [OF that] gr [of "f r"] by auto
  qed
  then show ?thesis unfolding stales_def g f map_map
    by (intro exI [where x = "\<lambda>r. g (f r)"]) (auto simp: o_def)
qed

lemma stale_runs_Inr:
  assumes "fold_res (stale_invalidated_context env actor now) rs d = Inr d'"
    and "\<forall>r\<in>set rs. run_state r \<noteq> RUN_STALE" "distinct (map run_id (assurance_runs d))"
  shows "same_elsewhere d d' \<and> invalidation_rows d' = invalidation_rows d
     \<and> stales (run_id ` set rs) d d'"
  using assms
proof (induction rs arbitrary: d)
  case Nil
  then show ?case by (simp add: same_elsewhere_def stales_empty)
next
  case (Cons r rs)
  from Cons.prems(1) obtain d1 where d1: "stale_invalidated_context env actor now r d = Inr d1"
    and rest: "fold_res (stale_invalidated_context env actor now) rs d1 = Inr d'"
    by (auto simp: bind_res_Inr)
  have "run_state r \<noteq> RUN_STALE" using Cons.prems(2) by simp
  note one = stale_run_Inr [OF d1 [unfolded stale_invalidated_context_def] this]
  note st = one(3) [OF Cons.prems(3)]
  have "distinct (map run_id (assurance_runs d1))" using stales_ids [OF st] Cons.prems(3) by simp
  with Cons.IH [OF rest] Cons.prems(2)
  have "same_elsewhere d1 d' \<and> invalidation_rows d' = invalidation_rows d1 \<and> stales (run_id ` set rs) d1 d'"
    by simp
  then show ?case
    using one(1,2) stales_trans [OF st] same_elsewhere_trans [OF one(1)] by simp
qed

section \<open>An invalidation that returned\<close>

definition watermark_level :: "uuid \<Rightarrow> uuid \<Rightarrow> db \<Rightarrow> nat" where
  "watermark_level org repository d =
     (case find_by (\<lambda>w. wm_org w = org \<and> wm_repository w = repository) (watermarks d) of
        None \<Rightarrow> 1 | Some w \<Rightarrow> wm_value w)"

definition packet_valid :: "db \<Rightarrow> context_packet \<Rightarrow> bool" where
  "packet_valid d p \<longleftrightarrow> p \<in> set (packets d) \<and> (\<forall>v\<in>set (invalidations d). iv_packet v \<noteq> pk_id p)"

lemma find_by_update_hit:
  "p y \<Longrightarrow> list_ex p xs \<Longrightarrow> find_by p (update_where p (\<lambda>_. y) xs) = Some y"
  by (induction xs) (auto simp: update_where_def)

lemma find_by_update_miss:
  "(\<And>x. q x \<Longrightarrow> \<not> p x) \<Longrightarrow> \<not> q y \<Longrightarrow> find_by q (update_where p (\<lambda>_. y) xs) = find_by q xs"
  by (induction xs) (auto simp: update_where_def)

lemma advance_watermark_level:
  assumes "advance_watermark org repository reason d = (v, d')"
  shows "v = watermark_level org repository d + 1" "watermark_level org repository d' = v"
    "\<And>o' r'. (o', r') \<noteq> (org, repository) \<Longrightarrow> watermark_level o' r' d' = watermark_level o' r' d"
    "d' = d\<lparr>watermarks := watermarks d'\<rparr>"
proof -
  obtain w d1 where w: "watermark_for org repository d = (w, d1)" by (cases "watermark_for org repository d")
  let ?k = "\<lambda>x. wm_org x = org \<and> wm_repository x = repository"
  have found: "find_by ?k (watermarks d1) = Some w" and level: "watermark_level org repository d = wm_value w"
    and same: "\<And>o' r'. (o', r') \<noteq> (org, repository) \<Longrightarrow> watermark_level o' r' d1 = watermark_level o' r' d"
    and only: "d1 = d\<lparr>watermarks := watermarks d1\<rparr>"
  proof -
    have app: "find_by p (xs @ [x]) = (case find_by p xs of None \<Rightarrow> if p x then Some x else None | Some y \<Rightarrow> Some y)"
      for p :: "retrieval_watermark \<Rightarrow> bool" and xs x
      by (induction xs) auto
    have "find_by ?k (watermarks d1) = Some w \<and> watermark_level org repository d = wm_value w
      \<and> (\<forall>o' r'. (o', r') \<noteq> (org, repository) \<longrightarrow> watermark_level o' r' d1 = watermark_level o' r' d)
      \<and> d1 = d\<lparr>watermarks := watermarks d1\<rparr>"
    proof (cases "find_by ?k (watermarks d)")
      case None
      let ?w = "\<lparr>wm_org = org, wm_repository = repository, wm_value = 1, wm_reason = lit ''INITIAL'',
                wm_revision = 1\<rparr>"
      have "w = ?w" "d1 = d\<lparr>watermarks := watermarks d @ [?w]\<rparr>"
        using w unfolding watermark_for_def None option.case Let_def by auto
      then show ?thesis
        unfolding watermark_level_def using None by (simp add: app del: find_by_None split: option.split)
    next
      case (Some x)
      then have "w = x" "d1 = d" using w unfolding watermark_for_def Some by auto
      then show ?thesis using Some by (simp add: watermark_level_def)
    qed
    then show "find_by ?k (watermarks d1) = Some w" "watermark_level org repository d = wm_value w"
      "\<And>o' r'. (o', r') \<noteq> (org, repository) \<Longrightarrow> watermark_level o' r' d1 = watermark_level o' r' d"
      "d1 = d\<lparr>watermarks := watermarks d1\<rparr>" by blast+
  qed
  let ?w' = "w\<lparr>wm_value := wm_value w + 1, wm_revision := wm_revision w + 1, wm_reason := reason\<rparr>"
  have v: "v = wm_value w + 1" and d': "d' = d1\<lparr>watermarks := update_where ?k (\<lambda>_. ?w') (watermarks d1)\<rparr>"
    using assms by (auto simp: advance_watermark_def w Let_def)
  have key: "wm_org w = org" "wm_repository w = repository" using find_by_Some_iff [OF found] by simp_all
  have "list_ex ?k (watermarks d1)" using find_by_Some_iff [OF found] by (auto simp: list_ex_iff)
  then have "find_by ?k (watermarks d') = Some ?w'"
    using key by (simp add: d' find_by_update_hit)
  then show "watermark_level org repository d' = v" by (simp add: watermark_level_def v)
  show "v = watermark_level org repository d + 1" using v level by simp
  show "watermark_level o' r' d' = watermark_level o' r' d" if "(o', r') \<noteq> (org, repository)" for o' r'
  proof -
    have "find_by (\<lambda>w. wm_org w = o' \<and> wm_repository w = r') (watermarks d')
        = find_by (\<lambda>w. wm_org w = o' \<and> wm_repository w = r') (watermarks d1)"
      using that key unfolding d' by (auto intro!: find_by_update_miss)
    then show ?thesis using same [OF that] by (simp only: watermark_level_def)
  qed
  show "d' = d\<lparr>watermarks := watermarks d'\<rparr>" by (subst d', subst only) (simp add: d')
qed

lemma invalidate_Inr:
  assumes "invalidate_context_packets env actor org repository reason details now d = Inr (n, d')"
    and "distinct (map run_id (assurance_runs d))"
  obtains rows where
    "actor_org actor = org" "reason \<in> set INVALIDATION_REASONS"
    "same_elsewhere d d'" "packets d' = packets d" "invalidations d' = invalidations d @ rows"
    "n = length rows"
    "iv_packet ` set rows = pk_id ` {p. packet_valid d p \<and> pk_org p = org \<and> pk_repository p = repository}"
    "watermark_level org repository d' = watermark_level org repository d + 1"
    "\<And>o' r'. (o', r') \<noteq> (org, repository) \<Longrightarrow> watermark_level o' r' d' = watermark_level o' r' d"
    "stales {run_id r |r. r \<in> set (assurance_runs d) \<and> run_org r = org \<and> run_repository r = Some repository
        \<and> run_context_packet r \<in> Some ` iv_packet ` set rows
        \<and> run_state r \<notin> {RUN_STALE, RUN_CANCELLED, RUN_FAILED}} d d'"
proof -
  have ok: "actor_org actor = org" "reason \<in> set INVALIDATION_REASONS"
    "list_ex (\<lambda>r. repo_id r = repository \<and> repo_org r = org) (repositories d)"
    using assms(1) by (simp_all add: invalidate_context_packets_def split: if_splits)
  obtain v d1 where w: "advance_watermark org repository reason d = (v, d1)"
    by (cases "advance_watermark org repository reason d")
  note level = advance_watermark_level [OF w]
  define ps where "ps = valid_packets org repository d1"
  define rows where "rows = map (\<lambda>p. \<lparr>iv_org = org, iv_packet = pk_id p, iv_repository = repository,
      iv_reason = reason, iv_watermark = v, iv_details = JDict details\<rparr>) ps"
  define d2 where "d2 = d1\<lparr>invalidations := invalidations d1 @ rows\<rparr>"
  define rs where "rs = affected_runs org repository (map pk_id ps) d2"
  have len: "length rows = length ps" by (simp add: rows_def)
  from assms(1) ok w obtain d3 where f: "fold_res (stale_invalidated_context env actor now) rs d2 = Inr d3"
    and out: "n = length rows" "d' = d3"
    unfolding invalidate_context_packets_def Let_def
    by (auto simp: bind_res_Inr len ps_def [symmetric] rows_def [symmetric] d2_def [symmetric] rs_def [symmetric])
  have base: "invalidations d1 = invalidations d" "packets d1 = packets d" "same_elsewhere d d1"
    "assurance_runs d1 = assurance_runs d"
    by (subst level(4), simp add: same_elsewhere_def)+
  have d2: "same_elsewhere d d2" "assurance_runs d2 = assurance_runs d" "packets d2 = packets d"
    "invalidations d2 = invalidations d @ rows" "watermarks d2 = watermarks d1"
    using base by (simp_all add: d2_def same_elsewhere_def)
  have live: "\<forall>r\<in>set rs. run_state r \<noteq> RUN_STALE" by (simp add: rs_def affected_runs_def)
  have fin: "same_elsewhere d2 d'" "invalidation_rows d' = invalidation_rows d2" "stales (run_id ` set rs) d2 d'"
    using stale_runs_Inr [OF f live] assms(2) d2(2) out(2) by simp_all
  have marks: "watermarks d' = watermarks d1" using fin(2) d2(5) by (simp add: invalidation_rows_def)
  have packets_of: "iv_packet ` set rows = pk_id ` {p. packet_valid d p \<and> pk_org p = org \<and> pk_repository p = repository}"
    using base(1,2) by (auto simp: rows_def ps_def valid_packets_def packet_valid_def list_ex_iff image_iff)
  have ids: "run_id ` set rs = {run_id r |r. r \<in> set (assurance_runs d) \<and> run_org r = org
        \<and> run_repository r = Some repository \<and> run_context_packet r \<in> Some ` iv_packet ` set rows
        \<and> run_state r \<notin> {RUN_STALE, RUN_CANCELLED, RUN_FAILED}}"
  proof -
    have named: "iv_packet ` set rows = pk_id ` set ps" by (auto simp: rows_def image_image)
    have "set rs = {r. r \<in> set (assurance_runs d) \<and> run_org r = org
        \<and> run_repository r = Some repository \<and> run_context_packet r \<in> Some ` iv_packet ` set rows
        \<and> run_state r \<notin> {RUN_STALE, RUN_CANCELLED, RUN_FAILED}}"
      unfolding named rs_def affected_runs_def d2(2) by (auto split: option.splits)
    then show ?thesis by blast
  qed
  show thesis
  proof (rule that [OF ok(1,2)])
    show "same_elsewhere d d'" by (rule same_elsewhere_trans [OF d2(1) fin(1)])
    show "packets d' = packets d" "invalidations d' = invalidations d @ rows"
      using fin(2) d2(3,4) by (simp_all add: invalidation_rows_def)
    show "n = length rows" by (rule out(1))
    show "watermark_level org repository d' = watermark_level org repository d + 1"
      using level(1,2) marks by (simp add: watermark_level_def)
    show "\<And>o' r'. (o', r') \<noteq> (org, repository) \<Longrightarrow> watermark_level o' r' d' = watermark_level o' r' d"
      using level(3) marks by (simp add: watermark_level_def)
    show "stales {run_id r |r. r \<in> set (assurance_runs d) \<and> run_org r = org \<and> run_repository r = Some repository
        \<and> run_context_packet r \<in> Some ` iv_packet ` set rows
        \<and> run_state r \<notin> {RUN_STALE, RUN_CANCELLED, RUN_FAILED}} d d'"
      using fin(3) d2(2) unfolding ids stales_def by simp
  qed (rule packets_of)
qed

text \<open>
  A run rests on an invalidated packet only when it no longer counts; a run and its packet belong
  to the same organization and repository.
\<close>

definition no_run_on_invalidated_packet :: "db \<Rightarrow> bool" where
  "no_run_on_invalidated_packet d \<longleftrightarrow>
     (\<forall>r\<in>set (assurance_runs d). \<forall>p\<in>set (packets d).
        run_context_packet r = Some (pk_id p) \<and> \<not> packet_valid d p
          \<longrightarrow> run_state r \<in> {RUN_STALE, RUN_CANCELLED, RUN_FAILED})"

definition runs_match_packets :: "db \<Rightarrow> bool" where
  "runs_match_packets d \<longleftrightarrow>
     (\<forall>r\<in>set (assurance_runs d). \<forall>p\<in>set (packets d). run_context_packet r = Some (pk_id p)
        \<longrightarrow> run_org r = pk_org p \<and> run_repository r = Some (pk_repository p))"

lemma invalidation_keeps_runs_off:
  assumes "invalidate_context_packets env actor org repository reason details now d = Inr (n, d')"
    and "distinct (map run_id (assurance_runs d))" "runs_match_packets d" "no_run_on_invalidated_packet d"
  shows "no_run_on_invalidated_packet d' \<and> runs_match_packets d'"
  using assms(1,2)
proof (rule invalidate_Inr)
  fix rows :: "packet_invalidation list"
  let ?ids = "{run_id r |r. r \<in> set (assurance_runs d) \<and> run_org r = org \<and> run_repository r = Some repository
        \<and> run_context_packet r \<in> Some ` iv_packet ` set rows
        \<and> run_state r \<notin> {RUN_STALE, RUN_CANCELLED, RUN_FAILED}}"
  assume packets: "packets d' = packets d" and inv: "invalidations d' = invalidations d @ rows"
    and named: "iv_packet ` set rows
      = pk_id ` {p. packet_valid d p \<and> pk_org p = org \<and> pk_repository p = repository}"
    and st: "stales ?ids d d'"
  from st show ?thesis
  proof (rule stales_elim)
  fix f
  assume f: "assurance_runs d' = map f (assurance_runs d)"
    and fr: "\<And>r. r \<in> set (assurance_runs d) \<Longrightarrow> run_binding (f r) = run_binding r
             \<and> (run_state (f r) = run_state r \<or> run_state (f r) = RUN_STALE)
             \<and> (run_id r \<in> ?ids \<longrightarrow> run_state (f r) = RUN_STALE) \<and> (run_id r \<notin> ?ids \<longrightarrow> f r = r)"
  have "run_state (f r) \<in> {RUN_STALE, RUN_CANCELLED, RUN_FAILED}"
    if r: "r \<in> set (assurance_runs d)" and p: "p \<in> set (packets d)" "run_context_packet (f r) = Some (pk_id p)"
      and gone: "\<not> packet_valid d' p" for r p
  proof (cases "packet_valid d p")
    case True
    have bound: "run_context_packet r = Some (pk_id p)" using fr [OF r] p(2) by (simp add: run_binding_def)
    have in_rows: "pk_id p \<in> iv_packet ` set rows"
      using gone True packets inv by (auto simp: packet_valid_def intro: rev_image_eqI)
    then have "pk_id p \<in> pk_id ` {p. packet_valid d p \<and> pk_org p = org \<and> pk_repository p = repository}"
      by (simp only: named)
    then obtain q where "pk_id p = pk_id q"
      "q \<in> {p. packet_valid d p \<and> pk_org p = org \<and> pk_repository p = repository}"
      by (rule imageE)
    then have q: "packet_valid d q" "pk_id p = pk_id q" "pk_org q = org" "pk_repository q = repository"
      by simp_all
    then have "run_org r = org" "run_repository r = Some repository"
      using assms(3) r bound by (auto simp: runs_match_packets_def packet_valid_def)
    then have "run_id r \<in> ?ids" if "run_state r \<notin> {RUN_STALE, RUN_CANCELLED, RUN_FAILED}"
      using that r bound in_rows by blast
    moreover have "run_state (f r) \<in> {RUN_STALE, RUN_CANCELLED, RUN_FAILED}"
      if "run_state r \<in> {RUN_STALE, RUN_CANCELLED, RUN_FAILED}"
    proof -
      have "run_state (f r) = run_state r \<or> run_state (f r) = RUN_STALE" using fr [OF r] by (elim conjE)
      then show ?thesis using that by (elim disjE) simp_all
    qed
    moreover have "run_id r \<in> ?ids \<Longrightarrow> run_state (f r) = RUN_STALE" using fr [OF r] by (elim conjE mp)
    ultimately show ?thesis by blast
  next
    case False
    have "run_context_packet r = Some (pk_id p)" using fr [OF r] p(2) by (simp add: run_binding_def)
    then have "run_state r \<in> {RUN_STALE, RUN_CANCELLED, RUN_FAILED}"
      using assms(4) r p(1) False by (auto simp: no_run_on_invalidated_packet_def)
    then show ?thesis using fr [OF r] by auto
  qed
  moreover have "runs_match_packets d'"
    using assms(3) fr unfolding runs_match_packets_def f packets by (auto simp: run_binding_def)
  ultimately show ?thesis unfolding no_run_on_invalidated_packet_def f packets by auto
  qed
qed

text \<open>What is still valid afterwards, and what was counted.\<close>

lemma invalidation_closes_packets:
  assumes "invalidate_context_packets env actor org repository reason details now d = Inr (n, d')"
    and "distinct (map run_id (assurance_runs d))" "distinct (map pk_id (packets d))"
  shows "packet_valid d' p \<longleftrightarrow> packet_valid d p \<and> \<not> (pk_org p = org \<and> pk_repository p = repository)"
  using assms(1,2)
proof (rule invalidate_Inr)
  fix rows :: "packet_invalidation list"
  assume ps: "packets d' = packets d" and iv: "invalidations d' = invalidations d @ rows"
    and named: "iv_packet ` set rows
      = pk_id ` {p. packet_valid d p \<and> pk_org p = org \<and> pk_repository p = repository}"
  have later: "packet_valid d' p \<longleftrightarrow> packet_valid d p \<and> pk_id p \<notin> iv_packet ` set rows"
    by (auto simp: packet_valid_def ps iv image_iff)
  have "pk_id p \<in> iv_packet ` set rows \<longleftrightarrow> pk_org p = org \<and> pk_repository p = repository"
    if p: "packet_valid d p"
  proof
    assume "pk_id p \<in> iv_packet ` set rows"
    then obtain q where "packet_valid d q" "pk_org q = org" "pk_repository q = repository" "pk_id p = pk_id q"
      unfolding named by auto
    moreover from this p have "p = q"
      using assms(3) by (auto simp: packet_valid_def distinct_map inj_on_def)
    ultimately show "pk_org p = org \<and> pk_repository p = repository" by simp
  next
    assume "pk_org p = org \<and> pk_repository p = repository"
    then have "p \<in> {p. packet_valid d p \<and> pk_org p = org \<and> pk_repository p = repository}" using p by simp
    then show "pk_id p \<in> iv_packet ` set rows" unfolding named by (rule imageI)
  qed
  then show ?thesis using later by blast
qed

lemma invalidation_counts:
  assumes "invalidate_context_packets env actor org repository reason details now d = Inr (n, d')"
    and "distinct (map run_id (assurance_runs d))"
  shows "length (invalidations d') = length (invalidations d) + n"
    "watermark_level org repository d' = watermark_level org repository d + 1"
    "(o', r') \<noteq> (org, repository) \<Longrightarrow> watermark_level o' r' d' = watermark_level o' r' d"
  by (rule invalidate_Inr [OF assms], simp)+

end
