(* ===== verification/ContextInvalidationClaims.thy ===== *)
theory ContextInvalidationClaims
  imports ContextInvalidationSafety Samples
begin

text \<open>What the invalidation of a repository's context packets guarantees.\<close>

section \<open>Sample deployment\<close>

text \<open>
  Repository 50 has a packet (110) with a run (120) collecting evidence on it; repository 51 has a
  packet (111) of its own.
\<close>

definition sample_staged_run :: assurance_run where
  "sample_staged_run = \<lparr>run_id = 120, run_org = 1, run_created_at = 0,
     run_repository_external_id = lit ''r'', run_repository = Some 50, run_context_packet = Some 110,
     run_readiness = [], run_head_commit = lit ''abc1234'', run_evaluated_commit = lit ''abc1234'',
     run_report_commit = [], run_context_artifact = None, run_state = RUN_COLLECTING_EVIDENCE,
     run_completed_at = None, run_revision = 4, run_initiated_by_type = [], run_initiated_by_id = [], run_initiated_by_credential = None, run_policy_version = 1, run_pull_request_number = 1,
     run_pull_request_revision = None, run_work_revision = None, run_diff_artifact = None,
     run_policy_evaluation = None, run_input_hash = [], run_requirements_hash = [],
     run_policy_bundle_hash = [], run_evidence_bundle_hash = [], run_evaluator_version = [],
     run_prompt_version = [], run_limitations = [], run_failure_code = []\<rparr>"

definition sample_packets :: db where
  "sample_packets = sample_db\<lparr>
     repositories := [\<lparr>repo_id = 50, repo_org = 1, repo_external_id = [], repo_active = True\<rparr>,
                      \<lparr>repo_id = 51, repo_org = 1, repo_external_id = [], repo_active = True\<rparr>],
     packets := [\<lparr>pk_id = 110, pk_org = 1, pk_repository = 50\<rparr>, \<lparr>pk_id = 111, pk_org = 1, pk_repository = 51\<rparr>],
     evaluator_tasks := [\<lparr>tk_id = 130, tk_org = 1, tk_run = 120, tk_repository = 50,
        tk_request_artifact = 131, tk_result_artifact = None, tk_reviewer_service = None, tk_reviewer_token = None,
        tk_state = TASK_PENDING, tk_claimant = [], tk_claimed_by_type = [], tk_claimed_by_id = [],
        tk_claimed_by_credential = None, tk_claim_idempotency = [], tk_claim_selector = [],
        tk_claim_token_hash = [], tk_lease_expires_at = None, tk_attempt_count = 0, tk_max_attempts = 3,
        tk_submitted_at = None, tk_failure_code = [], tk_created_at = 0, tk_revision = 1\<rparr>],
     assurance_runs := [sample_staged_run]\<rparr>"

lemmas sample_packets_rows = sample_packets_def sample_staged_run_def sample_db_def empty_db_def

lemma sample_packets_consistent:
  "distinct (map run_id (assurance_runs sample_packets))" "runs_match_packets sample_packets"
  "no_run_on_invalidated_packet sample_packets"
  by (simp_all add: runs_match_packets_def no_run_on_invalidated_packet_def packet_valid_def sample_packets_rows)

lemma sample_invalidation:
  "\<exists>d'. invalidate_context_packets sample_env (sample_actor 90) 1 50 (lit ''INGESTION'') [] 5 sample_packets
     = Inr (1, d') \<and> map tk_state (evaluator_tasks d') = [TASK_CANCELLED]"
  by (simp add: invalidate_context_packets_def INVALIDATION_REASONS_def advance_watermark_def
      watermark_for_def valid_packets_def affected_runs_def stale_invalidated_context_def stale_run_def
      set_readiness_def cancel_open_task_def cancel_task_def first_by_def sample_packets_rows
      transition_assurance_run_def get_tenant_record_for_update_def get_tenant_record_def
      assurance_terminal_def apply_transition_def record_transition_def
      screen_audit_key_def ALLOWED_AUDIT_METADATA_KEYS_def insert_unique_def update_where_def Let_def
      save_row_def assurance_table_def audit_identity_def audit_row_def outbox_identity_def outbox_row_def)

section \<open>Property\<close>

text \<open>C29: An invalidation is complete and confined.  After \<^verbatim>\<open>invalidate_context_packets\<close>
  returned, the packets still valid are exactly those of other tenants or repositories, the count
  returned is the number of rows written, no run that still counts rests on an invalidated packet
  if none did before, the repository's watermark rose by one, and no other repository's moved.\<close>

theorem invalidation_is_complete:
  assumes "distinct (map run_id (assurance_runs d))" "distinct (map pk_id (packets d))" "runs_match_packets d" "no_run_on_invalidated_packet d"
    and "invalidate_context_packets env actor org repository reason details now d = Inr (n, d')"
  shows "(\<forall>p. packet_valid d' p \<longleftrightarrow> packet_valid d p \<and> \<not> (pk_org p = org \<and> pk_repository p = repository))
     \<and> length (invalidations d') = length (invalidations d) + n
     \<and> no_run_on_invalidated_packet d' \<and> runs_match_packets d'
     \<and> watermark_level org repository d' = watermark_level org repository d + 1
     \<and> (\<forall>o' r'. (o', r') \<noteq> (org, repository) \<longrightarrow> watermark_level o' r' d' = watermark_level o' r' d)"
  using invalidation_closes_packets [OF assms(5,1,2)] invalidation_keeps_runs_off [OF assms(5,1,3,4)]
    invalidation_counts [OF assms(5,1)] by simp

theorem invalidation_is_complete_witness:
  "\<exists>d'. invalidate_context_packets sample_env (sample_actor 90) 1 50 (lit ''INGESTION'') [] 5 sample_packets
       = Inr (1, d')
     \<and> packet_valid sample_packets \<lparr>pk_id = 110, pk_org = 1, pk_repository = 50\<rparr>
     \<and> \<not> packet_valid d' \<lparr>pk_id = 110, pk_org = 1, pk_repository = 50\<rparr>
     \<and> packet_valid d' \<lparr>pk_id = 111, pk_org = 1, pk_repository = 51\<rparr> \<and> no_run_on_invalidated_packet d'"
proof -
  obtain d' where r: "invalidate_context_packets sample_env (sample_actor 90) 1 50 (lit ''INGESTION'') [] 5
      sample_packets = Inr (1, d')" using sample_invalidation by blast
  have "packet_valid sample_packets \<lparr>pk_id = 110, pk_org = 1, pk_repository = 50\<rparr>"
    "packet_valid sample_packets \<lparr>pk_id = 111, pk_org = 1, pk_repository = 51\<rparr>"
    by (simp_all add: packet_valid_def sample_packets_rows)
  moreover have "distinct (map pk_id (packets sample_packets))" by (simp add: sample_packets_rows)
  note invalidation_is_complete [OF sample_packets_consistent(1) this sample_packets_consistent(2,3) r]
  ultimately show ?thesis using r by simp
qed

end
