(* ===== verification/Scopes.thy ===== *)
theory Scopes
  imports ContextInvalidation Tokens
begin

text \<open>
  \<^verbatim>\<open>src/anva/core/services/scopes.py\<close>: derived scopes, access snapshots and the revocation of a
  source with everything that depends on it.  A set of identifiers is the sorted list of its
  elements; \<open>None\<close> stands for "all".
\<close>

section \<open>Derived scopes\<close>

definition MAX_DERIVED_SCOPE_DEPTH :: nat where
  "MAX_DERIVED_SCOPE_DEPTH = 32"

definition MAX_DERIVED_SCOPES_PER_REVOCATION :: nat where
  "MAX_DERIVED_SCOPES_PER_REVOCATION = 2000"

text \<open>The value column of the join rows of one scope.\<close>

definition link_targets :: "access_scope \<Rightarrow> scope_link list \<Rightarrow> uuid list" where
  "link_targets sc links = map ln_target (filter (\<lambda>l. ln_scope l = sc_id sc) links)"

definition scope_ids :: "bool \<Rightarrow> access_scope \<Rightarrow> scope_link list \<Rightarrow> uuid list option" where
  "scope_ids all_flag sc links = (if all_flag then None else Some (sorted_set (link_targets sc links)))"

definition intersect :: "uuid list option \<Rightarrow> uuid list option \<Rightarrow> uuid list option" where
  "intersect current candidate =
     (case current of
        None \<Rightarrow> candidate
      | Some xs \<Rightarrow> (case candidate of None \<Rightarrow> Some xs | Some ys \<Rightarrow> Some (filter (\<lambda>x. x \<in> set ys) xs)))"

definition intersect_all :: "uuid list option list \<Rightarrow> uuid list option" where
  "intersect_all = foldl intersect None"

definition new_links :: "uuid \<Rightarrow> uuid \<Rightarrow> uuid list \<Rightarrow> scope_link list" where
  "new_links org sid targets =
     map (\<lambda>t. \<lparr>ln_org = org, ln_scope = sid, ln_target = t\<rparr>) (sorted_set targets)"

definition or_empty :: "uuid list option \<Rightarrow> uuid list" where
  "or_empty x = (case x of None \<Rightarrow> [] | Some xs \<Rightarrow> xs)"

definition source_scopes :: "actor_context \<Rightarrow> uuid list \<Rightarrow> db \<Rightarrow> access_scope list" where
  "source_scopes actor ids d =
     sort_key sc_id (filter (\<lambda>s. sc_org s = actor_org actor \<and> sc_id s \<in> set ids \<and> sc_active s) (scopes d))"

text \<open>The scope and the join rows that are created, sealed.\<close>

definition derived_scope ::
  "uuid \<Rightarrow> uuid \<Rightarrow> pystr \<Rightarrow> instant \<Rightarrow> access_scope list \<Rightarrow> db \<Rightarrow> access_scope"
where
  "derived_scope org fresh name now ss d =
     \<lparr>sc_id = fresh, sc_org = org, sc_name = name,
      sc_all_memberships =
        (intersect_all (map (\<lambda>s. scope_ids (sc_all_memberships s) s (scope_memberships d)) ss) = None),
      sc_all_service_identities =
        (intersect_all (map (\<lambda>s. scope_ids (sc_all_service_identities s) s (scope_services d)) ss) = None),
      sc_all_repositories =
        (intersect_all (map (\<lambda>s. scope_ids (sc_all_repositories s) s (scope_repositories d)) ss) = None),
      sc_active = True, sc_is_derived = True, sc_boundary_sealed_at = Some now,
      sc_derived_from = map sc_id ss, sc_revision = 1\<rparr>"

definition with_derived_scope ::
  "uuid \<Rightarrow> uuid \<Rightarrow> pystr \<Rightarrow> instant \<Rightarrow> access_scope list \<Rightarrow> db \<Rightarrow> db"
where
  "with_derived_scope org fresh name now ss d =
     d\<lparr>scopes := scopes d @ [derived_scope org fresh name now ss d],
       scope_memberships := scope_memberships d @ new_links org fresh
         (or_empty (intersect_all (map (\<lambda>s. scope_ids (sc_all_memberships s) s (scope_memberships d)) ss))),
       scope_services := scope_services d @ new_links org fresh
         (or_empty (intersect_all (map (\<lambda>s. scope_ids (sc_all_service_identities s) s (scope_services d)) ss))),
       scope_repositories := scope_repositories d @ new_links org fresh
         (or_empty (intersect_all (map (\<lambda>s. scope_ids (sc_all_repositories s) s (scope_repositories d)) ss))),
       scope_sources := scope_sources d @ new_links org fresh
         (concat (map (\<lambda>s. link_targets s (scope_sources d)) ss))\<rparr>"

definition derive_scope_intersection ::
  "environment \<Rightarrow> actor_context \<Rightarrow> uuid list \<Rightarrow> pystr \<Rightarrow> instant \<Rightarrow> uuid \<Rightarrow> db
     \<Rightarrow> (access_scope \<times> db) result"
where
  "derive_scope_intersection env actor source_scope_ids name now fresh d =
     (if source_scope_ids = [] \<or> length source_scope_ids > 100
      then Inl (ValueError ''Between 1 and 100 source scopes are required'')
      else
        bind_res (authorize_action env now d actor SCOPE_MANAGE (actor_repository actor) None None False)
          (\<lambda>decision.
        let ss = source_scopes actor source_scope_ids d in
        if length ss \<noteq> length (remdups source_scope_ids) then Inl ResourceNotFoundError
        else
          let sc = derived_scope (actor_org actor) fresh name now ss d;
              d1 = with_derived_scope (actor_org actor) fresh name now ss d
          in bind_res (audit_actor actor decision) (\<lambda>auditor.
             bind_res (record_transition env (actor_org actor) auditor (lit ''accessscope'') fresh []
                         (lit ''DERIVED'') (sc_revision sc)
                         [(lit ''source_scope_ids'', JList (map (\<lambda>s. JStr (uuid_str (sc_id s))) ss))] d1)
               (\<lambda>d2. Inr (sc, d2)))))"

section \<open>Access snapshots\<close>

definition sorted_texts :: "uuid list \<Rightarrow> json" where
  "sorted_texts ids = JList (map JStr (sort (map uuid_str ids)))"

definition snapshot_payload :: "source_connection \<Rightarrow> access_scope \<Rightarrow> db \<Rightarrow> json" where
  "snapshot_payload source sc d =
     JDict [(lit ''source_connection_id'', JStr (uuid_str (src_id source))),
            (lit ''source_revision'', JInt (int (src_revision source))),
            (lit ''source_state'', JStr (source_state_value (src_state source))),
            (lit ''access_scope_id'', JStr (uuid_str (sc_id sc))),
            (lit ''scope_revision'', JInt (int (sc_revision sc))),
            (lit ''all_memberships'', JBool (sc_all_memberships sc)),
            (lit ''all_service_identities'', JBool (sc_all_service_identities sc)),
            (lit ''all_repositories'', JBool (sc_all_repositories sc)),
            (lit ''membership_ids'', sorted_texts (link_targets sc (scope_memberships d))),
            (lit ''service_identity_ids'', sorted_texts (link_targets sc (scope_services d))),
            (lit ''repository_ids'', sorted_texts (link_targets sc (scope_repositories d))),
            (lit ''contributing_source_ids'', sorted_texts (link_targets sc (scope_sources d)))]"

definition create_access_snapshot ::
  "environment \<Rightarrow> actor_context \<Rightarrow> uuid \<Rightarrow> uuid \<Rightarrow> action \<Rightarrow> instant \<Rightarrow> uuid \<Rightarrow> db
     \<Rightarrow> (access_snapshot \<times> db) result"
where
  "create_access_snapshot env actor source_connection_id access_scope_id a now fresh d =
     bind_res (authorize_action env now d actor a (actor_repository actor)
                 (Some source_connection_id) None False) (\<lambda>decision.
     bind_res (get_tenant_record_for_update source_table source_connection_id (actor_org actor) d) (\<lambda>source.
     bind_res (get_tenant_record_for_update scope_table access_scope_id (actor_org actor) d) (\<lambda>sc.
       let payload = snapshot_payload source sc d in
       bind_res (content_hash env payload) (\<lambda>digest.
       case find_by (\<lambda>s. snap_org s = src_org source \<and> snap_source s = src_id source
                         \<and> snap_content_hash s = digest) (snapshots d) of
            Some s \<Rightarrow> Inr (s, d)
          | None \<Rightarrow>
              let s = \<lparr>snap_id = fresh, snap_org = src_org source, snap_source = src_id source,
                       snap_scope = sc_id sc, snap_scope_revision = sc_revision sc,
                       snap_payload = payload, snap_content_hash = digest, snap_revoked_at = None\<rparr>
              in bind_res (audit_actor actor decision) (\<lambda>auditor.
                 bind_res (record_transition env (src_org source) auditor (lit ''accesssnapshot'') fresh []
                             (lit ''CAPTURED'') (sc_revision sc)
                             [(lit ''content_hash'', JStr digest)]
                             (d\<lparr>snapshots := snapshots d @ [s]\<rparr>))
                   (\<lambda>d'. Inr (s, d')))))))"

section \<open>Revocation of a source\<close>

text \<open>
  The propagation to derived scopes: \<open>fuel\<close> counts the rounds left of
  \<^verbatim>\<open>for _depth in range(MAX_DERIVED_SCOPE_DEPTH)\<close>, whose \<^verbatim>\<open>else\<close> raises.
\<close>

definition descendants :: "db \<Rightarrow> uuid list \<Rightarrow> uuid list" where
  "descendants d frontier =
     sorted_set (map sc_id (filter (\<lambda>s. list_ex (\<lambda>p. p \<in> set frontier) (sc_derived_from s)) (scopes d)))"

fun propagate :: "nat \<Rightarrow> db \<Rightarrow> uuid list \<Rightarrow> uuid list \<Rightarrow> uuid list result" where
  "propagate 0 d affected frontier =
     Inl (ValueError ''Source revocation scope propagation exceeds depth bound'')"
| "propagate (Suc fuel) d affected frontier =
     (if frontier = [] then Inr affected
      else
        let frontier' = filter (\<lambda>x. x \<notin> set affected) (descendants d frontier);
            affected' = affected @ frontier'
        in if length affected' > MAX_DERIVED_SCOPES_PER_REVOCATION
           then Inl (ValueError ''Source revocation scope propagation exceeds safety bound'')
           else propagate fuel d affected' frontier')"

definition direct_scopes :: "uuid \<Rightarrow> db \<Rightarrow> uuid list" where
  "direct_scopes sid d = sorted_set (map ln_scope (filter (\<lambda>l. ln_target l = sid) (scope_sources d)))"

definition deactivate_scopes :: "uuid list \<Rightarrow> db \<Rightarrow> db" where
  "deactivate_scopes ids d =
     d\<lparr>scopes := update_where (\<lambda>s. sc_id s \<in> set ids)
                   (\<lambda>s. s\<lparr>sc_active := False, sc_revision := sc_revision s + 1\<rparr>) (scopes d)\<rparr>"

definition revoke_snapshots :: "uuid \<Rightarrow> instant \<Rightarrow> db \<Rightarrow> db" where
  "revoke_snapshots sid now d =
     d\<lparr>snapshots := update_where (\<lambda>s. snap_source s = sid \<and> snap_revoked_at s = None)
                      (\<lambda>s. s\<lparr>snap_revoked_at := Some now\<rparr>) (snapshots d)\<rparr>"

definition of_source :: "db \<Rightarrow> uuid \<Rightarrow> chunk_visibility \<Rightarrow> bool" where
  "of_source d sid v \<longleftrightarrow> list_ex (\<lambda>s. snap_id s = vis_snapshot v \<and> snap_source s = sid) (snapshots d)"

definition revoke_visibilities :: "uuid \<Rightarrow> uuid \<Rightarrow> instant \<Rightarrow> db \<Rightarrow> db" where
  "revoke_visibilities org sid now d =
     d\<lparr>visibilities := update_where
         (\<lambda>v. vis_org v = org \<and> of_source d sid v \<and> vis_state v = VIS_AVAILABLE)
         (\<lambda>v. v\<lparr>vis_state := VIS_REVOKED, vis_revoked_at := Some now\<rparr>) (visibilities d)\<rparr>"

definition payload_names_source :: "uuid \<Rightarrow> background_job \<Rightarrow> bool" where
  "payload_names_source sid j =
     (case job_payload j of
        JDict items \<Rightarrow> json_get items (lit ''source_connection_id'') = Some (JStr (uuid_str sid))
      | _ \<Rightarrow> False)"

definition pending_ingestion_jobs :: "uuid \<Rightarrow> uuid \<Rightarrow> db \<Rightarrow> background_job list" where
  "pending_ingestion_jobs org sid d =
     filter (\<lambda>j. job_org j = org \<and> job_kind j = lit ''ingestion.sync'' \<and> payload_names_source sid j
               \<and> job_state j = JOB_PENDING) (jobs d)"

definition cancel_ingestion_job ::
  "environment \<Rightarrow> actor_context \<Rightarrow> instant \<Rightarrow> background_job \<Rightarrow> db \<Rightarrow> db result"
where
  "cancel_ingestion_job env actor now j d =
     record_transition env (job_org j) actor (lit ''backgroundjob'') (job_id j)
       (job_state_value JOB_PENDING) (job_state_value JOB_CANCELLED) (job_attempt_count j)
       [(lit ''error_code'', JStr (lit ''source_revoked''))]
       (save_row job_table (j\<lparr>job_state := JOB_CANCELLED, job_completed_at := Some now,
                              job_last_error := lit ''source_revoked''\<rparr>) d)"

definition ACTIVE_SYNC_STATES :: "sync_state list" where
  "ACTIVE_SYNC_STATES =
     [SYNC_REQUESTED, SYNC_DISCOVERING, SYNC_FETCHING, SYNC_PARSING, SYNC_INDEXING,
      SYNC_EXTRACTING, SYNC_RESOLVING, SYNC_PUBLISHING]"

definition active_sync_runs :: "uuid \<Rightarrow> uuid \<Rightarrow> db \<Rightarrow> sync_run list" where
  "active_sync_runs org sid d =
     filter (\<lambda>r. sync_org r = org \<and> sync_source r = sid \<and> sync_state r \<in> set ACTIVE_SYNC_STATES)
       (sync_runs d)"

definition cancel_sync_run ::
  "environment \<Rightarrow> actor_context \<Rightarrow> instant \<Rightarrow> sync_run \<Rightarrow> db \<Rightarrow> db result"
where
  "cancel_sync_run env actor now r d =
     (let r' = r\<lparr>sync_state := SYNC_CANCELLED, sync_failure_code := lit ''source_revoked'',
                 sync_completed_at := Some now, sync_revision := sync_revision r + 1\<rparr>
      in record_transition env (sync_org r) actor (lit ''syncrun'') (sync_id r)
           (sync_state_value (sync_state r)) (sync_state_value SYNC_CANCELLED) (sync_revision r')
           [(lit ''failure_code'', JStr (lit ''source_revoked''))] (save_row sync_table r' d))"

definition revoke_source_connection ::
  "environment \<Rightarrow> actor_context \<Rightarrow> uuid \<Rightarrow> int \<Rightarrow> instant \<Rightarrow> db \<Rightarrow> (source_connection \<times> db) result"
where
  "revoke_source_connection env actor sid expected_revision now d =
     bind_res (authorize_action env now d actor SOURCE_REVOKE (actor_repository actor) (Some sid) None True)
       (\<lambda>decision.
     bind_res (get_tenant_record_for_update source_table sid (actor_org actor) d) (\<lambda>source.
     if src_state source = SOURCE_REVOKED then Inr (source, d)
     else if int (src_revision source) \<noteq> expected_revision then Inl OptimisticConcurrencyError
     else
       let direct = direct_scopes sid d in
       bind_res (propagate MAX_DERIVED_SCOPE_DEPTH d direct direct) (\<lambda>affected.
       let d1 = revoke_visibilities (src_org source) sid now
                  (revoke_snapshots sid now (deactivate_scopes affected d)) in
       bind_res (audit_actor actor decision) (\<lambda>auditor.
       bind_res (fold_res (cancel_ingestion_job env auditor now)
                   (pending_ingestion_jobs (src_org source) sid d1) d1) (\<lambda>d2.
       bind_res (fold_res (cancel_sync_run env auditor now)
                   (active_sync_runs (src_org source) sid d2) d2) (\<lambda>d3.
       let source' = source\<lparr>src_state := SOURCE_REVOKED, src_revision := src_revision source + 1\<rparr> in
       bind_res (record_transition env (src_org source) auditor (lit ''sourceconnection'') sid
                   (source_state_value (src_state source)) (source_state_value SOURCE_REVOKED)
                   (src_revision source')
                   [(lit ''invalidated_scope_count'', JInt (int (length affected)))]
                   (save_row source_table source' d3)) (\<lambda>d4.
       case src_repository source of
         None \<Rightarrow> Inr (source', d4)
       | Some r \<Rightarrow>
           bind_res (invalidate_context_packets env auditor (src_org source) r (lit ''REVOCATION'')
                       [(lit ''source_connection_id'', JStr (uuid_str sid))] now d4) (\<lambda>(_, d5).
             Inr (source', d5)))))))))"

end
