(* ===== verification/ScopeSafety.thy ===== *)
theory ScopeSafety
  imports Scopes AuthorizationSafety ContextInvalidationSafety
begin

text \<open>
  A derived scope opens exactly what every scope it derives from opens; the propagation of a
  revocation reaches every scope that depends on the source, and nothing else.
\<close>

section \<open>Intersections\<close>

definition within :: "uuid list option \<Rightarrow> uuid \<Rightarrow> bool" where
  "within x y \<longleftrightarrow> (case x of None \<Rightarrow> True | Some ys \<Rightarrow> y \<in> set ys)"

lemma within_intersect: "within (intersect a b) y \<longleftrightarrow> within a y \<and> within b y"
  by (auto simp: within_def intersect_def split: option.splits)

lemma intersect_None: "intersect a b = None \<longleftrightarrow> a = None \<and> b = None"
  by (auto simp: intersect_def split: option.splits)

lemma intersect_all_from:
  "within (foldl intersect a xs) y \<longleftrightarrow> within a y \<and> (\<forall>x\<in>set xs. within x y)"
  "foldl intersect a xs = None \<longleftrightarrow> a = None \<and> (\<forall>x\<in>set xs. x = None)"
  by (induction xs arbitrary: a) (auto simp: within_intersect intersect_None)

lemma within_intersect_all: "within (intersect_all xs) y \<longleftrightarrow> (\<forall>x\<in>set xs. within x y)"
  by (simp add: intersect_all_def intersect_all_from(1)) (simp add: within_def)

lemma intersect_all_None: "intersect_all xs = None \<longleftrightarrow> (\<forall>x\<in>set xs. x = None)"
  by (simp add: intersect_all_def intersect_all_from(2))

lemma within_scope_ids: "within (scope_ids flag s links) y \<longleftrightarrow> flag \<or> linked s y links"
  by (auto simp: within_def scope_ids_def link_targets_def linked_def list_ex_iff)

lemma scope_ids_None: "scope_ids flag s links = None \<longleftrightarrow> flag"
  by (simp add: scope_ids_def)

section \<open>The derived scope\<close>

definition unused_scope_id :: "uuid \<Rightarrow> db \<Rightarrow> bool" where
  "unused_scope_id i d \<longleftrightarrow>
     i \<notin> sc_id ` set (scopes d) \<and> i \<notin> ln_scope ` set (scope_memberships d)
     \<and> i \<notin> ln_scope ` set (scope_services d) \<and> i \<notin> ln_scope ` set (scope_repositories d)
     \<and> i \<notin> ln_scope ` set (scope_sources d)"

lemma linked_targets: "linked s y links \<longleftrightarrow> y \<in> set (link_targets s links)"
  by (auto simp: linked_def link_targets_def list_ex_iff)

lemma has_source_targets:
  "has_source_in d states s \<longleftrightarrow>
     (\<exists>t\<in>set (link_targets s (scope_sources d)). \<exists>z\<in>set (sources d). src_id z = t \<and> src_state z \<in> set states)"
  by (auto simp: has_source_in_def link_targets_def list_ex_iff)

lemma targets_new:
  assumes "i \<notin> ln_scope ` set links" "sc_id s = i"
  shows "set (link_targets s (links @ new_links org i xs)) = set xs"
proof -
  have "filter (\<lambda>l. ln_scope l = i) links = []" using assms(1) by (auto simp: filter_empty_conv)
  then show ?thesis using assms(2) by (simp add: link_targets_def new_links_def o_def)
qed

lemma targets_old:
  "sc_id s \<noteq> i \<Longrightarrow> link_targets s (links @ new_links org i xs) = link_targets s links"
  by (simp add: link_targets_def new_links_def o_def filter_empty_conv)

lemma linked_new:
  assumes "i \<notin> ln_scope ` set links" "sc_id s = i"
  shows "linked s y (links @ new_links org i xs) \<longleftrightarrow> y \<in> set xs"
  by (simp add: linked_targets targets_new [OF assms])

lemma linked_old:
  "sc_id s \<noteq> i \<Longrightarrow> linked s y (links @ new_links org i xs) \<longleftrightarrow> linked s y links"
  by (simp add: linked_targets targets_old)

lemma boundary_of_derived:
  assumes "i \<notin> ln_scope ` set links" "sc_id s = i"
  shows "x = None \<or> linked s y (links @ new_links org i (or_empty x)) \<longleftrightarrow> within x y"
  using linked_new [OF assms] by (auto simp: within_def or_empty_def split: option.splits)

lemma source_scopes_all:
  assumes "distinct (map sc_id (scopes d))"
    and "length (source_scopes actor ids d) = length (remdups ids)"
  shows "set (source_scopes actor ids d) = {s \<in> set (scopes d). sc_id s \<in> set ids}"
proof -
  let ?ss = "source_scopes actor ids d"
  have sub: "set ?ss \<subseteq> {s \<in> set (scopes d). sc_id s \<in> set ids}" by (auto simp: source_scopes_def)
  have "inj_on sc_id (set ?ss)" using assms(1) sub by (auto simp: distinct_map inj_on_def)
  moreover have "distinct ?ss"
    using assms(1) by (simp add: source_scopes_def distinct_map distinct_sort)
  ultimately have "card (sc_id ` set ?ss) = card (set ids)"
    using assms(2) by (simp add: card_image distinct_card length_remdups_card_conv)
  moreover have "sc_id ` set ?ss \<subseteq> set ids" using sub by auto
  ultimately have ids: "sc_id ` set ?ss = set ids" by (intro card_subset_eq) auto
  have "s \<in> set ?ss" if s: "s \<in> set (scopes d)" "sc_id s \<in> set ids" for s
  proof -
    from ids s(2) obtain q where "q \<in> set ?ss" "sc_id q = sc_id s" by (metis imageE)
    then show ?thesis using sub s(1) unique_row [OF assms(1), of q s] by auto
  qed
  then show ?thesis using sub by blast
qed

lemma with_derived_frame:
  "sources (with_derived_scope org i name now ss d) = sources d"
  by (simp add: with_derived_scope_def)

definition repository_open :: "db \<Rightarrow> access_scope \<Rightarrow> uuid option \<Rightarrow> bool" where
  "repository_open d s repository \<longleftrightarrow>
     (case repository of
        None \<Rightarrow> sc_all_repositories s
      | Some r \<Rightarrow> sc_all_repositories s \<or> linked s r (scope_repositories d))"

lemma scope_allows_parts:
  "scope_allows d p s repository False ir \<longleftrightarrow>
     sc_active s \<and> (ir \<or> \<not> has_source_in d [SOURCE_REVOKED] s) \<and> repository_open d s repository
     \<and> scope_includes_principal d p s"
  by (auto simp: scope_allows_def repository_open_def split: option.splits)

lemma derived_allows:
  assumes "unused_scope_id i d" "\<forall>s\<in>set ss. sc_active s"
  shows "scope_allows (with_derived_scope org i name now ss d) p (derived_scope org i name now ss d)
           repository False ir \<longleftrightarrow> (\<forall>s\<in>set ss. scope_allows d p s repository False ir)"
proof -
  let ?d = "with_derived_scope org i name now ss d" and ?s = "derived_scope org i name now ss d"
  let ?M = "intersect_all (map (\<lambda>s. scope_ids (sc_all_memberships s) s (scope_memberships d)) ss)"
  let ?V = "intersect_all (map (\<lambda>s. scope_ids (sc_all_service_identities s) s (scope_services d)) ss)"
  let ?R = "intersect_all (map (\<lambda>s. scope_ids (sc_all_repositories s) s (scope_repositories d)) ss)"
  have id: "sc_id ?s = i" by (simp add: derived_scope_def)
  have member: "sc_all_memberships ?s \<or> linked ?s y (scope_memberships ?d) \<longleftrightarrow>
      (\<forall>s\<in>set ss. sc_all_memberships s \<or> linked s y (scope_memberships d))" for y
    using boundary_of_derived [OF _ id, of "scope_memberships d" ?M y org] assms(1)
    by (simp add: unused_scope_id_def with_derived_scope_def derived_scope_def within_intersect_all
        within_scope_ids)
  have service: "sc_all_service_identities ?s \<or> linked ?s y (scope_services ?d) \<longleftrightarrow>
      (\<forall>s\<in>set ss. sc_all_service_identities s \<or> linked s y (scope_services d))" for y
    using boundary_of_derived [OF _ id, of "scope_services d" ?V y org] assms(1)
    by (simp add: unused_scope_id_def with_derived_scope_def derived_scope_def within_intersect_all
        within_scope_ids)
  have repo: "sc_all_repositories ?s \<or> linked ?s y (scope_repositories ?d) \<longleftrightarrow>
      (\<forall>s\<in>set ss. sc_all_repositories s \<or> linked s y (scope_repositories d))" for y
    using boundary_of_derived [OF _ id, of "scope_repositories d" ?R y org] assms(1)
    by (simp add: unused_scope_id_def with_derived_scope_def derived_scope_def within_intersect_all
        within_scope_ids)
  have all_repo: "sc_all_repositories ?s \<longleftrightarrow> (\<forall>s\<in>set ss. sc_all_repositories s)"
    by (simp add: derived_scope_def intersect_all_None scope_ids_None)
  have principal: "scope_includes_principal ?d p ?s \<longleftrightarrow> (\<forall>s\<in>set ss. scope_includes_principal d p s)"
    using member service by (simp add: scope_includes_principal_def split: principal_row.split)
  have revoked: "has_source_in ?d [SOURCE_REVOKED] ?s \<longleftrightarrow> (\<exists>s\<in>set ss. has_source_in d [SOURCE_REVOKED] s)"
    using targets_new [OF _ id, of "scope_sources d" org] assms(1)
    by (simp add: has_source_targets unused_scope_id_def with_derived_scope_def)
  have active: "sc_active ?s" by (simp add: derived_scope_def)
  have opened: "repository_open ?d ?s repository \<longleftrightarrow> (\<forall>s\<in>set ss. repository_open d s repository)"
    using all_repo repo by (cases repository) (simp_all add: repository_open_def)
  show ?thesis
    using assms(2) active unfolding scope_allows_parts revoked principal opened by blast
qed

lemma old_scope_allows:
  assumes "sc_id s \<noteq> i"
  shows "scope_allows (with_derived_scope org i name now ss d) p s repository ii ir \<longleftrightarrow>
    scope_allows d p s repository ii ir"
proof -
  have "has_source_in (with_derived_scope org i name now ss d) states s \<longleftrightarrow> has_source_in d states s" for states
    using assms by (simp add: has_source_targets with_derived_scope_def targets_old)
  then show ?thesis
    using assms
    by (simp add: scope_allows_def scope_includes_principal_def with_derived_scope_def linked_old
        split: option.split principal_row.split)
qed

section \<open>What depends on a source\<close>

text \<open>A scope depends on a source it is bound to, and on whatever a scope it derives from depends on.\<close>

inductive depends_on :: "db \<Rightarrow> uuid \<Rightarrow> uuid \<Rightarrow> bool" for d sid where
  bound: "l \<in> set (scope_sources d) \<Longrightarrow> ln_target l = sid \<Longrightarrow> depends_on d sid (ln_scope l)"
| derived: "depends_on d sid c \<Longrightarrow> s \<in> set (scopes d) \<Longrightarrow> c \<in> set (sc_derived_from s)
     \<Longrightarrow> depends_on d sid (sc_id s)"

definition children :: "db \<Rightarrow> uuid set \<Rightarrow> uuid set" where
  "children d xs = {sc_id s |s. s \<in> set (scopes d) \<and> set (sc_derived_from s) \<inter> xs \<noteq> {}}"

fun reach :: "nat \<Rightarrow> db \<Rightarrow> uuid \<Rightarrow> uuid set" where
  "reach 0 d sid = {ln_scope l |l. l \<in> set (scope_sources d) \<and> ln_target l = sid}"
| "reach (Suc k) d sid = reach k d sid \<union> children d (reach k d sid)"

definition newly :: "nat \<Rightarrow> db \<Rightarrow> uuid \<Rightarrow> uuid set" where
  "newly k d sid = (case k of 0 \<Rightarrow> reach 0 d sid | Suc j \<Rightarrow> reach (Suc j) d sid - reach j d sid)"

lemma children_un: "children d (xs \<union> ys) = children d xs \<union> children d ys"
  by (auto simp: children_def)

lemma set_direct_scopes: "set (direct_scopes sid d) = reach 0 d sid"
  by (auto simp: direct_scopes_def)

lemma set_descendants: "set (descendants d xs) = children d (set xs)"
  by (auto simp: descendants_def children_def list_ex_iff)

lemma finite_reach: "finite (reach k d sid)"
proof (induction k)
  case 0
  have "reach 0 d sid = set (direct_scopes sid d)" by (simp only: set_direct_scopes)
  then show ?case by simp
next
  case (Suc k)
  have "children d xs \<subseteq> sc_id ` set (scopes d)" for xs by (auto simp: children_def)
  then have "finite (children d xs)" for xs by (rule finite_subset) simp
  then show ?case using Suc by simp
qed

lemma reach_depends: "x \<in> reach k d sid \<Longrightarrow> depends_on d sid x"
proof (induction k arbitrary: x)
  case 0
  then show ?case by (auto intro: depends_on.bound)
next
  case (Suc k)
  then show ?case by (auto simp: children_def intro: depends_on.derived)
qed

lemma depends_reach: "depends_on d sid x \<Longrightarrow> \<exists>k. x \<in> reach k d sid"
proof (induction rule: depends_on.induct)
  case (bound l)
  then show ?case by (intro exI [where x = 0]) auto
next
  case (derived c s)
  then obtain k where "c \<in> reach k d sid" by blast
  with derived have "sc_id s \<in> reach (Suc k) d sid" by (auto simp: children_def)
  then show ?case by blast
qed

lemma reach_mono: "j \<le> k \<Longrightarrow> reach j d sid \<subseteq> reach k d sid"
  by (induction k) (auto simp: le_Suc_eq)

lemma reach_stops:
  assumes "newly k d sid = {}"
  shows "reach (k + m) d sid = reach k d sid"
proof (induction m)
  case 0
  then show ?case by simp
next
  case (Suc m)
  have "children d (reach k d sid) \<subseteq> reach k d sid"
  proof (cases k)
    case 0
    then have "reach k d sid = {}" using assms by (simp add: newly_def)
    then show ?thesis by (simp add: children_def)
  next
    case (Suc j)
    then have "reach k d sid = reach j d sid" using assms by (auto simp: newly_def)
    then show ?thesis using Suc by auto
  qed
  then show ?case using Suc by auto
qed

lemma dependents_when_stopped:
  assumes "newly k d sid = {}"
  shows "reach k d sid = {x. depends_on d sid x}"
proof -
  have "reach j d sid \<subseteq> reach k d sid" for j
  proof (cases "j \<le> k")
    case False
    then obtain m where "j = k + m" by (metis le_add_diff_inverse linear)
    then show ?thesis using reach_stops [OF assms] by simp
  qed (rule reach_mono)
  then show ?thesis using reach_depends depends_reach by blast
qed

lemma newly_empty_later: "newly k d sid = {} \<Longrightarrow> k \<le> j \<Longrightarrow> newly (Suc j) d sid = {}"
proof -
  assume stop: "newly k d sid = {}" and "k \<le> j"
  then have "reach (Suc j) d sid = reach k d sid" "reach j d sid = reach k d sid"
    using reach_stops [OF stop, of "Suc j - k"] reach_stops [OF stop, of "j - k"] by simp_all
  then show ?thesis by (simp add: newly_def)
qed

section \<open>The loop\<close>

definition at_round :: "nat \<Rightarrow> db \<Rightarrow> uuid \<Rightarrow> uuid list \<Rightarrow> uuid list \<Rightarrow> bool" where
  "at_round k d sid affected frontier \<longleftrightarrow>
     distinct affected \<and> set affected = reach k d sid \<and> set frontier = newly k d sid"

lemma next_round:
  assumes "at_round k d sid affected frontier"
    and "frontier' = filter (\<lambda>x. x \<notin> set affected) (descendants d frontier)"
  shows "at_round (Suc k) d sid (affected @ frontier') frontier'"
proof -
  have fr: "set frontier' = children d (newly k d sid) - reach k d sid"
    using assms by (auto simp: at_round_def set_descendants)
  have split: "children d (reach k d sid) - reach k d sid = children d (newly k d sid) - reach k d sid"
  proof (cases k)
    case 0
    then show ?thesis by (simp add: newly_def)
  next
    case (Suc j)
    have "children d (reach j d sid) \<subseteq> reach k d sid" using Suc by simp
    moreover have "reach k d sid = newly k d sid \<union> reach j d sid"
      using Suc by (auto simp: newly_def)
    then have "children d (reach k d sid) = children d (newly k d sid) \<union> children d (reach j d sid)"
      by (metis children_un)
    ultimately show ?thesis by blast
  qed
  have "set frontier' = newly (Suc k) d sid" using fr split by (auto simp: newly_def)
  moreover have "set (affected @ frontier') = reach (Suc k) d sid"
    using assms(1) fr split by (auto simp: at_round_def)
  moreover have "distinct (affected @ frontier')"
    using assms by (auto simp: at_round_def descendants_def)
  ultimately show ?thesis by (simp add: at_round_def)
qed

lemma propagate_Inr:
  assumes "propagate n d affected frontier = Inr A" "at_round k d sid affected frontier"
  shows "set A = {x. depends_on d sid x} \<and> distinct A \<and> (\<exists>m<n. newly (k + m) d sid = {})
    \<and> (if frontier = [] then A = affected else length A \<le> MAX_DERIVED_SCOPES_PER_REVOCATION)"
  using assms
proof (induction n arbitrary: affected frontier k)
  case 0
  then show ?case by simp
next
  case (Suc n)
  show ?case
  proof (cases "frontier = []")
    case True
    then have "newly k d sid = {}" "A = affected" using Suc.prems by (auto simp: at_round_def)
    then show ?thesis
      using True Suc.prems(2) dependents_when_stopped by (auto simp: at_round_def)
  next
    case False
    define frontier' where "frontier' = filter (\<lambda>x. x \<notin> set affected) (descendants d frontier)"
    have small: "length (affected @ frontier') \<le> MAX_DERIVED_SCOPES_PER_REVOCATION"
      and rest: "propagate n d (affected @ frontier') frontier' = Inr A"
      using Suc.prems(1) False
      by (simp_all add: frontier'_def [symmetric] Let_def split: if_splits)
    from Suc.IH [OF rest next_round [OF Suc.prems(2) frontier'_def]]
    have "set A = {x. depends_on d sid x}" "distinct A" "\<exists>m<n. newly (Suc k + m) d sid = {}"
      "if frontier' = [] then A = affected @ frontier' else length A \<le> MAX_DERIVED_SCOPES_PER_REVOCATION"
      by blast+
    then show ?thesis using False small by (auto split: if_splits)
  qed
qed

lemma propagate_returns:
  assumes "at_round k d sid affected frontier" "m < n" "newly (k + m) d sid = {}"
    and "card {x. depends_on d sid x} \<le> MAX_DERIVED_SCOPES_PER_REVOCATION"
  shows "\<exists>A. propagate n d affected frontier = Inr A"
  using assms
proof (induction n arbitrary: affected frontier k m)
  case 0
  then show ?case by simp
next
  case (Suc n)
  show ?case
  proof (cases "frontier = []")
    case True
    then show ?thesis by simp
  next
    case False
    then have "newly k d sid \<noteq> {}" using Suc.prems(1) by (auto simp: at_round_def)
    then obtain m' where m': "m = Suc m'" using Suc.prems(3) by (cases m) auto
    define frontier' where "frontier' = filter (\<lambda>x. x \<notin> set affected) (descendants d frontier)"
    note round = next_round [OF Suc.prems(1) frontier'_def]
    have stop: "newly (Suc k + m') d sid = {}" using Suc.prems(3) m' by simp
    have dep: "{x. depends_on d sid x} = reach (Suc k + m') d sid"
      by (rule dependents_when_stopped [OF stop, symmetric])
    have "set (affected @ frontier') \<subseteq> {x. depends_on d sid x}"
      using round reach_depends [of _ "Suc k" d sid] unfolding at_round_def by blast
    moreover have "finite {x. depends_on d sid x}" unfolding dep by (rule finite_reach)
    ultimately have "card (set (affected @ frontier')) \<le> MAX_DERIVED_SCOPES_PER_REVOCATION"
      using card_mono Suc.prems(4) by (meson le_trans)
    moreover have "length (affected @ frontier') = card (set (affected @ frontier'))"
      using round unfolding at_round_def by (metis distinct_card)
    ultimately have small: "length (affected @ frontier') \<le> MAX_DERIVED_SCOPES_PER_REVOCATION" by simp
    have "m' < n" using Suc.prems(2) m' by simp
    from Suc.IH [OF round this stop Suc.prems(4)]
    have "\<exists>A. propagate n d (affected @ frontier') frontier' = Inr A" .
    then show ?thesis using False small by (simp add: frontier'_def [symmetric] Let_def)
  qed
qed

lemma first_round: "at_round 0 d sid (direct_scopes sid d) (direct_scopes sid d)"
  using set_direct_scopes by (simp add: at_round_def newly_def direct_scopes_def)

end
