(* ===== verification/RevocationSafety.thy ===== *)
theory RevocationSafety
  imports ScopeSafety
begin

text \<open>
  What \<^verbatim>\<open>revoke_source_connection\<close> returned with, table by table, and what follows for every
  later decision.
\<close>

section \<open>A loop that saves one row per element\<close>

text \<open>
  Each round replaces the rows with the key of its element by one row that meets \<open>P\<close>: afterwards
  every row is an old one with another key or one that meets \<open>P\<close>, and rows with other keys stay.
\<close>

lemma fold_saves:
  assumes "fold_res f xs d = Inr d'"
    and step: "\<And>x d d'. x \<in> set xs \<Longrightarrow> f x d = Inr d' \<Longrightarrow>
      \<exists>r. P r \<and> rows d' = update_where (\<lambda>y. key y = key x) (\<lambda>_. r) (rows d)"
  shows "\<forall>y\<in>set (rows d'). P y \<or> y \<in> set (rows d) \<and> key y \<notin> key ` set xs"
    and "\<forall>y\<in>set (rows d). key y \<notin> key ` set xs \<longrightarrow> y \<in> set (rows d')"
proof -
  from assms have "(\<forall>y\<in>set (rows d'). P y \<or> y \<in> set (rows d) \<and> key y \<notin> key ` set xs)
    \<and> (\<forall>y\<in>set (rows d). key y \<notin> key ` set xs \<longrightarrow> y \<in> set (rows d'))"
  proof (induction xs arbitrary: d)
    case Nil
    then show ?case by simp
  next
    case (Cons x xs)
    from Cons.prems(1) obtain d1 where d1: "f x d = Inr d1" and rest: "fold_res f xs d1 = Inr d'"
      by (auto simp: bind_res_Inr)
    from Cons.prems(2) [OF _ d1] obtain r where r: "P r"
      "rows d1 = update_where (\<lambda>y. key y = key x) (\<lambda>_. r) (rows d)" by auto
    have IH: "(\<forall>y\<in>set (rows d'). P y \<or> y \<in> set (rows d1) \<and> key y \<notin> key ` set xs)
      \<and> (\<forall>y\<in>set (rows d1). key y \<notin> key ` set xs \<longrightarrow> y \<in> set (rows d'))"
      by (rule Cons.IH [OF rest]) (use Cons.prems(2) in auto)
    have older: "P y \<or> y \<in> set (rows d) \<and> key y \<noteq> key x" if "y \<in> set (rows d1)" for y
      using that r by (auto simp: set_update_where split: if_splits)
    have forth: "y \<in> set (rows d1)" if "y \<in> set (rows d)" "key y \<noteq> key x" for y
      unfolding r(2) set_update_where using that by force
    show ?case using IH older forth by fastforce
  qed
  then show "\<forall>y\<in>set (rows d'). P y \<or> y \<in> set (rows d) \<and> key y \<notin> key ` set xs"
    and "\<forall>y\<in>set (rows d). key y \<notin> key ` set xs \<longrightarrow> y \<in> set (rows d')" by blast+
qed

section \<open>The two loops\<close>

definition around_jobs where
  "around_jobs d = (scopes d, scope_sources d, sources d, snapshots d, visibilities d, sync_runs d,
     assertions d, assurance_runs d, packets d, invalidations d)"

definition around_syncs where
  "around_syncs d = (scopes d, scope_sources d, sources d, snapshots d, visibilities d, jobs d,
     assertions d, assurance_runs d, packets d, invalidations d)"

lemma cancel_ingestion_job_Inr:
  assumes "cancel_ingestion_job env actor now j d = Inr d'"
  shows "jobs d' = update_where (\<lambda>y. job_id y = job_id j)
           (\<lambda>_. j\<lparr>job_state := JOB_CANCELLED, job_completed_at := Some now,
                 job_last_error := lit ''source_revoked''\<rparr>) (jobs d)"
    and "around_jobs d' = around_jobs d"
  using record_transition_frame [OF assms [unfolded cancel_ingestion_job_def]]
  by (simp_all add: around_jobs_def save_row_def job_table_def)

lemma cancel_sync_run_Inr:
  assumes "cancel_sync_run env actor now r d = Inr d'"
  shows "sync_runs d' = update_where (\<lambda>y. sync_id y = sync_id r)
           (\<lambda>_. r\<lparr>sync_state := SYNC_CANCELLED, sync_failure_code := lit ''source_revoked'',
                 sync_completed_at := Some now, sync_revision := sync_revision r + 1\<rparr>) (sync_runs d)"
    and "around_syncs d' = around_syncs d"
  using record_transition_frame [OF assms [unfolded cancel_sync_run_def Let_def]]
  by (simp_all add: around_syncs_def save_row_def sync_table_def)

lemma jobs_cancelled:
  assumes "fold_res (cancel_ingestion_job env actor now) (pending_ingestion_jobs org sid d) d = Inr d'"
  shows "pending_ingestion_jobs org sid d' = []" "around_jobs d' = around_jobs d"
proof -
  let ?js = "pending_ingestion_jobs org sid d"
  have "\<forall>y\<in>set (jobs d'). job_state y = JOB_CANCELLED \<or> y \<in> set (jobs d) \<and> job_id y \<notin> job_id ` set ?js"
    by (rule fold_saves(1) [OF assms, where P = "\<lambda>y. job_state y = JOB_CANCELLED"])
      (use cancel_ingestion_job_Inr(1) in force)
  then show "pending_ingestion_jobs org sid d' = []"
    by (fastforce simp: pending_ingestion_jobs_def filter_empty_conv)
  show "around_jobs d' = around_jobs d"
    by (rule fold_res_invariant [OF assms]) (simp_all add: cancel_ingestion_job_Inr(2))
qed

lemma syncs_cancelled:
  assumes "fold_res (cancel_sync_run env actor now) (active_sync_runs org sid d) d = Inr d'"
  shows "active_sync_runs org sid d' = []" "around_syncs d' = around_syncs d"
proof -
  let ?rs = "active_sync_runs org sid d"
  have "\<forall>y\<in>set (sync_runs d'). sync_state y = SYNC_CANCELLED
      \<or> y \<in> set (sync_runs d) \<and> sync_id y \<notin> sync_id ` set ?rs"
    by (rule fold_saves(1) [OF assms, where P = "\<lambda>y. sync_state y = SYNC_CANCELLED"])
      (use cancel_sync_run_Inr(1) in force)
  then show "active_sync_runs org sid d' = []"
    by (fastforce simp: active_sync_runs_def ACTIVE_SYNC_STATES_def filter_empty_conv)
  show "around_syncs d' = around_syncs d"
    by (rule fold_res_invariant [OF assms]) (simp_all add: cancel_sync_run_Inr(2))
qed

section \<open>A revocation that returned\<close>

lemma revoke_source_Inr:
  assumes "revoke_source_connection env actor sid rv now d = Inr (source', d')"
    and "distinct (map run_id (assurance_runs d))"
  obtains "source' \<in> set (sources d)" "src_id source' = sid" "src_state source' = SOURCE_REVOKED" "d' = d"
  | source affected where
      "source \<in> set (sources d)" "src_id source = sid" "src_org source = actor_org actor"
      "src_state source \<noteq> SOURCE_REVOKED" "int (src_revision source) = rv"
      "propagate MAX_DERIVED_SCOPE_DEPTH d (direct_scopes sid d) (direct_scopes sid d) = Inr affected"
      "source' = source\<lparr>src_state := SOURCE_REVOKED, src_revision := src_revision source + 1\<rparr>"
      "sources d' = update_where (\<lambda>s. src_id s = sid) (\<lambda>_. source') (sources d)"
      "scopes d' = scopes (deactivate_scopes affected d)" "scope_sources d' = scope_sources d"
      "snapshots d' = snapshots (revoke_snapshots sid now d)"
      "visibilities d' = visibilities (revoke_visibilities (actor_org actor) sid now (revoke_snapshots sid now d))"
      "pending_ingestion_jobs (actor_org actor) sid d' = []" "active_sync_runs (actor_org actor) sid d' = []"
      "\<And>r p. src_repository source = Some r \<Longrightarrow> packet_valid d' p \<Longrightarrow>
         \<not> (pk_org p = actor_org actor \<and> pk_repository p = r)"
proof -
  from assms(1) obtain dec source where
    g: "get_tenant_record source_table sid (actor_org actor) d = Inr source"
    and rest: "(if src_state source = SOURCE_REVOKED then Inr (source, d)
     else if int (src_revision source) \<noteq> rv then Inl OptimisticConcurrencyError
     else
       let direct = direct_scopes sid d in
       bind_res (propagate MAX_DERIVED_SCOPE_DEPTH d direct direct) (\<lambda>affected.
       let d1 = revoke_visibilities (src_org source) sid now
                  (revoke_snapshots sid now (deactivate_scopes affected d)) in
       bind_res (audit_actor actor dec) (\<lambda>auditor.
       bind_res (fold_res (cancel_ingestion_job env auditor now)
                   (pending_ingestion_jobs (src_org source) sid d1) d1) (\<lambda>d2.
       bind_res (fold_res (cancel_sync_run env auditor now)
                   (active_sync_runs (src_org source) sid d2) d2) (\<lambda>d3.
       let source' = source\<lparr>src_state := SOURCE_REVOKED, src_revision := src_revision source + 1\<rparr> in
       bind_res (record_transition env (src_org source) auditor (lit ''sourceconnection'') sid
                   (source_state_value (src_state source)) (source_state_value SOURCE_REVOKED)
                   (src_revision source')
                   [(lit ''invalidated_scope_count'', JInt (int (length affected)))]
                   (save_row source_table source' d3)) (\<lambda>d4.
       case src_repository source of
         None \<Rightarrow> Inr (source', d4)
       | Some r \<Rightarrow>
           bind_res (invalidate_context_packets env auditor (src_org source) r (lit ''REVOCATION'')
                       [(lit ''source_connection_id'', JStr (uuid_str sid))] now d4) (\<lambda>(_, d5).
             Inr (source', d5))))))))
      = Inr (source', d')"
    unfolding revoke_source_connection_def get_tenant_record_for_update_def bind_res_Inr by blast
  have row: "source \<in> set (sources d)" "src_id source = sid" "src_org source = actor_org actor"
    using get_tenant_record_Inr [OF g] by simp_all
  show thesis
  proof (cases "src_state source = SOURCE_REVOKED")
    case True
    with rest row show thesis by (intro that(1)) auto
  next
    case live: False
    with rest have rv: "int (src_revision source) = rv" by (auto split: if_splits)
    define s1 where "s1 = source\<lparr>src_state := SOURCE_REVOKED, src_revision := src_revision source + 1\<rparr>"
    from rest live rv obtain affected auditor d2 d3 d4 where
      p: "propagate MAX_DERIVED_SCOPE_DEPTH d (direct_scopes sid d) (direct_scopes sid d) = Inr affected"
      and a: "audit_actor actor dec = Inr auditor"
      and f2: "fold_res (cancel_ingestion_job env auditor now) (pending_ingestion_jobs (src_org source) sid
          (revoke_visibilities (src_org source) sid now (revoke_snapshots sid now (deactivate_scopes affected d))))
          (revoke_visibilities (src_org source) sid now (revoke_snapshots sid now (deactivate_scopes affected d)))
          = Inr d2"
      and f3: "fold_res (cancel_sync_run env auditor now) (active_sync_runs (src_org source) sid d2) d2 = Inr d3"
      and rec: "record_transition env (src_org source) auditor (lit ''sourceconnection'') sid
                   (source_state_value (src_state source)) (source_state_value SOURCE_REVOKED)
                   (src_revision s1) [(lit ''invalidated_scope_count'', JInt (int (length affected)))]
                   (save_row source_table s1 d3) = Inr d4"
      and fin: "(case src_repository source of None \<Rightarrow> Inr (s1, d4)
         | Some r \<Rightarrow> bind_res (invalidate_context_packets env auditor (src_org source) r (lit ''REVOCATION'')
                       [(lit ''source_connection_id'', JStr (uuid_str sid))] now d4) (\<lambda>(_, d5).
             Inr (s1, d5))) = Inr (source', d')"
      unfolding if_not_P [OF live] if_not_P [OF not_not [THEN iffD2, OF rv]] Let_def bind_res_Inr s1_def by blast
    let ?d1 = "revoke_visibilities (src_org source) sid now (revoke_snapshots sid now (deactivate_scopes affected d))"
    note j = jobs_cancelled [OF f2] and s = syncs_cancelled [OF f3]
    note r = record_transition_frame [OF rec]
    have tables: "scopes d4 = scopes ?d1" "scope_sources d4 = scope_sources ?d1" "snapshots d4 = snapshots ?d1"
      "visibilities d4 = visibilities ?d1" "jobs d4 = jobs d2" "sync_runs d4 = sync_runs d3"
      "assurance_runs d4 = assurance_runs ?d1" "packets d4 = packets ?d1" "invalidations d4 = invalidations ?d1"
      "sources d4 = update_where (\<lambda>x. src_id x = sid) (\<lambda>_. s1) (sources ?d1)"
      using j(2) s(2) r row(2)
      by (simp_all add: around_jobs_def around_syncs_def save_row_def source_table_def s1_def)
    have base: "scope_sources ?d1 = scope_sources d" "assurance_runs ?d1 = assurance_runs d"
      "sources ?d1 = sources d" "scopes ?d1 = scopes (deactivate_scopes affected d)"
      "snapshots ?d1 = snapshots (revoke_snapshots sid now d)"
      "visibilities ?d1 = visibilities (revoke_visibilities (src_org source) sid now (revoke_snapshots sid now d))"
      by (simp_all add: revoke_visibilities_def revoke_snapshots_def deactivate_scopes_def of_source_def cong: conj_cong)
    have j4: "pending_ingestion_jobs (actor_org actor) sid d4 = []" "active_sync_runs (actor_org actor) sid d4 = []"
      using j(1) s(1) row(3) tables(5,6) by (simp_all add: pending_ingestion_jobs_def active_sync_runs_def)
    have end4: "source' = s1 \<and> same_elsewhere d4 d' \<and> (\<forall>r p. src_repository source = Some r \<longrightarrow>
       packet_valid d' p \<longrightarrow> \<not> (pk_org p = actor_org actor \<and> pk_repository p = r))"
    proof (cases "src_repository source")
      case None
      then show ?thesis using fin by (simp add: same_elsewhere_def)
    next
      case (Some r)
      then obtain n where i: "invalidate_context_packets env auditor (src_org source) r (lit ''REVOCATION'')
          [(lit ''source_connection_id'', JStr (uuid_str sid))] now d4 = Inr (n, d')" and out: "source' = s1"
        using fin by (auto simp: bind_res_Inr)
      have "distinct (map run_id (assurance_runs d4))" using assms(2) tables(7) base(2) by simp
      with i show ?thesis
      proof (rule invalidate_Inr)
        fix rows :: "packet_invalidation list"
        assume same: "same_elsewhere d4 d'" and ps: "packets d' = packets d4"
          and iv: "invalidations d' = invalidations d4 @ rows"
          and named: "iv_packet ` set rows =
            pk_id ` {p. packet_valid d4 p \<and> pk_org p = src_org source \<and> pk_repository p = r}"
        have "\<not> (pk_org p = actor_org actor \<and> pk_repository p = r)" if p: "packet_valid d' p" for p
        proof
          assume at: "pk_org p = actor_org actor \<and> pk_repository p = r"
          have "packet_valid d4 p" using p ps iv by (simp add: packet_valid_def)
          then have "p \<in> {p. packet_valid d4 p \<and> pk_org p = src_org source \<and> pk_repository p = r}"
            using at row(3) by simp
          then have "pk_id p \<in> pk_id ` {p. packet_valid d4 p \<and> pk_org p = src_org source \<and> pk_repository p = r}"
            by (rule imageI)
          then have "pk_id p \<in> iv_packet ` set rows" by (simp only: named)
          then obtain v where "v \<in> set rows" "iv_packet v = pk_id p" by auto
          then show False using p iv by (auto simp: packet_valid_def)
        qed
        then show ?thesis using same out Some by simp
      qed
    qed
    note same = end4 [THEN conjunct2, THEN conjunct1, unfolded same_elsewhere_def]
    show thesis
    proof (rule that(2) [OF row live rv p])
      show "source' = source\<lparr>src_state := SOURCE_REVOKED, src_revision := src_revision source + 1\<rparr>"
        using end4 by (simp add: s1_def)
      show "sources d' = update_where (\<lambda>s. src_id s = sid) (\<lambda>_. source') (sources d)"
        using end4 same tables(10) base(3) by simp
      show "scopes d' = scopes (deactivate_scopes affected d)" "scope_sources d' = scope_sources d"
        "snapshots d' = snapshots (revoke_snapshots sid now d)"
        "visibilities d' = visibilities (revoke_visibilities (actor_org actor) sid now (revoke_snapshots sid now d))"
        using same tables base row(3) by simp_all
      show "pending_ingestion_jobs (actor_org actor) sid d' = []" "active_sync_runs (actor_org actor) sid d' = []"
        using same j4 by (simp_all add: pending_ingestion_jobs_def active_sync_runs_def)
    qed (use end4 in blast)
  qed
qed

section \<open>The state after the revocation of a live source\<close>

lemma all_update_where:
  "(\<forall>x\<in>set (update_where p f xs). Q x) \<longleftrightarrow> (\<forall>x\<in>set xs. if p x then Q (f x) else Q x)"
  by (induction xs) (simp_all add: update_where_def)

lemma revoke_live_Inr:
  assumes "access_keys d" "distinct (map run_id (assurance_runs d))"
    and "\<exists>s\<in>set (sources d). src_id s = sid \<and> src_state s \<noteq> SOURCE_REVOKED"
    and "revoke_source_connection env actor sid rv now d = Inr (source', d')"
  obtains source affected where
      "source \<in> set (sources d)" "src_id source = sid" "src_org source = actor_org actor"
      "int (src_revision source) = rv"
      "set affected = {x. depends_on d sid x}"
      "source' = source\<lparr>src_state := SOURCE_REVOKED, src_revision := src_revision source + 1\<rparr>"
      "sources d' = update_where (\<lambda>s. src_id s = sid) (\<lambda>_. source') (sources d)"
      "scopes d' = scopes (deactivate_scopes affected d)"
      "snapshots d' = snapshots (revoke_snapshots sid now d)"
      "visibilities d' = visibilities (revoke_visibilities (actor_org actor) sid now (revoke_snapshots sid now d))"
      "pending_ingestion_jobs (actor_org actor) sid d' = []" "active_sync_runs (actor_org actor) sid d' = []"
      "\<And>r p. src_repository source = Some r \<Longrightarrow> packet_valid d' p \<Longrightarrow>
         \<not> (pk_org p = actor_org actor \<and> pk_repository p = r)"
  using assms(4,2)
proof (rule revoke_source_Inr)
  assume "source' \<in> set (sources d)" "src_id source' = sid" "src_state source' = SOURCE_REVOKED"
  moreover from assms(3) obtain s where "s \<in> set (sources d)" "src_id s = sid" "src_state s \<noteq> SOURCE_REVOKED"
    by blast
  moreover have "distinct (map src_id (sources d))" using assms(1) by (simp add: access_keys_def)
  ultimately show thesis using unique_row [of src_id "sources d" source' s] by simp
next
  fix source0 affected
  assume rest: "source0 \<in> set (sources d)" "src_id source0 = sid" "src_org source0 = actor_org actor"
      "int (src_revision source0) = rv"
      "propagate MAX_DERIVED_SCOPE_DEPTH d (direct_scopes sid d) (direct_scopes sid d) = Inr affected"
      "source' = source0\<lparr>src_state := SOURCE_REVOKED, src_revision := src_revision source0 + 1\<rparr>"
      "sources d' = update_where (\<lambda>s. src_id s = sid) (\<lambda>_. source') (sources d)"
      "scopes d' = scopes (deactivate_scopes affected d)"
      "snapshots d' = snapshots (revoke_snapshots sid now d)"
      "visibilities d' = visibilities (revoke_visibilities (actor_org actor) sid now (revoke_snapshots sid now d))"
      "pending_ingestion_jobs (actor_org actor) sid d' = []" "active_sync_runs (actor_org actor) sid d' = []"
      "\<And>r p. src_repository source0 = Some r \<Longrightarrow> packet_valid d' p \<Longrightarrow>
         \<not> (pk_org p = actor_org actor \<and> pk_repository p = r)"
  have "set affected = {x. depends_on d sid x}" using propagate_Inr [OF rest(5) first_round] by simp
  from that [OF rest(1-4) this rest(6-13)] show thesis .
qed

lemma revocation_state:
  assumes "access_keys d" "distinct (map run_id (assurance_runs d))"
    and "\<exists>s\<in>set (sources d). src_id s = sid \<and> src_state s \<noteq> SOURCE_REVOKED"
    and "revoke_source_connection env actor sid rv now d = Inr (source', d')"
  shows "\<forall>s\<in>set (scopes d'). depends_on d sid (sc_id s) \<longrightarrow> \<not> sc_active s"
    and "\<forall>s\<in>set (scopes d). \<not> depends_on d sid (sc_id s) \<longrightarrow> s \<in> set (scopes d')"
    and "distinct (map sc_id (scopes d'))" and "distinct (map src_id (sources d'))"
    and "\<forall>s\<in>set (sources d'). src_id s = sid \<longrightarrow> src_state s = SOURCE_REVOKED"
proof -
  obtain source0 affected where row: "source0 \<in> set (sources d)" "src_id source0 = sid"
    and A: "set affected = {x. depends_on d sid x}"
    and new: "source' = source0\<lparr>src_state := SOURCE_REVOKED, src_revision := src_revision source0 + 1\<rparr>"
    and srcs: "sources d' = update_where (\<lambda>s. src_id s = sid) (\<lambda>_. source') (sources d)"
    and scs: "scopes d' = scopes (deactivate_scopes affected d)"
    by (rule revoke_live_Inr [OF assms]) (rule that; assumption)
  show "\<forall>s\<in>set (scopes d'). depends_on d sid (sc_id s) \<longrightarrow> \<not> sc_active s"
    using A by (simp add: scs deactivate_scopes_def all_update_where)
  show "\<forall>s\<in>set (scopes d). \<not> depends_on d sid (sc_id s) \<longrightarrow> s \<in> set (scopes d')"
    unfolding scs deactivate_scopes_def using A by (force simp: set_update_where)
  show "distinct (map sc_id (scopes d'))"
    using assms(1) by (simp add: scs deactivate_scopes_def access_keys_def map_update_where_same)
  show "distinct (map src_id (sources d'))"
    using assms(1) row(2) new by (simp add: srcs access_keys_def update_where_def o_def if_distrib cong: if_cong)
  show "\<forall>s\<in>set (sources d'). src_id s = sid \<longrightarrow> src_state s = SOURCE_REVOKED"
    using new by (simp add: srcs all_update_where)
qed

lemma revocation_stops:
  assumes "access_keys d" "distinct (map run_id (assurance_runs d))"
    and "\<exists>s\<in>set (sources d). src_id s = sid \<and> src_state s \<noteq> SOURCE_REVOKED"
    and "revoke_source_connection env actor sid rv now d = Inr (source', d')"
  shows "(\<forall>s\<in>set (snapshots d'). snap_source s = sid \<longrightarrow> snap_revoked_at s \<noteq> None)
     \<and> (\<forall>v\<in>set (visibilities d'). vis_org v = actor_org actor \<and> of_source d' sid v \<longrightarrow> vis_state v \<noteq> VIS_AVAILABLE)
     \<and> pending_ingestion_jobs (actor_org actor) sid d' = []
     \<and> active_sync_runs (actor_org actor) sid d' = []
     \<and> (\<forall>p r. src_repository source' = Some r \<and> packet_valid d' p \<longrightarrow>
           \<not> (pk_org p = actor_org actor \<and> pk_repository p = r))
     \<and> source' \<in> set (sources d') \<and> src_state source' = SOURCE_REVOKED
     \<and> int (src_revision source') = rv + 1"
proof -
  obtain source0 where row: "source0 \<in> set (sources d)" "src_id source0 = sid"
    and rv: "int (src_revision source0) = rv"
    and new: "source' = source0\<lparr>src_state := SOURCE_REVOKED, src_revision := src_revision source0 + 1\<rparr>"
    and srcs: "sources d' = update_where (\<lambda>s. src_id s = sid) (\<lambda>_. source') (sources d)"
    and snaps: "snapshots d' = snapshots (revoke_snapshots sid now d)"
    and vis: "visibilities d' = visibilities (revoke_visibilities (actor_org actor) sid now (revoke_snapshots sid now d))"
    and idle: "pending_ingestion_jobs (actor_org actor) sid d' = []" "active_sync_runs (actor_org actor) sid d' = []"
    and packets: "\<And>r p. src_repository source0 = Some r \<Longrightarrow> packet_valid d' p \<Longrightarrow>
         \<not> (pk_org p = actor_org actor \<and> pk_repository p = r)"
    by (rule revoke_live_Inr [OF assms]) (rule that; assumption)
  have snap: "\<forall>s\<in>set (snapshots d'). snap_source s = sid \<longrightarrow> snap_revoked_at s \<noteq> None"
    by (simp add: snaps revoke_snapshots_def all_update_where)
  have same: "of_source d' sid v = of_source (revoke_snapshots sid now d) sid v" for v
    by (simp only: of_source_def snaps)
  have keep: "of_source e sid (v\<lparr>vis_state := st, vis_revoked_at := t\<rparr>) = of_source e sid v" for e v st t
    by (simp add: of_source_def)
  have "\<forall>v\<in>set (visibilities d'). vis_org v = actor_org actor \<and> of_source d' sid v \<longrightarrow> vis_state v \<noteq> VIS_AVAILABLE"
    by (simp add: same vis) (auto simp: keep revoke_visibilities_def all_update_where)
  moreover have "source' \<in> set (sources d')" unfolding srcs set_update_where using row by force
  ultimately show ?thesis using snap idle packets new rv by simp
qed


end
