(* ===== verification/ScopeClaims.thy ===== *)
theory ScopeClaims
  imports RevocationSafety TokenClaims
begin

text \<open>
  What scopes and their revocation guarantee: a derived scope is the intersection it claims to be,
  the propagation of a revocation ends within its bounds, and a revoked source opens nothing any
  more; with the invalidation of the context packets that rested on it.
\<close>

section \<open>Sample deployment\<close>

text \<open>
  The administrator's tenant with a live source (71) bound to a scope (62), a scope (63) derived
  from it, an unrevoked snapshot and an available chunk.
\<close>

definition sample_source :: source_connection where
  "sample_source = \<lparr>src_id = 71, src_org = 1, src_repository = None, src_state = SOURCE_ACTIVE,
                    src_revision = 3\<rparr>"

definition sample_snapshot_row :: access_snapshot where
  "sample_snapshot_row = \<lparr>snap_id = 100, snap_org = 1, snap_source = 71, snap_scope = 62,
     snap_scope_revision = 1, snap_payload = JDict [], snap_content_hash = [4], snap_revoked_at = None\<rparr>"

definition sample_visibility :: chunk_visibility where
  "sample_visibility = \<lparr>vis_id = 101, vis_org = 1, vis_chunk = 102, vis_location = 103,
     vis_observation = 104, vis_snapshot = 100, vis_scope = 62, vis_state = VIS_AVAILABLE,
     vis_observed_at = 0, vis_revoked_at = None\<rparr>"

definition sample_bound :: db where
  "sample_bound = sample_admin\<lparr>
     sources := [sample_source],
     scopes := [sample_scope 60, sample_scope 62,
                (sample_scope 63)\<lparr>sc_is_derived := True, sc_derived_from := [62]\<rparr>],
     scope_sources := [\<lparr>ln_org = 1, ln_scope = 62, ln_target = 71\<rparr>],
     snapshots := [sample_snapshot_row], visibilities := [sample_visibility]\<rparr>"

lemmas sample_bound_rows = sample_bound_def sample_admin_def sample_access_rows sample_source_def
  sample_snapshot_row_def sample_visibility_def

lemma sample_bound_keys: "access_keys sample_bound" "distinct (map run_id (assurance_runs sample_bound))"
  by (simp_all add: access_keys_def sample_bound_rows)

lemma sample_bound_principal: "resolve_principal sample_bound sample_user = Inr sample_principal"
  by (simp add: sample_principal_def resolve_principal_def sample_bound_rows
      organization_active_def user_is_active_def first_by_def)

lemma sample_bound_role: "membership_role sample_bound sample_member = Some ORG_ADMIN"
  by (simp add: membership_role_def sample_bound_rows)

definition sample_bound_path :: "uuid option \<Rightarrow> pystr" where
  "sample_bound_path source = decision_path sample_bound sample_user sample_principal SOURCE_REVOKE False None
     source None"

lemma sample_bound_may:
  assumes "source = None \<or> source = Some 71"
  shows "authorize_action sample_env 5 sample_bound sample_user a None source None allow
     = Inr \<lparr>dec_action = a, dec_path = sample_bound_path source\<rparr>"
proof -
  have actions: "role_actions sample_bound sample_principal = all_actions"
    by (simp add: role_actions_def sample_bound_role)
  have grants: "relevant_grants sample_bound 5 sample_principal a None source = []"
    by (simp add: relevant_grants_def active_grants_def grant_of_def sample_bound_rows)
  have source: "check_source sample_bound sample_user source allow = Inr ()"
    using assms by (auto simp: check_source_def sample_bound_rows)
  have path: "decision_path sample_bound sample_user sample_principal a False None source None = sample_bound_path source"
    by (simp add: decision_path_def sample_bound_role every_action sample_bound_path_def)
  show ?thesis
    unfolding authorize_action_def sample_bound_principal
    by (simp add: check_credential_def credential_allows_def check_repository_def check_scope_def actions
        every_action grants path source Let_def)
qed

lemma sample_bound_audit:
  assumes "source = None \<or> source = Some 71"
  shows "audit_actor sample_user \<lparr>dec_action = a, dec_path = sample_bound_path source\<rparr>
     = Inr (sample_user\<lparr>actor_path := sample_bound_path source\<rparr>)"
proof -
  have dash: "45 \<in> set (uuid_str 10)" unfolding uuid_str_def Let_def by simp
  have id: "strip (uuid_str 10) \<noteq> []" unfolding strip_empty_iff
    using dash by (auto simp: is_space_def intro!: bexI [where x = 45])
  have path: "strip (sample_bound_path source) \<noteq> []" unfolding strip_empty_iff
    using assms by (auto simp: sample_bound_path_def decision_path_def sample_bound_role every_action is_space_def)
  have type: "strip (lit ''USER'') \<noteq> []" unfolding strip_empty_iff by (simp add: is_space_def)
  from id path type show ?thesis by (simp only: audit_actor_def check_actor_def sample_user_def) simp
qed

lemma sample_bound_tables [simp]:
  "scopes sample_bound = [sample_scope 60, sample_scope 62,
                (sample_scope 63)\<lparr>sc_is_derived := True, sc_derived_from := [62]\<rparr>]"
  "scope_sources sample_bound = [\<lparr>ln_org = 1, ln_scope = 62, ln_target = 71\<rparr>]"
  "sources sample_bound = [sample_source]" "audit_events sample_bound = []" "outbox_events sample_bound = []"
  "jobs sample_bound = []" "sync_runs sample_bound = []" "assurance_runs sample_bound = []"
  by (simp_all add: sample_bound_rows)

lemma sample_scope_simps [simp]:
  "sc_id (sample_scope i) = i" "sc_active (sample_scope i)" "sc_derived_from (sample_scope i) = []"
  "sc_org (sample_scope i) = 1"
  by (simp_all add: sample_scope_def)

lemma sample_dependent: "depends_on sample_bound 71 63"
proof -
  have "depends_on sample_bound 71 62"
    by (rule depends_on.bound [where l = "\<lparr>ln_org = 1, ln_scope = 62, ln_target = 71\<rparr>", simplified]) simp_all
  then show ?thesis
    by (rule depends_on.derived [where s = "(sample_scope 63)\<lparr>sc_is_derived := True, sc_derived_from := [62]\<rparr>", simplified]) simp_all
qed

lemma sample_revocation:
  "\<exists>s d'. revoke_source_connection sample_env sample_user 71 3 5 sample_bound = Inr (s, d')"
proof -
  have direct: "direct_scopes 71 sample_bound = [62]"
    by (simp add: direct_scopes_def sorted_set_def)
  have next1: "descendants sample_bound [62] = [63]" and next2: "descendants sample_bound [63] = []"
    by (simp_all add: descendants_def sorted_set_def)
  have propagated: "propagate MAX_DERIVED_SCOPE_DEPTH sample_bound [62] [62] = Inr [62, 63]"
  proof -
    obtain n where n: "MAX_DERIVED_SCOPE_DEPTH = Suc (Suc (Suc n))"
      by (rule that [of 29]) (simp add: MAX_DERIVED_SCOPE_DEPTH_def)
    show ?thesis
      unfolding n by (simp add: next1 next2 Let_def MAX_DERIVED_SCOPES_PER_REVOCATION_def)
  qed
  let ?d1 = "revoke_visibilities 1 71 5 (revoke_snapshots 71 5 (deactivate_scopes [62, 63] sample_bound))"
  have idle: "pending_ingestion_jobs 1 71 ?d1 = []" "active_sync_runs 1 71 ?d1 = []"
    by (simp_all add: pending_ingestion_jobs_def active_sync_runs_def revoke_visibilities_def
        revoke_snapshots_def deactivate_scopes_def)
  have source: "get_tenant_record_for_update source_table 71 1 sample_bound = Inr sample_source"
    by (simp add: get_tenant_record_for_update_def get_tenant_record_def sample_source_def)
  have rec: "\<exists>d4. record_transition sample_env 1 (sample_user\<lparr>actor_path := sample_bound_path (Some 71)\<rparr>)
      (lit ''sourceconnection'') 71 fs ts n [(lit ''invalidated_scope_count'', JInt (int (length [62, 63 :: nat])))]
      (save_row source_table r ?d1) = Inr d4" for fs ts n r
    by (rule exI, rule record_transition_ok)
      (simp_all add: ALLOWED_AUDIT_METADATA_KEYS_def actor_clean_def revoke_visibilities_def
        revoke_snapshots_def deactivate_scopes_def)
  have row: "src_org sample_source = 1" "src_state sample_source = SOURCE_ACTIVE"
    "src_revision sample_source = 3" "src_repository sample_source = None"
    by (simp_all add: sample_source_def)
  obtain d4 where d4: "record_transition sample_env 1 (sample_user\<lparr>actor_path := sample_bound_path (Some 71)\<rparr>)
      (lit ''sourceconnection'') 71 (source_state_value SOURCE_ACTIVE) (source_state_value SOURCE_REVOKED)
      (src_revision (sample_source\<lparr>src_state := SOURCE_REVOKED, src_revision := 3 + 1\<rparr>))
      [(lit ''invalidated_scope_count'', JInt (int (length [62, 63 :: nat])))]
      (save_row source_table (sample_source\<lparr>src_state := SOURCE_REVOKED, src_revision := 3 + 1\<rparr>) ?d1) = Inr d4"
    using rec by blast
  have "revoke_source_connection sample_env sample_user 71 3 5 sample_bound =
      Inr (sample_source\<lparr>src_state := SOURCE_REVOKED, src_revision := 3 + 1\<rparr>, d4)"
    by (simp only: revoke_source_connection_def sample_user_simps sample_bound_may bind_res_simps source row
        source_state.distinct if_False of_nat_numeral not_not simp_thms direct Let_def propagated sample_bound_audit
        idle fold_res.simps d4 option.case)
  then show ?thesis by blast
qed

lemma sample_derivation:
  "\<exists>s d'. derive_scope_intersection sample_env sample_user [60, 62] [] 5 64 sample_bound = Inr (s, d')"
proof -
  have ss: "source_scopes sample_user [60, 62] sample_bound = [sample_scope 60, sample_scope 62]"
    by (simp add: source_scopes_def)
  let ?s = "derived_scope 1 64 [] 5 [sample_scope 60, sample_scope 62] sample_bound"
  let ?d = "with_derived_scope 1 64 [] 5 [sample_scope 60, sample_scope 62] sample_bound"
  obtain d4 where d4: "record_transition sample_env 1 (sample_user\<lparr>actor_path := sample_bound_path None\<rparr>)
      (lit ''accessscope'') 64 [] (lit ''DERIVED'') (sc_revision ?s)
      [(lit ''source_scope_ids'', JList (map (\<lambda>s. JStr (uuid_str (sc_id s))) [sample_scope 60, sample_scope 62]))]
      ?d = Inr d4"
    using record_transition_ok [of sample_env
      "[(lit ''source_scope_ids'', JList (map (\<lambda>s. JStr (uuid_str (sc_id s))) [sample_scope 60, sample_scope 62]))]"
      "sample_user\<lparr>actor_path := sample_bound_path None\<rparr>" ?d 1 "lit ''accessscope''" 64 "sc_revision ?s"
      "[]" "lit ''DERIVED''"]
    by (auto simp: ALLOWED_AUDIT_METADATA_KEYS_def actor_clean_def with_derived_scope_def)
  have "derive_scope_intersection sample_env sample_user [60, 62] [] 5 64 sample_bound = Inr (?s, d4)"
    by (simp add: derive_scope_intersection_def sample_bound_may sample_bound_audit ss Let_def d4 [simplified])
  then show ?thesis by blast
qed

lemma stopped_within:
  "(\<exists>m<Suc (Suc j). newly m d sid = {}) \<longleftrightarrow> {x. depends_on d sid x} = reach j d sid"
proof
  assume "\<exists>m<Suc (Suc j). newly m d sid = {}"
  then obtain m where m: "m < Suc (Suc j)" "newly m d sid = {}" by blast
  have stop: "newly (Suc j) d sid = {}"
  proof (cases "m = Suc j")
    case False
    then have "m \<le> j" using m(1) by simp
    then show ?thesis by (rule newly_empty_later [OF m(2)])
  qed (use m(2) in simp)
  then have "reach (Suc j) d sid = reach j d sid" by (auto simp: newly_def)
  then show "{x. depends_on d sid x} = reach j d sid"
    using dependents_when_stopped [OF stop] by simp
next
  assume all: "{x. depends_on d sid x} = reach j d sid"
  have "reach (Suc j) d sid \<subseteq> {x. depends_on d sid x}" using reach_depends by blast
  then have "newly (Suc j) d sid = {}" unfolding all newly_def nat.case by blast
  then show "\<exists>m<Suc (Suc j). newly m d sid = {}" by (intro exI [where x = "Suc j"]) simp
qed

section \<open>Properties\<close>

text \<open>C7: A derived scope is the intersection it claims to be.  After \<^verbatim>\<open>derive_scope_intersection\<close>
  returned, the new scope opens to a principal and repository exactly when every one of the scopes
  named opens to them, revoked sources included; and the scopes that were there before open to
  exactly whom they opened to.\<close>

theorem derived_scope_is_the_intersection:
  assumes "distinct (map sc_id (scopes d))" "unused_scope_id fresh d"
    and "derive_scope_intersection env actor ids name now fresh d = Inr (sc, d')"
  shows "(scope_allows d' p sc repository False ir \<longleftrightarrow>
            (\<forall>s\<in>set (scopes d). sc_id s \<in> set ids \<longrightarrow> scope_allows d p s repository False ir))
     \<and> (\<forall>s\<in>set (scopes d). scope_allows d' p s repository ii ir \<longleftrightarrow> scope_allows d p s repository ii ir)"
proof -
  let ?ss = "source_scopes actor ids d"
  let ?d1 = "with_derived_scope (actor_org actor) fresh name now ?ss d"
  have all: "length ?ss = length (remdups ids)" and sc: "sc = derived_scope (actor_org actor) fresh name now ?ss d"
    and rec: "\<exists>a. record_transition env (actor_org actor) a (lit ''accessscope'') fresh []
                         (lit ''DERIVED'') (sc_revision sc)
                         [(lit ''source_scope_ids'', JList (map (\<lambda>s. JStr (uuid_str (sc_id s))) ?ss))] ?d1 = Inr d'"
    using assms(3) by (auto simp: derive_scope_intersection_def bind_res_Inr Let_def split: if_splits)
  from rec obtain a where r: "record_transition env (actor_org actor) a (lit ''accessscope'') fresh []
      (lit ''DERIVED'') (sc_revision sc)
      [(lit ''source_scope_ids'', JList (map (\<lambda>s. JStr (uuid_str (sc_id s))) ?ss))] ?d1 = Inr d'" ..
  have same: "scope_allows d' q s repo ii' ir' = scope_allows ?d1 q s repo ii' ir'" for q s repo ii' ir'
    unfolding scope_allows_def scope_includes_principal_def has_source_in_def record_transition_frame [OF r]
    by (rule refl)
  have members: "set ?ss = {s \<in> set (scopes d). sc_id s \<in> set ids}"
    by (rule source_scopes_all [OF assms(1) all])
  have "\<forall>s\<in>set ?ss. sc_active s" by (simp add: source_scopes_def)
  from derived_allows [OF assms(2) this]
  have "scope_allows d' p sc repository False ir \<longleftrightarrow> (\<forall>s\<in>set ?ss. scope_allows d p s repository False ir)"
    by (simp only: same sc)
  moreover have "scope_allows d' p s repository ii ir \<longleftrightarrow> scope_allows d p s repository ii ir"
    if "s \<in> set (scopes d)" for s
  proof -
    have "sc_id s \<noteq> fresh" using that assms(2) unfolding unused_scope_id_def by blast
    then show ?thesis unfolding same by (rule old_scope_allows)
  qed
  ultimately show ?thesis using members by auto
qed

theorem derived_scope_is_the_intersection_witness:
  "\<exists>s d'. derive_scope_intersection sample_env sample_user [60, 62] [] 5 64 sample_bound = Inr (s, d')
     \<and> scope_allows d' sample_principal s (Some 50) False False"
proof -
  obtain s d' where r: "derive_scope_intersection sample_env sample_user [60, 62] [] 5 64 sample_bound = Inr (s, d')"
    using sample_derivation by blast
  have "distinct (map sc_id (scopes sample_bound))" "unused_scope_id 64 sample_bound"
    by (simp_all add: unused_scope_id_def) (simp_all add: sample_bound_rows)
  note whole = derived_scope_is_the_intersection [OF this r, THEN conjunct1]
  have "scope_allows sample_bound sample_principal (sample_scope i) (Some 50) False False" for i
    by (simp add: scope_allows_def scope_includes_principal_def has_source_in_def)
      (simp add: sample_scope_def sample_source_def)
  then show ?thesis using r whole by auto
qed

text \<open>C31: The propagation of a revocation ends, and knows it.  It returns exactly when at most 2000
  scopes depend on the source, each of them at most 30 derivations away from a scope bound to it;
  then what it returns is every dependent scope, each once.  Otherwise it refuses with a
  \<^verbatim>\<open>ValueError\<close> rather than return a part.\<close>

theorem propagation_is_complete_or_refused:
  "(returns (propagate MAX_DERIVED_SCOPE_DEPTH d (direct_scopes sid d) (direct_scopes sid d)) \<longleftrightarrow>
      card {x. depends_on d sid x} \<le> 2000 \<and> {x. depends_on d sid x} = reach 30 d sid)
   \<and> (case propagate MAX_DERIVED_SCOPE_DEPTH d (direct_scopes sid d) (direct_scopes sid d) of
        Inr A \<Rightarrow> set A = {x. depends_on d sid x} \<and> distinct A
      | Inl e \<Rightarrow> \<exists>m. e = ValueError m)"
  (is "(returns ?r \<longleftrightarrow> _) \<and> _")
proof -
  have error: "propagate n d affected frontier = Inl e \<Longrightarrow> \<exists>m. e = ValueError m" for n affected frontier e
    by (induction n arbitrary: affected frontier) (auto simp: Let_def split: if_splits)
  have depth: "(\<exists>m<32. newly m d sid = {}) \<longleftrightarrow> {x. depends_on d sid x} = reach 30 d sid"
    using stopped_within [of 30 d sid] by simp
  have small: "length A \<le> MAX_DERIVED_SCOPES_PER_REVOCATION"
    if "propagate n d (direct_scopes sid d) (direct_scopes sid d) = Inr A" for n A
    using propagate_Inr [OF that first_round] by (auto split: if_splits)
  show ?thesis
  proof (cases ?r)
    case (Inl e)
    have "\<not> (card {x. depends_on d sid x} \<le> 2000 \<and> {x. depends_on d sid x} = reach 30 d sid)"
    proof
      assume bound: "card {x. depends_on d sid x} \<le> 2000 \<and> {x. depends_on d sid x} = reach 30 d sid"
      then obtain m where "m < 32" "newly m d sid = {}" using depth by blast
      then have "\<exists>A. ?r = Inr A"
        using bound [THEN conjunct1] by (intro propagate_returns [OF first_round, of m])
          (simp_all add: MAX_DERIVED_SCOPE_DEPTH_def MAX_DERIVED_SCOPES_PER_REVOCATION_def)
      then show False using Inl by simp
    qed
    then show ?thesis using Inl error [OF Inl] by (simp add: returns_def)
  next
    case (Inr A)
    note done' = propagate_Inr [OF Inr first_round]
    have "card {x. depends_on d sid x} = length A" using done' distinct_card by metis
    moreover have "\<exists>m<32. newly m d sid = {}" using done' by (simp add: MAX_DERIVED_SCOPE_DEPTH_def)
    ultimately show ?thesis
      using Inr done' depth small [OF Inr] by (simp add: returns_def MAX_DERIVED_SCOPES_PER_REVOCATION_def)
  qed
qed

text \<open>C2: A revoked source opens nothing.  After \<^verbatim>\<open>revoke_source_connection\<close> returned for a source
  that was not yet revoked, no actor is ever again allowed anything through a scope that depends on
  the source, directly or through scopes derived from scopes, nor on the source itself; every scope
  that does not depend on it is as it was.\<close>

theorem revoked_source_opens_nothing:
  assumes "access_keys d" "distinct (map run_id (assurance_runs d))"
    and "\<exists>s\<in>set (sources d). src_id s = sid \<and> src_state s \<noteq> SOURCE_REVOKED"
    and "revoke_source_connection env actor sid rv now d = Inr (source', d')"
  shows "(\<forall>x. depends_on d sid x \<longrightarrow>
            \<not> returns (authorize_action env' now' d' actor' a repository source (Some x) allow))
     \<and> \<not> returns (authorize_action env' now' d' actor' a repository (Some sid) scope False)
     \<and> (\<forall>s\<in>set (scopes d). \<not> depends_on d sid (sc_id s) \<longrightarrow> s \<in> set (scopes d'))"
proof -
  note after = revocation_state [OF assms]
  have "check_scope d' actor' q repository (Some x) \<noteq> Inr ()" if "depends_on d sid x" for q x
    using that after(1) unfolding check_scope_Inr [OF after(3)] by (auto simp: scope_allows_def)
  moreover have "check_source d' actor' (Some sid) False \<noteq> Inr ()"
    using after(5) unfolding check_source_Inr [OF after(4)] by auto
  ultimately show ?thesis
    using after(2) unfolding returns_iff authorize_action_Inr by blast
qed

theorem revoked_source_opens_nothing_witness:
  "\<exists>s d'. revoke_source_connection sample_env sample_user 71 3 5 sample_bound = Inr (s, d')
     \<and> depends_on sample_bound 71 63
     \<and> returns (authorize_action sample_env 5 sample_bound sample_user SEARCH None (Some 71) None False)
     \<and> \<not> returns (authorize_action sample_env 6 d' sample_user SEARCH None (Some 71) None False)
     \<and> \<not> returns (authorize_action sample_env 6 d' sample_user SEARCH (Some 50) None (Some 63) False)"
proof -
  obtain s d' where r: "revoke_source_connection sample_env sample_user 71 3 5 sample_bound = Inr (s, d')"
    using sample_revocation by blast
  have live: "\<exists>s\<in>set (sources sample_bound). src_id s = 71 \<and> src_state s \<noteq> SOURCE_REVOKED"
    by (simp add: sample_source_def)
  note dead = revoked_source_opens_nothing [OF sample_bound_keys live r, of sample_env 6 sample_user SEARCH]
  show ?thesis
    using r sample_dependent dead [of None "Some 71" False None] dead [of "Some 50" None False None]
    by (auto simp: sample_bound_may returns_def)
qed

text \<open>C30: What a revocation stops.  Once
  \<^verbatim>\<open>revoke_source_connection\<close> returned for a live source, no snapshot of the source is unrevoked, no
  chunk captured under one is available in the tenant, no ingestion job of it is still \<open>PENDING\<close>, no sync run of
  it is active, and no context packet of its repository is valid; it takes the revision the caller
  saw, and the source's own revision moves on by one.  An ingestion job that a worker already holds
  (\<open>RUNNING\<close>) is not touched by the revocation and is not part of the claim: its sync run is cancelled under it.\<close>

theorem revocation_stops_the_source:
  assumes "access_keys d" "distinct (map run_id (assurance_runs d))"
    and "\<exists>s\<in>set (sources d). src_id s = sid \<and> src_state s \<noteq> SOURCE_REVOKED"
    and "revoke_source_connection env actor sid rv now d = Inr (source', d')"
  shows "(\<forall>s\<in>set (snapshots d'). snap_source s = sid \<longrightarrow> snap_revoked_at s \<noteq> None)
     \<and> (\<forall>v\<in>set (visibilities d'). vis_org v = actor_org actor \<and> of_source d' sid v \<longrightarrow> vis_state v \<noteq> VIS_AVAILABLE)
     \<and> pending_ingestion_jobs (actor_org actor) sid d' = []
     \<and> active_sync_runs (actor_org actor) sid d' = []
     \<and> (\<forall>p r. src_repository source' = Some r \<and> packet_valid d' p \<longrightarrow>
           \<not> (pk_org p = actor_org actor \<and> pk_repository p = r))
     \<and> source' \<in> set (sources d') \<and> src_state source' = SOURCE_REVOKED
     \<and> int (src_revision source') = rv + 1"
  using revocation_stops [OF assms] by blast

theorem revocation_stops_the_source_witness:
  "\<exists>s d'. revoke_source_connection sample_env sample_user 71 3 5 sample_bound = Inr (s, d')
     \<and> src_revision s = 4 \<and> list_all (\<lambda>x. snap_source x = 71 \<longrightarrow> snap_revoked_at x \<noteq> None) (snapshots d')
     \<and> snapshots sample_bound = [sample_snapshot_row] \<and> snap_revoked_at sample_snapshot_row = None"
proof -
  obtain s d' where r: "revoke_source_connection sample_env sample_user 71 3 5 sample_bound = Inr (s, d')"
    using sample_revocation by blast
  have live: "\<exists>s\<in>set (sources sample_bound). src_id s = 71 \<and> src_state s \<noteq> SOURCE_REVOKED"
    by (simp add: sample_source_def)
  from r revocation_stops_the_source [OF sample_bound_keys live r] show ?thesis
    by (auto simp: list_all_iff sample_bound_rows)
qed

end
