(* ===== verification/Retrieval.thy ===== *)
theory Retrieval
  imports Authorization "HOL-Library.Product_Lexorder"
begin

text \<open>
  Permission-filtered retrieval (\<^verbatim>\<open>src/anva/core/services/retrieval.py\<close>).  A queryset is the list of
  the rows it selects; a condition that spans a reverse foreign key asks for one related row that
  meets all of it, as one \<^verbatim>\<open>filter(...)\<close> call does, and a comparison with NULL is false.
\<close>

section \<open>Related rows\<close>

definition snapshot_live :: "db \<Rightarrow> uuid \<Rightarrow> bool" where
  "snapshot_live d sid \<longleftrightarrow> list_ex (\<lambda>s. snap_id s = sid \<and> snap_revoked_at s = None) (snapshots d)"

definition same_value :: "uuid option \<Rightarrow> uuid option \<Rightarrow> bool" where
  "same_value a b \<longleftrightarrow> a \<noteq> None \<and> a = b"

text \<open>The observation's document is present and the observation saw its current revision.\<close>

definition observation_current :: "db \<Rightarrow> source_observation \<Rightarrow> source_document \<Rightarrow> bool" where
  "observation_current d ob dc \<longleftrightarrow>
     doc_state dc = DOC_PRESENT \<and> same_value (obs_revision ob) (doc_current_revision dc)"

definition current_observation :: "db \<Rightarrow> uuid \<Rightarrow> bool" where
  "current_observation d oid \<longleftrightarrow>
     list_ex (\<lambda>ob. obs_id ob = oid
       \<and> list_ex (\<lambda>dc. doc_id dc = obs_document ob \<and> observation_current d ob dc) (documents d))
       (observations d)"

text \<open>And it was seen by the document's latest sync run.\<close>

definition latest_observation :: "db \<Rightarrow> uuid \<Rightarrow> bool" where
  "latest_observation d oid \<longleftrightarrow>
     list_ex (\<lambda>ob. obs_id ob = oid
       \<and> list_ex (\<lambda>dc. doc_id dc = obs_document ob \<and> observation_current d ob dc
                      \<and> doc_last_seen_run dc = Some (obs_sync_run ob)) (documents d))
       (observations d)"

section \<open>Visible scopes\<close>

definition scope_visible :: "db \<Rightarrow> actor_context \<Rightarrow> principal \<Rightarrow> uuid \<Rightarrow> access_scope \<Rightarrow> bool" where
  "scope_visible d actor p repository s \<longleftrightarrow>
     sc_org s = actor_org actor \<and> sc_active s
     \<and> (sc_all_repositories s \<or> linked s repository (scope_repositories d))
     \<and> \<not> has_source_in d [SOURCE_REVOKED, SOURCE_DISABLED] s
     \<and> scope_includes_principal d p s"

definition visible_scope_ids :: "db \<Rightarrow> actor_context \<Rightarrow> uuid \<Rightarrow> access_scope list result" where
  "visible_scope_ids d actor repository =
     bind_res (resolve_principal d actor) (\<lambda>p.
       Inr (filter (scope_visible d actor p repository) (scopes d)))"

definition authorized_scope_ids ::
  "environment \<Rightarrow> instant \<Rightarrow> db \<Rightarrow> actor_context \<Rightarrow> uuid \<Rightarrow> action \<Rightarrow> uuid list result"
where
  "authorized_scope_ids env now d actor repository a =
     bind_res (authorize_action env now d actor a (Some repository) None None False) (\<lambda>_.
     bind_res (visible_scope_ids d actor repository) (\<lambda>ss.
       Inr (map sc_id (sort_key sc_id ss))))"

text \<open>The scopes a queryset is restricted to, once the action is authorized.\<close>

definition authorized_scopes ::
  "environment \<Rightarrow> instant \<Rightarrow> db \<Rightarrow> actor_context \<Rightarrow> uuid \<Rightarrow> action \<Rightarrow> uuid list result"
where
  "authorized_scopes env now d actor repository a =
     bind_res (authorize_action env now d actor a (Some repository) None None False) (\<lambda>_.
     bind_res (visible_scope_ids d actor repository) (\<lambda>ss. Inr (map sc_id ss)))"

section \<open>Assertions\<close>

text \<open>
  Either no provenance row at all, or some provenance row with a live snapshot and some validity
  interval that is still open over the current revision of a present document: two joins of one
  filter, so the two rows need not be about the same source.
\<close>

definition interval_current :: "db \<Rightarrow> validity_interval \<Rightarrow> bool" where
  "interval_current d i \<longleftrightarrow>
     vi_valid_until i = None
     \<and> list_ex (\<lambda>dc. doc_id dc = vi_document i \<and> doc_state dc = DOC_PRESENT
          \<and> list_ex (\<lambda>ob. obs_id ob = vi_observation i
                \<and> same_value (obs_revision ob) (doc_current_revision dc)) (observations d))
          (documents d)"

definition assertion_supported :: "db \<Rightarrow> knowledge_assertion \<Rightarrow> bool" where
  "assertion_supported d a \<longleftrightarrow>
     \<not> list_ex (\<lambda>p. ap_assertion p = as_id a) (provenances d)
     \<or> list_ex (\<lambda>p. ap_assertion p = as_id a \<and> snapshot_live d (ap_snapshot p)) (provenances d)
       \<and> list_ex (\<lambda>i. vi_assertion i = as_id a \<and> interval_current d i) (intervals d)"

definition authorized_assertions ::
  "environment \<Rightarrow> instant \<Rightarrow> db \<Rightarrow> actor_context \<Rightarrow> uuid \<Rightarrow> action \<Rightarrow> knowledge_assertion list result"
where
  "authorized_assertions env now d actor repository a =
     bind_res (authorized_scopes env now d actor repository a) (\<lambda>ids.
       Inr (filter (\<lambda>x. as_org x = actor_org actor
                      \<and> (case as_access_scope x of None \<Rightarrow> False | Some s \<Rightarrow> s \<in> set ids)
                      \<and> as_valid_until x = None \<and> assertion_supported d x) (assertions d)))"

section \<open>Source chunks\<close>

definition visibility_current :: "db \<Rightarrow> uuid list \<Rightarrow> chunk_visibility \<Rightarrow> bool" where
  "visibility_current d ids v \<longleftrightarrow>
     vis_scope v \<in> set ids \<and> vis_state v = VIS_AVAILABLE \<and> snapshot_live d (vis_snapshot v)
     \<and> latest_observation d (vis_observation v)"

definition authorized_source_chunks ::
  "environment \<Rightarrow> instant \<Rightarrow> db \<Rightarrow> actor_context \<Rightarrow> uuid \<Rightarrow> source_chunk list result"
where
  "authorized_source_chunks env now d actor repository =
     bind_res (authorized_scopes env now d actor repository SEARCH) (\<lambda>ids.
       Inr (filter (\<lambda>c. chk_org c = actor_org actor
                      \<and> list_ex (\<lambda>v. vis_chunk v = chk_id c \<and> visibility_current d ids v)
                          (visibilities d)) (chunks d)))"

section \<open>Relationships and entities\<close>

definition relationship_current :: "db \<Rightarrow> knowledge_relationship \<Rightarrow> bool" where
  "relationship_current d r \<longleftrightarrow>
     snapshot_live d (rel_snapshot r)
     \<and> list_ex (\<lambda>x. as_id x = rel_assertion r \<and> as_valid_until x = None) (assertions d)
     \<and> current_observation d (rel_observation r)"

definition authorized_relationships ::
  "environment \<Rightarrow> instant \<Rightarrow> db \<Rightarrow> actor_context \<Rightarrow> uuid \<Rightarrow> knowledge_relationship list result"
where
  "authorized_relationships env now d actor repository =
     bind_res (authorized_scopes env now d actor repository KNOWLEDGE_VIEW) (\<lambda>ids.
       Inr (filter (\<lambda>r. rel_org r = actor_org actor \<and> rel_access_scope r \<in> set ids
                      \<and> relationship_current d r) (relationships d)))"

definition authorized_entities ::
  "environment \<Rightarrow> instant \<Rightarrow> db \<Rightarrow> actor_context \<Rightarrow> uuid \<Rightarrow> action \<Rightarrow> knowledge_entity list result"
where
  "authorized_entities env now d actor repository a =
     bind_res (authorized_scopes env now d actor repository a) (\<lambda>ids.
       Inr (filter (\<lambda>e. ent_org e = actor_org actor \<and> ent_access_scope e \<in> set ids
                      \<and> ent_active e) (entities d)))"

text \<open>\<^verbatim>\<open>.filter(id=...).first()\<close>, with \<open>None\<close> raised as not found.\<close>

definition pick :: "('r \<Rightarrow> uuid) \<Rightarrow> uuid \<Rightarrow> 'r list \<Rightarrow> 'r result" where
  "pick key i rows =
     (case first_by key (filter (\<lambda>r. key r = i) rows) of
        None \<Rightarrow> Inl ResourceNotFoundError
      | Some r \<Rightarrow> Inr r)"

definition get_authorized_entity ::
  "environment \<Rightarrow> instant \<Rightarrow> db \<Rightarrow> actor_context \<Rightarrow> uuid \<Rightarrow> uuid \<Rightarrow> knowledge_entity result"
where
  "get_authorized_entity env now d actor repository entity_id =
     bind_res (authorized_entities env now d actor repository KNOWLEDGE_VIEW) (pick ent_id entity_id)"

section \<open>Excerpts\<close>

record source_excerpt =
  ex_chunk :: uuid
  ex_text :: pystr
  ex_content_hash :: pystr
  ex_pointer :: pystr
  ex_canonical_url :: pystr
  ex_location :: uuid
  ex_observation :: uuid
  ex_snapshot :: uuid
  ex_observed_at :: instant

text \<open>The related rows of a foreign key always exist; the texts of a dangling one would be empty.\<close>

definition location_pointer :: "db \<Rightarrow> uuid \<Rightarrow> pystr" where
  "location_pointer d lid =
     (case find_by (\<lambda>l. loc_id l = lid) (locations d) of None \<Rightarrow> [] | Some l \<Rightarrow> loc_pointer l)"

definition document_url :: "db \<Rightarrow> uuid \<Rightarrow> pystr" where
  "document_url d oid =
     (case find_by (\<lambda>ob. obs_id ob = oid) (observations d) of
        None \<Rightarrow> []
      | Some ob \<Rightarrow>
          (case find_by (\<lambda>dc. doc_id dc = obs_document ob) (documents d) of
             None \<Rightarrow> []
           | Some dc \<Rightarrow> doc_canonical_url dc))"

definition excerpt_visibilities ::
  "db \<Rightarrow> actor_context \<Rightarrow> uuid list \<Rightarrow> uuid \<Rightarrow> chunk_visibility list"
where
  "excerpt_visibilities d actor ids chunk_id =
     filter (\<lambda>v. vis_org v = actor_org actor \<and> vis_chunk v = chunk_id \<and> visibility_current d ids v
               \<and> vis_revoked_at v = None) (visibilities d)"

definition get_authorized_source_excerpt ::
  "environment \<Rightarrow> instant \<Rightarrow> db \<Rightarrow> actor_context \<Rightarrow> uuid \<Rightarrow> uuid \<Rightarrow> source_excerpt result"
where
  "get_authorized_source_excerpt env now d actor repository chunk_id =
     bind_res (bind_res (authorized_source_chunks env now d actor repository) (pick chk_id chunk_id))
       (\<lambda>c.
     bind_res (visible_scope_ids d actor repository) (\<lambda>ss.
       case first_by (\<lambda>v. (vis_observed_at v, int (vis_id v)))
              (excerpt_visibilities d actor (map sc_id ss) (chk_id c)) of
         None \<Rightarrow> Inl ResourceNotFoundError
       | Some v \<Rightarrow>
           Inr \<lparr>ex_chunk = chk_id c, ex_text = chk_text c, ex_content_hash = chk_content_hash c,
                ex_pointer = location_pointer d (vis_location v),
                ex_canonical_url = document_url d (vis_observation v),
                ex_location = vis_location v, ex_observation = vis_observation v,
                ex_snapshot = vis_snapshot v, ex_observed_at = vis_observed_at v\<rparr>))"

section \<open>Single assertions, search and artifacts\<close>

definition get_authorized_assertion ::
  "environment \<Rightarrow> instant \<Rightarrow> db \<Rightarrow> actor_context \<Rightarrow> uuid \<Rightarrow> uuid \<Rightarrow> action \<Rightarrow> knowledge_assertion result"
where
  "get_authorized_assertion env now d actor repository assertion_id a =
     bind_res (authorized_assertions env now d actor repository a) (pick as_id assertion_id)"

definition search_assertions ::
  "environment \<Rightarrow> instant \<Rightarrow> db \<Rightarrow> actor_context \<Rightarrow> uuid \<Rightarrow> pystr \<Rightarrow> knowledge_assertion list result"
where
  "search_assertions env now d actor repository query =
     (if strip query = [] \<or> length query > 500
      then Inl (ValueError ''query must contain between 1 and 500 characters'')
      else
        bind_res (authorized_assertions env now d actor repository SEARCH) (\<lambda>rows.
          Inr (take 50 (sort_key as_created_at
                 (filter (\<lambda>x. env_icontains env (as_subject_key x) query
                            \<or> env_icontains env (as_predicate x) query) rows)))))"

definition get_authorized_artifact ::
  "environment \<Rightarrow> instant \<Rightarrow> db \<Rightarrow> actor_context \<Rightarrow> uuid \<Rightarrow> uuid \<Rightarrow> action \<Rightarrow> immutable_artifact result"
where
  "get_authorized_artifact env now d actor repository artifact_id a =
     bind_res (authorized_scopes env now d actor repository a) (\<lambda>ids.
       pick art_id artifact_id
         (filter (\<lambda>x. art_org x = actor_org actor \<and> art_access_scope x \<in> Some ` set ids) (artifacts d)))"

end
