(* ===== verification/RetrievalClaims.thy ===== *)
theory RetrievalClaims
  imports ScopeClaims Retrieval AuthorizationSafety
begin

text \<open>
  Retrieval never shows what the single decision would refuse, and nothing of a revoked source.
\<close>

section \<open>What the queries return\<close>

text \<open>What the scopes of a queryset guarantee, and what a row selected through them has.\<close>

lemma scope_visible_open:
  assumes "scope_visible d actor p repository s"
  shows "scope_allows d p s (Some repository) False False"
  using assms by (auto simp: scope_visible_def scope_allows_def has_source_in_def list_ex_iff)

lemma authorized_scopes_may_act:
  assumes "access_keys d" "authorized_scopes env now d actor repository a = Inr ids" "sid \<in> set ids"
  shows "returns (authorize_action env now d actor a (Some repository) None (Some sid) False)"
proof -
  from assms(2) have r: "returns (authorize_action env now d actor a (Some repository) None None False)"
    by (auto simp: authorized_scopes_def bind_res_Inr returns_iff)
  from assms(2) obtain p where p: "resolve_principal d actor = Inr p"
    and ids: "ids = map sc_id (filter (scope_visible d actor p repository) (scopes d))"
    by (auto simp: authorized_scopes_def visible_scope_ids_def bind_res_Inr)
  from ids assms(3) obtain s where s: "s \<in> set (scopes d)" "sc_id s = sid" "scope_visible d actor p repository s"
    by auto
  have "acts_as d actor p" by (rule resolved_acts_as [OF p])
  obtain q where q: "may_act env now d actor q a (Some repository) None None False"
    using r authorize_action_may_act [OF assms(1)] by blast
  have "resolve_principal d actor = Inr q"
    using q acts_as_resolved [OF assms(1)] by (simp add: may_act_def)
  with p have "q = p" by simp
  moreover have "scope_open d p s (Some repository)" "sc_org s = actor_org actor"
    using scope_visible_open [OF s(3)] s(3) by (simp_all add: scope_allows_open scope_visible_def)
  ultimately have "may_act env now d actor p a (Some repository) None (Some sid) False"
    using q s(1,2) unfolding may_act_def by blast
  then show ?thesis using authorize_action_may_act [OF assms(1)] by blast
qed

text \<open>A visible scope has no source that is revoked or disabled.\<close>

lemma authorized_scopes_live:
  assumes "authorized_scopes env now d actor repository a = Inr ids" "sid \<in> set ids"
  shows "\<exists>s\<in>set (scopes d). sc_id s = sid \<and> sc_org s = actor_org actor \<and> sc_active s
           \<and> \<not> has_source_in d [SOURCE_REVOKED, SOURCE_DISABLED] s"
  using assms by (auto simp: authorized_scopes_def visible_scope_ids_def bind_res_Inr scope_visible_def)

lemma pick_Inr: "pick key i rows = Inr r \<Longrightarrow> r \<in> set rows \<and> key r = i"
  unfolding pick_def by (auto split: option.splits dest!: first_by_Some)

lemma assertions_Inr:
  assumes "authorized_assertions env now d actor repository a = Inr rows" "x \<in> set rows"
  obtains ids s where "authorized_scopes env now d actor repository a = Inr ids" "s \<in> set ids"
    "as_access_scope x = Some s" "as_org x = actor_org actor" "as_valid_until x = None" "assertion_supported d x"
  using assms by (auto simp: authorized_assertions_def bind_res_Inr split: option.splits)

lemma chunks_Inr:
  assumes "authorized_source_chunks env now d actor repository = Inr rows" "c \<in> set rows"
  obtains ids v where "authorized_scopes env now d actor repository SEARCH = Inr ids" "vis_scope v \<in> set ids"
    "v \<in> set (visibilities d)" "vis_chunk v = chk_id c" "visibility_current d ids v" "chk_org c = actor_org actor"
  using assms by (auto simp: authorized_source_chunks_def bind_res_Inr list_ex_iff visibility_current_def)

lemma relationships_Inr:
  assumes "authorized_relationships env now d actor repository = Inr rows" "x \<in> set rows"
  obtains ids where "authorized_scopes env now d actor repository KNOWLEDGE_VIEW = Inr ids"
    "rel_access_scope x \<in> set ids" "rel_org x = actor_org actor" "relationship_current d x"
  using assms by (auto simp: authorized_relationships_def bind_res_Inr)

lemma entities_Inr:
  assumes "authorized_entities env now d actor repository a = Inr rows" "x \<in> set rows"
  obtains ids where "authorized_scopes env now d actor repository a = Inr ids"
    "ent_access_scope x \<in> set ids" "ent_org x = actor_org actor" "ent_active x"
  using assms by (auto simp: authorized_entities_def bind_res_Inr)

lemma artifact_Inr:
  assumes "get_authorized_artifact env now d actor repository i a = Inr x"
  obtains ids s where "authorized_scopes env now d actor repository a = Inr ids"
    "art_access_scope x = Some s" "s \<in> set ids" "art_org x = actor_org actor" "art_id x = i" "x \<in> set (artifacts d)"
  using assms by (auto simp: get_authorized_artifact_def bind_res_Inr dest!: pick_Inr)

lemma excerpt_Inr:
  assumes "get_authorized_source_excerpt env now d actor repository i = Inr e"
  obtains c rows v ids where "authorized_source_chunks env now d actor repository = Inr rows" "c \<in> set rows"
    "chk_id c = i" "authorized_scopes env now d actor repository SEARCH = Inr ids"
    "v \<in> set (visibilities d)" "visibility_current d ids v" "vis_chunk v = i" "vis_org v = actor_org actor"
    "ex_chunk e = i" "ex_text e = chk_text c" "ex_snapshot e = vis_snapshot v" "ex_observation e = vis_observation v"
proof -
  from assms obtain rows c ss v where rows: "authorized_source_chunks env now d actor repository = Inr rows"
    and c: "pick chk_id i rows = Inr c" and ss: "visible_scope_ids d actor repository = Inr ss"
    and v: "first_by (\<lambda>v. (vis_observed_at v, int (vis_id v)))
              (excerpt_visibilities d actor (map sc_id ss) (chk_id c)) = Some v"
    and e: "e = \<lparr>ex_chunk = chk_id c, ex_text = chk_text c, ex_content_hash = chk_content_hash c,
                ex_pointer = location_pointer d (vis_location v),
                ex_canonical_url = document_url d (vis_observation v),
                ex_location = vis_location v, ex_observation = vis_observation v,
                ex_snapshot = vis_snapshot v, ex_observed_at = vis_observed_at v\<rparr>"
    unfolding get_authorized_source_excerpt_def bind_res_Inr
    by (auto split: option.splits simp del: first_by_None)
  have ids: "authorized_scopes env now d actor repository SEARCH = Inr (map sc_id ss)"
    using rows ss by (auto simp: authorized_source_chunks_def authorized_scopes_def bind_res_Inr)
  have "v \<in> set (excerpt_visibilities d actor (map sc_id ss) (chk_id c))" using first_by_Some [OF v] by simp
  with that [OF rows _ _ ids, of c v] pick_Inr [OF c] e show thesis
    by (simp add: excerpt_visibilities_def)
qed

section \<open>Sample deployment\<close>

text \<open>The deployment of the authorization samples with an entity in its open scope (60).\<close>

definition sample_entity :: knowledge_entity where
  "sample_entity = \<lparr>ent_id = 140, ent_org = 1, ent_access_scope = 60, ent_active = True, ent_type = lit ''SERVICE''\<rparr>"

definition sample_library :: db where
  "sample_library = sample_access\<lparr>
     entities := [sample_entity, sample_entity\<lparr>ent_id := 141, ent_access_scope := 61\<rparr>]\<rparr>"

lemma sample_library_keys: "access_keys sample_library"
  using sample_access_keys by (simp add: access_keys_def sample_library_def)

lemma sample_library_principal: "resolve_principal sample_library sample_user = Inr sample_principal"
  by (simp add: sample_principal_def resolve_principal_def sample_library_def sample_access_rows
      organization_active_def user_is_active_def first_by_def)

lemma sample_library_view:
  "\<exists>dec. authorize_action env 5 sample_library sample_user KNOWLEDGE_VIEW (Some 50) None None False = Inr dec"
  unfolding authorize_action_def sample_library_principal
  by (simp add: check_credential_def credential_allows_def check_repository_def check_source_def
      check_scope_def role_actions_def membership_role_def sample_library_def sample_access_rows Let_def
      VIEW_ACTIONS_def)

lemma sample_library_entities:
  "authorized_entities sample_env 5 sample_library sample_user 50 KNOWLEDGE_VIEW = Inr [sample_entity]"
proof -
  obtain dec where "authorize_action sample_env 5 sample_library sample_user KNOWLEDGE_VIEW (Some 50) None None False
      = Inr dec" using sample_library_view by blast
  moreover have "scope_visible sample_library sample_user sample_principal 50 (sample_scope 60)"
    "\<not> scope_visible sample_library sample_user sample_principal 50 (sample_scope 61)"
    by (simp_all add: scope_visible_def has_source_in_def scope_includes_principal_def)
      (simp_all add: sample_library_def sample_access_rows)
  moreover have "scopes sample_library = [sample_scope 60, sample_scope 61]"
    "entities sample_library = [sample_entity, sample_entity\<lparr>ent_id := 141, ent_access_scope := 61\<rparr>]"
    by (simp_all add: sample_library_def sample_access_def)
  ultimately show ?thesis
    by (simp add: authorized_entities_def authorized_scopes_def visible_scope_ids_def sample_library_principal)
      (simp add: sample_entity_def)
qed

section \<open>Properties\<close>

text \<open>C11: Retrieval shows only what the single decision opens.  Whatever an actor is given (an assertion,
  a chunk of source text, a relationship, an entity, an artifact) is a row of the actor's own tenant
  that lies in a scope for which \<^verbatim>\<open>authorize_action\<close>, asked for the same action, repository and that
  very scope at the same instant, says yes; a chunk, moreover, was captured under a snapshot that is
  not revoked.\<close>

theorem retrieved_rows_are_authorized:
  assumes "access_keys d"
  shows "(\<forall>rows x. authorized_assertions env now d actor r a = Inr rows \<and> x \<in> set rows \<longrightarrow>
            as_org x = actor_org actor \<and> (\<exists>s. as_access_scope x = Some s
              \<and> returns (authorize_action env now d actor a (Some r) None (Some s) False)))
     \<and> (\<forall>rows x. authorized_source_chunks env now d actor r = Inr rows \<and> x \<in> set rows \<longrightarrow>
            chk_org x = actor_org actor \<and> (\<exists>v\<in>set (visibilities d). vis_chunk v = chk_id x
              \<and> snapshot_live d (vis_snapshot v)
              \<and> returns (authorize_action env now d actor SEARCH (Some r) None (Some (vis_scope v)) False)))
     \<and> (\<forall>rows x. authorized_relationships env now d actor r = Inr rows \<and> x \<in> set rows \<longrightarrow>
            rel_org x = actor_org actor
            \<and> returns (authorize_action env now d actor KNOWLEDGE_VIEW (Some r) None (Some (rel_access_scope x)) False))
     \<and> (\<forall>rows x. authorized_entities env now d actor r a = Inr rows \<and> x \<in> set rows \<longrightarrow>
            ent_org x = actor_org actor
            \<and> returns (authorize_action env now d actor a (Some r) None (Some (ent_access_scope x)) False))
     \<and> (\<forall>i x. get_authorized_artifact env now d actor r i a = Inr x \<longrightarrow>
            art_org x = actor_org actor \<and> (\<exists>s. art_access_scope x = Some s
              \<and> returns (authorize_action env now d actor a (Some r) None (Some s) False)))"
proof -
  note may = authorized_scopes_may_act [OF assms]
  have "as_org x = actor_org actor \<and> (\<exists>s. as_access_scope x = Some s
      \<and> returns (authorize_action env now d actor a (Some r) None (Some s) False))"
    if "authorized_assertions env now d actor r a = Inr rows" "x \<in> set rows" for rows x
    using that by (auto elim!: assertions_Inr dest: may)
  moreover have "chk_org x = actor_org actor \<and> (\<exists>v\<in>set (visibilities d). vis_chunk v = chk_id x
      \<and> snapshot_live d (vis_snapshot v)
      \<and> returns (authorize_action env now d actor SEARCH (Some r) None (Some (vis_scope v)) False))"
    if "authorized_source_chunks env now d actor r = Inr rows" "x \<in> set rows" for rows x
    using that by (rule chunks_Inr) (auto intro: may simp: visibility_current_def)
  moreover have "rel_org x = actor_org actor
      \<and> returns (authorize_action env now d actor KNOWLEDGE_VIEW (Some r) None (Some (rel_access_scope x)) False)"
    if "authorized_relationships env now d actor r = Inr rows" "x \<in> set rows" for rows x
    using that by (auto elim!: relationships_Inr intro: may)
  moreover have "ent_org x = actor_org actor
      \<and> returns (authorize_action env now d actor a (Some r) None (Some (ent_access_scope x)) False)"
    if "authorized_entities env now d actor r a = Inr rows" "x \<in> set rows" for rows x
    using that by (auto elim!: entities_Inr intro: may)
  moreover have "art_org x = actor_org actor \<and> (\<exists>s. art_access_scope x = Some s
      \<and> returns (authorize_action env now d actor a (Some r) None (Some s) False))"
    if "get_authorized_artifact env now d actor r i a = Inr x" for i x
    using that by (auto elim!: artifact_Inr intro: may)
  ultimately show ?thesis by blast
qed

theorem retrieved_rows_are_authorized_witness:
  "authorized_entities sample_env 5 sample_library sample_user 50 KNOWLEDGE_VIEW = Inr [sample_entity]
   \<and> returns (authorize_action sample_env 5 sample_library sample_user KNOWLEDGE_VIEW (Some 50) None
       (Some (ent_access_scope sample_entity)) False)"
  using retrieved_rows_are_authorized [OF sample_library_keys, of sample_env 5 sample_user 50 KNOWLEDGE_VIEW]
    sample_library_entities by simp

text \<open>C10: Nothing of a revoked source is retrieved.  After \<^verbatim>\<open>revoke_source_connection\<close> returned for a
  live source, no later query of any actor runs over a scope that depends on the source; a chunk is
  listed only for a visibility captured from another source; and the excerpt that is shown is never
  one captured from the revoked source.\<close>

theorem revoked_source_is_never_retrieved:
  assumes "access_keys d" "distinct (map run_id (assurance_runs d))"
    and "\<exists>s\<in>set (sources d). src_id s = sid \<and> src_state s \<noteq> SOURCE_REVOKED"
    and "revoke_source_connection env actor sid rv now d = Inr (source', d')"
  shows "(\<forall>ids x. authorized_scopes env' now' d' actor' r a = Inr ids \<and> depends_on d sid x \<longrightarrow> x \<notin> set ids)
     \<and> (\<forall>rows c. authorized_source_chunks env' now' d' actor' r = Inr rows \<and> c \<in> set rows \<longrightarrow>
          (\<exists>v\<in>set (visibilities d'). vis_chunk v = chk_id c \<and> snapshot_live d' (vis_snapshot v)
             \<and> (\<exists>s\<in>set (snapshots d'). snap_id s = vis_snapshot v \<and> snap_source s \<noteq> sid)))
     \<and> (\<forall>i e. get_authorized_source_excerpt env' now' d' actor' r i = Inr e \<longrightarrow>
          (\<exists>s\<in>set (snapshots d'). snap_id s = ex_snapshot e \<and> snap_source s \<noteq> sid))"
proof -
  have revoked: "snap_revoked_at s \<noteq> None" if "s \<in> set (snapshots d')" "snap_source s = sid" for s
    using revocation_stops [OF assms] that by blast
  have other: "\<exists>s\<in>set (snapshots d'). snap_id s = i \<and> snap_source s \<noteq> sid" if "snapshot_live d' i" for i
  proof -
    from that obtain s where s: "s \<in> set (snapshots d')" "snap_id s = i" "snap_revoked_at s = None"
      by (auto simp: snapshot_live_def list_ex_iff)
    then have "snap_source s \<noteq> sid" using revoked [of s] by auto
    then show ?thesis using s by blast
  qed
  have off: "x \<notin> set ids" if "authorized_scopes env' now' d' actor' r a = Inr ids" "depends_on d sid x" for ids x
  proof
    assume "x \<in> set ids"
    with authorized_scopes_live [OF that(1)] obtain s where "s \<in> set (scopes d')" "sc_id s = x" "sc_active s"
      by blast
    then show False using revocation_state(1) [OF assms] that(2) by blast
  qed
  have chunk: "\<exists>v\<in>set (visibilities d'). vis_chunk v = chk_id c \<and> snapshot_live d' (vis_snapshot v)
      \<and> (\<exists>s\<in>set (snapshots d'). snap_id s = vis_snapshot v \<and> snap_source s \<noteq> sid)"
    if "authorized_source_chunks env' now' d' actor' r = Inr rows" "c \<in> set rows" for rows c
    using that by (rule chunks_Inr) (use other in \<open>auto simp: visibility_current_def\<close>)
  have "\<exists>s\<in>set (snapshots d'). snap_id s = ex_snapshot e \<and> snap_source s \<noteq> sid"
    if "get_authorized_source_excerpt env' now' d' actor' r i = Inr e" for i e
    using that by (rule excerpt_Inr) (use other in \<open>simp add: visibility_current_def\<close>)
  then show ?thesis using off chunk by blast
qed

theorem revoked_source_is_never_retrieved_witness:
  "\<exists>s d'. revoke_source_connection sample_env sample_user 71 3 5 sample_bound = Inr (s, d')
     \<and> (\<exists>ids. authorized_scopes sample_env 5 sample_bound sample_user 50 SEARCH = Inr ids \<and> 63 \<in> set ids)
     \<and> (\<nexists>ids. authorized_scopes sample_env 6 d' sample_user 50 SEARCH = Inr ids \<and> 63 \<in> set ids)"
proof -
  obtain s d' where r: "revoke_source_connection sample_env sample_user 71 3 5 sample_bound = Inr (s, d')"
    using sample_revocation by blast
  have live: "\<exists>s\<in>set (sources sample_bound). src_id s = 71 \<and> src_state s \<noteq> SOURCE_REVOKED"
    by (simp add: sample_source_def)
  have "\<exists>dec. authorize_action sample_env 5 sample_bound sample_user SEARCH (Some 50) None None False = Inr dec"
    unfolding authorize_action_def sample_bound_principal
    by (simp add: check_credential_def credential_allows_def check_repository_def check_source_def
        check_scope_def role_actions_def sample_bound_role every_action Let_def)
      (simp add: sample_bound_rows)
  moreover have "scope_visible sample_bound sample_user sample_principal 50
      ((sample_scope 63)\<lparr>sc_is_derived := True, sc_derived_from := [62]\<rparr>)"
    by (simp add: scope_visible_def has_source_in_def scope_includes_principal_def) (simp add: sample_scope_def)
  ultimately have "\<exists>ids. authorized_scopes sample_env 5 sample_bound sample_user 50 SEARCH = Inr ids \<and> 63 \<in> set ids"
    by (auto simp: authorized_scopes_def visible_scope_ids_def sample_bound_principal)
  then show ?thesis
    using r sample_dependent revoked_source_is_never_retrieved [OF sample_bound_keys live r, of sample_env 6 sample_user 50 SEARCH]
    by blast
qed

end
