(* ===== verification/Tenancy.thy ===== *)
theory Tenancy
  imports Tokens
begin

text \<open>Membership administration: \<^verbatim>\<open>src/anva/core/services/tenancy.py\<close>.\<close>

definition authorize_membership_admin ::
  "environment \<Rightarrow> instant \<Rightarrow> db \<Rightarrow> actor_context \<Rightarrow> decision result"
where
  "authorize_membership_admin env now d actor =
     authorize_action env now d actor MEMBERSHIP_MANAGE (actor_repository actor) None None False"

definition list_memberships ::
  "environment \<Rightarrow> actor_context \<Rightarrow> uuid \<Rightarrow> instant \<Rightarrow> db \<Rightarrow> membership list result"
where
  "list_memberships env actor organization_id now d =
     (if organization_id \<noteq> actor_org actor then Inl ResourceNotFoundError
      else
        bind_res (authorize_membership_admin env now d actor) (\<lambda>_.
          Inr (take 500 (sort_key mem_created_at
                 (filter (\<lambda>m. mem_org m = organization_id) (memberships d))))))"

text \<open>\<^verbatim>\<open>Role.objects.filter(organization=..., code=...).first()\<close>; a code that is no role code finds none.\<close>

definition role_of_code :: "uuid \<Rightarrow> pystr \<Rightarrow> db \<Rightarrow> role option" where
  "role_of_code org code d =
     first_by role_id (filter (\<lambda>r. role_org r = org \<and> role_value (role_code r) = code) (roles d))"

text \<open>\<^verbatim>\<open>User.objects.get_or_create(email=..., defaults=...)\<close>: the row, and whether it is new.\<close>

definition user_for_email :: "uuid \<Rightarrow> pystr \<Rightarrow> pystr \<Rightarrow> db \<Rightarrow> user \<times> bool \<times> db" where
  "user_for_email fresh email display_name d =
     (case find_by (\<lambda>u. user_email u = email) (users d) of
        Some u \<Rightarrow> (u, False, d)
      | None \<Rightarrow>
          let u = \<lparr>user_id = fresh, user_email = email, user_display_name = display_name, user_active = True\<rparr>
          in (u, True, d\<lparr>users := users d @ [u]\<rparr>))"

definition add_membership ::
  "environment \<Rightarrow> actor_context \<Rightarrow> uuid \<Rightarrow> pystr \<Rightarrow> pystr \<Rightarrow> pystr \<Rightarrow> instant \<Rightarrow> uuid \<Rightarrow> uuid \<Rightarrow> db
     \<Rightarrow> (membership \<times> db) result"
where
  "add_membership env actor organization_id email display_name code now fresh_user fresh_membership d =
     (if organization_id \<noteq> actor_org actor then Inl ResourceNotFoundError
      else if strip email = [] \<or> strip display_name = []
        then Inl (ValueError ''email and display_name are required'')
      else
        bind_res (authorize_membership_admin env now d actor) (\<lambda>decision.
        case role_of_code organization_id code d of
          None \<Rightarrow> Inl ResourceNotFoundError
        | Some r \<Rightarrow>
            let (u, created, d1) = user_for_email fresh_user (env_lower env (strip email)) display_name d in
            if \<not> created \<and> \<not> user_active u then Inl ResourceNotFoundError
            else
              (case find_by (\<lambda>m. mem_org m = organization_id \<and> mem_user m = user_id u) (memberships d1) of
                 Some m \<Rightarrow> Inr (m, d1)
               | None \<Rightarrow>
                   let m = \<lparr>mem_id = fresh_membership, mem_org = organization_id, mem_user = user_id u,
                            mem_role = role_id r, mem_active = True, mem_revision = 1,
                            mem_created_at = now\<rparr>
                   in bind_res (audit_actor actor decision) (\<lambda>auditor.
                      bind_res (record_transition env organization_id auditor (lit ''membership'')
                                  fresh_membership [] (lit ''ACTIVE'') (mem_revision m)
                                  [(lit ''role_code'', JStr (role_value (role_code r)))]
                                  (create_row member_table m d1))
                        (\<lambda>d2. Inr (m, d2))))))"

definition update_membership ::
  "environment \<Rightarrow> actor_context \<Rightarrow> uuid \<Rightarrow> pystr \<Rightarrow> int \<Rightarrow> instant \<Rightarrow> db \<Rightarrow> (membership \<times> db) result"
where
  "update_membership env actor membership_id code expected_revision now d =
     bind_res (get_tenant_record_for_update member_table membership_id (actor_org actor) d) (\<lambda>m.
     bind_res (authorize_membership_admin env now d actor) (\<lambda>decision.
     case role_of_code (actor_org actor) code d of
       None \<Rightarrow> Inl ResourceNotFoundError
     | Some r \<Rightarrow>
         if mem_role m = role_id r then Inr (m, d)
         else if int (mem_revision m) \<noteq> expected_revision then Inl OptimisticConcurrencyError
         else
           let previous = (case membership_role d m of None \<Rightarrow> [] | Some c \<Rightarrow> role_value c);
               m' = m\<lparr>mem_role := role_id r, mem_revision := mem_revision m + 1\<rparr>
           in bind_res (audit_actor actor decision) (\<lambda>auditor.
              bind_res (record_transition env (mem_org m') auditor (lit ''membership'') (mem_id m')
                          previous (role_value (role_code r)) (mem_revision m') []
                          (save_row member_table m' d))
                (\<lambda>d1. Inr (m', d1)))))"

definition deactivate_membership ::
  "environment \<Rightarrow> actor_context \<Rightarrow> uuid \<Rightarrow> int \<Rightarrow> instant \<Rightarrow> db \<Rightarrow> (membership \<times> db) result"
where
  "deactivate_membership env actor membership_id expected_revision now d =
     bind_res (get_tenant_record_for_update member_table membership_id (actor_org actor) d) (\<lambda>m.
     bind_res (authorize_membership_admin env now d actor) (\<lambda>decision.
     if \<not> mem_active m then Inr (m, d)
     else if int (mem_revision m) \<noteq> expected_revision then Inl OptimisticConcurrencyError
     else
       let m' = m\<lparr>mem_active := False, mem_revision := mem_revision m + 1\<rparr>
       in bind_res (audit_actor actor decision) (\<lambda>auditor.
          bind_res (record_transition env (mem_org m') auditor (lit ''membership'') (mem_id m')
                      (lit ''ACTIVE'') (lit ''INACTIVE'') (mem_revision m') []
                      (save_row member_table m' d))
            (\<lambda>d1. Inr (m', d1)))))"

end
