(* ===== verification/TenancyClaims.thy ===== *)
theory TenancyClaims
  imports Tenancy TokenClaims Retrieval
begin

text \<open>
  What membership administration guarantees: a deactivated member holds no authority any more and no
  later administration gives it back, and adding a member is idempotent.
\<close>

section \<open>A member that is out\<close>

text \<open>The row of the user is there, and inactive: the state that lasts.\<close>

definition dismissed :: "uuid \<Rightarrow> uuid \<Rightarrow> db \<Rightarrow> bool" where
  "dismissed org u d \<longleftrightarrow>
     distinct (map mem_id (memberships d))
     \<and> (\<exists>m\<in>set (memberships d). mem_org m = org \<and> mem_user m = u)
     \<and> (\<forall>m\<in>set (memberships d). mem_org m = org \<and> mem_user m = u \<longrightarrow> \<not> mem_active m)"

lemma dismissed_principal:
  assumes "dismissed (actor_org who) u d" "actor_type who = lit ''USER''" "parse_uuid (actor_id who) = Some u"
  shows "resolve_principal d who = Inl AuthenticationError"
proof -
  have "filter (\<lambda>m. mem_org m = actor_org who \<and> organization_active (actor_org who) d \<and> mem_user m = u
      \<and> user_is_active u d \<and> mem_active m) (memberships d) = []"
    using assms(1) by (auto simp: dismissed_def filter_empty_conv)
  then show ?thesis using assms(2,3) by (simp add: resolve_principal_def first_by_def)
qed

text \<open>Saving a row of the table that keeps its identity columns and does not become active.\<close>

lemma dismissed_save:
  assumes "dismissed org u d" "m \<in> set (memberships d)" "mem_id m' = mem_id m" "mem_org m' = mem_org m"
    "mem_user m' = mem_user m" "mem_active m' \<longrightarrow> mem_active m"
    "memberships d' = update_where (\<lambda>x. mem_id x = mem_id m') (\<lambda>_. m') (memberships d)"
  shows "dismissed org u d'"
proof -
  have keys: "distinct (map mem_id (memberships d))" using assms(1) by (simp add: dismissed_def)
  have only: "x = m" if "x \<in> set (memberships d)" "mem_id x = mem_id m'" for x
    using that assms(2,3) unique_row [OF keys] by simp
  have "map mem_id (memberships d') = map mem_id (memberships d)"
    unfolding assms(7) by (rule map_update_where_same) simp
  moreover have "\<exists>x\<in>set (memberships d'). mem_org x = org \<and> mem_user x = u"
  proof -
    obtain x where x: "x \<in> set (memberships d)" "mem_org x = org" "mem_user x = u"
      using assms(1) by (auto simp: dismissed_def)
    show ?thesis
    proof (cases "mem_id x = mem_id m'")
      case True
      then have "m' \<in> set (memberships d')" "x = m"
        using x(1) only by (auto simp: assms(7) set_update_where)
      then show ?thesis using x assms(4,5) by auto
    next
      case False
      then have "x \<in> set (memberships d')" using x(1) by (auto simp: assms(7) set_update_where)
      then show ?thesis using x by blast
    qed
  qed
  moreover have "\<not> mem_active x"
    if "x \<in> set (memberships d')" "mem_org x = org" "mem_user x = u" for x
  proof -
    from that(1) consider "x = m'" | "x \<in> set (memberships d)" by (auto simp: assms(7) set_update_where split: if_splits)
    then show ?thesis using assms(1,2,4-6) that by cases (auto simp: dismissed_def)
  qed
  ultimately show ?thesis using keys by (simp add: dismissed_def)
qed

section \<open>What each operation returned with\<close>

lemma member_table_rows:
  "tb_rows member_table d = memberships d" "tb_id member_table = mem_id" "tb_org member_table = mem_org"
  "memberships (save_row member_table r d) = update_where (\<lambda>x. mem_id x = mem_id r) (\<lambda>_. r) (memberships d)"
  "memberships (create_row member_table r d) = memberships d @ [r]"
  by (simp_all add: member_table_def save_row_def create_row_def)

lemma update_membership_Inr:
  assumes "update_membership env actor i code expected now d = Inr (m, d')"
  shows "d' = d \<or> (\<exists>m0\<in>set (memberships d). mem_id m = mem_id m0 \<and> mem_org m = mem_org m0
           \<and> mem_user m = mem_user m0 \<and> mem_active m = mem_active m0
           \<and> memberships d' = update_where (\<lambda>x. mem_id x = mem_id m) (\<lambda>_. m) (memberships d))"
proof -
  from assms obtain m0 dec where
    m0: "get_tenant_record member_table i (actor_org actor) d = Inr m0"
    and rest: "(case role_of_code (actor_org actor) code d of
       None \<Rightarrow> Inl ResourceNotFoundError
     | Some r \<Rightarrow>
         if mem_role m0 = role_id r then Inr (m0, d)
         else if int (mem_revision m0) \<noteq> expected then Inl OptimisticConcurrencyError
         else
           let previous = (case membership_role d m0 of None \<Rightarrow> [] | Some c \<Rightarrow> role_value c);
               m' = m0\<lparr>mem_role := role_id r, mem_revision := mem_revision m0 + 1\<rparr>
           in bind_res (audit_actor actor dec) (\<lambda>auditor.
              bind_res (record_transition env (mem_org m') auditor (lit ''membership'') (mem_id m')
                          previous (role_value (role_code r)) (mem_revision m') []
                          (save_row member_table m' d))
                (\<lambda>d1. Inr (m', d1)))) = Inr (m, d')"
    unfolding update_membership_def get_tenant_record_for_update_def bind_res_Inr by auto
  from rest obtain r where "role_of_code (actor_org actor) code d = Some r"
    by (cases "role_of_code (actor_org actor) code d") simp_all
  note rest = rest [unfolded this option.case Let_def]
  show ?thesis
  proof (cases "mem_role m0 = role_id r")
    case True
    with rest show ?thesis by simp
  next
    case False
    let ?m = "m0\<lparr>mem_role := role_id r, mem_revision := mem_revision m0 + 1\<rparr>"
    from rest obtain a fs d1 where
      rec: "record_transition env (mem_org ?m) a (lit ''membership'') (mem_id ?m) fs
        (role_value (role_code r)) (mem_revision ?m) [] (save_row member_table ?m d) = Inr d1"
      and "Inr (?m, d1) = (Inr (m, d') :: (membership \<times> db) result)"
      unfolding if_not_P [OF False] error_if_Inr bind_res_Inr by blast
    then have m: "?m = m" "d1 = d'" by simp_all
    have "m0 \<in> set (memberships d)" using get_tenant_record_Inr [OF m0] by (simp add: member_table_rows)
    moreover have "mem_id ?m = mem_id m0 \<and> mem_org ?m = mem_org m0 \<and> mem_user ?m = mem_user m0
        \<and> mem_active ?m = mem_active m0" by simp
    moreover have "memberships d' = update_where (\<lambda>x. mem_id x = mem_id ?m) (\<lambda>_. ?m) (memberships d)"
      using record_transition_frame(4) [OF rec] unfolding m(2) by (simp add: member_table_rows)
    ultimately show ?thesis unfolding m(1) by blast
  qed
qed

lemma deactivate_membership_Inr:
  assumes "deactivate_membership env actor i expected now d = Inr (m, d')"
  obtains m0 where "m0 \<in> set (memberships d)" "mem_id m0 = i" "mem_org m0 = actor_org actor" "\<not> mem_active m0"
      "m = m0" "d' = d"
  | m0 where "m0 \<in> set (memberships d)" "mem_id m0 = i" "mem_org m0 = actor_org actor" "mem_active m0"
      "m = m0\<lparr>mem_active := False, mem_revision := mem_revision m0 + 1\<rparr>"
      "memberships d' = update_where (\<lambda>x. mem_id x = i) (\<lambda>_. m) (memberships d)"
proof -
  from assms obtain m0 dec where
    m0: "get_tenant_record member_table i (actor_org actor) d = Inr m0"
    and rest: "(if \<not> mem_active m0 then Inr (m0, d)
     else if int (mem_revision m0) \<noteq> expected then Inl OptimisticConcurrencyError
     else
       let m' = m0\<lparr>mem_active := False, mem_revision := mem_revision m0 + 1\<rparr>
       in bind_res (audit_actor actor dec) (\<lambda>auditor.
          bind_res (record_transition env (mem_org m') auditor (lit ''membership'') (mem_id m')
                      (lit ''ACTIVE'') (lit ''INACTIVE'') (mem_revision m') []
                      (save_row member_table m' d))
            (\<lambda>d1. Inr (m', d1)))) = Inr (m, d')"
    unfolding deactivate_membership_def get_tenant_record_for_update_def bind_res_Inr by auto
  have row: "m0 \<in> set (memberships d)" "mem_id m0 = i" "mem_org m0 = actor_org actor"
    using get_tenant_record_Inr [OF m0] by (simp_all add: member_table_rows)
  show thesis
  proof (cases "mem_active m0")
    case False
    then have "Inr (m0, d) = (Inr (m, d') :: (membership \<times> db) result)" using rest by simp
    then have "m = m0" "d' = d" by simp_all
    then show thesis using row False that(1) by blast
  next
    case True
    then have active: "\<not> \<not> mem_active m0" by simp
    let ?m = "m0\<lparr>mem_active := False, mem_revision := mem_revision m0 + 1\<rparr>"
    from rest obtain a d1 where
      rec: "record_transition env (mem_org ?m) a (lit ''membership'') (mem_id ?m) (lit ''ACTIVE'')
        (lit ''INACTIVE'') (mem_revision ?m) [] (save_row member_table ?m d) = Inr d1"
      and "Inr (?m, d1) = (Inr (m, d') :: (membership \<times> db) result)"
      unfolding Let_def if_not_P [OF active] error_if_Inr bind_res_Inr by (elim conjE exE) (rule that)
    then have m: "?m = m" "d1 = d'" by simp_all
    have "mem_id ?m = i" by (simp add: row)
    then have "memberships d' = update_where (\<lambda>x. mem_id x = i) (\<lambda>_. m) (memberships d)"
      using record_transition_frame(4) [OF rec] unfolding m by (simp add: member_table_rows)
    then show thesis using row True m(1) [symmetric] that(2) by blast
  qed
qed

lemma user_for_email_memberships:
  "user_for_email fresh e n d = (u, c, d1) \<Longrightarrow> memberships d1 = memberships d"
  by (auto simp: user_for_email_def Let_def split: option.splits simp del: find_by_None)

lemma find_by_snoc: "find_by p (xs @ [x]) = (case find_by p xs of None \<Rightarrow> if p x then Some x else None | Some y \<Rightarrow> Some y)"
  by (induction xs) (simp_all del: find_by_None)

lemma user_for_email_found:
  "user_for_email fresh e n d = (u, c, d1) \<Longrightarrow> find_by (\<lambda>x. user_email x = e) (users d1) = Some u"
  by (auto simp: user_for_email_def Let_def find_by_snoc split: option.splits simp del: find_by_None)

lemma user_for_email_again:
  assumes "user_for_email fresh e n d = (u, c, d1)" "users d' = users d1"
  shows "user_for_email fresh' e n' d' = (u, False, d')"
  using user_for_email_found [OF assms(1)] assms(2) by (simp add: user_for_email_def)

lemma add_membership_Inr:
  assumes "add_membership env actor org email name code now fu fm d = Inr (m, d')"
  obtains u c d1 where "user_for_email fu (env_lower env (strip email)) name d = (u, c, d1)"
      "user_active u" "actor_org actor = org" "users d' = users d1" "roles d' = roles d1"
      "find_by (\<lambda>x. mem_org x = org \<and> mem_user x = user_id u) (memberships d1) = Some m" "d' = d1"
  | u c d1 where "user_for_email fu (env_lower env (strip email)) name d = (u, c, d1)"
      "user_active u" "actor_org actor = org" "users d' = users d1" "roles d' = roles d1"
      "find_by (\<lambda>x. mem_org x = org \<and> mem_user x = user_id u) (memberships d1) = None"
      "mem_org m = org" "mem_user m = user_id u" "mem_id m = fm" "memberships d' = memberships d1 @ [m]"
proof -
  have org: "actor_org actor = org"
    using assms unfolding add_membership_def error_if_Inr by simp
  obtain u c d1 where u: "user_for_email fu (env_lower env (strip email)) name d = (u, c, d1)"
    by (metis prod_cases3)
  note rest = assms [unfolded add_membership_def error_if_Inr bind_res_Inr none_error_Inr u Let_def prod.case]
  have act: "user_active u"
  proof (cases c)
    case True
    then show ?thesis using u by (auto simp: user_for_email_def Let_def split: option.splits simp del: find_by_None)
  qed (use rest in auto)
  show thesis
  proof (cases "find_by (\<lambda>m. mem_org m = org \<and> mem_user m = user_id u) (memberships d1)")
    case (Some m1)
    have "m1 = m" "d1 = d'" using rest [unfolded Some option.case] by auto
    then show thesis using that(1) [OF u act org] Some by blast
  next
    case None
    from rest [unfolded None option.case error_if_Inr bind_res_Inr] obtain r :: role and a d2 rv md where
      rec: "record_transition env org a (lit ''membership'') fm [] (lit ''ACTIVE'') rv md
          (create_row member_table \<lparr>mem_id = fm, mem_org = org, mem_user = user_id u, mem_role = role_id r,
             mem_active = True, mem_revision = 1, mem_created_at = now\<rparr> d1) = Inr d2"
      and m0: "Inr (\<lparr>mem_id = fm, mem_org = org, mem_user = user_id u, mem_role = role_id r, mem_active = True,
      mem_revision = 1, mem_created_at = now\<rparr>, d2) = (Inr (m, d') :: (membership \<times> db) result)"
      by (elim conjE exE) (rule that)
    let ?m = "\<lparr>mem_id = fm, mem_org = org, mem_user = user_id u, mem_role = role_id r, mem_active = True,
      mem_revision = 1, mem_created_at = now\<rparr>"
    from m0 have m: "?m = m" "d2 = d'" by simp_all
    have "memberships d' = memberships d1 @ [m]" "users d' = users d1" "roles d' = roles d1"
      using record_transition_frame(2,3,4) [OF rec] unfolding m
      by (simp_all add: member_table_rows) (simp_all add: create_row_def member_table_def)
    moreover have "mem_org m = org" "mem_user m = user_id u" "mem_id m = fm"
      unfolding m(1) [symmetric] by simp_all
    ultimately show thesis using that(2) [OF u act org _ _ None] by blast
  qed
qed

section \<open>Administration never brings a dismissed member back\<close>

inductive tenancy_step :: "environment \<Rightarrow> db \<Rightarrow> db \<Rightarrow> bool" for env where
  added: "add_membership env actor org email name code now fu fm d = Inr (m, d')
     \<Longrightarrow> fm \<notin> mem_id ` set (memberships d) \<Longrightarrow> tenancy_step env d d'"
| updated: "update_membership env actor i code expected now d = Inr (m, d') \<Longrightarrow> tenancy_step env d d'"
| deactivated: "deactivate_membership env actor i expected now d = Inr (m, d') \<Longrightarrow> tenancy_step env d d'"

lemma dismissed_add:
  assumes "add_membership env actor org email name code now fu fm d = Inr (m, d')"
    "fm \<notin> mem_id ` set (memberships d)" "dismissed o' u' d"
  shows "dismissed o' u' d'"
  using assms(1)
proof (rule add_membership_Inr)
  fix u c d1
  assume "user_for_email fu (env_lower env (strip email)) name d = (u, c, d1)" "d' = d1"
  then show ?thesis using assms(3) user_for_email_memberships by (simp add: dismissed_def)
next
  fix u c d1
  assume u: "user_for_email fu (env_lower env (strip email)) name d = (u, c, d1)"
    and none: "find_by (\<lambda>x. mem_org x = org \<and> mem_user x = user_id u) (memberships d1) = None"
    and m: "mem_org m = org" "mem_user m = user_id u" "mem_id m = fm"
    and rows: "memberships d' = memberships d1 @ [m]"
  have same: "memberships d1 = memberships d" using u by (rule user_for_email_memberships)
  then have "\<not> (org = o' \<and> user_id u = u')" using none assms(3) by (auto simp: dismissed_def)
  then have other: "\<not> (mem_org m = o' \<and> mem_user m = u')" using m by simp
  have "memberships d' = memberships d @ [m]" using rows same by simp
  then show ?thesis using assms(2,3) m(3) other unfolding dismissed_def by auto
qed

lemma dismissed_step: "tenancy_step env d d' \<Longrightarrow> dismissed o' u' d \<Longrightarrow> dismissed o' u' d'"
proof (induction rule: tenancy_step.induct)
  case (added actor org email name code now fu fm d m d')
  then show ?case by (rule dismissed_add)
next
  case (updated actor i code expected now d m d')
  from update_membership_Inr [OF updated(1)] show ?case
  proof (elim disjE bexE conjE)
    fix m0
    assume "m0 \<in> set (memberships d)" "mem_id m = mem_id m0" "mem_org m = mem_org m0"
      "mem_user m = mem_user m0" "mem_active m = mem_active m0"
      "memberships d' = update_where (\<lambda>x. mem_id x = mem_id m) (\<lambda>_. m) (memberships d)"
    then show ?thesis using updated(2) by (intro dismissed_save [of o' u' d m0 m d']) simp_all
  qed (use updated(2) in simp)
next
  case (deactivated actor i expected now d m d')
  from deactivated(1) show ?case
  proof (rule deactivate_membership_Inr)
    fix m0
    assume "m0 \<in> set (memberships d)" "mem_id m0 = i"
      "m = m0\<lparr>mem_active := False, mem_revision := mem_revision m0 + 1\<rparr>"
      "memberships d' = update_where (\<lambda>x. mem_id x = i) (\<lambda>_. m) (memberships d)"
    then show ?thesis using deactivated(2) by (intro dismissed_save [of o' u' d m0 m d']) simp_all
  qed (use deactivated(2) in simp)
qed

lemma dismissed_steps:
  assumes "(tenancy_step env)\<^sup>*\<^sup>* d d'" "dismissed o' u' d"
  shows "dismissed o' u' d'"
  using assms by (induction rule: rtranclp_induct) (auto intro: dismissed_step)

lemma deactivation_dismisses:
  assumes "access_keys d" "deactivate_membership env actor i expected now d = Inr (m, d')"
  shows "dismissed (mem_org m) (mem_user m) d'"
  using assms(2)
proof (rule deactivate_membership_Inr)
  have keys: "distinct (map mem_id (memberships d))" "distinct (map (\<lambda>m. (mem_org m, mem_user m)) (memberships d))"
    using assms(1) by (simp_all add: access_keys_def)
  fix m0
  assume m0: "m0 \<in> set (memberships d)" "mem_id m0 = i"
  have alone: "x = m0" if "x \<in> set (memberships d)" "mem_org x = mem_org m0" "mem_user x = mem_user m0" for x
    using unique_row [OF keys(2) that(1) m0(1)] that(2,3) by simp
  {
    assume "\<not> mem_active m0" "m = m0" "d' = d"
    then show ?thesis using m0 keys(1) alone by (auto simp: dismissed_def)
  next
    assume m: "m = m0\<lparr>mem_active := False, mem_revision := mem_revision m0 + 1\<rparr>"
      and rows: "memberships d' = update_where (\<lambda>x. mem_id x = i) (\<lambda>_. m) (memberships d)"
    have cols: "mem_id m = i" "mem_org m = mem_org m0" "mem_user m = mem_user m0" "\<not> mem_active m"
      by (simp_all add: m m0)
    have "map mem_id (memberships d') = map mem_id (memberships d)"
      unfolding rows by (rule map_update_where_same) (simp add: cols)
    moreover have "m \<in> set (memberships d')" using m0 by (auto simp: rows set_update_where)
    moreover have "\<not> mem_active x"
      if "x \<in> set (memberships d')" "mem_org x = mem_org m" "mem_user x = mem_user m" for x
    proof (rule ccontr)
      assume "\<not> \<not> mem_active x"
      then have "x \<noteq> m" using cols by auto
      then have "x \<in> set (memberships d)" "mem_id x \<noteq> i"
        using that(1) by (auto simp: rows set_update_where split: if_splits)
      then show False using alone [of x] that(2,3) cols m0(2) by auto
    qed
    ultimately show ?thesis using keys(1) by (auto simp: dismissed_def)
  }
qed

section \<open>Sample administration\<close>

definition sample_members_path :: pystr where
  "sample_members_path = lit ''role:ORG_ADMIN''"

lemma sample_admin_manages:
  "authorize_membership_admin sample_env 5 sample_admin sample_user
     = Inr \<lparr>dec_action = MEMBERSHIP_MANAGE, dec_path = sample_members_path\<rparr>"
proof -
  have role: "membership_role sample_admin sample_member = Some ORG_ADMIN"
    by (simp add: membership_role_def sample_admin_def sample_access_rows)
  have actions: "role_actions sample_admin sample_principal = all_actions"
    by (simp add: role_actions_def role)
  have grants: "relevant_grants sample_admin 5 sample_principal MEMBERSHIP_MANAGE None None = []"
    by (simp add: relevant_grants_def active_grants_def grant_of_def sample_admin_def sample_access_rows)
  have path: "decision_path sample_admin sample_user sample_principal MEMBERSHIP_MANAGE False None None None
      = sample_members_path"
    by (simp add: decision_path_def role every_action sample_members_path_def)
  show ?thesis
    unfolding authorize_membership_admin_def authorize_action_def sample_admin_principal
    by (simp add: check_credential_def credential_allows_def check_source_def check_scope_def
        check_repository_def actions every_action grants path Let_def)
qed

lemma sample_members_audit:
  "audit_actor sample_user \<lparr>dec_action = MEMBERSHIP_MANAGE, dec_path = sample_members_path\<rparr>
     = Inr (sample_user\<lparr>actor_path := sample_members_path\<rparr>)"
proof -
  have dash: "45 \<in> set (uuid_str 10)" unfolding uuid_str_def Let_def by simp
  have id: "strip (uuid_str 10) \<noteq> []" unfolding strip_empty_iff
    using dash by (auto simp: is_space_def intro!: bexI [where x = 45])
  have path: "strip sample_members_path \<noteq> []" unfolding strip_empty_iff
    by (simp add: sample_members_path_def is_space_def)
  have type: "strip (lit ''USER'') \<noteq> []" unfolding strip_empty_iff by (simp add: is_space_def)
  from id path type show ?thesis by (simp only: audit_actor_def check_actor_def sample_user_def) simp
qed

lemma sample_deactivation:
  "\<exists>m d'. deactivate_membership sample_env sample_user 30 1 5 sample_admin = Inr (m, d')
     \<and> mem_org m = 1 \<and> mem_user m = 10"
proof -
  have row: "get_tenant_record_for_update member_table 30 1 sample_admin = Inr sample_member"
    by (simp add: get_tenant_record_for_update_def get_tenant_record_def member_table_rows)
      (simp add: sample_member_def)
  have cols: "mem_active sample_member" "mem_revision sample_member = 1" "mem_org sample_member = 1"
    "mem_id sample_member = 30" "mem_user sample_member = 10"
    by (simp_all add: sample_member_def)
  let ?m = "sample_member\<lparr>mem_active := False, mem_revision := 2\<rparr>"
  have "\<exists>d'. record_transition sample_env 1 (sample_user\<lparr>actor_path := sample_members_path\<rparr>)
      (lit ''membership'') 30 (lit ''ACTIVE'') (lit ''INACTIVE'') 2 [] (save_row member_table ?m sample_admin) = Inr d'"
    by (rule exI, rule record_transition_ok) (simp_all add: actor_clean_def)
  then obtain d' where rec: "record_transition sample_env 1 (sample_user\<lparr>actor_path := sample_members_path\<rparr>)
      (lit ''membership'') 30 (lit ''ACTIVE'') (lit ''INACTIVE'') 2 [] (save_row member_table ?m sample_admin) = Inr d'"
    by blast
  have "deactivate_membership sample_env sample_user 30 1 5 sample_admin = Inr (?m, d')"
    unfolding deactivate_membership_def
    by (simp add: row cols sample_admin_manages sample_members_audit Let_def del: One_nat_def)
      (use rec in \<open>simp del: One_nat_def\<close>)
  then show ?thesis using cols by auto
qed

section \<open>Properties\<close>

text \<open>C34: A deactivated member holds no authority any more.  Once \<^verbatim>\<open>deactivate_membership\<close> returned a
  membership, and whatever members are then added, moved to other roles or deactivated, by anyone,
  the user of that membership is refused as unauthenticated in that organization by every decision,
  by every retrieval and by the batched resolution: adding the same person again does not
  reactivate the row.\<close>

theorem deactivated_member_stays_out:
  assumes "access_keys d" and "deactivate_membership env actor i expected now d = Inr (m, d1)"
    and "(tenancy_step env)\<^sup>*\<^sup>* d1 d2"
    and "actor_type who = lit ''USER''" "actor_org who = mem_org m" "parse_uuid (actor_id who) = Some (mem_user m)"
  shows "authorize_action env' t d2 who a repository source scope allow_revoked = Inl AuthenticationError
     \<and> visible_scope_ids d2 who r = Inl AuthenticationError
     \<and> \<not> returns (resolve_authorized_repository_scopes env' t d2 who actions required ids limit)"
proof -
  have "dismissed (mem_org m) (mem_user m) d2"
    using dismissed_steps [OF assms(3)] deactivation_dismisses [OF assms(1,2)] by blast
  then have p: "resolve_principal d2 who = Inl AuthenticationError"
    using assms(4-6) by (intro dismissed_principal) simp_all
  then show ?thesis
    by (simp add: authorize_action_def visible_scope_ids_def resolve_authorized_repository_scopes_def Let_def)
qed

theorem deactivated_member_stays_out_witness:
  "\<exists>m d1. deactivate_membership sample_env sample_user 30 1 5 sample_admin = Inr (m, d1)
     \<and> authorize_action sample_env 6 d1 sample_user ORG_VIEW None None None False = Inl AuthenticationError"
proof -
  obtain m d1 where op: "deactivate_membership sample_env sample_user 30 1 5 sample_admin = Inr (m, d1)"
    and m: "mem_org m = 1" "mem_user m = 10" using sample_deactivation by blast
  have "(tenancy_step sample_env)\<^sup>*\<^sup>* d1 d1" by simp
  from deactivated_member_stays_out [OF sample_admin_keys op this, of sample_user] m
  have "authorize_action sample_env 6 d1 sample_user ORG_VIEW None None None False = Inl AuthenticationError"
    by simp
  with op show ?thesis by blast
qed

text \<open>Adding a member is idempotent, and never changes a role.  After \<^verbatim>\<open>add_membership\<close> returned,
  adding any spelling of the same address again, under any display name and with any role of the
  organization, returns the very same membership and leaves the database as it is.\<close>

theorem adding_a_member_is_idempotent:
  assumes "add_membership env actor org email name code now fu fm d = Inr (m, d')"
    and "actor_org other = org" "returns (authorize_membership_admin env now2 d' other)"
    and "role_of_code org code2 d' \<noteq> None"
    and "env_lower env (strip email2) = env_lower env (strip email)" "strip email2 \<noteq> []" "strip name2 \<noteq> []"
  shows "add_membership env other org email2 name2 code2 now2 fu2 fm2 d' = Inr (m, d')"
proof -
  from assms(3) obtain dec where dec: "authorize_membership_admin env now2 d' other = Inr dec"
    by (auto simp: returns_iff)
  obtain r where r: "role_of_code org code2 d' = Some r" using assms(4) by blast
  have again: "add_membership env other org email2 name2 code2 now2 fu2 fm2 d' = Inr (m, d')"
    if u: "user_for_email fu (env_lower env (strip email)) name d = (u, c, d1)"
      and "user_active u" and same: "users d' = users d1"
      and found: "find_by (\<lambda>x. mem_org x = org \<and> mem_user x = user_id u) (memberships d') = Some m" for u c d1
  proof -
    have "user_for_email fu2 (env_lower env (strip email2)) name2 d' = (u, False, d')"
      unfolding assms(5) by (rule user_for_email_again [OF u same])
    then show ?thesis
      using that(2) assms(2,6,7) unfolding add_membership_def by (simp add: dec r found)
  qed
  from assms(1) show ?thesis
  proof (rule add_membership_Inr)
    fix u c d1
    assume "user_for_email fu (env_lower env (strip email)) name d = (u, c, d1)" "user_active u"
      "users d' = users d1"
      "find_by (\<lambda>x. mem_org x = org \<and> mem_user x = user_id u) (memberships d1) = Some m" "d' = d1"
    then show ?thesis by (intro again) simp_all
  next
    fix u c d1
    assume u: "user_for_email fu (env_lower env (strip email)) name d = (u, c, d1)" "user_active u"
      "users d' = users d1"
      and rows: "find_by (\<lambda>x. mem_org x = org \<and> mem_user x = user_id u) (memberships d1) = None"
        "mem_org m = org" "mem_user m = user_id u" "memberships d' = memberships d1 @ [m]"
    have "find_by (\<lambda>x. mem_org x = org \<and> mem_user x = user_id u) (memberships d') = Some m"
      unfolding rows(4) find_by_snoc rows(1) using rows(2,3) by simp
    then show ?thesis by (rule again [OF u])
  qed
qed

theorem adding_a_member_is_idempotent_witness:
  "\<exists>m d'. add_membership sample_env sample_user 1 (lit '' A@b.c '') (lit ''A'') (role_value ORG_ADMIN) 5 11 31
       sample_admin = Inr (m, d')
     \<and> add_membership sample_env sample_user 1 (lit ''a@B.c'') (lit ''B'') (role_value ORG_ADMIN) 5 12 32 d'
       = Inr (m, d')"
proof -
  have role: "role_of_code 1 (role_value ORG_ADMIN) sample_admin = Some \<lparr>role_id = 20, role_org = 1, role_code = ORG_ADMIN\<rparr>"
    by (simp add: role_of_code_def sample_admin_def first_by_def)
  let ?u = "\<lparr>user_id = 11, user_email = lit ''a@b.c'', user_display_name = lit ''A'', user_active = True\<rparr>"
  let ?d = "sample_admin\<lparr>users := users sample_admin @ [?u]\<rparr>"
  let ?m = "\<lparr>mem_id = 31, mem_org = 1, mem_user = 11, mem_role = 20, mem_active = True, mem_revision = 1,
     mem_created_at = 5\<rparr>"
  have spelled: "strip (lit '' A@b.c '') = lit ''A@b.c''" "strip (lit ''a@B.c'') = lit ''a@B.c''"
      "strip (lit ''A'') = lit ''A''" "strip (lit ''B'') = lit ''B''"
    by (simp_all add: strip_def is_space_def)
  have lower: "env_lower sample_env (lit ''A@b.c'') = lit ''a@b.c''" "env_lower sample_env (lit ''a@B.c'') = lit ''a@b.c''"
    by (simp_all add: sample_env_def lower_char_def)
  have user: "user_for_email 11 (lit ''a@b.c'') (lit ''A'') sample_admin = (?u, True, ?d)"
  proof -
    have "users sample_admin = [\<lparr>user_id = 10, user_email = [], user_display_name = [], user_active = True\<rparr>]"
      by (simp add: sample_admin_def sample_access_rows)
    then show ?thesis by (simp add: user_for_email_def Let_def)
  qed
  have none: "find_by (\<lambda>m. mem_org m = 1 \<and> mem_user m = 11) (memberships ?d) = None"
    by (simp add: sample_member_def)
  have "\<exists>d'. record_transition sample_env 1 (sample_user\<lparr>actor_path := sample_members_path\<rparr>)
      (lit ''membership'') 31 [] (lit ''ACTIVE'') 1 [(lit ''role_code'', JStr (role_value ORG_ADMIN))]
      (create_row member_table ?m ?d) = Inr d'"
    by (rule exI, rule record_transition_ok) (simp_all add: actor_clean_def ALLOWED_AUDIT_METADATA_KEYS_def)
  then obtain d' where rec: "record_transition sample_env 1 (sample_user\<lparr>actor_path := sample_members_path\<rparr>)
      (lit ''membership'') 31 [] (lit ''ACTIVE'') 1 [(lit ''role_code'', JStr (role_value ORG_ADMIN))]
      (create_row member_table ?m ?d) = Inr d'" by blast
  have nonempty: "lit ''A@b.c'' \<noteq> []" "lit ''A'' \<noteq> []" by simp_all
  have op: "add_membership sample_env sample_user 1 (lit '' A@b.c '') (lit ''A'') (role_value ORG_ADMIN) 5 11 31
       sample_admin = Inr (?m, d')"
    unfolding add_membership_def spelled lower user Let_def prod.case none option.case
    by (simp add: sample_admin_manages role sample_members_audit nonempty del: One_nat_def role_value.simps)
      (use rec in \<open>simp add: sample_member_def del: One_nat_def role_value.simps\<close>)
  have after: "roles d' = roles sample_admin" "memberships d' = [sample_member, ?m]"
    "organizations d' = organizations sample_admin" "users d' = users sample_admin @ [?u]" "grants d' = grants sample_admin"
    using record_transition_frame [OF rec] by (simp_all add: create_row_def member_table_def)
  have principal: "resolve_principal d' sample_user = Inr sample_principal"
    by (simp add: sample_principal_def resolve_principal_def after organization_active_def user_is_active_def
        first_by_def) (simp add: sample_admin_def sample_access_rows)
  have actions: "role_actions d' sample_principal = all_actions"
    by (simp add: role_actions_def membership_role_def after) (simp add: sample_admin_def sample_member_def)
  have may: "returns (authorize_membership_admin sample_env 5 d' sample_user)"
    unfolding authorize_membership_admin_def authorize_action_def principal
    by (simp add: check_credential_def credential_allows_def check_source_def check_scope_def
        check_repository_def actions every_action Let_def)
  have role': "role_of_code 1 (role_value ORG_ADMIN) d' \<noteq> None"
    using role unfolding role_of_code_def after(1) by (simp del: first_by_None)
  have "add_membership sample_env sample_user 1 (lit ''a@B.c'') (lit ''B'') (role_value ORG_ADMIN) 5 12 32 d'
       = Inr (?m, d')"
    by (rule adding_a_member_is_idempotent [OF op _ may role']) (simp_all only: spelled lower sample_user_simps, simp_all)
  with op show ?thesis by blast
qed

end
