(* ===== verification/SecretScreen.thy ===== *)
theory SecretScreen
  imports HostileInputs Store
begin

text \<open>
  The secret screen of \<^verbatim>\<open>src/anva/core/services/hostile_inputs.py\<close> (\<^verbatim>\<open>SENSITIVE_KEY\<close>,
  \<^verbatim>\<open>is_secret_bearing_query_key\<close>, \<^verbatim>\<open>reject_secrets\<close>) and the contract check of
  \<^verbatim>\<open>src/anva/contracts/validation.py\<close>, with the exact condition under which a payload passes.
\<close>

section \<open>Secret-bearing keys\<close>

text \<open>
  The words of \<^verbatim>\<open>SENSITIVE_KEY\<close>: two parts with an optional \<^verbatim>\<open>[_-]\<close> between them, the second part
  empty for a plain word.
\<close>

definition SENSITIVE_KEY :: "(pystr \<times> pystr) list" where
  "SENSITIVE_KEY =
     [(lit ''authorization'', []), (lit ''api'', lit ''key''), (lit ''access'', lit ''token''),
      (lit ''refresh'', lit ''token''), (lit ''client'', lit ''secret''), (lit ''password'', []),
      (lit ''passwd'', []), (lit ''private'', lit ''key''), (lit ''cookie'', []),
      (lit ''session'', []), (lit ''credential'', []), (lit ''signature'', []),
      (lit ''security'', lit ''token'')]"

text \<open>
  How \<^verbatim>\<open>(?i)\<close> compares a character with a lower-case letter of the pattern: besides the two cases
  of the letter, the engine accepts the dotted and dotless i, the Kelvin sign and the long s.
\<close>

definition same_letter :: "nat \<Rightarrow> nat \<Rightarrow> bool" where
  "same_letter l c \<longleftrightarrow>
     c = l \<or> 97 \<le> l \<and> l \<le> 122 \<and> c + 32 = l
     \<or> l = 105 \<and> (c = 304 \<or> c = 305) \<or> l = 107 \<and> c = 8490 \<or> l = 115 \<and> c = 383"

fun after_word :: "pystr \<Rightarrow> pystr \<Rightarrow> pystr option" where
  "after_word [] s = Some s"
| "after_word (l # w) [] = None"
| "after_word (l # w) (c # s) = (if same_letter l c then after_word w s else None)"

definition key_at :: "pystr \<Rightarrow> pystr \<times> pystr \<Rightarrow> bool" where
  "key_at s w =
     (case after_word (fst w) s of
        None \<Rightarrow> False
      | Some r \<Rightarrow>
          after_word (snd w) r \<noteq> None
          \<or> (case r of [] \<Rightarrow> False | c # r' \<Rightarrow> (c = 95 \<or> c = 45) \<and> after_word (snd w) r' \<noteq> None))"

fun sensitive_key :: "pystr \<Rightarrow> bool" where
  "sensitive_key [] \<longleftrightarrow> list_ex (key_at []) SENSITIVE_KEY"
| "sensitive_key (c # s) \<longleftrightarrow> list_ex (key_at (c # s)) SENSITIVE_KEY \<or> sensitive_key s"

text \<open>Which words may begin at a character: how the samples evaluate the screen.\<close>

definition words_from :: "nat \<Rightarrow> (pystr \<times> pystr) list" where
  "words_from c = filter (\<lambda>w. same_letter (hd (fst w)) c) SENSITIVE_KEY"

lemma sensitive_key_from: "sensitive_key (c # s) \<longleftrightarrow> list_ex (key_at (c # s)) (words_from c) \<or> sensitive_key s"
proof -
  have "\<forall>w\<in>set SENSITIVE_KEY. fst w \<noteq> []" by (simp add: SENSITIVE_KEY_def)
  moreover have "key_at (c # s) w \<longrightarrow> same_letter (hd (fst w)) c" if "fst w \<noteq> []" for w
    using that by (cases "fst w") (auto simp: key_at_def split: option.splits)
  ultimately have "w \<in> set SENSITIVE_KEY \<and> key_at (c # s) w \<longleftrightarrow> w \<in> set (words_from c) \<and> key_at (c # s) w" for w
    unfolding words_from_def set_filter by blast
  then show ?thesis by (simp add: list_ex_iff) blast
qed

lemma words_from_letters:
  "words_from 97 = [(lit ''authorization'', []), (lit ''api'', lit ''key''), (lit ''access'', lit ''token'')]"
  "words_from 99 = [(lit ''client'', lit ''secret''), (lit ''cookie'', []), (lit ''credential'', [])]"
  "words_from 112 = [(lit ''password'', []), (lit ''passwd'', []), (lit ''private'', lit ''key'')]"
  "words_from 114 = [(lit ''refresh'', lit ''token'')]"
  "words_from 115 = [(lit ''session'', []), (lit ''signature'', []), (lit ''security'', lit ''token'')]"
  by (simp_all add: words_from_def SENSITIVE_KEY_def same_letter_def)

lemma plain_key_rules:
  "\<not> sensitive_key []"
  "c \<notin> {97, 65, 99, 67, 112, 80, 114, 82, 115, 83, 383} \<Longrightarrow> sensitive_key (c # s) \<longleftrightarrow> sensitive_key s"
  "c \<notin> {117, 85, 112, 80, 99, 67} \<Longrightarrow> sensitive_key (97 # c # s) \<longleftrightarrow> sensitive_key (c # s)"
  "c \<notin> {108, 76, 111, 79, 114, 82} \<Longrightarrow> sensitive_key (99 # c # s) \<longleftrightarrow> sensitive_key (c # s)"
  "c \<notin> {97, 65, 114, 82} \<Longrightarrow> sensitive_key (112 # c # s) \<longleftrightarrow> sensitive_key (c # s)"
  "c \<notin> {101, 69} \<Longrightarrow> sensitive_key (114 # c # s) \<longleftrightarrow> sensitive_key (c # s)"
  "c \<notin> {101, 69, 105, 73, 304, 305} \<Longrightarrow> sensitive_key (115 # c # s) \<longleftrightarrow> sensitive_key (c # s)"
  "\<not> sensitive_key [97]" "\<not> sensitive_key [99]" "\<not> sensitive_key [112]" "\<not> sensitive_key [114]" "\<not> sensitive_key [115]"
  by (simp_all add: SENSITIVE_KEY_def key_at_def same_letter_def)
lemmas word_letters = words_from_letters [simplified]

lemmas plain_key = sensitive_key_from [of 97, unfolded word_letters] sensitive_key_from [of 99, unfolded word_letters]
  sensitive_key_from [of 112, unfolded word_letters] sensitive_key_from [of 114, unfolded word_letters]
  sensitive_key_from [of 115, unfolded word_letters] key_at_def same_letter_def plain_key_rules

text \<open>\<^verbatim>\<open>str.casefold\<close> is an argument.\<close>

definition is_secret_bearing_query_key :: "(pystr \<Rightarrow> pystr) \<Rightarrow> pystr \<Rightarrow> bool" where
  "is_secret_bearing_query_key casefold value \<longleftrightarrow>
     (let normalized = filter (\<lambda>c. 97 \<le> c \<and> c \<le> 122 \<or> 48 \<le> c \<and> c \<le> 57) (casefold value)
      in sensitive_key value
         \<or> list_ex (\<lambda>e. suffix e normalized)
             [lit ''credential'', lit ''signature'', lit ''securitytoken'']
         \<or> normalized \<in> set [lit ''accesskey'', lit ''accesskeyid'', lit ''googleaccessid'',
                            lit ''keypairid'', lit ''sig'', lit ''token''])"

section \<open>The screen of a payload\<close>

definition screen_text :: "environment \<Rightarrow> pystr \<Rightarrow> unit result" where
  "screen_text env s =
     (if length s > 50000 then Inl (ValueError ''Input string is too large'')
      else if env_redact env s \<noteq> s then Inl (ValueError ''Input contains credential material'')
      else Inr ())"

fun reject_secrets_at :: "environment \<Rightarrow> nat \<Rightarrow> json \<Rightarrow> unit result"
  and reject_secret_items :: "environment \<Rightarrow> nat \<Rightarrow> (pystr \<times> json) list \<Rightarrow> unit result"
  and reject_secret_list :: "environment \<Rightarrow> nat \<Rightarrow> json list \<Rightarrow> unit result"
where
  "reject_secrets_at env depth (JDict items) =
     (if depth > 20 then Inl (ValueError ''Input nesting is too deep'')
      else reject_secret_items env depth items)"
| "reject_secrets_at env depth (JList xs) =
     (if depth > 20 then Inl (ValueError ''Input nesting is too deep'')
      else reject_secret_list env depth xs)"
| "reject_secrets_at env depth (JStr s) =
     (if depth > 20 then Inl (ValueError ''Input nesting is too deep'') else screen_text env s)"
| "reject_secrets_at env depth v =
     (if depth > 20 then Inl (ValueError ''Input nesting is too deep'') else Inr ())"
| "reject_secret_items env depth [] = Inr ()"
| "reject_secret_items env depth ((k, v) # rest) =
     (if sensitive_key k then Inl (ValueError ''Input contains a forbidden secret-bearing field'')
      else bind_res (reject_secrets_at env (Suc depth) v) (\<lambda>_. reject_secret_items env depth rest))"
| "reject_secret_list env depth [] = Inr ()"
| "reject_secret_list env depth (v # rest) =
     bind_res (reject_secrets_at env (Suc depth) v) (\<lambda>_. reject_secret_list env depth rest)"

definition reject_secrets :: "environment \<Rightarrow> json \<Rightarrow> unit result" where
  "reject_secrets env v = reject_secrets_at env 0 v"

section \<open>Contracts\<close>

text \<open>
  \<^verbatim>\<open>validate_payload\<close>: the catalogue \<^verbatim>\<open>SCHEMAS\<close> and the validator are of the environment; the version
  check is the code's own.
\<close>

definition json_member :: "json \<Rightarrow> pystr \<Rightarrow> json option" where
  "json_member v k = (case v of JDict items \<Rightarrow> json_get items k | _ \<Rightarrow> None)"

definition supported_version :: "json \<Rightarrow> json option" where
  "supported_version schema =
     Option.bind (json_member schema (lit ''properties'')) (\<lambda>ps.
     Option.bind (json_member ps (lit ''schema_version'')) (\<lambda>vs. json_member vs (lit ''const'')))"

definition validate_payload :: "environment \<Rightarrow> pystr \<Rightarrow> json \<Rightarrow> unit result" where
  "validate_payload env schema_name payload =
     (case env_schemas env schema_name of
        None \<Rightarrow> Inl ContractValidationError
      | Some schema \<Rightarrow>
          (case payload of
             JDict items \<Rightarrow>
               (case supported_version schema of
                  None \<Rightarrow> Inl ContractValidationError
                | Some supported \<Rightarrow>
                    if supported = JNull then Inl ContractValidationError
                    else if \<not> json_same (case json_get items (lit ''schema_version'') of
                                            None \<Rightarrow> JNull | Some v \<Rightarrow> v) supported
                    then Inl ContractValidationError
                    else if \<not> env_schema_accepts env schema payload then Inl ContractValidationError
                    else Inr ())
           | _ \<Rightarrow> Inl ContractValidationError))"

section \<open>What passes the screen\<close>

fun secret_free :: "environment \<Rightarrow> nat \<Rightarrow> json \<Rightarrow> bool" where
  "secret_free env n (JDict items) \<longleftrightarrow>
     n > 0 \<and> (\<forall>p\<in>set items. \<not> sensitive_key (fst p) \<and> secret_free env (n - 1) (snd p))"
| "secret_free env n (JList xs) \<longleftrightarrow> n > 0 \<and> (\<forall>x\<in>set xs. secret_free env (n - 1) x)"
| "secret_free env n (JStr s) \<longleftrightarrow> n > 0 \<and> length s \<le> 50000 \<and> env_redact env s = s"
| "secret_free env n v \<longleftrightarrow> n > 0"

lemma screen_text_Inr: "screen_text env s = Inr () \<longleftrightarrow> length s \<le> 50000 \<and> env_redact env s = s"
  by (auto simp: screen_text_def)

lemma reject_secrets_at_Inr:
  "reject_secrets_at env depth v = Inr () \<longleftrightarrow> secret_free env (21 - depth) v"
  "depth \<le> 20 \<Longrightarrow> reject_secret_items env depth items = Inr () \<longleftrightarrow> secret_free env (21 - depth) (JDict items)"
  "depth \<le> 20 \<Longrightarrow> reject_secret_list env depth xs = Inr () \<longleftrightarrow> secret_free env (21 - depth) (JList xs)"
  by (induction env depth v and env depth items and env depth xs
      rule: reject_secrets_at_reject_secret_items_reject_secret_list.induct)
    (auto simp: bind_res_Inr screen_text_Inr)

lemma reject_secrets_Inr: "reject_secrets env v = Inr () \<longleftrightarrow> secret_free env 21 v"
  by (simp add: reject_secrets_def reject_secrets_at_Inr)

end
