(* ===== verification/GovernanceTables.thy ===== *)
theory GovernanceTables
  imports Tokens Events
begin

text \<open>The tables and lookups that the intent, evidence and policy services share.\<close>

section \<open>Payloads as the services read them\<close>

text \<open>
  How the services read a validated payload: \<^verbatim>\<open>payload[key]\<close> and its casts.  The schema has required the
  fields and their types; a payload without one would raise a \<^verbatim>\<open>KeyError\<close> or a \<^verbatim>\<open>TypeError\<close>, which the
  model shows as \<open>TypeError\<close>.
\<close>

definition item_of :: "(pystr \<times> json) list \<Rightarrow> pystr \<Rightarrow> json result" where
  "item_of items k = (case json_get items k of None \<Rightarrow> Inl TypeError | Some v \<Rightarrow> Inr v)"

definition as_text :: "json \<Rightarrow> pystr result" where
  "as_text v = (case v of JStr s \<Rightarrow> Inr s | _ \<Rightarrow> Inl TypeError)"

definition as_int :: "json \<Rightarrow> int result" where
  "as_int v = (case v of JInt n \<Rightarrow> Inr n | _ \<Rightarrow> Inl TypeError)"

definition as_bool :: "json \<Rightarrow> bool result" where
  "as_bool v = (case v of JBool b \<Rightarrow> Inr b | _ \<Rightarrow> Inl TypeError)"

definition as_dict :: "json \<Rightarrow> (pystr \<times> json) list result" where
  "as_dict v = (case v of JDict items \<Rightarrow> Inr items | _ \<Rightarrow> Inl TypeError)"

definition as_list :: "json \<Rightarrow> json list result" where
  "as_list v = (case v of JList xs \<Rightarrow> Inr xs | _ \<Rightarrow> Inl TypeError)"

definition as_texts :: "json \<Rightarrow> pystr list result" where
  "as_texts v = bind_res (as_list v) (map_res as_text)"

definition text_at :: "(pystr \<times> json) list \<Rightarrow> pystr \<Rightarrow> pystr result" where
  "text_at items k = bind_res (item_of items k) as_text"

definition texts_at :: "(pystr \<times> json) list \<Rightarrow> pystr \<Rightarrow> pystr list result" where
  "texts_at items k = bind_res (item_of items k) as_texts"

definition uuid_of :: "pystr \<Rightarrow> uuid result" where
  "uuid_of s = (case parse_uuid s of
                  None \<Rightarrow> Inl (ValueError ''badly formed hexadecimal UUID string'')
                | Some u \<Rightarrow> Inr u)"

definition uuid_json :: "uuid \<Rightarrow> json" where
  "uuid_json u = JStr (uuid_str u)"

definition optional_text :: "json \<Rightarrow> pystr option result" where
  "optional_text v = (if v = JNull then Inr None else bind_res (as_text v) (\<lambda>s. Inr (Some s)))"

definition dicts_at :: "(pystr \<times> json) list \<Rightarrow> pystr \<Rightarrow> (pystr \<times> json) list list result" where
  "dicts_at items k = bind_res (bind_res (item_of items k) as_list) (map_res as_dict)"

definition bool_at :: "(pystr \<times> json) list \<Rightarrow> pystr \<Rightarrow> bool result" where
  "bool_at items k = bind_res (item_of items k) as_bool"

definition int_at :: "(pystr \<times> json) list \<Rightarrow> pystr \<Rightarrow> int result" where
  "int_at items k = bind_res (item_of items k) as_int"

definition optional_text_at :: "(pystr \<times> json) list \<Rightarrow> pystr \<Rightarrow> pystr option result" where
  "optional_text_at items k = bind_res (item_of items k) optional_text"

definition active_scope_table :: "access_scope table" where
  "active_scope_table = scope_table\<lparr>tb_rows := (\<lambda>d. filter sc_active (scopes d))\<rparr>"

definition work_revision_table :: "work_revision table" where
  "work_revision_table =
     \<lparr>tb_rows = (\<lambda>d. work_revisions (governance d)),
      tb_put = (\<lambda>rs d. d\<lparr>governance := (governance d)\<lparr>work_revisions := rs\<rparr>\<rparr>),
      tb_id = wr_id, tb_org = wr_org\<rparr>"

definition approval_table :: "approval table" where
  "approval_table =
     \<lparr>tb_rows = (\<lambda>d. approvals (governance d)),
      tb_put = (\<lambda>rs d. d\<lparr>governance := (governance d)\<lparr>approvals := rs\<rparr>\<rparr>),
      tb_id = ap_id, tb_org = ap_org\<rparr>"

interpretation work_revision_rows: tenant_table work_revision_table
  by unfold_locales (simp_all add: work_revision_table_def)

interpretation approval_rows: tenant_table approval_table
  by unfold_locales (simp_all add: approval_table_def)

definition work_item_of :: "db \<Rightarrow> work_revision \<Rightarrow> work_item result" where
  "work_item_of d w =
     (case find_by (\<lambda>i. wi_id i = wr_item w) (work_items (governance d)) of
        None \<Rightarrow> Inl DoesNotExist | Some i \<Rightarrow> Inr i)"

definition text_bytes :: "pystr \<Rightarrow> nat" where
  "text_bytes s = (case encoded_length s of None \<Rightarrow> 0 | Some n \<Rightarrow> n)"

end
