(* ===== verification/PolicyRules.thy ===== *)
theory PolicyRules
  imports SecretScreen Regex "HOL-Library.Product_Lexorder" "HOL-Library.List_Lexorder"
    GovernanceTables
begin

text \<open>
  The pure part of \<^verbatim>\<open>src/anva/core/services/policies.py\<close>: the path grammar, the normal form of a
  policy, the matching of a binding, and the additive merge of the requirements into controls.
\<close>

section \<open>The path grammar\<close>

text \<open>
  \<^verbatim>\<open>_compile_path_pattern\<close>: \<^verbatim>\<open>**\<close> becomes \<^verbatim>\<open>.*\<close>, \<^verbatim>\<open>*\<close> becomes \<^verbatim>\<open>[^/]*\<close>, \<^verbatim>\<open>?\<close> becomes \<^verbatim>\<open>[^/]\<close>, any other
  character itself; the dot of \<^verbatim>\<open>re\<close> is every character but the newline.
\<close>

fun pattern_rx :: "pystr \<Rightarrow> unit rx" where
  "pattern_rx [] = rx_ret ()"
| "pattern_rx (c # p) =
     (if c = 42 then
        (case p of
           [] \<Rightarrow> rx_then (rx_run (\<lambda>x. x \<noteq> 47) 0 None) (pattern_rx p)
         | c' # p' \<Rightarrow>
             if c' = 42 then rx_then (rx_run (\<lambda>x. x \<noteq> 10) 0 None) (pattern_rx p')
             else rx_then (rx_run (\<lambda>x. x \<noteq> 47) 0 None) (pattern_rx p))
      else if c = 63 then rx_then (rx_run (\<lambda>x. x \<noteq> 47) 1 (Some 1)) (pattern_rx p)
      else rx_then (rx_lit [c]) (pattern_rx p))"

definition compile_path_pattern :: "pystr \<Rightarrow> unit rx result" where
  "compile_path_pattern p = bind_res (validate_relative_artifact_path p) (\<lambda>_. Inr (pattern_rx p))"

definition path_pattern_matches :: "pystr \<Rightarrow> pystr \<Rightarrow> bool result" where
  "path_pattern_matches p path =
     bind_res (validate_relative_artifact_path path) (\<lambda>_.
     bind_res (compile_path_pattern p) (\<lambda>r. Inr (rx_fullmatch r path \<noteq> None)))"

text \<open>\<^verbatim>\<open>any(... for x in xs)\<close> of a test that may raise: it stops at the first success.\<close>

fun any_res :: "('a \<Rightarrow> bool result) \<Rightarrow> 'a list \<Rightarrow> bool result" where
  "any_res f [] = Inr False"
| "any_res f (x # xs) = bind_res (f x) (\<lambda>b. if b then Inr True else any_res f xs)"

section \<open>Matching a binding\<close>

fun SCOPE_RANK :: "scope_level \<Rightarrow> nat" where
  "SCOPE_RANK LEVEL_ORGANIZATION = 0"
| "SCOPE_RANK LEVEL_PRODUCT = 1"
| "SCOPE_RANK LEVEL_SYSTEM = 2"
| "SCOPE_RANK LEVEL_REPOSITORY = 3"
| "SCOPE_RANK LEVEL_PATH = 4"

text \<open>The dimensions a binding restricts, in the order of the code, with whether each matched.\<close>

definition entity_dimension :: "policy_binding \<Rightarrow> (pystr \<times> pystr) list \<Rightarrow> (pystr \<times> bool) list" where
  "entity_dimension b ents =
     (if bi_entity_ids b \<noteq> [] \<and> bi_entity_types b \<noteq> []
      then [(lit ''entity'', list_ex (\<lambda>(i, t). i \<in> set (bi_entity_ids b) \<and> t \<in> set (bi_entity_types b))
                             ents)]
      else if bi_entity_ids b \<noteq> []
      then [(lit ''entity_id'', list_ex (\<lambda>(i, t). i \<in> set (bi_entity_ids b)) ents)]
      else if bi_entity_types b \<noteq> []
      then [(lit ''entity_type'', list_ex (\<lambda>(i, t). t \<in> set (bi_entity_types b)) ents)]
      else [])"

definition path_dimension :: "policy_binding \<Rightarrow> pystr list \<Rightarrow> (pystr \<times> bool) list result" where
  "path_dimension b paths =
     (if bi_path_patterns b = [] then Inr []
      else bind_res (any_res (\<lambda>(p, path). path_pattern_matches p path)
                       (List.product (bi_path_patterns b) paths))
             (\<lambda>m. Inr [(lit ''path'', m)]))"

definition binding_dimensions ::
  "policy_binding \<Rightarrow> uuid \<Rightarrow> pystr list \<Rightarrow> (pystr \<times> pystr) list \<Rightarrow> pystr option \<Rightarrow> pystr
     \<Rightarrow> (pystr \<times> bool) list result"
where
  "binding_dimensions b repository paths ents work_type target_branch =
     bind_res (path_dimension b paths) (\<lambda>path.
       Inr ((if bi_repository_ids b = [] then []
             else [(lit ''repository'', uuid_str repository \<in> set (bi_repository_ids b))])
            @ entity_dimension b ents
            @ path
            @ (if bi_work_item_types b = [] then []
               else [(lit ''work_type'', case work_type of
                                           None \<Rightarrow> False
                                         | Some t \<Rightarrow> t \<in> set (bi_work_item_types b))])
            @ (if bi_target_branches b = [] then []
               else [(lit ''target_branch'', target_branch \<in> set (bi_target_branches b))])))"

definition dimension_reason :: "pystr \<times> bool \<Rightarrow> pystr" where
  "dimension_reason = (\<lambda>(name, matched).
     name @ lit '':'' @ (if matched then lit ''matched'' else lit ''not_matched''))"

definition binding_matches ::
  "policy_binding \<Rightarrow> uuid \<Rightarrow> pystr list \<Rightarrow> (pystr \<times> pystr) list \<Rightarrow> pystr option \<Rightarrow> pystr
     \<Rightarrow> (bool \<times> pystr list) result"
where
  "binding_matches b repository paths ents work_type target_branch =
     bind_res (binding_dimensions b repository paths ents work_type target_branch) (\<lambda>ds.
       Inr (list_all snd ds, map dimension_reason ds))"

section \<open>Controls\<close>

text \<open>Where a requirement of a control comes from.\<close>

record control_source =
  so_policy :: uuid
  so_version_id :: uuid
  so_version :: int
  so_binding :: uuid
  so_scope_level :: scope_level
  so_mandatory :: bool
  so_requirement :: uuid

record control =
  ct_code :: pystr
  ct_description :: pystr
  ct_enforcement :: enforcement
  ct_check_type :: pystr
  ct_evidence :: "pystr list"
  ct_reviewers :: "pystr list"
  ct_approval :: bool
  ct_sections :: "pystr list"
  ct_sources :: "control_source list"

record applied_override =
  ao_override :: uuid
  ao_code :: pystr
  ao_source :: control_source
  ao_reason :: pystr

type_synonym control_input = "policy_version \<times> policy_binding \<times> policy_requirement"

definition source_of :: "control_input \<Rightarrow> control_source" where
  "source_of = (\<lambda>(v, b, r).
     \<lparr>so_policy = pv_policy v, so_version_id = pv_id v, so_version = pv_version v,
      so_binding = bi_id b, so_scope_level = bi_scope_level b, so_mandatory = bi_mandatory b,
      so_requirement = rq_id r\<rparr>)"

text \<open>The dictionary \<^verbatim>\<open>override_keys\<close>: the last override of the list for a version and a code.\<close>

definition override_for :: "policy_override list \<Rightarrow> control_input \<Rightarrow> policy_override option" where
  "override_for overrides = (\<lambda>(v, b, r).
     find_by (\<lambda>ov. ov_version ov = pv_id v \<and> ov_code ov = rq_code r) (rev overrides))"

definition new_control :: "policy_requirement \<Rightarrow> control" where
  "new_control r =
     \<lparr>ct_code = rq_code r, ct_description = rq_description r, ct_enforcement = rq_enforcement r,
      ct_check_type = rq_check_type r, ct_evidence = [], ct_reviewers = [], ct_approval = False,
      ct_sections = [], ct_sources = []\<rparr>"

definition add_requirement :: "control_input \<Rightarrow> control \<Rightarrow> control" where
  "add_requirement = (\<lambda>(v, b, r) c.
     c\<lparr>ct_enforcement := (if rq_enforcement r = BLOCKING then BLOCKING else ct_enforcement c),
       ct_evidence := sorted_set (ct_evidence c @ rq_required_evidence r),
       ct_reviewers := sorted_set (ct_reviewers c @ rq_required_reviewers r),
       ct_sections := sorted_set (ct_sections c @ rq_report_sections r),
       ct_approval := (ct_approval c \<or> rq_required_approval r),
       ct_sources := ct_sources c @ [source_of (v, b, r)]\<rparr>)"

text \<open>\<^verbatim>\<open>controls.setdefault(code, ...)\<close> and the writes to the value it returned.\<close>

definition put_control :: "control \<Rightarrow> control list \<Rightarrow> control list" where
  "put_control c cs =
     (if list_ex (\<lambda>x. ct_code x = ct_code c) cs
      then update_where (\<lambda>x. ct_code x = ct_code c) (\<lambda>_. c) cs else cs @ [c])"

definition apply_requirement ::
  "policy_override list \<Rightarrow> control_input \<Rightarrow> control list \<times> applied_override list
     \<Rightarrow> (control list \<times> applied_override list) result"
where
  "apply_requirement overrides = (\<lambda>(v, b, r) (cs, applied).
     (case override_for overrides (v, b, r) of
        Some ov \<Rightarrow>
          Inr (cs, applied @ [\<lparr>ao_override = ov_id ov, ao_code = rq_code r,
                               ao_source = source_of (v, b, r), ao_reason = ov_reason ov\<rparr>])
      | None \<Rightarrow>
          let c = (case find_by (\<lambda>x. ct_code x = rq_code r) cs of None \<Rightarrow> new_control r | Some c \<Rightarrow> c)
          in if ct_check_type c \<noteq> rq_check_type r
             then Inl (ValueError ''Incompatible policy check types for control'')
             else Inr (put_control (add_requirement (v, b, r) c) cs, applied)))"

definition source_order :: "control_source \<Rightarrow> nat \<times> pystr \<times> pystr" where
  "source_order s = (SCOPE_RANK (so_scope_level s), uuid_str (so_version_id s), uuid_str (so_requirement s))"

text \<open>The loops over the matched versions and their requirements, and the sorts after them.\<close>

definition calculate_controls ::
  "policy_override list \<Rightarrow> control_input list \<Rightarrow> (control list \<times> applied_override list) result"
where
  "calculate_controls overrides inputs =
     bind_res (fold_res (apply_requirement overrides) inputs ([], [])) (\<lambda>(cs, applied).
       Inr (sort_key ct_code (map (\<lambda>c. c\<lparr>ct_sources := sort_key source_order (ct_sources c)\<rparr>) cs),
            sort_key (\<lambda>a. uuid_str (ao_override a)) applied))"

section \<open>Active overrides\<close>

definition override_revoked_by :: "governance \<Rightarrow> instant \<Rightarrow> policy_override \<Rightarrow> bool" where
  "override_revoked_by g t ov \<longleftrightarrow>
     list_ex (\<lambda>x. or_override x = ov_id ov \<and> or_revoked_at x \<le> t) (override_revocations g)"

definition active_overrides ::
  "governance \<Rightarrow> uuid \<Rightarrow> uuid \<Rightarrow> int \<Rightarrow> pystr \<Rightarrow> uuid list \<Rightarrow> instant \<Rightarrow> policy_override list"
where
  "active_overrides g org repository pull_request commit versions t =
     sort_key ov_id (filter (\<lambda>ov.
         ov_org ov = org \<and> ov_repository ov = repository \<and> ov_pull_request ov = pull_request
         \<and> ov_commit ov = commit \<and> ov_version ov \<in> set versions \<and> ov_created_at ov \<le> t
         \<and> (case ov_expires_at ov of None \<Rightarrow> True | Some e \<Rightarrow> e > t)
         \<and> \<not> override_revoked_by g t ov) (policy_overrides g))"

section \<open>Policy documents\<close>

text \<open>
  The documents \<^verbatim>\<open>import_policy\<close> reads (\<^verbatim>\<open>src/anva/core/services/policies.py\<close>): the fields it casts
  out of a validated payload, and the normal form whose digest identifies a version.\<close>

section \<open>The binding and the requirements\<close>

record binding_document =
  bd_scope_level :: pystr
  bd_mandatory :: bool
  bd_repository_ids :: "pystr list"
  bd_entity_ids :: "pystr list"
  bd_entity_types :: "pystr list"
  bd_path_patterns :: "pystr list"
  bd_work_item_types :: "pystr list"
  bd_target_branches :: "pystr list"

record requirement_document =
  rd_id :: pystr
  rd_code :: pystr
  rd_description :: pystr
  rd_enforcement :: pystr
  rd_check_type :: pystr
  rd_required_evidence :: "pystr list"
  rd_required_reviewers :: "pystr list"
  rd_required_approval :: bool
  rd_report_sections :: "pystr list"

record policy_document =
  pd_schema_version :: pystr
  pd_organization_id :: pystr
  pd_policy_id :: pystr
  pd_access_scope_id :: pystr
  pd_version :: int
  pd_name :: pystr
  pd_owner :: pystr
  pd_status :: pystr
  pd_effective_at :: pystr
  pd_expires_at :: "pystr option"
  pd_binding :: binding_document
  pd_requirements :: "requirement_document list"

definition read_binding :: "(pystr \<times> json) list \<Rightarrow> binding_document result" where
  "read_binding b =
     bind_res (text_at b (lit ''scope_level'')) (\<lambda>level.
     bind_res (bind_res (item_of b (lit ''mandatory'')) as_bool) (\<lambda>mandatory.
     bind_res (texts_at b (lit ''repository_ids'')) (\<lambda>repositories.
     bind_res (texts_at b (lit ''entity_ids'')) (\<lambda>entity_ids.
     bind_res (texts_at b (lit ''entity_types'')) (\<lambda>entity_types.
     bind_res (texts_at b (lit ''path_patterns'')) (\<lambda>patterns.
     bind_res (texts_at b (lit ''work_item_types'')) (\<lambda>work_types.
     bind_res (texts_at b (lit ''target_branches'')) (\<lambda>branches.
       Inr \<lparr>bd_scope_level = level, bd_mandatory = mandatory, bd_repository_ids = repositories,
            bd_entity_ids = entity_ids, bd_entity_types = entity_types, bd_path_patterns = patterns,
            bd_work_item_types = work_types, bd_target_branches = branches\<rparr>))))))))"

definition read_requirement :: "(pystr \<times> json) list \<Rightarrow> requirement_document result" where
  "read_requirement r =
     bind_res (text_at r (lit ''requirement_id'')) (\<lambda>i.
     bind_res (text_at r (lit ''code'')) (\<lambda>code.
     bind_res (text_at r (lit ''description'')) (\<lambda>description.
     bind_res (text_at r (lit ''enforcement'')) (\<lambda>enforced.
     bind_res (text_at r (lit ''check_type'')) (\<lambda>check_type.
     bind_res (texts_at r (lit ''required_evidence'')) (\<lambda>evidence.
     bind_res (texts_at r (lit ''required_reviewers'')) (\<lambda>reviewers.
     bind_res (bind_res (item_of r (lit ''required_approval'')) as_bool) (\<lambda>approval.
     bind_res (texts_at r (lit ''report_sections'')) (\<lambda>sections.
       Inr \<lparr>rd_id = i, rd_code = code, rd_description = description, rd_enforcement = enforced,
            rd_check_type = check_type, rd_required_evidence = evidence,
            rd_required_reviewers = reviewers, rd_required_approval = approval,
            rd_report_sections = sections\<rparr>)))))))))"

definition read_expiry :: "json \<Rightarrow> pystr option result" where
  "read_expiry v = (if v = JNull then Inr None else bind_res (as_text v) (\<lambda>s. Inr (Some s)))"

definition read_policy :: "(pystr \<times> json) list \<Rightarrow> policy_document result" where
  "read_policy p =
     bind_res (text_at p (lit ''schema_version'')) (\<lambda>schema_version.
     bind_res (text_at p (lit ''organization_id'')) (\<lambda>organization.
     bind_res (text_at p (lit ''policy_id'')) (\<lambda>i.
     bind_res (text_at p (lit ''access_scope_id'')) (\<lambda>scope.
     bind_res (bind_res (item_of p (lit ''version'')) as_int) (\<lambda>version.
     bind_res (text_at p (lit ''name'')) (\<lambda>name.
     bind_res (text_at p (lit ''owner'')) (\<lambda>owner.
     bind_res (text_at p (lit ''status'')) (\<lambda>status.
     bind_res (text_at p (lit ''effective_at'')) (\<lambda>effective.
     bind_res (bind_res (item_of p (lit ''expires_at'')) read_expiry) (\<lambda>expires.
     bind_res (bind_res (bind_res (item_of p (lit ''binding'')) as_dict) read_binding) (\<lambda>b.
     bind_res (bind_res (bind_res (item_of p (lit ''requirements'')) as_list)
                (map_res (\<lambda>r. bind_res (as_dict r) read_requirement))) (\<lambda>rs.
       Inr \<lparr>pd_schema_version = schema_version, pd_organization_id = organization,
            pd_policy_id = i, pd_access_scope_id = scope, pd_version = version, pd_name = name,
            pd_owner = owner, pd_status = status, pd_effective_at = effective,
            pd_expires_at = expires, pd_binding = b, pd_requirements = rs\<rparr>))))))))))))"

section \<open>The normal form\<close>

definition BINDING_LISTS :: "pystr list" where
  "BINDING_LISTS =
     [lit ''repository_ids'', lit ''entity_ids'', lit ''entity_types'', lit ''path_patterns'',
      lit ''work_item_types'', lit ''target_branches'']"

definition REQUIREMENT_LISTS :: "pystr list" where
  "REQUIREMENT_LISTS = [lit ''required_evidence'', lit ''required_reviewers'', lit ''report_sections'']"

text \<open>\<^verbatim>\<open>item[key] = sorted(item[key])\<close> for each key.\<close>

definition sort_lists :: "pystr list \<Rightarrow> (pystr \<times> json) list \<Rightarrow> (pystr \<times> json) list result" where
  "sort_lists keys items =
     fold_res (\<lambda>k acc. bind_res (texts_at acc k) (\<lambda>ts. Inr (dict_set k (JList (map JStr (sort ts))) acc)))
       keys items"

definition normalized_requirements :: "json list \<Rightarrow> json list result" where
  "normalized_requirements rs =
     bind_res (map_res (\<lambda>r. bind_res (as_dict r) (sort_lists REQUIREMENT_LISTS)) rs) (\<lambda>items.
     bind_res (map_res (\<lambda>i. text_at i (lit ''code'')) items) (\<lambda>codes.
       Inr (map (\<lambda>p. JDict (snd p)) (sort_key fst (zip codes items)))))"

definition normalized_policy :: "(pystr \<times> json) list \<Rightarrow> (pystr \<times> json) list result" where
  "normalized_policy payload =
     bind_res (bind_res (bind_res (item_of payload (lit ''binding'')) as_dict)
                (sort_lists BINDING_LISTS)) (\<lambda>b.
     bind_res (bind_res (bind_res (item_of payload (lit ''requirements'')) as_list)
                normalized_requirements) (\<lambda>rs.
       Inr (dict_set (lit ''requirements'') (JList rs)
              (dict_set (lit ''binding'') (JDict b)
                 (filter (\<lambda>p. fst p \<notin> {lit ''schema_version'', lit ''organization_id''}) payload)))))"

end
