(* ===== verification/Policies.thy ===== *)
theory Policies
  imports PolicyRules GovernanceTables
begin

text \<open>
  The operations of \<^verbatim>\<open>src/anva/core/services/policies.py\<close>: imports, evaluations, overrides and their
  revocation.  An aware datetime is its instant; where the code writes its ISO text into an
  identity, that text is an argument beside it.
\<close>

section \<open>Tables\<close>

definition version_table :: "policy_version table" where
  "version_table =
     \<lparr>tb_rows = (\<lambda>d. policy_versions (governance d)),
      tb_put = (\<lambda>rs d. d\<lparr>governance := (governance d)\<lparr>policy_versions := rs\<rparr>\<rparr>),
      tb_id = pv_id, tb_org = pv_org\<rparr>"

definition evaluation_table :: "policy_evaluation table" where
  "evaluation_table =
     \<lparr>tb_rows = (\<lambda>d. policy_evaluations (governance d)),
      tb_put = (\<lambda>rs d. d\<lparr>governance := (governance d)\<lparr>policy_evaluations := rs\<rparr>\<rparr>),
      tb_id = ev_id, tb_org = ev_org\<rparr>"

definition override_table :: "policy_override table" where
  "override_table =
     \<lparr>tb_rows = (\<lambda>d. policy_overrides (governance d)),
      tb_put = (\<lambda>rs d. d\<lparr>governance := (governance d)\<lparr>policy_overrides := rs\<rparr>\<rparr>),
      tb_id = ov_id, tb_org = ov_org\<rparr>"

interpretation version_rows: tenant_table version_table
  by unfold_locales (simp_all add: version_table_def)

interpretation evaluation_rows: tenant_table evaluation_table
  by unfold_locales (simp_all add: evaluation_table_def)

interpretation override_rows: tenant_table override_table
  by unfold_locales (simp_all add: override_table_def)

section \<open>Import\<close>

definition scope_level_of :: "pystr \<Rightarrow> scope_level result" where
  "scope_level_of s =
     (case find_by (\<lambda>l. scope_level_value l = s)
             [LEVEL_ORGANIZATION, LEVEL_PRODUCT, LEVEL_SYSTEM, LEVEL_REPOSITORY, LEVEL_PATH] of
        None \<Rightarrow> Inl TypeError | Some l \<Rightarrow> Inr l)"

definition enforcement_of :: "pystr \<Rightarrow> enforcement result" where
  "enforcement_of s =
     (case find_by (\<lambda>e. enforcement_value e = s) [BLOCKING, ADVISORY] of
        None \<Rightarrow> Inl TypeError | Some e \<Rightarrow> Inr e)"

text \<open>The decision for every repository of the binding, or for the repository of the actor; the last is kept.\<close>

definition authorize_import ::
  "environment \<Rightarrow> instant \<Rightarrow> db \<Rightarrow> actor_context \<Rightarrow> uuid list \<Rightarrow> uuid \<Rightarrow> decision result"
where
  "authorize_import env now d actor repository_ids scope_id =
     bind_res (guard_res (case actor_repository actor of
                            None \<Rightarrow> True
                          | Some r \<Rightarrow> set repository_ids = {r}) ResourceNotFoundError) (\<lambda>_.
     bind_res (map_res (\<lambda>r. authorize_action env now d actor POLICY_MANAGE r None (Some scope_id) False)
                 (if repository_ids = [] then [actor_repository actor] else map Some repository_ids))
       (\<lambda>decisions. Inr (last decisions)))"

definition check_import_targets ::
  "db \<Rightarrow> uuid \<Rightarrow> uuid \<Rightarrow> uuid list \<Rightarrow> policy_document \<Rightarrow> unit result"
where
  "check_import_targets d org scope_id repository_ids doc =
     bind_res (guard_res (repository_ids = []
                 \<or> set (map repo_id (filter (\<lambda>r. repo_org r = org \<and> repo_active r
                                   \<and> repo_id r \<in> set repository_ids) (repositories d))) = set repository_ids)
                 ResourceNotFoundError) (\<lambda>_.
     bind_res (each_res (\<lambda>p. bind_res (compile_path_pattern p) (\<lambda>_. Inr ()))
                 (bd_path_patterns (pd_binding doc))) (\<lambda>_.
     bind_res (map_res uuid_of (bd_entity_ids (pd_binding doc))) (\<lambda>entity_ids.
     bind_res (guard_res (entity_ids = []
                 \<or> set (map ent_id (filter (\<lambda>e. ent_org e = org \<and> ent_id e \<in> set entity_ids
                                 \<and> ent_access_scope e = scope_id \<and> ent_active e) (entities d))) = set entity_ids)
                 ResourceNotFoundError) (\<lambda>_.
     bind_res (map_res (\<lambda>r. uuid_of (rd_id r)) (pd_requirements doc)) (\<lambda>requirement_ids.
     bind_res (guard_res (distinct requirement_ids) (ValueError ''Policy requirement IDs must be unique''))
       (\<lambda>_. guard_res (distinct (map rd_code (pd_requirements doc)))
              (ValueError ''Policy requirement codes must be unique'')))))))"

definition iso_instant :: "environment \<Rightarrow> pystr \<Rightarrow> instant result" where
  "iso_instant env s =
     (case env_fromisoformat env s of None \<Rightarrow> Inl (ValueError ''Invalid isoformat string'') | Some t \<Rightarrow> Inr t)"

definition effective_window :: "environment \<Rightarrow> policy_document \<Rightarrow> (instant \<times> instant option) result" where
  "effective_window env doc =
     bind_res (iso_instant env (pd_effective_at doc)) (\<lambda>effective.
     case pd_expires_at doc of
       None \<Rightarrow> Inr (effective, None)
     | Some s \<Rightarrow>
         bind_res (iso_instant env s) (\<lambda>expires.
           if expires \<le> effective then Inl (ValueError ''Policy expiry must be after effective_at'')
           else Inr (effective, Some expires)))"

text \<open>
  The rows the version is stored as, with the unique constraints \<^verbatim>\<open>core_policy_version_number_unique\<close>,
  \<^verbatim>\<open>core_policy_version_hash_unique\<close>, \<^verbatim>\<open>core_policy_requirement_code_unique\<close> and the primary key of
  a requirement, which is the identifier the document names.
\<close>

definition insert_version :: "policy_version \<Rightarrow> governance \<Rightarrow> governance result" where
  "insert_version v g =
     (if list_ex (\<lambda>x. pv_org x = pv_org v \<and> pv_policy x = pv_policy v
                   \<and> (pv_version x = pv_version v \<or> pv_content_hash x = pv_content_hash v))
           (policy_versions g)
      then Inl IntegrityError else Inr (g\<lparr>policy_versions := policy_versions g @ [v]\<rparr>))"

definition requirement_of :: "uuid \<Rightarrow> requirement_document \<Rightarrow> policy_requirement result" where
  "requirement_of version r =
     bind_res (uuid_of (rd_id r)) (\<lambda>i.
     bind_res (enforcement_of (rd_enforcement r)) (\<lambda>e.
       Inr \<lparr>rq_id = i, rq_version = version, rq_code = rd_code r, rq_description = rd_description r,
            rq_enforcement = e, rq_check_type = rd_check_type r,
            rq_required_evidence = rd_required_evidence r,
            rq_required_reviewers = rd_required_reviewers r,
            rq_required_approval = rd_required_approval r,
            rq_report_sections = rd_report_sections r\<rparr>))"

definition insert_requirements :: "policy_requirement list \<Rightarrow> governance \<Rightarrow> governance result" where
  "insert_requirements rs g =
     (if list_ex (\<lambda>r. rq_id r \<in> rq_id ` set (policy_requirements g)) rs then Inl IntegrityError
      else Inr (g\<lparr>policy_requirements := policy_requirements g @ rs\<rparr>))"

definition binding_of :: "uuid \<Rightarrow> uuid \<Rightarrow> scope_level \<Rightarrow> binding_document \<Rightarrow> policy_binding" where
  "binding_of fresh version level b =
     \<lparr>bi_id = fresh, bi_version = version, bi_scope_level = level, bi_mandatory = bd_mandatory b,
      bi_repository_ids = bd_repository_ids b, bi_entity_ids = bd_entity_ids b,
      bi_entity_types = bd_entity_types b, bi_path_patterns = bd_path_patterns b,
      bi_work_item_types = bd_work_item_types b, bi_target_branches = bd_target_branches b\<rparr>"

definition new_policy :: "uuid \<Rightarrow> uuid \<Rightarrow> uuid \<Rightarrow> policy_document \<Rightarrow> pystr \<Rightarrow> policy" where
  "new_policy i org scope_id doc digest =
     \<lparr>po_id = i, po_org = org, po_access_scope = scope_id, po_name = pd_name doc,
      po_owner = pd_owner doc, po_status = pd_status doc, po_content_hash = digest, po_revision = 1\<rparr>"

definition next_policy :: "policy \<Rightarrow> policy_document \<Rightarrow> pystr \<Rightarrow> policy" where
  "next_policy p doc digest =
     p\<lparr>po_revision := pd_version doc, po_name := pd_name doc, po_owner := pd_owner doc,
       po_status := pd_status doc, po_content_hash := digest\<rparr>"

text \<open>
  \<^verbatim>\<open>PolicyImportResult\<close>, and the two halves of the import: the pointer row of the policy (or the version
  that is already there), and the immutable rows of a new version.
\<close>

record policy_import_result =
  pi_policy :: policy
  pi_version :: policy_version
  pi_created :: bool

datatype pointer = Existing policy policy_version | Stored policy pystr governance

definition store_pointer ::
  "uuid \<Rightarrow> uuid \<Rightarrow> uuid \<Rightarrow> policy_document \<Rightarrow> pystr \<Rightarrow> governance \<Rightarrow> pointer result"
where
  "store_pointer org scope_id policy_id doc digest g =
     (case find_by (\<lambda>p. po_id p = policy_id \<and> po_org p = org) (policies g) of
        None \<Rightarrow>
          if pd_version doc \<noteq> 1 then Inl (ValueError ''The first policy version must be 1'')
          else if policy_id \<in> po_id ` set (policies g) then Inl IntegrityError
          else let p = new_policy policy_id org scope_id doc digest
               in Inr (Stored p [] (g\<lparr>policies := policies g @ [p]\<rparr>))
      | Some p \<Rightarrow>
          if po_access_scope p \<noteq> scope_id then Inl ResourceNotFoundError
          else
            (case find_by (\<lambda>v. pv_org v = org \<and> pv_policy v = po_id p \<and> pv_version v = pd_version doc)
                    (policy_versions g) of
               Some v \<Rightarrow>
                 if pv_content_hash v \<noteq> digest then Inl IdempotencyConflictError
                 else Inr (Existing p v)
             | None \<Rightarrow>
                 if pd_version doc \<noteq> po_revision p + 1
                 then Inl (ValueError ''Policy versions must be sequential'')
                 else let p' = next_policy p doc digest
                      in Inr (Stored p' (po_status p)
                           (g\<lparr>policies := update_where (\<lambda>x. po_id x = po_id p) (\<lambda>_. p') (policies g)\<rparr>))))"

definition store_version ::
  "environment \<Rightarrow> actor_context \<Rightarrow> policy \<Rightarrow> pystr \<Rightarrow> policy_document \<Rightarrow> (pystr \<times> json) list \<Rightarrow> pystr
     \<Rightarrow> instant \<Rightarrow> instant option \<Rightarrow> uuid \<Rightarrow> uuid \<Rightarrow> governance \<Rightarrow> db \<Rightarrow> (policy_version \<times> db) result"
where
  "store_version env actor p previous_status doc normalized digest effective expires fresh_version
       fresh_binding g d =
     (let v = \<lparr>pv_id = fresh_version, pv_org = po_org p, pv_policy = po_id p,
               pv_version = pd_version doc, pv_schema_version = pd_schema_version doc,
               pv_definition = normalized, pv_content_hash = digest, pv_effective_at = effective,
               pv_expires_at = expires, pv_created_by_type = actor_type actor,
               pv_created_by_id = actor_id actor\<rparr>
      in bind_res (insert_version v g) (\<lambda>g1.
         bind_res (scope_level_of (bd_scope_level (pd_binding doc))) (\<lambda>level.
           let g2 = g1\<lparr>policy_bindings := policy_bindings g1
                         @ [binding_of fresh_binding fresh_version level (pd_binding doc)]\<rparr>
           in bind_res (map_res (requirement_of fresh_version) (pd_requirements doc)) (\<lambda>rs.
              bind_res (insert_requirements rs g2) (\<lambda>g3.
              bind_res (record_transition env (po_org p) actor (lit ''policy'') (po_id p)
                          previous_status (po_status p) (nat (po_revision p))
                          [(lit ''content_hash'', JStr digest)] (d\<lparr>governance := g3\<rparr>))
                (\<lambda>d'. Inr (v, d')))))))"

definition import_policy ::
  "environment \<Rightarrow> actor_context \<Rightarrow> json \<Rightarrow> instant \<Rightarrow> uuid \<Rightarrow> uuid \<Rightarrow> db
     \<Rightarrow> (policy_import_result \<times> db) result"
where
  "import_policy env actor payload now fresh_version fresh_binding d =
     bind_res (canonical_text (env_float_repr env) payload) (\<lambda>text.
     bind_res (guard_res (text_bytes text \<le> 64 * 1024) (ValueError ''Policy import exceeds the 64 KiB limit'')) (\<lambda>_.
     bind_res (validate_payload env (lit ''policy'') payload) (\<lambda>_.
     bind_res (reject_secrets env payload) (\<lambda>_.
     bind_res (as_dict payload) (\<lambda>items.
     bind_res (read_policy items) (\<lambda>doc.
     bind_res (uuid_of (pd_organization_id doc)) (\<lambda>org.
     bind_res (guard_res (org = actor_org actor) ResourceNotFoundError) (\<lambda>_.
     bind_res (uuid_of (pd_access_scope_id doc)) (\<lambda>scope_id.
     bind_res (map_res uuid_of (bd_repository_ids (pd_binding doc))) (\<lambda>repository_ids.
     bind_res (authorize_import env now d actor (sort repository_ids) scope_id) (\<lambda>decision.
     bind_res (audit_actor actor decision) (\<lambda>auditor.
     bind_res (get_tenant_record active_scope_table scope_id org d) (\<lambda>_.
     bind_res (check_import_targets d org scope_id repository_ids doc) (\<lambda>_.
     bind_res (uuid_of (pd_policy_id doc)) (\<lambda>policy_id.
     bind_res (normalized_policy items) (\<lambda>normalized.
     bind_res (content_hash env (JDict normalized)) (\<lambda>digest.
     bind_res (effective_window env doc) (\<lambda>(effective, expires).
     bind_res (store_pointer org scope_id policy_id doc digest (governance d)) (\<lambda>pointer.
       case pointer of
         Existing p v \<Rightarrow> Inr (\<lparr>pi_policy = p, pi_version = v, pi_created = False\<rparr>, d)
       | Stored p previous_status g \<Rightarrow>
           bind_res (store_version env auditor p previous_status doc normalized digest effective
                       expires fresh_version fresh_binding g d)
             (\<lambda>(v, d'). Inr (\<lparr>pi_policy = p, pi_version = v, pi_created = True\<rparr>, d')))))))))))))))))))))"

end
