(* ===== verification/PolicyEvaluation.thy ===== *)
theory PolicyEvaluation
  imports Policies
begin

text \<open>
  \<^verbatim>\<open>evaluate_policy\<close>, \<^verbatim>\<open>create_policy_override\<close> and \<^verbatim>\<open>revoke_policy_override\<close> of
  \<^verbatim>\<open>src/anva/core/services/policies.py\<close>, with the payloads whose digests identify an evaluation.
\<close>

section \<open>The request\<close>

text \<open>\<^verbatim>\<open>reference_text\<close> is \<^verbatim>\<open>reference_time.isoformat()\<close>, which keeps the offset the instant does not.\<close>

record evaluation_request =
  rt_repository :: uuid
  rt_pull_request :: int
  rt_commit :: pystr
  rt_version_ids :: "uuid list"
  rt_reference :: instant
  rt_reference_text :: pystr
  rt_paths :: "pystr list"
  rt_entities :: "(pystr \<times> pystr) list list"
  rt_target_branch :: pystr
  rt_work_revision :: "uuid option"
  rt_simulation :: bool

definition entity_key :: "(pystr \<times> pystr) list \<Rightarrow> (pystr \<times> pystr) result" where
  "entity_key item =
     (case (map_of item (lit ''id''), map_of item (lit ''type'')) of
        (Some i, Some t) \<Rightarrow> bind_res (uuid_of i) (\<lambda>u. Inr (uuid_str u, t))
      | _ \<Rightarrow> Inl TypeError)"

definition normalized_entities :: "(pystr \<times> pystr) list list \<Rightarrow> (pystr \<times> pystr) list result" where
  "normalized_entities ents =
     bind_res (map_res entity_key
                 (filter (\<lambda>e. set (map fst e) = {lit ''id'', lit ''type''}) ents))
       (\<lambda>keys. Inr (sorted_set keys))"

text \<open>The checks before any query: the normalized paths and entities.\<close>

definition check_request ::
  "evaluation_request \<Rightarrow> (pystr list \<times> (pystr \<times> pystr) list) result"
where
  "check_request q =
     bind_res (validate_full_commit (rt_commit q)) (\<lambda>_.
     if rt_version_ids q = [] \<or> length (rt_version_ids q) > 100
     then Inl (ValueError ''Between 1 and 100 policy_version_ids are required'')
     else if \<not> distinct (rt_version_ids q) then Inl (ValueError ''policy_version_ids must be unique'')
     else if rt_pull_request q < 1 then Inl (ValueError ''pull_request_number must be positive'')
     else if length (rt_paths q) > 1000 \<or> length (rt_entities q) > 1000
     then Inl (ValueError ''Evaluation input exceeds safety bounds'')
     else
       bind_res (each_res validate_relative_artifact_path (sorted_set (rt_paths q))) (\<lambda>_.
       bind_res (normalized_entities (rt_entities q)) (\<lambda>ents.
         if length ents \<noteq> length (rt_entities q)
         then Inl (ValueError ''affected_entities must contain unique id/type objects'')
         else if rt_target_branch q = [] \<or> length (rt_target_branch q) > 300
         then Inl (ValueError ''target_branch must be between 1 and 300 characters'')
         else Inr (sorted_set (rt_paths q), ents))))"

section \<open>What is evaluated\<close>

text \<open>The work revision, if one is named, with the scope of its item.\<close>

definition work_context ::
  "db \<Rightarrow> actor_context \<Rightarrow> evaluation_request \<Rightarrow> (work_revision option \<times> uuid list) result"
where
  "work_context d actor q =
     (case rt_work_revision q of
        None \<Rightarrow> Inr (None, [])
      | Some i \<Rightarrow>
          bind_res (get_tenant_record work_revision_table i (actor_org actor) d) (\<lambda>w.
          bind_res (work_item_of d w) (\<lambda>it.
            if wi_repository it \<noteq> rt_repository q then Inl ResourceNotFoundError
            else Inr (Some w, [wi_access_scope it]))))"

definition version_in_force :: "instant \<Rightarrow> policy_version \<Rightarrow> bool" where
  "version_in_force t v \<longleftrightarrow>
     json_get (pv_definition v) (lit ''status'') = Some (JStr (lit ''ACTIVE''))
     \<and> pv_effective_at v \<le> t
     \<and> (case pv_expires_at v of None \<Rightarrow> True | Some e \<Rightarrow> e > t)"

definition requested_versions ::
  "governance \<Rightarrow> uuid \<Rightarrow> evaluation_request \<Rightarrow> policy_version list result"
where
  "requested_versions g org q =
     (let vs = sort_key pv_id (filter (\<lambda>v. pv_id v \<in> set (rt_version_ids q) \<and> pv_org v = org
                 \<and> (rt_simulation q \<or> version_in_force (rt_reference q) v)) (policy_versions g))
      in if length vs \<noteq> length (rt_version_ids q) then Inl ResourceNotFoundError else Inr vs)"

definition policy_of :: "governance \<Rightarrow> policy_version \<Rightarrow> policy result" where
  "policy_of g v =
     (case find_by (\<lambda>p. po_id p = pv_policy v) (policies g) of
        None \<Rightarrow> Inl DoesNotExist | Some p \<Rightarrow> Inr p)"

definition version_scope ::
  "environment \<Rightarrow> instant \<Rightarrow> db \<Rightarrow> actor_context \<Rightarrow> uuid \<Rightarrow> policy_version \<Rightarrow> uuid result"
where
  "version_scope env now d actor repository v =
     bind_res (policy_of (governance d) v) (\<lambda>p.
     bind_res (authorize_action env now d actor POLICY_VIEW (Some repository) None
                 (Some (po_access_scope p)) False) (\<lambda>_. Inr (po_access_scope p)))"

text \<open>The single scope all of them share, as long as it is active.\<close>

definition shared_scope :: "db \<Rightarrow> uuid \<Rightarrow> uuid list \<Rightarrow> uuid result" where
  "shared_scope d org scope_ids =
     (case remdups scope_ids of
        [s] \<Rightarrow> bind_res (get_tenant_record active_scope_table s org d) (\<lambda>x. Inr (sc_id x))
      | _ \<Rightarrow> Inl (ValueError ''MVP policy evaluation requires work and policies to share one access scope''))"

definition check_entities :: "db \<Rightarrow> uuid \<Rightarrow> uuid \<Rightarrow> (pystr \<times> pystr) list \<Rightarrow> unit result" where
  "check_entities d org scope_id keys =
     (if keys = [] then Inr ()
      else bind_res (map_res (\<lambda>k. uuid_of (fst k)) keys) (\<lambda>ids.
        guard_res (set (map (\<lambda>e. (uuid_str (ent_id e), ent_type e))
                     (filter (\<lambda>e. ent_org e = org \<and> ent_id e \<in> set ids
                                 \<and> ent_access_scope e = scope_id \<and> ent_active e) (entities d)))
                   = set keys) ResourceNotFoundError))"

section \<open>Matching and merging\<close>

record considered_binding =
  cb_version :: policy_version
  cb_binding :: policy_binding
  cb_matched :: bool
  cb_reasons :: "pystr list"

definition version_binding :: "governance \<Rightarrow> policy_version \<Rightarrow> policy_binding result" where
  "version_binding g v =
     (case find_by (\<lambda>b. bi_version b = pv_id v) (policy_bindings g) of
        None \<Rightarrow> Inl DoesNotExist | Some b \<Rightarrow> Inr b)"

definition consider_version ::
  "governance \<Rightarrow> evaluation_request \<Rightarrow> pystr list \<Rightarrow> (pystr \<times> pystr) list \<Rightarrow> pystr option
     \<Rightarrow> policy_version \<Rightarrow> considered_binding result"
where
  "consider_version g q paths ents work_type v =
     bind_res (version_binding g v) (\<lambda>b.
     bind_res (binding_matches b (rt_repository q) paths ents work_type (rt_target_branch q))
       (\<lambda>(applies, reasons).
         Inr \<lparr>cb_version = v, cb_binding = b, cb_matched = applies, cb_reasons = reasons\<rparr>))"

definition matched_bindings :: "considered_binding list \<Rightarrow> considered_binding list" where
  "matched_bindings cs =
     sort_key (\<lambda>c. (SCOPE_RANK (bi_scope_level (cb_binding c)), uuid_str (pv_id (cb_version c))))
       (filter cb_matched cs)"

definition requirements_of :: "governance \<Rightarrow> policy_version \<Rightarrow> policy_requirement list" where
  "requirements_of g v =
     sort_key (\<lambda>r. (rq_code r, rq_id r)) (filter (\<lambda>r. rq_version r = pv_id v) (policy_requirements g))"

definition control_inputs :: "governance \<Rightarrow> considered_binding list \<Rightarrow> control_input list" where
  "control_inputs g matched =
     concat (map (\<lambda>c. map (\<lambda>r. (cb_version c, cb_binding c, r)) (requirements_of g (cb_version c))) matched)"

section \<open>Payloads\<close>

definition POLICY_ENGINE_VERSION :: pystr where
  "POLICY_ENGINE_VERSION = lit ''deterministic-policy-v1''"

definition texts_json :: "pystr list \<Rightarrow> json" where
  "texts_json ts = JList (map JStr ts)"

definition source_json :: "control_source \<Rightarrow> json" where
  "source_json s = JDict
     [(lit ''policy_id'', uuid_json (so_policy s)),
      (lit ''policy_version_id'', uuid_json (so_version_id s)),
      (lit ''policy_version'', JInt (so_version s)),
      (lit ''binding_id'', uuid_json (so_binding s)),
      (lit ''scope_level'', JStr (scope_level_value (so_scope_level s))),
      (lit ''mandatory'', JBool (so_mandatory s)),
      (lit ''requirement_id'', uuid_json (so_requirement s))]"

definition control_json :: "control \<Rightarrow> json" where
  "control_json c = JDict
     [(lit ''code'', JStr (ct_code c)), (lit ''description'', JStr (ct_description c)),
      (lit ''enforcement'', JStr (enforcement_value (ct_enforcement c))),
      (lit ''check_type'', JStr (ct_check_type c)),
      (lit ''required_evidence'', texts_json (ct_evidence c)),
      (lit ''required_reviewers'', texts_json (ct_reviewers c)),
      (lit ''required_approval'', JBool (ct_approval c)),
      (lit ''report_sections'', texts_json (ct_sections c)),
      (lit ''sources'', JList (map source_json (ct_sources c)))]"

definition applied_json :: "applied_override \<Rightarrow> json" where
  "applied_json a = JDict
     [(lit ''override_id'', uuid_json (ao_override a)), (lit ''code'', JStr (ao_code a)),
      (lit ''source'', source_json (ao_source a)), (lit ''reason'', JStr (ao_reason a))]"

definition matched_json :: "considered_binding \<Rightarrow> json" where
  "matched_json c = JDict
     [(lit ''policy_version_id'', uuid_json (pv_id (cb_version c))),
      (lit ''binding_id'', uuid_json (bi_id (cb_binding c))),
      (lit ''scope_level'', JStr (scope_level_value (bi_scope_level (cb_binding c)))),
      (lit ''reasons'', texts_json (cb_reasons c))]"

definition considered_json :: "considered_binding \<Rightarrow> json" where
  "considered_json c = JDict
     [(lit ''policy_version_id'', uuid_json (pv_id (cb_version c))),
      (lit ''binding_id'', uuid_json (bi_id (cb_binding c))),
      (lit ''matched'', JBool (cb_matched c)), (lit ''reasons'', texts_json (cb_reasons c))]"

definition evaluation_output ::
  "considered_binding list \<Rightarrow> control list \<Rightarrow> applied_override list \<Rightarrow> json"
where
  "evaluation_output considered controls applied = JDict
     [(lit ''engine_version'', JStr POLICY_ENGINE_VERSION),
      (lit ''outcome'', JStr (lit ''CONTROLS_CALCULATED'')),
      (lit ''controls'', JList (map control_json controls)),
      (lit ''matched_bindings'', JList (map matched_json (matched_bindings considered))),
      (lit ''considered_bindings'',
         JList (map considered_json (sort_key (\<lambda>c. uuid_str (pv_id (cb_version c))) considered))),
      (lit ''applied_overrides'', JList (map applied_json applied)),
      (lit ''limitations'', JList []),
      (lit ''reevaluation_conditions'', texts_json
         [lit ''commit_changed'', lit ''work_item_revision_changed'', lit ''policy_version_changed'',
          lit ''approval_or_override_changed'', lit ''evidence_or_retention_changed''])]"

definition version_json :: "considered_binding \<Rightarrow> json" where
  "version_json c = JDict
     [(lit ''id'', uuid_json (pv_id (cb_version c))), (lit ''version'', JInt (pv_version (cb_version c))),
      (lit ''content_hash'', JStr (pv_content_hash (cb_version c))),
      (lit ''binding_id'', uuid_json (bi_id (cb_binding c)))]"

definition evaluation_input ::
  "uuid \<Rightarrow> evaluation_request \<Rightarrow> work_revision option \<Rightarrow> considered_binding list
     \<Rightarrow> policy_override list \<Rightarrow> pystr list \<Rightarrow> (pystr \<times> pystr) list \<Rightarrow> (pystr \<times> json) list"
where
  "evaluation_input org q work considered overrides paths ents =
     [(lit ''engine_version'', JStr POLICY_ENGINE_VERSION),
      (lit ''organization_id'', uuid_json org),
      (lit ''repository_id'', uuid_json (rt_repository q)),
      (lit ''pull_request_number'', JInt (rt_pull_request q)),
      (lit ''commit_sha'', JStr (rt_commit q)),
      (lit ''work_item_revision_id'', (case work of None \<Rightarrow> JNull | Some w \<Rightarrow> uuid_json (wr_id w))),
      (lit ''work_item_revision_hash'', (case work of None \<Rightarrow> JNull | Some w \<Rightarrow> JStr (wr_content_hash w))),
      (lit ''policy_versions'', JList (map version_json considered)),
      (lit ''active_override_ids'', JList (map (\<lambda>ov. uuid_json (ov_id ov)) overrides)),
      (lit ''reference_time'', JStr (rt_reference_text q)),
      (lit ''affected_paths'', texts_json paths),
      (lit ''affected_entities'', JList (map (\<lambda>(i, t). JDict [(lit ''id'', JStr i), (lit ''type'', JStr t)])
         ents)),
      (lit ''target_branch'', JStr (rt_target_branch q)),
      (lit ''is_simulation'', JBool (rt_simulation q))]"

section \<open>Evaluation\<close>

definition store_evaluation ::
  "environment \<Rightarrow> actor_context \<Rightarrow> evaluation_request \<Rightarrow> uuid \<Rightarrow> work_revision option \<Rightarrow> (pystr \<times> json) list
     \<Rightarrow> json \<Rightarrow> uuid \<Rightarrow> db \<Rightarrow> ((policy_evaluation \<times> bool) \<times> db) result"
where
  "store_evaluation env actor q scope_id work inputs output fresh d =
     bind_res (content_hash env (JDict inputs)) (\<lambda>input_digest.
     bind_res (content_hash env output) (\<lambda>output_digest.
     case first_by ev_id (filter (\<lambda>e. ev_org e = actor_org actor \<and> ev_input_hash e = input_digest)
                           (policy_evaluations (governance d))) of
       Some e \<Rightarrow>
         if ev_output_hash e \<noteq> output_digest then Inl IdempotencyConflictError else Inr ((e, False), d)
     | None \<Rightarrow>
         let e = \<lparr>ev_id = fresh, ev_org = actor_org actor, ev_repository = rt_repository q,
                  ev_access_scope = scope_id, ev_work_revision = map_option wr_id work,
                  ev_pull_request = rt_pull_request q, ev_commit = rt_commit q,
                  ev_reference_time = rt_reference q, ev_is_simulation = rt_simulation q,
                  ev_input = inputs, ev_input_hash = input_digest, ev_output = output,
                  ev_output_hash = output_digest\<rparr>
         in bind_res (record_transition env (actor_org actor) actor (lit ''policyevaluation'') fresh []
                        (lit ''CONTROLS_CALCULATED'') 1
                        [(lit ''content_hash'', JStr output_digest),
                         (lit ''repository_id'', JStr (uuid_str (rt_repository q)))]
                        (create_row evaluation_table e d))
              (\<lambda>d'. Inr ((e, True), d'))))"

definition evaluate_policy ::
  "environment \<Rightarrow> actor_context \<Rightarrow> evaluation_request \<Rightarrow> instant \<Rightarrow> uuid \<Rightarrow> db
     \<Rightarrow> ((policy_evaluation \<times> bool) \<times> db) result"
where
  "evaluate_policy env actor q now fresh d =
     bind_res (check_request q) (\<lambda>(paths, ents).
     bind_res (authorize_action env now d actor POLICY_VIEW (Some (rt_repository q)) None None False) (\<lambda>_.
     bind_res (authorize_action env now d actor ASSURANCE_EXECUTE (Some (rt_repository q)) None None False) (\<lambda>_.
     bind_res (get_tenant_record active_repository_table (rt_repository q) (actor_org actor) d) (\<lambda>_.
     bind_res (work_context d actor q) (\<lambda>(work, work_scopes).
     bind_res (requested_versions (governance d) (actor_org actor) q) (\<lambda>versions.
     bind_res (map_res (version_scope env now d actor (rt_repository q)) versions) (\<lambda>policy_scopes.
     bind_res (shared_scope d (actor_org actor) (work_scopes @ policy_scopes)) (\<lambda>scope_id.
     bind_res (authorize_action env now d actor ASSURANCE_EXECUTE (Some (rt_repository q)) None
                 (Some scope_id) False) (\<lambda>decision.
     bind_res (audit_actor actor decision) (\<lambda>auditor.
     bind_res (check_entities d (actor_org actor) scope_id ents) (\<lambda>_.
     bind_res (map_res (consider_version (governance d) q paths ents (map_option wr_work_type work)) versions)
       (\<lambda>considered.
       let overrides = active_overrides (governance d) (actor_org actor) (rt_repository q)
                         (rt_pull_request q) (rt_commit q) (map pv_id versions) (rt_reference q)
       in bind_res (calculate_controls overrides
                      (control_inputs (governance d) (matched_bindings considered)))
            (\<lambda>(controls, applied).
              store_evaluation env auditor q scope_id work
                (evaluation_input (actor_org actor) q work considered overrides paths ents)
                (evaluation_output considered controls applied) fresh d)))))))))))))"

section \<open>Overrides\<close>

text \<open>
  \<^verbatim>\<open>create_policy_override\<close> and \<^verbatim>\<open>revoke_policy_override\<close> of \<^verbatim>\<open>src/anva/core/services/policies.py\<close>.  The
  expiry of an override is its instant with its ISO text.
\<close>

text \<open>\<^verbatim>\<open>{item["id"] for item in evaluation.input_payload["policy_versions"]}\<close>.\<close>

definition evaluated_version_ids :: "policy_evaluation \<Rightarrow> pystr list result" where
  "evaluated_version_ids e =
     bind_res (bind_res (item_of (ev_input e) (lit ''policy_versions'')) as_list)
       (map_res (\<lambda>v. bind_res (as_dict v) (\<lambda>i. text_at i (lit ''id''))))"

definition override_target ::
  "governance \<Rightarrow> policy_evaluation \<Rightarrow> policy_version \<Rightarrow> uuid \<Rightarrow> uuid \<Rightarrow> pystr \<Rightarrow> int \<Rightarrow> pystr
     \<Rightarrow> unit result"
where
  "override_target g e v repository policy_id code pull_request commit =
     (if ev_repository e \<noteq> repository \<or> ev_pull_request e \<noteq> pull_request \<or> ev_commit e \<noteq> commit
         \<or> pv_policy v \<noteq> policy_id
      then Inl ResourceNotFoundError
      else
        bind_res (evaluated_version_ids e) (\<lambda>ids.
          guard_res (uuid_str (pv_id v) \<in> set ids
                     \<and> list_ex (\<lambda>r. rq_version r = pv_id v \<and> rq_code r = code) (policy_requirements g))
            ResourceNotFoundError))"

definition override_identity ::
  "policy_evaluation \<Rightarrow> policy_version \<Rightarrow> actor_context \<Rightarrow> pystr \<Rightarrow> pystr \<Rightarrow> (instant \<times> pystr) option \<Rightarrow> json"
where
  "override_identity e v actor code reason expires = JDict
     [(lit ''evaluation_id'', uuid_json (ev_id e)),
      (lit ''policy_version_id'', uuid_json (pv_id v)),
      (lit ''repository_id'', uuid_json (ev_repository e)),
      (lit ''pull_request_number'', JInt (ev_pull_request e)),
      (lit ''commit_sha'', JStr (ev_commit e)),
      (lit ''requirement_code'', JStr code),
      (lit ''actor_type'', JStr (actor_type actor)),
      (lit ''actor_id'', JStr (actor_id actor)),
      (lit ''reason'', JStr reason),
      (lit ''expires_at'', case expires of None \<Rightarrow> JNull | Some (t, text) \<Rightarrow> JStr text)]"

definition future_expiry :: "instant \<Rightarrow> (instant \<times> pystr) option \<Rightarrow> bool" where
  "future_expiry now expires = (case expires of None \<Rightarrow> True | Some (t, text) \<Rightarrow> t > now)"

definition create_policy_override ::
  "environment \<Rightarrow> actor_context \<Rightarrow> uuid \<Rightarrow> uuid \<Rightarrow> uuid \<Rightarrow> uuid \<Rightarrow> pystr \<Rightarrow> int \<Rightarrow> pystr \<Rightarrow> pystr
     \<Rightarrow> (instant \<times> pystr) option \<Rightarrow> instant \<Rightarrow> uuid \<Rightarrow> db \<Rightarrow> ((policy_override \<times> bool) \<times> db) result"
where
  "create_policy_override env actor repository policy_id evaluation_id version_id code pull_request
       commit reason expires now fresh d =
     bind_res (validate_full_commit commit) (\<lambda>_.
     bind_res (authorize_action env now d actor POLICY_OVERRIDE (Some repository) None None False) (\<lambda>_.
     bind_res (get_tenant_record evaluation_table evaluation_id (actor_org actor) d) (\<lambda>e.
     bind_res (get_tenant_record version_table version_id (actor_org actor) d) (\<lambda>v.
     bind_res (override_target (governance d) e v repository policy_id code pull_request commit) (\<lambda>_.
     bind_res (policy_of (governance d) v) (\<lambda>p.
     bind_res (guard_res (po_access_scope p = ev_access_scope e) ResourceNotFoundError) (\<lambda>_.
     bind_res (authorize_action env now d actor POLICY_OVERRIDE (Some repository) None
                 (Some (ev_access_scope e)) False) (\<lambda>decision.
     bind_res (audit_actor actor decision) (\<lambda>auditor.
     bind_res (guard_res (strip reason \<noteq> []) (ValueError ''Override reason is required'')) (\<lambda>_.
     bind_res (reject_secrets env (JStr reason)) (\<lambda>_.
     bind_res (guard_res (future_expiry now expires)
                 (ValueError ''Override expiry must be a future timezone-aware timestamp'')) (\<lambda>_.
     bind_res (content_hash env (override_identity e v auditor code reason expires)) (\<lambda>key.
     bind_res (get_tenant_record_for_update evaluation_table (ev_id e) (actor_org actor) d) (\<lambda>_.
     case first_by ov_id (filter (\<lambda>ov. ov_org ov = actor_org actor \<and> ov_idempotency_key ov = key)
                            (policy_overrides (governance d))) of
       Some ov \<Rightarrow> Inr ((ov, False), d)
     | None \<Rightarrow>
         let ov = \<lparr>ov_id = fresh, ov_org = actor_org actor, ov_evaluation = ev_id e,
                   ov_version = pv_id v, ov_repository = repository, ov_pull_request = pull_request,
                   ov_code = code, ov_commit = commit, ov_actor_type = actor_type auditor,
                   ov_actor_id = actor_id auditor, ov_authority_path = actor_path auditor,
                   ov_reason = reason, ov_idempotency_key = key,
                   ov_expires_at = map_option fst expires, ov_created_at = now\<rparr>
         in bind_res (record_transition env (ev_org e) auditor (lit ''policyoverride'') fresh []
                        (lit ''ACTIVE'') 1 [] (create_row override_table ov d))
              (\<lambda>d'. Inr ((ov, True), d'))))))))))))))))"

definition override_context :: "db \<Rightarrow> policy_override \<Rightarrow> (policy \<times> policy_evaluation) result" where
  "override_context d ov =
     (case find_by (\<lambda>v. pv_id v = ov_version ov) (policy_versions (governance d)) of
        None \<Rightarrow> Inl DoesNotExist
      | Some v \<Rightarrow>
          bind_res (policy_of (governance d) v) (\<lambda>p.
          case find_by (\<lambda>e. ev_id e = ov_evaluation ov) (policy_evaluations (governance d)) of
            None \<Rightarrow> Inl DoesNotExist
          | Some e \<Rightarrow> Inr (p, e)))"

definition revoke_policy_override ::
  "environment \<Rightarrow> actor_context \<Rightarrow> uuid \<Rightarrow> uuid \<Rightarrow> pystr \<Rightarrow> instant \<Rightarrow> uuid \<Rightarrow> db
     \<Rightarrow> ((override_revocation \<times> bool) \<times> db) result"
where
  "revoke_policy_override env actor repository override_id reason now fresh d =
     bind_res (authorize_action env now d actor POLICY_OVERRIDE (Some repository) None None False) (\<lambda>_.
     bind_res (get_tenant_record override_table override_id (actor_org actor) d) (\<lambda>ov.
     bind_res (guard_res (ov_repository ov = repository) ResourceNotFoundError) (\<lambda>_.
     bind_res (override_context d ov) (\<lambda>(p, e).
     bind_res (guard_res (po_access_scope p = ev_access_scope e) ResourceNotFoundError) (\<lambda>_.
     bind_res (authorize_action env now d actor POLICY_OVERRIDE (Some repository) None
                 (Some (ev_access_scope e)) False) (\<lambda>decision.
     bind_res (audit_actor actor decision) (\<lambda>auditor.
     bind_res (guard_res (strip reason \<noteq> []) (ValueError ''Revocation reason is required'')) (\<lambda>_.
     bind_res (reject_secrets env (JStr reason)) (\<lambda>_.
     bind_res (get_tenant_record_for_update override_table (ov_id ov) (actor_org actor) d) (\<lambda>_.
     case find_by (\<lambda>x. or_override x = ov_id ov) (override_revocations (governance d)) of
       Some x \<Rightarrow> Inr ((x, False), d)
     | None \<Rightarrow>
         let x = \<lparr>or_id = fresh, or_org = actor_org actor, or_override = ov_id ov,
                  or_actor_type = actor_type auditor, or_actor_id = actor_id auditor,
                  or_authority_path = actor_path auditor, or_reason = reason, or_revoked_at = now\<rparr>
         in bind_res (record_transition env (ov_org ov) auditor (lit ''policyoverriderevocation'') fresh
                        (lit ''ACTIVE'') (lit ''REVOKED'') 1 []
                        (d\<lparr>governance := (governance d)\<lparr>override_revocations :=
                              override_revocations (governance d) @ [x]\<rparr>\<rparr>))
              (\<lambda>d'. Inr ((x, True), d'))))))))))))"

end
