(* ===== verification/PolicySafety.thy ===== *)
theory PolicySafety
  imports PolicyEvaluation
begin

text \<open>
  What the rules of the policy engine compute: the language of a path pattern, the controls as a
  declarative merge, and the overrides that count.
\<close>

section \<open>The language of a path pattern\<close>

definition glob :: "pystr \<Rightarrow> pystr \<Rightarrow> bool" where
  "glob p s \<longleftrightarrow> ((), []) \<in> set (pattern_rx p s)"

lemma glob_matches:
  "rx_fullmatch (pattern_rx p) s \<noteq> None \<longleftrightarrow> glob p s"
  by (simp add: rx_fullmatch_None glob_def)

lemma glob_rules:
  "glob [] s \<longleftrightarrow> s = []"
  "glob (42 # 42 # p) s \<longleftrightarrow> (\<exists>a t. s = a @ t \<and> 10 \<notin> set a \<and> glob p t)"
  "p = [] \<or> hd p \<noteq> 42 \<Longrightarrow> glob (42 # p) s \<longleftrightarrow> (\<exists>a t. s = a @ t \<and> 47 \<notin> set a \<and> glob p t)"
  "glob (63 # p) s \<longleftrightarrow> (\<exists>x t. s = x # t \<and> x \<noteq> 47 \<and> glob p t)"
  "c \<noteq> 42 \<Longrightarrow> c \<noteq> 63 \<Longrightarrow> glob (c # p) s \<longleftrightarrow> (\<exists>t. s = c # t \<and> glob p t)"
proof -
  have free: "list_all (\<lambda>x. x \<noteq> y) a \<longleftrightarrow> y \<notin> set a" for a and y :: nat
    by (auto simp: list_all_iff)
  show "glob [] s \<longleftrightarrow> s = []" by (auto simp: glob_def rx_elims)
  show "glob (42 # 42 # p) s \<longleftrightarrow> (\<exists>a t. s = a @ t \<and> 10 \<notin> set a \<and> glob p t)"
    by (auto simp: glob_def rx_elims free)
  show "glob (42 # p) s \<longleftrightarrow> (\<exists>a t. s = a @ t \<and> 47 \<notin> set a \<and> glob p t)" if "p = [] \<or> hd p \<noteq> 42"
    using that by (cases p) (auto simp: glob_def rx_elims free)
  show "glob (63 # p) s \<longleftrightarrow> (\<exists>x t. s = x # t \<and> x \<noteq> 47 \<and> glob p t)"
  proof -
    have "(\<exists>a. s = a @ t \<and> 47 \<notin> set a \<and> Suc 0 \<le> length a \<and> length a \<le> Suc 0)
        \<longleftrightarrow> (\<exists>x. s = x # t \<and> x \<noteq> 47)" for t
      by (auto simp: le_Suc_eq length_Suc_conv)
    moreover have "glob (63 # p) s \<longleftrightarrow> (\<exists>t. (\<exists>a. s = a @ t \<and> 47 \<notin> set a \<and> Suc 0 \<le> length a \<and> length a \<le> Suc 0)
        \<and> glob p t)"
      by (auto simp: glob_def rx_elims free)
    ultimately show ?thesis by blast
  qed
  show "glob (c # p) s \<longleftrightarrow> (\<exists>t. s = c # t \<and> glob p t)" if "c \<noteq> 42" "c \<noteq> 63"
    using that by (auto simp: glob_def rx_elims)
qed

text \<open>The usual wildcards, inside one segment.\<close>

fun wildcard :: "pystr \<Rightarrow> pystr \<Rightarrow> bool" where
  "wildcard [] s \<longleftrightarrow> s = []"
| "wildcard (c # p) s \<longleftrightarrow>
     (if c = 42 then list_ex (\<lambda>n. wildcard p (drop n s)) [0..<Suc (length s)]
      else (case s of [] \<Rightarrow> False | x # t \<Rightarrow> (c = 63 \<or> x = c) \<and> wildcard p t))"

lemma wildcard_star: "wildcard (42 # p) s \<longleftrightarrow> (\<exists>a t. s = a @ t \<and> wildcard p t)"
proof
  assume "wildcard (42 # p) s"
  then obtain n where "wildcard p (drop n s)" by (auto simp: list_ex_iff simp del: upt_Suc)
  then show "\<exists>a t. s = a @ t \<and> wildcard p t" by (metis append_take_drop_id)
next
  assume "\<exists>a t. s = a @ t \<and> wildcard p t"
  then obtain a t where at: "s = a @ t" "wildcard p t" by blast
  then have "wildcard p (drop (length a) s)" by simp
  then show "wildcard (42 # p) s" using at(1) by (auto simp: list_ex_iff simp del: upt_Suc intro!: bexI [where x = "length a"])
qed

lemma split_on_prefix:
  assumes "c \<notin> set a" "split_on c t = z # zs"
  shows "split_on c (a @ t) = (a @ z) # zs"
  using assms by (induction a) auto

lemma split_on_empty_head:
  "split_on c s = [] # zs \<longleftrightarrow> (s = [] \<and> zs = []) \<or> (\<exists>t. s = c # t \<and> zs = split_on c t)"
  by (cases s; cases "split_on c (tl s)") auto

lemma split_on_Cons_head:
  "split_on c s = (x # z) # zs \<longleftrightarrow> x \<noteq> c \<and> (\<exists>t. s = x # t \<and> split_on c t = z # zs)"
  by (cases s; cases "split_on c (tl s)") auto

text \<open>A segment of text cut off the first segment of a split.\<close>

lemma split_on_append_head:
  "split_on c s = (a @ z) # zs \<longleftrightarrow> c \<notin> set a \<and> (\<exists>t. s = a @ t \<and> split_on c t = z # zs)"
proof (induction a arbitrary: s)
  case Nil
  then show ?case by simp
next
  case (Cons x a)
  show ?case using Cons by (auto simp: split_on_Cons_head)
qed

lemma glob_segments:
  assumes "\<not> contains p [42, 42]"
  shows "glob p s \<longleftrightarrow> list_all2 wildcard (split_on 47 p) (split_on 47 s)"
  using assms
proof (induction p arbitrary: s)
  case Nil
  have "list_all2 wildcard [[]] ts \<longleftrightarrow> ts = [[]]" for ts by (auto simp: list_all2_Cons1)
  then show ?case using split_on_empty_head [of 47 s "[]"] split_on_nonempty [of 47] by (metis glob_rules(1) split_on.simps(1))
next
  case (Cons c p)
  then have IH: "glob p t \<longleftrightarrow> list_all2 wildcard (split_on 47 p) (split_on 47 t)" for t by simp
  obtain y ys where y: "split_on 47 p = y # ys" using split_on_nonempty by (meson neq_Nil_conv)
  have first: "list_all2 wildcard (y # ys) (split_on 47 t) \<longleftrightarrow>
      (\<exists>z zs. split_on 47 t = z # zs \<and> wildcard y z \<and> list_all2 wildcard ys zs)" for t
    by (auto simp: list_all2_Cons1)
  consider "c = 47" | "c = 42" | "c = 63" | "c \<noteq> 47" "c \<noteq> 42" "c \<noteq> 63" by blast
  then show ?case
  proof cases
    case 1
    have "list_all2 wildcard ([] # y # ys) (split_on 47 s) \<longleftrightarrow>
        (\<exists>zs. split_on 47 s = [] # zs \<and> list_all2 wildcard (y # ys) zs)"
      by (auto simp: list_all2_Cons1)
    also have "\<dots> \<longleftrightarrow> (\<exists>t. s = 47 # t \<and> list_all2 wildcard (y # ys) (split_on 47 t))"
      by (auto simp: split_on_empty_head)
    finally show ?thesis using 1 IH y by (simp add: glob_rules(5))
  next
    case 2
    have "prefix [42] p \<Longrightarrow> False" using Cons.prems 2 by (auto simp: prefix_def)
    then have single: "p = [] \<or> hd p \<noteq> 42" by (cases p) auto
    have "list_all2 wildcard ((42 # y) # ys) (split_on 47 s) \<longleftrightarrow>
        (\<exists>w zs. split_on 47 s = w # zs \<and> wildcard (42 # y) w \<and> list_all2 wildcard ys zs)"
      by (auto simp: list_all2_Cons1 simp del: wildcard.simps)
    also have "\<dots> \<longleftrightarrow> (\<exists>a z zs. split_on 47 s = (a @ z) # zs \<and> wildcard y z \<and> list_all2 wildcard ys zs)"
      unfolding wildcard_star by blast
    also have "\<dots> \<longleftrightarrow> (\<exists>a t. s = a @ t \<and> 47 \<notin> set a \<and> list_all2 wildcard (y # ys) (split_on 47 t))"
      unfolding split_on_append_head first by blast
    finally show ?thesis using 2 IH y single by (simp add: glob_rules(3) del: wildcard.simps)
  next
    case 3
    have "list_all2 wildcard ((63 # y) # ys) (split_on 47 s) \<longleftrightarrow>
        (\<exists>x z zs. split_on 47 s = (x # z) # zs \<and> wildcard y z \<and> list_all2 wildcard ys zs)"
      by (cases "split_on 47 s"; cases "hd (split_on 47 s)") auto
    also have "\<dots> \<longleftrightarrow> (\<exists>x t. s = x # t \<and> x \<noteq> 47 \<and> list_all2 wildcard (y # ys) (split_on 47 t))"
      unfolding split_on_Cons_head first by blast
    finally show ?thesis using 3 IH y by (simp add: glob_rules(4) del: wildcard.simps)
  next
    case 4
    have "list_all2 wildcard ((c # y) # ys) (split_on 47 s) \<longleftrightarrow>
        (\<exists>z zs. split_on 47 s = (c # z) # zs \<and> wildcard y z \<and> list_all2 wildcard ys zs)"
      using 4 by (cases "split_on 47 s"; cases "hd (split_on 47 s)") auto
    also have "\<dots> \<longleftrightarrow> (\<exists>t. s = c # t \<and> list_all2 wildcard (y # ys) (split_on 47 t))"
      unfolding split_on_Cons_head first using 4 by blast
    finally show ?thesis using 4 IH y by (simp add: glob_rules(5) del: wildcard.simps)
  qed
qed

text \<open>Around a double star anything may stand, whatever segments it spans.\<close>

lemma glob_around:
  assumes "p = [] \<or> last p \<noteq> 42"
  shows "glob (p @ q) s \<longleftrightarrow> (\<exists>a b. s = a @ b \<and> glob p a \<and> glob q b)"
  using assms
proof (induction p arbitrary: s rule: length_induct)
  case (1 p)
  then have IH: "glob (r @ q) t \<longleftrightarrow> (\<exists>a b. t = a @ b \<and> glob r a \<and> glob q b)"
    if "length r < length p" "r = [] \<or> last r \<noteq> 42" for r t using that by blast
  show ?case
  proof (cases p)
    case Nil
    then show ?thesis by (simp add: glob_rules(1))
  next
    case (Cons c r)
    have r: "r = [] \<or> last r \<noteq> 42" using "1.prems" Cons by (cases r) auto
    consider r' where "c = 42" "r = 42 # r'" | "c = 42" "r \<noteq> []" "hd r \<noteq> 42" | "c = 63" | "c \<noteq> 42" "c \<noteq> 63"
      using "1.prems" Cons by (cases r) auto
    then show ?thesis
    proof cases
      case 1
      have "r' = [] \<or> last r' \<noteq> 42" using r 1 by (cases r') auto
      then have IH': "glob (r' @ q) t \<longleftrightarrow> (\<exists>a b. t = a @ b \<and> glob r' a \<and> glob q b)" for t
        using Cons 1 by (intro IH) simp_all
      show ?thesis unfolding Cons 1 append_Cons glob_rules(2) IH' by (metis append.assoc)
    next
      case 2
      then have "r @ q = [] \<or> hd (r @ q) \<noteq> 42" "r = [] \<or> hd r \<noteq> 42" by simp_all
      then have star: "glob (42 # r @ q) t \<longleftrightarrow> (\<exists>a b. t = a @ b \<and> 47 \<notin> set a \<and> glob (r @ q) b)"
        "glob (42 # r) t \<longleftrightarrow> (\<exists>a b. t = a @ b \<and> 47 \<notin> set a \<and> glob r b)" for t
        using glob_rules(3) by blast+
      have IH': "glob (r @ q) t \<longleftrightarrow> (\<exists>a b. t = a @ b \<and> glob r a \<and> glob q b)" for t
        using Cons r by (intro IH) simp_all
      show ?thesis unfolding Cons 2(1) append_Cons star IH' by (metis append.assoc)
    next
      case 3
      have IH': "glob (r @ q) t \<longleftrightarrow> (\<exists>a b. t = a @ b \<and> glob r a \<and> glob q b)" for t
        using Cons r by (intro IH) simp_all
      show ?thesis unfolding Cons 3 append_Cons glob_rules(4) IH' by (metis append_Cons)
    next
      case 4
      have IH': "glob (r @ q) t \<longleftrightarrow> (\<exists>a b. t = a @ b \<and> glob r a \<and> glob q b)" for t
        using Cons r by (intro IH) simp_all
      show ?thesis unfolding Cons append_Cons glob_rules(5) [OF 4] IH' by (metis append_Cons)
    qed
  qed
qed

section \<open>The grammar of a path pattern\<close>

text \<open>
  The language of a path pattern as the path grammar of a policy means it: the pattern is cut at its
  double stars, each piece matches segment by segment, and anything may stand at a double star.
\<close>

fun double_stars :: "pystr \<Rightarrow> pystr list" where
  "double_stars [] = [[]]"
| "double_stars [c] = [[c]]"
| "double_stars (c # c' # p) =
     (if c = 42 \<and> c' = 42 then [] # double_stars p
      else (case double_stars (c' # p) of [] \<Rightarrow> [[c]] | u # us \<Rightarrow> (c # u) # us))"

definition segments_match :: "pystr \<Rightarrow> pystr \<Rightarrow> bool" where
  "segments_match p s \<longleftrightarrow> list_all2 wildcard (split_on 47 p) (split_on 47 s)"

fun pieces_match :: "pystr list \<Rightarrow> pystr \<Rightarrow> bool" where
  "pieces_match [] s \<longleftrightarrow> False"
| "pieces_match [u] s \<longleftrightarrow> segments_match u s"
| "pieces_match (u # us) s \<longleftrightarrow>
     list_ex (\<lambda>i. segments_match u (take i s) \<and> list_ex (\<lambda>j. pieces_match us (drop j s)) [i..<Suc (length s)])
       [0..<Suc (length s)]"

lemma pieces_match_Cons:
  "pieces_match (u # v # us) s \<longleftrightarrow> (\<exists>a b c. s = a @ b @ c \<and> segments_match u a \<and> pieces_match (v # us) c)"
proof
  assume "pieces_match (u # v # us) s"
  then obtain i j where ij: "segments_match u (take i s)" "i \<le> j" "pieces_match (v # us) (drop j s)"
    by (auto simp: list_ex_iff simp del: upt_Suc)
  have "s = take i s @ take (j - i) (drop i s) @ drop j s"
    using ij(2) by (metis append_take_drop_id drop_drop le_add_diff_inverse2)
  then show "\<exists>a b c. s = a @ b @ c \<and> segments_match u a \<and> pieces_match (v # us) c" using ij by blast
next
  assume "\<exists>a b c. s = a @ b @ c \<and> segments_match u a \<and> pieces_match (v # us) c"
  then obtain a b c where s: "s = a @ b @ c" "segments_match u a" "pieces_match (v # us) c" by blast
  then have "segments_match u (take (length a) s) \<and> pieces_match (v # us) (drop (length a + length b) s)" by simp
  moreover have "length a + length b \<in> set [length a..<Suc (length s)]" "length a \<in> set [0..<Suc (length s)]"
    using s(1) by simp_all
  ultimately show "pieces_match (u # v # us) s" unfolding pieces_match.simps list_ex_iff by blast
qed

lemma double_stars_nonempty [simp]: "double_stars p \<noteq> []"
  by (cases p rule: double_stars.cases) (simp_all split: list.split)

lemma double_stars_cut:
  assumes "double_stars p = u # us"
  shows "(us = [] \<and> p = u \<and> \<not> contains p [42, 42])
     \<or> (\<exists>w. p = u @ 42 # 42 # w \<and> us = double_stars w \<and> (u = [] \<or> last u \<noteq> 42) \<and> \<not> contains u [42, 42])"
  using assms
proof (induction p arbitrary: u us rule: double_stars.induct)
  case (3 c c' p)
  show ?case
  proof (cases "c = 42 \<and> c' = 42")
    case True
    then show ?thesis using 3(3) by auto
  next
    case False
    obtain v vs where v: "double_stars (c' # p) = v # vs" by (meson double_stars_nonempty neq_Nil_conv)
    have u: "u = c # v" "us = vs" using 3(3) False v by auto
    from 3(2) [OF False v] consider "vs = []" "c' # p = v" "\<not> contains (c' # p) [42, 42]"
      | w where "c' # p = v @ 42 # 42 # w" "vs = double_stars w" "v = [] \<or> last v \<noteq> 42" "\<not> contains v [42, 42]"
      by blast
    then show ?thesis
    proof cases
      case 1
      then show ?thesis using u False by (auto simp: prefix_def)
    next
      case w: (2 w)
      have "c \<noteq> 42" if "v = []" using False w(1) that by auto
      moreover have "\<not> prefix [42, 42] (c # v)"
        using False w(1) by (cases v) (auto simp: prefix_def)
      ultimately show ?thesis using u w by auto
    qed
  qed
qed (auto simp: prefix_def)

lemma glob_pieces:
  assumes "10 \<notin> set s"
  shows "glob p s \<longleftrightarrow> pieces_match (double_stars p) s"
  using assms
proof (induction p arbitrary: s rule: length_induct)
  case (1 p)
  obtain u us where u: "double_stars p = u # us" by (meson double_stars_nonempty neq_Nil_conv)
  from double_stars_cut [OF u] consider "us = []" "p = u" "\<not> contains p [42, 42]"
    | w where "p = u @ 42 # 42 # w" "us = double_stars w" "u = [] \<or> last u \<noteq> 42" "\<not> contains u [42, 42]"
    by blast
  then show ?case
  proof cases
    case short: 1
    then show ?thesis using glob_segments [of p s] unfolding u by (simp add: segments_match_def)
  next
    case w: (2 w)
    have rest: "glob w c \<longleftrightarrow> pieces_match us c" if "10 \<notin> set c" for c
      using "1.IH" w(1,2) that by simp
    have "glob p s \<longleftrightarrow> (\<exists>a t. s = a @ t \<and> glob u a \<and> glob (42 # 42 # w) t)"
      unfolding w(1) by (rule glob_around [OF w(3)])
    also have "\<dots> \<longleftrightarrow> (\<exists>a b c. s = a @ b @ c \<and> segments_match u a \<and> pieces_match us c)"
    proof -
      have "10 \<notin> set c" if "s = a @ b @ c" for a b c using "1.prems" that by auto
      moreover have "10 \<notin> set b" if "s = a @ b @ c" for a b c using "1.prems" that by auto
      ultimately show ?thesis
        unfolding glob_rules(2) glob_segments [OF w(4)] segments_match_def by (metis rest)
    qed
    also have "\<dots> \<longleftrightarrow> pieces_match (double_stars p) s"
      unfolding u by (cases us) (simp_all only: pieces_match_Cons, use w(2) in simp)
    finally show ?thesis .
  qed
qed

lemma valid_path_chars:
  assumes "validate_relative_artifact_path s = Inr ()"
  shows "10 \<notin> set s"
  using assms by (force simp: validate_relative_artifact_path_def list_ex_iff split: if_splits)

lemma pattern_decides:
  assumes "validate_relative_artifact_path p = Inr ()" "validate_relative_artifact_path s = Inr ()"
  shows "path_pattern_matches p s = Inr (pieces_match (double_stars p) s)"
  using assms glob_matches [of p s] glob_pieces [OF valid_path_chars [OF assms(2)], of p]
  by (simp add: path_pattern_matches_def compile_path_pattern_def del: rx_fullmatch_None)

end
