(* ===== verification/ControlMerge.thy ===== *)
theory ControlMerge
  imports PolicyEvaluation
begin

text \<open>
  The additive merge of \<^verbatim>\<open>evaluate_policy\<close> against its declarative meaning: one control per code,
  which carries everything that any requirement of that code asks for.
\<close>

section \<open>The reference\<close>

definition code_of :: "control_input \<Rightarrow> pystr" where
  "code_of = (\<lambda>(v, b, r). rq_code r)"

definition wanted :: "control_input \<Rightarrow> policy_requirement" where
  "wanted = (\<lambda>(v, b, r). r)"

text \<open>The control of a code, from the requirements of the code in their order.\<close>

definition merged_control :: "control_input list \<Rightarrow> control" where
  "merged_control xs =
     (let rs = map wanted xs in
      \<lparr>ct_code = rq_code (hd rs), ct_description = rq_description (hd rs),
       ct_enforcement = (if list_ex (\<lambda>r. rq_enforcement r = BLOCKING) rs then BLOCKING else ADVISORY),
       ct_check_type = rq_check_type (hd rs),
       ct_evidence = sorted_set (concat (map rq_required_evidence rs)),
       ct_reviewers = sorted_set (concat (map rq_required_reviewers rs)),
       ct_approval = list_ex rq_required_approval rs,
       ct_sections = sorted_set (concat (map rq_report_sections rs)),
       ct_sources = map source_of xs\<rparr>)"

definition of_code :: "control_input list \<Rightarrow> pystr \<Rightarrow> control_input list" where
  "of_code xs k = filter (\<lambda>x. code_of x = k) xs"

definition first_seen :: "'a list \<Rightarrow> 'a list" where
  "first_seen xs = rev (remdups (rev xs))"

definition incompatible :: "control_input list \<Rightarrow> bool" where
  "incompatible xs \<longleftrightarrow>
     (\<exists>x\<in>set xs. \<exists>y\<in>set xs. code_of x = code_of y \<and> rq_check_type (wanted x) \<noteq> rq_check_type (wanted y))"

text \<open>What is left to ask, and what was waived.\<close>

definition in_force :: "policy_override list \<Rightarrow> control_input list \<Rightarrow> control_input list" where
  "in_force overrides xs = filter (\<lambda>x. override_for overrides x = None) xs"

definition waived :: "policy_override list \<Rightarrow> control_input list \<Rightarrow> applied_override list" where
  "waived overrides xs =
     List.map_filter (\<lambda>x. map_option (\<lambda>ov.
         \<lparr>ao_override = ov_id ov, ao_code = code_of x, ao_source = source_of x, ao_reason = ov_reason ov\<rparr>)
       (override_for overrides x)) xs"

definition sorted_control :: "control \<Rightarrow> control" where
  "sorted_control c = c\<lparr>ct_sources := sort_key source_order (ct_sources c)\<rparr>"

definition reference_controls :: "control_input list \<Rightarrow> control list" where
  "reference_controls xs =
     map (\<lambda>k. sorted_control (merged_control (of_code xs k))) (sorted_set (map code_of xs))"

section \<open>The loop computes it\<close>

lemma first_seen_simps [simp]:
  "first_seen [] = []"
  "first_seen (xs @ [x]) = (if x \<in> set xs then first_seen xs else first_seen xs @ [x])"
  "set (first_seen xs) = set xs" "distinct (first_seen xs)"
  by (simp_all add: first_seen_def)

lemma of_code_simps [simp]:
  "of_code [] k = []"
  "of_code (xs @ [x]) k = (if code_of x = k then of_code xs k @ [x] else of_code xs k)"
  "of_code xs k = [] \<longleftrightarrow> k \<notin> code_of ` set xs"
  by (auto simp: of_code_def filter_empty_conv)

lemma of_code_head:
  "k \<in> code_of ` set xs \<Longrightarrow> hd (of_code xs k) \<in> set xs \<and> code_of (hd (of_code xs k)) = k"
proof -
  assume "k \<in> code_of ` set xs"
  then have "of_code xs k \<noteq> []" by simp
  then have "hd (of_code xs k) \<in> set (of_code xs k)" by (rule hd_in_set)
  then show ?thesis by (simp add: of_code_def)
qed

lemma code_wanted: "rq_code (wanted x) = code_of x"
  by (simp add: code_of_def wanted_def split: prod.splits)

lemma merged_code:
  "k \<in> code_of ` set xs \<Longrightarrow> ct_code (merged_control (of_code xs k)) = k
     \<and> ct_check_type (merged_control (of_code xs k)) = rq_check_type (wanted (hd (of_code xs k)))"
  using of_code_head [of k xs] by (simp add: merged_control_def Let_def hd_map code_wanted)

lemma sorted_set_append: "sorted_set (sorted_set xs @ ys) = sorted_set (xs @ ys)"
  by (rule sorted_set_cong) simp

lemma add_first: "add_requirement x (new_control (wanted x)) = merged_control [x]"
  by (cases x; cases "rq_enforcement (wanted x)")
    (simp_all add: add_requirement_def new_control_def merged_control_def wanted_def)

lemma add_next:
  "xs \<noteq> [] \<Longrightarrow> add_requirement x (merged_control xs) = merged_control (xs @ [x])"
  by (cases x) (simp add: add_requirement_def merged_control_def wanted_def Let_def hd_map sorted_set_append)

lemma find_control:
  assumes "k \<in> code_of ` set xs"
  shows "find_by (\<lambda>c. ct_code c = k) (map (\<lambda>k. merged_control (of_code xs k)) (first_seen (map code_of xs)))
     = Some (merged_control (of_code xs k))"
proof (rule find_by_unique [where key = ct_code])
  have "map ct_code (map (\<lambda>k. merged_control (of_code xs k)) (first_seen (map code_of xs)))
      = first_seen (map code_of xs)"
    unfolding map_map o_def by (rule map_idI) (simp add: merged_code)
  then show "distinct (map ct_code (map (\<lambda>k. merged_control (of_code xs k)) (first_seen (map code_of xs))))"
    by simp
qed (use assms merged_code in auto)

lemma in_force_snoc [simp]:
  "in_force ov [] = []"
  "in_force ov (xs @ [x]) = (if override_for ov x = None then in_force ov xs @ [x] else in_force ov xs)"
  by (simp_all add: in_force_def)

lemma waived_snoc [simp]:
  "waived ov [] = []"
  "waived ov (xs @ [x]) = waived ov xs @ (case override_for ov x of None \<Rightarrow> []
     | Some o' \<Rightarrow> [\<lparr>ao_override = ov_id o', ao_code = code_of x, ao_source = source_of x, ao_reason = ov_reason o'\<rparr>])"
  by (simp_all add: waived_def List.map_filter_def split: option.splits)

lemma incompatible_snoc:
  "incompatible (xs @ [x]) \<longleftrightarrow> incompatible xs
     \<or> (\<exists>y\<in>set xs. code_of y = code_of x \<and> rq_check_type (wanted y) \<noteq> rq_check_type (wanted x))"
  by (auto simp: incompatible_def)

lemma apply_in_force:
  assumes "override_for ov x = None"
  shows "apply_requirement ov x (cs, applied) =
     (let c = (case find_by (\<lambda>c. ct_code c = code_of x) cs of None \<Rightarrow> new_control (wanted x) | Some c \<Rightarrow> c)
      in if ct_check_type c \<noteq> rq_check_type (wanted x)
         then Inl (ValueError ''Incompatible policy check types for control'')
         else Inr (put_control (add_requirement x c) cs, applied))"
proof -
  obtain v b r where x: "x = (v, b, r)" by (cases x)
  have w: "wanted (v, b, r) = r" "code_of (v, b, r) = rq_code r" by (simp_all add: wanted_def code_of_def)
  show ?thesis using assms unfolding x apply_requirement_def w by simp
qed

lemma apply_waived:
  assumes "override_for ov x = Some o'"
  shows "apply_requirement ov x (cs, applied) =
     Inr (cs, applied @ [\<lparr>ao_override = ov_id o', ao_code = code_of x, ao_source = source_of x,
                         ao_reason = ov_reason o'\<rparr>])"
proof -
  obtain v b r where x: "x = (v, b, r)" by (cases x)
  show ?thesis using assms unfolding x by (simp add: apply_requirement_def code_of_def)
qed

definition merged_list :: "control_input list \<Rightarrow> control list" where
  "merged_list xs = map (\<lambda>k. merged_control (of_code xs k)) (first_seen (map code_of xs))"

lemma find_merged:
  "find_by (\<lambda>c. ct_code c = k) (merged_list xs) =
     (if k \<in> code_of ` set xs then Some (merged_control (of_code xs k)) else None)"
  using find_control [of k xs] by (auto simp: merged_list_def merged_code)

lemma has_merged: "list_ex (\<lambda>c. ct_code c = k) (merged_list xs) \<longleftrightarrow> k \<in> code_of ` set xs"
  using find_merged [of k xs] find_by_None [of "\<lambda>c. ct_code c = k" "merged_list xs"]
  by (auto simp: list_ex_iff split: if_splits)

lemma put_merged:
  assumes "c = merged_control (of_code (xs @ [x]) (code_of x))"
  shows "put_control c (merged_list xs) = merged_list (xs @ [x])"
proof -
  have code: "ct_code c = code_of x" using merged_code [of "code_of x" "xs @ [x]"] assms by simp
  have other: "merged_control (of_code (xs @ [x]) k) = merged_control (of_code xs k)" if "k \<noteq> code_of x" for k
    using that by simp
  show ?thesis
  proof (cases "code_of x \<in> code_of ` set xs")
    case True
    have "update_where (\<lambda>y. ct_code y = code_of x) (\<lambda>_. c) (merged_list xs) = merged_list (xs @ [x])"
      using True merged_code assms by (auto simp: merged_list_def update_where_def)
    then show ?thesis using True by (simp add: put_control_def code has_merged)
  next
    case False
    then have "merged_list (xs @ [x]) = merged_list xs @ [c]"
      using assms by (auto simp: merged_list_def)
    then show ?thesis using False by (simp add: put_control_def code has_merged)
  qed
qed

lemma fold_res_snoc: "fold_res f (xs @ [x]) s = bind_res (fold_res f xs s) (f x)"
proof -
  have "bind_res r (fold_res f []) = r" for r by (cases r) simp_all
  then have "fold_res f [x] = f x" by (intro ext) simp
  then show ?thesis by (simp only: fold_res_append)
qed

lemma loop_merges:
  "fold_res (apply_requirement ov) xs ([], []) =
     (if incompatible (in_force ov xs) then Inl (ValueError ''Incompatible policy check types for control'')
      else Inr (merged_list (in_force ov xs), waived ov xs))"
proof (induction xs rule: rev_induct)
  case Nil
  then show ?case by (simp add: incompatible_def merged_list_def)
next
  case (snoc x xs)
  let ?ys = "in_force ov xs"
  show ?case
  proof (cases "override_for ov x")
    case (Some o')
    then show ?thesis using snoc by (simp add: apply_waived fold_res_snoc del: fold_res_append)
  next
    case None
    show ?thesis
    proof (cases "incompatible ?ys")
      case True
      then show ?thesis using snoc None by (simp add: incompatible_snoc fold_res_snoc del: fold_res_append)
    next
      case False
      let ?k = "code_of x"
      let ?c = "if ?k \<in> code_of ` set ?ys then merged_control (of_code ?ys ?k) else new_control (wanted x)"
      have c: "(case find_by (\<lambda>c. ct_code c = ?k) (merged_list ?ys) of None \<Rightarrow> new_control (wanted x) | Some c \<Rightarrow> c) = ?c"
        by (simp add: find_merged)
      have added: "add_requirement x ?c = merged_control (of_code (?ys @ [x]) ?k)"
      proof (cases "?k \<in> code_of ` set ?ys")
        case True
        then have "of_code ?ys ?k \<noteq> []" by simp
        then show ?thesis using True add_next by simp
      next
        case out: False
        then have nil: "of_code ?ys ?k = []" by simp
        show ?thesis using out add_first by (simp add: nil)
      qed
      have clash: "ct_check_type ?c \<noteq> rq_check_type (wanted x) \<longleftrightarrow> incompatible (?ys @ [x])"
      proof (cases "?k \<in> code_of ` set ?ys")
        case True
        note hd = of_code_head [OF True]
        have same: "rq_check_type (wanted y) = rq_check_type (wanted (hd (of_code ?ys ?k)))"
          if "y \<in> set ?ys" "code_of y = ?k" for y
          using False that hd unfolding incompatible_def by metis
        have "incompatible (?ys @ [x]) \<longleftrightarrow>
            (\<exists>y\<in>set ?ys. code_of y = ?k \<and> rq_check_type (wanted y) \<noteq> rq_check_type (wanted x))"
          using False by (simp only: incompatible_snoc simp_thms)
        also have "\<dots> \<longleftrightarrow> rq_check_type (wanted (hd (of_code ?ys ?k))) \<noteq> rq_check_type (wanted x)"
          using same hd by metis
        finally show ?thesis using True merged_code [OF True] by simp
      next
        case out: False
        then have "\<not> incompatible (?ys @ [x])" using False unfolding incompatible_snoc by (metis imageI)
        then show ?thesis using out by (simp add: new_control_def)
      qed
      have "fold_res (apply_requirement ov) (xs @ [x]) ([], [])
          = apply_requirement ov x (merged_list ?ys, waived ov xs)"
        using snoc False by (simp add: fold_res_snoc del: fold_res_append)
      also have "\<dots> = (if incompatible (?ys @ [x]) then Inl (ValueError ''Incompatible policy check types for control'')
          else Inr (merged_list (?ys @ [x]), waived ov xs))"
        unfolding apply_in_force [OF None] c Let_def clash [symmetric] added put_merged [OF refl] by (rule refl)
      finally show ?thesis using None by simp
    qed
  qed
qed

lemma sort_key_map: "sort_key g (map f xs) = map f (sort_key (\<lambda>x. g (f x)) xs)"
proof -
  have "insort_key g (f x) (map f ys) = map f (insort_key (\<lambda>x. g (f x)) x ys)" for x ys
    by (induction ys) simp_all
  then show ?thesis by (induction xs) simp_all
qed

lemma sort_key_same: "(\<And>x. x \<in> set xs \<Longrightarrow> f x = g x) \<Longrightarrow> sort_key f xs = sort_key g xs"
proof -
  have "insort_key f x ys = insort_key g x ys" if "\<And>y. y \<in> insert x (set ys) \<Longrightarrow> f y = g y" for x ys
    using that
  proof (induction ys)
    case (Cons a ys)
    then have "insort_key f x ys = insort_key g x ys" by auto
    then show ?case using Cons.prems by simp
  qed simp
  note insort = this
  show "(\<And>x. x \<in> set xs \<Longrightarrow> f x = g x) \<Longrightarrow> sort_key f xs = sort_key g xs"
  proof (induction xs)
    case (Cons a xs)
    have "insort_key f a (sort_key g xs) = insort_key g a (sort_key g xs)"
      by (rule insort) (use Cons.prems in auto)
    then show ?case using Cons by simp
  qed simp
qed

lemma calculate_controls_reference:
  "calculate_controls ov xs =
     (if incompatible (in_force ov xs) then Inl (ValueError ''Incompatible policy check types for control'')
      else Inr (reference_controls (in_force ov xs), sort_key (\<lambda>a. uuid_str (ao_override a)) (waived ov xs)))"
proof -
  let ?ys = "in_force ov xs"
  let ?f = "\<lambda>k. sorted_control (merged_control (of_code ?ys k))"
  have "sort_key ct_code (map sorted_control (merged_list ?ys)) = map ?f (sort_key (\<lambda>k. ct_code (?f k)) (first_seen (map code_of ?ys)))"
    unfolding merged_list_def map_map o_def sort_key_map by (rule refl)
  also have "sort_key (\<lambda>k. ct_code (?f k)) (first_seen (map code_of ?ys)) = sort (first_seen (map code_of ?ys))"
  proof (rule sort_key_same)
    fix k
    assume "k \<in> set (first_seen (map code_of ?ys))"
    then show "ct_code (?f k) = k" using merged_code [of k ?ys] by (simp add: sorted_control_def)
  qed
  also have "sort (first_seen (map code_of ?ys)) = sorted_set (map code_of ?ys)"
    by (rule sorted_distinct_set_unique) simp_all
  finally have "sort_key ct_code (map sorted_control (merged_list ?ys)) = reference_controls ?ys"
    by (simp add: reference_controls_def)
  then show ?thesis
    by (simp add: calculate_controls_def loop_merges sorted_control_def [abs_def])
qed

end
