(* ===== verification/VersionNumbers.thy ===== *)
theory VersionNumbers
  imports Prelude "HOL-Library.Sublist"
begin

text \<open>
  Pointers and their immutable versions, as work items and policies keep them: a pointer row names the
  number of its latest version, and every version is a row of its own.  The contract of an operation
  is that it leaves both alone, or adds one version together with a new pointer at version 1 or an
  old pointer moved to the next number.
\<close>

definition versions_numbered ::
  "('p \<Rightarrow> 'k) \<Rightarrow> ('p \<Rightarrow> 'o) \<Rightarrow> ('p \<Rightarrow> int) \<Rightarrow> ('v \<Rightarrow> 'k) \<Rightarrow> ('v \<Rightarrow> 'o) \<Rightarrow> ('v \<Rightarrow> int)
     \<Rightarrow> 'p list \<Rightarrow> 'v list \<Rightarrow> bool"
where
  "versions_numbered pid porg pnum vptr vorg vnum ps vs \<longleftrightarrow>
     distinct (map pid ps)
     \<and> (\<forall>v\<in>set vs. \<exists>p\<in>set ps. pid p = vptr v \<and> porg p = vorg v)
     \<and> (\<forall>p\<in>set ps. 1 \<le> pnum p \<and> map vnum (filter (\<lambda>v. vptr v = pid p) vs) = [1..pnum p])"

definition version_added ::
  "('p \<Rightarrow> 'k) \<Rightarrow> ('p \<Rightarrow> 'o) \<Rightarrow> ('p \<Rightarrow> int) \<Rightarrow> ('v \<Rightarrow> 'k) \<Rightarrow> ('v \<Rightarrow> 'o) \<Rightarrow> ('v \<Rightarrow> int)
     \<Rightarrow> 'p list \<Rightarrow> 'v list \<Rightarrow> 'p list \<Rightarrow> 'v list \<Rightarrow> bool"
where
  "version_added pid porg pnum vptr vorg vnum ps vs ps' vs' \<longleftrightarrow>
     (\<exists>p v. vs' = vs @ [v] \<and> vptr v = pid p \<and> vorg v = porg p \<and> vnum v = pnum p
        \<and> (pid p \<notin> pid ` set ps \<and> pnum p = 1 \<and> ps' = ps @ [p]
           \<or> (\<exists>q\<in>set ps. pid p = pid q \<and> porg p = porg q \<and> pnum p = pnum q + 1
                \<and> ps' = update_where (\<lambda>x. pid x = pid q) (\<lambda>_. p) ps)))"

locale versioned =
  fixes pid :: "'p \<Rightarrow> 'k" and porg :: "'p \<Rightarrow> 'o" and pnum :: "'p \<Rightarrow> int"
    and vptr :: "'v \<Rightarrow> 'k" and vorg :: "'v \<Rightarrow> 'o" and vnum :: "'v \<Rightarrow> int"
    and pointers :: "'s \<Rightarrow> 'p list" and versions :: "'s \<Rightarrow> 'v list"
    and step :: "'s \<Rightarrow> 's \<Rightarrow> bool"
  assumes step_adds: "step s t \<Longrightarrow>
      pointers t = pointers s \<and> versions t = versions s
      \<or> version_added pid porg pnum vptr vorg vnum (pointers s) (versions s) (pointers t) (versions t)"
begin

abbreviation numbered :: "'s \<Rightarrow> bool" where
  "numbered s \<equiv> versions_numbered pid porg pnum vptr vorg vnum (pointers s) (versions s)"

lemma first_version:
  assumes "numbered s" "versions t = versions s @ [v]" "vptr v = pid p" "vorg v = porg p" "vnum v = pnum p"
    and "pid p \<notin> pid ` set (pointers s)" "pnum p = 1" "pointers t = pointers s @ [p]"
  shows "numbered t"
proof -
  have none: "vptr x \<noteq> pid p" if "x \<in> set (versions s)" for x
    using assms(1,6) that unfolding versions_numbered_def by (metis imageI)
  have other: "pid x \<noteq> pid p" if "x \<in> set (pointers s)" for x using that assms(6) by (metis imageI)
  have empty: "filter (\<lambda>x. vptr x = pid p) (versions s) = []" using none by (simp add: filter_empty_conv)
  have same: "filter (\<lambda>v. vptr v = pid x) (versions t) = filter (\<lambda>v. vptr v = pid x) (versions s)"
    if "x \<in> set (pointers s)" for x
    using other [OF that] assms(2,3) by simp
  show ?thesis
    unfolding versions_numbered_def assms(2,8)
  proof (intro conjI ballI)
    show "distinct (map pid (pointers s @ [p]))" using assms(1,6) by (simp add: versions_numbered_def)
    fix x
    assume "x \<in> set (versions s @ [v])"
    then show "\<exists>q\<in>set (pointers s @ [p]). pid q = vptr x \<and> porg q = vorg x"
      using assms(1,3,4) by (auto simp: versions_numbered_def)
  next
    fix x
    assume x: "x \<in> set (pointers s @ [p])"
    show "1 \<le> pnum x" using x assms(1,7) by (auto simp: versions_numbered_def)
    show "map vnum (filter (\<lambda>v. vptr v = pid x) (versions s @ [v])) = [1..pnum x]"
      using x assms(1,3,5,7) empty same [unfolded assms(2)] by (auto simp: versions_numbered_def)
  qed
qed

lemma next_version:
  assumes "numbered s" "versions t = versions s @ [v]" "vptr v = pid p" "vorg v = porg p" "vnum v = pnum p"
    and q: "q \<in> set (pointers s)" "pid p = pid q" "porg p = porg q" "pnum p = pnum q + 1"
    and t: "pointers t = update_where (\<lambda>x. pid x = pid q) (\<lambda>_. p) (pointers s)"
  shows "numbered t"
proof -
  have num: "distinct (map pid (pointers s))"
    "\<And>v. v \<in> set (versions s) \<Longrightarrow> \<exists>p\<in>set (pointers s). pid p = vptr v \<and> porg p = vorg v"
    "\<And>p. p \<in> set (pointers s) \<Longrightarrow> 1 \<le> pnum p \<and> map vnum (filter (\<lambda>v. vptr v = pid p) (versions s)) = [1..pnum p]"
    using assms(1) by (auto simp: versions_numbered_def)
  have ids: "map pid (pointers t) = map pid (pointers s)"
    unfolding t by (rule map_update_where_same) (simp add: q)
  have mem: "x = p \<or> x \<in> set (pointers s) \<and> pid x \<noteq> pid q" if "x \<in> set (pointers t)" for x
    using that by (auto simp: t set_update_where split: if_splits)
  have new: "p \<in> set (pointers t)" using q(1) by (auto simp: t set_update_where)
  have owner: "\<exists>y\<in>set (pointers t). pid y = pid x \<and> porg y = porg x" if "x \<in> set (pointers s)" for x
  proof (cases "pid x = pid q")
    case True
    then have "x = q" using num(1) that q(1) by (simp add: distinct_map inj_on_def)
    then show ?thesis using new q(2,3) by auto
  next
    case False
    then have "x \<in> set (pointers t)" using that by (auto simp: t set_update_where)
    then show ?thesis by blast
  qed
  have upto: "[1..pnum p] = [1..pnum q] @ [pnum p]"
    using num(3) [OF q(1)] q(4) by (simp add: upto_rec2)
  show ?thesis
    unfolding versions_numbered_def
  proof (intro conjI ballI)
    show "distinct (map pid (pointers t))" using num(1) ids by simp
    fix x
    assume "x \<in> set (versions t)"
    then consider "x = v" | "x \<in> set (versions s)" using assms(2) by auto
    then show "\<exists>y\<in>set (pointers t). pid y = vptr x \<and> porg y = vorg x"
    proof cases
      case 1
      then show ?thesis using new assms(3,4) by auto
    next
      case 2
      then show ?thesis using num(2) owner by metis
    qed
  next
    fix x
    assume x: "x \<in> set (pointers t)"
    show "1 \<le> pnum x" using mem [OF x] num(3) q by force
    show "map vnum (filter (\<lambda>v. vptr v = pid x) (versions t)) = [1..pnum x]"
      using mem [OF x]
    proof (elim disjE conjE)
      assume "x = p"
      then show ?thesis using num(3) [OF q(1)] q(2) assms(2,3,5) upto by simp
    next
      assume "x \<in> set (pointers s)" "pid x \<noteq> pid q"
      then show ?thesis using num(3) q(2) assms(2,3) by auto
    qed
  qed
qed

lemma step_keeps_numbers:
  assumes "step s t" "numbered s"
  shows "numbered t \<and> prefix (versions s) (versions t)"
  using step_adds [OF assms(1)]
proof
  assume "pointers t = pointers s \<and> versions t = versions s"
  then show ?thesis using assms(2) by simp
next
  assume "version_added pid porg pnum vptr vorg vnum (pointers s) (versions s) (pointers t) (versions t)"
  then obtain p v where v: "versions t = versions s @ [v]" "vptr v = pid p" "vorg v = porg p" "vnum v = pnum p"
    and p: "pid p \<notin> pid ` set (pointers s) \<and> pnum p = 1 \<and> pointers t = pointers s @ [p]
       \<or> (\<exists>q\<in>set (pointers s). pid p = pid q \<and> porg p = porg q \<and> pnum p = pnum q + 1
            \<and> pointers t = update_where (\<lambda>x. pid x = pid q) (\<lambda>_. p) (pointers s))"
    unfolding version_added_def by blast
  from p have "numbered t" using first_version [OF assms(2) v] next_version [OF assms(2) v] by blast
  then show ?thesis using v(1) by simp
qed

lemma steps_keep_numbers:
  assumes "step\<^sup>*\<^sup>* s t" "numbered s"
  shows "numbered t \<and> prefix (versions s) (versions t)"
  using assms(1)
proof (induction rule: rtranclp_induct)
  case base
  then show ?case using assms(2) by simp
next
  case (step t u)
  then have "numbered t" by simp
  from step_keeps_numbers [OF step(2) this] step(3) show ?case by (metis prefix_order.trans)
qed

end

end
