(* ===== verification/PolicyLife.thy ===== *)
theory PolicyLife
  imports PolicySafety ControlMerge VersionNumbers "HOL-Library.Multiset"
begin

text \<open>
  What the operations on policies returned with: the rows of an import, the overrides that count
  after one is created or revoked, and the independence of an evaluation from the order of its
  input.
\<close>

section \<open>Loops that return a list\<close>

lemma map_res_single_error:
  assumes "\<And>x e. x \<in> set xs \<Longrightarrow> f x = Inl e \<Longrightarrow> e = err"
  shows "map_res f xs = (if \<exists>x\<in>set xs. \<not> returns (f x) then Inl err else Inr (map (\<lambda>x. projr (f x)) xs))"
  using assms
proof (induction xs)
  case Nil
  then show ?case by simp
next
  case (Cons x xs)
  have IH: "map_res f xs = (if \<exists>x\<in>set xs. \<not> returns (f x) then Inl err else Inr (map (\<lambda>x. projr (f x)) xs))"
    by (rule Cons.IH) (use Cons.prems in auto)
  show ?case using IH Cons.prems by (cases "f x") auto
qed

lemma entity_key_error:
  assumes "set (map fst e) = {lit ''id'', lit ''type''}" "entity_key e = Inl err"
  shows "err = ValueError ''badly formed hexadecimal UUID string''"
proof -
  have "lit ''id'' \<in> fst ` set e" "lit ''type'' \<in> fst ` set e" using assms(1) by auto
  then obtain i t where it: "map_of e (lit ''id'') = Some i" "map_of e (lit ''type'') = Some t"
    by (metis map_of_eq_None_iff not_None_eq)
  have "entity_key e = bind_res (uuid_of i) (\<lambda>u. Inr (uuid_str u, t))"
    unfolding entity_key_def it by simp
  then show ?thesis using assms(2) by (auto simp: bind_res_Inl uuid_of_def split: option.splits)
qed

lemma normalized_entities_mset:
  assumes "mset es = mset es'"
  shows "normalized_entities es = normalized_entities es'"
proof -
  let ?P = "\<lambda>e. set (map fst e) = {lit ''id'', lit ''type''}"
  let ?err = "ValueError ''badly formed hexadecimal UUID string''"
  have same: "set (filter ?P es) = set (filter ?P es')" using assms by (metis mset_filter set_mset_mset)
  have "map_res entity_key (filter ?P xs) =
      (if \<exists>x\<in>set (filter ?P xs). \<not> returns (entity_key x) then Inl ?err
       else Inr (map (\<lambda>x. projr (entity_key x)) (filter ?P xs)))" for xs
    by (rule map_res_single_error) (use entity_key_error in auto)
  note run = this
  have "sorted_set (map (\<lambda>x. projr (entity_key x)) (filter ?P es))
      = sorted_set (map (\<lambda>x. projr (entity_key x)) (filter ?P es'))"
    using arg_cong [OF same, of "image (\<lambda>x. projr (entity_key x))"] by (intro sorted_set_cong) simp
  then show ?thesis
    unfolding normalized_entities_def run same by (auto split: if_split)
qed

section \<open>The order of the input\<close>

lemma check_request_order:
  assumes "mset ids = mset (rt_version_ids q)" "mset ps = mset (rt_paths q)" "mset es = mset (rt_entities q)"
  shows "check_request (q\<lparr>rt_version_ids := ids, rt_paths := ps, rt_entities := es\<rparr>) = check_request q"
proof -
  have "length ids = length (rt_version_ids q)" "length ps = length (rt_paths q)" "length es = length (rt_entities q)"
    using assms by (metis mset_eq_length)+
  moreover have "ids = [] \<longleftrightarrow> rt_version_ids q = []" using assms(1) by auto
  moreover have "distinct ids \<longleftrightarrow> distinct (rt_version_ids q)" using assms(1) by (rule mset_eq_imp_distinct_iff)
  moreover have "sorted_set ps = sorted_set (rt_paths q)"
    using assms(2) by (intro sorted_set_cong) (rule mset_eq_setD)
  moreover have "normalized_entities es = normalized_entities (rt_entities q)"
    by (rule normalized_entities_mset [OF assms(3)])
  ultimately show ?thesis by (simp add: check_request_def cong: if_cong)
qed

lemma requested_versions_order:
  assumes "mset ids = mset (rt_version_ids q)"
  shows "requested_versions g org (q\<lparr>rt_version_ids := ids, rt_paths := ps, rt_entities := es\<rparr>) = requested_versions g org q"
  using mset_eq_length [OF assms] mset_eq_setD [OF assms]
  by (simp add: requested_versions_def)

lemma same_target:
  "consider_version g (q\<lparr>rt_version_ids := ids, rt_paths := ps, rt_entities := es\<rparr>) paths ents w = consider_version g q paths ents w"
  "evaluation_input org (q\<lparr>rt_version_ids := ids, rt_paths := ps, rt_entities := es\<rparr>) work cs ovs paths ents
     = evaluation_input org q work cs ovs paths ents"
  "store_evaluation env actor (q\<lparr>rt_version_ids := ids, rt_paths := ps, rt_entities := es\<rparr>) s work i out fresh d
     = store_evaluation env actor q s work i out fresh d"
  "work_context d actor (q\<lparr>rt_version_ids := ids, rt_paths := ps, rt_entities := es\<rparr>) = work_context d actor q"
proof -
  show "consider_version g (q\<lparr>rt_version_ids := ids, rt_paths := ps, rt_entities := es\<rparr>) paths ents w
      = consider_version g q paths ents w"
    by (rule ext) (simp add: consider_version_def)
qed (simp_all add: evaluation_input_def store_evaluation_def work_context_def cong: if_cong option.case_cong)

lemma evaluation_order:
  assumes "mset ids = mset (rt_version_ids q)" "mset ps = mset (rt_paths q)" "mset es = mset (rt_entities q)"
  shows "evaluate_policy env actor (q\<lparr>rt_version_ids := ids, rt_paths := ps, rt_entities := es\<rparr>) now fresh d
     = evaluate_policy env actor q now fresh d"
  unfolding evaluate_policy_def check_request_order [OF assms] requested_versions_order [OF assms(1)] same_target
  by simp

section \<open>Overrides\<close>

lemma create_override_Inr:
  assumes "create_policy_override env actor repository policy_id evaluation_id version_id code pull_request
       commit reason expires now fresh d = Inr ((ov, True), d')"
  obtains e where "e \<in> set (policy_evaluations (governance d))" "ev_id e = evaluation_id" "ev_org e = actor_org actor"
    "returns (authorize_action env now d actor POLICY_OVERRIDE (Some repository) None (Some (ev_access_scope e)) False)"
    "governance d' = (governance d)\<lparr>policy_overrides := policy_overrides (governance d) @ [ov]\<rparr>"
    "ov_id ov = fresh" "ov_org ov = actor_org actor" "ov_version ov = version_id" "ov_repository ov = repository"
    "ov_pull_request ov = pull_request" "ov_code ov = code" "ov_commit ov = commit"
    "ov_expires_at ov = map_option fst expires" "ov_created_at ov = now"
proof -
  note s = assms [unfolded create_policy_override_def bind_res_Inr]
  from s obtain e v dec a key where
    e: "get_tenant_record evaluation_table evaluation_id (actor_org actor) d = Inr e"
    and v: "get_tenant_record version_table version_id (actor_org actor) d = Inr v"
    and dec: "authorize_action env now d actor POLICY_OVERRIDE (Some repository) None (Some (ev_access_scope e)) False = Inr dec"
    and rest: "(case first_by ov_id (filter (\<lambda>ov. ov_org ov = actor_org actor \<and> ov_idempotency_key ov = key)
                            (policy_overrides (governance d))) of
       Some ov \<Rightarrow> Inr ((ov, False), d)
     | None \<Rightarrow>
         let ov = \<lparr>ov_id = fresh, ov_org = actor_org actor, ov_evaluation = ev_id e,
                   ov_version = pv_id v, ov_repository = repository, ov_pull_request = pull_request,
                   ov_code = code, ov_commit = commit, ov_actor_type = actor_type a,
                   ov_actor_id = actor_id a, ov_authority_path = actor_path a,
                   ov_reason = reason, ov_idempotency_key = key,
                   ov_expires_at = map_option fst expires, ov_created_at = now\<rparr>
         in bind_res (record_transition env (ev_org e) a (lit ''policyoverride'') fresh []
                        (lit ''ACTIVE'') 1 [] (create_row override_table ov d))
              (\<lambda>d'. Inr ((ov, True), d'))) = Inr ((ov, True), d')"
    by (elim exE conjE) (rule that)
  let ?ov = "\<lparr>ov_id = fresh, ov_org = actor_org actor, ov_evaluation = ev_id e,
                   ov_version = pv_id v, ov_repository = repository, ov_pull_request = pull_request,
                   ov_code = code, ov_commit = commit, ov_actor_type = actor_type a,
                   ov_actor_id = actor_id a, ov_authority_path = actor_path a,
                   ov_reason = reason, ov_idempotency_key = key,
                   ov_expires_at = map_option fst expires, ov_created_at = now\<rparr>"
  have none: "first_by ov_id (filter (\<lambda>ov. ov_org ov = actor_org actor \<and> ov_idempotency_key ov = key)
                            (policy_overrides (governance d))) = None"
    using rest by (cases "first_by ov_id (filter (\<lambda>ov. ov_org ov = actor_org actor \<and> ov_idempotency_key ov = key)
                            (policy_overrides (governance d)))") (simp_all del: first_by_None)
  from rest [unfolded none option.case Let_def bind_res_Inr] obtain d2 where
    rec: "record_transition env (ev_org e) a (lit ''policyoverride'') fresh []
                        (lit ''ACTIVE'') 1 [] (create_row override_table ?ov d) = Inr d2"
    and "Inr ((?ov, True), d2) = (Inr ((ov, True), d') :: ((policy_override \<times> bool) \<times> db) result)"
    by (elim exE conjE) (rule that)
  then have ov: "?ov = ov" "d2 = d'" by simp_all
  have ee: "e \<in> set (policy_evaluations (governance d))" "ev_id e = evaluation_id" "ev_org e = actor_org actor"
    using get_tenant_record_Inr [OF e] by (simp_all add: evaluation_table_def)
  have vv: "pv_id v = version_id" using get_tenant_record_Inr [OF v] by (simp add: version_table_def)
  have "governance d' = (governance d)\<lparr>policy_overrides := policy_overrides (governance d) @ [ov]\<rparr>"
    using record_transition_frame(36) [OF rec] unfolding ov by (simp add: create_row_def override_table_def)
  moreover have "ov_id ov = fresh" "ov_org ov = actor_org actor" "ov_version ov = version_id" "ov_repository ov = repository"
    "ov_pull_request ov = pull_request" "ov_code ov = code" "ov_commit ov = commit"
    "ov_expires_at ov = map_option fst expires" "ov_created_at ov = now"
    unfolding ov(1) [symmetric] by (simp_all add: vv)
  ultimately show thesis using that [OF ee] dec by simp
qed

lemma revoke_override_Inr:
  assumes "revoke_policy_override env actor repository override_id reason now fresh d = Inr ((x, created), d')"
  shows "or_override x = override_id
     \<and> (governance d' = (governance d)\<lparr>override_revocations := override_revocations (governance d) @ [x]\<rparr>
          \<and> created \<and> or_revoked_at x = now
        \<or> d' = d \<and> \<not> created \<and> x \<in> set (override_revocations (governance d)))"
proof -
  note s = assms [unfolded revoke_policy_override_def bind_res_Inr]
  from s obtain ov a where
    ov: "get_tenant_record override_table override_id (actor_org actor) d = Inr ov"
    and rest: "(case find_by (\<lambda>x. or_override x = ov_id ov) (override_revocations (governance d)) of
       Some x \<Rightarrow> Inr ((x, False), d)
     | None \<Rightarrow>
         let x = \<lparr>or_id = fresh, or_org = actor_org actor, or_override = ov_id ov,
                  or_actor_type = actor_type a, or_actor_id = actor_id a,
                  or_authority_path = actor_path a, or_reason = reason, or_revoked_at = now\<rparr>
         in bind_res (record_transition env (ov_org ov) a (lit ''policyoverriderevocation'') fresh
                        (lit ''ACTIVE'') (lit ''REVOKED'') 1 []
                        (d\<lparr>governance := (governance d)\<lparr>override_revocations :=
                              override_revocations (governance d) @ [x]\<rparr>\<rparr>))
              (\<lambda>d'. Inr ((x, True), d'))) = Inr ((x, created), d')"
    by (auto simp: bind_res_Inr split: prod.splits simp del: find_by_None)
  have id: "ov_id ov = override_id" using get_tenant_record_Inr [OF ov] by (simp add: override_table_def)
  show ?thesis
  proof (cases "find_by (\<lambda>x. or_override x = ov_id ov) (override_revocations (governance d))")
    case (Some y)
    then have "y = x" "d' = d" "\<not> created" using rest by simp_all
    then show ?thesis using find_by_Some_iff [OF Some] id by simp
  next
    case None
    let ?x = "\<lparr>or_id = fresh, or_org = actor_org actor, or_override = ov_id ov,
                  or_actor_type = actor_type a, or_actor_id = actor_id a,
                  or_authority_path = actor_path a, or_reason = reason, or_revoked_at = now\<rparr>"
    from rest [unfolded None option.case Let_def bind_res_Inr] obtain d2 where
      rec: "record_transition env (ov_org ov) a (lit ''policyoverriderevocation'') fresh
                        (lit ''ACTIVE'') (lit ''REVOKED'') 1 []
                        (d\<lparr>governance := (governance d)\<lparr>override_revocations :=
                              override_revocations (governance d) @ [?x]\<rparr>\<rparr>) = Inr d2"
      and "Inr ((?x, True), d2) = (Inr ((x, created), d') :: ((override_revocation \<times> bool) \<times> db) result)"
      by (elim exE conjE) (rule that)
    then have x: "?x = x" "d2 = d'" "created" by simp_all
    have "governance d' = (governance d)\<lparr>override_revocations := override_revocations (governance d) @ [x]\<rparr>"
      using record_transition_frame(36) [OF rec] unfolding x by simp
    moreover have "or_override x = override_id" "or_revoked_at x = now"
      unfolding x(1) [symmetric] by (simp_all add: id)
    ultimately show ?thesis using x(3) by simp
  qed
qed

lemma active_after_create:
  assumes "create_policy_override env actor repository policy_id evaluation_id version_id code pull_request
       commit reason expires now fresh d = Inr ((ov, True), d')"
    and "fresh \<notin> or_override ` set (override_revocations (governance d))"
  shows "set (active_overrides (governance d') org r n c vs t) = set (active_overrides (governance d) org r n c vs t)
     \<union> (if org = actor_org actor \<and> r = repository \<and> n = pull_request \<and> c = commit \<and> version_id \<in> set vs
           \<and> now \<le> t \<and> (case expires of None \<Rightarrow> True | Some (e, text) \<Rightarrow> t < e) then {ov} else {})"
  using assms(1)
proof (rule create_override_Inr)
  fix e
  assume g: "governance d' = (governance d)\<lparr>policy_overrides := policy_overrides (governance d) @ [ov]\<rparr>"
    and ov: "ov_id ov = fresh" "ov_org ov = actor_org actor" "ov_version ov = version_id" "ov_repository ov = repository"
    "ov_pull_request ov = pull_request" "ov_code ov = code" "ov_commit ov = commit"
    "ov_expires_at ov = map_option fst expires" "ov_created_at ov = now"
  have live: "\<not> override_revoked_by (governance d) t ov"
    using assms(2) by (auto simp: override_revoked_by_def list_ex_iff ov)
  have same: "override_revoked_by (governance d') t x = override_revoked_by (governance d) t x" for x
    by (simp add: override_revoked_by_def g)
  have "policy_overrides (governance d') = policy_overrides (governance d) @ [ov]" by (simp add: g)
  then show ?thesis
    using live ov by (auto simp: active_overrides_def same split: option.splits)
qed

lemma active_after_revocation:
  assumes "revoke_policy_override env actor repository override_id reason now fresh d = Inr ((x, created), d')"
  shows "active_overrides (governance d') org r n c vs t =
     (if or_revoked_at x \<le> t then filter (\<lambda>ov. ov_id ov \<noteq> override_id) (active_overrides (governance d) org r n c vs t)
      else active_overrides (governance d) org r n c vs t)"
  using revoke_override_Inr [OF assms]
proof (elim conjE disjE)
  assume target: "or_override x = override_id"
    and g: "governance d' = (governance d)\<lparr>override_revocations := override_revocations (governance d) @ [x]\<rparr>"
  have "override_revoked_by (governance d') t ov
      \<longleftrightarrow> override_revoked_by (governance d) t ov \<or> ov_id ov = override_id \<and> or_revoked_at x \<le> t" for ov
    by (auto simp: override_revoked_by_def g target)
  then show ?thesis
    by (auto simp: active_overrides_def filter_sort g intro!: arg_cong [where f = "sort_key ov_id"] filter_cong)
next
  assume "or_override x = override_id" "d' = d" and x: "x \<in> set (override_revocations (governance d))"
  then show ?thesis
    by (auto simp: active_overrides_def filter_sort override_revoked_by_def list_ex_iff
        intro!: arg_cong [where f = "sort_key ov_id"] filter_cong)
qed

section \<open>Imports\<close>

lemma store_version_Inr:
  assumes "store_version env actor p previous doc normalized digest effective expires fv fb g d = Inr (v, d')"
  shows "pv_id v = fv \<and> pv_org v = po_org p \<and> pv_policy v = po_id p \<and> pv_version v = pd_version doc
     \<and> pv_content_hash v = digest \<and> policies (governance d') = policies g
     \<and> policy_versions (governance d') = policy_versions g @ [v]
     \<and> prefix (policy_bindings g) (policy_bindings (governance d'))
     \<and> prefix (policy_requirements g) (policy_requirements (governance d'))"
proof -
  let ?v = "\<lparr>pv_id = fv, pv_org = po_org p, pv_policy = po_id p,
               pv_version = pd_version doc, pv_schema_version = pd_schema_version doc,
               pv_definition = normalized, pv_content_hash = digest, pv_effective_at = effective,
               pv_expires_at = expires, pv_created_by_type = actor_type actor,
               pv_created_by_id = actor_id actor\<rparr>"
  note s = assms [unfolded store_version_def Let_def bind_res_Inr]
  from s obtain g1 level rs g3 d2 where g1: "insert_version ?v g = Inr g1"
    and g3: "insert_requirements rs (g1\<lparr>policy_bindings := policy_bindings g1
                         @ [binding_of fb fv level (pd_binding doc)]\<rparr>) = Inr g3"
    and rec: "record_transition env (po_org p) actor (lit ''policy'') (po_id p)
                          previous (po_status p) (nat (po_revision p))
                          [(lit ''content_hash'', JStr digest)] (d\<lparr>governance := g3\<rparr>) = Inr d2"
    and "Inr (?v, d2) = (Inr (v, d') :: (policy_version \<times> db) result)"
    by (elim exE conjE) (rule that)
  then have v: "?v = v" "d2 = d'" by simp_all
  have gov: "governance d' = g3" using record_transition_frame(36) [OF rec] v by simp
  have "g1 = g\<lparr>policy_versions := policy_versions g @ [v]\<rparr>"
    using g1 unfolding v by (simp add: insert_version_def split: if_splits)
  moreover have "g3 = (g1\<lparr>policy_bindings := policy_bindings g1 @ [binding_of fb fv level (pd_binding doc)]\<rparr>)
      \<lparr>policy_requirements := policy_requirements g1 @ rs\<rparr>"
    using g3 by (simp add: insert_requirements_def split: if_splits)
  moreover have "pv_id v = fv" "pv_org v = po_org p" "pv_policy v = po_id p" "pv_version v = pd_version doc"
    "pv_content_hash v = digest"
    unfolding v(1) [symmetric] by simp_all
  ultimately show ?thesis by (simp add: gov)
qed

lemma import_Inr:
  assumes "import_policy env actor payload now fv fb d = Inr (res, d')"
  obtains scope_id policy_id doc digest p v where
      "store_pointer (actor_org actor) scope_id policy_id doc digest (governance d) = Inr (Existing p v)"
      "res = \<lparr>pi_policy = p, pi_version = v, pi_created = False\<rparr>" "d' = d"
  | scope_id policy_id doc digest p previous g a normalized effective expires v where
      "store_pointer (actor_org actor) scope_id policy_id doc digest (governance d) = Inr (Stored p previous g)"
      "store_version env a p previous doc normalized digest effective expires fv fb g d = Inr (v, d')"
      "res = \<lparr>pi_policy = p, pi_version = v, pi_created = True\<rparr>"
proof -
  from assms obtain org doc scope_id policy_id a normalized digest window pointer where
    org: "org = actor_org actor"
    and pointer: "store_pointer org scope_id policy_id doc digest (governance d) = Inr pointer"
    and rest: "(case pointer of
         Existing p v \<Rightarrow> Inr (\<lparr>pi_policy = p, pi_version = v, pi_created = False\<rparr>, d)
       | Stored p previous_status g \<Rightarrow>
           bind_res (store_version env a p previous_status doc normalized digest (fst window)
                       (snd window) fv fb g d)
             (\<lambda>x. Inr (\<lparr>pi_policy = p, pi_version = fst x, pi_created = True\<rparr>, snd x))) = Inr (res, d')"
    unfolding import_policy_def bind_res_Inr guard_res_Inr split_beta
    by (elim exE conjE) (rule that)
  show thesis
  proof (cases pointer)
    case (Existing p v)
    then have "res = \<lparr>pi_policy = p, pi_version = v, pi_created = False\<rparr>" "d' = d" using rest by simp_all
    moreover have "store_pointer (actor_org actor) scope_id policy_id doc digest (governance d) = Inr (Existing p v)"
      using pointer org Existing by simp
    ultimately show thesis by (intro that(1))
  next
    case (Stored p previous g)
    from rest [unfolded Stored pointer.case bind_res_Inr] obtain x where
      x: "store_version env a p previous doc normalized digest (fst window) (snd window) fv fb g d = Inr x"
      and "Inr (\<lparr>pi_policy = p, pi_version = fst x, pi_created = True\<rparr>, snd x)
         = (Inr (res, d') :: (policy_import_result \<times> db) result)"
      by (elim exE conjE) (rule that)
    then have res: "res = \<lparr>pi_policy = p, pi_version = fst x, pi_created = True\<rparr>" "snd x = d'" by simp_all
    have "store_version env a p previous doc normalized digest (fst window) (snd window) fv fb g d = Inr (fst x, d')"
      using x res(2) by (metis prod.collapse)
    moreover have "store_pointer (actor_org actor) scope_id policy_id doc digest (governance d) = Inr (Stored p previous g)"
      using pointer org Stored by simp
    ultimately show thesis using res(1) by (intro that(2))
  qed
qed

inductive policy_step :: "environment \<Rightarrow> db \<Rightarrow> db \<Rightarrow> bool" for env where
  imported: "import_policy env actor payload now fv fb d = Inr (res, d') \<Longrightarrow> policy_step env d d'"
| evaluated: "evaluate_policy env actor q now fresh d = Inr (ev, d') \<Longrightarrow> policy_step env d d'"
| overridden: "create_policy_override env actor r p e v code n c reason expires now fresh d = Inr (ov, d')
     \<Longrightarrow> policy_step env d d'"
| revoked: "revoke_policy_override env actor r i reason now fresh d = Inr (x, d') \<Longrightarrow> policy_step env d d'"

lemma stored_pointer:
  assumes "store_pointer org scope_id policy_id doc digest g = Inr (Stored p previous g')"
  shows "po_org p = org \<and> po_revision p = pd_version doc \<and>
     (policy_id \<notin> po_id ` set (policies g) \<and> po_id p = policy_id \<and> pd_version doc = 1
        \<and> g' = g\<lparr>policies := policies g @ [p]\<rparr>
      \<or> (\<exists>old\<in>set (policies g). po_id p = po_id old \<and> po_org old = org \<and> pd_version doc = po_revision old + 1
           \<and> g' = g\<lparr>policies := update_where (\<lambda>x. po_id x = po_id old) (\<lambda>_. p) (policies g)\<rparr>))"
proof (cases "find_by (\<lambda>p. po_id p = policy_id \<and> po_org p = org) (policies g)")
  case None
  have new: "policy_id \<notin> po_id ` set (policies g)" "pd_version doc = 1"
      "Inr (Stored (new_policy policy_id org scope_id doc digest) []
         (g\<lparr>policies := policies g @ [new_policy policy_id org scope_id doc digest]\<rparr>))
       = (Inr (Stored p previous g') :: pointer result)"
    using assms unfolding store_pointer_def None option.case error_if_Inr Let_def by blast+
  from new(3) have p: "new_policy policy_id org scope_id doc digest = p"
    and "g\<lparr>policies := policies g @ [new_policy policy_id org scope_id doc digest]\<rparr> = g'"
    unfolding sum.inject pointer.inject by blast+
  then have "p = new_policy policy_id org scope_id doc digest" "g' = g\<lparr>policies := policies g @ [p]\<rparr>"
    unfolding p by simp_all
  then show ?thesis using new(1,2) by (simp add: new_policy_def)
next
  case (Some old)
  note row = find_by_Some_iff [OF Some]
  note s = assms [unfolded store_pointer_def Some option.case error_if_Inr]
  have none: "find_by (\<lambda>v. pv_org v = org \<and> pv_policy v = po_id old \<and> pv_version v = pd_version doc)
      (policy_versions g) = None"
    using s by (cases "find_by (\<lambda>v. pv_org v = org \<and> pv_policy v = po_id old \<and> pv_version v = pd_version doc)
      (policy_versions g)") (auto split: if_splits simp del: find_by_None)
  note s = s [unfolded none option.case error_if_Inr Let_def]
  then have next_version: "pd_version doc = po_revision old + 1"
    and "Inr (Stored (next_policy old doc digest) (po_status old)
        (g\<lparr>policies := update_where (\<lambda>x. po_id x = po_id old) (\<lambda>_. next_policy old doc digest) (policies g)\<rparr>))
      = (Inr (Stored p previous g') :: pointer result)" by blast+
  from this(2) have p: "next_policy old doc digest = p"
    and "g\<lparr>policies := update_where (\<lambda>x. po_id x = po_id old) (\<lambda>_. next_policy old doc digest) (policies g)\<rparr> = g'"
    unfolding sum.inject pointer.inject by blast+
  then have g': "g' = g\<lparr>policies := update_where (\<lambda>x. po_id x = po_id old) (\<lambda>_. p) (policies g)\<rparr>"
    unfolding p by simp
  have cols: "po_id p = po_id old" "po_org p = po_org old" "po_revision p = pd_version doc"
    unfolding p [symmetric] by (simp_all add: next_policy_def)
  show ?thesis
  proof (intro conjI disjI2 bexI [where x = old])
    show "po_org p = org" "po_revision p = pd_version doc" using cols row by simp_all
    show "po_id p = po_id old" "po_org old = org" "old \<in> set (policies g)" using cols row by simp_all
  qed (fact next_version g')+
qed

abbreviation policy_version_added :: "governance \<Rightarrow> governance \<Rightarrow> bool" where
  "policy_version_added g h \<equiv>
     version_added po_id po_org po_revision pv_policy pv_org pv_version
       (policies g) (policy_versions g) (policies h) (policy_versions h)"

lemma import_adds:
  assumes "import_policy env actor payload now fv fb d = Inr (res, d')"
  shows "(d' = d \<or> policy_version_added (governance d) (governance d'))
     \<and> prefix (policy_bindings (governance d)) (policy_bindings (governance d'))
     \<and> prefix (policy_requirements (governance d)) (policy_requirements (governance d'))"
  using assms(1)
proof (cases rule: import_Inr)
  case (1 scope_id policy_id doc digest p v)
  then show ?thesis by simp
next
  case (2 scope_id policy_id doc digest p previous g a normalized effective expires v)
  note sv = store_version_Inr [OF 2(2)] and sp = stored_pointer [OF 2(1)]
  from sp have "policy_versions g = policy_versions (governance d)" "policy_bindings g = policy_bindings (governance d)"
    "policy_requirements g = policy_requirements (governance d)" by auto
  moreover from sp have "po_id p \<notin> po_id ` set (policies (governance d)) \<and> po_revision p = 1
        \<and> policies g = policies (governance d) @ [p]
     \<or> (\<exists>q\<in>set (policies (governance d)). po_id p = po_id q \<and> po_org p = po_org q \<and> po_revision p = po_revision q + 1
          \<and> policies g = update_where (\<lambda>x. po_id x = po_id q) (\<lambda>_. p) (policies (governance d)))"
    by auto
  ultimately have "policy_version_added (governance d) (governance d')"
    unfolding version_added_def using sv sp by (intro exI [of _ p] exI [of _ v]) simp
  then show ?thesis using sv \<open>policy_bindings g = _\<close> \<open>policy_requirements g = _\<close> by simp
qed

text \<open>The other operations leave the policies, their versions, bindings and requirements alone.\<close>

definition same_policies :: "governance \<Rightarrow> governance \<Rightarrow> bool" where
  "same_policies g h \<longleftrightarrow>
     policies g = policies h \<and> policy_versions g = policy_versions h
     \<and> policy_bindings g = policy_bindings h \<and> policy_requirements g = policy_requirements h"

lemma store_evaluation_same:
  assumes "store_evaluation env actor q s work i out fresh d = Inr (ev, d')"
  shows "same_policies (governance d') (governance d)"
proof -
  from assms [unfolded store_evaluation_def bind_res_Inr] obtain k l where
    rest: "(case first_by ev_id (filter (\<lambda>e. ev_org e = actor_org actor \<and> ev_input_hash e = k)
                           (policy_evaluations (governance d))) of
       Some e \<Rightarrow>
         if ev_output_hash e \<noteq> l then Inl IdempotencyConflictError else Inr ((e, False), d)
     | None \<Rightarrow>
         let e = \<lparr>ev_id = fresh, ev_org = actor_org actor, ev_repository = rt_repository q,
                  ev_access_scope = s, ev_work_revision = map_option wr_id work,
                  ev_pull_request = rt_pull_request q, ev_commit = rt_commit q,
                  ev_reference_time = rt_reference q, ev_is_simulation = rt_simulation q,
                  ev_input = i, ev_input_hash = k, ev_output = out, ev_output_hash = l\<rparr>
         in bind_res (record_transition env (actor_org actor) actor (lit ''policyevaluation'') fresh []
                        (lit ''CONTROLS_CALCULATED'') 1
                        [(lit ''content_hash'', JStr l), (lit ''repository_id'', JStr (uuid_str (rt_repository q)))]
                        (create_row evaluation_table e d))
              (\<lambda>d'. Inr ((e, True), d'))) = Inr (ev, d')"
    by (elim exE conjE) (rule that)
  show ?thesis
  proof (cases "first_by ev_id (filter (\<lambda>e. ev_org e = actor_org actor \<and> ev_input_hash e = k)
                           (policy_evaluations (governance d)))")
    case (Some e)
    then have "d' = d" using rest by (simp split: if_splits)
    then show ?thesis by (simp add: same_policies_def)
  next
    case None
    from rest [unfolded None option.case Let_def bind_res_Inr] obtain r d2 where
      rec: "record_transition env (actor_org actor) actor (lit ''policyevaluation'') fresh []
                        (lit ''CONTROLS_CALCULATED'') 1
                        [(lit ''content_hash'', JStr l), (lit ''repository_id'', JStr (uuid_str (rt_repository q)))]
                        (create_row evaluation_table r d) = Inr d2"
      and "Inr ((r, True), d2) = (Inr (ev, d') :: ((policy_evaluation \<times> bool) \<times> db) result)"
      by (elim exE conjE) (rule that)
    then have d: "d2 = d'" by simp
    show ?thesis using record_transition_frame(36) [OF rec] unfolding d
      by (simp add: same_policies_def create_row_def evaluation_table_def)
  qed
qed

lemma evaluate_same:
  assumes "evaluate_policy env actor q now fresh d = Inr (ev, d')"
  shows "same_policies (governance d') (governance d)"
proof -
  from assms obtain a s work i out where "store_evaluation env a q s work i out fresh d = Inr (ev, d')"
    unfolding evaluate_policy_def Let_def split_beta bind_res_Inr by (elim exE conjE) (rule that)
  then show ?thesis by (rule store_evaluation_same)
qed

lemma create_override_same:
  assumes "create_policy_override env actor r p e v code n c reason expires now fresh d = Inr ((ov, created), d')"
  shows "same_policies (governance d') (governance d)"
proof (cases created)
  case True
  with assms have "create_policy_override env actor r p e v code n c reason expires now fresh d = Inr ((ov, True), d')"
    by simp
  then show ?thesis by (rule create_override_Inr) (simp add: same_policies_def)
next
  case False
  from assms [unfolded create_policy_override_def bind_res_Inr] obtain k row a m where
    rest: "(case first_by ov_id (filter (\<lambda>ov. ov_org ov = actor_org actor \<and> ov_idempotency_key ov = k)
                            (policy_overrides (governance d))) of
       Some ov \<Rightarrow> Inr ((ov, False), d)
     | None \<Rightarrow> let ov = row in bind_res (record_transition env m a (lit ''policyoverride'') fresh []
                        (lit ''ACTIVE'') 1 [] (create_row override_table ov d))
              (\<lambda>d'. Inr ((ov, True), d'))) = Inr ((ov, created), d')"
    by (elim exE conjE) (rule that)
  then have "d' = d" using False
    by (cases "first_by ov_id (filter (\<lambda>ov. ov_org ov = actor_org actor \<and> ov_idempotency_key ov = k)
                            (policy_overrides (governance d)))")
      (auto simp: Let_def bind_res_Inr simp del: first_by_None)
  then show ?thesis by (simp add: same_policies_def)
qed

lemma revoke_override_same:
  assumes "revoke_policy_override env actor r i reason now fresh d = Inr ((x, created), d')"
  shows "same_policies (governance d') (governance d)"
  using revoke_override_Inr [OF assms] by (auto simp: same_policies_def)

lemma policy_step_adds:
  assumes "policy_step env d d'"
  shows "(policies (governance d') = policies (governance d)
        \<and> policy_versions (governance d') = policy_versions (governance d)
      \<or> policy_version_added (governance d) (governance d'))
     \<and> prefix (policy_bindings (governance d)) (policy_bindings (governance d'))
     \<and> prefix (policy_requirements (governance d)) (policy_requirements (governance d'))"
proof -
  have keep: ?thesis if "same_policies (governance d') (governance d)"
    using that by (simp add: same_policies_def)
  from assms(1) show ?thesis
  proof cases
    case (imported actor payload now fv fb res)
    then show ?thesis using import_adds by blast
  next
    case (evaluated actor q now fresh ev)
    then show ?thesis using evaluate_same keep by blast
  next
    case (overridden actor r p e v code n c reason expires now fresh ov)
    then show ?thesis using create_override_same keep by (metis prod.collapse)
  next
    case (revoked actor r i reason now fresh x)
    then show ?thesis using revoke_override_same keep by (metis prod.collapse)
  qed
qed

interpretation policy_numbers: versioned po_id po_org po_revision pv_policy pv_org pv_version
    "\<lambda>d. policies (governance d)" "\<lambda>d. policy_versions (governance d)" "policy_step env" for env
  by unfold_locales (use policy_step_adds in blast)

definition policies_numbered :: "governance \<Rightarrow> bool" where
  "policies_numbered g \<longleftrightarrow>
     versions_numbered po_id po_org po_revision pv_policy pv_org pv_version (policies g) (policy_versions g)"

lemma policy_steps_keep_numbers:
  assumes "(policy_step env)\<^sup>*\<^sup>* d d'" "policies_numbered (governance d)"
  shows "policies_numbered (governance d') \<and> prefix (policy_versions (governance d)) (policy_versions (governance d'))
     \<and> prefix (policy_bindings (governance d)) (policy_bindings (governance d'))
     \<and> prefix (policy_requirements (governance d)) (policy_requirements (governance d'))"
proof -
  have "prefix (policy_bindings (governance d)) (policy_bindings (governance d'))
     \<and> prefix (policy_requirements (governance d)) (policy_requirements (governance d'))"
    using assms(1)
  proof (induction rule: rtranclp_induct)
    case base
    then show ?case by simp
  next
    case (step d1 d2)
    from policy_step_adds [OF step(2)] step(3) show ?case by (metis prefix_order.trans)
  qed
  then show ?thesis
    using policy_numbers.steps_keep_numbers [OF assms(1)] assms(2) unfolding policies_numbered_def by blast
qed

end
