(* ===== verification/CanonicalTexts.thy ===== *)
theory CanonicalTexts
  imports Store
begin

text \<open>A payload with no float and no lone surrogate has a canonical text, and so a content hash.\<close>

fun utf8_json :: "json \<Rightarrow> bool" where
  "utf8_json (JFloat x) \<longleftrightarrow> False"
| "utf8_json (JStr s) \<longleftrightarrow> \<not> list_ex is_surrogate s"
| "utf8_json (JList vs) \<longleftrightarrow> list_all utf8_json vs"
| "utf8_json (JDict items) \<longleftrightarrow> list_all (\<lambda>p. \<not> list_ex is_surrogate (fst p) \<and> utf8_json (snd p)) items"
| "utf8_json v \<longleftrightarrow> True"

lemma plain_char: "c < 55296 \<Longrightarrow> \<not> is_surrogate c"
  by (simp add: is_surrogate_def)

lemma string_text_surrogates: "list_ex is_surrogate (string_text s) \<longleftrightarrow> list_ex is_surrogate s"
proof -
  have hex: "\<not> is_surrogate (hex_char n)" if "n < 16" for n using that by (simp add: hex_char_def is_surrogate_def)
  have "list_ex is_surrogate (escaped c) \<longleftrightarrow> is_surrogate c" for c
  proof (cases "c < 32")
    case True
    then have "c div 16 < 16" by linarith
    then show ?thesis using True hex [of "c div 16"] hex [of "c mod 16"]
      by (auto simp: escaped_def) (auto simp: is_surrogate_def)
  next
    case False
    then show ?thesis by (auto simp: escaped_def is_surrogate_def)
  qed
  then show ?thesis by (induction s) (simp_all add: string_text_def is_surrogate_def)
qed

lemma digits_surrogates: "\<not> list_ex is_surrogate (int_text i)"
proof -
  have "\<not> list_ex is_surrogate (nat_text n)" for n
    using nat_text_digits(2) [of n] by (force simp: list_all_iff list_ex_iff is_surrogate_def)
  then show ?thesis by (simp add: int_text_def is_surrogate_def)
qed

lemma join_surrogates:
  "list_all (\<lambda>x. \<not> list_ex is_surrogate x) xs \<Longrightarrow> \<not> is_surrogate c \<Longrightarrow> \<not> list_ex is_surrogate (join_on c xs)"
  by (induction c xs rule: join_on.induct) auto

lemma utf8_json_text: "utf8_json v \<Longrightarrow> \<not> list_ex is_surrogate (json_text fr v)"
proof (induction v rule: utf8_json.induct)
  case (3 vs)
  have "\<not> list_ex is_surrogate (join_on 44 (map (json_text fr) vs))"
    by (rule join_surrogates) (use 3 in \<open>auto simp: list_all_iff\<close>, simp add: plain_char)
  then show ?case by (simp add: plain_char)
next
  case (4 items)
  have "\<not> list_ex is_surrogate (join_on 44 (map (\<lambda>p. string_text (fst p) @ 58 # json_text fr (snd p)) items))"
    by (rule join_surrogates)
      (use 4 in \<open>auto simp: list_all_iff string_text_surrogates\<close>, simp_all add: plain_char)
  then show ?case by (simp add: plain_char)
qed (simp_all add: string_text_surrogates digits_surrogates, simp_all add: plain_char)

lemma utf8_sorted: "utf8_json v \<Longrightarrow> utf8_json (sorted_keys v) \<and> json_finite v"
proof (induction v rule: utf8_json.induct)
  case (4 items)
  then show ?case by (fastforce simp: list_all_iff)
qed (auto simp: list_all_iff)

lemma content_hash_utf8:
  assumes "utf8_json v"
  shows "\<exists>k. content_hash env v = Inr k"
  using utf8_sorted [OF assms] utf8_json_text [of "sorted_keys v"]
  by (simp add: content_hash_def canonical_text_def Let_def)

lemma uuid_str_surrogates: "\<not> list_ex is_surrogate (uuid_str u)"
  using uuid_str_chars [of _ u] by (force simp: list_ex_iff is_surrogate_def is_hex_lower_def)

section \<open>How long a canonical text is\<close>

fun text_bound :: "json \<Rightarrow> nat" where
  "text_bound (JStr s) = 6 * length s + 2"
| "text_bound (JInt i) = length (int_text i)"
| "text_bound (JList vs) = 2 + sum_list (map (\<lambda>v. Suc (text_bound v)) vs)"
| "text_bound (JDict items) = 2 + sum_list (map (\<lambda>p. 6 * length (fst p) + 4 + text_bound (snd p)) items)"
| "text_bound v = 5"

lemma string_text_length: "length (string_text s) \<le> 6 * length s + 2"
proof -
  have "length (escaped c) \<le> 6" for c by (simp add: escaped_def)
  then have "length (concat (map escaped s)) \<le> 6 * length s"
    by (induction s) (simp_all add: add_mono)
  then show ?thesis by (simp add: string_text_def)
qed

lemma join_length: "length (join_on c xs) \<le> sum_list (map (\<lambda>x. Suc (length x)) xs)"
  by (induction c xs rule: join_on.induct) simp_all

lemma json_text_length: "utf8_json v \<Longrightarrow> length (json_text fr v) \<le> text_bound v"
proof (induction v rule: utf8_json.induct)
  case (3 vs)
  have "length (join_on 44 (map (json_text fr) vs)) \<le> sum_list (map (\<lambda>v. Suc (length (json_text fr v))) vs)"
    using join_length [of 44 "map (json_text fr) vs"] by (simp add: comp_def)
  also have "\<dots> \<le> sum_list (map (\<lambda>v. Suc (text_bound v)) vs)"
    by (rule sum_list_mono) (use 3 in \<open>simp add: list_all_iff\<close>)
  finally show ?case by simp
next
  case (4 items)
  let ?f = "\<lambda>p. string_text (fst p) @ 58 # json_text fr (snd p)"
  have "length (join_on 44 (map ?f items)) \<le> sum_list (map (\<lambda>p. Suc (length (?f p))) items)"
    using join_length [of 44 "map ?f items"] by (simp add: comp_def)
  also have "\<dots> \<le> sum_list (map (\<lambda>p. 6 * length (fst p) + 4 + text_bound (snd p)) items)"
  proof (rule sum_list_mono)
    fix p assume p: "p \<in> set items"
    then have "length (json_text fr (snd p)) \<le> text_bound (snd p)" using 4 by (auto simp: list_all_iff)
    then show "Suc (length (?f p)) \<le> 6 * length (fst p) + 4 + text_bound (snd p)"
      using string_text_length [of "fst p"] by simp
  qed
  finally show ?case by simp
qed (use string_text_length in simp_all)

lemma text_bound_sorted: "text_bound (sorted_keys v) = text_bound v"
proof (induction v)
  case (JList vs)
  then have "map (\<lambda>v. Suc (text_bound (sorted_keys v))) vs = map (\<lambda>v. Suc (text_bound v)) vs" by simp
  then show ?case unfolding sorted_keys.simps text_bound.simps map_map comp_def by (rule arg_cong)
next
  case (JDict items)
  let ?g = "\<lambda>p. 6 * length (fst p) + 4 + text_bound (snd p)"
  have "map (\<lambda>p. ?g (fst p, sorted_keys (snd p))) items = map ?g items" using JDict by (auto simp: snds.simps)
  then have "sum_list (map ?g (map (\<lambda>p. (fst p, sorted_keys (snd p))) items)) = sum_list (map ?g items)"
    unfolding map_map comp_def by (rule arg_cong)
  then show ?case using sum_list_sort_key [of ?g fst "map (\<lambda>p. (fst p, sorted_keys (snd p))) items"] by simp
qed simp_all

lemma utf8_bytes_bound: "sum_list (map utf8_width s) \<le> 4 * length s"
  by (induction s) (simp_all add: utf8_width_def)

lemma canonical_text_bounded:
  assumes "utf8_json v" "4 * text_bound v \<le> n"
  shows "\<exists>text m. canonical_text fr v = Inr text \<and> encoded_length text = Some m \<and> m \<le> n"
proof -
  let ?t = "json_text fr (sorted_keys v)"
  have u: "utf8_json (sorted_keys v)" "json_finite v" using utf8_sorted [OF assms(1)] by simp_all
  have "length ?t \<le> text_bound v" using json_text_length [OF u(1)] by (simp add: text_bound_sorted)
  then have "sum_list (map utf8_width ?t) \<le> n" using utf8_bytes_bound [of ?t] assms(2) by linarith
  then show ?thesis using u utf8_json_text [OF u(1), of fr]
    by (simp add: canonical_text_def Let_def encoded_length_def)
qed

end
