(* ===== verification/GovernanceSamples.thy ===== *)
theory GovernanceSamples
  imports TokenClaims CanonicalTexts SecretScreen
begin

text \<open>
  The deployment the witnesses of the intent, evidence and policy properties run on: the access rows of
  the token witnesses, whose administrator may do everything, over any governance tables.
\<close>

definition sample_reason :: pystr where
  "sample_reason = lit ''accepted''"

definition governed :: "governance \<Rightarrow> db" where
  "governed g = sample_admin\<lparr>governance := g\<rparr>"

lemmas governed_rows = governed_def sample_admin_def sample_access_rows

lemma governed_simps [simp]:
  "governance (governed g) = g" "audit_events (governed g) = []" "outbox_events (governed g) = []"
  by (simp_all add: governed_rows)

lemma sample_admin_role: "membership_role sample_admin sample_member = Some ORG_ADMIN"
  by (simp add: membership_role_def sample_admin_def sample_access_rows)

lemma sample_rules_principal: "resolve_principal (governed g) sample_user = Inr sample_principal"
  by (simp add: sample_principal_def resolve_principal_def governed_rows
      organization_active_def user_is_active_def first_by_def)

lemma sample_rules_role: "membership_role (governed g) sample_member = Some ORG_ADMIN"
  by (simp add: membership_role_def governed_rows)

definition sample_rules_path :: "uuid option \<Rightarrow> pystr" where
  "sample_rules_path s = decision_path sample_admin sample_user sample_principal POLICY_OVERRIDE False
     (Some 50) None s"

text \<open>The same deployment after operations that have logged what they did.\<close>

definition logged :: "governance \<Rightarrow> audit_event list \<Rightarrow> outbox_event list \<Rightarrow> db" where
  "logged g a b = (governed g)\<lparr>audit_events := a, outbox_events := b\<rparr>"

lemma logged_simps [simp]:
  "governance (logged g a b) = g" "audit_events (logged g a b) = a" "outbox_events (logged g a b) = b"
  "(logged g a b)\<lparr>governance := h\<rparr> = logged h a b"
  "(logged g a b)\<lparr>audit_events := a', outbox_events := b'\<rparr> = logged g a' b'"
  by (simp_all add: logged_def governed_def)

lemma governed_logged: "governed g = logged g [] []"
  by (simp add: logged_def governed_rows)

lemma logged_may:
  assumes "s = None \<or> s = Some 60"
  shows "authorize_action env t (logged g l b) sample_user a (Some 50) None s False
     = Inr \<lparr>dec_action = a, dec_path = sample_rules_path s\<rparr>"
proof -
  let ?d = "logged g l b"
  note rows = logged_def governed_rows
  have principal: "resolve_principal ?d sample_user = Inr sample_principal"
    by (simp add: sample_principal_def resolve_principal_def rows organization_active_def user_is_active_def first_by_def)
  have role: "membership_role ?d sample_member = Some ORG_ADMIN"
    by (simp add: membership_role_def rows)
  have actions: "role_actions ?d sample_principal = all_actions"
    by (simp add: role_actions_def role)
  have grants: "relevant_grants ?d t sample_principal a (Some 50) None = []"
    by (simp add: relevant_grants_def active_grants_def grant_of_def rows)
  have scope: "check_scope ?d sample_user sample_principal (Some 50) s = Inr ()"
    using assms by (auto simp: check_scope_def scope_allows_def scope_includes_principal_def has_source_in_def rows)
  have repo: "check_repository ?d sample_user (Some 50) = Inr ()"
    by (simp add: check_repository_def rows)
  have path: "decision_path ?d sample_user sample_principal a False (Some 50) None s = sample_rules_path s"
    by (simp add: decision_path_def role every_action sample_rules_path_def sample_admin_role)
  show ?thesis
    unfolding authorize_action_def principal
    by (simp add: check_credential_def credential_allows_def check_source_def actions
        every_action grants path repo scope Let_def)
qed

lemma sample_rules_may:
  assumes "s = None \<or> s = Some 60"
  shows "authorize_action env t (governed g) sample_user a (Some 50) None s False
     = Inr \<lparr>dec_action = a, dec_path = sample_rules_path s\<rparr>"
  unfolding governed_logged by (rule logged_may [OF assms])

lemma sample_rules_audit:
  "audit_actor sample_user \<lparr>dec_action = a, dec_path = sample_rules_path s\<rparr>
     = Inr (sample_user\<lparr>actor_path := sample_rules_path s\<rparr>)"
proof -
  have dash: "45 \<in> set (uuid_str 10)" unfolding uuid_str_def Let_def by simp
  have id: "strip (uuid_str 10) \<noteq> []" unfolding strip_empty_iff
    using dash by (auto simp: is_space_def intro!: bexI [where x = 45])
  have path: "strip (sample_rules_path s) \<noteq> []" unfolding strip_empty_iff
    by (cases s) (auto simp: sample_rules_path_def decision_path_def sample_admin_role every_action is_space_def)
  have type: "strip (lit ''USER'') \<noteq> []" unfolding strip_empty_iff by (simp add: is_space_def)
  from id path type show ?thesis by (simp only: audit_actor_def check_actor_def sample_user_def) simp
qed

lemma sample_reason_ok: "strip sample_reason \<noteq> []" "reject_secrets sample_env (JStr sample_reason) = Inr ()"
  by (simp_all add: strip_def is_space_def reject_secrets_def screen_text_def sample_reason_def)

end
