(* ===== verification/PolicyClaims.thy ===== *)
theory PolicyClaims
  imports PolicySafety PolicyLife GovernanceSamples
begin

text \<open>The properties of the policy engine, on a small deployment with one evaluated policy.\<close>

section \<open>A sample policy\<close>

text \<open>
  Tenant 1 has policy 41 with its version 42, which requires control \<^verbatim>\<open>R\<close>; it was evaluated (43) for
  pull request 7 of repository 50.
\<close>

definition sample_commit :: pystr where
  "sample_commit = replicate 40 97"

definition sample_code :: pystr where
  "sample_code = lit ''R''"

definition sample_expiry :: "instant \<times> pystr" where
  "sample_expiry = (9, lit ''9'')"

definition sample_version :: policy_version where
  "sample_version = \<lparr>pv_id = 42, pv_org = 1, pv_policy = 41, pv_version = 1, pv_schema_version = [],
     pv_definition = [], pv_content_hash = [], pv_effective_at = 0, pv_expires_at = None,
     pv_created_by_type = [], pv_created_by_id = []\<rparr>"

definition sample_requirement :: policy_requirement where
  "sample_requirement = \<lparr>rq_id = 44, rq_version = 42, rq_code = sample_code, rq_description = [],
     rq_enforcement = BLOCKING, rq_check_type = lit ''review'', rq_required_evidence = [],
     rq_required_reviewers = [], rq_required_approval = True, rq_report_sections = []\<rparr>"

definition sample_evaluation :: policy_evaluation where
  "sample_evaluation = \<lparr>ev_id = 43, ev_org = 1, ev_repository = 50, ev_access_scope = 60,
     ev_work_revision = None, ev_pull_request = 7, ev_commit = sample_commit, ev_reference_time = 4,
     ev_is_simulation = False,
     ev_input = [(lit ''policy_versions'', JList [JDict [(lit ''id'', JStr (uuid_str 42))]])],
     ev_input_hash = [], ev_output = JNull, ev_output_hash = []\<rparr>"

definition sample_policy :: policy where
  "sample_policy = \<lparr>po_id = 41, po_org = 1, po_access_scope = 60, po_name = [], po_owner = [],
     po_status = lit ''ACTIVE'', po_content_hash = [], po_revision = 1\<rparr>"

definition sample_rules :: governance where
  "sample_rules = empty_governance\<lparr>
     policies := [sample_policy], policy_versions := [sample_version],
     policy_requirements := [sample_requirement], policy_evaluations := [sample_evaluation]\<rparr>"

lemma sample_rules_simps [simp]:
  "policies sample_rules = [sample_policy]" "policy_versions sample_rules = [sample_version]"
  "policy_requirements sample_rules = [sample_requirement]" "policy_evaluations sample_rules = [sample_evaluation]"
  "policy_overrides sample_rules = []" "override_revocations sample_rules = []"
  by (simp_all add: sample_rules_def empty_governance_def)

lemma sample_policy_simps [simp]:
  "po_id sample_policy = 41" "po_org sample_policy = 1" "po_access_scope sample_policy = 60"
  "po_revision sample_policy = 1" "pv_id sample_version = 42" "pv_org sample_version = 1"
  "pv_policy sample_version = 41" "pv_version sample_version = 1" "ev_id sample_evaluation = 43"
  "ev_org sample_evaluation = 1" "ev_access_scope sample_evaluation = 60"
  "ev_repository sample_evaluation = 50" "ev_pull_request sample_evaluation = 7"
  "ev_commit sample_evaluation = sample_commit" "rq_version sample_requirement = 42"
  "rq_code sample_requirement = sample_code"
  by (simp_all add: sample_policy_def sample_version_def sample_evaluation_def sample_requirement_def)

lemma sample_numbered: "policies_numbered sample_rules"
  by (simp add: policies_numbered_def versions_numbered_def)

lemma sample_evaluated: "evaluated_version_ids sample_evaluation = Inr [uuid_str 42]"
  by (simp add: evaluated_version_ids_def sample_evaluation_def item_of_def as_list_def as_dict_def
      text_at_def json_get_def as_text_def)

lemma sample_commit_surrogates: "\<not> list_ex is_surrogate sample_commit"
  by (simp add: sample_commit_def list_ex_iff plain_char)

lemma sample_key: "\<exists>k. content_hash sample_env (override_identity sample_evaluation sample_version
     (sample_user\<lparr>actor_path := sample_rules_path (Some 60)\<rparr>) sample_code sample_reason (Some sample_expiry)) = Inr k"
  by (rule content_hash_utf8)
    (simp add: override_identity_def uuid_json_def uuid_str_surrogates sample_commit_surrogates sample_user_def plain_char
      sample_code_def sample_reason_def sample_expiry_def)

lemma sample_creation:
  "\<exists>ov d'. create_policy_override sample_env sample_user 50 41 43 42 sample_code 7 sample_commit sample_reason
     (Some sample_expiry) 5 45 (governed sample_rules) = Inr ((ov, True), d')"
proof -
  obtain k where key: "content_hash sample_env (override_identity sample_evaluation sample_version
     (sample_user\<lparr>actor_path := sample_rules_path (Some 60)\<rparr>) sample_code sample_reason (Some sample_expiry)) = Inr k"
    using sample_key by blast
  have commit: "validate_full_commit sample_commit = Inr ()"
    by (simp add: validate_full_commit_def sample_commit_def is_lower_hex_def list_all_iff)
  have rows: "get_tenant_record evaluation_table 43 1 (governed sample_rules) = Inr sample_evaluation"
    "get_tenant_record_for_update evaluation_table 43 1 (governed sample_rules) = Inr sample_evaluation"
    "get_tenant_record version_table 42 1 (governed sample_rules) = Inr sample_version"
    by (simp_all add: get_tenant_record_def get_tenant_record_for_update_def evaluation_table_def version_table_def)
  have target: "override_target sample_rules sample_evaluation sample_version 50 41 sample_code 7 sample_commit
      = Inr ()"
    by (simp add: override_target_def sample_evaluated)
  have policy: "policy_of sample_rules sample_version = Inr sample_policy"
    by (simp add: policy_of_def)
  have reason: "strip sample_reason \<noteq> []" "reject_secrets sample_env (JStr sample_reason) = Inr ()"
    by (simp_all add: strip_def is_space_def reject_secrets_def screen_text_def sample_reason_def)
  have future: "future_expiry 5 (Some sample_expiry)" by (simp add: future_expiry_def sample_expiry_def)
  let ?ov = "\<lparr>ov_id = 45, ov_org = 1, ov_evaluation = 43, ov_version = 42, ov_repository = 50, ov_pull_request = 7,
     ov_code = sample_code, ov_commit = sample_commit, ov_actor_type = lit ''USER'', ov_actor_id = actor_id sample_user,
     ov_authority_path = sample_rules_path (Some 60), ov_reason = sample_reason, ov_idempotency_key = k,
     ov_expires_at = Some (fst sample_expiry), ov_created_at = 5\<rparr>"
  have "\<exists>d'. record_transition sample_env 1 (sample_user\<lparr>actor_path := sample_rules_path (Some 60)\<rparr>)
      (lit ''policyoverride'') 45 [] (lit ''ACTIVE'') 1 [] (create_row override_table ?ov (governed sample_rules)) = Inr d'"
    by (rule exI, rule record_transition_ok) (simp_all add: actor_clean_def create_row_def override_table_def
     )
  then obtain d' where rec: "record_transition sample_env 1 (sample_user\<lparr>actor_path := sample_rules_path (Some 60)\<rparr>)
      (lit ''policyoverride'') 45 [] (lit ''ACTIVE'') 1 [] (create_row override_table ?ov (governed sample_rules)) = Inr d'"
    by blast
  have "create_policy_override sample_env sample_user 50 41 43 42 sample_code 7 sample_commit sample_reason
     (Some sample_expiry) 5 45 (governed sample_rules) = Inr ((?ov, True), d')"
    unfolding create_policy_override_def
    by (simp add: commit rows target policy reason key sample_rules_may sample_rules_audit future Let_def
        del: One_nat_def)
      (use rec in \<open>simp add: first_by_def Let_def del: One_nat_def\<close>)
  then show ?thesis by blast
qed

definition sample_override :: policy_override where
  "sample_override = \<lparr>ov_id = 45, ov_org = 1, ov_evaluation = 43, ov_version = 42, ov_repository = 50,
     ov_pull_request = 7, ov_code = sample_code, ov_commit = sample_commit, ov_actor_type = [], ov_actor_id = [],
     ov_authority_path = [], ov_reason = [], ov_idempotency_key = [], ov_expires_at = None, ov_created_at = 5\<rparr>"

lemma sample_override_simps [simp]:
  "ov_id sample_override = 45" "ov_org sample_override = 1" "ov_repository sample_override = 50"
  "ov_version sample_override = 42" "ov_evaluation sample_override = 43" "ov_pull_request sample_override = 7"
  "ov_commit sample_override = sample_commit" "ov_created_at sample_override = 5" "ov_expires_at sample_override = None"
  by (simp_all add: sample_override_def)

lemma sample_withdrawal:
  "\<exists>x d'. revoke_policy_override sample_env sample_user 50 45 sample_reason 6 46
     (governed (sample_rules\<lparr>policy_overrides := [sample_override]\<rparr>)) = Inr ((x, True), d') \<and> or_revoked_at x = 6"
proof -
  let ?d = "governed (sample_rules\<lparr>policy_overrides := [sample_override]\<rparr>)"
  have rows: "get_tenant_record override_table 45 1 ?d = Inr sample_override"
    "get_tenant_record_for_update override_table 45 1 ?d = Inr sample_override"
    by (simp_all add: get_tenant_record_def get_tenant_record_for_update_def override_table_def)
  have around: "override_context ?d sample_override = Inr (sample_policy, sample_evaluation)"
    by (simp add: override_context_def policy_of_def)
  have reason: "strip sample_reason \<noteq> []" "reject_secrets sample_env (JStr sample_reason) = Inr ()"
    by (simp_all add: strip_def is_space_def reject_secrets_def screen_text_def sample_reason_def)
  let ?x = "\<lparr>or_id = 46, or_org = 1, or_override = 45, or_actor_type = lit ''USER'', or_actor_id = actor_id sample_user,
     or_authority_path = sample_rules_path (Some 60), or_reason = sample_reason, or_revoked_at = 6\<rparr>"
  let ?d1 = "?d\<lparr>governance := (governance ?d)\<lparr>override_revocations := [?x]\<rparr>\<rparr>"
  have "\<exists>d'. record_transition sample_env 1 (sample_user\<lparr>actor_path := sample_rules_path (Some 60)\<rparr>)
      (lit ''policyoverriderevocation'') 46 (lit ''ACTIVE'') (lit ''REVOKED'') 1 [] ?d1 = Inr d'"
    by (rule exI, rule record_transition_ok) (simp_all add: actor_clean_def)
  then obtain d' where rec: "record_transition sample_env 1 (sample_user\<lparr>actor_path := sample_rules_path (Some 60)\<rparr>)
      (lit ''policyoverriderevocation'') 46 (lit ''ACTIVE'') (lit ''REVOKED'') 1 [] ?d1 = Inr d'" by blast
  have "revoke_policy_override sample_env sample_user 50 45 sample_reason 6 46 ?d = Inr ((?x, True), d')"
    unfolding revoke_policy_override_def
    by (simp add: rows around reason sample_rules_may sample_rules_audit del: One_nat_def)
      (use rec in \<open>simp del: One_nat_def\<close>)
  then show ?thesis by auto
qed

section \<open>Properties\<close>

text \<open>
  What a path pattern of a policy matches.  For a valid pattern and a valid path the answer is the one
  of the path grammar: cut at its double stars, the pieces of the pattern match stretches of the path
  segment by segment, a star or a question mark never crossing a slash, and anything may stand at a
  double star.
\<close>

theorem pattern_matches_by_its_grammar:
  assumes "validate_relative_artifact_path p = Inr ()" "validate_relative_artifact_path s = Inr ()"
  shows "path_pattern_matches p s = Inr (pieces_match (double_stars p) s)"
  by (rule pattern_decides [OF assms])

theorem pattern_matches_by_its_grammar_witness:
  "path_pattern_matches (lit ''src/**/*.py'') (lit ''src/a/b.py'')
     = Inr True
   \<and> path_pattern_matches (lit ''src/*.py'') (lit ''src/a/b.py'') = Inr False"
  by (rule conjI; subst pattern_matches_by_its_grammar; code_simp)

text \<open>C4: 
  The controls of an evaluation are the declarative merge of the requirements no override waives: they
  fail exactly when two requirements of a code disagree on their check type; otherwise there is one
  control for every code, blocking when any of its requirements is, with the united evidence,
  reviewers and sections, in the order of the codes, and every waived requirement is reported.
\<close>

theorem controls_are_the_additive_merge:
  "calculate_controls ov xs =
     (if incompatible (in_force ov xs) then Inl (ValueError ''Incompatible policy check types for control'')
      else Inr (reference_controls (in_force ov xs), sort_key (\<lambda>a. uuid_str (ao_override a)) (waived ov xs)))"
  by (rule calculate_controls_reference)

text \<open>C12: 
  An evaluation does not depend on the order of its input: the versions, the paths and the entities of
  a request may come in any order, and the result, the stored row with its digests, and every error
  are the same.
\<close>

theorem evaluation_ignores_input_order:
  assumes "mset ids = mset (rt_version_ids q)" "mset ps = mset (rt_paths q)" "mset es = mset (rt_entities q)"
  shows "evaluate_policy env actor (q\<lparr>rt_version_ids := ids, rt_paths := ps, rt_entities := es\<rparr>) now fresh d
     = evaluate_policy env actor q now fresh d"
  by (rule evaluation_order [OF assms])

text \<open>
  Two versions are evaluated for pull request 7: 42, which applies everywhere and requires control \<^verbatim>\<open>R\<close>, and 48,
  which applies to the branch \<^verbatim>\<open>release\<close> only.
\<close>

definition active_version :: "uuid \<Rightarrow> policy_version" where
  "active_version i = sample_version\<lparr>pv_id := i, pv_definition := [(lit ''status'', JStr (lit ''ACTIVE''))]\<rparr>"

definition branch_binding :: "uuid \<Rightarrow> uuid \<Rightarrow> pystr list \<Rightarrow> policy_binding" where
  "branch_binding i v branches = \<lparr>bi_id = i, bi_version = v, bi_scope_level = LEVEL_ORGANIZATION, bi_mandatory = True,
     bi_repository_ids = [], bi_entity_ids = [], bi_entity_types = [], bi_path_patterns = [], bi_work_item_types = [],
     bi_target_branches = branches\<rparr>"

definition sample_pair :: governance where
  "sample_pair = empty_governance\<lparr>policies := [sample_policy], policy_versions := [active_version 42, active_version 48],
     policy_bindings := [branch_binding 51 42 [], branch_binding 52 48 [lit ''release'']],
     policy_requirements := [sample_requirement]\<rparr>"

definition sample_request :: evaluation_request where
  "sample_request = \<lparr>rt_repository = 50, rt_pull_request = 7, rt_commit = sample_commit, rt_version_ids = [42, 48],
     rt_reference = 4, rt_reference_text = lit ''4'', rt_paths = [lit ''a'', lit ''b''], rt_entities = [],
     rt_target_branch = lit ''main'', rt_work_revision = None, rt_simulation = False\<rparr>"

definition sample_considered :: "considered_binding list" where
  "sample_considered =
     [\<lparr>cb_version = active_version 42, cb_binding = branch_binding 51 42 [], cb_matched = True, cb_reasons = []\<rparr>,
      \<lparr>cb_version = active_version 48, cb_binding = branch_binding 52 48 [lit ''release''], cb_matched = False,
       cb_reasons = [lit ''target_branch:not_matched'']\<rparr>]"

lemma sample_pair_simps [simp]:
  "policies sample_pair = [sample_policy]" "policy_versions sample_pair = [active_version 42, active_version 48]"
  "policy_requirements sample_pair = [sample_requirement]" "policy_evaluations sample_pair = []"
  "policy_overrides sample_pair = []" "override_revocations sample_pair = []"
  "policy_bindings sample_pair = [branch_binding 51 42 [], branch_binding 52 48 [lit ''release'']]"
  by (simp_all add: sample_pair_def empty_governance_def)

lemma sample_considers:
  "map_res (consider_version sample_pair sample_request ps [] None) [active_version 42, active_version 48] = Inr sample_considered"
  by (simp add: consider_version_def version_binding_def binding_matches_def binding_dimensions_def path_dimension_def
      entity_dimension_def branch_binding_def active_version_def sample_considered_def sample_request_def dimension_reason_def)

lemma sample_calculates:
  "\<exists>c. calculate_controls [] (control_inputs sample_pair (matched_bindings sample_considered)) = Inr ([c], [])
     \<and> utf8_json (control_json c)"
  by (simp add: control_inputs_def matched_bindings_def sample_considered_def requirements_of_def calculate_controls_def
      active_version_def apply_requirement_def override_for_def new_control_def add_requirement_def put_control_def
      control_json_def source_json_def source_of_def texts_json_def sorted_set_def sample_requirement_def sample_code_def
      uuid_json_def uuid_str_surrogates plain_char branch_binding_def Let_def)

lemma sample_request_checked: "check_request sample_request = Inr ([lit ''a'', lit ''b''], [])"
proof -
  have "validate_full_commit sample_commit = Inr ()"
    by (simp add: validate_full_commit_def sample_commit_def is_lower_hex_def list_all_iff)
  then show ?thesis by (simp add: check_request_def sample_request_def normalized_entities_def sorted_set_def
    validate_relative_artifact_path_def path_is_absolute_def path_parts_def path_str_def path_root_def path_tail_def)
qed

lemma sample_evaluates:
  "\<exists>e d'. evaluate_policy sample_env sample_user sample_request 5 47 (governed sample_pair) = Inr ((e, True), d')"
proof -
  obtain c where c: "calculate_controls [] (control_inputs sample_pair (matched_bindings sample_considered)) = Inr ([c], [])"
    "utf8_json (control_json c)" using sample_calculates by blast
  let ?in = "evaluation_input 1 sample_request None sample_considered [] [lit ''a'', lit ''b''] []"
  let ?out = "evaluation_output sample_considered [c] []"
  have texts: "\<not> list_ex is_surrogate (lit ''target_branch:not_matched'')" "\<not> list_ex is_surrogate (lit ''R'')"
    by (simp_all add: list_ex_iff plain_char)
  have "utf8_json (JDict ?in)"
    by (simp add: evaluation_input_def sample_considered_def version_json_def active_version_def branch_binding_def
        uuid_json_def uuid_str_surrogates plain_char sample_commit_surrogates sample_request_def texts_json_def
        POLICY_ENGINE_VERSION_def sample_version_def is_surrogate_def)
  then obtain h where h: "content_hash sample_env (JDict ?in) = Inr h" using content_hash_utf8 by blast
  have "utf8_json ?out"
    using c(2) by (simp add: evaluation_output_def matched_bindings_def sample_considered_def matched_json_def considered_json_def
        active_version_def branch_binding_def uuid_json_def uuid_str_surrogates plain_char texts_json_def
        POLICY_ENGINE_VERSION_def is_surrogate_def list_all_iff)
  then obtain k where k: "content_hash sample_env ?out = Inr k" using content_hash_utf8 by blast
  let ?a = "sample_user\<lparr>actor_path := sample_rules_path (Some 60)\<rparr>"
  let ?e = "\<lparr>ev_id = 47, ev_org = 1, ev_repository = 50, ev_access_scope = 60, ev_work_revision = None, ev_pull_request = 7,
     ev_commit = sample_commit, ev_reference_time = 4, ev_is_simulation = False, ev_input = ?in, ev_input_hash = h,
     ev_output = ?out, ev_output_hash = k\<rparr>"
  have "\<exists>d'. record_transition sample_env 1 ?a (lit ''policyevaluation'') 47 [] (lit ''CONTROLS_CALCULATED'') 1
      [(lit ''content_hash'', JStr k), (lit ''repository_id'', JStr (uuid_str 50))]
      (create_row evaluation_table ?e (governed sample_pair)) = Inr d'"
    by (simp add: record_transition_def insert_unique_def screen_audit_key_def ALLOWED_AUDIT_METADATA_KEYS_def
        create_row_def evaluation_table_def)
  then obtain d' where rec: "record_transition sample_env 1 ?a (lit ''policyevaluation'') 47 [] (lit ''CONTROLS_CALCULATED'') 1
      [(lit ''content_hash'', JStr k), (lit ''repository_id'', JStr (uuid_str 50))]
      (create_row evaluation_table ?e (governed sample_pair)) = Inr d'" by blast
  have org: "actor_org sample_user = 1" by (simp add: sample_user_def sample_actor_def)
  have stored: "store_evaluation sample_env ?a sample_request 60 None ?in ?out 47 (governed sample_pair) = Inr ((?e, True), d')"
    using rec h k org by (simp add: store_evaluation_def Let_def sample_request_def first_by_def del: One_nat_def lit_simps)
  have asked: "rt_repository sample_request = 50" "rt_pull_request sample_request = 7" "rt_commit sample_request = sample_commit"
    "rt_reference sample_request = 4" "work_context (governed sample_pair) sample_user sample_request = Inr (None, [])"
    by (simp_all add: sample_request_def work_context_def)
  have versions: "requested_versions sample_pair 1 sample_request = Inr [active_version 42, active_version 48]"
    by (simp add: requested_versions_def sample_request_def active_version_def sample_version_def version_in_force_def json_get_def)
  have scopes: "map_res (version_scope sample_env 5 (governed sample_pair) sample_user 50) [active_version 42, active_version 48]
      = Inr [60, 60]"
    by (simp add: version_scope_def policy_of_def active_version_def sample_version_def sample_rules_may)
  have shared: "shared_scope (governed sample_pair) 1 [60, 60] = Inr 60"
    by (simp add: shared_scope_def get_tenant_record_def active_scope_table_def scope_table_def governed_rows)
  have repository: "\<exists>x. get_tenant_record active_repository_table 50 1 (governed sample_pair) = Inr x"
    by (simp add: get_tenant_record_def active_repository_table_def repository_table_def governed_rows)
  then obtain x where x: "get_tenant_record active_repository_table 50 1 (governed sample_pair) = Inr x" by blast
  have none: "active_overrides sample_pair o' r n cm vs t = []" for o' r n cm vs t by (simp add: active_overrides_def)
  have "evaluate_policy sample_env sample_user sample_request 5 47 (governed sample_pair) = Inr ((?e, True), d')"
    unfolding evaluate_policy_def
    by (simp add: sample_request_checked asked org versions scopes shared x sample_rules_may sample_rules_audit none
        check_entities_def sample_considers c(1) stored Let_def del: One_nat_def lit_simps map_res.simps)
  then show ?thesis by (intro exI)
qed

theorem evaluation_ignores_input_order_witness:
  "\<exists>e d'. evaluate_policy sample_env sample_user
       (sample_request\<lparr>rt_version_ids := [48, 42], rt_paths := [lit ''b'', lit ''a''], rt_entities := []\<rparr>) 5 47
       (governed sample_pair) = Inr ((e, True), d')
     \<and> evaluate_policy sample_env sample_user sample_request 5 47 (governed sample_pair) = Inr ((e, True), d')"
proof -
  obtain e d' where op: "evaluate_policy sample_env sample_user sample_request 5 47 (governed sample_pair) = Inr ((e, True), d')"
    using sample_evaluates by blast
  have "evaluate_policy sample_env sample_user
       (sample_request\<lparr>rt_version_ids := [48, 42], rt_paths := [lit ''b'', lit ''a''], rt_entities := []\<rparr>) 5 47 (governed sample_pair)
     = evaluate_policy sample_env sample_user sample_request 5 47 (governed sample_pair)"
    by (rule evaluation_ignores_input_order) (simp_all add: sample_request_def)
  with op show ?thesis by (intro exI conjI) simp_all
qed

text \<open>C13: 
  An override reaches only its target.  Creating one needs the override authority for the repository in
  the scope of the evaluation it waives, and it then counts for that tenant, repository, pull
  request, commit and policy version only, from its creation until it expires; whatever else counted
  before still does.
\<close>

theorem override_reaches_only_its_target:
  assumes "create_policy_override env actor repository policy_id evaluation_id version_id code pull_request
       commit reason expires now fresh d = Inr ((ov, True), d')"
    and "fresh \<notin> or_override ` set (override_revocations (governance d))"
  shows "(\<exists>e\<in>set (policy_evaluations (governance d)). ev_id e = evaluation_id \<and> ev_org e = actor_org actor
        \<and> returns (authorize_action env now d actor POLICY_OVERRIDE (Some repository) None (Some (ev_access_scope e)) False))
     \<and> set (active_overrides (governance d') org r n c vs t) = set (active_overrides (governance d) org r n c vs t)
         \<union> (if org = actor_org actor \<and> r = repository \<and> n = pull_request \<and> c = commit \<and> version_id \<in> set vs
               \<and> now \<le> t \<and> (case expires of None \<Rightarrow> True | Some (e, text) \<Rightarrow> t < e) then {ov} else {})"
proof (rule conjI)
  show "\<exists>e\<in>set (policy_evaluations (governance d)). ev_id e = evaluation_id \<and> ev_org e = actor_org actor
      \<and> returns (authorize_action env now d actor POLICY_OVERRIDE (Some repository) None (Some (ev_access_scope e)) False)"
    by (rule create_override_Inr [OF assms(1)]) blast
qed (rule active_after_create [OF assms])

theorem override_reaches_only_its_target_witness:
  "\<exists>ov d'. create_policy_override sample_env sample_user 50 41 43 42 sample_code 7 sample_commit sample_reason
       (Some sample_expiry) 5 45 (governed sample_rules) = Inr ((ov, True), d')
     \<and> set (active_overrides (governance d') 1 50 7 sample_commit [42] 6) = {ov}
     \<and> set (active_overrides (governance d') 1 50 7 sample_commit [42] 9) = {}"
proof -
  obtain ov d' where op: "create_policy_override sample_env sample_user 50 41 43 42 sample_code 7 sample_commit
      sample_reason (Some sample_expiry) 5 45 (governed sample_rules) = Inr ((ov, True), d')" using sample_creation by blast
  have none: "active_overrides sample_rules org r n c vs t = []" for org r n c vs t
    by (simp add: active_overrides_def)
  show ?thesis
    using op override_reaches_only_its_target [OF op, of 1 50 7 sample_commit "[42]" 6]
      override_reaches_only_its_target [OF op, of 1 50 7 sample_commit "[42]" 9]
    by (simp add: none) (auto simp: sample_expiry_def)
qed

text \<open>
  A revoked override never counts again: from the instant of its revocation on, the overrides in force
  are those from before without it, and the revocation takes nothing else away.
\<close>

theorem revoked_override_never_counts:
  assumes "revoke_policy_override env actor repository override_id reason now fresh d = Inr ((x, created), d')"
  shows "active_overrides (governance d') org r n c vs t =
     (if or_revoked_at x \<le> t then filter (\<lambda>ov. ov_id ov \<noteq> override_id) (active_overrides (governance d) org r n c vs t)
      else active_overrides (governance d) org r n c vs t)"
  by (rule active_after_revocation [OF assms])

theorem revoked_override_never_counts_witness:
  "\<exists>x d'. revoke_policy_override sample_env sample_user 50 45 sample_reason 6 46
       (governed (sample_rules\<lparr>policy_overrides := [sample_override]\<rparr>)) = Inr ((x, True), d')
     \<and> active_overrides (sample_rules\<lparr>policy_overrides := [sample_override]\<rparr>) 1 50 7 sample_commit [42] 8 = [sample_override]
     \<and> active_overrides (governance d') 1 50 7 sample_commit [42] 8 = []"
proof -
  let ?g = "sample_rules\<lparr>policy_overrides := [sample_override]\<rparr>"
  obtain x d' where op: "revoke_policy_override sample_env sample_user 50 45 sample_reason 6 46 (governed ?g)
      = Inr ((x, True), d')" and x: "or_revoked_at x = 6" using sample_withdrawal by blast
  have before: "active_overrides ?g 1 50 7 sample_commit [42] 8 = [sample_override]"
    by (simp add: active_overrides_def override_revoked_by_def)
  have "active_overrides (governance d') 1 50 7 sample_commit [42] 8 = []"
    using revoked_override_never_counts [OF op, of 1 50 7 sample_commit "[42]" 8] x before by simp
  with op before show ?thesis by blast
qed

text \<open>
  The versions of a policy are numbered 1, 2, 3 and so on without a gap or a repetition, up to the
  revision of the policy, and stay so through every import, evaluation, override and revocation by
  anyone; versions, their bindings and their requirements are only ever added.
\<close>

theorem policy_versions_are_sequential:
  assumes "(policy_step env)\<^sup>*\<^sup>* d d'" "policies_numbered (governance d)"
  shows "policies_numbered (governance d')
     \<and> prefix (policy_versions (governance d)) (policy_versions (governance d'))
     \<and> prefix (policy_bindings (governance d)) (policy_bindings (governance d'))
     \<and> prefix (policy_requirements (governance d)) (policy_requirements (governance d'))"
  by (rule policy_steps_keep_numbers [OF assms])

theorem policy_versions_are_sequential_witness:
  "\<exists>d'. policy_step sample_env (governed sample_rules) d' \<and> policies_numbered (governance d')
     \<and> prefix [sample_version] (policy_versions (governance d'))"
proof -
  obtain ov d' where "create_policy_override sample_env sample_user 50 41 43 42 sample_code 7 sample_commit
      sample_reason (Some sample_expiry) 5 45 (governed sample_rules) = Inr ((ov, True), d')"
    using sample_creation by blast
  then have step: "policy_step sample_env (governed sample_rules) d'" by (rule policy_step.overridden)
  then have "(policy_step sample_env)\<^sup>*\<^sup>* (governed sample_rules) d'" by blast
  from policy_versions_are_sequential [OF this] sample_numbered step show ?thesis by auto
qed

end
