(* ===== verification/IntentDocuments.thy ===== *)
theory IntentDocuments
  imports GovernanceTables
begin

text \<open>
  The documents \<^verbatim>\<open>import_work_item\<close> reads (\<^verbatim>\<open>src/anva/core/services/intent.py\<close>) and the checks it makes of
  them beyond the schema.
\<close>

section \<open>The documents\<close>

record requirement_item =
  ri_code :: pystr
  ri_normalized_text :: pystr
  ri_origin :: pystr
  ri_owner :: pystr
  ri_status :: pystr
  ri_source_references :: json
  ri_related_entity_ids :: "pystr list"
  ri_requires_approval :: bool

record criterion_item =
  ci_code :: pystr
  ci_requirement_code :: "pystr option"
  ci_normalized_text :: pystr
  ci_evidence_types :: "pystr list"
  ci_manual_approval :: bool

record exclusion_item =
  xi_code :: pystr
  xi_normalized_text :: pystr
  xi_rationale :: pystr

record assumption_item =
  si_code :: pystr
  si_normalized_text :: pystr
  si_status :: pystr
  si_validation_reference :: pystr

record decision_item =
  di_code :: pystr
  di_title :: pystr
  di_outcome :: pystr
  di_rationale :: pystr
  di_status :: pystr

record summary_item =
  mi_type :: pystr
  mi_structured_data :: json
  mi_producer :: pystr

record work_document =
  wd_organization_id :: pystr
  wd_repository_id :: pystr
  wd_access_scope_id :: pystr
  wd_work_item_id :: pystr
  wd_revision :: int
  wd_external_key :: json
  wd_title :: pystr
  wd_work_type :: pystr
  wd_status :: pystr
  wd_summary :: pystr
  wd_origin :: pystr
  wd_source_references :: json
  wd_requirements :: "requirement_item list"
  wd_non_requirements :: "exclusion_item list"
  wd_assumptions :: "assumption_item list"
  wd_criteria :: "criterion_item list"
  wd_decisions :: "decision_item list"
  wd_summaries :: "summary_item list"

definition read_requirement_item :: "(pystr \<times> json) list \<Rightarrow> requirement_item result" where
  "read_requirement_item r =
     bind_res (text_at r (lit ''code'')) (\<lambda>code.
     bind_res (text_at r (lit ''normalized_text'')) (\<lambda>normal.
     bind_res (text_at r (lit ''origin'')) (\<lambda>origin.
     bind_res (text_at r (lit ''owner'')) (\<lambda>owner.
     bind_res (text_at r (lit ''status'')) (\<lambda>status.
     bind_res (item_of r (lit ''source_references'')) (\<lambda>refs.
     bind_res (texts_at r (lit ''related_entity_ids'')) (\<lambda>related.
     bind_res (bool_at r (lit ''requires_approval'')) (\<lambda>approval.
       Inr \<lparr>ri_code = code, ri_normalized_text = normal, ri_origin = origin, ri_owner = owner,
            ri_status = status, ri_source_references = refs, ri_related_entity_ids = related,
            ri_requires_approval = approval\<rparr>))))))))"

definition read_criterion_item :: "(pystr \<times> json) list \<Rightarrow> criterion_item result" where
  "read_criterion_item r =
     bind_res (text_at r (lit ''code'')) (\<lambda>code.
     bind_res (optional_text_at r (lit ''requirement_code'')) (\<lambda>requirement.
     bind_res (text_at r (lit ''normalized_text'')) (\<lambda>normal.
     bind_res (texts_at r (lit ''required_evidence_types'')) (\<lambda>types.
     bind_res (bool_at r (lit ''manual_approval_allowed'')) (\<lambda>manual.
       Inr \<lparr>ci_code = code, ci_requirement_code = requirement, ci_normalized_text = normal,
            ci_evidence_types = types, ci_manual_approval = manual\<rparr>)))))"

definition read_exclusion_item :: "(pystr \<times> json) list \<Rightarrow> exclusion_item result" where
  "read_exclusion_item r =
     bind_res (text_at r (lit ''code'')) (\<lambda>code.
     bind_res (text_at r (lit ''normalized_text'')) (\<lambda>normal.
     bind_res (text_at r (lit ''rationale'')) (\<lambda>rationale.
       Inr \<lparr>xi_code = code, xi_normalized_text = normal, xi_rationale = rationale\<rparr>)))"

definition read_assumption_item :: "(pystr \<times> json) list \<Rightarrow> assumption_item result" where
  "read_assumption_item r =
     bind_res (text_at r (lit ''code'')) (\<lambda>code.
     bind_res (text_at r (lit ''normalized_text'')) (\<lambda>normal.
     bind_res (text_at r (lit ''status'')) (\<lambda>status.
     bind_res (text_at r (lit ''validation_reference'')) (\<lambda>validation.
       Inr \<lparr>si_code = code, si_normalized_text = normal, si_status = status,
            si_validation_reference = validation\<rparr>))))"

definition read_decision_item :: "(pystr \<times> json) list \<Rightarrow> decision_item result" where
  "read_decision_item r =
     bind_res (text_at r (lit ''code'')) (\<lambda>code.
     bind_res (text_at r (lit ''title'')) (\<lambda>title.
     bind_res (text_at r (lit ''outcome'')) (\<lambda>outcome.
     bind_res (text_at r (lit ''rationale'')) (\<lambda>rationale.
     bind_res (text_at r (lit ''status'')) (\<lambda>status.
       Inr \<lparr>di_code = code, di_title = title, di_outcome = outcome, di_rationale = rationale,
            di_status = status\<rparr>)))))"

definition read_summary_item :: "(pystr \<times> json) list \<Rightarrow> summary_item result" where
  "read_summary_item r =
     bind_res (text_at r (lit ''summary_type'')) (\<lambda>kind.
     bind_res (item_of r (lit ''structured_data'')) (\<lambda>data.
     bind_res (text_at r (lit ''producer'')) (\<lambda>producer.
       Inr \<lparr>mi_type = kind, mi_structured_data = data, mi_producer = producer\<rparr>)))"

definition read_work :: "(pystr \<times> json) list \<Rightarrow> work_document result" where
  "read_work p =
     bind_res (text_at p (lit ''organization_id'')) (\<lambda>organization.
     bind_res (text_at p (lit ''repository_id'')) (\<lambda>repository.
     bind_res (text_at p (lit ''access_scope_id'')) (\<lambda>scope.
     bind_res (text_at p (lit ''work_item_id'')) (\<lambda>item.
     bind_res (int_at p (lit ''revision'')) (\<lambda>revision.
     bind_res (item_of p (lit ''external_key'')) (\<lambda>external.
     bind_res (text_at p (lit ''title'')) (\<lambda>title.
     bind_res (text_at p (lit ''work_type'')) (\<lambda>work_type.
     bind_res (text_at p (lit ''status'')) (\<lambda>status.
     bind_res (text_at p (lit ''summary'')) (\<lambda>summary.
     bind_res (text_at p (lit ''origin'')) (\<lambda>origin.
     bind_res (item_of p (lit ''source_references'')) (\<lambda>refs.
     bind_res (bind_res (dicts_at p (lit ''requirements'')) (map_res read_requirement_item)) (\<lambda>requirements.
     bind_res (bind_res (dicts_at p (lit ''non_requirements'')) (map_res read_exclusion_item)) (\<lambda>exclusions.
     bind_res (bind_res (dicts_at p (lit ''assumptions'')) (map_res read_assumption_item)) (\<lambda>assumed.
     bind_res (bind_res (dicts_at p (lit ''acceptance_criteria'')) (map_res read_criterion_item)) (\<lambda>criteria.
     bind_res (bind_res (dicts_at p (lit ''decisions'')) (map_res read_decision_item)) (\<lambda>decisions.
     bind_res (bind_res (dicts_at p (lit ''summaries'')) (map_res read_summary_item)) (\<lambda>summaries.
       Inr \<lparr>wd_organization_id = organization, wd_repository_id = repository,
            wd_access_scope_id = scope, wd_work_item_id = item, wd_revision = revision,
            wd_external_key = external, wd_title = title, wd_work_type = work_type,
            wd_status = status, wd_summary = summary, wd_origin = origin,
            wd_source_references = refs, wd_requirements = requirements,
            wd_non_requirements = exclusions, wd_assumptions = assumed, wd_criteria = criteria,
            wd_decisions = decisions, wd_summaries = summaries\<rparr>))))))))))))))))))"

definition normalized_work :: "(pystr \<times> json) list \<Rightarrow> (pystr \<times> json) list" where
  "normalized_work payload =
     filter (\<lambda>p. fst p \<notin> {lit ''schema_version'', lit ''organization_id''}) payload"

section \<open>Checks\<close>

definition validate_semantic_uniqueness :: "environment \<Rightarrow> work_document \<Rightarrow> unit result" where
  "validate_semantic_uniqueness env w =
     bind_res (guard_res (distinct (map ri_code (wd_requirements w)))
                 (ValueError ''requirements codes must be unique'')) (\<lambda>_.
     bind_res (guard_res (distinct (map xi_code (wd_non_requirements w)))
                 (ValueError ''non_requirements codes must be unique'')) (\<lambda>_.
     bind_res (guard_res (distinct (map si_code (wd_assumptions w)))
                 (ValueError ''assumptions codes must be unique'')) (\<lambda>_.
     bind_res (guard_res (distinct (map ci_code (wd_criteria w)))
                 (ValueError ''acceptance_criteria codes must be unique'')) (\<lambda>_.
     bind_res (guard_res (distinct (map di_code (wd_decisions w)))
                 (ValueError ''decisions codes must be unique'')) (\<lambda>_.
     bind_res (map_res (\<lambda>s. content_hash env (mi_structured_data s)) (wd_summaries w)) (\<lambda>hashes.
       guard_res (distinct hashes) (ValueError ''Work summaries must have unique structured content'')))))))"

definition MANUAL_APPROVAL :: pystr where
  "MANUAL_APPROVAL = lit ''MANUAL_APPROVAL''"

definition linked_criteria :: "work_document \<Rightarrow> pystr \<Rightarrow> criterion_item list" where
  "linked_criteria w code = filter (\<lambda>c. ci_requirement_code c = Some code) (wd_criteria w)"

definition check_required_approval :: "work_document \<Rightarrow> requirement_item \<Rightarrow> unit result" where
  "check_required_approval w r =
     (let linked = linked_criteria w (ri_code r)
      in if \<not> ri_requires_approval r then Inr ()
         else if linked = []
         then Inl (ValueError ''Approval-required requirements need an acceptance criterion'')
         else each_res (\<lambda>c. guard_res (ci_manual_approval c \<and> MANUAL_APPROVAL \<in> set (ci_evidence_types c))
                (ValueError ''Criteria for approval-required requirements must require MANUAL_APPROVAL evidence''))
                linked)"

definition validate_required_approvals :: "work_document \<Rightarrow> unit result" where
  "validate_required_approvals w = each_res (check_required_approval w) (wd_requirements w)"

end
