(* ===== verification/Intent.thy ===== *)
theory Intent
  imports IntentDocuments SecretScreen
begin

text \<open>
  The operations of \<^verbatim>\<open>src/anva/core/services/intent.py\<close>: the import of a work item revision, its approval
  and the withdrawal of an approval.  An aware datetime is its instant, with its ISO text where the
  code writes that into an identity.  \<^verbatim>\<open>Organization.objects...get\<close> finds the organization that the
  decision before it has found active.
\<close>

section \<open>The pointer of a work item\<close>

definition create_work_item :: "work_item \<Rightarrow> governance \<Rightarrow> governance result" where
  "create_work_item i g =
     (if wi_id i \<in> wi_id ` set (work_items g)
         \<or> (wi_external_key i \<noteq> JNull
             \<and> list_ex (\<lambda>x. wi_org x = wi_org i \<and> wi_repository x = wi_repository i
                            \<and> wi_external_key x = wi_external_key i) (work_items g))
      then Inl IntegrityError else Inr (g\<lparr>work_items := work_items g @ [i]\<rparr>))"

definition save_work_item :: "work_item \<Rightarrow> governance \<Rightarrow> governance result" where
  "save_work_item i g =
     (if wi_external_key i \<noteq> JNull
         \<and> list_ex (\<lambda>x. wi_id x \<noteq> wi_id i \<and> wi_org x = wi_org i \<and> wi_repository x = wi_repository i
                        \<and> wi_external_key x = wi_external_key i) (work_items g)
      then Inl IntegrityError
      else Inr (g\<lparr>work_items := update_where (\<lambda>x. wi_id x = wi_id i) (\<lambda>_. i) (work_items g)\<rparr>))"

definition new_work_item :: "uuid \<Rightarrow> uuid \<Rightarrow> uuid \<Rightarrow> uuid \<Rightarrow> work_document \<Rightarrow> pystr \<Rightarrow> work_item" where
  "new_work_item i org repository scope_id w digest =
     \<lparr>wi_id = i, wi_org = org, wi_repository = repository, wi_access_scope = scope_id,
      wi_external_key = wd_external_key w, wi_title = wd_title w, wi_work_type = wd_work_type w,
      wi_status = wd_status w, wi_content_hash = digest, wi_revision = 1\<rparr>"

definition next_work_item :: "work_item \<Rightarrow> work_document \<Rightarrow> pystr \<Rightarrow> work_item" where
  "next_work_item i w digest =
     i\<lparr>wi_revision := wd_revision w, wi_external_key := wd_external_key w, wi_title := wd_title w,
       wi_work_type := wd_work_type w, wi_status := wd_status w, wi_content_hash := digest\<rparr>"

text \<open>\<^verbatim>\<open>WorkImportResult\<close>, and what is found or stored before the rows of a revision.\<close>

record work_import_result =
  im_item :: work_item
  im_revision :: work_revision
  im_created :: bool

datatype work_pointer = Known work_item work_revision | Advanced work_item pystr governance

definition store_work_item ::
  "uuid \<Rightarrow> uuid \<Rightarrow> uuid \<Rightarrow> uuid \<Rightarrow> work_document \<Rightarrow> pystr \<Rightarrow> governance \<Rightarrow> work_pointer result"
where
  "store_work_item org repository scope_id item_id w digest g =
     (case find_by (\<lambda>i. wi_id i = item_id \<and> wi_org i = org) (work_items g) of
        None \<Rightarrow>
          if wd_revision w \<noteq> 1 then Inl (ValueError ''The first work-item revision must be 1'')
          else let i = new_work_item item_id org repository scope_id w digest
               in bind_res (create_work_item i g) (\<lambda>g'. Inr (Advanced i [] g'))
      | Some i \<Rightarrow>
          if wi_repository i \<noteq> repository \<or> wi_access_scope i \<noteq> scope_id then Inl ResourceNotFoundError
          else
            (case find_by (\<lambda>r. wr_org r = org \<and> wr_item r = wi_id i \<and> wr_revision r = wd_revision w)
                    (work_revisions g) of
               Some r \<Rightarrow>
                 if wr_content_hash r \<noteq> digest then Inl IdempotencyConflictError else Inr (Known i r)
             | None \<Rightarrow>
                 if wd_revision w \<noteq> wi_revision i + 1
                 then Inl (ValueError ''Work-item revisions must be sequential'')
                 else let i' = next_work_item i w digest
                      in bind_res (save_work_item i' g) (\<lambda>g'. Inr (Advanced i' (wi_status i) g'))))"

section \<open>The rows of a revision\<close>

text \<open>
  The identifiers drawn for the rows: of the revision, and for the row at each position of each
  collection.  The unique columns of these rows are the codes and positions within the new revision.
\<close>

record fresh_rows =
  fr_revision :: uuid
  fr_requirement :: "nat \<Rightarrow> uuid"
  fr_non_requirement :: "nat \<Rightarrow> uuid"
  fr_assumption :: "nat \<Rightarrow> uuid"
  fr_criterion :: "nat \<Rightarrow> uuid"
  fr_decision :: "nat \<Rightarrow> uuid"
  fr_summary :: "nat \<Rightarrow> uuid"

definition insert_revision :: "work_revision \<Rightarrow> governance \<Rightarrow> governance result" where
  "insert_revision r g =
     (if list_ex (\<lambda>x. wr_org x = wr_org r \<and> wr_item x = wr_item r
                   \<and> (wr_revision x = wr_revision r \<or> wr_content_hash x = wr_content_hash r))
           (work_revisions g)
      then Inl IntegrityError else Inr (g\<lparr>work_revisions := work_revisions g @ [r]\<rparr>))"

definition revision_row ::
  "actor_context \<Rightarrow> work_item \<Rightarrow> work_document \<Rightarrow> (pystr \<times> json) list \<Rightarrow> pystr \<Rightarrow> uuid \<Rightarrow> work_revision"
where
  "revision_row actor i w normalized digest fresh =
     \<lparr>wr_id = fresh, wr_org = wi_org i, wr_item = wi_id i, wr_revision = wd_revision w,
      wr_title = wd_title w, wr_work_type = wd_work_type w, wr_status = wd_status w,
      wr_summary = wd_summary w, wr_origin = wd_origin w,
      wr_source_references = wd_source_references w, wr_payload = JDict normalized,
      wr_content_hash = digest, wr_created_by_type = actor_type actor,
      wr_created_by_id = actor_id actor\<rparr>"

definition requirement_row_of :: "uuid \<Rightarrow> uuid \<Rightarrow> (nat \<Rightarrow> uuid) \<Rightarrow> nat \<times> requirement_item \<Rightarrow> requirement_row" where
  "requirement_row_of org revision fresh = (\<lambda>(n, r).
     \<lparr>re_id = fresh n, re_org = org, re_revision = revision, re_position = n, re_code = ri_code r,
      re_normalized_text = ri_normalized_text r, re_origin = ri_origin r, re_owner = ri_owner r,
      re_status = ri_status r, re_source_references = ri_source_references r,
      re_related_entity_ids = ri_related_entity_ids r,
      re_requires_approval = ri_requires_approval r\<rparr>)"

definition non_requirement_of :: "uuid \<Rightarrow> uuid \<Rightarrow> (nat \<Rightarrow> uuid) \<Rightarrow> nat \<times> exclusion_item \<Rightarrow> non_requirement" where
  "non_requirement_of org revision fresh = (\<lambda>(n, x).
     \<lparr>nr_id = fresh n, nr_org = org, nr_revision = revision, nr_position = n, nr_code = xi_code x,
      nr_normalized_text = xi_normalized_text x, nr_rationale = xi_rationale x\<rparr>)"

definition assumption_of :: "uuid \<Rightarrow> uuid \<Rightarrow> (nat \<Rightarrow> uuid) \<Rightarrow> nat \<times> assumption_item \<Rightarrow> assumption" where
  "assumption_of org revision fresh = (\<lambda>(n, s).
     \<lparr>am_id = fresh n, am_org = org, am_revision = revision, am_position = n, am_code = si_code s,
      am_normalized_text = si_normalized_text s, am_status = si_status s,
      am_validation_reference = si_validation_reference s\<rparr>)"

definition decision_row_of :: "uuid \<Rightarrow> uuid \<Rightarrow> (nat \<Rightarrow> uuid) \<Rightarrow> nat \<times> decision_item \<Rightarrow> decision_row" where
  "decision_row_of org revision fresh = (\<lambda>(n, x).
     \<lparr>dr_id = fresh n, dr_org = org, dr_revision = revision, dr_position = n, dr_code = di_code x,
      dr_title = di_title x, dr_outcome = di_outcome x, dr_rationale = di_rationale x,
      dr_status = di_status x\<rparr>)"

text \<open>
  \<^verbatim>\<open>requirements.get(requirement_code or "")\<close> after the check that a code that is given is known.
\<close>

definition criterion_of ::
  "uuid \<Rightarrow> uuid \<Rightarrow> (nat \<Rightarrow> uuid) \<Rightarrow> requirement_row list \<Rightarrow> nat \<times> criterion_item \<Rightarrow> acceptance_criterion result"
where
  "criterion_of org revision fresh rows = (\<lambda>(n, c).
     if (case ci_requirement_code c of None \<Rightarrow> False | Some code \<Rightarrow> code \<notin> re_code ` set rows)
     then Inl (ValueError ''Unknown requirement_code'')
     else
       let code = (case ci_requirement_code c of None \<Rightarrow> [] | Some code \<Rightarrow> code)
       in Inr \<lparr>cr_id = fresh n, cr_org = org, cr_revision = revision, cr_position = n,
               cr_requirement = map_option re_id (find_by (\<lambda>r. re_code r = code) (rev rows)),
               cr_code = ci_code c, cr_normalized_text = ci_normalized_text c,
               cr_evidence_types = ci_evidence_types c, cr_manual_approval = ci_manual_approval c\<rparr>)"

definition summary_of ::
  "environment \<Rightarrow> uuid \<Rightarrow> uuid \<Rightarrow> (nat \<Rightarrow> uuid) \<Rightarrow> nat \<times> summary_item \<Rightarrow> work_summary result"
where
  "summary_of env org revision fresh = (\<lambda>(n, s).
     bind_res (content_hash env (mi_structured_data s)) (\<lambda>h.
       Inr \<lparr>ws_id = fresh n, ws_org = org, ws_revision = revision, ws_type = mi_type s,
            ws_structured_data = mi_structured_data s, ws_content_hash = h, ws_producer = mi_producer s\<rparr>))"

text \<open>\<^verbatim>\<open>enumerate(xs, start=1)\<close>.\<close>

definition numbered_from_1 :: "'a list \<Rightarrow> (nat \<times> 'a) list" where
  "numbered_from_1 xs = zip [1..<Suc (length xs)] xs"

definition store_revision ::
  "environment \<Rightarrow> work_revision \<Rightarrow> work_document \<Rightarrow> fresh_rows \<Rightarrow> governance \<Rightarrow> governance result"
where
  "store_revision env r w fresh g =
     (let org = wr_org r;
          requirements = map (requirement_row_of org (wr_id r) (fr_requirement fresh))
                           (numbered_from_1 (wd_requirements w))
      in bind_res (insert_revision r g) (\<lambda>g1.
         bind_res (map_res (criterion_of org (wr_id r) (fr_criterion fresh) requirements)
                     (numbered_from_1 (wd_criteria w))) (\<lambda>criteria.
         bind_res (map_res (summary_of env org (wr_id r) (fr_summary fresh))
                     (numbered_from_1 (wd_summaries w))) (\<lambda>summaries.
           Inr (g1\<lparr>requirement_rows := requirement_rows g1 @ requirements,
                   non_requirements := non_requirements g1
                     @ map (non_requirement_of org (wr_id r) (fr_non_requirement fresh))
                         (numbered_from_1 (wd_non_requirements w)),
                   assumptions := assumptions g1
                     @ map (assumption_of org (wr_id r) (fr_assumption fresh))
                         (numbered_from_1 (wd_assumptions w)),
                   acceptance_criteria := acceptance_criteria g1 @ criteria,
                   decision_rows := decision_rows g1
                     @ map (decision_row_of org (wr_id r) (fr_decision fresh))
                         (numbered_from_1 (wd_decisions w)),
                   work_summaries := work_summaries g1 @ summaries\<rparr>)))))"

section \<open>Import\<close>

definition authorize_work_import ::
  "environment \<Rightarrow> instant \<Rightarrow> db \<Rightarrow> actor_context \<Rightarrow> uuid \<Rightarrow> uuid \<Rightarrow> pystr \<Rightarrow> decision result"
where
  "authorize_work_import env now d actor repository scope_id status =
     bind_res (authorize_action env now d actor WORK_MANAGE (Some repository) None (Some scope_id) False)
       (\<lambda>decision.
          if status = lit ''APPROVED''
          then authorize_action env now d actor WORK_APPROVE (Some repository) None (Some scope_id) False
          else Inr decision)"

text \<open>The entities a requirement relates to exist in the scope of the item.\<close>

definition check_related_entities :: "db \<Rightarrow> uuid \<Rightarrow> uuid \<Rightarrow> work_document \<Rightarrow> unit result" where
  "check_related_entities d org scope_id w =
     bind_res (map_res uuid_of (concat (map ri_related_entity_ids (wd_requirements w)))) (\<lambda>related.
       guard_res (related = []
                  \<or> set (map ent_id (filter (\<lambda>e. ent_org e = org \<and> ent_id e \<in> set related
                                    \<and> ent_access_scope e = scope_id \<and> ent_active e) (entities d)))
                     = set related)
         ResourceNotFoundError)"

definition import_work_item ::
  "environment \<Rightarrow> actor_context \<Rightarrow> json \<Rightarrow> instant \<Rightarrow> fresh_rows \<Rightarrow> db \<Rightarrow> (work_import_result \<times> db) result"
where
  "import_work_item env actor payload now fresh d =
     bind_res (canonical_text (env_float_repr env) payload) (\<lambda>text.
     bind_res (guard_res (text_bytes text \<le> 64 * 1024)
                 (ValueError ''Work-item import exceeds the 64 KiB limit'')) (\<lambda>_.
     bind_res (validate_payload env (lit ''work-item-import'') payload) (\<lambda>_.
     bind_res (reject_secrets env payload) (\<lambda>_.
     bind_res (as_dict payload) (\<lambda>items.
     bind_res (read_work items) (\<lambda>w.
     bind_res (uuid_of (wd_organization_id w)) (\<lambda>org.
     bind_res (guard_res (org = actor_org actor) ResourceNotFoundError) (\<lambda>_.
     bind_res (validate_semantic_uniqueness env w) (\<lambda>_.
     bind_res (validate_required_approvals w) (\<lambda>_.
     bind_res (uuid_of (wd_repository_id w)) (\<lambda>repository.
     bind_res (uuid_of (wd_access_scope_id w)) (\<lambda>scope_id.
     bind_res (authorize_work_import env now d actor repository scope_id (wd_status w)) (\<lambda>decision.
     bind_res (audit_actor actor decision) (\<lambda>auditor.
     bind_res (get_tenant_record active_repository_table repository org d) (\<lambda>_.
     bind_res (get_tenant_record active_scope_table scope_id org d) (\<lambda>_.
     bind_res (check_related_entities d org scope_id w) (\<lambda>_.
     bind_res (uuid_of (wd_work_item_id w)) (\<lambda>item_id.
     bind_res (content_hash env (JDict (normalized_work items))) (\<lambda>digest.
     bind_res (store_work_item org repository scope_id item_id w digest (governance d)) (\<lambda>pointer.
       case pointer of
         Known i r \<Rightarrow> Inr (\<lparr>im_item = i, im_revision = r, im_created = False\<rparr>, d)
       | Advanced i previous_status g \<Rightarrow>
           let r = revision_row auditor i w (normalized_work items) digest (fr_revision fresh)
           in bind_res (store_revision env r w fresh g) (\<lambda>g'.
              bind_res (record_transition env org auditor (lit ''workitem'') (wi_id i) previous_status
                          (wi_status i) (nat (wi_revision i))
                          [(lit ''content_hash'', JStr digest), (lit ''repository_id'', JStr (uuid_str repository))]
                          (d\<lparr>governance := g'\<rparr>))
                (\<lambda>d'. Inr (\<lparr>im_item = i, im_revision = r, im_created = True\<rparr>, d')))))))))))))))))))))))"

section \<open>Approvals\<close>

definition target_exists :: "governance \<Rightarrow> work_revision \<Rightarrow> pystr \<Rightarrow> pystr \<Rightarrow> bool result" where
  "target_exists g r kind key =
     (if kind = lit ''WORK_ITEM_REVISION'' then Inr (key = uuid_str (wr_id r))
      else if kind = lit ''REQUIREMENT''
      then Inr (list_ex (\<lambda>x. re_revision x = wr_id r \<and> re_code x = key) (requirement_rows g))
      else if kind = lit ''ACCEPTANCE_CRITERION''
      then Inr (list_ex (\<lambda>x. cr_revision x = wr_id r \<and> cr_code x = key) (acceptance_criteria g))
      else if kind = lit ''DECISION''
      then Inr (list_ex (\<lambda>x. dr_revision x = wr_id r \<and> dr_code x = key) (decision_rows g))
      else Inl (ValueError ''Approval target_kind is invalid''))"

definition approval_identity ::
  "work_revision \<Rightarrow> actor_context \<Rightarrow> pystr \<Rightarrow> pystr \<Rightarrow> pystr \<Rightarrow> pystr \<Rightarrow> (instant \<times> pystr) option \<Rightarrow> json"
where
  "approval_identity r actor status kind key reason expires = JDict
     [(lit ''revision_id'', uuid_json (wr_id r)),
      (lit ''status'', JStr status),
      (lit ''target_kind'', JStr kind),
      (lit ''target_key'', JStr key),
      (lit ''actor_type'', JStr (actor_type actor)),
      (lit ''actor_id'', JStr (actor_id actor)),
      (lit ''reason'', JStr reason),
      (lit ''expires_at'', case expires of None \<Rightarrow> JNull | Some (t, text) \<Rightarrow> JStr text)]"

definition approve_work_item_revision ::
  "environment \<Rightarrow> actor_context \<Rightarrow> uuid \<Rightarrow> uuid \<Rightarrow> pystr \<Rightarrow> pystr \<Rightarrow> pystr \<Rightarrow> pystr
     \<Rightarrow> (instant \<times> pystr) option \<Rightarrow> instant \<Rightarrow> uuid \<Rightarrow> db \<Rightarrow> ((approval \<times> bool) \<times> db) result"
where
  "approve_work_item_revision env actor repository revision_id status kind key reason expires now fresh d =
     bind_res (authorize_action env now d actor WORK_APPROVE (Some repository) None None False) (\<lambda>_.
     bind_res (get_tenant_record work_revision_table revision_id (actor_org actor) d) (\<lambda>r.
     bind_res (work_item_of d r) (\<lambda>i.
     bind_res (guard_res (wi_repository i = repository) ResourceNotFoundError) (\<lambda>_.
     bind_res (authorize_action env now d actor WORK_APPROVE (Some repository) None
                 (Some (wi_access_scope i)) False) (\<lambda>decision.
     bind_res (audit_actor actor decision) (\<lambda>auditor.
     bind_res (guard_res (status \<in> {lit ''APPROVED'', lit ''REJECTED''})
                 (ValueError ''Approval status is invalid'')) (\<lambda>_.
     bind_res (guard_res (strip reason \<noteq> []) (ValueError ''Approval reason is required'')) (\<lambda>_.
     bind_res (reject_secrets env (JStr reason)) (\<lambda>_.
     bind_res (guard_res (case expires of None \<Rightarrow> True | Some (t, text) \<Rightarrow> t > now)
                 (ValueError ''Approval expiry must be a future timezone-aware timestamp'')) (\<lambda>_.
     bind_res (target_exists (governance d) r kind key) (\<lambda>found.
     bind_res (guard_res found ResourceNotFoundError) (\<lambda>_.
     bind_res (content_hash env (approval_identity r auditor status kind key reason expires)) (\<lambda>idem.
     bind_res (get_tenant_record_for_update work_revision_table (wr_id r) (actor_org actor) d) (\<lambda>_.
     case first_by ap_id (filter (\<lambda>a. ap_org a = actor_org actor \<and> ap_idempotency_key a = idem)
                            (approvals (governance d))) of
       Some a \<Rightarrow> Inr ((a, False), d)
     | None \<Rightarrow>
         let a = \<lparr>ap_id = fresh, ap_org = actor_org actor, ap_revision = wr_id r,
                  ap_repository = wi_repository i, ap_target_kind = kind, ap_target_key = key,
                  ap_status = status, ap_actor_type = actor_type auditor, ap_actor_id = actor_id auditor,
                  ap_authority_action = action_value WORK_APPROVE, ap_reason = reason,
                  ap_idempotency_key = idem, ap_decided_at = now, ap_expires_at = map_option fst expires\<rparr>
         in bind_res (record_transition env (wr_org r) auditor (lit ''approval'') fresh [] status 1 []
                        (create_row approval_table a d))
              (\<lambda>d'. Inr ((a, True), d'))))))))))))))))"

section \<open>Revocation\<close>

definition approval_item :: "db \<Rightarrow> approval \<Rightarrow> work_item result" where
  "approval_item d a =
     (case find_by (\<lambda>r. wr_id r = ap_revision a) (work_revisions (governance d)) of
        None \<Rightarrow> Inl DoesNotExist | Some r \<Rightarrow> work_item_of d r)"

definition revoke_work_item_approval ::
  "environment \<Rightarrow> actor_context \<Rightarrow> uuid \<Rightarrow> uuid \<Rightarrow> pystr \<Rightarrow> instant \<Rightarrow> uuid \<Rightarrow> db
     \<Rightarrow> ((approval_revocation \<times> bool) \<times> db) result"
where
  "revoke_work_item_approval env actor repository approval_id reason now fresh d =
     bind_res (authorize_action env now d actor WORK_APPROVE (Some repository) None None False) (\<lambda>_.
     bind_res (get_tenant_record approval_table approval_id (actor_org actor) d) (\<lambda>a.
     bind_res (guard_res (ap_repository a = repository) ResourceNotFoundError) (\<lambda>_.
     bind_res (approval_item d a) (\<lambda>i.
     bind_res (authorize_action env now d actor WORK_APPROVE (Some repository) None
                 (Some (wi_access_scope i)) False) (\<lambda>decision.
     bind_res (audit_actor actor decision) (\<lambda>auditor.
     bind_res (guard_res (strip reason \<noteq> []) (ValueError ''Revocation reason is required'')) (\<lambda>_.
     bind_res (reject_secrets env (JStr reason)) (\<lambda>_.
     bind_res (get_tenant_record_for_update approval_table (ap_id a) (actor_org actor) d) (\<lambda>_.
     case find_by (\<lambda>x. ar_approval x = ap_id a) (approval_revocations (governance d)) of
       Some x \<Rightarrow> Inr ((x, False), d)
     | None \<Rightarrow>
         let x = \<lparr>ar_id = fresh, ar_org = actor_org actor, ar_approval = ap_id a,
                  ar_actor_type = actor_type auditor, ar_actor_id = actor_id auditor,
                  ar_authority_path = actor_path auditor, ar_reason = reason, ar_revoked_at = now\<rparr>
         in bind_res (record_transition env (ap_org a) auditor (lit ''approvalrevocation'') fresh
                        (ap_status a) (lit ''REVOKED'') 1 []
                        (d\<lparr>governance := (governance d)\<lparr>approval_revocations :=
                              approval_revocations (governance d) @ [x]\<rparr>\<rparr>))
              (\<lambda>d'. Inr ((x, True), d')))))))))))"

end
