(* ===== verification/IntentSafety.thy ===== *)
theory IntentSafety
  imports Intent VersionNumbers
begin

text \<open>
  What the operations on work items leave in the database: the rows of a new revision, and the
  coherence of all revisions with their requirements, criteria and approvals.
\<close>

section \<open>The rows of a new revision\<close>

lemma numbered_from_1_positions [simp]: "map fst (numbered_from_1 xs) = [1..<Suc (length xs)]"
  "map snd (numbered_from_1 xs) = xs" "length (numbered_from_1 xs) = length xs"
  by (simp_all add: numbered_from_1_def del: upt_Suc)

lemma numbered_from_1_snd: "map (\<lambda>p. f (snd p)) (numbered_from_1 xs) = map f xs"
proof -
  have "map (f \<circ> snd) (numbered_from_1 xs) = map f xs" unfolding map_map [symmetric] by simp
  then show ?thesis by (simp add: comp_def)
qed

definition new_requirements :: "work_revision \<Rightarrow> work_document \<Rightarrow> fresh_rows \<Rightarrow> requirement_row list" where
  "new_requirements r w fresh =
     map (requirement_row_of (wr_org r) (wr_id r) (fr_requirement fresh)) (numbered_from_1 (wd_requirements w))"

lemma new_requirements_columns:
  "map re_position (new_requirements r w fresh) = [1..<Suc (length (wd_requirements w))]"
  "map re_code (new_requirements r w fresh) = map ri_code (wd_requirements w)"
  "map re_requires_approval (new_requirements r w fresh) = map ri_requires_approval (wd_requirements w)"
  "map re_id (new_requirements r w fresh) = map (fr_requirement fresh) [1..<Suc (length (wd_requirements w))]"
  "x \<in> set (new_requirements r w fresh) \<Longrightarrow> re_revision x = wr_id r \<and> re_org x = wr_org r"
  using numbered_from_1_snd [of ri_code "wd_requirements w"] numbered_from_1_snd [of ri_requires_approval "wd_requirements w"]
    numbered_from_1_positions(1) [of "wd_requirements w"]
  by (auto simp: new_requirements_def requirement_row_of_def split_beta comp_def simp del: upt_Suc
      simp flip: map_map [of "fr_requirement fresh" fst, unfolded comp_def])

lemma requirement_by_code:
  assumes "distinct (map re_code rows)" "q \<in> set rows"
  shows "find_by (\<lambda>r. re_code r = re_code q) (rev rows) = Some q"
  by (rule find_by_unique [where key = re_code]) (use assms in \<open>simp_all add: rev_map [symmetric]\<close>)

lemma linked_requirement:
  assumes "map_option re_id (find_by p (rev qs)) = Some i"
  shows "i \<in> re_id ` set qs"
proof -
  from assms obtain q where "find_by p (rev qs) = Some q" "i = re_id q" by blast
  with find_by_Some_iff [OF this(1)] show ?thesis by simp
qed

lemma new_criterion:
  assumes "criterion_of org i fresh rows (n, c) = Inr x"
  shows "cr_position x = n \<and> cr_code x = ci_code c \<and> cr_revision x = i \<and> cr_org x = org
     \<and> cr_evidence_types x = ci_evidence_types c \<and> cr_manual_approval x = ci_manual_approval c
     \<and> cr_requirement x = map_option re_id (find_by (\<lambda>r. re_code r = (case ci_requirement_code c of None \<Rightarrow> [] | Some k \<Rightarrow> k))
          (rev rows))
     \<and> (\<forall>k. ci_requirement_code c = Some k \<longrightarrow> k \<in> re_code ` set rows)"
  using assms by (auto simp: criterion_of_def Let_def split: option.splits if_splits)

definition criteria_match :: "work_revision \<Rightarrow> work_document \<Rightarrow> requirement_row list \<Rightarrow> acceptance_criterion list \<Rightarrow> bool" where
  "criteria_match r w rows xs \<longleftrightarrow>
     map cr_position xs = [1..<Suc (length (wd_criteria w))] \<and> map cr_code xs = map ci_code (wd_criteria w)
     \<and> list_all2 (\<lambda>c x. cr_revision x = wr_id r \<and> cr_org x = wr_org r
          \<and> cr_evidence_types x = ci_evidence_types c \<and> cr_manual_approval x = ci_manual_approval c
          \<and> cr_requirement x = map_option re_id (find_by (\<lambda>q. re_code q = (case ci_requirement_code c of None \<Rightarrow> [] | Some k \<Rightarrow> k))
               (rev rows))
          \<and> (\<forall>k. ci_requirement_code c = Some k \<longrightarrow> k \<in> re_code ` set rows)) (wd_criteria w) xs"

lemma criteria_rows:
  assumes "map_res (criterion_of (wr_org r) (wr_id r) fresh rows) (numbered_from_1 (wd_criteria w)) = Inr xs"
  shows "criteria_match r w rows xs"
proof -
  have all: "list_all2 (\<lambda>p x. criterion_of (wr_org r) (wr_id r) fresh rows p = Inr x) (numbered_from_1 (wd_criteria w)) xs"
    using assms by (simp add: map_res_Inr)
  have len: "length xs = length (wd_criteria w)" using list_all2_lengthD [OF all] by simp
  have nth: "criterion_of (wr_org r) (wr_id r) fresh rows (Suc i, wd_criteria w ! i) = Inr (xs ! i)"
    if "i < length (wd_criteria w)" for i
    using list_all2_nthD2 [OF all, of i] that len
    by (simp add: numbered_from_1_def del: upt_Suc)
  note facts = nth [THEN new_criterion]
  show ?thesis
    unfolding criteria_match_def
  proof (intro conjI)
    show "map cr_position xs = [1..<Suc (length (wd_criteria w))]"
      by (rule nth_equalityI) (use len facts in \<open>simp_all del: upt_Suc\<close>)
    show "map cr_code xs = map ci_code (wd_criteria w)"
      by (rule nth_equalityI) (use len facts in simp_all)
    show "list_all2 (\<lambda>c x. cr_revision x = wr_id r \<and> cr_org x = wr_org r
          \<and> cr_evidence_types x = ci_evidence_types c \<and> cr_manual_approval x = ci_manual_approval c
          \<and> cr_requirement x = map_option re_id (find_by (\<lambda>q. re_code q = (case ci_requirement_code c of None \<Rightarrow> [] | Some k \<Rightarrow> k))
               (rev rows))
          \<and> (\<forall>k. ci_requirement_code c = Some k \<longrightarrow> k \<in> re_code ` set rows)) (wd_criteria w) xs"
      using len facts by (auto simp: list_all2_conv_all_nth)
  qed
qed

lemma store_revision_Inr:
  assumes "store_revision env r w fresh g = Inr g'"
  obtains criteria where "criteria_match r w (new_requirements r w fresh) criteria"
    "work_items g' = work_items g" "work_revisions g' = work_revisions g @ [r]"
    "requirement_rows g' = requirement_rows g @ new_requirements r w fresh"
    "acceptance_criteria g' = acceptance_criteria g @ criteria"
    "prefix (decision_rows g) (decision_rows g')"
    "approvals g' = approvals g" "approval_revocations g' = approval_revocations g"
proof -
  from assms [unfolded store_revision_def Let_def bind_res_Inr, folded new_requirements_def] obtain g1 criteria summaries where
    g1: "insert_revision r g = Inr g1"
    and cr: "map_res (criterion_of (wr_org r) (wr_id r) (fr_criterion fresh) (new_requirements r w fresh))
       (numbered_from_1 (wd_criteria w)) = Inr criteria"
    and g': "Inr (g1\<lparr>requirement_rows := requirement_rows g1 @ new_requirements r w fresh,
                   non_requirements := non_requirements g1
                     @ map (non_requirement_of (wr_org r) (wr_id r) (fr_non_requirement fresh))
                         (numbered_from_1 (wd_non_requirements w)),
                   assumptions := assumptions g1
                     @ map (assumption_of (wr_org r) (wr_id r) (fr_assumption fresh))
                         (numbered_from_1 (wd_assumptions w)),
                   acceptance_criteria := acceptance_criteria g1 @ criteria,
                   decision_rows := decision_rows g1
                     @ map (decision_row_of (wr_org r) (wr_id r) (fr_decision fresh))
                         (numbered_from_1 (wd_decisions w)),
                   work_summaries := work_summaries g1 @ summaries\<rparr>) = (Inr g' :: governance result)"
    by (elim exE conjE) (rule that)
  have "g1 = g\<lparr>work_revisions := work_revisions g @ [r]\<rparr>" using g1 by (simp add: insert_revision_def split: if_splits)
  then show thesis using that criteria_rows [OF cr] g' by auto
qed

section \<open>The pointer\<close>

lemma stored_item:
  assumes "store_work_item org repository scope_id item_id w digest g = Inr (Advanced i previous g')"
  shows "wi_org i = org \<and> wi_revision i = wd_revision w \<and> wi_repository i = repository \<and> wi_access_scope i = scope_id
     \<and> wi_status i = wd_status w \<and> wi_content_hash i = digest
     \<and> (wi_id i \<notin> wi_id ` set (work_items g) \<and> wi_revision i = 1 \<and> g' = g\<lparr>work_items := work_items g @ [i]\<rparr>
      \<or> (\<exists>old\<in>set (work_items g). wi_id i = wi_id old \<and> wi_org i = wi_org old \<and> wi_revision i = wi_revision old + 1
           \<and> g' = g\<lparr>work_items := update_where (\<lambda>x. wi_id x = wi_id old) (\<lambda>_. i) (work_items g)\<rparr>))"
proof (cases "find_by (\<lambda>i. wi_id i = item_id \<and> wi_org i = org) (work_items g)")
  case None
  have "create_work_item i g = Inr g'" "i = new_work_item item_id org repository scope_id w digest" "wd_revision w = 1"
    using assms by (auto simp: store_work_item_def None Let_def bind_res_Inr split: if_splits)
  then show ?thesis by (auto simp: create_work_item_def new_work_item_def split: if_splits)
next
  case (Some old)
  note row = find_by_Some_iff [OF Some]
  have i: "save_work_item i g = Inr g'" "i = next_work_item old w digest" "wd_revision w = wi_revision old + 1"
    "wi_repository old = repository" "wi_access_scope old = scope_id"
    using assms unfolding store_work_item_def Some option.case
    by (auto simp: Let_def bind_res_Inr split: if_splits option.splits simp del: find_by_None)
  then show ?thesis using row by (auto simp: save_work_item_def next_work_item_def split: if_splits)
qed

lemma import_work_Inr:
  assumes "import_work_item env actor payload now fresh d = Inr (res, d')"
  obtains "im_created res = False" "d' = d"
  | items w repository scope_id item_id digest i previous g a r g' where
      "payload = JDict items" "read_work items = Inr w"
      "validate_payload env (lit ''work-item-import'') payload = Inr ()"
      "validate_semantic_uniqueness env w = Inr ()" "validate_required_approvals w = Inr ()"
      "returns (authorize_work_import env now d actor repository scope_id (wd_status w))"
      "store_work_item (actor_org actor) repository scope_id item_id w digest (governance d) = Inr (Advanced i previous g)"
      "r = revision_row a i w (normalized_work items) digest (fr_revision fresh)"
      "store_revision env r w fresh g = Inr g'" "governance d' = g'"
      "im_created res" "im_item res = i" "im_revision res = r"
proof -
  from assms obtain items w org repository scope_id dec a item_id digest pointer where
    v: "validate_payload env (lit ''work-item-import'') payload = Inr ()" "as_dict payload = Inr items" "read_work items = Inr w"
      "guard_res (org = actor_org actor) ResourceNotFoundError = Inr ()"
      "validate_semantic_uniqueness env w = Inr ()" "validate_required_approvals w = Inr ()"
    and dec: "authorize_work_import env now d actor repository scope_id (wd_status w) = Inr dec"
    and pointer: "store_work_item org repository scope_id item_id w digest (governance d) = Inr pointer"
    and rest: "(case pointer of
         Known i r \<Rightarrow> Inr (\<lparr>im_item = i, im_revision = r, im_created = False\<rparr>, d)
       | Advanced i previous_status g \<Rightarrow>
           let r = revision_row a i w (normalized_work items) digest (fr_revision fresh)
           in bind_res (store_revision env r w fresh g) (\<lambda>g'.
              bind_res (record_transition env org a (lit ''workitem'') (wi_id i) previous_status
                          (wi_status i) (nat (wi_revision i))
                          [(lit ''content_hash'', JStr digest), (lit ''repository_id'', JStr (uuid_str repository))]
                          (d\<lparr>governance := g'\<rparr>))
                (\<lambda>d'. Inr (\<lparr>im_item = i, im_revision = r, im_created = True\<rparr>, d')))) = Inr (res, d')"
    unfolding import_work_item_def bind_res_Inr by (elim exE conjE) (rule that; (assumption | simp))
  have org: "org = actor_org actor" using v(4) by (simp add: guard_res_def split: if_splits)
  have items: "payload = JDict items" using v(2) by (simp add: as_dict_def split: json.splits)
  show thesis
  proof (cases pointer)
    case (Known i r)
    then show thesis using rest that(1) by auto
  next
    case (Advanced i previous g)
    let ?r = "revision_row a i w (normalized_work items) digest (fr_revision fresh)"
    from rest obtain g' d2 where g': "store_revision env ?r w fresh g = Inr g'"
      and rec: "record_transition env org a (lit ''workitem'') (wi_id i) previous
                          (wi_status i) (nat (wi_revision i))
                          [(lit ''content_hash'', JStr digest), (lit ''repository_id'', JStr (uuid_str repository))]
                          (d\<lparr>governance := g'\<rparr>) = Inr d2"
      and res: "res = \<lparr>im_item = i, im_revision = ?r, im_created = True\<rparr>" "d' = d2"
      unfolding Advanced work_pointer.case Let_def bind_res_Inr by auto
    have "governance d' = g'" using record_transition_frame(36) [OF rec] res(2) by simp
    moreover have "store_work_item (actor_org actor) repository scope_id item_id w digest (governance d) = Inr (Advanced i previous g)"
      using pointer org Advanced by simp
    ultimately show thesis using v items dec g' res(1) by (intro that(2)) (auto simp: returns_def)
  qed
qed

section \<open>Coherence\<close>

definition requirements_in :: "governance \<Rightarrow> uuid \<Rightarrow> requirement_row list" where
  "requirements_in g r = filter (\<lambda>q. re_revision q = r) (requirement_rows g)"

definition criteria_in :: "governance \<Rightarrow> uuid \<Rightarrow> acceptance_criterion list" where
  "criteria_in g r = filter (\<lambda>c. cr_revision c = r) (acceptance_criteria g)"

text \<open>
  A revision whose requirements and criteria have codes of their own and stand in order, whose criteria
  name requirements of the same revision, and in which a requirement that needs approval has criteria
  and every one of them asks for a manual approval.
\<close>

definition rows_coherent :: "requirement_row list \<Rightarrow> acceptance_criterion list \<Rightarrow> bool" where
  "rows_coherent qs cs \<longleftrightarrow>
     map re_position qs = [1..<Suc (length qs)] \<and> distinct (map re_code qs)
     \<and> map cr_position cs = [1..<Suc (length cs)] \<and> distinct (map cr_code cs)
     \<and> (\<forall>c\<in>set cs. \<forall>i. cr_requirement c = Some i \<longrightarrow> i \<in> re_id ` set qs)
     \<and> (\<forall>q\<in>set qs. re_requires_approval q \<longrightarrow>
          (\<exists>c\<in>set cs. cr_requirement c = Some (re_id q))
          \<and> (\<forall>c\<in>set cs. cr_requirement c = Some (re_id q) \<longrightarrow>
               cr_manual_approval c \<and> MANUAL_APPROVAL \<in> set (cr_evidence_types c)))"

definition approval_bound :: "governance \<Rightarrow> approval \<Rightarrow> bool" where
  "approval_bound g a \<longleftrightarrow>
     (\<exists>r\<in>set (work_revisions g). wr_id r = ap_revision a \<and> wr_org r = ap_org a
        \<and> target_exists g r (ap_target_kind a) (ap_target_key a) = Inr True)"

definition intent_coherent :: "governance \<Rightarrow> bool" where
  "intent_coherent g \<longleftrightarrow>
     (\<forall>q\<in>set (requirement_rows g). re_revision q \<in> wr_id ` set (work_revisions g))
     \<and> (\<forall>c\<in>set (acceptance_criteria g). cr_revision c \<in> wr_id ` set (work_revisions g))
     \<and> (\<forall>r\<in>set (work_revisions g). rows_coherent (requirements_in g (wr_id r)) (criteria_in g (wr_id r)))
     \<and> (\<forall>a\<in>set (approvals g). approval_bound g a)
     \<and> distinct (map ar_approval (approval_revocations g))"

lemma uniqueness_checked:
  assumes "validate_semantic_uniqueness env w = Inr ()"
  shows "distinct (map ri_code (wd_requirements w))" "distinct (map ci_code (wd_criteria w))"
  using assms by (auto simp: validate_semantic_uniqueness_def bind_res_Inr guard_res_def split: if_splits)

lemma approvals_checked:
  assumes "validate_required_approvals w = Inr ()" "q \<in> set (wd_requirements w)" "ri_requires_approval q"
  shows "(\<exists>c\<in>set (wd_criteria w). ci_requirement_code c = Some (ri_code q))
     \<and> (\<forall>c\<in>set (wd_criteria w). ci_requirement_code c = Some (ri_code q) \<longrightarrow>
          ci_manual_approval c \<and> MANUAL_APPROVAL \<in> set (ci_evidence_types c))"
proof -
  have "check_required_approval w q = Inr ()"
    using assms(1,2) by (simp add: validate_required_approvals_def each_res_Inr)
  then have linked: "linked_criteria w (ri_code q) \<noteq> []"
    "\<forall>c\<in>set (linked_criteria w (ri_code q)). ci_manual_approval c \<and> MANUAL_APPROVAL \<in> set (ci_evidence_types c)"
    using assms(3) by (auto simp: check_required_approval_def Let_def each_res_Inr guard_res_def split: if_splits)
  then obtain c where "c \<in> set (linked_criteria w (ri_code q))" by (metis list.set_intros(1) neq_Nil_conv)
  then show ?thesis using linked(2) by (auto simp: linked_criteria_def)
qed

lemma new_rows_coherent:
  assumes "criteria_match r w (new_requirements r w fresh) xs" "inj (fr_requirement fresh)"
    and valid: "validate_semantic_uniqueness env w = Inr ()" "validate_required_approvals w = Inr ()"
    and codes: "\<And>q. q \<in> set (wd_requirements w) \<Longrightarrow> ri_code q \<noteq> []"
  shows "rows_coherent (new_requirements r w fresh) xs"
proof -
  let ?qs = "new_requirements r w fresh"
  note cols = new_requirements_columns(1-4) [of r w fresh] and m = assms(1) [unfolded criteria_match_def]
  have len: "length ?qs = length (wd_requirements w)" "length xs = length (wd_criteria w)"
    using arg_cong [OF cols(2), of length] m by (auto dest: list_all2_lengthD)
  have dq: "distinct (map re_code ?qs)" using uniqueness_checked(1) [OF valid(1)] cols(2) by simp
  have "distinct (map (fr_requirement fresh) [1..<Suc (length (wd_requirements w))])"
    using assms(2) by (simp add: distinct_map inj_on_def inj_def del: upt_Suc)
  then have di: "distinct (map re_id ?qs)" using cols(4) by simp
  have linked: "cr_requirement (xs ! j) = Some (re_id q)
      \<longleftrightarrow> ci_requirement_code (wd_criteria w ! j) = Some (re_code q)"
    if "j < length xs" "q \<in> set ?qs" for j q
  proof -
    let ?code = "case ci_requirement_code (wd_criteria w ! j) of None \<Rightarrow> [] | Some k \<Rightarrow> k"
    have req: "cr_requirement (xs ! j) = map_option re_id (find_by (\<lambda>q. re_code q = ?code) (rev ?qs))"
      using m that(1) len by (simp add: list_all2_conv_all_nth)
    have "re_code q \<in> set (map re_code ?qs)" using that(2) by simp
    then have "re_code q \<noteq> []" using codes unfolding cols(2) set_map by (metis imageE)
    moreover have "cr_requirement (xs ! j) = Some (re_id q) \<longleftrightarrow> ?code = re_code q"
    proof
      assume "?code = re_code q"
      then show "cr_requirement (xs ! j) = Some (re_id q)" using req requirement_by_code [OF dq that(2)] by simp
    next
      assume "cr_requirement (xs ! j) = Some (re_id q)"
      then obtain q' where q': "find_by (\<lambda>q. re_code q = ?code) (rev ?qs) = Some q'" "re_id q' = re_id q" using req by auto
      then have "q' \<in> set ?qs" "re_code q' = ?code" using find_by_Some_iff [OF q'(1)] by simp_all
      then show "?code = re_code q" using di that(2) q'(2) by (metis distinct_map inj_onD)
    qed
    ultimately show ?thesis by (auto split: option.splits)
  qed
  have crit: "cr_manual_approval (xs ! j) = ci_manual_approval (wd_criteria w ! j)"
    "cr_evidence_types (xs ! j) = ci_evidence_types (wd_criteria w ! j)" if "j < length xs" for j
    using m that len by (simp_all add: list_all2_conv_all_nth)
  show ?thesis
    unfolding rows_coherent_def
  proof (intro conjI ballI allI impI)
    show "map re_position ?qs = [1..<Suc (length ?qs)]" using cols(1) len(1) by (simp del: upt_Suc)
    show "distinct (map re_code ?qs)" by (rule dq)
    show "map cr_position xs = [1..<Suc (length xs)]" using m len(2) by (simp del: upt_Suc)
    show "distinct (map cr_code xs)" using m uniqueness_checked(2) [OF valid(1)] by simp
  next
    fix c i
    assume "c \<in> set xs" "cr_requirement c = Some i"
    then obtain j where j: "j < length xs" "cr_requirement (xs ! j) = Some i" by (auto simp: in_set_conv_nth)
    have "cr_requirement (xs ! j) = map_option re_id (find_by (\<lambda>q. re_code q =
        (case ci_requirement_code (wd_criteria w ! j) of None \<Rightarrow> [] | Some k \<Rightarrow> k)) (rev ?qs))"
      using m j(1) len by (simp add: list_all2_conv_all_nth)
    then have "map_option re_id (find_by (\<lambda>q. re_code q =
        (case ci_requirement_code (wd_criteria w ! j) of None \<Rightarrow> [] | Some k \<Rightarrow> k)) (rev ?qs)) = Some i"
      using j(2) by simp
    then show "i \<in> re_id ` set ?qs" by (rule linked_requirement)
  next
    fix q
    assume q: "q \<in> set ?qs" "re_requires_approval q"
    then obtain k where k: "k < length ?qs" "q = ?qs ! k" by (auto simp: in_set_conv_nth)
    let ?item = "wd_requirements w ! k"
    have item: "?item \<in> set (wd_requirements w)" "ri_code ?item = re_code q" "ri_requires_approval ?item"
      using k len(1) q(2) arg_cong [OF cols(2), of "\<lambda>l. l ! k"] arg_cong [OF cols(3), of "\<lambda>l. l ! k"] by simp_all
    note chk = approvals_checked [OF valid(2) item(1,3)]
    from chk obtain j where j: "j < length xs" "ci_requirement_code (wd_criteria w ! j) = Some (re_code q)"
      using item(2) len(2) by (auto simp: in_set_conv_nth)
    then show "\<exists>c\<in>set xs. cr_requirement c = Some (re_id q)" using linked [OF j(1) q(1)] by auto
    fix c
    assume "c \<in> set xs" "cr_requirement c = Some (re_id q)"
    then obtain j where j: "j < length xs" "c = xs ! j" "ci_requirement_code (wd_criteria w ! j) = Some (re_code q)"
      using linked q(1) by (auto simp: in_set_conv_nth)
    then have "ci_manual_approval (wd_criteria w ! j) \<and> MANUAL_APPROVAL \<in> set (ci_evidence_types (wd_criteria w ! j))"
    proof -
      have "wd_criteria w ! j \<in> set (wd_criteria w)" using j(1) len(2) by simp
      then show ?thesis using conjunct2 [OF chk] j(3) item(2) by simp
    qed
    then show "cr_manual_approval c" "MANUAL_APPROVAL \<in> set (cr_evidence_types c)" using crit [OF j(1)] j(2) by simp_all
  qed
qed

text \<open>Identifiers of a new revision that no row carries yet.\<close>

definition fresh_for :: "fresh_rows \<Rightarrow> governance \<Rightarrow> bool" where
  "fresh_for fresh g \<longleftrightarrow> fr_revision fresh \<notin> wr_id ` set (work_revisions g) \<and> inj (fr_requirement fresh)"

lemma target_kept:
  assumes "target_exists g r k key = Inr True" "prefix (requirement_rows g) (requirement_rows g')"
    "prefix (acceptance_criteria g) (acceptance_criteria g')" "prefix (decision_rows g) (decision_rows g')"
  shows "target_exists g' r k key = Inr True"
  using assms by (auto simp: target_exists_def list_ex_iff prefix_def split: if_splits)

lemma new_revision_coherent:
  assumes store: "store_revision env r w fresh g = Inr g'" and g: "intent_coherent g"
    and fresh: "fresh_for fresh g" "wr_id r = fr_revision fresh"
    and valid: "validate_semantic_uniqueness env w = Inr ()" "validate_required_approvals w = Inr ()"
    and codes: "\<And>q. q \<in> set (wd_requirements w) \<Longrightarrow> ri_code q \<noteq> []"
  shows "intent_coherent g'"
  using store
proof (rule store_revision_Inr)
  fix xs
  assume xs: "criteria_match r w (new_requirements r w fresh) xs"
    and rows: "work_revisions g' = work_revisions g @ [r]"
      "requirement_rows g' = requirement_rows g @ new_requirements r w fresh"
      "acceptance_criteria g' = acceptance_criteria g @ xs" "prefix (decision_rows g) (decision_rows g')"
      "approvals g' = approvals g" "approval_revocations g' = approval_revocations g"
  have own: "\<And>q. q \<in> set (new_requirements r w fresh) \<Longrightarrow> re_revision q = wr_id r"
    "\<And>c. c \<in> set xs \<Longrightarrow> cr_revision c = wr_id r"
    using new_requirements_columns(5) xs
    by (auto simp: criteria_match_def list_all2_conv_all_nth in_set_conv_nth)
  have new: "wr_id r \<notin> wr_id ` set (work_revisions g)" using fresh by (simp add: fresh_for_def)
  have old: "re_revision q \<noteq> wr_id r" if "q \<in> set (requirement_rows g)" for q
    using g that new unfolding intent_coherent_def by metis
  have old': "cr_revision c \<noteq> wr_id r" if "c \<in> set (acceptance_criteria g)" for c
    using g that new unfolding intent_coherent_def by metis
  have here: "requirements_in g' (wr_id r) = new_requirements r w fresh" "criteria_in g' (wr_id r) = xs"
    using own old old' by (auto simp: requirements_in_def criteria_in_def rows filter_empty_conv filter_id_conv)
  have there: "requirements_in g' i = requirements_in g i" "criteria_in g' i = criteria_in g i" if "i \<noteq> wr_id r" for i
    using own that by (auto simp: requirements_in_def criteria_in_def rows filter_empty_conv)
  have bound: "approval_bound g' a" if "approval_bound g a" for a
    using that target_kept rows unfolding approval_bound_def by (metis UnCI prefixI set_append)
  show ?thesis
    unfolding intent_coherent_def rows(5,6)
  proof (intro conjI ballI)
    fix q assume "q \<in> set (requirement_rows g')"
    then show "re_revision q \<in> wr_id ` set (work_revisions g')"
      using g own(1) by (auto simp: rows intent_coherent_def)
  next
    fix c assume "c \<in> set (acceptance_criteria g')"
    then show "cr_revision c \<in> wr_id ` set (work_revisions g')"
      using g own(2) by (auto simp: rows intent_coherent_def)
  next
    fix x assume "x \<in> set (work_revisions g')"
    then consider "x = r" | "x \<in> set (work_revisions g)" "wr_id x \<noteq> wr_id r"
      using new unfolding rows by (metis Un_iff imageI list.set(1,2) set_append singletonD)
    then show "rows_coherent (requirements_in g' (wr_id x)) (criteria_in g' (wr_id x))"
    proof cases
      case 1
      have "inj (fr_requirement fresh)" using fresh(1) by (simp add: fresh_for_def)
      then show ?thesis unfolding 1 here by (rule new_rows_coherent [OF xs _ valid codes])
    next
      case 2
      then show ?thesis using g there by (simp add: intent_coherent_def)
    qed
  next
    fix a assume "a \<in> set (approvals g)"
    then show "approval_bound g' a" using g bound by (auto simp: intent_coherent_def)
  next
    show "distinct (map ar_approval (approval_revocations g))" using g by (simp add: intent_coherent_def)
  qed
qed

end
