(* ===== verification/IntentLife.thy ===== *)
theory IntentLife
  imports IntentSafety
begin

text \<open>
  Sequences of operations on work items: each adds at most one revision, approval or withdrawal, and
  keeps the revisions numbered and coherent.
\<close>

section \<open>Steps\<close>

text \<open>Any sequence of imports, approvals and withdrawals by anyone; a new revision draws fresh identifiers.\<close>

inductive intent_step :: "environment \<Rightarrow> db \<Rightarrow> db \<Rightarrow> bool" for env where
  imported: "fresh_for fresh (governance d) \<Longrightarrow> import_work_item env actor payload now fresh d = Inr (res, d')
     \<Longrightarrow> intent_step env d d'"
| approved: "approve_work_item_revision env actor repository i status kind key reason expires now fresh d = Inr ((a, c), d')
     \<Longrightarrow> intent_step env d d'"
| revoked: "revoke_work_item_approval env actor repository i reason now fresh d = Inr ((x, c), d') \<Longrightarrow> intent_step env d d'"

text \<open>The schema lets no requirement through whose code is empty (its pattern asks for a capital letter).\<close>

definition schema_requires_codes :: "environment \<Rightarrow> bool" where
  "schema_requires_codes env \<longleftrightarrow>
     (\<forall>items w q. validate_payload env (lit ''work-item-import'') (JDict items) = Inr () \<longrightarrow>
        read_work items = Inr w \<longrightarrow> q \<in> set (wd_requirements w) \<longrightarrow> ri_code q \<noteq> [])"

lemma approve_Inr:
  assumes "approve_work_item_revision env actor repository i status kind key reason expires now fresh d = Inr ((a, c), d')"
  obtains "\<not> c" "d' = d" "a \<in> set (approvals (governance d))"
  | r it where "c" "r \<in> set (work_revisions (governance d))" "wr_id r = i" "wr_org r = actor_org actor"
      "work_item_of d r = Inr it" "wi_repository it = repository"
      "returns (authorize_action env now d actor WORK_APPROVE (Some repository) None (Some (wi_access_scope it)) False)"
      "target_exists (governance d) r kind key = Inr True"
      "status \<in> {lit ''APPROVED'', lit ''REJECTED''}"
      "governance d' = (governance d)\<lparr>approvals := approvals (governance d) @ [a]\<rparr>"
      "ap_id a = fresh" "ap_org a = actor_org actor" "ap_revision a = i" "ap_repository a = repository"
      "ap_target_kind a = kind" "ap_target_key a = key" "ap_status a = status" "ap_decided_at a = now"
      "ap_expires_at a = map_option fst expires" "\<forall>t. ap_expires_at a = Some t \<longrightarrow> now < t"
proof -
  note s = assms [unfolded approve_work_item_revision_def bind_res_Inr]
  from s obtain r it dec b found k where
    r: "get_tenant_record work_revision_table i (actor_org actor) d = Inr r"
    and it: "work_item_of d r = Inr it" "guard_res (wi_repository it = repository) ResourceNotFoundError = Inr ()"
    and dec: "authorize_action env now d actor WORK_APPROVE (Some repository) None (Some (wi_access_scope it)) False = Inr dec"
    and status: "guard_res (status \<in> {lit ''APPROVED'', lit ''REJECTED''}) (ValueError ''Approval status is invalid'') = Inr ()"
    and future: "guard_res (case expires of None \<Rightarrow> True | Some (t, text) \<Rightarrow> t > now)
                 (ValueError ''Approval expiry must be a future timezone-aware timestamp'') = Inr ()"
    and found: "target_exists (governance d) r kind key = Inr found" "guard_res found ResourceNotFoundError = Inr ()"
    and rest: "(case first_by ap_id (filter (\<lambda>a. ap_org a = actor_org actor \<and> ap_idempotency_key a = k)
                            (approvals (governance d))) of
       Some a \<Rightarrow> Inr ((a, False), d)
     | None \<Rightarrow>
         let a = \<lparr>ap_id = fresh, ap_org = actor_org actor, ap_revision = wr_id r,
                  ap_repository = wi_repository it, ap_target_kind = kind, ap_target_key = key,
                  ap_status = status, ap_actor_type = actor_type b, ap_actor_id = actor_id b,
                  ap_authority_action = action_value WORK_APPROVE, ap_reason = reason,
                  ap_idempotency_key = k, ap_decided_at = now, ap_expires_at = map_option fst expires\<rparr>
         in bind_res (record_transition env (wr_org r) b (lit ''approval'') fresh [] status 1 []
                        (create_row approval_table a d))
              (\<lambda>d'. Inr ((a, True), d'))) = Inr ((a, c), d')"
    by (elim exE conjE) (rule that; (assumption | simp))
  have row: "r \<in> set (work_revisions (governance d))" "wr_id r = i" "wr_org r = actor_org actor"
    using get_tenant_record_Inr [OF r] by (simp_all add: work_revision_table_def)
  show thesis
  proof (cases "first_by ap_id (filter (\<lambda>a. ap_org a = actor_org actor \<and> ap_idempotency_key a = k)
                            (approvals (governance d)))")
    case (Some x)
    then have "\<not> c" "d' = d" "x = a" using rest by simp_all
    then show thesis using first_by_Some(1) [OF Some] by (intro that(1)) simp_all
  next
    case None
    let ?a = "\<lparr>ap_id = fresh, ap_org = actor_org actor, ap_revision = wr_id r,
                  ap_repository = wi_repository it, ap_target_kind = kind, ap_target_key = key,
                  ap_status = status, ap_actor_type = actor_type b, ap_actor_id = actor_id b,
                  ap_authority_action = action_value WORK_APPROVE, ap_reason = reason,
                  ap_idempotency_key = k, ap_decided_at = now, ap_expires_at = map_option fst expires\<rparr>"
    from rest [unfolded None option.case Let_def bind_res_Inr] obtain d2 where
      rec: "record_transition env (wr_org r) b (lit ''approval'') fresh [] status 1 [] (create_row approval_table ?a d) = Inr d2"
      and "Inr ((?a, True), d2) = (Inr ((a, c), d') :: ((approval \<times> bool) \<times> db) result)"
      by (elim exE conjE) (rule that)
    then have x: "a = ?a" "d2 = d'" "c" by simp_all
    have "governance d' = (governance d)\<lparr>approvals := approvals (governance d) @ [a]\<rparr>"
      using record_transition_frame(36) [OF rec] unfolding x(2) x(1) [symmetric]
      by (simp add: create_row_def approval_table_def)
    moreover have "wi_repository it = repository" "found" "status \<in> {lit ''APPROVED'', lit ''REJECTED''}"
      using it(2) found(2) status by (auto simp: guard_res_def split: if_splits)
    moreover have "\<forall>t. ap_expires_at a = Some t \<longrightarrow> now < t"
      using future by (auto simp: x(1) guard_res_def split: if_splits option.splits)
    ultimately show thesis using row it(1) dec found(1) x(3) by (intro that(2)) (auto simp: x(1))
  qed
qed

lemma revoke_approval_Inr:
  assumes "revoke_work_item_approval env actor repository i reason now fresh d = Inr ((x, c), d')"
  shows "ar_approval x = i
     \<and> (c \<and> governance d' = (governance d)\<lparr>approval_revocations := approval_revocations (governance d) @ [x]\<rparr>
          \<and> ar_revoked_at x = now \<and> i \<notin> ar_approval ` set (approval_revocations (governance d))
        \<or> \<not> c \<and> d' = d \<and> x \<in> set (approval_revocations (governance d)))"
proof -
  note s = assms [unfolded revoke_work_item_approval_def bind_res_Inr]
  from s obtain a b where
    a: "get_tenant_record approval_table i (actor_org actor) d = Inr a"
    and rest: "(case find_by (\<lambda>x. ar_approval x = ap_id a) (approval_revocations (governance d)) of
       Some x \<Rightarrow> Inr ((x, False), d)
     | None \<Rightarrow>
         let x = \<lparr>ar_id = fresh, ar_org = actor_org actor, ar_approval = ap_id a,
                  ar_actor_type = actor_type b, ar_actor_id = actor_id b,
                  ar_authority_path = actor_path b, ar_reason = reason, ar_revoked_at = now\<rparr>
         in bind_res (record_transition env (ap_org a) b (lit ''approvalrevocation'') fresh
                        (ap_status a) (lit ''REVOKED'') 1 []
                        (d\<lparr>governance := (governance d)\<lparr>approval_revocations :=
                              approval_revocations (governance d) @ [x]\<rparr>\<rparr>))
              (\<lambda>d'. Inr ((x, True), d'))) = Inr ((x, c), d')"
    by (elim exE conjE) (rule that; (assumption | simp))
  have id: "ap_id a = i" using get_tenant_record_Inr [OF a] by (simp add: approval_table_def)
  show ?thesis
  proof (cases "find_by (\<lambda>x. ar_approval x = ap_id a) (approval_revocations (governance d))")
    case (Some y)
    then have "y = x" "d' = d" "\<not> c" using rest by simp_all
    then show ?thesis using find_by_Some_iff [OF Some] id by simp
  next
    case None
    let ?x = "\<lparr>ar_id = fresh, ar_org = actor_org actor, ar_approval = ap_id a,
                  ar_actor_type = actor_type b, ar_actor_id = actor_id b,
                  ar_authority_path = actor_path b, ar_reason = reason, ar_revoked_at = now\<rparr>"
    from rest [unfolded None option.case Let_def bind_res_Inr] obtain d2 where
      rec: "record_transition env (ap_org a) b (lit ''approvalrevocation'') fresh
                        (ap_status a) (lit ''REVOKED'') 1 []
                        (d\<lparr>governance := (governance d)\<lparr>approval_revocations :=
                              approval_revocations (governance d) @ [?x]\<rparr>\<rparr>) = Inr d2"
      and "Inr ((?x, True), d2) = (Inr ((x, c), d') :: ((approval_revocation \<times> bool) \<times> db) result)"
      by (elim exE conjE) (rule that)
    then have x: "?x = x" "d2 = d'" "c" by simp_all
    have "governance d' = (governance d)\<lparr>approval_revocations := approval_revocations (governance d) @ [x]\<rparr>"
      using record_transition_frame(36) [OF rec] unfolding x by simp
    moreover have "ar_approval x = i" "ar_revoked_at x = now"
      unfolding x(1) [symmetric] by (simp_all add: id)
    moreover have "i \<notin> ar_approval ` set (approval_revocations (governance d))"
      using None id by auto
    ultimately show ?thesis using x(3) by simp
  qed
qed

section \<open>What a step does\<close>

abbreviation revision_added :: "governance \<Rightarrow> governance \<Rightarrow> bool" where
  "revision_added g h \<equiv>
     version_added wi_id wi_org wi_revision wr_item wr_org wr_revision
       (work_items g) (work_revisions g) (work_items h) (work_revisions h)"

definition only_added :: "governance \<Rightarrow> governance \<Rightarrow> bool" where
  "only_added g h \<longleftrightarrow>
     prefix (work_revisions g) (work_revisions h) \<and> prefix (requirement_rows g) (requirement_rows h)
     \<and> prefix (acceptance_criteria g) (acceptance_criteria h) \<and> prefix (decision_rows g) (decision_rows h)
     \<and> prefix (approvals g) (approvals h) \<and> prefix (approval_revocations g) (approval_revocations h)"

lemma only_added_refl [simp]: "only_added g g"
  by (simp add: only_added_def)

lemma only_added_trans: "only_added f g \<Longrightarrow> only_added g h \<Longrightarrow> only_added f h"
  unfolding only_added_def by (meson prefix_order.trans)

text \<open>The same statements, with further approvals and withdrawals.\<close>

lemma coherent_extended:
  assumes "intent_coherent g" "work_revisions h = work_revisions g" "requirement_rows h = requirement_rows g"
    and "acceptance_criteria h = acceptance_criteria g" "decision_rows h = decision_rows g"
    and "approvals h = approvals g @ as" "\<And>a. a \<in> set as \<Longrightarrow> approval_bound g a"
    and "distinct (map ar_approval (approval_revocations h))"
  shows "intent_coherent h"
proof -
  have target: "target_exists h = target_exists g" by (intro ext) (simp add: target_exists_def assms(3-5))
  have bound: "approval_bound h = approval_bound g"
    by (intro ext) (simp only: approval_bound_def target assms(2))
  have rows: "requirements_in h = requirements_in g" "criteria_in h = criteria_in g"
    by (intro ext, simp add: requirements_in_def criteria_in_def assms(3,4))+
  show ?thesis using assms(1,7,8) by (auto simp: intent_coherent_def rows bound assms(2-4,6))
qed

lemma import_work_step:
  assumes "import_work_item env actor payload now fresh d = Inr (res, d')"
  shows "(d' = d \<or> revision_added (governance d) (governance d')) \<and> only_added (governance d) (governance d')
     \<and> (schema_requires_codes env \<longrightarrow> fresh_for fresh (governance d) \<longrightarrow> intent_coherent (governance d)
          \<longrightarrow> intent_coherent (governance d'))"
  using assms
proof (rule import_work_Inr)
  assume "d' = d"
  then show ?thesis by simp
next
  fix items w repository scope_id item_id digest i previous g a r g'
  assume payload: "payload = JDict items" "read_work items = Inr w"
      "validate_payload env (lit ''work-item-import'') payload = Inr ()"
    and valid: "validate_semantic_uniqueness env w = Inr ()" "validate_required_approvals w = Inr ()"
    and pointer: "store_work_item (actor_org actor) repository scope_id item_id w digest (governance d) = Inr (Advanced i previous g)"
    and r: "r = revision_row a i w (normalized_work items) digest (fr_revision fresh)"
    and store: "store_revision env r w fresh g = Inr g'" and g': "governance d' = g'"
  note item = stored_item [OF pointer]
  have same: "work_revisions g = work_revisions (governance d)" "requirement_rows g = requirement_rows (governance d)"
    "acceptance_criteria g = acceptance_criteria (governance d)" "decision_rows g = decision_rows (governance d)"
    "approvals g = approvals (governance d)" "approval_revocations g = approval_revocations (governance d)"
    using item by auto
  have rows: "work_items g' = work_items g" "work_revisions g' = work_revisions g @ [r]"
    "only_added (governance d) g'"
    using store by (rule store_revision_Inr; simp add: only_added_def same)+
  have "revision_added (governance d) g'"
    unfolding version_added_def rows(1,2) same(1)
    by (intro exI [of _ i] exI [of _ r]) (use item in \<open>auto simp: r revision_row_def\<close>)
  moreover have "intent_coherent g'"
    if "schema_requires_codes env" "fresh_for fresh (governance d)" "intent_coherent (governance d)"
  proof (rule new_revision_coherent [OF store _ _ _ valid])
    show "intent_coherent g"
      by (rule coherent_extended [OF that(3), where as = "[]"])
        (use that(3) in \<open>simp_all add: same intent_coherent_def\<close>)
    show "fresh_for fresh g" using that(2) by (simp add: fresh_for_def same)
    show "wr_id r = fr_revision fresh" by (simp add: r revision_row_def)
    show "ri_code q \<noteq> []" if "q \<in> set (wd_requirements w)" for q
      using \<open>schema_requires_codes env\<close> payload that unfolding schema_requires_codes_def by blast
  qed
  ultimately show ?thesis using rows(3) g' by simp
qed

lemma approve_step:
  assumes "approve_work_item_revision env actor repository i status kind key reason expires now fresh d = Inr ((a, c), d')"
  shows "work_items (governance d') = work_items (governance d)
     \<and> work_revisions (governance d') = work_revisions (governance d)
     \<and> only_added (governance d) (governance d')
     \<and> (intent_coherent (governance d) \<longrightarrow> intent_coherent (governance d'))"
  using assms
proof (rule approve_Inr)
  assume "d' = d"
  then show ?thesis by simp
next
  fix r it
  assume r: "r \<in> set (work_revisions (governance d))" "wr_id r = i" "wr_org r = actor_org actor"
    "target_exists (governance d) r kind key = Inr True"
    and g: "governance d' = (governance d)\<lparr>approvals := approvals (governance d) @ [a]\<rparr>"
    and a: "ap_org a = actor_org actor" "ap_revision a = i" "ap_target_kind a = kind" "ap_target_key a = key"
  have "approval_bound (governance d) a" using r a unfolding approval_bound_def by auto
  then have "intent_coherent (governance d')" if "intent_coherent (governance d)"
    by (intro coherent_extended [OF that, where as = "[a]"]) (use that in \<open>simp_all add: g intent_coherent_def\<close>)
  then show ?thesis by (simp add: g only_added_def)
qed

lemma revoke_step:
  assumes "revoke_work_item_approval env actor repository i reason now fresh d = Inr ((x, c), d')"
  shows "work_items (governance d') = work_items (governance d)
     \<and> work_revisions (governance d') = work_revisions (governance d)
     \<and> only_added (governance d) (governance d')
     \<and> (intent_coherent (governance d) \<longrightarrow> intent_coherent (governance d'))"
proof -
  from revoke_approval_Inr [OF assms] consider "d' = d"
    | "governance d' = (governance d)\<lparr>approval_revocations := approval_revocations (governance d) @ [x]\<rparr>"
      "ar_approval x \<notin> ar_approval ` set (approval_revocations (governance d))" by blast
  then show ?thesis
  proof cases
    case 1
    then show ?thesis by simp
  next
    case 2
    then have "intent_coherent (governance d')" if "intent_coherent (governance d)"
      by (intro coherent_extended [OF that, where as = "[]"]) (use that in \<open>simp_all add: intent_coherent_def\<close>)
    then show ?thesis by (simp add: 2(1) only_added_def)
  qed
qed

lemma intent_step_adds:
  assumes "intent_step env d d'"
  shows "(work_items (governance d') = work_items (governance d) \<and> work_revisions (governance d') = work_revisions (governance d)
        \<or> revision_added (governance d) (governance d'))
     \<and> only_added (governance d) (governance d')
     \<and> (schema_requires_codes env \<longrightarrow> intent_coherent (governance d) \<longrightarrow> intent_coherent (governance d'))"
  using assms
proof cases
  case imported
  then show ?thesis using import_work_step by blast
next
  case approved
  then show ?thesis using approve_step by blast
next
  case revoked
  then show ?thesis using revoke_step by blast
qed

interpretation revision_numbers: versioned wi_id wi_org wi_revision wr_item wr_org wr_revision
    "\<lambda>d. work_items (governance d)" "\<lambda>d. work_revisions (governance d)" "intent_step env" for env
  by unfold_locales (use intent_step_adds in blast)

definition revisions_numbered :: "governance \<Rightarrow> bool" where
  "revisions_numbered g \<longleftrightarrow>
     versions_numbered wi_id wi_org wi_revision wr_item wr_org wr_revision (work_items g) (work_revisions g)"

lemma intent_steps:
  assumes "(intent_step env)\<^sup>*\<^sup>* d d'"
  shows "only_added (governance d) (governance d')
     \<and> (revisions_numbered (governance d) \<longrightarrow> revisions_numbered (governance d'))
     \<and> (schema_requires_codes env \<longrightarrow> intent_coherent (governance d) \<longrightarrow> intent_coherent (governance d'))"
proof -
  have "only_added (governance d) (governance d')
     \<and> (schema_requires_codes env \<longrightarrow> intent_coherent (governance d) \<longrightarrow> intent_coherent (governance d'))"
    using assms
  proof (induction rule: rtranclp_induct)
    case base
    then show ?case by simp
  next
    case (step d1 d2)
    from intent_step_adds [OF step(2)] step(3) show ?case using only_added_trans by blast
  qed
  then show ?thesis
    using revision_numbers.steps_keep_numbers [OF assms] unfolding revisions_numbered_def by blast
qed

end
