(* ===== verification/IntentClaims.thy ===== *)
theory IntentClaims
  imports IntentLife GovernanceSamples
begin

text \<open>The properties of work items, their revisions and approvals, with a small work item they hold of.\<close>

section \<open>A sample import\<close>

text \<open>
  Work item 70 of repository 50 in scope 60, imported as approved: one requirement that needs approval
  and the criterion that asks for it.  The sample schema accepts this document only.
\<close>

definition sample_requirement_items :: "(pystr \<times> json) list" where
  "sample_requirement_items =
     [(lit ''code'', JStr (lit ''REQ'')), (lit ''normalized_text'', JStr []), (lit ''origin'', JStr []),
      (lit ''owner'', JStr []), (lit ''status'', JStr []), (lit ''source_references'', JList []),
      (lit ''related_entity_ids'', JList []), (lit ''requires_approval'', JBool True)]"

definition sample_criterion_items :: "(pystr \<times> json) list" where
  "sample_criterion_items =
     [(lit ''code'', JStr (lit ''ACC'')), (lit ''requirement_code'', JStr (lit ''REQ'')),
      (lit ''normalized_text'', JStr []), (lit ''required_evidence_types'', JList [JStr MANUAL_APPROVAL]),
      (lit ''manual_approval_allowed'', JBool True)]"

definition sample_work_items :: "(pystr \<times> json) list" where
  "sample_work_items =
     [(lit ''schema_version'', JStr (lit ''1.0'')), (lit ''organization_id'', JStr (uuid_str 1)),
      (lit ''repository_id'', JStr (uuid_str 50)), (lit ''access_scope_id'', JStr (uuid_str 60)),
      (lit ''work_item_id'', JStr (uuid_str 70)), (lit ''revision'', JInt 1), (lit ''external_key'', JNull),
      (lit ''title'', JStr (lit ''t'')), (lit ''work_type'', JStr (lit ''BUG'')),
      (lit ''status'', JStr (lit ''APPROVED'')), (lit ''summary'', JStr []), (lit ''origin'', JStr []),
      (lit ''source_references'', JList []), (lit ''requirements'', JList [JDict sample_requirement_items]),
      (lit ''non_requirements'', JList []), (lit ''assumptions'', JList []),
      (lit ''acceptance_criteria'', JList [JDict sample_criterion_items]), (lit ''decisions'', JList []),
      (lit ''summaries'', JList [])]"

definition sample_document :: work_document where
  "sample_document =
     \<lparr>wd_organization_id = uuid_str 1, wd_repository_id = uuid_str 50, wd_access_scope_id = uuid_str 60,
      wd_work_item_id = uuid_str 70, wd_revision = 1, wd_external_key = JNull, wd_title = lit ''t'',
      wd_work_type = lit ''BUG'', wd_status = lit ''APPROVED'', wd_summary = [], wd_origin = [],
      wd_source_references = JList [],
      wd_requirements = [\<lparr>ri_code = lit ''REQ'', ri_normalized_text = [], ri_origin = [], ri_owner = [],
        ri_status = [], ri_source_references = JList [], ri_related_entity_ids = [], ri_requires_approval = True\<rparr>],
      wd_non_requirements = [], wd_assumptions = [],
      wd_criteria = [\<lparr>ci_code = lit ''ACC'', ci_requirement_code = Some (lit ''REQ''), ci_normalized_text = [],
        ci_evidence_types = [MANUAL_APPROVAL], ci_manual_approval = True\<rparr>],
      wd_decisions = [], wd_summaries = []\<rparr>"

definition sample_intent_env :: environment where
  "sample_intent_env = sample_env\<lparr>env_schema_accepts := (\<lambda>schema v. v = JDict sample_work_items)\<rparr>"

definition sample_fresh :: fresh_rows where
  "sample_fresh = \<lparr>fr_revision = 71, fr_requirement = (\<lambda>n. 100 + n), fr_non_requirement = (\<lambda>n. 200 + n),
     fr_assumption = (\<lambda>n. 300 + n), fr_criterion = (\<lambda>n. 400 + n), fr_decision = (\<lambda>n. 500 + n),
     fr_summary = (\<lambda>n. 600 + n)\<rparr>"

lemma sample_read: "read_work sample_work_items = Inr sample_document"
  unfolding sample_work_items_def sample_requirement_items_def sample_criterion_items_def sample_document_def
  by (simp add: read_work_def read_requirement_item_def read_criterion_item_def text_at_def texts_at_def
      bool_at_def int_at_def optional_text_at_def dicts_at_def item_of_def json_get_def as_text_def as_texts_def
      as_list_def as_int_def as_bool_def as_dict_def optional_text_def)

lemma sample_text:
  "\<exists>text m. canonical_text fr (JDict sample_work_items) = Inr text \<and> encoded_length text = Some m \<and> m \<le> 65536"
proof (rule canonical_text_bounded)
  have uuid: "length (uuid_str u) = 36" for u by (simp add: uuid_str_def Let_def)
  show "utf8_json (JDict sample_work_items)"
    by (simp add: sample_work_items_def sample_requirement_items_def sample_criterion_items_def
      uuid_str_surrogates plain_char MANUAL_APPROVAL_def)
  have "int_text 1 = [49]" by (simp add: int_text_def nat_text.simps)
  then show "4 * text_bound (JDict sample_work_items) \<le> 65536"
    by (simp add: sample_work_items_def sample_requirement_items_def sample_criterion_items_def
      uuid MANUAL_APPROVAL_def del: One_nat_def)
qed

lemma sample_work_accepted: "validate_payload sample_intent_env n (JDict sample_work_items) = Inr ()"
proof -
  have schema: "env_schemas sample_intent_env n = Some sample_schema"
    "env_schema_accepts sample_intent_env sample_schema (JDict sample_work_items)"
    by (simp_all add: sample_intent_env_def sample_env_def)
  have version: "supported_version sample_schema = Some (JStr (lit ''1.0''))"
    by (simp add: supported_version_def sample_schema_def json_member_def json_get_def)
  have "json_get sample_work_items (lit ''schema_version'') = Some (JStr (lit ''1.0''))"
    by (simp add: sample_work_items_def json_get_def)
  then show ?thesis by (simp add: validate_payload_def schema version)
qed

lemma sample_keys:
  "\<forall>k\<in>fst ` set sample_work_items. \<not> sensitive_key k"
  "\<forall>k\<in>fst ` set sample_requirement_items. \<not> sensitive_key k"
  "\<forall>k\<in>fst ` set sample_criterion_items. \<not> sensitive_key k"
  by (simp_all add: sample_work_items_def sample_requirement_items_def sample_criterion_items_def
      plain_key del: sensitive_key.simps)

lemma sample_work_screened: "reject_secrets sample_intent_env (JDict sample_work_items) = Inr ()"
proof -
  have redact: "env_redact sample_intent_env s = s" for s by (simp add: sample_intent_env_def)
  have uuid: "length (uuid_str u) = 36" for u by (simp add: uuid_str_def Let_def)
  have parts: "\<forall>p\<in>set sample_requirement_items. secret_free sample_intent_env 18 (snd p)"
    "\<forall>p\<in>set sample_criterion_items. secret_free sample_intent_env 18 (snd p)"
    by (simp_all add: sample_requirement_items_def sample_criterion_items_def redact MANUAL_APPROVAL_def)
  have inner: "secret_free sample_intent_env 19 (JDict sample_requirement_items)"
    "secret_free sample_intent_env 19 (JDict sample_criterion_items)"
    using parts sample_keys by (auto simp del: secret_free.simps(3-))
  have "\<forall>p\<in>set sample_work_items. secret_free sample_intent_env 20 (snd p)"
    using inner by (simp add: sample_work_items_def redact uuid del: secret_free.simps(1)) 
  then show ?thesis unfolding reject_secrets_Inr using sample_keys(1) by auto
qed

section \<open>The import\<close>

definition sample_item :: "pystr \<Rightarrow> work_item" where
  "sample_item digest = new_work_item 70 1 50 60 sample_document digest"

definition sample_revision :: "actor_context \<Rightarrow> pystr \<Rightarrow> work_revision" where
  "sample_revision actor digest =
     revision_row actor (sample_item digest) sample_document (normalized_work sample_work_items) digest 71"

lemma sample_valid:
  "validate_semantic_uniqueness env sample_document = Inr ()" "validate_required_approvals sample_document = Inr ()"
  "check_related_entities d org s sample_document = Inr ()"
  by (simp_all add: validate_semantic_uniqueness_def validate_required_approvals_def check_required_approval_def
      linked_criteria_def check_related_entities_def sample_document_def guard_res_def)

lemma sample_import:
  "\<exists>res d'. import_work_item sample_intent_env sample_user (JDict sample_work_items) 5 sample_fresh
     (governed empty_governance) = Inr (res, d') \<and> im_created res \<and> wr_status (im_revision res) = lit ''APPROVED''
     \<and> wi_repository (im_item res) = 50 \<and> wi_access_scope (im_item res) = 60"
proof -
  let ?env = sample_intent_env and ?d = "governed empty_governance"
  let ?a = "sample_user\<lparr>actor_path := sample_rules_path (Some 60)\<rparr>"
  obtain tx m where tx: "canonical_text (env_float_repr ?env) (JDict sample_work_items) = Inr tx"
    "encoded_length tx = Some m" "m \<le> 65536" using sample_text by blast
  have bytes: "text_bytes tx \<le> 65536" using tx by (simp add: text_bytes_def)
  have "utf8_json (JDict (normalized_work sample_work_items))"
    by (simp add: normalized_work_def sample_work_items_def sample_requirement_items_def sample_criterion_items_def
      uuid_str_surrogates plain_char MANUAL_APPROVAL_def)
  then obtain digest where digest: "content_hash ?env (JDict (normalized_work sample_work_items)) = Inr digest"
    using content_hash_utf8 by blast
  have ids: "uuid_of (uuid_str u) = Inr u" if "u < 2 ^ 128" for u by (simp add: uuid_of_def parse_uuid_str [OF that])
  have doc: "uuid_of (wd_organization_id sample_document) = Inr 1" "uuid_of (wd_repository_id sample_document) = Inr 50"
    "uuid_of (wd_access_scope_id sample_document) = Inr 60" "uuid_of (wd_work_item_id sample_document) = Inr 70"
    by (simp_all add: sample_document_def ids del: One_nat_def)
  have may: "authorize_work_import ?env 5 ?d sample_user 50 60 (wd_status sample_document)
      = Inr \<lparr>dec_action = WORK_APPROVE, dec_path = sample_rules_path (Some 60)\<rparr>"
    by (simp add: authorize_work_import_def sample_rules_may sample_document_def)
  have rows: "\<exists>x. get_tenant_record active_repository_table 50 1 ?d = Inr x" "\<exists>x. get_tenant_record active_scope_table 60 1 ?d = Inr x"
    by (simp_all add: get_tenant_record_def active_repository_table_def repository_table_def active_scope_table_def
        scope_table_def governed_rows)
  obtain x y where rows: "get_tenant_record active_repository_table 50 1 ?d = Inr x"
    "get_tenant_record active_scope_table 60 1 ?d = Inr y" using rows by blast
  let ?i = "sample_item digest" and ?r = "sample_revision ?a digest"
  let ?g = "empty_governance\<lparr>work_items := [?i]\<rparr>"
  have pointer: "store_work_item 1 50 60 70 sample_document digest empty_governance = Inr (Advanced ?i [] ?g)"
    by (simp add: store_work_item_def empty_governance_def sample_item_def create_work_item_def sample_document_def
        new_work_item_def Let_def del: One_nat_def)
  have "\<exists>g'. store_revision ?env ?r sample_document sample_fresh ?g = Inr g'"
    by (simp add: store_revision_def insert_revision_def empty_governance_def sample_document_def numbered_from_1_def
        criterion_of_def requirement_row_of_def Let_def)
  then obtain g' where store: "store_revision ?env ?r sample_document sample_fresh ?g = Inr g'" by blast
  have "\<exists>d'. record_transition ?env 1 ?a (lit ''workitem'') (wi_id ?i) [] (wi_status ?i) (nat (wi_revision ?i))
      [(lit ''content_hash'', JStr digest), (lit ''repository_id'', JStr (uuid_str 50))] (governed g') = Inr d'"
    by (rule exI, rule record_transition_ok)
      (simp_all add: actor_clean_def ALLOWED_AUDIT_METADATA_KEYS_def sample_intent_env_def)
  then obtain d' where rec: "record_transition ?env 1 ?a (lit ''workitem'') (wi_id ?i) [] (wi_status ?i) (nat (wi_revision ?i))
      [(lit ''content_hash'', JStr digest), (lit ''repository_id'', JStr (uuid_str 50))] (governed g') = Inr d'" by blast
  have put: "?d\<lparr>governance := g'\<rparr> = governed g'" by (simp add: governed_def)
  have "import_work_item ?env sample_user (JDict sample_work_items) 5 sample_fresh ?d
      = Inr (\<lparr>im_item = ?i, im_revision = ?r, im_created = True\<rparr>, d')"
    unfolding import_work_item_def
    by (simp add: tx(1) bytes sample_work_accepted sample_work_screened as_dict_def sample_read doc sample_valid may
        sample_rules_audit rows digest pointer Let_def sample_revision_def [symmetric] del: One_nat_def)
      (use store rec in \<open>simp add: sample_fresh_def sample_revision_def put del: One_nat_def\<close>)
  then show ?thesis
    by (intro exI conjI, assumption)
      (simp_all add: sample_revision_def revision_row_def sample_item_def new_work_item_def sample_document_def)
qed

section \<open>A sample approval\<close>

text \<open>The governance tables after such an import, with plain digests; the criterion is approved.\<close>

definition sample_criterion :: acceptance_criterion where
  "sample_criterion = \<lparr>cr_id = 401, cr_org = 1, cr_revision = 71, cr_position = 1, cr_requirement = Some 101,
     cr_code = lit ''ACC'', cr_normalized_text = [], cr_evidence_types = [MANUAL_APPROVAL], cr_manual_approval = True\<rparr>"

definition sample_intent :: governance where
  "sample_intent = empty_governance\<lparr>work_items := [sample_item []], work_revisions := [sample_revision sample_user []],
     requirement_rows := new_requirements (sample_revision sample_user []) sample_document sample_fresh,
     acceptance_criteria := [sample_criterion]\<rparr>"

definition sample_target :: pystr where
  "sample_target = lit ''ACC''"

lemma sample_intent_simps [simp]:
  "work_items sample_intent = [sample_item []]" "work_revisions sample_intent = [sample_revision sample_user []]"
  "acceptance_criteria sample_intent = [sample_criterion]" "approvals sample_intent = []"
  "approval_revocations sample_intent = []"
  "requirement_rows sample_intent = new_requirements (sample_revision sample_user []) sample_document sample_fresh"
  by (simp_all add: sample_intent_def empty_governance_def)

lemma sample_revision_simps [simp]:
  "wr_id (sample_revision a h) = 71" "wr_org (sample_revision a h) = 1" "wr_item (sample_revision a h) = 70"
  "wi_id (sample_item h) = 70" "wi_org (sample_item h) = 1" "wi_repository (sample_item h) = 50"
  "wi_access_scope (sample_item h) = 60" "wi_revision (sample_item h) = 1"
  "wr_revision (sample_revision a h) = 1"
  by (simp_all add: sample_revision_def revision_row_def sample_item_def new_work_item_def sample_document_def)

definition sample_until :: "instant \<times> pystr" where
  "sample_until = (9, lit ''9'')"

definition sample_approves :: pystr where
  "sample_approves = lit ''APPROVED''"

definition sample_kind :: pystr where
  "sample_kind = lit ''ACCEPTANCE_CRITERION''"

lemma sample_approval_key:
  "\<exists>k. content_hash env (approval_identity (sample_revision a h) (sample_user\<lparr>actor_path := p\<rparr>) sample_approves
     sample_kind sample_target sample_reason (Some sample_until)) = Inr k"
  by (rule content_hash_utf8)
    (simp add: approval_identity_def uuid_json_def uuid_str_surrogates sample_user_def plain_char
      sample_reason_def sample_target_def sample_approves_def sample_kind_def sample_until_def)

lemma sample_approval:
  "\<exists>a d'. approve_work_item_revision sample_env sample_user 50 71 sample_approves sample_kind sample_target sample_reason
     (Some sample_until) 5 80 (governed sample_intent) = Inr ((a, True), d')"
proof -
  let ?r = "sample_revision sample_user []" and ?b = "sample_user\<lparr>actor_path := sample_rules_path (Some 60)\<rparr>"
  obtain k where key: "content_hash sample_env (approval_identity ?r ?b sample_approves sample_kind sample_target
      sample_reason (Some sample_until)) = Inr k"
    using sample_approval_key by blast
  have rows: "get_tenant_record work_revision_table 71 1 (governed sample_intent) = Inr ?r"
    "get_tenant_record_for_update work_revision_table 71 1 (governed sample_intent) = Inr ?r"
    "work_item_of (governed sample_intent) ?r = Inr (sample_item [])"
    by (simp_all add: get_tenant_record_def get_tenant_record_for_update_def work_revision_table_def work_item_of_def)
  have target: "target_exists sample_intent ?r sample_kind sample_target = Inr True"
    by (simp add: target_exists_def sample_kind_def sample_target_def sample_criterion_def)
  have future: "case sample_until of (t, z) \<Rightarrow> 5 < t" by (simp add: sample_until_def)
  have status: "sample_approves \<in> {lit ''APPROVED'', lit ''REJECTED''}" by (simp add: sample_approves_def)
  let ?a = "\<lparr>ap_id = 80, ap_org = 1, ap_revision = 71, ap_repository = 50, ap_target_kind = sample_kind,
     ap_target_key = sample_target, ap_status = sample_approves, ap_actor_type = actor_type sample_user,
     ap_actor_id = actor_id sample_user, ap_authority_action = action_value WORK_APPROVE, ap_reason = sample_reason,
     ap_idempotency_key = k, ap_decided_at = 5, ap_expires_at = Some (fst sample_until)\<rparr>"
  have "\<exists>d'. record_transition sample_env 1 ?b (lit ''approval'') 80 [] sample_approves 1 []
      (create_row approval_table ?a (governed sample_intent)) = Inr d'"
    by (rule exI, rule record_transition_ok) (simp_all add: actor_clean_def create_row_def approval_table_def)
  then obtain d' where rec: "record_transition sample_env 1 ?b (lit ''approval'') 80 [] sample_approves 1 []
      (create_row approval_table ?a (governed sample_intent)) = Inr d'" by blast
  have "approve_work_item_revision sample_env sample_user 50 71 sample_approves sample_kind sample_target sample_reason
     (Some sample_until) 5 80 (governed sample_intent) = Inr ((?a, True), d')"
    unfolding approve_work_item_revision_def
    by (simp add: rows target status key future sample_reason_ok sample_rules_may sample_rules_audit Let_def
        del: One_nat_def insert_iff lit_simps)
      (use rec in \<open>simp add: first_by_def Let_def del: One_nat_def\<close>)
  then show ?thesis by blast
qed

section \<open>Properties\<close>

text \<open>
  The revisions of a work item are numbered 1, 2, 3 and so on without a gap or a repetition, up to the
  revision the item points to, and stay so through every import, approval and withdrawal by anyone;
  revisions, requirements, criteria, decisions, approvals and withdrawals are only ever added.
\<close>

theorem work_revisions_are_sequential:
  assumes "(intent_step env)\<^sup>*\<^sup>* d d'" "revisions_numbered (governance d)"
  shows "revisions_numbered (governance d') \<and> only_added (governance d) (governance d')"
  using intent_steps [OF assms(1)] assms(2) by blast

lemma sample_fresh_ok: "fresh_for sample_fresh empty_governance"
  by (simp add: fresh_for_def sample_fresh_def empty_governance_def inj_def)

lemma sample_step:
  "\<exists>d'. intent_step sample_intent_env (governed empty_governance) d'
     \<and> (\<exists>r\<in>set (work_revisions (governance d')). wr_status r = lit ''APPROVED'')"
proof -
  obtain res d' where op: "import_work_item sample_intent_env sample_user (JDict sample_work_items) 5 sample_fresh
     (governed empty_governance) = Inr (res, d')" "im_created res" "wr_status (im_revision res) = lit ''APPROVED''"
    using sample_import by blast
  have "im_revision res \<in> set (work_revisions (governance d'))"
    using op(1)
  proof (rule import_work_Inr)
    fix w g r g' assume "store_revision sample_intent_env r w sample_fresh g = Inr g'" "governance d' = g'" "im_revision res = r"
    then show ?thesis by (elim store_revision_Inr) simp
  qed (use op(2) in simp_all)
  moreover have "intent_step sample_intent_env (governed empty_governance) d'"
    using intent_step.imported [OF _ op(1)] sample_fresh_ok by simp
  ultimately show ?thesis using op(3) by blast
qed

theorem work_revisions_are_sequential_witness:
  "\<exists>d'. intent_step sample_intent_env (governed empty_governance) d' \<and> work_revisions (governance d') \<noteq> []
     \<and> revisions_numbered (governance d')"
proof -
  obtain d' where step: "intent_step sample_intent_env (governed empty_governance) d'"
    and rows: "work_revisions (governance d') \<noteq> []" using sample_step by force
  have "(intent_step sample_intent_env)\<^sup>*\<^sup>* (governed empty_governance) d'" using step by blast
  moreover have "revisions_numbered (governance (governed empty_governance))"
    by (simp add: revisions_numbered_def versions_numbered_def empty_governance_def)
  ultimately have "revisions_numbered (governance d')" using work_revisions_are_sequential by blast
  then show ?thesis using step rows by blast
qed

text \<open>C21: 
  The stored intent stays coherent through every import, approval and withdrawal.  In every revision the
  requirements and the criteria have codes of their own and stand in order, a criterion names a
  requirement of its own revision, and a requirement that needs approval has criteria, all of which ask
  for a manual approval; every approval is bound to a target that exists in its revision, and none is
  withdrawn twice.
\<close>

theorem intent_stays_coherent:
  assumes "schema_requires_codes env" "(intent_step env)\<^sup>*\<^sup>* d d'" "intent_coherent (governance d)"
  shows "intent_coherent (governance d')"
  using intent_steps [OF assms(2)] assms(1,3) by blast

theorem intent_stays_coherent_witness:
  "\<exists>d'. intent_step sample_intent_env (governed empty_governance) d' \<and> work_revisions (governance d') \<noteq> []
     \<and> intent_coherent (governance d')"
proof -
  obtain d' where step: "intent_step sample_intent_env (governed empty_governance) d'"
    and rows: "work_revisions (governance d') \<noteq> []" using sample_step by force
  have "(intent_step sample_intent_env)\<^sup>*\<^sup>* (governed empty_governance) d'" using step by blast
  moreover have "intent_coherent (governance (governed empty_governance))"
    by (simp add: intent_coherent_def empty_governance_def)
  moreover have "schema_requires_codes sample_intent_env"
    unfolding schema_requires_codes_def
  proof (intro allI impI)
    fix items w q
    assume a: "validate_payload sample_intent_env (lit ''work-item-import'') (JDict items) = Inr ()"
      "read_work items = Inr w" "q \<in> set (wd_requirements w)"
    have "items = sample_work_items"
      using a(1) by (simp add: validate_payload_def sample_intent_env_def split: option.splits if_splits)
    then have "w = sample_document" using a(2) sample_read by simp
    then show "ri_code q \<noteq> []" using a(3) by (simp add: sample_document_def)
  qed
  ultimately have "intent_coherent (governance d')" using intent_stays_coherent by blast
  then show ?thesis using step rows by blast
qed

text \<open>C22: 
  A new revision is stored for the tenant of the actor only, who may manage work of its repository in
  its scope; and a revision that is imported as approved has an importer who may approve it.
\<close>

theorem approved_revision_has_an_approver:
  assumes "import_work_item env actor payload now fresh d = Inr (res, d')" "im_created res"
  shows "im_revision res \<in> set (work_revisions (governance d')) \<and> wr_org (im_revision res) = actor_org actor
     \<and> returns (authorize_action env now d actor WORK_MANAGE (Some (wi_repository (im_item res))) None
                  (Some (wi_access_scope (im_item res))) False)
     \<and> (wr_status (im_revision res) = lit ''APPROVED'' \<longrightarrow>
          returns (authorize_action env now d actor WORK_APPROVE (Some (wi_repository (im_item res))) None
                     (Some (wi_access_scope (im_item res))) False))"
  using assms(1)
proof (rule import_work_Inr)
  fix w repository scope_id item_id digest i previous g a items r g'
  assume may: "returns (authorize_work_import env now d actor repository scope_id (wd_status w))"
    and pointer: "store_work_item (actor_org actor) repository scope_id item_id w digest (governance d) = Inr (Advanced i previous g)"
    and r: "r = revision_row a i w (normalized_work items) digest (fr_revision fresh)"
    and store: "store_revision env r w fresh g = Inr g'" and res: "governance d' = g'" "im_item res = i" "im_revision res = r"
  have "r \<in> set (work_revisions g')" using store by (elim store_revision_Inr) simp
  moreover have "returns (authorize_action env now d actor WORK_MANAGE (Some repository) None (Some scope_id) False)"
    "wd_status w = lit ''APPROVED'' \<longrightarrow>
       returns (authorize_action env now d actor WORK_APPROVE (Some repository) None (Some scope_id) False)"
    using may by (auto simp: authorize_work_import_def returns_def bind_res_def split: sum.splits if_splits)
  ultimately show ?thesis using stored_item [OF pointer] res by (simp add: r revision_row_def)
qed (use assms(2) in simp)

theorem approved_revision_has_an_approver_witness:
  "\<exists>res d'. import_work_item sample_intent_env sample_user (JDict sample_work_items) 5 sample_fresh
       (governed empty_governance) = Inr (res, d') \<and> wr_status (im_revision res) = lit ''APPROVED''
     \<and> returns (authorize_action sample_intent_env 5 (governed empty_governance) sample_user WORK_APPROVE (Some 50)
                  None (Some 60) False)"
proof -
  obtain res d' where op: "import_work_item sample_intent_env sample_user (JDict sample_work_items) 5 sample_fresh
     (governed empty_governance) = Inr (res, d')" "im_created res" "wr_status (im_revision res) = lit ''APPROVED''"
    "wi_repository (im_item res) = 50" "wi_access_scope (im_item res) = 60"
    using sample_import by blast
  from approved_revision_has_an_approver [OF op(1,2)] op show ?thesis by auto
qed

text \<open>
  A new approval is recorded by an actor who may approve work of that repository in the scope of the
  item; it is bound to one revision of the actor's own tenant and to a target that exists in exactly
  that revision, and it has not expired when it is made.
\<close>

theorem approval_needs_authority_and_target:
  assumes "approve_work_item_revision env actor repository i status kind key reason expires now fresh d = Inr ((a, True), d')"
  shows "a \<in> set (approvals (governance d')) \<and> (\<forall>t. ap_expires_at a = Some t \<longrightarrow> now < t)
     \<and> (\<exists>r\<in>set (work_revisions (governance d)). wr_id r = ap_revision a \<and> wr_org r = actor_org actor \<and> ap_org a = actor_org actor
          \<and> target_exists (governance d) r (ap_target_kind a) (ap_target_key a) = Inr True
          \<and> (\<exists>it. work_item_of d r = Inr it \<and> wi_repository it = ap_repository a
               \<and> returns (authorize_action env now d actor WORK_APPROVE (Some (ap_repository a)) None
                            (Some (wi_access_scope it)) False)))"
  using assms by (rule approve_Inr) auto

theorem approval_needs_authority_and_target_witness:
  "\<exists>a d'. approve_work_item_revision sample_env sample_user 50 71 sample_approves sample_kind sample_target sample_reason
     (Some sample_until) 5 80 (governed sample_intent) = Inr ((a, True), d') \<and> a \<in> set (approvals (governance d'))"
proof -
  obtain a d' where op: "approve_work_item_revision sample_env sample_user 50 71 sample_approves sample_kind sample_target
     sample_reason (Some sample_until) 5 80 (governed sample_intent) = Inr ((a, True), d')"
    using sample_approval by blast
  from approval_needs_authority_and_target [OF op] op show ?thesis by blast
qed

end
