(* ===== verification/PacketSelection.thy ===== *)
theory PacketSelection
  imports Complex_Main Events "HOL-Library.Product_Lexorder" "HOL-Library.List_Lexorder"
begin

unbundle bit_operations_syntax

text \<open>
  The selection of a context packet in \<^verbatim>\<open>src/anva/core/services/context_packets.py\<close>: budgets, candidates,
  \<^verbatim>\<open>_merge_candidates\<close> and \<^verbatim>\<open>_select\<close>.  A rank score is the rational number the float is; text that
  reaches a candidate comes from the database and holds no lone surrogate.  The monotonic clock is
  the argument \<open>late\<close>: whether its \<open>n\<close>-th reading is at or past the deadline.  The refusal
  \<open>cannot_represent\<close> leaves out the list of labels its message names.
\<close>

section \<open>Budgets and candidates\<close>

record packet_budget =
  bu_items :: int
  bu_tokens :: int
  bu_bytes :: int
  bu_citations :: int

definition check_budget :: "packet_budget \<Rightarrow> unit result" where
  "check_budget b =
     (if bu_items b < 1 \<or> bu_tokens b < 1 \<or> bu_bytes b < 1 \<or> bu_citations b < 1
      then Inl (ValueError ''all packet budgets must be positive'')
      else if bu_items b > 500 then Inl (ValueError ''max_items cannot exceed 500'')
      else if bu_tokens b > 100000 \<or> bu_bytes b > 1000000
      then Inl (ValueError ''packet token or byte budget is too large'')
      else if bu_citations b > 1000 then Inl (ValueError ''max_citations cannot exceed 1000'')
      else Inr ())"

record citation_candidate =
  cc_access_scope :: uuid
  cc_location :: uuid
  cc_observation :: uuid
  cc_snapshot :: uuid
  cc_canonical_url :: pystr
  cc_locator :: pystr
  cc_content_hash :: pystr
  cc_observed_at :: instant

datatype item_kind =
  KIND_POLICY | KIND_RELATIONSHIP | KIND_ASSERTION | KIND_SOURCE_EXCERPT | KIND_DECISION | KIND_INCIDENT
  | KIND_CONFLICT

datatype freshness = CURRENT | STALE | UNKNOWN

record packet_candidate =
  pc_item_id :: uuid
  pc_kind :: item_kind
  pc_item_key :: pystr
  pc_summary :: pystr
  pc_freshness :: freshness
  pc_is_inferred :: bool
  pc_selection_reason :: pystr
  pc_rank_score :: rat
  pc_tier :: int
  pc_required_policy :: bool
  pc_payload :: "(pystr \<times> json) list"
  pc_scope_ids :: "uuid list"
  pc_citations :: "citation_candidate list"
  pc_matched_facets :: "pystr list"
  pc_required_facets :: "pystr list"
  pc_required_anchor :: bool
  pc_source_assertion :: "uuid option"
  pc_source_relationship :: "uuid option"
  pc_source_chunk :: "uuid option"
  pc_source_conflict :: "uuid option"

definition token_count :: "packet_candidate \<Rightarrow> int" where
  "token_count c = max 1 ((int (length (pc_summary c)) + 3) div 4)"

definition effective_payload :: "packet_candidate \<Rightarrow> (pystr \<times> json) list" where
  "effective_payload c =
     (let p = pc_payload c;
          p = (if pc_required_anchor c then dict_set (lit ''required_search_anchor'') (JBool True) p else p);
          p = (if pc_matched_facets c = [] then p
               else dict_set (lit ''retrieval_facets'') (JList (map JStr (pc_matched_facets c))) p)
      in if pc_required_facets c = [] then p
         else dict_set (lit ''required_context_facets'') (JList (map JStr (pc_required_facets c))) p)"

definition byte_count :: "environment \<Rightarrow> packet_candidate \<Rightarrow> int" where
  "byte_count env c =
     int (sum_list (map utf8_width
            (json_text (env_float_repr env) (sorted_keys (JDict (effective_payload c))))))"

definition citation_count :: "packet_candidate \<Rightarrow> int" where
  "citation_count c = int (length (pc_citations c))"

definition candidate_order :: "packet_candidate \<Rightarrow> int \<times> bool \<times> rat \<times> pystr" where
  "candidate_order c = (pc_tier c, pc_freshness c \<noteq> CURRENT, - pc_rank_score c, pc_item_key c)"

section \<open>Merging the variants of an item\<close>

definition merge_variants :: "packet_candidate list \<Rightarrow> packet_candidate option" where
  "merge_variants vs =
     (let anchored = filter pc_required_anchor vs
      in map_option (\<lambda>best. best
           \<lparr>pc_matched_facets := sorted_set (concat (map pc_matched_facets vs)),
            pc_required_facets := sorted_set (concat (map pc_required_facets vs)),
            pc_required_anchor := (anchored \<noteq> [])\<rparr>)
           (first_by candidate_order (if anchored \<noteq> [] then anchored else vs)))"

definition merge_candidates :: "packet_candidate list \<Rightarrow> packet_candidate list" where
  "merge_candidates cs =
     List.map_filter (\<lambda>k. merge_variants (filter (\<lambda>c. pc_item_key c = k) cs))
       (sorted_set (map pc_item_key cs))"

section \<open>Reserving and filling\<close>

record selection =
  se_selected :: "packet_candidate list"
  se_tokens :: int
  se_bytes :: int
  se_citations :: int
  se_ticks :: nat

definition require_deadline :: "(nat \<Rightarrow> bool) \<Rightarrow> nat \<Rightarrow> nat result" where
  "require_deadline late n =
     (if late n then Inl (RequiredContextBudgetError ''Context construction deadline exhausted'')
      else Inr (Suc n))"

definition tick :: "(nat \<Rightarrow> bool) \<Rightarrow> selection \<Rightarrow> selection result" where
  "tick late s = bind_res (require_deadline late (se_ticks s)) (\<lambda>n. Inr (s\<lparr>se_ticks := n\<rparr>))"

definition selected_keys :: "selection \<Rightarrow> pystr list" where
  "selected_keys s = map pc_item_key (se_selected s)"

definition add_if_fits ::
  "environment \<Rightarrow> packet_budget \<Rightarrow> packet_candidate \<Rightarrow> selection \<Rightarrow> selection option"
where
  "add_if_fits env budget c s =
     (if int (length (se_selected s)) + 1 \<le> bu_items budget
         \<and> se_tokens s + token_count c \<le> bu_tokens budget
         \<and> se_bytes s + byte_count env c \<le> bu_bytes budget
         \<and> se_citations s + citation_count c \<le> bu_citations budget
      then Some (s\<lparr>se_selected := se_selected s @ [c], se_tokens := se_tokens s + token_count c,
                   se_bytes := se_bytes s + byte_count env c,
                   se_citations := se_citations s + citation_count c\<rparr>)
      else None)"

definition must_add ::
  "environment \<Rightarrow> packet_budget \<Rightarrow> py_error \<Rightarrow> packet_candidate \<Rightarrow> selection \<Rightarrow> selection result"
where
  "must_add env budget e c s = (case add_if_fits env budget c s of None \<Rightarrow> Inl e | Some s' \<Rightarrow> Inr s')"

definition reserve_policy ::
  "environment \<Rightarrow> packet_budget \<Rightarrow> (nat \<Rightarrow> bool) \<Rightarrow> packet_candidate \<Rightarrow> selection \<Rightarrow> selection result"
where
  "reserve_policy env budget late c s =
     bind_res (tick late s) (\<lambda>s.
       if pc_required_policy c \<and> pc_freshness c = CURRENT
       then must_add env budget RequiredPolicyBudgetError c s else Inr s)"

definition reserve_anchor ::
  "environment \<Rightarrow> packet_budget \<Rightarrow> (nat \<Rightarrow> bool) \<Rightarrow> packet_candidate \<Rightarrow> selection \<Rightarrow> selection result"
where
  "reserve_anchor env budget late c s =
     bind_res (tick late s) (\<lambda>s.
       if pc_required_anchor c \<and> pc_item_key c \<notin> set (selected_keys s)
       then must_add env budget
              (RequiredContextBudgetError ''Packet budget cannot contain every required search anchor'') c s
       else Inr s)"

definition fill ::
  "environment \<Rightarrow> packet_budget \<Rightarrow> (nat \<Rightarrow> bool) \<Rightarrow> packet_candidate \<Rightarrow> selection \<Rightarrow> selection result"
where
  "fill env budget late c s =
     bind_res (tick late s) (\<lambda>s.
       if pc_item_key c \<notin> set (selected_keys s)
       then Inr (case add_if_fits env budget c s of None \<Rightarrow> s | Some s' \<Rightarrow> s') else Inr s)"

section \<open>Packing the required facets\<close>

text \<open>
  A way to cover a mask: the candidates chosen and what they cost together with the reservations.
  The dictionary \<^verbatim>\<open>states\<close> keeps the order of its insertions.
\<close>

record packing_state =
  ps_chosen :: "packet_candidate list"
  ps_tokens :: int
  ps_bytes :: int
  ps_citations :: int

record packing =
  pk_states :: "(nat \<times> packing_state list) list"
  pk_count :: int
  pk_operations :: int
  pk_ticks :: nat

definition MAX_REQUIRED_PACKING_CANDIDATES :: int where
  "MAX_REQUIRED_PACKING_CANDIDATES = 10000"

definition MAX_REQUIRED_PACKING_STATES :: int where
  "MAX_REQUIRED_PACKING_STATES = 50000"

definition MAX_REQUIRED_PACKING_OPERATIONS :: int where
  "MAX_REQUIRED_PACKING_OPERATIONS = 1000000"

definition operation_bound :: py_error where
  "operation_bound =
     RequiredContextBudgetError ''Required context packing exceeded its deterministic operation bound''"

definition state_bound :: py_error where
  "state_bound =
     RequiredContextBudgetError ''Required context packing exceeded its deterministic state bound''"

definition frontier_of :: "nat \<Rightarrow> (nat \<times> packing_state list) list \<Rightarrow> packing_state list" where
  "frontier_of m sts = (case map_of sts m of None \<Rightarrow> [] | Some f \<Rightarrow> f)"

fun set_frontier ::
  "nat \<Rightarrow> packing_state list \<Rightarrow> (nat \<times> packing_state list) list \<Rightarrow> (nat \<times> packing_state list) list"
where
  "set_frontier m f [] = [(m, f)]"
| "set_frontier m f ((m', f') # sts) = (if m' = m then (m, f) # sts else (m', f') # set_frontier m f sts)"

definition no_worse :: "packing_state \<Rightarrow> packing_state \<Rightarrow> bool" where
  "no_worse a b \<longleftrightarrow>
     length (ps_chosen a) \<le> length (ps_chosen b) \<and> ps_tokens a \<le> ps_tokens b
     \<and> ps_bytes a \<le> ps_bytes b \<and> ps_citations a \<le> ps_citations b"

definition extended_by :: "environment \<Rightarrow> packet_candidate \<Rightarrow> packing_state \<Rightarrow> packing_state" where
  "extended_by env c p =
     \<lparr>ps_chosen = ps_chosen p @ [c], ps_tokens = ps_tokens p + token_count c,
      ps_bytes = ps_bytes p + byte_count env c, ps_citations = ps_citations p + citation_count c\<rparr>"

definition within_budget :: "packet_budget \<Rightarrow> nat \<Rightarrow> packing_state \<Rightarrow> bool" where
  "within_budget budget reserved p \<longleftrightarrow>
     int (reserved + length (ps_chosen p)) \<le> bu_items budget \<and> ps_tokens p \<le> bu_tokens budget
     \<and> ps_bytes p \<le> bu_bytes budget \<and> ps_citations p \<le> bu_citations budget"

text \<open>One state extended by one candidate, towards the mask they cover together.\<close>

definition propose ::
  "environment \<Rightarrow> packet_budget \<Rightarrow> nat \<Rightarrow> packet_candidate \<Rightarrow> nat \<Rightarrow> packing_state \<Rightarrow> packing
     \<Rightarrow> packing result"
where
  "propose env budget reserved c m p k =
     (let k1 = k\<lparr>pk_operations := pk_operations k + 1\<rparr>;
          q = extended_by env c p
      in if pk_operations k1 > MAX_REQUIRED_PACKING_OPERATIONS then Inl operation_bound
         else if \<not> within_budget budget reserved q then Inr k1
         else
           let f = frontier_of m (pk_states k1);
               k2 = k1\<lparr>pk_states := set_frontier m f (pk_states k1),
                       pk_operations := pk_operations k1 + int (length f)\<rparr>
           in if pk_operations k2 > MAX_REQUIRED_PACKING_OPERATIONS then Inl operation_bound
              else if list_ex (\<lambda>e. no_worse e q) f then Inr k2
              else
                let f' = filter (\<lambda>e. \<not> no_worse q e) f @ [q];
                    k3 = k2\<lparr>pk_states := set_frontier m f' (pk_states k2),
                            pk_count := pk_count k2 + (int (length f') - int (length f))\<rparr>
                in if pk_count k3 > MAX_REQUIRED_PACKING_STATES then Inl state_bound else Inr k3)"

definition label_bit :: "pystr list \<Rightarrow> pystr \<Rightarrow> nat" where
  "label_bit labels l = push_bit (length (takeWhile (\<lambda>x. x \<noteq> l) labels)) 1"

definition candidate_mask :: "pystr list \<Rightarrow> packet_candidate \<Rightarrow> nat" where
  "candidate_mask labels c =
     sum_list (map (label_bit labels) (filter (\<lambda>l. l \<in> set labels) (pc_required_facets c)))"

definition pack_mask ::
  "environment \<Rightarrow> packet_budget \<Rightarrow> (nat \<Rightarrow> bool) \<Rightarrow> nat \<Rightarrow> packet_candidate \<Rightarrow> nat
     \<Rightarrow> nat \<times> packing_state list \<Rightarrow> packing \<Rightarrow> packing result"
where
  "pack_mask env budget late reserved c cm = (\<lambda>(m, ps) k.
     bind_res (require_deadline late (pk_ticks k)) (\<lambda>n.
       let k = k\<lparr>pk_ticks := n\<rparr>; m' = m OR cm
       in if m' = m then Inr k else fold_res (propose env budget reserved c m') ps k))"

definition pack_candidate ::
  "environment \<Rightarrow> packet_budget \<Rightarrow> (nat \<Rightarrow> bool) \<Rightarrow> nat \<Rightarrow> pystr list \<Rightarrow> packet_candidate \<Rightarrow> packing
     \<Rightarrow> packing result"
where
  "pack_candidate env budget late reserved labels c k =
     bind_res (require_deadline late (pk_ticks k)) (\<lambda>n.
       fold_res (pack_mask env budget late reserved c (candidate_mask labels c)) (pk_states k)
         (k\<lparr>pk_ticks := n\<rparr>))"

section \<open>The selection\<close>

definition required_labels :: "packet_candidate list \<Rightarrow> pystr list \<Rightarrow> pystr list" where
  "required_labels ordered overflow = sorted_set (concat (map pc_required_facets ordered) @ overflow)"

definition covered_mask :: "pystr list \<Rightarrow> packet_candidate list \<Rightarrow> nat" where
  "covered_mask labels cs = sum_list (map (label_bit labels) (sorted_set (concat (map pc_required_facets cs))))"

definition full_mask :: "pystr list \<Rightarrow> nat" where
  "full_mask labels = push_bit (length labels) 1 - 1"

definition representatives :: "packet_candidate list \<Rightarrow> selection \<Rightarrow> packet_candidate list" where
  "representatives ordered s =
     filter (\<lambda>c. pc_item_key c \<notin> set (selected_keys s) \<and> pc_required_facets c \<noteq> []) ordered"

definition packing_order :: "packing_state \<Rightarrow> int \<times> int \<times> int \<times> int \<times> (int \<times> bool \<times> rat \<times> pystr) list"
where
  "packing_order p =
     (int (length (ps_chosen p)), ps_tokens p, ps_bytes p, ps_citations p,
      map candidate_order (ps_chosen p))"

definition bit_count :: "pystr list \<Rightarrow> nat \<Rightarrow> nat" where
  "bit_count labels m = length (filter (bit m) [0..<length labels])"

definition missing_labels :: "pystr list \<Rightarrow> (nat \<times> packing_state list) list \<Rightarrow> pystr list" where
  "missing_labels labels sts =
     (case first_by (\<lambda>m. (- int (bit_count labels m), m)) (map fst sts) of
        None \<Rightarrow> [] | Some best \<Rightarrow> filter (\<lambda>l. best AND label_bit labels l = 0) labels)"

definition cannot_represent :: py_error where
  "cannot_represent =
     RequiredContextBudgetError ''Packet budget cannot represent discovered required context facets''"

definition pack_required ::
  "environment \<Rightarrow> packet_budget \<Rightarrow> (nat \<Rightarrow> bool) \<Rightarrow> packet_candidate list \<Rightarrow> pystr list \<Rightarrow> selection
     \<Rightarrow> selection result"
where
  "pack_required env budget late ordered overflow s =
     (let labels = required_labels ordered overflow;
          start = \<lparr>ps_chosen = [], ps_tokens = se_tokens s, ps_bytes = se_bytes s, ps_citations = se_citations s\<rparr>;
          reps = representatives ordered s
      in if int (length reps) > MAX_REQUIRED_PACKING_CANDIDATES
         then Inl (RequiredContextBudgetError
                     ''Required context packing exceeded its deterministic candidate bound'')
         else
           bind_res (fold_res (pack_candidate env budget late (length (se_selected s)) labels) reps
                       \<lparr>pk_states = [(covered_mask labels (se_selected s), [start])], pk_count = 1,
                        pk_operations = 0, pk_ticks = se_ticks s\<rparr>)
             (\<lambda>k.
               let s = s\<lparr>se_ticks := pk_ticks k\<rparr>
               in case first_by packing_order (frontier_of (full_mask labels) (pk_states k)) of
                    Some p \<Rightarrow> fold_res (must_add env budget RuntimeError) (ps_chosen p) s
                  | None \<Rightarrow>
                      if missing_labels labels (pk_states k) \<noteq> [] then Inl cannot_represent else Inr s))"

record packet_selection =
  sn_candidates :: "packet_candidate list"
  sn_tokens :: int
  sn_bytes :: int
  sn_citations :: int
  sn_limitations :: "pystr list"

definition omitted_text :: "int \<Rightarrow> pystr" where
  "omitted_text n = int_text n @ lit '' lower-priority candidates omitted by budget''"

definition packet_selection_of :: "packet_candidate list \<Rightarrow> selection \<Rightarrow> packet_selection" where
  "packet_selection_of ordered s =
     (let omitted = int (length ordered) - int (length (se_selected s))
      in \<lparr>sn_candidates = sort_key candidate_order (se_selected s), sn_tokens = se_tokens s,
          sn_bytes = se_bytes s, sn_citations = se_citations s,
          sn_limitations = (if omitted = 0 then [] else [omitted_text omitted])\<rparr>)"

definition select ::
  "environment \<Rightarrow> packet_candidate list \<Rightarrow> packet_budget \<Rightarrow> pystr list \<Rightarrow> (nat \<Rightarrow> bool)
     \<Rightarrow> packet_selection result"
where
  "select env candidates budget overflow late =
     bind_res (require_deadline late 0) (\<lambda>n.
       let ordered = sort_key candidate_order (merge_candidates candidates);
           s = \<lparr>se_selected = [], se_tokens = 0, se_bytes = 0, se_citations = 0, se_ticks = n\<rparr>
       in bind_res (fold_res (reserve_policy env budget late) ordered s) (\<lambda>s.
          bind_res (fold_res (reserve_anchor env budget late) ordered s) (\<lambda>s.
          bind_res (pack_required env budget late ordered overflow s) (\<lambda>s.
          bind_res (fold_res (fill env budget late) ordered s) (\<lambda>s.
            Inr (packet_selection_of ordered s))))))"

end
