(* ===== verification/PackingSafety.thy ===== *)
theory PackingSafety
  imports PacketSelection
begin

text \<open>
  The packing finds the cheapest covers: for every choice of representatives that fits the budget
  there is a state for the labels it covers that costs no more in any dimension.
\<close>

section \<open>Masks as sets of labels\<close>

text \<open>
  The bit masks of the packing as sets of labels: \<open>mask_of labels L\<close> is the number whose bits are the
  positions of the labels in \<open>L\<close>.
\<close>

definition mask_of :: "pystr list \<Rightarrow> pystr set \<Rightarrow> nat" where
  "mask_of labels L = sum_list (map (label_bit labels) (filter (\<lambda>l. l \<in> L) labels))"

lemma position_nth:
  "distinct xs \<Longrightarrow> i < length xs \<Longrightarrow> length (takeWhile (\<lambda>x. x \<noteq> xs ! i) xs) = i"
proof (induction xs arbitrary: i)
  case Nil
  then show ?case by simp
next
  case (Cons x xs)
  then show ?case by (cases i) auto
qed

lemma position_member:
  assumes "l \<in> set labels"
  shows "length (takeWhile (\<lambda>x. x \<noteq> l) labels) < length labels \<and> labels ! length (takeWhile (\<lambda>x. x \<noteq> l) labels) = l"
  using assms by (induction labels) auto

lemma bit_label:
  "bit (label_bit labels l) i \<longleftrightarrow> i = length (takeWhile (\<lambda>x. x \<noteq> l) labels)"
  by (auto simp: label_bit_def bit_exp_iff)

lemma bit_sum_labels:
  assumes "distinct labels" "distinct ls" "set ls \<subseteq> set labels"
  shows "bit (sum_list (map (label_bit labels) ls)) i \<longleftrightarrow> i < length labels \<and> labels ! i \<in> set ls"
  using assms(2,3)
proof (induction ls arbitrary: i)
  case Nil
  then show ?case by simp
next
  case (Cons l ls)
  have rest: "bit (sum_list (map (label_bit labels) ls)) j \<longleftrightarrow> j < length labels \<and> labels ! j \<in> set ls" for j
    using Cons by simp
  have own: "bit (label_bit labels l) j \<longleftrightarrow> j < length labels \<and> labels ! j = l" for j
    using position_member [of l labels] position_nth [OF assms(1), of j] Cons.prems(2) by (auto simp: bit_label)
  have "label_bit labels l AND sum_list (map (label_bit labels) ls) = 0"
    using Cons.prems(1) by (intro bit_eqI) (auto simp: bit_and_iff rest own)
  then have "label_bit labels l + sum_list (map (label_bit labels) ls)
      = label_bit labels l OR sum_list (map (label_bit labels) ls)"
    by (rule disjunctive_add_eq_or)
  then show ?case by (auto simp: bit_or_iff rest own)
qed

lemma bit_mask_of:
  assumes "distinct labels"
  shows "bit (mask_of labels L) i \<longleftrightarrow> i < length labels \<and> labels ! i \<in> L"
  using assms by (auto simp: mask_of_def bit_sum_labels)

lemma sum_is_mask:
  assumes "distinct labels" "distinct ls" "set ls \<subseteq> set labels"
  shows "sum_list (map (label_bit labels) ls) = mask_of labels (set ls)"
  by (rule bit_eqI) (simp add: bit_sum_labels [OF assms] bit_mask_of [OF assms(1)])

lemma mask_or:
  assumes "distinct labels"
  shows "mask_of labels A OR mask_of labels B = mask_of labels (A \<union> B)"
  by (rule bit_eqI) (auto simp: bit_or_iff bit_mask_of [OF assms])

lemma mask_eq_iff:
  assumes "distinct labels"
  shows "mask_of labels A = mask_of labels B \<longleftrightarrow> A \<inter> set labels = B \<inter> set labels"
proof
  assume "mask_of labels A = mask_of labels B"
  then have "labels ! i \<in> A \<longleftrightarrow> labels ! i \<in> B" if "i < length labels" for i
    using bit_mask_of [OF assms, of A i] bit_mask_of [OF assms, of B i] that by simp
  then show "A \<inter> set labels = B \<inter> set labels" by (auto simp: in_set_conv_nth)
next
  assume "A \<inter> set labels = B \<inter> set labels"
  then have same: "labels ! i \<in> A \<longleftrightarrow> labels ! i \<in> B" if "i < length labels" for i
    using that nth_mem by blast
  show "mask_of labels A = mask_of labels B"
    by (rule bit_eqI) (auto simp: bit_mask_of [OF assms] same)
qed

lemma full_mask_is:
  assumes "distinct labels"
  shows "full_mask labels = mask_of labels (set labels)"
proof -
  have "full_mask labels = mask (length labels)"
    by (simp add: full_mask_def mask_eq_exp_minus_1 push_bit_of_1)
  then show ?thesis
    by (intro bit_eqI) (auto simp: bit_mask_iff bit_mask_of [OF assms])
qed

lemma and_label:
  assumes "distinct labels" "l \<in> set labels"
  shows "mask_of labels A AND label_bit labels l = 0 \<longleftrightarrow> l \<notin> A"
proof -
  have "bit (mask_of labels A AND label_bit labels l) i
      \<longleftrightarrow> l \<in> A \<and> i = length (takeWhile (\<lambda>x. x \<noteq> l) labels)" for i
    using position_member [OF assms(2)] by (auto simp: bit_and_iff bit_label bit_mask_of [OF assms(1)])
  then show ?thesis by (metis bit_0_eq bot_apply bit_eq_iff bot_bool_def)
qed

section \<open>Loops\<close>

lemma fold_res_each:
  assumes "fold_res f xs s = Inr t" "I s"
    and step: "\<And>x s t. x \<in> set xs \<Longrightarrow> I s \<Longrightarrow> f x s = Inr t \<Longrightarrow> I t \<and> R s t \<and> Q x t"
    and refl: "\<And>s. R s s" and trans: "\<And>s t u. R s t \<Longrightarrow> R t u \<Longrightarrow> R s u"
    and keep: "\<And>x s t. Q x s \<Longrightarrow> R s t \<Longrightarrow> Q x t"
  shows "I t \<and> R s t \<and> (\<forall>x\<in>set xs. Q x t)"
  using assms(1,2) step
proof (induction xs arbitrary: s)
  case Nil
  then show ?case using refl by simp
next
  case (Cons x xs)
  from Cons.prems(1) obtain u where u: "f x s = Inr u" "fold_res f xs u = Inr t" by (auto simp: bind_res_Inr)
  have first: "I u \<and> R s u \<and> Q x u" by (rule Cons.prems(3) [OF _ Cons.prems(2) u(1)]) simp
  have "I t \<and> R u t \<and> (\<forall>x\<in>set xs. Q x t)"
    by (rule Cons.IH [OF u(2)]) (use first Cons.prems(3) in auto)
  then show ?case using first trans keep by (metis set_ConsD)
qed

section \<open>Costs\<close>

definition facets :: "packet_candidate list \<Rightarrow> pystr set" where
  "facets cs = (\<Union>c\<in>set cs. set (pc_required_facets c))"

lemma facets_simps [simp]: "facets [] = {}" "facets (cs @ [c]) = facets cs \<union> set (pc_required_facets c)"
  by (auto simp: facets_def)

definition cost_state :: "environment \<Rightarrow> packing_state \<Rightarrow> packet_candidate list \<Rightarrow> packing_state" where
  "cost_state env base cs =
     \<lparr>ps_chosen = cs, ps_tokens = ps_tokens base + sum_list (map token_count cs),
      ps_bytes = ps_bytes base + sum_list (map (byte_count env) cs),
      ps_citations = ps_citations base + sum_list (map citation_count cs)\<rparr>"

lemma costs_positive [simp]: "0 \<le> token_count c" "0 \<le> byte_count env c" "0 \<le> citation_count c"
  by (simp_all add: token_count_def byte_count_def citation_count_def max_def)

lemma extend_cost: "extended_by env c (cost_state env base cs) = cost_state env base (cs @ [c])"
  by (simp add: extended_by_def cost_state_def)

lemma no_worse_refl [simp]: "no_worse p p"
  by (simp add: no_worse_def)

lemma no_worse_trans: "no_worse p q \<Longrightarrow> no_worse q r \<Longrightarrow> no_worse p r"
  by (simp add: no_worse_def)

lemma no_worse_extend: "no_worse p q \<Longrightarrow> no_worse (extended_by env c p) (extended_by env c q)"
  by (simp add: no_worse_def extended_by_def)

lemma no_worse_grow: "no_worse p (extended_by env c p)"
  by (simp add: no_worse_def extended_by_def)

lemma no_worse_within: "no_worse p q \<Longrightarrow> within_budget budget r q \<Longrightarrow> within_budget budget r p"
  by (auto simp: no_worse_def within_budget_def)

section \<open>The dictionary of frontiers\<close>

lemma map_of_set_frontier: "map_of (set_frontier m f sts) = (map_of sts)(m \<mapsto> f)"
  by (induction m f sts rule: set_frontier.induct) auto

lemma keys_set_frontier:
  "map fst (set_frontier m f sts) = (if m \<in> fst ` set sts then map fst sts else map fst sts @ [m])"
  by (induction m f sts rule: set_frontier.induct) auto

lemma distinct_set_frontier: "distinct (map fst sts) \<Longrightarrow> distinct (map fst (set_frontier m f sts))"
  by (auto simp: keys_set_frontier)

definition dominated :: "packing \<Rightarrow> packing \<Rightarrow> bool" where
  "dominated k k' \<longleftrightarrow>
     (\<forall>m. \<forall>e\<in>set (frontier_of m (pk_states k)). \<exists>e'\<in>set (frontier_of m (pk_states k')). no_worse e' e)"

lemma dominated_refl [simp]: "dominated k k"
  unfolding dominated_def using no_worse_refl by blast

lemma dominated_trans: "dominated k l \<Longrightarrow> dominated l n \<Longrightarrow> dominated k n"
  unfolding dominated_def by (meson no_worse_trans)

definition sound :: "(nat \<Rightarrow> packing_state \<Rightarrow> bool) \<Rightarrow> packing \<Rightarrow> bool" where
  "sound P k \<longleftrightarrow>
     distinct (map fst (pk_states k))
     \<and> (\<forall>m. map_of (pk_states k) m \<noteq> Some [] \<and> (\<forall>e\<in>set (frontier_of m (pk_states k)). P m e))"

lemma propose_Inr:
  assumes "propose env budget r c m p k = Inr k'" "sound P k"
    and "within_budget budget r (extended_by env c p) \<Longrightarrow> P m (extended_by env c p)"
  shows "sound P k' \<and> dominated k k'
     \<and> (within_budget budget r (extended_by env c p)
          \<longrightarrow> (\<exists>e\<in>set (frontier_of m (pk_states k')). no_worse e (extended_by env c p)))"
proof -
  let ?q = "extended_by env c p" and ?f = "frontier_of m (pk_states k)"
  consider "\<not> within_budget budget r ?q" "pk_states k' = pk_states k"
    | "within_budget budget r ?q" "list_ex (\<lambda>e. no_worse e ?q) ?f" "pk_states k' = set_frontier m ?f (pk_states k)"
    | "within_budget budget r ?q" "pk_states k' = set_frontier m (filter (\<lambda>e. \<not> no_worse ?q e) ?f @ [?q])
        (set_frontier m ?f (pk_states k))"
    using assms(1) by (auto simp: propose_def Let_def split: if_splits)
  then show ?thesis
  proof cases
    case 1
    then show ?thesis using assms(2) by (simp add: sound_def dominated_def) (use no_worse_refl in blast)
  next
    case 2
    then have some: "map_of (pk_states k) m = Some ?f" "?f \<noteq> []"
      by (auto simp: frontier_of_def split: option.splits)
    then have same: "map_of (pk_states k') = map_of (pk_states k)"
      using 2(3) by (simp add: map_of_set_frontier fun_upd_idem)
    have "frontier_of x (pk_states k') = frontier_of x (pk_states k)" for x
      by (simp add: frontier_of_def same)
    moreover have "distinct (map fst (pk_states k'))"
      using assms(2) 2(3) by (simp add: sound_def distinct_set_frontier)
    ultimately show ?thesis using assms(2) 2(2)
      by (auto simp: sound_def dominated_def same list_ex_iff intro: no_worse_refl)
  next
    case 3
    let ?g = "filter (\<lambda>e. \<not> no_worse ?q e) ?f @ [?q]"
    have upd: "map_of (pk_states k') = (map_of (pk_states k))(m \<mapsto> ?g)"
      using 3(2) by (simp add: map_of_set_frontier)
    then have fr: "frontier_of x (pk_states k') = (if x = m then ?g else frontier_of x (pk_states k))" for x
      by (simp add: frontier_of_def)
    have "distinct (map fst (pk_states k'))"
      using assms(2) 3(2) by (simp add: sound_def distinct_set_frontier)
    then have "sound P k'"
      using assms(2) assms(3) [OF 3(1)] by (auto simp: sound_def fr upd)
    moreover have "dominated k k'"
      unfolding dominated_def fr by (auto intro: no_worse_refl)
    ultimately show ?thesis by (auto simp: fr)
  qed
qed

lemma pack_mask_Inr:
  assumes "pack_mask env budget late r c cm (m, ps) k = Inr k'" "sound P k"
    and "\<And>p. p \<in> set ps \<Longrightarrow> within_budget budget r (extended_by env c p) \<Longrightarrow> P (m OR cm) (extended_by env c p)"
  shows "sound P k' \<and> dominated k k'
     \<and> (m OR cm \<noteq> m \<longrightarrow> (\<forall>p\<in>set ps. within_budget budget r (extended_by env c p)
          \<longrightarrow> (\<exists>e\<in>set (frontier_of (m OR cm) (pk_states k')). no_worse e (extended_by env c p))))"
proof -
  from assms(1) obtain n where
    run: "(if m OR cm = m then Inr (k\<lparr>pk_ticks := n\<rparr>)
       else fold_res (propose env budget r c (m OR cm)) ps (k\<lparr>pk_ticks := n\<rparr>)) = Inr k'"
    by (auto simp: pack_mask_def bind_res_Inr Let_def)
  let ?k = "k\<lparr>pk_ticks := n\<rparr>"
  have start: "sound P ?k" "dominated k ?k" using assms(2) by (auto simp: sound_def dominated_def intro: no_worse_refl)
  show ?thesis
  proof (cases "m OR cm = m")
    case True
    then have "k' = ?k" using run by simp
    then show ?thesis using start True by simp
  next
    case False
    let ?Q = "\<lambda>p k. within_budget budget r (extended_by env c p)
      \<longrightarrow> (\<exists>e\<in>set (frontier_of (m OR cm) (pk_states k)). no_worse e (extended_by env c p))"
    from run False have "fold_res (propose env budget r c (m OR cm)) ps ?k = Inr k'" by simp
    then have "sound P k' \<and> dominated ?k k' \<and> (\<forall>p\<in>set ps. ?Q p k')"
    proof (rule fold_res_each [where I = "sound P" and R = dominated and Q = ?Q])
      fix p k l
      assume "p \<in> set ps" "sound P k" "propose env budget r c (m OR cm) p k = Inr l"
      then show "sound P l \<and> dominated k l \<and> ?Q p l" using propose_Inr assms(3) by blast
    next
      fix p k l
      assume "?Q p k" "dominated k l"
      then show "?Q p l" unfolding dominated_def by (meson no_worse_trans)
    qed (use start(1) dominated_trans in auto)
    then show ?thesis using start(2) dominated_trans by blast
  qed
qed

section \<open>The invariant of the packing\<close>

definition cover_state ::
  "environment \<Rightarrow> packet_budget \<Rightarrow> nat \<Rightarrow> pystr list \<Rightarrow> pystr set \<Rightarrow> packing_state
     \<Rightarrow> packet_candidate list \<Rightarrow> nat \<Rightarrow> packing_state \<Rightarrow> bool"
where
  "cover_state env budget r labels C base done_cs m p \<longleftrightarrow>
     subseq (ps_chosen p) done_cs \<and> p = cost_state env base (ps_chosen p) \<and> within_budget budget r p
     \<and> m = mask_of labels (C \<union> facets (ps_chosen p))"

definition packed ::
  "environment \<Rightarrow> packet_budget \<Rightarrow> nat \<Rightarrow> pystr list \<Rightarrow> pystr set \<Rightarrow> packing_state
     \<Rightarrow> packet_candidate list \<Rightarrow> packing \<Rightarrow> bool"
where
  "packed env budget r labels C base done_cs k \<longleftrightarrow>
     sound (cover_state env budget r labels C base done_cs) k
     \<and> (\<forall>cs. subseq cs done_cs \<longrightarrow> within_budget budget r (cost_state env base cs) \<longrightarrow>
          (\<exists>p\<in>set (frontier_of (mask_of labels (C \<union> facets cs)) (pk_states k)). no_worse p (cost_state env base cs)))"

lemma subseq_snoc:
  "subseq xs (ys @ [c]) \<longleftrightarrow> subseq xs ys \<or> (\<exists>zs. xs = zs @ [c] \<and> subseq zs ys)"
proof -
  have one: "subseq zs [c] \<longleftrightarrow> zs = [] \<or> zs = [c]" for zs :: "'a list"
    by (cases zs) (auto simp: subseq_Cons2_iff)
  show ?thesis unfolding subseq_append_iff one by auto
qed

lemma candidate_mask_is:
  assumes "distinct labels" "distinct (pc_required_facets c)" "set (pc_required_facets c) \<subseteq> set labels"
  shows "candidate_mask labels c = mask_of labels (set (pc_required_facets c))"
  using assms sum_is_mask [OF assms] by (simp add: candidate_mask_def filter_id_conv subset_iff)

lemma pack_candidate_Inr:
  assumes "pack_candidate env budget late r labels c k = Inr k'"
    and "packed env budget r labels C base done_cs k" "distinct labels"
    and "distinct (pc_required_facets c)" "set (pc_required_facets c) \<subseteq> set labels"
  shows "packed env budget r labels C base (done_cs @ [c]) k'"
proof -
  let ?cm = "candidate_mask labels c" and ?K = "mask_of labels"
  let ?P = "cover_state env budget r labels C base"
  note cm = candidate_mask_is [OF assms(3-5)]
  have wider: "?P done_cs m p \<Longrightarrow> ?P (done_cs @ [c]) m p" for m p
    by (auto simp: cover_state_def subseq_snoc)
  from assms(1) obtain n where
    run: "fold_res (pack_mask env budget late r c ?cm) (pk_states k) (k\<lparr>pk_ticks := n\<rparr>) = Inr k'"
    by (auto simp: pack_candidate_def bind_res_Inr)
  have old: "sound (?P done_cs) k"
    "\<And>cs. subseq cs done_cs \<Longrightarrow> within_budget budget r (cost_state env base cs) \<Longrightarrow>
       \<exists>p\<in>set (frontier_of (?K (C \<union> facets cs)) (pk_states k)). no_worse p (cost_state env base cs)"
    using assms(2) by (auto simp: packed_def)
  have entry: "frontier_of m (pk_states k) = ps" if "(m, ps) \<in> set (pk_states k)" for m ps
    using old(1) that by (simp add: sound_def frontier_of_def)
  have grown: "?P (done_cs @ [c]) (m OR ?cm) (extended_by env c p)"
    if "(m, ps) \<in> set (pk_states k)" "p \<in> set ps" "within_budget budget r (extended_by env c p)" for m ps p
  proof -
    have "?P done_cs m p" using old(1) entry [OF that(1)] that(2) by (auto simp: sound_def)
    then have p: "subseq (ps_chosen p) done_cs" "p = cost_state env base (ps_chosen p)"
      "m = ?K (C \<union> facets (ps_chosen p))" by (simp_all add: cover_state_def)
    have "extended_by env c p = cost_state env base (ps_chosen p @ [c])" using p(2) extend_cost by metis
    moreover have "m OR ?cm = ?K (C \<union> facets (ps_chosen p @ [c]))"
      unfolding p(3) cm mask_or [OF assms(3)] by (simp add: Un_assoc)
    ultimately show ?thesis using that(3) p(1)
      by (auto simp: cover_state_def subseq_snoc cost_state_def)
  qed
  let ?Q = "\<lambda>x k. fst x OR ?cm \<noteq> fst x \<longrightarrow> (\<forall>p\<in>set (snd x). within_budget budget r (extended_by env c p)
      \<longrightarrow> (\<exists>e\<in>set (frontier_of (fst x OR ?cm) (pk_states k)). no_worse e (extended_by env c p)))"
  have all: "sound (?P (done_cs @ [c])) k' \<and> dominated (k\<lparr>pk_ticks := n\<rparr>) k' \<and> (\<forall>x\<in>set (pk_states k). ?Q x k')"
    using run
  proof (rule fold_res_each [where I = "sound (?P (done_cs @ [c]))" and R = dominated and Q = ?Q])
    show "sound (?P (done_cs @ [c])) (k\<lparr>pk_ticks := n\<rparr>)" using old(1) wider by (auto simp: sound_def)
    fix x l l'
    assume x: "x \<in> set (pk_states k)" and l: "sound (?P (done_cs @ [c])) l" "pack_mask env budget late r c ?cm x l = Inr l'"
    obtain m ps where mp: "x = (m, ps)" by fastforce
    show "sound (?P (done_cs @ [c])) l' \<and> dominated l l' \<and> ?Q x l'"
      using pack_mask_Inr [OF l(2) [unfolded mp] l(1)] grown x mp by auto
  next
    fix x l l'
    assume "?Q x l" "dominated l l'"
    then show "?Q x l'" unfolding dominated_def by (meson no_worse_trans)
  qed (use dominated_trans in auto)
  have kept: "\<exists>e'\<in>set (frontier_of m (pk_states k')). no_worse e' e"
    if "e \<in> set (frontier_of m (pk_states k))" for m e
    using all that by (auto simp: dominated_def)
  have "\<exists>p\<in>set (frontier_of (?K (C \<union> facets cs)) (pk_states k')). no_worse p (cost_state env base cs)"
    if cs: "subseq cs (done_cs @ [c])" "within_budget budget r (cost_state env base cs)" for cs
  proof -
    from cs(1) consider "subseq cs done_cs" | zs where "cs = zs @ [c]" "subseq zs done_cs"
      by (auto simp: subseq_snoc)
    then show ?thesis
    proof cases
      case 1
      then show ?thesis using old(2) [OF 1 cs(2)] kept no_worse_trans by blast
    next
      case 2
      have cost: "cost_state env base cs = extended_by env c (cost_state env base zs)" by (simp add: 2 extend_cost)
      have "within_budget budget r (cost_state env base zs)"
        using cs(2) no_worse_grow no_worse_within unfolding cost by blast
      then obtain p where p: "p \<in> set (frontier_of (?K (C \<union> facets zs)) (pk_states k))"
        "no_worse p (cost_state env base zs)" using old(2) [OF 2(2)] by blast
      have next_mask: "?K (C \<union> facets zs) OR ?cm = ?K (C \<union> facets cs)"
        unfolding cm mask_or [OF assms(3)] by (simp add: 2(1) Un_assoc)
      have better: "no_worse (extended_by env c p) (cost_state env base cs)"
        unfolding cost by (rule no_worse_extend [OF p(2)])
      show ?thesis
      proof (cases "?K (C \<union> facets cs) = ?K (C \<union> facets zs)")
        case True
        have "no_worse p (cost_state env base cs)"
          using better no_worse_grow no_worse_trans by blast
        then show ?thesis using kept [OF p(1)] no_worse_trans unfolding True by blast
      next
        case False
        from p(1) obtain ps where ps: "map_of (pk_states k) (?K (C \<union> facets zs)) = Some ps" "p \<in> set ps"
          by (cases "map_of (pk_states k) (?K (C \<union> facets zs))") (auto simp: frontier_of_def)
        then have "(?K (C \<union> facets zs), ps) \<in> set (pk_states k)" by (simp add: map_of_SomeD)
        moreover have "within_budget budget r (extended_by env c p)" using better cs(2) no_worse_within by blast
        ultimately obtain e where "e \<in> set (frontier_of (?K (C \<union> facets cs)) (pk_states k'))" "no_worse e (extended_by env c p)"
          using all ps(2) False next_mask by fastforce
        then show ?thesis using better no_worse_trans by blast
      qed
    qed
  qed
  then show ?thesis using all by (simp add: packed_def)
qed

lemma packing_invariant:
  assumes "fold_res (pack_candidate env budget late r labels) cs k = Inr k'"
    and "packed env budget r labels C base done_cs k" "distinct labels"
    and "\<And>c. c \<in> set cs \<Longrightarrow> distinct (pc_required_facets c) \<and> set (pc_required_facets c) \<subseteq> set labels"
  shows "packed env budget r labels C base (done_cs @ cs) k'"
  using assms
proof (induction cs arbitrary: k done_cs)
  case Nil
  then show ?case by simp
next
  case (Cons c cs)
  from Cons.prems(1) obtain l where l: "pack_candidate env budget late r labels c k = Inr l"
    "fold_res (pack_candidate env budget late r labels) cs l = Inr k'" by (auto simp: bind_res_Inr)
  have "packed env budget r labels C base (done_cs @ [c]) l"
    by (rule pack_candidate_Inr [OF l(1) Cons.prems(2,3)]) (use Cons.prems(4) in auto)
  from Cons.IH [OF l(2) this Cons.prems(3)] Cons.prems(4) show ?case by simp
qed

end
