(* ===== verification/SelectionSafety.thy ===== *)
theory SelectionSafety
  imports PackingSafety
begin

text \<open>
  The selection as a whole: when it returns, the packet holds everything required and nothing more
  fits; when it is refused for its budget, there is no acceptable packet.
\<close>

section \<open>Merged candidates\<close>

lemma merge_variants_Some:
  assumes "merge_variants vs = Some c"
  shows "distinct (pc_required_facets c) \<and> (\<exists>v\<in>set vs. pc_item_key c = pc_item_key v)"
proof -
  from assms obtain b where b: "first_by candidate_order (if filter pc_required_anchor vs \<noteq> []
      then filter pc_required_anchor vs else vs) = Some b"
    and c: "c = b\<lparr>pc_matched_facets := sorted_set (concat (map pc_matched_facets vs)),
            pc_required_facets := sorted_set (concat (map pc_required_facets vs)),
            pc_required_anchor := (filter pc_required_anchor vs \<noteq> [])\<rparr>"
    by (auto simp: merge_variants_def Let_def)
  have "b \<in> set vs" using first_by_Some(1) [OF b] by (auto split: if_splits)
  then show ?thesis by (auto simp: c)
qed

lemma merge_variants_returns: "vs \<noteq> [] \<Longrightarrow> merge_variants vs \<noteq> None"
  by (simp add: merge_variants_def Let_def)

lemma merged_keys: "map pc_item_key (merge_candidates cs) = sorted_set (map pc_item_key cs)"
proof -
  have "map pc_item_key (List.map_filter (\<lambda>k. merge_variants (filter (\<lambda>c. pc_item_key c = k) cs)) ks) = ks"
    if "set ks \<subseteq> pc_item_key ` set cs" for ks
    using that
  proof (induction ks)
    case Nil
    then show ?case by (simp add: List.map_filter_def)
  next
    case (Cons k ks)
    have "filter (\<lambda>c. pc_item_key c = k) cs \<noteq> []" using Cons.prems by (auto simp: filter_empty_conv)
    then obtain c where c: "merge_variants (filter (\<lambda>c. pc_item_key c = k) cs) = Some c"
      using merge_variants_returns by blast
    then have "pc_item_key c = k" using merge_variants_Some by fastforce
    then show ?case using c Cons by (simp add: List.map_filter_def)
  qed
  then show ?thesis by (simp add: merge_candidates_def)
qed

lemma merged_facets: "c \<in> set (merge_candidates cs) \<Longrightarrow> distinct (pc_required_facets c)"
  by (auto simp: merge_candidates_def List.map_filter_def dest: merge_variants_Some)

definition ordered_candidates :: "packet_candidate list \<Rightarrow> packet_candidate list" where
  "ordered_candidates cs = sort_key candidate_order (merge_candidates cs)"

lemma ordered_facts:
  "set (ordered_candidates cs) = set (merge_candidates cs)" "distinct (map pc_item_key (ordered_candidates cs))"
  "length (ordered_candidates cs) = length (merge_candidates cs)"
proof -
  show set_eq: "set (ordered_candidates cs) = set (merge_candidates cs)" by (simp add: ordered_candidates_def)
  show len: "length (ordered_candidates cs) = length (merge_candidates cs)" by (simp add: ordered_candidates_def)
  have d: "distinct (map pc_item_key (merge_candidates cs))" by (simp add: merged_keys)
  then have "distinct (merge_candidates cs)" "inj_on pc_item_key (set (merge_candidates cs))"
    by (simp_all add: distinct_map)
  moreover have "distinct (ordered_candidates cs)" using calculation(1) by (simp add: ordered_candidates_def)
  ultimately show "distinct (map pc_item_key (ordered_candidates cs))" by (simp add: distinct_map set_eq)
qed

section \<open>Affordable packets\<close>

definition affordable :: "environment \<Rightarrow> packet_budget \<Rightarrow> packet_candidate list \<Rightarrow> bool" where
  "affordable env budget cs \<longleftrightarrow>
     int (length cs) \<le> bu_items budget \<and> sum_list (map token_count cs) \<le> bu_tokens budget
     \<and> sum_list (map (byte_count env) cs) \<le> bu_bytes budget
     \<and> sum_list (map citation_count cs) \<le> bu_citations budget"

lemma sum_list_positive: "(\<And>c. 0 \<le> f c) \<Longrightarrow> (0::int) \<le> sum_list (map f cs)"
  by (induction cs) (simp_all add: add_nonneg_nonneg)

lemmas sums_positive = sum_list_positive [of token_count] sum_list_positive [of "byte_count env" for env]
  sum_list_positive [of citation_count]

lemma affordable_part: "affordable env budget (a @ b @ c) \<Longrightarrow> affordable env budget (a @ c)"
  using sums_positive(1) [of b] sums_positive(2) [of env b] sums_positive(3) [of b]
  by (auto simp: affordable_def)

lemma affordable_prefix: "affordable env budget (a @ b) \<Longrightarrow> affordable env budget a"
  using affordable_part [of env budget a b "[]"] by simp

definition set_affordable :: "environment \<Rightarrow> packet_budget \<Rightarrow> packet_candidate set \<Rightarrow> bool" where
  "set_affordable env budget X \<longleftrightarrow>
     int (card X) \<le> bu_items budget \<and> (\<Sum>c\<in>X. token_count c) \<le> bu_tokens budget
     \<and> (\<Sum>c\<in>X. byte_count env c) \<le> bu_bytes budget \<and> (\<Sum>c\<in>X. citation_count c) \<le> bu_citations budget"

lemma affordable_set: "distinct cs \<Longrightarrow> affordable env budget cs \<longleftrightarrow> set_affordable env budget (set cs)"
  by (simp add: affordable_def set_affordable_def sum_list_distinct_conv_sum_set distinct_card)

lemma affordable_subset:
  assumes "set_affordable env budget X" "finite X" "distinct cs" "set cs \<subseteq> X"
  shows "affordable env budget cs"
proof -
  have "card (set cs) \<le> card X" using assms(2,4) by (rule card_mono)
  moreover have "sum f (set cs) \<le> sum f X" if "\<And>c. (0::int) \<le> f c" for f
    using assms(2,4) that by (intro sum_mono2) simp_all
  note this [of token_count] this [of "byte_count env"] this [of citation_count]
  ultimately show ?thesis using assms(1)
    unfolding affordable_set [OF assms(3)] set_affordable_def by (auto intro: order_trans)
qed

section \<open>Reserving\<close>

definition balanced :: "environment \<Rightarrow> packet_budget \<Rightarrow> selection \<Rightarrow> bool" where
  "balanced env budget s \<longleftrightarrow>
     se_tokens s = sum_list (map token_count (se_selected s))
     \<and> se_bytes s = sum_list (map (byte_count env) (se_selected s))
     \<and> se_citations s = sum_list (map citation_count (se_selected s))
     \<and> affordable env budget (se_selected s)"

lemma add_if_fits_Some:
  assumes "add_if_fits env budget c s = Some s'" "balanced env budget s"
  shows "balanced env budget s' \<and> se_selected s' = se_selected s @ [c]"
  using assms by (auto simp: add_if_fits_def balanced_def affordable_def split: if_splits)

lemma add_if_fits_None:
  assumes "balanced env budget s"
  shows "add_if_fits env budget c s = None \<longleftrightarrow> \<not> affordable env budget (se_selected s @ [c])"
  using assms by (auto simp: add_if_fits_def balanced_def affordable_def)

definition deadline_passed :: py_error where
  "deadline_passed = RequiredContextBudgetError ''Context construction deadline exhausted''"

lemma tick_cases:
  obtains (late) "tick late s = Inl deadline_passed"
  | (on_time) s' where "tick late s = Inr s'" "se_selected s' = se_selected s" "balanced env budget s' = balanced env budget s"
proof (cases "late (se_ticks s)")
  case True
  then show thesis using late by (simp add: tick_def require_deadline_def deadline_passed_def)
next
  case False
  then show thesis using on_time [of "s\<lparr>se_ticks := Suc (se_ticks s)\<rparr>"]
    by (simp add: tick_def require_deadline_def balanced_def)
qed

text \<open>A loop that adds every candidate it wants or stops with an error of its own.\<close>

definition reserve_loop ::
  "environment \<Rightarrow> packet_budget \<Rightarrow> (nat \<Rightarrow> bool) \<Rightarrow> py_error \<Rightarrow> (packet_candidate \<Rightarrow> selection \<Rightarrow> bool)
     \<Rightarrow> packet_candidate \<Rightarrow> selection \<Rightarrow> selection result"
where
  "reserve_loop env budget late e D c s =
     bind_res (tick late s) (\<lambda>s. if D c s then must_add env budget e c s else Inr s)"

lemma reserve_is_loop:
  "reserve_policy env budget late = reserve_loop env budget late RequiredPolicyBudgetError
     (\<lambda>c s. pc_required_policy c \<and> pc_freshness c = CURRENT)"
  "reserve_anchor env budget late = reserve_loop env budget late
     (RequiredContextBudgetError ''Packet budget cannot contain every required search anchor'')
     (\<lambda>c s. pc_required_anchor c \<and> pc_item_key c \<notin> set (selected_keys s))"
  by (intro ext, simp add: reserve_policy_def reserve_anchor_def reserve_loop_def)+

lemma reserve_loop_result:
  assumes "balanced env budget s" "distinct (map pc_item_key xs)"
    and "\<And>c s'. c \<in> set xs \<Longrightarrow>
       (pc_item_key c \<in> set (selected_keys s') \<longleftrightarrow> pc_item_key c \<in> set (selected_keys s)) \<Longrightarrow> D c s' = W c"
  shows "case fold_res (reserve_loop env budget late e D) xs s of
     Inr s' \<Rightarrow> balanced env budget s' \<and> se_selected s' = se_selected s @ filter W xs
   | Inl e' \<Rightarrow> e' = deadline_passed \<or> e' = e \<and> \<not> affordable env budget (se_selected s @ filter W xs)"
  using assms
proof (induction xs arbitrary: s)
  case Nil
  then show ?case by simp
next
  case (Cons x xs)
  show ?case
  proof (cases rule: tick_cases [where late = late and s = s and env = env and budget = budget])
    case late
    then show ?thesis by (simp add: reserve_loop_def)
  next
    case (on_time t)
    have keys: "selected_keys t = selected_keys s" by (simp add: selected_keys_def on_time(2))
    have "D x t = W x" by (rule Cons.prems(3)) (simp_all add: keys)
    show ?thesis
    proof (cases "W x")
      case False
      have "fold_res (reserve_loop env budget late e D) (x # xs) s = fold_res (reserve_loop env budget late e D) xs t"
        using on_time(1) False \<open>D x t = W x\<close> by (simp add: reserve_loop_def)
      moreover have "case fold_res (reserve_loop env budget late e D) xs t of
          Inr s' \<Rightarrow> balanced env budget s' \<and> se_selected s' = se_selected t @ filter W xs
        | Inl e' \<Rightarrow> e' = deadline_passed \<or> e' = e \<and> \<not> affordable env budget (se_selected t @ filter W xs)"
        by (rule Cons.IH) (use Cons.prems on_time(3) keys in auto)
      ultimately show ?thesis using False on_time(2) by (simp split: sum.splits)
    next
      case True
      show ?thesis
      proof (cases "add_if_fits env budget x t")
        case None
        then have "\<not> affordable env budget (se_selected s @ [x])"
          using add_if_fits_None on_time(2,3) Cons.prems(1) by metis
        then have "\<not> affordable env budget (se_selected s @ filter W (x # xs))"
          using True affordable_prefix [of env budget "se_selected s @ [x]" "filter W xs"] by auto
        then show ?thesis using None True on_time(1) \<open>D x t = W x\<close> by (simp add: reserve_loop_def must_add_def)
      next
        case (Some u)
        have u: "balanced env budget u" "se_selected u = se_selected s @ [x]"
          using add_if_fits_Some [OF Some] Cons.prems(1) on_time(2,3) by simp_all
        have "fold_res (reserve_loop env budget late e D) (x # xs) s = fold_res (reserve_loop env budget late e D) xs u"
          using on_time(1) True Some \<open>D x t = W x\<close> by (simp add: reserve_loop_def must_add_def)
        moreover have "case fold_res (reserve_loop env budget late e D) xs u of
            Inr s' \<Rightarrow> balanced env budget s' \<and> se_selected s' = se_selected u @ filter W xs
          | Inl e' \<Rightarrow> e' = deadline_passed \<or> e' = e \<and> \<not> affordable env budget (se_selected u @ filter W xs)"
        proof (rule Cons.IH [OF u(1)])
          show "distinct (map pc_item_key xs)" using Cons.prems(2) by simp
          fix c s'
          assume c: "c \<in> set xs"
            and same: "pc_item_key c \<in> set (selected_keys s') \<longleftrightarrow> pc_item_key c \<in> set (selected_keys u)"
          have "pc_item_key c \<noteq> pc_item_key x" using Cons.prems(2) c by (metis distinct.simps(2) imageI list.set_map list.simps(9))
          then show "D c s' = W c" using Cons.prems(3) [of c s'] c same by (auto simp: selected_keys_def u(2))
        qed
        ultimately show ?thesis using True u(2) by (simp split: sum.splits)
      qed
    qed
  qed
qed

section \<open>Filling\<close>

lemma fill_result:
  assumes "fold_res (fill env budget late) xs s = Inr s'" "balanced env budget s" "distinct (selected_keys s)"
  shows "balanced env budget s' \<and> distinct (selected_keys s') \<and> prefix (se_selected s) (se_selected s')
     \<and> set (se_selected s') \<subseteq> set (se_selected s) \<union> set xs
     \<and> (\<forall>c\<in>set xs. pc_item_key c \<in> set (selected_keys s') \<or> \<not> affordable env budget (se_selected s' @ [c]))"
  using assms
proof (induction xs arbitrary: s)
  case Nil
  then show ?case by simp
next
  case (Cons x xs)
  from Cons.prems(1) obtain u where u: "fill env budget late x s = Inr u" "fold_res (fill env budget late) xs u = Inr s'"
    by (auto simp: bind_res_Inr)
  from u(1) obtain t where t: "se_selected t = se_selected s" "balanced env budget t"
    "u = (if pc_item_key x \<notin> set (selected_keys t)
          then (case add_if_fits env budget x t of None \<Rightarrow> t | Some s' \<Rightarrow> s') else t)"
    using Cons.prems(2) by (cases rule: tick_cases [where late = late and s = s and env = env and budget = budget]) (auto simp: fill_def split: if_splits)
  have keys: "selected_keys t = selected_keys s" by (simp add: selected_keys_def t(1))
  have step: "balanced env budget u \<and> distinct (selected_keys u) \<and> prefix (se_selected s) (se_selected u)
     \<and> set (se_selected u) \<subseteq> set (se_selected s) \<union> {x}
     \<and> (pc_item_key x \<in> set (selected_keys u) \<or> \<not> affordable env budget (se_selected u @ [x]))"
  proof (cases "pc_item_key x \<notin> set (selected_keys t)")
    case False
    then show ?thesis using t Cons.prems(3) keys by auto
  next
    case True
    show ?thesis
    proof (cases "add_if_fits env budget x t")
      case None
      then have "u = t" "\<not> affordable env budget (se_selected t @ [x])"
        using True t(3) add_if_fits_None [OF t(2), of x] by simp_all
      then show ?thesis using t(1,2) Cons.prems(3) keys by auto
    next
      case (Some v)
      then show ?thesis using True t Cons.prems(3) keys add_if_fits_Some [OF Some t(2)]
        by (auto simp: selected_keys_def)
    qed
  qed
  then have rest: "balanced env budget s' \<and> distinct (selected_keys s') \<and> prefix (se_selected u) (se_selected s')
     \<and> set (se_selected s') \<subseteq> set (se_selected u) \<union> set xs
     \<and> (\<forall>c\<in>set xs. pc_item_key c \<in> set (selected_keys s') \<or> \<not> affordable env budget (se_selected s' @ [c]))"
    using Cons.IH [OF u(2)] by blast
  then obtain more where more: "se_selected s' = se_selected u @ more" by (auto simp: prefix_def)
  have "pc_item_key x \<in> set (selected_keys s') \<or> \<not> affordable env budget (se_selected s' @ [x])"
    using step affordable_part [of env budget "se_selected u" more "[x]"] by (auto simp: selected_keys_def more)
  then show ?case using step rest by (auto intro: prefix_order.trans)
qed

lemma fill_error:
  assumes "fold_res (fill env budget late) xs s = Inl e"
  shows "e = deadline_passed"
  using assms
proof (induction xs arbitrary: s)
  case (Cons x xs)
  have "fill env budget late x s = Inl deadline_passed \<or> (\<exists>u. fill env budget late x s = Inr u)"
    by (cases rule: tick_cases [where late = late and s = s and env = env and budget = budget]) (auto simp: fill_def)
  then show ?case using Cons by (auto simp: bind_res_Inl)
qed simp

section \<open>Packing\<close>

lemma fold_res_error:
  assumes "fold_res f xs s = Inl e" "\<And>x s e. f x s = Inl e \<Longrightarrow> P e"
  shows "P e"
  using assms(1) by (induction xs arbitrary: s) (auto simp: bind_res_Inl intro: assms(2))

definition effort_errors :: "py_error set" where
  "effort_errors = {deadline_passed, operation_bound, state_bound,
     RequiredContextBudgetError ''Required context packing exceeded its deterministic candidate bound''}"

lemma require_deadline_error: "require_deadline late n = Inl e \<Longrightarrow> e = deadline_passed"
  by (simp add: require_deadline_def deadline_passed_def split: if_splits)

lemma pack_candidate_error:
  assumes "pack_candidate env budget late r labels c k = Inl e"
  shows "e \<in> effort_errors"
proof -
  have one: "e \<in> effort_errors" if "propose env budget r c m p k = Inl e" for m p k e
    using that by (auto simp: propose_def Let_def effort_errors_def split: if_splits)
  have deadline: "e \<in> effort_errors" if "require_deadline late n = Inl e" for n e
    using require_deadline_error [OF that] by (simp add: effort_errors_def)
  have "e \<in> effort_errors" if "pack_mask env budget late r c cm x k = Inl e" for cm x k e
    using that by (cases x) (auto simp: pack_mask_def bind_res_Inl Let_def intro: deadline
        dest: fold_res_error [where P = "\<lambda>e. e \<in> effort_errors", OF _ one] split: if_splits)
  then show ?thesis using assms
    by (auto simp: pack_candidate_def bind_res_Inl intro: deadline
        dest: fold_res_error [where P = "\<lambda>e. e \<in> effort_errors"])
qed

lemma must_add_all:
  assumes "balanced env budget s" "affordable env budget (se_selected s @ cs)"
  shows "\<exists>s'. fold_res (must_add env budget e) cs s = Inr s' \<and> balanced env budget s'
     \<and> se_selected s' = se_selected s @ cs"
  using assms
proof (induction cs arbitrary: s)
  case Nil
  then show ?case by simp
next
  case (Cons c cs)
  have "affordable env budget (se_selected s @ [c])"
    using Cons.prems(2) affordable_prefix [of env budget "se_selected s @ [c]" cs] by simp
  then obtain t where t: "add_if_fits env budget c s = Some t"
    using add_if_fits_None [OF Cons.prems(1), of c] by (cases "add_if_fits env budget c s") auto
  have u: "balanced env budget t" "se_selected t = se_selected s @ [c]"
    using add_if_fits_Some [OF t Cons.prems(1)] by simp_all
  show ?case using Cons.IH [OF u(1)] Cons.prems(2) u(2) t by (simp add: must_add_def)
qed

lemma within_is_affordable:
  assumes "balanced env budget s"
  shows "within_budget budget (length (se_selected s))
      (cost_state env \<lparr>ps_chosen = [], ps_tokens = se_tokens s, ps_bytes = se_bytes s, ps_citations = se_citations s\<rparr> cs)
    \<longleftrightarrow> affordable env budget (se_selected s @ cs)"
  using assms by (simp add: within_budget_def cost_state_def affordable_def balanced_def)

lemma label_facts:
  "distinct (required_labels ordered overflow)"
  "set (required_labels ordered overflow) = facets ordered \<union> set overflow"
  by (auto simp: required_labels_def facets_def)

lemma packing_result:
  fixes s :: selection and ordered :: "packet_candidate list" and overflow :: "pystr list"
  defines "labels \<equiv> required_labels ordered overflow"
  assumes bal: "balanced env budget s" and sel: "set (se_selected s) \<subseteq> set ordered"
    and dist: "\<And>c. c \<in> set ordered \<Longrightarrow> distinct (pc_required_facets c)"
  shows "case pack_required env budget late ordered overflow s of
      Inr s' \<Rightarrow> balanced env budget s'
        \<and> (\<exists>cs. subseq cs (representatives ordered s) \<and> se_selected s' = se_selected s @ cs
            \<and> set labels \<subseteq> facets (se_selected s @ cs))
    | Inl e \<Rightarrow> e \<in> effort_errors \<or> e = cannot_represent
        \<and> \<not> (\<exists>cs. subseq cs (representatives ordered s) \<and> affordable env budget (se_selected s @ cs)
               \<and> set labels \<subseteq> facets (se_selected s @ cs))"
proof -
  let ?r = "length (se_selected s)" and ?reps = "representatives ordered s" and ?C = "facets (se_selected s)"
  let ?start = "\<lparr>ps_chosen = [], ps_tokens = se_tokens s, ps_bytes = se_bytes s, ps_citations = se_citations s\<rparr>"
  let ?k0 = "\<lparr>pk_states = [(covered_mask labels (se_selected s), [?start])], pk_count = 1,
                        pk_operations = 0, pk_ticks = se_ticks s\<rparr>"
  let ?run = "fold_res (pack_candidate env budget late ?r labels) ?reps ?k0"
  note within = within_is_affordable [OF bal]
  have facets_append: "facets (se_selected s @ cs) = ?C \<union> facets cs" for cs by (auto simp: facets_def)
  have d: "distinct labels" and ls: "set labels = facets ordered \<union> set overflow"
    unfolding labels_def by (rule label_facts)+
  have "?C \<subseteq> set labels" using sel by (auto simp: ls facets_def)
  then have cov: "covered_mask labels (se_selected s) = mask_of labels ?C"
    unfolding covered_mask_def using sum_is_mask [OF d, of "sorted_set (concat (map pc_required_facets (se_selected s)))"]
    by (simp add: facets_def)
  have zero: "cost_state env ?start [] = ?start" by (simp add: cost_state_def)
  have "within_budget budget ?r ?start"
    using within [of "[]"] bal by (simp add: zero balanced_def)
  then have "sound (cover_state env budget ?r labels ?C ?start []) ?k0"
    by (auto simp: sound_def frontier_of_def cover_state_def cov zero)
  moreover have "\<exists>p\<in>set (frontier_of (mask_of labels (?C \<union> facets [])) (pk_states ?k0)). no_worse p (cost_state env ?start [])"
    by (simp add: frontier_of_def cov zero)
  moreover have "subseq cs [] \<longleftrightarrow> cs = []" for cs :: "packet_candidate list" by auto
  ultimately have "packed env budget ?r labels ?C ?start [] ?k0"
    by (simp add: packed_def)
  then have inv: "packed env budget ?r labels ?C ?start ?reps k" if "?run = Inr k" for k
    using packing_invariant [OF that _ d, of ?C ?start "[]"] dist ls
    by (auto simp: representatives_def facets_def)
  show ?thesis
  proof (cases "int (length ?reps) > MAX_REQUIRED_PACKING_CANDIDATES")
    case True
    then show ?thesis unfolding labels_def by (simp add: pack_required_def Let_def effort_errors_def)
  next
    case small: False
    show ?thesis
    proof (cases ?run)
      case (Inl e)
      then have "e \<in> effort_errors" by (rule fold_res_error) (rule pack_candidate_error)
      then show ?thesis using Inl small unfolding labels_def by (simp add: pack_required_def Let_def)
    next
      case (Inr k)
      note i = inv [OF Inr]
      then have snd: "sound (cover_state env budget ?r labels ?C ?start ?reps) k" by (simp add: packed_def)
      have reach: "frontier_of (mask_of labels (?C \<union> facets cs)) (pk_states k) \<noteq> []"
        if "subseq cs ?reps" "affordable env budget (se_selected s @ cs)" for cs
        using i that within [of cs] by (auto simp: packed_def)
      let ?s = "s\<lparr>se_ticks := pk_ticks k\<rparr>"
      have bal': "balanced env budget ?s" using bal by (simp add: balanced_def)
      show ?thesis
      proof (cases "first_by packing_order (frontier_of (full_mask labels) (pk_states k))")
        case (Some p)
        then have "p \<in> set (frontier_of (full_mask labels) (pk_states k))" by (rule first_by_Some(1))
        then have p: "cover_state env budget ?r labels ?C ?start ?reps (full_mask labels) p"
          using snd by (auto simp: sound_def)
        let ?cs = "ps_chosen p"
        have cs: "subseq ?cs ?reps" "p = cost_state env ?start ?cs" "within_budget budget ?r p"
          "mask_of labels (set labels) = mask_of labels (?C \<union> facets ?cs)"
          using p by (simp_all add: cover_state_def full_mask_is [OF d])
        have all: "set labels \<subseteq> facets (se_selected s @ ?cs)"
          using cs(4) unfolding mask_eq_iff [OF d] facets_append by blast
        have "affordable env budget (se_selected ?s @ ?cs)" using cs(2,3) within [of ?cs] by simp
        from must_add_all [OF bal' this, of RuntimeError] obtain s' where
          "fold_res (must_add env budget RuntimeError) ?cs ?s = Inr s'" "balanced env budget s'"
          "se_selected s' = se_selected s @ ?cs" by auto
        then show ?thesis using Inr small Some cs(1) all unfolding labels_def
          by (auto simp: pack_required_def Let_def)
      next
        case None
        then have empty: "frontier_of (full_mask labels) (pk_states k) = []" by simp
        have never: "\<not> (subseq cs ?reps \<and> affordable env budget (se_selected s @ cs)
               \<and> set labels \<subseteq> facets (se_selected s @ cs))" for cs
        proof
          assume cs: "subseq cs ?reps \<and> affordable env budget (se_selected s @ cs)
               \<and> set labels \<subseteq> facets (se_selected s @ cs)"
          then have "full_mask labels = mask_of labels (?C \<union> facets cs)"
            unfolding full_mask_is [OF d] mask_eq_iff [OF d] facets_append by blast
          moreover have "frontier_of (mask_of labels (?C \<union> facets cs)) (pk_states k) \<noteq> []"
            using cs reach by blast
          ultimately show False using empty by simp
        qed
        have "missing_labels labels (pk_states k) \<noteq> []"
        proof (cases "first_by (\<lambda>m. (- int (bit_count labels m), m)) (map fst (pk_states k))")
          case None
          have "frontier_of (mask_of labels (?C \<union> facets [])) (pk_states k) \<noteq> []"
            by (rule reach) (use bal in \<open>simp_all add: balanced_def\<close>)
          moreover have "pk_states k = []" using None by simp
          ultimately show ?thesis by (simp add: frontier_of_def)
        next
          case (Some m)
          then have m: "m \<in> set (map fst (pk_states k))" by (rule first_by_Some(1))
          then obtain f where f: "map_of (pk_states k) m = Some f"
            by (metis map_of_eq_None_iff not_Some_eq set_map)
          then have "f \<noteq> []" using snd by (auto simp: sound_def)
          then obtain p where "p \<in> set (frontier_of m (pk_states k))" using f by (cases f) (auto simp: frontier_of_def)
          then have "m = mask_of labels (?C \<union> facets (ps_chosen p))"
            using snd by (auto simp: sound_def cover_state_def)
          moreover have "m \<noteq> full_mask labels" using f \<open>f \<noteq> []\<close> empty by (auto simp: frontier_of_def)
          ultimately have "\<not> set labels \<subseteq> ?C \<union> facets (ps_chosen p)"
            unfolding full_mask_is [OF d] by (metis Int_absorb1 Int_absorb mask_eq_iff [OF d])
          then obtain l where "l \<in> set labels" "m AND label_bit labels l = 0"
            using and_label [OF d] \<open>m = _\<close> by blast
          then show ?thesis using Some by (auto simp: missing_labels_def filter_empty_conv)
        qed
        then have "pack_required env budget late ordered overflow s = Inl cannot_represent"
          using Inr small None unfolding labels_def by (simp add: pack_required_def Let_def del: first_by_None)
        then show ?thesis using never by auto
      qed
    qed
  qed
qed

end
