(* ===== verification/SelectionClaims.thy ===== *)
theory SelectionClaims
  imports SelectionSafety Samples
begin

text \<open>
  What the selection of a packet promises: an acceptable packet when there is one and time to find it,
  and a refusal for the budget only when no packet is acceptable.
\<close>

section \<open>Acceptable packets\<close>

definition required_item :: "packet_candidate \<Rightarrow> bool" where
  "required_item c \<longleftrightarrow> pc_required_policy c \<and> pc_freshness c = CURRENT \<or> pc_required_anchor c"

definition acceptable ::
  "environment \<Rightarrow> packet_budget \<Rightarrow> packet_candidate list \<Rightarrow> pystr list \<Rightarrow> packet_candidate set \<Rightarrow> bool"
where
  "acceptable env budget cs overflow X \<longleftrightarrow>
     X \<subseteq> set (merge_candidates cs)
     \<and> (\<forall>c\<in>set (merge_candidates cs). required_item c \<longrightarrow> c \<in> X)
     \<and> (\<forall>l\<in>facets (merge_candidates cs) \<union> set overflow. \<exists>c\<in>X. l \<in> set (pc_required_facets c))
     \<and> set_affordable env budget X"

definition budget_refusals :: "py_error set" where
  "budget_refusals =
     {RequiredPolicyBudgetError,
      RequiredContextBudgetError ''Packet budget cannot contain every required search anchor'',
      cannot_represent}"

section \<open>The stages composed\<close>

lemma keys_inj:
  assumes "distinct (map f xs)" "c \<in> set xs" "ys \<subseteq> set xs"
  shows "f c \<in> f ` ys \<longleftrightarrow> c \<in> ys"
proof -
  have "inj_on f (set xs)" using assms(1) by (simp add: distinct_map)
  then show ?thesis using assms(2,3) by (auto dest: inj_onD)
qed

lemma acceptable_cover:
  assumes ok: "acceptable env budget cs overflow X" and sel: "set (se_selected s) = Collect required_item \<inter> set (merge_candidates cs)"
    and d: "distinct (se_selected s)"
  shows "\<exists>xs. subseq xs (representatives (ordered_candidates cs) s) \<and> affordable env budget (se_selected s @ xs)
     \<and> set (required_labels (ordered_candidates cs) overflow) \<subseteq> facets (se_selected s @ xs)"
proof -
  let ?o = "ordered_candidates cs"
  let ?reps = "representatives ?o s"
  let ?xs = "filter (\<lambda>c. c \<in> X) ?reps"
  have X: "X \<subseteq> set ?o" "set (se_selected s) \<subseteq> X" "finite X" "set_affordable env budget X"
    using ok sel finite_subset [of X "set (merge_candidates cs)"] by (auto simp: acceptable_def ordered_facts)
  have keys: "pc_item_key c \<in> set (selected_keys s) \<longleftrightarrow> c \<in> set (se_selected s)" if "c \<in> set ?o" for c
    unfolding selected_keys_def set_map
    by (rule keys_inj [OF ordered_facts(2) that]) (use X in blast)
  have reps: "set ?reps = {c \<in> set ?o. c \<notin> set (se_selected s) \<and> pc_required_facets c \<noteq> []}"
    using keys by (auto simp: representatives_def)
  have "distinct ?o" using ordered_facts(2) by (simp add: distinct_map)
  then have "distinct (se_selected s @ ?xs)" using d reps by (auto simp: representatives_def)
  then have "affordable env budget (se_selected s @ ?xs)"
    by (rule affordable_subset [OF X(4,3)]) (use X in auto)
  moreover have "set (required_labels ?o overflow) \<subseteq> facets (se_selected s @ ?xs)"
  proof
    fix l assume "l \<in> set (required_labels ?o overflow)"
    then have "l \<in> facets (merge_candidates cs) \<union> set overflow"
      by (simp add: label_facts facets_def ordered_facts)
    then obtain c where c: "c \<in> X" "l \<in> set (pc_required_facets c)" using ok unfolding acceptable_def by blast
    then have "c \<in> set (se_selected s @ ?xs)" using X(1) reps by fastforce
    then show "l \<in> facets (se_selected s @ ?xs)" using c(2) by (auto simp: facets_def)
  qed
  ultimately show ?thesis using subseq_filter_left by blast
qed

lemma subseq_set: "subseq xs ys \<Longrightarrow> set xs \<subseteq> set ys"
  by (induction xs ys rule: list_emb.induct) auto

lemma subseq_distinct: "subseq xs ys \<Longrightarrow> distinct ys \<Longrightarrow> distinct xs"
  by (induction xs ys rule: list_emb.induct) (auto dest: subseq_set)

lemma packed_keys:
  assumes "distinct (map pc_item_key o')" "distinct (se_selected s)" "set (se_selected s) \<subseteq> set o'"
    and "subseq xs (representatives o' s)" "se_selected s' = se_selected s @ xs"
  shows "distinct (selected_keys s')"
proof -
  have "set xs \<subseteq> set (representatives o' s)" by (rule subseq_set [OF assms(4)])
  then have xs: "set xs \<subseteq> set o'" "pc_item_key ` set xs \<inter> set (selected_keys s) = {}"
    by (auto simp: representatives_def)
  have o': "distinct o'" "inj_on pc_item_key (set o')" using assms(1) by (simp_all add: distinct_map)
  have "distinct xs" using subseq_distinct [OF assms(4)] o'(1) by (simp add: representatives_def)
  then show ?thesis using xs assms(2,3) o'(2)
    by (auto simp: selected_keys_def assms(5) distinct_map intro: inj_on_subset)
qed

lemma final_selection:
  assumes run: "fold_res (fill env budget late) (ordered_candidates cs) s = Inr s'" and bal: "balanced env budget s"
    and keys: "distinct (selected_keys s)" and part: "set (se_selected s) \<subseteq> set (merge_candidates cs)"
    and req: "Collect required_item \<inter> set (merge_candidates cs) \<subseteq> set (se_selected s)"
    and lab: "set (required_labels (ordered_candidates cs) overflow) \<subseteq> facets (se_selected s)"
  shows "balanced env budget s' \<and> acceptable env budget cs overflow (set (se_selected s'))
     \<and> distinct (selected_keys s')
     \<and> (\<forall>c\<in>set (merge_candidates cs). c \<in> set (se_selected s') \<or> \<not> affordable env budget (se_selected s' @ [c]))"
proof -
  note f = fill_result [OF run bal keys]
  have sub: "set (se_selected s) \<subseteq> set (se_selected s')" using f by (auto simp: prefix_def)
  have whole: "set (se_selected s') \<subseteq> set (ordered_candidates cs)" using f part by (auto simp: ordered_facts)
  have "distinct (se_selected s')" using f by (simp add: selected_keys_def distinct_map)
  then have afford: "set_affordable env budget (set (se_selected s'))"
    using f affordable_set unfolding balanced_def by blast
  have labels: "facets (merge_candidates cs) \<union> set overflow \<subseteq> facets (se_selected s')"
  proof -
    have "facets (ordered_candidates cs) = facets (merge_candidates cs)" by (simp add: facets_def ordered_facts)
    moreover have "facets (se_selected s) \<subseteq> facets (se_selected s')" using sub by (auto simp: facets_def)
    ultimately show ?thesis using lab unfolding label_facts by blast
  qed
  have "c \<in> set (se_selected s') \<or> \<not> affordable env budget (se_selected s' @ [c])"
    if "c \<in> set (merge_candidates cs)" for c
  proof -
    have c: "c \<in> set (ordered_candidates cs)" using that by (simp add: ordered_facts)
    have "pc_item_key c \<in> set (selected_keys s') \<longleftrightarrow> c \<in> set (se_selected s')"
      unfolding selected_keys_def set_map by (rule keys_inj [OF ordered_facts(2) c whole])
    then show ?thesis using f c by blast
  qed
  moreover have "acceptable env budget cs overflow (set (se_selected s'))"
    unfolding acceptable_def using whole sub req afford labels by (auto simp: facets_def ordered_facts)
  ultimately show ?thesis using f by blast
qed

lemma select_outcome:
  assumes "check_budget budget = Inr ()"
  shows "case select env cs budget overflow late of
      Inr sn \<Rightarrow> \<exists>s. balanced env budget s \<and> acceptable env budget cs overflow (set (se_selected s))
        \<and> distinct (selected_keys s)
        \<and> (\<forall>c\<in>set (merge_candidates cs). c \<in> set (se_selected s) \<or> \<not> affordable env budget (se_selected s @ [c]))
        \<and> sn = packet_selection_of (ordered_candidates cs) s
    | Inl e \<Rightarrow> e \<in> effort_errors \<or> e \<in> budget_refusals \<and> \<not> (\<exists>X. acceptable env budget cs overflow X)"
proof -
  let ?o = "ordered_candidates cs"
  let ?policy = "\<lambda>c. pc_required_policy c \<and> pc_freshness c = CURRENT"
  let ?anchor = "\<lambda>c. pc_required_anchor c \<and> pc_item_key c \<notin> set (map pc_item_key (filter ?policy ?o))"
  note sets = ordered_facts(1) [of cs] and dk = ordered_facts(2) [of cs]
  have dist: "distinct ?o" using dk by (simp add: distinct_map)
  have anchor: "?anchor c \<longleftrightarrow> pc_required_anchor c \<and> \<not> ?policy c" if "c \<in> set ?o" for c
    unfolding set_map using keys_inj [OF dk that, of "set (filter ?policy ?o)"] that by auto
  have required: "set (filter ?policy ?o @ filter ?anchor ?o) = Collect required_item \<inter> set (merge_candidates cs)"
  proof -
    have "set (filter ?anchor ?o) = {c \<in> set ?o. pc_required_anchor c \<and> \<not> ?policy c}"
      using anchor unfolding set_filter by blast
    then show ?thesis by (auto simp: required_item_def sets)
  qed
  have dreq: "distinct (filter ?policy ?o @ filter ?anchor ?o)" using dist anchor by auto
  have unaffordable: "\<not> (\<exists>X. acceptable env budget cs overflow X)"
    if "\<not> affordable env budget ys" "distinct ys" "set ys \<subseteq> Collect required_item \<inter> set (merge_candidates cs)" for ys
  proof
    assume "\<exists>X. acceptable env budget cs overflow X"
    then obtain X where X: "acceptable env budget cs overflow X" by blast
    then have "finite X" using finite_subset by (auto simp: acceptable_def)
    moreover have "set ys \<subseteq> X" using X that(3) by (auto simp: acceptable_def)
    ultimately show False using affordable_subset [of env budget X ys] X that(1,2) by (simp add: acceptable_def)
  qed
  show ?thesis
  proof (cases "late 0")
    case True
    then show ?thesis by (simp add: select_def require_deadline_def effort_errors_def deadline_passed_def)
  next
    case False
    let ?s0 = "\<lparr>se_selected = [], se_tokens = 0, se_bytes = 0, se_citations = 0, se_ticks = Suc 0\<rparr>"
    let ?rest = "\<lambda>s. bind_res (fold_res (reserve_anchor env budget late) ?o s) (\<lambda>s.
          bind_res (pack_required env budget late ?o overflow s) (\<lambda>s.
          bind_res (fold_res (fill env budget late) ?o s) (\<lambda>s. Inr (packet_selection_of ?o s))))"
    have sel: "select env cs budget overflow late
        = bind_res (fold_res (reserve_policy env budget late) ?o ?s0) ?rest"
      using False by (simp add: select_def require_deadline_def Let_def ordered_candidates_def)
    have b0: "balanced env budget ?s0"
      using assms by (auto simp: check_budget_def balanced_def affordable_def split: if_splits)
    have first: "case fold_res (reserve_policy env budget late) ?o ?s0 of
        Inr s' \<Rightarrow> balanced env budget s' \<and> se_selected s' = filter ?policy ?o
      | Inl e \<Rightarrow> e = deadline_passed \<or> e = RequiredPolicyBudgetError \<and> \<not> affordable env budget (filter ?policy ?o)"
      unfolding reserve_is_loop using reserve_loop_result [OF b0 dk, of _ ?policy RequiredPolicyBudgetError late]
      by (simp cong: sum.case_cong)
    show ?thesis
    proof (cases "fold_res (reserve_policy env budget late) ?o ?s0")
      case (Inl e)
      have "\<not> affordable env budget (filter ?policy ?o) \<Longrightarrow> \<not> (\<exists>X. acceptable env budget cs overflow X)"
        by (erule unaffordable) (use dist in \<open>auto simp: required_item_def sets\<close>)
      then show ?thesis using Inl first unfolding sel by (auto simp: effort_errors_def budget_refusals_def)
    next
      case (Inr s1)
      then have s1: "balanced env budget s1" "se_selected s1 = filter ?policy ?o" using first by simp_all
      let ?e2 = "RequiredContextBudgetError ''Packet budget cannot contain every required search anchor''"
      have second: "case fold_res (reserve_anchor env budget late) ?o s1 of
          Inr s' \<Rightarrow> balanced env budget s' \<and> se_selected s' = filter ?policy ?o @ filter ?anchor ?o
        | Inl e \<Rightarrow> e = deadline_passed \<or> e = ?e2 \<and> \<not> affordable env budget (filter ?policy ?o @ filter ?anchor ?o)"
        unfolding reserve_is_loop s1(2) [symmetric]
        by (rule reserve_loop_result [OF s1(1) dk]) (auto simp: selected_keys_def)
      show ?thesis
      proof (cases "fold_res (reserve_anchor env budget late) ?o s1")
        case Inl2: (Inl e)
        have "\<not> affordable env budget (filter ?policy ?o @ filter ?anchor ?o) \<Longrightarrow> \<not> (\<exists>X. acceptable env budget cs overflow X)"
          by (erule unaffordable) (simp_all only: required dreq order_refl)
        then show ?thesis using Inl2 Inr second unfolding sel by (auto simp: effort_errors_def budget_refusals_def)
      next
        case Inr2: (Inr s2)
        have s2: "balanced env budget s2" "set (se_selected s2) = Collect required_item \<inter> set (merge_candidates cs)"
          "distinct (se_selected s2)"
          using second Inr2 required dreq by simp_all
        have covers: "acceptable env budget cs overflow X \<Longrightarrow>
            \<exists>xs. subseq xs (representatives ?o s2) \<and> affordable env budget (se_selected s2 @ xs)
              \<and> set (required_labels ?o overflow) \<subseteq> facets (se_selected s2 @ xs)" for X
          by (rule acceptable_cover [OF _ s2(2,3)])
        have third: "case pack_required env budget late ?o overflow s2 of
            Inr s' \<Rightarrow> balanced env budget s'
              \<and> (\<exists>xs. subseq xs (representatives ?o s2) \<and> se_selected s' = se_selected s2 @ xs
                  \<and> set (required_labels ?o overflow) \<subseteq> facets (se_selected s2 @ xs))
          | Inl e \<Rightarrow> e \<in> effort_errors \<or> e = cannot_represent
              \<and> \<not> (\<exists>xs. subseq xs (representatives ?o s2) \<and> affordable env budget (se_selected s2 @ xs)
                     \<and> set (required_labels ?o overflow) \<subseteq> facets (se_selected s2 @ xs))"
          by (rule packing_result [OF s2(1)]) (use s2(2) merged_facets sets in auto)
        show ?thesis
        proof (cases "pack_required env budget late ?o overflow s2")
          case Inl3: (Inl e)
          then show ?thesis using Inr2 Inr third covers unfolding sel by (auto simp: budget_refusals_def)
        next
          case Inr3: (Inr s3)
          then obtain xs where xs: "balanced env budget s3" "subseq xs (representatives ?o s2)"
            "se_selected s3 = se_selected s2 @ xs" "set (required_labels ?o overflow) \<subseteq> facets (se_selected s3)"
            using third by auto
          show ?thesis
          proof (cases "fold_res (fill env budget late) ?o s3")
            case Inl4: (Inl e)
            then show ?thesis using fill_error [OF Inl4] Inr Inr2 Inr3 unfolding sel by (simp add: effort_errors_def)
          next
            case Inr4: (Inr s4)
            have result: "select env cs budget overflow late = Inr (packet_selection_of ?o s4)"
              using Inr Inr2 Inr3 Inr4 unfolding sel by simp
            have "set xs \<subseteq> set ?o" "distinct (selected_keys s3)"
              using packed_keys [OF dk s2(3) _ xs(2,3)] s2(2) sets xs(2) by (auto simp: representatives_def dest!: subseq_set)
            then have "balanced env budget s4 \<and> acceptable env budget cs overflow (set (se_selected s4))
                \<and> distinct (selected_keys s4)
                \<and> (\<forall>c\<in>set (merge_candidates cs). c \<in> set (se_selected s4) \<or> \<not> affordable env budget (se_selected s4 @ [c]))"
              by (intro final_selection [OF Inr4 xs(1)]) (use xs(3,4) s2(2) sets in auto)
            then show ?thesis unfolding result sum.case by blast
          qed
        qed
      qed
    qed
  qed
qed

lemma merge_candidates_set:
  assumes "set cs = set cs'" "inj_on candidate_order (set cs)"
  shows "merge_candidates cs = merge_candidates cs'"
proof -
  have pick: "first_by candidate_order xs = first_by candidate_order ys"
    if same: "set xs = set ys" and sub: "set ys \<subseteq> set cs" for xs ys
  proof (cases "first_by candidate_order xs")
    case None
    then have "xs = []" "ys = []" using same by auto
    then show ?thesis by simp
  next
    case (Some x)
    then have "ys \<noteq> []" using first_by_Some(1) [OF Some] same by auto
    then have "first_by candidate_order ys \<noteq> None" by simp
    then obtain y where y: "first_by candidate_order ys = Some y" by blast
    have "candidate_order x = candidate_order y"
    proof (rule order_antisym)
      show "candidate_order x \<le> candidate_order y"
        by (rule first_by_Some(2) [OF Some]) (use first_by_Some(1) [OF y] same in simp)
      show "candidate_order y \<le> candidate_order x"
        by (rule first_by_Some(2) [OF y]) (use first_by_Some(1) [OF Some] same in simp)
    qed
    then have "x = y" by (rule inj_onD [OF assms(2)])
        (use first_by_Some(1) [OF Some] first_by_Some(1) [OF y] same sub in auto)
    then show ?thesis using Some y by simp
  qed
  have union: "sorted_set (concat (map f xs)) = sorted_set (concat (map f ys))"
    if "set xs = set ys" for f :: "packet_candidate \<Rightarrow> pystr list" and xs ys
    by (rule sorted_set_cong) (use that in simp)
  have variants: "merge_variants xs = merge_variants ys"
    if same: "set xs = set ys" and sub: "set ys \<subseteq> set cs" for xs ys
  proof -
    have anchored: "set (filter pc_required_anchor xs) = set (filter pc_required_anchor ys)" using same by simp
    then have none: "filter pc_required_anchor xs = [] \<longleftrightarrow> filter pc_required_anchor ys = []" by (metis set_empty)
    have "first_by candidate_order (filter pc_required_anchor xs) = first_by candidate_order (filter pc_required_anchor ys)"
      by (rule pick [OF anchored]) (use sub in auto)
    then show ?thesis unfolding merge_variants_def Let_def none
      using pick [OF same sub] union [OF same, of pc_matched_facets] union [OF same, of pc_required_facets] by simp
  qed
  have "sorted_set (map pc_item_key cs) = sorted_set (map pc_item_key cs')" by (rule sorted_set_cong) (use assms(1) in simp)
  moreover have "merge_variants (filter (\<lambda>c. pc_item_key c = k) cs) = merge_variants (filter (\<lambda>c. pc_item_key c = k) cs')" for k
    by (rule variants) (use assms(1) in auto)
  ultimately show ?thesis by (simp add: merge_candidates_def)
qed

section \<open>What the selection promises\<close>

text \<open>C6: 
  A selection that returns is an acceptable packet, in order, with its true costs; nothing that was
  left out would still fit, and the limitation tells whether something was left out.
\<close>

theorem selected_packet_is_acceptable:
  assumes "check_budget budget = Inr ()" "select env cs budget overflow late = Inr sn"
  shows "acceptable env budget cs overflow (set (sn_candidates sn))
     \<and> distinct (map pc_item_key (sn_candidates sn)) \<and> sorted (map candidate_order (sn_candidates sn))
     \<and> sn_tokens sn = sum_list (map token_count (sn_candidates sn))
     \<and> sn_bytes sn = sum_list (map (byte_count env) (sn_candidates sn))
     \<and> sn_citations sn = sum_list (map citation_count (sn_candidates sn))
     \<and> (\<forall>c\<in>set (merge_candidates cs) - set (sn_candidates sn).
          \<not> set_affordable env budget (insert c (set (sn_candidates sn))))
     \<and> (sn_limitations sn = [] \<longleftrightarrow> set (sn_candidates sn) = set (merge_candidates cs))"
proof -
  from select_outcome [OF assms(1), of env cs overflow late] assms(2)
  obtain s where s: "balanced env budget s" "acceptable env budget cs overflow (set (se_selected s))"
    "distinct (selected_keys s)" "sn = packet_selection_of (ordered_candidates cs) s"
    and full: "\<And>c. c \<in> set (merge_candidates cs) \<Longrightarrow> c \<in> set (se_selected s) \<or> \<not> affordable env budget (se_selected s @ [c])"
    by auto
  have cand: "sn_candidates sn = sort_key candidate_order (se_selected s)"
    by (simp add: s(4) packet_selection_of_def Let_def)
  have sums: "sum_list (map f (sort_key candidate_order (se_selected s))) = sum_list (map f (se_selected s))"
    for f :: "packet_candidate \<Rightarrow> int" by (rule sum_list_sort_key)
  have d: "distinct (se_selected s)" using s(3) by (simp add: selected_keys_def distinct_map)
  have "distinct (map pc_item_key (sort_key candidate_order (se_selected s)))"
    using s(3) by (simp add: selected_keys_def distinct_map)
  moreover have "\<not> set_affordable env budget (insert c (set (se_selected s)))"
    if "c \<in> set (merge_candidates cs) - set (se_selected s)" for c
    using full [of c] affordable_set [of "se_selected s @ [c]" env budget] that d by auto
  moreover have "length (ordered_candidates cs) = length (se_selected s) \<longleftrightarrow> set (se_selected s) = set (merge_candidates cs)"
  proof -
    have o': "distinct (ordered_candidates cs)" using ordered_facts(2) by (simp add: distinct_map)
    have "set (se_selected s) \<subseteq> set (merge_candidates cs)" using s(2) by (simp add: acceptable_def)
    then show ?thesis using d o' ordered_facts(1) [of cs] card_subset_eq [of "set (merge_candidates cs)" "set (se_selected s)"]
      by (metis List.finite_set distinct_card)
  qed
  ultimately show ?thesis using s(1,2) cand sums
    by (auto simp: s(4) packet_selection_of_def Let_def balanced_def)
qed

text \<open>C5: 
  A selection that fails ran out of its effort (the deadline or a bound of the packing), or was refused
  for its budget, and then no packet whatsoever is acceptable.
\<close>

theorem budget_refusal_is_final:
  assumes "check_budget budget = Inr ()" "select env cs budget overflow late = Inl e"
  shows "e \<in> effort_errors \<or> e \<in> budget_refusals \<and> \<not> (\<exists>X. acceptable env budget cs overflow X)"
  using select_outcome [OF assms(1), of env cs overflow late] assms(2) by simp

text \<open>
  The selection is a function of the set of candidates: their order and repetitions do not matter, so
  long as the order tells different candidates apart.
\<close>

theorem selection_ignores_candidate_order:
  assumes "set cs = set cs'" "inj_on candidate_order (set cs)" "set overflow = set overflow'"
  shows "select env cs budget overflow late = select env cs' budget overflow' late"
proof -
  have "required_labels o' overflow = required_labels o' overflow'" for o'
    unfolding required_labels_def by (rule sorted_set_cong) (use assms(3) in simp)
  then show ?thesis by (simp add: select_def merge_candidates_set [OF assms(1,2)] pack_required_def)
qed

section \<open>Samples\<close>

definition sample_candidate :: "char list \<Rightarrow> int \<Rightarrow> bool \<Rightarrow> char list list \<Rightarrow> packet_candidate" where
  "sample_candidate key tier policy fs =
     \<lparr>pc_item_id = 1, pc_kind = KIND_POLICY, pc_item_key = lit key, pc_summary = lit ''summary'',
      pc_freshness = CURRENT, pc_is_inferred = False, pc_selection_reason = [], pc_rank_score = 1 / 2,
      pc_tier = tier, pc_required_policy = policy, pc_payload = [], pc_scope_ids = [], pc_citations = [],
      pc_matched_facets = [], pc_required_facets = map lit fs, pc_required_anchor = False,
      pc_source_assertion = None, pc_source_relationship = None, pc_source_chunk = None,
      pc_source_conflict = None\<rparr>"

definition sample_pool :: "packet_candidate list" where
  "sample_pool =
     [sample_candidate ''p'' 0 True [], sample_candidate ''a'' 1 False [''x''],
      sample_candidate ''b'' 2 False [''x'', ''y''], sample_candidate ''c'' 3 False []]"

definition sample_budget :: "int \<Rightarrow> packet_budget" where
  "sample_budget n = \<lparr>bu_items = n, bu_tokens = 100, bu_bytes = 1000, bu_citations = 5\<rparr>"

definition selected_names :: "packet_selection result \<Rightarrow> pystr list option" where
  "selected_names r = (case r of Inl _ \<Rightarrow> None | Inr sn \<Rightarrow> Some (map pc_item_key (sn_candidates sn)))"

lemma sample_budget_ok: "check_budget (sample_budget 2) = Inr ()" "check_budget (sample_budget 1) = Inr ()"
  by code_simp+

text \<open>The policy and the one candidate that covers both labels fill a packet of two items.\<close>

lemma sample_selects:
  "selected_names (select sample_env sample_pool (sample_budget 2) [] (\<lambda>_. False)) = Some [lit ''p'', lit ''b'']"
  by code_simp

lemma sample_refuses:
  "select sample_env sample_pool (sample_budget 1) [] (\<lambda>_. False) = Inl cannot_represent"
  by code_simp

theorem selected_packet_is_acceptable_witness:
  "\<exists>sn. select sample_env sample_pool (sample_budget 2) [] (\<lambda>_. False) = Inr sn
     \<and> map pc_item_key (sn_candidates sn) = [lit ''p'', lit ''b'']
     \<and> acceptable sample_env (sample_budget 2) sample_pool [] (set (sn_candidates sn))"
proof -
  obtain sn where sn: "select sample_env sample_pool (sample_budget 2) [] (\<lambda>_. False) = Inr sn"
    "map pc_item_key (sn_candidates sn) = [lit ''p'', lit ''b'']"
    using sample_selects by (auto simp: selected_names_def split: sum.splits)
  have "acceptable sample_env (sample_budget 2) sample_pool [] (set (sn_candidates sn))"
    using selected_packet_is_acceptable [OF sample_budget_ok(1) sn(1)] by (rule conjunct1)
  with sn show ?thesis by (intro exI [of _ sn] conjI)
qed

theorem budget_refusal_is_final_witness: "\<not> (\<exists>X. acceptable sample_env (sample_budget 1) sample_pool [] X)"
  using budget_refusal_is_final [OF sample_budget_ok(2) sample_refuses]
  by (simp add: effort_errors_def cannot_represent_def deadline_passed_def operation_bound_def state_bound_def)

theorem selection_ignores_candidate_order_witness:
  "select sample_env (rev sample_pool) (sample_budget 2) [] (\<lambda>_. False)
     = select sample_env sample_pool (sample_budget 2) [] (\<lambda>_. False)"
proof -
  have "distinct (map candidate_order (rev sample_pool))" by code_simp
  then show ?thesis by (intro selection_ignores_candidate_order) (simp_all add: distinct_map)
qed

end
