(* ===== verification/Evidence.thy ===== *)
theory Evidence
  imports "HOL-Library.Product_Lexorder" IntentDocuments SecretScreen
begin

text \<open>
  The submission of an evidence manifest (\<^verbatim>\<open>submit_evidence_manifest\<close> of
  \<^verbatim>\<open>src/anva/core/services/evidence.py\<close>).  An aware
  datetime is its instant, with its ISO text where the code writes that into an identity; the rows of one
  submission are stamped with one instant.
\<close>

section \<open>Evidence documents\<close>

text \<open>
  The manifests \<^verbatim>\<open>submit_evidence_manifest\<close> reads (\<^verbatim>\<open>src/anva/core/services/evidence.py\<close>) and the checks
  it makes of their entries beyond the schema.
\<close>

section \<open>The documents\<close>

record evidence_entry =
  ee_evidence_id :: pystr
  ee_kind :: pystr
  ee_name :: pystr
  ee_producer :: pystr
  ee_producer_version :: pystr
  ee_command :: pystr
  ee_status :: pystr
  ee_started_at :: "pystr option"
  ee_completed_at :: pystr
  ee_artifact_reference :: pystr
  ee_source_url :: "pystr option"
  ee_content_hash :: pystr
  ee_limitations :: json
  ee_criterion_codes :: "pystr list"
  ee_retention_class :: pystr
  ee_retention_expires_at :: "pystr option"
  ee_environment :: pystr
  ee_scenario :: pystr
  ee_approval_id :: "pystr option"
  ee_artifact_blob_id :: "pystr option"

record manifest_document =
  md_schema_version :: pystr
  md_manifest_id :: pystr
  md_organization_id :: pystr
  md_repository_id :: pystr
  md_access_scope_id :: pystr
  md_work_revision_id :: "pystr option"
  md_pull_request_number :: int
  md_commit_sha :: pystr
  md_producer :: pystr
  md_producer_version :: pystr
  md_producer_mode :: pystr
  md_entries :: "evidence_entry list"

text \<open>\<^verbatim>\<open>entry.get(key)\<close> of a field that may be missing or null.\<close>

definition optional_item :: "(pystr \<times> json) list \<Rightarrow> pystr \<Rightarrow> pystr option result" where
  "optional_item items k = (case json_get items k of None \<Rightarrow> Inr None | Some v \<Rightarrow> optional_text v)"

definition read_entry :: "(pystr \<times> json) list \<Rightarrow> evidence_entry result" where
  "read_entry e =
     bind_res (text_at e (lit ''evidence_id'')) (\<lambda>evidence_id.
     bind_res (text_at e (lit ''kind'')) (\<lambda>kind.
     bind_res (text_at e (lit ''name'')) (\<lambda>name.
     bind_res (text_at e (lit ''producer'')) (\<lambda>producer.
     bind_res (text_at e (lit ''producer_version'')) (\<lambda>producer_version.
     bind_res (text_at e (lit ''command'')) (\<lambda>command.
     bind_res (text_at e (lit ''status'')) (\<lambda>status.
     bind_res (optional_text_at e (lit ''started_at'')) (\<lambda>started_at.
     bind_res (text_at e (lit ''completed_at'')) (\<lambda>completed_at.
     bind_res (text_at e (lit ''artifact_reference'')) (\<lambda>reference.
     bind_res (optional_text_at e (lit ''source_url'')) (\<lambda>source_url.
     bind_res (text_at e (lit ''content_hash'')) (\<lambda>digest.
     bind_res (item_of e (lit ''limitations'')) (\<lambda>limitations.
     bind_res (texts_at e (lit ''criterion_codes'')) (\<lambda>codes.
     bind_res (text_at e (lit ''retention_class'')) (\<lambda>retention_class.
     bind_res (optional_text_at e (lit ''retention_expires_at'')) (\<lambda>retention.
     bind_res (text_at e (lit ''environment'')) (\<lambda>env_text.
     bind_res (text_at e (lit ''scenario'')) (\<lambda>scenario.
     bind_res (optional_text_at e (lit ''approval_id'')) (\<lambda>approval_id.
     bind_res (optional_item e (lit ''artifact_blob_id'')) (\<lambda>blob_id.
       Inr \<lparr>ee_evidence_id = evidence_id, ee_kind = kind, ee_name = name, ee_producer = producer,
            ee_producer_version = producer_version, ee_command = command, ee_status = status,
            ee_started_at = started_at, ee_completed_at = completed_at,
            ee_artifact_reference = reference, ee_source_url = source_url, ee_content_hash = digest,
            ee_limitations = limitations, ee_criterion_codes = codes,
            ee_retention_class = retention_class, ee_retention_expires_at = retention,
            ee_environment = env_text, ee_scenario = scenario, ee_approval_id = approval_id,
            ee_artifact_blob_id = blob_id\<rparr>))))))))))))))))))))"

definition read_manifest :: "(pystr \<times> json) list \<Rightarrow> manifest_document result" where
  "read_manifest p =
     bind_res (text_at p (lit ''schema_version'')) (\<lambda>schema_version.
     bind_res (text_at p (lit ''manifest_id'')) (\<lambda>manifest_id.
     bind_res (text_at p (lit ''organization_id'')) (\<lambda>organization_id.
     bind_res (text_at p (lit ''repository_id'')) (\<lambda>repository_id.
     bind_res (text_at p (lit ''access_scope_id'')) (\<lambda>scope_id.
     bind_res (optional_text_at p (lit ''work_item_revision_id'')) (\<lambda>revision_id.
     bind_res (int_at p (lit ''pull_request_number'')) (\<lambda>number.
     bind_res (text_at p (lit ''commit_sha'')) (\<lambda>commit.
     bind_res (text_at p (lit ''producer'')) (\<lambda>producer.
     bind_res (text_at p (lit ''producer_version'')) (\<lambda>producer_version.
     bind_res (text_at p (lit ''producer_mode'')) (\<lambda>mode.
     bind_res (dicts_at p (lit ''entries'')) (\<lambda>entries.
     bind_res (map_res read_entry entries) (\<lambda>es.
       Inr \<lparr>md_schema_version = schema_version, md_manifest_id = manifest_id,
            md_organization_id = organization_id, md_repository_id = repository_id,
            md_access_scope_id = scope_id, md_work_revision_id = revision_id,
            md_pull_request_number = number, md_commit_sha = commit, md_producer = producer,
            md_producer_version = producer_version, md_producer_mode = mode, md_entries = es\<rparr>)))))))))))))"

section \<open>Fields\<close>

definition COMMAND_RESULT_KINDS :: "pystr list" where
  "COMMAND_RESULT_KINDS = map lit
     [''TEST_RESULT'', ''BUILD_RESULT'', ''TYPECHECK_RESULT'', ''LINT_RESULT'', ''STATIC_ANALYSIS'',
      ''SECURITY_SCAN'', ''DEPENDENCY_SCAN'', ''MIGRATION_RESULT'', ''PERFORMANCE_RESULT'',
      ''ACCESSIBILITY_RESULT'']"

definition PASSED :: pystr where
  "PASSED = lit ''PASSED''"

definition aware_datetime :: "environment \<Rightarrow> pystr \<Rightarrow> string \<Rightarrow> instant result" where
  "aware_datetime env value field =
     (case env_parse_datetime env value of
        None \<Rightarrow> Inl (ValueError (field @ '' must be a timezone-aware ISO 8601 timestamp''))
      | Some t \<Rightarrow> Inr t)"

definition optional_datetime :: "environment \<Rightarrow> pystr option \<Rightarrow> string \<Rightarrow> instant option result" where
  "optional_datetime env value field =
     (case value of
        None \<Rightarrow> Inr None
      | Some s \<Rightarrow> bind_res (aware_datetime env s field) (\<lambda>t. Inr (Some t)))"

definition absent_or_empty :: "pystr option \<Rightarrow> bool" where
  "absent_or_empty s \<longleftrightarrow> (case s of None \<Rightarrow> True | Some x \<Rightarrow> x = [])"

definition validate_source_url :: "environment \<Rightarrow> pystr option \<Rightarrow> unit result" where
  "validate_source_url env value =
     (case value of
        None \<Rightarrow> Inr ()
      | Some s \<Rightarrow>
          (case env_urlsplit env s of
             None \<Rightarrow> Inl (ValueError ''Invalid URL'')
           | Some u \<Rightarrow>
               if url_scheme u \<noteq> lit ''https'' \<or> absent_or_empty (url_hostname u)
                  \<or> \<not> absent_or_empty (url_username u) \<or> \<not> absent_or_empty (url_password u)
               then Inl (ValueError ''source_url must be an HTTPS URL without user information'')
               else if list_ex (is_secret_bearing_query_key (env_casefold env)) (url_query_keys u)
               then Inl (ValueError ''source_url contains a secret-bearing query parameter'')
               else Inr ()))"

section \<open>What the kind of an entry asks for\<close>

definition criterion_requirement :: "governance \<Rightarrow> acceptance_criterion \<Rightarrow> requirement_row option" where
  "criterion_requirement g c =
     (case cr_requirement c of
        None \<Rightarrow> None
      | Some i \<Rightarrow> find_by (\<lambda>q. re_id q = i) (requirement_rows g))"

text \<open>The last chain of \<^verbatim>\<open>_validate_type_specific\<close>: the target of the approval is among the criteria.\<close>

definition check_approval_target :: "governance \<Rightarrow> approval \<Rightarrow> work_revision \<Rightarrow> pystr list \<Rightarrow> unit result" where
  "check_approval_target g a r codes =
     (if ap_target_kind a = lit ''ACCEPTANCE_CRITERION''
      then guard_res (ap_target_key a \<in> set codes) ResourceNotFoundError
      else if ap_target_kind a = lit ''REQUIREMENT''
      then guard_res
             (list_ex (\<lambda>c. cr_revision c = wr_id r \<and> cr_code c \<in> set codes
                          \<and> (case criterion_requirement g c of
                               None \<Rightarrow> False | Some q \<Rightarrow> re_code q = ap_target_key a))
                (acceptance_criteria g))
             ResourceNotFoundError
      else if ap_target_kind a = lit ''WORK_ITEM_REVISION''
      then guard_res (ap_target_key a = uuid_str (wr_id r)) ResourceNotFoundError
      else Inl (ValueError ''Approval target kind cannot satisfy evidence''))"

definition approval_withdrawn_by :: "governance \<Rightarrow> approval \<Rightarrow> instant \<Rightarrow> bool" where
  "approval_withdrawn_by g a t \<longleftrightarrow>
     list_ex (\<lambda>x. ar_approval x = ap_id a \<and> ar_revoked_at x \<le> t) (approval_revocations g)"

definition approval_covers :: "governance \<Rightarrow> approval \<Rightarrow> uuid \<Rightarrow> work_revision \<Rightarrow> instant \<Rightarrow> bool" where
  "approval_covers g a repository r completed \<longleftrightarrow>
     ap_repository a = repository \<and> ap_revision a = wr_id r \<and> ap_status a = lit ''APPROVED''
     \<and> \<not> approval_withdrawn_by g a completed \<and> ap_decided_at a \<le> completed
     \<and> (case ap_expires_at a of None \<Rightarrow> True | Some t \<Rightarrow> completed < t)"

definition validate_type_specific ::
  "evidence_entry \<Rightarrow> instant \<Rightarrow> work_revision option \<Rightarrow> uuid \<Rightarrow> uuid \<Rightarrow> db \<Rightarrow> approval option result"
where
  "validate_type_specific e completed work_revision org repository d =
     bind_res (guard_res (\<not> (ee_kind e \<in> set COMMAND_RESULT_KINDS \<and> strip (ee_command e) = []))
                 (ValueError ''evidence requires a command'')) (\<lambda>_.
     bind_res (guard_res (\<not> (ee_kind e \<in> {lit ''SCREENSHOT'', lit ''VIDEO''} \<and> strip (ee_scenario e) = []))
                 (ValueError ''evidence requires a scenario'')) (\<lambda>_.
     bind_res (guard_res (\<not> (ee_kind e \<in> {lit ''CONSOLE_LOG'', lit ''NETWORK_TRACE''}
                              \<and> strip (ee_environment e) = []))
                 (ValueError ''evidence requires an environment'')) (\<lambda>_.
     if ee_kind e \<noteq> MANUAL_APPROVAL
     then bind_res (guard_res (ee_approval_id e = None)
                      (ValueError ''approval_id is only valid for MANUAL_APPROVAL evidence'')) (\<lambda>_. Inr None)
     else
       (case (ee_approval_id e, work_revision) of
          (Some raw, Some r) \<Rightarrow>
            bind_res (uuid_of raw) (\<lambda>i.
            bind_res (get_tenant_record approval_table i org d) (\<lambda>a.
            bind_res (guard_res (approval_covers (governance d) a repository r completed
                                 \<and> ee_status e = PASSED) ResourceNotFoundError) (\<lambda>_.
            bind_res (check_approval_target (governance d) a r (ee_criterion_codes e)) (\<lambda>_.
              Inr (Some a)))))
        | _ \<Rightarrow> Inl (ValueError ''MANUAL_APPROVAL requires an exact work_item_revision_id'')))))"

section \<open>The uploaded bytes of an entry\<close>

definition blob_fits ::
  "governance \<Rightarrow> uuid \<Rightarrow> uuid \<Rightarrow> uuid \<Rightarrow> int \<Rightarrow> pystr \<Rightarrow> pystr \<Rightarrow> evidence_blob \<Rightarrow> bool"
where
  "blob_fits g org repository scope_id number commit digest b \<longleftrightarrow>
     eb_org b = org \<and> eb_repository b = repository \<and> eb_access_scope b = scope_id
     \<and> eb_content_hash b = digest \<and> eb_storage_state b = lit ''AVAILABLE''
     \<and> list_ex (\<lambda>u. ua_id u = eb_upload b \<and> ua_org u = org \<and> ua_repository u = repository
                   \<and> ua_access_scope u = scope_id \<and> ua_pull_request u = number
                   \<and> ua_commit u = commit \<and> ua_state u = lit ''ACCEPTED'') (upload_authorizations g)
     \<and> \<not> list_ex (\<lambda>e. ei_blob e = Some (eb_id b)) (evidence_items g)"

definition resolve_evidence_artifact_blob ::
  "evidence_entry \<Rightarrow> uuid \<Rightarrow> uuid \<Rightarrow> uuid \<Rightarrow> int \<Rightarrow> pystr \<Rightarrow> governance \<Rightarrow> evidence_blob option result"
where
  "resolve_evidence_artifact_blob e org repository scope_id number commit g =
     (case ee_artifact_blob_id e of
        None \<Rightarrow> Inr None
      | Some raw \<Rightarrow>
          (case parse_uuid raw of
             None \<Rightarrow> Inl ResourceNotFoundError
           | Some i \<Rightarrow>
               (case find_by (\<lambda>b. eb_id b = i \<and> blob_fits g org repository scope_id number commit
                                                 (ee_content_hash e) b) (evidence_blobs g) of
                  None \<Rightarrow> Inl ResourceNotFoundError
                | Some b \<Rightarrow> Inr (Some b))))"

section \<open>Rows\<close>

text \<open>The unique columns of an artifact: its primary key, and the digest within tenant and kind.\<close>

definition insert_artifact :: "immutable_artifact \<Rightarrow> db \<Rightarrow> db result" where
  "insert_artifact a d =
     (if list_ex (\<lambda>x. art_id x = art_id a
                   \<or> art_org x = art_org a \<and> art_kind x = art_kind a \<and> art_content_hash x = art_content_hash a)
           (artifacts d)
      then Inl IntegrityError else Inr (d\<lparr>artifacts := artifacts d @ [a]\<rparr>))"

definition insert_manifest :: "evidence_manifest \<Rightarrow> governance \<Rightarrow> governance result" where
  "insert_manifest m g =
     (if list_ex (\<lambda>x. em_id x = em_id m
                   \<or> em_org x = em_org m \<and> em_repository x = em_repository m
                     \<and> em_payload_hash x = em_payload_hash m) (evidence_manifests g)
      then Inl IntegrityError
      else Inr (g\<lparr>evidence_manifests := evidence_manifests g @ [m]\<rparr>))"

definition insert_evidence :: "evidence \<Rightarrow> governance \<Rightarrow> governance result" where
  "insert_evidence e g =
     (if list_ex (\<lambda>x. ei_id x = ei_id e
                   \<or> ei_blob e \<noteq> None \<and> ei_blob x = ei_blob e
                   \<or> ei_org x = ei_org e \<and> ei_manifest x = ei_manifest e
                     \<and> ei_content_hash x = ei_content_hash e \<and> ei_kind x = ei_kind e
                     \<and> ei_name x = ei_name e) (evidence_items g)
      then Inl IntegrityError
      else Inr (g\<lparr>evidence_items := evidence_items g @ [e]\<rparr>))"

definition manifest_artifact ::
  "actor_context \<Rightarrow> manifest_document \<Rightarrow> (pystr \<times> json) list \<Rightarrow> uuid \<Rightarrow> pystr \<Rightarrow> uuid \<Rightarrow> immutable_artifact"
where
  "manifest_artifact actor m items scope_id digest fresh =
     \<lparr>art_id = fresh, art_org = actor_org actor, art_kind = lit ''EVIDENCE_MANIFEST'',
      art_schema_name = lit ''evidence-manifest'', art_schema_version = md_schema_version m,
      art_revision = 1, art_payload = JDict items, art_content_hash = digest,
      art_access_scope = Some scope_id\<rparr>"

definition manifest_row ::
  "actor_context \<Rightarrow> manifest_document \<Rightarrow> uuid \<Rightarrow> uuid \<Rightarrow> uuid \<Rightarrow> uuid \<Rightarrow> uuid option \<Rightarrow> pystr \<Rightarrow> nat
     \<Rightarrow> evidence_manifest"
where
  "manifest_row actor m i repository scope_id artifact revision digest bytes =
     \<lparr>em_id = i, em_org = actor_org actor, em_repository = repository, em_access_scope = scope_id,
      em_artifact = artifact, em_work_revision = revision, em_pull_request = md_pull_request_number m,
      em_commit = md_commit_sha m, em_schema_version = md_schema_version m,
      em_producer = md_producer m, em_producer_version = md_producer_version m,
      em_producer_mode = md_producer_mode m, em_payload_hash = digest, em_payload_size = bytes\<rparr>"

text \<open>An entry with what its checks have found: the instants, the approval, the uploaded bytes.\<close>

record checked_entry =
  ke_entry :: evidence_entry
  ke_id :: uuid
  ke_started :: "instant option"
  ke_completed :: instant
  ke_retention :: "instant option"
  ke_approval :: "approval option"
  ke_blob :: "evidence_blob option"

definition evidence_row :: "uuid \<Rightarrow> uuid \<Rightarrow> pystr \<Rightarrow> checked_entry \<Rightarrow> evidence" where
  "evidence_row org manifest commit c =
     \<lparr>ei_id = ke_id c, ei_org = org, ei_manifest = manifest,
      ei_blob = map_option eb_id (ke_blob c), ei_approval = map_option ap_id (ke_approval c),
      ei_commit = commit, ei_kind = ee_kind (ke_entry c), ei_name = ee_name (ke_entry c),
      ei_producer = ee_producer (ke_entry c), ei_producer_version = ee_producer_version (ke_entry c),
      ei_command = ee_command (ke_entry c), ei_status = ee_status (ke_entry c),
      ei_started_at = ke_started c, ei_completed_at = ke_completed c,
      ei_artifact_reference = ee_artifact_reference (ke_entry c),
      ei_source_url = (case ee_source_url (ke_entry c) of None \<Rightarrow> [] | Some s \<Rightarrow> s),
      ei_content_hash = ee_content_hash (ke_entry c), ei_limitations = ee_limitations (ke_entry c),
      ei_criterion_codes = ee_criterion_codes (ke_entry c),
      ei_retention_class = ee_retention_class (ke_entry c),
      ei_retention_expires_at = ke_retention c, ei_environment = ee_environment (ke_entry c),
      ei_scenario = ee_scenario (ke_entry c)\<rparr>"

definition ingested_event :: "actor_context \<Rightarrow> uuid \<Rightarrow> instant \<Rightarrow> uuid \<Rightarrow> retention_event" where
  "ingested_event actor evidence_id now fresh =
     \<lparr>rn_id = fresh, rn_org = actor_org actor, rn_evidence = evidence_id, rn_state = lit ''ACTIVE'',
      rn_reason = lit ''manifest_ingested'', rn_actor_type = actor_type actor,
      rn_actor_id = actor_id actor, rn_occurred_at = now\<rparr>"

section \<open>The entries of a manifest\<close>

definition check_entry_producer :: "manifest_document \<Rightarrow> evidence_entry \<Rightarrow> unit result" where
  "check_entry_producer m e =
     guard_res (ee_producer e = md_producer m \<and> ee_producer_version e = md_producer_version m)
       (ValueError ''Entry producer identity must match the manifest producer'')"

definition check_entry ::
  "environment \<Rightarrow> uuid \<Rightarrow> uuid \<Rightarrow> uuid \<Rightarrow> work_revision option \<Rightarrow> manifest_document \<Rightarrow> db
     \<Rightarrow> uuid \<times> evidence_entry \<Rightarrow> checked_entry result"
where
  "check_entry env org repository scope_id work_revision m d = (\<lambda>(i, e).
     bind_res (check_entry_producer m e) (\<lambda>_.
     bind_res (validate_relative_artifact_path (ee_artifact_reference e)) (\<lambda>_.
     bind_res (validate_source_url env (ee_source_url e)) (\<lambda>_.
     bind_res (optional_datetime env (ee_started_at e) ''started_at'') (\<lambda>started.
     bind_res (aware_datetime env (ee_completed_at e) ''completed_at'') (\<lambda>completed.
     bind_res (optional_datetime env (ee_retention_expires_at e) ''retention_expires_at'') (\<lambda>retention.
     bind_res (guard_res (case started of None \<Rightarrow> True | Some t \<Rightarrow> t \<le> completed)
                 (ValueError ''Evidence completed_at cannot precede started_at'')) (\<lambda>_.
     bind_res (guard_res (case retention of None \<Rightarrow> True | Some t \<Rightarrow> completed < t)
                 (ValueError ''Evidence retention must extend beyond completion'')) (\<lambda>_.
     bind_res (validate_type_specific e completed work_revision org repository d) (\<lambda>approval.
     bind_res (resolve_evidence_artifact_blob e org repository scope_id (md_pull_request_number m)
                 (md_commit_sha m) (governance d)) (\<lambda>blob.
       Inr \<lparr>ke_entry = e, ke_id = i, ke_started = started, ke_completed = completed,
            ke_retention = retention, ke_approval = approval, ke_blob = blob\<rparr>)))))))))))"

text \<open>The uniqueness within a manifest; the result is the evidence IDs in order.\<close>

definition evidence_identity :: "evidence_entry \<Rightarrow> pystr \<times> pystr \<times> pystr" where
  "evidence_identity e = (ee_content_hash e, ee_kind e, ee_name e)"

definition check_entry_identities :: "evidence_entry list \<Rightarrow> uuid list result" where
  "check_entry_identities es =
     bind_res (map_res (\<lambda>e. uuid_of (ee_evidence_id e)) es) (\<lambda>ids.
     bind_res (guard_res (distinct ids)
                 (ValueError ''Evidence IDs must be unique within a manifest'')) (\<lambda>_.
     bind_res (map_res uuid_of (List.map_filter ee_artifact_blob_id es)) (\<lambda>blobs.
     bind_res (guard_res (distinct blobs)
                 (ValueError ''Evidence artifact blob IDs must be unique within a manifest'')) (\<lambda>_.
     bind_res (guard_res (distinct (map evidence_identity es))
                 (ValueError ''Evidence content/kind/name identities must be unique'')) (\<lambda>_.
       Inr ids)))))"

section \<open>Submission\<close>

text \<open>\<^verbatim>\<open>EvidenceImportResult\<close>.\<close>

record evidence_import_result =
  er_manifest :: evidence_manifest
  er_evidence :: "evidence list"
  er_created :: bool

text \<open>The work revision a manifest names, which belongs to its repository and scope.\<close>

definition manifest_revision :: "manifest_document \<Rightarrow> uuid \<Rightarrow> uuid \<Rightarrow> uuid \<Rightarrow> db \<Rightarrow> work_revision option result"
where
  "manifest_revision m org repository scope_id d =
     (case md_work_revision_id m of
        None \<Rightarrow> Inr None
      | Some raw \<Rightarrow>
          bind_res (uuid_of raw) (\<lambda>i.
          bind_res (get_tenant_record work_revision_table i org d) (\<lambda>r.
          bind_res (work_item_of d r) (\<lambda>w.
          bind_res (guard_res (wi_repository w = repository \<and> wi_access_scope w = scope_id)
                      ResourceNotFoundError) (\<lambda>_. Inr (Some r))))))"

text \<open>The manifest already stored under the identifier or the content of this one.\<close>

definition find_manifest ::
  "uuid \<Rightarrow> uuid \<Rightarrow> uuid \<Rightarrow> pystr \<Rightarrow> manifest_document \<Rightarrow> governance \<Rightarrow> evidence_manifest option result"
where
  "find_manifest org repository manifest_id digest m g =
     bind_res (guard_res
                 (case find_by (\<lambda>x. em_org x = org \<and> em_id x = manifest_id) (evidence_manifests g) of
                    None \<Rightarrow> True | Some x \<Rightarrow> em_payload_hash x = digest) IdempotencyConflictError) (\<lambda>_.
       (case find_by (\<lambda>x. em_org x = org \<and> em_repository x = repository \<and> em_payload_hash x = digest)
               (evidence_manifests g) of
          None \<Rightarrow> Inr None
        | Some x \<Rightarrow>
            bind_res (guard_res (em_commit x = md_commit_sha m
                                 \<and> em_pull_request x = md_pull_request_number m)
                        IdempotencyConflictError) (\<lambda>_. Inr (Some x))))"

text \<open>The rows of the entries in order, each with its first retention event.\<close>

fun store_entries ::
  "actor_context \<Rightarrow> uuid \<Rightarrow> pystr \<Rightarrow> instant \<Rightarrow> (uuid \<Rightarrow> uuid) \<Rightarrow> checked_entry list \<Rightarrow> governance
     \<Rightarrow> governance result"
where
  "store_entries actor manifest commit now fresh [] g = Inr g"
| "store_entries actor manifest commit now fresh (c # cs) g =
     bind_res (insert_evidence (evidence_row (actor_org actor) manifest commit c) g) (\<lambda>g'.
       store_entries actor manifest commit now fresh cs
         (g'\<lparr>retention_events := retention_events g'
               @ [ingested_event actor (ke_id c) now (fresh (ke_id c))]\<rparr>))"

definition store_manifest ::
  "environment \<Rightarrow> actor_context \<Rightarrow> manifest_document \<Rightarrow> (pystr \<times> json) list \<Rightarrow> uuid \<Rightarrow> uuid \<Rightarrow> uuid
     \<Rightarrow> uuid option \<Rightarrow> pystr \<Rightarrow> nat \<Rightarrow> checked_entry list \<Rightarrow> instant \<Rightarrow> uuid \<Rightarrow> (uuid \<Rightarrow> uuid) \<Rightarrow> db
     \<Rightarrow> (evidence_import_result \<times> db) result"
where
  "store_manifest env actor m items i repository scope_id revision digest bytes checked now fresh fresh_event d =
     bind_res (insert_artifact (manifest_artifact actor m items scope_id digest fresh) d) (\<lambda>d1.
     let row = manifest_row actor m i repository scope_id fresh revision digest bytes
     in bind_res (insert_manifest row (governance d1)) (\<lambda>g1.
        bind_res (store_entries actor i (md_commit_sha m) now fresh_event checked g1) (\<lambda>g2.
        bind_res (record_transition env (actor_org actor) actor (lit ''evidencemanifest'') i []
                    (lit ''INGESTED'') 1
                    [(lit ''content_hash'', JStr digest), (lit ''repository_id'', JStr (uuid_str repository))]
                    (d1\<lparr>governance := g2\<rparr>)) (\<lambda>d2.
          Inr (\<lparr>er_manifest = row,
                er_evidence = map (evidence_row (actor_org actor) i (md_commit_sha m)) checked,
                er_created = True\<rparr>, d2)))))"

definition submit_evidence_manifest ::
  "environment \<Rightarrow> actor_context \<Rightarrow> uuid \<Rightarrow> int \<Rightarrow> json \<Rightarrow> instant \<Rightarrow> uuid \<Rightarrow> (uuid \<Rightarrow> uuid) \<Rightarrow> db
     \<Rightarrow> (evidence_import_result \<times> db) result"
where
  "submit_evidence_manifest env actor repository number payload now fresh fresh_event d =
     bind_res (canonical_text (env_float_repr env) payload) (\<lambda>text.
     bind_res (guard_res (text_bytes text \<le> 64 * 1024)
                 (ValueError ''Evidence manifest exceeds the 64 KiB limit'')) (\<lambda>_.
     bind_res (validate_payload env (lit ''evidence-manifest'') payload) (\<lambda>_.
     bind_res (reject_secrets env payload) (\<lambda>_.
     bind_res (as_dict payload) (\<lambda>items.
     bind_res (read_manifest items) (\<lambda>m.
     bind_res (validate_full_commit (md_commit_sha m)) (\<lambda>_.
     bind_res (uuid_of (md_organization_id m)) (\<lambda>org.
     bind_res (uuid_of (md_repository_id m)) (\<lambda>named.
     bind_res (guard_res (org = actor_org actor \<and> named = repository \<and> md_pull_request_number m = number)
                 ResourceNotFoundError) (\<lambda>_.
     bind_res (uuid_of (md_access_scope_id m)) (\<lambda>scope_id.
     bind_res (authorize_action env now d actor EVIDENCE_SUBMIT (Some repository) None (Some scope_id) False)
       (\<lambda>decision.
     bind_res (audit_actor actor decision) (\<lambda>auditor.
     bind_res (get_tenant_record active_repository_table repository (actor_org actor) d) (\<lambda>_.
     bind_res (get_tenant_record active_scope_table scope_id (actor_org actor) d) (\<lambda>_.
     bind_res (manifest_revision m (actor_org actor) repository scope_id d) (\<lambda>work_revision.
     bind_res (content_hash env payload) (\<lambda>digest.
     bind_res (uuid_of (md_manifest_id m)) (\<lambda>manifest_id.
     bind_res (find_manifest (actor_org actor) repository manifest_id digest m (governance d)) (\<lambda>known.
       case known of
         Some x \<Rightarrow>
           Inr (\<lparr>er_manifest = x,
                 er_evidence = sort_key ei_id (filter (\<lambda>e. ei_manifest e = em_id x)
                                                (evidence_items (governance d))),
                 er_created = False\<rparr>, d)
       | None \<Rightarrow>
           bind_res (check_entry_identities (md_entries m)) (\<lambda>ids.
           bind_res (guard_res (\<not> list_ex (\<lambda>e. ei_org e = actor_org actor \<and> ei_id e \<in> set ids)
                                    (evidence_items (governance d))) IdempotencyConflictError) (\<lambda>_.
           bind_res (map_res (check_entry env (actor_org actor) repository scope_id work_revision m d)
                       (zip ids (md_entries m))) (\<lambda>checked.
             store_manifest env auditor m items manifest_id repository scope_id
               (map_option wr_id work_revision) digest (text_bytes text) checked now fresh fresh_event d
           ))))))))))))))))))))))"

end
