(* ===== verification/EvidenceMapping.thy ===== *)
theory EvidenceMapping
  imports Evidence
begin

text \<open>
  \<^verbatim>\<open>map_criterion_evidence\<close> of \<^verbatim>\<open>src/anva/core/services/evidence.py\<close>: every required evidence type of
  every acceptance criterion of a work revision is mapped to the first eligible evidence for one commit, or
  to an explicit gap.  A reference time is its instant with its ISO text.
\<close>

section \<open>Eligible evidence\<close>

text \<open>\<^verbatim>\<open>order_by("-occurred_at", "-id").first()\<close> over the events up to the reference time.\<close>

definition latest_retention :: "governance \<Rightarrow> uuid \<Rightarrow> instant \<Rightarrow> retention_event option" where
  "latest_retention g evidence_id t =
     first_by (\<lambda>e. (- rn_occurred_at e, - int (rn_id e)))
       (filter (\<lambda>e. rn_evidence e = evidence_id \<and> rn_occurred_at e \<le> t) (retention_events g))"

definition is_retained :: "governance \<Rightarrow> evidence \<Rightarrow> instant \<Rightarrow> bool" where
  "is_retained g e t \<longleftrightarrow>
     (case latest_retention g (ei_id e) t of
        None \<Rightarrow> False
      | Some event \<Rightarrow>
          rn_state event = lit ''ACTIVE''
          \<and> (case ei_retention_expires_at e of None \<Rightarrow> True | Some x \<Rightarrow> t < x))"

definition approval_applies_to_criterion ::
  "governance \<Rightarrow> approval \<Rightarrow> acceptance_criterion \<Rightarrow> work_revision \<Rightarrow> bool"
where
  "approval_applies_to_criterion g a c r \<longleftrightarrow>
     (if ap_target_kind a = lit ''WORK_ITEM_REVISION'' then ap_target_key a = uuid_str (wr_id r)
      else if ap_target_kind a = lit ''ACCEPTANCE_CRITERION'' then ap_target_key a = cr_code c
      else ap_target_kind a = lit ''REQUIREMENT''
           \<and> (case criterion_requirement g c of None \<Rightarrow> False | Some q \<Rightarrow> ap_target_key a = re_code q))"

definition approval_of :: "governance \<Rightarrow> evidence \<Rightarrow> approval option" where
  "approval_of g e =
     (case ei_approval e of None \<Rightarrow> None | Some i \<Rightarrow> find_by (\<lambda>a. ap_id a = i) (approvals g))"

definition approval_satisfies ::
  "governance \<Rightarrow> acceptance_criterion \<Rightarrow> work_revision \<Rightarrow> instant \<Rightarrow> evidence \<Rightarrow> bool"
where
  "approval_satisfies g c r t e \<longleftrightarrow>
     cr_manual_approval c
     \<and> (case approval_of g e of
          None \<Rightarrow> False
        | Some a \<Rightarrow>
            ap_revision a = wr_id r \<and> approval_applies_to_criterion g a c r \<and> ap_decided_at a \<le> t
            \<and> (case ap_expires_at a of None \<Rightarrow> True | Some x \<Rightarrow> t < x)
            \<and> \<not> approval_withdrawn_by g a t)"

definition eligible_evidence ::
  "governance \<Rightarrow> acceptance_criterion \<Rightarrow> work_revision \<Rightarrow> pystr \<Rightarrow> instant \<Rightarrow> evidence \<Rightarrow> bool"
where
  "eligible_evidence g c r required t e \<longleftrightarrow>
     cr_code c \<in> set (ei_criterion_codes e) \<and> ei_kind e = required \<and> ei_completed_at e \<le> t
     \<and> is_retained g e t
     \<and> (ei_kind e \<noteq> MANUAL_APPROVAL \<or> approval_satisfies g c r t e)"

text \<open>The evidence of one revision and pull request that passed: for the commit, and for any other.\<close>

definition of_target :: "governance \<Rightarrow> uuid \<Rightarrow> uuid \<Rightarrow> int \<Rightarrow> uuid \<Rightarrow> evidence \<Rightarrow> bool" where
  "of_target g org repository number revision e \<longleftrightarrow>
     ei_org e = org \<and> ei_status e = PASSED
     \<and> list_ex (\<lambda>m. em_id m = ei_manifest e \<and> em_repository m = repository
                   \<and> em_pull_request m = number \<and> em_work_revision m = Some revision)
         (evidence_manifests g)"

definition exact_evidence ::
  "governance \<Rightarrow> uuid \<Rightarrow> uuid \<Rightarrow> int \<Rightarrow> uuid \<Rightarrow> pystr \<Rightarrow> evidence list"
where
  "exact_evidence g org repository number revision commit =
     sort_key (\<lambda>e. (ei_content_hash e, ei_id e))
       (filter (\<lambda>e. of_target g org repository number revision e \<and> ei_commit e = commit)
          (evidence_items g))"

definition other_commit_pairs ::
  "governance \<Rightarrow> uuid \<Rightarrow> uuid \<Rightarrow> int \<Rightarrow> uuid \<Rightarrow> pystr \<Rightarrow> (pystr \<times> pystr) list"
where
  "other_commit_pairs g org repository number revision commit =
     concat (map (\<lambda>e. map (\<lambda>code. (code, ei_kind e)) (ei_criterion_codes e))
       (filter (\<lambda>e. of_target g org repository number revision e \<and> ei_commit e \<noteq> commit)
          (evidence_items g)))"

section \<open>The mapping of one criterion and type\<close>

text \<open>What one call maps against: the target, the reference time and the verifier.\<close>

record mapping_target =
  mt_repository :: uuid
  mt_pull_request :: int
  mt_commit :: pystr
  mt_reference :: instant
  mt_reference_text :: pystr

definition gap_code_of :: "(pystr \<times> pystr) list \<Rightarrow> acceptance_criterion \<Rightarrow> pystr \<Rightarrow> pystr" where
  "gap_code_of pairs c required =
     (if (cr_code c, required) \<in> set pairs then lit ''STALE_EVIDENCE_ONLY''
      else lit ''NO_ELIGIBLE_EVIDENCE'')"

definition gap_description_of :: "(pystr \<times> pystr) list \<Rightarrow> acceptance_criterion \<Rightarrow> pystr \<Rightarrow> pystr" where
  "gap_description_of pairs c required =
     (if (cr_code c, required) \<in> set pairs
      then lit ''Evidence exists only for a different commit.''
      else lit ''No eligible '' @ required @ lit '' evidence satisfies this criterion.'')"

definition mapping_engine :: pystr where
  "mapping_engine = lit ''criterion-evidence-v1''"

definition mapping_input :: "mapping_target \<Rightarrow> uuid \<Rightarrow> pystr \<Rightarrow> (pystr \<times> json) list" where
  "mapping_input t criterion required =
     [(lit ''criterion_id'', uuid_json criterion),
      (lit ''required_evidence_type'', JStr required),
      (lit ''target_commit'', JStr (mt_commit t)),
      (lit ''pull_request_number'', JInt (mt_pull_request t)),
      (lit ''reference_time'', JStr (mt_reference_text t)),
      (lit ''mapping_engine'', JStr mapping_engine)]"

definition mapping_identity ::
  "mapping_target \<Rightarrow> uuid \<Rightarrow> pystr \<Rightarrow> uuid option \<Rightarrow> pystr \<Rightarrow> json"
where
  "mapping_identity t criterion required evidence_id gap_code =
     JDict (mapping_input t criterion required
       @ [(lit ''evidence_id'', case evidence_id of None \<Rightarrow> JNull | Some i \<Rightarrow> uuid_json i),
          (lit ''gap_code'', JStr gap_code)])"

definition mapping_row ::
  "actor_context \<Rightarrow> uuid \<Rightarrow> mapping_target \<Rightarrow> acceptance_criterion \<Rightarrow> pystr \<Rightarrow> evidence option
     \<Rightarrow> (pystr \<times> pystr) list \<Rightarrow> pystr \<Rightarrow> pystr \<Rightarrow> uuid \<Rightarrow> criterion_evidence"
where
  "mapping_row actor scope_id t c required selected pairs key input_hash fresh =
     \<lparr>ce_id = fresh, ce_org = actor_org actor, ce_access_scope = scope_id, ce_criterion = cr_id c,
      ce_evidence = map_option ei_id selected, ce_target_commit = mt_commit t,
      ce_pull_request = mt_pull_request t, ce_reference_time = mt_reference t,
      ce_required_type = required, ce_engine_version = mapping_engine, ce_mapping_key = key,
      ce_input_hash = input_hash,
      ce_classification = (case selected of None \<Rightarrow> lit ''GAP'' | Some e \<Rightarrow> lit ''DIRECT''),
      ce_assessment = (case selected of None \<Rightarrow> lit ''GAP'' | Some e \<Rightarrow> lit ''SATISFIED''),
      ce_verifier_type = actor_type actor, ce_verifier_id = actor_id actor,
      ce_limitations = (case selected of None \<Rightarrow> JList [] | Some e \<Rightarrow> ei_limitations e),
      ce_confidence = (case selected of None \<Rightarrow> 0 | Some e \<Rightarrow> 1),
      ce_gap_code = (case selected of None \<Rightarrow> gap_code_of pairs c required | Some e \<Rightarrow> []),
      ce_gap_description = (case selected of None \<Rightarrow> gap_description_of pairs c required | Some e \<Rightarrow> [])\<rparr>"

section \<open>The loop\<close>

text \<open>
  The criteria with their required types in the order the loops take them, each with the evidence chosen
  for it: \<^verbatim>\<open>candidates[0] if candidates else None\<close>.
\<close>

definition criteria_in_order :: "governance \<Rightarrow> uuid \<Rightarrow> uuid \<Rightarrow> acceptance_criterion list" where
  "criteria_in_order g org revision =
     sort_key (\<lambda>c. (cr_position c, cr_id c))
       (filter (\<lambda>c. cr_org c = org \<and> cr_revision c = revision) (acceptance_criteria g))"

definition select_evidence ::
  "governance \<Rightarrow> work_revision \<Rightarrow> mapping_target \<Rightarrow> evidence list \<Rightarrow> acceptance_criterion \<Rightarrow> pystr
     \<Rightarrow> evidence option"
where
  "select_evidence g r t exact c required =
     (case filter (eligible_evidence g c r required (mt_reference t)) exact of
        [] \<Rightarrow> None
      | e # _ \<Rightarrow> Some e)"

definition required_pairs :: "acceptance_criterion list \<Rightarrow> (acceptance_criterion \<times> pystr) list" where
  "required_pairs cs = concat (map (\<lambda>c. map (\<lambda>ty. (c, ty)) (sorted_set (cr_evidence_types c))) cs)"

text \<open>The state of the loop: the mappings so far, whether one was created, the database.\<close>

record mapping_state =
  ms_mappings :: "criterion_evidence list"
  ms_created :: bool
  ms_db :: db

text \<open>The body: \<^verbatim>\<open>get_or_create\<close> on the mapping key, and the transition of a row that is new.\<close>

definition map_one ::
  "environment \<Rightarrow> actor_context \<Rightarrow> uuid \<Rightarrow> governance \<Rightarrow> work_revision \<Rightarrow> mapping_target \<Rightarrow> evidence list
     \<Rightarrow> (pystr \<times> pystr) list \<Rightarrow> (nat \<Rightarrow> uuid) \<Rightarrow> acceptance_criterion \<times> pystr \<Rightarrow> mapping_state
     \<Rightarrow> mapping_state result"
where
  "map_one env actor scope_id g r t exact pairs fresh = (\<lambda>(c, required) s.
     let selected = select_evidence g r t exact c required;
         gap = (case selected of None \<Rightarrow> gap_code_of pairs c required | Some e \<Rightarrow> [])
     in bind_res (content_hash env
                    (mapping_identity t (cr_id c) required (map_option ei_id selected) gap)) (\<lambda>key.
        bind_res (content_hash env (JDict (mapping_input t (cr_id c) required))) (\<lambda>input_hash.
        case find_by (\<lambda>m. ce_org m = actor_org actor \<and> ce_mapping_key m = key)
               (criterion_mappings (governance (ms_db s))) of
          Some m \<Rightarrow> Inr (s\<lparr>ms_mappings := ms_mappings s @ [m]\<rparr>)
        | None \<Rightarrow>
            let m = mapping_row actor scope_id t c required selected pairs key input_hash
                      (fresh (length (ms_mappings s)));
                d = ms_db s;
                d1 = d\<lparr>governance := (governance d)\<lparr>criterion_mappings :=
                         criterion_mappings (governance d) @ [m]\<rparr>\<rparr>
            in bind_res (record_transition env (wr_org r) actor (lit ''criterionevidence'') (ce_id m) []
                           (ce_assessment m) 1 [] d1)
                 (\<lambda>d2. Inr \<lparr>ms_mappings = ms_mappings s @ [m], ms_created = True, ms_db = d2\<rparr>))))"

text \<open>
  The authorization of the call: to view evidence and to execute assurance, in the repository and then in
  the scope of the work item.  \<^verbatim>\<open>CriterionMappingResult\<close> is the pair of the mappings and the flag.
\<close>

definition authorize_mapping ::
  "environment \<Rightarrow> instant \<Rightarrow> db \<Rightarrow> actor_context \<Rightarrow> uuid \<Rightarrow> uuid option \<Rightarrow> decision result"
where
  "authorize_mapping env now d actor repository scope_id =
     bind_res (authorize_action env now d actor EVIDENCE_VIEW (Some repository) None scope_id False) (\<lambda>_.
       authorize_action env now d actor ASSURANCE_EXECUTE (Some repository) None scope_id False)"

definition map_criterion_evidence ::
  "environment \<Rightarrow> actor_context \<Rightarrow> mapping_target \<Rightarrow> uuid \<Rightarrow> instant \<Rightarrow> (nat \<Rightarrow> uuid) \<Rightarrow> db
     \<Rightarrow> ((criterion_evidence list \<times> bool) \<times> db) result"
where
  "map_criterion_evidence env actor t revision_id now fresh d =
     bind_res (validate_full_commit (mt_commit t)) (\<lambda>_.
     bind_res (guard_res (1 \<le> mt_pull_request t)
                 (ValueError ''pull_request_number must be positive'')) (\<lambda>_.
     bind_res (authorize_mapping env now d actor (mt_repository t) None) (\<lambda>_.
     bind_res (get_tenant_record work_revision_table revision_id (actor_org actor) d) (\<lambda>r.
     bind_res (work_item_of d r) (\<lambda>i.
     bind_res (guard_res (wi_repository i = mt_repository t) ResourceNotFoundError) (\<lambda>_.
     bind_res (authorize_mapping env now d actor (mt_repository t) (Some (wi_access_scope i))) (\<lambda>decision.
     bind_res (audit_actor actor decision) (\<lambda>auditor.
     let g = governance d;
         exact = exact_evidence g (actor_org actor) (mt_repository t) (mt_pull_request t) (wr_id r) (mt_commit t);
         pairs = other_commit_pairs g (actor_org actor) (mt_repository t) (mt_pull_request t) (wr_id r)
                   (mt_commit t)
     in bind_res (fold_res (map_one env auditor (wi_access_scope i) g r t exact pairs fresh)
                    (required_pairs (criteria_in_order g (actor_org actor) (wr_id r)))
                    \<lparr>ms_mappings = [], ms_created = False, ms_db = d\<rparr>)
          (\<lambda>s. Inr ((ms_mappings s, ms_created s), ms_db s))))))))))"

end
