(* ===== verification/MappingSafety.thy ===== *)
theory MappingSafety
  imports EvidenceMapping CanonicalTexts
begin

text \<open>
  What the loop of \<^verbatim>\<open>map_criterion_evidence\<close> returns and leaves behind: one mapping for each criterion and
  required type in order, either a new row or the stored row whose key is the digest of the same identity;
  and, where the stored keys are the digests of their rows and no two identities share a digest, exactly
  the mapping that the selection asks for.
\<close>

section \<open>The identity of a stored mapping\<close>

definition identity_of :: "criterion_evidence \<Rightarrow> pystr \<Rightarrow> json" where
  "identity_of m text =
     mapping_identity \<lparr>mt_repository = 0, mt_pull_request = ce_pull_request m, mt_commit = ce_target_commit m,
       mt_reference = ce_reference_time m, mt_reference_text = text\<rparr>
       (ce_criterion m) (ce_required_type m) (ce_evidence m) (ce_gap_code m)"

text \<open>A row whose key is the digest of its identity, and whose assessment and gap say what its evidence says.\<close>

definition mapping_faithful :: "environment \<Rightarrow> criterion_evidence \<Rightarrow> bool" where
  "mapping_faithful env m \<longleftrightarrow>
     (\<exists>text. content_hash env (identity_of m text) = Inr (ce_mapping_key m))
     \<and> ce_assessment m = (case ce_evidence m of None \<Rightarrow> lit ''GAP'' | Some i \<Rightarrow> lit ''SATISFIED'')
     \<and> (ce_evidence m = None \<longleftrightarrow> ce_gap_code m \<noteq> [])"

definition mappings_faithful :: "environment \<Rightarrow> governance \<Rightarrow> bool" where
  "mappings_faithful env g \<longleftrightarrow> (\<forall>m\<in>set (criterion_mappings g). mapping_faithful env m)"

lemma gap_code_nonempty [simp]: "gap_code_of pairs c required \<noteq> []"
  by (simp add: gap_code_of_def)

lemma identity_of_row:
  "identity_of (mapping_row actor scope_id t c required selected pairs key h fresh) (mt_reference_text t)
     = mapping_identity t (cr_id c) required (map_option ei_id selected)
         (case selected of None \<Rightarrow> gap_code_of pairs c required | Some e \<Rightarrow> [])"
  by (simp add: identity_of_def mapping_row_def mapping_identity_def mapping_input_def)

lemma new_row_faithful:
  assumes "content_hash env (mapping_identity t (cr_id c) required (map_option ei_id selected)
             (case selected of None \<Rightarrow> gap_code_of pairs c required | Some e \<Rightarrow> [])) = Inr key"
  shows "mapping_faithful env (mapping_row actor scope_id t c required selected pairs key h fresh)"
proof -
  let ?m = "mapping_row actor scope_id t c required selected pairs key h fresh"
  have "content_hash env (identity_of ?m (mt_reference_text t)) = Inr (ce_mapping_key ?m)"
    using assms by (simp add: identity_of_row) (simp add: mapping_row_def)
  moreover have "ce_assessment ?m = (case ce_evidence ?m of None \<Rightarrow> lit ''GAP'' | Some i \<Rightarrow> lit ''SATISFIED'')"
    "ce_evidence ?m = None \<longleftrightarrow> ce_gap_code ?m \<noteq> []"
    by (simp_all add: mapping_row_def split: option.split)
  ultimately show ?thesis unfolding mapping_faithful_def by blast
qed

section \<open>The loop\<close>

definition requested_identity ::
  "governance \<Rightarrow> work_revision \<Rightarrow> mapping_target \<Rightarrow> evidence list \<Rightarrow> (pystr \<times> pystr) list
     \<Rightarrow> acceptance_criterion \<times> pystr \<Rightarrow> json"
where
  "requested_identity g r t exact pairs = (\<lambda>(c, required).
     let selected = select_evidence g r t exact c required
     in mapping_identity t (cr_id c) required (map_option ei_id selected)
          (case selected of None \<Rightarrow> gap_code_of pairs c required | Some e \<Rightarrow> []))"

text \<open>What the loop answers for one criterion and type, over the rows stored before it and by it.\<close>

definition answers ::
  "environment \<Rightarrow> uuid \<Rightarrow> governance \<Rightarrow> work_revision \<Rightarrow> mapping_target \<Rightarrow> evidence list
     \<Rightarrow> (pystr \<times> pystr) list \<Rightarrow> acceptance_criterion \<times> pystr \<Rightarrow> criterion_evidence \<Rightarrow> bool"
where
  "answers env org g r t exact pairs p m \<longleftrightarrow>
     ce_org m = org \<and> content_hash env (requested_identity g r t exact pairs p) = Inr (ce_mapping_key m)"

text \<open>A row that the selection at the reference time made.\<close>

definition made_by ::
  "uuid \<Rightarrow> governance \<Rightarrow> work_revision \<Rightarrow> mapping_target \<Rightarrow> evidence list
     \<Rightarrow> acceptance_criterion list \<Rightarrow> criterion_evidence \<Rightarrow> bool"
where
  "made_by org g r t exact cs m \<longleftrightarrow>
     ce_org m = org \<and> ce_target_commit m = mt_commit t \<and> ce_reference_time m = mt_reference t
     \<and> ce_pull_request m = mt_pull_request t
     \<and> (\<exists>c\<in>set cs. ce_criterion m = cr_id c \<and> ce_required_type m \<in> set (cr_evidence_types c)
          \<and> ce_evidence m = map_option ei_id (select_evidence g r t exact c (ce_required_type m)))"

definition added_mappings :: "db \<Rightarrow> db \<Rightarrow> criterion_evidence list \<Rightarrow> bool" where
  "added_mappings d d' new \<longleftrightarrow>
     governance d' = (governance d)\<lparr>criterion_mappings := criterion_mappings (governance d) @ new\<rparr>"

lemma required_pairs_in: "(c, ty) \<in> set (required_pairs cs) \<longleftrightarrow> c \<in> set cs \<and> ty \<in> set (cr_evidence_types c)"
  by (auto simp: required_pairs_def)

lemma map_one_Inr:
  assumes "map_one env actor scope_id g r t exact pairs fresh p s = Inr s'" "fst p \<in> set cs" "snd p \<in> set (cr_evidence_types (fst p))"
  obtains m new where "ms_mappings s' = ms_mappings s @ [m]" "answers env (actor_org actor) g r t exact pairs p m"
    "added_mappings (ms_db s) (ms_db s') new" "m \<in> set (criterion_mappings (governance (ms_db s')))"
    "\<forall>x\<in>set new. mapping_faithful env x \<and> made_by (actor_org actor) g r t exact cs x"
proof -
  obtain c required where p: "p = (c, required)" by fastforce
  let ?sel = "select_evidence g r t exact c required"
  let ?gap = "case ?sel of None \<Rightarrow> gap_code_of pairs c required | Some e \<Rightarrow> []"
  note a = assms(1) [unfolded p map_one_def prod.case Let_def bind_res_Inr]
  from a obtain key h where
    key: "content_hash env (mapping_identity t (cr_id c) required (map_option ei_id ?sel) ?gap) = Inr key"
    and rest: "(case find_by (\<lambda>m. ce_org m = actor_org actor \<and> ce_mapping_key m = key)
               (criterion_mappings (governance (ms_db s))) of
          Some m \<Rightarrow> Inr (s\<lparr>ms_mappings := ms_mappings s @ [m]\<rparr>)
        | None \<Rightarrow>
            bind_res (record_transition env (wr_org r) actor (lit ''criterionevidence'')
              (ce_id (mapping_row actor scope_id t c required ?sel pairs key h (fresh (length (ms_mappings s))))) []
              (ce_assessment (mapping_row actor scope_id t c required ?sel pairs key h (fresh (length (ms_mappings s))))) 1 []
              ((ms_db s)\<lparr>governance := (governance (ms_db s))\<lparr>criterion_mappings :=
                 criterion_mappings (governance (ms_db s))
                   @ [mapping_row actor scope_id t c required ?sel pairs key h (fresh (length (ms_mappings s)))]\<rparr>\<rparr>))
              (\<lambda>d2. Inr \<lparr>ms_mappings = ms_mappings s
                  @ [mapping_row actor scope_id t c required ?sel pairs key h (fresh (length (ms_mappings s)))],
                ms_created = True, ms_db = d2\<rparr>)) = Inr s'"
    by (elim exE conjE) (rule that; (assumption | simp add: bind_res_Inr cong: option.case_cong))
  have asked: "content_hash env (requested_identity g r t exact pairs p) = Inr key"
    using key by (simp add: requested_identity_def p Let_def)
  show thesis
  proof (cases "find_by (\<lambda>m. ce_org m = actor_org actor \<and> ce_mapping_key m = key) (criterion_mappings (governance (ms_db s)))")
    case (Some m)
    then have s': "s' = s\<lparr>ms_mappings := ms_mappings s @ [m]\<rparr>" using rest by simp
    show thesis
      by (rule that [of m "[]"]) (use s' asked find_by_Some_iff [OF Some] in \<open>simp_all add: answers_def added_mappings_def\<close>)
  next
    case None
    define m where "m = mapping_row actor scope_id t c required ?sel pairs key h (fresh (length (ms_mappings s)))"
    from rest [unfolded None option.case, folded m_def] obtain d2 where
      rec: "record_transition env (wr_org r) actor (lit ''criterionevidence'') (ce_id m) [] (ce_assessment m) 1 []
              ((ms_db s)\<lparr>governance := (governance (ms_db s))\<lparr>criterion_mappings :=
                 criterion_mappings (governance (ms_db s)) @ [m]\<rparr>\<rparr>) = Inr d2"
      and s': "s' = \<lparr>ms_mappings = ms_mappings s @ [m], ms_created = True, ms_db = d2\<rparr>"
      by (auto simp: bind_res_Inr)
    have g: "governance d2 = (governance (ms_db s))\<lparr>criterion_mappings := criterion_mappings (governance (ms_db s)) @ [m]\<rparr>"
      using record_transition_frame(36) [OF rec] by simp
    have "mapping_faithful env m" unfolding m_def by (rule new_row_faithful [OF key])
    moreover have "made_by (actor_org actor) g r t exact cs m"
      using assms(2,3) p by (auto simp: made_by_def m_def mapping_row_def)
    moreover have "ce_org m = actor_org actor" "ce_mapping_key m = key" by (simp_all add: m_def mapping_row_def)
    ultimately show thesis
      by (intro that [of m "[m]"]) (use s' asked g in \<open>simp_all add: answers_def added_mappings_def\<close>)
  qed
qed

lemma added_mappings_trans: "added_mappings a b xs \<Longrightarrow> added_mappings b c ys \<Longrightarrow> added_mappings a c (xs @ ys)"
  by (simp add: added_mappings_def)

lemma map_loop_Inr:
  assumes "fold_res (map_one env actor scope_id g r t exact pairs fresh) ps s = Inr s'"
    and "\<And>p. p \<in> set ps \<Longrightarrow> fst p \<in> set cs \<and> snd p \<in> set (cr_evidence_types (fst p))"
  shows "\<exists>ms new. ms_mappings s' = ms_mappings s @ ms \<and> list_all2 (answers env (actor_org actor) g r t exact pairs) ps ms
     \<and> added_mappings (ms_db s) (ms_db s') new \<and> set ms \<subseteq> set (criterion_mappings (governance (ms_db s')))
     \<and> (\<forall>x\<in>set new. mapping_faithful env x \<and> made_by (actor_org actor) g r t exact cs x)"
  using assms
proof (induction ps arbitrary: s)
  case Nil
  then have "s' = s" by simp
  then have "added_mappings (ms_db s) (ms_db s') []" by (simp add: added_mappings_def)
  with \<open>s' = s\<close> show ?case by (intro exI [of _ "[]"]) simp
next
  case (Cons p ps)
  from Cons.prems(1) obtain s1 where s1: "map_one env actor scope_id g r t exact pairs fresh p s = Inr s1"
    and s': "fold_res (map_one env actor scope_id g r t exact pairs fresh) ps s1 = Inr s'"
    by (auto simp: bind_res_Inr)
  from Cons.IH [OF s'] Cons.prems(2) obtain ms new where ms: "ms_mappings s' = ms_mappings s1 @ ms"
    "list_all2 (answers env (actor_org actor) g r t exact pairs) ps ms" "added_mappings (ms_db s1) (ms_db s') new"
    "set ms \<subseteq> set (criterion_mappings (governance (ms_db s')))"
    "\<forall>x\<in>set new. mapping_faithful env x \<and> made_by (actor_org actor) g r t exact cs x"
    by (metis list.set_intros(2))
  have p: "fst p \<in> set cs" "snd p \<in> set (cr_evidence_types (fst p))" using Cons.prems(2) by simp_all
  from s1 p show ?case
  proof (rule map_one_Inr)
    fix m new'
    assume m: "ms_mappings s1 = ms_mappings s @ [m]" "answers env (actor_org actor) g r t exact pairs p m"
      "added_mappings (ms_db s) (ms_db s1) new'" "m \<in> set (criterion_mappings (governance (ms_db s1)))"
      "\<forall>x\<in>set new'. mapping_faithful env x \<and> made_by (actor_org actor) g r t exact cs x"
    have "m \<in> set (criterion_mappings (governance (ms_db s')))" using m(4) ms(3) by (simp add: added_mappings_def)
    then show ?thesis
      using m ms added_mappings_trans [OF m(3) ms(3)]
      by (intro exI [of _ "m # ms"] exI [of _ "new' @ new"]) auto
  qed
qed

text \<open>The whole call.\<close>

definition selection_over :: "governance \<Rightarrow> uuid \<Rightarrow> mapping_target \<Rightarrow> work_revision \<Rightarrow> evidence list" where
  "selection_over g org t r = exact_evidence g org (mt_repository t) (mt_pull_request t) (wr_id r) (mt_commit t)"

definition stale_pairs :: "governance \<Rightarrow> uuid \<Rightarrow> mapping_target \<Rightarrow> work_revision \<Rightarrow> (pystr \<times> pystr) list" where
  "stale_pairs g org t r = other_commit_pairs g org (mt_repository t) (mt_pull_request t) (wr_id r) (mt_commit t)"

lemma mapping_Inr:
  assumes "map_criterion_evidence env actor t i now fresh d = Inr ((ms, created), d')"
  obtains r it new where "r \<in> set (work_revisions (governance d))" "wr_id r = i" "wr_org r = actor_org actor"
    "work_item_of d r = Inr it" "wi_repository it = mt_repository t"
    "returns (authorize_mapping env now d actor (mt_repository t) (Some (wi_access_scope it)))"
    "list_all2 (answers env (actor_org actor) (governance d) r t (selection_over (governance d) (actor_org actor) t r)
                  (stale_pairs (governance d) (actor_org actor) t r))
       (required_pairs (criteria_in_order (governance d) (actor_org actor) i)) ms"
    "added_mappings d d' new" "set ms \<subseteq> set (criterion_mappings (governance d'))"
    "\<forall>x\<in>set new. mapping_faithful env x
       \<and> made_by (actor_org actor) (governance d) r t (selection_over (governance d) (actor_org actor) t r)
           (criteria_in_order (governance d) (actor_org actor) i) x"
proof -
  note s = assms [unfolded map_criterion_evidence_def Let_def bind_res_Inr, folded selection_over_def stale_pairs_def]
  from s obtain r it dec a st where
    r: "get_tenant_record work_revision_table i (actor_org actor) d = Inr r"
    and it: "work_item_of d r = Inr it" "guard_res (wi_repository it = mt_repository t) ResourceNotFoundError = Inr ()"
    and dec: "authorize_mapping env now d actor (mt_repository t) (Some (wi_access_scope it)) = Inr dec"
    and a: "audit_actor actor dec = Inr a"
    and loop: "fold_res (map_one env a (wi_access_scope it) (governance d) r t
                   (selection_over (governance d) (actor_org actor) t r)
                   (stale_pairs (governance d) (actor_org actor) t r) fresh)
                 (required_pairs (criteria_in_order (governance d) (actor_org actor) (wr_id r)))
                 \<lparr>ms_mappings = [], ms_created = False, ms_db = d\<rparr> = Inr st"
    and res: "((ms_mappings st, ms_created st), ms_db st) = ((ms, created), d')"
    by (elim exE conjE) (rule that; (assumption | simp))
  have row: "r \<in> set (work_revisions (governance d))" "wr_id r = i" "wr_org r = actor_org actor"
    using get_tenant_record_Inr [OF r] by (simp_all add: work_revision_table_def)
  have org: "actor_org a = actor_org actor"
    using a by (auto simp: audit_actor_def dest!: check_actor_Inr)
  let ?cs = "criteria_in_order (governance d) (actor_org actor) (wr_id r)"
  have in_cs: "fst p \<in> set ?cs \<and> snd p \<in> set (cr_evidence_types (fst p))" if "p \<in> set (required_pairs ?cs)" for p
    using that required_pairs_in [of "fst p" "snd p" ?cs] by simp
  from map_loop_Inr [OF loop in_cs] obtain new where
    "list_all2 (answers env (actor_org actor) (governance d) r t (selection_over (governance d) (actor_org actor) t r)
                  (stale_pairs (governance d) (actor_org actor) t r)) (required_pairs ?cs) ms"
    "added_mappings d d' new" "set ms \<subseteq> set (criterion_mappings (governance d'))"
    "\<forall>x\<in>set new. mapping_faithful env x
       \<and> made_by (actor_org actor) (governance d) r t (selection_over (governance d) (actor_org actor) t r) ?cs x"
    using res org by auto
  with row it dec show thesis by (intro that) (auto simp: returns_def guard_res_def split: if_splits)
qed

section \<open>One digest, one mapping\<close>

lemma canonical_text_inj:
  assumes "float_texts fr" "canonical_text fr v = Inr a" "canonical_text fr w = Inr a"
  shows "sorted_keys v = sorted_keys w"
proof -
  have "json_text fr (sorted_keys v) = json_text fr (sorted_keys w)"
    using assms(2,3) by (simp add: canonical_text_def Let_def split: if_splits)
  then show ?thesis
    using render_unique [OF assms(1), of "[]" "[]" "sorted_keys v" "sorted_keys w"] by (simp add: value_ends_def)
qed

text \<open>No two of the identities that are hashed share a digest.\<close>

definition identity_texts :: "environment \<Rightarrow> pystr set" where
  "identity_texts env =
     {a. \<exists>t c required e gap. canonical_text (env_float_repr env) (mapping_identity t c required e gap) = Inr a}"

definition identities_separated :: "environment \<Rightarrow> bool" where
  "identities_separated env \<longleftrightarrow> float_texts (env_float_repr env) \<and> inj_on (env_sha256 env) (identity_texts env)"

lemma sorted_keys_items: "sorted_keys (JDict xs) = sorted_keys (JDict ys) \<Longrightarrow>
    (\<lambda>p. (fst p, sorted_keys (snd p))) ` set xs = (\<lambda>p. (fst p, sorted_keys (snd p))) ` set ys"
  by simp (metis (no_types, lifting) list.set_map set_sort)

lemma same_member:
  assumes "sorted_keys (JDict xs) = sorted_keys (JDict ys)" "distinct (map fst ys)" "(k, v) \<in> set xs" "(k, w) \<in> set ys"
  shows "sorted_keys v = sorted_keys w"
proof -
  have "(k, sorted_keys v) \<in> (\<lambda>p. (fst p, sorted_keys (snd p))) ` set ys"
    using assms(3) unfolding sorted_keys_items [OF assms(1), symmetric] by force
  then obtain v' where "(k, v') \<in> set ys" "sorted_keys v' = sorted_keys v" by auto
  with assms(2,4) show ?thesis by (metis eq_key_imp_eq_value)
qed

definition identity_items :: "mapping_target \<Rightarrow> uuid \<Rightarrow> pystr \<Rightarrow> uuid option \<Rightarrow> pystr \<Rightarrow> (pystr \<times> json) list" where
  "identity_items t criterion required e gap = mapping_input t criterion required
     @ [(lit ''evidence_id'', case e of None \<Rightarrow> JNull | Some i \<Rightarrow> uuid_json i), (lit ''gap_code'', JStr gap)]"

lemma identity_keys: "distinct (map fst (identity_items t c required e gap))"
  by (simp add: identity_items_def mapping_input_def)

lemma identity_members:
  "(lit ''criterion_id'', JStr (uuid_str c)) \<in> set (identity_items t c required e gap)"
  "(lit ''required_evidence_type'', JStr required) \<in> set (identity_items t c required e gap)"
  "(lit ''target_commit'', JStr (mt_commit t)) \<in> set (identity_items t c required e gap)"
  "(lit ''pull_request_number'', JInt (mt_pull_request t)) \<in> set (identity_items t c required e gap)"
  "(lit ''evidence_id'', case e of None \<Rightarrow> JNull | Some i \<Rightarrow> uuid_json i) \<in> set (identity_items t c required e gap)"
  "(lit ''gap_code'', JStr gap) \<in> set (identity_items t c required e gap)"
  unfolding identity_items_def mapping_input_def uuid_json_def by (simp_all del: lit_simps)

lemma identity_parts:
  assumes "sorted_keys (mapping_identity t c required e gap) = sorted_keys (mapping_identity t' c' required' e' gap')"
    and "c < 2 ^ 128" "c' < 2 ^ 128" "\<forall>i. e = Some i \<longrightarrow> i < 2 ^ 128" "\<forall>i. e' = Some i \<longrightarrow> i < 2 ^ 128"
  shows "c = c'" "required = required'" "mt_commit t = mt_commit t'" "mt_pull_request t = mt_pull_request t'"
    "e = e'" "gap = gap'"
proof -
  let ?x = "identity_items t c required e gap" and ?y = "identity_items t' c' required' e' gap'"
  have "sorted_keys (JDict ?x) = sorted_keys (JDict ?y)"
    using assms(1) unfolding mapping_identity_def identity_items_def .
  note same = same_member [OF this identity_keys]
  show "required = required'" using same [OF identity_members(2) identity_members(2)] by simp
  show "mt_commit t = mt_commit t'" using same [OF identity_members(3) identity_members(3)] by simp
  show "mt_pull_request t = mt_pull_request t'" using same [OF identity_members(4) identity_members(4)] by simp
  show "gap = gap'" using same [OF identity_members(6) identity_members(6)] by simp
  have "uuid_str c = uuid_str c'" using same [OF identity_members(1) identity_members(1)] by simp
  then show "c = c'" using uuid_str_inj assms(2,3) by blast
  have ids: "e = None \<longleftrightarrow> e' = None" "\<And>i j. e = Some i \<Longrightarrow> e' = Some j \<Longrightarrow> uuid_str i = uuid_str j"
    using same [OF identity_members(5) identity_members(5)] by (auto simp: uuid_json_def split: option.splits)
  show "e = e'"
  proof (cases e)
    case None
    then show ?thesis using ids(1) by simp
  next
    case (Some i)
    then obtain j where j: "e' = Some j" using ids(1) by blast
    have "i = j" by (rule uuid_str_inj) (use Some j assms(4,5) ids(2) in simp_all)
    then show ?thesis using Some j by simp
  qed
qed

text \<open>Identifiers are 128-bit values.\<close>

definition identifiers_fit :: "governance \<Rightarrow> bool" where
  "identifiers_fit g \<longleftrightarrow>
     (\<forall>c\<in>set (acceptance_criteria g). cr_id c < 2 ^ 128) \<and> (\<forall>e\<in>set (evidence_items g). ei_id e < 2 ^ 128)
     \<and> (\<forall>m\<in>set (criterion_mappings g). ce_criterion m < 2 ^ 128 \<and> (\<forall>i. ce_evidence m = Some i \<longrightarrow> i < 2 ^ 128))"

text \<open>The mapping that the selection asks for.\<close>

definition exact_mapping ::
  "governance \<Rightarrow> work_revision \<Rightarrow> mapping_target \<Rightarrow> evidence list \<Rightarrow> (pystr \<times> pystr) list
     \<Rightarrow> acceptance_criterion \<times> pystr \<Rightarrow> criterion_evidence \<Rightarrow> bool"
where
  "exact_mapping g r t exact pairs = (\<lambda>(c, required) m.
     let selected = select_evidence g r t exact c required
     in ce_criterion m = cr_id c \<and> ce_required_type m = required \<and> ce_target_commit m = mt_commit t
        \<and> ce_pull_request m = mt_pull_request t \<and> ce_evidence m = map_option ei_id selected
        \<and> ce_assessment m = (case selected of None \<Rightarrow> lit ''GAP'' | Some e \<Rightarrow> lit ''SATISFIED'')
        \<and> ce_gap_code m = (case selected of None \<Rightarrow> gap_code_of pairs c required | Some e \<Rightarrow> []))"

lemma select_evidence_Some:
  "select_evidence g r t exact c required = Some e \<Longrightarrow> e \<in> set exact \<and> eligible_evidence g c r required (mt_reference t) e"
  unfolding select_evidence_def by (auto split: list.splits dest: filter_eq_ConsD)

lemma answer_exact:
  assumes "answers env org g r t exact pairs (c, required) m" "mapping_faithful env m" "identities_separated env"
    and "cr_id c < 2 ^ 128" "\<forall>e\<in>set exact. ei_id e < 2 ^ 128"
    and "ce_criterion m < 2 ^ 128" "\<forall>i. ce_evidence m = Some i \<longrightarrow> i < 2 ^ 128"
  shows "exact_mapping g r t exact pairs (c, required) m"
proof -
  let ?sel = "select_evidence g r t exact c required"
  let ?gap = "case ?sel of None \<Rightarrow> gap_code_of pairs c required | Some e \<Rightarrow> []"
  let ?ask = "mapping_identity t (cr_id c) required (map_option ei_id ?sel) ?gap"
  obtain stamp where "content_hash env (identity_of m stamp) = Inr (ce_mapping_key m)"
    using assms(2) by (auto simp: mapping_faithful_def)
  moreover have "content_hash env ?ask = Inr (ce_mapping_key m)"
    using assms(1) by (simp add: answers_def requested_identity_def Let_def)
  ultimately obtain a b where a: "canonical_text (env_float_repr env) (identity_of m stamp) = Inr a"
    and b: "canonical_text (env_float_repr env) ?ask = Inr b" and "env_sha256 env a = env_sha256 env b"
    by (auto simp: content_hash_def bind_res_Inr)
  moreover have "a \<in> identity_texts env" "b \<in> identity_texts env"
    using a b unfolding identity_texts_def identity_of_def by blast+
  ultimately have "a = b" using assms(3) by (auto simp: identities_separated_def inj_on_def)
  then have same: "sorted_keys (identity_of m stamp) = sorted_keys ?ask"
    using canonical_text_inj [OF _ a [unfolded \<open>a = b\<close>] b] assms(3) by (simp only: identities_separated_def)
  have sel: "\<forall>i. map_option ei_id ?sel = Some i \<longrightarrow> i < 2 ^ 128"
    using select_evidence_Some assms(5) by blast
  note parts = identity_parts [OF same [unfolded identity_of_def] assms(6,4,7) sel]
  have "ce_assessment m = (case ce_evidence m of None \<Rightarrow> lit ''GAP'' | Some i \<Rightarrow> lit ''SATISFIED'')"
    using assms(2) by (simp add: mapping_faithful_def)
  then have "ce_assessment m = (case ?sel of None \<Rightarrow> lit ''GAP'' | Some e \<Rightarrow> lit ''SATISFIED'')"
    unfolding parts(5) by (cases ?sel) simp_all
  then show ?thesis using parts by (simp add: exact_mapping_def Let_def)
qed

lemma exact_evidence_in: "e \<in> set (exact_evidence g org repository number revision commit) \<Longrightarrow>
    e \<in> set (evidence_items g) \<and> of_target g org repository number revision e \<and> ei_commit e = commit"
  by (simp add: exact_evidence_def)

lemma added_mappings_faithful:
  assumes "added_mappings d d' new" "\<forall>x\<in>set new. mapping_faithful env x" "mappings_faithful env (governance d)"
  shows "mappings_faithful env (governance d')"
  using assms by (auto simp: added_mappings_def mappings_faithful_def)

lemma criteria_in_order_in: "c \<in> set (criteria_in_order g org i) \<longleftrightarrow>
    c \<in> set (acceptance_criteria g) \<and> cr_org c = org \<and> cr_revision c = i"
  by (simp add: criteria_in_order_def)

lemma made_by_fits:
  assumes "made_by org g r t (selection_over g org t r) cs m" "set cs \<subseteq> set (acceptance_criteria g)" "identifiers_fit g"
  shows "ce_criterion m < 2 ^ 128 \<and> (\<forall>i. ce_evidence m = Some i \<longrightarrow> i < 2 ^ 128)"
proof -
  from assms(1) obtain c where c: "c \<in> set cs" "ce_criterion m = cr_id c"
    "ce_evidence m = map_option ei_id (select_evidence g r t (selection_over g org t r) c (ce_required_type m))"
    by (auto simp: made_by_def)
  have "i < 2 ^ 128" if "ce_evidence m = Some i" for i
  proof -
    from that c(3) obtain e where "select_evidence g r t (selection_over g org t r) c (ce_required_type m) = Some e" "i = ei_id e"
      by auto
    then show ?thesis using assms(3) select_evidence_Some exact_evidence_in
      unfolding selection_over_def identifiers_fit_def by blast
  qed
  then show ?thesis using c assms(2,3) by (auto simp: identifiers_fit_def)
qed

section \<open>What the selection means\<close>

text \<open>
  Evidence that may satisfy a criterion: it passed, for the target, and is eligible at the reference time.
\<close>

definition may_satisfy ::
  "governance \<Rightarrow> uuid \<Rightarrow> mapping_target \<Rightarrow> work_revision \<Rightarrow> acceptance_criterion \<Rightarrow> pystr \<Rightarrow> evidence \<Rightarrow> bool"
where
  "may_satisfy g org t r c required e \<longleftrightarrow>
     e \<in> set (evidence_items g)
     \<and> of_target g org (mt_repository t) (mt_pull_request t) (wr_id r) e \<and> ei_commit e = mt_commit t
     \<and> eligible_evidence g c r required (mt_reference t) e"

text \<open>
  The specification of a mapping: it names the eligible evidence with the least content hash and
  identifier, or a gap where there is none, and tells evidence for another commit from none at all.
\<close>

definition maps_as_specified ::
  "governance \<Rightarrow> uuid \<Rightarrow> mapping_target \<Rightarrow> work_revision \<Rightarrow> acceptance_criterion \<times> pystr \<Rightarrow> criterion_evidence \<Rightarrow> bool"
where
  "maps_as_specified g org t r = (\<lambda>(c, required) m.
     ce_criterion m = cr_id c \<and> ce_required_type m = required \<and> ce_target_commit m = mt_commit t
     \<and> ce_pull_request m = mt_pull_request t
     \<and> (case ce_evidence m of
          Some i \<Rightarrow>
            ce_assessment m = lit ''SATISFIED'' \<and> ce_gap_code m = []
            \<and> (\<exists>e. ei_id e = i \<and> may_satisfy g org t r c required e
                 \<and> (\<forall>e'. may_satisfy g org t r c required e' \<longrightarrow>
                      (ei_content_hash e, ei_id e) \<le> (ei_content_hash e', ei_id e')))
        | None \<Rightarrow>
            ce_assessment m = lit ''GAP'' \<and> (\<forall>e. \<not> may_satisfy g org t r c required e)
            \<and> ce_gap_code m =
                (if \<exists>e\<in>set (evidence_items g).
                      of_target g org (mt_repository t) (mt_pull_request t) (wr_id r) e
                      \<and> ei_commit e \<noteq> mt_commit t \<and> ei_kind e = required
                      \<and> cr_code c \<in> set (ei_criterion_codes e)
                 then lit ''STALE_EVIDENCE_ONLY'' else lit ''NO_ELIGIBLE_EVIDENCE'')))"

lemma may_satisfy_filter: "may_satisfy g org t r c required e \<longleftrightarrow>
    e \<in> set (filter (eligible_evidence g c r required (mt_reference t)) (selection_over g org t r))"
  by (auto simp: may_satisfy_def selection_over_def exact_evidence_def)

lemma selection_least:
  assumes "select_evidence g r t (selection_over g org t r) c required = Some e"
  shows "may_satisfy g org t r c required e"
    and "may_satisfy g org t r c required e' \<Longrightarrow> (ei_content_hash e, ei_id e) \<le> (ei_content_hash e', ei_id e')"
proof -
  let ?p = "eligible_evidence g c r required (mt_reference t)" and ?k = "\<lambda>e. (ei_content_hash e, ei_id e)"
  obtain es where f: "filter ?p (selection_over g org t r) = e # es"
    using assms by (auto simp: select_evidence_def split: list.splits)
  then show "may_satisfy g org t r c required e" by (simp add: may_satisfy_filter)
  have "sorted (map ?k (selection_over g org t r))"
    by (simp add: selection_over_def exact_evidence_def)
  then have "sorted (map ?k (filter ?p (selection_over g org t r)))" by (rule sorted_filter)
  then show "?k e \<le> ?k e'" if "may_satisfy g org t r c required e'"
    using that unfolding may_satisfy_filter f by auto
qed

lemma no_selection:
  assumes "select_evidence g r t (selection_over g org t r) c required = None"
  shows "\<not> may_satisfy g org t r c required e"
proof -
  have "filter (eligible_evidence g c r required (mt_reference t)) (selection_over g org t r) = []"
    using assms by (simp add: select_evidence_def split: list.splits)
  then show ?thesis unfolding may_satisfy_filter by simp
qed

lemma exact_mapping_spec:
  assumes "exact_mapping g r t (selection_over g org t r) (stale_pairs g org t r) (c, required) m"
  shows "maps_as_specified g org t r (c, required) m"
proof -
  have stale: "(cr_code c, required) \<in> set (stale_pairs g org t r) \<longleftrightarrow>
     (\<exists>e\<in>set (evidence_items g). of_target g org (mt_repository t) (mt_pull_request t) (wr_id r) e
        \<and> ei_commit e \<noteq> mt_commit t \<and> ei_kind e = required \<and> cr_code c \<in> set (ei_criterion_codes e))"
    by (auto simp: stale_pairs_def other_commit_pairs_def)
  show ?thesis
  proof (cases "select_evidence g r t (selection_over g org t r) c required")
    case None
    then show ?thesis using assms no_selection [OF None]
      by (simp add: exact_mapping_def maps_as_specified_def gap_code_of_def stale)
  next
    case (Some e)
    then show ?thesis using assms selection_least [OF Some]
      by (auto simp: exact_mapping_def maps_as_specified_def)
  qed
qed

text \<open>All of it for one call.\<close>

lemma mapping_exact:
  assumes "map_criterion_evidence env actor t i now fresh d = Inr ((ms, created), d')"
    and "mappings_faithful env (governance d)" "identifiers_fit (governance d)" "identities_separated env"
  obtains r where "r \<in> set (work_revisions (governance d))" "wr_id r = i" "wr_org r = actor_org actor"
    "list_all2 (exact_mapping (governance d) r t (selection_over (governance d) (actor_org actor) t r)
                  (stale_pairs (governance d) (actor_org actor) t r))
       (required_pairs (criteria_in_order (governance d) (actor_org actor) i)) ms"
    "mappings_faithful env (governance d')"
  using assms(1)
proof (rule mapping_Inr)
  fix r it new
  let ?g = "governance d"
  let ?cs = "criteria_in_order ?g (actor_org actor) i" and ?ex = "selection_over ?g (actor_org actor) t r"
  assume r: "r \<in> set (work_revisions ?g)" "wr_id r = i" "wr_org r = actor_org actor"
    and all: "list_all2 (answers env (actor_org actor) ?g r t ?ex (stale_pairs ?g (actor_org actor) t r)) (required_pairs ?cs) ms"
    and added: "added_mappings d d' new" "set ms \<subseteq> set (criterion_mappings (governance d'))"
    and new: "\<forall>x\<in>set new. mapping_faithful env x \<and> made_by (actor_org actor) ?g r t ?ex ?cs x"
  have faithful: "mappings_faithful env (governance d')"
    by (rule added_mappings_faithful [OF added(1)]) (use new assms(2) in simp_all)
  have cs: "set ?cs \<subseteq> set (acceptance_criteria ?g)" by (auto simp: criteria_in_order_in)
  have fits: "ce_criterion m < 2 ^ 128" "\<forall>i. ce_evidence m = Some i \<longrightarrow> i < 2 ^ 128" if "m \<in> set ms" for m
  proof -
    from that added consider "m \<in> set (criterion_mappings ?g)" | "m \<in> set new" by (auto simp: added_mappings_def)
    then have "ce_criterion m < 2 ^ 128 \<and> (\<forall>i. ce_evidence m = Some i \<longrightarrow> i < 2 ^ 128)"
    proof cases
      case 1
      then show ?thesis using assms(3) by (simp add: identifiers_fit_def)
    next
      case 2
      then show ?thesis using made_by_fits [OF _ cs assms(3)] new by blast
    qed
    then show "ce_criterion m < 2 ^ 128" "\<forall>i. ce_evidence m = Some i \<longrightarrow> i < 2 ^ 128" by simp_all
  qed
  have exact: "\<forall>e\<in>set ?ex. ei_id e < 2 ^ 128"
    using assms(3) exact_evidence_in by (fastforce simp: selection_over_def identifiers_fit_def)
  have "exact_mapping ?g r t ?ex (stale_pairs ?g (actor_org actor) t r) p m"
    if p: "p \<in> set (required_pairs ?cs)" and m: "m \<in> set ms"
      and a: "answers env (actor_org actor) ?g r t ?ex (stale_pairs ?g (actor_org actor) t r) p m" for p m
  proof -
    obtain c required where cr: "p = (c, required)" by fastforce
    have "c \<in> set (acceptance_criteria ?g)" using p cs by (auto simp: cr required_pairs_in)
    then have "cr_id c < 2 ^ 128" using assms(3) by (simp add: identifiers_fit_def)
    moreover have "mapping_faithful env m" using m added(2) faithful by (auto simp: mappings_faithful_def)
    ultimately show ?thesis
      unfolding cr using answer_exact [OF a [unfolded cr] _ assms(4) _ exact] fits [OF m] by blast
  qed
  then have "list_all2 (exact_mapping ?g r t ?ex (stale_pairs ?g (actor_org actor) t r)) (required_pairs ?cs) ms"
    using all by (rule list.rel_mono_strong [rotated])
  with r faithful show thesis using that by blast
qed

end
