(* ===== verification/EvidenceRetention.thy ===== *)
theory EvidenceRetention
  imports Evidence RateLimits
begin

text \<open>
  The end of evidence: a retention run (\<^verbatim>\<open>run_retention\<close> of \<^verbatim>\<open>src/anva/core/services/operations.py\<close>) and the deletion of the bytes of a blob (\<^verbatim>\<open>delete_evidence_blob_bytes\<close> of
  \<^verbatim>\<open>src/anva/core/services/evidence_uploads.py\<close>).  A deletion is two transactions with calls to the object
  store in between, so the model has its two halves as operations of their own, \<open>begin_blob_deletion\<close> and
  \<open>settle_blob_deletion\<close>, between which anything may happen; what the store answers is a parameter.  A retention run is a
  transaction that expires evidence, a batch of deletions, and a transaction that completes the run.
\<close>

section \<open>Expiry\<close>

text \<open>The state of the latest event, of all or of those up to an instant.\<close>

definition retention_state :: "governance \<Rightarrow> uuid \<Rightarrow> uuid \<Rightarrow> instant option \<Rightarrow> pystr option" where
  "retention_state g org evidence_id bound =
     map_option rn_state (first_by (\<lambda>e. (- rn_occurred_at e, - int (rn_id e)))
       (filter (\<lambda>e. rn_org e = org \<and> rn_evidence e = evidence_id
                  \<and> (case bound of None \<Rightarrow> True | Some t \<Rightarrow> rn_occurred_at e \<le> t)) (retention_events g)))"

definition retention_elapsed :: "evidence \<Rightarrow> instant \<Rightarrow> instant \<Rightarrow> bool" where
  "retention_elapsed e cutoff reference \<longleftrightarrow>
     ei_completed_at e \<le> cutoff \<and> (case ei_retention_expires_at e of None \<Rightarrow> False | Some t \<Rightarrow> t \<le> reference)"

definition due_evidence :: "governance \<Rightarrow> uuid \<Rightarrow> instant \<Rightarrow> instant \<Rightarrow> uuid list" where
  "due_evidence g org cutoff now =
     take 10001 (map ei_id (sort_key ei_id
       (filter (\<lambda>e. ei_org e = org \<and> retention_elapsed e cutoff now
                  \<and> retention_state g org (ei_id e) (Some now) = Some (lit ''ACTIVE'')) (evidence_items g))))"

definition expired_event :: "actor_context \<Rightarrow> instant \<Rightarrow> (uuid \<Rightarrow> uuid) \<Rightarrow> uuid \<Rightarrow> retention_event" where
  "expired_event actor now fresh evidence_id =
     \<lparr>rn_id = fresh evidence_id, rn_org = actor_org actor, rn_evidence = evidence_id, rn_state = lit ''EXPIRED'',
      rn_reason = lit ''Configured retention period elapsed'', rn_actor_type = actor_type actor,
      rn_actor_id = actor_id actor, rn_occurred_at = now\<rparr>"

section \<open>Deletion of bytes\<close>

text \<open>\<^verbatim>\<open>re.fullmatch(r"[a-z0-9][a-z0-9_-]{0,99}", reason)\<close>.\<close>

definition deletion_reason_code :: "pystr \<Rightarrow> bool" where
  "deletion_reason_code reason \<longleftrightarrow>
     (case reason of [] \<Rightarrow> False
      | c # cs \<Rightarrow> (97 \<le> c \<and> c \<le> 122 \<or> 48 \<le> c \<and> c \<le> 57) \<and> length cs \<le> 99
          \<and> list_all (\<lambda>x. 97 \<le> x \<and> x \<le> 122 \<or> 48 \<le> x \<and> x \<le> 57 \<or> x = 95 \<or> x = 45) cs)"

definition blob_table :: "evidence_blob table" where
  "blob_table = \<lparr>tb_rows = (\<lambda>d. evidence_blobs (governance d)),
     tb_put = (\<lambda>rs d. d\<lparr>governance := (governance d)\<lparr>evidence_blobs := rs\<rparr>\<rparr>), tb_id = eb_id, tb_org = eb_org\<rparr>"

interpretation blob_rows: tenant_table blob_table
  by unfold_locales (simp_all add: blob_table_def)

definition upload_accepted :: "governance \<Rightarrow> evidence_blob \<Rightarrow> bool" where
  "upload_accepted g b \<longleftrightarrow>
     list_ex (\<lambda>u. ua_id u = eb_upload b \<and> ua_state u = lit ''ACCEPTED'') (upload_authorizations g)"

definition deletion_eligible :: "governance \<Rightarrow> uuid \<Rightarrow> evidence_blob \<Rightarrow> instant \<Rightarrow> instant \<Rightarrow> bool" where
  "deletion_eligible g org b cutoff reference \<longleftrightarrow>
     (case first_by ei_id (filter (\<lambda>e. ei_org e = org \<and> ei_blob e = Some (eb_id b)) (evidence_items g)) of
        None \<Rightarrow> upload_accepted g b \<and> eb_created_at b \<le> cutoff
      | Some e \<Rightarrow> retention_elapsed e cutoff reference
          \<and> retention_state g org (ei_id e) None = Some (lit ''EXPIRED''))"

definition retention_window :: "instant option \<Rightarrow> instant option \<Rightarrow> (instant \<times> instant) option" where
  "retention_window cutoff reference =
     (case (cutoff, reference) of (Some c, Some t) \<Rightarrow> Some (c, t) | _ \<Rightarrow> None)"

definition deletion_permitted :: "uuid \<Rightarrow> evidence_blob \<Rightarrow> instant option \<Rightarrow> instant option \<Rightarrow> db \<Rightarrow> unit result" where
  "deletion_permitted org b cutoff reference d =
     (if eb_storage_state b \<notin> {lit ''AVAILABLE'', lit ''DELETE_PENDING'', lit ''DELETE_FAILED''}
      then Inl (EvidenceUploadError ''EVIDENCE_BLOB_DELETE_IN_PROGRESS'')
      else (case retention_window cutoff reference of
              None \<Rightarrow> Inr ()
            | Some (c, t) \<Rightarrow> guard_res (deletion_eligible (governance d) org b c t)
                               (EvidenceUploadError ''EVIDENCE_BLOB_DELETE_INELIGIBLE'')))"

definition marked_for_deletion :: "pystr \<Rightarrow> evidence_blob \<Rightarrow> evidence_blob" where
  "marked_for_deletion reason b =
     (if eb_storage_state b = lit ''DELETE_PENDING'' then b
      else b\<lparr>eb_storage_state := lit ''DELETE_PENDING'', eb_deletion_reason := reason, eb_storage_error_code := []\<rparr>)"

text \<open>The first transaction: the blob as it was marked, or as it was when its bytes were already gone.\<close>

definition begin_blob_deletion ::
  "uuid \<Rightarrow> uuid \<Rightarrow> pystr \<Rightarrow> instant option \<Rightarrow> instant option \<Rightarrow> db \<Rightarrow> (evidence_blob \<times> db) result"
where
  "begin_blob_deletion org blob_id reason cutoff reference d =
     bind_res (guard_res (deletion_reason_code reason)
                 (ValueError ''Deletion reason must be a stable lowercase code'')) (\<lambda>_.
     bind_res (guard_res ((cutoff = None) = (reference = None))
                 (ValueError ''Retention cutoff and reference time must be supplied together'')) (\<lambda>_.
     bind_res (guard_res (list_ex (\<lambda>x. org_id x = org) (organizations d)) ResourceNotFoundError) (\<lambda>_.
     bind_res (guard_res (cutoff = None \<or> organization_active org d)
                 (EvidenceUploadError ''EVIDENCE_BLOB_DELETE_INELIGIBLE'')) (\<lambda>_.
     bind_res (get_tenant_record_for_update blob_table blob_id org d) (\<lambda>b.
       if eb_storage_state b = lit ''DELETED'' then Inr (b, d)
       else bind_res (deletion_permitted org b cutoff reference d) (\<lambda>_.
              Inr (marked_for_deletion reason b, save_row blob_table (marked_for_deletion reason b) d)))))))"

text \<open>What the object store answers to \<^verbatim>\<open>head\<close> and \<^verbatim>\<open>delete\<close> for an object key.\<close>

datatype head_answer = StoredOwner pystr | ObjectMissing | HeadFailed pystr

record object_store =
  os_head :: "pystr \<Rightarrow> head_answer"
  os_delete :: "pystr \<Rightarrow> pystr option"

definition storage_failure :: "environment \<Rightarrow> object_store \<Rightarrow> governance \<Rightarrow> evidence_blob \<Rightarrow> pystr option" where
  "storage_failure env store g b =
     (case os_head store (eb_object_key b) of
        HeadFailed code \<Rightarrow> Some code
      | ObjectMissing \<Rightarrow> None
      | StoredOwner owner \<Rightarrow>
          if list_ex (\<lambda>u. ua_id u = eb_upload b \<and> ua_ownership_nonce_hash u = env_sha256 env owner)
               (upload_authorizations g)
          then os_delete store (eb_object_key b)
          else Some (lit ''EVIDENCE_STORAGE_OBJECT_EXISTS''))"

definition locked_blob :: "uuid \<Rightarrow> uuid \<Rightarrow> db \<Rightarrow> evidence_blob result" where
  "locked_blob org blob_id d =
     bind_res (guard_res (list_ex (\<lambda>x. org_id x = org) (organizations d)) DoesNotExist) (\<lambda>_.
       case find_by (\<lambda>b. eb_id b = blob_id \<and> eb_org b = org) (evidence_blobs (governance d)) of
         None \<Rightarrow> Inl DoesNotExist
       | Some b \<Rightarrow> Inr b)"

definition deleted_blob :: "instant \<Rightarrow> evidence_blob \<Rightarrow> evidence_blob" where
  "deleted_blob now b =
     b\<lparr>eb_storage_state := lit ''DELETED'', eb_deleted_at := Some now, eb_storage_error_code := []\<rparr>"

text \<open>
  The second transaction.  A storage error is raised again after the transaction that notes it has
  committed, so the result comes beside the database.
\<close>

definition settle_blob_deletion ::
  "uuid \<Rightarrow> uuid \<Rightarrow> pystr option \<Rightarrow> instant \<Rightarrow> db \<Rightarrow> evidence_blob result \<times> db"
where
  "settle_blob_deletion org blob_id failure now d =
     (case locked_blob org blob_id d of
        Inl e \<Rightarrow> (Inl e, d)
      | Inr b \<Rightarrow>
          if eb_storage_state b = lit ''DELETED'' then (Inr b, d)
          else (case failure of
             Some code \<Rightarrow>
               if eb_storage_state b \<noteq> lit ''DELETE_PENDING''
               then (Inl (EvidenceUploadError ''EVIDENCE_BLOB_DELETE_IN_PROGRESS''), d)
               else (Inl (EvidenceStorageError code),
                     save_row blob_table (b\<lparr>eb_storage_state := lit ''DELETE_FAILED'', eb_storage_error_code := code\<rparr>) d)
           | None \<Rightarrow>
               if eb_storage_state b \<notin> {lit ''DELETE_PENDING'', lit ''DELETE_FAILED''}
               then (Inl (EvidenceUploadError ''EVIDENCE_BLOB_DELETE_IN_PROGRESS''), d)
               else (Inr (deleted_blob now b), save_row blob_table (deleted_blob now b) d)))"

definition delete_evidence_blob_bytes ::
  "environment \<Rightarrow> object_store \<Rightarrow> uuid \<Rightarrow> uuid \<Rightarrow> pystr \<Rightarrow> instant option \<Rightarrow> instant option \<Rightarrow> instant \<Rightarrow> db
     \<Rightarrow> evidence_blob result \<times> db"
where
  "delete_evidence_blob_bytes env store org blob_id reason cutoff reference now d =
     (case begin_blob_deletion org blob_id reason cutoff reference d of
        Inl e \<Rightarrow> (Inl e, d)
      | Inr (b, d1) \<Rightarrow>
          if eb_storage_state b = lit ''DELETED'' then (Inr b, d1)
          else settle_blob_deletion org blob_id (storage_failure env store (governance d1) b) now d1)"

section \<open>A retention run\<close>

definition retention_request :: "environment \<Rightarrow> uuid \<Rightarrow> instant \<Rightarrow> bool \<Rightarrow> json" where
  "retention_request env org now dry_run =
     JDict [(lit ''organization_id'', uuid_json org), (lit ''kind'', JStr (lit ''SCHEDULED_RETENTION'')),
            (lit ''reference_time'', JStr (env_isoformat env now)), (lit ''dry_run'', JBool dry_run)]"

definition scheduled_run :: "actor_context \<Rightarrow> instant \<Rightarrow> bool \<Rightarrow> pystr \<Rightarrow> uuid \<Rightarrow> retention_run" where
  "scheduled_run actor cutoff dry_run digest fresh =
     \<lparr>rr_id = fresh, rr_org = actor_org actor, rr_kind = lit ''SCHEDULED_RETENTION'', rr_state = lit ''RUNNING'',
      rr_cutoff_at = cutoff, rr_dry_run = dry_run, rr_request_hash = digest, rr_actor_type = actor_type actor,
      rr_actor_id = actor_id actor, rr_summary = JDict [], rr_completed_at = None\<rparr>"

definition initial_summary :: "nat \<Rightarrow> nat \<Rightarrow> (pystr \<times> json) list" where
  "initial_summary expired buckets =
     [(lit ''evidence_expired'', JInt (int expired)), (lit ''rate_buckets_deleted'', JInt (int buckets)),
      (lit ''governed_history_retained'', JBool True), (lit ''source_content_deleted'', JInt 0)]"

text \<open>The run that answers an earlier request, or a new one with the evidence it expired and its summary.\<close>

datatype retention_start =
    AlreadyRequested retention_run
  | RetentionStarted retention_run "uuid list" "(pystr \<times> json) list"

definition expire_evidence :: "actor_context \<Rightarrow> instant \<Rightarrow> (uuid \<Rightarrow> uuid) \<Rightarrow> uuid list \<Rightarrow> governance \<Rightarrow> governance" where
  "expire_evidence actor now fresh due g =
     g\<lparr>retention_events := retention_events g @ map (expired_event actor now fresh) due\<rparr>"

definition open_retention_run ::
  "actor_context \<Rightarrow> instant \<Rightarrow> instant \<Rightarrow> bool \<Rightarrow> pystr \<Rightarrow> uuid \<Rightarrow> (uuid \<Rightarrow> uuid) \<Rightarrow> db \<Rightarrow> (retention_start \<times> db) result"
where
  "open_retention_run actor cutoff now dry_run digest fresh_run fresh d =
     (let org = actor_org actor; g = governance d; run = scheduled_run actor cutoff dry_run digest fresh_run;
          due = due_evidence g org cutoff now
      in bind_res (guard_res (length due \<le> 10000)
                     (ValueError ''Retention run exceeds the 10,000-record safety bound'')) (\<lambda>_.
         let g1 = g\<lparr>retention_runs := retention_runs g @ [run]\<rparr>;
             (buckets, d1) = purge_expired_rate_buckets org now d;
             summary = initial_summary (length due) buckets
         in Inr (RetentionStarted run due summary,
                 if dry_run then d\<lparr>governance := g1\<rparr> else d1\<lparr>governance := expire_evidence actor now fresh due g1\<rparr>)))"

text \<open>\<open>retention_days\<close> is the setting of the tenant, when it has one; \<open>clock\<close> is the time of day, \<open>now\<close> the reference time.\<close>

definition start_retention ::
  "environment \<Rightarrow> actor_context \<Rightarrow> instant \<Rightarrow> instant \<Rightarrow> int option \<Rightarrow> bool \<Rightarrow> uuid \<Rightarrow> (uuid \<Rightarrow> uuid) \<Rightarrow> db
     \<Rightarrow> ((retention_start \<times> instant) \<times> db) result"
where
  "start_retention env actor clock now retention_days dry_run fresh_run fresh d =
     bind_res (authorize_action env clock d actor RETENTION_MANAGE (actor_repository actor) None None False) (\<lambda>_.
     bind_res (guard_res (organization_active (actor_org actor) d) ResourceNotFoundError) (\<lambda>_.
     let cutoff = now - days (case retention_days of None \<Rightarrow> 365 | Some n \<Rightarrow> n) in
     bind_res (content_hash env (retention_request env (actor_org actor) now dry_run)) (\<lambda>digest.
     case find_by (\<lambda>r. rr_org r = actor_org actor \<and> rr_kind r = lit ''SCHEDULED_RETENTION'' \<and> rr_request_hash r = digest)
            (retention_runs (governance d)) of
       Some r \<Rightarrow> Inr ((AlreadyRequested r, cutoff), d)
     | None \<Rightarrow>
         bind_res (open_retention_run actor cutoff now dry_run digest fresh_run fresh d) (\<lambda>(s, d'). Inr ((s, cutoff), d')))))"

definition MAX_EVIDENCE_BLOB_DELETIONS :: nat where
  "MAX_EVIDENCE_BLOB_DELETIONS = 10000"

definition deletable :: "evidence_blob \<Rightarrow> bool" where
  "deletable b \<longleftrightarrow> eb_storage_state b \<in> {lit ''AVAILABLE'', lit ''DELETE_FAILED''}"

definition linked_candidates :: "governance \<Rightarrow> uuid \<Rightarrow> uuid list \<Rightarrow> instant \<Rightarrow> uuid list" where
  "linked_candidates g org expiring reference =
     take (MAX_EVIDENCE_BLOB_DELETIONS + 1)
       (sort (List.map_filter ei_blob
          (filter (\<lambda>e. ei_org e = org
                    \<and> list_ex (\<lambda>b. ei_blob e = Some (eb_id b) \<and> deletable b) (evidence_blobs g)
                    \<and> (ei_id e \<in> set expiring
                       \<or> retention_state g org (ei_id e) (Some reference) = Some (lit ''EXPIRED'')))
             (evidence_items g))))"

definition unlinked_candidates :: "governance \<Rightarrow> uuid \<Rightarrow> instant \<Rightarrow> nat \<Rightarrow> uuid list" where
  "unlinked_candidates g org cutoff remaining =
     take remaining (sort (map eb_id
       (filter (\<lambda>b. eb_org b = org \<and> \<not> list_ex (\<lambda>e. ei_blob e = Some (eb_id b)) (evidence_items g)
                 \<and> upload_accepted g b \<and> eb_created_at b \<le> cutoff \<and> deletable b) (evidence_blobs g))))"

definition retention_blob_candidates ::
  "governance \<Rightarrow> uuid \<Rightarrow> uuid list \<Rightarrow> instant \<Rightarrow> instant \<Rightarrow> (uuid list \<times> uuid list) result"
where
  "retention_blob_candidates g org expiring cutoff reference =
     (let linked_ids = linked_candidates g org expiring reference;
          unlinked_ids = unlinked_candidates g org cutoff (MAX_EVIDENCE_BLOB_DELETIONS + 1 - length linked_ids)
      in if length linked_ids + length unlinked_ids > MAX_EVIDENCE_BLOB_DELETIONS
         then Inl (ValueError ''Retention run exceeds the 10,000-blob deletion safety bound'')
         else Inr (linked_ids, unlinked_ids))"

text \<open>\<^verbatim>\<open>except (EvidenceUploadError, IntegrityError)\<close>, with the storage errors among the first.\<close>

definition counted_as_failed :: "py_error \<Rightarrow> bool" where
  "counted_as_failed e =
     (case e of EvidenceUploadError _ \<Rightarrow> True | EvidenceStorageError _ \<Rightarrow> True | IntegrityError \<Rightarrow> True | _ \<Rightarrow> False)"

fun delete_blob_batch ::
  "environment \<Rightarrow> object_store \<Rightarrow> uuid \<Rightarrow> uuid list \<Rightarrow> pystr \<Rightarrow> instant option \<Rightarrow> instant option \<Rightarrow> instant
     \<Rightarrow> nat \<times> nat \<Rightarrow> db \<Rightarrow> (nat \<times> nat) result \<times> db"
where
  "delete_blob_batch env store org [] reason cutoff reference clock n d = (Inr n, d)"
| "delete_blob_batch env store org (i # is) reason cutoff reference clock (deleted, failed) d =
     (case delete_evidence_blob_bytes env store org i reason cutoff reference clock d of
        (Inr _, d1) \<Rightarrow> delete_blob_batch env store org is reason cutoff reference clock (deleted + 1, failed) d1
      | (Inl e, d1) \<Rightarrow>
          if counted_as_failed e
          then delete_blob_batch env store org is reason cutoff reference clock (deleted, failed + 1) d1
          else (Inl e, d1))"

definition final_summary :: "(pystr \<times> json) list \<Rightarrow> nat \<Rightarrow> nat \<Rightarrow> nat \<times> nat \<Rightarrow> json" where
  "final_summary items linked_count unlinked_count n =
     JDict (dict_merge items
       [(lit ''expired_linked_blob_candidates'', JInt (int linked_count)),
        (lit ''stale_unlinked_blob_candidates'', JInt (int unlinked_count)),
        (lit ''evidence_blob_bytes_deleted'', JInt (int (fst n))),
        (lit ''evidence_blob_bytes_delete_failed'', JInt (int (snd n)))])"

definition finish_retention ::
  "environment \<Rightarrow> actor_context \<Rightarrow> uuid \<Rightarrow> json \<Rightarrow> instant \<Rightarrow> db \<Rightarrow> (retention_run \<times> db) result"
where
  "finish_retention env actor retention_run_id summary now d =
     (case find_by (\<lambda>r. rr_id r = retention_run_id \<and> rr_org r = actor_org actor) (retention_runs (governance d)) of
        None \<Rightarrow> Inl DoesNotExist
      | Some r \<Rightarrow>
          let r' = r\<lparr>rr_summary := summary, rr_state := lit ''COMPLETED'', rr_completed_at := Some now\<rparr>;
              g = governance d
          in bind_res (record_transition env (actor_org actor) actor (lit ''retentionrun'') (rr_id r')
                         (lit ''RUNNING'') (lit ''COMPLETED'') 1 []
                         (d\<lparr>governance := g\<lparr>retention_runs :=
                              update_where (\<lambda>x. rr_id x = rr_id r') (\<lambda>_. r') (retention_runs g)\<rparr>\<rparr>)) (\<lambda>d'. Inr (r', d')))"

text \<open>The run as one caller sees it.  What was committed stays where a later part raises.\<close>

definition settle_retention ::
  "environment \<Rightarrow> object_store \<Rightarrow> actor_context \<Rightarrow> instant \<Rightarrow> instant \<Rightarrow> instant \<Rightarrow> bool
     \<Rightarrow> retention_run \<Rightarrow> uuid list \<Rightarrow> (pystr \<times> json) list \<Rightarrow> db \<Rightarrow> retention_run result \<times> db"
where
  "settle_retention env store actor clock now cutoff dry_run run due summary d =
     (case retention_blob_candidates (governance d) (actor_org actor) due cutoff now of
        Inl e \<Rightarrow> (Inl e, d)
      | Inr (linked_ids, unlinked_ids) \<Rightarrow>
          (case (if dry_run then (Inr (0, 0), d)
                 else delete_blob_batch env store (actor_org actor) (linked_ids @ unlinked_ids) (lit ''retention_expired'')
                        (Some cutoff) (Some now) clock (0, 0) d) of
             (Inl e, d1) \<Rightarrow> (Inl e, d1)
           | (Inr n, d1) \<Rightarrow>
               (case finish_retention env actor (rr_id run)
                       (final_summary summary (length linked_ids) (length unlinked_ids) n) now d1 of
                  Inl e \<Rightarrow> (Inl e, d1)
                | Inr (r, d2) \<Rightarrow> (Inr r, d2))))"

definition run_retention ::
  "environment \<Rightarrow> object_store \<Rightarrow> actor_context \<Rightarrow> instant \<Rightarrow> instant \<Rightarrow> int option \<Rightarrow> bool \<Rightarrow> uuid \<Rightarrow> (uuid \<Rightarrow> uuid)
     \<Rightarrow> db \<Rightarrow> retention_run result \<times> db"
where
  "run_retention env store actor clock now retention_days dry_run fresh_run fresh d =
     (case start_retention env actor clock now retention_days dry_run fresh_run fresh d of
        Inl e \<Rightarrow> (Inl e, d)
      | Inr ((AlreadyRequested r, cutoff), d1) \<Rightarrow> (Inr r, d1)
      | Inr ((RetentionStarted run due summary, cutoff), d1) \<Rightarrow>
          settle_retention env store actor clock now cutoff dry_run run due summary d1)"

end
