(* ===== verification/EvidenceSafety.thy ===== *)
theory EvidenceSafety
  imports MappingSafety IntentLife EvidenceRetention
begin

text \<open>
  What a submission, a retention run and a deletion of bytes leave in the database, and the coherence of all
  evidence through any sequence of submissions, mappings, expiries, deletions and operations on work items.
\<close>

section \<open>The rows of a submission\<close>

definition blobs_used :: "governance \<Rightarrow> uuid list" where
  "blobs_used g = List.map_filter ei_blob (evidence_items g)"

lemma insert_evidence_Inr:
  assumes "insert_evidence e g = Inr g'"
  shows "g' = g\<lparr>evidence_items := evidence_items g @ [e]\<rparr>" "ei_id e \<notin> ei_id ` set (evidence_items g)"
    "\<forall>i. ei_blob e = Some i \<longrightarrow> i \<notin> set (blobs_used g)"
  using assms by (auto simp: insert_evidence_def list_ex_iff blobs_used_def map_filter_def split: if_splits)

lemma store_entries_Inr:
  assumes "store_entries actor manifest commit now fresh cs g = Inr g'"
  shows "g' = g\<lparr>evidence_items := evidence_items g @ map (evidence_row (actor_org actor) manifest commit) cs,
            retention_events := retention_events g
              @ map (\<lambda>c. ingested_event actor (ke_id c) now (fresh (ke_id c))) cs\<rparr>
     \<and> (distinct (map ei_id (evidence_items g)) \<longrightarrow> distinct (map ei_id (evidence_items g')))
     \<and> (distinct (blobs_used g) \<longrightarrow> distinct (blobs_used g'))"
  using assms
proof (induction cs arbitrary: g)
  case Nil
  then show ?case by simp
next
  case (Cons c cs)
  let ?e = "evidence_row (actor_org actor) manifest commit c"
  let ?n = "ingested_event actor (ke_id c) now (fresh (ke_id c))"
  let ?g = "g\<lparr>evidence_items := evidence_items g @ [?e], retention_events := retention_events g @ [?n]\<rparr>"
  from Cons.prems obtain g1 where g1: "insert_evidence ?e g = Inr g1"
    and rest: "store_entries actor manifest commit now fresh cs
       (g1\<lparr>retention_events := retention_events g1 @ [?n]\<rparr>) = Inr g'"
    by (auto simp: bind_res_Inr)
  note row = insert_evidence_Inr [OF g1]
  have rest: "store_entries actor manifest commit now fresh cs ?g = Inr g'" using rest row(1) by simp
  have blobs: "blobs_used ?g = blobs_used g @ (case ei_blob ?e of None \<Rightarrow> [] | Some i \<Rightarrow> [i])"
    by (simp add: blobs_used_def map_filter_def split: option.split)
  have "distinct (map ei_id (evidence_items g)) \<longrightarrow> distinct (map ei_id (evidence_items ?g))" using row(2) by simp
  moreover have "distinct (blobs_used g) \<longrightarrow> distinct (blobs_used ?g)"
    unfolding blobs using row(3) by (simp split: option.split)
  moreover have "evidence_items ?g @ map (evidence_row (actor_org actor) manifest commit) cs
      = evidence_items g @ map (evidence_row (actor_org actor) manifest commit) (c # cs)"
    "retention_events ?g @ map (\<lambda>c. ingested_event actor (ke_id c) now (fresh (ke_id c))) cs
      = retention_events g @ map (\<lambda>c. ingested_event actor (ke_id c) now (fresh (ke_id c))) (c # cs)"
    by simp_all
  moreover have "?g\<lparr>evidence_items := xs, retention_events := ys\<rparr> = g\<lparr>evidence_items := xs, retention_events := ys\<rparr>" for xs ys
    by simp
  ultimately show ?case using Cons.IH [OF rest] by (simp only:) blast
qed

lemma check_entry_Inr:
  assumes "check_entry env org repository scope_id work_revision m d (i, e) = Inr c"
  shows "ke_entry c = e \<and> ke_id c = i \<and> ee_producer e = md_producer m \<and> ee_producer_version e = md_producer_version m
     \<and> validate_relative_artifact_path (ee_artifact_reference e) = Inr ()
     \<and> validate_source_url env (ee_source_url e) = Inr ()
     \<and> (\<forall>t. ke_started c = Some t \<longrightarrow> t \<le> ke_completed c) \<and> (\<forall>t. ke_retention c = Some t \<longrightarrow> ke_completed c < t)
     \<and> validate_type_specific e (ke_completed c) work_revision org repository d = Inr (ke_approval c)
     \<and> resolve_evidence_artifact_blob e org repository scope_id (md_pull_request_number m) (md_commit_sha m)
         (governance d) = Inr (ke_blob c)"
proof -
  from assms [unfolded check_entry_def prod.case bind_res_Inr] obtain started completed retention approval blob where
    v: "check_entry_producer m e = Inr ()" "validate_relative_artifact_path (ee_artifact_reference e) = Inr ()"
      "validate_source_url env (ee_source_url e) = Inr ()"
      "guard_res (case started of None \<Rightarrow> True | Some t \<Rightarrow> t \<le> completed)
                 (ValueError ''Evidence completed_at cannot precede started_at'') = Inr ()"
      "guard_res (case retention of None \<Rightarrow> True | Some t \<Rightarrow> completed < t)
                 (ValueError ''Evidence retention must extend beyond completion'') = Inr ()"
      "validate_type_specific e completed work_revision org repository d = Inr approval"
      "resolve_evidence_artifact_blob e org repository scope_id (md_pull_request_number m) (md_commit_sha m)
         (governance d) = Inr blob"
    and c: "Inr \<lparr>ke_entry = e, ke_id = i, ke_started = started, ke_completed = completed,
            ke_retention = retention, ke_approval = approval, ke_blob = blob\<rparr> = (Inr c :: checked_entry result)"
    by (elim exE conjE) (rule that; (assumption | simp))
  have times: "\<forall>t. started = Some t \<longrightarrow> t \<le> completed" "\<forall>t. retention = Some t \<longrightarrow> completed < t"
    using v(4,5) by (auto simp: guard_res_def split: if_splits)
  have "ee_producer e = md_producer m \<and> ee_producer_version e = md_producer_version m"
    using v(1) by (simp add: check_entry_producer_def guard_res_def split: if_splits)
  with v(2,3,6,7) times c show ?thesis by auto
qed

lemma type_specific_Inr:
  assumes "validate_type_specific e completed work_revision org repository d = Inr a"
  shows "if ee_kind e = MANUAL_APPROVAL
     then \<exists>x r. a = Some x \<and> work_revision = Some r \<and> x \<in> set (approvals (governance d)) \<and> ap_org x = org
            \<and> approval_covers (governance d) x repository r completed \<and> ee_status e = PASSED
     else a = None"
  using assms
  by (auto simp: validate_type_specific_def bind_res_Inr guard_res_def approval_table_def
      dest!: get_tenant_record_Inr split: if_splits option.splits)

lemma resolved_blob:
  assumes "resolve_evidence_artifact_blob e org repository scope_id number commit g = Inr (Some b)"
  shows "b \<in> set (evidence_blobs g) \<and> blob_fits g org repository scope_id number commit (ee_content_hash e) b"
  using assms unfolding resolve_evidence_artifact_blob_def
  by (auto dest: find_by_Some_iff split: option.splits simp del: find_by_None)

section \<open>Coherence\<close>

definition approval_backs :: "evidence_manifest \<Rightarrow> approval \<Rightarrow> evidence \<Rightarrow> bool" where
  "approval_backs m a e \<longleftrightarrow>
     ei_approval e = Some (ap_id a) \<and> ap_org a = ei_org e \<and> ap_repository a = em_repository m
     \<and> em_work_revision m = Some (ap_revision a) \<and> ap_status a = lit ''APPROVED''
     \<and> ap_decided_at a \<le> ei_completed_at e
     \<and> (\<forall>t. ap_expires_at a = Some t \<longrightarrow> ei_completed_at e < t) \<and> ei_status e = PASSED"

definition blob_backs :: "evidence_manifest \<Rightarrow> evidence_blob \<Rightarrow> evidence \<Rightarrow> bool" where
  "blob_backs m b e \<longleftrightarrow>
     ei_blob e = Some (eb_id b) \<and> eb_org b = ei_org e \<and> eb_repository b = em_repository m
     \<and> eb_access_scope b = em_access_scope m \<and> eb_content_hash b = ei_content_hash e"

definition bound_to :: "governance \<Rightarrow> evidence \<Rightarrow> evidence_manifest \<Rightarrow> bool" where
  "bound_to g e m \<longleftrightarrow>
     em_id m = ei_manifest e \<and> em_org m = ei_org e \<and> em_commit m = ei_commit e
     \<and> em_producer m = ei_producer e \<and> em_producer_version m = ei_producer_version e
     \<and> (ei_kind e = MANUAL_APPROVAL \<longrightarrow> (\<exists>a\<in>set (approvals g). approval_backs m a e))
     \<and> (ei_blob e \<noteq> None \<longrightarrow> (\<exists>b\<in>set (evidence_blobs g). blob_backs m b e))"

definition evidence_valid :: "governance \<Rightarrow> evidence \<Rightarrow> bool" where
  "evidence_valid g e \<longleftrightarrow>
     (\<exists>m\<in>set (evidence_manifests g). bound_to g e m)
     \<and> (ei_kind e \<noteq> MANUAL_APPROVAL \<longrightarrow> ei_approval e = None)
     \<and> (\<forall>t. ei_started_at e = Some t \<longrightarrow> t \<le> ei_completed_at e)
     \<and> (\<forall>t. ei_retention_expires_at e = Some t \<longrightarrow> ei_completed_at e < t)
     \<and> validate_relative_artifact_path (ei_artifact_reference e) = Inr ()
     \<and> (\<exists>n\<in>set (retention_events g). rn_evidence n = ei_id e)"

text \<open>The columns of \<^verbatim>\<open>core_evidence_manifest_hash_unique\<close>.\<close>

definition manifest_key :: "evidence_manifest \<Rightarrow> uuid \<times> uuid \<times> pystr" where
  "manifest_key m = (em_org m, em_repository m, em_payload_hash m)"

definition evidence_coherent :: "governance \<Rightarrow> bool" where
  "evidence_coherent g \<longleftrightarrow>
     distinct (map ei_id (evidence_items g)) \<and> distinct (blobs_used g)
     \<and> distinct (map em_id (evidence_manifests g)) \<and> distinct (map manifest_key (evidence_manifests g))
     \<and> distinct (map eb_id (evidence_blobs g))
     \<and> (\<forall>m\<in>set (evidence_manifests g). validate_full_commit (em_commit m) = Inr ())
     \<and> (\<forall>e\<in>set (evidence_items g). evidence_valid g e)"

text \<open>What of a blob no deletion changes: whose bytes they were, where they lay and what they hash to.\<close>

definition blob_identity :: "evidence_blob \<Rightarrow> (uuid \<times> uuid \<times> uuid \<times> uuid) \<times> uuid \<times> pystr \<times> pystr \<times> instant" where
  "blob_identity b =
     ((eb_id b, eb_org b, eb_repository b, eb_access_scope b), eb_upload b, eb_object_key b, eb_content_hash b, eb_created_at b)"

text \<open>Evidence stays valid when rows are added around it and the bytes it cites are deleted.\<close>

definition evidence_kept :: "governance \<Rightarrow> governance \<Rightarrow> bool" where
  "evidence_kept g h \<longleftrightarrow>
     set (evidence_manifests g) \<subseteq> set (evidence_manifests h) \<and> set (approvals g) \<subseteq> set (approvals h)
     \<and> blob_identity ` set (evidence_blobs g) \<subseteq> blob_identity ` set (evidence_blobs h)
     \<and> set (retention_events g) \<subseteq> set (retention_events h)
     \<and> set (approval_revocations g) \<subseteq> set (approval_revocations h)
     \<and> set (evidence_items g) \<subseteq> set (evidence_items h)"

lemma evidence_kept_refl [simp]: "evidence_kept g g"
  by (simp add: evidence_kept_def)

lemma evidence_kept_trans: "evidence_kept f g \<Longrightarrow> evidence_kept g h \<Longrightarrow> evidence_kept f h"
  unfolding evidence_kept_def by (elim conjE) (intro conjI; erule (1) subset_trans)

lemma evidence_valid_kept:
  assumes "evidence_valid g e" "evidence_kept g h"
  shows "evidence_valid h e"
proof -
  have blobs: "blob_identity ` set (evidence_blobs g) \<subseteq> blob_identity ` set (evidence_blobs h)"
    and given: "set (approvals g) \<subseteq> set (approvals h)"
    using assms(2) by (simp_all only: evidence_kept_def)
  have backs: "\<exists>b'\<in>set (evidence_blobs h). blob_backs m b' e"
    if b: "\<exists>b\<in>set (evidence_blobs g). blob_backs m b e" for m
  proof -
    from b obtain b where b: "b \<in> set (evidence_blobs g)" "blob_backs m b e" by blast
    then have "blob_identity b \<in> blob_identity ` set (evidence_blobs h)" using blobs by blast
    then obtain b' where b': "blob_identity b = blob_identity b'" "b' \<in> set (evidence_blobs h)" by (rule imageE)
    have "blob_backs m b' e" using b(2) b'(1) by (simp add: blob_backs_def blob_identity_def)
    with b'(2) show ?thesis by blast
  qed
  have "bound_to h e m" if "bound_to g e m" for m
    using that given backs [of m] unfolding bound_to_def by blast
  then show ?thesis using assms unfolding evidence_valid_def evidence_kept_def by blast
qed

section \<open>Submission\<close>

lemma find_manifest_None:
  assumes "find_manifest org repository i digest m g = Inr None"
  shows "\<forall>x\<in>set (evidence_manifests g). manifest_key x \<noteq> (org, repository, digest)"
  using assms by (auto simp: find_manifest_def bind_res_Inr manifest_key_def split: option.splits)

lemma find_manifest_Some:
  assumes "find_manifest org repository i digest m g = Inr (Some x)"
  shows "x \<in> set (evidence_manifests g) \<and> manifest_key x = (org, repository, digest)"
proof -
  from assms obtain y where "find_by (\<lambda>x. em_org x = org \<and> em_repository x = repository \<and> em_payload_hash x = digest)
      (evidence_manifests g) = Some y" "y = x"
    by (auto simp: find_manifest_def bind_res_Inr split: option.splits simp del: find_by_None)
  from find_by_Some_iff [OF this(1)] this(2) show ?thesis by (simp add: manifest_key_def)
qed

lemma submit_Inr:
  assumes "submit_evidence_manifest env actor repository number payload now fresh fresh_event d = Inr (res, d')"
  obtains digest where "\<not> er_created res" "d' = d" "content_hash env payload = Inr digest"
      "er_manifest res \<in> set (evidence_manifests (governance d))"
      "manifest_key (er_manifest res) = (actor_org actor, repository, digest)"
  | items m scope_id work_revision digest i ids checked a bytes where
      "content_hash env payload = Inr digest"
      "\<forall>x\<in>set (evidence_manifests (governance d)). manifest_key x \<noteq> (actor_org actor, repository, digest)"
      "payload = JDict items" "read_manifest items = Inr m" "validate_full_commit (md_commit_sha m) = Inr ()"
      "md_pull_request_number m = number"
      "returns (authorize_action env now d actor EVIDENCE_SUBMIT (Some repository) None (Some scope_id) False)"
      "manifest_revision m (actor_org actor) repository scope_id d = Inr work_revision"
      "check_entry_identities (md_entries m) = Inr ids"
      "map_res (check_entry env (actor_org actor) repository scope_id work_revision m d) (zip ids (md_entries m)) = Inr checked"
      "actor_org a = actor_org actor"
      "store_manifest env a m items i repository scope_id (map_option wr_id work_revision) digest
         bytes checked now fresh fresh_event d = Inr (res, d')"
proof -
  note s = assms [unfolded submit_evidence_manifest_def bind_res_Inr]
  from s obtain tx items m org named scope_id dec a work_revision digest i known where
    dict: "as_dict payload = Inr items" and m: "read_manifest items = Inr m"
    and commit: "validate_full_commit (md_commit_sha m) = Inr ()"
    and target: "guard_res (org = actor_org actor \<and> named = repository \<and> md_pull_request_number m = number)
                 ResourceNotFoundError = Inr ()"
    and dec: "authorize_action env now d actor EVIDENCE_SUBMIT (Some repository) None (Some scope_id) False = Inr dec"
    and a: "audit_actor actor dec = Inr a"
    and rev: "manifest_revision m (actor_org actor) repository scope_id d = Inr work_revision"
    and digest: "content_hash env payload = Inr digest"
    and known: "find_manifest (actor_org actor) repository i digest m (governance d) = Inr known"
    and rest: "(case known of
         Some x \<Rightarrow>
           Inr (\<lparr>er_manifest = x,
                 er_evidence = sort_key ei_id (filter (\<lambda>e. ei_manifest e = em_id x)
                                                (evidence_items (governance d))),
                 er_created = False\<rparr>, d)
       | None \<Rightarrow>
           bind_res (check_entry_identities (md_entries m)) (\<lambda>ids.
           bind_res (guard_res (\<not> list_ex (\<lambda>e. ei_org e = actor_org actor \<and> ei_id e \<in> set ids)
                                    (evidence_items (governance d))) IdempotencyConflictError) (\<lambda>_.
           bind_res (map_res (check_entry env (actor_org actor) repository scope_id work_revision m d)
                       (zip ids (md_entries m))) (\<lambda>checked.
             store_manifest env a m items i repository scope_id
               (map_option wr_id work_revision) digest (text_bytes tx) checked now fresh fresh_event d)))) = Inr (res, d')"
    by (elim exE conjE) (rule that; (assumption | simp))
  show thesis
  proof (cases known)
    case (Some x)
    then show thesis using rest find_manifest_Some [OF known [unfolded Some]] digest by (intro that(1)) auto
  next
    case None
    note new = find_manifest_None [OF known [unfolded None]]
    from rest [unfolded None option.case bind_res_Inr] obtain ids checked where
      "check_entry_identities (md_entries m) = Inr ids"
      "map_res (check_entry env (actor_org actor) repository scope_id work_revision m d) (zip ids (md_entries m)) = Inr checked"
      "store_manifest env a m items i repository scope_id
               (map_option wr_id work_revision) digest (text_bytes tx) checked now fresh fresh_event d = Inr (res, d')"
      by blast
    moreover have "payload = JDict items" using dict by (simp add: as_dict_def split: json.splits)
    moreover have "actor_org a = actor_org actor" using a by (auto simp: audit_actor_def dest!: check_actor_Inr)
    moreover have "md_pull_request_number m = number" using target by (simp add: guard_res_def split: if_splits)
    ultimately show thesis using m commit dec rev digest new by (intro that(2)) (auto simp: returns_def)
  qed
qed

lemma store_manifest_Inr:
  assumes "store_manifest env a m items i repository scope_id revision digest bytes checked now fresh fresh_event d = Inr (res, d')"
  obtains row where "row = manifest_row a m i repository scope_id fresh revision digest bytes"
    "i \<notin> em_id ` set (evidence_manifests (governance d))"
    "manifest_key row \<notin> manifest_key ` set (evidence_manifests (governance d))"
    "governance d' = (governance d)\<lparr>evidence_manifests := evidence_manifests (governance d) @ [row],
       evidence_items := evidence_items (governance d) @ map (evidence_row (actor_org a) i (md_commit_sha m)) checked,
       retention_events := retention_events (governance d)
         @ map (\<lambda>c. ingested_event a (ke_id c) now (fresh_event (ke_id c))) checked\<rparr>"
    "er_manifest res = row" "er_evidence res = map (evidence_row (actor_org a) i (md_commit_sha m)) checked" "er_created res"
    "distinct (map ei_id (evidence_items (governance d))) \<longrightarrow> distinct (map ei_id (evidence_items (governance d')))"
    "distinct (blobs_used (governance d)) \<longrightarrow> distinct (blobs_used (governance d'))"
proof -
  let ?row = "manifest_row a m i repository scope_id fresh revision digest bytes"
  from assms [unfolded store_manifest_def Let_def bind_res_Inr] obtain d1 g1 g2 d2 where
    d1: "insert_artifact (manifest_artifact a m items scope_id digest fresh) d = Inr d1"
    and g1: "insert_manifest ?row (governance d1) = Inr g1"
    and g2: "store_entries a i (md_commit_sha m) now fresh_event checked g1 = Inr g2"
    and rec: "record_transition env (actor_org a) a (lit ''evidencemanifest'') i [] (lit ''INGESTED'') 1
                    [(lit ''content_hash'', JStr digest), (lit ''repository_id'', JStr (uuid_str repository))]
                    (d1\<lparr>governance := g2\<rparr>) = Inr d2"
    and res: "Inr (\<lparr>er_manifest = ?row,
                er_evidence = map (evidence_row (actor_org a) i (md_commit_sha m)) checked,
                er_created = True\<rparr>, d2) = (Inr (res, d') :: (evidence_import_result \<times> db) result)"
    by (elim exE conjE) (rule that)
  have gov: "governance d1 = governance d" using d1 by (auto simp: insert_artifact_def split: if_splits)
  have g1': "g1 = (governance d)\<lparr>evidence_manifests := evidence_manifests (governance d) @ [?row]\<rparr>"
    "i \<notin> em_id ` set (evidence_manifests (governance d))"
    "manifest_key ?row \<notin> manifest_key ` set (evidence_manifests (governance d))"
    using g1 gov by (auto simp: insert_manifest_def list_ex_iff manifest_row_def manifest_key_def split: if_splits)
  have d': "governance d' = g2" using record_transition_frame(36) [OF rec] res by simp
  have blobs: "blobs_used g1 = blobs_used (governance d)" by (simp add: g1'(1) blobs_used_def)
  note stored = store_entries_Inr [OF g2]
  have items: "evidence_items g1 = evidence_items (governance d)" by (simp add: g1'(1))
  from stored have ids: "distinct (map ei_id (evidence_items g1)) \<longrightarrow> distinct (map ei_id (evidence_items g2))"
    "distinct (blobs_used g1) \<longrightarrow> distinct (blobs_used g2)" by blast+
  have "governance d' = (governance d)\<lparr>evidence_manifests := evidence_manifests (governance d) @ [?row],
       evidence_items := evidence_items (governance d) @ map (evidence_row (actor_org a) i (md_commit_sha m)) checked,
       retention_events := retention_events (governance d)
         @ map (\<lambda>c. ingested_event a (ke_id c) now (fresh_event (ke_id c))) checked\<rparr>"
    unfolding d' conjunct1 [OF stored] g1'(1) by simp
  moreover have "er_manifest res = ?row" "er_created res"
    "er_evidence res = map (evidence_row (actor_org a) i (md_commit_sha m)) checked" using res by auto
  ultimately show thesis
    using ids g1'(2,3) unfolding d' [symmetric] items blobs by (intro that [of ?row]) (assumption | rule refl)+
qed

lemma checked_entries_valid:
  assumes "map_res (check_entry env org repository scope_id work_revision m d) (zip ids (md_entries m)) = Inr checked" "c \<in> set checked"
  shows "\<exists>i e. check_entry env org repository scope_id work_revision m d (i, e) = Inr c"
proof -
  from assms obtain k where "k < length checked" "checked ! k = c" by (auto simp: in_set_conv_nth)
  then show ?thesis
    using list_all2_nthD2 [OF assms(1) [unfolded map_res_Inr], of k] by (metis prod.exhaust)
qed

lemma new_evidence_valid:
  assumes "check_entry env org repository scope_id work_revision m d (i, e) = Inr c" "actor_org a = org"
    and "manifest_revision m org repository scope_id d = Inr work_revision"
    and "row = manifest_row a m mid repository scope_id fresh (map_option wr_id work_revision) digest bytes"
    and "row \<in> set (evidence_manifests h)" "set (approvals (governance d)) \<subseteq> set (approvals h)"
    and "set (evidence_blobs (governance d)) \<subseteq> set (evidence_blobs h)"
    and "\<exists>n\<in>set (retention_events h). rn_evidence n = ke_id c"
  shows "evidence_valid h (evidence_row org mid (md_commit_sha m) c)"
proof -
  let ?e = "evidence_row org mid (md_commit_sha m) c"
  note c = check_entry_Inr [OF assms(1)]
  note kind = type_specific_Inr [of "ke_entry c" "ke_completed c" work_revision org repository d "ke_approval c"]
  have "\<exists>x\<in>set (approvals h). approval_backs row x ?e" if "ei_kind ?e = MANUAL_APPROVAL"
  proof -
    have "ee_kind (ke_entry c) = MANUAL_APPROVAL" using that by (simp add: evidence_row_def)
    with kind c obtain x r where x: "ke_approval c = Some x" "work_revision = Some r" "x \<in> set (approvals (governance d))"
      "ap_org x = org" "approval_covers (governance d) x repository r (ke_completed c)" "ee_status (ke_entry c) = PASSED" by auto
    then have "approval_backs row x ?e"
      unfolding approval_backs_def assms(4)
      by (auto simp: approval_covers_def evidence_row_def manifest_row_def split: option.splits)
    then show ?thesis using x(3) assms(6) by blast
  qed
  moreover have "ei_approval ?e = None" if "ei_kind ?e \<noteq> MANUAL_APPROVAL"
    using that kind c by (auto simp: evidence_row_def)
  moreover have "\<exists>b\<in>set (evidence_blobs h). blob_backs row b ?e" if some: "ei_blob ?e \<noteq> None"
  proof -
    from some obtain b where b: "ke_blob c = Some b" by (auto simp: evidence_row_def)
    with c have "resolve_evidence_artifact_blob (ke_entry c) org repository scope_id (md_pull_request_number m)
        (md_commit_sha m) (governance d) = Inr (Some b)" by simp
    from resolved_blob [OF this] have "b \<in> set (evidence_blobs (governance d))" "blob_backs row b ?e"
      using b unfolding blob_backs_def assms(4) by (simp_all add: blob_fits_def evidence_row_def manifest_row_def)
    then show ?thesis using assms(7) by blast
  qed
  ultimately have "bound_to h ?e row"
    using c assms(2) by (auto simp: bound_to_def assms(4) manifest_row_def evidence_row_def)
  then show ?thesis
    using c assms(5,8) \<open>ei_kind ?e \<noteq> MANUAL_APPROVAL \<Longrightarrow> ei_approval ?e = None\<close>
    by (auto simp: evidence_valid_def evidence_row_def)
qed

lemma submit_step:
  assumes "submit_evidence_manifest env actor repository number payload now fresh fresh_event d = Inr (res, d')"
  shows "evidence_kept (governance d) (governance d')
     \<and> approval_revocations (governance d') = approval_revocations (governance d)
     \<and> criterion_mappings (governance d') = criterion_mappings (governance d)
     \<and> (evidence_coherent (governance d) \<longrightarrow> evidence_coherent (governance d'))"
  using assms
proof (rule submit_Inr)
  assume "d' = d"
  then show ?thesis by simp
next
  fix digest items m scope_id work_revision i ids checked a bytes
  assume commit: "validate_full_commit (md_commit_sha m) = Inr ()"
    and rev: "manifest_revision m (actor_org actor) repository scope_id d = Inr work_revision"
    and checked: "map_res (check_entry env (actor_org actor) repository scope_id work_revision m d) (zip ids (md_entries m)) = Inr checked"
    and org: "actor_org a = actor_org actor"
    and store: "store_manifest env a m items i repository scope_id (map_option wr_id work_revision) digest
         bytes checked now fresh fresh_event d = Inr (res, d')"
  from store show ?thesis
  proof (rule store_manifest_Inr)
    fix row
    assume row: "row = manifest_row a m i repository scope_id fresh (map_option wr_id work_revision) digest bytes"
      "i \<notin> em_id ` set (evidence_manifests (governance d))"
      "manifest_key row \<notin> manifest_key ` set (evidence_manifests (governance d))"
      and g: "governance d' = (governance d)\<lparr>evidence_manifests := evidence_manifests (governance d) @ [row],
       evidence_items := evidence_items (governance d) @ map (evidence_row (actor_org a) i (md_commit_sha m)) checked,
       retention_events := retention_events (governance d)
         @ map (\<lambda>c. ingested_event a (ke_id c) now (fresh_event (ke_id c))) checked\<rparr>"
      and distinct: "distinct (map ei_id (evidence_items (governance d))) \<longrightarrow> distinct (map ei_id (evidence_items (governance d')))"
        "distinct (blobs_used (governance d)) \<longrightarrow> distinct (blobs_used (governance d'))"
    have kept: "evidence_kept (governance d) (governance d')" by (auto simp: g evidence_kept_def)
    have new: "evidence_valid (governance d') (evidence_row (actor_org actor) i (md_commit_sha m) c)" if "c \<in> set checked" for c
    proof -
      from checked_entries_valid [OF checked that] obtain j e where
        e: "check_entry env (actor_org actor) repository scope_id work_revision m d (j, e) = Inr c" by blast
      have "rn_evidence (ingested_event a (ke_id c) now (fresh_event (ke_id c))) = ke_id c"
        by (simp add: ingested_event_def)
      then have "\<exists>n\<in>set (retention_events (governance d')). rn_evidence n = ke_id c" using that by (auto simp: g)
      then show ?thesis by (intro new_evidence_valid [OF e org rev row(1)]) (simp_all add: g)
    qed
    have "evidence_coherent (governance d')" if co: "evidence_coherent (governance d)"
      unfolding evidence_coherent_def
    proof (intro conjI ballI)
      show "distinct (map ei_id (evidence_items (governance d')))" "distinct (blobs_used (governance d'))"
        using co distinct by (simp_all add: evidence_coherent_def)
      show "distinct (map em_id (evidence_manifests (governance d')))"
        using co row by (simp add: evidence_coherent_def g manifest_row_def)
      show "distinct (map manifest_key (evidence_manifests (governance d')))"
        using co row(3) by (simp add: evidence_coherent_def g)
      show "distinct (map eb_id (evidence_blobs (governance d')))"
        using co by (simp add: evidence_coherent_def g)
      show "validate_full_commit (em_commit x) = Inr ()" if "x \<in> set (evidence_manifests (governance d'))" for x
        using that co commit by (auto simp: evidence_coherent_def g row(1) manifest_row_def)
      show "evidence_valid (governance d') e" if "e \<in> set (evidence_items (governance d'))" for e
      proof -
        from that consider "e \<in> set (evidence_items (governance d))"
          | c where "c \<in> set checked" "e = evidence_row (actor_org actor) i (md_commit_sha m) c"
          by (auto simp: g org)
        then show ?thesis
        proof cases
          case 1
          then show ?thesis using co kept evidence_valid_kept by (auto simp: evidence_coherent_def)
        next
          case 2
          then show ?thesis using new by simp
        qed
      qed
    qed
    then show ?thesis using kept by (simp add: g)
  qed
qed

section \<open>Every step\<close>

text \<open>The tables of evidence, which no operation on work items writes.\<close>

definition evidence_side ::
  "governance \<Rightarrow> upload_authorization list \<times> evidence_blob list \<times> evidence_manifest list \<times> evidence list
     \<times> retention_event list \<times> criterion_evidence list"
where
  "evidence_side g = (upload_authorizations g, evidence_blobs g, evidence_manifests g, evidence_items g,
     retention_events g, criterion_mappings g)"

lemma pointer_evidence_side: "store_work_item org repository scope_id item_id w digest g = Inr (Advanced i previous g')
    \<Longrightarrow> evidence_side g' = evidence_side g"
  using stored_item [of org repository scope_id item_id w digest g i previous g'] by (auto simp: evidence_side_def)

lemma revision_evidence_side: "store_revision env r w fresh g = Inr g' \<Longrightarrow> evidence_side g' = evidence_side g"
  by (auto simp: store_revision_def Let_def bind_res_Inr insert_revision_def evidence_side_def split: if_splits)

lemma intent_evidence_side:
  assumes "intent_step env d d'"
  shows "evidence_side (governance d') = evidence_side (governance d)"
  using assms
proof cases
  case (imported fresh actor payload now res)
  from imported(2) show ?thesis
    by (rule import_work_Inr) (simp_all add: pointer_evidence_side revision_evidence_side)
next
  case (approved actor repository i status kind key reason expires now fresh a c)
  from approved show ?thesis by (rule approve_Inr) (simp_all add: evidence_side_def)
next
  case (revoked actor repository i reason now fresh x c)
  from revoke_approval_Inr [OF revoked] show ?thesis by (auto simp: evidence_side_def)
qed

lemma same_side_kept:
  assumes "evidence_side h = evidence_side g" "prefix (approvals g) (approvals h)"
    and "prefix (approval_revocations g) (approval_revocations h)"
  shows "evidence_kept g h" "evidence_coherent g \<Longrightarrow> evidence_coherent h"
proof -
  show kept: "evidence_kept g h"
    using assms(1) set_mono_prefix [OF assms(2)] set_mono_prefix [OF assms(3)]
    by (simp add: evidence_kept_def evidence_side_def)
  show "evidence_coherent h" if "evidence_coherent g"
    using that assms(1) evidence_valid_kept [OF _ kept] by (simp add: evidence_coherent_def evidence_side_def blobs_used_def)
qed

section \<open>Expiry and deletion\<close>

text \<open>What a retention run and a deletion may change: events and runs are added, and blobs keep their identity.\<close>

definition retention_only :: "governance \<Rightarrow> governance \<Rightarrow> bool" where
  "retention_only g h \<longleftrightarrow>
     evidence_manifests h = evidence_manifests g \<and> approvals h = approvals g
     \<and> approval_revocations h = approval_revocations g \<and> evidence_items h = evidence_items g
     \<and> criterion_mappings h = criterion_mappings g \<and> set (retention_events g) \<subseteq> set (retention_events h)
     \<and> map blob_identity (evidence_blobs h) = map blob_identity (evidence_blobs g)"

lemma retention_only_refl [simp]: "retention_only g g"
  by (simp add: retention_only_def)

lemma retention_only_keeps:
  assumes "retention_only g h"
  shows "evidence_kept g h" "evidence_coherent g \<Longrightarrow> evidence_coherent h" "mappings_faithful env h = mappings_faithful env g"
proof -
  have blobs: "map blob_identity (evidence_blobs h) = map blob_identity (evidence_blobs g)"
    using assms by (simp add: retention_only_def)
  then have "blob_identity ` set (evidence_blobs h) = blob_identity ` set (evidence_blobs g)" by (metis list.set_map)
  then show kept: "evidence_kept g h" using assms by (simp add: evidence_kept_def retention_only_def)
  have "map (fst \<circ> fst) (map blob_identity (evidence_blobs h)) = map (fst \<circ> fst) (map blob_identity (evidence_blobs g))"
    by (simp only: blobs)
  then have "map eb_id (evidence_blobs h) = map eb_id (evidence_blobs g)" by (simp add: comp_def blob_identity_def)
  then show "evidence_coherent h" if "evidence_coherent g"
    using that assms evidence_valid_kept [OF _ kept] by (simp add: evidence_coherent_def retention_only_def blobs_used_def)
  show "mappings_faithful env h = mappings_faithful env g"
    using assms by (simp add: mappings_faithful_def retention_only_def)
qed

lemma open_retention_only:
  assumes "open_retention_run actor cutoff now dry_run digest fresh_run fresh d = Inr (s, d')"
  shows "retention_only (governance d) (governance d')"
proof -
  let ?g = "(governance d)\<lparr>retention_runs := retention_runs (governance d) @ [scheduled_run actor cutoff dry_run digest fresh_run]\<rparr>"
  obtain n e where n: "purge_expired_rate_buckets (actor_org actor) now d = (n, e)" by fastforce
  have "governance d' = (if dry_run then ?g else expire_evidence actor now fresh (due_evidence (governance d) (actor_org actor) cutoff now) ?g)"
    using assms by (auto simp: open_retention_run_def n Let_def bind_res_Inr)
  then show ?thesis by (simp add: retention_only_def expire_evidence_def)
qed

lemma start_retention_only:
  assumes "start_retention env actor clock now n dry_run fresh_run fresh d = Inr (s, d')"
  shows "retention_only (governance d) (governance d')"
proof -
  from assms have "d' = d \<or> (\<exists>cutoff digest s. open_retention_run actor cutoff now dry_run digest fresh_run fresh d = Inr (s, d'))"
    unfolding start_retention_def Let_def bind_res_Inr by (auto simp: bind_res_Inr simp del: find_by_None lit_simps split: option.splits)
  then show ?thesis using open_retention_only by auto
qed

lemma finish_retention_only:
  assumes "finish_retention env actor i summary now d = Inr (r, d')"
  shows "retention_only (governance d) (governance d')"
proof -
  from assms obtain e f where "record_transition env (actor_org actor) actor (lit ''retentionrun'') e
      (lit ''RUNNING'') (lit ''COMPLETED'') 1 []
      (d\<lparr>governance := (governance d)\<lparr>retention_runs := f\<rparr>\<rparr>) = Inr d'"
    by (auto simp: finish_retention_def Let_def bind_res_Inr split: option.splits)
  from record_transition_frame(36) [OF this] show ?thesis by (simp add: retention_only_def)
qed

lemma saved_blob_only:
  assumes "distinct (map eb_id (evidence_blobs (governance d)))" "b \<in> set (evidence_blobs (governance d))"
    and "blob_identity b' = blob_identity b"
  shows "retention_only (governance d) (governance (save_row blob_table b' d))"
proof -
  have id: "eb_id b' = eb_id b" using assms(3) by (simp add: blob_identity_def)
  have "blob_identity (if eb_id x = eb_id b then b' else x) = blob_identity x"
    if "x \<in> set (evidence_blobs (governance d))" for x
  proof (cases "eb_id x = eb_id b")
    case True
    then have "x = b" using that assms(1,2) by (auto simp: distinct_map inj_on_def)
    then show ?thesis using assms(3) by simp
  qed simp
  then show ?thesis by (simp add: retention_only_def save_row_def blob_table_def update_where_def id)
qed

lemma begin_deletion_only:
  assumes "begin_blob_deletion org i reason cutoff reference d = Inr (b', d')"
    and "distinct (map eb_id (evidence_blobs (governance d)))"
  shows "retention_only (governance d) (governance d')"
proof -
  from assms(1) obtain b where b: "get_tenant_record blob_table i org d = Inr b"
    and d': "d' = d \<or> d' = save_row blob_table (marked_for_deletion reason b) d"
    by (auto simp: begin_blob_deletion_def get_tenant_record_for_update_def bind_res_Inr split: if_splits)
  have "b \<in> set (evidence_blobs (governance d))" using get_tenant_record_Inr [OF b] by (simp add: blob_table_def)
  then have "retention_only (governance d) (governance (save_row blob_table (marked_for_deletion reason b) d))"
    by (rule saved_blob_only [OF assms(2)]) (simp add: marked_for_deletion_def blob_identity_def)
  then show ?thesis using d' by auto
qed

lemma settle_deletion_only:
  assumes "settle_blob_deletion org i failure now d = (res, d')"
    and "distinct (map eb_id (evidence_blobs (governance d)))"
  shows "retention_only (governance d) (governance d')"
proof (cases "locked_blob org i d")
  case (Inl e)
  then show ?thesis using assms(1) by (simp add: settle_blob_deletion_def)
next
  case (Inr b)
  have b: "b \<in> set (evidence_blobs (governance d))"
    using Inr by (auto simp: locked_blob_def bind_res_Inr split: option.splits simp del: find_by_None dest: find_by_Some_iff)
  let ?failed = "\<lambda>code. b\<lparr>eb_storage_state := lit ''DELETE_FAILED'', eb_storage_error_code := code\<rparr>"
  have "d' = d \<or> d' = save_row blob_table (deleted_blob now b) d \<or> (\<exists>code. d' = save_row blob_table (?failed code) d)"
    using assms(1) unfolding settle_blob_deletion_def Inr
    by (auto simp del: lit_simps split: if_splits option.splits)
  moreover have "blob_identity (deleted_blob now b) = blob_identity b" "blob_identity (?failed code) = blob_identity b" for code
    by (simp_all add: blob_identity_def deleted_blob_def)
  ultimately show ?thesis using saved_blob_only [OF assms(2) b] by auto
qed

section \<open>Sequences of operations\<close>

text \<open>
  Any sequence of operations on work items, submissions, mappings, retention runs and deletions of bytes by anyone.
  The parts of a run and of a deletion that commit on their own are steps of their own.
\<close>

inductive delivery_step :: "environment \<Rightarrow> db \<Rightarrow> db \<Rightarrow> bool" for env where
  intent: "intent_step env d d' \<Longrightarrow> delivery_step env d d'"
| submitted: "submit_evidence_manifest env actor repository number payload now fresh fresh_event d = Inr (res, d')
     \<Longrightarrow> delivery_step env d d'"
| mapped: "map_criterion_evidence env actor t i now fresh_mapping d = Inr (ms, d') \<Longrightarrow> delivery_step env d d'"
| expired: "start_retention env actor clock now retention_days dry_run fresh_run fresh d = Inr (s, d') \<Longrightarrow> delivery_step env d d'"
| marked: "begin_blob_deletion org i reason cutoff reference d = Inr (b, d') \<Longrightarrow> delivery_step env d d'"
| settled: "settle_blob_deletion org i failure now d = (outcome, d') \<Longrightarrow> delivery_step env d d'"
| completed: "finish_retention env actor i summary now d = Inr (r, d') \<Longrightarrow> delivery_step env d d'"

text \<open>A deletion and a whole retention run, whatever they raise in the end, are sequences of these steps.\<close>

lemma deletion_steps:
  assumes "delete_evidence_blob_bytes env store org i reason cutoff reference clock d = (res, d')"
  shows "(delivery_step env)\<^sup>*\<^sup>* d d'"
proof (cases "begin_blob_deletion org i reason cutoff reference d")
  case (Inl e)
  then show ?thesis using assms by (simp add: delete_evidence_blob_bytes_def)
next
  case (Inr p)
  obtain b d1 where p: "p = (b, d1)" by (cases p)
  have first: "delivery_step env d d1" using Inr p by (auto intro: delivery_step.marked)
  show ?thesis
  proof (cases "eb_storage_state b = lit ''DELETED''")
    case True
    then show ?thesis using assms Inr p first by (simp add: delete_evidence_blob_bytes_def r_into_rtranclp)
  next
    case False
    then have "settle_blob_deletion org i (storage_failure env store (governance d1) b) clock d1 = (res, d')"
      using assms Inr p by (simp add: delete_evidence_blob_bytes_def)
    then have "delivery_step env d1 d'" by (rule delivery_step.settled)
    with first show ?thesis by (meson rtranclp.simps)
  qed
qed

lemma batch_steps:
  assumes "delete_blob_batch env store org is reason cutoff reference clock n d = (res, d')"
  shows "(delivery_step env)\<^sup>*\<^sup>* d d'"
  using assms
proof (induction env store org "is" reason cutoff reference clock n d rule: delete_blob_batch.induct)
  case (1 env store org reason cutoff reference clock n d)
  then show ?case by simp
next
  case (2 env store org i "is" reason cutoff reference clock deleted failed d)
  obtain r d1 where one: "delete_evidence_blob_bytes env store org i reason cutoff reference clock d = (r, d1)" by fastforce
  have "(delivery_step env)\<^sup>*\<^sup>* d1 d'"
    using "2.prems" "2.IH" [OF one [symmetric]] one by (auto split: sum.splits if_splits)
  with deletion_steps [OF one] show ?case by (rule rtranclp_trans)
qed

lemma retention_steps:
  assumes "run_retention env store actor clock now n dry_run fresh_run fresh d = (res, d')"
  shows "(delivery_step env)\<^sup>*\<^sup>* d d'"
proof (cases "start_retention env actor clock now n dry_run fresh_run fresh d")
  case (Inl e)
  then show ?thesis using assms by (simp add: run_retention_def)
next
  case (Inr p)
  obtain s cutoff d1 where p: "p = ((s, cutoff), d1)" by (metis prod.exhaust)
  have first: "(delivery_step env)\<^sup>*\<^sup>* d d1" using Inr p by (auto intro: delivery_step.expired)
  show ?thesis
  proof (cases s)
    case (AlreadyRequested r)
    then show ?thesis using assms Inr p first by (simp add: run_retention_def)
  next
    case (RetentionStarted run due summary)
    then have rest: "settle_retention env store actor clock now cutoff dry_run run due summary d1 = (res, d')"
      using assms Inr p by (simp add: run_retention_def)
    obtain c where c: "retention_blob_candidates (governance d1) (actor_org actor) due cutoff now = c" by blast
    show ?thesis
    proof (cases c)
      case (Inl e)
      then show ?thesis using rest c first by (simp add: settle_retention_def)
    next
      case (Inr ids)
      obtain l u where ids: "ids = (l, u)" by (cases ids)
      obtain n d2 where n: "(if dry_run then (Inr (0, 0), d1) else delete_blob_batch env store (actor_org actor) (l @ u)
          (lit ''retention_expired'') (Some cutoff) (Some now) clock (0, 0) d1) = (n, d2)" by fastforce
      have second: "(delivery_step env)\<^sup>*\<^sup>* d1 d2" using n by (auto split: if_splits dest: batch_steps)
      have "d' = d2 \<or> (\<exists>r s. finish_retention env actor (rr_id run) s now d2 = Inr (r, d'))"
        using rest c Inr ids n by (auto simp: settle_retention_def split: sum.splits prod.splits)
      then have "(delivery_step env)\<^sup>*\<^sup>* d2 d'" by (auto intro: delivery_step.completed)
      with first second show ?thesis by (meson rtranclp_trans)
    qed
  qed
qed

lemma mapping_step:
  assumes "map_criterion_evidence env actor t i now fresh d = Inr (ms, d')"
  shows "evidence_kept (governance d) (governance d')
     \<and> (evidence_coherent (governance d) \<longrightarrow> evidence_coherent (governance d'))
     \<and> (mappings_faithful env (governance d) \<longrightarrow> mappings_faithful env (governance d'))"
proof -
  obtain xs created where "ms = (xs, created)" by fastforce
  from assms [unfolded this] show ?thesis
  proof (rule mapping_Inr)
    fix r it new
    assume new: "added_mappings d d' new"
      "\<forall>x\<in>set new. mapping_faithful env x
       \<and> made_by (actor_org actor) (governance d) r t (selection_over (governance d) (actor_org actor) t r)
           (criteria_in_order (governance d) (actor_org actor) i) x"
    have kept: "evidence_kept (governance d) (governance d')"
      using new(1) by (simp add: added_mappings_def evidence_kept_def)
    have "evidence_coherent (governance d')" if "evidence_coherent (governance d)"
      using that new(1) evidence_valid_kept [OF _ kept]
      by (simp add: added_mappings_def evidence_coherent_def blobs_used_def)
    then show ?thesis using kept added_mappings_faithful [OF new(1)] new(2) by blast
  qed
qed

lemma delivery_step_keeps:
  assumes "delivery_step env d d'" "evidence_coherent (governance d)"
  shows "evidence_kept (governance d) (governance d') \<and> evidence_coherent (governance d')
     \<and> (mappings_faithful env (governance d) \<longrightarrow> mappings_faithful env (governance d'))"
proof -
  have blobs: "distinct (map eb_id (evidence_blobs (governance d)))" using assms(2) by (simp add: evidence_coherent_def)
  have only: ?thesis if "retention_only (governance d) (governance d')"
    using retention_only_keeps [OF that] assms(2) by blast
  from assms(1) show ?thesis
  proof cases
    case intent
    note side = intent_evidence_side [OF intent] and added = intent_step_adds [OF intent]
    have "mappings_faithful env (governance d) \<longrightarrow> mappings_faithful env (governance d')"
      using side by (simp add: mappings_faithful_def evidence_side_def)
    then show ?thesis using same_side_kept [OF side] added assms(2) unfolding only_added_def by blast
  next
    case submitted
    from submit_step [OF this] assms(2) show ?thesis by (simp add: mappings_faithful_def)
  next
    case mapped
    from mapping_step [OF this] assms(2) show ?thesis by blast
  next
    case expired
    then show ?thesis by (intro only start_retention_only)
  next
    case marked
    then show ?thesis by (intro only begin_deletion_only [OF _ blobs])
  next
    case settled
    then show ?thesis by (intro only settle_deletion_only [OF _ blobs])
  next
    case completed
    then show ?thesis by (intro only finish_retention_only)
  qed
qed

lemma delivery_steps_keep:
  assumes "(delivery_step env)\<^sup>*\<^sup>* d d'" "evidence_coherent (governance d)"
  shows "evidence_kept (governance d) (governance d') \<and> evidence_coherent (governance d')
     \<and> (mappings_faithful env (governance d) \<longrightarrow> mappings_faithful env (governance d'))"
  using assms
proof (induction rule: rtranclp_induct)
  case base
  then show ?case by simp
next
  case (step d1 d2)
  then have "evidence_coherent (governance d1)" by blast
  from delivery_step_keeps [OF step(2) this] step(3,4) show ?case using evidence_kept_trans by blast
qed

section \<open>A withdrawn approval\<close>

text \<open>Two rows of evidence with one identifier are one row.\<close>

lemma evidence_by_id:
  assumes "evidence_coherent g" "e \<in> set (evidence_items g)" "e' \<in> set (evidence_items g)" "ei_id e = ei_id e'"
  shows "e = e'"
  using assms by (auto simp: evidence_coherent_def distinct_map inj_on_def)

lemma withdrawn_not_selected:
  assumes "evidence_coherent g" "x \<in> set (approval_revocations g)" "ar_approval x = i" "ar_revoked_at x \<le> mt_reference t"
    and "select_evidence g r t (selection_over g org t r) c required = Some e"
  shows "ei_approval e \<noteq> Some i"
proof
  assume i: "ei_approval e = Some i"
  have e: "e \<in> set (evidence_items g)" "eligible_evidence g c r required (mt_reference t) e"
    using select_evidence_Some [OF assms(5)] exact_evidence_in by (auto simp: selection_over_def)
  have "evidence_valid g e" using assms(1) e(1) by (simp add: evidence_coherent_def)
  then have "ei_kind e = MANUAL_APPROVAL" using i by (auto simp: evidence_valid_def)
  then have "approval_satisfies g c r (mt_reference t) e" using e(2) by (simp add: eligible_evidence_def)
  then obtain a where a: "approval_of g e = Some a" "\<not> approval_withdrawn_by g a (mt_reference t)"
    by (auto simp: approval_satisfies_def split: option.splits)
  have "ap_id a = i" using a(1) i by (auto simp: approval_of_def dest: find_by_Some_iff simp del: find_by_None)
  then have "approval_withdrawn_by g a (mt_reference t)"
    using assms(2-4) by (auto simp: approval_withdrawn_by_def list_ex_iff)
  with a(2) show False by simp
qed

section \<open>One manifest for one content\<close>

lemma submitted_manifest:
  assumes "submit_evidence_manifest env actor repository number payload now fresh fresh_event d = Inr (res, d')"
  obtains digest where "content_hash env payload = Inr digest" "er_manifest res \<in> set (evidence_manifests (governance d'))"
    "manifest_key (er_manifest res) = (actor_org actor, repository, digest)"
  using assms
proof (rule submit_Inr)
  fix digest
  assume "d' = d" "content_hash env payload = Inr digest" "er_manifest res \<in> set (evidence_manifests (governance d))"
    "manifest_key (er_manifest res) = (actor_org actor, repository, digest)"
  then show thesis using that by simp
next
  fix digest items m scope_id work_revision i ids checked a bytes
  assume h: "content_hash env payload = Inr digest" and org: "actor_org a = actor_org actor"
    and store: "store_manifest env a m items i repository scope_id (map_option wr_id work_revision) digest
         bytes checked now fresh fresh_event d = Inr (res, d')"
  from store show thesis
    by (rule store_manifest_Inr) (use h org in \<open>auto intro!: that simp: manifest_key_def manifest_row_def\<close>)
qed

lemma resubmitted:
  assumes "submit_evidence_manifest env actor repository number payload now fresh fresh_event d = Inr (res, d')"
    and "x \<in> set (evidence_manifests (governance d))" "manifest_key x = (actor_org actor, repository, digest)"
    and "content_hash env payload = Inr digest" "evidence_coherent (governance d)"
  shows "\<not> er_created res \<and> er_manifest res = x \<and> d' = d"
  using assms(1)
proof (rule submit_Inr)
  fix h
  assume "\<not> er_created res" "d' = d" "content_hash env payload = Inr h"
    "er_manifest res \<in> set (evidence_manifests (governance d))"
    "manifest_key (er_manifest res) = (actor_org actor, repository, h)"
  then show ?thesis using assms(2-5) by (auto simp: evidence_coherent_def distinct_map inj_on_def)
qed (use assms(2-4) in auto)

end
