(* ===== verification/EvidenceClaims.thy ===== *)
theory EvidenceClaims
  imports EvidenceSafety GovernanceSamples
begin

text \<open>
  The properties of the evidence services, over the small deployment of \<open>GovernanceSamples\<close>: a work item
  whose criterion asks for a manual approval, the approval, and the evidence that cites it.
\<close>

section \<open>Sample rows\<close>

definition sample_commit :: pystr where
  "sample_commit = replicate 40 97"

definition sample_code :: pystr where
  "sample_code = lit ''ACC''"

definition sample_evidence_item :: work_item where
  "sample_evidence_item =
     \<lparr>wi_id = 70, wi_org = 1, wi_repository = 50, wi_access_scope = 60, wi_external_key = JNull, wi_title = [],
      wi_work_type = [], wi_status = [], wi_content_hash = [], wi_revision = 1\<rparr>"

definition sample_evidence_revision :: work_revision where
  "sample_evidence_revision =
     \<lparr>wr_id = 71, wr_org = 1, wr_item = 70, wr_revision = 1, wr_title = [], wr_work_type = [], wr_status = [],
      wr_summary = [], wr_origin = [], wr_source_references = JNull, wr_payload = JNull, wr_content_hash = [],
      wr_created_by_type = [], wr_created_by_id = []\<rparr>"

definition sample_asked :: acceptance_criterion where
  "sample_asked =
     \<lparr>cr_id = 72, cr_org = 1, cr_revision = 71, cr_position = 1, cr_requirement = None, cr_code = sample_code,
      cr_normalized_text = [], cr_evidence_types = [MANUAL_APPROVAL], cr_manual_approval = True\<rparr>"

definition sample_given :: approval where
  "sample_given =
     \<lparr>ap_id = 80, ap_org = 1, ap_revision = 71, ap_repository = 50, ap_target_kind = lit ''ACCEPTANCE_CRITERION'',
      ap_target_key = sample_code, ap_status = lit ''APPROVED'', ap_actor_type = [], ap_actor_id = [],
      ap_authority_action = [], ap_reason = [], ap_idempotency_key = [], ap_decided_at = 1, ap_expires_at = None\<rparr>"

definition sample_manifest :: evidence_manifest where
  "sample_manifest =
     \<lparr>em_id = 90, em_org = 1, em_repository = 50, em_access_scope = 60, em_artifact = 95, em_work_revision = Some 71,
      em_pull_request = 7, em_commit = sample_commit, em_schema_version = [], em_producer = [],
      em_producer_version = [], em_producer_mode = [], em_payload_hash = [], em_payload_size = 0\<rparr>"

definition sample_evidence :: evidence where
  "sample_evidence =
     \<lparr>ei_id = 91, ei_org = 1, ei_manifest = 90, ei_blob = None, ei_approval = Some 80, ei_commit = sample_commit,
      ei_kind = MANUAL_APPROVAL, ei_name = [], ei_producer = [], ei_producer_version = [], ei_command = [],
      ei_status = PASSED, ei_started_at = None, ei_completed_at = 2, ei_artifact_reference = [], ei_source_url = [],
      ei_content_hash = [], ei_limitations = JList [], ei_criterion_codes = [sample_code], ei_retention_class = [],
      ei_retention_expires_at = None, ei_environment = [], ei_scenario = []\<rparr>"

definition sample_retention :: retention_event where
  "sample_retention =
     \<lparr>rn_id = 92, rn_org = 1, rn_evidence = 91, rn_state = lit ''ACTIVE'', rn_reason = [], rn_actor_type = [],
      rn_actor_id = [], rn_occurred_at = 2\<rparr>"

definition sample_proof :: governance where
  "sample_proof = empty_governance\<lparr>work_items := [sample_evidence_item], work_revisions := [sample_evidence_revision],
     acceptance_criteria := [sample_asked], approvals := [sample_given], evidence_manifests := [sample_manifest],
     evidence_items := [sample_evidence], retention_events := [sample_retention]\<rparr>"

definition sample_mapping_target :: mapping_target where
  "sample_mapping_target = \<lparr>mt_repository = 50, mt_pull_request = 7, mt_commit = sample_commit, mt_reference = 5,
     mt_reference_text = lit ''5''\<rparr>"

lemma sample_commit_full: "validate_full_commit sample_commit = Inr ()"
  by (simp add: validate_full_commit_def sample_commit_def is_lower_hex_def list_all_iff)

lemma sample_coherent: "evidence_coherent sample_proof"
proof -
  have "bound_to sample_proof sample_evidence sample_manifest"
    by (simp add: bound_to_def sample_proof_def sample_evidence_def sample_manifest_def sample_given_def
        approval_backs_def empty_governance_def)
  then show ?thesis
    by (simp add: evidence_coherent_def evidence_valid_def blobs_used_def map_filter_def sample_proof_def empty_governance_def
        sample_evidence_def sample_manifest_def sample_retention_def sample_commit_full [unfolded sample_commit_def]
        sample_commit_def validate_relative_artifact_path_def)
qed

lemma sample_separated: "identities_separated sample_env"
proof -
  have "float_texts sample_float_text" by (rule sample_float_texts)
  then show ?thesis by (simp add: identities_separated_def sample_env_def inj_on_def)
qed

lemma sample_identity:
  "\<exists>k. content_hash env (mapping_identity sample_mapping_target i MANUAL_APPROVAL e (lit ''NO_ELIGIBLE_EVIDENCE'')) = Inr k"
  "\<exists>k. content_hash env (mapping_identity sample_mapping_target i MANUAL_APPROVAL e []) = Inr k"
  "\<exists>k. content_hash env (JDict (mapping_input sample_mapping_target i MANUAL_APPROVAL)) = Inr k"
proof -
  have commit: "\<not> list_ex is_surrogate sample_commit" by (simp add: sample_commit_def list_ex_iff plain_char)
  note defs = mapping_identity_def mapping_input_def uuid_json_def uuid_str_surrogates plain_char MANUAL_APPROVAL_def
    sample_mapping_target_def commit mapping_engine_def
  show "\<exists>k. content_hash env (mapping_identity sample_mapping_target i MANUAL_APPROVAL e (lit ''NO_ELIGIBLE_EVIDENCE'')) = Inr k"
    by (rule content_hash_utf8) (simp add: defs split: option.split)
  show "\<exists>k. content_hash env (mapping_identity sample_mapping_target i MANUAL_APPROVAL e []) = Inr k"
    by (rule content_hash_utf8) (simp add: defs split: option.split)
  show "\<exists>k. content_hash env (JDict (mapping_input sample_mapping_target i MANUAL_APPROVAL)) = Inr k"
    by (rule content_hash_utf8) (simp add: defs)
qed

text \<open>The first transition of a type of target is recorded.\<close>

lemma recorded_first:
  assumes "json_clean env (JDict md)" "actor_clean env actor" "tt \<notin> au_target_type ` set (audit_events d)"
    and "\<forall>x\<in>set (outbox_events d). case ob_key x of TransitionKey u _ _ _ _ \<Rightarrow> u \<noteq> tt"
  shows "\<exists>a b. record_transition env org actor tt tid fs ts rv md d
     = Inr (d\<lparr>audit_events := audit_events d @ [a], outbox_events := outbox_events d @ [b]\<rparr>)
     \<and> au_target_type a = tt \<and> ob_key b = TransitionKey tt tid rv fs ts"
proof -
  have "audit_identity (audit_row org actor tt tid fs ts md) \<notin> audit_identity ` set (audit_events d)"
    using assms(3) by (auto simp: audit_identity_def audit_row_def)
  moreover have "outbox_identity (outbox_row org tt tid fs ts rv md) \<notin> outbox_identity ` set (outbox_events d)"
  proof
    assume "outbox_identity (outbox_row org tt tid fs ts rv md) \<in> outbox_identity ` set (outbox_events d)"
    then obtain x where x: "x \<in> set (outbox_events d)" "ob_key x = TransitionKey tt tid rv fs ts"
      by (auto simp: outbox_identity_def outbox_row_def)
    from bspec [OF assms(4) x(1)] x(2) show False by simp
  qed
  ultimately have "record_transition env org actor tt tid fs ts rv md d
     = Inr (d\<lparr>audit_events := audit_events d @ [audit_row org actor tt tid fs ts md],
              outbox_events := outbox_events d @ [outbox_row org tt tid fs ts rv md]\<rparr>)"
    using assms(1,2) validate_audit_value_Inr(1) [of env "JDict md" "()"]
    by (simp add: record_transition_def insert_unique_def actor_clean_def)
  moreover have "au_target_type (audit_row org actor tt tid fs ts md) = tt"
    "ob_key (outbox_row org tt tid fs ts rv md) = TransitionKey tt tid rv fs ts"
    by (simp_all add: audit_row_def outbox_row_def)
  ultimately show ?thesis by blast
qed

section \<open>Sample mappings\<close>

abbreviation sample_after :: "approval_revocation list \<Rightarrow> governance" where
  "sample_after rs \<equiv> sample_proof\<lparr>approval_revocations := rs\<rparr>"

lemma sample_pairs: "required_pairs (criteria_in_order (sample_after rs) 1 71) = [(sample_asked, MANUAL_APPROVAL)]"
  by (simp add: required_pairs_def criteria_in_order_def sample_proof_def empty_governance_def sample_asked_def
      sorted_set_def del: One_nat_def)

lemma sample_selection: "selection_over (sample_after rs) 1 sample_mapping_target sample_evidence_revision = [sample_evidence]"
  by (simp add: selection_over_def exact_evidence_def of_target_def sample_proof_def empty_governance_def sample_evidence_def
      sample_manifest_def sample_mapping_target_def sample_evidence_revision_def)

lemma sample_stale: "stale_pairs (sample_after rs) 1 sample_mapping_target sample_evidence_revision = []"
  by (simp add: stale_pairs_def other_commit_pairs_def of_target_def sample_proof_def empty_governance_def sample_evidence_def
      sample_manifest_def sample_mapping_target_def sample_evidence_revision_def)

lemma sample_selected:
  "select_evidence (sample_after rs) sample_evidence_revision sample_mapping_target [sample_evidence] sample_asked MANUAL_APPROVAL
     = (if \<exists>x\<in>set rs. ar_approval x = 80 \<and> ar_revoked_at x \<le> 5 then None else Some sample_evidence)"
proof -
  have retained: "is_retained (sample_after rs) sample_evidence 5"
    by (simp add: is_retained_def latest_retention_def first_by_def sample_proof_def empty_governance_def sample_evidence_def
        sample_retention_def)
  have given: "approval_of (sample_after rs) sample_evidence = Some sample_given"
    by (simp add: approval_of_def sample_proof_def empty_governance_def sample_evidence_def sample_given_def)
  have applies: "approval_applies_to_criterion (sample_after rs) sample_given sample_asked sample_evidence_revision"
    by (simp add: approval_applies_to_criterion_def sample_given_def sample_asked_def)
  have "approval_satisfies (sample_after rs) sample_asked sample_evidence_revision 5 sample_evidence
     \<longleftrightarrow> \<not> (\<exists>x\<in>set rs. ar_approval x = 80 \<and> ar_revoked_at x \<le> 5)"
    unfolding approval_satisfies_def given option.case
    by (simp add: applies) (simp add: approval_withdrawn_by_def list_ex_iff sample_given_def sample_asked_def sample_evidence_revision_def)
  moreover have "eligible_evidence (sample_after rs) sample_asked sample_evidence_revision MANUAL_APPROVAL 5 sample_evidence
     \<longleftrightarrow> approval_satisfies (sample_after rs) sample_asked sample_evidence_revision 5 sample_evidence"
    unfolding eligible_evidence_def by (simp add: retained) (simp add: sample_evidence_def sample_asked_def)
  ultimately show ?thesis by (simp add: select_evidence_def sample_mapping_target_def)
qed

lemma sample_map:
  assumes "lit ''criterionevidence'' \<notin> au_target_type ` set l"
    and "\<forall>x\<in>set b. case ob_key x of TransitionKey u _ _ _ _ \<Rightarrow> u \<noteq> lit ''criterionevidence''"
    and "e = (if \<exists>x\<in>set rs. ar_approval x = 80 \<and> ar_revoked_at x \<le> 5 then None else Some sample_evidence)"
  shows "\<exists>m d'. map_criterion_evidence sample_env sample_user sample_mapping_target 71 6 (\<lambda>n. 200 + n) (logged (sample_after rs) l b)
       = Inr (([m], True), d') \<and> ce_evidence m = map_option ei_id e"
proof -
  let ?d = "logged (sample_after rs) l b" and ?t = sample_mapping_target
  let ?a = "sample_user\<lparr>actor_path := sample_rules_path (Some 60)\<rparr>"
  let ?gap = "case e of None \<Rightarrow> gap_code_of [] sample_asked MANUAL_APPROVAL | Some e \<Rightarrow> []"
  have gap: "gap_code_of [] sample_asked MANUAL_APPROVAL = lit ''NO_ELIGIBLE_EVIDENCE''" by (simp add: gap_code_of_def)
  obtain key where key: "content_hash sample_env (mapping_identity ?t (cr_id sample_asked) MANUAL_APPROVAL (map_option ei_id e) ?gap) = Inr key"
    using sample_identity(1,2) [of sample_env "cr_id sample_asked"] by (cases e) (auto simp: gap simp del: lit_simps)
  obtain h where h: "content_hash sample_env (JDict (mapping_input ?t (cr_id sample_asked) MANUAL_APPROVAL)) = Inr h"
    using sample_identity(3) by blast
  define m where "m = mapping_row ?a 60 ?t sample_asked MANUAL_APPROVAL e [] key h 200"
  have rows: "get_tenant_record work_revision_table 71 1 ?d = Inr sample_evidence_revision"
    "work_item_of ?d sample_evidence_revision = Inr sample_evidence_item"
    by (simp_all add: get_tenant_record_def work_revision_table_def work_item_of_def sample_proof_def empty_governance_def
        sample_evidence_revision_def sample_evidence_item_def)
  have ids: "wr_id sample_evidence_revision = 71" "wr_org sample_evidence_revision = 1"
    "wi_repository sample_evidence_item = 50" "wi_access_scope sample_evidence_item = 60"
    "mt_repository ?t = 50" "mt_pull_request ?t = 7" "mt_commit ?t = sample_commit"
    by (simp_all add: sample_evidence_revision_def sample_evidence_item_def sample_mapping_target_def)
  have may: "authorize_mapping sample_env 6 ?d sample_user 50 None = Inr \<lparr>dec_action = ASSURANCE_EXECUTE, dec_path = sample_rules_path None\<rparr>"
    "authorize_mapping sample_env 6 ?d sample_user 50 (Some 60) = Inr \<lparr>dec_action = ASSURANCE_EXECUTE, dec_path = sample_rules_path (Some 60)\<rparr>"
    by (simp_all add: authorize_mapping_def logged_may)
  have org: "actor_org sample_user = 1" by simp
  have exact: "exact_evidence (sample_after rs) 1 50 7 71 sample_commit = [sample_evidence]"
    "other_commit_pairs (sample_after rs) 1 50 7 71 sample_commit = []"
    using sample_selection [of rs] sample_stale [of rs] by (simp_all only: selection_over_def stale_pairs_def ids)
  have none: "criterion_mappings (sample_after rs) = []" by (simp add: sample_proof_def empty_governance_def)
  have "\<exists>x y. record_transition sample_env 1 ?a (lit ''criterionevidence'') (ce_id m) [] (ce_assessment m) 1 []
      (logged ((sample_after rs)\<lparr>criterion_mappings := [m]\<rparr>) l b)
    = Inr ((logged ((sample_after rs)\<lparr>criterion_mappings := [m]\<rparr>) l b)\<lparr>
        audit_events := audit_events (logged ((sample_after rs)\<lparr>criterion_mappings := [m]\<rparr>) l b) @ [x],
        outbox_events := outbox_events (logged ((sample_after rs)\<lparr>criterion_mappings := [m]\<rparr>) l b) @ [y]\<rparr>)
    \<and> au_target_type x = lit ''criterionevidence'' \<and> ob_key y = TransitionKey (lit ''criterionevidence'') (ce_id m) 1 [] (ce_assessment m)"
    by (rule recorded_first) (use assms(1,2) in \<open>simp_all add: actor_clean_def del: lit_simps\<close>)
  then obtain d' where rec: "record_transition sample_env 1 ?a (lit ''criterionevidence'') (ce_id m) [] (ce_assessment m) 1 []
      (logged ((sample_after rs)\<lparr>criterion_mappings := [m]\<rparr>) l b) = Inr d'" by blast
  have row: "mapping_row ?a 60 ?t sample_asked MANUAL_APPROVAL e [] key h (200 + 0) = m" by (simp add: m_def)
  have "map_one sample_env ?a 60 (sample_after rs) sample_evidence_revision ?t [sample_evidence] [] (\<lambda>n. 200 + n)
      (sample_asked, MANUAL_APPROVAL) \<lparr>ms_mappings = [], ms_created = False, ms_db = ?d\<rparr>
    = Inr \<lparr>ms_mappings = [m], ms_created = True, ms_db = d'\<rparr>"
    unfolding map_one_def prod.case sample_selected assms(3) [symmetric] Let_def
    by (simp add: key h none ids row [simplified] del: lit_simps One_nat_def) (use rec in \<open>simp add: ids none del: lit_simps One_nat_def\<close>)
  then have "map_criterion_evidence sample_env sample_user ?t 71 6 (\<lambda>n. 200 + n) ?d = Inr (([m], True), d')"
    unfolding map_criterion_evidence_def
    by (simp add: sample_commit_full rows may ids org exact sample_pairs sample_rules_audit Let_def del: lit_simps One_nat_def)
  moreover have "ce_evidence m = map_option ei_id e" by (simp add: m_def mapping_row_def)
  ultimately show ?thesis by blast
qed

lemma sample_approval_withdrawal:
  "\<exists>x a b. revoke_work_item_approval sample_env sample_user 50 80 sample_reason 3 81 (logged sample_proof [] [])
       = Inr ((x, True), logged (sample_after [x]) [a] [b])
     \<and> ar_approval x = 80 \<and> ar_revoked_at x = 3 \<and> au_target_type a = lit ''approvalrevocation''
     \<and> (case ob_key b of TransitionKey u _ _ _ _ \<Rightarrow> u = lit ''approvalrevocation'')"
proof -
  let ?d = "logged sample_proof [] []" and ?a = "sample_user\<lparr>actor_path := sample_rules_path (Some 60)\<rparr>"
  define x where "x = \<lparr>ar_id = 81, ar_org = 1, ar_approval = 80, ar_actor_type = actor_type sample_user,
     ar_actor_id = actor_id sample_user, ar_authority_path = sample_rules_path (Some 60), ar_reason = sample_reason, ar_revoked_at = 3\<rparr>"
  have rows: "get_tenant_record approval_table 80 1 ?d = Inr sample_given" "get_tenant_record_for_update approval_table 80 1 ?d = Inr sample_given"
    "approval_item ?d sample_given = Inr sample_evidence_item"
    by (simp_all add: get_tenant_record_def get_tenant_record_for_update_def approval_table_def approval_item_def work_item_of_def
        sample_proof_def empty_governance_def sample_given_def sample_evidence_revision_def sample_evidence_item_def)
  have ids: "ap_id sample_given = 80" "ap_org sample_given = 1" "ap_repository sample_given = 50"
    "wi_access_scope sample_evidence_item = 60" "actor_org sample_user = 1" "approval_revocations sample_proof = []"
    by (simp_all add: sample_given_def sample_evidence_item_def sample_proof_def empty_governance_def)
  obtain a b where rec: "record_transition sample_env 1 ?a (lit ''approvalrevocation'') 81 (ap_status sample_given) (lit ''REVOKED'') 1 []
      (logged (sample_after [x]) [] []) = Inr (logged (sample_after [x]) [a] [b])"
    "au_target_type a = lit ''approvalrevocation''"
    "ob_key b = TransitionKey (lit ''approvalrevocation'') 81 1 (ap_status sample_given) (lit ''REVOKED'')"
    using recorded_first [of sample_env "[]" ?a "lit ''approvalrevocation''" "logged (sample_after [x]) [] []" 1 81
      "ap_status sample_given" "lit ''REVOKED''" 1] by (auto simp: actor_clean_def simp del: lit_simps One_nat_def)
  have "revoke_work_item_approval sample_env sample_user 50 80 sample_reason 3 81 ?d = Inr ((x, True), logged (sample_after [x]) [a] [b])"
    unfolding revoke_work_item_approval_def
    by (simp add: rows ids logged_may sample_rules_audit sample_reason_ok Let_def x_def [symmetric] del: lit_simps One_nat_def)
      (use rec(1) in \<open>simp add: x_def del: lit_simps One_nat_def\<close>)
  moreover have "ar_approval x = 80" "ar_revoked_at x = 3" by (simp_all add: x_def)
  ultimately show ?thesis using rec(2,3) by (intro exI [of _ x] exI [of _ a] exI [of _ b]) simp
qed

section \<open>Properties\<close>

text \<open>C17: 
  The mapping of a work revision is exact.  It holds one mapping for every acceptance criterion and every
  evidence type the criterion requires, in the order of the criteria and the types; each names the
  passing, eligible evidence for the target commit with the least content hash and identifier, or an
  explicit gap exactly when there is none, and the gap tells evidence for another commit from none at all.
  A mapping stored by an earlier call is reused only where it says just that.
\<close>

theorem mapping_is_exact:
  assumes "map_criterion_evidence env actor t i now fresh d = Inr ((ms, created), d')"
    and "mappings_faithful env (governance d)" "identifiers_fit (governance d)" "identities_separated env"
  shows "\<exists>r\<in>set (work_revisions (governance d)). wr_id r = i \<and> wr_org r = actor_org actor
     \<and> list_all2 (maps_as_specified (governance d) (actor_org actor) t r)
         (required_pairs (criteria_in_order (governance d) (actor_org actor) i)) ms
     \<and> mappings_faithful env (governance d')"
  using assms
proof (rule mapping_exact)
  fix r
  assume r: "r \<in> set (work_revisions (governance d))" "wr_id r = i" "wr_org r = actor_org actor" "mappings_faithful env (governance d')"
    and all: "list_all2 (exact_mapping (governance d) r t (selection_over (governance d) (actor_org actor) t r)
                  (stale_pairs (governance d) (actor_org actor) t r))
       (required_pairs (criteria_in_order (governance d) (actor_org actor) i)) ms"
  from all have "list_all2 (maps_as_specified (governance d) (actor_org actor) t r)
      (required_pairs (criteria_in_order (governance d) (actor_org actor) i)) ms"
    by (rule list_all2_mono) (metis exact_mapping_spec prod.exhaust)
  with r show ?thesis by blast
qed

lemma sample_fits: "mappings_faithful env (sample_after rs)" "identifiers_fit (sample_after rs)"
  by (simp_all add: mappings_faithful_def identifiers_fit_def sample_proof_def empty_governance_def sample_asked_def
      sample_evidence_def)

theorem mapping_is_exact_witness:
  "\<exists>m d'. map_criterion_evidence sample_env sample_user sample_mapping_target 71 6 (\<lambda>n. 200 + n) (logged sample_proof [] [])
       = Inr (([m], True), d') \<and> ce_evidence m = Some 91 \<and> ce_assessment m = lit ''SATISFIED''"
proof -
  have same: "sample_after [] = sample_proof" by (simp add: sample_proof_def empty_governance_def)
  obtain m d' where op: "map_criterion_evidence sample_env sample_user sample_mapping_target 71 6 (\<lambda>n. 200 + n)
      (logged sample_proof [] []) = Inr (([m], True), d')" "ce_evidence m = Some 91"
    using sample_map [of "[]" "[]" "Some sample_evidence" "[]"] same by (auto simp: sample_evidence_def)
  from mapping_is_exact [OF op(1) _ _ sample_separated] sample_fits(1) [of sample_env "[]"]
    sample_fits(2) [of "[]"] sample_pairs [of "[]"] op(2)
  have "ce_assessment m = lit ''SATISFIED''"
    unfolding same by (auto simp: maps_as_specified_def simp del: lit_simps One_nat_def)
  then show ?thesis using op by blast
qed

text \<open>C20: 
  A withdrawn approval satisfies nothing.  After \<^verbatim>\<open>revoke_work_item_approval\<close> returned for an approval, and
  whatever imports, approvals, submissions, mappings, retention runs and deletions of bytes follow, a mapping at a reference time not before
  the withdrawal names no evidence that cites the approval.
\<close>

theorem withdrawn_approval_satisfies_nothing:
  assumes "revoke_work_item_approval env actor repository i reason now fresh d = Inr ((x, c), d1)"
    and "(delivery_step env)\<^sup>*\<^sup>* d1 d2"
    and "map_criterion_evidence env actor' t j now' fresh' d2 = Inr ((ms, created), d3)"
    and "ar_revoked_at x \<le> mt_reference t" "evidence_coherent (governance d)"
    and "mappings_faithful env (governance d)" "identifiers_fit (governance d2)" "identities_separated env"
  shows "m \<in> set ms \<and> e \<in> set (evidence_items (governance d2)) \<and> ce_evidence m = Some (ei_id e) \<Longrightarrow> ei_approval e \<noteq> Some i"
proof -
  assume m: "m \<in> set ms \<and> e \<in> set (evidence_items (governance d2)) \<and> ce_evidence m = Some (ei_id e)"
  have "(delivery_step env)\<^sup>*\<^sup>* d d2"
    using delivery_step.intent [OF intent_step.revoked [OF assms(1)]] assms(2) by (rule converse_rtranclp_into_rtranclp)
  from delivery_steps_keep [OF this assms(5)] assms(6)
  have kept: "evidence_coherent (governance d2)" "mappings_faithful env (governance d2)" by blast+
  have "delivery_step env d d1" using delivery_step.intent [OF intent_step.revoked [OF assms(1)]] .
  from delivery_step_keeps [OF this assms(5)] have "evidence_coherent (governance d1)" by blast
  note later = delivery_steps_keep [OF assms(2) this]
  have "x \<in> set (approval_revocations (governance d1))" "ar_approval x = i"
    using revoke_approval_Inr [OF assms(1)] by auto
  then have x: "x \<in> set (approval_revocations (governance d2))" "ar_approval x = i"
    using later by (auto simp: evidence_kept_def)
  from assms(3) kept(2) assms(7,8) show ?thesis
  proof (rule mapping_exact)
    fix r
    let ?sel = "selection_over (governance d2) (actor_org actor') t r"
    assume "list_all2 (exact_mapping (governance d2) r t ?sel (stale_pairs (governance d2) (actor_org actor') t r))
       (required_pairs (criteria_in_order (governance d2) (actor_org actor') j)) ms"
    moreover obtain k where "k < length ms" "ms ! k = m" using m by (meson in_set_conv_nth)
    ultimately obtain p where "exact_mapping (governance d2) r t ?sel (stale_pairs (governance d2) (actor_org actor') t r) p m"
      using list_all2_nthD2 by blast
    moreover obtain cr required where "p = (cr, required)" by fastforce
    ultimately obtain e' where e': "select_evidence (governance d2) r t ?sel cr required = Some e'" "ei_id e' = ei_id e"
      using m by (auto simp: exact_mapping_def Let_def dest!: sym [of "Some _"])
    have "e' \<in> set (evidence_items (governance d2))" using selection_least(1) [OF e'(1)] by (simp add: may_satisfy_def)
    then have "e' = e" using evidence_by_id [OF kept(1)] m e'(2) by blast
    then show ?thesis using withdrawn_not_selected [OF kept(1) x assms(4) e'(1)] by simp
  qed
qed

theorem withdrawn_approval_satisfies_nothing_witness:
  "\<exists>x d1 m d3. revoke_work_item_approval sample_env sample_user 50 80 sample_reason 3 81 (logged sample_proof [] [])
       = Inr ((x, True), d1)
     \<and> map_criterion_evidence sample_env sample_user sample_mapping_target 71 6 (\<lambda>n. 200 + n) d1 = Inr (([m], True), d3)
     \<and> ei_approval sample_evidence = Some 80 \<and> ce_evidence m \<noteq> Some (ei_id sample_evidence)"
proof -
  obtain x a b where w: "revoke_work_item_approval sample_env sample_user 50 80 sample_reason 3 81 (logged sample_proof [] [])
       = Inr ((x, True), logged (sample_after [x]) [a] [b])" "ar_approval x = 80" "ar_revoked_at x = 3"
    "au_target_type a = lit ''approvalrevocation''" "case ob_key b of TransitionKey u _ _ _ _ \<Rightarrow> u = lit ''approvalrevocation''"
    using sample_approval_withdrawal by blast
  let ?d = "logged (sample_after [x]) [a] [b]"
  have a: "lit ''criterionevidence'' \<notin> au_target_type ` set [a]" using w(4) by simp
  have b: "\<forall>y\<in>set [b]. case ob_key y of TransitionKey u _ _ _ _ \<Rightarrow> u \<noteq> lit ''criterionevidence''"
    using w(5) by (auto split: transition_key.splits)
  obtain m d3 where op: "map_criterion_evidence sample_env sample_user sample_mapping_target 71 6 (\<lambda>n. 200 + n) ?d = Inr (([m], True), d3)"
    using sample_map [OF a b refl, of "[x]"] by blast
  have same: "sample_after [] = sample_proof" by (simp add: sample_proof_def empty_governance_def)
  have "evidence_coherent (governance (logged sample_proof [] []))" "mappings_faithful sample_env (governance (logged sample_proof [] []))"
    "identifiers_fit (governance ?d)" "ar_revoked_at x \<le> mt_reference sample_mapping_target"
    using sample_coherent sample_fits(1) [of sample_env "[]"] sample_fits(2) [of "[x]"] same w(3)
    by (simp_all add: sample_mapping_target_def)
  from withdrawn_approval_satisfies_nothing [OF w(1) rtranclp.rtrancl_refl op this(4,1-3) sample_separated, of m sample_evidence]
  have "ce_evidence m \<noteq> Some (ei_id sample_evidence)"
    by (auto simp: sample_proof_def empty_governance_def) (simp add: sample_evidence_def)
  moreover have "ei_approval sample_evidence = Some 80" by (simp add: sample_evidence_def)
  ultimately show ?thesis using w(1) op by blast
qed

text \<open>C18: 
  Stored evidence stays bound to what it claims.  Through any sequence of operations on work items,
  submissions, mappings, retention runs and deletions of bytes by anyone, with the parts of a run and of a
  deletion in any interleaving and whatever the object store answers, each piece of evidence has an identifier of its own
  and belongs to a manifest of its
  tenant, commit and producer; manual approval evidence rests on an approval of that repository and
  revision that was given, and had not expired, when the evidence was completed, and no other kind cites
  one; an uploaded blob backs at most one piece of evidence and its row keeps the digest and the place of the
  bytes even when they are deleted; times and paths are in
  order; and no manifest, evidence, retention event or withdrawal is ever lost.  The upload of bytes and the
  decommissioning of a tenant are not among the operations.
\<close>

theorem evidence_stays_bound:
  assumes "(delivery_step env)\<^sup>*\<^sup>* d d'" "evidence_coherent (governance d)"
  shows "evidence_coherent (governance d') \<and> evidence_kept (governance d) (governance d')"
  using delivery_steps_keep [OF assms] by blast

theorem evidence_stays_bound_witness:
  "\<exists>d'. delivery_step sample_env (logged sample_proof [] []) d' \<and> criterion_mappings (governance d') \<noteq> []
     \<and> evidence_coherent (governance d')"
proof -
  have same: "sample_after [] = sample_proof" by (simp add: sample_proof_def empty_governance_def)
  obtain m d' where op: "map_criterion_evidence sample_env sample_user sample_mapping_target 71 6 (\<lambda>n. 200 + n)
      (logged sample_proof [] []) = Inr (([m], True), d')"
    using sample_map [of "[]" "[]" "Some sample_evidence" "[]"] same by auto
  have step: "delivery_step sample_env (logged sample_proof [] []) d'" by (rule delivery_step.mapped [OF op])
  have "m \<in> set (criterion_mappings (governance d'))" using op by (rule mapping_Inr) simp
  moreover have "(delivery_step sample_env)\<^sup>*\<^sup>* (logged sample_proof [] []) d'" using step by blast
  then have "evidence_coherent (governance d')"
    using evidence_stays_bound sample_coherent by simp
  ultimately show ?thesis using step by auto
qed

end
