(* ===== verification/ReviewTables.thy ===== *)
theory ReviewTables
  imports GovernanceTables ContextInvalidation SecretScreen
begin

text \<open>
  The tables of a review and the rows reached from an assurance run over its foreign keys, and the
  normal form of a short text (\<^verbatim>\<open>_normalized_text\<close> of \<^verbatim>\<open>src/anva/core/services/assurance.py\<close>).
\<close>

definition finding_table :: "finding table" where
  "finding_table =
     \<lparr>tb_rows = (\<lambda>d. findings (review d)),
      tb_put = (\<lambda>rs d. d\<lparr>review := (review d)\<lparr>findings := rs\<rparr>\<rparr>),
      tb_id = fi_id, tb_org = fi_org\<rparr>"

definition task_table :: "evaluator_task table" where
  "task_table =
     \<lparr>tb_rows = evaluator_tasks, tb_put = (\<lambda>rs d. d\<lparr>evaluator_tasks := rs\<rparr>),
      tb_id = tk_id, tb_org = tk_org\<rparr>"

interpretation finding_rows: tenant_table finding_table
  by unfold_locales (simp_all add: finding_table_def)

interpretation task_rows: tenant_table task_table
  by unfold_locales (simp_all add: task_table_def)

lemma finding_table_simps [simp]:
  "tb_rows finding_table d = findings (review d)" "tb_id finding_table = fi_id" "tb_org finding_table = fi_org"
  "review (save_row finding_table f d)
     = (review d)\<lparr>findings := update_where (\<lambda>x. fi_id x = fi_id f) (\<lambda>_. f) (findings (review d))\<rparr>"
  by (simp_all add: save_row_def finding_table_def)

lemma task_table_simps [simp]:
  "tb_rows task_table d = evaluator_tasks d" "tb_id task_table = tk_id" "tb_org task_table = tk_org"
  "evaluator_tasks (save_row task_table t d)
     = update_where (\<lambda>x. tk_id x = tk_id t) (\<lambda>_. t) (evaluator_tasks d)"
  "evaluator_tasks (create_row task_table t d) = evaluator_tasks d @ [t]"
  by (simp_all add: save_row_def create_row_def task_table_def)

section \<open>Over the foreign keys\<close>

definition pull_request_at :: "uuid \<Rightarrow> db \<Rightarrow> pull_request result" where
  "pull_request_at i d =
     (case find_by (\<lambda>p. pq_id p = i) (pull_requests (review d)) of None \<Rightarrow> Inl DoesNotExist | Some p \<Rightarrow> Inr p)"

definition pull_request_of_revision :: "uuid \<Rightarrow> db \<Rightarrow> pull_request result" where
  "pull_request_of_revision i d =
     (case find_by (\<lambda>x. px_id x = i) (pull_request_revisions (review d)) of
        None \<Rightarrow> Inl DoesNotExist
      | Some x \<Rightarrow> pull_request_at (px_pull_request x) d)"

section \<open>Short texts\<close>

text \<open>\<^verbatim>\<open>value.split()\<close>: the maximal runs that hold no white space.\<close>

fun split_spaces :: "pystr \<Rightarrow> pystr list" where
  "split_spaces [] = []"
| "split_spaces (x # xs) =
     (if is_space x then split_spaces xs
      else case xs of
             [] \<Rightarrow> [[x]]
           | y # ys \<Rightarrow>
               if is_space y then [x] # split_spaces xs
               else (case split_spaces xs of [] \<Rightarrow> [[x]] | w # ws \<Rightarrow> (x # w) # ws))"

definition single_spaced :: "pystr \<Rightarrow> pystr" where
  "single_spaced s = join_on 32 (split_spaces s)"

definition normalized_text :: "environment \<Rightarrow> pystr \<Rightarrow> string \<Rightarrow> nat \<Rightarrow> bool \<Rightarrow> pystr result" where
  "normalized_text env value name maximum required =
     (let normalized = (if name \<noteq> ''description'' then single_spaced value else strip value) in
      bind_res (guard_res (\<not> (required \<and> normalized = [] \<or> length normalized > maximum))
                  (ValueError (name @ '' is outside its allowed size''))) (\<lambda>_.
      bind_res (reject_secrets env (JStr normalized)) (\<lambda>_. Inr normalized)))"

end
