(* ===== verification/Findings.thy ===== *)
theory Findings
  imports ReviewTables
begin

text \<open>
  Findings across the runs of a pull request (\<^verbatim>\<open>_finding_anchor\<close>, \<^verbatim>\<open>_finding_fingerprint\<close>,
  \<^verbatim>\<open>_fingerprinted_payloads\<close>, \<^verbatim>\<open>_merge_findings\<close> and \<^verbatim>\<open>decide_finding\<close> of
  \<^verbatim>\<open>src/anva/core/services/assurance.py\<close>).  A finding is identified by the digest of what it says and
  where, so that an observation in a later run meets the row of the earlier one.
\<close>

section \<open>Observed findings\<close>

datatype finding_citation = DiffCitation pystr pystr int | SourceCitation pystr

record finding_document =
  fn_code :: pystr
  fn_category :: pystr
  fn_severity :: pystr
  fn_confidence :: pystr
  fn_title :: pystr
  fn_explanation :: pystr
  fn_citations :: "finding_citation list"
  fn_citation_items :: json
  fn_evidence_ids :: "pystr list"
  fn_criterion_codes :: "pystr list"
  fn_uncertainty :: pystr
  fn_suggested_resolution :: pystr

definition DIFF :: pystr where
  "DIFF = lit ''DIFF''"

definition read_citation :: "(pystr \<times> json) list \<Rightarrow> finding_citation result" where
  "read_citation c =
     bind_res (text_at c (lit ''type'')) (\<lambda>ty.
       if ty = DIFF
       then bind_res (text_at c (lit ''path'')) (\<lambda>path.
            bind_res (text_at c (lit ''side'')) (\<lambda>at_side.
            bind_res (int_at c (lit ''line'')) (\<lambda>line. Inr (DiffCitation path at_side line))))
       else bind_res (text_at c (lit ''context_citation_id'')) (\<lambda>i. Inr (SourceCitation i)))"

definition read_finding :: "(pystr \<times> json) list \<Rightarrow> finding_document result" where
  "read_finding p =
     bind_res (text_at p (lit ''code'')) (\<lambda>code.
     bind_res (text_at p (lit ''category'')) (\<lambda>category.
     bind_res (text_at p (lit ''severity'')) (\<lambda>severity.
     bind_res (text_at p (lit ''confidence'')) (\<lambda>confidence.
     bind_res (text_at p (lit ''title'')) (\<lambda>title.
     bind_res (text_at p (lit ''explanation'')) (\<lambda>explanation.
     bind_res (item_of p (lit ''citations'')) (\<lambda>cited.
     bind_res (bind_res (dicts_at p (lit ''citations'')) (map_res read_citation)) (\<lambda>citations.
     bind_res (texts_at p (lit ''evidence_ids'')) (\<lambda>evidence_ids.
     bind_res (texts_at p (lit ''criterion_codes'')) (\<lambda>criterion_codes.
     bind_res (text_at p (lit ''uncertainty'')) (\<lambda>uncertainty.
     bind_res (text_at p (lit ''suggested_resolution'')) (\<lambda>resolution.
       Inr \<lparr>fn_code = code, fn_category = category, fn_severity = severity, fn_confidence = confidence,
            fn_title = title, fn_explanation = explanation, fn_citations = citations,
            fn_citation_items = cited, fn_evidence_ids = evidence_ids,
            fn_criterion_codes = criterion_codes, fn_uncertainty = uncertainty,
            fn_suggested_resolution = resolution\<rparr>))))))))))))"

text \<open>Where a finding is shown: its first citation of the diff.\<close>

fun finding_anchor :: "finding_citation list \<Rightarrow> pystr \<times> int option" where
  "finding_anchor [] = ([], None)"
| "finding_anchor (DiffCitation path at_side line # cs) = (path, Some line)"
| "finding_anchor (SourceCitation i # cs) = finding_anchor cs"

section \<open>Fingerprints\<close>

fun citation_identity :: "environment \<Rightarrow> finding_citation \<Rightarrow> json" where
  "citation_identity env (DiffCitation path at_side line) = JDict
     [(lit ''type'', JStr DIFF), (lit ''path'', JStr (env_casefold env path)),
      (lit ''side'', JStr at_side), (lit ''line'', JInt line)]"
| "citation_identity env (SourceCitation i) = JDict
     [(lit ''type'', JStr (lit ''ANVA_SOURCE'')), (lit ''context_citation_id'', JStr (env_casefold env i))]"

text \<open>\<^verbatim>\<open>sorted(citation_anchors, key=content_hash)\<close>.\<close>

definition sorted_by_hash :: "environment \<Rightarrow> json list \<Rightarrow> json list result" where
  "sorted_by_hash env xs =
     bind_res (map_res (\<lambda>x. bind_res (content_hash env x) (\<lambda>h. Inr (h, x))) xs) (\<lambda>hs.
       Inr (map snd (sort_key fst hs)))"

definition finding_identity :: "environment \<Rightarrow> finding_document \<Rightarrow> json list \<Rightarrow> json" where
  "finding_identity env f anchors = JDict
     [(lit ''kind'', JStr (lit ''MODEL'')),
      (lit ''code'', JStr (env_casefold env (fn_code f))),
      (lit ''category'', JStr (env_casefold env (fn_category f))),
      (lit ''citation_anchors'', JList anchors),
      (lit ''criterion_codes'', JList (map JStr (sort (map (env_casefold env) (fn_criterion_codes f)))))]"

definition finding_fingerprint :: "environment \<Rightarrow> finding_document \<Rightarrow> pystr result" where
  "finding_fingerprint env f =
     bind_res (sorted_by_hash env (map (citation_identity env) (fn_citations f))) (\<lambda>anchors.
       content_hash env (finding_identity env f anchors))"

text \<open>An observation: the fingerprint, the payload and what was read from it.\<close>

record observation_of_finding =
  of_fingerprint :: pystr
  of_items :: "(pystr \<times> json) list"
  of_document :: finding_document

definition fingerprinted :: "environment \<Rightarrow> (pystr \<times> json) list \<Rightarrow> observation_of_finding result" where
  "fingerprinted env p =
     bind_res (read_finding p) (\<lambda>f.
     bind_res (finding_fingerprint env f) (\<lambda>fp.
       Inr \<lparr>of_fingerprint = fp, of_items = p, of_document = f\<rparr>))"

definition fingerprinted_payloads ::
  "environment \<Rightarrow> (pystr \<times> json) list list \<Rightarrow> observation_of_finding list result"
where
  "fingerprinted_payloads env payloads =
     bind_res (map_res (fingerprinted env) payloads) (\<lambda>os.
     let ordered = sort_key of_fingerprint os in
     bind_res (guard_res (distinct (map of_fingerprint ordered))
                 (ValueError ''Evaluator result contains duplicate semantic findings'')) (\<lambda>_.
       Inr ordered))"

section \<open>The merge\<close>

text \<open>The identifiers one merge draws, by the fingerprint they are drawn for.\<close>

record finding_ids =
  nf_finding :: "pystr \<Rightarrow> uuid"
  nf_reopened :: "pystr \<Rightarrow> uuid"
  nf_occurrence :: "pystr \<Rightarrow> uuid"
  nf_obsolete :: "pystr \<Rightarrow> uuid"

text \<open>The columns \<^verbatim>\<open>defaults\<close> sets besides \<^verbatim>\<open>first_run\<close> and \<^verbatim>\<open>state\<close>.\<close>

definition observed_in :: "assurance_run \<Rightarrow> finding_document \<Rightarrow> finding \<Rightarrow> finding" where
  "observed_in run doc f =
     f\<lparr>fi_latest_run := run_id run, fi_code := fn_code doc, fi_kind := lit ''MODEL'',
       fi_severity := fn_severity doc, fi_confidence := fn_confidence doc, fi_title := fn_title doc,
       fi_explanation := fn_explanation doc, fi_path := fst (finding_anchor (fn_citations doc)),
       fi_line := snd (finding_anchor (fn_citations doc)), fi_citations := fn_citation_items doc,
       fi_evidence_ids := fn_evidence_ids doc, fi_criterion_codes := fn_criterion_codes doc,
       fi_uncertainty := fn_uncertainty doc, fi_suggested_resolution := fn_suggested_resolution doc\<rparr>"

definition new_finding :: "assurance_run \<Rightarrow> uuid \<Rightarrow> pystr \<Rightarrow> finding_document \<Rightarrow> uuid \<Rightarrow> finding" where
  "new_finding run pr fingerprint doc fresh = observed_in run doc
     \<lparr>fi_id = fresh, fi_org = run_org run, fi_pull_request = pr, fi_first_run = run_id run,
      fi_latest_run = run_id run, fi_fingerprint = fingerprint, fi_code = [], fi_kind = [],
      fi_severity = [], fi_confidence = [], fi_title = [], fi_explanation = [], fi_path = [],
      fi_line = None, fi_citations = JNull, fi_evidence_ids = [], fi_criterion_codes = [],
      fi_uncertainty = [], fi_suggested_resolution = [], fi_state = FINDING_OPEN, fi_revision = 1\<rparr>"

text \<open>The row of an earlier run, observed again: an obsolete finding is open again, no other state changes.\<close>

definition seen_again :: "assurance_run \<Rightarrow> finding_document \<Rightarrow> finding \<Rightarrow> finding" where
  "seen_again run doc f =
     (observed_in run doc f)
       \<lparr>fi_state := (if fi_state f = FINDING_OBSOLETE then FINDING_OPEN else fi_state f),
        fi_revision := fi_revision f + 1\<rparr>"

definition finding_decision_row ::
  "actor_context \<Rightarrow> finding \<Rightarrow> finding_state \<Rightarrow> pystr \<Rightarrow> uuid \<Rightarrow> finding_decision"
where
  "finding_decision_row actor f target reason fresh =
     \<lparr>fd_id = fresh, fd_org = fi_org f, fd_finding = fi_id f, fd_from_state = fi_state f,
      fd_to_state = target, fd_actor_type = actor_type actor, fd_actor_id = actor_id actor,
      fd_authority_path = actor_path actor, fd_reason = reason\<rparr>"

definition save_finding :: "finding \<Rightarrow> review \<Rightarrow> review" where
  "save_finding f r = r\<lparr>findings := update_where (\<lambda>x. fi_id x = fi_id f) (\<lambda>_. f) (findings r)\<rparr>"

definition add_finding_decision :: "finding_decision \<Rightarrow> review \<Rightarrow> review" where
  "add_finding_decision x r = r\<lparr>finding_decisions := finding_decisions r @ [x]\<rparr>"

definition reopened_reason :: pystr where
  "reopened_reason = lit ''Reopened after observation on a new exact assurance input.''"

definition unobserved_reason :: pystr where
  "unobserved_reason = lit ''Not observed in the latest exact assurance input.''"

text \<open>\<^verbatim>\<open>get_or_create\<close> of the finding, and the update of a row that was there.\<close>

definition observe_finding ::
  "actor_context \<Rightarrow> assurance_run \<Rightarrow> uuid \<Rightarrow> finding_ids \<Rightarrow> observation_of_finding \<Rightarrow> review \<Rightarrow> finding \<times> review"
where
  "observe_finding actor run pr ids ob r =
     (let fp = of_fingerprint ob in
      case find_by (\<lambda>f. fi_org f = run_org run \<and> fi_pull_request f = pr \<and> fi_fingerprint f = fp) (findings r) of
        None \<Rightarrow>
          let f = new_finding run pr fp (of_document ob) (nf_finding ids fp)
          in (f, r\<lparr>findings := findings r @ [f]\<rparr>)
      | Some f \<Rightarrow>
          let f' = seen_again run (of_document ob) f; r1 = save_finding f' r
          in (f', if fi_state f = FINDING_OBSOLETE
                  then add_finding_decision
                         (finding_decision_row actor f FINDING_OPEN reopened_reason (nf_reopened ids fp)) r1
                  else r1))"

definition occurrence_payload :: "assurance_run \<Rightarrow> observation_of_finding \<Rightarrow> json" where
  "occurrence_payload run ob = JDict (dict_merge (of_items ob)
     [(lit ''fingerprint'', JStr (of_fingerprint ob)), (lit ''head_commit'', JStr (run_head_commit run))])"

definition record_occurrence :: "assurance_run \<Rightarrow> finding \<Rightarrow> json \<Rightarrow> pystr \<Rightarrow> uuid \<Rightarrow> review \<Rightarrow> review" where
  "record_occurrence run f payload digest fresh r =
     (if list_ex (\<lambda>x. fo_org x = run_org run \<and> fo_finding x = fi_id f \<and> fo_run x = run_id run)
           (finding_occurrences r)
      then r
      else r\<lparr>finding_occurrences := finding_occurrences r
               @ [\<lparr>fo_id = fresh, fo_org = run_org run, fo_finding = fi_id f, fo_run = run_id run,
                    fo_payload = payload, fo_payload_hash = digest\<rparr>]\<rparr>)"

definition merge_one ::
  "environment \<Rightarrow> actor_context \<Rightarrow> assurance_run \<Rightarrow> uuid \<Rightarrow> finding_ids \<Rightarrow> observation_of_finding
     \<Rightarrow> finding list \<times> review \<Rightarrow> (finding list \<times> review) result"
where
  "merge_one env actor run pr ids ob s =
     (let payload = occurrence_payload run ob; (f, r) = observe_finding actor run pr ids ob (snd s) in
      bind_res (content_hash env payload) (\<lambda>digest.
        Inr (fst s @ [f], record_occurrence run f payload digest (nf_occurrence ids (of_fingerprint ob)) r)))"

text \<open>The open findings of the pull request that this run did not observe.\<close>

definition unobserved :: "assurance_run \<Rightarrow> uuid \<Rightarrow> pystr list \<Rightarrow> finding \<Rightarrow> bool" where
  "unobserved run pr fingerprints f \<longleftrightarrow>
     fi_org f = run_org run \<and> fi_pull_request f = pr \<and> fi_state f = FINDING_OPEN
     \<and> fi_fingerprint f \<notin> set fingerprints"

definition obsoleted :: "assurance_run \<Rightarrow> finding \<Rightarrow> finding" where
  "obsoleted run f =
     f\<lparr>fi_state := FINDING_OBSOLETE, fi_latest_run := run_id run, fi_revision := fi_revision f + 1\<rparr>"

definition make_obsolete :: "actor_context \<Rightarrow> assurance_run \<Rightarrow> finding_ids \<Rightarrow> finding \<Rightarrow> review \<Rightarrow> review" where
  "make_obsolete actor run ids f r =
     add_finding_decision
       (finding_decision_row actor f FINDING_OBSOLETE unobserved_reason (nf_obsolete ids (fi_fingerprint f)))
       (save_finding (obsoleted run f) r)"

definition obsolete_unobserved ::
  "actor_context \<Rightarrow> assurance_run \<Rightarrow> uuid \<Rightarrow> finding_ids \<Rightarrow> pystr list \<Rightarrow> review \<Rightarrow> review"
where
  "obsolete_unobserved actor run pr ids fingerprints r =
     fold (make_obsolete actor run ids) (filter (unobserved run pr fingerprints) (findings r)) r"

definition merge_findings ::
  "environment \<Rightarrow> actor_context \<Rightarrow> assurance_run \<Rightarrow> (pystr \<times> json) list list \<Rightarrow> finding_ids \<Rightarrow> db
     \<Rightarrow> (finding list \<times> db) result"
where
  "merge_findings env actor run payloads ids d =
     (case run_pull_request_revision run of
        None \<Rightarrow> Inl (ValueError ''Run is missing its pull request revision'')
      | Some i \<Rightarrow>
          bind_res (pull_request_of_revision i d) (\<lambda>p.
          bind_res (fingerprinted_payloads env payloads) (\<lambda>ordered.
          bind_res (fold_res (merge_one env actor run (pq_id p) ids) ordered ([], review d)) (\<lambda>(current, r).
            Inr (current,
                 d\<lparr>review := obsolete_unobserved actor run (pq_id p) ids (map of_fingerprint ordered) r\<rparr>)))))"

section \<open>Decisions\<close>

text \<open>\<^verbatim>\<open>target_state\<close> after \<^verbatim>\<open>upper\<close>: the four states a decision may aim at.\<close>

definition decision_target :: "pystr \<Rightarrow> finding_state option" where
  "decision_target s =
     find_by (\<lambda>x. finding_state_value x = s)
       [FINDING_DISMISSED, FINDING_RISK_ACCEPTED, FINDING_RESOLVED, FINDING_OPEN]"

fun finding_edges :: "finding_state \<Rightarrow> finding_state list" where
  "finding_edges FINDING_OPEN = [FINDING_DISMISSED, FINDING_RISK_ACCEPTED, FINDING_RESOLVED]"
| "finding_edges FINDING_DISMISSED = [FINDING_OPEN]"
| "finding_edges FINDING_RISK_ACCEPTED = [FINDING_OPEN]"
| "finding_edges FINDING_RESOLVED = [FINDING_OPEN]"
| "finding_edges FINDING_OBSOLETE = [FINDING_OPEN]"

definition apply_finding_decision ::
  "actor_context \<Rightarrow> finding \<Rightarrow> finding_state \<Rightarrow> pystr \<Rightarrow> uuid \<Rightarrow> db \<Rightarrow> finding \<times> db"
where
  "apply_finding_decision actor f target reason fresh d =
     (let f' = f\<lparr>fi_state := target, fi_revision := fi_revision f + 1\<rparr> in
      (f', d\<lparr>review := add_finding_decision (finding_decision_row actor f target reason fresh)
                         (save_finding f' (review d))\<rparr>))"

definition decide_finding ::
  "environment \<Rightarrow> actor_context \<Rightarrow> uuid \<Rightarrow> uuid \<Rightarrow> pystr \<Rightarrow> int \<Rightarrow> pystr \<Rightarrow> instant \<Rightarrow> uuid \<Rightarrow> db
     \<Rightarrow> (finding \<times> db) result"
where
  "decide_finding env actor repository i target_state expected_revision raw_reason now fresh d =
     bind_res (normalized_text env raw_reason ''reason'' 2000 True) (\<lambda>reason.
     case decision_target (env_upper env target_state) of
       None \<Rightarrow> Inl (ValueError ''target_state is invalid'')
     | Some target \<Rightarrow>
         bind_res (authorize_action env now d actor FINDING_DISMISS (Some repository) None None False) (\<lambda>decision.
         bind_res (audit_actor actor decision) (\<lambda>auditor.
         bind_res (get_tenant_record_for_update finding_table i (actor_org auditor) d) (\<lambda>f.
         bind_res (pull_request_at (fi_pull_request f) d) (\<lambda>p.
         bind_res (guard_res (pq_repository p = repository) ResourceNotFoundError) (\<lambda>_.
         bind_res (guard_res (int (fi_revision f) = expected_revision) IdempotencyConflictError) (\<lambda>_.
           if fi_state f = target then Inr (f, d)
           else bind_res (guard_res (target \<in> set (finding_edges (fi_state f)))
                            (ValueError ''Finding lifecycle transition is invalid'')) (\<lambda>_.
                  Inr (apply_finding_decision auditor f target reason fresh d)))))))))"

end
