(* ===== verification/MergeSafety.thy ===== *)
theory MergeSafety
  imports Findings
begin

text \<open>
  What one merge does to the findings of a pull request, row by row (\<open>merged_row\<close>, \<open>new_rows\<close>), and that
  merges and decisions keep the findings coherent (\<open>finding_step\<close>).
\<close>

section \<open>The life of a finding\<close>

text \<open>
  What the operations on findings keep (\<open>findings_coherent\<close>), and what a merge does to each row
  (\<open>merged_row\<close>).  \<open>finding_step\<close> is one operation by anyone.
\<close>

section \<open>Coherence\<close>

definition finding_key :: "finding \<Rightarrow> uuid \<times> uuid \<times> pystr" where
  "finding_key f = (fi_org f, fi_pull_request f, fi_fingerprint f)"

definition finding_log :: "review \<Rightarrow> uuid \<Rightarrow> (finding_state \<times> finding_state) list" where
  "finding_log r i = map (\<lambda>x. (fd_from_state x, fd_to_state x)) (filter (\<lambda>x. fd_finding x = i) (finding_decisions r))"

definition lifecycle_edge :: "finding_state \<Rightarrow> finding_state \<Rightarrow> bool" where
  "lifecycle_edge a b \<longleftrightarrow> b \<in> set (finding_edges a) \<or> a = FINDING_OPEN \<and> b = FINDING_OBSOLETE"

fun lifecycle :: "finding_state \<Rightarrow> (finding_state \<times> finding_state) list \<Rightarrow> finding_state \<Rightarrow> bool" where
  "lifecycle s [] t \<longleftrightarrow> s = t"
| "lifecycle s ((a, b) # log) t \<longleftrightarrow> a = s \<and> lifecycle_edge a b \<and> lifecycle b log t"

lemma lifecycle_append: "lifecycle s log t \<Longrightarrow> lifecycle_edge t u \<Longrightarrow> lifecycle s (log @ [(t, u)]) u"
  by (induction log arbitrary: s) auto

definition occurrence_key :: "finding_occurrence \<Rightarrow> uuid \<times> uuid \<times> uuid" where
  "occurrence_key x = (fo_org x, fo_finding x, fo_run x)"

definition findings_coherent :: "review \<Rightarrow> bool" where
  "findings_coherent r \<longleftrightarrow>
     distinct (map fi_id (findings r)) \<and> distinct (map finding_key (findings r))
     \<and> distinct (map occurrence_key (finding_occurrences r))
     \<and> (\<forall>x\<in>set (finding_decisions r). fd_finding x \<in> fi_id ` set (findings r))
     \<and> (\<forall>f\<in>set (findings r). lifecycle FINDING_OPEN (finding_log r (fi_id f)) (fi_state f))"

text \<open>What is only ever added: no finding, decision or occurrence is lost.\<close>

definition findings_kept :: "review \<Rightarrow> review \<Rightarrow> bool" where
  "findings_kept r r' \<longleftrightarrow>
     (\<lambda>f. (fi_id f, finding_key f, fi_first_run f)) ` set (findings r)
       \<subseteq> (\<lambda>f. (fi_id f, finding_key f, fi_first_run f)) ` set (findings r')
     \<and> (\<exists>xs. finding_decisions r' = finding_decisions r @ xs)
     \<and> (\<exists>xs. finding_occurrences r' = finding_occurrences r @ xs)"

lemma findings_kept_refl [simp]: "findings_kept r r"
  by (simp add: findings_kept_def)

lemma findings_kept_trans:
  assumes "findings_kept a b" "findings_kept b c"
  shows "findings_kept a c"
proof -
  from assms obtain xs ys where "finding_decisions c = finding_decisions a @ xs @ ys"
    unfolding findings_kept_def by (elim conjE exE) simp
  moreover from assms obtain us vs where "finding_occurrences c = finding_occurrences a @ us @ vs"
    unfolding findings_kept_def by (elim conjE exE) simp
  ultimately show ?thesis
    using subset_trans [OF assms [unfolded findings_kept_def, THEN conjunct1]]
    unfolding findings_kept_def by blast
qed

section \<open>The steps an operation is made of\<close>

definition same_identity :: "finding \<Rightarrow> finding \<Rightarrow> bool" where
  "same_identity f f' \<longleftrightarrow>
     fi_id f' = fi_id f \<and> finding_key f' = finding_key f \<and> fi_first_run f' = fi_first_run f"

lemma map_save_same:
  assumes "\<And>x. x \<in> set xs \<Longrightarrow> fi_id x = fi_id f' \<Longrightarrow> g x = g f'"
  shows "map g (update_where (\<lambda>x. fi_id x = fi_id f') (\<lambda>_. f') xs) = map g xs"
  using assms by (auto simp: update_where_def)

lemma by_identity: "distinct (map fi_id fs) \<Longrightarrow> x \<in> set fs \<Longrightarrow> y \<in> set fs \<Longrightarrow> fi_id x = fi_id y \<Longrightarrow> x = y"
  by (auto simp: distinct_map inj_on_def)

lemma save_finding_simps [simp]:
  "finding_decisions (save_finding f r) = finding_decisions r"
  "finding_occurrences (save_finding f r) = finding_occurrences r"
  "finding_log (save_finding f r) = finding_log r"
  "findings (add_finding_decision x r) = findings r"
  "finding_occurrences (add_finding_decision x r) = finding_occurrences r"
  "finding_decisions (add_finding_decision x r) = finding_decisions r @ [x]"
  by (auto simp: save_finding_def add_finding_decision_def finding_log_def)

lemma saved_map:
  assumes "\<And>x. x \<in> set (findings r) \<Longrightarrow> fi_id x = fi_id f' \<Longrightarrow> x = f" "g f' = g f"
  shows "map g (findings (save_finding f' r)) = map g (findings r)"
proof -
  have "g x = g f'" if "x \<in> set (findings r)" "fi_id x = fi_id f'" for x using assms that by simp
  then show ?thesis by (simp add: save_finding_def map_save_same)
qed

lemma saved_maps:
  assumes "distinct (map fi_id (findings r))" "f \<in> set (findings r)" "same_identity f f'"
  shows "map fi_id (findings (save_finding f' r)) = map fi_id (findings r)"
    and "map finding_key (findings (save_finding f' r)) = map finding_key (findings r)"
    and "map fi_first_run (findings (save_finding f' r)) = map fi_first_run (findings r)"
    and "set (findings (save_finding f' r)) = insert f' (set (findings r) - {f})"
proof -
  have only: "x = f" if "x \<in> set (findings r)" "fi_id x = fi_id f'" for x
    using by_identity [OF assms(1) that(1) assms(2)] that(2) assms(3) by (simp add: same_identity_def)
  have same: "fi_id f' = fi_id f" "finding_key f' = finding_key f" "fi_first_run f' = fi_first_run f"
    using assms(3) by (simp_all add: same_identity_def)
  show "map fi_id (findings (save_finding f' r)) = map fi_id (findings r)"
    using only same(1) by (rule saved_map)
  show "map finding_key (findings (save_finding f' r)) = map finding_key (findings r)"
    using only same(2) by (rule saved_map)
  show "map fi_first_run (findings (save_finding f' r)) = map fi_first_run (findings r)"
    using only same(3) by (rule saved_map)
  show "set (findings (save_finding f' r)) = insert f' (set (findings r) - {f})"
    using only same assms(2) by (auto simp: save_finding_def set_update_where)
qed

lemma coherent_save:
  assumes "findings_coherent r" "f \<in> set (findings r)" "same_identity f f'" "fi_state f' = fi_state f"
  shows "findings_coherent (save_finding f' r)"
proof -
  note c = assms(1) [unfolded findings_coherent_def]
  note m = saved_maps [OF c [THEN conjunct1] assms(2,3)]
  have "fi_id ` set (findings (save_finding f' r)) = fi_id ` set (findings r)"
    using m(1) by (metis set_map)
  then show ?thesis
    using c m(1,2) assms(2-4) unfolding findings_coherent_def m(4) by (auto simp: same_identity_def)
qed

lemma coherent_decided:
  assumes "findings_coherent r" "f \<in> set (findings r)" "same_identity f f'" "fi_state f' = target"
    and "lifecycle_edge (fi_state f) target" "fd_finding x = fi_id f" "fd_from_state x = fi_state f" "fd_to_state x = target"
  shows "findings_coherent (add_finding_decision x (save_finding f' r))"
proof -
  note c = assms(1) [unfolded findings_coherent_def]
  note m = saved_maps [OF c [THEN conjunct1] assms(2,3)]
  let ?r = "add_finding_decision x (save_finding f' r)"
  have ids: "fi_id ` set (findings ?r) = fi_id ` set (findings r)"
    using m(1) by (simp add: set_map [symmetric] del: set_map)
  have log: "finding_log ?r i = finding_log r i @ (if i = fi_id f then [(fi_state f, target)] else [])" for i
    using assms(6-8) by (simp add: finding_log_def)
  have "lifecycle FINDING_OPEN (finding_log ?r (fi_id y)) (fi_state y)" if y: "y \<in> set (findings ?r)" for y
  proof (cases "y = f'")
    case True
    have "lifecycle FINDING_OPEN (finding_log r (fi_id f)) (fi_state f)" using c assms(2) by blast
    then have "lifecycle FINDING_OPEN (finding_log r (fi_id f) @ [(fi_state f, target)]) target"
      using assms(5) by (rule lifecycle_append)
    then show ?thesis using True assms(3,4) log by (simp add: same_identity_def)
  next
    case False
    with y have "y \<in> set (findings r)" "y \<noteq> f" by (auto simp: m(4))
    moreover from this have "fi_id y \<noteq> fi_id f" using by_identity c assms(2) by blast
    ultimately show ?thesis using c log by simp
  qed
  moreover have "fd_finding z \<in> fi_id ` set (findings ?r)" if "z \<in> set (finding_decisions ?r)" for z
    using that c assms(2,6) unfolding ids by auto
  ultimately show ?thesis
    using c m(1,2) unfolding findings_coherent_def by simp
qed

lemma coherent_new:
  assumes "findings_coherent r" "fi_id f \<notin> fi_id ` set (findings r)" "finding_key f \<notin> finding_key ` set (findings r)"
    and "fi_state f = FINDING_OPEN"
  shows "findings_coherent (r\<lparr>findings := findings r @ [f]\<rparr>)"
proof -
  have "\<forall>x\<in>set (finding_decisions r). fd_finding x \<noteq> fi_id f"
    using assms(1,2) unfolding findings_coherent_def by metis
  then have "finding_log (r\<lparr>findings := findings r @ [f]\<rparr>) (fi_id f) = []"
    by (auto simp: finding_log_def filter_empty_conv)
  moreover have "finding_log (r\<lparr>findings := findings r @ [f]\<rparr>) i = finding_log r i" for i
    by (simp add: finding_log_def)
  ultimately show ?thesis using assms by (auto simp: findings_coherent_def)
qed

lemma occurrence_coherent:
  assumes "findings_coherent r"
  shows "findings_coherent (record_occurrence run f payload digest fresh r)"
proof -
  have "finding_log (r\<lparr>finding_occurrences := os\<rparr>) i = finding_log r i" for os i
    by (simp add: finding_log_def)
  then show ?thesis
    using assms
    by (auto simp: findings_coherent_def record_occurrence_def occurrence_key_def list_ex_iff)
qed

lemma occurrence_simps [simp]:
  "findings (record_occurrence run f payload digest fresh r) = findings r"
  "finding_decisions (record_occurrence run f payload digest fresh r) = finding_decisions r"
  by (simp_all add: record_occurrence_def)

section \<open>Row by row\<close>

definition of_pull_request :: "assurance_run \<Rightarrow> uuid \<Rightarrow> finding \<Rightarrow> bool" where
  "of_pull_request run pr f \<longleftrightarrow> fi_org f = run_org run \<and> fi_pull_request f = pr"

definition seen_row :: "assurance_run \<Rightarrow> uuid \<Rightarrow> observation_of_finding list \<Rightarrow> finding \<Rightarrow> finding" where
  "seen_row run pr obs f =
     (if of_pull_request run pr f
      then case find_by (\<lambda>ob. of_fingerprint ob = fi_fingerprint f) obs of
             None \<Rightarrow> f
           | Some ob \<Rightarrow> seen_again run (of_document ob) f
      else f)"

definition merged_row :: "assurance_run \<Rightarrow> uuid \<Rightarrow> observation_of_finding list \<Rightarrow> finding \<Rightarrow> finding" where
  "merged_row run pr obs f =
     (if unobserved run pr (map of_fingerprint obs) f then obsoleted run f else seen_row run pr obs f)"

definition unknown :: "assurance_run \<Rightarrow> uuid \<Rightarrow> finding list \<Rightarrow> observation_of_finding \<Rightarrow> bool" where
  "unknown run pr fs ob \<longleftrightarrow> (run_org run, pr, of_fingerprint ob) \<notin> finding_key ` set fs"

definition row_of_new :: "assurance_run \<Rightarrow> uuid \<Rightarrow> finding_ids \<Rightarrow> observation_of_finding \<Rightarrow> finding" where
  "row_of_new run pr ids ob =
     new_finding run pr (of_fingerprint ob) (of_document ob) (nf_finding ids (of_fingerprint ob))"

definition new_rows :: "assurance_run \<Rightarrow> uuid \<Rightarrow> finding_ids \<Rightarrow> finding list \<Rightarrow> observation_of_finding list \<Rightarrow> finding list" where
  "new_rows run pr ids fs obs = map (row_of_new run pr ids) (filter (unknown run pr fs) obs)"

definition fresh_findings :: "finding_ids \<Rightarrow> pystr list \<Rightarrow> review \<Rightarrow> bool" where
  "fresh_findings ids fps r \<longleftrightarrow>
     inj_on (nf_finding ids) (set fps) \<and> (\<forall>fp\<in>set fps. nf_finding ids fp \<notin> fi_id ` set (findings r))"

named_theorems row_simps \<open>the identity of the rows a merge writes\<close>

lemma seen_again_simps [row_simps]:
  "fi_id (seen_again run doc f) = fi_id f" "fi_org (seen_again run doc f) = fi_org f"
  "fi_pull_request (seen_again run doc f) = fi_pull_request f"
  "fi_fingerprint (seen_again run doc f) = fi_fingerprint f" "fi_first_run (seen_again run doc f) = fi_first_run f"
  "finding_key (seen_again run doc f) = finding_key f"
  "fi_state (seen_again run doc f) = (if fi_state f = FINDING_OBSOLETE then FINDING_OPEN else fi_state f)"
  "fi_latest_run (seen_again run doc f) = run_id run" "fi_revision (seen_again run doc f) = fi_revision f + 1"
  "fi_severity (seen_again run doc f) = fn_severity doc"
  by (simp_all add: seen_again_def observed_in_def finding_key_def)

lemma row_of_new_simps [row_simps]:
  "fi_id (row_of_new run pr ids ob) = nf_finding ids (of_fingerprint ob)"
  "finding_key (row_of_new run pr ids ob) = (run_org run, pr, of_fingerprint ob)"
  "fi_org (row_of_new run pr ids ob) = run_org run" "fi_pull_request (row_of_new run pr ids ob) = pr"
  "fi_fingerprint (row_of_new run pr ids ob) = of_fingerprint ob"
  "fi_state (row_of_new run pr ids ob) = FINDING_OPEN" "fi_latest_run (row_of_new run pr ids ob) = run_id run"
  "fi_severity (row_of_new run pr ids ob) = fn_severity (of_document ob)"
  by (simp_all add: row_of_new_def new_finding_def observed_in_def finding_key_def)

lemma obsoleted_simps [row_simps]:
  "fi_id (obsoleted run f) = fi_id f" "fi_org (obsoleted run f) = fi_org f"
  "fi_pull_request (obsoleted run f) = fi_pull_request f" "fi_fingerprint (obsoleted run f) = fi_fingerprint f"
  "fi_first_run (obsoleted run f) = fi_first_run f" "finding_key (obsoleted run f) = finding_key f"
  "fi_state (obsoleted run f) = FINDING_OBSOLETE" "fi_revision (obsoleted run f) = fi_revision f + 1"
  by (simp_all add: obsoleted_def finding_key_def)

lemma seen_row_simps [row_simps]:
  "fi_id (seen_row run pr obs f) = fi_id f" "fi_fingerprint (seen_row run pr obs f) = fi_fingerprint f"
  "finding_key (seen_row run pr obs f) = finding_key f"
  "of_pull_request run' pr' (seen_row run pr obs f) = of_pull_request run' pr' f"
  by (auto simp: seen_row_def row_simps of_pull_request_def split: option.splits)

lemma same_identity_rows [simp]:
  "same_identity f (seen_again run doc f)" "same_identity f (obsoleted run f)"
  by (simp_all add: same_identity_def row_simps)

lemma seen_row_Cons:
  assumes "of_fingerprint ob \<notin> of_fingerprint ` set obs"
  shows "seen_row run pr obs (seen_row run pr [ob] f) = seen_row run pr (ob # obs) f"
proof (cases "of_pull_request run pr f \<and> fi_fingerprint f = of_fingerprint ob")
  case True
  then have "find_by (\<lambda>x. of_fingerprint x = fi_fingerprint f) obs = None" using assms by (force simp: image_iff)
  then show ?thesis using True by (simp add: seen_row_def row_simps of_pull_request_def del: find_by_None)
next
  case False
  then have "seen_row run pr [ob] f = f" by (auto simp: seen_row_def)
  moreover have "seen_row run pr (ob # obs) f = seen_row run pr obs f" using False by (auto simp: seen_row_def)
  ultimately show ?thesis by simp
qed

lemma seen_row_none:
  assumes "(fi_org f, fi_pull_request f, fi_fingerprint f) \<notin> (\<lambda>ob. (run_org run, pr, of_fingerprint ob)) ` set obs"
  shows "seen_row run pr obs f = f"
proof (cases "of_pull_request run pr f")
  case True
  then have "find_by (\<lambda>x. of_fingerprint x = fi_fingerprint f) obs = None"
    using assms by (force simp: of_pull_request_def image_iff)
  then show ?thesis by (simp add: seen_row_def del: find_by_None)
qed (simp add: seen_row_def)

section \<open>One observation\<close>

lemma observed_known:
  assumes "find_by (\<lambda>f. fi_org f = run_org run \<and> fi_pull_request f = pr \<and> fi_fingerprint f = of_fingerprint ob) (findings r) = Some f"
    and "findings_coherent r"
  shows "findings (save_finding (seen_again run (of_document ob) f) r) = map (seen_row run pr [ob]) (findings r)"
proof -
  have f: "f \<in> set (findings r)" "of_pull_request run pr f" "fi_fingerprint f = of_fingerprint ob"
    using find_by_Some_iff [OF assms(1)] by (simp_all add: of_pull_request_def)
  have keys: "x = f" if "x \<in> set (findings r)" "finding_key x = finding_key f" for x
    using assms(2) f(1) that by (auto simp: findings_coherent_def distinct_map inj_on_def)
  have ids: "x = f" if "x \<in> set (findings r)" "fi_id x = fi_id f" for x
    using assms(2) f(1) that by (auto simp: findings_coherent_def distinct_map inj_on_def)
  have "(if fi_id x = fi_id f then seen_again run (of_document ob) f else x) = seen_row run pr [ob] x"
    if x: "x \<in> set (findings r)" for x
  proof (cases "x = f")
    case True
    then show ?thesis using f by (simp add: seen_row_def)
  next
    case False
    then have "finding_key x \<noteq> finding_key f" using keys x by blast
    then have "seen_row run pr [ob] x = x"
      using f by (intro seen_row_none) (auto simp: finding_key_def of_pull_request_def)
    then show ?thesis using False ids x by auto
  qed
  then show ?thesis by (simp add: save_finding_def update_where_def row_simps)
qed

lemma observe_finding_spec:
  assumes "observe_finding actor run pr ids ob r = (f, r1)" "findings_coherent r"
    and "nf_finding ids (of_fingerprint ob) \<notin> fi_id ` set (findings r)"
  shows "findings_coherent r1 \<and> findings_kept r r1
     \<and> findings r1 = map (seen_row run pr [ob]) (findings r) @ new_rows run pr ids (findings r) [ob]
     \<and> f \<in> set (findings r1) \<and> finding_key f = (run_org run, pr, of_fingerprint ob)"
proof (cases "find_by (\<lambda>f. fi_org f = run_org run \<and> fi_pull_request f = pr \<and> fi_fingerprint f = of_fingerprint ob) (findings r)")
  case None
  then have new: "(run_org run, pr, of_fingerprint ob) \<notin> finding_key ` set (findings r)"
    by (auto simp: finding_key_def)
  then have same: "map (seen_row run pr [ob]) (findings r) = findings r"
    by (intro map_idI seen_row_none) (force simp: finding_key_def image_iff)
  have r1: "f = row_of_new run pr ids ob" "r1 = r\<lparr>findings := findings r @ [f]\<rparr>"
    using assms(1) None by (auto simp: observe_finding_def Let_def row_of_new_def simp del: find_by_None)
  have "findings_coherent r1"
    unfolding r1(2) using assms(2,3) new by (intro coherent_new) (simp_all add: r1(1) row_simps)
  moreover have "findings_kept r r1" by (auto simp: findings_kept_def r1(2))
  ultimately show ?thesis
    using new r1 same by (simp add: new_rows_def unknown_def row_simps)
next
  case (Some g)
  then have g: "g \<in> set (findings r)" "finding_key g = (run_org run, pr, of_fingerprint ob)"
    using find_by_Some_iff [OF Some] by (simp_all add: finding_key_def)
  let ?g = "seen_again run (of_document ob) g"
  let ?x = "finding_decision_row actor g FINDING_OPEN reopened_reason (nf_reopened ids (of_fingerprint ob))"
  have r1: "f = ?g" "r1 = (if fi_state g = FINDING_OBSOLETE then add_finding_decision ?x (save_finding ?g r) else save_finding ?g r)"
    using assms(1) Some by (auto simp: observe_finding_def Let_def)
  have "findings_coherent r1"
  proof (cases "fi_state g = FINDING_OBSOLETE")
    case True
    then show ?thesis unfolding r1(2)
      using coherent_decided [OF assms(2) g(1), of ?g FINDING_OPEN ?x]
      by (simp add: row_simps lifecycle_edge_def finding_decision_row_def)
  next
    case False
    then show ?thesis unfolding r1(2) using coherent_save [OF assms(2) g(1), of ?g] by (simp add: row_simps)
  qed
  moreover have rows: "findings r1 = map (seen_row run pr [ob]) (findings r)"
    using observed_known [OF Some assms(2)] r1(2) by simp
  moreover have "findings_kept r r1"
  proof -
    have "fi_first_run (seen_row run pr [ob] x) = fi_first_run x" for x
      by (auto simp: seen_row_def row_simps split: option.splits)
    then have "(\<lambda>f. (fi_id f, finding_key f, fi_first_run f)) ` set (findings r1)
        = (\<lambda>f. (fi_id f, finding_key f, fi_first_run f)) ` set (findings r)"
      unfolding rows by (auto simp: row_simps image_image)
    then show ?thesis by (auto simp: findings_kept_def r1(2))
  qed
  moreover have "f \<in> set (findings r1)"
    using saved_maps(4) [of r g ?g] assms(2) g(1) r1 by (auto simp: findings_coherent_def)
  ultimately show ?thesis
    using g r1(1) by (simp add: new_rows_def unknown_def row_simps) (metis image_eqI)
qed

section \<open>All observations\<close>

definition shows_all :: "assurance_run \<Rightarrow> uuid \<Rightarrow> observation_of_finding list \<Rightarrow> finding list \<Rightarrow> review \<Rightarrow> bool" where
  "shows_all run pr obs fs r \<longleftrightarrow>
     list_all2 (\<lambda>ob f. f \<in> set (findings r) \<and> finding_key f = (run_org run, pr, of_fingerprint ob)
        \<and> (run_org run, fi_id f, run_id run) \<in> occurrence_key ` set (finding_occurrences r)) obs fs"

lemma occurrence_recorded:
  "(run_org run, fi_id f, run_id run) \<in> occurrence_key ` set (finding_occurrences (record_occurrence run f payload digest fresh r))"
  by (force simp: record_occurrence_def occurrence_key_def list_ex_iff image_iff)

lemma occurrence_kept: "findings_kept r (record_occurrence run f payload digest fresh r)"
  by (auto simp: findings_kept_def record_occurrence_def)

lemma merge_one_spec:
  assumes "merge_one env actor run pr ids ob (current, r) = Inr (current', r')" "findings_coherent r"
    and "nf_finding ids (of_fingerprint ob) \<notin> fi_id ` set (findings r)"
  obtains f where "current' = current @ [f]" "findings_coherent r'" "findings_kept r r'"
    "findings r' = map (seen_row run pr [ob]) (findings r) @ new_rows run pr ids (findings r) [ob]"
    "shows_all run pr [ob] [f] r'"
proof -
  obtain f r1 where o1: "observe_finding actor run pr ids ob r = (f, r1)" by fastforce
  from assms(1) o1 obtain digest where d: "current' = current @ [f]"
    "r' = record_occurrence run f (occurrence_payload run ob) digest (nf_occurrence ids (of_fingerprint ob)) r1"
    by (auto simp: merge_one_def Let_def bind_res_Inr)
  from observe_finding_spec [OF o1 assms(2,3)] have s: "findings_coherent r1" "findings_kept r r1"
    "findings r1 = map (seen_row run pr [ob]) (findings r) @ new_rows run pr ids (findings r) [ob]"
    "f \<in> set (findings r1)" "finding_key f = (run_org run, pr, of_fingerprint ob)" by blast+
  show thesis
  proof (rule that [OF d(1)])
    show "findings_coherent r'" unfolding d(2) by (rule occurrence_coherent [OF s(1)])
    show "findings_kept r r'" unfolding d(2) by (rule findings_kept_trans [OF s(2) occurrence_kept])
    show "findings r' = map (seen_row run pr [ob]) (findings r) @ new_rows run pr ids (findings r) [ob]"
      using s(3) by (simp add: d(2))
    show "shows_all run pr [ob] [f] r'" using s(4,5) occurrence_recorded by (simp add: shows_all_def d(2))
  qed
qed

lemma new_rows_rest:
  assumes "of_fingerprint ob \<notin> of_fingerprint ` set obs"
  shows "new_rows run pr ids (map (seen_row run pr [ob]) fs @ new_rows run pr ids fs [ob]) obs = new_rows run pr ids fs obs"
proof -
  have "unknown run pr (map (seen_row run pr [ob]) fs @ new_rows run pr ids fs [ob]) o' = unknown run pr fs o'"
    if "o' \<in> set obs" for o'
  proof -
    have "of_fingerprint o' \<noteq> of_fingerprint ob" using that assms by (metis image_eqI)
    then show ?thesis by (auto simp: unknown_def new_rows_def row_simps image_image)
  qed
  then show ?thesis unfolding new_rows_def by (metis (no_types, lifting) filter_cong)
qed

lemma rows_rest:
  assumes "of_fingerprint ob \<notin> of_fingerprint ` set obs"
  shows "map (seen_row run pr obs) (map (seen_row run pr [ob]) fs @ new_rows run pr ids fs [ob]) @ new_rows run pr ids fs obs
    = map (seen_row run pr (ob # obs)) fs @ new_rows run pr ids fs (ob # obs)"
proof -
  have "seen_row run pr obs (row_of_new run pr ids ob) = row_of_new run pr ids ob"
    using assms by (intro seen_row_none) (auto simp: row_simps)
  then show ?thesis using seen_row_Cons [OF assms] by (simp add: new_rows_def)
qed

lemma seen_row_same_row: "fi_first_run (seen_row run pr obs f) = fi_first_run f"
  by (auto simp: seen_row_def row_simps split: option.splits)

lemma shows_all_later:
  assumes "shows_all run pr [ob] [f] r1" "findings r2 = map (seen_row run pr obs) (findings r1) @ xs"
    "findings_kept r1 r2" "of_fingerprint ob \<notin> of_fingerprint ` set obs"
  shows "shows_all run pr [ob] [f] r2"
proof -
  have "seen_row run pr obs f = f"
    using assms(1,4) by (intro seen_row_none) (auto simp: shows_all_def finding_key_def)
  then have "f \<in> set (findings r2)" using assms(1,2) by (force simp: shows_all_def)
  then show ?thesis using assms(1,3) by (auto simp: shows_all_def findings_kept_def)
qed

lemma merge_loop:
  assumes "fold_res (merge_one env actor run pr ids) obs (current, r) = Inr (current', r')"
    and "distinct (map of_fingerprint obs)" "findings_coherent r" "fresh_findings ids (map of_fingerprint obs) r"
  shows "\<exists>fs. current' = current @ fs \<and> findings_coherent r' \<and> findings_kept r r'
    \<and> findings r' = map (seen_row run pr obs) (findings r) @ new_rows run pr ids (findings r) obs
    \<and> shows_all run pr obs fs r'"
  using assms
proof (induction obs arbitrary: current r)
  case Nil
  have "seen_row run pr [] = (\<lambda>f. f)" by (simp add: fun_eq_iff seen_row_def)
  then show ?case using Nil by (simp add: shows_all_def new_rows_def)
next
  case (Cons ob obs)
  from Cons.prems(1) obtain c1 r1 where m: "merge_one env actor run pr ids ob (current, r) = Inr (c1, r1)"
    "fold_res (merge_one env actor run pr ids) obs (c1, r1) = Inr (current', r')"
    by (auto simp: bind_res_Inr)
  have fp: "of_fingerprint ob \<notin> of_fingerprint ` set obs" using Cons.prems(2) by simp
  have "nf_finding ids (of_fingerprint ob) \<notin> fi_id ` set (findings r)"
    using Cons.prems(4) by (simp add: fresh_findings_def)
  from merge_one_spec [OF m(1) Cons.prems(3) this] obtain f where s: "c1 = current @ [f]" "findings_coherent r1"
    "findings_kept r r1" "findings r1 = map (seen_row run pr [ob]) (findings r) @ new_rows run pr ids (findings r) [ob]"
    "shows_all run pr [ob] [f] r1" by metis
  have ids1: "fi_id ` set (findings r1) \<subseteq> insert (nf_finding ids (of_fingerprint ob)) (fi_id ` set (findings r))"
    unfolding s(4) by (auto simp: row_simps new_rows_def)
  have "fresh_findings ids (map of_fingerprint obs) r1"
    unfolding fresh_findings_def
  proof (intro conjI ballI)
    show "inj_on (nf_finding ids) (set (map of_fingerprint obs))"
      using Cons.prems(4) by (auto simp: fresh_findings_def inj_on_def)
    fix x assume x: "x \<in> set (map of_fingerprint obs)"
    then have "x \<noteq> of_fingerprint ob" using fp by (metis set_map)
    then have "nf_finding ids x \<noteq> nf_finding ids (of_fingerprint ob)"
      using inj_onD [of "nf_finding ids" "set (map of_fingerprint (ob # obs))" x "of_fingerprint ob"] Cons.prems(4) x
      unfolding fresh_findings_def by (metis list.set_intros list.simps(9))
    moreover have "nf_finding ids x \<notin> fi_id ` set (findings r)"
      using Cons.prems(4) x unfolding fresh_findings_def by (metis list.set_intros(2) list.simps(9))
    ultimately show "nf_finding ids x \<notin> fi_id ` set (findings r1)" using ids1 by blast
  qed
  from Cons.IH [OF m(2) _ s(2) this] Cons.prems(2) obtain fs where i: "current' = c1 @ fs" "findings_coherent r'"
    "findings_kept r1 r'" "findings r' = map (seen_row run pr obs) (findings r1) @ new_rows run pr ids (findings r1) obs"
    "shows_all run pr obs fs r'" by auto
  have "findings r' = map (seen_row run pr (ob # obs)) (findings r) @ new_rows run pr ids (findings r) (ob # obs)"
    unfolding i(4) s(4) new_rows_rest [OF fp] by (rule rows_rest [OF fp])
  moreover have "shows_all run pr (ob # obs) (f # fs) r'"
    using shows_all_later [OF s(5) i(4,3) fp] i(5) by (simp add: shows_all_def)
  ultimately have "current' = current @ f # fs \<and> findings_coherent r' \<and> findings_kept r r'
      \<and> findings r' = map (seen_row run pr (ob # obs)) (findings r) @ new_rows run pr ids (findings r) (ob # obs)
      \<and> shows_all run pr (ob # obs) (f # fs) r'"
    using i(1,2) s(1) findings_kept_trans [OF s(3) i(3)] by simp
  then show ?case by (rule exI)
qed

section \<open>The findings that were not observed\<close>

lemma obsolete_one:
  assumes "findings_coherent r" "f \<in> set (findings r)" "fi_state f = FINDING_OPEN"
  shows "findings_coherent (make_obsolete actor run ids f r)" "findings_kept r (make_obsolete actor run ids f r)"
    and "findings (make_obsolete actor run ids f r) = map (\<lambda>x. if x = f then obsoleted run f else x) (findings r)"
proof -
  have d: "distinct (map fi_id (findings r))" using assms(1) by (simp add: findings_coherent_def)
  show "findings_coherent (make_obsolete actor run ids f r)"
    unfolding make_obsolete_def
    by (rule coherent_decided [OF assms(1,2)])
      (simp_all add: row_simps lifecycle_edge_def finding_decision_row_def assms(3))
  show rows: "findings (make_obsolete actor run ids f r) = map (\<lambda>x. if x = f then obsoleted run f else x) (findings r)"
    using by_identity [OF d _ assms(2)]
    by (auto simp: make_obsolete_def save_finding_def update_where_def row_simps)
  have "(fi_id x, finding_key x, fi_first_run x) \<in> (\<lambda>f. (fi_id f, finding_key f, fi_first_run f))
      ` set (findings (make_obsolete actor run ids f r))" if "x \<in> set (findings r)" for x
  proof (cases "x = f")
    case True
    have "obsoleted run f \<in> set (findings (make_obsolete actor run ids f r))" using assms(2) by (auto simp: rows)
    then show ?thesis using True by (rule_tac image_eqI [where x = "obsoleted run f"]) (simp_all add: row_simps)
  next
    case False
    then have "x \<in> set (findings (make_obsolete actor run ids f r))" using that by (force simp: rows)
    then show ?thesis by blast
  qed
  then show "findings_kept r (make_obsolete actor run ids f r)"
    by (auto simp: findings_kept_def make_obsolete_def)
qed

lemma rows_after:
  assumes "f \<notin> set fs" "obsoleted run f \<notin> set fs"
  shows "map (\<lambda>x. if x \<in> set fs then obsoleted run x else x) (map (\<lambda>x. if x = f then obsoleted run f else x) xs)
    = map (\<lambda>x. if x = f \<or> x \<in> set fs then obsoleted run x else x) xs"
  using assms by auto

lemma obsolete_loop:
  assumes "findings_coherent r" "set fs \<subseteq> set (findings r)" "distinct fs" "\<forall>f\<in>set fs. fi_state f = FINDING_OPEN"
  shows "findings_coherent (fold (make_obsolete actor run ids) fs r)
    \<and> findings_kept r (fold (make_obsolete actor run ids) fs r)
    \<and> findings (fold (make_obsolete actor run ids) fs r)
        = map (\<lambda>x. if x \<in> set fs then obsoleted run x else x) (findings r)"
  using assms
proof (induction fs arbitrary: r)
  case Nil
  then show ?case by simp
next
  case (Cons f fs)
  let ?r = "make_obsolete actor run ids f r"
  have f: "f \<in> set (findings r)" "fi_state f = FINDING_OPEN" "f \<notin> set fs" using Cons.prems by auto
  note one = obsolete_one [OF Cons.prems(1) f(1,2), of actor run ids]
  have "obsoleted run f \<notin> set fs" using Cons.prems(4) by (auto simp: row_simps)
  moreover have "set fs \<subseteq> set (findings ?r)" using Cons.prems(2) f(3) unfolding one(3) by auto
  ultimately show ?case
    using Cons.IH [OF one(1)] Cons.prems(3,4) findings_kept_trans [OF one(2)] rows_after [OF f(3)]
    by (simp add: one(3))
qed

lemma obsolete_unobserved_spec:
  assumes "findings_coherent r"
  shows "findings_coherent (obsolete_unobserved actor run pr ids fps r)
    \<and> findings_kept r (obsolete_unobserved actor run pr ids fps r)
    \<and> findings (obsolete_unobserved actor run pr ids fps r)
        = map (\<lambda>x. if unobserved run pr fps x then obsoleted run x else x) (findings r)"
proof -
  let ?fs = "filter (unobserved run pr fps) (findings r)"
  have "distinct ?fs" using assms by (auto simp: findings_coherent_def distinct_map)
  moreover have "\<forall>f\<in>set ?fs. fi_state f = FINDING_OPEN" by (simp add: unobserved_def)
  moreover have "map (\<lambda>x. if x \<in> set ?fs then obsoleted run x else x) (findings r)
      = map (\<lambda>x. if unobserved run pr fps x then obsoleted run x else x) (findings r)" by simp
  ultimately show ?thesis
    using obsolete_loop [OF assms, of ?fs actor run ids] unfolding obsolete_unobserved_def by simp
qed

section \<open>One merge\<close>

definition fresh_for_merge :: "environment \<Rightarrow> finding_ids \<Rightarrow> (pystr \<times> json) list list \<Rightarrow> db \<Rightarrow> bool" where
  "fresh_for_merge env ids payloads d \<longleftrightarrow>
     (case fingerprinted_payloads env payloads of
        Inl e \<Rightarrow> True
      | Inr obs \<Rightarrow> fresh_findings ids (map of_fingerprint obs) (review d))"

lemma merged_rows:
  "(if unobserved run pr (map of_fingerprint obs) (seen_row run pr obs f) then obsoleted run (seen_row run pr obs f)
    else seen_row run pr obs f) = merged_row run pr obs f"
proof (cases "fi_fingerprint f \<in> set (map of_fingerprint obs)")
  case True
  then show ?thesis by (simp add: merged_row_def unobserved_def row_simps)
next
  case False
  then have "seen_row run pr obs f = f" by (intro seen_row_none) auto
  then show ?thesis by (simp add: merged_row_def)
qed

lemma fingerprinted_distinct:
  "fingerprinted_payloads env payloads = Inr obs \<Longrightarrow> distinct (map of_fingerprint obs)"
  by (auto simp: fingerprinted_payloads_def bind_res_Inr guard_res_Inr Let_def)

lemma merge_findings_Inr:
  assumes "merge_findings env actor run payloads ids d = Inr (current, d')" "findings_coherent (review d)"
    and "fresh_for_merge env ids payloads d"
  obtains i p obs where "run_pull_request_revision run = Some i" "pull_request_of_revision i d = Inr p"
    "fingerprinted_payloads env payloads = Inr obs" "d' = d\<lparr>review := review d'\<rparr>"
    "findings_coherent (review d')" "findings_kept (review d) (review d')"
    "findings (review d') = map (merged_row run (pq_id p) obs) (findings (review d))
       @ new_rows run (pq_id p) ids (findings (review d)) obs"
    "shows_all run (pq_id p) obs current (review d')"
proof -
  obtain i where i: "run_pull_request_revision run = Some i"
    using assms(1) by (auto simp: merge_findings_def split: option.splits)
  from assms(1) i obtain p obs r1 where m: "pull_request_of_revision i d = Inr p"
    "fingerprinted_payloads env payloads = Inr obs"
    "fold_res (merge_one env actor run (pq_id p) ids) obs ([], review d) = Inr (current, r1)"
    "d' = d\<lparr>review := obsolete_unobserved actor run (pq_id p) ids (map of_fingerprint obs) r1\<rparr>"
    by (auto simp: merge_findings_def bind_res_Inr)
  let ?fps = "map of_fingerprint obs" and ?pr = "pq_id p"
  have dist: "distinct ?fps" using m(2) by (rule fingerprinted_distinct)
  have "fresh_findings ids ?fps (review d)" using assms(3) m(2) by (simp add: fresh_for_merge_def)
  from merge_loop [OF m(3) dist assms(2) this] have l: "findings_coherent r1" "findings_kept (review d) r1"
    "findings r1 = map (seen_row run ?pr obs) (findings (review d)) @ new_rows run ?pr ids (findings (review d)) obs"
    "shows_all run ?pr obs current r1" by auto
  note u = obsolete_unobserved_spec [OF l(1), of actor run ?pr ids ?fps]
  have r': "review d' = obsolete_unobserved actor run ?pr ids ?fps r1" by (simp add: m(4))
  have observed: "\<not> unobserved run ?pr ?fps f" if "fi_fingerprint f \<in> set ?fps" for f
    using that by (simp add: unobserved_def)
  have "map (\<lambda>x. if unobserved run ?pr ?fps x then obsoleted run x else x) (new_rows run ?pr ids (findings (review d)) obs)
      = new_rows run ?pr ids (findings (review d)) obs"
    using observed by (auto simp: new_rows_def row_simps intro!: map_idI)
  then have rows: "findings (review d') = map (merged_row run ?pr obs) (findings (review d))
      @ new_rows run ?pr ids (findings (review d)) obs"
    using u merged_rows [of run ?pr obs] unfolding r' l(3) by simp
  have "f \<in> set (findings (review d'))" if "f \<in> set (findings r1)" "fi_fingerprint f \<in> set ?fps" for f
    using that observed [OF that(2)] u unfolding r' by force
  moreover have "finding_occurrences (review d') = finding_occurrences r1 @ xs \<Longrightarrow>
      x \<in> set (finding_occurrences r1) \<Longrightarrow> x \<in> set (finding_occurrences (review d'))" for x xs by simp
  ultimately have "shows_all run ?pr obs current (review d')"
    using l(4) u unfolding shows_all_def r' findings_kept_def
    by (elim list.rel_mono_strong) (auto simp: finding_key_def)
  moreover have "findings_kept (review d) (review d')" using l(2) u unfolding r' by (auto intro: findings_kept_trans)
  ultimately show thesis
    using that [OF i m(1,2)] u rows m(4) r' by simp
qed

section \<open>One decision\<close>

lemma decision_target_edges: "decision_target s = Some target \<Longrightarrow> target \<noteq> FINDING_OBSOLETE"
  by (auto simp: decision_target_def split: if_splits)

lemma decide_finding_Inr:
  assumes "decide_finding env actor repository i s expected reason now fresh d = Inr (f', d')"
    and "findings_coherent (review d)"
  obtains f where "f \<in> set (findings (review d))" "fi_id f = i" "fi_org f = actor_org actor"
    "f' \<in> set (findings (review d'))" "same_identity f f'"
    "decision_target (env_upper env s) = Some (fi_state f')"
    "fi_state f = fi_state f' \<and> d' = d \<or> fi_state f' \<in> set (finding_edges (fi_state f))"
    "findings_coherent (review d')" "findings_kept (review d) (review d')" "d' = d\<lparr>review := review d'\<rparr>"
proof -
  from assms(1) obtain reason' target dec auditor f p where s:
    "decision_target (env_upper env s) = Some target"
    "audit_actor actor dec = Inr auditor"
    "get_tenant_record_for_update finding_table i (actor_org auditor) d = Inr f"
    "(if fi_state f = target then Inr (f, d)
      else bind_res (guard_res (target \<in> set (finding_edges (fi_state f))) (ValueError ''Finding lifecycle transition is invalid''))
             (\<lambda>_. Inr (apply_finding_decision auditor f target reason' fresh d))) = Inr (f', d')"
    unfolding decide_finding_def bind_res_Inr guard_res_Inr none_error_Inr
    by (elim exE conjE) (rule that; assumption)
  have org: "actor_org auditor = actor_org actor"
    using s(2) by (auto simp: audit_actor_def check_actor_def split: if_splits)
  have f: "f \<in> set (findings (review d))" "fi_id f = i" "fi_org f = actor_org actor"
    using get_tenant_record_Inr [OF s(3) [unfolded get_tenant_record_for_update_def]] org by simp_all
  show thesis
  proof (cases "fi_state f = target")
    case True
    then have "f' = f" "d' = d" using s(4) by simp_all
    then show thesis using that [OF f, unfolded same_identity_def] f s(1) True assms(2) by simp
  next
    case False
    let ?f = "f\<lparr>fi_state := target, fi_revision := fi_revision f + 1\<rparr>"
    let ?x = "finding_decision_row auditor f target reason' fresh"
    have edge: "target \<in> set (finding_edges (fi_state f))"
      and r: "f' = ?f" "d' = d\<lparr>review := add_finding_decision ?x (save_finding ?f (review d))\<rparr>"
      using s(4) False by (auto simp: apply_finding_decision_def Let_def bind_res_Inr guard_res_Inr)
    have same: "same_identity f ?f" by (simp add: same_identity_def finding_key_def)
    have r': "review d' = add_finding_decision ?x (save_finding ?f (review d))" by (simp add: r(2))
    have c: "findings_coherent (review d')" unfolding r'
      by (rule coherent_decided [OF assms(2) f(1) same]) (simp_all add: lifecycle_edge_def edge finding_decision_row_def)
    note m = saved_maps [OF assms(2) [unfolded findings_coherent_def, THEN conjunct1] f(1) same]
    have "(\<lambda>f. (fi_id f, finding_key f, fi_first_run f)) ` set (findings (review d)) \<subseteq>
        (\<lambda>f. (fi_id f, finding_key f, fi_first_run f)) ` set (findings (review d'))"
    proof -
      have "findings (review d') = findings (save_finding ?f (review d))" by (simp add: r(2))
      then have "insert ?f (set (findings (review d)) - {f}) = set (findings (review d'))" using m(4) by simp
      moreover have "(fi_id f, finding_key f, fi_first_run f) = (fi_id ?f, finding_key ?f, fi_first_run ?f)"
        by (simp add: finding_key_def)
      ultimately show ?thesis by blast
    qed
    then have k: "findings_kept (review d) (review d')" by (simp add: findings_kept_def r(2))
    have "f' \<in> set (findings (review d'))" using m(4) by (simp add: r)
    show thesis
    proof (rule that [OF f \<open>f' \<in> set (findings (review d'))\<close> _ _ _ c k])
      show "same_identity f f'" using same by (simp only: r(1))
      show "decision_target (env_upper env s) = Some (fi_state f')" using s(1) by (simp add: r(1))
      show "fi_state f = fi_state f' \<and> d' = d \<or> fi_state f' \<in> set (finding_edges (fi_state f))"
        using edge by (simp add: r(1))
      show "d' = d\<lparr>review := review d'\<rparr>" by (simp add: r(2))
    qed
  qed
qed

section \<open>Steps\<close>

inductive finding_step :: "environment \<Rightarrow> db \<Rightarrow> db \<Rightarrow> bool" for env where
  merged: "merge_findings env actor run payloads ids d = Inr (current, d') \<Longrightarrow> fresh_for_merge env ids payloads d
     \<Longrightarrow> finding_step env d d'"
| decided: "decide_finding env actor repository i s expected reason now fresh d = Inr (f, d') \<Longrightarrow> finding_step env d d'"

lemma finding_step_keeps:
  "finding_step env d d' \<Longrightarrow> findings_coherent (review d) \<Longrightarrow>
     findings_coherent (review d') \<and> findings_kept (review d) (review d')"
  by (induction rule: finding_step.induct) (metis merge_findings_Inr, metis decide_finding_Inr)

lemma finding_steps_keep:
  assumes "(finding_step env)\<^sup>*\<^sup>* d d'" "findings_coherent (review d)"
  shows "findings_coherent (review d') \<and> findings_kept (review d) (review d')"
  using assms(1)
proof (induction rule: rtranclp_induct)
  case base
  then show ?case using assms(2) by simp
next
  case (step d1 d2)
  then show ?case using finding_step_keeps findings_kept_trans by blast
qed

end
