(* ===== verification/Readiness.thy ===== *)
theory Readiness
  imports Findings EvidenceMapping
begin

text \<open>
  The readiness of a run (\<^verbatim>\<open>_readiness\<close> of \<^verbatim>\<open>src/anva/core/services/assurance.py\<close>): what is read, the
  reasons that block and the reasons that warn, and their precedence.
\<close>

datatype readiness =
    READINESS_BLOCKED | READY_WITH_WARNINGS | READY_FOR_HUMAN_REVIEW | READINESS_STALE | READINESS_FAILED

fun readiness_value :: "readiness \<Rightarrow> pystr" where
  "readiness_value READINESS_BLOCKED = lit ''BLOCKED''"
| "readiness_value READY_WITH_WARNINGS = lit ''READY_WITH_WARNINGS''"
| "readiness_value READY_FOR_HUMAN_REVIEW = lit ''READY_FOR_HUMAN_REVIEW''"
| "readiness_value READINESS_STALE = lit ''STALE''"
| "readiness_value READINESS_FAILED = lit ''FAILED''"

section \<open>What is read\<close>

record readiness_control =
  rc_code :: pystr
  rc_enforcement :: pystr
  rc_check_type :: pystr

record readiness_input =
  ri_limitations :: "pystr list"
  ri_work_revision :: "uuid option"
  ri_checks :: "assurance_check list"
  ri_codes :: "(pystr \<times> pystr) list"
  ri_controls :: "readiness_control list"
  ri_findings :: "finding list"
  ri_completion :: pystr
  ri_result_limitations :: "pystr list"

text \<open>The codes of the checks of a run are unique (\<^verbatim>\<open>core_assurance_check_code_unique\<close>).\<close>

definition checks_of_run :: "assurance_run \<Rightarrow> review \<Rightarrow> assurance_check list" where
  "checks_of_run run r = sort_key ck_code (filter (\<lambda>c. ck_run c = run_id run) (assurance_checks r))"

definition mapped_code :: "governance \<Rightarrow> criterion_evidence \<Rightarrow> (pystr \<times> pystr) result" where
  "mapped_code g m =
     (case find_by (\<lambda>c. cr_id c = ce_criterion m) (acceptance_criteria g) of
        None \<Rightarrow> Inl DoesNotExist
      | Some c \<Rightarrow> Inr (ce_assessment m, cr_code c))"

definition read_control :: "(pystr \<times> json) list \<Rightarrow> readiness_control result" where
  "read_control c =
     bind_res (text_at c (lit ''code'')) (\<lambda>code.
     bind_res (text_at c (lit ''enforcement'')) (\<lambda>enforced.
     bind_res (text_at c (lit ''check_type'')) (\<lambda>check_type.
       Inr \<lparr>rc_code = code, rc_enforcement = enforced, rc_check_type = check_type\<rparr>)))"

definition controls_of_run :: "assurance_run \<Rightarrow> governance \<Rightarrow> readiness_control list result" where
  "controls_of_run run g =
     (case run_policy_evaluation run of
        None \<Rightarrow> Inr []
      | Some i \<Rightarrow>
          (case find_by (\<lambda>e. ev_id e = i) (policy_evaluations g) of
             None \<Rightarrow> Inl DoesNotExist
           | Some e \<Rightarrow>
               bind_res (as_dict (ev_output e)) (\<lambda>output.
               case json_get output (lit ''controls'') of
                 None \<Rightarrow> Inr []
               | Some cs \<Rightarrow> bind_res (bind_res (as_list cs) (map_res as_dict)) (map_res read_control))))"

definition read_readiness ::
  "assurance_run \<Rightarrow> (pystr \<times> json) list \<Rightarrow> finding list \<Rightarrow> criterion_evidence list \<Rightarrow> db \<Rightarrow> readiness_input result"
where
  "read_readiness run result found mappings d =
     bind_res (map_res (mapped_code (governance d)) mappings) (\<lambda>codes.
     bind_res (controls_of_run run (governance d)) (\<lambda>controls.
     bind_res (text_at result (lit ''completion'')) (\<lambda>completion.
     bind_res (texts_at result (lit ''limitations'')) (\<lambda>limits.
       Inr \<lparr>ri_limitations = run_limitations run, ri_work_revision = run_work_revision run,
            ri_checks = checks_of_run run (review d), ri_codes = codes, ri_controls = controls,
            ri_findings = found, ri_completion = completion, ri_result_limitations = limits\<rparr>))))"

section \<open>Reasons\<close>

definition CONTEXT_PREFIX :: pystr where
  "CONTEXT_PREFIX = lit ''Required assurance context was discovered but could not fit the authorized bounded packet:''"

definition GAP :: pystr where
  "GAP = lit ''GAP''"

definition SATISFIED :: pystr where
  "SATISFIED = lit ''SATISFIED''"

definition check_reasons :: "bool \<Rightarrow> readiness_input \<Rightarrow> pystr list" where
  "check_reasons blocking i =
     map (\<lambda>c. lit ''CHECK_'' @ ck_code c)
       (filter (\<lambda>c. ck_status c \<noteq> PASSED \<and> ck_blocking c = blocking) (ri_checks i))"

definition gap_reasons :: "readiness_input \<Rightarrow> pystr list" where
  "gap_reasons i = map (\<lambda>(a, code). lit ''EVIDENCE_GAP_'' @ code) (filter (\<lambda>(a, code). a = GAP) (ri_codes i))"

definition check_passed :: "readiness_input \<Rightarrow> pystr \<Rightarrow> bool" where
  "check_passed i code \<longleftrightarrow>
     (case find_by (\<lambda>c. ck_code c = code) (ri_checks i) of None \<Rightarrow> False | Some c \<Rightarrow> ck_status c = PASSED)"

definition control_satisfied :: "readiness_input \<Rightarrow> readiness_control \<Rightarrow> bool" where
  "control_satisfied i c \<longleftrightarrow>
     (if rc_check_type c = lit ''MODEL_REVIEW'' then ri_completion i = lit ''COMPLETE''
      else if rc_check_type c = lit ''EVIDENCE'' \<or> rc_check_type c = MANUAL_APPROVAL
      then (SATISFIED, rc_code c) \<in> set (ri_codes i) \<or> check_passed i (rc_code c)
      else check_passed i (rc_code c))"

definition control_reasons :: "bool \<Rightarrow> readiness_input \<Rightarrow> pystr list" where
  "control_reasons blocking i =
     map (\<lambda>c. lit ''POLICY_GAP_'' @ rc_code c)
       (filter (\<lambda>c. \<not> control_satisfied i c \<and> (rc_enforcement c = lit ''BLOCKING'') = blocking) (ri_controls i))"

definition open_severities :: "readiness_input \<Rightarrow> pystr list" where
  "open_severities i = map fi_severity (filter (\<lambda>f. fi_state f = FINDING_OPEN) (ri_findings i))"

definition CONCERNS :: "pystr list" where
  "CONCERNS = map lit [''HIGH'', ''MEDIUM'', ''LOW'', ''ADVISORY'']"

definition reason_if :: "bool \<Rightarrow> string \<Rightarrow> pystr list" where
  "reason_if b code = (if b then [lit code] else [])"

definition blockers :: "readiness_input \<Rightarrow> pystr list" where
  "blockers i =
     reason_if (list_ex (\<lambda>s. startswith s CONTEXT_PREFIX) (ri_limitations i)) ''ASSURANCE_CONTEXT_INCOMPLETE''
     @ check_reasons True i @ gap_reasons i @ control_reasons True i
     @ reason_if (lit ''BLOCKING'' \<in> set (open_severities i)) ''SUPPORTED_MODEL_BLOCKER''"

definition warnings :: "readiness_input \<Rightarrow> pystr list" where
  "warnings i =
     reason_if (ri_work_revision i = None) ''REQUIREMENT_TRACEABILITY_NOT_ESTABLISHED''
     @ check_reasons False i @ control_reasons False i
     @ reason_if (list_ex (\<lambda>s. s \<in> set CONCERNS) (open_severities i)) ''MODEL_CONCERNS''
     @ reason_if (ri_completion i = lit ''PARTIAL'') ''PARTIAL_MODEL_COVERAGE''
     @ reason_if (ri_result_limitations i \<noteq> []) ''LIMITATIONS_PRESENT''"

definition assess :: "readiness_input \<Rightarrow> readiness \<times> pystr list" where
  "assess i =
     (if blockers i \<noteq> [] then (READINESS_BLOCKED, sorted_set (blockers i @ warnings i))
      else if warnings i \<noteq> [] then (READY_WITH_WARNINGS, sorted_set (warnings i))
      else (READY_FOR_HUMAN_REVIEW, []))"

definition readiness_of ::
  "assurance_run \<Rightarrow> (pystr \<times> json) list \<Rightarrow> finding list \<Rightarrow> criterion_evidence list \<Rightarrow> db
     \<Rightarrow> (readiness \<times> pystr list) result"
where
  "readiness_of run result found mappings d =
     (case run_pull_request_revision run of
        None \<Rightarrow> Inr (READINESS_FAILED, [lit ''MISSING_PULL_REQUEST_REVISION''])
      | Some i \<Rightarrow>
          bind_res (pull_request_of_revision i d) (\<lambda>p.
            if run_state run = RUN_STALE \<or> pq_current_head p \<noteq> run_head_commit run
            then Inr (READINESS_STALE, [lit ''SUPERSEDED_HEAD''])
            else if run_failure_code run \<noteq> [] then Inr (READINESS_FAILED, [run_failure_code run])
            else bind_res (read_readiness run result found mappings d) (\<lambda>i. Inr (assess i))))"

section \<open>The precedence\<close>

text \<open>What stands in the way of a run, and what a reviewer should look at, one rule per reason.\<close>

inductive blocked_for :: "readiness_input \<Rightarrow> pystr \<Rightarrow> bool" for i where
  missing_context: "s \<in> set (ri_limitations i) \<Longrightarrow> startswith s CONTEXT_PREFIX
     \<Longrightarrow> blocked_for i (lit ''ASSURANCE_CONTEXT_INCOMPLETE'')"
| failed_check: "c \<in> set (ri_checks i) \<Longrightarrow> ck_blocking c \<Longrightarrow> ck_status c \<noteq> PASSED
     \<Longrightarrow> blocked_for i (lit ''CHECK_'' @ ck_code c)"
| evidence_gap: "(GAP, code) \<in> set (ri_codes i) \<Longrightarrow> blocked_for i (lit ''EVIDENCE_GAP_'' @ code)"
| policy_gap: "c \<in> set (ri_controls i) \<Longrightarrow> rc_enforcement c = lit ''BLOCKING'' \<Longrightarrow> \<not> control_satisfied i c
     \<Longrightarrow> blocked_for i (lit ''POLICY_GAP_'' @ rc_code c)"
| open_blocker: "f \<in> set (ri_findings i) \<Longrightarrow> fi_state f = FINDING_OPEN \<Longrightarrow> fi_severity f = lit ''BLOCKING''
     \<Longrightarrow> blocked_for i (lit ''SUPPORTED_MODEL_BLOCKER'')"

inductive warned_of :: "readiness_input \<Rightarrow> pystr \<Rightarrow> bool" for i where
  untraceable: "ri_work_revision i = None \<Longrightarrow> warned_of i (lit ''REQUIREMENT_TRACEABILITY_NOT_ESTABLISHED'')"
| advisory_check: "c \<in> set (ri_checks i) \<Longrightarrow> \<not> ck_blocking c \<Longrightarrow> ck_status c \<noteq> PASSED
     \<Longrightarrow> warned_of i (lit ''CHECK_'' @ ck_code c)"
| advisory_gap: "c \<in> set (ri_controls i) \<Longrightarrow> rc_enforcement c \<noteq> lit ''BLOCKING'' \<Longrightarrow> \<not> control_satisfied i c
     \<Longrightarrow> warned_of i (lit ''POLICY_GAP_'' @ rc_code c)"
| concern: "f \<in> set (ri_findings i) \<Longrightarrow> fi_state f = FINDING_OPEN \<Longrightarrow> fi_severity f \<in> set CONCERNS
     \<Longrightarrow> warned_of i (lit ''MODEL_CONCERNS'')"
| partial_review: "ri_completion i = lit ''PARTIAL'' \<Longrightarrow> warned_of i (lit ''PARTIAL_MODEL_COVERAGE'')"
| limited: "s \<in> set (ri_result_limitations i) \<Longrightarrow> warned_of i (lit ''LIMITATIONS_PRESENT'')"

lemma reason_if_in [simp]: "x \<in> set (reason_if b code) \<longleftrightarrow> b \<and> x = lit code"
  by (auto simp: reason_if_def)

lemma reasons_in:
  "x \<in> set (check_reasons b i) \<longleftrightarrow>
     (\<exists>c\<in>set (ri_checks i). ck_status c \<noteq> PASSED \<and> ck_blocking c = b \<and> x = lit ''CHECK_'' @ ck_code c)"
  "x \<in> set (gap_reasons i) \<longleftrightarrow> (\<exists>code. (GAP, code) \<in> set (ri_codes i) \<and> x = lit ''EVIDENCE_GAP_'' @ code)"
  "x \<in> set (control_reasons b i) \<longleftrightarrow>
     (\<exists>c\<in>set (ri_controls i). \<not> control_satisfied i c \<and> (rc_enforcement c = lit ''BLOCKING'') = b
        \<and> x = lit ''POLICY_GAP_'' @ rc_code c)"
  "x \<in> set (open_severities i) \<longleftrightarrow>
     (\<exists>f\<in>set (ri_findings i). fi_state f = FINDING_OPEN \<and> fi_severity f = x)"
  by (force simp: check_reasons_def gap_reasons_def control_reasons_def open_severities_def simp del: lit_simps)+

lemma blockers_iff: "x \<in> set (blockers i) \<longleftrightarrow> blocked_for i x"
  by (auto simp: blockers_def reasons_in list_ex_iff blocked_for.simps simp del: lit_simps)

lemma nonempty_iff: "xs \<noteq> [] \<longleftrightarrow> (\<exists>x. x \<in> set xs)"
  by (cases xs) auto

lemma concerned_iff:
  "list_ex P (open_severities i) \<longleftrightarrow> (\<exists>f\<in>set (ri_findings i). fi_state f = FINDING_OPEN \<and> P (fi_severity f))"
  by (force simp: list_ex_iff reasons_in(4))

lemma warnings_iff: "x \<in> set (warnings i) \<longleftrightarrow> warned_of i x"
  unfolding warnings_def set_append Un_iff reasons_in reason_if_in nonempty_iff concerned_iff warned_of.simps
  by blast

lemma assess_exact:
  "assess i =
     (if \<exists>x. blocked_for i x then (READINESS_BLOCKED, snd (assess i))
      else if \<exists>x. warned_of i x then (READY_WITH_WARNINGS, snd (assess i))
      else (READY_FOR_HUMAN_REVIEW, []))"
  "x \<in> set (snd (assess i)) \<longleftrightarrow> blocked_for i x \<or> warned_of i x"
  "sorted (snd (assess i)) \<and> distinct (snd (assess i))"
proof -
  have b: "blockers i = [] \<longleftrightarrow> \<not> (\<exists>x. blocked_for i x)" unfolding blockers_iff [symmetric] by (cases "blockers i") auto
  have w: "warnings i = [] \<longleftrightarrow> \<not> (\<exists>x. warned_of i x)" unfolding warnings_iff [symmetric] by (cases "warnings i") auto
  show "assess i =
     (if \<exists>x. blocked_for i x then (READINESS_BLOCKED, snd (assess i))
      else if \<exists>x. warned_of i x then (READY_WITH_WARNINGS, snd (assess i))
      else (READY_FOR_HUMAN_REVIEW, []))"
    using b w by (auto simp: assess_def)
  show "x \<in> set (snd (assess i)) \<longleftrightarrow> blocked_for i x \<or> warned_of i x"
    unfolding blockers_iff [symmetric] warnings_iff [symmetric] by (simp add: assess_def)
  show "sorted (snd (assess i)) \<and> distinct (snd (assess i))" by (simp add: assess_def)
qed

lemma readiness_of_Inr:
  assumes "readiness_of run result found mappings d = Inr (s, reasons)" "s \<noteq> READINESS_FAILED" "s \<noteq> READINESS_STALE"
  obtains j p i where "run_pull_request_revision run = Some j" "pull_request_of_revision j d = Inr p"
    "run_state run \<noteq> RUN_STALE" "pq_current_head p = run_head_commit run" "run_failure_code run = []"
    "read_readiness run result found mappings d = Inr i" "assess i = (s, reasons)"
  using assms by (auto simp: readiness_of_def bind_res_Inr split: option.splits if_splits)

end
