(* ===== verification/ReviewClaims.thy ===== *)
theory ReviewClaims
  imports MergeSafety Readiness GovernanceSamples
begin

text \<open>
  The properties of findings and readiness (\<^verbatim>\<open>src/anva/core/services/assurance.py\<close>), each with its witness on
  the review of the first section or on that review with a resolved finding.
\<close>

section \<open>Sample review\<close>

text \<open>
  The review the witnesses of the finding and readiness properties run on: pull request 7 with an open and
  a dismissed finding of an earlier run, and a run that observes one blocking finding of its own.
\<close>

definition sample_review_run :: assurance_run where
  "sample_review_run = \<lparr>run_id = 31, run_org = 1, run_created_at = 0,
     run_repository_external_id = lit ''r'', run_repository = Some 50, run_context_packet = None,
     run_readiness = [], run_head_commit = lit ''abc1234'', run_evaluated_commit = [],
     run_report_commit = [], run_context_artifact = None, run_state = RUN_MODEL_REVIEW,
     run_completed_at = None, run_revision = 7, run_initiated_by_type = [], run_initiated_by_id = [], run_initiated_by_credential = None, run_policy_version = 1,
     run_pull_request_number = 7, run_pull_request_revision = Some 33, run_work_revision = None,
     run_diff_artifact = None, run_policy_evaluation = None, run_input_hash = [], run_requirements_hash = [],
     run_policy_bundle_hash = [], run_evidence_bundle_hash = [], run_evaluator_version = [],
     run_prompt_version = [], run_limitations = [], run_failure_code = []\<rparr>"

definition sample_pull_request :: pull_request where
  "sample_pull_request = \<lparr>pq_id = 32, pq_org = 1, pq_repository = 50, pq_number = 7, pq_state = [],
     pq_current_head = lit ''abc1234'', pq_current_revision = 1, pq_revision = 1\<rparr>"

definition sample_pull_revision :: pull_request_revision where
  "sample_pull_revision = \<lparr>px_id = 33, px_org = 1, px_pull_request = 32, px_revision = 1, px_base_commit = [],
     px_head_commit = lit ''abc1234'', px_title = [], px_description = [], px_target_branch = [],
     px_is_draft = False, px_state = [], px_diff_artifact = 34, px_diff_hash = [], px_input_hash = [],
     px_changed_paths = [], px_classifications = [], px_limitations = [], px_ingested_by_type = [],
     px_ingested_by_id = []\<rparr>"

definition sample_finding :: "uuid \<Rightarrow> pystr \<Rightarrow> finding_state \<Rightarrow> finding" where
  "sample_finding i fingerprint state = \<lparr>fi_id = i, fi_org = 1, fi_pull_request = 32, fi_first_run = 30,
     fi_latest_run = 30, fi_fingerprint = fingerprint, fi_code = [], fi_kind = [], fi_severity = lit ''HIGH'',
     fi_confidence = [], fi_title = [], fi_explanation = [], fi_path = [], fi_line = None, fi_citations = JNull,
     fi_evidence_ids = [], fi_criterion_codes = [], fi_uncertainty = [], fi_suggested_resolution = [],
     fi_state = state, fi_revision = 1\<rparr>"

definition sample_dismissal :: finding_decision where
  "sample_dismissal = \<lparr>fd_id = 42, fd_org = 1, fd_finding = 41, fd_from_state = FINDING_OPEN,
     fd_to_state = FINDING_DISMISSED, fd_actor_type = [], fd_actor_id = [], fd_authority_path = [], fd_reason = []\<rparr>"

definition sample_review :: review where
  "sample_review = empty_review\<lparr>pull_requests := [sample_pull_request],
     pull_request_revisions := [sample_pull_revision],
     findings := [sample_finding 40 [] FINDING_OPEN, sample_finding 41 [9] FINDING_DISMISSED],
     finding_decisions := [sample_dismissal]\<rparr>"

definition reviewed :: "review \<Rightarrow> db" where
  "reviewed r = (logged empty_governance [] [])\<lparr>review := r\<rparr>"

definition sample_observation_items :: "(pystr \<times> json) list" where
  "sample_observation_items =
     [(lit ''code'', JStr (lit ''unchecked'')), (lit ''category'', JStr (lit ''CORRECTNESS'')),
      (lit ''severity'', JStr (lit ''BLOCKING'')), (lit ''confidence'', JStr (lit ''HIGH'')),
      (lit ''title'', JStr []), (lit ''explanation'', JStr []),
      (lit ''citations'', JList [JDict [(lit ''type'', JStr DIFF), (lit ''path'', JStr (lit ''a'')),
                                        (lit ''side'', JStr (lit ''NEW'')), (lit ''line'', JInt 1)]]),
      (lit ''evidence_ids'', JList []), (lit ''criterion_codes'', JList []),
      (lit ''uncertainty'', JStr []), (lit ''suggested_resolution'', JStr [])]"

definition sample_observed_document :: finding_document where
  "sample_observed_document = \<lparr>fn_code = lit ''unchecked'', fn_category = lit ''CORRECTNESS'', fn_severity = lit ''BLOCKING'',
     fn_confidence = lit ''HIGH'', fn_title = [], fn_explanation = [],
     fn_citations = [DiffCitation (lit ''a'') (lit ''NEW'') 1],
     fn_citation_items = JList [JDict [(lit ''type'', JStr DIFF), (lit ''path'', JStr (lit ''a'')),
                                        (lit ''side'', JStr (lit ''NEW'')), (lit ''line'', JInt 1)]],
     fn_evidence_ids = [], fn_criterion_codes = [], fn_uncertainty = [], fn_suggested_resolution = []\<rparr>"

definition sample_observation :: "pystr \<Rightarrow> observation_of_finding" where
  "sample_observation fp = \<lparr>of_fingerprint = fp, of_items = sample_observation_items, of_document = sample_observed_document\<rparr>"

definition sample_finding_ids :: finding_ids where
  "sample_finding_ids = \<lparr>nf_finding = (\<lambda>_. 43), nf_reopened = (\<lambda>_. 44), nf_occurrence = (\<lambda>_. 45), nf_obsolete = (\<lambda>_. 46)\<rparr>"

lemma reviewed_simps [simp]:
  "review (reviewed r) = r" "(reviewed r)\<lparr>review := r'\<rparr> = reviewed r'" "governance (reviewed r) = empty_governance"
  by (simp_all add: reviewed_def)

lemma sample_review_coherent: "findings_coherent sample_review"
  by (simp add: findings_coherent_def sample_review_def empty_review_def sample_finding_def sample_dismissal_def
      finding_key_def finding_log_def lifecycle_edge_def)

lemma sample_document: "read_finding sample_observation_items = Inr sample_observed_document"
  by (simp add: read_finding_def sample_observation_items_def sample_observed_document_def text_at_def item_of_def
      json_get_def as_text_def dicts_at_def as_list_def as_dict_def read_citation_def int_at_def as_int_def
      texts_at_def as_texts_def DIFF_def)

lemma sample_hash:
  assumes "utf8_json v"
  shows "\<exists>t. content_hash sample_env v = Inr (2 # t) \<and> \<not> list_ex is_surrogate t"
proof -
  obtain k where k: "content_hash sample_env v = Inr k" using content_hash_utf8 [OF assms] by blast
  have "\<not> list_ex is_surrogate (json_text fr (sorted_keys v))" for fr
    using utf8_sorted [OF assms] utf8_json_text by blast
  then show ?thesis
    using k by (auto simp: content_hash_def bind_res_Inr sample_env_def canonical_text_def Let_def split: if_splits option.splits)
qed

lemma sample_fingerprint: 
  "\<exists>t. fingerprinted_payloads sample_env [sample_observation_items] = Inr [sample_observation (2 # t)]
     \<and> \<not> list_ex is_surrogate t"
proof -
  let ?c = "citation_identity sample_env (DiffCitation (lit ''a'') (lit ''NEW'') 1)"
  have fold: "env_casefold sample_env s = concat (map lower_char s)" for s by (simp add: sample_env_def)
  obtain a where a: "content_hash sample_env ?c = Inr (2 # a)"
    using sample_hash [of ?c] by (auto simp: fold DIFF_def lower_char_def plain_char list_ex_iff is_surrogate_def)
  let ?i = "finding_identity sample_env sample_observed_document [?c]"
  obtain b where b: "content_hash sample_env ?i = Inr (2 # b)" "\<not> list_ex is_surrogate b"
    using sample_hash [of ?i]
    by (auto simp: fold DIFF_def lower_char_def plain_char list_ex_iff is_surrogate_def finding_identity_def sample_observed_document_def)
  have "fn_citations sample_observed_document = [DiffCitation (lit ''a'') (lit ''NEW'') 1]"
    by (simp add: sample_observed_document_def)
  then have "finding_fingerprint sample_env sample_observed_document = Inr (2 # b)"
    using a b(1) by (simp add: finding_fingerprint_def sorted_by_hash_def del: citation_identity.simps lit_simps)
  then show ?thesis
    using b(2) by (simp add: fingerprinted_payloads_def fingerprinted_def sample_document sample_observation_def Let_def)
qed

lemma sample_fresh: "fresh_for_merge sample_env sample_finding_ids [sample_observation_items] (reviewed sample_review)"
  using sample_fingerprint
  by (auto simp: fresh_for_merge_def fresh_findings_def sample_finding_ids_def sample_review_def empty_review_def
      sample_finding_def)

lemma sample_request_of: "pull_request_of_revision 33 (reviewed sample_review) = Inr sample_pull_request"
  by (simp add: pull_request_of_revision_def pull_request_at_def sample_review_def empty_review_def
      sample_pull_revision_def sample_pull_request_def)

lemma sample_occurrence:
  assumes "\<not> list_ex is_surrogate t"
  shows "\<exists>k. content_hash sample_env (occurrence_payload sample_review_run (sample_observation (2 # t))) = Inr k"
proof -
  have "utf8_json (JDict (dict_merge sample_observation_items
      [(lit ''fingerprint'', JStr (2 # t)), (lit ''head_commit'', JStr (lit ''abc1234''))]))"
    using assms by (simp add: dict_merge_def sample_observation_items_def DIFF_def is_surrogate_def)
  then show ?thesis
    using content_hash_utf8
    by (simp add: occurrence_payload_def sample_observation_def sample_review_run_def del: lit_simps)
qed

lemma sample_merge_of:
  assumes "pull_requests r = [sample_pull_request]" "pull_request_revisions r = [sample_pull_revision]"
  shows "\<exists>current d'. merge_findings sample_env sample_user sample_review_run [sample_observation_items] sample_finding_ids
     (reviewed r) = Inr (current, d')"
proof -
  have request: "pull_request_of_revision 33 (reviewed r) = Inr sample_pull_request"
    using assms by (simp add: pull_request_of_revision_def pull_request_at_def sample_pull_request_def sample_pull_revision_def)
  obtain t where t: "fingerprinted_payloads sample_env [sample_observation_items] = Inr [sample_observation (2 # t)]"
    "\<not> list_ex is_surrogate t" using sample_fingerprint by blast
  obtain k where k: "content_hash sample_env (occurrence_payload sample_review_run (sample_observation (2 # t))) = Inr k"
    using sample_occurrence [OF t(2)] by blast
  have i: "run_pull_request_revision sample_review_run = Some 33" by (simp add: sample_review_run_def)
  obtain s where "merge_one sample_env sample_user sample_review_run (pq_id sample_pull_request) sample_finding_ids
      (sample_observation (2 # t)) ([], review (reviewed r)) = Inr s"
    using k
    by (cases "observe_finding sample_user sample_review_run (pq_id sample_pull_request) sample_finding_ids
          (sample_observation (2 # t)) r") (simp add: merge_one_def Let_def)
  then show ?thesis
    using t(1) i request by (cases s) (simp add: merge_findings_def)
qed

lemma sample_merge:
  "\<exists>current d'. merge_findings sample_env sample_user sample_review_run [sample_observation_items] sample_finding_ids
     (reviewed sample_review) = Inr (current, d')"
  by (rule sample_merge_of) (simp_all add: sample_review_def empty_review_def)

section \<open>Readiness\<close>

text \<open>C14: 
  Readiness is exact.  For a run at the current head of its pull request that neither is stale nor failed,
  the status is \<open>BLOCKED\<close> exactly when something stands in the way (\<open>blocked_for\<close>: missing required
  context, a blocking check that did not pass, an evidence gap, an unsatisfied blocking control, an open
  blocking finding), \<open>READY_FOR_HUMAN_REVIEW\<close> exactly when nothing stands in the way and nothing is to be
  warned of (\<open>warned_of\<close>), \<open>READY_WITH_WARNINGS\<close> otherwise; the reasons are exactly those, in order and
  without repetition.
\<close>

theorem readiness_is_exact:
  assumes "readiness_of run result found mappings d = Inr (s, reasons)"
    and "run_pull_request_revision run = Some j" "pull_request_of_revision j d = Inr p"
    and "run_state run \<noteq> RUN_STALE" "pq_current_head p = run_head_commit run" "run_failure_code run = []"
    and "read_readiness run result found mappings d = Inr i"
  shows "(s = READINESS_BLOCKED \<longleftrightarrow> (\<exists>x. blocked_for i x))
    \<and> (s = READY_FOR_HUMAN_REVIEW \<longleftrightarrow> \<not> (\<exists>x. blocked_for i x \<or> warned_of i x))
    \<and> s \<in> {READINESS_BLOCKED, READY_WITH_WARNINGS, READY_FOR_HUMAN_REVIEW}
    \<and> set reasons = {x. blocked_for i x \<or> warned_of i x} \<and> sorted reasons \<and> distinct reasons"
proof -
  have a: "assess i = (s, reasons)" using assms by (simp add: readiness_of_def)
  have "set reasons = {x. blocked_for i x \<or> warned_of i x}" using assess_exact(2) [of _ i] a by auto
  moreover have "sorted reasons \<and> distinct reasons" using assess_exact(3) [of i] a by simp
  moreover have "s = (if \<exists>x. blocked_for i x then READINESS_BLOCKED
      else if \<exists>x. warned_of i x then READY_WITH_WARNINGS else READY_FOR_HUMAN_REVIEW)"
    using arg_cong [OF assess_exact(1) [of i], of fst] a by (auto split: if_splits)
  ultimately show ?thesis by (auto split: if_splits)
qed

definition sample_review_result :: "(pystr \<times> json) list" where
  "sample_review_result = [(lit ''completion'', JStr (lit ''COMPLETE'')), (lit ''limitations'', JList [])]"

definition sample_input :: "finding list \<Rightarrow> readiness_input" where
  "sample_input found = \<lparr>ri_limitations = [], ri_work_revision = None, ri_checks = [], ri_codes = [], ri_controls = [],
     ri_findings = found, ri_completion = lit ''COMPLETE'', ri_result_limitations = []\<rparr>"

lemma sample_read_input:
  assumes "assurance_checks r = []"
  shows "read_readiness sample_review_run sample_review_result found [] (reviewed r) = Inr (sample_input found)"
  using assms
  by (simp add: read_readiness_def controls_of_run_def sample_review_run_def sample_review_result_def sample_input_def
      text_at_def texts_at_def as_texts_def as_list_def item_of_def json_get_def as_text_def checks_of_run_def)

lemma sample_readiness:
  assumes "assurance_checks r = []" "pull_requests r = [sample_pull_request]" "pull_request_revisions r = [sample_pull_revision]"
  shows "pull_request_of_revision 33 (reviewed r) = Inr sample_pull_request"
    and "readiness_of sample_review_run sample_review_result found [] (reviewed r) = Inr (assess (sample_input found))"
proof -
  show p: "pull_request_of_revision 33 (reviewed r) = Inr sample_pull_request"
    using assms by (simp add: pull_request_of_revision_def pull_request_at_def sample_pull_request_def sample_pull_revision_def)
  show "readiness_of sample_review_run sample_review_result found [] (reviewed r) = Inr (assess (sample_input found))"
    using p sample_read_input [OF assms(1)]
    by (simp add: readiness_of_def) (simp add: sample_review_run_def sample_pull_request_def)
qed

lemma sample_run_current:
  "run_pull_request_revision sample_review_run = Some 33" "run_state sample_review_run \<noteq> RUN_STALE"
  "pq_current_head sample_pull_request = run_head_commit sample_review_run" "run_failure_code sample_review_run = []"
  by (simp_all add: sample_review_run_def sample_pull_request_def)

theorem readiness_is_exact_witness:
  "\<exists>reasons. readiness_of sample_review_run sample_review_result [] [] (reviewed sample_review)
     = Inr (READY_WITH_WARNINGS, reasons) \<and> lit ''REQUIREMENT_TRACEABILITY_NOT_ESTABLISHED'' \<in> set reasons"
proof -
  have r: "assurance_checks sample_review = []" "pull_requests sample_review = [sample_pull_request]"
    "pull_request_revisions sample_review = [sample_pull_revision]"
    by (simp_all add: sample_review_def empty_review_def)
  let ?i = "sample_input []"
  obtain s reasons where s: "readiness_of sample_review_run sample_review_result [] [] (reviewed sample_review) = Inr (s, reasons)"
    using sample_readiness(2) [OF r, of "[]"] by (cases "assess ?i") auto
  note e = readiness_is_exact [OF s sample_run_current(1) sample_readiness(1) [OF r] sample_run_current(2-4)
    sample_read_input [OF r(1)]]
  have "warned_of ?i (lit ''REQUIREMENT_TRACEABILITY_NOT_ESTABLISHED'')"
    by (rule untraceable) (simp add: sample_input_def)
  moreover have "\<not> blocked_for ?i x" for x by (simp add: blocked_for.simps sample_input_def)
  ultimately have "s = READY_WITH_WARNINGS" "lit ''REQUIREMENT_TRACEABILITY_NOT_ESTABLISHED'' \<in> set reasons"
    using e by auto
  then show ?thesis using s by blast
qed

section \<open>The merge\<close>

text \<open>What a merge does to a finding.  It says nothing of the state of a resolved finding that is observed again.\<close>

definition merged_with :: "assurance_run \<Rightarrow> uuid \<Rightarrow> pystr set \<Rightarrow> finding \<Rightarrow> finding \<Rightarrow> bool" where
  "merged_with run pr fps f f' \<longleftrightarrow>
     same_identity f f'
     \<and> (if \<not> of_pull_request run pr f then f' = f
        else if fi_fingerprint f \<notin> fps
             then fi_state f' = (if fi_state f = FINDING_OPEN then FINDING_OBSOLETE else fi_state f)
        else fi_latest_run f' = run_id run
          \<and> (fi_state f \<in> {FINDING_OPEN, FINDING_OBSOLETE} \<longrightarrow> fi_state f' = FINDING_OPEN)
          \<and> (fi_state f \<in> {FINDING_DISMISSED, FINDING_RISK_ACCEPTED} \<longrightarrow> fi_state f' = fi_state f))"

lemma merged_with_row: "merged_with run pr (of_fingerprint ` set obs) f (merged_row run pr obs f)"
proof (cases "of_pull_request run pr f")
  case True
  show ?thesis
  proof (cases "fi_fingerprint f \<in> of_fingerprint ` set obs")
    case seen: True
    then have "find_by (\<lambda>ob. of_fingerprint ob = fi_fingerprint f) obs \<noteq> None" by auto
    then obtain ob where ob: "find_by (\<lambda>ob. of_fingerprint ob = fi_fingerprint f) obs = Some ob" by blast
    then have "merged_row run pr obs f = seen_again run (of_document ob) f"
      using True seen by (simp add: merged_row_def unobserved_def seen_row_def)
    then show ?thesis using True seen by (cases "fi_state f") (simp_all add: merged_with_def row_simps)
  next
    case unseen: False
    then have "seen_row run pr obs f = f" by (intro seen_row_none) auto
    then show ?thesis
      using True unseen
      by (cases "fi_state f")
        (simp_all add: merged_with_def merged_row_def unobserved_def of_pull_request_def row_simps same_identity_def)
  qed
next
  case False
  then have "merged_row run pr obs f = f"
    by (auto simp: merged_row_def unobserved_def of_pull_request_def seen_row_def)
  then show ?thesis using False by (simp add: merged_with_def same_identity_def)
qed

text \<open>C16: 
  A merge is row by row.  Of the findings of other pull requests nothing changes; of the pull request's own,
  an open finding stays open exactly when it was observed again and is obsolete otherwise, an obsolete one is
  open again exactly when it was observed, a finding that a person dismissed or whose risk a person accepted
  stays so, and one that was resolved stays so while it is not observed; the rows added are open, one per
  observation whose fingerprint was not known; and every observation ends as one returned finding with an
  occurrence of this run.
\<close>

theorem merge_is_row_by_row:
  assumes "merge_findings env actor run payloads ids d = Inr (current, d')" "findings_coherent (review d)"
    and "fresh_for_merge env ids payloads d"
  shows "\<exists>i p obs old new. run_pull_request_revision run = Some i \<and> pull_request_of_revision i d = Inr p
    \<and> fingerprinted_payloads env payloads = Inr obs \<and> findings (review d') = old @ new
    \<and> list_all2 (merged_with run (pq_id p) (of_fingerprint ` set obs)) (findings (review d)) old
    \<and> map finding_key new = filter (\<lambda>k. k \<notin> finding_key ` set (findings (review d)))
                               (map (\<lambda>ob. (run_org run, pq_id p, of_fingerprint ob)) obs)
    \<and> fi_state ` set new \<subseteq> {FINDING_OPEN} \<and> shows_all run (pq_id p) obs current (review d')"
proof -
  from merge_findings_Inr [OF assms] obtain i p obs where m: "run_pull_request_revision run = Some i"
    "pull_request_of_revision i d = Inr p" "fingerprinted_payloads env payloads = Inr obs"
    "findings (review d') = map (merged_row run (pq_id p) obs) (findings (review d))
       @ new_rows run (pq_id p) ids (findings (review d)) obs" "shows_all run (pq_id p) obs current (review d')"
    by metis
  let ?old = "map (merged_row run (pq_id p) obs) (findings (review d))"
  let ?new = "new_rows run (pq_id p) ids (findings (review d)) obs"
  have "list_all2 (merged_with run (pq_id p) (of_fingerprint ` set obs)) (findings (review d)) ?old"
    using merged_with_row by (simp add: list_all2_map2 list_all2_same)
  moreover have "map finding_key ?new = filter (\<lambda>k. k \<notin> finding_key ` set (findings (review d)))
      (map (\<lambda>ob. (run_org run, pq_id p, of_fingerprint ob)) obs)"
    by (simp add: new_rows_def filter_map comp_def unknown_def [abs_def] row_simps)
  moreover have "fi_state ` set ?new \<subseteq> {FINDING_OPEN}" by (auto simp: new_rows_def row_simps)
  ultimately show ?thesis using m by blast
qed

theorem merge_is_row_by_row_witness:
  "\<exists>current d' (new :: finding list). merge_findings sample_env sample_user sample_review_run [sample_observation_items] sample_finding_ids
       (reviewed sample_review) = Inr (current, d')
     \<and> map fi_state (findings (review d')) = [FINDING_OBSOLETE, FINDING_DISMISSED] @ map fi_state new
     \<and> fi_state ` set new = {FINDING_OPEN}"
proof -
  obtain current d' where m: "merge_findings sample_env sample_user sample_review_run [sample_observation_items]
      sample_finding_ids (reviewed sample_review) = Inr (current, d')" using sample_merge by blast
  have "findings_coherent (review (reviewed sample_review))" by (simp add: sample_review_coherent)
  from merge_is_row_by_row [OF m this sample_fresh] obtain p obs old new where r:
    "pull_request_of_revision 33 (reviewed sample_review) = Inr p"
    "fingerprinted_payloads sample_env [sample_observation_items] = Inr obs" "findings (review d') = old @ new"
    "list_all2 (merged_with sample_review_run (pq_id p) (of_fingerprint ` set obs)) (findings sample_review) old"
    "map finding_key new = filter (\<lambda>k. k \<notin> finding_key ` set (findings sample_review))
                               (map (\<lambda>ob. (run_org sample_review_run, pq_id p, of_fingerprint ob)) obs)"
    "fi_state ` set new \<subseteq> {FINDING_OPEN}" using sample_run_current(1) by auto
  obtain t where t: "obs = [sample_observation (2 # t)]" using r(2) sample_fingerprint by auto
  have "p = sample_pull_request" using r(1) sample_request_of by simp
  then have p: "pq_id p = 32" by (simp add: sample_pull_request_def)
  have fs: "findings sample_review = [sample_finding 40 [] FINDING_OPEN, sample_finding 41 [9] FINDING_DISMISSED]"
    by (simp add: sample_review_def empty_review_def)
  obtain a b where old: "old = [a, b]"
    "merged_with sample_review_run 32 {2 # t} (sample_finding 40 [] FINDING_OPEN) a"
    "merged_with sample_review_run 32 {2 # t} (sample_finding 41 [9] FINDING_DISMISSED) b"
    using r(4) unfolding fs p t by (auto simp: list_all2_Cons1 sample_observation_def)
  have ours: "of_pull_request sample_review_run 32 (sample_finding i fp st)" for i fp st
    by (simp add: of_pull_request_def sample_review_run_def sample_finding_def)
  have "fi_state a = FINDING_OBSOLETE" "fi_state b = FINDING_DISMISSED"
    using old(2,3) ours by (simp_all add: merged_with_def) (simp_all add: sample_finding_def)
  moreover have "new \<noteq> []"
    using r(5) unfolding fs p t by (auto simp: sample_finding_def finding_key_def sample_observation_def)
  then have "fi_state ` set new = {FINDING_OPEN}" using r(6) by (cases new) auto
  ultimately have "map fi_state (findings (review d')) = [FINDING_OBSOLETE, FINDING_DISMISSED] @ map fi_state new"
    using r(3) old(1) by simp
  with m show ?thesis using \<open>fi_state ` set new = {FINDING_OPEN}\<close>
    by blast
qed

section \<open>Histories\<close>

text \<open>C19: 
  The history of a finding is complete.  Through any sequence of merges and decisions, by anyone: findings
  have identifiers of their own and one identity per pull request, each finding was observed at most once by
  a run, every change of its state is one recorded decision along an edge of the life cycle, from \<open>OPEN\<close> to
  the state it is in, and no finding, decision or occurrence is ever lost.
\<close>

theorem finding_history_is_complete:
  assumes "(finding_step env)\<^sup>*\<^sup>* d d'" "findings_coherent (review d)"
  shows "findings_coherent (review d') \<and> findings_kept (review d) (review d')"
  using assms by (rule finding_steps_keep)

theorem finding_history_is_complete_witness:
  "\<exists>d'. finding_step sample_env (reviewed sample_review) d' \<and> findings_coherent (review d')
     \<and> sample_dismissal \<in> set (finding_decisions (review d'))"
proof -
  obtain current d' where m: "merge_findings sample_env sample_user sample_review_run [sample_observation_items]
      sample_finding_ids (reviewed sample_review) = Inr (current, d')" using sample_merge by blast
  have step: "finding_step sample_env (reviewed sample_review) d'" by (rule merged [OF m sample_fresh])
  have "findings_coherent (review (reviewed sample_review))" by (simp add: sample_review_coherent)
  moreover have "(finding_step sample_env)\<^sup>*\<^sup>* (reviewed sample_review) d'" using step by (rule r_into_rtranclp)
  ultimately have "findings_coherent (review d') \<and> findings_kept (review (reviewed sample_review)) (review d')"
    using finding_history_is_complete by blast
  then show ?thesis using step by (auto simp: findings_kept_def sample_review_def)
qed

section \<open>Blocking observations\<close>

text \<open>The row an observation ends as: the one it was merged into, or a new one.\<close>

lemma observed_finding_returned:
  assumes "merge_findings env actor run payloads ids d = Inr (current, d')" "findings_coherent (review d)"
    and "fresh_for_merge env ids payloads d" "fingerprinted_payloads env payloads = Inr obs" "ob \<in> set obs"
    and "run_pull_request_revision run = Some i" "pull_request_of_revision i d = Inr p"
  obtains f where "f \<in> set current" "f \<in> set (findings (review d'))"
    "(\<exists>g\<in>set (findings (review d)). finding_key g = (run_org run, pq_id p, of_fingerprint ob)
        \<and> f = seen_again run (of_document ob) g)
     \<or> unknown run (pq_id p) (findings (review d)) ob \<and> f = row_of_new run (pq_id p) ids ob"
proof -
  from merge_findings_Inr [OF assms(1-3)] obtain i' p' obs' where n: "run_pull_request_revision run = Some i'"
    "pull_request_of_revision i' d = Inr p'" "fingerprinted_payloads env payloads = Inr obs'"
    "findings (review d') = map (merged_row run (pq_id p') obs') (findings (review d))
       @ new_rows run (pq_id p') ids (findings (review d)) obs'" "shows_all run (pq_id p') obs' current (review d')"
    by metis
  have same: "p' = p" "obs' = obs" using n(1-3) assms(4,6,7) by simp_all
  note m = n(4,5) [unfolded same]
  from assms(5) obtain k where k: "k < length obs" "obs ! k = ob" by (meson in_set_conv_nth)
  let ?f = "current ! k"
  have "k < length current" using k(1) list_all2_lengthD [OF m(2) [unfolded shows_all_def]] by (simp only:)
  then have listed: "?f \<in> set current" by (rule nth_mem)
  note nth = list_all2_nthD [OF m(2) [unfolded shows_all_def] k(1), unfolded k(2)]
  note f = listed nth [THEN conjunct1] nth [THEN conjunct2, THEN conjunct1]
  have "distinct (map of_fingerprint obs)" using assms(4) by (rule fingerprinted_distinct)
  then have only: "ob' = ob" if "ob' \<in> set obs" "of_fingerprint ob' = of_fingerprint ob" for ob'
    using that assms(5) by (auto simp: distinct_map inj_on_def)
  show thesis
    using f(2) unfolding m(1) set_append Un_iff
  proof
    assume "?f \<in> set (map (merged_row run (pq_id p) obs) (findings (review d)))"
    then obtain g where g: "g \<in> set (findings (review d))" "?f = merged_row run (pq_id p) obs g" by auto
    have key: "finding_key g = (run_org run, pq_id p, of_fingerprint ob)"
      using f(3) merged_with_row [of run "pq_id p" obs g] g(2) by (simp add: merged_with_def same_identity_def)
    then have ours: "of_pull_request run (pq_id p) g" "fi_fingerprint g = of_fingerprint ob"
      by (simp_all add: finding_key_def of_pull_request_def)
    have "find_by (\<lambda>x. of_fingerprint x = fi_fingerprint g) obs = Some ob"
      by (rule find_by_unique [where key = of_fingerprint]) (use assms(5) only ours \<open>distinct (map of_fingerprint obs)\<close> in auto)
    then have "?f = seen_again run (of_document ob) g"
      using ours assms(5) g(2) by (auto simp: merged_row_def unobserved_def seen_row_def)
    then show thesis using that f(1,2) g(1) key by blast
  next
    assume "?f \<in> set (new_rows run (pq_id p) ids (findings (review d)) obs)"
    then obtain ob' where o': "ob' \<in> set obs" "unknown run (pq_id p) (findings (review d)) ob'"
      "?f = row_of_new run (pq_id p) ids ob'" by (auto simp: new_rows_def)
    then have "ob' = ob" using f(3) only by (simp add: row_simps)
    then show thesis using that f(1,2) o'(2,3) by blast
  qed
qed

text \<open>C15: 
  A blocking observation blocks.  When a result observes a finding of severity \<open>BLOCKING\<close> that nobody
  dismissed, resolved or accepted, then after the merge no readiness of the run over the findings it returned
  is ready, whatever else is in the result.
\<close>

theorem blocking_observation_blocks:
  assumes "merge_findings env actor run payloads ids d = Inr (current, d')" "findings_coherent (review d)"
    and "fresh_for_merge env ids payloads d" "fingerprinted_payloads env payloads = Inr obs" "ob \<in> set obs"
    and "fn_severity (of_document ob) = lit ''BLOCKING''"
    and "run_pull_request_revision run = Some i" "pull_request_of_revision i d = Inr p"
    and "\<forall>f\<in>set (findings (review d)). finding_key f = (run_org run, pq_id p, of_fingerprint ob)
           \<longrightarrow> fi_state f \<in> {FINDING_OPEN, FINDING_OBSOLETE}"
    and "readiness_of run result current mappings d2 = Inr (s, reasons)"
  shows "s \<noteq> READY_FOR_HUMAN_REVIEW \<and> s \<noteq> READY_WITH_WARNINGS"
proof -
  from assms(1-5,7,8) obtain f where f: "f \<in> set current"
    "(\<exists>g\<in>set (findings (review d)). finding_key g = (run_org run, pq_id p, of_fingerprint ob)
        \<and> f = seen_again run (of_document ob) g)
     \<or> unknown run (pq_id p) (findings (review d)) ob \<and> f = row_of_new run (pq_id p) ids ob"
    by (rule observed_finding_returned)
  then have "fi_state f = FINDING_OPEN \<and> fi_severity f = lit ''BLOCKING''"
    using assms(6,9) by (auto simp: row_simps)
  then have raised: "\<exists>f\<in>set current. fi_state f = FINDING_OPEN \<and> fi_severity f = lit ''BLOCKING''" using f(1) by blast
  show ?thesis
  proof (rule ccontr)
    assume ready: "\<not> (s \<noteq> READY_FOR_HUMAN_REVIEW \<and> s \<noteq> READY_WITH_WARNINGS)"
    then have "s \<noteq> READINESS_FAILED" "s \<noteq> READINESS_STALE" by auto
    from readiness_of_Inr [OF assms(10) this] obtain r where r: "read_readiness run result current mappings d2 = Inr r"
      "assess r = (s, reasons)" by blast
    have "ri_findings r = current" using r(1) by (auto simp: read_readiness_def bind_res_Inr)
    then have "blocked_for r (lit ''SUPPORTED_MODEL_BLOCKER'')" using raised by (auto simp del: lit_simps intro: open_blocker)
    then have "s = READINESS_BLOCKED" using arg_cong [OF assess_exact(1) [of r], of fst] r(2) by (auto split: if_splits)
    then show False using ready by simp
  qed
qed

theorem blocking_observation_blocks_witness:
  "\<exists>current d' s reasons. merge_findings sample_env sample_user sample_review_run [sample_observation_items]
       sample_finding_ids (reviewed sample_review) = Inr (current, d')
     \<and> readiness_of sample_review_run sample_review_result current [] (reviewed sample_review) = Inr (s, reasons)
     \<and> s \<noteq> READY_FOR_HUMAN_REVIEW \<and> s \<noteq> READY_WITH_WARNINGS"
proof -
  obtain current d' where m: "merge_findings sample_env sample_user sample_review_run [sample_observation_items]
      sample_finding_ids (reviewed sample_review) = Inr (current, d')" using sample_merge by blast
  obtain t where t: "fingerprinted_payloads sample_env [sample_observation_items] = Inr [sample_observation (2 # t)]"
    using sample_fingerprint by blast
  have r: "assurance_checks sample_review = []" "pull_requests sample_review = [sample_pull_request]"
    "pull_request_revisions sample_review = [sample_pull_revision]"
    by (simp_all add: sample_review_def empty_review_def)
  obtain s reasons where s: "readiness_of sample_review_run sample_review_result current [] (reviewed sample_review)
      = Inr (s, reasons)"
    using sample_readiness(2) [OF r, of current] by (cases "assess (sample_input current)") auto
  have c: "findings_coherent (review (reviewed sample_review))" by (simp add: sample_review_coherent)
  have "fn_severity (of_document (sample_observation (2 # t))) = lit ''BLOCKING''"
    by (simp add: sample_observation_def sample_observed_document_def)
  moreover have "\<forall>f\<in>set (findings (review (reviewed sample_review))).
      finding_key f = (run_org sample_review_run, pq_id sample_pull_request, of_fingerprint (sample_observation (2 # t)))
           \<longrightarrow> fi_state f \<in> {FINDING_OPEN, FINDING_OBSOLETE}"
    by (simp add: sample_review_def empty_review_def sample_finding_def finding_key_def sample_observation_def)
  ultimately have "s \<noteq> READY_FOR_HUMAN_REVIEW \<and> s \<noteq> READY_WITH_WARNINGS"
    using blocking_observation_blocks [OF m c sample_fresh t, of "sample_observation (2 # t)"]
      sample_run_current(1) sample_request_of s by (metis list.set_intros(1))
  then show ?thesis using m s by blast
qed

section \<open>Resolved findings\<close>

text \<open>C40: A resolved finding is not reopened.  When a result observes again what was found and resolved before, on
  whatever diff, the merge returns the old finding still \<open>RESOLVED\<close>, with the severity just observed and this run
  as its latest.  The product requirements (section 11.9) ask that a finding reopens when a new diff invalidates its
  resolution; the witness is a run that is ready with warnings although its result observed a blocking finding.\<close>

theorem resolved_finding_stays_resolved:
  assumes "merge_findings env actor run payloads ids d = Inr (current, d')" "findings_coherent (review d)"
    and "fresh_for_merge env ids payloads d" "fingerprinted_payloads env payloads = Inr obs" "ob \<in> set obs"
    and "run_pull_request_revision run = Some i" "pull_request_of_revision i d = Inr p"
    and "f \<in> set (findings (review d))" "finding_key f = (run_org run, pq_id p, of_fingerprint ob)"
    and "fi_state f = FINDING_RESOLVED"
  shows "\<exists>f'. f' \<in> set current \<and> f' \<in> set (findings (review d')) \<and> fi_id f' = fi_id f \<and> fi_state f' = FINDING_RESOLVED
     \<and> fi_severity f' = fn_severity (of_document ob) \<and> fi_latest_run f' = run_id run"
proof -
  from assms(1-7) obtain f' where f': "f' \<in> set current" "f' \<in> set (findings (review d'))"
    "(\<exists>g\<in>set (findings (review d)). finding_key g = (run_org run, pq_id p, of_fingerprint ob)
        \<and> f' = seen_again run (of_document ob) g)
     \<or> unknown run (pq_id p) (findings (review d)) ob \<and> f' = row_of_new run (pq_id p) ids ob"
    by (rule observed_finding_returned)
  have "\<not> unknown run (pq_id p) (findings (review d)) ob"
    using assms(8) unfolding unknown_def assms(9) [symmetric] by blast
  then obtain g where g: "g \<in> set (findings (review d))" "finding_key g = finding_key f" "f' = seen_again run (of_document ob) g"
    using f'(3) unfolding assms(9) by blast
  have "g = f" using assms(2,8) g(1,2) by (auto simp: findings_coherent_def distinct_map dest: inj_onD)
  then show ?thesis using f'(1,2) g(3) assms(10) by (intro exI [of _ f'] conjI) (simp_all add: row_simps)
qed

text \<open>The pull request's only finding, resolved by a person, with the fingerprint of the sample observation.\<close>

definition resolved_review :: "pystr \<Rightarrow> review" where
  "resolved_review fp = sample_review\<lparr>findings := [sample_finding 41 fp FINDING_RESOLVED],
     finding_decisions := [sample_dismissal\<lparr>fd_to_state := FINDING_RESOLVED\<rparr>]\<rparr>"

lemma resolved_review_rows:
  "pull_requests (resolved_review fp) = [sample_pull_request]" "assurance_checks (resolved_review fp) = []"
  "pull_request_revisions (resolved_review fp) = [sample_pull_revision]"
  "findings (resolved_review fp) = [sample_finding 41 fp FINDING_RESOLVED]"
  by (simp_all add: resolved_review_def sample_review_def empty_review_def)

lemma resolved_review_coherent: "findings_coherent (resolved_review fp)"
  by (simp add: findings_coherent_def resolved_review_def sample_review_def empty_review_def sample_finding_def
      sample_dismissal_def finding_key_def finding_log_def lifecycle_edge_def)

theorem resolved_finding_stays_resolved_witness:
  "\<exists>fp current d' reasons. merge_findings sample_env sample_user sample_review_run [sample_observation_items]
       sample_finding_ids (reviewed (resolved_review fp)) = Inr (current, d')
     \<and> map fi_state current = [FINDING_RESOLVED] \<and> map fi_severity current = [lit ''BLOCKING'']
     \<and> readiness_of sample_review_run sample_review_result current [] (reviewed (resolved_review fp))
         = Inr (READY_WITH_WARNINGS, reasons)"
proof -
  obtain t where t: "fingerprinted_payloads sample_env [sample_observation_items] = Inr [sample_observation (2 # t)]"
    using sample_fingerprint by blast
  let ?r = "resolved_review (2 # t)"
  note rows = resolved_review_rows [of "2 # t"]
  obtain current d' where m: "merge_findings sample_env sample_user sample_review_run [sample_observation_items]
      sample_finding_ids (reviewed ?r) = Inr (current, d')" using sample_merge_of [OF rows(1,3)] by blast
  have c: "findings_coherent (review (reviewed ?r))" by (simp add: resolved_review_coherent)
  have fresh: "fresh_for_merge sample_env sample_finding_ids [sample_observation_items] (reviewed ?r)"
    using t by (simp add: fresh_for_merge_def fresh_findings_def sample_finding_ids_def rows sample_finding_def)
  have key: "finding_key (sample_finding 41 (2 # t) FINDING_RESOLVED)
      = (run_org sample_review_run, pq_id sample_pull_request, of_fingerprint (sample_observation (2 # t)))"
    by (simp add: finding_key_def sample_finding_def sample_review_run_def sample_pull_request_def sample_observation_def)
  have severity: "fn_severity (of_document (sample_observation (2 # t))) = lit ''BLOCKING''"
    by (simp add: sample_observation_def sample_observed_document_def)
  have "sample_observation (2 # t) \<in> set [sample_observation (2 # t)]"
    "sample_finding 41 (2 # t) FINDING_RESOLVED \<in> set (findings (review (reviewed ?r)))"
    "fi_state (sample_finding 41 (2 # t) FINDING_RESOLVED) = FINDING_RESOLVED"
    by (simp_all add: rows) (simp add: sample_finding_def)
  note kept = resolved_finding_stays_resolved [OF m c fresh t this(1) sample_run_current(1)
      sample_readiness(1) [OF rows(2,1,3)] this(2) key this(3), unfolded severity]
  then obtain f where f: "f \<in> set current" "fi_state f = FINDING_RESOLVED" "fi_severity f = lit ''BLOCKING''" by blast
  obtain p :: pull_request and obs where
    obs: "fingerprinted_payloads sample_env [sample_observation_items] = Inr obs"
      "shows_all sample_review_run (pq_id p) obs current (review d')"
    by (rule merge_findings_Inr [OF m c fresh]) (rule that)
  have "length current = 1" using obs(2) t obs(1) unfolding shows_all_def by (auto dest: list_all2_lengthD)
  then have one: "current = [f]" using f(1) by (cases current) auto
  have "\<not> blocked_for (sample_input current) x" for x using f(2) by (simp add: blocked_for.simps sample_input_def one)
  moreover have "warned_of (sample_input current) (lit ''REQUIREMENT_TRACEABILITY_NOT_ESTABLISHED'')"
    by (rule untraceable) (simp add: sample_input_def)
  ultimately have "fst (assess (sample_input current)) = READY_WITH_WARNINGS"
    using arg_cong [OF assess_exact(1) [of "sample_input current"], of fst] by (auto split: if_splits)
  then obtain reasons where "readiness_of sample_review_run sample_review_result current [] (reviewed ?r) = Inr (READY_WITH_WARNINGS, reasons)"
    using sample_readiness(2) [OF rows(2,1,3), of current] by (cases "assess (sample_input current)") simp
  moreover have "map fi_state current = [FINDING_RESOLVED]" "map fi_severity current = [lit ''BLOCKING'']"
    using f(2,3) by (simp_all add: one)
  ultimately show ?thesis using m by (intro exI conjI)
qed

end
