(* ===== verification/Creation.thy ===== *)
theory Creation
  imports Evidence Transitions Retrieval ContextInvalidation
begin

text \<open>
  The creation of governed rows (\<^verbatim>\<open>src/anva/core/services/creation.py\<close>) and of content-addressed artifacts
  (\<^verbatim>\<open>create_artifact\<close> of \<^verbatim>\<open>src/anva/core/services/artifacts.py\<close>), each authorized and recorded.
\<close>

section \<open>Artifacts\<close>

definition same_metadata :: "immutable_artifact \<Rightarrow> pystr \<Rightarrow> pystr \<Rightarrow> nat \<Rightarrow> bool" where
  "same_metadata a schema_name schema_version rv \<longleftrightarrow>
     art_schema_name a = schema_name \<and> art_schema_version a = schema_version \<and> art_revision a = rv"

text \<open>The write of an artifact whose digest is not known yet, and its transition.\<close>

definition store_artifact ::
  "environment \<Rightarrow> actor_context \<Rightarrow> immutable_artifact \<Rightarrow> db \<Rightarrow> db result"
where
  "store_artifact env actor a d =
     bind_res (insert_artifact a d) (\<lambda>d1.
       record_transition env (art_org a) actor (lit ''immutable_artifact'') (art_id a) [] (lit ''CREATED'')
         (art_revision a)
         [(lit ''kind'', JStr (art_kind a)), (lit ''content_hash'', JStr (art_content_hash a))] d1)"

definition find_artifact :: "uuid \<Rightarrow> pystr \<Rightarrow> pystr \<Rightarrow> db \<Rightarrow> immutable_artifact option" where
  "find_artifact org kind digest d =
     first_by art_id (filter (\<lambda>a. art_org a = org \<and> art_kind a = kind \<and> art_content_hash a = digest) (artifacts d))"

definition new_artifact ::
  "actor_context \<Rightarrow> uuid \<Rightarrow> pystr \<Rightarrow> pystr \<Rightarrow> pystr \<Rightarrow> (pystr \<times> json) list \<Rightarrow> nat \<Rightarrow> pystr \<Rightarrow> uuid \<Rightarrow> immutable_artifact"
where
  "new_artifact actor scope_id kind schema_name schema_version payload rv digest fresh =
     \<lparr>art_id = fresh, art_org = actor_org actor, art_kind = kind, art_schema_name = schema_name,
      art_schema_version = schema_version, art_revision = rv, art_payload = JDict payload,
      art_content_hash = digest, art_access_scope = Some scope_id\<rparr>"

definition create_artifact ::
  "environment \<Rightarrow> actor_context \<Rightarrow> uuid \<Rightarrow> uuid \<Rightarrow> pystr \<Rightarrow> pystr \<Rightarrow> pystr \<Rightarrow> (pystr \<times> json) list \<Rightarrow> nat
     \<Rightarrow> instant \<Rightarrow> uuid \<Rightarrow> db \<Rightarrow> ((immutable_artifact \<times> bool) \<times> db) result"
where
  "create_artifact env actor repository scope_id kind schema_name schema_version payload rv now fresh d =
     bind_res (authorize_action env now d actor ARTIFACT_CREATE (Some repository) None (Some scope_id) False) (\<lambda>decision.
     bind_res (audit_actor actor decision) (\<lambda>auditor.
     bind_res (validate_payload env schema_name (JDict payload)) (\<lambda>_.
     bind_res (guard_res (json_get payload (lit ''schema_version'') = Some (JStr schema_version))
                 (ValueError ''Artifact schema_version metadata must match payload schema_version'')) (\<lambda>_.
     bind_res (content_hash env (JDict payload)) (\<lambda>digest.
     case find_artifact (actor_org auditor) kind digest d of
       Some a \<Rightarrow>
         bind_res (guard_res (art_access_scope a = Some scope_id) ResourceNotFoundError) (\<lambda>_.
         bind_res (authorize_action env now d auditor ARTIFACT_CREATE (Some repository) None (art_access_scope a) False) (\<lambda>_.
         bind_res (guard_res (same_metadata a schema_name schema_version rv) TenantBoundaryError) (\<lambda>_.
           Inr ((a, False), d))))
     | None \<Rightarrow>
         let a = new_artifact auditor scope_id kind schema_name schema_version payload rv digest fresh
         in bind_res (store_artifact env auditor a d) (\<lambda>d'. Inr ((a, True), d')))))))"

section \<open>Rows with a life cycle\<close>

definition record_created ::
  "environment \<Rightarrow> uuid \<Rightarrow> actor_context \<Rightarrow> pystr \<Rightarrow> uuid \<Rightarrow> pystr \<Rightarrow> nat \<Rightarrow> db \<Rightarrow> db result"
where
  "record_created env org actor target_type target_id initial_state rv d =
     record_transition env org actor target_type target_id [] initial_state rv [] d"

definition CREATION_ACTIVE_SYNC_STATES :: "sync_state list" where
  "CREATION_ACTIVE_SYNC_STATES = [SYNC_REQUESTED, SYNC_DISCOVERING, SYNC_FETCHING, SYNC_PARSING, SYNC_INDEXING,
     SYNC_EXTRACTING, SYNC_RESOLVING, SYNC_PUBLISHING]"

definition ACTIVE_ASSURANCE_STATES :: "assurance_state list" where
  "ACTIVE_ASSURANCE_STATES = [RUN_REQUESTED, RUN_DEBOUNCING, RUN_FETCHING_PULL_REQUEST, RUN_COLLECTING_EVIDENCE,
     RUN_EVALUATING_POLICY, RUN_BUILDING_CONTEXT, RUN_MODEL_REVIEW, RUN_MAPPING_EVIDENCE,
     RUN_RENDERING_REPORT, RUN_PUBLISHING]"

definition request_sync_run ::
  "environment \<Rightarrow> actor_context \<Rightarrow> uuid \<Rightarrow> instant \<Rightarrow> uuid \<Rightarrow> db \<Rightarrow> ((sync_run \<times> bool) \<times> db) result"
where
  "request_sync_run env actor source now fresh d =
     bind_res (authorize_action env now d actor SOURCE_SYNC (actor_repository actor) (Some source) None False) (\<lambda>decision.
     bind_res (audit_actor actor decision) (\<lambda>auditor.
     bind_res (get_tenant_record_for_update source_table source (actor_org auditor) d) (\<lambda>connection.
     case first_by sync_id
            (filter (\<lambda>r. sync_org r = actor_org auditor \<and> sync_source r = src_id connection
                        \<and> sync_state r \<in> set CREATION_ACTIVE_SYNC_STATES) (sync_runs d)) of
       Some r \<Rightarrow> Inr ((r, False), d)
     | None \<Rightarrow>
         let r = \<lparr>sync_id = fresh, sync_org = actor_org auditor, sync_source = src_id connection,
                  sync_state = SYNC_REQUESTED, sync_failure_code = [], sync_completed_at = None, sync_revision = 1\<rparr>
         in bind_res (record_created env (sync_org r) auditor (lit ''syncrun'') (sync_id r)
                        (sync_state_value (sync_state r)) (sync_revision r) (create_row sync_table r d)) (\<lambda>d'.
              Inr ((r, True), d')))))"

definition create_assertion ::
  "environment \<Rightarrow> actor_context \<Rightarrow> uuid \<Rightarrow> uuid \<Rightarrow> pystr \<Rightarrow> pystr \<Rightarrow> json \<Rightarrow> json list \<Rightarrow> bool \<Rightarrow> instant \<Rightarrow> uuid \<Rightarrow> db
     \<Rightarrow> (knowledge_assertion \<times> db) result"
where
  "create_assertion env actor repository scope_id subject_key predicate v provenance is_inferred now fresh d =
     bind_res (authorize_action env now d actor KNOWLEDGE_REVIEW (Some repository) None (Some scope_id) False) (\<lambda>decision.
     bind_res (audit_actor actor decision) (\<lambda>auditor.
     bind_res (guard_res (provenance \<noteq> [])
                 (ValueError ''Assertion provenance must contain at least one source'')) (\<lambda>_.
     let a = \<lparr>as_id = fresh, as_org = actor_org auditor, as_review_state = UNREVIEWED,
              as_access_scope = Some scope_id, as_valid_until = None, as_revision = 1,
              as_subject_key = subject_key, as_predicate = predicate, as_created_at = now, as_value = v,
              as_provenance = provenance, as_is_inferred = is_inferred\<rparr>
     in bind_res (record_created env (as_org a) auditor (lit ''knowledgeassertion'') (as_id a)
                    (review_state_value (as_review_state a)) (as_revision a) (create_row assertion_table a d)) (\<lambda>d'.
          Inr (a, d')))))"

definition submit_knowledge_proposal ::
  "environment \<Rightarrow> actor_context \<Rightarrow> pystr \<Rightarrow> json list \<Rightarrow> json list \<Rightarrow> uuid \<Rightarrow> db \<Rightarrow> (knowledge_proposal \<times> db) result"
where
  "submit_knowledge_proposal env actor summary changes anva_sources fresh d =
     bind_res (guard_res (changes \<noteq> []) (ValueError ''A proposal must contain at least one change'')) (\<lambda>_.
     bind_res (guard_res (anva_sources \<noteq> [])
                 (ValueError ''A proposal must cite at least one anva_sources entry'')) (\<lambda>_.
     let p = \<lparr>prop_id = fresh, prop_org = actor_org actor, prop_state = PROPOSAL_PROPOSED, prop_decided_at = None,
              prop_revision = 1, prop_summary = summary, prop_changes = changes, prop_sources = anva_sources\<rparr>
     in bind_res (record_created env (prop_org p) actor (lit ''knowledgeproposal'') (prop_id p)
                    (proposal_state_value (prop_state p)) (prop_revision p) (create_row proposal_table p d)) (\<lambda>d'.
          Inr (p, d'))))"

section \<open>Assurance runs\<close>

text \<open>
  The check constraints \<^verbatim>\<open>core_assurance_head_commit_format\<close>, \<^verbatim>\<open>core_assurance_policy_version_gte_1\<close> and
  \<^verbatim>\<open>core_assurance_initiator_present\<close>, and the sign of the pull request number.
\<close>

definition run_well_formed :: "assurance_run \<Rightarrow> bool" where
  "run_well_formed r \<longleftrightarrow>
     7 \<le> length (run_head_commit r) \<and> length (run_head_commit r) \<le> 64 \<and> list_all is_lower_hex (run_head_commit r)
     \<and> 1 \<le> run_policy_version r \<and> run_initiated_by_type r \<noteq> [] \<and> run_initiated_by_id r \<noteq> []
     \<and> 0 \<le> run_pull_request_number r"

definition new_run ::
  "actor_context \<Rightarrow> pystr \<Rightarrow> int \<Rightarrow> pystr \<Rightarrow> int \<Rightarrow> instant \<Rightarrow> uuid \<Rightarrow> assurance_run"
where
  "new_run actor external_id number head policy_version now fresh =
     \<lparr>run_id = fresh, run_org = actor_org actor, run_created_at = now, run_repository_external_id = external_id,
      run_repository = None, run_context_packet = None, run_readiness = [], run_head_commit = head,
      run_evaluated_commit = [], run_report_commit = [], run_context_artifact = None, run_state = RUN_REQUESTED,
      run_completed_at = None, run_revision = 1, run_initiated_by_type = actor_type actor,
      run_initiated_by_id = actor_id actor, run_initiated_by_credential = actor_credential actor,
      run_policy_version = policy_version, run_pull_request_number = number, run_pull_request_revision = None,
      run_work_revision = None, run_diff_artifact = None, run_policy_evaluation = None, run_input_hash = [],
      run_requirements_hash = [], run_policy_bundle_hash = [], run_evidence_bundle_hash = [],
      run_evaluator_version = [], run_prompt_version = [], run_limitations = [], run_failure_code = []\<rparr>"

definition of_request :: "uuid \<Rightarrow> pystr \<Rightarrow> int \<Rightarrow> assurance_run \<Rightarrow> bool" where
  "of_request org external_id number r \<longleftrightarrow>
     run_org r = org \<and> run_repository_external_id r = external_id \<and> run_pull_request_number r = number"

definition stale_older ::
  "environment \<Rightarrow> actor_context \<Rightarrow> pystr \<Rightarrow> instant \<Rightarrow> assurance_run \<Rightarrow> db \<Rightarrow> db result"
where
  "stale_older env actor head now r d =
     bind_res (apply_transition env assurance_machine (r\<lparr>run_completed_at := Some now\<rparr>) actor
                 (assurance_state_value RUN_STALE) ASSURANCE_TRANSITIONS (int (run_revision r))
                 [(lit ''superseded_by_head_commit'', JStr head)] d) (\<lambda>(_, d'). Inr d')"

text \<open>The runs of the pull request that are still active become stale, oldest first; then the row is written.\<close>

definition supersede_runs ::
  "environment \<Rightarrow> actor_context \<Rightarrow> pystr \<Rightarrow> int \<Rightarrow> pystr \<Rightarrow> int \<Rightarrow> instant \<Rightarrow> uuid \<Rightarrow> db
     \<Rightarrow> ((assurance_run \<times> bool) \<times> db) result"
where
  "supersede_runs env actor external_id number head policy_version now fresh d =
     bind_res (fold_res (stale_older env actor head now)
                 (sort_key run_created_at
                    (filter (\<lambda>r. of_request (actor_org actor) external_id number r
                                \<and> run_state r \<in> set ACTIVE_ASSURANCE_STATES) (assurance_runs d))) d) (\<lambda>d1.
     let r = new_run actor external_id number head policy_version now fresh in
     bind_res (guard_res (run_well_formed r) IntegrityError) (\<lambda>_.
     bind_res (record_created env (run_org r) actor (lit ''assurancerun'') (run_id r)
                 (assurance_state_value (run_state r)) (run_revision r) (create_row assurance_table r d1)) (\<lambda>d2.
       Inr ((r, True), d2))))"

definition request_assurance_run ::
  "environment \<Rightarrow> actor_context \<Rightarrow> uuid \<Rightarrow> int \<Rightarrow> pystr \<Rightarrow> int \<Rightarrow> instant \<Rightarrow> uuid \<Rightarrow> db
     \<Rightarrow> ((assurance_run \<times> bool) \<times> db) result"
where
  "request_assurance_run env actor repository number head policy_version now fresh d =
     bind_res (authorize_action env now d actor ASSURANCE_EXECUTE (Some repository) None None False) (\<lambda>decision.
     bind_res (audit_actor actor decision) (\<lambda>auditor.
     bind_res (get_tenant_record_for_update active_repository_table repository (actor_org auditor) d) (\<lambda>repo.
     case first_by run_id
            (filter (\<lambda>r. of_request (actor_org auditor) (repo_external_id repo) number r \<and> run_head_commit r = head)
               (assurance_runs d)) of
       Some r \<Rightarrow> Inr ((r, False), d)
     | None \<Rightarrow> supersede_runs env auditor (repo_external_id repo) number head policy_version now fresh d)))"

section \<open>Secured operations\<close>

text \<open>
  The wrappers that authorize a mutation before the service that makes it
  (\<^verbatim>\<open>src/anva/core/services/secured_operations.py\<close>): the review of an assertion with the invalidation of the
  packets that may rest on it, and a transition of an assurance run with the artifacts it names.
  \<^verbatim>\<open>review_assertion\<close> opens no transaction of its own and its callers open none, so its two services commit
  one after the other: it gives the database also where it raises.
\<close>

definition authorize_review ::
  "environment \<Rightarrow> actor_context \<Rightarrow> uuid \<Rightarrow> uuid \<Rightarrow> instant \<Rightarrow> db \<Rightarrow> (knowledge_assertion \<times> actor_context) result"
where
  "authorize_review env actor repository assertion_id now d =
     bind_res (get_authorized_assertion env now d actor repository assertion_id KNOWLEDGE_REVIEW) (\<lambda>a.
     bind_res (authorize_action env now d actor KNOWLEDGE_REVIEW (Some repository) None (as_access_scope a) False)
       (\<lambda>decision.
     bind_res (audit_actor actor decision) (\<lambda>auditor. Inr (a, auditor))))"

definition review_details :: "uuid \<Rightarrow> pystr \<Rightarrow> (pystr \<times> json) list" where
  "review_details assertion_id target_state =
     [(lit ''assertion_id'', uuid_json assertion_id), (lit ''review_state'', JStr target_state)]"

definition review_assertion ::
  "environment \<Rightarrow> actor_context \<Rightarrow> uuid \<Rightarrow> uuid \<Rightarrow> pystr \<Rightarrow> int \<Rightarrow> instant \<Rightarrow> db
     \<Rightarrow> knowledge_assertion result \<times> db"
where
  "review_assertion env actor repository assertion_id target_state expected_revision now d =
     (case bind_res (authorize_review env actor repository assertion_id now d) (\<lambda>(a, auditor).
             bind_res (transition_assertion_review env auditor (as_id a) target_state expected_revision d)
               (\<lambda>(reviewed, d1). Inr (a, auditor, reviewed, d1))) of
        Inl e \<Rightarrow> (Inl e, d)
      | Inr (a, auditor, reviewed, d1) \<Rightarrow>
          (case invalidate_context_packets env auditor (actor_org actor) repository (lit ''CORRECTION'')
                  (review_details (as_id a) target_state) now d1 of
             Inl e \<Rightarrow> (Inl e, d1)
           | Inr (n, d2) \<Rightarrow> (Inr reviewed, d2)))"

definition authorize_sensitive_placeholder ::
  "environment \<Rightarrow> actor_context \<Rightarrow> uuid \<Rightarrow> action \<Rightarrow> instant \<Rightarrow> db \<Rightarrow> pystr result"
where
  "authorize_sensitive_placeholder env actor repository a now d =
     bind_res (authorize_action env now d actor a (Some repository) None None False) (\<lambda>decision.
       Inr (dec_path decision))"

definition repository_of_run :: "uuid \<Rightarrow> assurance_run \<Rightarrow> db \<Rightarrow> repository result" where
  "repository_of_run org run d =
     (case first_by repo_id
             (filter (\<lambda>r. repo_org r = org \<and> repo_external_id r = run_repository_external_id run \<and> repo_active r)
                (repositories d)) of
        None \<Rightarrow> Inl ResourceNotFoundError
      | Some r \<Rightarrow> Inr r)"

definition named_artifacts :: "assurance_run \<Rightarrow> uuid option \<Rightarrow> uuid list" where
  "named_artifacts run context_artifact_id =
     remdups (concat (map (\<lambda>x. case x of None \<Rightarrow> [] | Some i \<Rightarrow> [i]) [run_context_artifact run, context_artifact_id]))"

definition execute_assurance_transition ::
  "environment \<Rightarrow> actor_context \<Rightarrow> uuid \<Rightarrow> pystr \<Rightarrow> int \<Rightarrow> pystr option \<Rightarrow> pystr option \<Rightarrow> uuid option \<Rightarrow> instant \<Rightarrow> db
     \<Rightarrow> (assurance_run \<times> db) result"
where
  "execute_assurance_transition env actor rid target_state expected_revision evaluated_commit report_commit
       context_artifact_id now d =
     bind_res (get_tenant_record assurance_table rid (actor_org actor) d) (\<lambda>run.
     bind_res (repository_of_run (actor_org actor) run d) (\<lambda>repo.
     bind_res (authorize_action env now d actor ASSURANCE_EXECUTE (Some (repo_id repo)) None None False) (\<lambda>decision.
     bind_res (each_res (\<lambda>i. bind_res (get_authorized_artifact env now d actor (repo_id repo) i ASSURANCE_EXECUTE)
                                (\<lambda>_. Inr ())) (named_artifacts run context_artifact_id)) (\<lambda>_.
     bind_res (audit_actor actor decision) (\<lambda>auditor.
       transition_assurance_run env auditor (run_id run) target_state expected_revision evaluated_commit
         report_commit context_artifact_id now d)))))"

end
