(* ===== verification/CreationSafety.thy ===== *)
theory CreationSafety
  imports Creation TransitionSafety ContextInvalidationSafety EvidenceSafety
begin

text \<open>
  What the creations establish: a requested run supersedes the older ones, an artifact is its content through every
  writer, a reviewed assertion is stored.
\<close>

section \<open>Superseded runs\<close>

text \<open>The active states are those a run can still leave.\<close>

lemma active_runs: "s \<in> set ACTIVE_ASSURANCE_STATES \<longleftrightarrow> s \<notin> {RUN_COMPLETED, RUN_STALE, RUN_FAILED, RUN_CANCELLED}"
  by (cases s) (simp_all add: ACTIVE_ASSURANCE_STATES_def)

definition staled :: "instant \<Rightarrow> assurance_run \<Rightarrow> assurance_run" where
  "staled now r = r\<lparr>run_completed_at := Some now, run_state := RUN_STALE, run_revision := run_revision r + 1\<rparr>"

lemma stale_older_Inr:
  assumes "stale_older env actor head now r d = Inr d'" "run_state r \<noteq> RUN_STALE"
  shows "assurance_runs d' = update_where (\<lambda>x. run_id x = run_id r) (\<lambda>_. staled now r) (assurance_runs d)"
proof -
  let ?r = "r\<lparr>run_completed_at := Some now\<rparr>"
  from assms(1) obtain q where a: "apply_transition env assurance_machine ?r actor (assurance_state_value RUN_STALE)
      ASSURANCE_TRANSITIONS (int (run_revision r)) [(lit ''superseded_by_head_commit'', JStr head)] d = Inr (q, d')"
    by (auto simp: stale_older_def bind_res_Inr)
  have moved: "assurance_state_value (run_state ?r) \<noteq> assurance_state_value RUN_STALE"
    using assms(2) assurance_state_value_inj [of "run_state r" RUN_STALE] by auto
  from assurance_life.apply_returned [OF a] moved have s: "assurance_state_value (run_state q) = assurance_state_value RUN_STALE"
    "q = mc_advance assurance_machine (run_state q) ?r"
    "record_transition env (run_org ?r) actor (mc_model_name assurance_machine) (run_id ?r)
        (assurance_state_value (run_state ?r)) (assurance_state_value RUN_STALE) (Suc (run_revision ?r))
        [(lit ''superseded_by_head_commit'', JStr head)] (save_row assurance_table q d) = Inr d'"
    by auto
  have "run_state q = RUN_STALE" using s(1) by (rule assurance_state_value_inj)
  then have "q = staled now r" using s(2) by (simp add: staled_def)
  then show ?thesis using recorded(3) [OF s(3)] by (simp add: staled_def)
qed

lemma stale_loop_Inr:
  assumes "fold_res (stale_older env actor head now) fs d = Inr d'" "distinct (map run_id (assurance_runs d))"
    and "set fs \<subseteq> set (assurance_runs d)" "distinct fs" "\<forall>r\<in>set fs. run_state r \<noteq> RUN_STALE"
  shows "assurance_runs d' = map (\<lambda>x. if x \<in> set fs then staled now x else x) (assurance_runs d)"
  using assms
proof (induction fs arbitrary: d)
  case Nil
  then show ?case by simp
next
  case (Cons f fs)
  from Cons.prems(1) obtain d1 where d1: "stale_older env actor head now f d = Inr d1"
    "fold_res (stale_older env actor head now) fs d1 = Inr d'" by (auto simp: bind_res_Inr)
  have f: "f \<in> set (assurance_runs d)" "f \<notin> set fs" "run_state f \<noteq> RUN_STALE" using Cons.prems by auto
  have only: "run_id x = run_id f \<longleftrightarrow> x = f" if "x \<in> set (assurance_runs d)" for x
    using that f(1) Cons.prems(2) by (auto simp: distinct_map inj_on_def)
  have one: "assurance_runs d1 = map (\<lambda>x. if x = f then staled now f else x) (assurance_runs d)"
    unfolding stale_older_Inr [OF d1(1) f(3)] update_where_def using only by (intro map_cong) auto
  have "distinct (map run_id (assurance_runs d1))"
  proof -
    have "map run_id (assurance_runs d1) = map run_id (assurance_runs d)"
      unfolding one by (auto simp: staled_def)
    then show ?thesis using Cons.prems(2) by simp
  qed
  moreover have "set fs \<subseteq> set (assurance_runs d1)" using Cons.prems(3) f(2) unfolding one by auto
  ultimately have rest: "assurance_runs d' = map (\<lambda>x. if x \<in> set fs then staled now x else x) (assurance_runs d1)"
    using Cons.IH [OF d1(2)] Cons.prems(4,5) by simp
  have "staled now f \<notin> set fs" using Cons.prems(5) by (auto simp: staled_def)
  then show ?case unfolding rest one using f(2) by auto
qed

lemma record_created_runs:
  "record_created env org actor tt i s rv d = Inr d' \<Longrightarrow> assurance_runs d' = assurance_runs d \<and> artifacts d' = artifacts d"
  unfolding record_created_def by (frule record_transition_Inr(1)) simp

lemma requested_run:
  assumes "request_assurance_run env actor repository number head policy_version now fresh d = Inr ((r, True), d')"
    and "distinct (map run_id (assurance_runs d))"
  obtains external_id where
    "assurance_runs d' = map (\<lambda>x. if of_request (actor_org actor) external_id number x
        \<and> run_state x \<in> set ACTIVE_ASSURANCE_STATES then staled now x else x) (assurance_runs d) @ [r]"
    "of_request (actor_org actor) external_id number r" "run_state r = RUN_REQUESTED" "run_head_commit r = head"
    "run_id r = fresh" "\<forall>x\<in>set (assurance_runs d). of_request (actor_org actor) external_id number x \<longrightarrow> run_head_commit x \<noteq> head"
proof -
  note s = assms(1) [unfolded request_assurance_run_def bind_res_Inr]
  from s obtain dec :: decision and auditor :: actor_context and repo :: repository where
      a: "audit_actor actor dec = Inr auditor"
    and c: "(case first_by run_id (filter (\<lambda>r. of_request (actor_org auditor) (repo_external_id repo) number r
          \<and> run_head_commit r = head) (assurance_runs d)) of
       Some r \<Rightarrow> Inr ((r, False), d)
     | None \<Rightarrow> supersede_runs env auditor (repo_external_id repo) number head policy_version now fresh d) = Inr ((r, True), d')"
    by (elim exE conjE) (rule that; assumption)
  let ?ours = "of_request (actor_org actor) (repo_external_id repo) number"
  let ?old = "sort_key run_created_at (filter (\<lambda>x. ?ours x \<and> run_state x \<in> set ACTIVE_ASSURANCE_STATES) (assurance_runs d))"
  have org: "actor_org auditor = actor_org actor"
    using a by (auto simp: audit_actor_def check_actor_def split: if_splits)
  have none: "first_by run_id (filter (\<lambda>x. ?ours x \<and> run_head_commit x = head) (assurance_runs d)) = None"
    using c unfolding org by (auto split: option.splits)
  have c': "supersede_runs env auditor (repo_external_id repo) number head policy_version now fresh d = Inr ((r, True), d')"
    using c unfolding org none by simp
  from c' obtain d1 where d1: "fold_res (stale_older env auditor head now) ?old d = Inr d1"
    and r: "r = new_run auditor (repo_external_id repo) number head policy_version now fresh"
    and d': "record_created env (run_org r) auditor (lit ''assurancerun'') (run_id r) (assurance_state_value (run_state r))
        (run_revision r) (create_row assurance_table r d1) = Inr d'"
    unfolding supersede_runs_def org by (auto simp: bind_res_Inr Let_def)
  have dist: "distinct (assurance_runs d)" using assms(2) by (simp add: distinct_map)
  have "assurance_runs d1 = map (\<lambda>x. if x \<in> set ?old then staled now x else x) (assurance_runs d)"
    using dist by (intro stale_loop_Inr [OF d1 assms(2)]) (auto simp: ACTIVE_ASSURANCE_STATES_def)
  also have "\<dots> = map (\<lambda>x. if ?ours x \<and> run_state x \<in> set ACTIVE_ASSURANCE_STATES then staled now x else x) (assurance_runs d)"
    by (intro map_cong) auto
  finally have rows: "assurance_runs d' = map (\<lambda>x. if ?ours x \<and> run_state x \<in> set ACTIVE_ASSURANCE_STATES then staled now x else x)
      (assurance_runs d) @ [r]"
    using record_created_runs [OF d'] by simp
  have fresh_head: "\<forall>x\<in>set (assurance_runs d). ?ours x \<longrightarrow> run_head_commit x \<noteq> head"
    using none by (simp add: filter_empty_conv)
  show thesis
    using rows fresh_head by (intro that [of "repo_external_id repo"]) (simp_all add: r new_run_def of_request_def org)
qed

section \<open>Artifacts\<close>

definition artifact_key :: "immutable_artifact \<Rightarrow> uuid \<times> pystr \<times> pystr" where
  "artifact_key a = (art_org a, art_kind a, art_content_hash a)"

text \<open>Artifacts are addressed by their content: the digest is the payload's, and no two rows share it.\<close>

definition artifacts_addressed :: "environment \<Rightarrow> db \<Rightarrow> bool" where
  "artifacts_addressed env d \<longleftrightarrow>
     distinct (map art_id (artifacts d)) \<and> distinct (map artifact_key (artifacts d))
     \<and> (\<forall>a\<in>set (artifacts d). content_hash env (art_payload a) = Inr (art_content_hash a))"

lemma insert_artifact_Inr:
  "insert_artifact a d = Inr d' \<Longrightarrow> d' = d\<lparr>artifacts := artifacts d @ [a]\<rparr>
     \<and> art_id a \<notin> art_id ` set (artifacts d) \<and> artifact_key a \<notin> artifact_key ` set (artifacts d)"
  by (auto simp: insert_artifact_def list_ex_iff artifact_key_def split: if_splits)

lemma store_artifact_Inr:
  assumes "store_artifact env actor a d = Inr d'"
  shows "artifacts d' = artifacts d @ [a]" "art_id a \<notin> art_id ` set (artifacts d)"
    "artifact_key a \<notin> artifact_key ` set (artifacts d)"
    "\<exists>d1. insert_artifact a d = Inr d1 \<and> governance d' = governance d \<and> review d' = review d
       \<and> evaluator_tasks d' = evaluator_tasks d \<and> assurance_runs d' = assurance_runs d"
proof -
  from assms obtain d1 where d1: "insert_artifact a d = Inr d1"
    "record_transition env (art_org a) actor (lit ''immutable_artifact'') (art_id a) [] (lit ''CREATED'')
         (art_revision a)
         [(lit ''kind'', JStr (art_kind a)), (lit ''content_hash'', JStr (art_content_hash a))] d1 = Inr d'"
    by (auto simp: store_artifact_def bind_res_Inr)
  show "artifacts d' = artifacts d @ [a]" "art_id a \<notin> art_id ` set (artifacts d)"
    "artifact_key a \<notin> artifact_key ` set (artifacts d)"
    "\<exists>d1. insert_artifact a d = Inr d1 \<and> governance d' = governance d \<and> review d' = review d
       \<and> evaluator_tasks d' = evaluator_tasks d \<and> assurance_runs d' = assurance_runs d"
    using insert_artifact_Inr [OF d1(1)] d1(1) by (simp_all add: record_transition_Inr(1) [OF d1(2)])
qed

text \<open>A decision reads the access rows, and nothing of the actor's recorded path.\<close>

definition access_tables where
  "access_tables d =
     ((organizations d, users d, roles d, memberships d, service_identities d, repositories d, sources d),
      (tokens d, grants d, scopes d, scope_sources d, scope_memberships d, scope_services d, scope_repositories d))"

lemma decision_reads_access_tables:
  assumes "access_tables e = access_tables d"
  shows "authorize_action env t e = authorize_action env t d"
proof -
  note same = assms [unfolded access_tables_def prod.inject]
  have "resolve_principal e = resolve_principal d"
    by (intro ext) (simp add: resolve_principal_def organization_active_def user_is_active_def same cong: if_cong option.case_cong)
  moreover have "check_credential env e = check_credential env d"
    by (intro ext) (simp add: check_credential_def live_token_def [abs_def] same cong: if_cong option.case_cong)
  moreover have "relevant_grants e = relevant_grants d"
    by (intro ext) (simp add: relevant_grants_def active_grants_def same cong: if_cong option.case_cong)
  moreover have "role_actions e = role_actions d" "membership_role e = membership_role d"
    by (intro ext, simp add: role_actions_def membership_role_def same cong: if_cong option.case_cong principal_row.case_cong)+
  moreover have "check_repository e = check_repository d"
    by (intro ext) (simp add: check_repository_def same cong: if_cong option.case_cong)
  moreover have "check_source e = check_source d"
    by (intro ext) (simp add: check_source_def same cong: if_cong option.case_cong)
  moreover have "has_source_in e = has_source_in d" by (intro ext) (simp add: has_source_in_def same)
  moreover have "scope_includes_principal e = scope_includes_principal d"
    by (intro ext) (simp add: scope_includes_principal_def same cong: if_cong option.case_cong principal_row.case_cong)
  moreover from calculation have "scope_allows e = scope_allows d"
    by (intro ext) (simp add: scope_allows_def same cong: if_cong option.case_cong)
  moreover from calculation have "check_scope e = check_scope d"
    by (intro ext) (simp add: check_scope_def same cong: if_cong option.case_cong)
  moreover from calculation have "decision_path e = decision_path d"
    by (intro ext) (simp add: decision_path_def same cong: if_cong option.case_cong principal_row.case_cong)
  ultimately show ?thesis by (intro ext) (simp add: authorize_action_def)
qed

lemma decision_ignores_the_path:
  "authorize_action env t d (actor\<lparr>actor_path := p\<rparr>) a r s c b = authorize_action env t d actor a r s c b"
proof -
  let ?x = "actor\<lparr>actor_path := p\<rparr>"
  have "resolve_principal d ?x = resolve_principal d actor"
    by (simp add: resolve_principal_def cong: if_cong option.case_cong)
  moreover have "check_credential env d t ?x = check_credential env d t actor"
    by (intro ext) (simp add: check_credential_def live_token_def [abs_def] cong: if_cong option.case_cong)
  moreover have "check_repository d ?x = check_repository d actor" "check_source d ?x = check_source d actor"
      "check_scope d ?x = check_scope d actor" "decision_path d ?x = decision_path d actor"
      "credential_allows ?x = credential_allows actor"
    by (intro ext, simp add: check_repository_def check_source_def check_scope_def decision_path_def credential_allows_def
        cong: if_cong option.case_cong principal_row.case_cong)+
  ultimately show ?thesis by (simp add: authorize_action_def)
qed

lemma store_artifact_access: "store_artifact env actor a d = Inr d' \<Longrightarrow> access_tables d' = access_tables d"
  by (auto simp: store_artifact_def bind_res_Inr access_tables_def dest!: insert_artifact_Inr record_transition_Inr(1))

lemma created_artifact:
  assumes "create_artifact env actor repository scope_id kind sn sv payload rv now fresh d = Inr ((a, created), d')"
    and "artifacts_addressed env d"
  shows "artifacts_addressed env d'" "a \<in> set (artifacts d')" "content_hash env (JDict payload) = Inr (art_content_hash a)"
    "art_kind a = kind" "art_org a = actor_org actor" "art_access_scope a = Some scope_id" "same_metadata a sn sv rv"
    "artifacts d' = artifacts d @ (if created then [a] else [])" "created \<or> d' = d" "created \<longrightarrow> art_payload a = JDict payload"
    "access_tables d' = access_tables d"
proof -
  note s = assms(1) [unfolded create_artifact_def bind_res_Inr Let_def]
  from s obtain dec :: decision and auditor :: actor_context and digest where
      b: "audit_actor actor dec = Inr auditor" "content_hash env (JDict payload) = Inr digest"
    and c: "(case find_artifact (actor_org auditor) kind digest d of
       Some a \<Rightarrow>
         bind_res (guard_res (art_access_scope a = Some scope_id) ResourceNotFoundError) (\<lambda>_.
         bind_res (authorize_action env now d auditor ARTIFACT_CREATE (Some repository) None (art_access_scope a) False) (\<lambda>_.
         bind_res (guard_res (same_metadata a sn sv rv) TenantBoundaryError) (\<lambda>_.
           Inr ((a, False), d))))
     | None \<Rightarrow>
         bind_res (store_artifact env auditor (new_artifact auditor scope_id kind sn sv payload rv digest fresh) d)
           (\<lambda>d'. Inr ((new_artifact auditor scope_id kind sn sv payload rv digest fresh, True), d'))) = Inr ((a, created), d')"
    unfolding bind_res_Inr by (elim exE conjE) (rule that; assumption)
  have org: "actor_org auditor = actor_org actor"
    using b(1) by (auto simp: audit_actor_def check_actor_def split: if_splits)
  have "artifacts_addressed env d' \<and> a \<in> set (artifacts d') \<and> art_content_hash a = digest \<and> art_kind a = kind
    \<and> art_org a = actor_org actor \<and> art_access_scope a = Some scope_id \<and> same_metadata a sn sv rv
    \<and> artifacts d' = artifacts d @ (if created then [a] else []) \<and> (created \<or> d' = d) \<and> (created \<longrightarrow> art_payload a = JDict payload)
    \<and> access_tables d' = access_tables d"
  proof (cases "find_artifact (actor_org auditor) kind digest d")
    case None
    let ?a = "new_artifact auditor scope_id kind sn sv payload rv digest fresh"
    from c [unfolded None] have st: "store_artifact env auditor ?a d = Inr d'" "a = ?a" "created"
      by (auto simp: bind_res_Inr)
    have "art_id a \<notin> art_id ` set (artifacts d)" "artifact_key a \<notin> artifact_key ` set (artifacts d)"
      unfolding st(2) by (rule store_artifact_Inr [OF st(1)])+
    moreover have rows: "artifacts d' = artifacts d @ [a]" unfolding st(2) by (rule store_artifact_Inr(1) [OF st(1)])
    moreover have "content_hash env (art_payload a) = Inr (art_content_hash a)" using b(2) by (simp add: st(2) new_artifact_def)
    ultimately have "artifacts_addressed env d'" using assms(2) by (simp add: artifacts_addressed_def)
    then show ?thesis using rows st(3) store_artifact_access [OF st(1)] by (simp add: st(2) org same_metadata_def new_artifact_def)
  next
    case (Some x)
    have "x \<in> set (artifacts d) \<and> art_org x = actor_org auditor \<and> art_kind x = kind \<and> art_content_hash x = digest"
      using first_by_Some(1) [OF Some [unfolded find_artifact_def]] by simp
    then show ?thesis
      using c [unfolded Some] assms(2) org by (auto simp: bind_res_Inr guard_res_Inr)
  qed
  then show "artifacts_addressed env d'" "a \<in> set (artifacts d')" "content_hash env (JDict payload) = Inr (art_content_hash a)"
    "art_kind a = kind" "art_org a = actor_org actor" "art_access_scope a = Some scope_id" "same_metadata a sn sv rv"
    "artifacts d' = artifacts d @ (if created then [a] else [])" "created \<or> d' = d" "created \<longrightarrow> art_payload a = JDict payload"
    "access_tables d' = access_tables d"
    using b(2) by blast+
qed

lemma found_by_content:
  assumes "artifacts_addressed env d" "a \<in> set (artifacts d)"
  shows "find_artifact (art_org a) (art_kind a) (art_content_hash a) d = Some a"
proof -
  let ?same = "filter (\<lambda>x. art_org x = art_org a \<and> art_kind x = art_kind a \<and> art_content_hash x = art_content_hash a) (artifacts d)"
  obtain x where x: "first_by art_id ?same = Some x"
    using assms(2) by (cases "first_by art_id ?same") (auto simp: filter_empty_conv)
  then have "x \<in> set (artifacts d)" "artifact_key x = artifact_key a"
    using first_by_Some(1) [OF x] by (simp_all add: artifact_key_def)
  then have "x = a" using assms by (auto simp: artifacts_addressed_def distinct_map dest: inj_onD)
  then show ?thesis using x by (simp add: find_artifact_def)
qed

text \<open>The same request again finds the artifact it left behind, wherever artifacts stay addressed.\<close>

lemma created_again:
  assumes "create_artifact env actor repository scope_id kind sn sv payload rv now fresh d = Inr ((a, created), d')"
    and "artifacts_addressed env d" "artifacts_addressed env e" "a \<in> set (artifacts e)" "access_tables e = access_tables d"
  shows "create_artifact env actor repository scope_id kind sn sv payload rv now fresh' e = Inr ((a, False), e)"
proof -
  note s = assms(1) [unfolded create_artifact_def bind_res_Inr Let_def]
  from s obtain dec :: decision and auditor :: actor_context and digest u v where
      dec: "authorize_action env now d actor ARTIFACT_CREATE (Some repository) None (Some scope_id) False = Inr dec"
    and b: "audit_actor actor dec = Inr auditor" "validate_payload env sn (JDict payload) = Inr u"
      "guard_res (json_get payload (lit ''schema_version'') = Some (JStr sv))
         (ValueError ''Artifact schema_version metadata must match payload schema_version'') = Inr v"
      "content_hash env (JDict payload) = Inr digest"
    unfolding bind_res_Inr by (elim exE conjE) (rule that; assumption)
  have auditor: "auditor = actor\<lparr>actor_path := dec_path dec\<rparr>"
    using b(1) by (simp add: audit_actor_def) (drule check_actor_Inr, simp)
  note may = dec [folded decision_reads_access_tables [OF assms(5)]]
  note row = created_artifact [OF assms(1,2)]
  have "find_artifact (actor_org auditor) kind digest e = Some a"
    using found_by_content [OF assms(3,4)] row(3-5) b(4) by (simp add: auditor)
  then show ?thesis
    using may b row(6,7) by (simp add: create_artifact_def decision_ignores_the_path auditor del: lit_simps)
qed

section \<open>Every writer of artifacts\<close>

text \<open>A submitted manifest is stored as an artifact of its own, once.\<close>

lemma submitted_artifact:
  assumes "submit_evidence_manifest env actor repository number payload now fresh fresh_event d = Inr (res, d')"
    and "artifacts_addressed env d"
  shows "artifacts_addressed env d' \<and> access_tables d' = access_tables d
     \<and> (artifacts d' = artifacts d \<or> (\<exists>a. artifacts d' = artifacts d @ [a] \<and> art_payload a = payload))"
  using assms(1)
proof (rule submit_Inr)
  assume "d' = d"
  then show ?thesis using assms(2) by simp
next
  fix digest items m scope_id work_revision i ids checked a bytes
  assume digest: "content_hash env payload = Inr digest" "payload = JDict items"
    and store: "store_manifest env a m items i repository scope_id (map_option wr_id work_revision) digest
         bytes checked now fresh fresh_event d = Inr (res, d')"
  let ?r = "manifest_artifact a m items scope_id digest fresh"
  from store obtain d1 where d1: "insert_artifact ?r d = Inr d1" "artifacts d' = artifacts d1" "access_tables d' = access_tables d1"
    by (auto simp: store_manifest_def bind_res_Inr Let_def access_tables_def dest!: record_transition_Inr(1))
  have "artifacts d' = artifacts d @ [?r]" "art_id ?r \<notin> art_id ` set (artifacts d)" "artifact_key ?r \<notin> artifact_key ` set (artifacts d)"
    "access_tables d' = access_tables d"
    using insert_artifact_Inr [OF d1(1)] d1(2,3) by (simp_all add: access_tables_def)
  moreover have "art_payload ?r = payload" "content_hash env (art_payload ?r) = Inr (art_content_hash ?r)"
    using digest by (simp_all add: manifest_artifact_def)
  ultimately show ?thesis using assms(2) by (auto simp: artifacts_addressed_def)
qed

text \<open>The two ways the modelled code writes an artifact, in any order, by any actor.\<close>

inductive artifact_step :: "environment \<Rightarrow> db \<Rightarrow> db \<Rightarrow> bool" for env where
  artifact_created: "create_artifact env actor repository scope_id kind sn sv payload rv now fresh d = Inr (r, d')
    \<Longrightarrow> artifact_step env d d'"
| manifest_stored: "submit_evidence_manifest env actor repository number payload now fresh fresh_event d = Inr (m, d')
    \<Longrightarrow> artifact_step env d d'"

inductive artifact_steps :: "environment \<Rightarrow> db \<Rightarrow> db \<Rightarrow> bool" for env where
  artifact_steps_start: "artifact_steps env d d"
| artifact_steps_more: "artifact_steps env d d1 \<Longrightarrow> artifact_step env d1 d2 \<Longrightarrow> artifact_steps env d d2"

definition artifacts_carried :: "db \<Rightarrow> db \<Rightarrow> bool" where
  "artifacts_carried d d' \<longleftrightarrow> access_tables d' = access_tables d \<and> (\<exists>xs. artifacts d' = artifacts d @ xs)"

lemma artifact_step_keeps:
  "artifact_step env d d' \<Longrightarrow> artifacts_addressed env d \<Longrightarrow> artifacts_addressed env d' \<and> artifacts_carried d d'"
proof (induction rule: artifact_step.induct)
  case (artifact_created actor repository scope_id kind sn sv payload rv now fresh d r d')
  obtain a created where "r = (a, created)" by (cases r) simp
  note row = created_artifact [OF artifact_created(1) [unfolded this] artifact_created(2)]
  then show ?case by (simp add: artifacts_carried_def)
next
  case (manifest_stored actor repository number payload now fresh fresh_event d m d')
  then show ?case using submitted_artifact [OF manifest_stored] by (auto simp: artifacts_carried_def)
qed

lemma artifact_steps_keep:
  "artifact_steps env d d' \<Longrightarrow> artifacts_addressed env d \<Longrightarrow> artifacts_addressed env d' \<and> artifacts_carried d d'"
proof (induction rule: artifact_steps.induct)
  case (artifact_steps_more d d1 d2)
  then have one: "artifacts_addressed env d1" "artifacts_carried d d1" by simp_all
  with artifact_step_keeps [OF artifact_steps_more(2)] show ?case by (auto simp: artifacts_carried_def)
qed (simp add: artifacts_carried_def)

section \<open>Reviewed assertions\<close>

definition packet_tables :: "db \<Rightarrow> context_packet list \<times> packet_invalidation list \<times> assurance_run list" where
  "packet_tables d = (packets d, invalidations d, assurance_runs d)"

lemma packet_valid_cong: "packet_tables d' = packet_tables d \<Longrightarrow> packet_valid d' p = packet_valid d p"
  by (simp add: packet_tables_def packet_valid_def)

text \<open>The row a review leaves behind: the one it found, or that row in the new state one revision later.\<close>

definition reviewed_from :: "db \<Rightarrow> uuid \<Rightarrow> knowledge_assertion \<Rightarrow> bool" where
  "reviewed_from d aid a \<longleftrightarrow>
     (\<exists>a0\<in>set (assertions d). as_id a0 = aid
        \<and> (a = a0 \<or> as_review_state a \<in> set (ASSERTION_TRANSITIONS (as_review_state a0))
             \<and> a = a0\<lparr>as_review_state := as_review_state a, as_revision := as_revision a0 + 1\<rparr>))"

lemma reviewed_row:
  assumes "transition_assertion_review env actor aid target expected d = Inr (a, d')" "primary_keys assertion_table d"
  shows "review_state_value (as_review_state a) = target \<and> packet_tables d' = packet_tables d
     \<and> assertions d' = update_where (\<lambda>x. as_id x = aid) (\<lambda>_. a) (assertions d)
     \<and> reviewed_from d aid a \<and> as_org a = actor_org actor \<and> as_id a = aid"
proof -
  from assms(1) obtain a0 where
    g: "get_tenant_record_for_update assertion_table aid (actor_org actor) d = Inr a0"
    and ap: "apply_transition env assertion_machine a0 actor target ASSERTION_TRANSITIONS expected [] d = Inr (a, d')"
    by (auto simp: transition_assertion_review_def bind_res_Inr)
  have a0: "a0 \<in> set (assertions d)" "as_id a0 = aid" "as_org a0 = actor_org actor"
    using get_tenant_record_Inr [OF g [unfolded get_tenant_record_for_update_def]] by simp_all
  show ?thesis
  proof (cases "review_state_value (as_review_state a0) = target")
    case True
    then have same: "a = a0 \<and> d' = d" using ap a0(3) by (simp add: apply_transition_def assertion_machine_def)
    have "x = a0" if "x \<in> set (assertions d)" "as_id x = aid" for x
      using that a0(1,2) assms(2) by (auto simp: primary_keys_def distinct_map inj_on_def)
    then have "update_where (\<lambda>x. as_id x = aid) (\<lambda>_. a0) (assertions d) = assertions d"
      by (auto simp: update_where_def intro!: map_idI)
    then show ?thesis using a0 True same by (auto simp: reviewed_from_def)
  next
    case False
    from assertion_life.apply_returned [OF ap] False
    have m: "review_state_value (as_review_state a) = target"
      "as_review_state a \<in> set (ASSERTION_TRANSITIONS (as_review_state a0))"
      and a: "a = a0\<lparr>as_review_state := as_review_state a, as_revision := as_revision a0 + 1\<rparr>"
      and rec: "record_transition env (as_org a0) actor (mc_model_name assertion_machine) (as_id a0)
        (review_state_value (as_review_state a0)) target (Suc (as_revision a0)) [] (save_row assertion_table a d) = Inr d'"
      by auto
    have ids: "as_org a = as_org a0" "as_id a = as_id a0" by (subst a, simp)+
    have tables: "packet_tables d' = packet_tables d"
      "assertions d' = update_where (\<lambda>x. as_id x = aid) (\<lambda>_. a) (assertions d)"
      using ids a0(2)
      by (simp_all add: packet_tables_def record_transition_frame [OF rec] save_row_def assertion_table_def)
    have "reviewed_from d aid a" unfolding reviewed_from_def using a0(1,2) m(2) a by blast
    then show ?thesis using a0 m(1) ids tables by simp
  qed
qed

text \<open>A review that returned closed every packet of the repository, and no other.\<close>

lemma review_assertion_Inr:
  assumes "review_assertion env actor repository aid target expected now d = (Inr a, d')"
  obtains a0 :: knowledge_assertion and auditor :: actor_context and d1 and n where
    "authorize_review env actor repository aid now d = Inr (a0, auditor)"
    "transition_assertion_review env auditor (as_id a0) target expected d = Inr (a, d1)"
    "invalidate_context_packets env auditor (actor_org actor) repository (lit ''CORRECTION'')
       (review_details (as_id a0) target) now d1 = Inr (n, d')"
proof (cases "authorize_review env actor repository aid now d")
  case (Inl e)
  then show ?thesis using assms by (simp add: review_assertion_def)
next
  case (Inr p)
  obtain a0 auditor where p: "p = (a0, auditor)" by (cases p)
  show ?thesis
  proof (cases "transition_assertion_review env auditor (as_id a0) target expected d")
    case (Inl e)
    then show ?thesis using assms Inr p by (simp add: review_assertion_def)
  next
    case moved: (Inr q)
    obtain b d1 where q: "q = (b, d1)" by (cases q)
    from assms Inr p moved q obtain n where
      "invalidate_context_packets env auditor (actor_org actor) repository (lit ''CORRECTION'')
       (review_details (as_id a0) target) now d1 = Inr (n, d')" "b = a"
      by (auto simp: review_assertion_def split: sum.splits)
    then show ?thesis using that Inr p moved q by blast
  qed
qed

end
