(* ===== verification/CreationClaims.thy ===== *)
theory CreationClaims
  imports CreationSafety ReviewClaims
begin

text \<open>
  The properties of requests, artifacts and secured reviews: one active run per pull request, content-addressed
  artifacts, and no valid packet after a review.
\<close>

section \<open>Sample deployment\<close>

definition worked :: "assurance_run list \<Rightarrow> knowledge_assertion list \<Rightarrow> context_packet list \<Rightarrow> db" where
  "worked rs xs ps = (logged empty_governance [] [])\<lparr>assurance_runs := rs, assertions := xs, packets := ps\<rparr>"

lemma worked_may:
  "s = None \<or> s = Some 60 \<Longrightarrow> authorize_action env t (worked rs xs ps) sample_user a (Some 50) None s False
     = Inr \<lparr>dec_action = a, dec_path = sample_rules_path s\<rparr>"
  using logged_may [of s env t empty_governance "[]" "[]" a] decision_reads_access_tables [of "worked rs xs ps" "logged empty_governance [] []" env t]
  by (simp add: access_tables_def worked_def)

lemma worked_rows [simp]:
  "assurance_runs (worked rs xs ps) = rs" "assertions (worked rs xs ps) = xs" "packets (worked rs xs ps) = ps"
  "audit_events (worked rs xs ps) = []" "outbox_events (worked rs xs ps) = []"
  "repositories (worked rs xs ps) = repositories sample_access" "artifacts (worked rs xs ps) = artifacts sample_access"
  "scopes (worked rs xs ps) = scopes sample_access"
  by (simp_all add: worked_def logged_def governed_rows)

text \<open>Pull request 7 of repository 50 has a run in review; pull request 8 has one of its own.\<close>

definition sample_open_run :: "uuid \<Rightarrow> int \<Rightarrow> assurance_run" where
  "sample_open_run i n = sample_review_run\<lparr>run_id := i, run_repository_external_id := [], run_pull_request_number := n,
     run_context_packet := Some 110\<rparr>"

definition sample_head :: pystr where
  "sample_head = lit ''def5678''"

definition sample_requested :: assurance_run where
  "sample_requested = new_run (sample_user\<lparr>actor_path := sample_rules_path None\<rparr>) [] 7 sample_head 1 5 99"

definition sample_queue :: db where
  "sample_queue = worked [sample_open_run 31 7, sample_open_run 36 8] [] []"

lemma sample_queue_repository: "get_tenant_record active_repository_table 50 1 (worked rs xs ps) = Inr sample_repository"
  by (simp add: get_tenant_record_def active_repository_table_def repository_table_def
        sample_access_rows sample_repository_def)

lemma sample_request:
  "\<exists>d'. request_assurance_run sample_env sample_user 50 7 sample_head 1 5 99 sample_queue = Inr ((sample_requested, True), d')"
proof -
  let ?a = "sample_user\<lparr>actor_path := sample_rules_path None\<rparr>"
  have head: "run_well_formed sample_requested"
    by (simp add: run_well_formed_def sample_requested_def new_run_def sample_head_def is_lower_hex_def list_all_iff
        sample_user_def sample_actor_def uuid_str_def Let_def)
  have old: "filter (\<lambda>r. of_request 1 [] 7 r \<and> run_state r \<in> set ACTIVE_ASSURANCE_STATES) (assurance_runs sample_queue)
      = [sample_open_run 31 7]"
    "filter (\<lambda>r. of_request 1 [] 7 r \<and> run_head_commit r = sample_head) (assurance_runs sample_queue) = []"
    by (simp_all add: sample_queue_def of_request_def sample_open_run_def sample_review_run_def ACTIVE_ASSURANCE_STATES_def
        sample_head_def)
  note recording = record_transition_def screen_audit_key_def ALLOWED_AUDIT_METADATA_KEYS_def insert_unique_def
    audit_identity_def audit_row_def outbox_identity_def outbox_row_def
  obtain d1 where d1: "stale_older sample_env ?a sample_head 5 (sample_open_run 31 7) sample_queue = Inr d1"
    "\<forall>x\<in>set (audit_events d1). au_target x = 31" "\<forall>x\<in>set (outbox_events d1). ob_aggregate_id x = 31"
    "\<forall>x\<in>set (outbox_events d1). outbox_identity x = (1, TransitionKey (lit ''assurancerun'') 31 8 (assurance_state_value RUN_MODEL_REVIEW) (assurance_state_value RUN_STALE))"
    by (simp add: stale_older_def apply_transition_def assurance_machine_def sample_open_run_def sample_review_run_def
        recording sample_queue_def save_row_def assurance_table_def Let_def)
  then have "\<exists>d'. record_created sample_env 1 ?a (lit ''assurancerun'') 99 (assurance_state_value RUN_REQUESTED) 1
      (create_row assurance_table sample_requested d1) = Inr d'"
    by (auto simp: record_created_def record_transition_def insert_unique_def audit_identity_def audit_row_def outbox_identity_def outbox_row_def)
  then obtain d' where d': "record_created sample_env 1 ?a (lit ''assurancerun'') 99 (assurance_state_value RUN_REQUESTED) 1
      (create_row assurance_table sample_requested d1) = Inr d'" by blast
  have req: "run_org sample_requested = 1" "run_id sample_requested = 99" "run_state sample_requested = RUN_REQUESTED"
    "run_revision sample_requested = 1" by (simp_all add: sample_requested_def new_run_def)
  have "supersede_runs sample_env ?a [] 7 sample_head 1 5 99 sample_queue = Inr ((sample_requested, True), d')"
    using d1(1) d' head by (simp add: supersede_runs_def old Let_def sample_requested_def [symmetric] req del: One_nat_def)
  moreover have "authorize_action sample_env 5 sample_queue sample_user ASSURANCE_EXECUTE (Some 50) None None False
      = Inr \<lparr>dec_action = ASSURANCE_EXECUTE, dec_path = sample_rules_path None\<rparr>"
    "get_tenant_record_for_update active_repository_table 50 1 sample_queue = Inr sample_repository"
    unfolding sample_queue_def by (simp_all add: worked_may sample_queue_repository get_tenant_record_for_update_def del: One_nat_def)
  moreover have "repo_external_id sample_repository = []" by (simp add: sample_repository_def)
  ultimately show ?thesis
    by (simp add: request_assurance_run_def sample_rules_audit old first_by_def del: lit_simps One_nat_def)
qed

section \<open>Requests\<close>

text \<open>C8: A requested run is the only active run of its pull request.  When \<^verbatim>\<open>request_assurance_run\<close> returns a new
  run, it is in state REQUESTED for the head that was asked for, no earlier run was for that head, every run of the
  same tenant, repository and pull request that was still active is now stale and completed, one revision later, and
  every other run is as it was.\<close>

theorem superseded_runs_are_stale:
  assumes "request_assurance_run env actor repository number head policy_version now fresh d = Inr ((r, True), d')"
    and "distinct (map run_id (assurance_runs d))"
  shows "assurance_runs d' = map (\<lambda>x. if of_request (run_org r) (run_repository_external_id r) (run_pull_request_number r) x
            \<and> run_state x \<notin> {RUN_COMPLETED, RUN_STALE, RUN_FAILED, RUN_CANCELLED}
          then x\<lparr>run_completed_at := Some now, run_state := RUN_STALE, run_revision := run_revision x + 1\<rparr> else x)
          (assurance_runs d) @ [r]
     \<and> (\<forall>x\<in>set (assurance_runs d'). of_request (run_org r) (run_repository_external_id r) (run_pull_request_number r) x
          \<and> run_state x \<notin> {RUN_COMPLETED, RUN_STALE, RUN_FAILED, RUN_CANCELLED} \<longrightarrow> x = r)
     \<and> (\<forall>x\<in>set (assurance_runs d). of_request (run_org r) (run_repository_external_id r) (run_pull_request_number r) x
          \<longrightarrow> run_head_commit x \<noteq> head)
     \<and> run_org r = actor_org actor \<and> run_pull_request_number r = number \<and> run_head_commit r = head
     \<and> run_state r = RUN_REQUESTED"
  using assms
proof (rule requested_run)
  fix e
  assume rows: "assurance_runs d' = map (\<lambda>x. if of_request (actor_org actor) e number x
        \<and> run_state x \<in> set ACTIVE_ASSURANCE_STATES then staled now x else x) (assurance_runs d) @ [r]"
    and r: "of_request (actor_org actor) e number r" "run_state r = RUN_REQUESTED" "run_head_commit r = head"
    and other: "\<forall>x\<in>set (assurance_runs d). of_request (actor_org actor) e number x \<longrightarrow> run_head_commit x \<noteq> head"
  have key: "run_org r = actor_org actor" "run_repository_external_id r = e" "run_pull_request_number r = number"
    using r(1) by (simp_all add: of_request_def)
  note alive = active_runs [symmetric]
  have "run_state (staled now x) = RUN_STALE" for x by (simp add: staled_def)
  then have "\<forall>x\<in>set (assurance_runs d'). of_request (actor_org actor) e number x
      \<and> run_state x \<notin> {RUN_COMPLETED, RUN_STALE, RUN_FAILED, RUN_CANCELLED} \<longrightarrow> x = r"
    unfolding rows alive by (auto simp: ACTIVE_ASSURANCE_STATES_def)
  with rows [unfolded staled_def active_runs] r(2,3) other show ?thesis unfolding key by (intro conjI refl) assumption+
qed

theorem superseded_runs_are_stale_witness:
  "\<exists>d'. request_assurance_run sample_env sample_user 50 7 sample_head 1 5 99 sample_queue = Inr ((sample_requested, True), d')
     \<and> map run_state (assurance_runs d') = [RUN_STALE, RUN_MODEL_REVIEW, RUN_REQUESTED]"
proof -
  obtain d' where d': "request_assurance_run sample_env sample_user 50 7 sample_head 1 5 99 sample_queue
      = Inr ((sample_requested, True), d')" using sample_request by blast
  have dist: "distinct (map run_id (assurance_runs sample_queue))" by (simp add: sample_queue_def sample_open_run_def)
  have key: "run_org sample_requested = 1" "run_repository_external_id sample_requested = []"
    "run_pull_request_number sample_requested = 7" "run_state sample_requested = RUN_REQUESTED"
    by (simp_all add: sample_requested_def new_run_def)
  have old: "assurance_runs sample_queue = [sample_open_run 31 7, sample_open_run 36 8]" "of_request 1 [] 7 (sample_open_run 31 7)"
    "\<not> of_request 1 [] 7 (sample_open_run 36 8)" "run_state (sample_open_run i n) = RUN_MODEL_REVIEW"
    for i n
    by (simp_all add: sample_queue_def of_request_def sample_open_run_def sample_review_run_def ACTIVE_ASSURANCE_STATES_def)
  note rows = conjunct1 [OF superseded_runs_are_stale [OF d' dist]]
  have "map run_state (assurance_runs d') = [RUN_STALE, RUN_MODEL_REVIEW, RUN_REQUESTED]"
    unfolding rows key old list.map append.simps using old(2-4) by (simp add: key del: One_nat_def)
  with d' show ?thesis by (intro exI conjI)
qed

section \<open>Artifacts\<close>

text \<open>C33: An artifact is its content.  Start from artifacts that carry the hash of their payload, no two of one
  tenant and kind sharing it, and let artifacts be created and evidence manifests be submitted, in any order and by
  anyone; when \<^verbatim>\<open>create_artifact\<close> then returns, the same still holds and every earlier artifact is still there.  The
  artifact returned is stored, carries the hash of the payload it was given, belongs to the actor's tenant and to the
  scope asked for, and either it was new and is the only row added, with that payload, or nothing at all was
  written.  And the same request, repeated after any more of these operations, succeeds, returns the same artifact
  and writes nothing.\<close>

theorem artifact_identity_is_content:
  assumes "artifacts_addressed env d0" "artifact_steps env d0 d"
    and "create_artifact env actor repository scope_id kind schema_name schema_version payload rv now fresh d
      = Inr ((a, created), d')"
    and "artifact_steps env d' e"
  shows "artifacts_addressed env d' \<and> (\<exists>xs. artifacts d' = artifacts d0 @ xs)
     \<and> a \<in> set (artifacts d') \<and> content_hash env (JDict payload) = Inr (art_content_hash a)
     \<and> art_org a = actor_org actor \<and> art_kind a = kind \<and> art_access_scope a = Some scope_id
     \<and> same_metadata a schema_name schema_version rv
     \<and> (if created then artifacts d' = artifacts d @ [a] \<and> art_payload a = JDict payload else d' = d)
     \<and> create_artifact env actor repository scope_id kind schema_name schema_version payload rv now fresh' e
         = Inr ((a, False), e)"
proof -
  note start = artifact_steps_keep [OF assms(2,1)]
  note row = created_artifact [OF assms(3) conjunct1 [OF start]]
  note later = artifact_steps_keep [OF assms(4) row(1)]
  have "create_artifact env actor repository scope_id kind schema_name schema_version payload rv now fresh' e = Inr ((a, False), e)"
    using start later row(2,11) by (intro created_again [OF assms(3)]) (auto simp: artifacts_carried_def)
  moreover have "\<exists>xs. artifacts d' = artifacts d0 @ xs" using start row(8) by (auto simp: artifacts_carried_def)
  ultimately show ?thesis using row(1-10) by (cases created) simp_all
qed

definition sample_artifact_payload :: "(pystr \<times> json) list" where
  "sample_artifact_payload = [(lit ''schema_version'', JStr (lit ''1.0''))]"

theorem artifact_identity_is_content_witness:
  "\<exists>a d'. create_artifact sample_env sample_user 50 60 [] [] (lit ''1.0'') sample_artifact_payload 1 5 99 (worked [] [] [])
       = Inr ((a, True), d') \<and> artifacts d' = [a] \<and> art_access_scope a = Some 60
     \<and> create_artifact sample_env sample_user 50 60 [] [] (lit ''1.0'') sample_artifact_payload 1 5 98 d' = Inr ((a, False), d')"
proof -
  obtain h where h: "content_hash sample_env (JDict sample_artifact_payload) = Inr h"
    using content_hash_utf8 [of "JDict sample_artifact_payload" sample_env]
    by (auto simp: sample_artifact_payload_def is_surrogate_def)
  have valid: "validate_payload sample_env [] (JDict sample_artifact_payload) = Inr ()"
    by (simp add: validate_payload_def sample_artifact_payload_def sample_env_def sample_schema_def json_get_def supported_version_def json_member_def)
  let ?a = "sample_user\<lparr>actor_path := sample_rules_path (Some 60)\<rparr>"
  let ?r = "new_artifact ?a 60 [] [] (lit ''1.0'') sample_artifact_payload 1 h 99"
  have none: "find_artifact 1 [] h (worked [] [] []) = None"
    by (simp add: find_artifact_def sample_access_rows)
  have "\<exists>d'. store_artifact sample_env ?a ?r (worked [] [] []) = Inr d'"
    by (simp add: store_artifact_def insert_artifact_def new_artifact_def record_transition_def insert_unique_def
        screen_audit_key_def ALLOWED_AUDIT_METADATA_KEYS_def sample_access_rows)
  then obtain d' where st: "store_artifact sample_env ?a ?r (worked [] [] []) = Inr d'" by blast
  have version: "json_get sample_artifact_payload (lit ''schema_version'') = Some (JStr (lit ''1.0''))"
    by (simp add: sample_artifact_payload_def json_get_def)
  have op: "create_artifact sample_env sample_user 50 60 [] [] (lit ''1.0'') sample_artifact_payload 1 5 99
      (worked [] [] []) = Inr ((?r, True), d')"
    unfolding create_artifact_def Let_def
    by (simp add: worked_may sample_rules_audit valid version h none st del: One_nat_def lit_simps)
  have "artifacts_addressed sample_env (worked [] [] [])" by (simp add: artifacts_addressed_def sample_access_rows)
  note kept = artifact_identity_is_content [OF this artifact_steps_start op artifact_steps_start, of 98]
  have "artifacts d' = [?r]" "art_access_scope ?r = Some 60" using kept by (simp_all add: sample_access_rows)
  then show ?thesis using op kept by (intro exI [of _ ?r] exI [of _ d'] conjI) simp_all
qed

section \<open>Reviews\<close>

text \<open>C9: A review leaves no packet standing.  When \<^verbatim>\<open>review_assertion\<close> returns an assertion, it is the one asked
  for, of the actor's tenant and in the state asked for: the stored row as it was if it was in that state, or that
  row moved along an edge of the review graph to its next revision; the assertions stored afterwards are those from
  before with exactly this row replaced; the packets that are still valid are exactly those of other tenants and
  repositories; and if no run counted on an invalidated packet before, none does after.\<close>

theorem reviewed_assertion_leaves_no_packet:
  assumes "review_assertion env actor repository aid target expected now d = (Inr a, d')"
    and "primary_keys assertion_table d"
    and "distinct (map run_id (assurance_runs d))" "distinct (map pk_id (packets d))"
    and "runs_match_packets d" "no_run_on_invalidated_packet d"
  shows "as_id a = aid \<and> as_org a = actor_org actor \<and> review_state_value (as_review_state a) = target
     \<and> reviewed_from d aid a
     \<and> assertions d' = map (\<lambda>x. if as_id x = aid then a else x) (assertions d) \<and> a \<in> set (assertions d')
     \<and> (\<forall>p. packet_valid d' p \<longleftrightarrow> packet_valid d p \<and> \<not> (pk_org p = actor_org actor \<and> pk_repository p = repository))
     \<and> no_run_on_invalidated_packet d'"
  using assms(1)
proof (rule review_assertion_Inr)
  fix a0 :: knowledge_assertion and auditor :: actor_context and d1 n
  assume auth: "authorize_review env actor repository aid now d = Inr (a0, auditor)"
    and moved: "transition_assertion_review env auditor (as_id a0) target expected d = Inr (a, d1)"
    and closed: "invalidate_context_packets env auditor (actor_org actor) repository (lit ''CORRECTION'')
       (review_details (as_id a0) target) now d1 = Inr (n, d')"
  have who: "actor_org auditor = actor_org actor" "as_id a0 = aid"
    using auth by (auto simp: authorize_review_def bind_res_Inr audit_actor_def check_actor_def get_authorized_assertion_def
        pick_def split: if_splits option.splits dest!: first_by_Some(1))
  note row = reviewed_row [OF moved assms(2), unfolded who]
  have same: "assurance_runs d1 = assurance_runs d" "packets d1 = packets d" "invalidations d1 = invalidations d"
    using row by (simp_all add: packet_tables_def)
  have keys: "distinct (map run_id (assurance_runs d1))" "distinct (map pk_id (packets d1))"
    "runs_match_packets d1" "no_run_on_invalidated_packet d1"
    using assms(3-6) by (simp_all add: same runs_match_packets_def no_run_on_invalidated_packet_def packet_valid_def)
  have "packet_valid d1 p = packet_valid d p" for p by (simp add: packet_valid_def same)
  note packets = invalidation_closes_packets [OF closed keys(1,2), unfolded this]
  have "assertions d' = assertions d1"
    using closed keys(1) by (rule invalidate_Inr) (simp add: same_elsewhere_def)
  then have rows: "assertions d' = map (\<lambda>x. if as_id x = aid then a else x) (assertions d)"
    using row by (simp add: update_where_def)
  obtain x where "x \<in> set (assertions d)" "as_id x = aid" using row by (auto simp: reviewed_from_def)
  then have "a \<in> set (assertions d')" unfolding rows by force
  then show ?thesis using row rows packets invalidation_keeps_runs_off [OF closed keys(1,3,4)] by (intro conjI allI) blast+
qed

text \<open>The assertion under review, and the packet and the run that may rest on it.\<close>

definition sample_assertion :: knowledge_assertion where
  "sample_assertion = \<lparr>as_id = 140, as_org = 1, as_review_state = UNREVIEWED, as_access_scope = Some 60,
     as_valid_until = None, as_revision = 1, as_subject_key = [], as_predicate = [], as_created_at = 0,
     as_value = JNull, as_provenance = [JNull], as_is_inferred = False\<rparr>"

definition sample_desk :: db where
  "sample_desk = worked [(sample_open_run 31 7)\<lparr>run_repository := Some 51\<rparr>] [sample_assertion]
     [\<lparr>pk_id = 110, pk_org = 1, pk_repository = 51\<rparr>, \<lparr>pk_id = 111, pk_org = 1, pk_repository = 50\<rparr>]"

lemma worked_tables [simp]:
  "provenances (worked rs xs ps) = []" "invalidations (worked rs xs ps) = []" "watermarks (worked rs xs ps) = []"
  by (simp_all add: worked_def logged_def governed_rows)

lemma sample_desk_rows [simp]:
  "assertions sample_desk = [sample_assertion]" "provenances sample_desk = []" "invalidations sample_desk = []"
  "audit_events sample_desk = []" "outbox_events sample_desk = []" "watermarks sample_desk = []"
  "packets sample_desk = [\<lparr>pk_id = 110, pk_org = 1, pk_repository = 51\<rparr>, \<lparr>pk_id = 111, pk_org = 1, pk_repository = 50\<rparr>]"
  "assurance_runs sample_desk = [(sample_open_run 31 7)\<lparr>run_repository := Some 51\<rparr>]"
  "repositories sample_desk = repositories sample_access"
  by (simp_all add: sample_desk_def)

lemma sample_desk_authorized:
  "authorize_review sample_env sample_user 50 140 5 sample_desk
     = Inr (sample_assertion, sample_user\<lparr>actor_path := sample_rules_path (Some 60)\<rparr>)"
proof -
  have may: "authorize_action sample_env 5 sample_desk sample_user KNOWLEDGE_REVIEW (Some 50) None s False
      = Inr \<lparr>dec_action = KNOWLEDGE_REVIEW, dec_path = sample_rules_path s\<rparr>" if "s = None \<or> s = Some 60" for s
    unfolding sample_desk_def by (rule worked_may [OF that])
  have principal: "resolve_principal sample_desk sample_user = Inr sample_principal"
    by (simp add: sample_principal_def resolve_principal_def organization_active_def user_is_active_def first_by_def
        sample_desk_def worked_def logged_def governed_rows)
  have "60 \<in> sc_id ` set (filter (scope_visible sample_desk sample_user sample_principal 50) (scopes sample_desk))"
    by (simp add: scope_visible_def has_source_in_def scope_includes_principal_def sample_principal_def
        sample_desk_def worked_def logged_def governed_rows)
  then have "authorized_assertions sample_env 5 sample_desk sample_user 50 KNOWLEDGE_REVIEW = Inr [sample_assertion]"
    by (simp add: authorized_assertions_def authorized_scopes_def may visible_scope_ids_def principal assertion_supported_def)
      (simp add: sample_assertion_def)
  then have "get_authorized_assertion sample_env 5 sample_desk sample_user 50 140 KNOWLEDGE_REVIEW = Inr sample_assertion"
    by (simp add: get_authorized_assertion_def pick_def first_by_def sample_assertion_def)
  moreover have "as_access_scope sample_assertion = Some 60" by (simp add: sample_assertion_def)
  ultimately show ?thesis by (simp add: authorize_review_def may sample_rules_audit)
qed

lemma sample_desk_reviewed:
  "\<exists>a d'. review_assertion sample_env sample_user 50 140 (review_state_value DISPUTED) 1 5 sample_desk = (Inr a, d')"
proof -
  let ?a = "sample_user\<lparr>actor_path := sample_rules_path (Some 60)\<rparr>"
  have "\<exists>x d1. transition_assertion_review sample_env ?a 140 (review_state_value DISPUTED) 1 sample_desk = Inr (x, d1)
      \<and> packets d1 = packets sample_desk \<and> invalidations d1 = [] \<and> watermarks d1 = []
      \<and> assurance_runs d1 = assurance_runs sample_desk \<and> repositories d1 = repositories sample_desk"
    by (simp add: transition_assertion_review_def get_tenant_record_for_update_def get_tenant_record_def
        assertion_table_def apply_transition_def assertion_machine_def record_transition_def insert_unique_def
        update_where_def Let_def save_row_def sample_assertion_def)
  then obtain x d1 where x: "transition_assertion_review sample_env ?a 140 (review_state_value DISPUTED) 1 sample_desk = Inr (x, d1)"
    "packets d1 = packets sample_desk" "invalidations d1 = []" "watermarks d1 = []"
    "assurance_runs d1 = assurance_runs sample_desk" "repositories d1 = repositories sample_desk" by blast
  have "\<exists>n d2. invalidate_context_packets sample_env ?a 1 50 (lit ''CORRECTION'') (review_details 140 (review_state_value DISPUTED))
      5 d1 = Inr (n, d2)"
    by (simp add: invalidate_context_packets_def INVALIDATION_REASONS_def advance_watermark_def watermark_for_def
        valid_packets_def affected_runs_def x sample_access_rows update_where_def Let_def)
  then obtain n d2 where "invalidate_context_packets sample_env ?a 1 50 (lit ''CORRECTION'')
      (review_details 140 (review_state_value DISPUTED)) 5 d1 = Inr (n, d2)" by blast
  moreover have "as_id sample_assertion = 140" by (simp add: sample_assertion_def)
  ultimately show ?thesis using x(1) by (simp add: review_assertion_def sample_desk_authorized)
qed

theorem reviewed_assertion_leaves_no_packet_witness:
  "\<exists>a d'. review_assertion sample_env sample_user 50 140 (review_state_value DISPUTED) 1 5 sample_desk = (Inr a, d')
     \<and> as_review_state a = DISPUTED \<and> assertions d' = [a] \<and> packet_valid sample_desk \<lparr>pk_id = 111, pk_org = 1, pk_repository = 50\<rparr>
     \<and> \<not> packet_valid d' \<lparr>pk_id = 111, pk_org = 1, pk_repository = 50\<rparr>
     \<and> packet_valid d' \<lparr>pk_id = 110, pk_org = 1, pk_repository = 51\<rparr>"
proof -
  obtain a d' where op: "review_assertion sample_env sample_user 50 140 (review_state_value DISPUTED) 1 5 sample_desk = (Inr a, d')"
    using sample_desk_reviewed by blast
  have keys: "distinct (map run_id (assurance_runs sample_desk))" "distinct (map pk_id (packets sample_desk))"
    "runs_match_packets sample_desk" "no_run_on_invalidated_packet sample_desk"
    "packet_valid sample_desk \<lparr>pk_id = 111, pk_org = 1, pk_repository = 50\<rparr>"
    "packet_valid sample_desk \<lparr>pk_id = 110, pk_org = 1, pk_repository = 51\<rparr>"
    by (simp_all add: runs_match_packets_def no_run_on_invalidated_packet_def packet_valid_def sample_open_run_def sample_review_run_def)
  have "primary_keys assertion_table sample_desk" by (simp add: primary_keys_def)
  note after = reviewed_assertion_leaves_no_packet [OF op this keys(1-4)]
  have "as_review_state a = DISPUTED" using after by (intro review_state_value_inj) simp
  moreover have "assertions d' = [a]" using after by (simp add: sample_assertion_def)
  moreover have "\<not> packet_valid d' \<lparr>pk_id = 111, pk_org = 1, pk_repository = 50\<rparr>"
    "packet_valid d' \<lparr>pk_id = 110, pk_org = 1, pk_repository = 51\<rparr>"
    using after keys(6) by simp_all
  ultimately show ?thesis using op keys(5) by (intro exI conjI)
qed

end
