(* ===== verification/Spec2Isabelle.thy ===== *)
theory Spec2Isabelle
  imports DiffSafety JobClaims TransitionClaims AuthorizationClaims TokenClaims RateLimitClaims
    ContextInvalidationClaims ScopeClaims RetrievalClaims TenancyClaims PolicyClaims IntentClaims
    SelectionClaims EvidenceClaims ReviewClaims CreationClaims
begin

text \<open>
  A verification library for the governance services of \<^verbatim>\<open>src/anva\<close>: a Django application in which
  organizations keep governed knowledge about their repositories, agents and people act on it
  through one authorization decision, and every change of state is audited.  The model follows the
  services of \<^verbatim>\<open>src/anva/core/services\<close>, function by function; the database is the record \<open>db\<close> of
  \<open>Store\<close>, one list of rows per table.

  \<^bold>\<open>How the program is modelled.\<close>  A service function becomes a HOL function from the database (and the
  actor, the arguments, the instant \<open>now\<close> and the fresh identifiers it would draw) to a result: \<open>Inl\<close>
  the exception it raises, \<open>Inr\<close> its value with the new database.  \<^verbatim>\<open>transaction.atomic\<close> is the
  rollback that a returned \<open>Inl\<close> carries no database; a row lock needs no model because an operation
  is one step.  Interleavings of operations are step relations (\<open>job_step\<close>, \<open>transition_step\<close>,
  \<open>tenancy_step\<close> and others) and their reflexive transitive closures.  Unique constraints are checks
  at the insert (\<open>IntegrityError\<close>) where the code relies on them, and hypotheses on the tables
  (\<open>primary_keys\<close>, \<open>access_keys\<close>) where it does not.  Instants are microseconds, text is a list of
  code points, a UUID is a number with its text form, a JSON value is the datatype \<open>json\<close>.

  \<^bold>\<open>Parameters.\<close>  Code that is not in the repository is a field of the record \<open>environment\<close>:
  redaction of secrets, Unicode classification, hashes, ISO dates, the text of a float, settings and
  the \<^verbatim>\<open>jsonschema\<close> validator.  Properties that need something of them say so as a hypothesis.

  \<^bold>\<open>Theories.\<close>
  \<^item> \<open>Prelude\<close>, \<open>PyText\<close>, \<open>Regex\<close>, \<open>Json\<close>, \<open>Uuid\<close>, \<open>UuidOrder\<close>: results and loops that may raise,
    Python text and the regular expressions the code uses, JSON values, UUIDs and their order.
  \<^item> \<open>HostileInputs\<close>, \<open>DiffParser\<close>, \<open>DiffSafety\<close> (\<^verbatim>\<open>hostile_inputs.py\<close>, \<^verbatim>\<open>diffs.py\<close>): the screening and
    the line machine of the unified diff parser; every accepted path is safe, every hunk has the
    lines it declares, every refusal is a \<open>ValueError\<close>.
  \<^item> \<open>CanonicalJson\<close> (\<^verbatim>\<open>models.py\<close>, \<^verbatim>\<open>canonical_payload_bytes\<close>): the canonical text of a payload
    determines the payload; \<open>CanonicalTexts\<close> says which payloads have one.
  \<^item> \<open>SecretScreen\<close> (\<^verbatim>\<open>hostile_inputs.py\<close>, \<^verbatim>\<open>contracts/validation.py\<close>): the secret screen and the contract check.
  \<^item> \<open>GovernanceRows\<close>, \<open>ReviewRows\<close>, \<open>Store\<close>, \<open>Events\<close>, \<open>Tables\<close>, \<open>Samples\<close> (\<^verbatim>\<open>models.py\<close>, \<^verbatim>\<open>context.py\<close>,
    \<^verbatim>\<open>events.py\<close>): the rows, in two groups of tables \<open>governance\<close> and \<open>review\<close> beside the access rows, the
    actor, \<open>record_transition\<close> with its two uniquely constrained rows, and
    the locale \<open>tenant_table\<close> of what a service expects of a table, interpreted on every table.
    \<open>GovernanceTables\<close> reads validated payloads and holds the lookups the governance services share,
    \<open>VersionNumbers\<close> the locale \<open>versioned\<close> of a pointer row and its immutable versions, interpreted on work
    items and on policies, \<open>GovernanceSamples\<close> the deployment of the witnesses.
  \<^item> \<open>Jobs\<close>, \<open>JobSafety\<close>, \<open>JobClaims\<close> (\<^verbatim>\<open>jobs.py\<close>): the leased queue; bounded attempts, exclusive
    leases, final ends, liveness of claims.
  \<^item> \<open>Transitions\<close>, \<open>TransitionSafety\<close>, \<open>TransitionClaims\<close> (\<^verbatim>\<open>transitions.py\<close>): the four state machines
    over the locale \<open>lifecycle\<close> of optimistic updates and its extension \<open>ranked_lifecycle\<close>.
  \<^item> \<open>Authorization\<close>, \<open>RepositoryScopes\<close>, \<open>AuthorizationSafety\<close>, \<open>AuthorizationClaims\<close>
    (\<^verbatim>\<open>authorization.py\<close>): the single decision equals its declarative meaning \<open>may_act\<close>; the batched
    snapshot and the recheck compiled into queries, in both its modes, refine it.
  \<^item> \<open>Tokens\<close>, \<open>TokenClaims\<close> (\<^verbatim>\<open>tokens.py\<close>); \<open>RateLimits\<close>, \<open>RateLimitClaims\<close> (\<^verbatim>\<open>operations.py\<close>, the
    windows and the purges).
  \<^item> \<open>Scopes\<close>, \<open>ScopeSafety\<close>, \<open>RevocationSafety\<close>, \<open>ScopeClaims\<close> (\<^verbatim>\<open>scopes.py\<close>): derived scopes are
    intersections; a revocation reaches every dependent scope and stops what is pending on the source.
  \<^item> \<open>ContextInvalidation\<close>, \<open>ContextInvalidationSafety\<close>, \<open>ContextInvalidationClaims\<close>
    (\<^verbatim>\<open>context_packets.py\<close> 2946-3010, \<^verbatim>\<open>assurance.py\<close> 524-586): packets and the runs on them.
  \<^item> \<open>Retrieval\<close>, \<open>RetrievalClaims\<close> (\<^verbatim>\<open>retrieval.py\<close>): what a query shows lies within
    what the single decision opens, and nothing of a revoked source is shown.
  \<^item> \<open>Tenancy\<close>, \<open>TenancyClaims\<close> (\<^verbatim>\<open>tenancy.py\<close>): membership administration.
  \<^item> \<open>IntentDocuments\<close>, \<open>Intent\<close> (\<^verbatim>\<open>intent.py\<close>): the work items read from a payload with the checks beyond
    the schema; import, approval and withdrawal.  \<open>IntentSafety\<close> describes the rows of a new revision,
    \<open>IntentLife\<close> what any sequence of operations keeps (\<open>intent_step\<close>), \<open>IntentClaims\<close> the properties.
  \<^item> \<open>PolicyRules\<close>, \<open>Policies\<close>, \<open>PolicyEvaluation\<close> (\<^verbatim>\<open>policies.py\<close>): the
    path grammar, the merge of requirements into controls and the imported document; the import; the
    evaluation with its digests, and the overrides with their revocation.  \<open>PolicySafety\<close> gives the language of a
    pattern and the overrides that count, \<open>ControlMerge\<close> the declarative controls, \<open>PolicyLife\<close> what the operations keep
    (\<open>policy_step\<close>), \<open>PolicyClaims\<close> the properties.
  \<^item> \<open>Evidence\<close>, \<open>EvidenceMapping\<close> (\<^verbatim>\<open>evidence.py\<close>): the submission of a manifest, and the mapping of the
    criteria of a revision to the evidence for a commit.  \<open>EvidenceRetention\<close> (\<^verbatim>\<open>run_retention\<close> of
    \<^verbatim>\<open>operations.py\<close>, \<^verbatim>\<open>delete_evidence_blob_bytes\<close> of \<^verbatim>\<open>evidence_uploads.py\<close>): the expiry of evidence and the
    deletion of its bytes in two transactions around the object store, whose answers are a parameter.
    \<open>MappingSafety\<close> and \<open>EvidenceSafety\<close> say what these operations leave behind, one by one and in any
    sequence with those on work items (\<open>delivery_step\<close>), \<open>EvidenceClaims\<close> has the properties.
  \<^item> \<open>ReviewTables\<close>, \<open>Findings\<close>, \<open>Readiness\<close> (\<^verbatim>\<open>assurance.py\<close> 2525-2769 and \<^verbatim>\<open>decide_finding\<close>): findings across the
    runs of a pull request, their merge and decisions, and the readiness of a run.  \<open>MergeSafety\<close> describes a merge
    row by row and the life cycle of a finding (\<open>finding_step\<close>), \<open>ReviewClaims\<close> has the properties.
  \<^item> \<open>Creation\<close>, \<open>CreationSafety\<close>, \<open>CreationClaims\<close> (\<^verbatim>\<open>creation.py\<close>, \<^verbatim>\<open>artifacts.py\<close>,
    \<^verbatim>\<open>secured_operations.py\<close>): the creation of artifacts, runs, assertions and proposals and the secured wrappers;
    a requested run supersedes the older ones, artifacts are addressed by their content through every
    modelled writer (\<open>artifact_step\<close>), a review leaves no packet valid.
  \<^item> \<open>PacketSelection\<close>, \<open>PackingSafety\<close>, \<open>SelectionSafety\<close>, \<open>SelectionClaims\<close>
    (\<^verbatim>\<open>context_packets.py\<close> 97-270, 469-500, 1716-1921): the choice of the items of a context packet; the
    bit masks as sets, the invariant of the packing (every affordable cover is dominated by a state),
    and that a selection is acceptable, or refused for its budget only when nothing is acceptable.

  \<^bold>\<open>Bounds.\<close>  The propagation of a revocation carries the code's own loop bound
  \<open>MAX_DERIVED_SCOPE_DEPTH\<close> (32) as its argument; \<open>propagation_is_complete_or_refused\<close> says exactly when
  it is enough.  No other function runs on fuel: all loops are structural or folds.

  \<^bold>\<open>What the model showed.\<close>  \<open>disabled_source_splits_the_decisions\<close>: the single decision opens a scope whose
  source is disabled, where the batched one does not.  \<open>resolved_finding_stays_resolved\<close>: a resolved finding is
  not reopened when a new diff shows it again, where the product requirements ask that it is.

  \<^bold>\<open>Not modelled, and why.\<close>  How an assurance run is prepared, claimed by an evaluator and reported, search and
  ranking, the storage of packets, the canvas and graph read models, ingestion, the upload of evidence and the
  inspection of archives, the decommissioning of a tenant and bootstrap: services above the modelled core.
  Two writers of artifacts belong to them, the report of an evaluator and the storage of a packet.
  HTTP views, the MCP and GitHub adapters, command line, release tooling, skills and the
  acceptance harness are I/O and glue over the services; migrations and contract catalogues are
  generated or declarative data.
\<close>

end
